(* ===== verification/Prelude.thy ===== *)
theory Prelude
  imports Main "HOL-Library.Word"
begin

text \<open>
  What the component theories share: the C integer types of \<^verbatim>\<open>src/lib/include/lib_type.h\<close>
  as \<^typ>\<open>int\<close> with the wrap-around of a store into an unsigned object written out, the
  truncating division of C, checked array reads, and the generic lemmas about them.
\<close>

named_theorems wrap_defs "definitions of the stores into C integer types"

section \<open>C integer types\<close>

text \<open>
  A value of type \<open>u8_t\<close>, \<open>u16_t\<close> or \<open>u32_t\<close> is an \<^typ>\<open>int\<close> in the range of the type. An
  arithmetic expression is evaluated in \<^typ>\<open>int\<close> (C promotes the operands), and a store
  into an object of the type reduces it modulo $2^w$.
\<close>

definition u8 :: "int \<Rightarrow> int" where [wrap_defs]: "u8 x = x mod 256"
definition u16 :: "int \<Rightarrow> int" where [wrap_defs]: "u16 x = x mod 65536"
definition u32 :: "int \<Rightarrow> int" where [wrap_defs]: "u32 x = x mod 4294967296"

text \<open>A store into a signed 32 bit object (two's complement).\<close>

definition s32 :: "int \<Rightarrow> int" where
  [wrap_defs]: "s32 x = (x + 2147483648) mod 4294967296 - 2147483648"

lemma u8_id [simp]: "0 \<le> x \<Longrightarrow> x < 256 \<Longrightarrow> u8 x = x"
  by (simp add: u8_def)

lemma u16_id [simp]: "0 \<le> x \<Longrightarrow> x < 65536 \<Longrightarrow> u16 x = x"
  by (simp add: u16_def)

lemma u32_id [simp]: "0 \<le> x \<Longrightarrow> x < 4294967296 \<Longrightarrow> u32 x = x"
  by (simp add: u32_def)

text \<open>A store into a signed 8 bit object.\<close>

definition s8 :: "int \<Rightarrow> int" where
  [wrap_defs]: "s8 x = (x + 128) mod 256 - 128"

lemma s8_id [simp]: "- 128 \<le> x \<Longrightarrow> x < 128 \<Longrightarrow> s8 x = x"
  by (simp add: s8_def)

lemma s32_id [simp]: "- 2147483648 \<le> x \<Longrightarrow> x < 2147483648 \<Longrightarrow> s32 x = x"
  by (simp add: s32_def)

lemma u8_bounds [simp]: "0 \<le> u8 x" "u8 x < 256"
  by (simp_all add: u8_def)

lemma u16_bounds [simp]: "0 \<le> u16 x" "u16 x < 65536"
  by (simp_all add: u16_def)

lemma u32_bounds [simp]: "0 \<le> u32 x" "u32 x < 4294967296"
  by (simp_all add: u32_def)

lemma u32_add_u32 [simp]: "u32 (u32 a + b) = u32 (a + b)" "u32 (a + u32 b) = u32 (a + b)"
  by (simp_all add: u32_def mod_simps)

lemma u32_add_diff [simp]: "u32 (u32 a + b - c) = u32 (a + b - c)"
  by (metis add_diff_eq u32_add_u32(1))

lemma u32_mult_u32 [simp]: "u32 (u32 a * b) = u32 (a * b)" "u32 (a * u32 b) = u32 (a * b)"
  by (simp_all add: u32_def mod_simps)

lemma u16_add_u16 [simp]: "u16 (u16 a + b) = u16 (a + b)" "u16 (a + u16 b) = u16 (a + b)"
  by (simp_all add: u16_def mod_simps)

text \<open>Memory is a list of bytes.\<close>

type_synonym bytes = "8 word list"

section \<open>Division of signed operands\<close>

text \<open>C's \<open>/\<close> and \<open>%\<close> truncate towards zero.\<close>

definition cdiv :: "int \<Rightarrow> int \<Rightarrow> int" where
  "cdiv a b = (if a < 0 then - ((- a) div b) else a div b)"

definition cmod :: "int \<Rightarrow> int \<Rightarrow> int" where
  "cmod a b = a - b * cdiv a b"

lemma cdiv_nonneg [simp]: "0 \<le> a \<Longrightarrow> cdiv a b = a div b"
  by (simp add: cdiv_def)

lemma cmod_nonneg [simp]: "0 \<le> a \<Longrightarrow> cmod a b = a mod b"
  by (simp add: cmod_def minus_mult_div_eq_mod)

lemma div_eqI: "k * q \<le> a \<Longrightarrow> a < k * (q + 1) \<Longrightarrow> 0 < k \<Longrightarrow> a div k = (q :: int)"
  by (rule int_div_pos_eq[where r = "a - k * q"]) (auto simp: algebra_simps)

lemma mod_once: "k \<le> x \<Longrightarrow> x < 2 * k \<Longrightarrow> x mod k = x - (k :: int)"
  by (metis add.commute add_less_cancel_right diff_add_cancel diff_ge_0_iff_ge minus_mod_self2
      mod_pos_pos_trivial mult_2)

section \<open>Steps that may fail\<close>

text \<open>A step gives whether it succeeded and the state; the next one is only done after a success.\<close>

definition pair_then :: "bool \<times> 's \<Rightarrow> ('s \<Rightarrow> bool \<times> 's) \<Rightarrow> bool \<times> 's" where
  "pair_then c k = (case c of (ok, s) \<Rightarrow> if ok then k s else (False, s))"

lemma pair_then_simps [simp]: "pair_then (True, s) k = k s" "pair_then (False, s) k = (False, s)"
  by (simp_all add: pair_then_def)

section \<open>Checked array reads\<close>

text \<open>A read of a C array: outside of the array there is no value.\<close>

definition arr :: "'a list \<Rightarrow> int \<Rightarrow> 'a option" where
  "arr xs i = (if 0 \<le> i \<and> i < int (length xs) then Some (xs ! nat i) else None)"

lemma arr_Some_iff: "(\<exists>x. arr xs i = Some x) \<longleftrightarrow> 0 \<le> i \<and> i < int (length xs)"
  by (simp add: arr_def)

lemma arr_None_iff [simp]: "arr xs i = None \<longleftrightarrow> \<not> (0 \<le> i \<and> i < int (length xs))"
  by (simp add: arr_def)

lemma arr_in_set: "arr xs i = Some x \<Longrightarrow> x \<in> set xs"
  by (auto simp: arr_def split: if_splits)

end
