(* ===== verification/LibTime.thy ===== *)
theory LibTime
  imports Prelude
begin

text \<open>
  The calendar arithmetic of \<^verbatim>\<open>src/lib/lib_time.c\<close>: leap years, the conversions between
  dates, days of the year and seconds, the checks of the textual forms of a date and a time,
  the carries and borrows that add and subtract hours and seconds in the year-month-day and
  the year-day form, GPS week and second, and the Modified Julian Day.
\<close>

section \<open>Data\<close>

text \<open>\<open>struct timeinfo\<close>; every field is in the range of its C type.\<close>

record timeinfo =
  ti_year :: int
  ti_days :: int
  ti_month :: int
  ti_day :: int
  ti_hour :: int
  ti_minute :: int
  ti_second :: int
  ti_MiliSecond :: int
  ti_MicroSecond :: int

text \<open>The table \<open>mday\<close> of the month lengths: its row 0 and its row 1.\<close>

definition mday :: "bool \<Rightarrow> int list" where
  "mday leap = (if leap then [31, 29, 31, 30, 31, 30, 31, 31, 30, 31, 30, 31]
                else [31, 28, 31, 30, 31, 30, 31, 31, 30, 31, 30, 31])"

section \<open>Years, dates and seconds\<close>

definition IsLeapYear :: "int \<Rightarrow> bool" where
  "IsLeapYear year \<longleftrightarrow> (year mod 4 = 0 \<and> year mod 100 \<noteq> 0) \<or> year mod 400 = 0"

definition YearToDay :: "int \<Rightarrow> int" where
  "YearToDay year = (if IsLeapYear year then 366 else 365)"

text \<open>The loop over the years; the counter is below \<open>endyear\<close>, so it does not wrap.\<close>

definition AllYearSecond :: "int \<Rightarrow> int \<Rightarrow> int" where
  "AllYearSecond startyear endyear =
     u32 (fold (\<lambda>i acc. u32 (acc + YearToDay i)) [startyear..endyear - 1] 0 * 86400)"

text \<open>
  The loop \<open>for(i = 1; i < month; i++) alldays += mday[..][i-1]\<close>: a month above 13 reads
  behind the table, which has no value.
\<close>

fun month_loop :: "int list \<Rightarrow> nat \<Rightarrow> int \<Rightarrow> int option" where
  "month_loop ms 0 alldays = Some alldays"
| "month_loop [] (Suc n) alldays = None"
| "month_loop (m # ms) (Suc n) alldays = month_loop ms n (u16 (alldays + m))"

definition DateToDays :: "int \<Rightarrow> int \<Rightarrow> int \<Rightarrow> int option" where
  "DateToDays year month day =
     (case month_loop (mday (IsLeapYear year)) (nat (month - 1)) 0 of
        None \<Rightarrow> None
      | Some alldays \<Rightarrow> Some (u16 (alldays + day)))"

definition DateToSecond :: "int \<Rightarrow> timeinfo \<Rightarrow> int option" where
  "DateToSecond startyear t =
     (case month_loop (mday (IsLeapYear (ti_year t))) (nat (ti_month t - 1)) 0 of
        None \<Rightarrow> None
      | Some n \<Rightarrow>
          let alldays = u16 (n + ti_day t) in
          Some (u32 (AllYearSecond startyear (ti_year t) + (alldays - 1) * 24 * 60 * 60
                     + ti_hour t * 60 * 60 + ti_minute t * 60 + ti_second t)))"

fun day_loop :: "int list \<Rightarrow> int \<Rightarrow> int \<Rightarrow> (int \<times> int) option" where
  "day_loop [] i day = None"
| "day_loop (m # ms) i day =
     (if day > m then day_loop ms (i + 1) (day - m) else Some (i + 1, day))"

definition DayToDate :: "int \<Rightarrow> int \<Rightarrow> (int \<times> int) option" where
  "DayToDate year day = day_loop (mday (IsLeapYear year)) 0 day"


section \<open>Textual forms\<close>

definition digit_in :: "char \<Rightarrow> int \<Rightarrow> int \<Rightarrow> bool" where
  "digit_in c lo hi \<longleftrightarrow> lo + 48 \<le> int (of_char c) \<and> int (of_char c) \<le> hi + 48"

definition dig :: "char \<Rightarrow> int" where
  "dig c = int (of_char c) - 48"

text \<open>\<open>YYYY-MM-DD\<close>: the value of the year is at most 9999, of the month 19, of the day 39.\<close>

definition date_validity :: "string \<Rightarrow> bool" where
  "date_validity d =
     (if length d = 10 then
        if d ! 4 = CHR ''-'' \<and> d ! 7 = CHR ''-'' then
          if \<not> list_all (\<lambda>i. digit_in (d ! i) 0 9) [0..<4] then False
          else if digit_in (d ! 5) 0 1 \<and> digit_in (d ! 6) 0 9
               \<and> digit_in (d ! 8) 0 3 \<and> digit_in (d ! 9) 0 9 then
            let year = u16 (dig (d ! 0) * 1000 + dig (d ! 1) * 100 + dig (d ! 2) * 10 + dig (d ! 3));
                month = u8 (dig (d ! 5) * 10 + dig (d ! 6));
                day = u8 (dig (d ! 8) * 10 + dig (d ! 9))
            in if month < 1 \<or> month > 12 then False
               else if IsLeapYear year then
                 if day < 1 \<or> day > mday True ! nat (month - 1) then False else True
               else if day < 1 \<or> day > mday False ! nat (month - 1) then False else True
          else False
        else False
      else False)"

definition time_validity :: "string \<Rightarrow> bool" where
  "time_validity t =
     (if length t = 8 then
        if t ! 2 = CHR '':'' \<and> t ! 5 = CHR '':'' then
          if digit_in (t ! 0) 0 2 \<and> digit_in (t ! 1) 0 9 \<and> digit_in (t ! 3) 0 5
             \<and> digit_in (t ! 4) 0 9 \<and> digit_in (t ! 6) 0 5 \<and> digit_in (t ! 7) 0 9 then
            let hour = u8 (dig (t ! 0) * 10 + dig (t ! 1));
                minute = u8 (dig (t ! 3) * 10 + dig (t ! 4));
                second = u8 (dig (t ! 6) * 10 + dig (t ! 7))
            in if hour < 0 \<or> hour > 23 then False
               else if minute < 0 \<or> minute > 59 then False
               else if second < 0 \<or> second > 59 then False else True
          else False
        else False
      else False)"

section \<open>The system clock\<close>

text \<open>
  \<open>gmtime_r\<close>, \<open>localtime_r\<close> and \<open>settimeofday\<close> belong to the system: the first two are a
  parameter that gives the broken-down time (or none), the last one a parameter that says
  whether the kernel took the value.
\<close>

record tm =
  tm_year :: int
  tm_mon :: int
  tm_mday :: int
  tm_hour :: int
  tm_min :: int
  tm_sec :: int

definition store_tm :: "tm \<Rightarrow> timeinfo \<Rightarrow> timeinfo" where
  "store_tm v ti = ti\<lparr>ti_year := u16 (tm_year v + 1900), ti_month := u8 (tm_mon v + 1),
     ti_day := u8 (tm_mday v), ti_hour := u8 (tm_hour v), ti_minute := u8 (tm_min v),
     ti_second := u8 (tm_sec v)\<rparr>"

definition GetUtcSysTime :: "tm option \<Rightarrow> timeinfo \<Rightarrow> bool \<times> timeinfo" where
  "GetUtcSysTime gmtime ti =
     (case gmtime of None \<Rightarrow> (False, ti) | Some v \<Rightarrow> (True, store_tm v ti))"

definition GetSysTime :: "tm option \<Rightarrow> timeinfo \<Rightarrow> bool \<times> timeinfo" where
  "GetSysTime localtime ti =
     (case localtime of None \<Rightarrow> (False, ti) | Some v \<Rightarrow> (True, store_tm v ti))"

definition SetSysTime :: "(int \<times> int \<Rightarrow> int) \<Rightarrow> timeinfo \<Rightarrow> bool option" where
  "SetSysTime settimeofday ti =
     (case DateToSecond 1970 ti of None \<Rightarrow> None
      | Some tmp \<Rightarrow> Some (if settimeofday (tmp, 0) = 0 then True else False))"

section \<open>Adding and subtracting hours and seconds, year-month-day form\<close>

text \<open>The carry of the day into the month and the year that the two additions contain.\<close>

definition carry_ymd :: "timeinfo \<Rightarrow> timeinfo" where
  "carry_ymd ct =
     (if ti_day ct = 29 \<and> ti_month ct = 2 \<and> \<not> IsLeapYear (ti_year ct) then
        ct\<lparr>ti_day := 1, ti_month := u8 (ti_month ct + 1)\<rparr>
      else if ti_day ct = 30 \<and> ti_month ct = 2 \<and> IsLeapYear (ti_year ct) then
        ct\<lparr>ti_day := 1, ti_month := u8 (ti_month ct + 1)\<rparr>
      else if ti_day ct = 31 then
        if ti_month ct = 4 \<or> ti_month ct = 6 \<or> ti_month ct = 9 \<or> ti_month ct = 11 then
          ct\<lparr>ti_day := 1, ti_month := u8 (ti_month ct + 1)\<rparr>
        else ct
      else if ti_day ct = 32 then
        if ti_month ct = 1 \<or> ti_month ct = 3 \<or> ti_month ct = 5 \<or> ti_month ct = 7
           \<or> ti_month ct = 8 \<or> ti_month ct = 10 then
          ct\<lparr>ti_day := 1, ti_month := u8 (ti_month ct + 1)\<rparr>
        else if ti_month ct = 12 then
          ct\<lparr>ti_day := 1, ti_month := 1, ti_year := u16 (ti_year ct + 1)\<rparr>
        else ct
      else ct)"

text \<open>The carry of the hour into the day.\<close>

definition carry_hour_ymd :: "timeinfo \<Rightarrow> timeinfo" where
  "carry_hour_ymd ct =
     (if ti_hour ct > 23 then
        ct\<lparr>ti_hour := ti_hour ct mod 24, ti_day := u8 (ti_day ct + 1)\<rparr>
      else ct)"

definition AddHourYmd :: "timeinfo \<Rightarrow> int \<Rightarrow> timeinfo" where
  "AddHourYmd ct add_h =
     (if add_h > 0 \<and> add_h < 24 then
        carry_ymd (carry_hour_ymd (ct\<lparr>ti_hour := u8 (ti_hour ct + add_h)\<rparr>))
      else ct)"

text \<open>The step to the previous day that the two subtractions contain.\<close>

definition borrow_ymd :: "timeinfo \<Rightarrow> timeinfo" where
  "borrow_ymd ct =
     (if ti_day ct > 1 then ct\<lparr>ti_day := u8 (ti_day ct - 1)\<rparr>
      else if ti_month ct = 1 \<or> ti_month ct = 2 \<or> ti_month ct = 4 \<or> ti_month ct = 6
              \<or> ti_month ct = 8 \<or> ti_month ct = 9 \<or> ti_month ct = 11 then
        let ct' = ct\<lparr>ti_day := 31, ti_month := u8 (ti_month ct - 1)\<rparr>
        in if ti_month ct' = 0 then ct'\<lparr>ti_month := 12, ti_year := u16 (ti_year ct' - 1)\<rparr> else ct'
      else if ti_month ct = 5 \<or> ti_month ct = 7 \<or> ti_month ct = 10 \<or> ti_month ct = 12 then
        ct\<lparr>ti_day := 30, ti_month := u8 (ti_month ct - 1)\<rparr>
      else if ti_month ct = 3 then
        if IsLeapYear (ti_year ct) then ct\<lparr>ti_day := 29, ti_month := u8 (ti_month ct - 1)\<rparr>
        else ct\<lparr>ti_day := 28, ti_month := u8 (ti_month ct - 1)\<rparr>
      else ct)"

definition SubHourYmd :: "timeinfo \<Rightarrow> int \<Rightarrow> timeinfo" where
  "SubHourYmd ct sub_h =
     (if sub_h > 0 \<and> sub_h < 24 then
        if ti_hour ct \<ge> sub_h then ct\<lparr>ti_hour := u8 (ti_hour ct - sub_h)\<rparr>
        else borrow_ymd (ct\<lparr>ti_hour := u8 (u8 (ti_hour ct + 24) - sub_h)\<rparr>)
      else ct)"

definition AddSecondYmd :: "timeinfo \<Rightarrow> int \<Rightarrow> timeinfo" where
  "AddSecondYmd ct add_s =
     (if add_s > 0 \<and> add_s < 100 then
        let c1 = ct\<lparr>ti_second := u8 (ti_second ct + add_s)\<rparr>
        in if ti_second c1 > 59 then
             let c2 = c1\<lparr>ti_minute := u8 (ti_minute c1 + ti_second c1 div 60),
                         ti_second := ti_second c1 mod 60\<rparr>
             in if ti_minute c2 > 59 then
                  carry_ymd (carry_hour_ymd
                    (c2\<lparr>ti_minute := ti_minute c2 mod 60, ti_hour := u8 (ti_hour c2 + 1)\<rparr>))
                else c2
           else c1
      else ct)"

text \<open>The borrow of one hour, and of a day when the hour is 0.\<close>

definition borrow_hour_ymd :: "timeinfo \<Rightarrow> timeinfo" where
  "borrow_hour_ymd ct =
     (if ti_hour ct \<ge> 1 then ct\<lparr>ti_hour := u8 (ti_hour ct - 1)\<rparr>
      else borrow_ymd (ct\<lparr>ti_hour := u8 (u8 (ti_hour ct + 24) - 1)\<rparr>))"

definition SubSecondYmd :: "timeinfo \<Rightarrow> int \<Rightarrow> timeinfo" where
  "SubSecondYmd ct sub_s =
     (if sub_s > 0 \<and> sub_s < 100 then
        let min = sub_s div 60; sec = sub_s mod 60;
            c1 = (if sec \<le> ti_second ct then ct\<lparr>ti_second := u8 (ti_second ct - sec)\<rparr>
                  else
                    let c = ct\<lparr>ti_second := u8 (u8 (ti_second ct + 60) - sec)\<rparr>
                    in if ti_minute c \<ge> 1 then c\<lparr>ti_minute := u8 (ti_minute c - 1)\<rparr>
                       else borrow_hour_ymd (c\<lparr>ti_minute := u8 (u8 (ti_minute c + 60) - 1)\<rparr>))
        in if min > 0 then
             if ti_minute c1 \<ge> min then c1\<lparr>ti_minute := u8 (ti_minute c1 - min)\<rparr>
             else borrow_hour_ymd (c1\<lparr>ti_minute := u8 (u8 (ti_minute c1 + 60) - min)\<rparr>)
           else c1
      else ct)"

section \<open>Adding and subtracting hours and seconds, year-day form\<close>

text \<open>The step to the next day and the step to the previous day.\<close>

definition next_day_yd :: "timeinfo \<Rightarrow> timeinfo" where
  "next_day_yd ct =
     (let c = ct\<lparr>ti_days := u16 (ti_days ct + 1)\<rparr>
      in if IsLeapYear (ti_year c) then
           if ti_days c > 366 then c\<lparr>ti_days := 1, ti_year := u16 (ti_year c + 1)\<rparr> else c
         else if ti_days c > 365 then c\<lparr>ti_days := 1, ti_year := u16 (ti_year c + 1)\<rparr> else c)"

definition prev_day_yd :: "timeinfo \<Rightarrow> timeinfo" where
  "prev_day_yd ct =
     (if ti_days ct > 1 then ct\<lparr>ti_days := u16 (ti_days ct - 1)\<rparr>
      else if IsLeapYear (u16 (ti_year ct - 1)) then
        ct\<lparr>ti_days := 366, ti_year := u16 (ti_year ct - 1)\<rparr>
      else ct\<lparr>ti_days := 365, ti_year := u16 (ti_year ct - 1)\<rparr>)"

definition carry_hour_yd :: "timeinfo \<Rightarrow> timeinfo" where
  "carry_hour_yd ct =
     (if ti_hour ct > 23 then next_day_yd (ct\<lparr>ti_hour := ti_hour ct mod 24\<rparr>) else ct)"

definition AddHourYd :: "timeinfo \<Rightarrow> int \<Rightarrow> timeinfo" where
  "AddHourYd ct add_h =
     (if add_h > 0 \<and> add_h < 24 then
        carry_hour_yd (ct\<lparr>ti_hour := u8 (ti_hour ct + add_h)\<rparr>)
      else ct)"

definition SubHourYd :: "timeinfo \<Rightarrow> int \<Rightarrow> timeinfo" where
  "SubHourYd ct sub_h =
     (if sub_h > 0 \<and> sub_h < 24 then
        if ti_hour ct \<ge> sub_h then ct\<lparr>ti_hour := u8 (ti_hour ct - sub_h)\<rparr>
        else prev_day_yd (ct\<lparr>ti_hour := u8 (u8 (ti_hour ct + 24) - sub_h)\<rparr>)
      else ct)"

definition AddSecondYd :: "timeinfo \<Rightarrow> int \<Rightarrow> timeinfo" where
  "AddSecondYd ct add_s =
     (if add_s > 0 \<and> add_s < 100 then
        let c1 = ct\<lparr>ti_second := u8 (ti_second ct + add_s)\<rparr>
        in if ti_second c1 > 59 then
             let c2 = c1\<lparr>ti_minute := u8 (ti_minute c1 + ti_second c1 div 60),
                         ti_second := ti_second c1 mod 60\<rparr>
             in if ti_minute c2 > 59 then
                  carry_hour_yd
                    (c2\<lparr>ti_minute := ti_minute c2 mod 60, ti_hour := u8 (ti_hour c2 + 1)\<rparr>)
                else c2
           else c1
      else ct)"

definition borrow_hour_yd :: "timeinfo \<Rightarrow> timeinfo" where
  "borrow_hour_yd ct =
     (if ti_hour ct \<ge> 1 then ct\<lparr>ti_hour := u8 (ti_hour ct - 1)\<rparr>
      else prev_day_yd (ct\<lparr>ti_hour := u8 (u8 (ti_hour ct + 24) - 1)\<rparr>))"

definition SubSecondYd :: "timeinfo \<Rightarrow> int \<Rightarrow> timeinfo" where
  "SubSecondYd ct sub_s =
     (if sub_s > 0 \<and> sub_s < 100 then
        let min = sub_s div 60; sec = sub_s mod 60;
            c1 = (if sec \<le> ti_second ct then ct\<lparr>ti_second := u8 (ti_second ct - sec)\<rparr>
                  else
                    let c = ct\<lparr>ti_second := u8 (u8 (ti_second ct + 60) - sec)\<rparr>
                    in if ti_minute c \<ge> 1 then c\<lparr>ti_minute := u8 (ti_minute c - 1)\<rparr>
                       else borrow_hour_yd (c\<lparr>ti_minute := u8 (u8 (ti_minute c + 60) - 1)\<rparr>))
        in if min > 0 then
             if ti_minute c1 \<ge> min then c1\<lparr>ti_minute := u8 (ti_minute c1 - min)\<rparr>
             else borrow_hour_yd (c1\<lparr>ti_minute := u8 (u8 (ti_minute c1 + 60) - min)\<rparr>)
           else c1
      else ct)"

section \<open>GPS time\<close>

text \<open>\<open>GPSTime\<close> without the fraction of a second \<open>gps_ds\<close>, which the code sets to 0.\<close>

record GPSTime =
  gps_week :: int
  gps_sow :: int

text \<open>The loop \<open>for (yr=1981; yr<=(in_yr -1); yr++)\<close>, where \<open>in_yr\<close> is at least 1981.\<close>

definition CommonTimeToGPSTime :: "timeinfo \<Rightarrow> GPSTime option" where
  "CommonTimeToGPSTime ct =
     (case DateToDays (ti_year ct) (ti_month ct) (ti_day ct) of
        None \<Rightarrow> None
      | Some dayofyear \<Rightarrow>
          let in_yr = (if ti_year ct < 1981 then 1981 else ti_year ct);
              ttlday = fold (\<lambda>yr acc. let acc' = u32 (acc + 365)
                                     in if IsLeapYear yr then u32 (acc' + 1) else acc')
                         [1981..in_yr - 1] 360;
              total = u32 (ttlday + dayofyear);
              dayofweek = u8 (total mod 7)
          in Some \<lparr>gps_week = total div 7,
                   gps_sow = u32 (ti_hour ct * 3600 + ti_minute ct * 60 + ti_second ct
                                  + dayofweek * 86400)\<rparr>)"

section \<open>Modified Julian Day\<close>

text \<open>These work on \<open>long\<close>; the dates in use are far from its bounds.\<close>

definition DateToMjd :: "int \<Rightarrow> int \<Rightarrow> int \<Rightarrow> int" where
  "DateToMjd Year Month Day =
     367 * Year
     - cdiv (7 * (Year + cdiv (Month + 9) 12)) 4
     - cdiv (3 * (cdiv (Year + cdiv (Month - 9) 7) 100 + 1)) 4
     + cdiv (275 * Month) 9
     + Day
     + 1721028
     - 2400000"

definition MjdToDate :: "int \<Rightarrow> int \<times> int \<times> int" where
  "MjdToDate Mjd =
     (let J = Mjd + 2400001 + 68569;
          C = cdiv (4 * J) 146097;
          J = J - cdiv (146097 * C + 3) 4;
          Y = cdiv (4000 * (J + 1)) 1461001;
          J = J - cdiv (1461 * Y) 4 + 31;
          M = cdiv (80 * J) 2447;
          Day = J - cdiv (2447 * M) 80;
          J = cdiv M 11;
          Month = M + 2 - (12 * J);
          Year = 100 * (C - 49) + Y + J
      in (Year, Month, Day))"

definition GpsToMjd :: "int \<Rightarrow> int \<Rightarrow> int \<Rightarrow> int" where
  "GpsToMjd GpsCycle GpsWeek GpsSeconds =
     (let GpsDays = (GpsCycle * 1024 + GpsWeek) * 7 + cdiv GpsSeconds 86400
      in DateToMjd 1980 1 6 + GpsDays)"

end
