(* ===== verification/LibTimeSpec.thy ===== *)
theory LibTimeSpec
  imports LibTime
begin

text \<open>
  What the calendar code of \<^verbatim>\<open>LibTime\<close> promises: an absolute day number and an absolute
  second, the well-formed times of both forms, and the lemmas that the steps of the code move
  the absolute value by the amount they should.
\<close>

section \<open>Absolute days\<close>

text \<open>Days before the first of January of a year, and the length of a month.\<close>

definition year_start :: "int \<Rightarrow> int" where
  "year_start y = 365 * (y - 1) + (y - 1) div 4 - (y - 1) div 100 + (y - 1) div 400"

definition month_len :: "int \<Rightarrow> int \<Rightarrow> int" where
  "month_len y m = mday (IsLeapYear y) ! nat (m - 1)"

definition month_start :: "int \<Rightarrow> int \<Rightarrow> int" where
  "month_start y m = sum_list (take (nat (m - 1)) (mday (IsLeapYear y)))"

definition day_number :: "int \<Rightarrow> int \<Rightarrow> int \<Rightarrow> int" where
  "day_number y m d = year_start y + month_start y m + d"

definition second_number :: "int \<Rightarrow> timeinfo \<Rightarrow> int" where
  "second_number dn t = ((dn * 24 + ti_hour t) * 60 + ti_minute t) * 60 + ti_second t"

definition abs_ymd :: "timeinfo \<Rightarrow> int" where
  "abs_ymd t = second_number (day_number (ti_year t) (ti_month t) (ti_day t)) t"

definition abs_yd :: "timeinfo \<Rightarrow> int" where
  "abs_yd t = second_number (year_start (ti_year t) + ti_days t) t"

definition valid_date :: "int \<Rightarrow> int \<Rightarrow> int \<Rightarrow> bool" where
  "valid_date y m d \<longleftrightarrow> 1 \<le> m \<and> m \<le> 12 \<and> 1 \<le> d \<and> d \<le> month_len y m"

definition valid_hms :: "timeinfo \<Rightarrow> bool" where
  "valid_hms t \<longleftrightarrow> 0 \<le> ti_hour t \<and> ti_hour t < 24 \<and> 0 \<le> ti_minute t \<and> ti_minute t < 60
     \<and> 0 \<le> ti_second t \<and> ti_second t < 60"

definition valid_year :: "timeinfo \<Rightarrow> bool" where
  "valid_year t \<longleftrightarrow> 1 \<le> ti_year t \<and> ti_year t \<le> 65535"

definition valid_ymd :: "timeinfo \<Rightarrow> bool" where
  "valid_ymd t \<longleftrightarrow> valid_year t \<and> valid_date (ti_year t) (ti_month t) (ti_day t) \<and> valid_hms t"

definition valid_yd :: "timeinfo \<Rightarrow> bool" where
  "valid_yd t \<longleftrightarrow> valid_year t \<and> 1 \<le> ti_days t \<and> ti_days t \<le> YearToDay (ti_year t) \<and> valid_hms t"

text \<open>The representable seconds: from the first of the year 1 to the last of the year 65535.\<close>

definition first_second :: int where "first_second = 86400"
definition end_second :: int where "end_second = (year_start 65536 + 1) * 86400"

definition representable :: "int \<Rightarrow> bool" where
  "representable s \<longleftrightarrow> first_second \<le> s \<and> s < end_second"

subsection \<open>Years\<close>

lemma div_step:
  fixes y k :: int
  assumes "0 < k"
  shows "y div k = (y - 1) div k + (if y mod k = 0 then 1 else 0)"
proof (cases "y mod k = 0")
  case True
  then obtain q where q: "y = k * q" by auto
  have "y - 1 = (k - 1) + k * (q - 1)" using q by (simp add: algebra_simps)
  then have "(y - 1) div k = (q - 1) + (k - 1) div k"
    using assms by (simp only: div_mult_self2)
  then show ?thesis using q assms by simp
next
  case False
  then have r: "0 \<le> y mod k - 1" "y mod k - 1 < k"
    using assms pos_mod_bound[of k y] pos_mod_sign[of k y] by linarith+
  have "y - 1 = (y mod k - 1) + k * (y div k)" by simp
  then have "(y - 1) div k = y div k + (y mod k - 1) div k"
    using assms by (metis div_mult_self2 less_irrefl)
  with r False show ?thesis by simp
qed

lemma leap_sum:
  assumes "A = a + (if p then 1 else 0)" "B = b + (if q then 1 else 0)"
    "C = c + (if r then 1 else (0 :: int))" "r \<Longrightarrow> q" "q \<Longrightarrow> p"
  shows "365 * y + A - B + C = 365 * (y - 1) + a - b + c + (if p \<and> \<not> q \<or> r then 366 else 365)"
  using assms by (cases p; cases q; cases r) simp_all

lemma year_start_step: "year_start (y + 1) = year_start y + YearToDay y"
proof -
  have "y mod 400 = 0 \<Longrightarrow> y mod 100 = 0" "y mod 100 = 0 \<Longrightarrow> y mod 4 = 0"
    using mod_mod_cancel[of 100 400 y] mod_mod_cancel[of 4 100 y] by simp_all
  then show ?thesis
    unfolding year_start_def YearToDay_def IsLeapYear_def add_diff_cancel_right'
    by (intro leap_sum div_step zero_less_numeral)
qed

lemma year_start_pred: "year_start y = year_start (y - 1) + YearToDay (y - 1)"
  using year_start_step[of "y - 1"] by simp

lemma YearToDay_bounds [simp]: "365 \<le> YearToDay y" "YearToDay y \<le> 366" "0 < YearToDay y"
  "1 \<le> YearToDay y"
  by (simp_all add: YearToDay_def)

lemma year_start_mono: "a \<le> b \<Longrightarrow> year_start a \<le> year_start b"
proof (induction "nat (b - a)" arbitrary: b)
  case 0
  then show ?case by simp
next
  case (Suc n)
  then have "year_start a \<le> year_start (b - 1)" by simp
  moreover have "0 < YearToDay (b - 1)" by simp
  ultimately show ?case using year_start_pred[of b] by linarith
qed

lemma year_start_gap: "a < b \<Longrightarrow> year_start a + YearToDay a \<le> year_start b"
  using year_start_mono[of "a + 1" b] year_start_step[of a] by simp

lemma year_start_inj:
  assumes "year_start a + d = year_start b + e"
    and "1 \<le> d" "d \<le> YearToDay a" "1 \<le> e" "e \<le> YearToDay b"
  shows "a = b \<and> d = e"
  using assms year_start_gap[of a b] year_start_gap[of b a]
  by (cases a b rule: linorder_cases) auto

subsection \<open>Months\<close>

lemma month_cases:
  assumes "1 \<le> m" "m \<le> (12 :: int)"
  shows "m = 1 \<or> m = 2 \<or> m = 3 \<or> m = 4 \<or> m = 5 \<or> m = 6 \<or> m = 7 \<or> m = 8 \<or> m = 9 \<or> m = 10
         \<or> m = 11 \<or> m = 12"
  using assms by presburger

lemma month_lens [simp]:
  "month_len y 1 = 31" "month_len y 2 = (if IsLeapYear y then 29 else 28)" "month_len y 3 = 31"
  "month_len y 4 = 30" "month_len y 5 = 31" "month_len y 6 = 30" "month_len y 7 = 31"
  "month_len y 8 = 31" "month_len y 9 = 30" "month_len y 10 = 31" "month_len y 11 = 30"
  "month_len y 12 = 31"
  by (simp_all add: month_len_def mday_def)

lemma month_start_1 [simp]: "month_start y 1 = 0"
  by (simp add: month_start_def)

lemma month_starts:
  "month_start y 2 = 31" "month_start y 3 = (if IsLeapYear y then 60 else 59)"
  "month_start y 4 = (if IsLeapYear y then 91 else 90)"
  "month_start y 5 = (if IsLeapYear y then 121 else 120)"
  "month_start y 6 = (if IsLeapYear y then 152 else 151)"
  "month_start y 7 = (if IsLeapYear y then 182 else 181)"
  "month_start y 8 = (if IsLeapYear y then 213 else 212)"
  "month_start y 9 = (if IsLeapYear y then 244 else 243)"
  "month_start y 10 = (if IsLeapYear y then 274 else 273)"
  "month_start y 11 = (if IsLeapYear y then 305 else 304)"
  "month_start y 12 = (if IsLeapYear y then 335 else 334)"
  "month_start y 13 = YearToDay y"
  by (simp_all add: month_start_def mday_def YearToDay_def)


lemma month_start_step:
  assumes "1 \<le> m" "m \<le> 12"
  shows "month_start y (m + 1) = month_start y m + month_len y m"
  using month_cases[OF assms] by (elim disjE) (simp_all add: month_starts YearToDay_def)

lemma month_len_bounds:
  assumes "1 \<le> m" "m \<le> 12"
  shows "28 \<le> month_len y m" "month_len y m \<le> 31"
  using month_cases[OF assms] by auto

lemma month_start_mono:
  assumes "1 \<le> a" "a < b" "b \<le> 13"
  shows "month_start y a + month_len y a \<le> month_start y b"
  using assms(2,3)
proof (induction "nat (b - a)" arbitrary: b)
  case 0
  then show ?case by simp
next
  case (Suc n)
  have step: "month_start y b = month_start y (b - 1) + month_len y (b - 1)"
    using month_start_step[of "b - 1" y] Suc.prems assms(1) by simp
  have len: "28 \<le> month_len y (b - 1)"
    using Suc.prems assms(1) by (intro month_len_bounds) auto
  show ?case
  proof (cases "b = a + 1")
    case True
    then show ?thesis using step by simp
  next
    case False
    then have "month_start y a + month_len y a \<le> month_start y (b - 1)"
      using Suc.hyps(2) Suc.prems by (intro Suc.hyps(1)) auto
    with step len show ?thesis by simp
  qed
qed

lemma month_start_nonneg: "1 \<le> m \<Longrightarrow> m \<le> 13 \<Longrightarrow> 0 \<le> month_start y m"
  using month_start_mono[of 1 m y] by (cases "m = 1") auto

lemma month_start_bound:
  assumes "1 \<le> m" "m \<le> 13"
  shows "month_start y m \<le> 366"
proof (cases "m = 13")
  case True
  then show ?thesis by (simp only: month_starts(12) YearToDay_bounds(2))
next
  case False
  then have "m \<le> 12" using assms(2) by simp
  then have "month_start y m + month_len y m \<le> month_start y 13" "28 \<le> month_len y m"
    using assms(1) by (intro month_start_mono month_len_bounds(1); simp)+
  then show ?thesis using YearToDay_bounds(2)[of y] unfolding month_starts(12) by linarith
qed

lemma day_of_year_bounds:
  assumes "valid_date y m d"
  shows "1 \<le> month_start y m + d" "month_start y m + d \<le> YearToDay y"
  using assms month_start_nonneg[of m y] month_start_mono[of m 13 y]
  by (auto simp: valid_date_def month_starts(12))

lemma month_day_inj:
  assumes "valid_date y m d" "valid_date y n e" "month_start y m + d = month_start y n + e"
  shows "m = n \<and> d = e"
  using assms month_start_mono[of m n y] month_start_mono[of n m y]
  by (cases m n rule: linorder_cases) (auto simp: valid_date_def)

lemma day_number_inj:
  assumes "valid_date y m d" "valid_date y' m' d'" "day_number y m d = day_number y' m' d'"
  shows "y = y' \<and> m = m' \<and> d = d'"
proof -
  have "y = y' \<and> month_start y m + d = month_start y' m' + d'"
    using assms day_of_year_bounds[OF assms(1)] day_of_year_bounds[OF assms(2)]
    by (intro year_start_inj) (auto simp: day_number_def)
  then show ?thesis using assms month_day_inj by blast
qed

section \<open>The carries and borrows of the code\<close>

lemma carry_ymd_eq:
  assumes "1 \<le> ti_month ct" "ti_month ct \<le> 12" "1 \<le> ti_day ct"
    "ti_day ct \<le> month_len (ti_year ct) (ti_month ct) + 1"
  shows "carry_ymd ct =
    (if ti_day ct \<le> month_len (ti_year ct) (ti_month ct) then ct
     else if ti_month ct < 12 then ct\<lparr>ti_day := 1, ti_month := ti_month ct + 1\<rparr>
     else ct\<lparr>ti_day := 1, ti_month := 1, ti_year := u16 (ti_year ct + 1)\<rparr>)"
  using month_cases[OF assms(1,2)] assms(3,4)
  by (elim disjE) (auto simp: carry_ymd_def split: if_splits)

lemma borrow_ymd_eq:
  assumes "1 \<le> ti_month ct" "ti_month ct \<le> 12" "1 \<le> ti_day ct" "ti_day ct \<le> 31"
  shows "borrow_ymd ct =
    (if 1 < ti_day ct then ct\<lparr>ti_day := ti_day ct - 1\<rparr>
     else if 1 < ti_month ct then
       ct\<lparr>ti_day := month_len (ti_year ct) (ti_month ct - 1), ti_month := ti_month ct - 1\<rparr>
     else ct\<lparr>ti_day := 31, ti_month := 12, ti_year := u16 (ti_year ct - 1)\<rparr>)"
  using month_cases[OF assms(1,2)] assms(3,4)
  by (elim disjE) (auto simp: borrow_ymd_def)


text \<open>The day of either form, and what moving it by one day means.\<close>

definition day_ymd :: "timeinfo \<Rightarrow> int" where
  "day_ymd t = day_number (ti_year t) (ti_month t) (ti_day t)"

definition day_yd :: "timeinfo \<Rightarrow> int" where
  "day_yd t = year_start (ti_year t) + ti_days t"

definition vday_ymd :: "timeinfo \<Rightarrow> bool" where
  "vday_ymd t \<longleftrightarrow> valid_year t \<and> valid_date (ti_year t) (ti_month t) (ti_day t)"

definition vday_yd :: "timeinfo \<Rightarrow> bool" where
  "vday_yd t \<longleftrightarrow> valid_year t \<and> 1 \<le> ti_days t \<and> ti_days t \<le> YearToDay (ti_year t)"

definition same_hms :: "timeinfo \<Rightarrow> timeinfo \<Rightarrow> bool" where
  "same_hms s t \<longleftrightarrow> ti_hour s = ti_hour t \<and> ti_minute s = ti_minute t \<and> ti_second s = ti_second t"

lemma carry_ymd_valid [simp]: "vday_ymd ct \<Longrightarrow> carry_ymd ct = ct"
  by (subst carry_ymd_eq) (auto simp: vday_ymd_def valid_date_def)

lemma year_room:
  assumes "valid_year t" "year_start (ti_year t) + YearToDay (ti_year t) < year_start 65536"
  shows "ti_year t + 1 < 65536"
proof (rule ccontr)
  assume "\<not> ti_year t + 1 < 65536"
  then have "ti_year t = 65535" using assms(1) by (simp add: valid_year_def)
  with assms(2) year_start_step[of 65535] show False by simp
qed

lemma next_ymd:
  assumes v: "vday_ymd ct" and room: "day_ymd ct < year_start 65536"
  defines "n \<equiv> carry_ymd (ct\<lparr>ti_day := u8 (ti_day ct + 1)\<rparr>)"
  shows "vday_ymd n \<and> day_ymd n = day_ymd ct + 1 \<and> same_hms n ct"
proof -
  let ?y = "ti_year ct" and ?m = "ti_month ct" and ?d = "ti_day ct"
  have m: "1 \<le> ?m" "?m \<le> 12" and d: "1 \<le> ?d" "?d \<le> month_len ?y ?m"
    using v by (auto simp: vday_ymd_def valid_date_def)
  have len: "month_len ?y ?m \<le> 31" using m by (rule month_len_bounds)
  have n: "n = (if ?d + 1 \<le> month_len ?y ?m then ct\<lparr>ti_day := ?d + 1\<rparr>
      else if ?m < 12 then ct\<lparr>ti_day := 1, ti_month := ?m + 1\<rparr>
      else ct\<lparr>ti_day := 1, ti_month := 1, ti_year := u16 (?y + 1)\<rparr>)"
    unfolding n_def using m d len by (subst carry_ymd_eq) auto
  consider "?d + 1 \<le> month_len ?y ?m" | "?d = month_len ?y ?m" "?m < 12"
    | "?d = month_len ?y ?m" "?m = 12" using m d by linarith
  then show ?thesis
  proof cases
    case 1
    then show ?thesis using v d
      by (simp add: n vday_ymd_def valid_date_def valid_year_def day_ymd_def day_number_def same_hms_def)
  next
    case 2
    have l: "1 \<le> month_len ?y (?m + 1)" using 2 m month_len_bounds[of "?m + 1" ?y] by simp
    show ?thesis using v 2 m l
      by (simp add: n vday_ymd_def valid_date_def valid_year_def day_ymd_def day_number_def
          same_hms_def month_start_step)
  next
    case 3
    have "year_start ?y + YearToDay ?y = day_ymd ct"
      using 3 month_start_step[of 12 ?y] by (simp add: day_ymd_def day_number_def month_starts)
    then have "?y + 1 < 65536" using year_room[of ct] v room by (simp add: vday_ymd_def)
    then show ?thesis using v 3 year_start_step[of ?y] month_start_step[of 12 ?y]
      by (simp add: n vday_ymd_def valid_date_def valid_year_def day_ymd_def day_number_def
          same_hms_def month_starts)
  qed
qed

lemma prev_ymd:
  assumes v: "vday_ymd ct" and room: "1 < day_ymd ct"
  shows "vday_ymd (borrow_ymd ct) \<and> day_ymd (borrow_ymd ct) = day_ymd ct - 1
    \<and> same_hms (borrow_ymd ct) ct"
proof -
  let ?y = "ti_year ct" and ?m = "ti_month ct" and ?d = "ti_day ct"
  have m: "1 \<le> ?m" "?m \<le> 12" and d: "1 \<le> ?d" "?d \<le> month_len ?y ?m"
    using v by (auto simp: vday_ymd_def valid_date_def)
  have "month_len ?y ?m \<le> 31" using m by (rule month_len_bounds)
  with d have "?d \<le> 31" by simp
  note n = borrow_ymd_eq[OF m d(1) this]
  consider "1 < ?d" | "?d = 1" "1 < ?m" | "?d = 1" "?m = 1" using m d by linarith
  then show ?thesis
  proof cases
    case 1
    then show ?thesis using v d
      by (simp add: n vday_ymd_def valid_date_def valid_year_def day_ymd_def day_number_def same_hms_def)
  next
    case 2
    have l: "1 \<le> month_len ?y (?m - 1)" using 2 m month_len_bounds[of "?m - 1" ?y] by simp
    show ?thesis using v 2 m l month_start_step[of "?m - 1" ?y]
      by (simp add: n vday_ymd_def valid_date_def valid_year_def day_ymd_def day_number_def
          same_hms_def)
  next
    case 3
    have "?y \<noteq> 1"
    proof
      assume "?y = 1"
      then have "day_ymd ct = 1" using 3 by (simp add: day_ymd_def day_number_def year_start_def)
      then show False using room by simp
    qed
    then have "1 < ?y" "?y \<le> 65535" using v by (auto simp: vday_ymd_def valid_year_def)
    then show ?thesis using v 3 year_start_pred[of ?y] month_start_step[of 12 "?y - 1"]
      by (simp add: n vday_ymd_def valid_date_def valid_year_def day_ymd_def day_number_def
          same_hms_def month_starts)
  qed
qed

lemma next_yd:
  assumes v: "vday_yd ct" and room: "day_yd ct < year_start 65536"
  shows "vday_yd (next_day_yd ct) \<and> day_yd (next_day_yd ct) = day_yd ct + 1
    \<and> same_hms (next_day_yd ct) ct"
proof -
  let ?y = "ti_year ct" and ?d = "ti_days ct"
  have d: "1 \<le> ?d" "?d \<le> YearToDay ?y" using v by (auto simp: vday_yd_def)
  have "?d \<le> 366" using d(2) YearToDay_bounds(2)[of ?y] by linarith
  then have n: "next_day_yd ct = (if ?d + 1 \<le> YearToDay ?y then ct\<lparr>ti_days := ?d + 1\<rparr>
      else ct\<lparr>ti_days := 1, ti_year := u16 (?y + 1)\<rparr>)"
    using d by (auto simp: next_day_yd_def YearToDay_def)
  show ?thesis
  proof (cases "?d + 1 \<le> YearToDay ?y")
    case True
    then show ?thesis using v d
      by (simp add: n vday_yd_def valid_year_def day_yd_def same_hms_def)
  next
    case False
    then have e: "?d = YearToDay ?y" using d by simp
    then have "?y + 1 < 65536" using year_room[of ct] v room by (simp add: vday_yd_def day_yd_def)
    then show ?thesis using v e year_start_step[of ?y]
      by (simp add: n vday_yd_def valid_year_def day_yd_def same_hms_def)
  qed
qed

lemma prev_yd:
  assumes v: "vday_yd ct" and room: "1 < day_yd ct"
  shows "vday_yd (prev_day_yd ct) \<and> day_yd (prev_day_yd ct) = day_yd ct - 1
    \<and> same_hms (prev_day_yd ct) ct"
proof -
  let ?y = "ti_year ct" and ?d = "ti_days ct"
  have d: "1 \<le> ?d" "?d \<le> YearToDay ?y" using v by (auto simp: vday_yd_def)
  have "?d \<le> 366" using d(2) YearToDay_bounds(2)[of ?y] by linarith
  show ?thesis
  proof (cases "1 < ?d")
    case True
    then show ?thesis using v d \<open>?d \<le> 366\<close>
      by (simp add: prev_day_yd_def vday_yd_def valid_year_def day_yd_def same_hms_def)
  next
    case False
    then have "?d = 1" using d by simp
    moreover have "?y \<noteq> 1" using room \<open>?d = 1\<close> by (auto simp: day_yd_def year_start_def)
    then have "1 < ?y" "?y \<le> 65535" using v by (auto simp: vday_yd_def valid_year_def)
    moreover from this have "u16 (?y - 1) = ?y - 1" by simp
    ultimately show ?thesis using v year_start_pred[of ?y]
      by (simp add: prev_day_yd_def vday_yd_def valid_year_def day_yd_def same_hms_def YearToDay_def)
  qed
qed


section \<open>The additions and subtractions\<close>

lemma day_room:
  assumes "representable (((d * 24 + h) * 60 + m) * 60 + s)"
    "0 \<le> h" "h < 24" "0 \<le> m" "m < 60" "0 \<le> s" "s < 60"
  shows "1 \<le> d" "d \<le> year_start 65536"
proof -
  have "86400 \<le> ((d * 24 + h) * 60 + m) * 60 + s"
    "((d * 24 + h) * 60 + m) * 60 + s < (year_start 65536 + 1) * 86400"
    using assms(1) by (simp_all only: representable_def first_second_def end_second_def)
  then show "1 \<le> d" "d \<le> year_start 65536" using assms(2-) by (simp_all add: algebra_simps)
qed

lemma abs_ymd_day: "abs_ymd t = ((day_ymd t * 24 + ti_hour t) * 60 + ti_minute t) * 60 + ti_second t"
  by (simp only: abs_ymd_def second_number_def day_ymd_def)

lemma abs_yd_day: "abs_yd t = ((day_yd t * 24 + ti_hour t) * 60 + ti_minute t) * 60 + ti_second t"
  by (simp only: abs_yd_def second_number_def day_yd_def)

lemma valid_ymd_day: "valid_ymd t \<longleftrightarrow> vday_ymd t \<and> valid_hms t"
  by (auto simp: valid_ymd_def vday_ymd_def)

lemma valid_yd_day: "valid_yd t \<longleftrightarrow> vday_yd t \<and> valid_hms t"
  by (auto simp: valid_yd_def vday_yd_def)

lemma day_hms_update [simp]:
  "day_ymd (t\<lparr>ti_hour := a\<rparr>) = day_ymd t" "day_ymd (t\<lparr>ti_minute := a\<rparr>) = day_ymd t"
  "day_ymd (t\<lparr>ti_second := a\<rparr>) = day_ymd t" "day_yd (t\<lparr>ti_hour := a\<rparr>) = day_yd t"
  "day_yd (t\<lparr>ti_minute := a\<rparr>) = day_yd t" "day_yd (t\<lparr>ti_second := a\<rparr>) = day_yd t"
  "vday_ymd (t\<lparr>ti_hour := a\<rparr>) = vday_ymd t" "vday_ymd (t\<lparr>ti_minute := a\<rparr>) = vday_ymd t"
  "vday_ymd (t\<lparr>ti_second := a\<rparr>) = vday_ymd t" "vday_yd (t\<lparr>ti_hour := a\<rparr>) = vday_yd t"
  "vday_yd (t\<lparr>ti_minute := a\<rparr>) = vday_yd t" "vday_yd (t\<lparr>ti_second := a\<rparr>) = vday_yd t"
  by (simp_all add: day_ymd_def day_yd_def vday_ymd_def vday_yd_def valid_year_def)

text \<open>The carry out of the hour moves to the next day, the borrow to the previous one.\<close>

lemma carry_hour_ymd_abs:
  assumes v: "vday_ymd ct" and h: "0 \<le> ti_hour ct" "ti_hour ct < 48"
    "0 \<le> ti_minute ct" "ti_minute ct < 60" "0 \<le> ti_second ct" "ti_second ct < 60"
    and r: "representable (abs_ymd ct)"
  shows "valid_ymd (carry_ymd (carry_hour_ymd ct)) \<and> abs_ymd (carry_ymd (carry_hour_ymd ct)) = abs_ymd ct"
proof (cases "ti_hour ct > 23")
  case False
  then show ?thesis using assms by (simp add: carry_hour_ymd_def valid_ymd_day valid_hms_def)
next
  case True
  define c where "c = ct\<lparr>ti_hour := ti_hour ct - 24\<rparr>"
  have "ti_hour ct mod 24 = ti_hour ct - 24" using True h by (intro mod_once) auto
  then have eq: "carry_ymd (carry_hour_ymd ct) = carry_ymd (c\<lparr>ti_day := u8 (ti_day c + 1)\<rparr>)"
    using True by (simp add: carry_hour_ymd_def c_def)
  have a: "abs_ymd ct = (((day_ymd c + 1) * 24 + ti_hour c) * 60 + ti_minute c) * 60 + ti_second c"
    by (simp add: abs_ymd_day c_def)
  have "day_ymd c + 1 \<le> year_start 65536"
    using r h True unfolding a
    by (intro day_room(2)[of _ "ti_hour c" "ti_minute c" "ti_second c"]) (auto simp: c_def)
  then have "vday_ymd (carry_ymd (carry_hour_ymd ct)) \<and> day_ymd (carry_ymd (carry_hour_ymd ct))
      = day_ymd c + 1 \<and> same_hms (carry_ymd (carry_hour_ymd ct)) c"
    unfolding eq using v by (intro next_ymd) (simp_all add: c_def)
  then show ?thesis using True h a
    by (auto simp: valid_ymd_day abs_ymd_day valid_hms_def same_hms_def c_def)
qed

lemma carry_hour_yd_abs:
  assumes v: "vday_yd ct" and h: "0 \<le> ti_hour ct" "ti_hour ct < 48"
    "0 \<le> ti_minute ct" "ti_minute ct < 60" "0 \<le> ti_second ct" "ti_second ct < 60"
    and r: "representable (abs_yd ct)"
  shows "valid_yd (carry_hour_yd ct) \<and> abs_yd (carry_hour_yd ct) = abs_yd ct"
proof (cases "ti_hour ct > 23")
  case False
  then show ?thesis using assms by (simp add: carry_hour_yd_def valid_yd_day valid_hms_def)
next
  case True
  define c where "c = ct\<lparr>ti_hour := ti_hour ct - 24\<rparr>"
  have "ti_hour ct mod 24 = ti_hour ct - 24" using True h by (intro mod_once) auto
  then have eq: "carry_hour_yd ct = next_day_yd c"
    using True by (simp add: carry_hour_yd_def c_def)
  have a: "abs_yd ct = (((day_yd c + 1) * 24 + ti_hour c) * 60 + ti_minute c) * 60 + ti_second c"
    by (simp add: abs_yd_day c_def)
  have "day_yd c + 1 \<le> year_start 65536"
    using r h True unfolding a
    by (intro day_room(2)[of _ "ti_hour c" "ti_minute c" "ti_second c"]) (auto simp: c_def)
  then have "vday_yd (carry_hour_yd ct) \<and> day_yd (carry_hour_yd ct) = day_yd c + 1
      \<and> same_hms (carry_hour_yd ct) c"
    unfolding eq using v by (intro next_yd) (simp_all add: c_def)
  then show ?thesis using True h a
    by (auto simp: valid_yd_day abs_yd_day valid_hms_def same_hms_def c_def)
qed

lemma year_day_range:
  assumes "valid_year t" "1 \<le> d" "d \<le> YearToDay (ti_year t)"
  shows "1 \<le> year_start (ti_year t) + d" "year_start (ti_year t) + d \<le> year_start 65536"
proof -
  have "year_start 1 \<le> year_start (ti_year t)" "year_start (ti_year t + 1) \<le> year_start 65536"
    using assms(1) by (auto intro!: year_start_mono simp: valid_year_def)
  moreover have "year_start 1 = 0" by (simp add: year_start_def)
  ultimately show "1 \<le> year_start (ti_year t) + d" "year_start (ti_year t) + d \<le> year_start 65536"
    using assms(2,3) year_start_step[of "ti_year t"] by linarith+
qed

lemma representableI:
  assumes "1 \<le> d" "d \<le> year_start 65536" "valid_hms t"
  shows "representable (((d * 24 + ti_hour t) * 60 + ti_minute t) * 60 + ti_second t)"
  using assms by (auto simp: representable_def first_second_def end_second_def valid_hms_def algebra_simps)

lemma valid_yd_representable: "valid_yd t \<Longrightarrow> representable (abs_yd t)"
  unfolding abs_yd_day
  by (rule representableI) (auto simp: valid_yd_day vday_yd_def day_yd_def year_day_range)

lemma valid_ymd_representable: "valid_ymd t \<Longrightarrow> representable (abs_ymd t)"
  unfolding abs_ymd_day
  using year_day_range[of t "month_start (ti_year t) (ti_month t) + ti_day t"]
    day_of_year_bounds[of "ti_year t" "ti_month t" "ti_day t"]
  by (intro representableI) (auto simp: valid_ymd_day vday_ymd_def day_ymd_def day_number_def)

lemma borrow_ymd_abs:
  assumes v: "valid_ymd ct" and r: "representable (abs_ymd ct - 86400)"
  shows "valid_ymd (borrow_ymd ct) \<and> abs_ymd (borrow_ymd ct) = abs_ymd ct - 86400"
proof -
  have h: "valid_hms ct" using v by (simp add: valid_ymd_day)
  have a: "abs_ymd ct - 86400
      = (((day_ymd ct - 1) * 24 + ti_hour ct) * 60 + ti_minute ct) * 60 + ti_second ct"
    by (simp add: abs_ymd_day)
  have "1 \<le> day_ymd ct - 1"
    using r h unfolding a
    by (intro day_room(1)[of _ "ti_hour ct" "ti_minute ct" "ti_second ct"]) (auto simp: valid_hms_def)
  then have "vday_ymd (borrow_ymd ct) \<and> day_ymd (borrow_ymd ct) = day_ymd ct - 1 \<and> same_hms (borrow_ymd ct) ct"
    using v by (intro prev_ymd) (simp_all add: valid_ymd_day)
  then show ?thesis using h a
    by (auto simp: valid_ymd_day abs_ymd_day valid_hms_def same_hms_def)
qed

lemma borrow_hour_ymd_abs:
  assumes v: "valid_ymd ct" and r: "representable (abs_ymd ct - 3600)"
  shows "valid_ymd (borrow_hour_ymd ct) \<and> abs_ymd (borrow_hour_ymd ct) = abs_ymd ct - 3600"
proof (cases "ti_hour ct \<ge> 1")
  case True
  then show ?thesis using v by (simp add: borrow_hour_ymd_def valid_ymd_day valid_hms_def abs_ymd_day)
next
  case False
  define c where "c = ct\<lparr>ti_hour := 23\<rparr>"
  have z: "ti_hour ct = 0" using False v by (simp add: valid_ymd_day valid_hms_def)
  then have "borrow_hour_ymd ct = borrow_ymd c" by (simp add: borrow_hour_ymd_def c_def)
  moreover have "abs_ymd c - 86400 = abs_ymd ct - 3600" using z by (simp add: abs_ymd_day c_def)
  moreover have "valid_ymd c" using v by (simp add: c_def valid_ymd_day valid_hms_def)
  ultimately show ?thesis using borrow_ymd_abs[of c] r by simp
qed

lemma borrow_yd_abs:
  assumes v: "valid_yd ct" and r: "representable (abs_yd ct - 86400)"
  shows "valid_yd (prev_day_yd ct) \<and> abs_yd (prev_day_yd ct) = abs_yd ct - 86400"
proof -
  have h: "valid_hms ct" using v by (simp add: valid_yd_day)
  have a: "abs_yd ct - 86400
      = (((day_yd ct - 1) * 24 + ti_hour ct) * 60 + ti_minute ct) * 60 + ti_second ct"
    by (simp add: abs_yd_day)
  have "1 \<le> day_yd ct - 1"
    using r h unfolding a
    by (intro day_room(1)[of _ "ti_hour ct" "ti_minute ct" "ti_second ct"]) (auto simp: valid_hms_def)
  then have "vday_yd (prev_day_yd ct) \<and> day_yd (prev_day_yd ct) = day_yd ct - 1 \<and> same_hms (prev_day_yd ct) ct"
    using v by (intro prev_yd) (simp_all add: valid_yd_day)
  then show ?thesis using h a
    by (auto simp: valid_yd_day abs_yd_day valid_hms_def same_hms_def)
qed

lemma borrow_hour_yd_abs:
  assumes v: "valid_yd ct" and r: "representable (abs_yd ct - 3600)"
  shows "valid_yd (borrow_hour_yd ct) \<and> abs_yd (borrow_hour_yd ct) = abs_yd ct - 3600"
proof (cases "ti_hour ct \<ge> 1")
  case True
  then show ?thesis using v by (simp add: borrow_hour_yd_def valid_yd_day valid_hms_def abs_yd_day)
next
  case False
  define c where "c = ct\<lparr>ti_hour := 23\<rparr>"
  have z: "ti_hour ct = 0" using False v by (simp add: valid_yd_day valid_hms_def)
  then have "borrow_hour_yd ct = prev_day_yd c" by (simp add: borrow_hour_yd_def c_def)
  moreover have "abs_yd c - 86400 = abs_yd ct - 3600" using z by (simp add: abs_yd_day c_def)
  moreover have "valid_yd c" using v by (simp add: c_def valid_yd_day valid_hms_def)
  ultimately show ?thesis using borrow_yd_abs[of c] r by simp
qed

lemma HourYmd_Add_abs:
  assumes v: "valid_ymd ct" and n: "0 < n" "n < 24" and r: "representable (abs_ymd ct + 3600 * n)"
  shows "valid_ymd (AddHourYmd ct n) \<and> abs_ymd (AddHourYmd ct n) = abs_ymd ct + 3600 * n"
proof -
  define c where "c = ct\<lparr>ti_hour := ti_hour ct + n\<rparr>"
  have h: "valid_hms ct" using v by (simp add: valid_ymd_day)
  then have "AddHourYmd ct n = carry_ymd (carry_hour_ymd c)"
    using n by (simp add: AddHourYmd_def c_def valid_hms_def)
  moreover have "abs_ymd c = abs_ymd ct + 3600 * n" by (simp add: abs_ymd_day c_def)
  moreover have "vday_ymd c" using v by (simp add: c_def valid_ymd_day)
  ultimately show ?thesis using carry_hour_ymd_abs[of c] r h n by (simp add: c_def valid_hms_def)
qed

lemma HourYmd_Sub_abs:
  assumes v: "valid_ymd ct" and n: "0 < n" "n < 24" and r: "representable (abs_ymd ct - 3600 * n)"
  shows "valid_ymd (SubHourYmd ct n) \<and> abs_ymd (SubHourYmd ct n) = abs_ymd ct - 3600 * n"
proof (cases "n \<le> ti_hour ct")
  case True
  then show ?thesis using v n by (simp add: SubHourYmd_def valid_ymd_day valid_hms_def abs_ymd_day)
next
  case False
  define c where "c = ct\<lparr>ti_hour := ti_hour ct + 24 - n\<rparr>"
  have h: "valid_hms ct" using v by (simp add: valid_ymd_day)
  have "SubHourYmd ct n = borrow_ymd c" using n False h by (simp add: SubHourYmd_def c_def valid_hms_def)
  moreover have "abs_ymd c - 86400 = abs_ymd ct - 3600 * n" by (simp add: abs_ymd_day c_def)
  moreover have "valid_ymd c" using v n False by (simp add: c_def valid_ymd_day valid_hms_def)
  ultimately show ?thesis using borrow_ymd_abs[of c] r by simp
qed

lemma SecondYmd_Add_abs:
  assumes v: "valid_ymd ct" and n: "0 < n" "n < 100" and r: "representable (abs_ymd ct + n)"
  shows "valid_ymd (AddSecondYmd ct n) \<and> abs_ymd (AddSecondYmd ct n) = abs_ymd ct + n"
proof -
  define q where "q = (ti_second ct + n) div 60"
  define s where "s = (ti_second ct + n) mod 60"
  have h: "valid_hms ct" and d: "vday_ymd ct" using v by (simp_all add: valid_ymd_day)
  have qs: "ti_second ct + n = 60 * q + s" "0 \<le> s" "s < 60"
    by (simp_all add: q_def s_def)
  then have q: "0 \<le> q" "q < 3" using h n by (auto simp: valid_hms_def)
  have step: "AddSecondYmd ct n =
     (if ti_second ct + n > 59 then
        if ti_minute ct + q > 59 then
          carry_ymd (carry_hour_ymd
            (ct\<lparr>ti_second := s, ti_minute := (ti_minute ct + q) mod 60, ti_hour := ti_hour ct + 1\<rparr>))
        else ct\<lparr>ti_second := s, ti_minute := ti_minute ct + q\<rparr>
      else ct\<lparr>ti_second := ti_second ct + n\<rparr>)"
    using n h q by (simp add: AddSecondYmd_def Let_def valid_hms_def flip: q_def s_def)
  show ?thesis
  proof (cases "ti_second ct + n > 59")
    case False
    then show ?thesis using h d n by (simp add: step valid_ymd_day valid_hms_def abs_ymd_day)
  next
    case sec: True
    show ?thesis
    proof (cases "ti_minute ct + q > 59")
      case False
      then show ?thesis using sec h d qs q by (simp add: step valid_ymd_day valid_hms_def abs_ymd_day)
    next
      case True
      define c where
        "c = ct\<lparr>ti_second := s, ti_minute := ti_minute ct + q - 60, ti_hour := ti_hour ct + 1\<rparr>"
      have "(ti_minute ct + q) mod 60 = ti_minute ct + q - 60"
        using True h q by (intro mod_once) (auto simp: valid_hms_def)
      then have "AddSecondYmd ct n = carry_ymd (carry_hour_ymd c)" using sec True by (simp add: step c_def)
      moreover have "abs_ymd c = abs_ymd ct + n" using qs by (simp add: abs_ymd_day c_def)
      moreover have "vday_ymd c" using d by (simp add: c_def)
      ultimately show ?thesis using carry_hour_ymd_abs[of c] r h q qs True
        by (simp add: c_def valid_hms_def)
    qed
  qed
qed

lemma minute_borrow_ymd_abs:
  assumes v: "valid_ymd ct" and n: "0 \<le> n" "n < 60" and r: "representable (abs_ymd ct - 60 * n)"
  shows "valid_ymd (if ti_minute ct \<ge> n then ct\<lparr>ti_minute := u8 (ti_minute ct - n)\<rparr>
      else borrow_hour_ymd (ct\<lparr>ti_minute := u8 (u8 (ti_minute ct + 60) - n)\<rparr>)) \<and>
    abs_ymd (if ti_minute ct \<ge> n then ct\<lparr>ti_minute := u8 (ti_minute ct - n)\<rparr>
      else borrow_hour_ymd (ct\<lparr>ti_minute := u8 (u8 (ti_minute ct + 60) - n)\<rparr>))
      = abs_ymd ct - 60 * n"
proof (cases "ti_minute ct \<ge> n")
  case True
  then show ?thesis using v n by (simp add: valid_ymd_day valid_hms_def abs_ymd_day)
next
  case False
  define c where "c = ct\<lparr>ti_minute := ti_minute ct + 60 - n\<rparr>"
  have h: "valid_hms ct" using v by (simp add: valid_ymd_day)
  have "ct\<lparr>ti_minute := u8 (u8 (ti_minute ct + 60) - n)\<rparr> = c"
    using n h False by (simp add: c_def valid_hms_def)
  moreover have "abs_ymd c - 3600 = abs_ymd ct - 60 * n" by (simp add: abs_ymd_day c_def)
  moreover have "valid_ymd c" using v n False by (simp add: c_def valid_ymd_day valid_hms_def)
  ultimately show ?thesis using borrow_hour_ymd_abs[of c] r False by simp
qed

lemma SecondYmd_Sub_abs:
  assumes v: "valid_ymd ct" and n: "0 < n" "n < 100" and r: "representable (abs_ymd ct - n)"
  shows "valid_ymd (SubSecondYmd ct n) \<and> abs_ymd (SubSecondYmd ct n) = abs_ymd ct - n"
proof -
  define m where "m = n div 60"
  define s where "s = n mod 60"
  have ms: "n = 60 * m + s" "0 \<le> s" "s < 60" by (simp_all add: m_def s_def)
  then have m: "0 \<le> m" "m < 2" using n by linarith+
  have h: "valid_hms ct" and d: "vday_ymd ct" using v by (simp_all add: valid_ymd_day)
  define c where "c = (if s \<le> ti_second ct then ct\<lparr>ti_second := ti_second ct - s\<rparr>
    else (let c = ct\<lparr>ti_second := ti_second ct + 60 - s\<rparr>
          in if ti_minute c \<ge> 1 then c\<lparr>ti_minute := u8 (ti_minute c - 1)\<rparr>
             else borrow_hour_ymd (c\<lparr>ti_minute := u8 (u8 (ti_minute c + 60) - 1)\<rparr>)))"
  have upper: "abs_ymd ct < end_second"
    using valid_ymd_representable[OF v] by (simp add: representable_def)
  have r': "representable (abs_ymd ct - s)"
    using r upper ms m unfolding representable_def by linarith
  have c: "valid_ymd c \<and> abs_ymd c = abs_ymd ct - s"
  proof (cases "s \<le> ti_second ct")
    case True
    then show ?thesis using h d ms by (simp add: c_def valid_ymd_day valid_hms_def abs_ymd_day)
  next
    case False
    define b where "b = ct\<lparr>ti_second := ti_second ct + 60 - s\<rparr>"
    have "abs_ymd b - 60 * 1 = abs_ymd ct - s" by (simp add: b_def abs_ymd_day)
    moreover have "valid_ymd b" using h d ms False by (simp add: b_def valid_ymd_day valid_hms_def)
    ultimately show ?thesis
      using minute_borrow_ymd_abs[of b 1] r' False by (simp add: c_def Let_def flip: b_def)
  qed
  have "SubSecondYmd ct n = (if m > 0 then
       if ti_minute c \<ge> m then c\<lparr>ti_minute := u8 (ti_minute c - m)\<rparr>
       else borrow_hour_ymd (c\<lparr>ti_minute := u8 (u8 (ti_minute c + 60) - m)\<rparr>) else c)"
    using n h ms by (simp add: SubSecondYmd_def c_def Let_def valid_hms_def flip: m_def s_def)
  moreover have e: "abs_ymd c - 60 * m = abs_ymd ct - n" using c ms by simp
  moreover have "m < 60" using m by simp
  ultimately show ?thesis
    using minute_borrow_ymd_abs[of c m, unfolded e] c m(1) r by (cases "m = 0") simp_all
qed

lemma HourYd_Add_abs:
  assumes v: "valid_yd ct" and n: "0 < n" "n < 24" and r: "representable (abs_yd ct + 3600 * n)"
  shows "valid_yd (AddHourYd ct n) \<and> abs_yd (AddHourYd ct n) = abs_yd ct + 3600 * n"
proof -
  define c where "c = ct\<lparr>ti_hour := ti_hour ct + n\<rparr>"
  have h: "valid_hms ct" using v by (simp add: valid_yd_day)
  then have "AddHourYd ct n = carry_hour_yd c"
    using n by (simp add: AddHourYd_def c_def valid_hms_def)
  moreover have "abs_yd c = abs_yd ct + 3600 * n" by (simp add: abs_yd_day c_def)
  moreover have "vday_yd c" using v by (simp add: c_def valid_yd_day)
  ultimately show ?thesis using carry_hour_yd_abs[of c] r h n by (simp add: c_def valid_hms_def)
qed

lemma HourYd_Sub_abs:
  assumes v: "valid_yd ct" and n: "0 < n" "n < 24" and r: "representable (abs_yd ct - 3600 * n)"
  shows "valid_yd (SubHourYd ct n) \<and> abs_yd (SubHourYd ct n) = abs_yd ct - 3600 * n"
proof (cases "n \<le> ti_hour ct")
  case True
  then show ?thesis using v n by (simp add: SubHourYd_def valid_yd_day valid_hms_def abs_yd_day)
next
  case False
  define c where "c = ct\<lparr>ti_hour := ti_hour ct + 24 - n\<rparr>"
  have h: "valid_hms ct" using v by (simp add: valid_yd_day)
  have "SubHourYd ct n = prev_day_yd c" using n False h by (simp add: SubHourYd_def c_def valid_hms_def)
  moreover have "abs_yd c - 86400 = abs_yd ct - 3600 * n" by (simp add: abs_yd_day c_def)
  moreover have "valid_yd c" using v n False by (simp add: c_def valid_yd_day valid_hms_def)
  ultimately show ?thesis using borrow_yd_abs[of c] r by simp
qed

lemma SecondYd_Add_abs:
  assumes v: "valid_yd ct" and n: "0 < n" "n < 100" and r: "representable (abs_yd ct + n)"
  shows "valid_yd (AddSecondYd ct n) \<and> abs_yd (AddSecondYd ct n) = abs_yd ct + n"
proof -
  define q where "q = (ti_second ct + n) div 60"
  define s where "s = (ti_second ct + n) mod 60"
  have h: "valid_hms ct" and d: "vday_yd ct" using v by (simp_all add: valid_yd_day)
  have qs: "ti_second ct + n = 60 * q + s" "0 \<le> s" "s < 60"
    by (simp_all add: q_def s_def)
  then have q: "0 \<le> q" "q < 3" using h n by (auto simp: valid_hms_def)
  have step: "AddSecondYd ct n =
     (if ti_second ct + n > 59 then
        if ti_minute ct + q > 59 then
          carry_hour_yd (ct\<lparr>ti_second := s, ti_minute := (ti_minute ct + q) mod 60, ti_hour := ti_hour ct + 1\<rparr>)
        else ct\<lparr>ti_second := s, ti_minute := ti_minute ct + q\<rparr>
      else ct\<lparr>ti_second := ti_second ct + n\<rparr>)"
    using n h q by (simp add: AddSecondYd_def Let_def valid_hms_def flip: q_def s_def)
  show ?thesis
  proof (cases "ti_second ct + n > 59")
    case False
    then show ?thesis using h d n by (simp add: step valid_yd_day valid_hms_def abs_yd_day)
  next
    case sec: True
    show ?thesis
    proof (cases "ti_minute ct + q > 59")
      case False
      then show ?thesis using sec h d qs q by (simp add: step valid_yd_day valid_hms_def abs_yd_day)
    next
      case True
      define c where
        "c = ct\<lparr>ti_second := s, ti_minute := ti_minute ct + q - 60, ti_hour := ti_hour ct + 1\<rparr>"
      have "(ti_minute ct + q) mod 60 = ti_minute ct + q - 60"
        using True h q by (intro mod_once) (auto simp: valid_hms_def)
      then have "AddSecondYd ct n = carry_hour_yd c" using sec True by (simp add: step c_def)
      moreover have "abs_yd c = abs_yd ct + n" using qs by (simp add: abs_yd_day c_def)
      moreover have "vday_yd c" using d by (simp add: c_def)
      ultimately show ?thesis using carry_hour_yd_abs[of c] r h q qs True
        by (simp add: c_def valid_hms_def)
    qed
  qed
qed

lemma minute_borrow_yd_abs:
  assumes v: "valid_yd ct" and n: "0 \<le> n" "n < 60" and r: "representable (abs_yd ct - 60 * n)"
  shows "valid_yd (if ti_minute ct \<ge> n then ct\<lparr>ti_minute := u8 (ti_minute ct - n)\<rparr>
      else borrow_hour_yd (ct\<lparr>ti_minute := u8 (u8 (ti_minute ct + 60) - n)\<rparr>)) \<and>
    abs_yd (if ti_minute ct \<ge> n then ct\<lparr>ti_minute := u8 (ti_minute ct - n)\<rparr>
      else borrow_hour_yd (ct\<lparr>ti_minute := u8 (u8 (ti_minute ct + 60) - n)\<rparr>))
      = abs_yd ct - 60 * n"
proof (cases "ti_minute ct \<ge> n")
  case True
  then show ?thesis using v n by (simp add: valid_yd_day valid_hms_def abs_yd_day)
next
  case False
  define c where "c = ct\<lparr>ti_minute := ti_minute ct + 60 - n\<rparr>"
  have h: "valid_hms ct" using v by (simp add: valid_yd_day)
  have "ct\<lparr>ti_minute := u8 (u8 (ti_minute ct + 60) - n)\<rparr> = c"
    using n h False by (simp add: c_def valid_hms_def)
  moreover have "abs_yd c - 3600 = abs_yd ct - 60 * n" by (simp add: abs_yd_day c_def)
  moreover have "valid_yd c" using v n False by (simp add: c_def valid_yd_day valid_hms_def)
  ultimately show ?thesis using borrow_hour_yd_abs[of c] r False by simp
qed

lemma SecondYd_Sub_abs:
  assumes v: "valid_yd ct" and n: "0 < n" "n < 100" and r: "representable (abs_yd ct - n)"
  shows "valid_yd (SubSecondYd ct n) \<and> abs_yd (SubSecondYd ct n) = abs_yd ct - n"
proof -
  define m where "m = n div 60"
  define s where "s = n mod 60"
  have ms: "n = 60 * m + s" "0 \<le> s" "s < 60" by (simp_all add: m_def s_def)
  then have m: "0 \<le> m" "m < 2" using n by linarith+
  have h: "valid_hms ct" and d: "vday_yd ct" using v by (simp_all add: valid_yd_day)
  define c where "c = (if s \<le> ti_second ct then ct\<lparr>ti_second := ti_second ct - s\<rparr>
    else (let c = ct\<lparr>ti_second := ti_second ct + 60 - s\<rparr>
          in if ti_minute c \<ge> 1 then c\<lparr>ti_minute := u8 (ti_minute c - 1)\<rparr>
             else borrow_hour_yd (c\<lparr>ti_minute := u8 (u8 (ti_minute c + 60) - 1)\<rparr>)))"
  have upper: "abs_yd ct < end_second"
    using valid_yd_representable[OF v] by (simp add: representable_def)
  have r': "representable (abs_yd ct - s)"
    using r upper ms m unfolding representable_def by linarith
  have c: "valid_yd c \<and> abs_yd c = abs_yd ct - s"
  proof (cases "s \<le> ti_second ct")
    case True
    then show ?thesis using h d ms by (simp add: c_def valid_yd_day valid_hms_def abs_yd_day)
  next
    case False
    define b where "b = ct\<lparr>ti_second := ti_second ct + 60 - s\<rparr>"
    have "abs_yd b - 60 * 1 = abs_yd ct - s" by (simp add: b_def abs_yd_day)
    moreover have "valid_yd b" using h d ms False by (simp add: b_def valid_yd_day valid_hms_def)
    ultimately show ?thesis
      using minute_borrow_yd_abs[of b 1] r' False by (simp add: c_def Let_def flip: b_def)
  qed
  have "SubSecondYd ct n = (if m > 0 then
       if ti_minute c \<ge> m then c\<lparr>ti_minute := u8 (ti_minute c - m)\<rparr>
       else borrow_hour_yd (c\<lparr>ti_minute := u8 (u8 (ti_minute c + 60) - m)\<rparr>) else c)"
    using n h ms by (simp add: SubSecondYd_def c_def Let_def valid_hms_def flip: m_def s_def)
  moreover have e: "abs_yd c - 60 * m = abs_yd ct - n" using c ms by simp
  moreover have "m < 60" using m by simp
  ultimately show ?thesis
    using minute_borrow_yd_abs[of c m, unfolded e] c m(1) r by (cases "m = 0") simp_all
qed

end
