(* ===== verification/LibTimeAdjust.thy ===== *)
theory LibTimeAdjust
  imports LibTimeSpec
begin

text \<open>
  The contract that the four pairs of adjustments of \<^verbatim>\<open>src/lib/lib_time.c\<close> share, as a
  locale: an addition and a subtraction of a number of units move the absolute second by that
  amount and keep the rest of the time, and the absolute second determines the visible fields.
  The clients (\<open>d-output/dout_tod.c\<close>, \<open>d-output/dout_time.c\<close>) rely on the consequences
  proved inside it.
\<close>

locale clock_adjust =
  fixes ab :: "'t \<Rightarrow> int"
    and valid :: "'t \<Rightarrow> bool"
    and rest :: "'t \<Rightarrow> 'r"
    and unit lim :: int
    and add sub :: "'t \<Rightarrow> int \<Rightarrow> 't"
  assumes valid_rep: "valid t \<Longrightarrow> representable (ab t)"
    and add_law: "valid t \<Longrightarrow> 0 < n \<Longrightarrow> n < lim \<Longrightarrow> representable (ab t + unit * n)
      \<Longrightarrow> valid (add t n) \<and> ab (add t n) = ab t + unit * n"
    and sub_law: "valid t \<Longrightarrow> 0 < n \<Longrightarrow> n < lim \<Longrightarrow> representable (ab t - unit * n)
      \<Longrightarrow> valid (sub t n) \<and> ab (sub t n) = ab t - unit * n"
    and add_out: "\<not> (0 < n \<and> n < lim) \<Longrightarrow> add t n = t"
    and sub_out: "\<not> (0 < n \<and> n < lim) \<Longrightarrow> sub t n = t"
    and add_rest: "rest (add t n) = rest t"
    and sub_rest: "rest (sub t n) = rest t"
    and determined: "valid s \<Longrightarrow> valid t \<Longrightarrow> ab s = ab t \<Longrightarrow> rest s = rest t \<Longrightarrow> s = t"
    and unit_pos: "0 < unit"
begin

lemma sub_add:
  assumes "valid t" "0 \<le> n \<Longrightarrow> representable (ab t + unit * n)"
  shows "sub (add t n) n = t"
proof (cases "0 < n \<and> n < lim")
  case True
  then have a: "valid (add t n)" "ab (add t n) = ab t + unit * n"
    using assms add_law by auto
  then have "valid (sub (add t n) n) \<and> ab (sub (add t n) n) = ab t"
    using sub_law[of "add t n" n] True assms(1) valid_rep by simp
  then show ?thesis using assms(1) by (auto intro: determined simp: add_rest sub_rest)
qed (simp add: add_out sub_out)

lemma add_sub:
  assumes "valid t" "0 \<le> n \<Longrightarrow> representable (ab t - unit * n)"
  shows "add (sub t n) n = t"
proof (cases "0 < n \<and> n < lim")
  case True
  then have a: "valid (sub t n)" "ab (sub t n) = ab t - unit * n"
    using assms sub_law by auto
  then have "valid (add (sub t n) n) \<and> ab (add (sub t n) n) = ab t"
    using add_law[of "sub t n" n] True assms(1) valid_rep by simp
  then show ?thesis using assms(1) by (auto intro: determined simp: add_rest sub_rest)
qed (simp add: add_out sub_out)

lemma rep_between:
  assumes "valid t" "representable (ab t + b)" "0 \<le> a" "a \<le> b"
  shows "representable (ab t + a)"
  using valid_rep[OF assms(1)] assms(2-) by (auto simp: representable_def)

lemma add_add:
  assumes "valid t" "0 < a" "0 < b" "a + b < lim" "representable (ab t + unit * (a + b))"
  shows "add (add t a) b = add t (a + b)"
proof -
  have le: "unit * a \<le> unit * (a + b)" using assms unit_pos by simp
  have "valid (add t a) \<and> ab (add t a) = ab t + unit * a"
    using assms unit_pos by (intro add_law rep_between[OF assms(1,5)] le) auto
  moreover from this have "valid (add (add t a) b) \<and> ab (add (add t a) b) = ab (add t a) + unit * b"
    using assms by (intro add_law) (auto simp: algebra_simps)
  moreover have "valid (add t (a + b)) \<and> ab (add t (a + b)) = ab t + unit * (a + b)"
    using assms by (intro add_law) auto
  ultimately show ?thesis by (intro determined) (auto simp: add_rest algebra_simps)
qed

end

subsection \<open>What an adjustment leaves alone\<close>

definition rest_ymd :: "timeinfo \<Rightarrow> int \<times> int \<times> int" where
  "rest_ymd t = (ti_days t, ti_MiliSecond t, ti_MicroSecond t)"

definition rest_yd :: "timeinfo \<Rightarrow> int \<times> int \<times> int \<times> int" where
  "rest_yd t = (ti_month t, ti_day t, ti_MiliSecond t, ti_MicroSecond t)"

lemma rest_steps [simp]:
  "rest_ymd (carry_ymd t) = rest_ymd t" "rest_ymd (carry_hour_ymd t) = rest_ymd t"
  "rest_ymd (borrow_ymd t) = rest_ymd t" "rest_ymd (borrow_hour_ymd t) = rest_ymd t"
  "rest_yd (next_day_yd t) = rest_yd t" "rest_yd (prev_day_yd t) = rest_yd t"
  "rest_yd (carry_hour_yd t) = rest_yd t" "rest_yd (borrow_hour_yd t) = rest_yd t"
  by (simp_all add: rest_ymd_def rest_yd_def carry_ymd_def carry_hour_ymd_def borrow_ymd_def
      borrow_hour_ymd_def next_day_yd_def prev_day_yd_def carry_hour_yd_def borrow_hour_yd_def Let_def)

lemma rest_updates [simp]:
  "rest_ymd (t\<lparr>ti_hour := a\<rparr>) = rest_ymd t" "rest_ymd (t\<lparr>ti_minute := a\<rparr>) = rest_ymd t"
  "rest_ymd (t\<lparr>ti_second := a\<rparr>) = rest_ymd t" "rest_yd (t\<lparr>ti_hour := a\<rparr>) = rest_yd t"
  "rest_yd (t\<lparr>ti_minute := a\<rparr>) = rest_yd t" "rest_yd (t\<lparr>ti_second := a\<rparr>) = rest_yd t"
  by (simp_all add: rest_ymd_def rest_yd_def)

lemma adjust_rest:
  "rest_ymd (AddHourYmd t n) = rest_ymd t" "rest_ymd (SubHourYmd t n) = rest_ymd t"
  "rest_ymd (AddSecondYmd t n) = rest_ymd t" "rest_ymd (SubSecondYmd t n) = rest_ymd t"
  "rest_yd (AddHourYd t n) = rest_yd t" "rest_yd (SubHourYd t n) = rest_yd t"
  "rest_yd (AddSecondYd t n) = rest_yd t" "rest_yd (SubSecondYd t n) = rest_yd t"
  by (simp_all add: AddHourYmd_def SubHourYmd_def AddSecondYmd_def SubSecondYmd_def AddHourYd_def
      SubHourYd_def AddSecondYd_def SubSecondYd_def Let_def)

lemma adjust_out:
  "\<not> (0 < n \<and> n < 24) \<Longrightarrow> AddHourYmd t n = t" "\<not> (0 < n \<and> n < 24) \<Longrightarrow> SubHourYmd t n = t"
  "\<not> (0 < n \<and> n < 24) \<Longrightarrow> AddHourYd t n = t" "\<not> (0 < n \<and> n < 24) \<Longrightarrow> SubHourYd t n = t"
  "\<not> (0 < n \<and> n < 100) \<Longrightarrow> AddSecondYmd t n = t" "\<not> (0 < n \<and> n < 100) \<Longrightarrow> SubSecondYmd t n = t"
  "\<not> (0 < n \<and> n < 100) \<Longrightarrow> AddSecondYd t n = t" "\<not> (0 < n \<and> n < 100) \<Longrightarrow> SubSecondYd t n = t"
  by (auto simp: AddHourYmd_def SubHourYmd_def AddSecondYmd_def SubSecondYmd_def AddHourYd_def
      SubHourYd_def AddSecondYd_def SubSecondYd_def)

lemma second_number_inj:
  fixes d e :: int
  assumes "((d * 24 + a) * 60 + b) * 60 + c = ((e * 24 + a') * 60 + b') * 60 + c'"
    "0 \<le> a" "a < 24" "0 \<le> b" "b < 60" "0 \<le> c" "c < 60"
    "0 \<le> a'" "a' < 24" "0 \<le> b'" "b' < 60" "0 \<le> c'" "c' < 60"
  shows "d = e \<and> a = a' \<and> b = b' \<and> c = c'"
proof -
  have digit: "x = x' \<and> y = y'"
    if "x * k + y = x' * k + y'" "0 \<le> y" "y < k" "0 \<le> y'" "y' < k" for x x' y y' k :: int
  proof -
    have "(x * k + y) div k = x" "(x' * k + y') div k = x'" using that(2-) by auto
    with that(1) show ?thesis by auto
  qed
  have 1: "(d * 24 + a) * 60 + b = (e * 24 + a') * 60 + b' \<and> c = c'"
    using assms by (intro digit)
  then have 2: "d * 24 + a = e * 24 + a' \<and> b = b'" using assms by (intro digit) simp_all
  then have "d = e \<and> a = a'" using assms by (intro digit) simp_all
  with 1 2 show ?thesis by simp
qed

lemma determined_ymd:
  assumes "valid_ymd s" "valid_ymd t" "abs_ymd s = abs_ymd t" "rest_ymd s = rest_ymd t"
  shows "s = t"
proof -
  have "day_ymd s = day_ymd t \<and> ti_hour s = ti_hour t \<and> ti_minute s = ti_minute t
      \<and> ti_second s = ti_second t"
    using assms(1-3) unfolding abs_ymd_day
    by (intro second_number_inj) (simp_all add: valid_ymd_day valid_hms_def)
  moreover from this have "ti_year s = ti_year t \<and> ti_month s = ti_month t \<and> ti_day s = ti_day t"
    using assms(1,2) by (intro day_number_inj) (simp_all add: valid_ymd_def day_ymd_def)
  ultimately show ?thesis using assms(4)
    by (intro timeinfo.equality) (simp_all add: rest_ymd_def)
qed

lemma determined_yd:
  assumes "valid_yd s" "valid_yd t" "abs_yd s = abs_yd t" "rest_yd s = rest_yd t"
  shows "s = t"
proof -
  have "day_yd s = day_yd t \<and> ti_hour s = ti_hour t \<and> ti_minute s = ti_minute t
      \<and> ti_second s = ti_second t"
    using assms(1-3) unfolding abs_yd_day
    by (intro second_number_inj) (simp_all add: valid_yd_day valid_hms_def)
  moreover from this have "ti_year s = ti_year t \<and> ti_days s = ti_days t"
    using assms(1,2) by (intro year_start_inj) (simp_all add: valid_yd_def day_yd_def)
  ultimately show ?thesis using assms(4)
    by (intro timeinfo.equality) (simp_all add: rest_yd_def)
qed

interpretation hour_ymd: clock_adjust abs_ymd valid_ymd rest_ymd 3600 24 AddHourYmd SubHourYmd
  by unfold_locales
    (auto simp: valid_ymd_representable HourYmd_Add_abs HourYmd_Sub_abs adjust_rest
      intro: determined_ymd adjust_out)

interpretation hour_yd: clock_adjust abs_yd valid_yd rest_yd 3600 24 AddHourYd SubHourYd
  by unfold_locales
    (auto simp: valid_yd_representable HourYd_Add_abs HourYd_Sub_abs adjust_rest
      intro: determined_yd adjust_out)

interpretation second_ymd: clock_adjust abs_ymd valid_ymd rest_ymd 1 100 AddSecondYmd SubSecondYmd
  by unfold_locales
    (auto simp: valid_ymd_representable SecondYmd_Add_abs SecondYmd_Sub_abs adjust_rest
      intro: determined_ymd adjust_out)

interpretation second_yd: clock_adjust abs_yd valid_yd rest_yd 1 100 AddSecondYd SubSecondYd
  by unfold_locales
    (auto simp: valid_yd_representable SecondYd_Add_abs SecondYd_Sub_abs adjust_rest
      intro: determined_yd adjust_out)

end
