(* ===== verification/LibTimeDates.thy ===== *)
theory LibTimeDates
  imports LibTimeSpec
begin

text \<open>
  Days of the year, seconds since a year, GPS weeks and Modified Julian Days: the conversions of
  \<^verbatim>\<open>src/lib/lib_time.c\<close> against the absolute day number, and their round trips.
\<close>

subsection \<open>Month and year loops\<close>

lemma month_loop_sum:
  assumes "n \<le> length ms" "0 \<le> a" "\<forall>m \<in> set ms. 0 \<le> m" "a + sum_list ms < 65536"
  shows "month_loop ms n a = Some (a + sum_list (take n ms))"
  using assms
proof (induction ms n a rule: month_loop.induct)
  case (3 m ms n a)
  have "0 \<le> sum_list ms" using 3(4) by (intro sum_list_nonneg) simp
  then have "u16 (a + m) = a + m" using 3(3-5) by simp
  with 3 show ?case by (simp add: algebra_simps)
qed simp_all

lemma month_loop_None: "length ms < n \<Longrightarrow> month_loop ms n a = None"
  by (induction ms n a rule: month_loop.induct) simp_all

lemma mday_facts:
  "length (mday b) = 12" "\<forall>m \<in> set (mday b). 0 \<le> m" "sum_list (mday b) \<le> 366"
  by (simp_all add: mday_def)

lemma DateToDays_eq:
  assumes "1 \<le> m" "m \<le> 13" "0 \<le> d" "d < 256"
  shows "DateToDays y m d = Some (month_start y m + d)"
proof -
  let ?ms = "mday (IsLeapYear y)"
  have s: "month_start y m \<le> 366" "0 \<le> month_start y m"
    using assms(1,2) by (simp_all add: month_start_bound month_start_nonneg)
  have "sum_list ?ms < 65536" using mday_facts(3)[of "IsLeapYear y"] by linarith
  then have "month_loop ?ms (nat (m - 1)) 0 = Some (month_start y m)"
    using assms month_loop_sum[of "nat (m - 1)" ?ms 0] by (simp add: mday_facts month_start_def)
  then show ?thesis using s assms by (simp add: DateToDays_def)
qed

lemma DateToDays_valid:
  assumes "valid_date y m d"
  shows "DateToDays y m d = Some (month_start y m + d)"
  using assms month_len_bounds(2)[of m y] by (intro DateToDays_eq) (auto simp: valid_date_def)

lemma day_loop_date:
  assumes "n < length ms" "\<forall>m \<in> set ms. 0 \<le> m" "1 \<le> d" "d \<le> ms ! n"
  shows "day_loop ms i (sum_list (take n ms) + d) = Some (i + int n + 1, d)"
  using assms
proof (induction ms arbitrary: i n)
  case (Cons m ms)
  show ?case
  proof (cases n)
    case 0
    then show ?thesis using Cons.prems by simp
  next
    case (Suc k)
    have "0 \<le> sum_list (take k ms)"
      using Cons.prems(2) by (intro sum_list_nonneg) (auto dest: in_set_takeD)
    then show ?thesis using Cons.prems Cons.IH[of k "i + 1"] Suc by (simp add: algebra_simps)
  qed
qed simp

lemma DayToDate_month_start:
  assumes "valid_date y m d"
  shows "DayToDate y (month_start y m + d) = Some (m, d)"
  using assms day_loop_date[of "nat (m - 1)" "mday (IsLeapYear y)" d 0]
  by (auto simp: DayToDate_def valid_date_def month_start_def month_len_def mday_facts)

lemma day_loop_total:
  assumes "1 \<le> d" "d \<le> sum_list ms" "\<forall>m \<in> set ms. 0 \<le> m"
  shows "\<exists>n < length ms. day_loop ms i d = Some (i + int n + 1, d - sum_list (take n ms))
     \<and> 1 \<le> d - sum_list (take n ms) \<and> d - sum_list (take n ms) \<le> ms ! n"
  using assms
proof (induction ms i d rule: day_loop.induct)
  case (2 m ms i day)
  show ?case
  proof (cases "day > m")
    case True
    then obtain n where n: "n < length ms"
      "day_loop ms (i + 1) (day - m) = Some (i + 1 + int n + 1, day - m - sum_list (take n ms))"
      "1 \<le> day - m - sum_list (take n ms)" "day - m - sum_list (take n ms) \<le> ms ! n"
      using 2 by auto
    then show ?thesis using True by (intro exI[of _ "Suc n"]) (auto simp: algebra_simps)
  next
    case False
    then show ?thesis using 2 by (intro exI[of _ 0]) simp
  qed
qed simp

lemma DayToDate_valid:
  assumes "1 \<le> n" "n \<le> YearToDay y"
  shows "\<exists>m d. DayToDate y n = Some (m, d) \<and> valid_date y m d \<and> month_start y m + d = n"
proof -
  have "sum_list (mday (IsLeapYear y)) = YearToDay y" by (simp add: mday_def YearToDay_def)
  then obtain k where k: "k < 12"
    "day_loop (mday (IsLeapYear y)) 0 n
       = Some (int k + 1, n - sum_list (take k (mday (IsLeapYear y))))"
    "1 \<le> n - sum_list (take k (mday (IsLeapYear y)))"
    "n - sum_list (take k (mday (IsLeapYear y))) \<le> mday (IsLeapYear y) ! k"
    using assms day_loop_total[of n "mday (IsLeapYear y)" 0] by (auto simp: mday_facts)
  then show ?thesis
    by (intro exI[of _ "int k + 1"] exI[of _ "n - sum_list (take k (mday (IsLeapYear y)))"])
      (auto simp: DayToDate_def valid_date_def month_start_def month_len_def)
qed

lemma year_fold:
  assumes "a \<le> b"
  shows "fold (\<lambda>i acc. u32 (acc + YearToDay i)) [a..b - 1] x
    = (if a = b then x else u32 (x + year_start b - year_start a))"
  using assms
proof (induction "nat (b - a)" arbitrary: a x)
  case 0
  then show ?case by simp
next
  case (Suc n)
  then have "[a..b - 1] = a # [a + 1..b - 1]" by (simp add: upto_rec1)
  then have "fold (\<lambda>i acc. u32 (acc + YearToDay i)) [a..b - 1] x
    = fold (\<lambda>i acc. u32 (acc + YearToDay i)) [a + 1..b - 1] (u32 (x + YearToDay a))" by simp
  also have "\<dots> = u32 (x + year_start b - year_start a)"
    using Suc year_start_step[of a] by (subst Suc(1)) (auto simp: add_diff_eq)
  finally show ?case using Suc by auto
qed

lemma AllYearSecond_eq:
  "AllYearSecond a b = (if a \<le> b then u32 ((year_start b - year_start a) * 86400) else 0)"
  using year_fold[of a b 0] by (auto simp: AllYearSecond_def)

text \<open>Seconds since the first of January of a year.\<close>

lemma DateToSecond_eq:
  assumes "valid_ymd t" "s \<le> ti_year t"
  shows "DateToSecond s t = Some (u32 (abs_ymd t - (year_start s + 1) * 86400))"
proof -
  have v: "valid_date (ti_year t) (ti_month t) (ti_day t)" using assms by (simp add: valid_ymd_def)
  then have "DateToDays (ti_year t) (ti_month t) (ti_day t)
      = Some (month_start (ti_year t) (ti_month t) + ti_day t)" by (rule DateToDays_valid)
  then obtain n where "month_loop (mday (IsLeapYear (ti_year t))) (nat (ti_month t - 1)) 0 = Some n"
    "u16 (n + ti_day t) = month_start (ti_year t) (ti_month t) + ti_day t"
    by (auto simp: DateToDays_def split: option.splits)
  moreover define r where "r = (month_start (ti_year t) (ti_month t) + ti_day t - 1) * 24 * 60 * 60
    + ti_hour t * 60 * 60 + ti_minute t * 60 + ti_second t"
  ultimately have "DateToSecond s t
      = Some (u32 (u32 ((year_start (ti_year t) - year_start s) * 86400) + r))"
    using assms(2) by (simp add: DateToSecond_def AllYearSecond_eq add.assoc)
  moreover have "(year_start (ti_year t) - year_start s) * 86400 + r
      = abs_ymd t - (year_start s + 1) * 86400"
    by (simp add: r_def abs_ymd_def second_number_def day_number_def algebra_simps)
  ultimately show ?thesis by (simp only: u32_add_u32)
qed


subsection \<open>GPS week and second\<close>

definition gps_epoch :: int where "gps_epoch = day_number 1980 1 6 * 86400"

lemma gps_epoch_days: "gps_epoch = (year_start 1981 - 360) * 86400"
  by (simp add: gps_epoch_def day_number_def year_start_def)

lemma gps_loop:
  "1981 \<le> y \<Longrightarrow> fold (\<lambda>yr acc. let acc' = u32 (acc + 365)
      in if IsLeapYear yr then u32 (acc' + 1) else acc') [1981..y - 1] 360
    = u32 (360 + year_start y - year_start 1981)"
proof -
  have step: "(\<lambda>yr acc. let acc' = u32 (acc + 365) in if IsLeapYear yr then u32 (acc' + 1) else acc')
      = (\<lambda>i acc. u32 (acc + YearToDay i))"
    by (intro ext) (simp add: YearToDay_def Let_def add.commute)
  assume "1981 \<le> y"
  then show ?thesis unfolding step by (subst year_fold) auto
qed

lemma gps_split:
  assumes "valid_ymd t" "1981 \<le> ti_year t"
  defines "d \<equiv> day_ymd t - (year_start 1981 - 360)"
  shows "CommonTimeToGPSTime t = Some \<lparr>gps_week = d div 7,
    gps_sow = ti_hour t * 3600 + ti_minute t * 60 + ti_second t + d mod 7 * 86400\<rparr> \<and> 0 \<le> d"
proof -
  have v: "valid_date (ti_year t) (ti_month t) (ti_day t)" and h: "valid_hms t"
    using assms(1) by (simp_all add: valid_ymd_def)
  let ?doy = "month_start (ti_year t) (ti_month t) + ti_day t"
  have doy: "1 \<le> ?doy" "?doy \<le> 366"
    using day_of_year_bounds[OF v] YearToDay_bounds(2)[of "ti_year t"] by linarith+
  have y: "year_start 1981 \<le> year_start (ti_year t)"
    "year_start (ti_year t) \<le> year_start 65536"
    using assms(1,2) by (auto intro!: year_start_mono simp: valid_ymd_def valid_year_def)
  have "year_start 65536 < 30000000" by (simp add: year_start_def)
  then have "year_start (ti_year t) + ?doy < 30000000 + 366" using doy y by linarith
  moreover have d: "d = 360 + year_start (ti_year t) - year_start 1981 + ?doy"
    by (simp add: d_def day_ymd_def day_number_def)
  moreover have "0 \<le> year_start 1981" by (simp add: year_start_def)
  ultimately have b: "0 \<le> d" "d < 4294967296" using doy y by linarith+
  have m: "0 \<le> d mod 7" "d mod 7 < 7" by simp_all
  then have "u8 (d mod 7) = d mod 7" by (intro u8_id) linarith+
  moreover have "u32 (ti_hour t * 3600 + ti_minute t * 60 + ti_second t + d mod 7 * 86400)
      = ti_hour t * 3600 + ti_minute t * 60 + ti_second t + d mod 7 * 86400"
    using h m by (intro u32_id) (auto simp: valid_hms_def)
  moreover have "u32 (u32 (360 + year_start (ti_year t) - year_start 1981) + ?doy) = d"
    using b by (simp only: u32_add_u32 flip: d) simp
  ultimately show ?thesis
    using DateToDays_valid[OF v] gps_loop[OF assms(2)] assms(2) b(1)
    by (simp add: CommonTimeToGPSTime_def)
qed

subsection \<open>Modified Julian Day\<close>

lemma century_sum:
  fixes y :: int
  shows "3 * (y div 100 + 1) div 4 = y div 100 - y div 400"
proof -
  have "y div 400 = y div 100 div 4"
    using zdiv_zmult2_eq[of 4 y 100] by simp
  moreover have "3 * (q + 1) div 4 = q - q div 4" for q :: int by presburger
  ultimately show ?thesis by simp
qed


text \<open>A year that starts in March, and where a month starts relative to the next January.\<close>

definition march_year :: "int \<Rightarrow> int \<Rightarrow> int" where
  "march_year y m = (if m \<le> 2 then y - 1 else y)"

definition march_offset :: "int \<Rightarrow> int" where
  "march_offset m = cdiv (275 * m) 9 - (if m \<le> 2 then 30 else 397)"

lemma day_number_march:
  assumes "1 \<le> m" "m \<le> 12"
  shows "day_number y m d = year_start (march_year y m + 1) + march_offset m + d"
proof (cases "m \<le> 2")
  case True
  with assms(1) have "m = 1 \<or> m = 2" by auto
  then show ?thesis by (auto simp: day_number_def march_year_def march_offset_def month_starts)
next
  case False
  then have "m = 3 \<or> m = 4 \<or> m = 5 \<or> m = 6 \<or> m = 7 \<or> m = 8 \<or> m = 9 \<or> m = 10 \<or> m = 11 \<or> m = 12"
    using month_cases[OF assms] by auto
  then show ?thesis
    by (elim disjE) (simp_all add: day_number_def march_year_def march_offset_def month_starts
        year_start_step YearToDay_def)
qed

lemma seven_quarters: "7 * z div 4 = 2 * z - (z - 1) div 4 - (1 :: int)"
  by presburger

lemma DateToMjd_march:
  assumes "1 \<le> m" "m \<le> 12" "1 \<le> y"
  shows "DateToMjd y m d = year_start (march_year y m + 1) + march_offset m + d - 678576"
proof -
  define z where "z = march_year y m"
  have z: "0 \<le> z" "z = (if m \<le> 2 then y - 1 else y)" using assms by (auto simp: z_def march_year_def)
  have "cdiv (m + 9) 12 = (if m \<le> 2 then 0 else 1)" "cdiv (m - 9) 7 = (if m \<le> 2 then -1 else 0)"
    using month_cases[OF assms(1,2)] by (auto simp: cdiv_def)
  then have a: "cdiv (7 * (y + cdiv (m + 9) 12)) 4 = 7 * (z + 1) div 4"
    "cdiv (y + cdiv (m - 9) 7) 100 = z div 100"
    using assms z by (auto simp: cdiv_def)
  have "0 \<le> z div 100" using z(1) by (rule pos_imp_zdiv_nonneg_iff[THEN iffD2, rotated]) simp
  then have c: "cdiv (3 * (z div 100 + 1)) 4 = z div 100 - z div 400"
    using century_sum[of z] by (simp only: cdiv_def) auto
  have "year_start (z + 1) = 365 * z + z div 4 - z div 100 + z div 400"
    by (simp only: year_start_def add_diff_cancel_right')
  moreover have "7 * (z + 1) div 4 = 2 * (z + 1) - z div 4 - 1"
    using seven_quarters[of "z + 1"] by (simp only: add_diff_cancel_right')
  moreover define q4 q100 q400 where "q4 = z div 4" and "q100 = z div 100" and "q400 = z div 400"
  ultimately show ?thesis
    using z(2) unfolding DateToMjd_def a c march_offset_def z_def[symmetric] by simp
qed

theorem DateToMjd_day:
  assumes "valid_date y m d" "1 \<le> y"
  shows "DateToMjd y m d = day_number y m d - 678576"
  using assms by (simp add: DateToMjd_march day_number_march valid_date_def)


text \<open>
  The three divisions of \<^const>\<open>MjdToDate\<close>: the century, the year of the century and the month.
\<close>

lemma century_quarter: "(146097 * C + 3) div 4 = 36524 * C + (C + 3) div (4 :: int)"
  using div_mult_self2[of 4 "C + 3" "36524 * C"] by (simp add: algebra_simps)

lemma year_quarter: "1461 * Y div 4 = 365 * Y + Y div (4 :: int)"
  using div_mult_self2[of 4 Y "365 * Y"] by (simp add: algebra_simps)

lemma century_step:
  fixes J C r :: int
  assumes "J = (146097 * C + 3) div 4 + r" "0 \<le> r" "r \<le> 36523 \<or> r = 36524 \<and> C mod 4 = 0"
  shows "4 * J div 146097 = C"
proof (rule div_eqI)
  define a where "a = (146097 * C + 3) div 4"
  have a: "146097 * C \<le> 4 * a" "4 * a \<le> 146097 * C + 3" unfolding a_def by linarith+
  then show "146097 * C \<le> 4 * J" using assms(1,2) unfolding a_def[symmetric] by simp
  have "C mod 4 = 0 \<Longrightarrow> 4 * ((C + 3) div 4) = C" by presburger
  then have "C mod 4 = 0 \<Longrightarrow> 4 * a = 146097 * C" unfolding a_def century_quarter by simp
  then show "4 * J < 146097 * (C + 1)" using a assms unfolding a_def[symmetric] by auto
qed simp

lemma year_step:
  fixes r Y doy :: int
  assumes "r = 1461 * Y div 4 + doy" "0 \<le> Y" "Y < 100" "0 \<le> doy"
    "doy \<le> 364 \<or> doy = 365 \<and> Y mod 4 = 3"
  shows "4000 * (r + 1) div 1461001 = Y"
proof (rule div_eqI)
  define a where "a = 1461 * Y div 4"
  have a: "1461 * Y - 3 \<le> 4 * a" "4 * a \<le> 1461 * Y" unfolding a_def by linarith+
  then show "1461001 * Y \<le> 4000 * (r + 1)" using assms(1-4) unfolding a_def[symmetric] by simp
  have "Y mod 4 = 3 \<Longrightarrow> 4 * (Y div 4) = Y - 3" by presburger
  then have "Y mod 4 = 3 \<Longrightarrow> 4 * a = 1461 * Y - 3" unfolding a_def year_quarter by simp
  then show "4000 * (r + 1) < 1461001 * (Y + 1)" using a assms unfolding a_def[symmetric] by auto
qed simp

definition march_month :: "int \<Rightarrow> int" where
  "march_month m = (if m \<le> 2 then m + 10 else m - 2)"

lemma month_step:
  assumes "1 \<le> m" "m \<le> 12" "1 \<le> d" "d \<le> month_len y m"
  shows "80 * (march_offset m + d + 336) div 2447 = march_month m"
    "march_offset m + d + 336 - 2447 * march_month m div 80 = d"
    "0 \<le> march_offset m + d + 305"
    "march_month m div 11 = (if m \<le> 2 then 1 else 0)"
proof -
  have d: "d \<le> 31" using month_len_bounds(2)[OF assms(1,2), of y] assms(4) by simp
  have "m = 1 \<or> m = 2 \<or> m = 3 \<or> m = 4 \<or> m = 5 \<or> m = 6 \<or> m = 7 \<or> m = 8 \<or> m = 9 \<or> m = 10
         \<or> m = 11 \<or> m = 12" using month_cases[OF assms(1,2)] .
  then show "march_offset m + d + 336 - 2447 * march_month m div 80 = d"
    "0 \<le> march_offset m + d + 305" "march_month m div 11 = (if m \<le> 2 then 1 else 0)"
    using assms(3) by (elim disjE; simp add: march_offset_def march_month_def)+
  show "80 * (march_offset m + d + 336) div 2447 = march_month m"
    using month_cases[OF assms(1,2)] d assms(3,4)
    by (intro div_eqI; elim disjE; simp add: march_offset_def march_month_def split: if_splits)
qed

lemma march_doy_bound:
  assumes "valid_date y m d"
  shows "march_offset m + d + 305 \<le> 364
    \<or> march_offset m + d + 305 = 365 \<and> IsLeapYear (march_year y m + 1)"
  using month_cases[of m] assms
  by (auto simp: valid_date_def march_offset_def march_year_def split: if_splits)

lemma leap_in_century:
  assumes "IsLeapYear (100 * c + Y + 1)"
  shows "Y mod 4 = 3" "Y = 99 \<Longrightarrow> c mod 4 = 3"
proof -
  have "(100 * c + Y + 1) mod 4 = 0"
    using assms mod_mod_cancel[of 4 400 "100 * c + Y + 1"] by (auto simp: IsLeapYear_def)
  then show "Y mod 4 = 3" by presburger
  assume "Y = 99"
  then have e: "100 * c + Y + 1 = 100 * (c + 1)" by simp
  have "100 * (c + 1) mod 400 = 0" using assms unfolding e by (auto simp: IsLeapYear_def)
  moreover have "100 * (c + 1) mod (100 * 4) = 100 * ((c + 1) mod 4)" by (rule mult_mod_right[symmetric])
  ultimately have "(c + 1) mod 4 = 0" by simp
  then show "c mod 4 = 3" by presburger
qed

lemma year_start_century:
  assumes "0 \<le> Y" "Y < 100"
  shows "year_start (100 * c + Y + 1) = (146097 * (c + 49) + 3) div 4 + 1461 * Y div 4 - 1789689"
proof -
  define p q where "p = Y div 4" and "q = c div 4"
  have h: "(100 * c + Y) div 100 = c" using assms by (intro div_eqI) auto
  have "(100 * c + Y) div 400 = q"
    using zdiv_zmult2_eq[of 4 "100 * c + Y" 100] h by (simp add: q_def)
  moreover have "(100 * c + Y) div 4 = 25 * c + p"
    using div_mult_self2[of 4 Y "25 * c"] by (simp add: algebra_simps p_def)
  ultimately have "year_start (100 * c + Y + 1) = 365 * (100 * c + Y) + (25 * c + p) - c + q"
    unfolding year_start_def add_diff_cancel_right' using h by (simp only:)
  moreover have "(146097 * (c + 49) + 3) div 4 = 36524 * (c + 49) + (13 + q)"
    unfolding century_quarter q_def using div_mult_self2[of 4 c 13] by simp
  moreover have "1461 * Y div 4 = 365 * Y + p" by (simp only: year_quarter p_def)
  ultimately show ?thesis by simp
qed

lemma MjdToDate_DateToMjd_eq:
  assumes v: "valid_date y m d" and y: "1 \<le> y"
  shows "MjdToDate (DateToMjd y m d) = (y, m, d)"
proof -
  define z c Y doy r J where "z = march_year y m" and "c = z div 100" and "Y = z mod 100"
    and "doy = march_offset m + d + 305" and "r = 1461 * Y div 4 + doy"
    and "J = (146097 * (c + 49) + 3) div 4 + r"
  have m: "1 \<le> m" "m \<le> 12" and d: "1 \<le> d" "d \<le> month_len y m"
    using v by (simp_all add: valid_date_def)
  note month = month_step[OF m d]
  have z: "0 \<le> z" using m y by (auto simp: z_def march_year_def)
  have zc: "z = 100 * c + Y" "0 \<le> Y" "Y < 100" "0 \<le> c"
    using z by (simp_all add: c_def Y_def pos_imp_zdiv_nonneg_iff)
  have doy: "0 \<le> doy" "doy \<le> 364 \<or> doy = 365 \<and> Y mod 4 = 3 \<and> (Y = 99 \<longrightarrow> c mod 4 = 3)"
    using month(3) march_doy_bound[OF v] leap_in_century[of c Y, folded zc(1)]
    by (auto simp: doy_def z_def[symmetric])
  have mjd: "DateToMjd y m d + 2400001 + 68569 = J"
    using DateToMjd_march[OF m y] year_start_century[OF zc(2,3), of c]
    by (simp add: J_def r_def doy_def z_def[symmetric] zc(1)[symmetric])
  have r: "0 \<le> r" "r \<le> 36523 \<or> r = 36524 \<and> (c + 49) mod 4 = 0"
  proof -
    have q: "0 \<le> Y div 4" "Y div 4 \<le> 24" using zc(2,3) by auto
    then show "0 \<le> r" using doy(1) zc(2) by (simp add: r_def year_quarter)
    show "r \<le> 36523 \<or> r = 36524 \<and> (c + 49) mod 4 = 0"
    proof (cases "doy = 365 \<and> Y = 99")
      case True
      moreover from this doy(2) have "(c + 49) mod 4 = 0" by presburger
      ultimately show ?thesis by (simp add: r_def)
    next
      case False
      then have "365 * Y + doy \<le> 36499" using doy zc(3) by auto
      then show ?thesis using q by (simp add: r_def year_quarter)
    qed
  qed
  have J0: "0 \<le> J" using zc(4) r(1) by (simp add: J_def)
  have C: "cdiv (4 * J) 146097 = c + 49"
    using century_step[OF J_def r] J0 by (simp add: cdiv_def)
  have c1: "cdiv (146097 * (c + 49) + 3) 4 = (146097 * (c + 49) + 3) div 4"
    using zc(4) by (intro cdiv_nonneg) simp
  have Yq: "cdiv (4000 * (r + 1)) 1461001 = Y" "cdiv (1461 * Y) 4 = 1461 * Y div 4"
    using year_step[OF r_def zc(2,3) doy(1)] doy(2) r(1) zc(2) by (auto simp: cdiv_def)
  have J31: "doy + 31 = march_offset m + d + 336" by (simp add: doy_def)
  have mm: "0 \<le> march_month m" using m by (simp add: march_month_def)
  have M: "cdiv (80 * (doy + 31)) 2447 = march_month m"
    "cdiv (2447 * march_month m) 80 = 2447 * march_month m div 80"
    "cdiv (march_month m) 11 = (if m \<le> 2 then 1 else 0)"
    using month doy(1) mm by (simp_all add: J31[symmetric])
  have sub: "J - (146097 * (c + 49) + 3) div 4 = r" "r - 1461 * Y div 4 = doy"
    by (simp_all only: J_def r_def add_diff_cancel_left')
  have "MjdToDate (DateToMjd y m d) = (100 * (c + 49 - 49) + Y + (if m \<le> 2 then 1 else 0),
      march_month m + 2 - 12 * (if m \<le> 2 then 1 else 0),
      doy + 31 - 2447 * march_month m div 80)"
    unfolding MjdToDate_def Let_def mjd C c1
    by (simp only: sub Yq M)
  also have "\<dots> = (y, m, d)"
    using zc(1) month(2) by (auto simp: J31 z_def march_year_def march_month_def)
  finally show ?thesis .
qed

end
