(* ===== verification/LibTimeText.thy ===== *)
theory LibTimeText
  imports LibTimeSpec
begin

text \<open>
  The textual forms of a date and of a time of \<^verbatim>\<open>src/lib/lib_time.c\<close>: the checks accept exactly
  the strings that render a date of the calendar and a time of the day.
\<close>

definition digit_char :: "int \<Rightarrow> char" where
  "digit_char k = char_of (nat (48 + k))"

definition render2 :: "int \<Rightarrow> string" where
  "render2 n = [digit_char (n div 10), digit_char (n mod 10)]"

definition render4 :: "int \<Rightarrow> string" where
  "render4 n = [digit_char (n div 1000), digit_char (n div 100 mod 10), digit_char (n div 10 mod 10),
     digit_char (n mod 10)]"

definition render_date :: "int \<Rightarrow> int \<Rightarrow> int \<Rightarrow> string" where
  "render_date y m d = render4 y @ [CHR ''-''] @ render2 m @ [CHR ''-''] @ render2 d"

definition render_time :: "int \<Rightarrow> int \<Rightarrow> int \<Rightarrow> string" where
  "render_time h m s = render2 h @ [CHR '':''] @ render2 m @ [CHR '':''] @ render2 s"

lemma dig_digit_char [simp]: "0 \<le> k \<Longrightarrow> k < 208 \<Longrightarrow> dig (digit_char k) = k"
  by (simp add: dig_def digit_char_def of_char_of)

lemma digit_char_dig [simp]: "digit_char (dig c) = c"
  by (simp add: dig_def digit_char_def)

lemma digit_in_dig: "digit_in c lo hi \<longleftrightarrow> lo \<le> dig c \<and> dig c \<le> hi"
  by (auto simp: digit_in_def dig_def)

lemma dig_inj: "dig c = dig c' \<Longrightarrow> c = c'"
  by (metis digit_char_dig)

lemma digits2:
  assumes "0 \<le> a" "0 \<le> b" "b \<le> (9 :: int)"
  shows "(a * 10 + b) div 10 = a" "(a * 10 + b) mod 10 = b"
  using assms by simp_all

lemma render2_digits:
  assumes "0 \<le> dig a" "dig a \<le> 9" "0 \<le> dig b" "dig b \<le> 9"
  shows "render2 (dig a * 10 + dig b) = [a, b]"
  using assms by (simp add: render2_def)

lemma render4_digits:
  assumes "0 \<le> dig a" "dig a \<le> 9" "0 \<le> dig b" "dig b \<le> 9" "0 \<le> dig c" "dig c \<le> 9"
    "0 \<le> dig d" "dig d \<le> 9"
  shows "render4 (dig a * 1000 + dig b * 100 + dig c * 10 + dig d) = [a, b, c, d]"
proof -
  let ?n = "dig a * 1000 + dig b * 100 + dig c * 10 + dig d"
  have "?n div 1000 = dig a" using assms by (intro div_eqI) auto
  moreover have "?n div 100 = dig a * 10 + dig b" using assms by (intro div_eqI) auto
  moreover have "?n div 10 = (dig a * 10 + dig b) * 10 + dig c" using assms by (intro div_eqI) auto
  moreover have "?n = ((dig a * 10 + dig b) * 10 + dig c) * 10 + dig d" by simp
  then have "?n mod 10 = dig d" using assms by (simp only: mod_mult_self3) simp
  moreover have "(100 * dig a + dig b * 10 + dig c) mod 10 = dig c"
    using digits2(2)[of "10 * dig a + dig b" "dig c"] assms by simp
  ultimately show ?thesis using assms by (simp add: render4_def)
qed

lemma render2_eq:
  assumes "0 \<le> n" "n \<le> 99"
  shows "render2 n = [a, b] \<longleftrightarrow> n = dig a * 10 + dig b \<and> 0 \<le> dig b \<and> dig b \<le> 9"
proof
  have "0 \<le> n div 10" "n div 10 \<le> 9" "0 \<le> n mod 10" "n mod 10 \<le> 9" using assms by auto
  then have d: "dig (digit_char (n div 10)) = n div 10" "dig (digit_char (n mod 10)) = n mod 10" by simp_all
  then show "render2 n = [a, b] \<Longrightarrow> n = dig a * 10 + dig b \<and> 0 \<le> dig b \<and> dig b \<le> 9"
    by (auto simp: render2_def)
  assume n: "n = dig a * 10 + dig b \<and> 0 \<le> dig b \<and> dig b \<le> 9"
  then have "n div 10 = dig a" "n mod 10 = dig b" by auto
  then show "render2 n = [a, b]" by (simp add: render2_def)
qed

lemma string_length8:
  "length s = 8 \<longleftrightarrow> (\<exists>a b c d e f g h. s = [a, b, c, d, e, f, g, h])"
  by (auto simp: numeral_eq_Suc length_Suc_conv)

lemma string_length10:
  "length s = 10 \<longleftrightarrow> (\<exists>a b c d e f g h i j. s = [a, b, c, d, e, f, g, h, i, j])"
  by (auto simp: numeral_eq_Suc length_Suc_conv)

lemma u_digits:
  "0 \<le> a \<Longrightarrow> a \<le> 9 \<Longrightarrow> 0 \<le> b \<Longrightarrow> b \<le> 9 \<Longrightarrow> u8 (a * 10 + b) = a * 10 + b"
  "0 \<le> a \<Longrightarrow> a \<le> 9 \<Longrightarrow> 0 \<le> b \<Longrightarrow> b \<le> 9 \<Longrightarrow> 0 \<le> c \<Longrightarrow> c \<le> 9 \<Longrightarrow> 0 \<le> d \<Longrightarrow> d \<le> 9
    \<Longrightarrow> u16 (a * 1000 + b * 100 + c * 10 + d) = a * 1000 + b * 100 + c * 10 + d"
  by (auto intro!: u8_id u16_id)

lemma date_validity_digits:
  "date_validity [a, b, c, d, e, f, g, h, i, j] \<longleftrightarrow>
     e = CHR ''-'' \<and> h = CHR ''-'' \<and>
     0 \<le> dig a \<and> dig a \<le> 9 \<and> 0 \<le> dig b \<and> dig b \<le> 9 \<and> 0 \<le> dig c \<and> dig c \<le> 9 \<and>
     0 \<le> dig d \<and> dig d \<le> 9 \<and> 0 \<le> dig f \<and> dig f \<le> 1 \<and> 0 \<le> dig g \<and> dig g \<le> 9 \<and>
     0 \<le> dig i \<and> dig i \<le> 3 \<and> 0 \<le> dig j \<and> dig j \<le> 9 \<and>
     valid_date (dig a * 1000 + dig b * 100 + dig c * 10 + dig d) (dig f * 10 + dig g)
       (dig i * 10 + dig j)"
proof -
  let ?y = "dig a * 1000 + dig b * 100 + dig c * 10 + dig d"
  let ?m = "dig f * 10 + dig g" and ?d = "dig i * 10 + dig j"
  have v: "valid_date ?y ?m ?d \<longleftrightarrow>
      1 \<le> ?m \<and> ?m \<le> 12 \<and> 1 \<le> ?d \<and> ?d \<le> mday (IsLeapYear ?y) ! nat (?m - 1)"
    by (simp add: valid_date_def month_len_def)
  have l: "list_all P [0..<4] \<longleftrightarrow> P 0 \<and> P 1 \<and> P 2 \<and> P 3" for P
    by (simp add: numeral_eq_Suc)
  show ?thesis unfolding v
    by (cases "IsLeapYear ?y")
      (auto simp: date_validity_def digit_in_dig u_digits Let_def l)
qed

lemma time_validity_digits:
  "time_validity [a, b, c, d, e, f, g, h] \<longleftrightarrow>
     c = CHR '':'' \<and> f = CHR '':'' \<and>
     0 \<le> dig a \<and> dig a \<le> 2 \<and> 0 \<le> dig b \<and> dig b \<le> 9 \<and> 0 \<le> dig d \<and> dig d \<le> 5 \<and>
     0 \<le> dig e \<and> dig e \<le> 9 \<and> 0 \<le> dig g \<and> dig g \<le> 5 \<and> 0 \<le> dig h \<and> dig h \<le> 9 \<and>
     dig a * 10 + dig b < 24"
  by (auto simp: time_validity_def digit_in_dig u_digits Let_def split: if_splits)


text \<open>Every number of two or four digits is rendered by the digits it consists of.\<close>

lemma render2_obtain:
  assumes "0 \<le> n" "n < 10 * (k + 1)" "k \<le> 9"
  obtains a b where "render2 n = [digit_char a, digit_char b]" "n = a * 10 + b"
    "0 \<le> a" "a \<le> k" "0 \<le> b" "b \<le> 9"
proof
  show "render2 n = [digit_char (n div 10), digit_char (n mod 10)]" by (simp add: render2_def)
qed (use assms in auto)

lemma render4_obtain:
  assumes "0 \<le> n" "n \<le> 9999"
  obtains a b c d where "render4 n = [digit_char a, digit_char b, digit_char c, digit_char d]"
    "n = a * 1000 + b * 100 + c * 10 + d"
    "0 \<le> a" "a \<le> 9" "0 \<le> b" "b \<le> 9" "0 \<le> c" "c \<le> 9" "0 \<le> d" "d \<le> 9"
proof
  show "render4 n = [digit_char (n div 1000), digit_char (n div 100 mod 10),
      digit_char (n div 10 mod 10), digit_char (n mod 10)]" by (simp add: render4_def)
  have "n div 100 = n div 10 div 10" "n div 1000 = n div 10 div 10 div 10"
    using zdiv_zmult2_eq[of 10 n 10] zdiv_zmult2_eq[of 10 n 100] by simp_all
  moreover have "k = k div 10 * 10 + k mod 10" for k :: int by simp
  from this[of n] this[of "n div 10"] this[of "n div 10 div 10"]
  have "n = ((n div 10 div 10 div 10 * 10 + n div 10 div 10 mod 10) * 10 + n div 10 mod 10) * 10 + n mod 10"
    by presburger
  ultimately show "n = n div 1000 * 1000 + n div 100 mod 10 * 100 + n div 10 mod 10 * 10 + n mod 10"
    by (simp only: algebra_simps)
  show "0 \<le> n div 1000" "n div 1000 \<le> 9" using assms by linarith+
qed (use pos_mod_sign[of 10] pos_mod_bound[of 10] in auto)

lemma date_validity_iff:
  "date_validity s \<longleftrightarrow>
    (\<exists>y m d. 0 \<le> y \<and> y \<le> 9999 \<and> valid_date y m d \<and> s = render_date y m d)"
proof
  assume v: "date_validity s"
  then have "length s = 10" by (auto simp: date_validity_def split: if_splits)
  then obtain a b c d e f g h i j where s: "s = [a, b, c, d, e, f, g, h, i, j]"
    by (auto simp: string_length10)
  note * = v[unfolded s date_validity_digits]
  have "s = render_date (dig a * 1000 + dig b * 100 + dig c * 10 + dig d) (dig f * 10 + dig g)
      (dig i * 10 + dig j)"
    unfolding render_date_def using * by (simp add: render4_digits render2_digits s)
  with * show "\<exists>y m d. 0 \<le> y \<and> y \<le> 9999 \<and> valid_date y m d \<and> s = render_date y m d"
    by (intro exI conjI) auto
next
  assume "\<exists>y m d. 0 \<le> y \<and> y \<le> 9999 \<and> valid_date y m d \<and> s = render_date y m d"
  then obtain y m d where y: "0 \<le> y" "y \<le> 9999" and v: "valid_date y m d"
    and s: "s = render_date y m d" by blast
  have md: "0 \<le> m" "m < 10 * (1 + 1)" "0 \<le> d" "d < 10 * (3 + 1)"
    using v month_len_bounds(2)[of m y] by (auto simp: valid_date_def)
  obtain a b c e where Y: "render4 y = [digit_char a, digit_char b, digit_char c, digit_char e]"
    "y = a * 1000 + b * 100 + c * 10 + e"
    "0 \<le> a" "a \<le> 9" "0 \<le> b" "b \<le> 9" "0 \<le> c" "c \<le> 9" "0 \<le> e" "e \<le> 9"
    using render4_obtain[OF y] .
  obtain f g where M: "render2 m = [digit_char f, digit_char g]" "m = f * 10 + g"
    "0 \<le> f" "f \<le> 1" "0 \<le> g" "g \<le> 9" using render2_obtain[OF md(1,2)] by auto
  obtain i j where D: "render2 d = [digit_char i, digit_char j]" "d = i * 10 + j"
    "0 \<le> i" "i \<le> 3" "0 \<le> j" "j \<le> 9" using render2_obtain[OF md(3,4)] by auto
  show "date_validity s"
    using v Y(3-) M(3-) D(3-) unfolding s render_date_def Y(1) M(1) D(1) append.simps
    by (simp add: date_validity_digits flip: Y(2) M(2) D(2))
qed

lemma time_validity_iff:
  "time_validity s \<longleftrightarrow>
    (\<exists>h m c. 0 \<le> h \<and> h < 24 \<and> 0 \<le> m \<and> m < 60 \<and> 0 \<le> c \<and> c < 60 \<and> s = render_time h m c)"
proof
  assume v: "time_validity s"
  then have "length s = 8" by (auto simp: time_validity_def split: if_splits)
  then obtain a b c d e f g h where s: "s = [a, b, c, d, e, f, g, h]"
    by (auto simp: string_length8)
  note * = v[unfolded s time_validity_digits]
  have "s = render_time (dig a * 10 + dig b) (dig d * 10 + dig e) (dig g * 10 + dig h)"
    unfolding render_time_def using * by (simp add: render2_digits s)
  with * show "\<exists>h m c. 0 \<le> h \<and> h < 24 \<and> 0 \<le> m \<and> m < 60 \<and> 0 \<le> c \<and> c < 60
      \<and> s = render_time h m c"
    by (intro exI conjI) auto
next
  assume "\<exists>h m c. 0 \<le> h \<and> h < 24 \<and> 0 \<le> m \<and> m < 60 \<and> 0 \<le> c \<and> c < 60 \<and> s = render_time h m c"
  then obtain h m c where b: "0 \<le> h" "h < 24" "0 \<le> m" "m < 60" "0 \<le> c" "c < 60"
    and s: "s = render_time h m c" by blast
  have l: "h < 10 * (2 + 1)" "m < 10 * (5 + 1)" "c < 10 * (5 + 1)" using b by auto
  obtain i j where H: "render2 h = [digit_char i, digit_char j]" "h = i * 10 + j"
    "0 \<le> i" "i \<le> 2" "0 \<le> j" "j \<le> 9" using render2_obtain[OF b(1) l(1)] by auto
  obtain k n where M: "render2 m = [digit_char k, digit_char n]"
    "0 \<le> k" "k \<le> 5" "0 \<le> n" "n \<le> 9" using render2_obtain[OF b(3) l(2)] by simp metis
  obtain p q where C: "render2 c = [digit_char p, digit_char q]"
    "0 \<le> p" "p \<le> 5" "0 \<le> q" "q \<le> 9" using render2_obtain[OF b(5) l(3)] by simp metis
  show "time_validity s"
    using b(2) H(2-) M(2-) C(2-) unfolding s render_time_def H(1) M(1) C(1) append.simps
    by (simp add: time_validity_digits)
qed

end
