(* ===== verification/TimeProps.thy ===== *)
theory TimeProps
  imports LibTimeAdjust LibTimeDates LibTimeText
begin

text \<open>The properties of the calendar code of \<^verbatim>\<open>src/lib/lib_time.c\<close>.\<close>

text \<open>A time that the witnesses start from: 2016-12-31 23:59:59, the 366th day.\<close>

definition new_year_eve :: timeinfo where
  "new_year_eve = \<lparr>ti_year = 2016, ti_days = 366, ti_month = 12, ti_day = 31, ti_hour = 23,
     ti_minute = 59, ti_second = 59, ti_MiliSecond = 0, ti_MicroSecond = 0\<rparr>"

lemma new_year_eve_ok [simp]:
  "valid_ymd new_year_eve" "valid_yd new_year_eve" "abs_ymd new_year_eve = 63618911999"
  "abs_yd new_year_eve = 63618911999"
  by (simp_all add: new_year_eve_def valid_ymd_def valid_yd_def valid_year_def valid_date_def
      valid_hms_def abs_ymd_def abs_yd_def second_number_def day_number_def month_starts
      year_start_def YearToDay_def IsLeapYear_def)

lemma end_second_val: "first_second = 86400" "end_second = 2068084828800"
  by (simp_all add: first_second_def end_second_def year_start_def)

text \<open>
  C30: adding or subtracting 1 to 99 seconds in the year-month-day form moves the absolute
  second by exactly that number, through every carry and borrow of minute, hour, day, month,
  leap day and year, and keeps the time well formed; any other number leaves the time as it is.
\<close>

theorem second_ymd_exact:
  assumes "valid_ymd t"
  shows "(0 < n \<and> n < 100 \<and> representable (abs_ymd t + n) \<longrightarrow>
      valid_ymd (AddSecondYmd t n) \<and> abs_ymd (AddSecondYmd t n) = abs_ymd t + n) \<and>
    (0 < n \<and> n < 100 \<and> representable (abs_ymd t - n) \<longrightarrow>
      valid_ymd (SubSecondYmd t n) \<and> abs_ymd (SubSecondYmd t n) = abs_ymd t - n) \<and>
    (\<not> (0 < n \<and> n < 100) \<longrightarrow> AddSecondYmd t n = t \<and> SubSecondYmd t n = t)"
  using assms second_ymd.add_law[of t n] second_ymd.sub_law[of t n]
    second_ymd.add_out[of n t] second_ymd.sub_out[of n t] by auto

theorem second_ymd_exact_witness:
  "abs_ymd (AddSecondYmd new_year_eve 2) = 63618912001 \<and>
   abs_ymd (SubSecondYmd new_year_eve 99) = 63618911900 \<and> AddSecondYmd new_year_eve 100 = new_year_eve"
  using second_ymd_exact[of new_year_eve 2] second_ymd_exact[of new_year_eve 99]
    second_ymd_exact[of new_year_eve 100]
  by (simp add: representable_def end_second_val)

text \<open>
  The subtraction of seconds undoes the addition and the other way round, field by field,
  so a leap-second correction that is applied and taken back leaves the time unchanged.
\<close>

theorem second_ymd_inverse:
  assumes "valid_ymd t" "representable (abs_ymd t + n)" "representable (abs_ymd t - n)"
  shows "SubSecondYmd (AddSecondYmd t n) n = t \<and> AddSecondYmd (SubSecondYmd t n) n = t"
  using assms second_ymd.sub_add[of t n] second_ymd.add_sub[of t n] by simp

theorem second_ymd_inverse_witness:
  "SubSecondYmd (AddSecondYmd new_year_eve 37) 37 = new_year_eve"
  using second_ymd_inverse[of new_year_eve 37] by (simp add: representable_def end_second_val)

text \<open>
  The hour offset of a time zone, 1 to 23 hours either way in the year-month-day form,
  moves the absolute second by exactly that number of hours and is undone by its counterpart.
\<close>

theorem hour_ymd_exact:
  assumes "valid_ymd t" "0 < n" "n < 24"
    and "representable (abs_ymd t + 3600 * n)" "representable (abs_ymd t - 3600 * n)"
  shows "valid_ymd (AddHourYmd t n) \<and> abs_ymd (AddHourYmd t n) = abs_ymd t + 3600 * n \<and>
    valid_ymd (SubHourYmd t n) \<and> abs_ymd (SubHourYmd t n) = abs_ymd t - 3600 * n \<and>
    SubHourYmd (AddHourYmd t n) n = t \<and> AddHourYmd (SubHourYmd t n) n = t"
  using assms hour_ymd.add_law[of t n] hour_ymd.sub_law[of t n] hour_ymd.sub_add[of t n]
    hour_ymd.add_sub[of t n] by simp

theorem hour_ymd_exact_witness:
  "abs_ymd (AddHourYmd new_year_eve 8) = 63618940799 \<and> SubHourYmd (AddHourYmd new_year_eve 8) 8 = new_year_eve"
  using hour_ymd_exact[of new_year_eve 8] by (simp add: representable_def end_second_val)

text \<open>
  The year-day form: adding and subtracting seconds and hours moves the absolute second by
  the amount, over the end of a common and of a leap year, and the results are well formed.
\<close>

theorem yd_exact:
  assumes "valid_yd t" "0 < h" "h < 24" "0 < n" "n < 100"
    and "representable (abs_yd t + 3600 * h)" "representable (abs_yd t - 3600 * h)"
    and "representable (abs_yd t + n)" "representable (abs_yd t - n)"
  shows "valid_yd (AddHourYd t h) \<and> abs_yd (AddHourYd t h) = abs_yd t + 3600 * h \<and>
    valid_yd (SubHourYd t h) \<and> abs_yd (SubHourYd t h) = abs_yd t - 3600 * h \<and>
    valid_yd (AddSecondYd t n) \<and> abs_yd (AddSecondYd t n) = abs_yd t + n \<and>
    valid_yd (SubSecondYd t n) \<and> abs_yd (SubSecondYd t n) = abs_yd t - n \<and>
    SubSecondYd (AddSecondYd t n) n = t \<and> SubHourYd (AddHourYd t h) h = t"
  using assms hour_yd.add_law[of t h] hour_yd.sub_law[of t h] second_yd.add_law[of t n]
    second_yd.sub_law[of t n] second_yd.sub_add[of t n] hour_yd.sub_add[of t h] by simp

theorem yd_exact_witness:
  "abs_yd (AddHourYd new_year_eve 1) = 63618915599 \<and> abs_yd (SubSecondYd new_year_eve 60) = 63618911939"
  using yd_exact[of new_year_eve 1 60] by (simp add: representable_def end_second_val)

text \<open>
  A day number within the year and a date are converted into each other without loss: every
  day of a year gives a date of that year that converts back to it, and every valid date the
  day it came from.
\<close>

theorem day_date_roundtrip:
  "(1 \<le> n \<and> n \<le> YearToDay y \<longrightarrow> (\<exists>m d. DayToDate y n = Some (m, d) \<and> valid_date y m d
      \<and> DateToDays y m d = Some n)) \<and>
   (valid_date y m d \<longrightarrow> (\<exists>n. DateToDays y m d = Some n \<and> 1 \<le> n \<and> n \<le> YearToDay y
      \<and> DayToDate y n = Some (m, d)))"
  using DayToDate_valid[of n y] DateToDays_valid DayToDate_month_start day_of_year_bounds by auto

theorem day_date_roundtrip_witness:
  "(\<exists>m d. DayToDate 2016 60 = Some (m, d) \<and> valid_date 2016 m d \<and> DateToDays 2016 m d = Some 60)
   \<and> (\<exists>n. DateToDays 2016 2 29 = Some n \<and> 1 \<le> n \<and> n \<le> YearToDay 2016 \<and> DayToDate 2016 n = Some (2, 29))"
  using day_date_roundtrip[of 60 2016 2 29] by (simp add: YearToDay_def valid_date_def IsLeapYear_def)

text \<open>
  C31: The seconds since the first of January of a year, as the NTP server and \<open>settimeofday\<close>
  use them, are the exact difference of the absolute seconds as long as it fits in 32 bits, and
  wrap around modulo $2^{32}$ beyond that.
\<close>

theorem DateToSecond_exact:
  assumes "valid_ymd t" "s \<le> ti_year t"
  shows "DateToSecond s t = Some (u32 (abs_ymd t - (year_start s + 1) * 86400)) \<and>
    (abs_ymd t - (year_start s + 1) * 86400 < 4294967296 \<longrightarrow>
      DateToSecond s t = Some (abs_ymd t - (year_start s + 1) * 86400))"
proof -
  have "year_start s + 1 \<le> day_ymd t"
    using assms year_start_mono[of s "ti_year t"] day_of_year_bounds[of "ti_year t" "ti_month t" "ti_day t"]
    by (simp add: day_ymd_def day_number_def valid_ymd_def)
  then have "0 \<le> abs_ymd t - (year_start s + 1) * 86400"
    using assms(1) by (simp add: abs_ymd_day valid_ymd_day valid_hms_def)
  then show ?thesis using DateToSecond_eq[OF assms] by simp
qed

theorem DateToSecond_exact_witness: "DateToSecond 1970 new_year_eve = Some 1483228799"
proof -
  have "1970 \<le> ti_year new_year_eve" by (simp add: new_year_eve_def)
  from DateToSecond_exact[OF new_year_eve_ok(1) this] show ?thesis by (simp add: year_start_def)
qed

text \<open>
  The GPS week and second of the week of a date from 1981 on are the quotient and the
  remainder of the seconds since the GPS epoch, the sixth of January 1980, and the second is
  below the 604800 seconds of a week.
\<close>

theorem gps_time_exact:
  assumes "valid_ymd t" "1981 \<le> ti_year t"
  shows "\<exists>w s. CommonTimeToGPSTime t = Some \<lparr>gps_week = w, gps_sow = s\<rparr> \<and>
    w * 604800 + s = abs_ymd t - gps_epoch \<and> 0 \<le> s \<and> s < 604800"
proof -
  define d where "d = day_ymd t - (year_start 1981 - 360)"
  define w r where "w = d div 7" and "r = d mod 7"
  have r: "d = 7 * w + r" "0 \<le> r" "r \<le> 6" by (simp_all add: w_def r_def)
  have h: "valid_hms t" using assms(1) by (simp add: valid_ymd_day)
  have g: "CommonTimeToGPSTime t = Some \<lparr>gps_week = w,
      gps_sow = ti_hour t * 3600 + ti_minute t * 60 + ti_second t + r * 86400\<rparr>"
    using gps_split[OF assms] by (simp only: d_def w_def r_def)
  have "abs_ymd t - gps_epoch = d * 86400 + ti_hour t * 3600 + ti_minute t * 60 + ti_second t"
    by (simp only: abs_ymd_day gps_epoch_days d_def) (simp only: algebra_simps; simp)
  then have "w * 604800 + (ti_hour t * 3600 + ti_minute t * 60 + ti_second t + r * 86400)
      = abs_ymd t - gps_epoch"
    by (simp only: r(1)) simp
  moreover have "0 \<le> ti_hour t * 3600 + ti_minute t * 60 + ti_second t + r * 86400"
    "ti_hour t * 3600 + ti_minute t * 60 + ti_second t + r * 86400 < 604800"
    using h r(2,3) by (auto simp: valid_hms_def)
  ultimately show ?thesis using g by blast
qed

theorem gps_time_exact_witness:
  "\<exists>w s. CommonTimeToGPSTime new_year_eve = Some \<lparr>gps_week = w, gps_sow = s\<rparr> \<and>
    w * 604800 + s = abs_ymd new_year_eve - gps_epoch \<and> 0 \<le> s \<and> s < 604800"
  by (rule gps_time_exact) (simp, simp add: new_year_eve_def)

text \<open>
  The Modified Julian Day of a date from the year 1 on is its distance in days to the
  seventeenth of November 1858, and the conversion back returns the date.
\<close>

theorem mjd_roundtrip:
  assumes "valid_date y m d" "1 \<le> y"
  shows "DateToMjd y m d = day_number y m d - day_number 1858 11 17 \<and>
    MjdToDate (DateToMjd y m d) = (y, m, d)"
  using assms DateToMjd_day MjdToDate_DateToMjd_eq
  by (simp add: day_number_def month_starts year_start_def IsLeapYear_def)

theorem mjd_roundtrip_witness: "MjdToDate (DateToMjd 2016 2 29) = (2016, 2, 29)"
proof -
  have "valid_date 2016 2 29" by (simp add: valid_date_def IsLeapYear_def)
  from mjd_roundtrip[OF this] show ?thesis by auto
qed

text \<open>
  The check of a textual date accepts exactly the strings \<open>YYYY-MM-DD\<close> that write a date of
  the calendar, leap days included, and the check of a time exactly the \<open>HH:MM:SS\<close> of a day.
\<close>

theorem text_validity_exact:
  "(date_validity s \<longleftrightarrow>
     (\<exists>y m d. 0 \<le> y \<and> y \<le> 9999 \<and> valid_date y m d \<and> s = render_date y m d)) \<and>
   (time_validity s \<longleftrightarrow>
     (\<exists>h m c. 0 \<le> h \<and> h < 24 \<and> 0 \<le> m \<and> m < 60 \<and> 0 \<le> c \<and> c < 60 \<and> s = render_time h m c))"
  by (simp only: date_validity_iff time_validity_iff simp_thms)

end
