(* ===== verification/LibMd5.thy ===== *)
theory LibMd5
  imports Prelude
begin

unbundle bit_operations_syntax

text \<open>
  The message digest of \<^verbatim>\<open>src/lib/lib_md5.c\<close>, on 32 bit words and bytes: the context that is
  fed in pieces, the padding and the compression function.
\<close>

section \<open>Data\<close>

text \<open>\<open>state[4]\<close> as a tuple, the two halves of \<open>count\<close>, and the 64 bytes of \<open>buffer\<close>.\<close>

type_synonym md5_state = "32 word \<times> 32 word \<times> 32 word \<times> 32 word"

record md5_ctx =
  md5_st :: md5_state
  count0 :: "32 word"
  count1 :: "32 word"
  md5_buffer :: "8 word list"

definition padding :: "8 word list" where
  "padding = 0x80 # replicate 63 0"

section \<open>The step functions\<close>

definition md5_F :: "32 word \<Rightarrow> 32 word \<Rightarrow> 32 word \<Rightarrow> 32 word" where
  "md5_F x y z = (x AND y) OR ((NOT x) AND z)"

definition md5_G :: "32 word \<Rightarrow> 32 word \<Rightarrow> 32 word \<Rightarrow> 32 word" where
  "md5_G x y z = (x AND z) OR (y AND (NOT z))"

definition md5_H :: "32 word \<Rightarrow> 32 word \<Rightarrow> 32 word \<Rightarrow> 32 word" where
  "md5_H x y z = x XOR y XOR z"

definition md5_I :: "32 word \<Rightarrow> 32 word \<Rightarrow> 32 word \<Rightarrow> 32 word" where
  "md5_I x y z = y XOR (x OR (NOT z))"

definition ROTATE_LEFT :: "32 word \<Rightarrow> nat \<Rightarrow> 32 word" where
  "ROTATE_LEFT x n = push_bit n x OR drop_bit (32 - n) x"

definition FF :: "32 word \<Rightarrow> 32 word \<Rightarrow> 32 word \<Rightarrow> 32 word \<Rightarrow> 32 word \<Rightarrow> nat \<Rightarrow> 32 word \<Rightarrow> 32 word" where
  "FF a b c d x s ac = ROTATE_LEFT (a + (md5_F b c d + x + ac)) s + b"

definition GG :: "32 word \<Rightarrow> 32 word \<Rightarrow> 32 word \<Rightarrow> 32 word \<Rightarrow> 32 word \<Rightarrow> nat \<Rightarrow> 32 word \<Rightarrow> 32 word" where
  "GG a b c d x s ac = ROTATE_LEFT (a + (md5_G b c d + x + ac)) s + b"

definition HH :: "32 word \<Rightarrow> 32 word \<Rightarrow> 32 word \<Rightarrow> 32 word \<Rightarrow> 32 word \<Rightarrow> nat \<Rightarrow> 32 word \<Rightarrow> 32 word" where
  "HH a b c d x s ac = ROTATE_LEFT (a + (md5_H b c d + x + ac)) s + b"

definition II :: "32 word \<Rightarrow> 32 word \<Rightarrow> 32 word \<Rightarrow> 32 word \<Rightarrow> 32 word \<Rightarrow> nat \<Rightarrow> 32 word \<Rightarrow> 32 word" where
  "II a b c d x s ac = ROTATE_LEFT (a + (md5_I b c d + x + ac)) s + b"

section \<open>Bytes and words\<close>

text \<open>Both loops run over the four bytes of each word, the least significant one first.\<close>

definition encode_word :: "32 word \<Rightarrow> 8 word list" where
  "encode_word w = [ucast (w AND 0xff), ucast (drop_bit 8 w AND 0xff),
     ucast (drop_bit 16 w AND 0xff), ucast (drop_bit 24 w AND 0xff)]"

definition md5_encode :: "32 word list \<Rightarrow> 8 word list" where
  "md5_encode input = concat (map encode_word input)"

fun md5_decode :: "8 word list \<Rightarrow> 32 word list" where
  "md5_decode (b0 # b1 # b2 # b3 # bs) =
     (ucast b0 OR push_bit 8 (ucast b1) OR push_bit 16 (ucast b2) OR push_bit 24 (ucast b3))
     # md5_decode bs"
| "md5_decode bs = []"

section \<open>The compression function\<close>

definition md5_round1 :: "32 word list \<Rightarrow> md5_state \<Rightarrow> md5_state" where
  "md5_round1 x = (\<lambda>(a, b, c, d).
     let a = FF a b c d (x ! 0) 7 0xd76aa478;
         d = FF d a b c (x ! 1) 12 0xe8c7b756;
         c = FF c d a b (x ! 2) 17 0x242070db;
         b = FF b c d a (x ! 3) 22 0xc1bdceee;
         a = FF a b c d (x ! 4) 7 0xf57c0faf;
         d = FF d a b c (x ! 5) 12 0x4787c62a;
         c = FF c d a b (x ! 6) 17 0xa8304613;
         b = FF b c d a (x ! 7) 22 0xfd469501;
         a = FF a b c d (x ! 8) 7 0x698098d8;
         d = FF d a b c (x ! 9) 12 0x8b44f7af;
         c = FF c d a b (x ! 10) 17 0xffff5bb1;
         b = FF b c d a (x ! 11) 22 0x895cd7be;
         a = FF a b c d (x ! 12) 7 0x6b901122;
         d = FF d a b c (x ! 13) 12 0xfd987193;
         c = FF c d a b (x ! 14) 17 0xa679438e;
         b = FF b c d a (x ! 15) 22 0x49b40821
     in (a, b, c, d))"

definition md5_round2 :: "32 word list \<Rightarrow> md5_state \<Rightarrow> md5_state" where
  "md5_round2 x = (\<lambda>(a, b, c, d).
     let a = GG a b c d (x ! 1) 5 0xf61e2562;
         d = GG d a b c (x ! 6) 9 0xc040b340;
         c = GG c d a b (x ! 11) 14 0x265e5a51;
         b = GG b c d a (x ! 0) 20 0xe9b6c7aa;
         a = GG a b c d (x ! 5) 5 0xd62f105d;
         d = GG d a b c (x ! 10) 9 0x2441453;
         c = GG c d a b (x ! 15) 14 0xd8a1e681;
         b = GG b c d a (x ! 4) 20 0xe7d3fbc8;
         a = GG a b c d (x ! 9) 5 0x21e1cde6;
         d = GG d a b c (x ! 14) 9 0xc33707d6;
         c = GG c d a b (x ! 3) 14 0xf4d50d87;
         b = GG b c d a (x ! 8) 20 0x455a14ed;
         a = GG a b c d (x ! 13) 5 0xa9e3e905;
         d = GG d a b c (x ! 2) 9 0xfcefa3f8;
         c = GG c d a b (x ! 7) 14 0x676f02d9;
         b = GG b c d a (x ! 12) 20 0x8d2a4c8a
     in (a, b, c, d))"

definition md5_round3 :: "32 word list \<Rightarrow> md5_state \<Rightarrow> md5_state" where
  "md5_round3 x = (\<lambda>(a, b, c, d).
     let a = HH a b c d (x ! 5) 4 0xfffa3942;
         d = HH d a b c (x ! 8) 11 0x8771f681;
         c = HH c d a b (x ! 11) 16 0x6d9d6122;
         b = HH b c d a (x ! 14) 23 0xfde5380c;
         a = HH a b c d (x ! 1) 4 0xa4beea44;
         d = HH d a b c (x ! 4) 11 0x4bdecfa9;
         c = HH c d a b (x ! 7) 16 0xf6bb4b60;
         b = HH b c d a (x ! 10) 23 0xbebfbc70;
         a = HH a b c d (x ! 13) 4 0x289b7ec6;
         d = HH d a b c (x ! 0) 11 0xeaa127fa;
         c = HH c d a b (x ! 3) 16 0xd4ef3085;
         b = HH b c d a (x ! 6) 23 0x4881d05;
         a = HH a b c d (x ! 9) 4 0xd9d4d039;
         d = HH d a b c (x ! 12) 11 0xe6db99e5;
         c = HH c d a b (x ! 15) 16 0x1fa27cf8;
         b = HH b c d a (x ! 2) 23 0xc4ac5665
     in (a, b, c, d))"

definition md5_round4 :: "32 word list \<Rightarrow> md5_state \<Rightarrow> md5_state" where
  "md5_round4 x = (\<lambda>(a, b, c, d).
     let a = II a b c d (x ! 0) 6 0xf4292244;
         d = II d a b c (x ! 7) 10 0x432aff97;
         c = II c d a b (x ! 14) 15 0xab9423a7;
         b = II b c d a (x ! 5) 21 0xfc93a039;
         a = II a b c d (x ! 12) 6 0x655b59c3;
         d = II d a b c (x ! 3) 10 0x8f0ccc92;
         c = II c d a b (x ! 10) 15 0xffeff47d;
         b = II b c d a (x ! 1) 21 0x85845dd1;
         a = II a b c d (x ! 8) 6 0x6fa87e4f;
         d = II d a b c (x ! 15) 10 0xfe2ce6e0;
         c = II c d a b (x ! 6) 15 0xa3014314;
         b = II b c d a (x ! 13) 21 0x4e0811a1;
         a = II a b c d (x ! 4) 6 0xf7537e82;
         d = II d a b c (x ! 11) 10 0xbd3af235;
         c = II c d a b (x ! 2) 15 0x2ad7d2bb;
         b = II b c d a (x ! 9) 21 0xeb86d391
     in (a, b, c, d))"

definition md5_transform :: "md5_state \<Rightarrow> 8 word list \<Rightarrow> md5_state" where
  "md5_transform st block =
     (let x = md5_decode block;
          (a, b, c, d) = md5_round4 x (md5_round3 x (md5_round2 x (md5_round1 x st)));
          (s0, s1, s2, s3) = st
      in (s0 + a, s1 + b, s2 + c, s3 + d))"

section \<open>The operations\<close>

definition md5_init :: "8 word list \<Rightarrow> md5_ctx" where
  "md5_init buf = \<lparr>md5_st = (0x67452301, 0xefcdab89, 0x98badcfe, 0x10325476),
     count0 = 0, count1 = 0, md5_buffer = buf\<rparr>"

text \<open>
  The loop over the full blocks of the input. The condition is evaluated in 32 bits; a read
  behind the input has no value. The counter itself stays below the length, a 32 bit number.
\<close>

function update_loop :: "8 word list \<Rightarrow> int \<Rightarrow> md5_state \<Rightarrow> (md5_state \<times> int) option" where
  "update_loop input i st =
     (if u32 (i + 63) < int (length input) then
        if i + 63 < int (length input) then
          update_loop input (i + 64) (md5_transform st (take 64 (drop (nat i) input)))
        else None
      else Some (st, i))"
  by pat_completeness auto
termination by (relation "measure (\<lambda>(input, i, st). nat (int (length input) - i))") auto

definition md5_update :: "md5_ctx \<Rightarrow> 8 word list \<Rightarrow> md5_ctx option" where
  "md5_update ctx input =
     (let inputLen = word_of_nat (length input) :: 32 word;
          index = unat (drop_bit 3 (count0 ctx) AND 0x3F);
          c0 = count0 ctx + push_bit 3 inputLen;
          c1 = (if c0 < push_bit 3 inputLen then count1 ctx + 1 else count1 ctx);
          c1 = c1 + drop_bit 29 inputLen;
          partLen = 64 - index
      in if length input \<ge> partLen then
           let buf = take index (md5_buffer ctx) @ take partLen input
                     @ drop (index + partLen) (md5_buffer ctx);
               st = md5_transform (md5_st ctx) buf
           in case update_loop input (int partLen) st of
                None \<Rightarrow> None
              | Some (st, i) \<Rightarrow>
                  Some \<lparr>md5_st = st, count0 = c0, count1 = c1,
                        md5_buffer = drop (nat i) input @ drop (length input - nat i) buf\<rparr>
         else
           Some \<lparr>md5_st = md5_st ctx, count0 = c0, count1 = c1,
                 md5_buffer = take index (md5_buffer ctx) @ input
                              @ drop (index + length input) (md5_buffer ctx)\<rparr>)"

text \<open>The digest and the cleared context.\<close>

definition md5_final :: "md5_ctx \<Rightarrow> (8 word list \<times> md5_ctx) option" where
  "md5_final ctx =
     (let bits = md5_encode [count0 ctx, count1 ctx];
          index = unat (drop_bit 3 (count0 ctx) AND 0x3f);
          padLen = (if index < 56 then 56 - index else 120 - index)
      in case md5_update ctx (take padLen padding) of
           None \<Rightarrow> None
         | Some ctx \<Rightarrow>
             (case md5_update ctx bits of
                None \<Rightarrow> None
              | Some ctx \<Rightarrow>
                  let (a, b, c, d) = md5_st ctx
                  in Some (md5_encode [a, b, c, d],
                           \<lparr>md5_st = (0, 0, 0, 0), count0 = 0, count1 = 0,
                            md5_buffer = replicate 64 0\<rparr>)))"

end
