(* ===== verification/LibMd5Spec.thy ===== *)
theory LibMd5Spec
  imports LibMd5
begin

unbundle bit_operations_syntax

text \<open>
  The message digest of RFC 1321 in its table-driven form, and the proof that the code of
  \<^verbatim>\<open>src/lib/lib_md5.c\<close> computes it for a message fed in any pieces.
\<close>

section \<open>The reference compression\<close>

text \<open>\<open>T[i]\<close> is the integer part of $2^{32}$ times the absolute value of the sine of \<open>i\<close>.\<close>

definition md5_T :: "32 word list" where
  "md5_T = [
     0xd76aa478, 0xe8c7b756, 0x242070db, 0xc1bdceee, 0xf57c0faf, 0x4787c62a, 0xa8304613, 0xfd469501,
     0x698098d8, 0x8b44f7af, 0xffff5bb1, 0x895cd7be, 0x6b901122, 0xfd987193, 0xa679438e, 0x49b40821,
     0xf61e2562, 0xc040b340, 0x265e5a51, 0xe9b6c7aa, 0xd62f105d, 0x02441453, 0xd8a1e681, 0xe7d3fbc8,
     0x21e1cde6, 0xc33707d6, 0xf4d50d87, 0x455a14ed, 0xa9e3e905, 0xfcefa3f8, 0x676f02d9, 0x8d2a4c8a,
     0xfffa3942, 0x8771f681, 0x6d9d6122, 0xfde5380c, 0xa4beea44, 0x4bdecfa9, 0xf6bb4b60, 0xbebfbc70,
     0x289b7ec6, 0xeaa127fa, 0xd4ef3085, 0x04881d05, 0xd9d4d039, 0xe6db99e5, 0x1fa27cf8, 0xc4ac5665,
     0xf4292244, 0x432aff97, 0xab9423a7, 0xfc93a039, 0x655b59c3, 0x8f0ccc92, 0xffeff47d, 0x85845dd1,
     0x6fa87e4f, 0xfe2ce6e0, 0xa3014314, 0x4e0811a1, 0xf7537e82, 0xbd3af235, 0x2ad7d2bb, 0xeb86d391]"

definition md5_shift :: "nat \<Rightarrow> nat" where
  "md5_shift i = [[7, 12, 17, 22], [5, 9, 14, 20], [4, 11, 16, 23], [6, 10, 15, 21]] ! (i div 16) ! (i mod 4)"

definition md5_index :: "nat \<Rightarrow> nat" where
  "md5_index i = (if i < 16 then i else if i < 32 then (5 * i + 1) mod 16
     else if i < 48 then (3 * i + 5) mod 16 else (7 * i) mod 16)"

definition md5_mix :: "nat \<Rightarrow> 32 word \<Rightarrow> 32 word \<Rightarrow> 32 word \<Rightarrow> 32 word" where
  "md5_mix i x y z =
     (if i < 16 then (x AND y) OR (NOT x AND z)
      else if i < 32 then (x AND z) OR (y AND NOT z)
      else if i < 48 then x XOR y XOR z
      else y XOR (x OR NOT z))"

text \<open>One of the 64 steps; the registers rotate.\<close>

definition md5_step :: "32 word list \<Rightarrow> nat \<Rightarrow> md5_state \<Rightarrow> md5_state" where
  "md5_step x i = (\<lambda>(a, b, c, d).
     (d, b + ROTATE_LEFT (a + md5_mix i b c d + x ! md5_index i + md5_T ! i) (md5_shift i), b, c))"

definition md5_compress :: "md5_state \<Rightarrow> 8 word list \<Rightarrow> md5_state" where
  "md5_compress st block =
     (case fold (md5_step (md5_decode block)) [0..<64] st of (a, b, c, d) \<Rightarrow>
        (fst st + a, fst (snd st) + b, fst (snd (snd st)) + c, snd (snd (snd st)) + d))"

lemma md5_step_code:
  "i < 16 \<Longrightarrow> md5_step x i (a, b, c, d) = (d, FF a b c d (x ! md5_index i) (md5_shift i) (md5_T ! i), b, c)"
  "16 \<le> i \<Longrightarrow> i < 32 \<Longrightarrow> md5_step x i (a, b, c, d) = (d, GG a b c d (x ! md5_index i) (md5_shift i) (md5_T ! i), b, c)"
  "32 \<le> i \<Longrightarrow> i < 48 \<Longrightarrow> md5_step x i (a, b, c, d) = (d, HH a b c d (x ! md5_index i) (md5_shift i) (md5_T ! i), b, c)"
  "48 \<le> i \<Longrightarrow> md5_step x i (a, b, c, d) = (d, II a b c d (x ! md5_index i) (md5_shift i) (md5_T ! i), b, c)"
  by (simp_all add: md5_step_def md5_mix_def FF_def GG_def HH_def II_def md5_F_def md5_G_def
      md5_H_def md5_I_def add_ac)

text \<open>The steps with their word, shift and constant, one group per round of the code.\<close>

lemma md5_steps1:
  "fold (md5_step x) (0 # is) (a, b, c, d) = (let v = FF a b c d (x ! 0) 7 0xd76aa478 in fold (md5_step x) is (d, v, b, c))"
  "fold (md5_step x) (1 # is) (a, b, c, d) = (let v = FF a b c d (x ! 1) 12 0xe8c7b756 in fold (md5_step x) is (d, v, b, c))"
  "fold (md5_step x) (2 # is) (a, b, c, d) = (let v = FF a b c d (x ! 2) 17 0x242070db in fold (md5_step x) is (d, v, b, c))"
  "fold (md5_step x) (3 # is) (a, b, c, d) = (let v = FF a b c d (x ! 3) 22 0xc1bdceee in fold (md5_step x) is (d, v, b, c))"
  "fold (md5_step x) (4 # is) (a, b, c, d) = (let v = FF a b c d (x ! 4) 7 0xf57c0faf in fold (md5_step x) is (d, v, b, c))"
  "fold (md5_step x) (5 # is) (a, b, c, d) = (let v = FF a b c d (x ! 5) 12 0x4787c62a in fold (md5_step x) is (d, v, b, c))"
  "fold (md5_step x) (6 # is) (a, b, c, d) = (let v = FF a b c d (x ! 6) 17 0xa8304613 in fold (md5_step x) is (d, v, b, c))"
  "fold (md5_step x) (7 # is) (a, b, c, d) = (let v = FF a b c d (x ! 7) 22 0xfd469501 in fold (md5_step x) is (d, v, b, c))"
  "fold (md5_step x) (8 # is) (a, b, c, d) = (let v = FF a b c d (x ! 8) 7 0x698098d8 in fold (md5_step x) is (d, v, b, c))"
  "fold (md5_step x) (9 # is) (a, b, c, d) = (let v = FF a b c d (x ! 9) 12 0x8b44f7af in fold (md5_step x) is (d, v, b, c))"
  "fold (md5_step x) (10 # is) (a, b, c, d) = (let v = FF a b c d (x ! 10) 17 0xffff5bb1 in fold (md5_step x) is (d, v, b, c))"
  "fold (md5_step x) (11 # is) (a, b, c, d) = (let v = FF a b c d (x ! 11) 22 0x895cd7be in fold (md5_step x) is (d, v, b, c))"
  "fold (md5_step x) (12 # is) (a, b, c, d) = (let v = FF a b c d (x ! 12) 7 0x6b901122 in fold (md5_step x) is (d, v, b, c))"
  "fold (md5_step x) (13 # is) (a, b, c, d) = (let v = FF a b c d (x ! 13) 12 0xfd987193 in fold (md5_step x) is (d, v, b, c))"
  "fold (md5_step x) (14 # is) (a, b, c, d) = (let v = FF a b c d (x ! 14) 17 0xa679438e in fold (md5_step x) is (d, v, b, c))"
  "fold (md5_step x) (15 # is) (a, b, c, d) = (let v = FF a b c d (x ! 15) 22 0x49b40821 in fold (md5_step x) is (d, v, b, c))"
  by (simp_all add: md5_step_code Let_def) (simp_all add: md5_index_def md5_shift_def md5_T_def)

lemma md5_round1_fold:
  "md5_round1 x st = fold (md5_step x) [0, 1, 2, 3, 4, 5, 6, 7, 8, 9, 10, 11, 12, 13, 14, 15] st"
proof (cases st)
  case (fields a b c d)
  show ?thesis
    unfolding fields md5_round1_def prod.case
    by (simp only: md5_steps1 fold_simps(1))
qed

lemma md5_steps2:
  "fold (md5_step x) (16 # is) (a, b, c, d) = (let v = GG a b c d (x ! 1) 5 0xf61e2562 in fold (md5_step x) is (d, v, b, c))"
  "fold (md5_step x) (17 # is) (a, b, c, d) = (let v = GG a b c d (x ! 6) 9 0xc040b340 in fold (md5_step x) is (d, v, b, c))"
  "fold (md5_step x) (18 # is) (a, b, c, d) = (let v = GG a b c d (x ! 11) 14 0x265e5a51 in fold (md5_step x) is (d, v, b, c))"
  "fold (md5_step x) (19 # is) (a, b, c, d) = (let v = GG a b c d (x ! 0) 20 0xe9b6c7aa in fold (md5_step x) is (d, v, b, c))"
  "fold (md5_step x) (20 # is) (a, b, c, d) = (let v = GG a b c d (x ! 5) 5 0xd62f105d in fold (md5_step x) is (d, v, b, c))"
  "fold (md5_step x) (21 # is) (a, b, c, d) = (let v = GG a b c d (x ! 10) 9 0x2441453 in fold (md5_step x) is (d, v, b, c))"
  "fold (md5_step x) (22 # is) (a, b, c, d) = (let v = GG a b c d (x ! 15) 14 0xd8a1e681 in fold (md5_step x) is (d, v, b, c))"
  "fold (md5_step x) (23 # is) (a, b, c, d) = (let v = GG a b c d (x ! 4) 20 0xe7d3fbc8 in fold (md5_step x) is (d, v, b, c))"
  "fold (md5_step x) (24 # is) (a, b, c, d) = (let v = GG a b c d (x ! 9) 5 0x21e1cde6 in fold (md5_step x) is (d, v, b, c))"
  "fold (md5_step x) (25 # is) (a, b, c, d) = (let v = GG a b c d (x ! 14) 9 0xc33707d6 in fold (md5_step x) is (d, v, b, c))"
  "fold (md5_step x) (26 # is) (a, b, c, d) = (let v = GG a b c d (x ! 3) 14 0xf4d50d87 in fold (md5_step x) is (d, v, b, c))"
  "fold (md5_step x) (27 # is) (a, b, c, d) = (let v = GG a b c d (x ! 8) 20 0x455a14ed in fold (md5_step x) is (d, v, b, c))"
  "fold (md5_step x) (28 # is) (a, b, c, d) = (let v = GG a b c d (x ! 13) 5 0xa9e3e905 in fold (md5_step x) is (d, v, b, c))"
  "fold (md5_step x) (29 # is) (a, b, c, d) = (let v = GG a b c d (x ! 2) 9 0xfcefa3f8 in fold (md5_step x) is (d, v, b, c))"
  "fold (md5_step x) (30 # is) (a, b, c, d) = (let v = GG a b c d (x ! 7) 14 0x676f02d9 in fold (md5_step x) is (d, v, b, c))"
  "fold (md5_step x) (31 # is) (a, b, c, d) = (let v = GG a b c d (x ! 12) 20 0x8d2a4c8a in fold (md5_step x) is (d, v, b, c))"
  by (simp_all add: md5_step_code Let_def) (simp_all add: md5_index_def md5_shift_def md5_T_def)

lemma md5_round2_fold:
  "md5_round2 x st = fold (md5_step x) [16, 17, 18, 19, 20, 21, 22, 23, 24, 25, 26, 27, 28, 29, 30, 31] st"
proof (cases st)
  case (fields a b c d)
  show ?thesis
    unfolding fields md5_round2_def prod.case
    by (simp only: md5_steps2 fold_simps(1))
qed

lemma md5_steps3:
  "fold (md5_step x) (32 # is) (a, b, c, d) = (let v = HH a b c d (x ! 5) 4 0xfffa3942 in fold (md5_step x) is (d, v, b, c))"
  "fold (md5_step x) (33 # is) (a, b, c, d) = (let v = HH a b c d (x ! 8) 11 0x8771f681 in fold (md5_step x) is (d, v, b, c))"
  "fold (md5_step x) (34 # is) (a, b, c, d) = (let v = HH a b c d (x ! 11) 16 0x6d9d6122 in fold (md5_step x) is (d, v, b, c))"
  "fold (md5_step x) (35 # is) (a, b, c, d) = (let v = HH a b c d (x ! 14) 23 0xfde5380c in fold (md5_step x) is (d, v, b, c))"
  "fold (md5_step x) (36 # is) (a, b, c, d) = (let v = HH a b c d (x ! 1) 4 0xa4beea44 in fold (md5_step x) is (d, v, b, c))"
  "fold (md5_step x) (37 # is) (a, b, c, d) = (let v = HH a b c d (x ! 4) 11 0x4bdecfa9 in fold (md5_step x) is (d, v, b, c))"
  "fold (md5_step x) (38 # is) (a, b, c, d) = (let v = HH a b c d (x ! 7) 16 0xf6bb4b60 in fold (md5_step x) is (d, v, b, c))"
  "fold (md5_step x) (39 # is) (a, b, c, d) = (let v = HH a b c d (x ! 10) 23 0xbebfbc70 in fold (md5_step x) is (d, v, b, c))"
  "fold (md5_step x) (40 # is) (a, b, c, d) = (let v = HH a b c d (x ! 13) 4 0x289b7ec6 in fold (md5_step x) is (d, v, b, c))"
  "fold (md5_step x) (41 # is) (a, b, c, d) = (let v = HH a b c d (x ! 0) 11 0xeaa127fa in fold (md5_step x) is (d, v, b, c))"
  "fold (md5_step x) (42 # is) (a, b, c, d) = (let v = HH a b c d (x ! 3) 16 0xd4ef3085 in fold (md5_step x) is (d, v, b, c))"
  "fold (md5_step x) (43 # is) (a, b, c, d) = (let v = HH a b c d (x ! 6) 23 0x4881d05 in fold (md5_step x) is (d, v, b, c))"
  "fold (md5_step x) (44 # is) (a, b, c, d) = (let v = HH a b c d (x ! 9) 4 0xd9d4d039 in fold (md5_step x) is (d, v, b, c))"
  "fold (md5_step x) (45 # is) (a, b, c, d) = (let v = HH a b c d (x ! 12) 11 0xe6db99e5 in fold (md5_step x) is (d, v, b, c))"
  "fold (md5_step x) (46 # is) (a, b, c, d) = (let v = HH a b c d (x ! 15) 16 0x1fa27cf8 in fold (md5_step x) is (d, v, b, c))"
  "fold (md5_step x) (47 # is) (a, b, c, d) = (let v = HH a b c d (x ! 2) 23 0xc4ac5665 in fold (md5_step x) is (d, v, b, c))"
  by (simp_all add: md5_step_code Let_def) (simp_all add: md5_index_def md5_shift_def md5_T_def)

lemma md5_round3_fold:
  "md5_round3 x st = fold (md5_step x) [32, 33, 34, 35, 36, 37, 38, 39, 40, 41, 42, 43, 44, 45, 46, 47] st"
proof (cases st)
  case (fields a b c d)
  show ?thesis
    unfolding fields md5_round3_def prod.case
    by (simp only: md5_steps3 fold_simps(1))
qed

lemma md5_steps4:
  "fold (md5_step x) (48 # is) (a, b, c, d) = (let v = II a b c d (x ! 0) 6 0xf4292244 in fold (md5_step x) is (d, v, b, c))"
  "fold (md5_step x) (49 # is) (a, b, c, d) = (let v = II a b c d (x ! 7) 10 0x432aff97 in fold (md5_step x) is (d, v, b, c))"
  "fold (md5_step x) (50 # is) (a, b, c, d) = (let v = II a b c d (x ! 14) 15 0xab9423a7 in fold (md5_step x) is (d, v, b, c))"
  "fold (md5_step x) (51 # is) (a, b, c, d) = (let v = II a b c d (x ! 5) 21 0xfc93a039 in fold (md5_step x) is (d, v, b, c))"
  "fold (md5_step x) (52 # is) (a, b, c, d) = (let v = II a b c d (x ! 12) 6 0x655b59c3 in fold (md5_step x) is (d, v, b, c))"
  "fold (md5_step x) (53 # is) (a, b, c, d) = (let v = II a b c d (x ! 3) 10 0x8f0ccc92 in fold (md5_step x) is (d, v, b, c))"
  "fold (md5_step x) (54 # is) (a, b, c, d) = (let v = II a b c d (x ! 10) 15 0xffeff47d in fold (md5_step x) is (d, v, b, c))"
  "fold (md5_step x) (55 # is) (a, b, c, d) = (let v = II a b c d (x ! 1) 21 0x85845dd1 in fold (md5_step x) is (d, v, b, c))"
  "fold (md5_step x) (56 # is) (a, b, c, d) = (let v = II a b c d (x ! 8) 6 0x6fa87e4f in fold (md5_step x) is (d, v, b, c))"
  "fold (md5_step x) (57 # is) (a, b, c, d) = (let v = II a b c d (x ! 15) 10 0xfe2ce6e0 in fold (md5_step x) is (d, v, b, c))"
  "fold (md5_step x) (58 # is) (a, b, c, d) = (let v = II a b c d (x ! 6) 15 0xa3014314 in fold (md5_step x) is (d, v, b, c))"
  "fold (md5_step x) (59 # is) (a, b, c, d) = (let v = II a b c d (x ! 13) 21 0x4e0811a1 in fold (md5_step x) is (d, v, b, c))"
  "fold (md5_step x) (60 # is) (a, b, c, d) = (let v = II a b c d (x ! 4) 6 0xf7537e82 in fold (md5_step x) is (d, v, b, c))"
  "fold (md5_step x) (61 # is) (a, b, c, d) = (let v = II a b c d (x ! 11) 10 0xbd3af235 in fold (md5_step x) is (d, v, b, c))"
  "fold (md5_step x) (62 # is) (a, b, c, d) = (let v = II a b c d (x ! 2) 15 0x2ad7d2bb in fold (md5_step x) is (d, v, b, c))"
  "fold (md5_step x) (63 # is) (a, b, c, d) = (let v = II a b c d (x ! 9) 21 0xeb86d391 in fold (md5_step x) is (d, v, b, c))"
  by (simp_all add: md5_step_code Let_def) (simp_all add: md5_index_def md5_shift_def md5_T_def)

lemma md5_round4_fold:
  "md5_round4 x st = fold (md5_step x) [48, 49, 50, 51, 52, 53, 54, 55, 56, 57, 58, 59, 60, 61, 62, 63] st"
proof (cases st)
  case (fields a b c d)
  show ?thesis
    unfolding fields md5_round4_def prod.case
    by (simp only: md5_steps4 fold_simps(1))
qed

lemma upt_64:
  "[0..<64] = [0, 1, 2, 3, 4, 5, 6, 7, 8, 9, 10, 11, 12, 13, 14, 15]
     @ [16, 17, 18, 19, 20, 21, 22, 23, 24, 25, 26, 27, 28, 29, 30, 31]
     @ [32, 33, 34, 35, 36, 37, 38, 39, 40, 41, 42, 43, 44, 45, 46, 47]
     @ [48, 49, 50, 51, 52, 53, 54, 55, 56, 57, 58, 59, 60, 61, 62, 63]"
  by (simp add: numeral_eq_Suc)

lemma md5_transform_compress: "md5_transform st block = md5_compress st block"
  unfolding md5_transform_def md5_compress_def upt_64 fold_append o_apply
    md5_round1_fold md5_round2_fold md5_round3_fold md5_round4_fold
  by (simp split: prod.split)


section \<open>The digest of a message\<close>

function md5_blocks :: "md5_state \<Rightarrow> 8 word list \<Rightarrow> md5_state" where
  "md5_blocks st bs =
     (if 64 \<le> length bs then md5_blocks (md5_compress st (take 64 bs)) (drop 64 bs) else st)"
  by pat_completeness auto
termination by (relation "measure (\<lambda>(st, bs). length bs)") auto

declare md5_blocks.simps [simp del] update_loop.simps [simp del]

definition md5_start :: md5_state where
  "md5_start = (0x67452301, 0xefcdab89, 0x98badcfe, 0x10325476)"

text \<open>The message, one bit, zeros up to 56 modulo 64 bytes, and the length in bits.\<close>

definition md5_pad :: "8 word list \<Rightarrow> 8 word list" where
  "md5_pad m =
     (let r = length m mod 64; bits = 8 * length m
      in m @ 0x80 # replicate ((if r < 56 then 56 - r else 120 - r) - 1) 0
         @ encode_word (word_of_nat bits) @ encode_word (word_of_nat (bits div 4294967296)))"

definition md5_digest :: "8 word list \<Rightarrow> 8 word list" where
  "md5_digest m = (case md5_blocks md5_start (md5_pad m) of (a, b, c, d) \<Rightarrow>
     encode_word a @ encode_word b @ encode_word c @ encode_word d)"

section \<open>The context represents the message fed so far\<close>

definition ctx_of :: "8 word list \<Rightarrow> md5_ctx \<Rightarrow> bool" where
  "ctx_of m c \<longleftrightarrow> md5_st c = md5_blocks md5_start m \<and> length (md5_buffer c) = 64
     \<and> take (length m mod 64) (md5_buffer c) = drop (length m - length m mod 64) m
     \<and> count0 c = word_of_nat (8 * length m)
     \<and> count1 c = word_of_nat (8 * length m div 4294967296)"

lemma md5_blocks_short: "length bs < 64 \<Longrightarrow> md5_blocks st bs = st"
  by (subst md5_blocks.simps) simp

lemma md5_blocks_append:
  "64 dvd length a \<Longrightarrow> md5_blocks st (a @ b) = md5_blocks (md5_blocks st a) b"
proof (induction st a rule: md5_blocks.induct)
  case (1 st a)
  show ?case
  proof (cases "64 \<le> length a")
    case True
    have "64 dvd length (drop 64 a)" using 1(2) by (simp add: dvd_diff_nat)
    moreover have "take 64 (a @ b) = take 64 a" "drop 64 (a @ b) = drop 64 a @ b"
      using True by simp_all
    ultimately show ?thesis
      using 1(1)[OF True] True md5_blocks.simps[of st "a @ b"] md5_blocks.simps[of st a] by simp
  next
    case False
    then have "a = []" using 1(2) by (auto dest: dvd_imp_le)
    then show ?thesis by (simp add: md5_blocks_short)
  qed
qed

lemma md5_blocks_full:
  "md5_blocks st (take (length bs - length bs mod 64) bs) = md5_blocks st bs"
proof -
  let ?n = "length bs - length bs mod 64"
  have "64 dvd length (take ?n bs)" by (simp add: min_def) presburger
  then have "md5_blocks st (take ?n bs @ drop ?n bs) = md5_blocks st (take ?n bs)"
    by (simp only: md5_blocks_append) (rule md5_blocks_short, simp)
  then show ?thesis by simp
qed

lemma update_loop_blocks:
  assumes "0 \<le> i" "int (length input) + 63 < 4294967296" "i \<le> int (length input)"
  shows "\<exists>j. update_loop input i st = Some (md5_blocks st (drop (nat i) input), int j)
     \<and> j = length input - (length input - nat i) mod 64"
  using assms
proof (induction input i st rule: update_loop.induct)
  case (1 input i st)
  have u: "u32 (i + 63) = i + 63" using 1(2-4) by simp
  let ?bs = "drop (nat i) input"
  show ?case
  proof (cases "i + 63 < int (length input)")
    case True
    then obtain j where j: "update_loop input (i + 64) (md5_transform st (take 64 ?bs))
        = Some (md5_blocks (md5_transform st (take 64 ?bs)) (drop (nat (i + 64)) input), int j)"
      "j = length input - (length input - nat (i + 64)) mod 64"
      using 1 u by auto
    have "drop (nat (i + 64)) input = drop 64 ?bs" using 1(2) by (simp add: nat_add_distrib add.commute)
    moreover have "64 \<le> length ?bs" using True 1(2) by simp
    ultimately have "update_loop input i st = Some (md5_blocks st ?bs, int j)"
      using True j(1) u md5_blocks.simps[of st ?bs]
      by (subst update_loop.simps) (simp add: md5_transform_compress)
    moreover have "length input - nat i = (length input - nat (i + 64)) + 64"
      using True 1(2) by (simp add: nat_add_distrib)
    then have "(length input - nat i) mod 64 = (length input - nat (i + 64)) mod 64"
      by (metis mod_add_self2)
    ultimately show ?thesis using j(2) by auto
  next
    case False
    then have "length ?bs < 64" using 1(2) by simp
    then have "update_loop input i st = Some (md5_blocks st ?bs, i)"
      using False u by (subst update_loop.simps) (simp add: md5_blocks_short)
    moreover have "nat i = length input - (length input - nat i) mod 64"
      using False 1(2,4) by simp
    ultimately show ?thesis using 1(2) by (intro exI[of _ "nat i"]) simp
  qed
qed


lemma unat_word32: "unat (word_of_nat n :: 32 word) = n mod 4294967296"
  by (simp only: unat_of_nat) simp

lemma push_bit_3: "push_bit 3 (word_of_nat k :: 32 word) = word_of_nat (8 * k)"
  by (simp add: push_bit_eq_mult)

lemma unat_drop_bits:
  "unat (drop_bit 3 (w :: 32 word)) = unat w div 8"
  "unat (drop_bit 29 (w :: 32 word)) = unat w div 536870912"
  by (simp_all only: unat_drop_bit_eq) (simp_all add: drop_bit_eq_div)

lemma index_of_count:
  "unat (drop_bit 3 (word_of_nat (8 * n) :: 32 word) AND 0x3F) = n mod 64"
proof -
  define w where "w = (word_of_nat (8 * n) :: 32 word)"
  have "unat w = 8 * (n mod 536870912)"
    using mult_mod_right[of 8 n "536870912"] by (simp only: w_def unat_word32) simp
  then have "unat (drop_bit 3 w) = n mod 536870912"
    by (simp add: unat_drop_bits)
  moreover have "drop_bit 3 w AND 0x3F = take_bit 6 (drop_bit 3 w)"
    by (simp only: take_bit_eq_mask mask_eq_exp_minus_1) simp
  moreover have "unat (take_bit 6 (drop_bit 3 w)) = unat (drop_bit 3 w) mod 64"
    by (simp only: unsigned_take_bit_eq) (simp add: take_bit_eq_mod)
  ultimately have "unat (drop_bit 3 w AND 0x3F) = n mod 536870912 mod 64"
    by (simp only:)
  also have "\<dots> = n mod 64" using mod_mod_cancel[of 64 536870912 n] by simp
  finally show ?thesis by (simp only: w_def)
qed

lemma count0_update:
  "(word_of_nat (8 * n) :: 32 word) + push_bit 3 (word_of_nat k) = word_of_nat (8 * (n + k))"
  by (simp add: push_bit_eq_mult)

lemma add_overflow:
  assumes "a < N" "b < (N :: nat)"
  shows "(a + b) mod N < b \<longleftrightarrow> N \<le> a + b" "(a + b) div N = (if N \<le> a + b then 1 else 0)"
  using assms by (auto simp: mod_if div_if not_le)

lemma count1_update:
  fixes n k :: nat
  assumes "k < 4294967296"
  defines "c0 \<equiv> word_of_nat (8 * (n + k)) :: 32 word"
  shows "(if c0 < push_bit 3 (word_of_nat k) then word_of_nat (8 * n div 4294967296) + 1
      else word_of_nat (8 * n div 4294967296)) + drop_bit 29 (word_of_nat k)
    = (word_of_nat (8 * (n + k) div 4294967296) :: 32 word)"
proof -
  define N where "N = (4294967296 :: nat)"
  let ?A = "8 * n mod N" and ?B = "8 * k mod N"
  have AB: "?A < N" "?B < N" by (simp_all add: N_def)
  have B: "unat (push_bit 3 (word_of_nat k) :: 32 word) = ?B"
    by (simp only: push_bit_3 unat_word32 N_def)
  have C: "unat c0 = (?A + ?B) mod N"
    by (simp only: c0_def unat_word32 mod_add_eq add_mult_distrib2 N_def)
  have carry: "c0 < push_bit 3 (word_of_nat k) \<longleftrightarrow> N \<le> ?A + ?B"
    unfolding word_less_nat_alt B C using add_overflow(1)[OF AB] .
  have "k div 536870912 < N" using assms(1) by (simp add: N_def)
  moreover have "8 * k div N = k div 536870912" using div_mult2_eq[of "8 * k" 8 536870912] by (simp add: N_def)
  ultimately have "unat (drop_bit 29 (word_of_nat k :: 32 word)) = unat (word_of_nat (8 * k div N) :: 32 word)"
    using assms(1) by (simp only: unat_drop_bits unat_word32) (simp add: N_def)
  then have D: "drop_bit 29 (word_of_nat k :: 32 word) = word_of_nat (8 * k div N)"
    by (simp only: word_unat_eq_iff)
  have "8 * (n + k) div N = 8 * n div N + 8 * k div N + (?A + ?B) div N"
    unfolding add_mult_distrib2 by (rule div_add1_eq)
  then have "8 * (n + k) div N = 8 * n div N + 8 * k div N + (if N \<le> ?A + ?B then 1 else 0)"
    by (simp only: add_overflow(2)[OF AB])
  then show ?thesis unfolding carry D N_def[symmetric]
    by (cases "N \<le> ?A + ?B") (simp_all only: of_nat_add of_nat_1 of_nat_0 add_ac add_0 if_True if_False)
qed


lemma length_encode_word [simp]: "length (encode_word w) = 4"
  by (simp add: encode_word_def)

lemma rest_length:
  assumes "64 - a mod 64 \<le> b"
  shows "(a + b) mod 64 = (b - (64 - a mod 64)) mod (64 :: nat)"
proof -
  define q r where "q = a div 64" and "r = a mod 64"
  have "a = 64 * q + r" "r < 64" by (simp_all add: q_def r_def)
  then have "a + b = (b - (64 - r)) + 64 * (q + 1)" using assms by (simp flip: r_def)
  then have "(a + b) mod 64 = (b - (64 - r)) mod 64" by (simp only: mod_mult_self2)
  then show ?thesis by (simp only: r_def)
qed

lemma drop_full: "drop (length (m @ xs) - k) (m @ xs) = drop (length xs - k) xs" if "k \<le> length xs"
  using that by simp

theorem md5_update_ctx:
  assumes c: "ctx_of m c" and len: "length xs + 63 < 4294967296"
  shows "\<exists>c'. md5_update c xs = Some c' \<and> ctx_of (m @ xs) c'"
proof -
  define r where "r = length m mod 64"
  have r: "r < 64" and rm: "r \<le> length m" by (simp_all add: r_def)
  have cst: "md5_st c = md5_blocks md5_start m" and cb: "length (md5_buffer c) = 64"
    and ct: "take r (md5_buffer c) = drop (length m - r) m"
    and c0: "count0 c = word_of_nat (8 * length m)"
    and c1: "count1 c = word_of_nat (8 * length m div 4294967296)"
    using c by (simp_all add: ctx_of_def r_def)
  have n0: "count0 c + push_bit 3 (word_of_nat (length xs)) = word_of_nat (8 * length (m @ xs))"
    by (simp only: c0 count0_update length_append)
  have n1: "(if word_of_nat (8 * length (m @ xs)) < (push_bit 3 (word_of_nat (length xs)) :: 32 word)
      then count1 c + 1 else count1 c) + drop_bit 29 (word_of_nat (length xs))
      = word_of_nat (8 * length (m @ xs) div 4294967296)"
    unfolding c1 length_append using len by (intro count1_update) simp
  have idx: "unat (drop_bit 3 (count0 c) AND 0x3F) = r"
    by (simp only: c0 index_of_count r_def)
  show ?thesis
  proof (cases "64 - r \<le> length xs")
    case False
    have k: "length (m @ xs) mod 64 = r + length xs"
    proof -
      have "length (m @ xs) = 64 * (length m div 64) + (r + length xs)" by (simp add: r_def)
      moreover have "r + length xs < 64" using False by simp
      ultimately show ?thesis by (metis mod_less mod_mult_self4)
    qed
    have "md5_blocks md5_start (m @ xs) = md5_blocks md5_start m"
    proof -
      have "length (m @ xs) - (r + length xs) = length m - r" by simp
      then have "take (length (m @ xs) - length (m @ xs) mod 64) (m @ xs) = take (length m - r) m"
        unfolding k by simp
      then show ?thesis by (metis md5_blocks_full r_def)
    qed
    moreover have "take (r + length xs) (take r (md5_buffer c) @ xs @ drop (r + length xs) (md5_buffer c))
        = drop (length (m @ xs) - (r + length xs)) (m @ xs)"
      using ct cb r rm by simp
    moreover have "length (take r (md5_buffer c) @ xs @ drop (r + length xs) (md5_buffer c)) = 64"
      using cb r False by simp
    ultimately have "ctx_of (m @ xs) \<lparr>md5_st = md5_st c, count0 = word_of_nat (8 * length (m @ xs)),
        count1 = word_of_nat (8 * length (m @ xs) div 4294967296),
        md5_buffer = take r (md5_buffer c) @ xs @ drop (r + length xs) (md5_buffer c)\<rparr>"
      by (simp only: ctx_of_def md5_ctx.simps cst k simp_thms)
    then show ?thesis unfolding md5_update_def Let_def idx n0 n1 if_not_P[OF False] by blast
  next
    case True
    define buf where "buf = take r (md5_buffer c) @ take (64 - r) xs @ drop (r + (64 - r)) (md5_buffer c)"
    define st where "st = md5_transform (md5_st c) buf"
    define k where "k = length (m @ xs) mod 64"
    have buf: "buf = drop (length m - r) m @ take (64 - r) xs" "length buf = 64"
      using ct cb r rm True by (simp_all add: buf_def)
    have k: "k = (length xs - (64 - r)) mod 64" using rest_length[of "length m" "length xs"] True
      by (simp add: k_def r_def)
    obtain j where j: "update_loop xs (int (64 - r)) st = Some (md5_blocks st (drop (64 - r) xs), int j)"
      "j = length xs - k"
      using update_loop_blocks[of "int (64 - r)" xs st] True len by (auto simp: k)
    have M0: "64 dvd length (take (length m - r) m)"
      unfolding r_def by (simp add: min_def) presburger
    have "md5_blocks md5_start (take (length m - r) m @ buf @ drop (64 - r) xs)
        = md5_blocks (md5_blocks (md5_blocks md5_start (take (length m - r) m)) buf) (drop (64 - r) xs)"
      using buf(2) by (simp only: md5_blocks_append[OF M0] md5_blocks_append[of buf] dvd_refl)
    also have "md5_blocks md5_start (take (length m - r) m) = md5_st c"
      using md5_blocks_full[of md5_start m] by (simp add: cst r_def)
    also have "md5_blocks (md5_st c) buf = st"
      using buf(2) md5_blocks.simps[of "md5_st c" buf]
      by (simp add: st_def md5_transform_compress md5_blocks_short)
    also have "take (length m - r) m @ buf @ drop (64 - r) xs = m @ xs"
      unfolding buf(1) by (metis append_assoc append_take_drop_id)
    finally have blocks: "md5_blocks md5_start (m @ xs) = md5_blocks st (drop (64 - r) xs)" .
    have kl: "k < 64" "k \<le> length xs" using k True by (auto intro: le_trans[OF mod_less_eq_dividend])
    have "take k (drop (nat (int j)) xs @ drop (length xs - nat (int j)) buf)
        = drop (length (m @ xs) - k) (m @ xs)"
      unfolding drop_full[OF kl(2)] nat_int j(2) using kl by simp
    moreover have "length (drop (nat (int j)) xs @ drop (length xs - nat (int j)) buf) = 64"
      using j(2) kl buf(2) by simp
    ultimately have "ctx_of (m @ xs) \<lparr>md5_st = md5_blocks st (drop (64 - r) xs),
        count0 = word_of_nat (8 * length (m @ xs)),
        count1 = word_of_nat (8 * length (m @ xs) div 4294967296),
        md5_buffer = drop (nat (int j)) xs @ drop (length xs - nat (int j)) buf\<rparr>"
      by (simp only: ctx_of_def md5_ctx.simps blocks k_def[symmetric] simp_thms)
    then show ?thesis
      unfolding md5_update_def Let_def idx n0 n1 if_P[OF True] buf_def[symmetric] st_def[symmetric] j(1)
      by simp
  qed
qed


lemma md5_init_ctx: "length buf = 64 \<Longrightarrow> ctx_of [] (md5_init buf)"
  by (simp add: ctx_of_def md5_init_def md5_start_def md5_blocks_short)

theorem md5_final_digest:
  assumes c: "ctx_of m c"
  shows "\<exists>z. md5_final c = Some (md5_digest m, z)"
proof -
  define r where "r = length m mod 64"
  define n where "n = (if r < 56 then 56 - r else 120 - r)"
  define bits where "bits = md5_encode [count0 c, count1 c]"
  have r: "r < 64" by (simp add: r_def)
  have idx: "unat (drop_bit 3 (count0 c) AND 0x3f) = r"
    using c index_of_count[of "length m"] by (simp only: ctx_of_def r_def) 
  have n: "0 < n" "n \<le> 64" using r by (auto simp: n_def)
  then have pad: "take n padding = 0x80 # replicate (n - 1) 0"
    by (cases n) (auto simp: padding_def min_def)
  have bits: "bits = encode_word (word_of_nat (8 * length m))
      @ encode_word (word_of_nat (8 * length m div 4294967296))"
    using c by (simp only: ctx_of_def bits_def md5_encode_def) simp
  have lens: "length (take n padding) + 63 < 4294967296" "length bits + 63 < 4294967296"
    using n unfolding pad bits by simp_all
  obtain c1 where c1: "md5_update c (take n padding) = Some c1" "ctx_of (m @ take n padding) c1"
    using md5_update_ctx[OF c lens(1)] by blast
  obtain c2 where c2: "md5_update c1 bits = Some c2" "ctx_of ((m @ take n padding) @ bits) c2"
    using md5_update_ctx[OF c1(2) lens(2)] by blast
  have "(m @ take n padding) @ bits = md5_pad m"
    unfolding md5_pad_def Let_def pad bits r_def[symmetric] n_def[symmetric] by simp
  then have "md5_st c2 = md5_blocks md5_start (md5_pad m)"
    using c2(2) by (simp only: ctx_of_def)
  then show ?thesis
    unfolding md5_final_def Let_def idx n_def[symmetric] bits_def[symmetric] c1(1) c2(1) option.case
    by (simp add: md5_digest_def md5_encode_def split: prod.split)
qed

text \<open>The way the clients use it: initialise, update with each piece, finish.\<close>

fun md5_feed :: "md5_ctx \<Rightarrow> 8 word list list \<Rightarrow> md5_ctx option" where
  "md5_feed c [] = Some c"
| "md5_feed c (x # xs) = (case md5_update c x of None \<Rightarrow> None | Some c \<Rightarrow> md5_feed c xs)"

lemma md5_feed_ctx:
  assumes "ctx_of m c" "\<forall>x \<in> set xs. length x + 63 < 4294967296"
  shows "\<exists>c'. md5_feed c xs = Some c' \<and> ctx_of (m @ concat xs) c'"
  using assms
proof (induction xs arbitrary: m c)
  case (Cons x xs)
  obtain c1 where c1: "md5_update c x = Some c1" "ctx_of (m @ x) c1"
    using md5_update_ctx[of m c x] Cons.prems by auto
  then show ?case using Cons.IH[OF c1(2)] Cons.prems(2) by simp
qed simp

section \<open>Properties\<close>

text \<open>
  C6: the digest of a message does not depend on how the message is cut into pieces: a context
  that was initialised, updated with any pieces and finished gives the RFC 1321 digest of their
  concatenation, with its padding and its length in bits modulo $2^{64}$, and never reads
  outside of an input.
\<close>

theorem md5_streaming:
  assumes "length buf = 64" "\<forall>x \<in> set xs. length x + 63 < 4294967296"
  shows "\<exists>c z. md5_feed (md5_init buf) xs = Some c \<and> md5_final c = Some (md5_digest (concat xs), z)"
  using md5_feed_ctx[OF md5_init_ctx[OF assms(1)] assms(2)] md5_final_digest by auto

theorem md5_streaming_witness:
  "\<exists>c z. md5_feed (md5_init (replicate 64 0)) [[0x61], [0x62, 0x63]] = Some c \<and>
     md5_final c = Some (md5_digest [0x61, 0x62, 0x63], z)"
  using md5_streaming[of "replicate 64 0" "[[0x61], [0x62, 0x63]]"] by simp

text \<open>
  C32: the 64 unrolled steps of the compression function, with their words, shifts and
  constants, are the table-driven compression function of RFC 1321.
\<close>

theorem md5_transform_reference: "md5_transform st block = md5_compress st block"
  by (rule md5_transform_compress)

end
