(* ===== verification/NtpStamp.thy ===== *)
theory NtpStamp
  imports Prelude
begin

text \<open>
  The time stamps of the NTP server: the macros of \<^verbatim>\<open>src/d-ntp/dntp_timestamp.h\<close>, the
  conversion tables of \<^verbatim>\<open>src/d-ntp/dntp_tv2ts.h\<close> and \<^verbatim>\<open>src/d-ntp/dntp_ts2tv.h\<close>, and the
  types of \<^verbatim>\<open>src/d-ntp/dntp_type.h\<close>.
\<close>

section \<open>Tables\<close>

definition ustotslo :: "int list" where
  "ustotslo = [
     0, 4295, 8590, 12885, 17180, 21475, 25770, 30065,
     34360, 38655, 42950, 47245, 51540, 55835, 60130, 64425,
     68719, 73014, 77309, 81604, 85899, 90194, 94489, 98784,
     103079, 107374, 111669, 115964, 120259, 124554, 128849, 133144,
     137439, 141734, 146029, 150324, 154619, 158914, 163209, 167504,
     171799, 176094, 180389, 184684, 188979, 193274, 197568, 201863,
     206158, 210453, 214748, 219043, 223338, 227633, 231928, 236223,
     240518, 244813, 249108, 253403, 257698, 261993, 266288, 270583,
     274878, 279173, 283468, 287763, 292058, 296353, 300648, 304943,
     309238, 313533, 317828, 322123, 326418, 330712, 335007, 339302,
     343597, 347892, 352187, 356482, 360777, 365072, 369367, 373662,
     377957, 382252, 386547, 390842, 395137, 399432, 403727, 408022,
     412317, 416612, 420907, 425202, 429497, 433792, 438087, 442382,
     446677, 450972, 455267, 459561, 463856, 468151, 472446, 476741,
     481036, 485331, 489626, 493921, 498216, 502511, 506806, 511101,
     515396, 519691, 523986, 528281, 532576, 536871, 541166, 545461,
     549756, 554051, 558346, 562641, 566936, 571231, 575526, 579821,
     584116, 588411, 592705, 597000, 601295, 605590, 609885, 614180,
     618475, 622770, 627065, 631360, 635655, 639950, 644245, 648540,
     652835, 657130, 661425, 665720, 670015, 674310, 678605, 682900,
     687195, 691490, 695785, 700080, 704375, 708670, 712965, 717260,
     721554, 725849, 730144, 734439, 738734, 743029, 747324, 751619,
     755914, 760209, 764504, 768799, 773094, 777389, 781684, 785979,
     790274, 794569, 798864, 803159, 807454, 811749, 816044, 820339,
     824634, 828929, 833224, 837519, 841814, 846109, 850404, 854698,
     858993, 863288, 867583, 871878, 876173, 880468, 884763, 889058,
     893353, 897648, 901943, 906238, 910533, 914828, 919123, 923418,
     927713, 932008, 936303, 940598, 944893, 949188, 953483, 957778,
     962073, 966368, 970663, 974958, 979253, 983547, 987842, 992137,
     996432, 1000727, 1005022, 1009317, 1013612, 1017907, 1022202, 1026497,
     1030792, 1035087, 1039382, 1043677, 1047972, 1052267, 1056562, 1060857,
     1065152, 1069447, 1073742, 1078037, 1082332, 1086627, 1090922, 1095217]"

definition ustotsmid :: "int list" where
  "ustotsmid = [
     0, 1099512, 2199023, 3298535, 4398046, 5497558, 6597070, 7696581,
     8796093, 9895604, 10995116, 12094628, 13194139, 14293651, 15393162, 16492674,
     17592186, 18691697, 19791209, 20890720, 21990232, 23089744, 24189255, 25288767,
     26388278, 27487790, 28587302, 29686813, 30786325, 31885836, 32985348, 34084860,
     35184371, 36283883, 37383395, 38482906, 39582418, 40681929, 41781441, 42880953,
     43980464, 45079976, 46179487, 47278999, 48378511, 49478022, 50577534, 51677045,
     52776557, 53876069, 54975580, 56075092, 57174603, 58274115, 59373627, 60473138,
     61572650, 62672161, 63771673, 64871185, 65970696, 67070208, 68169719, 69269231,
     70368743, 71468254, 72567766, 73667277, 74766789, 75866301, 76965812, 78065324,
     79164835, 80264347, 81363859, 82463370, 83562882, 84662393, 85761905, 86861417,
     87960928, 89060440, 90159951, 91259463, 92358975, 93458486, 94557998, 95657509,
     96757021, 97856533, 98956044, 100055556, 101155067, 102254579, 103354091, 104453602,
     105553114, 106652626, 107752137, 108851649, 109951160, 111050672, 112150184, 113249695,
     114349207, 115448718, 116548230, 117647742, 118747253, 119846765, 120946276, 122045788,
     123145300, 124244811, 125344323, 126443834, 127543346, 128642858, 129742369, 130841881,
     131941392, 133040904, 134140416, 135239927, 136339439, 137438950, 138538462, 139637974,
     140737485, 141836997, 142936508, 144036020, 145135532, 146235043, 147334555, 148434066,
     149533578, 150633090, 151732601, 152832113, 153931624, 155031136, 156130648, 157230159,
     158329671, 159429182, 160528694, 161628206, 162727717, 163827229, 164926740, 166026252,
     167125764, 168225275, 169324787, 170424298, 171523810, 172623322, 173722833, 174822345,
     175921857, 177021368, 178120880, 179220391, 180319903, 181419415, 182518926, 183618438,
     184717949, 185817461, 186916973, 188016484, 189115996, 190215507, 191315019, 192414531,
     193514042, 194613554, 195713065, 196812577, 197912089, 199011600, 200111112, 201210623,
     202310135, 203409647, 204509158, 205608670, 206708181, 207807693, 208907205, 210006716,
     211106228, 212205739, 213305251, 214404763, 215504274, 216603786, 217703297, 218802809,
     219902321, 221001832, 222101344, 223200855, 224300367, 225399879, 226499390, 227598902,
     228698413, 229797925, 230897437, 231996948, 233096460, 234195971, 235295483, 236394995,
     237494506, 238594018, 239693529, 240793041, 241892553, 242992064, 244091576, 245191088,
     246290599, 247390111, 248489622, 249589134, 250688646, 251788157, 252887669, 253987180,
     255086692, 256186204, 257285715, 258385227, 259484738, 260584250, 261683762, 262783273,
     263882785, 264982296, 266081808, 267181320, 268280831, 269380343, 270479854, 271579366,
     272678878, 273778389, 274877901, 275977412, 277076924, 278176436, 279275947, 280375459]"

definition ustotshi :: "int list" where
  "ustotshi = [
     0, 281474970, 562949941, 844424911, 1125899882, 1407374852, 1688849823, 1970324793,
     2251799763, 2533274734, 2814749704, 3096224675, 3377699645, 3659174615, 3940649586, 4222124556]"

definition tstoushi :: "int list" where
  "tstoushi = [
     0, 31250, 62500, 93750, 125000, 156250, 187500, 218750,
     250000, 281250, 312500, 343750, 375000, 406250, 437500, 468750,
     500000, 531250, 562500, 593750, 625000, 656250, 687500, 718750,
     750000, 781250, 812500, 843750, 875000, 906250, 937500, 968750,
     1000000, 1031250, 1062500, 1093750, 1125000, 1156250, 1187500, 1218750,
     1250000, 1281250, 1312500, 1343750, 1375000, 1406250, 1437500, 1468750,
     1500000, 1531250, 1562500, 1593750, 1625000, 1656250, 1687500, 1718750,
     1750000, 1781250, 1812500, 1843750, 1875000, 1906250, 1937500, 1968750,
     2000000, 2031250, 2062500, 2093750, 2125000, 2156250, 2187500, 2218750,
     2250000, 2281250, 2312500, 2343750, 2375000, 2406250, 2437500, 2468750,
     2500000, 2531250, 2562500, 2593750, 2625000, 2656250, 2687500, 2718750,
     2750000, 2781250, 2812500, 2843750, 2875000, 2906250, 2937500, 2968750,
     3000000, 3031250, 3062500, 3093750, 3125000, 3156250, 3187500, 3218750,
     3250000, 3281250, 3312500, 3343750, 3375000, 3406250, 3437500, 3468750,
     3500000, 3531250, 3562500, 3593750, 3625000, 3656250, 3687500, 3718750,
     3750000, 3781250, 3812500, 3843750, 3875000, 3906250, 3937500, 3968750,
     4000000, 4031250, 4062500, 4093750, 4125000, 4156250, 4187500, 4218750,
     4250000, 4281250, 4312500, 4343750, 4375000, 4406250, 4437500, 4468750,
     4500000, 4531250, 4562500, 4593750, 4625000, 4656250, 4687500, 4718750,
     4750000, 4781250, 4812500, 4843750, 4875000, 4906250, 4937500, 4968750,
     5000000, 5031250, 5062500, 5093750, 5125000, 5156250, 5187500, 5218750,
     5250000, 5281250, 5312500, 5343750, 5375000, 5406250, 5437500, 5468750,
     5500000, 5531250, 5562500, 5593750, 5625000, 5656250, 5687500, 5718750,
     5750000, 5781250, 5812500, 5843750, 5875000, 5906250, 5937500, 5968750,
     6000000, 6031250, 6062500, 6093750, 6125000, 6156250, 6187500, 6218750,
     6250000, 6281250, 6312500, 6343750, 6375000, 6406250, 6437500, 6468750,
     6500000, 6531250, 6562500, 6593750, 6625000, 6656250, 6687500, 6718750,
     6750000, 6781250, 6812500, 6843750, 6875000, 6906250, 6937500, 6968750,
     7000000, 7031250, 7062500, 7093750, 7125000, 7156250, 7187500, 7218750,
     7250000, 7281250, 7312500, 7343750, 7375000, 7406250, 7437500, 7468750,
     7500000, 7531250, 7562500, 7593750, 7625000, 7656250, 7687500, 7718750,
     7750000, 7781250, 7812500, 7843750, 7875000, 7906250, 7937500, 7968750]"

definition tstousmid :: "int list" where
  "tstousmid = [
     0, 122, 244, 366, 488, 610, 732, 854,
     977, 1099, 1221, 1343, 1465, 1587, 1709, 1831,
     1953, 2075, 2197, 2319, 2441, 2563, 2686, 2808,
     2930, 3052, 3174, 3296, 3418, 3540, 3662, 3784,
     3906, 4028, 4150, 4272, 4395, 4517, 4639, 4761,
     4883, 5005, 5127, 5249, 5371, 5493, 5615, 5737,
     5859, 5981, 6104, 6226, 6348, 6470, 6592, 6714,
     6836, 6958, 7080, 7202, 7324, 7446, 7568, 7690,
     7812, 7935, 8057, 8179, 8301, 8423, 8545, 8667,
     8789, 8911, 9033, 9155, 9277, 9399, 9521, 9644,
     9766, 9888, 10010, 10132, 10254, 10376, 10498, 10620,
     10742, 10864, 10986, 11108, 11230, 11353, 11475, 11597,
     11719, 11841, 11963, 12085, 12207, 12329, 12451, 12573,
     12695, 12817, 12939, 13062, 13184, 13306, 13428, 13550,
     13672, 13794, 13916, 14038, 14160, 14282, 14404, 14526,
     14648, 14771, 14893, 15015, 15137, 15259, 15381, 15503,
     15625, 15747, 15869, 15991, 16113, 16235, 16357, 16479,
     16602, 16724, 16846, 16968, 17090, 17212, 17334, 17456,
     17578, 17700, 17822, 17944, 18066, 18188, 18311, 18433,
     18555, 18677, 18799, 18921, 19043, 19165, 19287, 19409,
     19531, 19653, 19775, 19897, 20020, 20142, 20264, 20386,
     20508, 20630, 20752, 20874, 20996, 21118, 21240, 21362,
     21484, 21606, 21729, 21851, 21973, 22095, 22217, 22339,
     22461, 22583, 22705, 22827, 22949, 23071, 23193, 23315,
     23437, 23560, 23682, 23804, 23926, 24048, 24170, 24292,
     24414, 24536, 24658, 24780, 24902, 25024, 25146, 25269,
     25391, 25513, 25635, 25757, 25879, 26001, 26123, 26245,
     26367, 26489, 26611, 26733, 26855, 26978, 27100, 27222,
     27344, 27466, 27588, 27710, 27832, 27954, 28076, 28198,
     28320, 28442, 28564, 28687, 28809, 28931, 29053, 29175,
     29297, 29419, 29541, 29663, 29785, 29907, 30029, 30151,
     30273, 30396, 30518, 30640, 30762, 30884, 31006, 31128]"

definition tstouslo :: "int list" where
  "tstouslo = [
     0, 1, 2, 3, 4, 5, 6, 7,
     8, 9, 10, 10, 11, 12, 13, 14,
     15, 16, 17, 18, 19, 20, 21, 22,
     23, 24, 25, 26, 27, 28, 29, 30,
     31, 31, 32, 33, 34, 35, 36, 37,
     38, 39, 40, 41, 42, 43, 44, 45,
     46, 47, 48, 49, 50, 51, 51, 52,
     53, 54, 55, 56, 57, 58, 59, 60,
     61, 62, 63, 64, 65, 66, 67, 68,
     69, 70, 71, 72, 72, 73, 74, 75,
     76, 77, 78, 79, 80, 81, 82, 83,
     84, 85, 86, 87, 88, 89, 90, 91,
     92, 92, 93, 94, 95, 96, 97, 98,
     99, 100, 101, 102, 103, 104, 105, 106,
     107, 108, 109, 110, 111, 112, 113, 113,
     114, 115, 116, 117, 118, 119, 120, 121]"

section \<open>Time stamps\<close>

text \<open>A \<open>struct timeval\<close> and the unsigned view of \<open>l_fp\<close>.\<close>

record timeval =
  tv_sec :: int
  tv_usec :: int

record l_fp =
  l_ui :: int
  l_uf :: int

text \<open>The bytes of a microsecond count select the entries that are summed; a negative count
  does not occur.\<close>

definition TVUTOTSF :: "int \<Rightarrow> int" where
  "TVUTOTSF tvu = u32 (u32 (ustotslo ! nat (tvu mod 256) + ustotsmid ! nat (tvu div 256 mod 256))
     + ustotshi ! nat (tvu div 65536 mod 16))"

definition TVTOTS :: "timeval \<Rightarrow> l_fp" where
  "TVTOTS tv = \<lparr>l_ui = u32 (tv_sec tv), l_uf = TVUTOTSF (tv_usec tv)\<rparr>"

definition TV_SHIFT :: int where "TV_SHIFT = 3"
definition TV_ROUNDBIT :: int where "TV_ROUNDBIT = 4"

definition TSFTOTVU :: "int \<Rightarrow> int" where
  "TSFTOTVU tsf = (tstoushi ! nat (tsf div 16777216 mod 256) + tstousmid ! nat (tsf div 65536 mod 256)
     + tstouslo ! nat (tsf div 512 mod 128) + TV_ROUNDBIT) div 2 ^ nat TV_SHIFT"

definition TSTOTV :: "l_fp \<Rightarrow> timeval" where
  "TSTOTV ts = (let usec = TSFTOTVU (l_uf ts)
     in if usec = 1000000 then \<lparr>tv_sec = l_ui ts + 1, tv_usec = 0\<rparr>
        else \<lparr>tv_sec = l_ui ts, tv_usec = usec\<rparr>)"

section \<open>The first byte of a packet\<close>

definition PKT_MODE :: "int \<Rightarrow> int" where "PKT_MODE li_vn_mode = li_vn_mode mod 8"
definition PKT_VERSION :: "int \<Rightarrow> int" where "PKT_VERSION li_vn_mode = li_vn_mode div 8 mod 8"
definition PKT_LEAP :: "int \<Rightarrow> int" where "PKT_LEAP li_vn_mode = li_vn_mode div 64 mod 4"

definition PKT_LI_VN_MODE :: "int \<Rightarrow> int \<Rightarrow> int \<Rightarrow> int" where
  "PKT_LI_VN_MODE li vn md = li mod 4 * 64 + vn mod 8 * 8 + md mod 8"

end
