(* ===== verification/NtpStampSpec.thy ===== *)
theory NtpStampSpec
  imports NtpStamp
begin

text \<open>
  How exact the conversion tables of the NTP time stamps are: the fraction of a microsecond
  count is below the exact one by at most 102 units of $2^{-32}$ seconds (the tables of
  \<^verbatim>\<open>dntp_tv2ts.h\<close> are not rounded to the nearest unit, as its comment says, but built
  from a rounded entry), and a microsecond count survives the way into a time stamp and back.
\<close>

text \<open>Entry \<open>k\<close> of a table is within half of \<open>d\<close> of the value \<open>k * c\<close>, all scaled by \<open>m\<close>.\<close>

definition tab_near :: "int \<Rightarrow> int \<Rightarrow> int \<Rightarrow> int list \<Rightarrow> bool" where
  "tab_near m c e xs \<longleftrightarrow>
     list_all2 (\<lambda>k v. m * v - k * c \<le> e \<and> k * c - m * v \<le> e) [0..int (length xs) - 1] xs"

lemma tab_near_nth:
  assumes "tab_near m c e xs" "0 \<le> k" "k < int (length xs)"
  shows "m * xs ! nat k - k * c \<le> e" "k * c - m * xs ! nat k \<le> e"
proof -
  have n: "nat k < length [0..int (length xs) - 1]" "nat k < length xs" using assms(2,3) by auto
  have "[0..int (length xs) - 1] ! nat k = k" using assms(2,3) by simp
  then show "m * xs ! nat k - k * c \<le> e" "k * c - m * xs ! nat k \<le> e"
    using list_all2_nthD[OF assms(1)[unfolded tab_near_def] n(1)] by simp_all
qed

lemma table_lengths [simp]:
  "length ustotslo = 256" "length ustotsmid = 256" "length ustotshi = 16"
  "length tstoushi = 256" "length tstousmid = 256" "length tstouslo = 128"
  by (simp_all add: ustotslo_def ustotsmid_def ustotshi_def tstoushi_def tstousmid_def tstouslo_def)

lemma tv2ts_tables:
  "tab_near 1000000 4294967296 510784 ustotslo"
  "tab_near 1000000 (256 * 4294967296) 6571776 ustotsmid"
  "tab_near 1000000 (65536 * 4294967296) 94659840 ustotshi"
  by code_simp+

lemma ts2tv_tables:
  "tab_near 4294967296 (8000000 * 16777216) 0 tstoushi"
  "tab_near 4294967296 (8000000 * 65536) 2147483648 tstousmid"
  "tab_near 4294967296 (8000000 * 512) 2175008768 tstouslo"
  by code_simp+


lemma table_nonneg:
  "list_all (\<lambda>v. 0 \<le> v) ustotslo" "list_all (\<lambda>v. 0 \<le> v) ustotsmid" "list_all (\<lambda>v. 0 \<le> v) ustotshi"
  by code_simp+

text \<open>The fraction of a microsecond count.\<close>

lemma fraction_error:
  assumes "0 \<le> u" "u < 1000000"
  shows "0 \<le> TVUTOTSF u" "TVUTOTSF u < 4294967296"
    "1000000 * TVUTOTSF u - u * 4294967296 \<le> 101742400"
    "u * 4294967296 - 1000000 * TVUTOTSF u \<le> 101742400"
proof -
  define a b c where "a = u mod 256" and "b = u div 256 mod 256" and "c = u div 65536 mod 16"
  have u: "u = a + 256 * b + 65536 * c"
  proof -
    define p q where "p = u div 256" and "q = u div 65536"
    have "q = p div 256" using zdiv_zmult2_eq[of 256 u 256] by (simp add: p_def q_def)
    then have "p = 256 * q + b" using mult_div_mod_eq[of 256 p] by (simp add: b_def p_def)
    moreover have "u = 256 * p + a" using mult_div_mod_eq[of 256 u] by (simp add: a_def p_def)
    moreover have "0 \<le> q" "q < 16" using assms unfolding q_def by linarith+
    then have "c = q" by (simp add: c_def q_def)
    ultimately show ?thesis by simp
  qed
  have abc: "0 \<le> a" "a < 256" "0 \<le> b" "b < 256" "0 \<le> c" "c < 16"
    by (simp_all add: a_def b_def c_def)
  define lo mid hi where "lo = ustotslo ! nat a" and "mid = ustotsmid ! nat b" and "hi = ustotshi ! nat c"
  have lo: "1000000 * lo - a * 4294967296 \<le> 510784" "a * 4294967296 - 1000000 * lo \<le> 510784"
    using tab_near_nth[OF tv2ts_tables(1), of a] abc by (simp_all add: lo_def)
  have mid: "1000000 * mid - b * (256 * 4294967296) \<le> 6571776"
    "b * (256 * 4294967296) - 1000000 * mid \<le> 6571776"
    using tab_near_nth[OF tv2ts_tables(2), of b] abc by (simp_all add: mid_def)
  have hi: "1000000 * hi - c * (65536 * 4294967296) \<le> 94659840"
    "c * (65536 * 4294967296) - 1000000 * hi \<le> 94659840"
    using tab_near_nth[OF tv2ts_tables(3), of c] abc by (simp_all add: hi_def)
  have pos: "0 \<le> lo" "0 \<le> mid" "0 \<le> hi"
    using table_nonneg abc by (simp_all add: list_all_length lo_def mid_def hi_def nat_less_iff)
  have e: "1000000 * (lo + mid + hi) - u * 4294967296 \<le> 101742400"
    "u * 4294967296 - 1000000 * (lo + mid + hi) \<le> 101742400"
    using lo mid hi by (simp_all add: u)
  moreover define S where "S = lo + mid + hi"
  ultimately have "S < 4294967296" using assms(2) by simp
  then have "lo + mid + hi < 4294967296" by (simp only: S_def)
  then have f: "TVUTOTSF u = lo + mid + hi"
    using pos by (simp add: TVUTOTSF_def flip: a_def b_def c_def lo_def mid_def hi_def)
  show "0 \<le> TVUTOTSF u" "TVUTOTSF u < 4294967296"
    "1000000 * TVUTOTSF u - u * 4294967296 \<le> 101742400"
    "u * 4294967296 - 1000000 * TVUTOTSF u \<le> 101742400"
    using pos \<open>lo + mid + hi < 4294967296\<close> e unfolding f by simp_all
qed

lemma usec_error:
  assumes "0 \<le> f" "f < 4294967296"
  defines "s \<equiv> tstoushi ! nat (f div 16777216 mod 256) + tstousmid ! nat (f div 65536 mod 256)
     + tstouslo ! nat (f div 512 mod 128)"
  shows "4294967296 * s - 8000000 * f \<le> 4322492416"
    "8000000 * f - 4294967296 * s \<le> 4322492416 + 8000000 * 511"
proof -
  define a b c r where "a = f div 512 mod 128" and "b = f div 65536 mod 256"
    and "c = f div 16777216 mod 256" and "r = f mod 512"
  have f: "f = r + 512 * a + 65536 * b + 16777216 * c"
  proof -
    define n p q where "n = f div 512" and "p = f div 65536" and "q = f div 16777216"
    have "p = n div 128" "q = p div 256"
      using zdiv_zmult2_eq[of 128 f 512] zdiv_zmult2_eq[of 256 f 65536]
      by (simp_all add: n_def p_def q_def)
    then have "n = 128 * p + a" "p = 256 * q + b"
      using mult_div_mod_eq[of 128 n] mult_div_mod_eq[of 256 p] by (simp_all add: a_def b_def n_def p_def)
    moreover have "f = 512 * n + r" using mult_div_mod_eq[of 512 f] by (simp add: n_def r_def)
    moreover have "0 \<le> q" "q < 256" using assms(1,2) unfolding q_def by linarith+
    then have "c = q" by (simp add: c_def q_def)
    ultimately show ?thesis by simp
  qed
  have abc: "0 \<le> a" "a < 128" "0 \<le> b" "b < 256" "0 \<le> c" "c < 256" "0 \<le> r" "r < 512"
    by (simp_all add: a_def b_def c_def r_def)
  have hi: "4294967296 * tstoushi ! nat c - c * (8000000 * 16777216) \<le> 0"
    "c * (8000000 * 16777216) - 4294967296 * tstoushi ! nat c \<le> 0"
    using tab_near_nth[OF ts2tv_tables(1), of c] abc by simp_all
  have mid: "4294967296 * tstousmid ! nat b - b * (8000000 * 65536) \<le> 2147483648"
    "b * (8000000 * 65536) - 4294967296 * tstousmid ! nat b \<le> 2147483648"
    using tab_near_nth[OF ts2tv_tables(2), of b] abc by simp_all
  have lo: "4294967296 * tstouslo ! nat a - a * (8000000 * 512) \<le> 2175008768"
    "a * (8000000 * 512) - 4294967296 * tstouslo ! nat a \<le> 2175008768"
    using tab_near_nth[OF ts2tv_tables(3), of a] abc by simp_all
  have "s = tstoushi ! nat c + tstousmid ! nat b + tstouslo ! nat a"
    by (simp add: s_def a_def b_def c_def)
  then show "4294967296 * s - 8000000 * f \<le> 4322492416"
    "8000000 * f - 4294967296 * s \<le> 4322492416 + 8000000 * 511"
    using hi mid lo abc(7,8) by (simp_all add: f)
qed

lemma usec_roundtrip:
  assumes "0 \<le> u" "u < 1000000"
  shows "TSFTOTVU (TVUTOTSF u) = u"
proof -
  define f where "f = TVUTOTSF u"
  define s where "s = tstoushi ! nat (f div 16777216 mod 256) + tstousmid ! nat (f div 65536 mod 256)
     + tstouslo ! nat (f div 512 mod 128)"
  note f = fraction_error[OF assms, folded f_def]
  note e = usec_error[OF f(1,2), folded s_def]
  have "(s + 4) div 8 = u"
    by (rule div_eqI) (use f(3,4) e in \<open>simp_all\<close>)
  then show ?thesis by (simp add: TSFTOTVU_def TV_ROUNDBIT_def TV_SHIFT_def s_def flip: f_def)
qed

section \<open>Properties\<close>

text \<open>
  C33: a time of day in seconds and microseconds that is put into an NTP time stamp and taken
  out again is unchanged, and the fraction in between differs from the exact one by less than
  102 units of $2^{-32}$ seconds (24 nanoseconds).
\<close>

theorem timestamp_roundtrip:
  assumes "0 \<le> tv_sec tv" "tv_sec tv < 4294967296" "0 \<le> tv_usec tv" "tv_usec tv < 1000000"
  shows "TSTOTV (TVTOTS tv) = tv \<and>
    \<bar>1000000 * l_uf (TVTOTS tv) - tv_usec tv * 4294967296\<bar> < 102 * 1000000"
  using assms fraction_error(3,4)[of "tv_usec tv"]
  by (auto simp: TSTOTV_def TVTOTS_def usec_roundtrip abs_less_iff)

theorem timestamp_roundtrip_witness:
  "TSTOTV (TVTOTS \<lparr>tv_sec = 3900000000, tv_usec = 999999\<rparr>) = \<lparr>tv_sec = 3900000000, tv_usec = 999999\<rparr>"
  using timestamp_roundtrip[of "\<lparr>tv_sec = 3900000000, tv_usec = 999999\<rparr>"] by simp

text \<open>
  The first byte of a packet: the leap indicator, the version and the mode that are packed
  into it are read back, whatever the other bits are, and every byte is the packing of its parts.
\<close>

theorem first_byte_roundtrip:
  "((0::int) \<le> li \<and> li < 4 \<and> 0 \<le> vn \<and> vn < 8 \<and> 0 \<le> md \<and> md < 8 \<longrightarrow>
     PKT_LEAP (PKT_LI_VN_MODE li vn md) = li \<and> PKT_VERSION (PKT_LI_VN_MODE li vn md) = vn \<and>
     PKT_MODE (PKT_LI_VN_MODE li vn md) = md \<and>
     0 \<le> PKT_LI_VN_MODE li vn md \<and> PKT_LI_VN_MODE li vn md < 256) \<and>
   (0 \<le> b \<and> b < 256 \<longrightarrow> PKT_LI_VN_MODE (PKT_LEAP b) (PKT_VERSION b) (PKT_MODE b) = b)"
proof -
  have "b div 64 mod 4 * 64 + b div 8 mod 8 * 8 + b mod 8 = b" if "0 \<le> b" "b < 256"
  proof -
    define p q where "p = b div 8" and "q = b div 64"
    have "q = p div 8" using zdiv_zmult2_eq[of 8 b 8] by (simp add: p_def q_def)
    then have "p = 8 * q + p mod 8" using mult_div_mod_eq[of 8 p] by simp
    moreover have "b = 8 * p + b mod 8" by (simp add: p_def)
    moreover have "0 \<le> q" "q < 4" using that unfolding q_def by linarith+
    then have "q mod 4 = q" by simp
    ultimately show ?thesis unfolding p_def[symmetric] q_def[symmetric] by linarith
  qed
  moreover have "(a * 64 + v * 8 + m) mod 8 = m" "(a * 64 + v * 8 + m) div 8 mod 8 = v"
    "(a * 64 + v * 8 + m) div 64 mod 4 = a"
    if "0 \<le> a" "a < 4" "0 \<le> v" "v < 8" "0 \<le> m" "m < 8" for a v m :: int
  proof -
    have "(a * 64 + v * 8 + m) div 8 = a * 8 + v" "(a * 64 + v * 8 + m) div 64 = a"
      using that by (intro div_eqI; simp)+
    moreover have "a * 64 + v * 8 + m = m + 8 * (a * 8 + v)" by simp
    then have "(a * 64 + v * 8 + m) mod 8 = m" using that by (simp only: mod_mult_self2) simp
    ultimately show "(a * 64 + v * 8 + m) mod 8 = m" "(a * 64 + v * 8 + m) div 8 mod 8 = v"
      "(a * 64 + v * 8 + m) div 64 mod 4 = a" using that by simp_all
  qed
  ultimately show ?thesis
    by (auto simp: PKT_LEAP_def PKT_VERSION_def PKT_MODE_def PKT_LI_VN_MODE_def)
qed

theorem first_byte_roundtrip_witness:
  "PKT_VERSION (PKT_LI_VN_MODE 3 4 5) = 4 \<and> PKT_LI_VN_MODE (PKT_LEAP 0xE3) (PKT_VERSION 0xE3) (PKT_MODE 0xE3) = 0xE3"
  using first_byte_roundtrip[where li = 3 and vn = 4 and md = 5 and b = "0xE3"] by simp

end
