(* ===== verification/NtpSocket.thy ===== *)
theory NtpSocket
  imports Prelude
begin

unbundle bit_operations_syntax

text \<open>
  The raw socket layer of the NTP server, \<^verbatim>\<open>src/d-ntp/dntp_socket.c\<close>: the Internet checksum, the
  frames it builds, and the treatment of a received frame (ARP requests and pings are answered,
  NTP requests are handed up).

  Memory is a list of bytes. The byte order of the machine (\<open>asm/byteorder.h\<close>) is the parameter
  \<open>le\<close>; it matters for the 16 bit words that the checksum adds and for the store of its result.
  A read behind the 1536 bytes of the packet buffer has no value.
\<close>

section \<open>Memory\<close>

definition host16 :: "bool \<Rightarrow> 8 word \<Rightarrow> 8 word \<Rightarrow> int" where
  "host16 le b0 b1 = (if le then uint b0 + 256 * uint b1 else 256 * uint b0 + uint b1)"

definition store16 :: "bool \<Rightarrow> int \<Rightarrow> bytes" where
  "store16 le v = (if le then [word_of_int v, word_of_int (v div 256)]
                   else [word_of_int (v div 256), word_of_int v])"

definition be16 :: "bytes \<Rightarrow> int" where
  "be16 bs = 256 * uint (bs ! 0) + uint (bs ! 1)"

definition be16_bytes :: "int \<Rightarrow> bytes" where
  "be16_bytes v = [word_of_int (v div 256), word_of_int v]"

definition be32_bytes :: "int \<Rightarrow> bytes" where
  "be32_bytes v = [word_of_int (v div 16777216), word_of_int (v div 65536),
     word_of_int (v div 256), word_of_int v]"

text \<open>\<open>memcpy\<close> out of and into a buffer.\<close>

definition sub :: "bytes \<Rightarrow> nat \<Rightarrow> nat \<Rightarrow> bytes" where
  "sub buf off n = take n (drop off buf)"

definition upd :: "bytes \<Rightarrow> nat \<Rightarrow> bytes \<Rightarrow> bytes" where
  "upd buf off bs = take off buf @ bs @ drop (off + length bs) buf"

section \<open>The checksum\<close>

text \<open>The loop over the 16 bit words; a single byte at the end is the first byte of a word.\<close>

fun word_sum :: "bool \<Rightarrow> int \<Rightarrow> bytes \<Rightarrow> int" where
  "word_sum le acc (b0 # b1 # bs) = word_sum le (u32 (acc + host16 le b0 b1)) bs"
| "word_sum le acc [b] = u32 (acc + host16 le b 0)"
| "word_sum le acc [] = acc"

definition checksum_sum :: "bool \<Rightarrow> bytes \<Rightarrow> int \<Rightarrow> int \<Rightarrow> int option" where
  "checksum_sum le buf len init =
     (if len \<le> int (length buf) then Some (word_sum le init (take (nat len) buf)) else None)"

definition checksum_check :: "int \<Rightarrow> int" where
  "checksum_check s =
     (let s = u32 (s div 65536 + s mod 65536);
          s = u32 (s + s div 65536)
      in 65535 - s mod 65536)"

definition checksum :: "bool \<Rightarrow> bytes \<Rightarrow> int \<Rightarrow> int option" where
  "checksum le buf len =
     (if len \<le> int (length buf) then
        Some (let s = word_sum le 0 (take (nat len) buf);
                  s = u32 (s div 65536 + s mod 65536);
                  s = u32 (s + s div 65536)
              in 65535 - s mod 65536)
      else None)"

section \<open>Data\<close>

record port_info =
  pi_mac :: bytes
  pi_ip_a :: bytes
  pi_ip :: int

text \<open>\<open>recvaddr_t\<close>; the fields are the bytes as they are in the frame.\<close>

record recvaddr =
  ra_port :: bytes
  ra_ip :: bytes
  ra_mac :: bytes
  ra_id :: bytes
  ra_info :: port_info

text \<open>The effect of one call: nothing, a frame that is sent, or a request that is handed up.\<close>

datatype rx = RxError int | RxNone | RxReply bytes | RxNtp bytes recvaddr

section \<open>Receiving\<close>

text \<open>
  Offsets: the Ethernet header is 0 to 13, an ARP header 14 to 21 with the sender's MAC at 22 and
  IP at 28, the target's MAC at 32 and IP at 38; an IP header starts at 14.
\<close>

definition rx_arp :: "port_info \<Rightarrow> bytes \<Rightarrow> nat \<Rightarrow> rx" where
  "rx_arp info buf len =
     (if be16 (sub buf 14 2) \<noteq> 1 \<or> be16 (sub buf 16 2) \<noteq> 0x0800 \<or> buf ! 18 \<noteq> 6 \<or> buf ! 19 \<noteq> 4
      then RxNone
      else if be16 (sub buf 20 2) = 1 then
        if sub buf 38 4 = pi_ip_a info then
          let buf = upd buf 0 (sub buf 6 6);
              buf = upd buf 6 (pi_mac info);
              buf = upd buf 20 (be16_bytes 2);
              buf = upd buf 32 (sub buf 22 6);
              buf = upd buf 38 (sub buf 28 4);
              buf = upd buf 22 (sub buf 6 6);
              buf = upd buf 28 (pi_ip_a info)
          in RxReply (take (if len < 60 then 60 else len) buf)
        else RxNone
      else RxNone)"

definition rx_icmp :: "bool \<Rightarrow> port_info \<Rightarrow> bytes \<Rightarrow> nat \<Rightarrow> nat \<Rightarrow> int \<Rightarrow> rx option" where
  "rx_icmp le info buf len hl payload =
     (let ic = 14 + hl in
      if buf ! ic \<noteq> 8 \<and> buf ! (ic + 1) \<noteq> 0 then Some RxNone
      else
        let buf = upd buf 0 (sub buf 6 6);
            buf = upd buf 6 (pi_mac info);
            buf = upd buf 30 (sub buf 26 4);
            buf = upd buf 26 (be32_bytes (pi_ip info));
            buf = upd buf 24 [0, 0]
        in case checksum le (drop 14 buf) (int hl) of
             None \<Rightarrow> None
           | Some c \<Rightarrow>
               let buf = upd buf 24 (store16 le c);
                   buf = upd buf ic [0];
                   buf = upd buf (ic + 2) [0, 0]
               in case checksum le (drop ic buf) payload of
                    None \<Rightarrow> None
                  | Some c \<Rightarrow>
                      let buf = upd buf (ic + 2) (store16 le c)
                      in Some (RxReply (take (if len < 60 then 60 else len) buf)))"

definition rx_udp :: "port_info \<Rightarrow> bytes \<Rightarrow> nat \<Rightarrow> nat \<Rightarrow> rx option" where
  "rx_udp info buf hl buffer_size =
     (let u = 14 + hl in
      if sub buf (u + 2) 2 = be16_bytes 123 then
        let n = be16 (sub buf (u + 4) 2) in
        if n > int buffer_size then Some RxNone
        else if n < 8 then None
        else Some (RxNtp (sub buf (u + 8) (nat n - 8))
               \<lparr>ra_port = sub buf u 2, ra_ip = sub buf 26 4, ra_mac = sub buf 6 6,
                ra_id = sub buf 18 2, ra_info = info\<rparr>)
      else Some RxNone)"

definition rx_ip :: "bool \<Rightarrow> port_info \<Rightarrow> bytes \<Rightarrow> nat \<Rightarrow> nat \<Rightarrow> rx option" where
  "rx_ip le info buf len buffer_size =
     (if drop_bit 4 (buf ! 14) \<noteq> 4 then Some RxNone
      else
        let hl = unat (buf ! 14 AND 15) * 4 in
        if hl < 20 then Some RxNone
        else
          let payload = u32 (be16 (sub buf 16 2) - int hl) in
          if sub buf 30 4 \<noteq> be32_bytes (pi_ip info) then Some RxNone
          else if buf ! 23 = 0x01 then rx_icmp le info buf len hl payload
          else if buf ! 23 = 0x11 then rx_udp info buf hl buffer_size
          else Some RxNone)"

text \<open>
  \<open>recv\<close> delivers a frame of at most 1536 bytes or an error code; behind the frame the buffer
  holds what the stack held before, the parameter \<open>junk\<close>.
\<close>

definition receive_packet ::
  "bool \<Rightarrow> bytes \<Rightarrow> port_info \<Rightarrow> nat \<Rightarrow> int + bytes \<Rightarrow> rx option" where
  "receive_packet le junk info buffer_size recv =
     (case recv of
        Inl e \<Rightarrow> Some (RxError e)
      | Inr frame \<Rightarrow>
          let buf = upd junk 0 frame; len = length frame; type = be16 (sub buf 12 2)
          in if type = 0x0806 then Some (rx_arp info buf len)
             else if type = 0x0800 then rx_ip le info buf len buffer_size
             else Some RxNone)"

section \<open>Sending\<close>

text \<open>
  The frame around the data: Ethernet header, IP header at 14, UDP header at 34, data at 42.
\<close>

definition send_packet :: "bool \<Rightarrow> bytes \<Rightarrow> bytes \<Rightarrow> recvaddr \<Rightarrow> bytes option" where
  "send_packet le junk ntp_data addr =
     (let len = length ntp_data in
      if 42 + len > length junk then None
      else
        let buf = upd junk 0 (ra_mac addr);
            buf = upd buf 6 (pi_mac (ra_info addr));
            buf = upd buf 12 (be16_bytes 0x0800);
            buf = upd buf 14 [0x45, 0];
            buf = upd buf 16 (be16_bytes (28 + int len));
            buf = upd buf 18 (ra_id addr);
            buf = upd buf 20 [0, 0];
            buf = upd buf 22 [64, 0x11];
            buf = upd buf 24 [0, 0];
            buf = upd buf 26 (pi_ip_a (ra_info addr));
            buf = upd buf 30 (ra_ip addr)
        in case checksum le (drop 14 buf) 20 of
             None \<Rightarrow> None
           | Some c \<Rightarrow>
               let buf = upd buf 24 (store16 le c);
                   buf = upd buf 34 (be16_bytes 123);
                   buf = upd buf 36 (ra_port addr);
                   buf = upd buf 38 (be16_bytes (8 + int len));
                   buf = upd buf 40 [0, 0];
                   pseudo = sub buf 26 4 @ sub buf 30 4 @ [0, 0x11] @ be16_bytes (8 + int len);
                   buf = upd buf 42 ntp_data
               in case checksum_sum le pseudo 12 0 of
                    None \<Rightarrow> None
                  | Some s \<Rightarrow>
                      (case checksum_sum le (drop 34 buf) (int len + 8) s of
                         None \<Rightarrow> None
                       | Some s \<Rightarrow>
                           let buf = upd buf 40 (store16 le (checksum_check s));
                               pkt_len = 42 + len
                           in Some (take (if pkt_len < 60 then 60 else pkt_len) buf)))"

end
