(* ===== verification/NtpSocketSpec.thy ===== *)
theory NtpSocketSpec
  imports NtpSocket
begin

unbundle bit_operations_syntax

text \<open>
  The frames that \<^verbatim>\<open>src/d-ntp/dntp_socket.c\<close> builds carry checksums that verify, on either byte
  order, and the address fields they should.
\<close>

section \<open>Memory\<close>

lemma length_sub [simp]: "off + n \<le> length buf \<Longrightarrow> length (sub buf off n) = n"
  by (simp add: sub_def)

lemma length_upd [simp]: "off + length bs \<le> length buf \<Longrightarrow> length (upd buf off bs) = length buf"
  by (simp add: upd_def)

lemma sub_upd_before: "off + length bs \<le> length buf \<Longrightarrow> k + n \<le> off \<Longrightarrow> sub (upd buf off bs) k n = sub buf k n"
  by (simp add: sub_def upd_def take_drop min_def) 

lemma sub_upd_after: "off + length bs \<le> length buf \<Longrightarrow> off + length bs \<le> k \<Longrightarrow> sub (upd buf off bs) k n = sub buf k n"
  by (simp add: sub_def upd_def)

lemma sub_upd_same: "off + length bs \<le> length buf \<Longrightarrow> n = length bs \<Longrightarrow> sub (upd buf off bs) off n = bs"
  by (simp add: sub_def upd_def)

lemmas sub_upd = sub_upd_before sub_upd_after sub_upd_same

lemma sub_split: "n = a + b \<Longrightarrow> sub buf off n = sub buf off a @ sub buf (off + a) b"
  by (simp add: sub_def take_add add.commute)

lemma sub_sub: "k + n \<le> m \<Longrightarrow> sub (sub buf off m) k n = sub buf (off + k) n"
  by (simp add: sub_def drop_take take_take min_def add.commute)

lemma sub_take: "k + n \<le> m \<Longrightarrow> sub (take m buf) k n = sub buf k n"
  by (simp add: sub_def drop_take min_def)

lemma nth_sub: "i < n \<Longrightarrow> off + n \<le> length buf \<Longrightarrow> buf ! (off + i) = sub buf off n ! i"
  by (simp add: sub_def)

lemma be16_bytes [simp]: "0 \<le> v \<Longrightarrow> v < 65536 \<Longrightarrow> be16 (be16_bytes v) = v"
  by (simp add: be16_def be16_bytes_def uint_word_of_int)

lemma length_words [simp]:
  "length (be16_bytes v) = 2" "length (be32_bytes v) = 4" "length (store16 le v) = 2"
  by (simp_all add: be16_bytes_def be32_bytes_def store16_def)

section \<open>The ones' complement sum\<close>

fun wsum :: "bool \<Rightarrow> bytes \<Rightarrow> int" where
  "wsum le (b0 # b1 # bs) = host16 le b0 b1 + wsum le bs"
| "wsum le [b] = host16 le b 0"
| "wsum le [] = 0"

lemma uint8_bounds: "0 \<le> uint (b :: 8 word)" "uint b \<le> 255"
  using uint_bounded[of b] by simp_all

lemma host16_bounds: "0 \<le> host16 le b0 b1" "host16 le b0 b1 \<le> 65535"
  using uint8_bounds[of b0] uint8_bounds[of b1] by (simp_all add: host16_def)

lemma wsum_nonneg [simp]: "0 \<le> wsum le bs"
  by (induction le bs rule: wsum.induct) (simp_all add: host16_bounds)

lemma wsum_le: "2 * wsum le bs \<le> 65535 * (int (length bs) + 1)"
proof (induction le bs rule: wsum.induct)
  case (1 le b0 b1 bs)
  then show ?case using host16_bounds(2)[of le b0 b1] by simp
next
  case (2 le b)
  show ?case using host16_bounds(2)[of le b 0] by simp
qed simp

lemma word_sum_wsum:
  "0 \<le> s \<Longrightarrow> s + wsum le bs < 4294967296 \<Longrightarrow> word_sum le s bs = s + wsum le bs"
proof (induction le bs arbitrary: s rule: wsum.induct)
  case (1 le b0 b1 bs)
  have "u32 (s + host16 le b0 b1) = s + host16 le b0 b1"
    using 1(2,3) host16_bounds(1)[of le b0 b1] wsum_nonneg[of le bs]
    by (intro u32_id) (simp_all del: wsum_nonneg)
  then show ?case using 1 host16_bounds(1)[of le b0 b1] by simp
next
  case (2 le b)
  then show ?case using host16_bounds[of le b 0] by simp
qed simp

lemma wsum_append: "even (length a) \<Longrightarrow> wsum le (a @ b) = wsum le a + wsum le b"
  by (induction le a rule: wsum.induct) simp_all

lemma wsum_store16: "0 \<le> c \<Longrightarrow> c < 65536 \<Longrightarrow> wsum le (store16 le c) = c"
  by (simp add: store16_def host16_def uint_word_of_int)

lemma host16_zero [simp]: "host16 le 0 0 = 0"
  by (simp add: host16_def)

lemma wsum_le_65535: "length bs \<le> 65535 \<Longrightarrow> wsum le bs \<le> 2147450880"
  using wsum_le[of le bs] by simp

text \<open>The folded sum is the residue modulo 65535, and only the sum 0 folds to 0.\<close>

lemma checksum_check_residue:
  assumes "0 \<le> s" "s < 4294967296"
  shows "0 \<le> checksum_check s" "checksum_check s \<le> 65535"
    "(s + checksum_check s) mod 65535 = 0" "s \<noteq> 0 \<Longrightarrow> checksum_check s < 65535"
    "checksum_check 0 = 65535"
proof -
  define h l where "h = s div 65536" and "l = s mod 65536"
  have hl: "s = 65536 * h + l" "0 \<le> l" "l < 65536" "0 \<le> h" "h < 65536"
    using assms by (simp_all add: h_def l_def)
  define t where "t = h + l"
  have t: "0 \<le> t" "t \<le> 131070" using hl by (simp_all add: t_def)
  have c: "checksum_check s = (if t < 65536 then 65535 - t else 131070 - t)"
  proof (cases "t < 65536")
    case True
    then have "t div 65536 = 0" "t mod 65536 = t" using t by simp_all
    then show ?thesis using True t by (simp add: checksum_check_def flip: h_def l_def t_def)
  next
    case False
    then have "t div 65536 = 1" using t by (intro div_eqI) auto
    moreover have "(t + 1) mod 65536 = t + 1 - 65536" using False t by (intro mod_once) auto
    ultimately show ?thesis using False t by (simp add: checksum_check_def flip: h_def l_def t_def)
  qed
  show "0 \<le> checksum_check s" "checksum_check s \<le> 65535" using t by (auto simp: c)
  have "s \<noteq> 0 \<Longrightarrow> 0 < t" using hl by (simp add: t_def)
  then show "s \<noteq> 0 \<Longrightarrow> checksum_check s < 65535" using t by (simp add: c)
  have "s + checksum_check s = 65535 * (h + (if t < 65536 then 1 else 2))"
    unfolding c using hl(1) by (simp add: t_def)
  then show "(s + checksum_check s) mod 65535 = 0" by (simp only: mod_mult_self1_is_0)
  show "checksum_check 0 = 65535" by (simp add: checksum_check_def)
qed

lemma checksum_verifies:
  assumes "0 \<le> s" "s < 4294901760"
  shows "checksum_check (s + checksum_check s) = 0"
proof -
  define r where "r = s + checksum_check s"
  have s: "0 \<le> checksum_check s" "checksum_check s \<le> 65535" "r mod 65535 = 0"
    using checksum_check_residue[of s] assms by (simp_all add: r_def)
  have r: "0 \<le> r" "r < 4294967296" "r \<noteq> 0"
    using s assms checksum_check_residue(5)[of 0] by (auto simp: r_def add_nonneg_eq_0_iff)
  have "checksum_check r < 65535" "0 \<le> checksum_check r" "(r + checksum_check r) mod 65535 = 0"
    using checksum_check_residue[OF r(1,2)] r(3) by simp_all
  moreover from this s(3) have "checksum_check r mod 65535 = 0"
    by (metis add_0 mod_add_left_eq)
  ultimately show ?thesis by (simp add: r_def)
qed

lemma checksum_eq:
  assumes "0 \<le> len" "len \<le> int (length buf)" "len \<le> 65535"
  shows "checksum le buf len = Some (checksum_check (wsum le (take (nat len) buf)))"
proof -
  have "wsum le (take (nat len) buf) < 4294967296"
    using wsum_le[of le "take (nat len) buf"] assms by simp
  then show ?thesis using assms
    by (simp add: checksum_def checksum_check_def word_sum_wsum Let_def)
qed


lemma wsum_sub_split:
  assumes "p + n \<le> length buf" "even k" "k + 2 \<le> n"
  shows "wsum le (sub buf p n)
    = wsum le (sub buf p k) + wsum le (sub buf (p + k) 2) + wsum le (sub buf (p + k + 2) (n - k - 2))"
proof -
  have "sub buf p n = sub buf p k @ sub buf (p + k) 2 @ sub buf (p + k + 2) (n - k - 2)"
    using assms(3) sub_split[of n k "n - k" buf p] sub_split[of "n - k" 2 "n - k - 2" buf "p + k"] by simp
  then show ?thesis using assms by (simp add: wsum_append)
qed

text \<open>A checksum that replaces two zero bytes at an even offset makes the range sum up to nothing.\<close>

lemma wsum_insert:
  assumes "p + n \<le> length buf" "even k" "k + 2 \<le> n" "sub buf (p + k) 2 = [0, 0]" "0 \<le> c" "c < 65536"
  shows "wsum le (sub (upd buf (p + k) (store16 le c)) p n) = wsum le (sub buf p n) + c"
  using assms wsum_sub_split[of p n buf k le]
    wsum_sub_split[of p n "upd buf (p + k) (store16 le c)" k le]
  by (simp add: sub_upd wsum_store16)

lemma checksum_sub:
  assumes "p + n \<le> length buf" "n \<le> 65535" "l = int n"
  shows "checksum le (drop p buf) l = Some (checksum_check (wsum le (sub buf p n)))"
  using assms checksum_eq[of l "drop p buf" le] by (simp add: sub_def)

lemma checksum_check_range: "0 \<le> checksum_check s" "checksum_check s < 65536"
  by (simp_all add: checksum_check_def Let_def)

lemma checksum_insert:
  assumes "p + n \<le> length buf" "n \<le> 65535" "even k" "k + 2 \<le> n" "sub buf (p + k) 2 = [0, 0]"
    and c_def: "c = checksum_check (wsum le (sub buf p n))"
  shows "checksum_check (wsum le (sub (upd buf (p + k) (store16 le c)) p n)) = 0"
proof -
  have "length (sub buf p n) \<le> 65535" using assms(1,2) by simp
  then have "wsum le (sub buf p n) < 4294901760" using wsum_le_65535[of "sub buf p n" le] by simp
  then have "checksum_check (wsum le (sub buf p n) + c) = 0"
    unfolding c_def by (intro checksum_verifies) simp_all
  then show ?thesis using assms(1,3-5) by (simp add: wsum_insert checksum_check_range c_def)
qed

lemma checksum_sum_eq:
  assumes "l = int n" "n \<le> length buf" "n \<le> 65535" "0 \<le> s" "s \<le> 1000000000"
  shows "checksum_sum le buf l s = Some (s + wsum le (take n buf))"
proof -
  have "length (take n buf) \<le> 65535" using assms by simp
  then have "s + wsum le (take n buf) < 4294967296"
    using wsum_le_65535[of "take n buf" le] assms(5) by simp
  then show ?thesis using assms by (simp add: checksum_sum_def word_sum_wsum)
qed

section \<open>What a frame should be\<close>

definition ip_checksum_ok :: "bool \<Rightarrow> bytes \<Rightarrow> nat \<Rightarrow> bool" where
  "ip_checksum_ok le f hl \<longleftrightarrow> checksum_check (wsum le (sub f 14 hl)) = 0"

definition udp_checksum_ok :: "bool \<Rightarrow> bytes \<Rightarrow> nat \<Rightarrow> bool" where
  "udp_checksum_ok le f n \<longleftrightarrow>
     checksum_check (wsum le (sub f 26 4 @ sub f 30 4 @ [0, 0x11] @ sub f 38 2) + wsum le (sub f 34 n)) = 0"

definition addr_ok :: "recvaddr \<Rightarrow> bool" where
  "addr_ok a \<longleftrightarrow> length (ra_port a) = 2 \<and> length (ra_ip a) = 4 \<and> length (ra_mac a) = 6
     \<and> length (ra_id a) = 2 \<and> length (pi_mac (ra_info a)) = 6 \<and> length (pi_ip_a (ra_info a)) = 4"

lemma send_packet_frame:
  assumes a: "addr_ok a" and j: "length junk = 1536" and d: "length data \<le> 1494"
  shows "\<exists>f. send_packet le junk data a = Some (take (if 42 + length data < 60 then 60 else 42 + length data) f)
    \<and> length f = 1536
    \<and> sub f 0 6 = ra_mac a \<and> sub f 6 6 = pi_mac (ra_info a) \<and> sub f 12 2 = be16_bytes 0x0800
    \<and> sub f 14 2 = [0x45, 0] \<and> sub f 16 2 = be16_bytes (28 + int (length data))
    \<and> sub f 18 2 = ra_id a \<and> sub f 22 2 = [64, 0x11]
    \<and> sub f 26 4 = pi_ip_a (ra_info a) \<and> sub f 30 4 = ra_ip a
    \<and> sub f 34 2 = be16_bytes 123 \<and> sub f 36 2 = ra_port a
    \<and> sub f 38 2 = be16_bytes (8 + int (length data)) \<and> sub f 42 (length data) = data
    \<and> ip_checksum_ok le f 20 \<and> udp_checksum_ok le f (length data + 8)"
proof -
  let ?n = "length data"
  have l: "length (ra_port a) = 2" "length (ra_ip a) = 4" "length (ra_mac a) = 6" "length (ra_id a) = 2"
    "length (pi_mac (ra_info a)) = 6" "length (pi_ip_a (ra_info a)) = 4"
    using a by (simp_all add: addr_ok_def)
  define b1 where "b1 = upd (upd (upd (upd (upd (upd (upd (upd (upd (upd (upd junk 0 (ra_mac a))
      6 (pi_mac (ra_info a))) 12 (be16_bytes 0x0800)) 14 [0x45, 0]) 16 (be16_bytes (28 + int ?n)))
      18 (ra_id a)) 20 [0, 0]) 22 [64, 0x11]) 24 [0, 0]) 26 (pi_ip_a (ra_info a))) 30 (ra_ip a)"
  have b1: "length b1 = 1536" "sub b1 24 2 = [0, 0]" "sub b1 0 6 = ra_mac a"
    "sub b1 6 6 = pi_mac (ra_info a)" "sub b1 12 2 = be16_bytes 0x0800" "sub b1 14 2 = [0x45, 0]"
    "sub b1 16 2 = be16_bytes (28 + int ?n)" "sub b1 18 2 = ra_id a" "sub b1 22 2 = [64, 0x11]"
    "sub b1 26 4 = pi_ip_a (ra_info a)" "sub b1 30 4 = ra_ip a"
    using j by (simp_all add: b1_def l sub_upd)
  define c1 where "c1 = checksum_check (wsum le (sub b1 14 20))"
  have chk1: "checksum le (drop 14 b1) 20 = Some c1"
    unfolding c1_def by (rule checksum_sub) (simp_all add: b1)
  define b0 where "b0 = upd (upd (upd (upd (upd b1 24 (store16 le c1)) 34 (be16_bytes 123))
      36 (ra_port a)) 38 (be16_bytes (8 + int ?n))) 40 [0, 0]"
  define b2 where "b2 = upd b0 42 data"
  define c2 where "c2 = checksum_check
    (wsum le (sub b2 26 4 @ sub b2 30 4 @ [0, 0x11] @ be16_bytes (8 + int ?n)) + wsum le (sub b2 34 (?n + 8)))"
  define f where "f = upd b2 40 (store16 le c2)"
  let ?pseudo = "sub b2 26 4 @ sub b2 30 4 @ [0, 0x11] @ be16_bytes (8 + int ?n)"
  have b2: "length b2 = 1536" "sub b2 40 2 = [0, 0]" "sub b2 0 6 = ra_mac a"
    "sub b2 6 6 = pi_mac (ra_info a)" "sub b2 12 2 = be16_bytes 0x0800" "sub b2 14 2 = [0x45, 0]"
    "sub b2 16 2 = be16_bytes (28 + int ?n)" "sub b2 18 2 = ra_id a" "sub b2 22 2 = [64, 0x11]"
    "sub b2 26 4 = pi_ip_a (ra_info a)" "sub b2 30 4 = ra_ip a" "sub b2 34 2 = be16_bytes 123"
    "sub b2 36 2 = ra_port a" "sub b2 38 2 = be16_bytes (8 + int ?n)" "sub b2 42 ?n = data"
    "sub b2 14 20 = sub (upd b1 24 (store16 le c1)) 14 20"
    using b1 d by (simp_all add: b2_def b0_def l sub_upd)
  have b0: "sub b0 26 4 = sub b2 26 4" "sub b0 30 4 = sub b2 30 4"
    using b1 d by (simp_all add: b2_def b0_def l sub_upd)
  have f: "length f = 1536" "sub f 0 6 = ra_mac a"
    "sub f 6 6 = pi_mac (ra_info a)" "sub f 12 2 = be16_bytes 0x0800" "sub f 14 2 = [0x45, 0]"
    "sub f 16 2 = be16_bytes (28 + int ?n)" "sub f 18 2 = ra_id a" "sub f 22 2 = [64, 0x11]"
    "sub f 26 4 = pi_ip_a (ra_info a)" "sub f 30 4 = ra_ip a" "sub f 34 2 = be16_bytes 123"
    "sub f 36 2 = ra_port a" "sub f 38 2 = be16_bytes (8 + int ?n)" "sub f 42 ?n = data"
    "sub f 14 20 = sub (upd b1 24 (store16 le c1)) 14 20"
    using b2 by (simp_all add: f_def sub_upd)
  have ip: "ip_checksum_ok le f 20"
    unfolding ip_checksum_ok_def f(15)
    using checksum_insert[of 14 20 b1 10 c1 le] by (simp add: b1 c1_def)
  have pl: "length ?pseudo = 12" by (simp add: b2 l)
  have ps: "0 \<le> wsum le ?pseudo" "wsum le ?pseudo \<le> 1000000"
    using wsum_le[of le ?pseudo] pl by simp_all
  have us: "wsum le (sub b2 34 (?n + 8)) \<le> 1000000000"
    using wsum_le[of le "sub b2 34 (?n + 8)"] d by (simp add: b2)
  have chk2: "checksum_sum le ?pseudo 12 0 = Some (wsum le ?pseudo)"
    using checksum_sum_eq[of 12 12 ?pseudo 0 le] pl by simp
  have chk3: "checksum_sum le (drop 34 b2) (int ?n + 8) (wsum le ?pseudo)
      = Some (wsum le ?pseudo + wsum le (sub b2 34 (?n + 8)))"
    using checksum_sum_eq[of "int ?n + 8" "?n + 8" "drop 34 b2" "wsum le ?pseudo" le] ps d
    by (simp add: b2 sub_def)
  have send: "send_packet le junk data a = Some (take (if 42 + ?n < 60 then 60 else 42 + ?n) f)"
    unfolding send_packet_def Let_def b1_def[symmetric] chk1 option.case b0_def[symmetric] b2_def[symmetric] b0
    using d j chk2 chk3 by (simp add: f_def c2_def)
  have "wsum le (sub f 34 (?n + 8)) = wsum le (sub b2 34 (?n + 8)) + c2"
    unfolding f_def using wsum_insert[of 34 "?n + 8" b2 6 c2 le] d
    by (simp add: b2 c2_def checksum_check_range)
  moreover have "checksum_check (wsum le ?pseudo + wsum le (sub b2 34 (?n + 8)) + c2) = 0"
    unfolding c2_def using ps us by (intro checksum_verifies) (simp_all del: wsum.simps)
  ultimately have udp: "udp_checksum_ok le f (?n + 8)"
    unfolding udp_checksum_ok_def f b2(10,11) by (simp add: add.assoc b2)
  show ?thesis using send f ip udp by blast
qed


section \<open>Received frames\<close>

lemma sub_frame: "k + n \<le> length f \<Longrightarrow> length f \<le> length junk \<Longrightarrow> sub (upd junk 0 f) k n = sub f k n"
  by (simp add: sub_def upd_def)

lemma sub_nth: "off < length buf \<Longrightarrow> sub buf off 1 = [buf ! off]"
  by (simp add: sub_def take_Suc_conv_app_nth flip: One_nat_def) (simp add: take_Suc hd_drop_conv_nth)

lemma nth_sub0: "off + n \<le> length buf \<Longrightarrow> 0 < n \<Longrightarrow> buf ! off = hd (sub buf off n)"
  by (simp add: sub_def hd_drop_conv_nth)

lemma nth_sub1: "off + n \<le> length buf \<Longrightarrow> 1 < n \<Longrightarrow> buf ! Suc off = sub buf off n ! 1"
  by (simp add: sub_def)

definition client_of :: "recvaddr \<Rightarrow> port_info \<Rightarrow> recvaddr" where
  "client_of a info = \<lparr>ra_port = be16_bytes 123, ra_ip = pi_ip_a (ra_info a),
     ra_mac = pi_mac (ra_info a), ra_id = ra_id a, ra_info = info\<rparr>"

section \<open>Properties\<close>

lemma send_packet_facts:
  assumes "addr_ok a" "length junk = 1536" "length data \<le> 1494"
  shows "\<exists>g. send_packet le junk data a = Some g \<and> length g = max 60 (42 + length data)
    \<and> sub g 0 6 = ra_mac a \<and> sub g 6 6 = pi_mac (ra_info a) \<and> sub g 12 2 = be16_bytes 0x0800
    \<and> sub g 14 2 = [0x45, 0] \<and> sub g 16 2 = be16_bytes (28 + int (length data))
    \<and> sub g 18 2 = ra_id a \<and> sub g 22 2 = [64, 0x11]
    \<and> sub g 26 4 = pi_ip_a (ra_info a) \<and> sub g 30 4 = ra_ip a
    \<and> sub g 34 2 = be16_bytes 123 \<and> sub g 36 2 = ra_port a
    \<and> sub g 38 2 = be16_bytes (8 + int (length data)) \<and> sub g 42 (length data) = data
    \<and> ip_checksum_ok le g 20 \<and> udp_checksum_ok le g (length data + 8)"
proof -
  define m where "m = (if 42 + length data < 60 then 60 else 42 + length data)"
  have m: "42 + length data \<le> m" "m \<le> 1536" "m = max 60 (42 + length data)"
    using assms(3) by (simp_all add: m_def)
  obtain f where f: "send_packet le junk data a = Some (take m f)" "length f = 1536"
    "sub f 0 6 = ra_mac a" "sub f 6 6 = pi_mac (ra_info a)" "sub f 12 2 = be16_bytes 0x0800"
    "sub f 14 2 = [0x45, 0]" "sub f 16 2 = be16_bytes (28 + int (length data))"
    "sub f 18 2 = ra_id a" "sub f 22 2 = [64, 0x11]"
    "sub f 26 4 = pi_ip_a (ra_info a)" "sub f 30 4 = ra_ip a"
    "sub f 34 2 = be16_bytes 123" "sub f 36 2 = ra_port a"
    "sub f 38 2 = be16_bytes (8 + int (length data))" "sub f 42 (length data) = data"
    "ip_checksum_ok le f 20" "udp_checksum_ok le f (length data + 8)"
    using send_packet_frame[OF assms, of le, folded m_def] by blast
  have t: "sub (take m f) k n = sub f k n" if "k + n \<le> 42 + length data" for k n
    using that m(1) by (simp add: sub_take)
  have "ip_checksum_ok le (take m f) 20" "udp_checksum_ok le (take m f) (length data + 8)"
    using f(16,17) by (simp_all add: ip_checksum_ok_def udp_checksum_ok_def t)
  moreover have "length (take m f) = max 60 (42 + length data)" using f(2) m by simp
  ultimately show ?thesis
    using f(1-15) by (intro exI[of _ "take m f"]) (simp add: t del: length_take)
qed

text \<open>
  C29: an NTP reply leaves as an Ethernet frame to the client's MAC from the port's own, with an
  IPv4 header from the port's address to the client's and a UDP header from port 123 to the
  client's port, whose length fields fit the data, which follows unchanged; the header checksum
  and the UDP checksum with its pseudo header both verify, on either byte order.
\<close>

theorem send_packet_valid:
  assumes "addr_ok a" "length junk = 1536" "length data \<le> 1494"
  shows "\<exists>g. send_packet le junk data a = Some g \<and> length g = max 60 (42 + length data)
    \<and> sub g 0 6 = ra_mac a \<and> sub g 6 6 = pi_mac (ra_info a) \<and> sub g 12 2 = be16_bytes 0x0800
    \<and> sub g 14 2 = [0x45, 0] \<and> sub g 16 2 = be16_bytes (28 + int (length data))
    \<and> sub g 18 2 = ra_id a \<and> sub g 22 2 = [64, 0x11]
    \<and> sub g 26 4 = pi_ip_a (ra_info a) \<and> sub g 30 4 = ra_ip a
    \<and> sub g 34 2 = be16_bytes 123 \<and> sub g 36 2 = ra_port a
    \<and> sub g 38 2 = be16_bytes (8 + int (length data)) \<and> sub g 42 (length data) = data
    \<and> ip_checksum_ok le g 20 \<and> udp_checksum_ok le g (length data + 8)"
  using assms by (rule send_packet_facts)

definition some_addr :: recvaddr where
  "some_addr = \<lparr>ra_port = [0xC0, 0x01], ra_ip = [10, 0, 0, 7], ra_mac = [2, 0, 0, 0, 0, 7],
     ra_id = [0x12, 0x34],
     ra_info = \<lparr>pi_mac = [2, 0, 0, 0, 0, 1], pi_ip_a = [10, 0, 0, 1], pi_ip = 167772161\<rparr>\<rparr>"

theorem send_packet_valid_witness:
  "\<exists>g. send_packet True (replicate 1536 0) (replicate 48 0x24) some_addr = Some g \<and> length g = 90 \<and>
     ip_checksum_ok True g 20 \<and> udp_checksum_ok True g 56"
  using send_packet_valid[of some_addr "replicate 1536 0" "replicate 48 0x24" True]
  by (auto simp: some_addr_def addr_ok_def)

lemma send_receive_data:
  assumes a: "addr_ok a" and j: "length junk = 1536" "length junk' = 1536"
    and d: "length data + 8 \<le> buffer_size" "length data \<le> 1494"
    and dst: "ra_port a = be16_bytes 123" "ra_ip a = be32_bytes (pi_ip info)"
  shows "\<exists>g. send_packet le junk data a = Some g \<and>
    receive_packet le junk' info buffer_size (Inr g) = Some (RxNtp data (client_of a info))"
proof -
  obtain g where g: "send_packet le junk data a = Some g" "length g = max 60 (42 + length data)"
    "sub g 6 6 = pi_mac (ra_info a)" "sub g 12 2 = be16_bytes 0x0800" "sub g 14 2 = [0x45, 0]"
    "sub g 18 2 = ra_id a" "sub g 22 2 = [64, 0x11]" "sub g 26 4 = pi_ip_a (ra_info a)"
    "sub g 30 4 = ra_ip a" "sub g 34 2 = be16_bytes 123" "sub g 36 2 = ra_port a"
    "sub g 38 2 = be16_bytes (8 + int (length data))" "sub g 42 (length data) = data"
    using send_packet_facts[OF a j(1) d(2), of le] by blast
  define buf where "buf = upd junk' 0 g"
  have gl: "length g \<le> 1536" using g(2) d(2) by simp
  have lb: "length buf = 1536" using gl j(2) by (simp add: buf_def)
  have s: "sub buf k n = sub g k n" if "k + n \<le> 42 + length data" for k n
    using that g(2) gl j(2) by (simp add: buf_def sub_frame)
  have b14: "buf ! 14 = 0x45" using nth_sub0[of 14 2 buf] lb by (simp add: s g)
  have b23: "buf ! 23 = 0x11" using nth_sub1[of 22 2 buf] lb by (simp add: s g)
  have hl: "unat ((0x45 :: 8 word) AND 15) = 5" "drop_bit 4 (0x45 :: 8 word) = 4" by simp_all
  have udp: "rx_udp info buf 20 buffer_size = Some (RxNtp data (client_of a info))"
    using d by (simp add: rx_udp_def s g dst client_of_def nat_add_distrib)
  show ?thesis
    unfolding receive_packet_def Let_def buf_def[symmetric]
    by (intro exI[of _ g]) (simp add: g(1) s g(4) rx_ip_def b14 b23 hl g(9) dst udp flip: buf_def)
qed

text \<open>
  C34: a request that is sent to port 123 of a server port arrives there: the frame that
  \<open>send_packet\<close> builds is classified as an NTP request by \<open>receive_packet\<close>, which hands up the
  same data and, as the address to answer to, the sender's MAC, IP and port.
\<close>

theorem send_receive:
  assumes a: "addr_ok a" and j: "length junk = 1536" "length junk' = 1536"
    and d: "length data + 8 \<le> buffer_size" "length data \<le> 1494"
    and dst: "ra_port a = be16_bytes 123" "ra_ip a = be32_bytes (pi_ip info)"
  shows "\<exists>g. send_packet le junk data a = Some g \<and>
    receive_packet le junk' info buffer_size (Inr g) = Some (RxNtp data (client_of a info))"
  using assms by (rule send_receive_data)

definition some_server :: port_info where
  "some_server = \<lparr>pi_mac = [2, 0, 0, 0, 0, 9], pi_ip_a = [10, 0, 0, 7], pi_ip = 167772167\<rparr>"

theorem send_receive_witness:
  "\<exists>g. send_packet False (replicate 1536 0) (replicate 48 0x1B) (some_addr\<lparr>ra_port := be16_bytes 123\<rparr>) = Some g \<and>
    receive_packet False (replicate 1536 0xFF) some_server 68 (Inr g)
      = Some (RxNtp (replicate 48 0x1B) (client_of (some_addr\<lparr>ra_port := be16_bytes 123\<rparr>) some_server))"
  by (rule send_receive) (simp_all add: addr_ok_def some_addr_def some_server_def be32_bytes_def)

text \<open>
  An ARP request for the address of the port is answered with a frame to its sender in
  which the operation is 2, the sender is the port and the target is the requester; a request
  for any other address is not answered.
\<close>

theorem arp_answer:
  assumes l: "42 \<le> length f" "length f \<le> 1536" "length junk = 1536"
    and i: "length (pi_mac info) = 6" "length (pi_ip_a info) = 4"
    and t: "be16 (sub f 12 2) = 0x0806" "be16 (sub f 14 2) = 1" "be16 (sub f 16 2) = 0x0800"
      "sub f 18 2 = [6, 4]" "be16 (sub f 20 2) = 1"
  shows "(sub f 38 4 = pi_ip_a info \<longrightarrow>
      (\<exists>g. receive_packet le junk info n (Inr f) = Some (RxReply g) \<and> length g = max 60 (length f)
         \<and> sub g 0 6 = sub f 6 6 \<and> sub g 6 6 = pi_mac info \<and> sub g 12 8 = sub f 12 8
         \<and> sub g 20 2 = be16_bytes 2 \<and> sub g 22 6 = pi_mac info \<and> sub g 28 4 = pi_ip_a info
         \<and> sub g 32 6 = sub f 22 6 \<and> sub g 38 4 = sub f 28 4)) \<and>
    (sub f 38 4 \<noteq> pi_ip_a info \<longrightarrow> receive_packet le junk info n (Inr f) = Some RxNone)"
proof -
  define b where "b = upd junk 0 f"
  have lb: "length b = 1536" using l by (simp add: b_def)
  have s: "sub b k n = sub f k n" if "k + n \<le> 42" for k n
    using that l by (simp add: b_def sub_frame)
  have b18: "b ! 18 = 6" "b ! 19 = 4" using nth_sub0[of 18 2 b] nth_sub1[of 18 2 b] lb by (simp_all add: s t)
  have r: "receive_packet le junk info n (Inr f) = Some (rx_arp info b (length f))"
    using s[of 12 2] t(1) by (simp add: receive_packet_def Let_def flip: b_def)
  define m where "m = (if length f < 60 then 60 else length f)"
  have m: "42 \<le> m" "m \<le> 1536" "max 60 (length f) = m" using l by (auto simp: m_def)
  define g where "g = upd (upd (upd (upd (upd (upd (upd b 0 (sub b 6 6)) 6 (pi_mac info)) 20 (be16_bytes 2))
      32 (sub b 22 6)) 38 (sub b 28 4)) 22 (pi_mac info)) 28 (pi_ip_a info)"
  have g: "length g = 1536" "sub g 0 6 = sub f 6 6" "sub g 6 6 = pi_mac info" "sub g 12 8 = sub f 12 8"
    "sub g 20 2 = be16_bytes 2" "sub g 22 6 = pi_mac info" "sub g 28 4 = pi_ip_a info"
    "sub g 32 6 = sub f 22 6" "sub g 38 4 = sub f 28 4"
    using lb i l(1) by (simp_all add: g_def sub_upd s)
  have "rx_arp info b (length f) = (if sub f 38 4 = pi_ip_a info then RxReply (take m g) else RxNone)"
    using lb i l(1) by (simp add: rx_arp_def s t b18 sub_upd Let_def g_def m_def)
  then show ?thesis using g m(1,2) unfolding r m(3) by (auto simp: sub_take)
qed

definition some_port :: port_info where
  "some_port = \<lparr>pi_mac = [2, 0, 0, 0, 0, 1], pi_ip_a = [10, 0, 0, 1], pi_ip = 167772161\<rparr>"

definition some_arp :: bytes where
  "some_arp = replicate 6 0xFF @ [2, 0, 0, 0, 0, 7] @ [8, 6, 0, 1, 8, 0, 6, 4, 0, 1]
     @ [2, 0, 0, 0, 0, 7] @ [10, 0, 0, 7] @ replicate 6 0 @ [10, 0, 0, 1]"

theorem arp_answer_witness:
  "\<exists>g. receive_packet True (replicate 1536 0) some_port 68 (Inr some_arp) = Some (RxReply g) \<and>
     sub g 38 4 = [10, 0, 0, 7]"
  using arp_answer[of some_arp "replicate 1536 0" some_port True 68]
  by (auto simp: some_arp_def some_port_def sub_def be16_def)

text \<open>
  A ping to the address of the port: an ICMP message of type 8, or with code 0, is answered
  with a frame back to the sender whose addresses are exchanged, whose type is 0 and whose IP
  and ICMP checksums verify, while the identifier, sequence number and data stay; any other ICMP
  message is not answered.
\<close>

theorem ping_answer:
  assumes l: "14 + hl + n \<le> length f" "length f \<le> 1536" "length junk = 1536" "4 \<le> n"
    and i: "length (pi_mac info) = 6"
    and t: "be16 (sub f 12 2) = 0x0800" "drop_bit 4 (f ! 14) = 4" "hl = unat (f ! 14 AND 15) * 4" "20 \<le> hl"
      "be16 (sub f 16 2) = int (hl + n)" "f ! 23 = 1" "sub f 30 4 = be32_bytes (pi_ip info)"
  shows "(f ! (14 + hl) = 8 \<or> f ! (15 + hl) = 0 \<longrightarrow>
      (\<exists>g. receive_packet le junk info bs (Inr f) = Some (RxReply g) \<and> length g = max 60 (length f)
         \<and> sub g 0 6 = sub f 6 6 \<and> sub g 6 6 = pi_mac info
         \<and> sub g 26 4 = be32_bytes (pi_ip info) \<and> sub g 30 4 = sub f 26 4
         \<and> ip_checksum_ok le g hl \<and> sub g (14 + hl) 1 = [0]
         \<and> checksum_check (wsum le (sub g (14 + hl) n)) = 0
         \<and> sub g (18 + hl) (n - 4) = sub f (18 + hl) (n - 4))) \<and>
    (f ! (14 + hl) \<noteq> 8 \<and> f ! (15 + hl) \<noteq> 0 \<longrightarrow> receive_packet le junk info bs (Inr f) = Some RxNone)"
proof -
  define b ic where "b = upd junk 0 f" and "ic = 14 + hl"
  have "unat (f ! 14 AND 15) \<le> unat (15 :: 8 word)" by (rule word_le_nat_alt[THEN iffD1], rule word_and_le1)
  then have hl: "20 \<le> hl" "hl \<le> 60" "ic = 14 + hl" using t(3,4) by (simp_all add: ic_def)
  have lb: "length b = 1536" using l by (simp add: b_def)
  have lf: "34 \<le> length f" using l hl by simp
  have s: "sub b k m = sub f k m" if "k + m \<le> ic + n" for k m
    using that l hl by (simp add: b_def sub_frame)
  have nth: "b ! k = f ! k" if "k < ic + n" for k
    using that l hl by (simp add: b_def upd_def nth_append)
  have pay: "u32 (be16 (sub f 16 2) - int hl) = int n" using t(5) l by simp
  have r: "receive_packet le junk info bs (Inr f) = rx_icmp le info b (length f) hl (int n)"
    using s[of 12 2] s[of 16 2] s[of 30 4] nth[of 14] nth[of 23] t hl pay
    by (simp add: receive_packet_def rx_ip_def Let_def flip: b_def)
  define b1 where "b1 = upd (upd (upd (upd (upd b 0 (sub b 6 6)) 6 (pi_mac info))
      30 (sub (upd (upd b 0 (sub b 6 6)) 6 (pi_mac info)) 26 4))
      26 (be32_bytes (pi_ip info))) 24 [0, 0]"
  have b1: "length b1 = 1536" "sub b1 24 2 = [0, 0]" "sub b1 0 6 = sub f 6 6" "sub b1 6 6 = pi_mac info"
    "sub b1 26 4 = be32_bytes (pi_ip info)" "sub b1 30 4 = sub f 26 4"
    using lb lf i hl by (simp_all add: b1_def sub_upd s)
  have b1r: "sub b1 k m = sub f k m" if "34 \<le> k" "k + m \<le> ic + n" for k m
    using that lb lf i hl by (simp add: b1_def sub_upd s)
  define c1 where "c1 = checksum_check (wsum le (sub b1 14 hl))"
  have chk1: "checksum le (drop 14 b1) (int hl) = Some c1"
    unfolding c1_def using hl b1(1) by (intro checksum_sub) auto
  define b2 where "b2 = upd (upd (upd b1 24 (store16 le c1)) ic [0]) (ic + 2) [0, 0]"
  have icn: "ic + n \<le> 1536" "ic + 4 \<le> ic + n" using l hl by simp_all
  have b2: "length b2 = 1536" "sub b2 (ic + 2) 2 = [0, 0]" "sub b2 0 6 = sub f 6 6"
    "sub b2 6 6 = pi_mac info" "sub b2 26 4 = be32_bytes (pi_ip info)" "sub b2 30 4 = sub f 26 4"
    "sub b2 14 hl = sub (upd b1 24 (store16 le c1)) 14 hl" "sub b2 ic 1 = [0]"
    "sub b2 (ic + 4) (n - 4) = sub f (ic + 4) (n - 4)"
    using b1 hl icn by (simp_all add: b2_def sub_upd b1r)
  define c2 where "c2 = checksum_check (wsum le (sub b2 ic n))"
  have chk2: "checksum le (drop ic b2) (int n) = Some c2"
    unfolding c2_def using icn b2(1) by (intro checksum_sub) auto
  define g where "g = upd b2 (ic + 2) (store16 le c2)"
  have g: "length g = 1536" "sub g 0 6 = sub f 6 6" "sub g 6 6 = pi_mac info"
    "sub g 26 4 = be32_bytes (pi_ip info)" "sub g 30 4 = sub f 26 4"
    "sub g 14 hl = sub (upd b1 24 (store16 le c1)) 14 hl" "sub g ic 1 = [0]"
    "sub g (ic + 4) (n - 4) = sub f (ic + 4) (n - 4)"
    using b2 hl icn by (simp_all add: g_def sub_upd)
  have ip: "checksum_check (wsum le (sub g 14 hl)) = 0"
    unfolding g(6) using checksum_insert[of 14 hl b1 10 c1 le] hl by (simp add: b1 c1_def)
  have icmp: "checksum_check (wsum le (sub g ic n)) = 0"
    unfolding g_def by (rule checksum_insert) (use icn b2(1,2) c2_def in auto)
  define m where "m = (if length f < 60 then 60 else length f)"
  have m: "ic + n \<le> m" "34 \<le> m" "m \<le> 1536" "max 60 (length f) = m" using l hl by (auto simp: m_def)
  have rx: "rx_icmp le info b (length f) hl (int n)
      = (if f ! ic \<noteq> 8 \<and> f ! (ic + 1) \<noteq> 0 then Some RxNone else Some (RxReply (take m g)))"
    using nth[of ic] nth[of "ic + 1"] icn
    unfolding rx_icmp_def Let_def ic_def[symmetric] b1_def[symmetric] chk1 option.case b2_def[symmetric]
      chk2 g_def[symmetric] m_def[symmetric] by simp
  have tk: "sub (take m g) k j = sub g k j" if "k + j \<le> ic + n \<or> k + j \<le> 34" for k j
    using that m by (auto simp: sub_take)
  have "(f ! ic = 8 \<or> f ! (ic + 1) = 0) \<Longrightarrow> length (take m g) = m \<and> sub (take m g) 0 6 = sub f 6 6
      \<and> sub (take m g) 6 6 = pi_mac info \<and> sub (take m g) 26 4 = be32_bytes (pi_ip info)
      \<and> sub (take m g) 30 4 = sub f 26 4 \<and> ip_checksum_ok le (take m g) hl \<and> sub (take m g) ic 1 = [0]
      \<and> checksum_check (wsum le (sub (take m g) ic n)) = 0
      \<and> sub (take m g) (ic + 4) (n - 4) = sub f (ic + 4) (n - 4)"
    using g ip icmp icn hl m(3) by (simp add: tk ip_checksum_ok_def)
  note reply = this
  have idx: "14 + hl = ic" "15 + hl = ic + 1" "18 + hl = ic + 4" using hl(3) by simp_all
  show ?thesis unfolding r rx m(4) idx
  proof (intro conjI impI)
    assume q: "f ! ic = 8 \<or> f ! (ic + 1) = 0"
    then have "(if f ! ic \<noteq> 8 \<and> f ! (ic + 1) \<noteq> 0 then Some RxNone else Some (RxReply (take m g)))
        = Some (RxReply (take m g))" by (simp only: de_Morgan_conj not_not if_not_P)
    with reply[OF q] show "\<exists>h. (if f ! ic \<noteq> 8 \<and> f ! (ic + 1) \<noteq> 0 then Some RxNone
        else Some (RxReply (take m g))) = Some (RxReply h) \<and> length h = m \<and> sub h 0 6 = sub f 6 6
        \<and> sub h 6 6 = pi_mac info \<and> sub h 26 4 = be32_bytes (pi_ip info) \<and> sub h 30 4 = sub f 26 4
        \<and> ip_checksum_ok le h hl \<and> sub h ic 1 = [0] \<and> checksum_check (wsum le (sub h ic n)) = 0
        \<and> sub h (ic + 4) (n - 4) = sub f (ic + 4) (n - 4)" by (intro exI[of _ "take m g"]) simp
  qed simp
qed

definition some_ping :: bytes where
  "some_ping = [2, 0, 0, 0, 0, 1] @ [2, 0, 0, 0, 0, 7] @ [8, 0, 0x45, 0, 0, 28, 0, 1, 0, 0, 64, 1, 0, 0]
     @ [10, 0, 0, 7] @ [10, 0, 0, 1] @ [8, 0, 0xF7, 0xFD, 0, 1, 0, 1]"

theorem ping_answer_witness:
  "\<exists>g. receive_packet True (replicate 1536 0) some_port 68 (Inr some_ping) = Some (RxReply g) \<and>
     ip_checksum_ok True g 20 \<and> sub g 34 1 = [0]"
proof -
  have h: "14 + 20 + 8 \<le> length some_ping" "length some_ping \<le> 1536"
    "length (replicate 1536 (0 :: 8 word)) = 1536" "(4 :: nat) \<le> 8" "length (pi_mac some_port) = 6"
    "be16 (sub some_ping 12 2) = 0x0800" "drop_bit 4 (some_ping ! 14) = 4"
    "20 = unat (some_ping ! 14 AND 15) * 4" "(20 :: nat) \<le> 20" "be16 (sub some_ping 16 2) = int (20 + 8)"
    "some_ping ! 23 = 1" "sub some_ping 30 4 = be32_bytes (pi_ip some_port)" "some_ping ! (14 + 20) = 8"
    by (simp_all add: some_ping_def some_port_def sub_def be16_def be32_bytes_def)
  show ?thesis
    using ping_answer[OF h(1-12), of True 68, THEN conjunct1, THEN mp, OF disjI1, OF h(13)] by auto
qed

end
