(* ===== verification/NtpPool.thy ===== *)
theory NtpPool
  imports Prelude
begin

text \<open>
  The task queue and the thread pool of the NTP server: the tail queue macros of
  \<^verbatim>\<open>src/d-ntp/dntp_queue.h\<close> on an explicit heap, and \<^verbatim>\<open>src/d-ntp/dntp_threadpool.c\<close>, whose
  critical sections under the mutex of the pool are the steps of a transition system.
\<close>

section \<open>The singly linked tail queue\<close>

text \<open>
  A node of the heap has a task and the link \<open>stqe_next\<close>. The head has the pointer to the first
  node and \<open>stqh_last\<close>, the address of the link to be written next: the head's own pointer or
  the link of a node. The type of the tasks is a parameter.
\<close>

type_synonym addr = nat

datatype 't tasknode = TaskNode (nd_task: 't) (nd_next: "addr option")

datatype link = FirstOf | NextOf addr

record 't stailq =
  sq_heap :: "addr \<Rightarrow> 't tasknode option"
  sq_first :: "addr option"
  sq_last :: link

definition STAILQ_INIT :: "'t stailq \<Rightarrow> 't stailq" where
  "STAILQ_INIT q = q\<lparr>sq_first := None, sq_last := FirstOf\<rparr>"

definition STAILQ_EMPTY :: "'t stailq \<Rightarrow> bool" where
  "STAILQ_EMPTY q \<longleftrightarrow> sq_first q = None"

definition STAILQ_FIRST :: "'t stailq \<Rightarrow> addr option" where
  "STAILQ_FIRST q = sq_first q"

text \<open>Reading and writing the link of a node; there is none at an address that is not allocated.\<close>

definition STAILQ_NEXT :: "'t stailq \<Rightarrow> addr \<Rightarrow> addr option option" where
  "STAILQ_NEXT q a = map_option nd_next (sq_heap q a)"

definition set_next :: "addr \<Rightarrow> addr option \<Rightarrow> 't stailq \<Rightarrow> 't stailq option" where
  "set_next a l q = (case sq_heap q a of None \<Rightarrow> None
     | Some n \<Rightarrow> Some (q\<lparr>sq_heap := (sq_heap q)(a := Some (TaskNode (nd_task n) l))\<rparr>))"

text \<open>The store through \<open>stqh_last\<close>.\<close>

definition set_last :: "addr option \<Rightarrow> 't stailq \<Rightarrow> 't stailq option" where
  "set_last l q = (case sq_last q of
     FirstOf \<Rightarrow> Some (q\<lparr>sq_first := l\<rparr>)
   | NextOf a \<Rightarrow> set_next a l q)"

definition STAILQ_INSERT_TAIL :: "'t stailq \<Rightarrow> addr \<Rightarrow> 't stailq option" where
  "STAILQ_INSERT_TAIL q elm =
     (case set_next elm None q of None \<Rightarrow> None
      | Some q \<Rightarrow> (case set_last (Some elm) q of None \<Rightarrow> None
        | Some q \<Rightarrow> Some (q\<lparr>sq_last := NextOf elm\<rparr>)))"

definition STAILQ_INSERT_HEAD :: "'t stailq \<Rightarrow> addr \<Rightarrow> 't stailq option" where
  "STAILQ_INSERT_HEAD q elm =
     (case set_next elm (sq_first q) q of None \<Rightarrow> None
      | Some q' \<Rightarrow>
          let q'' = (if sq_first q = None then q'\<lparr>sq_last := NextOf elm\<rparr> else q')
          in Some (q''\<lparr>sq_first := Some elm\<rparr>))"

definition STAILQ_INSERT_AFTER :: "'t stailq \<Rightarrow> addr \<Rightarrow> addr \<Rightarrow> 't stailq option" where
  "STAILQ_INSERT_AFTER q tqelm elm =
     (case STAILQ_NEXT q tqelm of None \<Rightarrow> None
      | Some nxt \<Rightarrow> (case set_next elm nxt q of None \<Rightarrow> None
        | Some q' \<Rightarrow> set_next tqelm (Some elm)
            (if nxt = None then q'\<lparr>sq_last := NextOf elm\<rparr> else q')))"

definition STAILQ_REMOVE_HEAD :: "'t stailq \<Rightarrow> 't stailq option" where
  "STAILQ_REMOVE_HEAD q =
     (case sq_first q of None \<Rightarrow> None
      | Some a \<Rightarrow> (case STAILQ_NEXT q a of None \<Rightarrow> None
        | Some nxt \<Rightarrow>
            let q' = q\<lparr>sq_first := nxt\<rparr>
            in Some (if nxt = None then q'\<lparr>sq_last := FirstOf\<rparr> else q')))"

text \<open>
  The search for the predecessor follows the links until the element comes next; it has no value
  when the links end before, and none when they run in a circle.
\<close>

partial_function (option) find_pred :: "'t stailq \<Rightarrow> addr \<Rightarrow> addr \<Rightarrow> addr option" where
  "find_pred q elm cur =
     (case STAILQ_NEXT q cur of
        None \<Rightarrow> None
      | Some None \<Rightarrow> None
      | Some (Some nxt) \<Rightarrow> if nxt = elm then Some cur else find_pred q elm nxt)"

definition STAILQ_REMOVE :: "'t stailq \<Rightarrow> addr \<Rightarrow> 't stailq option" where
  "STAILQ_REMOVE q elm =
     (case sq_first q of
        None \<Rightarrow> None
      | Some a \<Rightarrow>
          if a = elm then STAILQ_REMOVE_HEAD q
          else (case find_pred q elm a of None \<Rightarrow> None
            | Some cur \<Rightarrow> (case STAILQ_NEXT q elm of None \<Rightarrow> None
              | Some nxt \<Rightarrow> (case set_next cur nxt q of None \<Rightarrow> None
                | Some q' \<Rightarrow> Some (if nxt = None then q'\<lparr>sq_last := NextOf cur\<rparr> else q')))))"

definition STAILQ_REMOVE_HEAD_UNTIL :: "'t stailq \<Rightarrow> addr \<Rightarrow> 't stailq option" where
  "STAILQ_REMOVE_HEAD_UNTIL q elm =
     (case STAILQ_NEXT q elm of None \<Rightarrow> None
      | Some nxt \<Rightarrow>
          let q' = q\<lparr>sq_first := nxt\<rparr>
          in Some (if nxt = None then q'\<lparr>sq_last := FirstOf\<rparr> else q'))"

section \<open>The pool\<close>

definition MAX_THREAD :: nat where "MAX_THREAD = 32"
definition MAX_TASK :: nat where "MAX_TASK = 2048"

record 't threadpool =
  bExit :: bool
  curTasks :: nat
  maxTasks :: nat
  tqHead :: "'t stailq"
  curThreads :: nat

text \<open>
  \<open>tpCreate\<close>: the outcome of the initialisations and of each \<open>pthread_create\<close> belongs to the
  system. The heap is the one of the process.
\<close>

definition tpCreate ::
  "(addr \<Rightarrow> 't tasknode option) \<Rightarrow> bool \<Rightarrow> bool \<Rightarrow> (nat \<Rightarrow> bool) \<Rightarrow> nat \<Rightarrow> nat \<Rightarrow> bool \<times> 't threadpool option" where
  "tpCreate heap mutex_ok cond_ok spawn threads tasks =
     (if \<not> (threads > 0 \<and> threads \<le> MAX_THREAD \<and> tasks > 0 \<and> tasks \<le> MAX_TASK) then (False, None)
      else
        let pool = \<lparr>bExit = False, curTasks = 0, maxTasks = tasks,
              tqHead = STAILQ_INIT \<lparr>sq_heap = heap, sq_first = None, sq_last = FirstOf\<rparr>, curThreads = 0\<rparr>;
            started = length (takeWhile spawn [0..<threads])
        in if \<not> mutex_ok then (False, Some pool)
           else if \<not> cond_ok then (False, Some pool)
           else (started = threads, Some (pool\<lparr>curThreads := started\<rparr>)))"

text \<open>
  \<open>tpAddTask\<close>: the system decides whether the lock is obtained, which address \<open>malloc\<close> returns
  and whether the signal and the unlock succeed.
\<close>

record add_env =
  ae_lock :: bool
  ae_malloc :: "addr option"
  ae_signal :: bool
  ae_unlock :: bool

definition free_node :: "addr \<Rightarrow> 't threadpool \<Rightarrow> 't threadpool" where
  "free_node a pool = pool\<lparr>tqHead := (tqHead pool)\<lparr>sq_heap := (sq_heap (tqHead pool))(a := None)\<rparr>\<rparr>"

definition tpAddTask :: "add_env \<Rightarrow> 't \<Rightarrow> 't threadpool \<Rightarrow> (bool \<times> 't threadpool) option" where
  "tpAddTask env task pool =
     (if \<not> ae_lock env then Some (False, pool)
      else if curTasks pool \<ge> maxTasks pool then Some (False, pool)
      else if bExit pool then Some (False, pool)
      else (case ae_malloc env of
          None \<Rightarrow> Some (False, pool)
        | Some a \<Rightarrow>
            (case STAILQ_INSERT_TAIL
               ((tqHead pool)\<lparr>sq_heap := (sq_heap (tqHead pool))(a := Some (TaskNode task None))\<rparr>) a of
               None \<Rightarrow> None
             | Some q \<Rightarrow>
                 let pool = pool\<lparr>tqHead := q, curTasks := curTasks pool + 1\<rparr>
                 in if \<not> ae_signal env then Some (False, free_node a pool)
                    else if \<not> ae_unlock env then Some (False, free_node a pool)
                    else Some (True, pool))))"

text \<open>
  Where a worker is: before the lock at the top of its loop, waiting for the condition, running
  the task of a node that it has taken out of the queue, or gone.
\<close>

datatype 't worker = Top | Waiting | Running addr 't | Exited

text \<open>
  The critical section of \<open>thread_start_routine\<close>, entered from the top or by a wakeup: leave when
  the pool is to exit and nothing is left, wait (again) when there is nothing, else take the
  first task.
\<close>

definition worker_section :: "'t threadpool \<Rightarrow> ('t threadpool \<times> 't worker) option" where
  "worker_section pool =
     (if bExit pool \<and> STAILQ_EMPTY (tqHead pool) then
        Some (pool\<lparr>curThreads := curThreads pool - 1\<rparr>, Exited)
      else if STAILQ_EMPTY (tqHead pool) then Some (pool, Waiting)
      else (case STAILQ_FIRST (tqHead pool) of
          None \<Rightarrow> None
        | Some a \<Rightarrow>
            (case (sq_heap (tqHead pool) a, STAILQ_REMOVE_HEAD (tqHead pool)) of
               (Some n, Some q) \<Rightarrow>
                 Some (pool\<lparr>tqHead := q, curTasks := curTasks pool - 1\<rparr>, Running a (nd_task n))
             | _ \<Rightarrow> None)))"

text \<open>After the handler has returned the node is freed.\<close>

definition worker_done :: "addr \<Rightarrow> 't threadpool \<Rightarrow> 't threadpool" where
  "worker_done a pool = free_node a pool"

text \<open>The first critical section of \<open>tpDestroy\<close>.\<close>

definition tpDestroy_begin :: "'t threadpool \<Rightarrow> 't threadpool" where
  "tpDestroy_begin pool = pool\<lparr>bExit := True\<rparr>"

text \<open>The loop of \<open>tpDestroy\<close> goes on as long as threads are left.\<close>

definition tpDestroy_done :: "'t threadpool \<Rightarrow> bool" where
  "tpDestroy_done pool \<longleftrightarrow> curThreads pool = 0"

section \<open>The pool as a transition system\<close>

text \<open>
  The pool, its workers, the tasks that \<open>tpAddTask\<close> accepted, in that order, the tasks that were
  started, in that order, and the tasks that are finished.
\<close>

record 't system =
  sy_pool :: "'t threadpool"
  sy_workers :: "'t worker list"
  sy_accepted :: "'t list"
  sy_started :: "'t list"
  sy_finished :: "'t list"

text \<open>
  \<open>pthread_cond_signal\<close> and \<open>pthread_mutex_unlock\<close> of a valid object do not fail (POSIX), and
  \<open>malloc\<close> returns an address that is not allocated.
\<close>

definition env_ok :: "add_env \<Rightarrow> 't threadpool \<Rightarrow> bool" where
  "env_ok env pool \<longleftrightarrow> ae_signal env \<and> ae_unlock env
     \<and> (\<forall>a. ae_malloc env = Some a \<longrightarrow> sq_heap (tqHead pool) a = None)"

inductive tp_step :: "'t system \<Rightarrow> 't system \<Rightarrow> bool" where
  add: "env_ok env (sy_pool s) \<Longrightarrow> tpAddTask env t (sy_pool s) = Some (ok, p) \<Longrightarrow>
    tp_step s (s\<lparr>sy_pool := p, sy_accepted := sy_accepted s @ (if ok then [t] else [])\<rparr>)"
| work: "i < length (sy_workers s) \<Longrightarrow> sy_workers s ! i = Top \<or> sy_workers s ! i = Waiting \<Longrightarrow>
    worker_section (sy_pool s) = Some (p, w) \<Longrightarrow>
    tp_step s (s\<lparr>sy_pool := p, sy_workers := (sy_workers s)[i := w],
      sy_started := sy_started s @ (case w of Running a t \<Rightarrow> [t] | _ \<Rightarrow> [])\<rparr>)"
| finish: "i < length (sy_workers s) \<Longrightarrow> sy_workers s ! i = Running a t \<Longrightarrow>
    tp_step s (s\<lparr>sy_pool := worker_done a (sy_pool s), sy_workers := (sy_workers s)[i := Top],
      sy_finished := sy_finished s @ [t]\<rparr>)"
| destroy: "tp_step s (s\<lparr>sy_pool := tpDestroy_begin (sy_pool s)\<rparr>)"

inductive_cases tp_stepE: "tp_step s s'"

definition tp_initial :: "'t threadpool \<Rightarrow> 't system" where
  "tp_initial p = \<lparr>sy_pool = p, sy_workers = replicate (curThreads p) Top, sy_accepted = [],
     sy_started = [], sy_finished = []\<rparr>"

inductive tp_reach :: "'t threadpool \<Rightarrow> 't system \<Rightarrow> bool" for p where
  init: "tp_reach p (tp_initial p)"
| step: "tp_reach p s \<Longrightarrow> tp_step s s' \<Longrightarrow> tp_reach p s'"

section \<open>The watch for a usable time\<close>

text \<open>
  One round of \<open>read_time_usable\<close>: the leap indicator of the replies and whether the watch ends.
  \<open>REFSOURCE_VALID\<close> is 1.
\<close>

definition time_usable_round :: "int \<Rightarrow> int \<Rightarrow> int \<times> bool" where
  "time_usable_round refsrc_is_valid clock_state =
     (if refsrc_is_valid = 1 \<and> 3 \<le> clock_state then (0, True) else (3, False))"

end
