(* ===== verification/NtpPoolSpec.thy ===== *)
theory NtpPoolSpec
  imports NtpPool "HOL-Library.Multiset"
begin

text \<open>
  The tail queue represents a list of nodes and its operations are the list operations; the
  thread pool starts the accepted tasks in their order, loses and repeats none, and is destroyed
  only when all of them have been started.
\<close>

section \<open>The queue as a list of nodes\<close>

text \<open>A segment of links from one pointer to another.\<close>

fun seg :: "(addr \<Rightarrow> 't tasknode option) \<Rightarrow> addr option \<Rightarrow> addr list \<Rightarrow> addr option \<Rightarrow> bool" where
  "seg h p [] m \<longleftrightarrow> p = m"
| "seg h p (a # xs) m \<longleftrightarrow> p = Some a \<and> (\<exists>t l. h a = Some (TaskNode t l) \<and> seg h l xs m)"

definition stq :: "'t stailq \<Rightarrow> addr list \<Rightarrow> bool" where
  "stq q xs \<longleftrightarrow> seg (sq_heap q) (sq_first q) xs None \<and> distinct xs
     \<and> sq_last q = (if xs = [] then FirstOf else NextOf (last xs))"

definition task_at :: "(addr \<Rightarrow> 't tasknode option) \<Rightarrow> addr \<Rightarrow> 't" where
  "task_at h a = nd_task (the (h a))"

lemma seg_append: "seg h p (xs @ ys) m \<longleftrightarrow> (\<exists>k. seg h p xs k \<and> seg h k ys m)"
  by (induction h p xs m rule: seg.induct) auto

lemma seg_frame: "(\<And>a. a \<in> set xs \<Longrightarrow> h' a = h a) \<Longrightarrow> seg h' p xs m = seg h p xs m"
  by (induction h p xs m rule: seg.induct) auto

lemma seg_upd [simp]: "a \<notin> set xs \<Longrightarrow> seg (h(a := v)) p xs m = seg h p xs m"
  by (rule seg_frame) auto

lemma seg_dom: "seg h p xs m \<Longrightarrow> a \<in> set xs \<Longrightarrow> h a \<noteq> None"
  by (induction h p xs m rule: seg.induct) auto

lemma stq_dom: "stq q xs \<Longrightarrow> a \<in> set xs \<Longrightarrow> sq_heap q a \<noteq> None"
  using seg_dom by (fastforce simp: stq_def)

lemma stq_init: "stq (STAILQ_INIT q) []"
  by (simp add: stq_def STAILQ_INIT_def)

lemma stq_empty: "stq q xs \<Longrightarrow> STAILQ_EMPTY q \<longleftrightarrow> xs = []"
  by (cases xs) (auto simp: stq_def STAILQ_EMPTY_def)

lemma stq_first: "stq q (a # xs) \<Longrightarrow> STAILQ_FIRST q = Some a"
  by (simp add: stq_def STAILQ_FIRST_def)

lemma stq_remove_head:
  assumes "stq q (a # xs)"
  shows "\<exists>q'. STAILQ_REMOVE_HEAD q = Some q' \<and> stq q' xs \<and> sq_heap q' = sq_heap q"
  using assms by (cases xs) (auto simp: stq_def STAILQ_REMOVE_HEAD_def STAILQ_NEXT_def)

lemma stq_insert_tail:
  assumes q: "stq q xs" and e: "e \<notin> set xs" "sq_heap q e \<noteq> None"
  shows "\<exists>q'. STAILQ_INSERT_TAIL q e = Some q' \<and> stq q' (xs @ [e])
    \<and> (\<forall>a. map_option nd_task (sq_heap q' a) = map_option nd_task (sq_heap q a))"
proof -
  obtain t l where n: "sq_heap q e = Some (TaskNode t l)" using e(2) by (cases "sq_heap q e"; cases "the (sq_heap q e)") auto
  show ?thesis
  proof (cases xs rule: rev_cases)
    case Nil
    then show ?thesis using q n
      by (auto simp: STAILQ_INSERT_TAIL_def set_next_def set_last_def stq_def)
  next
    case (snoc ys b)
    obtain u where u: "sq_heap q b = Some (TaskNode u None)" "seg (sq_heap q) (sq_first q) ys (Some b)"
      using q snoc by (auto simp: stq_def seg_append)
    have "b \<noteq> e" "b \<notin> set ys" "e \<notin> set ys" "distinct ys" using q e(1) snoc by (auto simp: stq_def)
    moreover have "sq_last q = NextOf b" using q snoc by (simp add: stq_def)
    ultimately show ?thesis using n u snoc q
      by (auto simp: STAILQ_INSERT_TAIL_def set_next_def set_last_def stq_def seg_append)
  qed
qed

lemma stq_insert_head:
  assumes q: "stq q xs" and e: "e \<notin> set xs" "sq_heap q e \<noteq> None"
  shows "\<exists>q'. STAILQ_INSERT_HEAD q e = Some q' \<and> stq q' (e # xs)"
proof -
  obtain t l where n: "sq_heap q e = Some (TaskNode t l)" using e(2) by (cases "sq_heap q e"; cases "the (sq_heap q e)") auto
  show ?thesis
    using q e(1) n by (cases xs) (auto simp: STAILQ_INSERT_HEAD_def set_next_def stq_def Let_def)
qed

lemma stq_insert_after:
  assumes q: "stq q (ys @ b # zs)" and e: "e \<notin> set (ys @ b # zs)" "sq_heap q e \<noteq> None"
  shows "\<exists>q'. STAILQ_INSERT_AFTER q b e = Some q' \<and> stq q' (ys @ b # e # zs)"
proof -
  obtain t l where n: "sq_heap q e = Some (TaskNode t l)" using e(2) by (cases "sq_heap q e"; cases "the (sq_heap q e)") auto
  obtain u m where u: "sq_heap q b = Some (TaskNode u m)" "seg (sq_heap q) (sq_first q) ys (Some b)"
    "seg (sq_heap q) m zs None" using q by (auto simp: stq_def seg_append)
  have d: "b \<noteq> e" "b \<notin> set ys" "e \<notin> set ys" "b \<notin> set zs" "e \<notin> set zs" "distinct ys" "distinct zs"
    "set ys \<inter> set zs = {}" using q e(1) by (auto simp: stq_def)
  show ?thesis
    using n u d q by (cases zs)
      (auto simp: STAILQ_INSERT_AFTER_def STAILQ_NEXT_def set_next_def stq_def seg_append)
qed

lemma find_pred_found:
  assumes "seg (sq_heap q) (Some cur) (cur # ys @ [e]) m" "e \<notin> set (cur # ys)"
  shows "find_pred q e cur = Some (last (cur # ys))"
  using assms
proof (induction ys arbitrary: cur)
  case Nil
  then show ?case by (subst find_pred.simps) (auto simp: STAILQ_NEXT_def)
next
  case (Cons y ys)
  then have "find_pred q e y = Some (last (y # ys))" by auto
  then show ?case using Cons.prems by (subst find_pred.simps) (auto simp: STAILQ_NEXT_def)
qed

lemma stq_remove:
  assumes q: "stq q (ys @ e # zs)"
  shows "\<exists>q'. STAILQ_REMOVE q e = Some q' \<and> stq q' (ys @ zs)"
proof (cases ys)
  case Nil
  then show ?thesis using q stq_remove_head[of q e zs] by (auto simp: STAILQ_REMOVE_def stq_def)
next
  case (Cons a as)
  define b bs where "b = last ys" and "bs = butlast ys"
  have ys: "ys = bs @ [b]" using Cons by (simp add: b_def bs_def)
  have "seg (sq_heap q) (Some a) (a # as @ [e]) (sq_first (q\<lparr>sq_first := nd_next (the (sq_heap q e))\<rparr>))"
    using q Cons by (auto simp: stq_def seg_append)
  moreover have a: "a \<noteq> e" "e \<notin> set (a # as)" "sq_first q = Some a" using q Cons by (auto simp: stq_def)
  ultimately have f: "find_pred q e a = Some b"
    using find_pred_found[of q a as e] by (simp add: b_def Cons)
  obtain u t m where u: "sq_heap q b = Some (TaskNode u (Some e))" "sq_heap q e = Some (TaskNode t m)"
    "seg (sq_heap q) (sq_first q) bs (Some b)" "seg (sq_heap q) m zs None"
    using q by (auto simp: stq_def seg_append ys)
  have d: "b \<noteq> e" "b \<notin> set bs" "e \<notin> set bs" "b \<notin> set zs" "e \<notin> set zs" "distinct bs" "distinct zs"
    "set bs \<inter> set zs = {}" using q by (auto simp: stq_def ys)
  show ?thesis
    using a u d q f by (cases zs)
      (auto simp: STAILQ_REMOVE_def STAILQ_NEXT_def set_next_def stq_def seg_append ys)
qed

lemma stq_remove_head_until:
  assumes "stq q (ys @ e # zs)"
  shows "\<exists>q'. STAILQ_REMOVE_HEAD_UNTIL q e = Some q' \<and> stq q' zs"
  using assms by (cases zs)
    (auto simp: STAILQ_REMOVE_HEAD_UNTIL_def STAILQ_NEXT_def stq_def seg_append)


section \<open>The interface of the pool to its queue\<close>

text \<open>Putting a list of elements, and taking a number of them.\<close>

fun put_all :: "('q \<Rightarrow> 'e \<Rightarrow> 'q option) \<Rightarrow> 'q \<Rightarrow> 'e list \<Rightarrow> 'q option" where
  "put_all put q [] = Some q"
| "put_all put q (e # es) = (case put q e of None \<Rightarrow> None | Some q' \<Rightarrow> put_all put q' es)"

fun take_all :: "('q \<Rightarrow> 'e option) \<Rightarrow> ('q \<Rightarrow> 'q option) \<Rightarrow> nat \<Rightarrow> 'q \<Rightarrow> 'e list option" where
  "take_all first rem 0 q = Some []"
| "take_all first rem (Suc n) q = (case (first q, rem q) of
     (Some e, Some q') \<Rightarrow> map_option (\<lambda>es. e # es) (take_all first rem n q')
   | _ \<Rightarrow> None)"

locale fifo =
  fixes rep :: "'q \<Rightarrow> 'e list \<Rightarrow> bool"
    and alloc :: "'q \<Rightarrow> 'e \<Rightarrow> bool"
    and empty :: "'q \<Rightarrow> bool"
    and first :: "'q \<Rightarrow> 'e option"
    and rem :: "'q \<Rightarrow> 'q option"
    and put :: "'q \<Rightarrow> 'e \<Rightarrow> 'q option"
  assumes empty_law: "rep q xs \<Longrightarrow> empty q \<longleftrightarrow> xs = []"
    and first_law: "rep q (e # xs) \<Longrightarrow> first q = Some e"
    and rem_law: "rep q (e # xs) \<Longrightarrow> \<exists>q'. rem q = Some q' \<and> rep q' xs"
    and put_law: "rep q xs \<Longrightarrow> alloc q e \<Longrightarrow> e \<notin> set xs \<Longrightarrow>
      \<exists>q'. put q e = Some q' \<and> rep q' (xs @ [e]) \<and> (\<forall>a. alloc q a \<longrightarrow> alloc q' a)"
begin

lemma put_all_rep:
  assumes "rep q xs" "\<forall>e \<in> set es. alloc q e" "distinct es" "set es \<inter> set xs = {}"
  shows "\<exists>q'. put_all put q es = Some q' \<and> rep q' (xs @ es)"
  using assms
proof (induction es arbitrary: q xs)
  case (Cons e es)
  obtain q' where q': "put q e = Some q'" "rep q' (xs @ [e])" "\<forall>a. alloc q a \<longrightarrow> alloc q' a"
    using put_law[of q xs e] Cons.prems by auto
  have "\<exists>q''. put_all put q' es = Some q'' \<and> rep q'' ((xs @ [e]) @ es)"
    using Cons.prems q'(3) by (intro Cons.IH[OF q'(2)]) auto
  then show ?case using q'(1) by simp
qed simp

lemma take_all_rep: "rep q (xs @ ys) \<Longrightarrow> take_all first rem (length xs) q = Some xs"
proof (induction xs arbitrary: q)
  case (Cons x xs)
  obtain q' where "rem q = Some q'" "rep q' (xs @ ys)" using rem_law[of q x "xs @ ys"] Cons.prems by auto
  then show ?case using first_law Cons by auto
qed simp

lemma first_in_first_out:
  assumes "rep q xs" "\<forall>e \<in> set es. alloc q e" "distinct es" "set es \<inter> set xs = {}"
  shows "\<exists>q'. put_all put q es = Some q' \<and> take_all first rem (length xs + length es) q' = Some (xs @ es)"
  using put_all_rep[OF assms] take_all_rep[of _ "xs @ es" "[]"] by auto

end

interpretation tailq: fifo stq "\<lambda>q a. sq_heap q a \<noteq> None" STAILQ_EMPTY STAILQ_FIRST
    STAILQ_REMOVE_HEAD STAILQ_INSERT_TAIL
proof (unfold_locales, goal_cases)
  case (4 q xs e)
  then obtain q' where q': "STAILQ_INSERT_TAIL q e = Some q'" "stq q' (xs @ [e])"
    "\<forall>a. map_option nd_task (sq_heap q' a) = map_option nd_task (sq_heap q a)"
    using stq_insert_tail by blast
  then have "\<forall>a. sq_heap q a \<noteq> None \<longrightarrow> sq_heap q' a \<noteq> None"
    by (metis map_option_is_None)
  with q' show ?case by blast
qed (use stq_empty stq_first stq_remove_head in blast)+

section \<open>The invariant of the pool\<close>

definition worker_tasks :: "'t worker \<Rightarrow> 't multiset" where
  "worker_tasks w = (case w of Running a t \<Rightarrow> {#t#} | _ \<Rightarrow> {#})"

definition worker_alive :: "'t worker \<Rightarrow> nat" where
  "worker_alive w = (case w of Exited \<Rightarrow> 0 | _ \<Rightarrow> 1)"

lemma sum_list_update_at:
  fixes g :: "'a \<Rightarrow> 'b :: comm_monoid_add"
  shows "i < length ws \<Longrightarrow> sum_list (map g (ws[i := w])) + g (ws ! i) = sum_list (map g ws) + g w"
proof (induction ws arbitrary: i)
  case (Cons v ws)
  show ?case
  proof (cases i)
    case 0
    then show ?thesis by (simp add: add_ac)
  next
    case (Suc k)
    then have "g v + (sum_list (map g (ws[k := w])) + g (ws ! k)) = g v + (sum_list (map g ws) + g w)"
      using Cons by simp
    then show ?thesis using Suc by (simp add: add_ac)
  qed
qed simp

definition queue_inv :: "'t system \<Rightarrow> addr list \<Rightarrow> bool" where
  "queue_inv s xs \<longleftrightarrow> stq (tqHead (sy_pool s)) xs \<and> curTasks (sy_pool s) = length xs
     \<and> length xs \<le> maxTasks (sy_pool s)
     \<and> sy_accepted s = sy_started s @ map (task_at (sq_heap (tqHead (sy_pool s)))) xs"

text \<open>Worker \<open>i\<close> runs the task of node \<open>a\<close>.\<close>

definition runs :: "'t worker list \<Rightarrow> nat \<Rightarrow> addr \<Rightarrow> bool" where
  "runs ws i a \<longleftrightarrow> i < length ws \<and> (\<exists>t. ws ! i = Running a t)"

lemma runs_update:
  "i < length ws \<Longrightarrow> runs (ws[i := w]) j a \<longleftrightarrow> (if j = i then \<exists>t. w = Running a t else runs ws j a)"
  by (auto simp: runs_def)

definition nodes_inv :: "'t system \<Rightarrow> addr list \<Rightarrow> bool" where
  "nodes_inv s xs \<longleftrightarrow>
     (\<forall>i a. runs (sy_workers s) i a \<longrightarrow> a \<notin> set xs \<and> sq_heap (tqHead (sy_pool s)) a \<noteq> None) \<and>
     (\<forall>i j a. runs (sy_workers s) i a \<longrightarrow> runs (sy_workers s) j a \<longrightarrow> i = j)"

definition counts_inv :: "'t system \<Rightarrow> addr list \<Rightarrow> bool" where
  "counts_inv s xs \<longleftrightarrow>
     (Exited \<in> set (sy_workers s) \<longrightarrow> bExit (sy_pool s) \<and> xs = []) \<and>
     curThreads (sy_pool s) = sum_list (map worker_alive (sy_workers s)) \<and>
     mset (sy_started s) = mset (sy_finished s) + sum_list (map worker_tasks (sy_workers s))"

definition sys_inv :: "'t system \<Rightarrow> bool" where
  "sys_inv s \<longleftrightarrow> (\<exists>xs. queue_inv s xs \<and> nodes_inv s xs \<and> counts_inv s xs)"


subsection \<open>Each step keeps it\<close>

text \<open>The queue after a node was allocated for the task.\<close>

lemma alloc_insert:
  assumes q: "stq q xs" and a: "sq_heap q a = None"
  shows "\<exists>q'. STAILQ_INSERT_TAIL (q\<lparr>sq_heap := (sq_heap q)(a := Some (TaskNode t None))\<rparr>) a = Some q'
    \<and> stq q' (xs @ [a]) \<and> a \<notin> set xs
    \<and> map (task_at (sq_heap q')) (xs @ [a]) = map (task_at (sq_heap q)) xs @ [t]
    \<and> (\<forall>b. sq_heap q b \<noteq> None \<longrightarrow> sq_heap q' b \<noteq> None)"
proof -
  let ?q = "q\<lparr>sq_heap := (sq_heap q)(a := Some (TaskNode t None))\<rparr>"
  have n: "a \<notin> set xs" using stq_dom[OF q, of a] a by auto
  have "stq ?q xs" using q n by (simp add: stq_def)
  then obtain q' where q': "STAILQ_INSERT_TAIL ?q a = Some q'" "stq q' (xs @ [a])"
    "\<forall>b. map_option nd_task (sq_heap q' b) = map_option nd_task (sq_heap ?q b)"
    using stq_insert_tail[of ?q xs a] n by auto
  have at: "task_at (sq_heap q') b = task_at (sq_heap ?q) b" if ne: "sq_heap ?q b \<noteq> None" for b
  proof -
    obtain v where v: "sq_heap ?q b = Some v" using ne unfolding not_None_eq by blast
    then obtain w where "sq_heap q' b = Some w" "nd_task w = nd_task v"
      using q'(3)[rule_format, of b] by (cases "sq_heap q' b") simp_all
    then show ?thesis using v by (simp add: task_at_def)
  qed
  have "sq_heap ?q b \<noteq> None" if "b \<in> set xs" for b using stq_dom[OF q that] by simp
  then have "map (task_at (sq_heap q')) xs = map (task_at (sq_heap q)) xs"
    using at n by (intro map_cong) (auto simp: task_at_def)
  moreover have "task_at (sq_heap q') a = t" using at[of a] by (simp add: task_at_def)
  moreover have "sq_heap q b \<noteq> None \<Longrightarrow> sq_heap q' b \<noteq> None" for b
    using q'(3)[rule_format, of b] by (cases "b = a") (auto simp: map_option_is_None[symmetric] simp del: map_option_is_None)
  ultimately show ?thesis using q' n by auto
qed

lemma add_inv:
  assumes inv: "sys_inv s" and env: "env_ok env (sy_pool s)"
    and add: "tpAddTask env t (sy_pool s) = Some (ok, p)"
  shows "sys_inv (s\<lparr>sy_pool := p, sy_accepted := sy_accepted s @ (if ok then [t] else [])\<rparr>)"
proof -
  let ?P = "sy_pool s"
  obtain xs where q: "queue_inv s xs" and w: "nodes_inv s xs" "counts_inv s xs" using inv by (auto simp: sys_inv_def)
  show ?thesis
  proof (cases "ae_lock env \<and> curTasks ?P < maxTasks ?P \<and> \<not> bExit ?P \<and> ae_malloc env \<noteq> None")
    case False
    then have "p = ?P \<and> \<not> ok" using add by (auto simp: tpAddTask_def split: if_splits option.splits)
    then show ?thesis using inv by simp
  next
    case True
    then obtain a where a: "ae_malloc env = Some a" by auto
    then have "sq_heap (tqHead ?P) a = None" using env by (simp add: env_ok_def)
    then obtain q' where q': "STAILQ_INSERT_TAIL ((tqHead ?P)\<lparr>sq_heap := (sq_heap (tqHead ?P))(a := Some (TaskNode t None))\<rparr>) a = Some q'"
      "stq q' (xs @ [a])" "a \<notin> set xs"
      "map (task_at (sq_heap q')) (xs @ [a]) = map (task_at (sq_heap (tqHead ?P))) xs @ [t]"
      "\<forall>b. sq_heap (tqHead ?P) b \<noteq> None \<longrightarrow> sq_heap q' b \<noteq> None"
      using alloc_insert[of "tqHead ?P" xs a t] q unfolding queue_inv_def by blast
    have g: "ae_lock env" "\<not> maxTasks ?P \<le> curTasks ?P" "\<not> bExit ?P" "ae_signal env" "ae_unlock env"
      using True env by (auto simp: env_ok_def)
    have "tpAddTask env t ?P = Some (True, ?P\<lparr>tqHead := q', curTasks := curTasks ?P + 1\<rparr>)"
      unfolding tpAddTask_def using g a q'(1) by (simp add: Let_def)
    then have p: "ok" "p = ?P\<lparr>tqHead := q', curTasks := curTasks ?P + 1\<rparr>" using add by auto
    have "queue_inv (s\<lparr>sy_pool := p, sy_accepted := sy_accepted s @ [t]\<rparr>) (xs @ [a])"
      using q q' True by (simp add: queue_inv_def p)
    moreover have "nodes_inv (s\<lparr>sy_pool := p, sy_accepted := sy_accepted s @ [t]\<rparr>) (xs @ [a])"
    proof -
      have "i \<noteq> i' \<or> b \<noteq> a" if "runs (sy_workers s) i b" for i i' b
        using that w(1) \<open>sq_heap (tqHead ?P) a = None\<close> unfolding nodes_inv_def by blast
      then have "b \<noteq> a" if "runs (sy_workers s) i b" for i b using that by blast
      then show ?thesis using w(1) q'(5) unfolding nodes_inv_def by (simp add: p)
    qed
    moreover have "counts_inv (s\<lparr>sy_pool := p, sy_accepted := sy_accepted s @ [t]\<rparr>) (xs @ [a])"
      using w(2) True by (auto simp: counts_inv_def p)
    ultimately show ?thesis using p(1) by (auto simp: sys_inv_def)
  qed
qed

lemma section_inv:
  assumes inv: "sys_inv s" and i: "i < length (sy_workers s)"
    and at: "sy_workers s ! i = Top \<or> sy_workers s ! i = Waiting"
    and sec: "worker_section (sy_pool s) = Some (p, w)"
  shows "sys_inv (s\<lparr>sy_pool := p, sy_workers := (sy_workers s)[i := w],
      sy_started := sy_started s @ (case w of Running a t \<Rightarrow> [t] | _ \<Rightarrow> [])\<rparr>)"
proof -
  let ?P = "sy_pool s" and ?W = "sy_workers s"
  obtain xs where q: "queue_inv s xs" and wi: "nodes_inv s xs" "counts_inv s xs"
    using inv by (auto simp: sys_inv_def)
  have st: "stq (tqHead ?P) xs" using q by (simp add: queue_inv_def)
  have here: "worker_tasks (?W ! i) = {#}" "worker_alive (?W ! i) = 1"
    using at by (auto simp: worker_tasks_def worker_alive_def)
  have sumt: "sum_list (map worker_tasks (?W[i := w])) = sum_list (map worker_tasks ?W) + worker_tasks w"
    using sum_list_update_at[OF i, of worker_tasks w] here by simp
  have suma: "sum_list (map worker_alive (?W[i := w])) + 1 = sum_list (map worker_alive ?W) + worker_alive w"
    using sum_list_update_at[OF i, of worker_alive w] here by simp
  have ex: "Exited \<in> set (?W[i := w]) \<Longrightarrow> w = Exited \<or> Exited \<in> set ?W"
    using set_update_subset_insert[of ?W i w] by auto
  show ?thesis
  proof (cases xs)
    case Nil
    then have idle: "w = Exited \<and> bExit ?P \<and> p = ?P\<lparr>curThreads := curThreads ?P - 1\<rparr>
        \<or> w = Waiting \<and> \<not> bExit ?P \<and> p = ?P"
      using sec stq_empty[OF st] by (auto simp: worker_section_def split: if_splits)
    let ?s = "s\<lparr>sy_pool := p, sy_workers := ?W[i := w]\<rparr>"
    have "queue_inv ?s []" using q Nil idle by (auto simp: queue_inv_def)
    moreover have "nodes_inv ?s []" using wi(1) Nil idle by (auto simp: nodes_inv_def runs_update[OF i])
    moreover have "counts_inv ?s []" using wi(2) Nil idle suma sumt ex
      by (auto simp: counts_inv_def worker_tasks_def worker_alive_def)
    ultimately show ?thesis using idle by (auto simp: sys_inv_def)
  next
    case (Cons a ys)
    obtain q' where q': "STAILQ_REMOVE_HEAD (tqHead ?P) = Some q'" "stq q' ys" "sq_heap q' = sq_heap (tqHead ?P)"
      using stq_remove_head[of "tqHead ?P" a ys] st Cons by auto
    obtain n where n: "sq_heap (tqHead ?P) a = Some n" using stq_dom[OF st, of a] Cons by auto
    have ne: "\<not> STAILQ_EMPTY (tqHead ?P)" using stq_empty[OF st] Cons by simp
    have first: "STAILQ_FIRST (tqHead ?P) = Some a" using stq_first[of "tqHead ?P" a ys] st Cons by simp
    have p: "p = ?P\<lparr>tqHead := q', curTasks := curTasks ?P - 1\<rparr>" "w = Running a (nd_task n)"
      using sec ne first n q'(1) by (simp_all add: worker_section_def)
    have dist: "a \<notin> set ys" using st Cons by (simp add: stq_def)
    let ?s = "s\<lparr>sy_pool := p, sy_workers := ?W[i := w], sy_started := sy_started s @ [nd_task n]\<rparr>"
    have "queue_inv ?s ys" using q q' Cons n by (simp add: queue_inv_def p task_at_def)
    moreover have "nodes_inv ?s ys"
      using wi(1) Cons n q'(3) dist p by (auto simp: nodes_inv_def runs_update[OF i])
    moreover have "counts_inv ?s ys" using wi(2) Cons p ex suma sumt
      by (auto simp: counts_inv_def worker_tasks_def worker_alive_def)
    ultimately show ?thesis using p(2) by (auto simp: sys_inv_def)
  qed
qed

lemma finish_inv:
  assumes inv: "sys_inv s" and i: "i < length (sy_workers s)" and at: "sy_workers s ! i = Running a t"
  shows "sys_inv (s\<lparr>sy_pool := worker_done a (sy_pool s), sy_workers := (sy_workers s)[i := Top],
      sy_finished := sy_finished s @ [t]\<rparr>)"
proof -
  let ?P = "sy_pool s" and ?W = "sy_workers s"
  obtain xs where q: "queue_inv s xs" and wi: "nodes_inv s xs" "counts_inv s xs"
    using inv by (auto simp: sys_inv_def)
  have r: "runs ?W i a" using i at by (auto simp: runs_def)
  then have a: "a \<notin> set xs" using wi(1) by (auto simp: nodes_inv_def)
  have sumt: "sum_list (map worker_tasks (?W[i := Top])) + {#t#} = sum_list (map worker_tasks ?W)"
    using sum_list_update_at[OF i, of worker_tasks Top] at by (simp add: worker_tasks_def)
  have suma: "sum_list (map worker_alive (?W[i := Top])) = sum_list (map worker_alive ?W)"
    using sum_list_update_at[OF i, of worker_alive Top] at by (simp add: worker_alive_def)
  have ex: "Exited \<in> set (?W[i := Top]) \<Longrightarrow> Exited \<in> set ?W"
    using set_update_subset_insert[of ?W i Top] by auto
  let ?s = "s\<lparr>sy_pool := worker_done a ?P, sy_workers := ?W[i := Top], sy_finished := sy_finished s @ [t]\<rparr>"
  have t: "map (task_at ((sq_heap (tqHead ?P))(a := None))) xs = map (task_at (sq_heap (tqHead ?P))) xs"
    using a by (intro map_cong) (auto simp: task_at_def)
  have "queue_inv ?s xs" using q a t by (simp add: queue_inv_def worker_done_def free_node_def stq_def)
  moreover have "nodes_inv ?s xs"
    using wi(1) r by (auto simp: nodes_inv_def runs_update[OF i] worker_done_def free_node_def)
  moreover have "counts_inv ?s xs" using wi(2) ex suma sumt
    by (auto simp: counts_inv_def worker_done_def free_node_def)
  ultimately show ?thesis by (auto simp: sys_inv_def)
qed

lemma destroy_inv:
  assumes "sys_inv s" shows "sys_inv (s\<lparr>sy_pool := tpDestroy_begin (sy_pool s)\<rparr>)"
proof -
  obtain xs where "queue_inv s xs" "nodes_inv s xs" "counts_inv s xs" using assms by (auto simp: sys_inv_def)
  then have "queue_inv (s\<lparr>sy_pool := tpDestroy_begin (sy_pool s)\<rparr>) xs"
    "nodes_inv (s\<lparr>sy_pool := tpDestroy_begin (sy_pool s)\<rparr>) xs"
    "counts_inv (s\<lparr>sy_pool := tpDestroy_begin (sy_pool s)\<rparr>) xs"
    by (auto simp: queue_inv_def nodes_inv_def counts_inv_def tpDestroy_begin_def)
  then show ?thesis by (auto simp: sys_inv_def)
qed

lemma tp_step_inv: "tp_step s s' \<Longrightarrow> sys_inv s \<Longrightarrow> sys_inv s'"
proof (induction rule: tp_step.induct)
  case (add env s t ok p)
  then show ?case by (intro add_inv)
next
  case (work i s p w)
  then show ?case by (intro section_inv)
next
  case (finish i s a t)
  then show ?case by (intro finish_inv)
next
  case (destroy s)
  then show ?case by (intro destroy_inv)
qed

lemma create_inv:
  fixes p :: "'t threadpool"
  assumes "tpCreate heap True True spawn threads tasks = (ok, Some p)"
  shows "sys_inv (tp_initial p)"
proof -
  have p: "p = \<lparr>bExit = False, curTasks = 0, maxTasks = tasks,
      tqHead = STAILQ_INIT \<lparr>sq_heap = heap, sq_first = None, sq_last = FirstOf\<rparr>,
      curThreads = length (takeWhile spawn [0..<threads])\<rparr>"
    using assms by (auto simp: tpCreate_def Let_def split: if_splits)
  have "queue_inv (tp_initial p) []" by (simp add: queue_inv_def tp_initial_def p stq_init)
  moreover have "nodes_inv (tp_initial p) []" by (auto simp: nodes_inv_def tp_initial_def runs_def)
  moreover have "sum_list (replicate n ({#} :: 't multiset)) = {#}" for n by (induction n) auto
  ultimately have "queue_inv (tp_initial p) [] \<and> nodes_inv (tp_initial p) [] \<and> counts_inv (tp_initial p) []"
    by (simp add: counts_inv_def tp_initial_def worker_alive_def worker_tasks_def sum_list_replicate)
  then show ?thesis by (auto simp: sys_inv_def)
qed

lemma tp_reach_inv: "tp_reach p s \<Longrightarrow> sys_inv (tp_initial p) \<Longrightarrow> sys_inv s"
  by (induction rule: tp_reach.induct) (auto intro: tp_step_inv)


lemma tp_step_workers: "tp_step s s' \<Longrightarrow> length (sy_workers s') = length (sy_workers s)"
  by (induction rule: tp_step.induct) simp_all

lemma tp_reach_workers: "tp_reach p s \<Longrightarrow> length (sy_workers s) = curThreads p"
  by (induction rule: tp_reach.induct) (simp_all add: tp_initial_def tp_step_workers)

text \<open>What a reachable state of a created pool satisfies.\<close>

lemma reach_inv:
  assumes "tpCreate heap True True spawn threads tasks = (ok, Some p)" "tp_reach p s"
  obtains xs where "queue_inv s xs" "nodes_inv s xs" "counts_inv s xs"
  using tp_reach_inv[OF assms(2) create_inv[OF assms(1)]] that by (auto simp: sys_inv_def)

lemma worker_section_some:
  assumes q: "stq (tqHead P) xs"
  shows "worker_section P \<noteq> None"
proof (cases xs)
  case Nil
  then show ?thesis using stq_empty[OF q] by (simp add: worker_section_def)
next
  case (Cons a ys)
  obtain q' where "STAILQ_REMOVE_HEAD (tqHead P) = Some q'" using stq_remove_head q Cons by blast
  moreover obtain n where "sq_heap (tqHead P) a = Some n" using stq_dom[OF q, of a] Cons by auto
  moreover have "\<not> STAILQ_EMPTY (tqHead P)" "STAILQ_FIRST (tqHead P) = Some a"
    using stq_empty[OF q] stq_first[of "tqHead P" a ys] q Cons by simp_all
  ultimately show ?thesis by (simp add: worker_section_def)
qed

definition add_allowed :: "add_env \<Rightarrow> 't threadpool \<Rightarrow> bool" where
  "add_allowed env P \<longleftrightarrow> ae_lock env \<and> curTasks P < maxTasks P \<and> \<not> bExit P \<and> ae_malloc env \<noteq> None"

lemma add_task_outcome:
  assumes q: "stq (tqHead P) xs" and env: "env_ok env P"
  shows "\<exists>p. tpAddTask env t P = Some (add_allowed env P, p)
    \<and> (add_allowed env P \<longrightarrow> curTasks p = curTasks P + 1)
    \<and> (\<not> add_allowed env P \<longrightarrow> p = P)"
proof (cases "add_allowed env P")
  case False
  then show ?thesis by (auto simp: tpAddTask_def add_allowed_def)
next
  case True
  then obtain a where a: "ae_malloc env = Some a" by (auto simp: add_allowed_def)
  then have "sq_heap (tqHead P) a = None" using env by (simp add: env_ok_def)
  then obtain q' where q': "STAILQ_INSERT_TAIL ((tqHead P)\<lparr>sq_heap := (sq_heap (tqHead P))(a := Some (TaskNode t None))\<rparr>) a = Some q'"
    using alloc_insert[OF q] by blast
  have g: "ae_lock env" "\<not> maxTasks P \<le> curTasks P" "\<not> bExit P" "ae_signal env" "ae_unlock env"
    using True env by (auto simp: env_ok_def add_allowed_def)
  have "tpAddTask env t P = Some (True, P\<lparr>tqHead := q', curTasks := curTasks P + 1\<rparr>)"
    unfolding tpAddTask_def using g a q' by (simp add: Let_def)
  then show ?thesis using True by simp
qed

lemma all_exited: "sum_list (map worker_alive ws) = 0 \<Longrightarrow> w \<in> set ws \<Longrightarrow> w = Exited"
  by (induction ws) (auto simp: worker_alive_def split: worker.splits)

lemma exited_tasks: "(\<And>w. w \<in> set ws \<Longrightarrow> w = Exited) \<Longrightarrow> sum_list (map worker_tasks ws) = {#}"
proof (induction ws)
  case (Cons w ws)
  have "worker_tasks w = {#}" using Cons.prems[of w] by (simp add: worker_tasks_def)
  moreover have "sum_list (map worker_tasks ws) = {#}" using Cons by simp
  ultimately show ?case by simp
qed simp

section \<open>The properties of the queue and of the pool\<close>

text \<open>
  The macros of the tail queue, on the heap, are the operations of a list. When the queue
  holds the nodes \<open>ys @ e # zs\<close>, each macro succeeds without following a bad link and the queue
  then holds the list that the operation names, with its last-link invariant.
\<close>

theorem tail_queue_refines_list:
  "stq q (ys @ e # zs) \<Longrightarrow> n \<notin> set (ys @ e # zs) \<Longrightarrow> sq_heap q n \<noteq> None \<Longrightarrow>
   (\<exists>q'. STAILQ_INSERT_TAIL q n = Some q' \<and> stq q' (ys @ e # zs @ [n])) \<and>
   (\<exists>q'. STAILQ_INSERT_HEAD q n = Some q' \<and> stq q' (n # ys @ e # zs)) \<and>
   (\<exists>q'. STAILQ_INSERT_AFTER q e n = Some q' \<and> stq q' (ys @ e # n # zs)) \<and>
   (\<exists>q'. STAILQ_REMOVE q e = Some q' \<and> stq q' (ys @ zs)) \<and>
   (\<exists>q'. STAILQ_REMOVE_HEAD q = Some q' \<and> stq q' (tl (ys @ e # zs))) \<and>
   (\<exists>q'. STAILQ_REMOVE_HEAD_UNTIL q e = Some q' \<and> stq q' zs) \<and>
   STAILQ_FIRST q = Some (hd (ys @ e # zs)) \<and> \<not> STAILQ_EMPTY q"
  using stq_insert_tail[of q "ys @ e # zs" n] stq_insert_head[of q "ys @ e # zs" n]
    stq_insert_after[of q ys e zs n] stq_remove[of q ys e zs] stq_remove_head_until[of q ys e zs]
    stq_remove_head[of q "hd (ys @ e # zs)" "tl (ys @ e # zs)"] stq_empty[of q "ys @ e # zs"]
    stq_first[of q "hd (ys @ e # zs)" "tl (ys @ e # zs)"]
  by (cases ys) auto

text \<open>A queue of two nodes, and a third one on the heap.\<close>

definition demo_queue :: "nat stailq" where
  "demo_queue = \<lparr>sq_heap = [1 \<mapsto> TaskNode 10 (Some 2), 2 \<mapsto> TaskNode 20 None, 3 \<mapsto> TaskNode 30 None],
     sq_first = Some 1, sq_last = NextOf 2\<rparr>"

lemma demo_queue_stq: "stq demo_queue ([1] @ 2 # [])"
  by (simp add: demo_queue_def stq_def)

lemma tail_queue_witness:
  "\<exists>q'. STAILQ_REMOVE demo_queue 2 = Some q' \<and> stq q' [1]"
  using tail_queue_refines_list[OF demo_queue_stq, of 3] by (simp add: demo_queue_def)

text \<open>
  Nodes put at the tail of a queue come out at its head in the order in which they were put,
  after those that were there before.
\<close>

theorem tail_queue_fifo:
  "stq q xs \<Longrightarrow> \<forall>e \<in> set es. sq_heap q e \<noteq> None \<Longrightarrow> distinct es \<Longrightarrow> set es \<inter> set xs = {} \<Longrightarrow>
   \<exists>q'. put_all STAILQ_INSERT_TAIL q es = Some q'
     \<and> take_all STAILQ_FIRST STAILQ_REMOVE_HEAD (length xs + length es) q' = Some (xs @ es)"
  by (rule tailq.first_in_first_out)

lemma tail_queue_fifo_witness:
  "\<exists>q'. put_all STAILQ_INSERT_TAIL demo_queue [3] = Some q'
     \<and> take_all STAILQ_FIRST STAILQ_REMOVE_HEAD 3 q' = Some [1, 2, 3]"
  using tail_queue_fifo[OF demo_queue_stq, of "[3]"] by (simp add: demo_queue_def numeral_3_eq_3)


text \<open>
  C4: In every state that a created pool reaches, the accepted tasks are the started ones followed
  by the ones in the queue, in the order of acceptance; a started task is finished or is being run
  by one worker; and the counter of tasks is the length of the queue and within its bound.
\<close>

theorem pool_order:
  "tpCreate heap True True spawn threads tasks = (ok, Some p) \<Longrightarrow> tp_reach p s \<Longrightarrow>
   \<exists>queued. sy_accepted s = sy_started s @ queued
     \<and> curTasks (sy_pool s) = length queued \<and> length queued \<le> maxTasks (sy_pool s)
     \<and> mset (sy_started s) = mset (sy_finished s) + sum_list (map worker_tasks (sy_workers s))"
proof -
  assume "tpCreate heap True True spawn threads tasks = (ok, Some p)" "tp_reach p s"
  then obtain xs where "queue_inv s xs" "counts_inv s xs" by (rule reach_inv)
  then show ?thesis
    by (intro exI[of _ "map (task_at (sq_heap (tqHead (sy_pool s)))) xs"])
      (simp add: queue_inv_def counts_inv_def)
qed

text \<open>A pool of one worker, a task that it accepts and the state after the worker took it.\<close>

definition demo_env :: add_env where
  "demo_env = \<lparr>ae_lock = True, ae_malloc = Some 5, ae_signal = True, ae_unlock = True\<rparr>"

definition demo_pool :: "nat threadpool" where
  "demo_pool = the (snd (tpCreate Map.empty True True (\<lambda>_. True) 1 4))"

definition demo_added :: "nat threadpool" where
  "demo_added = snd (the (tpAddTask demo_env 7 demo_pool))"

definition demo_taken :: "nat threadpool" where
  "demo_taken = fst (the (worker_section demo_added))"

lemmas demo_defs = demo_taken_def demo_added_def demo_pool_def demo_env_def tpCreate_def STAILQ_INIT_def
  tpAddTask_def STAILQ_INSERT_TAIL_def set_next_def set_last_def worker_section_def STAILQ_EMPTY_def
  STAILQ_FIRST_def STAILQ_REMOVE_HEAD_def STAILQ_NEXT_def MAX_THREAD_def MAX_TASK_def Let_def

lemma demo_create: "tpCreate Map.empty True True (\<lambda>_. True) 1 4 = (True, Some demo_pool)"
  by (simp add: demo_defs)

lemma demo_add: "tpAddTask demo_env 7 demo_pool = Some (True, demo_added)"
  by (simp add: demo_defs)

lemma demo_take: "worker_section demo_added = Some (demo_taken, Running 5 7)"
  by (simp add: demo_defs)

lemma demo_taken_fields: "sq_first (tqHead demo_taken) = None" "curThreads demo_taken = 1"
  by (simp_all add: demo_defs)

definition demo_state :: "nat system" where
  "demo_state = \<lparr>sy_pool = demo_taken, sy_workers = [Running 5 7], sy_accepted = [7], sy_started = [7],
     sy_finished = []\<rparr>"

lemma demo_reach: "tp_reach demo_pool demo_state"
proof -
  let ?s0 = "tp_initial demo_pool"
  let ?s1 = "?s0\<lparr>sy_pool := demo_added, sy_accepted := [7]\<rparr>"
  have "env_ok demo_env (sy_pool ?s0)" by (simp add: env_ok_def tp_initial_def demo_defs)
  then have "tp_step ?s0 ?s1" using tp_step.add[of demo_env ?s0 7 True demo_added] demo_add
    by (simp add: tp_initial_def)
  moreover have "sy_workers ?s1 = [Top]" by (simp add: tp_initial_def demo_defs)
  then have "tp_step ?s1 demo_state"
    using tp_step.work[of 0 ?s1 demo_taken "Running 5 7"] demo_take
    by (simp add: tp_initial_def demo_state_def)
  ultimately show ?thesis using tp_reach.step[OF tp_reach.step[OF tp_reach.init]] by blast
qed

lemma pool_order_witness:
  "\<exists>queued. sy_accepted demo_state = sy_started demo_state @ queued
     \<and> curTasks (sy_pool demo_state) = length queued"
  using pool_order[OF demo_create demo_reach] by blast

text \<open>
  C35: The pool never follows a bad pointer: in every reachable state the critical section of a
  worker is defined, and so is \<open>tpAddTask\<close>, which accepts the task exactly when the lock was
  obtained, the queue is not full, the pool is not to exit and a node could be allocated, and else
  leaves the pool as it was.
\<close>

theorem pool_calls_defined:
  "tpCreate heap True True spawn threads tasks = (ok, Some p) \<Longrightarrow> tp_reach p s \<Longrightarrow>
   env_ok env (sy_pool s) \<Longrightarrow>
   worker_section (sy_pool s) \<noteq> None \<and>
   (\<exists>p'. tpAddTask env t (sy_pool s) = Some (add_allowed env (sy_pool s), p')
      \<and> (if add_allowed env (sy_pool s) then curTasks p' = curTasks (sy_pool s) + 1 else p' = sy_pool s))"
proof -
  assume "tpCreate heap True True spawn threads tasks = (ok, Some p)" "tp_reach p s" and e: "env_ok env (sy_pool s)"
  from this(1,2) obtain xs where "queue_inv s xs" by (rule reach_inv)
  then have q: "stq (tqHead (sy_pool s)) xs" by (simp add: queue_inv_def)
  show ?thesis using worker_section_some[OF q] add_task_outcome[OF q e, of t] by auto
qed

lemma pool_calls_defined_witness:
  "\<exists>p'. tpAddTask (demo_env\<lparr>ae_malloc := Some 6\<rparr>) 8 (sy_pool demo_state) = Some (True, p')"
proof -
  have "env_ok (demo_env\<lparr>ae_malloc := Some 6\<rparr>) (sy_pool demo_state)"
    by (simp add: env_ok_def demo_state_def demo_defs)
  moreover have "add_allowed (demo_env\<lparr>ae_malloc := Some 6\<rparr>) (sy_pool demo_state)"
    by (simp add: add_allowed_def demo_state_def demo_defs)
  ultimately show ?thesis
    using pool_calls_defined[OF demo_create demo_reach, of "demo_env\<lparr>ae_malloc := Some 6\<rparr>" 8] by auto
qed

text \<open>
  C26: When the loop of \<open>tpDestroy\<close> ends for a pool that has had a worker, every accepted task has
  been started, in the order of acceptance, and all of them have run to their end: none is lost
  and none runs twice.
\<close>

theorem destroy_drains:
  "tpCreate heap True True spawn threads tasks = (ok, Some p) \<Longrightarrow> 0 < curThreads p \<Longrightarrow> tp_reach p s \<Longrightarrow>
   tpDestroy_done (sy_pool s) \<Longrightarrow>
   sy_accepted s = sy_started s \<and> mset (sy_finished s) = mset (sy_accepted s) \<and> bExit (sy_pool s)"
proof -
  assume c: "tpCreate heap True True spawn threads tasks = (ok, Some p)" and n: "0 < curThreads p"
    and r: "tp_reach p s" and d: "tpDestroy_done (sy_pool s)"
  obtain xs where q: "queue_inv s xs" and w: "counts_inv s xs" using reach_inv[OF c r] by blast
  have alive: "sum_list (map worker_alive (sy_workers s)) = 0" using w d by (simp add: counts_inv_def tpDestroy_done_def)
  note ex = all_exited[OF alive]
  have "sy_workers s \<noteq> []" using tp_reach_workers[OF r] n by auto
  then have "Exited \<in> set (sy_workers s)" using ex[of "hd (sy_workers s)"] by (metis hd_in_set)
  then have "xs = []" "bExit (sy_pool s)" using w by (auto simp: counts_inv_def)
  moreover have "sum_list (map worker_tasks (sy_workers s)) = {#}" using exited_tasks ex by blast
  ultimately show ?thesis using q w by (simp add: queue_inv_def counts_inv_def)
qed

lemma demo_destroyed:
  "\<exists>s. tp_reach demo_pool s \<and> tpDestroy_done (sy_pool s) \<and> sy_accepted s = [7]"
proof -
  let ?s2 = "demo_state\<lparr>sy_pool := worker_done 5 demo_taken, sy_workers := [Top], sy_finished := [7]\<rparr>"
  let ?s3 = "?s2\<lparr>sy_pool := tpDestroy_begin (worker_done 5 demo_taken)\<rparr>"
  let ?P = "tpDestroy_begin (worker_done 5 demo_taken)"
  let ?s4 = "?s3\<lparr>sy_pool := ?P\<lparr>curThreads := 0\<rparr>, sy_workers := [Exited]\<rparr>"
  have 1: "tp_step demo_state ?s2" using tp_step.finish[of 0 demo_state 5 7] by (simp add: demo_state_def)
  have 2: "tp_step ?s2 ?s3" using tp_step.destroy[of ?s2] by simp
  have "worker_section ?P = Some (?P\<lparr>curThreads := 0\<rparr>, Exited)"
    using demo_taken_fields
    by (simp add: worker_section_def STAILQ_EMPTY_def tpDestroy_begin_def worker_done_def free_node_def)
  then have 3: "tp_step ?s3 ?s4"
    using tp_step.work[of 0 ?s3 "?P\<lparr>curThreads := 0\<rparr>" Exited] by (simp add: demo_state_def)
  have "tp_reach demo_pool ?s4"
    by (rule tp_reach.step[OF tp_reach.step[OF tp_reach.step[OF demo_reach 1] 2] 3])
  moreover have "tpDestroy_done (sy_pool ?s4)" "sy_accepted ?s4 = [7]"
    by (simp_all add: tpDestroy_done_def demo_state_def)
  ultimately show ?thesis by blast
qed

lemma destroy_drains_witness:
  "\<exists>s. tp_reach demo_pool s \<and> mset (sy_finished s) = {#7#} \<and> sy_started s = [7]"
proof -
  obtain s where s: "tp_reach demo_pool s" "tpDestroy_done (sy_pool s)" "sy_accepted s = [7]"
    using demo_destroyed by blast
  have "0 < curThreads demo_pool" by (simp add: demo_defs)
  from destroy_drains[OF demo_create this s(1,2)] s show ?thesis by auto
qed

text \<open>
  When the signal fails after the node was put into the queue, \<open>tpAddTask\<close> reports a failure
  and frees the node, but the node stays linked and counted: from an empty queue, the next worker
  that wakes reads freed memory, which the model shows as an undefined section.
\<close>

theorem add_signal_failure_dangles:
  "ae_lock env \<Longrightarrow> ae_malloc env = Some a \<Longrightarrow> \<not> ae_signal env \<Longrightarrow> stq (tqHead P) [] \<Longrightarrow>
   curTasks P < maxTasks P \<Longrightarrow> \<not> bExit P \<Longrightarrow>
   \<exists>p. tpAddTask env t P = Some (False, p) \<and> curTasks p = curTasks P + 1
     \<and> STAILQ_FIRST (tqHead p) = Some a \<and> sq_heap (tqHead p) a = None \<and> worker_section p = None"
  by (simp add: tpAddTask_def STAILQ_INSERT_TAIL_def set_next_def set_last_def stq_def free_node_def
      STAILQ_FIRST_def STAILQ_EMPTY_def worker_section_def Let_def)

lemma add_signal_failure_witness:
  "\<exists>p. tpAddTask (demo_env\<lparr>ae_signal := False\<rparr>) 7 demo_pool = Some (False, p) \<and> worker_section p = None"
proof -
  have "stq (tqHead demo_pool) []" "curTasks demo_pool < maxTasks demo_pool" "\<not> bExit demo_pool"
    by (simp_all add: demo_defs stq_def)
  then show ?thesis
    using add_signal_failure_dangles[of "demo_env\<lparr>ae_signal := False\<rparr>" 5 demo_pool 7] by (auto simp: demo_env_def)
qed

end
