(* ===== verification/CText.thy ===== *)
theory CText
  imports Prelude
begin

text \<open>
  What the program uses of the C library on text: the decimal conversions of \<open>sprintf\<close>,
  \<open>sscanf\<close> and \<open>atoi\<close>, and the strings in byte buffers. A buffer is a list of bytes; its text ends
  at the first zero byte, and a buffer without one has no text.
\<close>

section \<open>Decimal numbers\<close>

definition dec_digit :: "nat \<Rightarrow> char" where
  "dec_digit k = char_of (48 + k)"

function dec_nat :: "nat \<Rightarrow> string" where
  "dec_nat n = (if n < 10 then [dec_digit n] else dec_nat (n div 10) @ [dec_digit (n mod 10)])"
  by pat_completeness auto
termination by (relation "measure id") auto

declare dec_nat.simps [simp del]

text \<open>The conversion \<open>%d\<close> of an \<open>int\<close>.\<close>

definition pr_d :: "int \<Rightarrow> string" where
  "pr_d i = (if i < 0 then CHR ''-'' # dec_nat (nat (- i)) else dec_nat (nat i))"

definition is_digit :: "char \<Rightarrow> bool" where
  "is_digit c \<longleftrightarrow> 48 \<le> (of_char c :: nat) \<and> (of_char c :: nat) \<le> 57"

definition is_space :: "char \<Rightarrow> bool" where
  "is_space c \<longleftrightarrow> (of_char c :: nat) \<in> {32, 9, 10, 11, 12, 13}"

fun digits_value :: "nat \<Rightarrow> string \<Rightarrow> nat" where
  "digits_value acc [] = acc"
| "digits_value acc (c # cs) = digits_value (acc * 10 + (of_char c - 48)) cs"

text \<open>A value that no \<open>long\<close> of 32 bits holds becomes the nearest one (\<open>strtol\<close>).\<close>

definition clamp32 :: "int \<Rightarrow> int" where
  "clamp32 i = max (- 2147483648) (min 2147483647 i)"

text \<open>
  The conversion \<open>%d\<close> of \<open>sscanf\<close>: white space, a sign and at least one digit; the rest of the text is
  returned with the value.
\<close>

definition scan_d :: "string \<Rightarrow> (int \<times> string) option" where
  "scan_d s =
     (let s = dropWhile is_space s;
          neg = (s \<noteq> [] \<and> hd s = CHR ''-'');
          s = (if s \<noteq> [] \<and> (hd s = CHR ''-'' \<or> hd s = CHR ''+'') then tl s else s);
          ds = takeWhile is_digit s
      in if ds = [] then None
         else Some (clamp32 (if neg then - int (digits_value 0 ds) else int (digits_value 0 ds)),
                    drop (length ds) s))"

definition atoi :: "string \<Rightarrow> int" where
  "atoi s = (case scan_d s of None \<Rightarrow> 0 | Some (i, _) \<Rightarrow> i)"

text \<open>The format \<open>%d.%d.%d.%d\<close>; the value is what \<open>sscanf\<close> stores when it returns 4.\<close>

definition scan_dot :: "string \<Rightarrow> (int \<times> string) option" where
  "scan_dot s = (case s of [] \<Rightarrow> None | c # cs \<Rightarrow> if c = CHR ''.'' then scan_d cs else None)"

definition scan_quad :: "string \<Rightarrow> int list option" where
  "scan_quad s = (case scan_d s of None \<Rightarrow> None | Some (a, s) \<Rightarrow>
     (case scan_dot s of None \<Rightarrow> None | Some (b, s) \<Rightarrow>
     (case scan_dot s of None \<Rightarrow> None | Some (c, s) \<Rightarrow>
     (case scan_dot s of None \<Rightarrow> None | Some (d, s) \<Rightarrow> Some [a, b, c, d]))))"

section \<open>Text in buffers\<close>

definition byte_char :: "8 word \<Rightarrow> char" where
  "byte_char b = char_of (unat b)"

definition char_byte :: "char \<Rightarrow> 8 word" where
  "char_byte c = word_of_nat (of_char c)"

definition cstr :: "bytes \<Rightarrow> string option" where
  "cstr bs = (if 0 \<in> set bs then Some (map byte_char (takeWhile ((\<noteq>) 0) bs)) else None)"

definition strlen :: "bytes \<Rightarrow> nat option" where
  "strlen bs = map_option length (cstr bs)"

text \<open>\<open>memcpy\<close> of \<open>xs\<close> to the start of a buffer that is large enough, and \<open>memset\<close> before it.\<close>

definition memcpy :: "bytes \<Rightarrow> bytes \<Rightarrow> bytes option" where
  "memcpy buf xs = (if length xs \<le> length buf then Some (xs @ drop (length xs) buf) else None)"

definition text_bytes :: "string \<Rightarrow> bytes" where
  "text_bytes s = map char_byte s"

section \<open>Printing and scanning\<close>

lemma of_char_dec_digit: "k < 10 \<Longrightarrow> of_char (dec_digit k) = 48 + k"
  by (simp add: dec_digit_def of_char_of)

lemma is_digit_dec_digit: "k < 10 \<Longrightarrow> is_digit (dec_digit k)"
  by (simp add: is_digit_def of_char_dec_digit)

lemma digits_value_append: "digits_value a (xs @ ys) = digits_value (digits_value a xs) ys"
  by (induction a xs rule: digits_value.induct) simp_all

lemma dec_nat_digits: "list_all is_digit (dec_nat n)"
proof (induction n rule: dec_nat.induct)
  case (1 n)
  then show ?case by (subst dec_nat.simps) (simp add: is_digit_dec_digit)
qed

lemma dec_nat_value: "digits_value 0 (dec_nat n) = n"
proof (induction n rule: dec_nat.induct)
  case (1 n)
  show ?case
  proof (cases "n < 10")
    case True
    then show ?thesis by (simp add: dec_nat.simps[of n] of_char_dec_digit)
  next
    case False
    then show ?thesis using 1 by (simp add: dec_nat.simps[of n] digits_value_append of_char_dec_digit)
  qed
qed

lemma dec_nat_not_Nil: "dec_nat n \<noteq> []"
  by (subst dec_nat.simps) simp

lemma takeWhile_prefix: "list_all P xs \<Longrightarrow> (ys = [] \<or> \<not> P (hd ys)) \<Longrightarrow> takeWhile P (xs @ ys) = xs"
  by (induction xs; cases ys) auto

lemma digit_facts: "is_digit c \<Longrightarrow> \<not> is_space c \<and> c \<noteq> CHR ''-'' \<and> c \<noteq> CHR ''+''"
  by (auto simp: is_digit_def is_space_def)

lemma dec_nat_hd: "is_digit (hd (dec_nat n))"
  using dec_nat_digits[of n] dec_nat_not_Nil[of n] by (cases "dec_nat n") auto

lemma scan_d_pr_d:
  assumes i: "- 2147483648 \<le> i" "i \<le> 2147483647" and r: "rest = [] \<or> \<not> is_digit (hd rest)"
  shows "scan_d (pr_d i @ rest) = Some (i, rest)"
proof -
  obtain c cs where c: "dec_nat (nat \<bar>i\<bar>) = c # cs" using dec_nat_not_Nil by (cases "dec_nat (nat \<bar>i\<bar>)") auto
  have d: "is_digit c" using dec_nat_hd[of "nat \<bar>i\<bar>"] by (simp add: c)
  have t: "takeWhile is_digit (c # cs @ rest) = c # cs"
    using takeWhile_prefix[OF dec_nat_digits r, of "nat \<bar>i\<bar>"] by (simp add: c)
  have v: "digits_value 0 (c # cs) = nat \<bar>i\<bar>" using dec_nat_value[of "nat \<bar>i\<bar>"] by (simp add: c)
  have m: "\<not> is_space (CHR ''-'')" by (simp add: is_space_def)
  show ?thesis
  proof (cases "i < 0")
    case True
    then show ?thesis using c t v m i
      by (simp add: pr_d_def scan_d_def Let_def clamp32_def)
  next
    case False
    then show ?thesis using c t v i digit_facts[OF d]
      by (simp add: pr_d_def scan_d_def Let_def clamp32_def)
  qed
qed

lemma atoi_pr_d: "- 2147483648 \<le> i \<Longrightarrow> i \<le> 2147483647 \<Longrightarrow> atoi (pr_d i) = i"
  using scan_d_pr_d[of i "[]"] by (simp add: atoi_def)

lemma atoi_pr_d_s32: "atoi (pr_d (s32 i)) = s32 i"
  by (rule atoi_pr_d) (simp_all add: s32_def)

lemma u32_s32 [simp]: "u32 (s32 i) = u32 i"
  by (simp add: u32_def s32_def mod_simps)

lemma byte_char_byte [simp]: "char_byte (byte_char b) = b"
  proof -
  have "unat b < 256" using unsigned_less[of b] by simp
  then show ?thesis by (simp add: byte_char_def char_byte_def of_char_of)
qed

lemma cstr_text: "0 \<notin> set xs \<Longrightarrow> cstr (xs @ 0 # ys) = Some (map byte_char xs)"
proof -
  assume "0 \<notin> set xs"
  then have "takeWhile ((\<noteq>) 0) xs = xs" by (auto simp: takeWhile_eq_all_conv)
  then show ?thesis by (simp add: cstr_def takeWhile_tail)
qed

end
