(* ===== verification/LibSqlite.thy ===== *)
theory LibSqlite
  imports CText
begin

text \<open>
  The access to the data base, \<^verbatim>\<open>src/lib/lib_sqlite.c\<close>. SQLite itself is not part of the program: a
  data base is the pair of functions that answer a statement, given the statements before it; each
  call adds its statement to the history.
\<close>

section \<open>The data base\<close>

datatype db_op = Exec string | Query string

text \<open>
  \<open>de_exec\<close> says whether a statement succeeds. \<open>de_query\<close> gives the cells of a query, its number of
  rows and its number of columns; the first row of the cells are the names of the columns, and a
  cell may be \<open>NULL\<close>.
\<close>

type_synonym db_table = "string option list \<times> int \<times> int"

record db_env =
  de_exec :: "db_op list \<Rightarrow> string \<Rightarrow> bool"
  de_query :: "db_op list \<Rightarrow> string \<Rightarrow> db_table option"

text \<open>The text of a cell; outside of the array, and for \<open>NULL\<close>, there is none.\<close>

definition cell :: "db_table \<Rightarrow> int \<Rightarrow> string option" where
  "cell t i = (case arr (fst t) i of None \<Rightarrow> None | Some c \<Rightarrow> c)"

section \<open>Operations\<close>

definition db_put_table :: "db_env \<Rightarrow> string \<Rightarrow> db_op list \<Rightarrow> bool \<times> db_op list" where
  "db_put_table env sql h = (de_exec env h sql, h @ [Exec sql])"

definition db_get_table :: "db_env \<Rightarrow> string \<Rightarrow> db_op list \<Rightarrow> db_table option \<times> db_op list" where
  "db_get_table env sql h = (de_query env h sql, h @ [Query sql])"

text \<open>The loop of the transaction statements: \<open>timeout\<close> further attempts after the first.\<close>

fun db_retry :: "db_env \<Rightarrow> string \<Rightarrow> nat \<Rightarrow> db_op list \<Rightarrow> db_op list" where
  "db_retry env sql timeout h =
     (case db_put_table env sql h of (ok, h) \<Rightarrow>
        if ok then h
        else (case timeout of 0 \<Rightarrow> h | Suc n \<Rightarrow> db_retry env sql n h))"

definition BEGIN_SQL :: string where "BEGIN_SQL = ''begin immediate;''"
definition COMMIT_SQL :: string where "COMMIT_SQL = ''commit;''"
definition ROLLBACK_SQL :: string where "ROLLBACK_SQL = ''rollback;''"

definition db_lock :: "db_env \<Rightarrow> db_op list \<Rightarrow> db_op list" where
  "db_lock env h = db_retry env BEGIN_SQL 10000 h"

definition db_unlock :: "db_env \<Rightarrow> db_op list \<Rightarrow> db_op list" where
  "db_unlock env h = db_retry env COMMIT_SQL 10000 h"

definition db_rollback :: "db_env \<Rightarrow> db_op list \<Rightarrow> db_op list" where
  "db_rollback env h = db_retry env ROLLBACK_SQL 10000 h"

definition empty_table :: "db_env \<Rightarrow> string \<Rightarrow> db_op list \<Rightarrow> bool \<times> db_op list" where
  "empty_table env pTbl h =
     (case db_put_table env (''delete from '' @ pTbl @ '';'') (db_lock env h) of
        (ok, h) \<Rightarrow> (ok, db_unlock env h))"

text \<open>A statement in a transaction of its own, as the configuration is written.\<close>

definition db_put_locked :: "db_env \<Rightarrow> string \<Rightarrow> db_op list \<Rightarrow> bool \<times> db_op list" where
  "db_put_locked env sql h =
     (case db_put_table env sql (db_lock env h) of (ok, h) \<Rightarrow> (ok, db_unlock env h))"

section \<open>The transaction statements\<close>

declare db_retry.simps [simp del]

lemma db_retry_ok: "de_exec env h sql \<Longrightarrow> db_retry env sql n h = h @ [Exec sql]"
  by (subst db_retry.simps) (simp add: db_put_table_def)

lemma db_retry_shape:
  "\<exists>k \<le> n. db_retry env sql n h = h @ replicate (Suc k) (Exec sql)
     \<and> (\<forall>j < k. \<not> de_exec env (h @ replicate j (Exec sql)) sql)
     \<and> (de_exec env (h @ replicate k (Exec sql)) sql \<or> k = n)"
proof (induction n arbitrary: h)
  case 0
  show ?case by (subst db_retry.simps) (auto simp: db_put_table_def)
next
  case (Suc n)
  show ?case
  proof (cases "de_exec env h sql")
    case True
    then show ?thesis by (intro exI[of _ 0]) (simp add: db_retry_ok)
  next
    case False
    obtain k where k: "k \<le> n"
      "db_retry env sql n (h @ [Exec sql]) = (h @ [Exec sql]) @ replicate (Suc k) (Exec sql)"
      "\<forall>j < k. \<not> de_exec env ((h @ [Exec sql]) @ replicate j (Exec sql)) sql"
      "de_exec env ((h @ [Exec sql]) @ replicate k (Exec sql)) sql \<or> k = n"
      using Suc.IH[of "h @ [Exec sql]"] by blast
    have "db_retry env sql (Suc n) h = db_retry env sql n (h @ [Exec sql])"
      using False by (subst db_retry.simps) (simp add: db_put_table_def)
    moreover have "\<not> de_exec env (h @ replicate j (Exec sql)) sql" if "j < Suc k" for j
      using that False k(3) by (cases j) auto
    ultimately show ?thesis using k(1,2,4) by (intro exI[of _ "Suc k"]) auto
  qed
qed

text \<open>
  C36: a statement in a transaction of its own always ends: there are between 1 and 10001 attempts to
  begin, of which the last one succeeded unless there were 10001, then the statement once, and
  between 1 and 10001 attempts to commit. The result is that of the statement. It is executed
  also when no attempt to begin has succeeded, so without the lock.
\<close>

theorem transaction_ends:
  "\<exists>b c. b \<le> 10000 \<and> c \<le> 10000
     \<and> snd (db_put_locked env sql h)
         = h @ replicate (Suc b) (Exec BEGIN_SQL) @ [Exec sql] @ replicate (Suc c) (Exec COMMIT_SQL)
     \<and> (fst (db_put_locked env sql h) \<longleftrightarrow> de_exec env (h @ replicate (Suc b) (Exec BEGIN_SQL)) sql)
     \<and> list_all (\<lambda>j. \<not> de_exec env (h @ replicate j (Exec BEGIN_SQL)) BEGIN_SQL) [0..<b]
     \<and> (b = 10000 \<or> de_exec env (h @ replicate b (Exec BEGIN_SQL)) BEGIN_SQL)"
proof -
  obtain b where b: "b \<le> 10000" "db_lock env h = h @ replicate (Suc b) (Exec BEGIN_SQL)"
    "\<forall>j < b. \<not> de_exec env (h @ replicate j (Exec BEGIN_SQL)) BEGIN_SQL"
    "de_exec env (h @ replicate b (Exec BEGIN_SQL)) BEGIN_SQL \<or> b = 10000"
    using db_retry_shape[of 10000 env BEGIN_SQL h] unfolding db_lock_def by blast
  let ?h = "db_lock env h @ [Exec sql]"
  obtain c where c: "c \<le> 10000" "db_unlock env ?h = ?h @ replicate (Suc c) (Exec COMMIT_SQL)"
    using db_retry_shape[of 10000 env COMMIT_SQL ?h] unfolding db_unlock_def by blast
  have "db_put_locked env sql h = (de_exec env (db_lock env h) sql, ?h @ replicate (Suc c) (Exec COMMIT_SQL))"
    by (simp add: db_put_locked_def db_put_table_def c(2))
  moreover have "list_all (\<lambda>j. \<not> de_exec env (h @ replicate j (Exec BEGIN_SQL)) BEGIN_SQL) [0..<b]"
    using b(3) by (simp add: list_all_iff)
  ultimately show ?thesis using b(1,2,4) c(1) by (intro exI[of _ b] exI[of _ c]) auto
qed

end
