(* ===== verification/Fpga.thy ===== *)
theory Fpga
  imports Prelude
begin

unbundle bit_operations_syntax

text \<open>
  The registers of the FPGA, \<^verbatim>\<open>src/alloc/include/addr.h\<close> with
  \<^verbatim>\<open>src/alloc/include/asm/addr_base.h\<close>, and the access to them, \<^verbatim>\<open>src/lib/lib_fpga.c\<close>.
\<close>

section \<open>Addresses\<close>

text \<open>An address has five bits of the slot, one of the direction, five of the board and five of the offset.\<close>

definition FPGA_ADDR :: "int \<Rightarrow> int \<Rightarrow> int \<Rightarrow> int \<Rightarrow> int" where
  "FPGA_ADDR slot iotype bdtype offset =
     push_bit 11 slot OR push_bit 10 iotype OR push_bit 5 bdtype OR push_bit 0 offset"

definition FPGA_IN_ADDR :: "int \<Rightarrow> int \<Rightarrow> int \<Rightarrow> int" where
  "FPGA_IN_ADDR slot bdtype offset = FPGA_ADDR slot 1 bdtype offset"
definition FPGA_OUT_ADDR :: "int \<Rightarrow> int \<Rightarrow> int \<Rightarrow> int" where
  "FPGA_OUT_ADDR slot bdtype offset = FPGA_ADDR slot 0 bdtype offset"
definition FPGA_SYS2_COMMON :: "int \<Rightarrow> int" where
  "FPGA_SYS2_COMMON sys_offset = FPGA_ADDR 26 0 0 (sys_offset AND 0x7FF)"
definition FPGA_IN_BDTYPE_COMMON :: "int \<Rightarrow> int \<Rightarrow> int" where
  "FPGA_IN_BDTYPE_COMMON slot offset = FPGA_IN_ADDR (slot AND 0x1F) 0 (offset AND 0x1F)"
definition FPGA_OUT_BDTYPE_COMMON :: "int \<Rightarrow> int \<Rightarrow> int" where
  "FPGA_OUT_BDTYPE_COMMON slot offset = FPGA_OUT_ADDR (slot AND 0x1F) 0 (offset AND 0x1F)"
definition FPGA_IN_PRIV_ADDR :: "int \<Rightarrow> int \<Rightarrow> int \<Rightarrow> int" where
  "FPGA_IN_PRIV_ADDR slot bdtype offset = FPGA_IN_ADDR (slot AND 0x1F) (bdtype AND 0x1F) (offset AND 0x1F)"
definition FPGA_OUT_PRIV_ADDR :: "int \<Rightarrow> int \<Rightarrow> int \<Rightarrow> int" where
  "FPGA_OUT_PRIV_ADDR slot bdtype offset = FPGA_OUT_ADDR (slot AND 0x1F) (bdtype AND 0x1F) (offset AND 0x1F)"

text \<open>The registers of the system.\<close>

definition FPGA_DEVICE_TYPE :: int where "FPGA_DEVICE_TYPE = FPGA_SYS2_COMMON 0x0001"
definition FPGA_VER :: int where "FPGA_VER = FPGA_SYS2_COMMON 0x0002"
definition FPGA_LED_BD :: int where "FPGA_LED_BD = FPGA_SYS2_COMMON 0x0003"
definition FPGA_LED_GPS :: int where "FPGA_LED_GPS = FPGA_SYS2_COMMON 0x0004"
definition FPGA_LED_IRIGB :: int where "FPGA_LED_IRIGB = FPGA_SYS2_COMMON 0x0005"
definition FPGA_LED_FREQ :: int where "FPGA_LED_FREQ = FPGA_SYS2_COMMON 0x0006"
definition FPGA_LED_ALM :: int where "FPGA_LED_ALM = FPGA_SYS2_COMMON 0x0007"
definition FPGA_LED_RUN :: int where "FPGA_LED_RUN = FPGA_SYS2_COMMON 0x0008"
definition FPGA_SYS_OUT_TOD_DELAY_LOW :: int where "FPGA_SYS_OUT_TOD_DELAY_LOW = FPGA_SYS2_COMMON 0x0009"
definition FPGA_SYS_OUT_TOD_DELAY_HIGH :: int where "FPGA_SYS_OUT_TOD_DELAY_HIGH = FPGA_SYS2_COMMON 0x000A"
definition FPGA_SYS_OUT_IRIGB_DELAY_LOW :: int where "FPGA_SYS_OUT_IRIGB_DELAY_LOW = FPGA_SYS2_COMMON 0x000B"
definition FPGA_SYS_OUT_IRIGB_DELAY_HIGH :: int where "FPGA_SYS_OUT_IRIGB_DELAY_HIGH = FPGA_SYS2_COMMON 0x000C"
definition FPGA_SYS_OUT_PPX_DELAY_LOW :: int where "FPGA_SYS_OUT_PPX_DELAY_LOW = FPGA_SYS2_COMMON 0x000D"
definition FPGA_SYS_OUT_PPX_DELAY_HIGH :: int where "FPGA_SYS_OUT_PPX_DELAY_HIGH = FPGA_SYS2_COMMON 0x000E"
definition FPGA_SYS_OUT_PTP_DELAY_LOW :: int where "FPGA_SYS_OUT_PTP_DELAY_LOW = FPGA_SYS2_COMMON 0x000F"
definition FPGA_SYS_OUT_PTP_DELAY_HIGH :: int where "FPGA_SYS_OUT_PTP_DELAY_HIGH = FPGA_SYS2_COMMON 0x0010"
definition FPGA_BID_S17 :: int where "FPGA_BID_S17 = FPGA_SYS2_COMMON 0x0019"
definition FPGA_BID_S18_S19 :: int where "FPGA_BID_S18_S19 = FPGA_SYS2_COMMON 0x001A"
definition FPGA_PWR_ALM :: int where "FPGA_PWR_ALM = FPGA_SYS2_COMMON 0x001B"
definition FPGA_1ST_PWR_FREQ :: int where "FPGA_1ST_PWR_FREQ = FPGA_SYS2_COMMON 0x001C"
definition FPGA_2ND_PWR_FREQ :: int where "FPGA_2ND_PWR_FREQ = FPGA_SYS2_COMMON 0x001D"
definition FPGA_INT_PWR_VOL :: int where "FPGA_INT_PWR_VOL = FPGA_SYS2_COMMON 0x001E"
definition FPGA_PWR_FREQ_INT :: int where "FPGA_PWR_FREQ_INT = FPGA_SYS2_COMMON 0x001F"
definition FPGA_PWR_FREQ_FRA :: int where "FPGA_PWR_FREQ_FRA = FPGA_SYS2_COMMON 0x0020"
definition FPGA_SYS_IP1725_ADDR :: int where "FPGA_SYS_IP1725_ADDR = FPGA_SYS2_COMMON 0x0021"
definition FPGA_SYS_IP1725_VAL :: int where "FPGA_SYS_IP1725_VAL = FPGA_SYS2_COMMON 0x0022"
definition FPGA_SYS_IP1725_REG_OP :: int where "FPGA_SYS_IP1725_REG_OP = FPGA_SYS2_COMMON 0x0023"
definition FPGA_SYS_IP1725_READ :: int where "FPGA_SYS_IP1725_READ = FPGA_SYS2_COMMON 0x0024"
definition FPGA_KEY_TABLE :: int where "FPGA_KEY_TABLE = FPGA_SYS2_COMMON 0x0025"
definition FPGA_SYS_OUT_ALM_TAG :: int where "FPGA_SYS_OUT_ALM_TAG = FPGA_SYS2_COMMON 0x0026"
definition FPGA_SYS_INSRC_SELECT :: int where "FPGA_SYS_INSRC_SELECT = FPGA_SYS2_COMMON 0x0027"
definition FPGA_SYS_INSRC_STRATUM :: int where "FPGA_SYS_INSRC_STRATUM = FPGA_SYS2_COMMON 0x0028"
definition FPGA_SYS_PH_LOW16 :: int where "FPGA_SYS_PH_LOW16 = FPGA_SYS2_COMMON 0x0029"
definition FPGA_SYS_PH_HIGH12 :: int where "FPGA_SYS_PH_HIGH12 = FPGA_SYS2_COMMON 0x002A"
definition FPGA_SYS_LOCK_TIME :: int where "FPGA_SYS_LOCK_TIME = FPGA_SYS2_COMMON 0x002B"
definition FPGA_SYS_FRESH_TIME :: int where "FPGA_SYS_FRESH_TIME = FPGA_SYS2_COMMON 0x002C"
definition FPGA_SYS_HIGH_SECOND :: int where "FPGA_SYS_HIGH_SECOND = FPGA_SYS2_COMMON 0x002D"
definition FPGA_SYS_MED_SECOND :: int where "FPGA_SYS_MED_SECOND = FPGA_SYS2_COMMON 0x002E"
definition FPGA_SYS_LOW_SECOND :: int where "FPGA_SYS_LOW_SECOND = FPGA_SYS2_COMMON 0x002F"
definition FPGA_SYS_HIGH_MICO_SEC :: int where "FPGA_SYS_HIGH_MICO_SEC = FPGA_SYS2_COMMON 0x0030"
definition FPGA_SYS_LOW_MICO_SEC :: int where "FPGA_SYS_LOW_MICO_SEC = FPGA_SYS2_COMMON 0x0031"
definition FPGA_SYS_LPS :: int where "FPGA_SYS_LPS = FPGA_SYS2_COMMON 0x0032"
definition FPGA_SYS_LEAP_FORECAST :: int where "FPGA_SYS_LEAP_FORECAST = FPGA_SYS2_COMMON 0x0033"
definition FPGA_SYS_INSRC_VALID :: int where "FPGA_SYS_INSRC_VALID = FPGA_SYS2_COMMON 0x0034"
definition FPGA_RBXO_TYP :: int where "FPGA_RBXO_TYP = FPGA_SYS2_COMMON 0x0035"
definition FPGA_RBXO_STA :: int where "FPGA_RBXO_STA = FPGA_SYS2_COMMON 0x0036"
definition FPGA_LCD_WE :: int where "FPGA_LCD_WE = FPGA_SYS2_COMMON 0x0037"
definition FPGA_LCD_ADDR :: int where "FPGA_LCD_ADDR = FPGA_SYS2_COMMON 0x0038"
definition FPGA_LCD_DATA :: int where "FPGA_LCD_DATA = FPGA_SYS2_COMMON 0x0039"
definition FPGA_LCD_WREADY :: int where "FPGA_LCD_WREADY = FPGA_SYS2_COMMON 0x003A"
definition FPGA_SYS_OUT_IRIGB_ZONE :: int where "FPGA_SYS_OUT_IRIGB_ZONE = FPGA_SYS2_COMMON 0x003B"
definition FPGA_SYS_OUT_IRIGB_AR :: int where "FPGA_SYS_OUT_IRIGB_AR = FPGA_SYS2_COMMON 0x003C"
definition FPGA_SYS_OUT_IRIGB_V :: int where "FPGA_SYS_OUT_IRIGB_V = FPGA_SYS2_COMMON 0x003D"
definition FPGA_SYS_OUT_IRIGB_LEAP_FORECAST :: int where "FPGA_SYS_OUT_IRIGB_LEAP_FORECAST = FPGA_SYS2_COMMON 0x003E"
definition FPGA_SYS_OUT_IRIGB_DST :: int where "FPGA_SYS_OUT_IRIGB_DST = FPGA_SYS2_COMMON 0x003F"
definition FPGA_SYS_OUT_TOD_TAG :: int where "FPGA_SYS_OUT_TOD_TAG = FPGA_SYS2_COMMON 0x0040"
definition FPGA_SYS_OUT_TOD_BR :: int where "FPGA_SYS_OUT_TOD_BR = FPGA_SYS2_COMMON 0x0041"
definition FPGA_SYS_OUT_TOD_PPS_STATE :: int where "FPGA_SYS_OUT_TOD_PPS_STATE = FPGA_SYS2_COMMON 0x0042"
definition FPGA_SYS_OUT_TOD_PPS_JITTER :: int where "FPGA_SYS_OUT_TOD_PPS_JITTER = FPGA_SYS2_COMMON 0x0043"
definition FPGA_SYS_OUT_TOD_CLK_SRC_TYPE :: int where "FPGA_SYS_OUT_TOD_CLK_SRC_TYPE = FPGA_SYS2_COMMON 0x0044"
definition FPGA_SYS_OUT_TOD_CLK_SRC_STATE :: int where "FPGA_SYS_OUT_TOD_CLK_SRC_STATE = FPGA_SYS2_COMMON 0x0045"
definition FPGA_SYS_OUT_TOD_CLK_SRC_ALARM :: int where "FPGA_SYS_OUT_TOD_CLK_SRC_ALARM = FPGA_SYS2_COMMON 0x0046"
definition FPGA_SYS_OUT_PTP_WEN :: int where "FPGA_SYS_OUT_PTP_WEN = FPGA_SYS2_COMMON 0x0047"
definition FPGA_SYS_OUT_PTP_WADDR :: int where "FPGA_SYS_OUT_PTP_WADDR = FPGA_SYS2_COMMON 0x0048"
definition FPGA_SYS_OUT_PTP_WVALUE :: int where "FPGA_SYS_OUT_PTP_WVALUE = FPGA_SYS2_COMMON 0x0049"
definition FPGA_SYS_OUT_PTP_WREADY :: int where "FPGA_SYS_OUT_PTP_WREADY = FPGA_SYS2_COMMON 0x004A"
definition FPGA_SYS_WDG_ENABLE :: int where "FPGA_SYS_WDG_ENABLE = FPGA_SYS2_COMMON 0x004B"
definition FPGA_SYS_WDG_WDI :: int where "FPGA_SYS_WDG_WDI = FPGA_SYS2_COMMON 0x004C"
definition FPGA_CHECK_RUN_STATUS :: int where "FPGA_CHECK_RUN_STATUS = FPGA_SYS2_COMMON 0x004D"
definition FPGA_SYS_2MB_OUT_SA :: int where "FPGA_SYS_2MB_OUT_SA = FPGA_SYS2_COMMON 0x004E"
definition FPGA_SYS_2MB_OUT_SSM :: int where "FPGA_SYS_2MB_OUT_SSM = FPGA_SYS2_COMMON 0x004F"
definition FPGA_SYS_CUR_INSRC_SSM :: int where "FPGA_SYS_CUR_INSRC_SSM = FPGA_SYS2_COMMON 0x0050"

definition sys2_registers :: "int list" where
  "sys2_registers = [
    FPGA_DEVICE_TYPE, FPGA_VER, FPGA_LED_BD, FPGA_LED_GPS, FPGA_LED_IRIGB, FPGA_LED_FREQ,
    FPGA_LED_ALM, FPGA_LED_RUN, FPGA_SYS_OUT_TOD_DELAY_LOW, FPGA_SYS_OUT_TOD_DELAY_HIGH,
    FPGA_SYS_OUT_IRIGB_DELAY_LOW, FPGA_SYS_OUT_IRIGB_DELAY_HIGH, FPGA_SYS_OUT_PPX_DELAY_LOW,
    FPGA_SYS_OUT_PPX_DELAY_HIGH, FPGA_SYS_OUT_PTP_DELAY_LOW, FPGA_SYS_OUT_PTP_DELAY_HIGH,
    FPGA_BID_S17, FPGA_BID_S18_S19, FPGA_PWR_ALM, FPGA_1ST_PWR_FREQ, FPGA_2ND_PWR_FREQ,
    FPGA_INT_PWR_VOL, FPGA_PWR_FREQ_INT, FPGA_PWR_FREQ_FRA, FPGA_SYS_IP1725_ADDR,
    FPGA_SYS_IP1725_VAL, FPGA_SYS_IP1725_REG_OP, FPGA_SYS_IP1725_READ, FPGA_KEY_TABLE,
    FPGA_SYS_OUT_ALM_TAG, FPGA_SYS_INSRC_SELECT, FPGA_SYS_INSRC_STRATUM, FPGA_SYS_PH_LOW16,
    FPGA_SYS_PH_HIGH12, FPGA_SYS_LOCK_TIME, FPGA_SYS_FRESH_TIME, FPGA_SYS_HIGH_SECOND,
    FPGA_SYS_MED_SECOND, FPGA_SYS_LOW_SECOND, FPGA_SYS_HIGH_MICO_SEC, FPGA_SYS_LOW_MICO_SEC,
    FPGA_SYS_LPS, FPGA_SYS_LEAP_FORECAST, FPGA_SYS_INSRC_VALID, FPGA_RBXO_TYP, FPGA_RBXO_STA,
    FPGA_LCD_WE, FPGA_LCD_ADDR, FPGA_LCD_DATA, FPGA_LCD_WREADY, FPGA_SYS_OUT_IRIGB_ZONE,
    FPGA_SYS_OUT_IRIGB_AR, FPGA_SYS_OUT_IRIGB_V, FPGA_SYS_OUT_IRIGB_LEAP_FORECAST,
    FPGA_SYS_OUT_IRIGB_DST, FPGA_SYS_OUT_TOD_TAG, FPGA_SYS_OUT_TOD_BR,
    FPGA_SYS_OUT_TOD_PPS_STATE, FPGA_SYS_OUT_TOD_PPS_JITTER, FPGA_SYS_OUT_TOD_CLK_SRC_TYPE,
    FPGA_SYS_OUT_TOD_CLK_SRC_STATE, FPGA_SYS_OUT_TOD_CLK_SRC_ALARM, FPGA_SYS_OUT_PTP_WEN,
    FPGA_SYS_OUT_PTP_WADDR, FPGA_SYS_OUT_PTP_WVALUE, FPGA_SYS_OUT_PTP_WREADY,
    FPGA_SYS_WDG_ENABLE, FPGA_SYS_WDG_WDI, FPGA_CHECK_RUN_STATUS, FPGA_SYS_2MB_OUT_SA,
    FPGA_SYS_2MB_OUT_SSM, FPGA_SYS_CUR_INSRC_SSM]"

section \<open>Access\<close>

text \<open>
  The driver is the function \<open>ioctl\<close> of the command, the argument and the requests before; it
  gives the result and the argument as it leaves it. Each access adds its request.
\<close>

type_synonym request = "int \<times> int"
type_synonym driver = "int \<Rightarrow> int \<Rightarrow> request list \<Rightarrow> int \<times> int"

definition FPGA_WRITE :: int where "FPGA_WRITE = 0x00"
definition FPGA_READ :: int where "FPGA_READ = 0x01"

definition FpgaRead :: "driver \<Rightarrow> int \<Rightarrow> request list \<Rightarrow> int option \<times> request list" where
  "FpgaRead ioctl addr reqs =
     (let temp = u32 (push_bit 16 addr)
      in case ioctl FPGA_READ temp reqs of (ret, temp') \<Rightarrow>
           (if 0 < ret then Some (u16 (temp' AND 0xFFFF)) else None, reqs @ [(FPGA_READ, temp)]))"

definition FpgaWrite :: "driver \<Rightarrow> int \<Rightarrow> int \<Rightarrow> request list \<Rightarrow> bool \<times> request list" where
  "FpgaWrite ioctl addr value reqs =
     (let temp = u32 (push_bit 16 addr) OR u16 value
      in case ioctl FPGA_WRITE temp reqs of (ret, _) \<Rightarrow>
           (if 0 > ret then False else True, reqs @ [(FPGA_WRITE, temp)]))"

section \<open>What the addresses and the accesses satisfy\<close>

lemma or_low: "0 \<le> b \<Longrightarrow> b < 2 ^ n \<Longrightarrow> push_bit n a OR b = a * 2 ^ n + (b :: int)"
proof -
  assume "0 \<le> b" "b < 2 ^ n"
  then have "take_bit n b = b" by (simp add: take_bit_int_eq_self)
  then show ?thesis using concat_bit_eq[of n b a]
    by (simp add: concat_bit_def or.commute push_bit_eq_mult)
qed

lemma FPGA_ADDR_sum:
  assumes "0 \<le> io" "io < 2" "0 \<le> bd" "bd < 32" "0 \<le> off" "off < 32"
  shows "FPGA_ADDR slot io bd off = slot * 2048 + io * 1024 + bd * 32 + off"
proof -
  have 1: "push_bit 5 bd OR off = bd * 32 + off" using or_low[of off 5 bd] assms by simp
  have 2: "push_bit 10 io OR (bd * 32 + off) = io * 1024 + (bd * 32 + off)"
    using or_low[of "bd * 32 + off" 10 io] assms by simp
  have 3: "push_bit 11 slot OR (io * 1024 + (bd * 32 + off)) = slot * 2048 + (io * 1024 + (bd * 32 + off))"
    using or_low[of "io * 1024 + (bd * 32 + off)" 11 slot] assms by simp
  show ?thesis by (simp add: FPGA_ADDR_def or.assoc 1 2 3)
qed

lemma FPGA_SYS2_COMMON_sum: "0 \<le> off \<Longrightarrow> off < 2048 \<Longrightarrow> FPGA_SYS2_COMMON off = 53248 + off"
  using or_low[of off 11 26] take_bit_eq_mask[of 11 off]
  by (simp add: FPGA_SYS2_COMMON_def FPGA_ADDR_def mask_eq_exp_minus_1 take_bit_int_eq_self)

text \<open>The value that a register has after the requests: the last one written.\<close>

definition reg_step :: "int \<Rightarrow> int \<Rightarrow> request \<Rightarrow> int" where
  "reg_step addr v = (\<lambda>(cmd, temp).
     if cmd = FPGA_WRITE \<and> temp div 65536 = addr then temp mod 65536 else v)"

definition reg_after :: "int \<Rightarrow> request list \<Rightarrow> int" where
  "reg_after addr reqs = foldl (reg_step addr) 0 reqs"

lemma reg_step_write: "reg_step addr v (FPGA_WRITE, a * 65536 + u16 x) = (if a = addr then u16 x else v)"
proof -
  have d: "(a * 65536 + u16 x) div 65536 = a" by (rule div_eqI) auto
  have "(a * 65536 + u16 x) mod 65536 = u16 x" using mod_mult_self3[of a 65536 "u16 x"] by simp
  then show ?thesis by (simp add: reg_step_def d)
qed

lemma reg_after_snoc:
  "reg_after addr (reqs @ [(cmd, temp)]) =
    (if cmd = FPGA_WRITE \<and> temp div 65536 = addr then temp mod 65536 else reg_after addr reqs)"
  by (simp add: reg_after_def reg_step_def)

lemma reg_after_range: "0 \<le> reg_after addr reqs \<and> reg_after addr reqs < 65536"
proof (induction reqs rule: rev_induct)
  case (snoc r reqs)
  then show ?case by (cases r) (simp add: reg_after_snoc)
qed (simp add: reg_after_def)

text \<open>What the driver of the device promises: writes succeed and a read gives the register.\<close>

definition driver_ok :: "driver \<Rightarrow> bool" where
  "driver_ok ioctl \<longleftrightarrow> (\<forall>reqs temp. 0 \<le> fst (ioctl FPGA_WRITE temp reqs))
     \<and> (\<forall>reqs addr. 0 \<le> addr \<longrightarrow> addr < 65536 \<longrightarrow>
          ioctl FPGA_READ (addr * 65536) reqs = (1, addr * 65536 + reg_after addr reqs))"

lemma FpgaWrite_ok:
  assumes "driver_ok ioctl" "0 \<le> addr" "addr < 65536"
  shows "FpgaWrite ioctl addr value reqs = (True, reqs @ [(FPGA_WRITE, addr * 65536 + u16 value)])"
proof -
  have w: "0 \<le> fst (ioctl FPGA_WRITE t reqs)" for t using assms(1) by (simp add: driver_ok_def)
  have "u32 (push_bit 16 addr) OR u16 value = push_bit 16 addr OR u16 value"
    using assms(2,3) by (simp add: push_bit_eq_mult)
  also have "\<dots> = addr * 65536 + u16 value" using or_low[of "u16 value" 16 addr] by simp
  finally show ?thesis using w[of "addr * 65536 + u16 value"]
    by (auto simp: FpgaWrite_def Let_def split: prod.splits)
qed

lemma FpgaRead_ok:
  assumes "driver_ok ioctl" "0 \<le> addr" "addr < 65536"
  shows "FpgaRead ioctl addr reqs = (Some (reg_after addr reqs), reqs @ [(FPGA_READ, addr * 65536)])"
proof -
  have t: "u32 (push_bit 16 addr) = addr * 65536" using assms(2,3) by (simp add: push_bit_eq_mult)
  have r: "ioctl FPGA_READ (addr * 65536) reqs = (1, addr * 65536 + reg_after addr reqs)"
    using assms by (simp add: driver_ok_def)
  have "(addr * 65536 + reg_after addr reqs) AND 0xFFFF = reg_after addr reqs"
    using take_bit_eq_mask[of 16 "addr * 65536 + reg_after addr reqs"] reg_after_range[of addr reqs]
    by (simp add: mask_eq_exp_minus_1 take_bit_eq_mod)
  then show ?thesis using reg_after_range[of addr reqs] by (simp add: FpgaRead_def t r)
qed

section \<open>The properties of the access to the FPGA\<close>

text \<open>
  The fields of an address do not overlap: an address determines the slot, the direction, the
  board and the offset, it has sixteen bits, and no two of the registers of the system share one.
\<close>

theorem fpga_addresses_distinct:
  "0 \<le> slot \<Longrightarrow> slot < 32 \<Longrightarrow> 0 \<le> io \<Longrightarrow> io < 2 \<Longrightarrow> 0 \<le> bd \<Longrightarrow> bd < 32 \<Longrightarrow> 0 \<le> off \<Longrightarrow> off < 32 \<Longrightarrow>
   a = FPGA_ADDR slot io bd off \<Longrightarrow>
   0 \<le> a \<and> a < 65536 \<and> a div 2048 = slot \<and> a div 1024 mod 2 = io \<and> a div 32 mod 32 = bd \<and> a mod 32 = off
   \<and> distinct sys2_registers \<and> list_all (\<lambda>r. r div 2048 = 26) sys2_registers"
proof -
  assume s: "0 \<le> slot" "slot < 32" "0 \<le> io" "io < 2" "0 \<le> bd" "bd < 32" "0 \<le> off" "off < 32"
    and a: "a = FPGA_ADDR slot io bd off"
  have sum: "a = slot * 2048 + io * 1024 + bd * 32 + off" using a s FPGA_ADDR_sum by simp
  have 1: "a div 2048 = slot" by (rule div_eqI) (use sum s in auto)
  have 2: "a div 1024 = slot * 2 + io" by (rule div_eqI) (use sum s in auto)
  have 3: "a div 32 = (slot * 2 + io) * 32 + bd" by (rule div_eqI) (use sum s in auto)
  have 4: "a mod 32 = off" using sum s by (simp add: mod_add_left_eq[symmetric])
  have "distinct sys2_registers" "list_all (\<lambda>r. r div 2048 = 26) sys2_registers" by code_simp+
  moreover have "0 \<le> a" "a < 65536" using sum s by simp_all
  moreover have "a div 1024 mod 2 = io" using s by (simp add: 2)
  moreover have "a div 32 mod 32 = bd" unfolding 3 using s mod_mult_self3[of "slot * 2 + io" 32 bd] by simp
  ultimately show ?thesis using 1 4 by blast
qed

lemma fpga_addresses_witness: "FPGA_ADDR 3 1 11 4 div 2048 = 3 \<and> FPGA_ADDR 3 1 11 4 div 32 mod 32 = 11"
  using fpga_addresses_distinct[of 3 1 11 4 "FPGA_ADDR 3 1 11 4"] by simp

text \<open>
  With a driver that keeps its promise, what is read from a register is what was last written
  to it, cut to sixteen bits, and a write changes no other register.
\<close>

theorem fpga_write_read:
  "driver_ok ioctl \<Longrightarrow> 0 \<le> addr \<Longrightarrow> addr < 65536 \<Longrightarrow> 0 \<le> other \<Longrightarrow> other < 65536 \<Longrightarrow> other \<noteq> addr \<Longrightarrow>
   FpgaWrite ioctl addr value reqs = (ok, reqs') \<Longrightarrow>
   ok \<and> fst (FpgaRead ioctl addr reqs') = Some (value mod 65536)
   \<and> fst (FpgaRead ioctl other reqs') = fst (FpgaRead ioctl other reqs)"
  by (auto simp: FpgaWrite_ok FpgaRead_ok reg_after_snoc u16_def)

definition demo_driver :: driver where
  "demo_driver cmd temp reqs = (if cmd = FPGA_READ then (1, temp + reg_after (temp div 65536) reqs) else (0, temp))"

lemma demo_driver_ok: "driver_ok demo_driver"
  by (simp add: driver_ok_def demo_driver_def FPGA_READ_def FPGA_WRITE_def)

lemma fpga_write_read_witness:
  "fst (FpgaRead demo_driver FPGA_SYS_LPS (snd (FpgaWrite demo_driver FPGA_SYS_LPS 18 []))) = Some 18"
proof -
  have "FPGA_SYS_LPS = 53298" using FPGA_SYS2_COMMON_sum[of "0x32"] by (simp add: FPGA_SYS_LPS_def)
  then show ?thesis
    using fpga_write_read[OF demo_driver_ok, of FPGA_SYS_LPS 0 18 "[]"
      "fst (FpgaWrite demo_driver FPGA_SYS_LPS 18 [])" "snd (FpgaWrite demo_driver FPGA_SYS_LPS 18 [])"]
    by simp
qed

end
