(* ===== verification/NtpConfig.thy ===== *)
theory NtpConfig
  imports LibSqlite NtpSocket Fpga NtpStamp
begin

text \<open>
  The configuration of the NTP server: the state of the daemon (\<^verbatim>\<open>src/alloc/include/alloc.h\<close>,
  \<^verbatim>\<open>src/d-ntp/dntp_context.h\<close>), its reading from and writing to the data base
  (\<^verbatim>\<open>src/d-ntp/dntp_config.c\<close>), and the messages that change it (\<^verbatim>\<open>src/d-ntp/dntp_parser.c\<close>).

  A function returns \<open>None\<close> where the code has no defined behaviour: a read or write outside of an
  array, a text without an end, a cell of a query that is \<open>NULL\<close> or does not exist.
\<close>

section \<open>State\<close>

definition MAX_MD5KEY_LEN :: int where "MAX_MD5KEY_LEN = 20"
definition MAX_MD5KEY_NUM :: int where "MAX_MD5KEY_NUM = 10"
definition V_ETH_MAX :: int where "V_ETH_MAX = 21"
definition MIN_BCAST_ITVL :: int where "MIN_BCAST_ITVL = 1"
definition MAX_BCAST_ITVL :: int where "MAX_BCAST_ITVL = 1024"

definition TBL_SYS :: string where "TBL_SYS = ''TBL_SYS''"
definition TBL_MD5_KEY :: string where "TBL_MD5_KEY = ''TBL_MD5_KEY''"
definition TBL_VETH :: string where "TBL_VETH = ''TBL_VETH''"

record ntpbc =
  bcEnable :: int
  bcInterval :: int

record ntpmk =
  md5Id :: int
  md5Len :: int
  md5Key :: bytes

record veth =
  v_port :: int
  v_ip :: bytes
  v_mask :: bytes
  v_gateway :: bytes
  v_mac :: bytes

record ntpsta =
  bCast :: ntpbc
  VnEnable :: int
  md5Enable :: int
  vp :: "veth list"
  totalKey :: int
  mKey :: "ntpmk list"

text \<open>A port of the raw sockets: its name and mask beside what the frames need.\<close>

record netport =
  np_sock :: int
  np_name :: bytes
  np_mask_a :: bytes
  np_mask :: int
  np_info :: port_info

text \<open>
  The context of the daemon. The histories of the two data bases and of the FPGA, the number of
  the system calls, what was written to the shared memory and the frames sent are part of the state; \<open>li\<close>, the times
  that \<open>ntpchecktimefpga\<close> keeps and the last fallback identifier are static variables of the code.
\<close>

record ntpCtx =
  loop_flag :: bool
  notify_flag :: bool
  pDb :: "db_op list"
  pVethDb :: "db_op list"
  n_calls :: nat
  shm_sta :: "ntpsta option"
  bc_timer :: "int option"
  ntpSta :: ntpsta
  leapSecond :: int
  leapMode :: int
  ports :: "netport list"
  reqs :: "request list"
  leap_li :: int
  pre_tv_sec :: int
  pre_tv_usec :: int
  ip_fallback_id :: "32 word"
  gDbgLevel :: int
  gSyslogEn :: int
  sent :: "bytes list"

text \<open>
  What the daemon runs on: the data bases, the FPGA, whether the n-th system call succeeds, the
  addresses of the network card of the web server, the byte order of the machine, and what memory
  holds before the code writes it: the buffers on the stack, a time on the stack, and a block of the heap.
\<close>

record ntpEnv =
  ne_db :: db_env
  ne_veth :: db_env
  ne_fpga :: driver
  ne_sys :: "nat \<Rightarrow> bool"
  ne_web_ip :: "string option"
  ne_web_bcast :: "string option"
  ne_gateway :: "string option"
  ne_le :: bool
  ne_buf64 :: bytes
  ne_buf1536 :: bytes
  ne_time :: timeval
  ne_heap :: bytes

definition sys_call :: "ntpEnv \<Rightarrow> ntpCtx \<Rightarrow> bool \<times> ntpCtx" where
  "sys_call env ctx = (ne_sys env (n_calls ctx), ctx\<lparr>n_calls := n_calls ctx + 1\<rparr>)"

section \<open>The MD5 keys in the data base\<close>

text \<open>
  \<open>md5_key_read\<close>: the rows are copied into the array of keys in their order, whatever their number;
  behind the array, and for a key that does not fit its buffer, there is no behaviour.
\<close>

fun md5_rows :: "db_table \<Rightarrow> int \<Rightarrow> nat \<Rightarrow> ntpmk list \<Rightarrow> ntpmk list option" where
  "md5_rows t i 0 keys = Some keys"
| "md5_rows t i (Suc n) keys =
     (case (cell t (snd (snd t) * i), cell t (snd (snd t) * i + 1), arr keys (i - 1)) of
        (Some c, Some k, Some old) \<Rightarrow>
          (case memcpy (md5Key old) (text_bytes k) of
             None \<Rightarrow> None
           | Some b \<Rightarrow>
               md5_rows t (i + 1) n (keys[nat (i - 1) :=
                 \<lparr>md5Id = u32 (atoi c), md5Len = u8 (int (length k)), md5Key = b\<rparr>]))
      | _ \<Rightarrow> None)"

definition md5_key_read :: "ntpEnv \<Rightarrow> string \<Rightarrow> ntpCtx \<Rightarrow> (bool \<times> ntpCtx) option" where
  "md5_key_read env tbl ctx =
     (case db_get_table (ne_db env) (''select md5_id, md5_key from '' @ tbl @ '';'') (db_lock (ne_db env) (pDb ctx)) of
        (None, h) \<Rightarrow> Some (False, ctx\<lparr>pDb := db_unlock (ne_db env) h\<rparr>)
      | (Some t, h) \<Rightarrow>
          (case md5_rows t 1 (nat (fst (snd t))) (mKey (ntpSta ctx)) of
             None \<Rightarrow> None
           | Some keys \<Rightarrow>
               Some (True, ctx\<lparr>ntpSta := (ntpSta ctx)\<lparr>totalKey := u32 (fst (snd t)), mKey := keys\<rparr>,
                               pDb := db_unlock (ne_db env) h\<rparr>)))"

definition put_db :: "ntpEnv \<Rightarrow> string \<Rightarrow> ntpCtx \<Rightarrow> bool \<times> ntpCtx" where
  "put_db env sql ctx =
     (case db_put_locked (ne_db env) sql (pDb ctx) of (ok, h) \<Rightarrow> (ok, ctx\<lparr>pDb := h\<rparr>))"

text \<open>The writing functions; a key is printed as text and ends at its first zero byte.\<close>

definition md5_key_add :: "ntpEnv \<Rightarrow> ntpmk \<Rightarrow> string \<Rightarrow> ntpCtx \<Rightarrow> (bool \<times> ntpCtx) option" where
  "md5_key_add env mk tbl ctx =
     (case cstr (md5Key mk) of None \<Rightarrow> None
      | Some k \<Rightarrow> Some (put_db env (''insert into '' @ tbl @ ''(md5_id, md5_key) values('' @ pr_d (s32 (md5Id mk))
          @ '', '' @ [CHR 0x27] @ k @ [CHR 0x27] @ '');'') ctx))"

definition md5_key_del :: "ntpEnv \<Rightarrow> ntpmk \<Rightarrow> string \<Rightarrow> ntpCtx \<Rightarrow> bool \<times> ntpCtx" where
  "md5_key_del env mk tbl ctx =
     put_db env (''delete from '' @ tbl @ '' where md5_id='' @ pr_d (s32 (md5Id mk)) @ '';'') ctx"

definition md5_key_mod :: "ntpEnv \<Rightarrow> ntpmk \<Rightarrow> string \<Rightarrow> ntpCtx \<Rightarrow> (bool \<times> ntpCtx) option" where
  "md5_key_mod env mk tbl ctx =
     (case cstr (md5Key mk) of None \<Rightarrow> None
      | Some k \<Rightarrow> Some (put_db env (''update '' @ tbl @ '' set md5_key='' @ [CHR 0x27] @ k @ [CHR 0x27]
          @ '' where md5_id='' @ pr_d (s32 (md5Id mk)) @ '';'') ctx))"

section \<open>The other settings in the data base\<close>

text \<open>A test of the first character of a cell reads the zero byte of an empty text.\<close>

definition is_one :: "string \<Rightarrow> bool" where
  "is_one s \<longleftrightarrow> s \<noteq> [] \<and> hd s = CHR ''1''"

definition or_bit :: "string \<Rightarrow> nat \<Rightarrow> int \<Rightarrow> int" where
  "or_bit s n v = (if is_one s then u8 (or v (push_bit n 1)) else v)"

definition get_db :: "ntpEnv \<Rightarrow> string \<Rightarrow> ntpCtx \<Rightarrow> db_table option \<times> ntpCtx" where
  "get_db env sql ctx =
     (case db_get_table (ne_db env) sql (db_lock (ne_db env) (pDb ctx)) of
        (r, h) \<Rightarrow> (r, ctx\<lparr>pDb := db_unlock (ne_db env) h\<rparr>))"

definition version_enable_read :: "ntpEnv \<Rightarrow> string \<Rightarrow> ntpCtx \<Rightarrow> (bool \<times> ntpCtx) option" where
  "version_enable_read env tbl ctx =
     (case get_db env (''select v2_enable, v3_enable, v4_enable from '' @ tbl @ '';'') ctx of
        (None, ctx) \<Rightarrow> Some (False, ctx)
      | (Some t, ctx) \<Rightarrow>
          (case (cell t 3, cell t 4, cell t 5) of
             (Some a, Some b, Some c) \<Rightarrow>
               Some (True, ctx\<lparr>ntpSta := (ntpSta ctx)\<lparr>VnEnable :=
                 or_bit c 2 (or_bit b 1 (or_bit a 0 (VnEnable (ntpSta ctx))))\<rparr>\<rparr>)
           | _ \<Rightarrow> None))"

definition flag_text :: "bool \<Rightarrow> string" where
  "flag_text b = [CHR 0x27, (if b then CHR ''1'' else CHR ''0''), CHR 0x27]"

definition version_enable_write :: "ntpEnv \<Rightarrow> int \<Rightarrow> string \<Rightarrow> ntpCtx \<Rightarrow> bool \<times> ntpCtx" where
  "version_enable_write env ve tbl ctx =
     put_db env (''update '' @ tbl @ '' set v2_enable='' @ flag_text (bit ve 0) @ '', v3_enable=''
       @ flag_text (bit ve 1) @ '', v4_enable='' @ flag_text (bit ve 2) @ '';'') ctx"

definition broadcast_enable_interval_read :: "ntpEnv \<Rightarrow> string \<Rightarrow> ntpCtx \<Rightarrow> (bool \<times> ntpCtx) option" where
  "broadcast_enable_interval_read env tbl ctx =
     (case get_db env (''select broadcast_enable, broadcast_interval from '' @ tbl @ '';'') ctx of
        (None, ctx) \<Rightarrow> Some (False, ctx)
      | (Some t, ctx) \<Rightarrow>
          (case (cell t 2, cell t 3) of
             (Some a, Some b) \<Rightarrow>
               Some (True, ctx\<lparr>ntpSta := (ntpSta ctx)\<lparr>bCast := \<lparr>bcEnable = u8 (atoi a), bcInterval = u16 (atoi b)\<rparr>\<rparr>\<rparr>)
           | _ \<Rightarrow> None))"

definition broadcast_enable_interval_write :: "ntpEnv \<Rightarrow> ntpbc \<Rightarrow> string \<Rightarrow> ntpCtx \<Rightarrow> bool \<times> ntpCtx" where
  "broadcast_enable_interval_write env bc tbl ctx =
     put_db env (''update '' @ tbl @ '' set broadcast_enable='' @ [CHR 0x27, char_of (nat (u8 (bcEnable bc + 48))), CHR 0x27]
       @ '', broadcast_interval='' @ pr_d (bcInterval bc) @ '';'') ctx"

definition md5_enable_read :: "ntpEnv \<Rightarrow> string \<Rightarrow> ntpCtx \<Rightarrow> (bool \<times> ntpCtx) option" where
  "md5_enable_read env tbl ctx =
     (case get_db env (''select md5_enable from '' @ tbl @ '';'') ctx of
        (None, ctx) \<Rightarrow> Some (False, ctx)
      | (Some t, ctx) \<Rightarrow>
          (case cell t 1 of None \<Rightarrow> None
           | Some a \<Rightarrow> Some (True, ctx\<lparr>ntpSta := (ntpSta ctx)\<lparr>md5Enable := u8 (atoi a)\<rparr>\<rparr>)))"

definition md5_enable_write :: "ntpEnv \<Rightarrow> int \<Rightarrow> string \<Rightarrow> ntpCtx \<Rightarrow> bool \<times> ntpCtx" where
  "md5_enable_write env me tbl ctx = put_db env (''update '' @ tbl @ '' set md5_enable='' @ pr_d me @ '';'') ctx"

definition ReadLeapsecond :: "ntpEnv \<Rightarrow> string \<Rightarrow> ntpCtx \<Rightarrow> (bool \<times> ntpCtx) option" where
  "ReadLeapsecond env tbl ctx =
     (case get_db env (''select leapsecond, leapmode from '' @ tbl @ '';'') ctx of
        (None, ctx) \<Rightarrow> Some (False, ctx)
      | (Some t, ctx) \<Rightarrow>
          (case (cell t 2, cell t 3) of
             (Some a, Some b) \<Rightarrow>
               Some (True, ctx\<lparr>leapSecond := (u8 (atoi a) + 128) mod 256 - 128, leapMode := u8 (atoi b)\<rparr>)
           | _ \<Rightarrow> None))"

end
