(* ===== verification/NtpParser.thy ===== *)
theory NtpParser
  imports NtpConfig
begin

text \<open>
  The messages that change the configuration of the NTP server, \<^verbatim>\<open>src/d-ntp/dntp_parser.c\<close>, and the
  virtual network interfaces of \<^verbatim>\<open>src/d-ntp/dntp_config.c\<close>.
\<close>

section \<open>The virtual interfaces\<close>

definition ip_value :: "bytes \<Rightarrow> int" where
  "ip_value a = u32 (push_bit 24 (uint (a ! 0)) + push_bit 16 (uint (a ! 1)) + push_bit 8 (uint (a ! 2)) + uint (a ! 3))"

definition quad_bytes :: "int list \<Rightarrow> bytes" where
  "quad_bytes im = map word_of_int im"

text \<open>\<open>strncpy\<close> into a name of 16 bytes fills the rest with zeros.\<close>

definition eth_name :: "int \<Rightarrow> bytes" where
  "eth_name n = (let t = text_bytes (''eth0.'' @ pr_d n) in t @ replicate (16 - length t) 0)"

text \<open>The conversion \<open>%hhx\<close>, and the format that reads six of them with one character between.\<close>

definition hex_value :: "char \<Rightarrow> nat option" where
  "hex_value c = (let k = (of_char c :: nat) in
     if 48 \<le> k \<and> k \<le> 57 then Some (k - 48) else if 97 \<le> k \<and> k \<le> 102 then Some (k - 87)
     else if 65 \<le> k \<and> k \<le> 70 then Some (k - 55) else None)"

fun hex_number :: "nat \<Rightarrow> string \<Rightarrow> nat" where
  "hex_number acc [] = acc"
| "hex_number acc (c # cs) = (case hex_value c of None \<Rightarrow> acc | Some d \<Rightarrow> hex_number (acc * 16 + d) cs)"

definition is_hex :: "char \<Rightarrow> bool" where "is_hex c \<longleftrightarrow> hex_value c \<noteq> None"

definition scan_hhx :: "string \<Rightarrow> (8 word \<times> string) option" where
  "scan_hhx s =
     (let s = dropWhile is_space s;
          neg = (s \<noteq> [] \<and> hd s = CHR ''-'');
          s = (if s \<noteq> [] \<and> (hd s = CHR ''-'' \<or> hd s = CHR ''+'') then tl s else s);
          s = (if 2 < length s \<and> hd s = CHR ''0'' \<and> (s ! 1 = CHR ''x'' \<or> s ! 1 = CHR ''X'') \<and> is_hex (s ! 2)
               then drop 2 s else s);
          ds = takeWhile is_hex s
      in if ds = [] then None
         else Some (word_of_int ((if neg then - 1 else 1) * int (hex_number 0 ds)), drop (length ds) s))"

fun scan_mac :: "nat \<Rightarrow> string \<Rightarrow> bytes option" where
  "scan_mac 0 s = Some []"
| "scan_mac (Suc n) s =
     (case scan_hhx s of None \<Rightarrow> None
      | Some (b, s) \<Rightarrow>
          if n = 0 then Some [b]
          else if s = [] then None
          else map_option ((#) b) (scan_mac n (tl s)))"

text \<open>One row of \<open>read_virtual_eth\<close>: \<open>Some None\<close> is the return of 0.\<close>

definition veth_row :: "db_table \<Rightarrow> int \<Rightarrow> veth \<Rightarrow> veth option" where
  "veth_row t i v =
     (case (cell t (snd (snd t) * i), cell t (snd (snd t) * i + 1), cell t (snd (snd t) * i + 2), cell t (snd (snd t) * i + 3)) of
        (Some ip, Some mac, Some msk, Some gw) \<Rightarrow>
          (case (memcpy (v_ip v) (text_bytes ip), memcpy (v_mac v) (text_bytes mac),
                 memcpy (v_mask v) (text_bytes msk), memcpy (v_gateway v) (text_bytes gw)) of
             (Some ip, Some mac, Some msk, Some gw) \<Rightarrow>
               Some \<lparr>v_port = u8 i, v_ip = ip, v_mask = msk, v_gateway = gw, v_mac = mac\<rparr>
           | _ \<Rightarrow> None)
      | _ \<Rightarrow> None)"

definition port_of_veth :: "int \<Rightarrow> veth \<Rightarrow> netport \<Rightarrow> netport option option" where
  "port_of_veth j v p =
     (let p = p\<lparr>np_name := eth_name (j + 5)\<rparr> in
      case cstr (v_ip v) of None \<Rightarrow> None
      | Some ip \<Rightarrow> (case scan_quad ip of None \<Rightarrow> Some None
      | Some im \<Rightarrow>
          let a = quad_bytes im; p = p\<lparr>np_info := (np_info p)\<lparr>pi_ip_a := a, pi_ip := ip_value a\<rparr>\<rparr>
          in case cstr (v_mask v) of None \<Rightarrow> None
          | Some msk \<Rightarrow> (case scan_quad msk of None \<Rightarrow> Some None
          | Some im \<Rightarrow>
              let a = quad_bytes im; p = p\<lparr>np_mask_a := a, np_mask := ip_value a\<rparr>
              in case cstr (v_mac v) of None \<Rightarrow> None
              | Some mac \<Rightarrow> (case scan_mac 6 mac of None \<Rightarrow> Some None
              | Some m \<Rightarrow> Some (Some (p\<lparr>np_info := (np_info p)\<lparr>pi_mac := m\<rparr>\<rparr>))))))"

section \<open>The network card settings of a message\<close>

definition put_veth :: "ntpEnv \<Rightarrow> string \<Rightarrow> ntpCtx \<Rightarrow> bool \<times> ntpCtx" where
  "put_veth env sql ctx =
     (case db_put_locked (ne_veth env) sql (pVethDb ctx) of (ok, h) \<Rightarrow> (ok, ctx\<lparr>pVethDb := h\<rparr>))"

text \<open>Each part that is set adds one statement; the white space is that of the continued line.\<close>

definition veth_part :: "string \<Rightarrow> string \<Rightarrow> int \<Rightarrow> bytes \<Rightarrow> string option" where
  "veth_part tbl col n b =
     (case b of [] \<Rightarrow> None
      | c # _ \<Rightarrow> if c = 0 then Some []
                 else map_option (\<lambda>s. '' update '' @ tbl @ CHR '' '' # replicate 3 (CHR 0x09) @ '' set '' @ col @ ''=''
                   @ [CHR 0x27] @ s @ [CHR 0x27] @ '' where v_port='' @ pr_d n @ ''; '') (cstr b))"

definition write_virtual_eth :: "ntpEnv \<Rightarrow> veth \<Rightarrow> string \<Rightarrow> ntpCtx \<Rightarrow> (bool \<times> ntpCtx) option" where
  "write_virtual_eth env v tbl ctx =
     (case (veth_part tbl ''v_ip'' (v_port v) (v_ip v), veth_part tbl ''v_mask'' (v_port v) (v_mask v),
            veth_part tbl ''v_gateway'' (v_port v) (v_gateway v), veth_part tbl ''v_mac'' (v_port v) (v_mac v)) of
        (Some a, Some b, Some c, Some d) \<Rightarrow>
          (let sql = a @ b @ c @ d
           in if sql = [] then Some (False, ctx) else Some (put_veth env sql ctx))
      | _ \<Rightarrow> None)"

definition read_eth :: "ntpEnv \<Rightarrow> string \<Rightarrow> int \<Rightarrow> ntpCtx \<Rightarrow> (bool \<times> ntpCtx) option" where
  "read_eth env tbl n ctx =
     (case db_get_table (ne_veth env) (''select v_mac from '' @ tbl @ '' where v_port='' @ pr_d n @ '';'')
             (db_lock (ne_veth env) (pVethDb ctx)) of
        (None, h) \<Rightarrow> Some (False, ctx\<lparr>pVethDb := db_unlock (ne_veth env) h\<rparr>)
      | (Some t, h) \<Rightarrow>
          (case (cell t 1, arr (vp (ntpSta ctx)) (n - 1)) of
             (Some mac, Some v) \<Rightarrow>
               (case memcpy (v_mac v) (text_bytes mac) of None \<Rightarrow> None
                | Some m \<Rightarrow> Some (True, ctx\<lparr>ntpSta := (ntpSta ctx)\<lparr>vp := (vp (ntpSta ctx))[nat (n - 1) := v\<lparr>v_mac := m\<rparr>]\<rparr>,
                                         pVethDb := db_unlock (ne_veth env) h\<rparr>))
           | _ \<Rightarrow> None))"

text \<open>
  \<open>read_virtual_eth\<close>: the last row is the port of the network manager and has no raw socket. A row
  that cannot be scanned ends the function with 0, and the transaction stays open.
\<close>

fun veth_rows :: "db_table \<Rightarrow> int \<Rightarrow> nat \<Rightarrow> veth list \<Rightarrow> netport list \<Rightarrow> (bool \<times> veth list \<times> netport list) option" where
  "veth_rows t i 0 vs ps = Some (True, vs, ps)"
| "veth_rows t i (Suc n) vs ps =
     (case arr vs (i - 1) of None \<Rightarrow> None
      | Some v \<Rightarrow> (case veth_row t i v of None \<Rightarrow> None
      | Some v \<Rightarrow>
          let vs = vs[nat (i - 1) := v]
          in if n = 0 then veth_rows t (i + 1) n vs ps
             else (case arr ps (i - 1) of None \<Rightarrow> None
                   | Some p \<Rightarrow> (case port_of_veth (i - 1) v p of None \<Rightarrow> None
                   | Some None \<Rightarrow> Some (False, vs, ps)
                   | Some (Some p) \<Rightarrow> veth_rows t (i + 1) n vs (ps[nat (i - 1) := p])))))"

definition read_virtual_eth :: "ntpEnv \<Rightarrow> string \<Rightarrow> ntpCtx \<Rightarrow> (bool \<times> ntpCtx) option" where
  "read_virtual_eth env tbl ctx =
     (case db_get_table (ne_veth env) (''select v_ip, v_mac, v_mask, v_gateway from '' @ tbl @ '';'')
             (db_lock (ne_veth env) (pVethDb ctx)) of
        (None, h) \<Rightarrow> Some (False, ctx\<lparr>pVethDb := db_unlock (ne_veth env) h\<rparr>)
      | (Some t, h) \<Rightarrow>
          (case veth_rows t 1 (nat (fst (snd t))) (vp (ntpSta ctx)) (ports ctx) of
             None \<Rightarrow> None
           | Some (ok, vs, ps) \<Rightarrow>
               Some (ok, ctx\<lparr>ntpSta := (ntpSta ctx)\<lparr>vp := vs\<rparr>, ports := ps,
                             pVethDb := (if ok then db_unlock (ne_veth env) h else h)\<rparr>)))"

section \<open>The settings of an interface\<close>

text \<open>
  \<open>sysVport\<close> in its steps: the address must not be one of the web server's; then the parts that are
  set are copied, and the scanned address and mask are those of the raw port.
\<close>

definition ip_conflict :: "ntpEnv \<Rightarrow> string \<Rightarrow> bool" where
  "ip_conflict env ip \<longleftrightarrow>
     (case ne_web_ip env of None \<Rightarrow> True | Some a \<Rightarrow> a = ip) \<or>
     (case ne_web_bcast env of None \<Rightarrow> True | Some a \<Rightarrow> a = ip) \<or>
     (case ne_gateway env of None \<Rightarrow> True | Some a \<Rightarrow> a = ip)"

definition is_set :: "bytes \<Rightarrow> bool option" where
  "is_set b = (case b of [] \<Rightarrow> None | c # _ \<Rightarrow> Some (c \<noteq> 0))"

text \<open>\<open>memset\<close> and \<open>memcpy\<close> of a text, without its last zero byte.\<close>

definition set_text :: "bytes \<Rightarrow> string \<Rightarrow> bytes option" where
  "set_text buf s = memcpy (replicate (length buf) 0) (text_bytes s)"

definition put_veth_state :: "int \<Rightarrow> veth \<Rightarrow> ntpCtx \<Rightarrow> ntpCtx" where
  "put_veth_state n v ctx = ctx\<lparr>ntpSta := (ntpSta ctx)\<lparr>vp := (vp (ntpSta ctx))[nat (n - 1) := v]\<rparr>\<rparr>"

definition put_port :: "int \<Rightarrow> netport \<Rightarrow> ntpCtx \<Rightarrow> ntpCtx" where
  "put_port n p ctx = ctx\<lparr>ports := (ports ctx)[nat (n - 1) := p]\<rparr>"

definition set_ip :: "veth \<Rightarrow> ntpCtx \<Rightarrow> (bool \<times> ntpCtx) option" where
  "set_ip tmp ctx =
     (case (is_set (v_ip tmp), arr (vp (ntpSta ctx)) (v_port tmp - 1)) of
        (Some False, Some v) \<Rightarrow> Some (True, ctx)
      | (Some True, Some v) \<Rightarrow>
          (case cstr (v_ip tmp) of None \<Rightarrow> None
           | Some s \<Rightarrow> (case set_text (v_ip v) s of None \<Rightarrow> None
           | Some b \<Rightarrow>
               (let ctx = put_veth_state (v_port tmp) (v\<lparr>v_ip := b\<rparr>) ctx
                in case cstr b of None \<Rightarrow> None
                | Some s \<Rightarrow> (case scan_quad s of None \<Rightarrow> Some (False, ctx)
                | Some im \<Rightarrow> (case arr (ports ctx) (v_port tmp - 1) of None \<Rightarrow> None
                | Some p \<Rightarrow>
                    let a = quad_bytes im
                    in Some (True, put_port (v_port tmp) (p\<lparr>np_info := (np_info p)\<lparr>pi_ip_a := a, pi_ip := ip_value a\<rparr>\<rparr>) ctx))))))
      | _ \<Rightarrow> None)"

definition set_mask :: "veth \<Rightarrow> ntpCtx \<Rightarrow> (bool \<times> ntpCtx) option" where
  "set_mask tmp ctx =
     (case (is_set (v_mask tmp), arr (vp (ntpSta ctx)) (v_port tmp - 1)) of
        (Some False, Some v) \<Rightarrow> Some (True, ctx)
      | (Some True, Some v) \<Rightarrow>
          (case cstr (v_mask tmp) of None \<Rightarrow> None
           | Some s \<Rightarrow> (case set_text (v_mask v) s of None \<Rightarrow> None
           | Some b \<Rightarrow>
               (let ctx = put_veth_state (v_port tmp) (v\<lparr>v_mask := b\<rparr>) ctx
                in case cstr b of None \<Rightarrow> None
                | Some s \<Rightarrow> (case scan_quad s of None \<Rightarrow> Some (False, ctx)
                | Some im \<Rightarrow> (case arr (ports ctx) (v_port tmp - 1) of None \<Rightarrow> None
                | Some p \<Rightarrow>
                    let a = quad_bytes im
                    in Some (True, put_port (v_port tmp) (p\<lparr>np_mask_a := a, np_mask := ip_value a\<rparr>) ctx))))))
      | _ \<Rightarrow> None)"

definition set_gateway :: "veth \<Rightarrow> ntpCtx \<Rightarrow> (bool \<times> ntpCtx) option" where
  "set_gateway tmp ctx =
     (case (is_set (v_gateway tmp), arr (vp (ntpSta ctx)) (v_port tmp - 1)) of
        (Some False, Some v) \<Rightarrow> Some (True, ctx)
      | (Some True, Some v) \<Rightarrow>
          (case cstr (v_gateway tmp) of None \<Rightarrow> None
           | Some s \<Rightarrow> (case set_text (v_gateway v) s of None \<Rightarrow> None
           | Some b \<Rightarrow> Some (True, put_veth_state (v_port tmp) (v\<lparr>v_gateway := b\<rparr>) ctx)))
      | _ \<Rightarrow> None)"

text \<open>Steps that end with 0 end the function.\<close>

definition andthen :: "(bool \<times> 'c) option \<Rightarrow> ('c \<Rightarrow> (bool \<times> 'c) option) \<Rightarrow> (bool \<times> 'c) option" where
  "andthen r f = (case r of Some (True, c) \<Rightarrow> f c | _ \<Rightarrow> r)"

definition check_ip :: "ntpEnv \<Rightarrow> veth \<Rightarrow> ntpCtx \<Rightarrow> (bool \<times> ntpCtx) option" where
  "check_ip env tmp ctx =
     (case is_set (v_ip tmp) of None \<Rightarrow> None
      | Some False \<Rightarrow> Some (True, ctx)
      | Some True \<Rightarrow> (case cstr (v_ip tmp) of None \<Rightarrow> None | Some s \<Rightarrow> Some (\<not> ip_conflict env s, ctx)))"

definition set_port_number :: "veth \<Rightarrow> ntpCtx \<Rightarrow> (bool \<times> ntpCtx) option" where
  "set_port_number tmp ctx =
     (case arr (vp (ntpSta ctx)) (v_port tmp - 1) of None \<Rightarrow> None
      | Some v \<Rightarrow> Some (True, put_veth_state (v_port tmp) (v\<lparr>v_port := v_port tmp\<rparr>) ctx))"

definition set_port_name :: "veth \<Rightarrow> ntpCtx \<Rightarrow> (bool \<times> ntpCtx) option" where
  "set_port_name tmp ctx =
     (case arr (ports ctx) (v_port tmp - 1) of None \<Rightarrow> None
      | Some p \<Rightarrow> Some (True, put_port (v_port tmp) (p\<lparr>np_name := eth_name (v_port tmp + 4)\<rparr>) ctx))"

definition sysVport :: "ntpEnv \<Rightarrow> veth \<Rightarrow> ntpCtx \<Rightarrow> (bool \<times> ntpCtx) option" where
  "sysVport env tmp ctx =
     andthen (check_ip env tmp ctx) (\<lambda>ctx.
     andthen (set_port_number tmp ctx) (\<lambda>ctx.
     andthen (set_ip tmp ctx) (\<lambda>ctx.
     andthen (read_eth env TBL_VETH (v_port tmp) ctx) (\<lambda>ctx.
     andthen (set_mask tmp ctx) (\<lambda>ctx.
     andthen (set_gateway tmp ctx) (\<lambda>ctx.
     andthen (set_port_name tmp ctx) (\<lambda>ctx.
     write_virtual_eth env tmp TBL_VETH ctx)))))))"

section \<open>The keys\<close>

definition key_valid :: "ntpmk \<Rightarrow> bool option" where
  "key_valid mk =
     (if md5Len mk \<le> 0 \<or> md5Len mk > MAX_MD5KEY_LEN then Some False
      else (case strlen (md5Key mk) of None \<Rightarrow> None | Some n \<Rightarrow> Some (md5Len mk = int n)))"

text \<open>The loops over the keys find the first with an identifier.\<close>

fun find_key :: "int \<Rightarrow> ntpmk list \<Rightarrow> nat option" where
  "find_key i [] = None"
| "find_key i (k # ks) = (if md5Id k = i then Some 0 else map_option Suc (find_key i ks))"

definition put_keys :: "ntpmk list \<Rightarrow> ntpCtx \<Rightarrow> ntpCtx" where
  "put_keys ks ctx = ctx\<lparr>ntpSta := (ntpSta ctx)\<lparr>mKey := ks\<rparr>\<rparr>"

text \<open>What the operations do to the array: adding needs a new identifier, and stores nothing when no
  entry is free; the others need an entry.\<close>

definition keys_add :: "ntpmk \<Rightarrow> ntpmk list \<Rightarrow> ntpmk list option" where
  "keys_add mk ks =
     (if find_key (md5Id mk) ks \<noteq> None then None
      else Some (case find_key 0 ks of None \<Rightarrow> ks | Some i \<Rightarrow> ks[i := mk]))"

definition no_key :: ntpmk where
  "no_key = \<lparr>md5Id = 0, md5Len = 0, md5Key = replicate 21 0\<rparr>"

definition keys_del :: "int \<Rightarrow> ntpmk list \<Rightarrow> ntpmk list option" where
  "keys_del i ks = map_option (\<lambda>j. ks[j := no_key]) (find_key i ks)"

definition keys_mod :: "ntpmk \<Rightarrow> ntpmk list \<Rightarrow> ntpmk list option" where
  "keys_mod mk ks = map_option (\<lambda>j. ks[j := (ks ! j)\<lparr>md5Len := md5Len mk,
      md5Key := take (nat (md5Len mk)) (md5Key mk) @ replicate (21 - nat (md5Len mk)) 0\<rparr>]) (find_key (md5Id mk) ks)"

definition add_md5_key :: "ntpEnv \<Rightarrow> ntpmk \<Rightarrow> ntpCtx \<Rightarrow> (bool \<times> ntpCtx) option" where
  "add_md5_key env mk ctx =
     (case key_valid mk of None \<Rightarrow> None
      | Some False \<Rightarrow> Some (False, ctx)
      | Some True \<Rightarrow>
          if totalKey (ntpSta ctx) \<ge> MAX_MD5KEY_NUM then Some (False, ctx)
          else (case keys_add mk (mKey (ntpSta ctx)) of None \<Rightarrow> Some (False, ctx)
                | Some ks \<Rightarrow> md5_key_add env mk TBL_MD5_KEY (put_keys ks ctx)))"

definition del_md5_key :: "ntpEnv \<Rightarrow> ntpmk \<Rightarrow> ntpCtx \<Rightarrow> (bool \<times> ntpCtx) option" where
  "del_md5_key env mk ctx =
     (case keys_del (md5Id mk) (mKey (ntpSta ctx)) of None \<Rightarrow> Some (False, ctx)
      | Some ks \<Rightarrow> Some (md5_key_del env mk TBL_MD5_KEY (put_keys ks ctx)))"

definition mod_md5_key :: "ntpEnv \<Rightarrow> ntpmk \<Rightarrow> ntpCtx \<Rightarrow> (bool \<times> ntpCtx) option" where
  "mod_md5_key env mk ctx =
     (case key_valid mk of None \<Rightarrow> None
      | Some False \<Rightarrow> Some (False, ctx)
      | Some True \<Rightarrow>
          (case keys_mod mk (mKey (ntpSta ctx)) of None \<Rightarrow> Some (False, ctx)
           | Some ks \<Rightarrow> md5_key_mod env mk TBL_MD5_KEY (put_keys ks ctx)))"

section \<open>Broadcast, versions and MD5\<close>

text \<open>Installing the handler and setting the timer are system calls; the first call with no value
  stops the timer.\<close>

definition broadcast_enable :: "ntpEnv \<Rightarrow> ntpCtx \<Rightarrow> bool \<times> ntpCtx" where
  "broadcast_enable env ctx =
     (case sys_call env ctx of (ok, ctx) \<Rightarrow>
        if \<not> ok then (False, ctx)
        else (case sys_call env ctx of (ok, ctx) \<Rightarrow>
          if \<not> ok then (False, ctx)
          else (case sys_call env (ctx\<lparr>bc_timer := None\<rparr>) of (ok, ctx) \<Rightarrow>
            if \<not> ok then (False, ctx)
            else (True, ctx\<lparr>bc_timer := Some (bcInterval (bCast (ntpSta ctx)))\<rparr>))))"

definition broadcast_disable :: "ntpEnv \<Rightarrow> ntpCtx \<Rightarrow> bool \<times> ntpCtx" where
  "broadcast_disable env ctx =
     (case sys_call env ctx of (ok, ctx) \<Rightarrow>
        if \<not> ok then (False, ctx) else sys_call env (ctx\<lparr>bc_timer := None\<rparr>))"

definition mod_broadcast_enable_interval :: "ntpEnv \<Rightarrow> ntpbc \<Rightarrow> ntpCtx \<Rightarrow> bool \<times> ntpCtx" where
  "mod_broadcast_enable_interval env bc ctx =
     (if (bcEnable bc = 0 \<or> bcEnable bc = 1) \<and> MIN_BCAST_ITVL \<le> bcInterval bc \<and> bcInterval bc \<le> MAX_BCAST_ITVL then
        let ctx = ctx\<lparr>ntpSta := (ntpSta ctx)\<lparr>bCast := bc\<rparr>\<rparr>
        in case (if bcEnable bc \<noteq> 0 then broadcast_enable env ctx else broadcast_disable env ctx) of (ok, ctx) \<Rightarrow>
             if \<not> ok then (False, ctx) else broadcast_enable_interval_write env bc TBL_SYS ctx
      else (False, ctx))"

definition mod_version_enable :: "ntpEnv \<Rightarrow> int \<Rightarrow> ntpCtx \<Rightarrow> bool \<times> ntpCtx" where
  "mod_version_enable env ve ctx =
     (if 0 \<le> ve \<and> ve \<le> 7 then version_enable_write env ve TBL_SYS (ctx\<lparr>ntpSta := (ntpSta ctx)\<lparr>VnEnable := ve\<rparr>\<rparr>)
      else (False, ctx))"

definition mod_md5_enable :: "ntpEnv \<Rightarrow> int \<Rightarrow> ntpCtx \<Rightarrow> bool \<times> ntpCtx" where
  "mod_md5_enable env me ctx =
     (if me = 0 \<or> me = 1 then md5_enable_write env me TBL_SYS (ctx\<lparr>ntpSta := (ntpSta ctx)\<lparr>md5Enable := me\<rparr>\<rparr>)
      else (False, ctx))"

section \<open>The queue of messages\<close>

text \<open>\<open>set_print_level\<close> (\<^verbatim>\<open>src/lib/lib_dbg.c\<close>) keeps what it has set when a later test fails.\<close>

definition set_print_level :: "int \<Rightarrow> int \<Rightarrow> int \<Rightarrow> ntpCtx \<Rightarrow> bool \<times> ntpCtx" where
  "set_print_level syslog_en dbg_level process_type ctx =
     (if syslog_en < 0 \<or> syslog_en > 1 then (False, ctx)
      else let ctx = ctx\<lparr>gSyslogEn := syslog_en\<rparr> in
      if dbg_level < 0 \<or> dbg_level > 8 then (False, ctx)
      else let ctx = ctx\<lparr>gDbgLevel := dbg_level\<rparr> in
      (0 \<le> process_type \<and> process_type < 12, ctx))"

definition DAEMON_CURSOR_NTP :: int where "DAEMON_CURSOR_NTP = 3"

definition mod_log_level :: "int \<times> int \<Rightarrow> ntpCtx \<Rightarrow> bool \<times> ntpCtx" where
  "mod_log_level dbg ctx = set_print_level (snd dbg) (fst dbg) DAEMON_CURSOR_NTP ctx"

definition writeConfig :: "ntpEnv \<Rightarrow> ntpCtx \<Rightarrow> bool \<times> ntpCtx" where
  "writeConfig env ctx =
     (case sys_call env ctx of (ok, ctx) \<Rightarrow>
        if \<not> ok then (False, ctx) else sys_call env (ctx\<lparr>shm_sta := Some (ntpSta ctx)\<rparr>))"

datatype ntp_msg =
    MSG_CFG_DBG "int \<times> int"
  | MSG_CFG_NTP_MK_ADD ntpmk
  | MSG_CFG_NTP_MK_DEL ntpmk
  | MSG_CFG_NTP_MK_MOD ntpmk
  | MSG_CFG_NTP_BC ntpbc
  | MSG_CFG_NTP_VE int
  | MSG_CFG_NTP_ME int
  | MSG_CFG_NTP_VP veth
  | MSG_OTHER

text \<open>What a receive gives: a message, or an error; an empty queue ends the loop.\<close>

datatype received = RcvError | Rcv ntp_msg

definition handle_msg :: "ntpEnv \<Rightarrow> ntp_msg \<Rightarrow> ntpCtx \<Rightarrow> (bool \<times> ntpCtx) option" where
  "handle_msg env msg ctx =
     (let wr = \<lambda>r. andthen r (\<lambda>ctx. Some (writeConfig env ctx))
      in case msg of
           MSG_CFG_DBG d \<Rightarrow> Some (mod_log_level d ctx)
         | MSG_CFG_NTP_MK_ADD mk \<Rightarrow> wr (add_md5_key env mk ctx)
         | MSG_CFG_NTP_MK_DEL mk \<Rightarrow> wr (del_md5_key env mk ctx)
         | MSG_CFG_NTP_MK_MOD mk \<Rightarrow> wr (mod_md5_key env mk ctx)
         | MSG_CFG_NTP_BC bc \<Rightarrow> wr (Some (mod_broadcast_enable_interval env bc ctx))
         | MSG_CFG_NTP_VE ve \<Rightarrow> wr (Some (mod_version_enable env ve ctx))
         | MSG_CFG_NTP_ME me \<Rightarrow> wr (Some (mod_md5_enable env me ctx))
         | MSG_CFG_NTP_VP v \<Rightarrow> wr (sysVport env v ctx)
         | MSG_OTHER \<Rightarrow> Some (False, ctx))"

fun ReadMessageQueue :: "ntpEnv \<Rightarrow> received list \<Rightarrow> ntpCtx \<Rightarrow> (bool \<times> ntpCtx) option" where
  "ReadMessageQueue env [] ctx = Some (True, ctx)"
| "ReadMessageQueue env (RcvError # q) ctx = Some (False, ctx)"
| "ReadMessageQueue env (Rcv msg # q) ctx = andthen (handle_msg env msg ctx) (ReadMessageQueue env q)"

definition isNotify :: "ntpCtx \<Rightarrow> bool \<times> ntpCtx" where
  "isNotify ctx = (if notify_flag ctx then (True, ctx\<lparr>notify_flag := False\<rparr>) else (False, ctx))"

end
