(* ===== verification/NtpKeys.thy ===== *)
theory NtpKeys
  imports NtpParser
begin

text \<open>
  The MD5 keys of the NTP server as a table: the array of keys of \<^verbatim>\<open>src/d-ntp/dntp_parser.c\<close> implements
  a finite map from identifiers to keys, as long as there is a free entry for each key that is added.
\<close>

section \<open>The interface of a table of keys\<close>

text \<open>
  \<open>look\<close> reads a key; the operations fail when their identifier is there already, or is not. An
  addition without room succeeds and changes nothing.
\<close>

locale key_table =
  fixes inv :: "'s \<Rightarrow> bool"
    and look :: "'s \<Rightarrow> int \<Rightarrow> 'k option"
    and room :: "'s \<Rightarrow> nat"
    and add :: "int \<Rightarrow> 'k \<Rightarrow> 's \<Rightarrow> 's option"
    and del :: "int \<Rightarrow> 's \<Rightarrow> 's option"
    and modi :: "int \<Rightarrow> 'k \<Rightarrow> 's \<Rightarrow> 's option"
    and ok :: "int \<Rightarrow> 'k \<Rightarrow> bool"
  assumes add_new: "inv s \<Longrightarrow> ok i k \<Longrightarrow> look s i = None \<Longrightarrow> 0 < room s \<Longrightarrow>
      \<exists>s'. add i k s = Some s' \<and> inv s' \<and> look s' = (look s)(i \<mapsto> k) \<and> Suc (room s') = room s"
    and add_full: "inv s \<Longrightarrow> ok i k \<Longrightarrow> look s i = None \<Longrightarrow> room s = 0 \<Longrightarrow> add i k s = Some s"
    and add_dup: "inv s \<Longrightarrow> ok i k \<Longrightarrow> look s i \<noteq> None \<Longrightarrow> add i k s = None"
    and del_law: "inv s \<Longrightarrow> i \<noteq> 0 \<Longrightarrow> look s i \<noteq> None \<Longrightarrow>
      \<exists>s'. del i s = Some s' \<and> inv s' \<and> look s' = (look s)(i := None) \<and> room s' = Suc (room s)"
    and del_none: "inv s \<Longrightarrow> i \<noteq> 0 \<Longrightarrow> look s i = None \<Longrightarrow> del i s = None"
    and mod_law: "inv s \<Longrightarrow> ok i k \<Longrightarrow> look s i \<noteq> None \<Longrightarrow>
      \<exists>s'. modi i k s = Some s' \<and> inv s' \<and> look s' = (look s)(i \<mapsto> k) \<and> room s' = room s"
    and mod_none: "inv s \<Longrightarrow> ok i k \<Longrightarrow> look s i = None \<Longrightarrow> modi i k s = None"

text \<open>The operations as commands, on the table and on the map; a command that fails changes nothing.\<close>

datatype 'k key_cmd = Add int 'k | Del int | Mod int 'k

fun map_cmd :: "'k key_cmd \<Rightarrow> (int \<Rightarrow> 'k option) \<Rightarrow> (int \<Rightarrow> 'k option)" where
  "map_cmd (Add i k) m = (if m i = None then m(i \<mapsto> k) else m)"
| "map_cmd (Del i) m = m(i := None)"
| "map_cmd (Mod i k) m = (if m i = None then m else m(i \<mapsto> k))"

fun adds :: "'k key_cmd list \<Rightarrow> nat" where
  "adds [] = 0"
| "adds (Add i k # cs) = Suc (adds cs)"
| "adds (c # cs) = adds cs"

context key_table begin

fun cmd_ok :: "'k key_cmd \<Rightarrow> bool" where
  "cmd_ok (Add i k) = ok i k"
| "cmd_ok (Del i) = (i \<noteq> 0)"
| "cmd_ok (Mod i k) = ok i k"

fun table_cmd :: "'k key_cmd \<Rightarrow> 's \<Rightarrow> 's" where
  "table_cmd (Add i k) s = (case add i k s of None \<Rightarrow> s | Some s' \<Rightarrow> s')"
| "table_cmd (Del i) s = (case del i s of None \<Rightarrow> s | Some s' \<Rightarrow> s')"
| "table_cmd (Mod i k) s = (case modi i k s of None \<Rightarrow> s | Some s' \<Rightarrow> s')"

lemma cmd_refines:
  assumes "inv s" "cmd_ok c" "adds [c] \<le> room s"
  shows "inv (table_cmd c s) \<and> look (table_cmd c s) = map_cmd c (look s) \<and> room s \<le> room (table_cmd c s) + adds [c]"
proof (cases c)
  case (Add i k)
  show ?thesis
  proof (cases "look s i = None")
    case True
    then show ?thesis using add_new[of s i k] assms Add by auto
  next
    case False
    then show ?thesis using add_dup[of s i k] assms Add by auto
  qed
next
  case (Del i)
  show ?thesis
  proof (cases "look s i = None")
    case True
    then show ?thesis using del_none[of s i] assms Del by auto
  next
    case False
    then show ?thesis using del_law[of s i] assms Del by auto
  qed
next
  case (Mod i k)
  show ?thesis
  proof (cases "look s i = None")
    case True
    then show ?thesis using mod_none[of s i k] assms Mod by auto
  next
    case False
    then show ?thesis using mod_law[of s i k] assms Mod by auto
  qed
qed

lemma cmds_refine:
  "inv s \<Longrightarrow> list_all cmd_ok cs \<Longrightarrow> adds cs \<le> room s \<Longrightarrow>
   inv (fold table_cmd cs s) \<and> look (fold table_cmd cs s) = fold map_cmd cs (look s)"
proof (induction cs arbitrary: s)
  case (Cons c cs)
  have a: "adds (c # cs) = adds [c] + adds cs" by (cases c) simp_all
  then have "adds [c] \<le> room s" using Cons.prems(3) by simp
  then have c: "inv (table_cmd c s)" "look (table_cmd c s) = map_cmd c (look s)" "room s \<le> room (table_cmd c s) + adds [c]"
    using cmd_refines[of s c] Cons.prems by auto
  then show ?case using Cons.IH[OF c(1)] Cons.prems(2,3) a by simp
qed simp

end

section \<open>The array of keys\<close>

definition key_text :: "ntpmk \<Rightarrow> bytes" where
  "key_text k = take (nat (md5Len k)) (md5Key k)"

definition mk_of :: "int \<Rightarrow> bytes \<Rightarrow> ntpmk" where
  "mk_of i k = \<lparr>md5Id = i, md5Len = int (length k), md5Key = k @ replicate (21 - length k) 0\<rparr>"

text \<open>A free entry has the identifier 0; no other identifier is there twice.\<close>

definition keys_inv :: "ntpmk list \<Rightarrow> bool" where
  "keys_inv ks \<longleftrightarrow> (\<forall>j < length ks. \<forall>l < length ks. md5Id (ks ! j) = md5Id (ks ! l) \<longrightarrow> md5Id (ks ! j) \<noteq> 0 \<longrightarrow> j = l)"

definition keys_look :: "ntpmk list \<Rightarrow> int \<Rightarrow> bytes option" where
  "keys_look ks i = (if i = 0 then None else map_option (\<lambda>j. key_text (ks ! j)) (find_key i ks))"

definition free_entries :: "ntpmk list \<Rightarrow> nat set" where
  "free_entries ks = {j. j < length ks \<and> md5Id (ks ! j) = 0}"

definition new_key :: "int \<Rightarrow> bytes \<Rightarrow> bool" where
  "new_key i k \<longleftrightarrow> 0 < i \<and> i < 4294967296 \<and> 0 < length k \<and> length k \<le> 20 \<and> 0 \<notin> set k"

lemma find_key_Some: "find_key i ks = Some j \<Longrightarrow> j < length ks \<and> md5Id (ks ! j) = i \<and> (\<forall>l < j. md5Id (ks ! l) \<noteq> i)"
proof (induction ks arbitrary: j)
  case (Cons k ks)
  show ?case
  proof (cases "md5Id k = i")
    case True
    then show ?thesis using Cons.prems by simp
  next
    case False
    then obtain m where m: "find_key i ks = Some m" "j = Suc m" using Cons.prems by auto
    have "\<forall>l < Suc m. md5Id ((k # ks) ! l) \<noteq> i"
      using Cons.IH[OF m(1)] False by (auto simp: nth_Cons split: nat.splits)
    then show ?thesis using Cons.IH[OF m(1)] m(2) by simp
  qed
qed simp

lemma find_key_None: "find_key i ks = None \<longleftrightarrow> i \<notin> md5Id ` set ks"
  by (induction ks) auto

lemma find_key_eq:
  assumes "keys_inv ks" "i \<noteq> 0"
  shows "find_key i ks = Some j \<longleftrightarrow> j < length ks \<and> md5Id (ks ! j) = i"
proof
  assume "find_key i ks = Some j"
  then show "j < length ks \<and> md5Id (ks ! j) = i" using find_key_Some by blast
next
  assume j: "j < length ks \<and> md5Id (ks ! j) = i"
  then have "i \<in> md5Id ` set ks" by force
  then obtain l where l: "find_key i ks = Some l" using find_key_None[of i ks] by auto
  then have "l < length ks" "md5Id (ks ! l) = i" using find_key_Some by blast+
  then have "l = j" using j assms by (auto simp: keys_inv_def)
  then show "find_key i ks = Some j" using l by simp
qed

lemma look_Some:
  "keys_inv ks \<Longrightarrow> i \<noteq> 0 \<Longrightarrow> j < length ks \<Longrightarrow> md5Id (ks ! j) = i \<Longrightarrow> keys_look ks i = Some (key_text (ks ! j))"
  using find_key_eq[of ks i j] by (simp add: keys_look_def)

lemma look_None: "keys_look ks i = None \<longleftrightarrow> i = 0 \<or> i \<notin> md5Id ` set ks"
  by (simp add: keys_look_def find_key_None)

text \<open>Replacing an entry by one with a key of its own changes the map at the two identifiers.\<close>

lemma keys_inv_update:
  assumes "keys_inv ks" "j < length ks" "md5Id x = 0 \<or> md5Id x = md5Id (ks ! j) \<or> md5Id x \<notin> md5Id ` set ks"
  shows "keys_inv (ks[j := x])"
proof -
  have n: "md5Id x \<noteq> md5Id (ks ! l)" if "l < length ks" "l \<noteq> j" "md5Id x \<noteq> 0" for l
    using assms that unfolding keys_inv_def by (metis imageI nth_mem)
  show ?thesis unfolding keys_inv_def length_list_update
  proof (intro allI impI)
    fix a b
    assume "a < length ks" "b < length ks" "md5Id (ks[j := x] ! a) = md5Id (ks[j := x] ! b)"
      "md5Id (ks[j := x] ! a) \<noteq> 0"
    then show "a = b" using n[of a] n[of b] assms(1,2)
      unfolding keys_inv_def by (cases "a = j"; cases "b = j") simp_all
  qed
qed

lemma look_update:
  assumes "keys_inv ks" "j < length ks" "md5Id x = 0 \<or> md5Id x = md5Id (ks ! j) \<or> md5Id x \<notin> md5Id ` set ks"
  shows "keys_look (ks[j := x]) i =
    (if i = 0 then None else if i = md5Id x then Some (key_text x)
     else if i = md5Id (ks ! j) then None else keys_look ks i)"
proof -
  note inv = keys_inv_update[OF assms]
  consider "i = 0" | "i \<noteq> 0" "i = md5Id x" | "i \<noteq> 0" "i \<noteq> md5Id x" "i = md5Id (ks ! j)"
    | "i \<noteq> 0" "i \<noteq> md5Id x" "i \<noteq> md5Id (ks ! j)" by blast
  then show ?thesis
  proof cases
    case 2
    then show ?thesis using look_Some[OF inv, of i j] assms(2) by simp
  next
    case 3
    have "i \<notin> md5Id ` set (ks[j := x])"
    proof
      assume "i \<in> md5Id ` set (ks[j := x])"
      then obtain l where "l < length ks" "md5Id ((ks[j := x]) ! l) = i" by (auto simp: in_set_conv_nth)
      then show False using 3 assms(1,2) by (auto simp: keys_inv_def nth_list_update split: if_splits)
    qed
    then show ?thesis using 3 look_None[of "ks[j := x]" i] by simp
  next
    case 4
    show ?thesis
    proof (cases "i \<in> md5Id ` set ks")
      case True
      then obtain l where l: "l < length ks" "md5Id (ks ! l) = i" by (auto simp: in_set_conv_nth)
      then have "l \<noteq> j" using 4 by auto
      then show ?thesis using 4 l look_Some[OF inv, of i l] look_Some[OF assms(1), of i l] by simp
    next
      case False
      have "i \<notin> md5Id ` set (ks[j := x])"
        using False 4(2) set_update_subset_insert[of ks j x] by auto
      then show ?thesis using False 4 look_None[of "ks[j := x]" i] look_None[of ks i] by simp
    qed
  qed (simp add: keys_look_def)
qed

lemma free_update:
  "j < length ks \<Longrightarrow> free_entries (ks[j := x]) = (if md5Id x = 0 then insert j (free_entries ks) else free_entries ks - {j})"
  by (auto simp: free_entries_def nth_list_update)

lemma free_finite [simp]: "finite (free_entries ks)"
  by (simp add: free_entries_def)

lemma key_text_mk_of: "key_text (mk_of i k) = k"
  by (simp add: key_text_def mk_of_def)

lemma look_zero [simp]: "keys_look ks 0 = None"
  by (simp add: keys_look_def)

lemma add_new_key:
  assumes inv: "keys_inv ks" and k: "new_key i k" and n: "keys_look ks i = None" and r: "0 < card (free_entries ks)"
  shows "\<exists>s'. keys_add (mk_of i k) ks = Some s' \<and> keys_inv s' \<and> keys_look s' = (keys_look ks)(i \<mapsto> k)
    \<and> Suc (card (free_entries s')) = card (free_entries ks)"
proof -
  have i: "i \<noteq> 0" using k by (simp add: new_key_def)
  then have ni: "i \<notin> md5Id ` set ks" using n by (simp add: look_None)
  obtain l where "l \<in> free_entries ks" using r by (metis card.empty equals0I less_numeral_extra(3))
  then have "0 \<in> md5Id ` set ks" by (force simp: free_entries_def)
  then obtain j where j: "find_key 0 ks = Some j" using find_key_None[of 0 ks] by auto
  then have jl: "j < length ks" "md5Id (ks ! j) = 0" using find_key_Some by blast+
  have m: "md5Id (mk_of i k) = i" by (simp add: mk_of_def)
  have u: "md5Id (mk_of i k) = 0 \<or> md5Id (mk_of i k) = md5Id (ks ! j) \<or> md5Id (mk_of i k) \<notin> md5Id ` set ks"
    using ni m by simp
  have "keys_add (mk_of i k) ks = Some (ks[j := mk_of i k])"
    using ni j m find_key_None[of i ks] by (simp add: keys_add_def)
  moreover have "keys_look (ks[j := mk_of i k]) = (keys_look ks)(i \<mapsto> k)"
    using look_update[OF inv jl(1) u] jl(2) i by (auto simp: m key_text_mk_of)
  moreover have "Suc (card (free_entries (ks[j := mk_of i k]))) = card (free_entries ks)"
    using free_update[OF jl(1), of "mk_of i k"] i m card_Suc_Diff1[of "free_entries ks" j] jl
    by (simp add: free_entries_def[of ks])
  ultimately show ?thesis using keys_inv_update[OF inv jl(1) u] by blast
qed

lemma del_key:
  assumes inv: "keys_inv ks" and i: "i \<noteq> 0" and n: "keys_look ks i \<noteq> None"
  shows "\<exists>s'. keys_del i ks = Some s' \<and> keys_inv s' \<and> keys_look s' = (keys_look ks)(i := None)
    \<and> card (free_entries s') = Suc (card (free_entries ks))"
proof -
  obtain j where j: "find_key i ks = Some j" using n i by (auto simp: keys_look_def)
  then have jl: "j < length ks" "md5Id (ks ! j) = i" using find_key_Some by blast+
  have m: "md5Id no_key = 0" by (simp add: no_key_def)
  have u: "md5Id no_key = 0 \<or> md5Id no_key = md5Id (ks ! j) \<or> md5Id no_key \<notin> md5Id ` set ks" using m by simp
  have "keys_look (ks[j := no_key]) = (keys_look ks)(i := None)"
    using look_update[OF inv jl(1) u] jl(2) i by (auto simp: m)
  moreover have "j \<notin> free_entries ks" using jl i by (simp add: free_entries_def)
  ultimately show ?thesis using j keys_inv_update[OF inv jl(1) u] jl(1) m
    by (simp add: keys_del_def free_update)
qed

lemma mod_key:
  assumes inv: "keys_inv ks" and k: "new_key i k" and n: "keys_look ks i \<noteq> None"
  shows "\<exists>s'. keys_mod (mk_of i k) ks = Some s' \<and> keys_inv s' \<and> keys_look s' = (keys_look ks)(i \<mapsto> k)
    \<and> card (free_entries s') = card (free_entries ks)"
proof -
  have i: "i \<noteq> 0" using k by (simp add: new_key_def)
  obtain j where j: "find_key i ks = Some j" using n i by (auto simp: keys_look_def)
  then have jl: "j < length ks" "md5Id (ks ! j) = i" using find_key_Some by blast+
  define x where "x = (ks ! j)\<lparr>md5Len := int (length k), md5Key := k @ replicate (21 - length k) 0\<rparr>"
  have m: "md5Id x = i" "key_text x = k" using jl(2) by (simp_all add: x_def key_text_def)
  have u: "md5Id x = 0 \<or> md5Id x = md5Id (ks ! j) \<or> md5Id x \<notin> md5Id ` set ks" using m jl by simp
  have "keys_mod (mk_of i k) ks = Some (ks[j := x])" using j by (simp add: keys_mod_def mk_of_def x_def)
  moreover have "keys_look (ks[j := x]) = (keys_look ks)(i \<mapsto> k)"
    using look_update[OF inv jl(1) u] jl(2) i by (auto simp: m)
  moreover have "free_entries (ks[j := x]) = free_entries ks"
    using free_update[OF jl(1), of x] jl i m by (simp add: free_entries_def[of ks])
  ultimately show ?thesis using keys_inv_update[OF inv jl(1) u] by simp
qed

interpretation md5_keys: key_table keys_inv keys_look "\<lambda>ks. card (free_entries ks)"
  "\<lambda>i k. keys_add (mk_of i k)" keys_del "\<lambda>i k. keys_mod (mk_of i k)" new_key
proof unfold_locales
  fix s i k
  assume k: "new_key i k" and inv: "keys_inv s"
  have i: "i \<noteq> 0" "md5Id (mk_of i k) = i" using k by (simp_all add: new_key_def mk_of_def)
  show "keys_look s i = None \<Longrightarrow> 0 < card (free_entries s) \<Longrightarrow>
    \<exists>s'. keys_add (mk_of i k) s = Some s' \<and> keys_inv s' \<and> keys_look s' = (keys_look s)(i \<mapsto> k)
      \<and> Suc (card (free_entries s')) = card (free_entries s)"
    by (rule add_new_key[OF inv k])
  show "keys_look s i = None \<Longrightarrow> card (free_entries s) = 0 \<Longrightarrow> keys_add (mk_of i k) s = Some s"
    using i find_key_None[of 0 s] find_key_None[of i s]
    by (auto simp: keys_add_def look_None free_entries_def in_set_conv_nth)
  show "keys_look s i \<noteq> None \<Longrightarrow> keys_add (mk_of i k) s = None"
    using i by (auto simp: keys_add_def look_None find_key_None)
  show "keys_look s i \<noteq> None \<Longrightarrow> \<exists>s'. keys_mod (mk_of i k) s = Some s' \<and> keys_inv s' \<and> keys_look s' = (keys_look s)(i \<mapsto> k)
      \<and> card (free_entries s') = card (free_entries s)"
    by (rule mod_key[OF inv k])
  show "keys_look s i = None \<Longrightarrow> keys_mod (mk_of i k) s = None"
    using i by (simp add: keys_mod_def look_None find_key_None)
next
  fix s and i :: int
  assume "keys_inv s" "i \<noteq> 0"
  then show "keys_look s i \<noteq> None \<Longrightarrow> \<exists>s'. keys_del i s = Some s' \<and> keys_inv s' \<and> keys_look s' = (keys_look s)(i := None)
      \<and> card (free_entries s') = Suc (card (free_entries s))"
    "keys_look s i = None \<Longrightarrow> keys_del i s = None"
    using del_key[of s i] by (auto simp: keys_del_def look_None find_key_None)
qed

section \<open>The messages\<close>

fun cmd_msg :: "bytes key_cmd \<Rightarrow> ntp_msg" where
  "cmd_msg (Add i k) = MSG_CFG_NTP_MK_ADD (mk_of i k)"
| "cmd_msg (Del i) = MSG_CFG_NTP_MK_DEL (mk_of i [])"
| "cmd_msg (Mod i k) = MSG_CFG_NTP_MK_MOD (mk_of i k)"

lemma mk_of_text: "new_key i k \<Longrightarrow> cstr (md5Key (mk_of i k)) = Some (map byte_char k)"
proof -
  assume k: "new_key i k"
  then obtain n where "21 - length k = Suc n" by (cases "21 - length k") (auto simp: new_key_def)
  then show ?thesis using k cstr_text[of k "replicate n 0"] by (simp add: mk_of_def new_key_def)
qed

lemma key_valid_mk_of: "new_key i k \<Longrightarrow> key_valid (mk_of i k) = Some True"
  using mk_of_text[of i k] by (auto simp: key_valid_def strlen_def mk_of_def new_key_def MAX_MD5KEY_LEN_def)

lemma md5Id_mk_of [simp]: "md5Id (mk_of i k) = i"
  by (simp add: mk_of_def)

text \<open>What the data base and the shared memory do leaves the settings.\<close>

lemma put_db_sta [simp]: "ntpSta (snd (put_db env sql ctx)) = ntpSta ctx"
  by (simp add: put_db_def split: prod.splits)

lemma put_veth_sta [simp]: "ntpSta (snd (put_veth env sql ctx)) = ntpSta ctx"
  by (simp add: put_veth_def split: prod.splits)

lemma sys_call_sta [simp]: "ntpSta (snd (sys_call env ctx)) = ntpSta ctx"
  by (simp add: sys_call_def)

lemma writeConfig_sta [simp]: "ntpSta (snd (writeConfig env ctx)) = ntpSta ctx"
  by (simp add: writeConfig_def sys_call_def)

lemma put_db_eq: "put_db env sql ctx = (fst (put_db env sql ctx), snd (put_db env sql ctx))"
  by simp

lemma then_write:
  assumes "r = Some (ok, ctx)"
  shows "\<exists>ok' ctx'. andthen r (\<lambda>ctx. Some (writeConfig env ctx)) = Some (ok', ctx') \<and> ntpSta ctx' = ntpSta ctx
    \<and> (ok' \<longrightarrow> ok)"
  using assms writeConfig_sta[of env ctx] by (cases ok) (auto simp: andthen_def prod_eq_iff)

lemma cmd_msg_handled:
  assumes k: "md5_keys.cmd_ok c" and n: "totalKey (ntpSta ctx) < 10"
  shows "\<exists>ok ctx'. handle_msg env (cmd_msg c) ctx = Some (ok, ctx')
    \<and> ntpSta ctx' = (ntpSta ctx)\<lparr>mKey := md5_keys.table_cmd c (mKey (ntpSta ctx))\<rparr>"
proof -
  have "\<exists>ok ctx'. (case c of Add i k \<Rightarrow> add_md5_key env (mk_of i k) ctx | Del i \<Rightarrow> del_md5_key env (mk_of i []) ctx
      | Mod i k \<Rightarrow> mod_md5_key env (mk_of i k) ctx) = Some (ok, ctx')
    \<and> ntpSta ctx' = (ntpSta ctx)\<lparr>mKey := md5_keys.table_cmd c (mKey (ntpSta ctx))\<rparr>"
  proof (cases c)
    case (Add i k)
    then show ?thesis using k n key_valid_mk_of[of i k] mk_of_text[of i k]
      by (auto simp: add_md5_key_def md5_key_add_def MAX_MD5KEY_NUM_def put_keys_def prod_eq_iff split: option.splits)
  next
    case (Del i)
    then show ?thesis
      by (auto simp: del_md5_key_def md5_key_del_def put_keys_def prod_eq_iff split: option.splits)
  next
    case (Mod i k)
    then show ?thesis using k key_valid_mk_of[of i k] mk_of_text[of i k]
      by (auto simp: mod_md5_key_def md5_key_mod_def put_keys_def prod_eq_iff split: option.splits)
  qed
  then obtain ok ctx' where c: "(case c of Add i k \<Rightarrow> add_md5_key env (mk_of i k) ctx | Del i \<Rightarrow> del_md5_key env (mk_of i []) ctx
      | Mod i k \<Rightarrow> mod_md5_key env (mk_of i k) ctx) = Some (ok, ctx')"
    "ntpSta ctx' = (ntpSta ctx)\<lparr>mKey := md5_keys.table_cmd c (mKey (ntpSta ctx))\<rparr>" by blast
  show ?thesis using then_write[OF c(1), of env] c(2) by (cases c) (auto simp: handle_msg_def)
qed

lemma key_messages:
  assumes "keys_inv (mKey (ntpSta ctx))" "list_all md5_keys.cmd_ok cs"
    "adds cs \<le> card (free_entries (mKey (ntpSta ctx)))" "totalKey (ntpSta ctx) < 10"
  shows "\<exists>ok ctx' n. ReadMessageQueue env (map (\<lambda>c. Rcv (cmd_msg c)) cs) ctx = Some (ok, ctx')
    \<and> n \<le> length cs \<and> (ok \<longrightarrow> n = length cs) \<and> keys_inv (mKey (ntpSta ctx'))
    \<and> keys_look (mKey (ntpSta ctx')) = fold map_cmd (take n cs) (keys_look (mKey (ntpSta ctx)))
    \<and> totalKey (ntpSta ctx') = totalKey (ntpSta ctx)"
  using assms
proof (induction cs arbitrary: ctx)
  case Nil
  then show ?case by auto
next
  case (Cons c cs)
  let ?ks = "mKey (ntpSta ctx)"
  have a: "adds (c # cs) = adds [c] + adds cs" by (cases c) simp_all
  have c: "keys_inv (md5_keys.table_cmd c ?ks)" "keys_look (md5_keys.table_cmd c ?ks) = map_cmd c (keys_look ?ks)"
    "card (free_entries ?ks) \<le> card (free_entries (md5_keys.table_cmd c ?ks)) + adds [c]"
    using md5_keys.cmd_refines[of ?ks c] Cons.prems a by auto
  obtain ok ctx1 where h: "handle_msg env (cmd_msg c) ctx = Some (ok, ctx1)"
    "ntpSta ctx1 = (ntpSta ctx)\<lparr>mKey := md5_keys.table_cmd c ?ks\<rparr>"
    using cmd_msg_handled[of c ctx env] Cons.prems(2,4) by auto
  show ?case
  proof (cases ok)
    case False
    then show ?thesis using h c by (intro exI[of _ False] exI[of _ ctx1] exI[of _ 1]) (simp add: andthen_def)
  next
    case True
    have "\<exists>ok' ctx' n. ReadMessageQueue env (map (\<lambda>c. Rcv (cmd_msg c)) cs) ctx1 = Some (ok', ctx')
      \<and> n \<le> length cs \<and> (ok' \<longrightarrow> n = length cs) \<and> keys_inv (mKey (ntpSta ctx'))
      \<and> keys_look (mKey (ntpSta ctx')) = fold map_cmd (take n cs) (keys_look (mKey (ntpSta ctx1)))
      \<and> totalKey (ntpSta ctx') = totalKey (ntpSta ctx1)"
      by (rule Cons.IH) (use h(2) c Cons.prems a in auto)
    then obtain ok' ctx' n where r: "ReadMessageQueue env (map (\<lambda>c. Rcv (cmd_msg c)) cs) ctx1 = Some (ok', ctx')"
      "n \<le> length cs" "ok' \<longrightarrow> n = length cs" "keys_inv (mKey (ntpSta ctx'))"
      "keys_look (mKey (ntpSta ctx')) = fold map_cmd (take n cs) (keys_look (mKey (ntpSta ctx1)))"
      "totalKey (ntpSta ctx') = totalKey (ntpSta ctx1)" by blast
    then show ?thesis using True h c
      by (intro exI[of _ ok'] exI[of _ ctx'] exI[of _ "Suc n"]) (simp add: andthen_def)
  qed
qed

section \<open>A full table\<close>

lemma md5_rows_overflow:
  "1 \<le> i \<Longrightarrow> i - 1 \<le> int (length keys) \<Longrightarrow> int (length keys) < i - 1 + int n \<Longrightarrow> md5_rows t i n keys = None"
proof (induction n arbitrary: i keys)
  case 0
  then show ?case by simp
next
  case (Suc n)
  show ?case
  proof (cases "arr keys (i - 1)")
    case (Some old)
    have "i \<le> int (length keys)" using Some arr_Some_iff[of keys "i - 1"] by auto
    then have "md5_rows t (i + 1) n (keys[nat (i - 1) := x]) = None" for x
      using Suc.IH[of "i + 1" "keys[nat (i - 1) := x]"] Suc.prems by simp
    then show ?thesis by (auto split: option.splits)
  next
    case None
    then show ?thesis by (simp del: arr_None_iff split: option.splits)
  qed
qed

lemma db_lock_open: "de_exec (ne_db env) h BEGIN_SQL \<Longrightarrow> db_lock (ne_db env) h = h @ [Exec BEGIN_SQL]"
  by (simp add: db_lock_def db_retry_ok)

lemma retry_keeps: "Exec sql \<in> set h \<Longrightarrow> Exec sql \<in> set (db_retry env sql' n h)"
  using db_retry_shape[of n env sql' h] by auto

lemma put_db_executes: "Exec sql \<in> set (pDb (snd (put_db env sql ctx)))"
  by (simp add: put_db_def db_put_locked_def db_put_table_def db_unlock_def retry_keeps)

text \<open>The text of the insertion.\<close>

definition insert_sql :: "int \<Rightarrow> bytes \<Rightarrow> string" where
  "insert_sql i k = ''insert into TBL_MD5_KEY(md5_id, md5_key) values('' @ pr_d (s32 i) @ '', ''
     @ [CHR 0x27] @ map byte_char k @ [CHR 0x27] @ '');''"

lemma add_full_state:
  assumes "keys_inv (mKey (ntpSta ctx))" "new_key i k" "keys_look (mKey (ntpSta ctx)) i = None"
    "free_entries (mKey (ntpSta ctx)) = {}" "totalKey (ntpSta ctx) < 10"
  shows "add_md5_key env (mk_of i k) ctx = Some (put_db env (insert_sql i k) ctx)"
proof -
  have "keys_add (mk_of i k) (mKey (ntpSta ctx)) = Some (mKey (ntpSta ctx))"
    using md5_keys.add_full[OF assms(1,2,3)] assms(4) by simp
  then show ?thesis using key_valid_mk_of[OF assms(2)] mk_of_text[OF assms(2)] assms(5)
    by (simp add: add_md5_key_def md5_key_add_def MAX_MD5KEY_NUM_def put_keys_def insert_sql_def TBL_MD5_KEY_def)
qed

section \<open>Properties\<close>

fun cmd_valid :: "bytes key_cmd \<Rightarrow> bool" where
  "cmd_valid (Add i k) = new_key i k"
| "cmd_valid (Del i) = (i \<noteq> 0)"
| "cmd_valid (Mod i k) = new_key i k"

lemma cmd_valid_ok: "md5_keys.cmd_ok c = cmd_valid c"
  by (cases c) simp_all

lemma cmds_valid_ok: "list_all md5_keys.cmd_ok cs = list_all cmd_valid cs"
  by (simp add: cmd_valid_ok list_all_def)

text \<open>A daemon with given keys and settings, and what it runs on.\<close>

definition demo_ctx :: "ntpmk list \<Rightarrow> int \<Rightarrow> int \<Rightarrow> ntpCtx" where
  "demo_ctx ks n md5 = \<lparr>loop_flag = True, notify_flag = False, pDb = [], pVethDb = [], n_calls = 0,
     shm_sta = None, bc_timer = None,
     ntpSta = \<lparr>bCast = \<lparr>bcEnable = 0, bcInterval = 64\<rparr>, VnEnable = 7, md5Enable = md5, vp = [], totalKey = n, mKey = ks\<rparr>,
     leapSecond = 18, leapMode = 0, ports = [], reqs = [], leap_li = 0, pre_tv_sec = 0, pre_tv_usec = 0,
     ip_fallback_id = 0, gDbgLevel = 8, gSyslogEn = 1, sent = []\<rparr>"

definition demo_db :: db_env where
  "demo_db = \<lparr>de_exec = \<lambda>_ _. True, de_query = \<lambda>_ _. Some (replicate 24 (Some ''7''), 11, 2)\<rparr>"

definition demo_env :: "driver \<Rightarrow> ntpEnv" where
  "demo_env drv = \<lparr>ne_db = demo_db, ne_veth = demo_db, ne_fpga = drv, ne_sys = \<lambda>_. True, ne_web_ip = None,
     ne_web_bcast = None, ne_gateway = None, ne_le = True, ne_buf64 = replicate 64 0, ne_buf1536 = replicate 1536 0,
     ne_time = \<lparr>tv_sec = 0, tv_usec = 0\<rparr>, ne_heap = replicate 68 0\<rparr>"

definition full_keys :: "ntpmk list" where
  "full_keys = map (\<lambda>i. mk_of i [0x61]) [1..10]"

text \<open>
  C5: the keys of the NTP server are a finite map: a queue of messages that add, delete and modify
  keys is handled up to the first that fails, without undefined behaviour, and the array of keys
  then represents the map after the same commands, as long as there are free entries for the keys
  that are added. The number of keys is never updated.
\<close>

theorem keys_refine_map:
  assumes "keys_inv (mKey (ntpSta ctx))" "list_all cmd_valid cs"
    "adds cs \<le> card (free_entries (mKey (ntpSta ctx)))" "totalKey (ntpSta ctx) < 10"
  shows "\<exists>ok ctx' n. ReadMessageQueue env (map (\<lambda>c. Rcv (cmd_msg c)) cs) ctx = Some (ok, ctx')
    \<and> n \<le> length cs \<and> (ok \<longrightarrow> n = length cs) \<and> keys_inv (mKey (ntpSta ctx'))
    \<and> keys_look (mKey (ntpSta ctx')) = fold map_cmd (take n cs) (keys_look (mKey (ntpSta ctx)))
    \<and> totalKey (ntpSta ctx') = totalKey (ntpSta ctx)"
  using assms(1) assms(2)[folded cmds_valid_ok] assms(3,4) by (rule key_messages)

text \<open>
  When no entry of the array is free, a further key is accepted: the message is handled with
  the result of the data base, which gets the row, but the array does not hold the key. When the
  daemon starts again and the table has more than ten rows, the rows are written behind the array.
\<close>

theorem full_table_add:
  assumes "keys_inv (mKey (ntpSta ctx))" "new_key i k" "keys_look (mKey (ntpSta ctx)) i = None"
    "free_entries (mKey (ntpSta ctx)) = {}" "totalKey (ntpSta ctx) < 10"
    and "length (mKey (ntpSta ctx2)) = 10" "10 < fst (snd t)"
    "db_get_table (ne_db env) ''select md5_id, md5_key from TBL_MD5_KEY;'' (db_lock (ne_db env) (pDb ctx2)) = (Some t, h)"
  shows "\<exists>ok ctx'. add_md5_key env (mk_of i k) ctx = Some (ok, ctx') \<and> mKey (ntpSta ctx') = mKey (ntpSta ctx)
    \<and> (ok \<longleftrightarrow> de_exec (ne_db env) (db_lock (ne_db env) (pDb ctx)) (insert_sql i k))
    \<and> Exec (insert_sql i k) \<in> set (pDb ctx')
    \<and> md5_key_read env TBL_MD5_KEY ctx2 = None"
proof -
  have "add_md5_key env (mk_of i k) ctx = Some (put_db env (insert_sql i k) ctx)"
    by (rule add_full_state[OF assms(1-5)])
  moreover have "fst (put_db env (insert_sql i k) ctx) = de_exec (ne_db env) (db_lock (ne_db env) (pDb ctx)) (insert_sql i k)"
    by (simp add: put_db_def db_put_locked_def db_put_table_def)
  moreover have "md5_key_read env TBL_MD5_KEY ctx2 = None"
    using md5_rows_overflow[of 1 "mKey (ntpSta ctx2)" "nat (fst (snd t))" t] assms(6-8)
    by (simp add: md5_key_read_def TBL_MD5_KEY_def)
  ultimately show ?thesis using put_db_executes[of "insert_sql i k" env ctx]
    by (intro exI[of _ "fst (put_db env (insert_sql i k) ctx)"] exI[of _ "snd (put_db env (insert_sql i k) ctx)"]) (simp add: prod_eq_iff)
qed

lemma full_keys_facts:
  "keys_inv full_keys" "free_entries full_keys = {}" "keys_look full_keys 11 = None" "length full_keys = 10"
proof -
  have n: "md5Id (full_keys ! j) = int j + 1" if "j < 10" for j
    using that by (simp add: full_keys_def nth_upto)
  show l: "length full_keys = 10" by (simp add: full_keys_def)
  show "keys_inv full_keys" using n by (simp add: keys_inv_def l)
  show "free_entries full_keys = {}" using n by (auto simp: free_entries_def l)
  show "keys_look full_keys 11 = None" by (auto simp: look_None full_keys_def)
qed

lemma demo_ctx_fields [simp]:
  "mKey (ntpSta (demo_ctx ks n m)) = ks" "totalKey (ntpSta (demo_ctx ks n m)) = n"
  "md5Enable (ntpSta (demo_ctx ks n m)) = m" "VnEnable (ntpSta (demo_ctx ks n m)) = 7"
  "reqs (demo_ctx ks n m) = []" "n_calls (demo_ctx ks n m) = 0" "leap_li (demo_ctx ks n m) = 0"
  "sent (demo_ctx ks n m) = []" "pDb (demo_ctx ks n m) = []"
  by (simp_all add: demo_ctx_def)

lemma keys_refine_map_witness:
  "\<exists>ok ctx' n. ReadMessageQueue (demo_env demo_driver) (map (\<lambda>c. Rcv (cmd_msg c)) [Add 7 [0x61], Mod 7 [0x62], Del 7])
      (demo_ctx (replicate 10 no_key) 0 1) = Some (ok, ctx') \<and> n \<le> length [Add 7 [0x61 :: 8 word], Mod 7 [0x62], Del 7]
    \<and> (ok \<longrightarrow> n = length [Add 7 [0x61 :: 8 word], Mod 7 [0x62], Del 7]) \<and> keys_inv (mKey (ntpSta ctx'))
    \<and> keys_look (mKey (ntpSta ctx')) = fold map_cmd (take n [Add 7 [0x61], Mod 7 [0x62], Del 7])
        (keys_look (mKey (ntpSta (demo_ctx (replicate 10 no_key) 0 1))))
    \<and> totalKey (ntpSta ctx') = totalKey (ntpSta (demo_ctx (replicate 10 no_key) 0 1))"
proof -
  have "free_entries (replicate 10 no_key) = {..<10}" by (auto simp: free_entries_def no_key_def)
  then show ?thesis by (intro keys_refine_map) (simp_all add: keys_inv_def no_key_def new_key_def)
qed

lemma full_table_add_witness:
  "\<exists>ok ctx'. add_md5_key (demo_env demo_driver) (mk_of 11 [0x61]) (demo_ctx full_keys 9 1) = Some (ok, ctx')
    \<and> mKey (ntpSta ctx') = full_keys \<and> md5_key_read (demo_env demo_driver) TBL_MD5_KEY (demo_ctx full_keys 9 1) = None"
proof -
  have "new_key 11 [0x61]" by (simp add: new_key_def)
  then show ?thesis
    using full_table_add[of "demo_ctx full_keys 9 1" 11 "[0x61]" "demo_ctx full_keys 9 1" "(replicate 24 (Some ''7''), 11, 2)"
        "demo_env demo_driver" "db_lock demo_db [] @ [Query ''select md5_id, md5_key from TBL_MD5_KEY;'']"] full_keys_facts
    by (auto simp: demo_ctx_def demo_env_def demo_db_def db_get_table_def)
qed

end
