(* ===== verification/NtpSettings.thy ===== *)
theory NtpSettings
  imports NtpKeys
begin

text \<open>
  Invariants of the settings of the NTP server under all messages of \<^verbatim>\<open>src/d-ntp/dntp_parser.c\<close>. The
  interface says what an invariant has to admit: the changes that the handlers make under their
  checks. Two invariants provide it: the number of keys, and the ranges and sizes of all fields.
\<close>

section \<open>The interface of an invariant\<close>

text \<open>Buffers keep their sizes.\<close>

definition same_sizes :: "veth \<Rightarrow> veth \<Rightarrow> bool" where
  "same_sizes v w \<longleftrightarrow> length (v_ip v) = length (v_ip w) \<and> length (v_mask v) = length (v_mask w)
     \<and> length (v_gateway v) = length (v_gateway w) \<and> length (v_mac v) = length (v_mac w)"

locale setting_invariant =
  fixes J :: "ntpsta \<Rightarrow> bool" and typed_key :: "ntpmk \<Rightarrow> bool" and typed_port :: "int \<Rightarrow> bool"
  assumes J_bc: "J s \<Longrightarrow> bcEnable bc = 0 \<or> bcEnable bc = 1 \<Longrightarrow> MIN_BCAST_ITVL \<le> bcInterval bc \<Longrightarrow>
      bcInterval bc \<le> MAX_BCAST_ITVL \<Longrightarrow> J (s\<lparr>bCast := bc\<rparr>)"
    and J_ve: "J s \<Longrightarrow> 0 \<le> ve \<Longrightarrow> ve \<le> 7 \<Longrightarrow> J (s\<lparr>VnEnable := ve\<rparr>)"
    and J_me: "J s \<Longrightarrow> me = 0 \<or> me = 1 \<Longrightarrow> J (s\<lparr>md5Enable := me\<rparr>)"
    and J_add: "J s \<Longrightarrow> typed_key mk \<Longrightarrow> key_valid mk = Some True \<Longrightarrow> keys_add mk (mKey s) = Some ks \<Longrightarrow> J (s\<lparr>mKey := ks\<rparr>)"
    and J_del: "J s \<Longrightarrow> keys_del i (mKey s) = Some ks \<Longrightarrow> J (s\<lparr>mKey := ks\<rparr>)"
    and J_mod: "J s \<Longrightarrow> typed_key mk \<Longrightarrow> key_valid mk = Some True \<Longrightarrow> keys_mod mk (mKey s) = Some ks \<Longrightarrow> J (s\<lparr>mKey := ks\<rparr>)"
    and J_vp: "J s \<Longrightarrow> arr (vp s) i = Some v \<Longrightarrow> same_sizes w v \<Longrightarrow> v_port w = v_port v \<or> typed_port (v_port w) \<Longrightarrow>
      J (s\<lparr>vp := (vp s)[nat i := w]\<rparr>)"
begin

definition holds :: "ntpCtx \<Rightarrow> bool" where "holds ctx = J (ntpSta ctx)"

definition keeps :: "(ntpCtx \<Rightarrow> (bool \<times> ntpCtx) option) \<Rightarrow> bool" where
  "keeps f \<longleftrightarrow> (\<forall>c x. holds c \<longrightarrow> f c = Some x \<longrightarrow> holds (snd x))"

lemma keepsI: "(\<And>c x. holds c \<Longrightarrow> f c = Some x \<Longrightarrow> holds (snd x)) \<Longrightarrow> keeps f"
  by (auto simp: keeps_def)

lemma keepsD: "keeps f \<Longrightarrow> holds c \<Longrightarrow> f c = Some x \<Longrightarrow> holds (snd x)"
  by (cases x) (auto simp: keeps_def)

lemma keeps_total: "(\<And>c. holds c \<Longrightarrow> holds (snd (f c))) \<Longrightarrow> keeps (\<lambda>c. Some (f c))"
  by (auto simp: keeps_def)

lemma keeps_andthen: "keeps f \<Longrightarrow> keeps g \<Longrightarrow> keeps (\<lambda>c. andthen (f c) g)"
proof (rule keepsI)
  fix c x
  assume f: "keeps f" and g: "keeps g" and c: "holds c" and x: "andthen (f c) g = Some x"
  obtain b d where d: "f c = Some (b, d)" using x by (cases "f c") (auto simp: andthen_def)
  then have "holds d" using keepsD[OF f c d] by simp
  then show "holds (snd x)" using x d keepsD[OF g, of d x] by (cases b) (auto simp: andthen_def)
qed

text \<open>The data bases, the shared memory and the system calls leave the settings.\<close>

lemma holds_put [simp]: "holds (snd (put_db env sql ctx)) = holds ctx" "holds (snd (put_veth env sql ctx)) = holds ctx"
  "holds (snd (writeConfig env ctx)) = holds ctx" "holds (snd (sys_call env ctx)) = holds ctx"
  "holds (put_port n p ctx) = holds ctx" "holds (ctx\<lparr>bc_timer := b\<rparr>) = holds ctx" "holds (ctx\<lparr>pVethDb := h\<rparr>) = holds ctx"
  "holds (ctx\<lparr>gSyslogEn := z\<rparr>) = holds ctx" "holds (ctx\<lparr>gDbgLevel := z\<rparr>) = holds ctx"
  by (simp_all add: holds_def put_port_def)

lemma holds_putD: "put_db env sql c = (a, b) \<Longrightarrow> holds b = holds c" "put_veth env sql c = (a, b) \<Longrightarrow> holds b = holds c"
  "sys_call env c = (a, b) \<Longrightarrow> holds b = holds c" "writeConfig env c = (a, b) \<Longrightarrow> holds b = holds c"
  by (metis holds_put snd_conv)+

lemma holds_put_veth:
  "holds c \<Longrightarrow> arr (vp (ntpSta c)) (n - 1) = Some v \<Longrightarrow> same_sizes w v \<Longrightarrow> v_port w = v_port v \<or> typed_port (v_port w) \<Longrightarrow>
   holds (put_veth_state n w c)"
  using J_vp by (simp add: holds_def put_veth_state_def)

lemma memcpy_length: "memcpy buf xs = Some b \<Longrightarrow> length b = length buf"
  by (auto simp: memcpy_def split: if_splits)

lemma set_text_length: "set_text buf s = Some b \<Longrightarrow> length b = length buf"
  by (auto simp: set_text_def dest: memcpy_length)

lemma same_sizes_update [simp]:
  "same_sizes (v\<lparr>v_ip := b\<rparr>) v \<longleftrightarrow> length b = length (v_ip v)" "same_sizes (v\<lparr>v_mask := b\<rparr>) v \<longleftrightarrow> length b = length (v_mask v)"
  "same_sizes (v\<lparr>v_gateway := b\<rparr>) v \<longleftrightarrow> length b = length (v_gateway v)" "same_sizes (v\<lparr>v_mac := b\<rparr>) v \<longleftrightarrow> length b = length (v_mac v)"
  "same_sizes (v\<lparr>v_port := n\<rparr>) v"
  by (simp_all add: same_sizes_def)

lemma keeps_set_ip: "keeps (set_ip v)"
proof (rule keepsI)
  fix c x
  assume c: "holds c" and x: "set_ip v c = Some x"
  have "holds (put_veth_state (v_port v) (u\<lparr>v_ip := b\<rparr>) c)"
    if "arr (vp (ntpSta c)) (v_port v - 1) = Some u" "set_text (v_ip u) s = Some b" for u b s
    using holds_put_veth[OF c that(1)] set_text_length[OF that(2)] by simp
  then show "holds (snd x)" using c x
    by (auto simp: set_ip_def Let_def simp del: arr_None_iff split: option.splits bool.splits)
qed

lemma keeps_set_mask: "keeps (set_mask v)"
proof (rule keepsI)
  fix c x
  assume c: "holds c" and x: "set_mask v c = Some x"
  have "holds (put_veth_state (v_port v) (u\<lparr>v_mask := b\<rparr>) c)"
    if "arr (vp (ntpSta c)) (v_port v - 1) = Some u" "set_text (v_mask u) s = Some b" for u b s
    using holds_put_veth[OF c that(1)] set_text_length[OF that(2)] by simp
  then show "holds (snd x)" using c x
    by (auto simp: set_mask_def Let_def simp del: arr_None_iff split: option.splits bool.splits)
qed

lemma keeps_set_gateway: "keeps (set_gateway v)"
proof (rule keepsI)
  fix c x
  assume c: "holds c" and x: "set_gateway v c = Some x"
  have "holds (put_veth_state (v_port v) (u\<lparr>v_gateway := b\<rparr>) c)"
    if "arr (vp (ntpSta c)) (v_port v - 1) = Some u" "set_text (v_gateway u) s = Some b" for u b s
    using holds_put_veth[OF c that(1)] set_text_length[OF that(2)] by simp
  then show "holds (snd x)" using c x
    by (auto simp: set_gateway_def Let_def simp del: arr_None_iff split: option.splits bool.splits)
qed

lemma keeps_read_eth: "keeps (read_eth env tbl n)"
proof (rule keepsI)
  fix c x
  assume c: "holds c" and x: "read_eth env tbl n c = Some x"
  have "J ((ntpSta c)\<lparr>vp := (vp (ntpSta c))[nat (n - 1) := u\<lparr>v_mac := b\<rparr>]\<rparr>)"
    if "arr (vp (ntpSta c)) (n - 1) = Some u" "memcpy (v_mac u) s = Some b" for u b s
    using J_vp[OF _ that(1)] c memcpy_length[OF that(2)] by (simp add: holds_def)
  then show "holds (snd x)" using c x
    by (auto simp: read_eth_def db_get_table_def holds_def split: option.splits)
qed

lemma keeps_small: "keeps (check_ip env v)" "keeps (set_port_name v)" "keeps (write_virtual_eth env v tbl)"
  by (auto simp: check_ip_def set_port_name_def write_virtual_eth_def Let_def holds_putD intro!: keepsI
      split: option.splits bool.splits if_splits)

lemma keeps_set_port_number: "typed_port (v_port v) \<Longrightarrow> keeps (set_port_number v)"
  by (auto simp: set_port_number_def intro!: keepsI holds_put_veth simp del: arr_None_iff split: option.splits)

lemma keeps_sysVport: "typed_port (v_port v) \<Longrightarrow> keeps (sysVport env v)"
  unfolding sysVport_def
  by (intro keeps_andthen keeps_small keeps_set_port_number keeps_set_ip keeps_read_eth keeps_set_mask keeps_set_gateway)

lemma holds_keys:
  "holds c \<Longrightarrow> typed_key mk \<Longrightarrow> key_valid mk = Some True \<Longrightarrow> keys_add mk (mKey (ntpSta c)) = Some ks \<Longrightarrow> holds (put_keys ks c)"
  "holds c \<Longrightarrow> keys_del i (mKey (ntpSta c)) = Some ks \<Longrightarrow> holds (put_keys ks c)"
  "holds c \<Longrightarrow> typed_key mk \<Longrightarrow> key_valid mk = Some True \<Longrightarrow> keys_mod mk (mKey (ntpSta c)) = Some ks \<Longrightarrow> holds (put_keys ks c)"
  by (simp_all add: holds_def put_keys_def J_add J_del J_mod)

lemma keeps_keys: "typed_key mk \<Longrightarrow> keeps (add_md5_key env mk)" "keeps (del_md5_key env mk)"
  "typed_key mk \<Longrightarrow> keeps (mod_md5_key env mk)"
  by (auto intro!: keepsI dest!: holds_putD simp: add_md5_key_def del_md5_key_def mod_md5_key_def md5_key_add_def
      md5_key_del_def md5_key_mod_def holds_keys split: option.splits bool.splits if_splits)

lemma keeps_false: "keeps (\<lambda>c. Some (False, c))"
  by (rule keepsI) auto

lemma holds_broadcast: "broadcast_enable env c = (a, b) \<Longrightarrow> holds b = holds c" "broadcast_disable env c = (a, b) \<Longrightarrow> holds b = holds c"
  by (auto simp: broadcast_enable_def broadcast_disable_def dest!: holds_putD split: prod.splits if_splits)

lemma holds_bc: "holds c \<Longrightarrow> holds (snd (mod_broadcast_enable_interval env bc c))"
proof -
  assume "holds c"
  then have "holds (c\<lparr>ntpSta := (ntpSta c)\<lparr>bCast := bc\<rparr>\<rparr>)"
    if "bcEnable bc = 0 \<or> bcEnable bc = 1" "MIN_BCAST_ITVL \<le> bcInterval bc" "bcInterval bc \<le> MAX_BCAST_ITVL"
    using that J_bc by (simp add: holds_def)
  then show ?thesis using \<open>holds c\<close>
    by (auto simp: mod_broadcast_enable_interval_def broadcast_enable_interval_write_def Let_def
        dest!: holds_broadcast split: prod.splits)
qed

lemma keeps_settings:
  "keeps (\<lambda>c. Some (mod_broadcast_enable_interval env bc c))" "keeps (\<lambda>c. Some (mod_version_enable env ve c))"
  "keeps (\<lambda>c. Some (mod_md5_enable env me c))" "keeps (\<lambda>c. Some (mod_log_level d c))" "keeps (\<lambda>c. Some (writeConfig env c))"
  by (rule keeps_total; simp add: holds_bc mod_version_enable_def mod_md5_enable_def mod_log_level_def
      set_print_level_def version_enable_write_def md5_enable_write_def Let_def; simp add: holds_def J_ve J_me)+

fun typed_msg :: "ntp_msg \<Rightarrow> bool" where
  "typed_msg (MSG_CFG_NTP_MK_ADD mk) = typed_key mk"
| "typed_msg (MSG_CFG_NTP_MK_MOD mk) = typed_key mk"
| "typed_msg (MSG_CFG_NTP_VP v) = typed_port (v_port v)"
| "typed_msg m = True"

lemma keeps_handle: "typed_msg msg \<Longrightarrow> keeps (handle_msg env msg)"
  by (cases msg) (simp_all add: handle_msg_def[abs_def] keeps_andthen keeps_settings keeps_keys keeps_sysVport keeps_false)

lemma keeps_queue: "\<forall>m. Rcv m \<in> set q \<longrightarrow> typed_msg m \<Longrightarrow> keeps (ReadMessageQueue env q)"
proof (induction q)
  case (Cons r q)
  show ?case
  proof (cases r)
    case (Rcv m)
    then have "typed_msg m" "keeps (ReadMessageQueue env q)" using Cons by auto
    then show ?thesis using keeps_andthen[OF keeps_handle] Rcv by simp
  qed (auto intro!: keepsI)
qed (auto intro!: keepsI)

end

section \<open>The number of the keys\<close>

interpretation total: setting_invariant "\<lambda>s. totalKey s = n" "\<lambda>_. True" "\<lambda>_. True" for n
  by unfold_locales auto

lemma typed_any: "total.typed_msg m"
  by (cases m) auto

lemma total_key_kept:
  assumes "ReadMessageQueue env q ctx = Some (ok, ctx')" "totalKey (ntpSta ctx) = n"
  shows "totalKey (ntpSta ctx') = n"
  using total.keepsD[OF total.keeps_queue, of q n ctx env "(ok, ctx')"] assms typed_any
  by (simp add: total.holds_def)

section \<open>The ranges and sizes of the settings\<close>

definition key_ok :: "ntpmk \<Rightarrow> bool" where
  "key_ok k \<longleftrightarrow> 0 \<le> md5Len k \<and> md5Len k \<le> 20 \<and> length (md5Key k) = 21"

definition veth_ok :: "veth \<Rightarrow> bool" where
  "veth_ok v \<longleftrightarrow> 0 \<le> v_port v \<and> v_port v < 256 \<and> length (v_ip v) = 16 \<and> length (v_mask v) = 16
     \<and> length (v_gateway v) = 16 \<and> length (v_mac v) = 18"

definition typed_sta :: "ntpsta \<Rightarrow> bool" where
  "typed_sta s \<longleftrightarrow> bcEnable (bCast s) \<in> {0, 1} \<and> 1 \<le> bcInterval (bCast s) \<and> bcInterval (bCast s) \<le> 1024
     \<and> 0 \<le> VnEnable s \<and> VnEnable s \<le> 7 \<and> md5Enable s \<in> {0, 1}
     \<and> length (mKey s) = 10 \<and> list_all key_ok (mKey s) \<and> length (vp s) = 21 \<and> list_all veth_ok (vp s)"

text \<open>What the type of a message says of a key and of a port number.\<close>

definition key_message :: "ntpmk \<Rightarrow> bool" where
  "key_message mk \<longleftrightarrow> length (md5Key mk) = 21"

definition port_message :: "int \<Rightarrow> bool" where
  "port_message n \<longleftrightarrow> 0 \<le> n \<and> n < 256"

lemma key_valid_length: "key_valid mk = Some True \<Longrightarrow> 0 < md5Len mk \<and> md5Len mk \<le> 20"
  by (auto simp: key_valid_def MAX_MD5KEY_LEN_def split: if_splits)

lemma list_all_update: "list_all P xs \<Longrightarrow> P x \<Longrightarrow> list_all P (xs[i := x])"
  using set_update_subset_insert[of xs i x] by (auto simp: list_all_iff)

lemma keys_ok:
  "list_all key_ok ks \<Longrightarrow> key_message mk \<Longrightarrow> key_valid mk = Some True \<Longrightarrow> keys_add mk ks = Some ks' \<Longrightarrow>
    list_all key_ok ks' \<and> length ks' = length ks"
  "list_all key_ok ks \<Longrightarrow> keys_del i ks = Some ks' \<Longrightarrow> list_all key_ok ks' \<and> length ks' = length ks"
  "list_all key_ok ks \<Longrightarrow> key_message mk \<Longrightarrow> key_valid mk = Some True \<Longrightarrow> keys_mod mk ks = Some ks' \<Longrightarrow>
    list_all key_ok ks' \<and> length ks' = length ks"
  by (auto simp: keys_add_def keys_del_def keys_mod_def key_ok_def key_message_def no_key_def
      intro!: list_all_update dest!: key_valid_length split: if_splits option.splits)

interpretation typed: setting_invariant typed_sta key_message port_message
proof unfold_locales
  fix s :: ntpsta and i v w
  assume s: "typed_sta s" and v: "arr (vp s) i = Some v" and w: "same_sizes w v"
    "v_port w = v_port v \<or> port_message (v_port w)"
  have "veth_ok v" using s arr_in_set[OF v] by (simp add: typed_sta_def list_all_iff)
  then have "veth_ok w" using w by (auto simp: veth_ok_def same_sizes_def port_message_def)
  then show "typed_sta (s\<lparr>vp := (vp s)[nat i := w]\<rparr>)" using s by (simp add: typed_sta_def list_all_update)
qed (auto simp: typed_sta_def MIN_BCAST_ITVL_def MAX_BCAST_ITVL_def dest: keys_ok)

text \<open>The types of the messages: the sizes of their fields.\<close>

fun message_ok :: "ntp_msg \<Rightarrow> bool" where
  "message_ok (MSG_CFG_NTP_MK_ADD mk) = (length (md5Key mk) = 21)"
| "message_ok (MSG_CFG_NTP_MK_MOD mk) = (length (md5Key mk) = 21)"
| "message_ok (MSG_CFG_NTP_VP v) = (0 \<le> v_port v \<and> v_port v < 256)"
| "message_ok m = True"

lemma message_ok_typed: "typed.typed_msg m = message_ok m"
  by (cases m) (simp_all add: key_message_def port_message_def)

text \<open>
  C24: the settings keep their types and ranges over every sequence of messages whose handling C defines: the broadcast and MD5
  flags are 0 or 1, the interval is between 1 and 1024, the versions are three bits, every key fits
  its buffer, and no array or buffer changes its size. A message for a virtual port that the table does not have (0, or 22 and
  more, with an address also 21) reaches outside of a table, because its number is not checked; nothing is claimed of it, nor of
  a message with a text that has no end in its buffer.
\<close>

theorem settings_typed:
  assumes "typed_sta (ntpSta ctx)" "\<forall>m. Rcv m \<in> set q \<longrightarrow> message_ok m"
    "ReadMessageQueue env q ctx = Some (ok, ctx')"
  shows "typed_sta (ntpSta ctx')"
  using typed.keepsD[OF typed.keeps_queue, of q ctx env "(ok, ctx')"] assms
  by (simp add: typed.holds_def message_ok_typed)

definition typed_ctx :: ntpCtx where
  "typed_ctx = (demo_ctx (replicate 10 no_key) 0 1)\<lparr>ntpSta := (ntpSta (demo_ctx (replicate 10 no_key) 0 1))
     \<lparr>vp := replicate 21 \<lparr>v_port = 1, v_ip = replicate 16 0, v_mask = replicate 16 0, v_gateway = replicate 16 0,
        v_mac = replicate 18 0\<rparr>\<rparr>\<rparr>"

lemma settings_typed_witness:
  "\<exists>ok ctx'. ReadMessageQueue (demo_env demo_driver) [Rcv (MSG_CFG_NTP_ME 0), Rcv (MSG_CFG_NTP_VE 9)] typed_ctx = Some (ok, ctx')
    \<and> typed_sta (ntpSta ctx')"
proof -
  have t: "typed_sta (ntpSta typed_ctx)"
    by (simp add: typed_ctx_def demo_ctx_def typed_sta_def key_ok_def no_key_def veth_ok_def list_all_iff)
  let ?e = "demo_env demo_driver"
  obtain b c where m: "mod_md5_enable ?e 0 typed_ctx = (b, c)" by (cases "mod_md5_enable ?e 0 typed_ctx")
  obtain b2 c2 where w: "writeConfig ?e c = (b2, c2)" by (cases "writeConfig ?e c")
  obtain b3 c3 where v: "mod_version_enable ?e 9 c2 = (b3, c3)" by (cases "mod_version_enable ?e 9 c2")
  obtain b4 c4 where w2: "writeConfig ?e c3 = (b4, c4)" by (cases "writeConfig ?e c3")
  have "\<exists>ok ctx'. ReadMessageQueue ?e [Rcv (MSG_CFG_NTP_ME 0), Rcv (MSG_CFG_NTP_VE 9)] typed_ctx = Some (ok, ctx')"
    by (cases b; cases b2; cases b3; cases b4) (auto simp: handle_msg_def andthen_def m w v w2)
  then obtain ok ctx' where r: "ReadMessageQueue ?e [Rcv (MSG_CFG_NTP_ME 0), Rcv (MSG_CFG_NTP_VE 9)] typed_ctx = Some (ok, ctx')"
    by blast
  show ?thesis using settings_typed[OF t _ r] r by auto
qed

end
