(* ===== verification/AllocCommon.thy ===== *)
theory AllocCommon
  imports Fpga
begin

unbundle bit_operations_syntax

text \<open>
  What the daemons share of the FPGA, \<^verbatim>\<open>src/alloc/common.c\<close>: the type and state of the clock, the phase
  of the system, and the check that the FPGA runs.
\<close>

section \<open>Operations\<close>

definition SysReadClockType :: "driver \<Rightarrow> request list \<Rightarrow> int option \<times> request list" where
  "SysReadClockType drv rs = FpgaRead drv FPGA_RBXO_TYP rs"

definition SysReadClockStatus :: "driver \<Rightarrow> request list \<Rightarrow> int option \<times> request list" where
  "SysReadClockStatus drv rs = FpgaRead drv FPGA_RBXO_STA rs"

text \<open>The phase: bit 23 of the two registers is a sign. It is kept when the second read fails.\<close>

definition sign_magnitude :: "int \<Rightarrow> int" where
  "sign_magnitude phase =
     (let sign = (if bit phase 23 then - 1 else 1) in (phase AND NOT (push_bit 23 1)) * sign)"

definition SysReadPhase :: "driver \<Rightarrow> request list \<Rightarrow> int option \<times> request list" where
  "SysReadPhase drv rs =
     (case FpgaRead drv FPGA_SYS_PH_LOW16 rs of
        (None, rs) \<Rightarrow> (None, rs)
      | (Some ph_low, rs) \<Rightarrow>
          (case FpgaRead drv FPGA_SYS_PH_HIGH12 rs of
             (None, rs) \<Rightarrow> (None, rs)
           | (Some ph_high, rs) \<Rightarrow> (Some (sign_magnitude (s32 (push_bit 16 ph_high OR ph_low))), rs)))"

definition CHECK_FPGA_RUN_STATUS_VAL :: int where "CHECK_FPGA_RUN_STATUS_VAL = 0xAD52"

text \<open>The FPGA runs when the register that is written reads as the complement.\<close>

definition SysCheckFpgaRunStatus :: "driver \<Rightarrow> request list \<Rightarrow> bool \<times> request list" where
  "SysCheckFpgaRunStatus drv rs =
     (case FpgaWrite drv FPGA_CHECK_RUN_STATUS CHECK_FPGA_RUN_STATUS_VAL rs of
        (False, rs) \<Rightarrow> (False, rs)
      | (True, rs) \<Rightarrow>
          (case FpgaRead drv FPGA_CHECK_RUN_STATUS rs of
             (None, rs) \<Rightarrow> (False, rs)
           | (Some v, rs) \<Rightarrow> (u16 (NOT CHECK_FPGA_RUN_STATUS_VAL) = v, rs)))"

text \<open>Waiting has no end of its own: a driver that never answers gives no value.\<close>

partial_function (option) SysWaitFpgaRunStatusOk :: "driver \<Rightarrow> request list \<Rightarrow> request list option" where
  "SysWaitFpgaRunStatusOk drv rs =
     (case SysCheckFpgaRunStatus drv rs of (ok, rs) \<Rightarrow> if ok then Some rs else SysWaitFpgaRunStatusOk drv rs)"

section \<open>Reading a sign and a magnitude\<close>

lemma sign_magnitude_pos:
  assumes "0 \<le> m" "m < 8388608"
  shows "sign_magnitude m = m"
proof -
  have t: "take_bit 23 m = m" using assms by (simp add: take_bit_int_eq_self)
  have "\<not> bit m 23" by (subst t[symmetric]) (simp add: bit_take_bit_iff)
  moreover from this have "unset_bit 23 m = m" by (intro bit_eqI) (auto simp: bit_unset_bit_iff)
  ultimately show ?thesis by (simp add: sign_magnitude_def unset_bit_eq_and_not)
qed

lemma sign_magnitude_neg:
  assumes "0 \<le> m" "m < 8388608"
  shows "sign_magnitude (8388608 + m) = - m"
proof -
  have t: "take_bit 23 m = m" using assms by (simp add: take_bit_int_eq_self)
  have o: "push_bit 23 1 OR m = 8388608 + m" using or_low[of m 23 1] assms by simp
  have n: "\<not> bit m k" if "23 \<le> k" for k
    by (subst t[symmetric]) (use that in \<open>simp add: bit_take_bit_iff\<close>)
  have "bit (8388608 + m) 23" unfolding o[symmetric] by (simp add: bit_or_iff bit_push_bit_iff)
  moreover have "bit (unset_bit 23 (push_bit 23 1 OR m)) k \<longleftrightarrow> bit m k" for k
    using n[of k] by (auto simp only: bit_unset_bit_iff bit_or_iff bit_push_bit_iff bit_1_iff)
  then have "unset_bit 23 (8388608 + m) = m" unfolding o by (intro bit_eqI) simp
  ultimately show ?thesis by (simp add: sign_magnitude_def unset_bit_eq_and_not)
qed

section \<open>Waiting\<close>

text \<open>The requests after some checks that fail.\<close>

fun after_checks :: "nat \<Rightarrow> driver \<Rightarrow> request list \<Rightarrow> request list" where
  "after_checks 0 drv rs = rs"
| "after_checks (Suc n) drv rs = after_checks n drv (snd (SysCheckFpgaRunStatus drv rs))"

definition runs_after :: "nat \<Rightarrow> driver \<Rightarrow> request list \<Rightarrow> bool" where
  "runs_after n drv rs = fst (SysCheckFpgaRunStatus drv (after_checks n drv rs))"

lemma runs_after_Suc: "runs_after (Suc n) drv rs = runs_after n drv (snd (SysCheckFpgaRunStatus drv rs))"
  by (simp add: runs_after_def)

lemma wait_returns:
  "runs_after n drv rs \<Longrightarrow> \<exists>k \<le> n. runs_after k drv rs \<and> (\<forall>j < k. \<not> runs_after j drv rs)
     \<and> SysWaitFpgaRunStatusOk drv rs = Some (after_checks (Suc k) drv rs)"
proof (induction n arbitrary: rs)
  case 0
  then show ?case by (subst SysWaitFpgaRunStatusOk.simps) (auto simp: runs_after_def split: prod.splits)
next
  case (Suc n)
  show ?case
  proof (cases "runs_after 0 drv rs")
    case True
    then show ?thesis
      by (intro exI[of _ 0], subst SysWaitFpgaRunStatusOk.simps) (auto simp: runs_after_def split: prod.splits)
  next
    case False
    then have w: "SysWaitFpgaRunStatusOk drv rs = SysWaitFpgaRunStatusOk drv (snd (SysCheckFpgaRunStatus drv rs))"
      by (subst SysWaitFpgaRunStatusOk.simps) (auto simp: runs_after_def split: prod.splits)
    obtain k where k: "k \<le> n" "runs_after (Suc k) drv rs" "\<forall>j < k. \<not> runs_after (Suc j) drv rs"
      "SysWaitFpgaRunStatusOk drv rs = Some (after_checks (Suc (Suc k)) drv rs)"
      using Suc.IH[of "snd (SysCheckFpgaRunStatus drv rs)"] Suc.prems w by (auto simp: runs_after_Suc)
    have "\<not> runs_after j drv rs" if "j < Suc k" for j using that False k(3) by (cases j) auto
    then show ?thesis using k(1,2,4) by (intro exI[of _ "Suc k"]) blast
  qed
qed

lemma wait_runs:
  assumes "SysWaitFpgaRunStatusOk drv rs = Some rs'"
  shows "\<exists>n. runs_after n drv rs"
proof (rule SysWaitFpgaRunStatusOk.raw_induct[where P = "\<lambda>drv rs _. \<exists>n. runs_after n drv rs", OF _ assms])
  fix wait drv rs rs'
  assume ih: "\<And>drv rs rs'. wait drv rs = Some rs' \<Longrightarrow> \<exists>n. runs_after n drv rs"
    and r: "(case SysCheckFpgaRunStatus drv rs of (ok, rs) \<Rightarrow> if ok then Some rs else wait drv rs) = Some rs'"
  show "\<exists>n. runs_after n drv rs"
  proof (cases "fst (SysCheckFpgaRunStatus drv rs)")
    case True
    then show ?thesis by (intro exI[of _ 0]) (simp add: runs_after_def)
  next
    case False
    then have "wait drv (snd (SysCheckFpgaRunStatus drv rs)) = Some rs'" using r by (auto split: prod.splits)
    then obtain n where "runs_after n drv (snd (SysCheckFpgaRunStatus drv rs))" using ih by blast
    then show ?thesis by (intro exI[of _ "Suc n"]) (simp add: runs_after_Suc)
  qed
qed

text \<open>
  The waiting for the FPGA returns exactly when some check succeeds, and then after the first
  one that does; with an FPGA that never runs it does not return.
\<close>

theorem wait_exact:
  "SysWaitFpgaRunStatusOk drv rs
     = (if \<exists>n. runs_after n drv rs then Some (after_checks (Suc (LEAST n. runs_after n drv rs)) drv rs) else None)"
proof (cases "\<exists>n. runs_after n drv rs")
  case True
  then obtain n k where "runs_after k drv rs" "\<forall>j < k. \<not> runs_after j drv rs"
    "SysWaitFpgaRunStatusOk drv rs = Some (after_checks (Suc k) drv rs)"
    using wait_returns by blast
  moreover from this(1,2) have "(LEAST n. runs_after n drv rs) = k"
    by (intro Least_equality) (auto simp: not_less[symmetric])
  ultimately show ?thesis using True by simp
next
  case False
  then show ?thesis using wait_runs by (cases "SysWaitFpgaRunStatusOk drv rs") auto
qed

end
