(* ===== verification/NtpServer.thy ===== *)
theory NtpServer
  imports NtpParser LibMd5 NtpPool AllocCommon
begin

unbundle bit_operations_syntax

text \<open>
  The NTP server, \<^verbatim>\<open>src/d-ntp/dntp_server.c\<close> and \<^verbatim>\<open>src/d-ntp/ntp_gettime.c\<close>: the time of the FPGA, the
  reception of requests, the responses, the broadcasts, and what the main loop does with a frame.
\<close>

section \<open>Packets\<close>

text \<open>
  \<open>struct ntpkt\<close>; the fields of more than one byte are the bytes in memory, which is also their
  order on the wire, since the code stores them with \<open>htonl\<close>.
\<close>

record ntpkt =
  LVM :: "8 word"
  Stratum :: "8 word"
  Poll :: "8 word"
  Precision :: "8 word"
  RootDelay :: bytes
  RootDispersion :: bytes
  RefId :: bytes
  RefStamp :: bytes
  OrgStamp :: bytes
  RecStamp :: bytes
  TranStamp :: bytes
  KeyId :: bytes
  Digest :: bytes

definition NTP_PKT_MAC :: nat where "NTP_PKT_MAC = 68"
definition NTP_PKT_NOMAC :: nat where "NTP_PKT_NOMAC = 48"

definition pkt_bytes :: "ntpkt \<Rightarrow> bytes" where
  "pkt_bytes p = [LVM p, Stratum p, Poll p, Precision p] @ RootDelay p @ RootDispersion p @ RefId p
     @ RefStamp p @ OrgStamp p @ RecStamp p @ TranStamp p @ KeyId p @ Digest p"

definition pkt_of_bytes :: "bytes \<Rightarrow> ntpkt" where
  "pkt_of_bytes b = \<lparr>LVM = b ! 0, Stratum = b ! 1, Poll = b ! 2, Precision = b ! 3,
     RootDelay = sub b 4 4, RootDispersion = sub b 8 4, RefId = sub b 12 4, RefStamp = sub b 16 8,
     OrgStamp = sub b 24 8, RecStamp = sub b 32 8, TranStamp = sub b 40 8, KeyId = sub b 48 4,
     Digest = sub b 52 16\<rparr>"

record ntpreq =
  recvTime :: timeval
  recvAddr :: recvaddr
  recvPkt :: ntpkt

text \<open>\<open>HTONL_TS\<close>: a time stamp as it is in the packet.\<close>

definition HTONL_TS :: "l_fp \<Rightarrow> bytes" where
  "HTONL_TS t = be32_bytes (l_ui t) @ be32_bytes (l_uf t)"

definition DCLS :: bytes where "DCLS = [0x44, 0x43, 0x4C, 0x53]"

definition be32 :: "bytes \<Rightarrow> int" where
  "be32 b = 16777216 * uint (b ! 0) + 65536 * uint (b ! 1) + 256 * uint (b ! 2) + uint (b ! 3)"

section \<open>The time of the FPGA\<close>

text \<open>The time is latched by a write of 0 and of 1 and read from five registers, up to a failure.\<close>

fun read_regs :: "driver \<Rightarrow> int list \<Rightarrow> request list \<Rightarrow> int list option \<times> request list" where
  "read_regs drv [] rs = (Some [], rs)"
| "read_regs drv (a # as) rs =
     (case FpgaRead drv a rs of
        (None, rs) \<Rightarrow> (None, rs)
      | (Some v, rs) \<Rightarrow> (case read_regs drv as rs of (r, rs) \<Rightarrow> (map_option ((#) v) r, rs)))"

definition time_regs :: "int list" where
  "time_regs = [FPGA_SYS_HIGH_MICO_SEC, FPGA_SYS_LOW_MICO_SEC, FPGA_SYS_HIGH_SECOND,
     FPGA_SYS_MED_SECOND, FPGA_SYS_LOW_SECOND]"

definition latch_time :: "driver \<Rightarrow> request list \<Rightarrow> int list option \<times> request list" where
  "latch_time drv rs =
     (case FpgaWrite drv FPGA_SYS_LOCK_TIME 0 rs of
        (False, rs) \<Rightarrow> (None, rs)
      | (True, rs) \<Rightarrow> (case FpgaWrite drv FPGA_SYS_LOCK_TIME 1 rs of
          (False, rs) \<Rightarrow> (None, rs)
        | (True, rs) \<Rightarrow> read_regs drv time_regs rs))"

text \<open>
  \<open>time_t\<close> has 32 bits (a comment of the code gives the sizes), so the high part of the seconds is
  lost in the conversion; the parts do not overlap. The time is set back by 130 microseconds.
\<close>

definition moving_time :: "timeval \<Rightarrow> timeval" where
  "moving_time tv =
     (if tv_usec tv < 130 then \<lparr>tv_sec = s32 (tv_sec tv - 1), tv_usec = tv_usec tv + 999870\<rparr>
      else tv\<lparr>tv_usec := tv_usec tv - 130\<rparr>)"

definition fpga_time :: "int list \<Rightarrow> timeval" where
  "fpga_time v =
     moving_time \<lparr>tv_sec = s32 (s32 (push_bit 32 (v ! 2)) OR s32 (push_bit 16 (v ! 3)) OR v ! 4),
                  tv_usec = v ! 0 * 1000 + v ! 1\<rparr>"

definition ntpgettimefpga :: "driver \<Rightarrow> request list \<Rightarrow> timeval option \<times> request list" where
  "ntpgettimefpga drv rs =
     (case latch_time drv rs of (None, rs) \<Rightarrow> (None, rs) | (Some v, rs) \<Rightarrow> (Some (fpga_time v), rs))"

definition SEC1900_2018 :: int where "SEC1900_2018 = 0xDDF3F880"
definition SEC1900_2036 :: int where "SEC1900_2036 = 0xFFFFFFFF"

text \<open>The check of the time keeps the last time that it accepted.\<close>

definition time_faulty :: "int \<times> int \<Rightarrow> int \<times> int \<Rightarrow> bool" where
  "time_faulty pre cur \<longleftrightarrow> SEC1900_2018 > fst cur \<or> SEC1900_2036 < fst cur \<or> fst pre > fst cur
     \<or> (fst pre = fst cur \<and> snd pre = snd cur)"

definition check_values :: "int list \<Rightarrow> int \<times> int" where
  "check_values v = (push_bit 32 (v ! 2) OR push_bit 16 (v ! 3) OR v ! 4, u32 (v ! 0 * 1000 + v ! 1))"

definition ntpchecktimefpga :: "driver \<Rightarrow> ntpCtx \<Rightarrow> int \<times> ntpCtx" where
  "ntpchecktimefpga drv ctx =
     (case latch_time drv (reqs ctx) of
        (None, rs) \<Rightarrow> (- 1, ctx\<lparr>reqs := rs\<rparr>)
      | (Some v, rs) \<Rightarrow>
          (let cur = check_values v; ctx = ctx\<lparr>reqs := rs\<rparr>
           in if time_faulty (pre_tv_sec ctx, pre_tv_usec ctx) cur then (0, ctx)
              else (1, ctx\<lparr>pre_tv_sec := fst cur, pre_tv_usec := snd cur\<rparr>)))"

text \<open>The time in a variable that holds \<open>old\<close> before; a failed read leaves it.\<close>

definition time_into :: "driver \<Rightarrow> timeval \<Rightarrow> ntpCtx \<Rightarrow> timeval \<times> ntpCtx" where
  "time_into drv old ctx =
     (case ntpgettimefpga drv (reqs ctx) of (r, rs) \<Rightarrow>
        (case r of None \<Rightarrow> old | Some t \<Rightarrow> t, ctx\<lparr>reqs := rs\<rparr>))"

section \<open>The identifiers of the IP packets\<close>

text \<open>A word in memory, and the secret, which is never set.\<close>

definition load32 :: "bool \<Rightarrow> bytes \<Rightarrow> 32 word" where
  "load32 le b = (if le then push_bit 24 (ucast (b ! 3)) OR push_bit 16 (ucast (b ! 2)) OR push_bit 8 (ucast (b ! 1)) OR ucast (b ! 0)
     else push_bit 24 (ucast (b ! 0)) OR push_bit 16 (ucast (b ! 1)) OR push_bit 8 (ucast (b ! 2)) OR ucast (b ! 3))"

definition store32 :: "bool \<Rightarrow> 32 word \<Rightarrow> bytes" where
  "store32 le w = (if le then [ucast w, ucast (drop_bit 8 w), ucast (drop_bit 16 w), ucast (drop_bit 24 w)]
     else [ucast (drop_bit 24 w), ucast (drop_bit 16 w), ucast (drop_bit 8 w), ucast w])"

definition htonl :: "bool \<Rightarrow> 32 word \<Rightarrow> 32 word" where
  "htonl le w = load32 le (store32 False w)"

definition net_secret :: "32 word list" where "net_secret = replicate 16 0"

definition secure_ip_id :: "32 word \<Rightarrow> 32 word" where
  "secure_ip_id daddr =
     (case md5_transform (daddr, net_secret ! 13, net_secret ! 14, net_secret ! 15) (md5_encode net_secret) of
        (h, _) \<Rightarrow> h)"

definition ip_select_fb_ident :: "bool \<Rightarrow> recvaddr \<Rightarrow> ntpCtx \<Rightarrow> recvaddr \<times> ntpCtx" where
  "ip_select_fb_ident le a ctx =
     (let salt = secure_ip_id (ip_fallback_id ctx XOR load32 le (ra_ip a))
      in (a\<lparr>ra_id := be16_bytes (uint (salt AND 0xFFFF))\<rparr>, ctx\<lparr>ip_fallback_id := salt\<rparr>))"

text \<open>Sending is a system call.\<close>

definition net_send :: "ntpEnv \<Rightarrow> bytes \<Rightarrow> ntpCtx \<Rightarrow> bool \<times> ntpCtx" where
  "net_send env frame ctx =
     (case sys_call env ctx of (ok, ctx) \<Rightarrow> (ok, if ok then ctx\<lparr>sent := sent ctx @ [frame]\<rparr> else ctx))"

definition send_to :: "ntpEnv \<Rightarrow> bytes \<Rightarrow> recvaddr \<Rightarrow> ntpCtx \<Rightarrow> (bool \<times> ntpCtx) option" where
  "send_to env data a ctx =
     (case ip_select_fb_ident (ne_le env) a ctx of (a, ctx) \<Rightarrow>
        (case send_packet (ne_le env) (ne_buf1536 env) data a of
           None \<Rightarrow> None
         | Some frame \<Rightarrow> Some (net_send env frame ctx)))"

section \<open>Broadcast\<close>

definition lvm_byte :: "int \<Rightarrow> int \<Rightarrow> int \<Rightarrow> 8 word" where
  "lvm_byte li vn md = word_of_int (PKT_LI_VN_MODE li vn md)"

definition VnBroadcast :: "ntpEnv \<Rightarrow> int \<Rightarrow> recvaddr \<Rightarrow> ntpCtx \<Rightarrow> (bool \<times> ntpCtx) option" where
  "VnBroadcast env vn bcast_addr ctx =
     (let pkt = \<lparr>LVM = lvm_byte (leap_li ctx) vn 5, Stratum = 1, Poll = 4, Precision = - 20,
            RootDelay = replicate 4 0, RootDispersion = replicate 4 0, RefId = DCLS, RefStamp = replicate 8 0,
            OrgStamp = replicate 8 0, RecStamp = replicate 8 0, TranStamp = replicate 8 0,
            KeyId = replicate 4 0, Digest = replicate 16 0\<rparr>
      in case time_into (ne_fpga env) (ne_time env) ctx of (t, ctx) \<Rightarrow>
           (let pkt = pkt\<lparr>RefStamp := HTONL_TS (TVTOTS t)\<rparr>
            in case time_into (ne_fpga env) t ctx of (t, ctx) \<Rightarrow>
                 (let pkt = pkt\<lparr>TranStamp := HTONL_TS (TVTOTS t)\<rparr>
                  in send_to env (take NTP_PKT_NOMAC (pkt_bytes pkt)) bcast_addr ctx)))"

definition getBroadIp :: "bool \<Rightarrow> 32 word \<Rightarrow> 32 word \<Rightarrow> 32 word" where
  "getBroadIp le ip netmask = htonl le (htonl le ip OR NOT (htonl le netmask))"

text \<open>The versions that are enabled, in their order; the first failure ends the function.\<close>

definition VaBroadcast :: "ntpEnv \<Rightarrow> netport \<Rightarrow> ntpCtx \<Rightarrow> (bool \<times> ntpCtx) option" where
  "VaBroadcast env p ctx =
     (let le = ne_le env;
          a = \<lparr>ra_port = be16_bytes 123,
               ra_ip = store32 le (getBroadIp le (load32 le (pi_ip_a (np_info p))) (load32 le (np_mask_a p))),
               ra_mac = replicate 6 0xFF, ra_id = [0, 0], ra_info = np_info p\<rparr>;
          step = \<lambda>k vn ctx. if bit (VnEnable (ntpSta ctx)) k then VnBroadcast env vn a ctx else Some (True, ctx)
      in andthen (step 0 2 ctx) (\<lambda>ctx. andthen (step 1 3 ctx) (step 2 4)))"

text \<open>The handler of the timer: a failure on a port ends the daemon, after the other ports.\<close>

fun broadcastHandler :: "ntpEnv \<Rightarrow> netport list \<Rightarrow> ntpCtx \<Rightarrow> ntpCtx option" where
  "broadcastHandler env [] ctx = Some ctx"
| "broadcastHandler env (p # ps) ctx =
     (if np_sock p > 0 then
        (case VaBroadcast env p ctx of
           None \<Rightarrow> None
         | Some (ok, ctx) \<Rightarrow> broadcastHandler env ps (if ok then ctx else ctx\<lparr>loop_flag := False\<rparr>))
      else broadcastHandler env ps ctx)"

section \<open>Requests\<close>

text \<open>
  \<open>reqReceive\<close>: \<open>recv\<close> gives the frame or an error code. The length is kept in 16 bits, so that an
  error is a length that is too large. A request keeps what the heap held behind its data.
\<close>

definition reqReceive :: "ntpEnv \<Rightarrow> int + bytes \<Rightarrow> port_info \<Rightarrow> ntpCtx \<Rightarrow> (ntpreq option \<times> ntpCtx) option" where
  "reqReceive env recv info ctx =
     (case receive_packet (ne_le env) (ne_buf1536 env) info 256 recv of
        None \<Rightarrow> None
      | Some RxNone \<Rightarrow> Some (None, ctx)
      | Some (RxReply frame) \<Rightarrow> Some (None, snd (net_send env frame ctx))
      | Some (RxError e) \<Rightarrow>
          if u16 e = 0 then Some (None, ctx)
          else Some (None, snd (time_into (ne_fpga env) \<lparr>tv_sec = 0, tv_usec = 0\<rparr> ctx))
      | Some (RxNtp buf addr) \<Rightarrow>
          if buf = [] then Some (None, ctx)
          else (case time_into (ne_fpga env) \<lparr>tv_sec = 0, tv_usec = 0\<rparr> ctx of (t, ctx) \<Rightarrow>
            if length buf < NTP_PKT_NOMAC \<or> length buf > NTP_PKT_MAC then Some (None, ctx)
            else if PKT_MODE (uint (buf ! 0)) = 4 \<or> PKT_MODE (uint (buf ! 0)) = 5 then Some (None, ctx)
            else (case sys_call env ctx of (ok, ctx) \<Rightarrow>
              if \<not> ok then Some (None, ctx)
              else Some (Some \<lparr>recvTime = t, recvAddr = addr, recvPkt = pkt_of_bytes (upd (ne_heap env) 0 buf)\<rparr>, ctx))))"

text \<open>The digest of a key and of the head of a packet.\<close>

definition pkt_digest :: "ntpEnv \<Rightarrow> ntpmk \<Rightarrow> ntpkt \<Rightarrow> bytes option" where
  "pkt_digest env k pkt =
     (if nat (md5Len k) > length (md5Key k) then None
      else (case md5_update (md5_init (ne_buf64 env)) (take (nat (md5Len k)) (md5Key k)) of
        None \<Rightarrow> None
      | Some c \<Rightarrow> (case md5_update c (take NTP_PKT_NOMAC (pkt_bytes pkt)) of
          None \<Rightarrow> None
        | Some c \<Rightarrow> map_option fst (md5_final c))))"

text \<open>The key that a packet names, under the conditions of the code.\<close>

definition pkt_key :: "ntpsta \<Rightarrow> ntpkt \<Rightarrow> ntpmk option" where
  "pkt_key sta pkt =
     (if 0 < totalKey sta \<and> totalKey sta \<le> MAX_MD5KEY_NUM then
        (if be32 (KeyId pkt) = 0 then None
         else map_option (\<lambda>i. mKey sta ! i) (find_key (be32 (KeyId pkt)) (mKey sta)))
      else None)"

text \<open>The version is allowed by the bit that belongs to it.\<close>

definition version_ok :: "ntpsta \<Rightarrow> int \<Rightarrow> bool" where
  "version_ok sta version \<longleftrightarrow>
     \<not> (version < 2 \<or> version > 4) \<and> \<not> (version = 2 \<and> \<not> bit (VnEnable sta) 0)
     \<and> \<not> (version = 3 \<and> \<not> bit (VnEnable sta) 1) \<and> \<not> (version = 4 \<and> \<not> bit (VnEnable sta) 2)"

text \<open>The first authentication: \<open>Some True\<close> when the request may be answered.\<close>

definition authentic :: "ntpEnv \<Rightarrow> ntpsta \<Rightarrow> ntpkt \<Rightarrow> bool option" where
  "authentic env sta pkt =
     (if md5Enable sta \<noteq> 0 then
        (case pkt_key sta pkt of None \<Rightarrow> Some False
         | Some k \<Rightarrow> map_option (\<lambda>d. Digest pkt = d) (pkt_digest env k pkt))
      else Some True)"

text \<open>The fields of a response, but for the time of its transmission.\<close>

definition fill_response :: "int \<Rightarrow> int \<Rightarrow> timeval \<Rightarrow> ntpkt \<Rightarrow> ntpkt" where
  "fill_response li version t pkt = pkt
     \<lparr>LVM := lvm_byte li version 4, Stratum := 1, Poll := 4, Precision := - 20,
      RootDelay := replicate 4 0, RootDispersion := replicate 4 0, RefId := DCLS,
      OrgStamp := TranStamp pkt, RecStamp := HTONL_TS (TVTOTS t), RefStamp := HTONL_TS (TVTOTS t)\<rparr>"

text \<open>The second part of the authentication signs the response; \<open>Some None\<close> is a return.\<close>

definition sign_response :: "ntpEnv \<Rightarrow> ntpsta \<Rightarrow> ntpkt \<Rightarrow> (ntpkt \<times> nat) option option" where
  "sign_response env sta pkt =
     (if md5Enable sta \<noteq> 0 then
        (case pkt_key sta pkt of None \<Rightarrow> Some None
         | Some k \<Rightarrow> map_option (\<lambda>d. Some (pkt\<lparr>Digest := d\<rparr>, NTP_PKT_MAC)) (pkt_digest env k pkt))
      else Some (Some (pkt, NTP_PKT_NOMAC)))"

definition reqResponse :: "ntpEnv \<Rightarrow> ntpreq \<Rightarrow> ntpCtx \<Rightarrow> ntpCtx option" where
  "reqResponse env req ctx =
     (let sta = ntpSta ctx; pkt = recvPkt req; version = PKT_VERSION (uint (LVM pkt))
      in if \<not> version_ok sta version then Some ctx
         else (case authentic env sta pkt of
             None \<Rightarrow> None
           | Some False \<Rightarrow> Some ctx
           | Some True \<Rightarrow>
               (let pkt = fill_response (leap_li ctx) version (recvTime req) pkt
                in case time_into (ne_fpga env) \<lparr>tv_sec = 0, tv_usec = 0\<rparr> ctx of (t, ctx) \<Rightarrow>
                  (let pkt = pkt\<lparr>TranStamp := HTONL_TS (TVTOTS t)\<rparr>
                   in case sign_response env sta pkt of
                        None \<Rightarrow> None
                      | Some None \<Rightarrow> Some ctx
                      | Some (Some (pkt, send_len)) \<Rightarrow>
                          (case SysCheckFpgaRunStatus (ne_fpga env) (reqs ctx) of (ok, rs) \<Rightarrow>
                             (let ctx = ctx\<lparr>reqs := rs\<rparr>
                              in if ok then map_option snd (send_to env (take send_len (pkt_bytes pkt)) (recvAddr req) ctx)
                                 else Some ctx))))))"

section \<open>The main loop\<close>

text \<open>
  What \<open>ProcNtp\<close> does with a port that has a frame: the loop ends when the FPGA does not run, a
  request is dropped when a leap second is announced or the time is faulty, and else it is given to
  the pool.
\<close>

datatype served = Stop | NoRequest | Dropped | Queued

definition serve_port ::
  "ntpEnv \<Rightarrow> add_env \<Rightarrow> int + bytes \<Rightarrow> port_info \<Rightarrow> ntpCtx \<Rightarrow> ntpreq threadpool \<Rightarrow> (served \<times> ntpCtx \<times> ntpreq threadpool) option" where
  "serve_port env add recv info ctx pool =
     (case reqReceive env recv info ctx of
        None \<Rightarrow> None
      | Some (req, ctx) \<Rightarrow>
          (case SysCheckFpgaRunStatus (ne_fpga env) (reqs ctx) of (ok, rs) \<Rightarrow>
             (let ctx = ctx\<lparr>reqs := rs\<rparr>
              in if \<not> ok then Some (Stop, ctx, pool)
                 else (case req of
                     None \<Rightarrow> Some (NoRequest, ctx, pool)
                   | Some req \<Rightarrow>
                       if leap_li ctx \<noteq> 0 then Some (Dropped, ctx, pool)
                       else (case ntpchecktimefpga (ne_fpga env) ctx of (r, ctx) \<Rightarrow>
                         if r \<noteq> 1 then Some (Dropped, ctx, pool)
                         else (case tpAddTask add req pool of
                             None \<Rightarrow> None
                           | Some (ok, pool) \<Rightarrow> Some (if ok then Queued else Dropped, ctx, pool)))))))"

end
