(* ===== verification/NtpServerSpec.thy ===== *)
theory NtpServerSpec
  imports NtpSettings NtpServer NtpStampSpec NtpSocketSpec LibMd5Spec
begin

text \<open>
  What the NTP server does with a request: exactly the admissible requests are answered, with the
  response that the protocol asks for, and a client that sends a request gets it back. Then the
  time that the server reads and the check of it.
\<close>

section \<open>Packets\<close>

definition pkt_ok :: "ntpkt \<Rightarrow> bool" where
  "pkt_ok p \<longleftrightarrow> length (RootDelay p) = 4 \<and> length (RootDispersion p) = 4 \<and> length (RefId p) = 4
     \<and> length (RefStamp p) = 8 \<and> length (OrgStamp p) = 8 \<and> length (RecStamp p) = 8
     \<and> length (TranStamp p) = 8 \<and> length (KeyId p) = 4 \<and> length (Digest p) = 16"

lemma pkt_bytes_length: "pkt_ok p \<Longrightarrow> length (pkt_bytes p) = 68"
  by (simp add: pkt_ok_def pkt_bytes_def)

lemma pkt_of_bytes_ok: "length b = 68 \<Longrightarrow> pkt_ok (pkt_of_bytes b)"
  by (simp add: pkt_ok_def pkt_of_bytes_def)

lemma sub_skip: "length xs \<le> k \<Longrightarrow> sub (xs @ ys) k n = sub ys (k - length xs) n"
  by (simp add: sub_def)

lemma sub_here: "length xs = n \<Longrightarrow> sub (xs @ ys) 0 n = xs"
  by (simp add: sub_def)

lemma sub_Cons: "0 < k \<Longrightarrow> sub (x # ys) k n = sub ys (k - 1) n"
  by (cases k) (simp_all add: sub_def)

text \<open>A packet and its bytes.\<close>

lemma pkt_of_pkt_bytes: "pkt_ok p \<Longrightarrow> pkt_of_bytes (pkt_bytes p) = p"
  unfolding pkt_ok_def pkt_bytes_def pkt_of_bytes_def
  by (cases p) (simp add: sub_skip sub_here sub_Cons del: append.simps(1) flip: append_Nil2[of "Digest p"],
    simp add: sub_def)

text \<open>The parts that the response changes keep their lengths.\<close>

lemma HTONL_TS_length [simp]: "length (HTONL_TS t) = 8"
  by (simp add: HTONL_TS_def be32_bytes_def)

lemma fill_response_ok: "pkt_ok p \<Longrightarrow> pkt_ok (fill_response li v t p)"
  by (simp add: pkt_ok_def fill_response_def DCLS_def)

section \<open>Keys and digests\<close>

definition sta_ok :: "ntpsta \<Rightarrow> bool" where
  "sta_ok sta \<longleftrightarrow> length (mKey sta) = 10 \<and> list_all key_ok (mKey sta)"

lemma pkt_key_ok: "sta_ok sta \<Longrightarrow> pkt_key sta p = Some k \<Longrightarrow> key_ok k \<and> k \<in> set (mKey sta) \<and> md5Id k = be32 (KeyId p) \<and> md5Id k \<noteq> 0"
  by (auto simp: pkt_key_def sta_ok_def list_all_length dest!: find_key_Some split: if_splits)

lemma pkt_digest_eq:
  assumes "key_ok k" "length (ne_buf64 env) = 64" "pkt_ok p"
  shows "pkt_digest env k p = Some (md5_digest (key_text k @ take 48 (pkt_bytes p)))"
proof -
  let ?xs = "[key_text k, take 48 (pkt_bytes p)]"
  have "\<forall>x \<in> set ?xs. length x + 63 < 4294967296" using assms(1,3) by (simp add: key_text_def key_ok_def pkt_bytes_length)
  then obtain c where c: "md5_feed (md5_init (ne_buf64 env)) ?xs = Some c" "ctx_of (concat ?xs) c"
    using md5_feed_ctx[OF md5_init_ctx[OF assms(2)], of ?xs] by auto
  obtain z where "md5_final c = Some (md5_digest (concat ?xs), z)" using md5_final_digest[OF c(2)] by blast
  moreover obtain c1 where "md5_update (md5_init (ne_buf64 env)) (key_text k) = Some c1"
    "md5_update c1 (take 48 (pkt_bytes p)) = Some c"
    using c(1) by (auto split: option.splits)
  moreover have "\<not> nat (md5Len k) > length (md5Key k)" using assms(1) by (auto simp: key_ok_def)
  ultimately show ?thesis by (simp add: pkt_digest_def key_text_def NTP_PKT_NOMAC_def)
qed

lemma md5_digest_length: "length (md5_digest m) = 16"
  by (simp add: md5_digest_def encode_word_def split: prod.splits)

section \<open>Which requests are answered, and how\<close>

text \<open>A packet that carries the digest of its head with the key that it names.\<close>

definition authenticated :: "ntpsta \<Rightarrow> ntpkt \<Rightarrow> bool" where
  "authenticated sta p \<longleftrightarrow> (\<exists>k. pkt_key sta p = Some k \<and> Digest p = md5_digest (key_text k @ take 48 (pkt_bytes p)))"

definition version_enabled :: "ntpsta \<Rightarrow> int \<Rightarrow> bool" where
  "version_enabled sta v \<longleftrightarrow> (v = 2 \<and> bit (VnEnable sta) 0) \<or> (v = 3 \<and> bit (VnEnable sta) 1) \<or> (v = 4 \<and> bit (VnEnable sta) 2)"

definition admissible :: "ntpsta \<Rightarrow> ntpkt \<Rightarrow> bool" where
  "admissible sta p \<longleftrightarrow> version_enabled sta (PKT_VERSION (uint (LVM p))) \<and> (md5Enable sta \<noteq> 0 \<longrightarrow> authenticated sta p)"

text \<open>The head of the response, and the response, with its signature when the server signs.\<close>

definition response_head :: "int \<Rightarrow> timeval \<Rightarrow> timeval \<Rightarrow> ntpkt \<Rightarrow> ntpkt" where
  "response_head li rx tx p =
     \<lparr>LVM = word_of_int (PKT_LI_VN_MODE li (PKT_VERSION (uint (LVM p))) 4), Stratum = 1, Poll = 4, Precision = - 20,
      RootDelay = [0, 0, 0, 0], RootDispersion = [0, 0, 0, 0], RefId = DCLS,
      RefStamp = HTONL_TS (TVTOTS rx), OrgStamp = TranStamp p, RecStamp = HTONL_TS (TVTOTS rx),
      TranStamp = HTONL_TS (TVTOTS tx), KeyId = KeyId p, Digest = Digest p\<rparr>"

definition response_bytes :: "ntpsta \<Rightarrow> ntpkt \<Rightarrow> bytes" where
  "response_bytes sta p =
     (if md5Enable sta = 0 then take 48 (pkt_bytes p)
      else take 48 (pkt_bytes p) @ KeyId p
        @ md5_digest (key_text (the (pkt_key sta p)) @ take 48 (pkt_bytes p)))"

lemma version_ok_enabled: "version_ok sta v \<longleftrightarrow> version_enabled sta v"
  by (auto simp: version_ok_def version_enabled_def)

lemma response_head_eq:
  "(fill_response li (PKT_VERSION (uint (LVM p))) rx p)\<lparr>TranStamp := HTONL_TS (TVTOTS tx)\<rparr> = response_head li rx tx p"
  by (simp add: fill_response_def response_head_def lvm_byte_def eval_nat_numeral)

lemma response_head_ok: "pkt_ok p \<Longrightarrow> pkt_ok (response_head li rx tx p)"
  by (simp add: response_head_def pkt_ok_def DCLS_def)

lemma pkt_key_response [simp]: "pkt_key sta (response_head li rx tx p) = pkt_key sta p"
  by (simp add: pkt_key_def response_head_def)

lemma authentic_eq:
  assumes "sta_ok sta" "length (ne_buf64 env) = 64" "pkt_ok p"
  shows "authentic env sta p = Some (md5Enable sta \<noteq> 0 \<longrightarrow> authenticated sta p)"
proof (cases "pkt_key sta p")
  case (Some k)
  then show ?thesis using pkt_digest_eq[OF _ assms(2,3), of k] pkt_key_ok[OF assms(1) Some]
    by (simp add: authentic_def authenticated_def)
qed (simp add: authentic_def authenticated_def)

lemma take_head: "pkt_ok p \<Longrightarrow> pkt_bytes p = take 48 (pkt_bytes p) @ KeyId p @ Digest p"
  by (simp add: pkt_bytes_def pkt_ok_def)

lemma head_digest [simp]: "pkt_ok p \<Longrightarrow> take 48 (pkt_bytes (p\<lparr>Digest := d\<rparr>)) = take 48 (pkt_bytes p)"
  by (simp add: pkt_bytes_def pkt_ok_def)

lemma sign_eq:
  assumes "sta_ok sta" "length (ne_buf64 env) = 64" "pkt_ok p" "md5Enable sta \<noteq> 0 \<longrightarrow> pkt_key sta p \<noteq> None"
  shows "\<exists>q n. sign_response env sta p = Some (Some (q, n)) \<and> take n (pkt_bytes q) = response_bytes sta p"
proof (cases "md5Enable sta = 0")
  case True
  then show ?thesis by (simp add: sign_response_def response_bytes_def NTP_PKT_NOMAC_def)
next
  case False
  then obtain k where k: "pkt_key sta p = Some k" using assms(4) by auto
  define d where "d = md5_digest (key_text k @ take 48 (pkt_bytes p))"
  have q: "pkt_ok (p\<lparr>Digest := d\<rparr>)" using assms(3) by (simp add: pkt_ok_def d_def md5_digest_length)
  have "take 68 (pkt_bytes (p\<lparr>Digest := d\<rparr>)) = take 48 (pkt_bytes p) @ KeyId p @ d"
    using take_head[OF q] pkt_bytes_length[OF q] assms(3) by simp
  then show ?thesis using False k pkt_digest_eq[OF _ assms(2,3), of k] pkt_key_ok[OF assms(1) k]
    by (simp add: sign_response_def response_bytes_def d_def NTP_PKT_MAC_def)
qed

text \<open>What the environment has to provide: its buffers, and an address that a frame can have.\<close>

definition env_ok :: "ntpEnv \<Rightarrow> bool" where
  "env_ok env \<longleftrightarrow> length (ne_buf64 env) = 64 \<and> length (ne_buf1536 env) = 1536 \<and> length (ne_heap env) = 68"

text \<open>The time that the FPGA gives to a read after the requests, when it also passes the run check.\<close>

definition fpga_gives :: "ntpEnv \<Rightarrow> request list \<Rightarrow> timeval \<Rightarrow> bool" where
  "fpga_gives env rs t \<longleftrightarrow> (\<exists>rs' rs''. ntpgettimefpga (ne_fpga env) rs = (Some t, rs')
     \<and> SysCheckFpgaRunStatus (ne_fpga env) rs' = (True, rs''))"

lemma send_to_frame:
  assumes "env_ok env" "addr_ok a" "length data \<le> 1494" "ne_sys env (n_calls ctx)"
  shows "\<exists>ctx' frame n. send_to env data a ctx = Some (True, ctx') \<and> length n = 2
    \<and> send_packet (ne_le env) (ne_buf1536 env) data (a\<lparr>ra_id := n\<rparr>) = Some frame
    \<and> sent ctx' = sent ctx @ [frame] \<and> ntpSta ctx' = ntpSta ctx \<and> leap_li ctx' = leap_li ctx"
proof -
  obtain n ctx1 where n: "ip_select_fb_ident (ne_le env) a ctx = (a\<lparr>ra_id := n\<rparr>, ctx1)" "length n = 2"
    "n_calls ctx1 = n_calls ctx" "sent ctx1 = sent ctx" "ntpSta ctx1 = ntpSta ctx" "leap_li ctx1 = leap_li ctx"
    by (simp add: ip_select_fb_ident_def Let_def be16_bytes_def)
  have "addr_ok (a\<lparr>ra_id := n\<rparr>)" using assms(2) n(2) by (simp add: addr_ok_def)
  then obtain frame where "send_packet (ne_le env) (ne_buf1536 env) data (a\<lparr>ra_id := n\<rparr>) = Some frame"
    using send_packet_facts[of "a\<lparr>ra_id := n\<rparr>" "ne_buf1536 env" data "ne_le env"] assms(1,3)
    by (auto simp: env_ok_def)
  then show ?thesis using n assms(4) by (auto simp: send_to_def net_send_def sys_call_def)
qed

lemma response_length:
  assumes "pkt_ok p" "pkt_key sta p \<noteq> None \<or> md5Enable sta = 0"
  shows "length (response_bytes sta p) = (if md5Enable sta = 0 then 48 else 68)"
  using assms pkt_bytes_length[OF assms(1)] by (simp add: response_bytes_def md5_digest_length pkt_ok_def)

lemma reqResponse_exact:
  assumes e: "env_ok env" and s: "sta_ok (ntpSta ctx)" and a: "addr_ok (recvAddr req)" and p: "pkt_ok (recvPkt req)"
    and f: "fpga_gives env (reqs ctx) t" and sys: "ne_sys env (n_calls ctx)"
  shows "if admissible (ntpSta ctx) (recvPkt req) then
      \<exists>ctx' frame n. reqResponse env req ctx = Some ctx' \<and> ntpSta ctx' = ntpSta ctx \<and> length n = 2
      \<and> send_packet (ne_le env) (ne_buf1536 env)
          (response_bytes (ntpSta ctx) (response_head (leap_li ctx) (recvTime req) t (recvPkt req)))
          (recvAddr req\<lparr>ra_id := n\<rparr>) = Some frame
      \<and> sent ctx' = sent ctx @ [frame]
    else reqResponse env req ctx = Some ctx"
proof -
  let ?sta = "ntpSta ctx" and ?p = "recvPkt req"
  let ?q = "response_head (leap_li ctx) (recvTime req) t ?p"
  have b: "length (ne_buf64 env) = 64" using e by (simp add: env_ok_def)
  have au: "authentic env ?sta ?p = Some (md5Enable ?sta \<noteq> 0 \<longrightarrow> authenticated ?sta ?p)"
    by (rule authentic_eq[OF s b p])
  show ?thesis
  proof (cases "admissible ?sta ?p")
    case False
    then have "reqResponse env req ctx = Some ctx"
      by (auto simp: reqResponse_def Let_def version_ok_enabled admissible_def au)
    then show ?thesis using False by simp
  next
    case True
    then have v: "version_ok ?sta (PKT_VERSION (uint (LVM ?p)))"
      and k: "md5Enable ?sta \<noteq> 0 \<longrightarrow> authenticated ?sta ?p" "md5Enable ?sta \<noteq> 0 \<longrightarrow> pkt_key ?sta ?q \<noteq> None"
      by (auto simp: admissible_def version_ok_enabled authenticated_def)
    obtain rs' rs'' where r: "ntpgettimefpga (ne_fpga env) (reqs ctx) = (Some t, rs')"
      "SysCheckFpgaRunStatus (ne_fpga env) rs' = (True, rs'')" using f by (auto simp: fpga_gives_def)
    obtain q n where q: "sign_response env ?sta ?q = Some (Some (q, n))"
      "take n (pkt_bytes q) = response_bytes ?sta ?q"
      using sign_eq[OF s b response_head_ok[OF p] k(2)] by blast
    have "length (response_bytes ?sta ?q) \<le> 1494"
      using response_length[OF response_head_ok[OF p], of ?sta] k(2) by auto
    then obtain ctx' frame n' where c: "send_to env (response_bytes ?sta ?q) (recvAddr req) (ctx\<lparr>reqs := rs'\<rparr>\<lparr>reqs := rs''\<rparr>) = Some (True, ctx')"
      "length n' = 2" "send_packet (ne_le env) (ne_buf1536 env) (response_bytes ?sta ?q) (recvAddr req\<lparr>ra_id := n'\<rparr>) = Some frame"
      "sent ctx' = sent ctx @ [frame]" "ntpSta ctx' = ?sta"
      using send_to_frame[OF e a, of "response_bytes ?sta ?q" "ctx\<lparr>reqs := rs'\<rparr>\<lparr>reqs := rs''\<rparr>"] sys by auto
    have "reqResponse env req ctx = Some ctx'"
      unfolding reqResponse_def Let_def using v au k(1) r q c(1)
      by (simp add: time_into_def response_head_eq)
    then show ?thesis using True c by auto
  qed
qed

section \<open>A request and its response on the wire\<close>

lemma reqReceive_request:
  assumes e: "env_ok env" and a: "addr_ok a" "ra_port a = be16_bytes 123" "ra_ip a = be32_bytes (pi_ip info)"
    and j: "length junk = 1536" and d: "48 \<le> length d" "length d \<le> 68" "PKT_MODE (uint (d ! 0)) \<notin> {4, 5}"
    and t: "ntpgettimefpga (ne_fpga env) (reqs ctx) = (Some t, rs)" and sys: "ne_sys env (n_calls ctx)"
  shows "\<exists>f. send_packet (ne_le env) junk d a = Some f \<and> reqReceive env (Inr f) info ctx =
    Some (Some \<lparr>recvTime = t, recvAddr = client_of a info, recvPkt = pkt_of_bytes (upd (ne_heap env) 0 d)\<rparr>,
          ctx\<lparr>reqs := rs\<rparr>\<lparr>n_calls := n_calls ctx + 1\<rparr>)"
proof -
  have b: "length (ne_buf1536 env) = 1536" using e by (simp add: env_ok_def)
  have l: "length d + 8 \<le> 256" "length d \<le> 1494" using d(2) by simp_all
  obtain f where f: "send_packet (ne_le env) junk d a = Some f"
    "receive_packet (ne_le env) (ne_buf1536 env) info 256 (Inr f) = Some (RxNtp d (client_of a info))"
    using send_receive_data[OF a(1) j b l a(2,3)] by blast
  have "d \<noteq> []" using d(1) by auto
  then show ?thesis using f d t sys
    by (auto simp: reqReceive_def time_into_def sys_call_def NTP_PKT_NOMAC_def NTP_PKT_MAC_def)
qed

text \<open>The fields of a response in its bytes.\<close>

lemma take_at: "k + n \<le> m \<Longrightarrow> sub (take m b) k n = sub b k n"
  by (rule sub_take)

lemma response_fields:
  assumes p: "pkt_ok p" and b_def: "b = take 48 (pkt_bytes (response_head li rx tx p))"
  shows "length b = 48" "b ! 0 = word_of_int (PKT_LI_VN_MODE li (PKT_VERSION (uint (LVM p))) 4)" "b ! 1 = 1"
    "sub b 12 4 = DCLS" "sub b 24 8 = TranStamp p" "sub b 32 8 = HTONL_TS (TVTOTS rx)"
    "sub b 40 8 = HTONL_TS (TVTOTS tx)"
proof -
  let ?q = "response_head li rx tx p"
  have q: "pkt_ok ?q" by (rule response_head_ok[OF p])
  have l: "length (pkt_bytes ?q) = 68" by (rule pkt_bytes_length[OF q])
  show "length b = 48" using l by (simp add: b_def)
  have r: "pkt_of_bytes (pkt_bytes ?q) = ?q" by (rule pkt_of_pkt_bytes[OF q])
  have n: "b ! k = pkt_bytes ?q ! k" if "k < 48" for k using that by (simp add: b_def)
  have s: "sub b k n = sub (pkt_bytes ?q) k n" if "k + n \<le> 48" for k n
    using that by (simp add: b_def take_at)
  have f: "LVM (pkt_of_bytes c) = c ! 0" "Stratum (pkt_of_bytes c) = c ! 1" "RefId (pkt_of_bytes c) = sub c 12 4"
    "OrgStamp (pkt_of_bytes c) = sub c 24 8" "RecStamp (pkt_of_bytes c) = sub c 32 8"
    "TranStamp (pkt_of_bytes c) = sub c 40 8" for c by (simp_all add: pkt_of_bytes_def)
  note g = f[of "pkt_bytes ?q", unfolded r, symmetric]
  show "b ! 0 = word_of_int (PKT_LI_VN_MODE li (PKT_VERSION (uint (LVM p))) 4)" "b ! 1 = 1" "sub b 12 4 = DCLS"
    "sub b 24 8 = TranStamp p" "sub b 32 8 = HTONL_TS (TVTOTS rx)" "sub b 40 8 = HTONL_TS (TVTOTS tx)"
    by (simp_all add: n s g del: One_nat_def) (simp_all add: response_head_def)
qed

text \<open>A response that the server signed is accepted with the key of the request.\<close>

lemma response_authenticated:
  assumes p: "pkt_ok p" and m: "md5Enable sta \<noteq> 0" and k: "pkt_key sta p \<noteq> None"
  shows "authenticated sta (pkt_of_bytes (response_bytes sta (response_head li rx tx p)))"
proof -
  let ?q = "response_head li rx tx p"
  obtain key where key: "pkt_key sta p = Some key" using k by blast
  define d where "d = md5_digest (key_text key @ take 48 (pkt_bytes ?q))"
  have q: "pkt_ok ?q" by (rule response_head_ok[OF p])
  have q': "pkt_ok (?q\<lparr>Digest := d\<rparr>)" using q by (simp add: pkt_ok_def d_def md5_digest_length)
  have "response_bytes sta ?q = pkt_bytes (?q\<lparr>Digest := d\<rparr>)"
    using m take_head[OF q'] q by (simp add: response_bytes_def key d_def)
  then have r: "pkt_of_bytes (response_bytes sta ?q) = ?q\<lparr>Digest := d\<rparr>" using pkt_of_pkt_bytes[OF q'] by simp
  have "pkt_key sta (?q\<lparr>Digest := d\<rparr>) = pkt_key sta p" by (simp add: pkt_key_def response_head_def)
  then show ?thesis unfolding authenticated_def r using q key by (simp add: d_def)
qed

lemma request_fields:
  assumes "length d \<le> 68" "48 \<le> length d" "length heap = 68"
  shows "pkt_ok (pkt_of_bytes (upd heap 0 d))" "LVM (pkt_of_bytes (upd heap 0 d)) = d ! 0"
    "TranStamp (pkt_of_bytes (upd heap 0 d)) = sub d 40 8"
proof -
  have l: "length (upd heap 0 d) = 68" using assms by simp
  show "pkt_ok (pkt_of_bytes (upd heap 0 d))" by (rule pkt_of_bytes_ok[OF l])
  show "LVM (pkt_of_bytes (upd heap 0 d)) = d ! 0" using assms
    by (cases d) (auto simp: pkt_of_bytes_def upd_def)
  show "TranStamp (pkt_of_bytes (upd heap 0 d)) = sub d 40 8"
    using assms by (simp add: pkt_of_bytes_def sub_frame)
qed

section \<open>Properties of the responses\<close>

text \<open>
  C3: exactly the admissible requests are answered: those whose version is enabled and which, when
  MD5 is enabled, name one of the keys and carry the digest of that key and of their head. The
  response has the leap indicator of the server, the version of the request and mode 4, stratum 1,
  the time stamp of the request as its origin, the times of reception and transmission, and, when
  MD5 is enabled, the digest with the same key; every other request has no effect.
\<close>

theorem response_exact:
  assumes "env_ok env" "sta_ok (ntpSta ctx)" "addr_ok (recvAddr req)" "pkt_ok (recvPkt req)"
    "fpga_gives env (reqs ctx) t" "ne_sys env (n_calls ctx)"
  shows "if admissible (ntpSta ctx) (recvPkt req) then
      \<exists>ctx' frame n. reqResponse env req ctx = Some ctx' \<and> ntpSta ctx' = ntpSta ctx \<and> length n = 2
      \<and> send_packet (ne_le env) (ne_buf1536 env)
          (response_bytes (ntpSta ctx) (response_head (leap_li ctx) (recvTime req) t (recvPkt req)))
          (recvAddr req\<lparr>ra_id := n\<rparr>) = Some frame
      \<and> sent ctx' = sent ctx @ [frame]
    else reqResponse env req ctx = Some ctx"
  using assms by (rule reqResponse_exact)

text \<open>
  C23: the exchange on the wire. The frame in which a client sends an admissible request makes the
  server send one frame, which the client receives as the response: its origin is the time stamp
  that the client sent, the two other stamps are the times of the FPGA at the reception and at the
  transmission, and when MD5 is enabled it carries the digest with the key of the request.
\<close>

theorem exchange:
  assumes e: "env_ok env" and s: "sta_ok (ntpSta ctx)" and sys: "\<forall>n. ne_sys env n"
    and a: "addr_ok a" "ra_port a = be16_bytes 123" "ra_ip a = be32_bytes (pi_ip info)"
      "pi_ip_a (ra_info a) = be32_bytes (pi_ip (ra_info a))"
    and i: "length (pi_mac info) = 6" "length (pi_ip_a info) = 4"
    and j: "length junk = 1536" "length junk' = 1536"
    and d: "48 \<le> length d" "length d \<le> 68" "PKT_MODE (uint (d ! 0)) \<notin> {4, 5}"
    and t: "ntpgettimefpga (ne_fpga env) (reqs ctx) = (Some rx, rs)" and t': "fpga_gives env rs tx"
    and p: "p = pkt_of_bytes (upd (ne_heap env) 0 d)" and ad: "admissible (ntpSta ctx) p"
  shows "\<exists>f req ctx1 ctx2 g resp addr. send_packet (ne_le env) junk d a = Some f
    \<and> reqReceive env (Inr f) info ctx = Some (Some req, ctx1) \<and> reqResponse env req ctx1 = Some ctx2
    \<and> sent ctx2 = sent ctx @ [g]
    \<and> receive_packet (ne_le env) junk' (ra_info a) 256 (Inr g) = Some (RxNtp resp addr)
    \<and> resp ! 0 = word_of_int (PKT_LI_VN_MODE (leap_li ctx) (PKT_VERSION (uint (d ! 0))) 4)
    \<and> sub resp 24 8 = sub d 40 8 \<and> sub resp 32 8 = HTONL_TS (TVTOTS rx) \<and> sub resp 40 8 = HTONL_TS (TVTOTS tx)
    \<and> length resp = (if md5Enable (ntpSta ctx) = 0 then 48 else 68)
    \<and> (md5Enable (ntpSta ctx) \<noteq> 0 \<longrightarrow> authenticated (ntpSta ctx) (pkt_of_bytes resp))"
proof -
  let ?sta = "ntpSta ctx"
  have h: "length (ne_heap env) = 68" "length (ne_buf1536 env) = 1536" using e by (simp_all add: env_ok_def)
  note rf = request_fields[OF d(2,1) h(1), folded p]
  let ?req = "\<lparr>recvTime = rx, recvAddr = client_of a info, recvPkt = p\<rparr>"
  let ?ctx = "ctx\<lparr>reqs := rs\<rparr>\<lparr>n_calls := n_calls ctx + 1\<rparr>"
  let ?h = "response_head (leap_li ctx) rx tx p"
  let ?resp = "response_bytes ?sta ?h"
  obtain f where f: "send_packet (ne_le env) junk d a = Some f"
    "reqReceive env (Inr f) info ctx = Some (Some ?req, ?ctx)"
    using reqReceive_request[OF e a(1,2,3) j(1) d t] sys p by auto
  have ca: "addr_ok (client_of a info)" using a(1) i by (simp add: addr_ok_def client_of_def be16_bytes_def)
  have "\<exists>ctx' frame n. reqResponse env ?req ?ctx = Some ctx' \<and> ntpSta ctx' = ?sta \<and> length n = 2
      \<and> send_packet (ne_le env) (ne_buf1536 env) ?resp (client_of a info\<lparr>ra_id := n\<rparr>) = Some frame
      \<and> sent ctx' = sent ctx @ [frame]"
    using reqResponse_exact[OF e, of ?ctx ?req tx] s ca rf(1) t' sys ad by simp
  then obtain ctx2 g n where g: "reqResponse env ?req ?ctx = Some ctx2" "length n = 2"
    "send_packet (ne_le env) (ne_buf1536 env) ?resp (client_of a info\<lparr>ra_id := n\<rparr>) = Some g"
    "sent ctx2 = sent ctx @ [g]" by blast
  have k: "md5Enable ?sta \<noteq> 0 \<longrightarrow> pkt_key ?sta p \<noteq> None"
    using ad by (auto simp: admissible_def authenticated_def)
  have len: "length ?resp = (if md5Enable ?sta = 0 then 48 else 68)"
    using response_length[OF response_head_ok[OF rf(1)], of ?sta] k by auto
  have ca': "addr_ok (client_of a info\<lparr>ra_id := n\<rparr>)" using ca g(2) by (simp add: addr_ok_def)
  have "\<exists>g'. send_packet (ne_le env) (ne_buf1536 env) ?resp (client_of a info\<lparr>ra_id := n\<rparr>) = Some g' \<and>
      receive_packet (ne_le env) junk' (ra_info a) 256 (Inr g')
        = Some (RxNtp ?resp (client_of (client_of a info\<lparr>ra_id := n\<rparr>) (ra_info a)))"
    by (rule send_receive_data[OF ca' h(2) j(2)]) (use len a(4) in \<open>auto simp: client_of_def\<close>)
  then have r: "receive_packet (ne_le env) junk' (ra_info a) 256 (Inr g)
        = Some (RxNtp ?resp (client_of (client_of a info\<lparr>ra_id := n\<rparr>) (ra_info a)))" using g(3) by simp
  define b where "b = take 48 (pkt_bytes ?h)"
  note fields = response_fields[OF rf(1) b_def]
  have pre: "?resp = b @ drop 48 ?resp" using fields(1) by (simp add: response_bytes_def b_def)
  have sb: "sub ?resp k n = sub b k n" if "k + n \<le> 48" for k n
    by (subst pre) (use that fields(1) in \<open>simp add: sub_def\<close>)
  have n0: "?resp ! 0 = b ! 0" by (subst pre) (use fields(1) in \<open>simp add: nth_append\<close>)
  have au: "md5Enable ?sta \<noteq> 0 \<longrightarrow> authenticated ?sta (pkt_of_bytes ?resp)"
    using response_authenticated[OF rf(1), of ?sta] k by blast
  show ?thesis using f g(1,4) r au len by (auto simp: sb n0 fields rf)
qed

section \<open>Keys that are added later\<close>

lemma no_total_no_key: "totalKey sta = 0 \<Longrightarrow> pkt_key sta p = None"
  by (simp add: pkt_key_def)

text \<open>
  C27: a server that starts without keys never answers when MD5 is enabled, whatever keys are added
  by messages afterwards: the number of keys that it tests is only set when the data base is read.
\<close>

theorem added_keys_unusable:
  assumes "totalKey (ntpSta ctx) = 0" "ReadMessageQueue env q ctx = Some (ok, ctx')" "md5Enable (ntpSta ctx') \<noteq> 0"
  shows "totalKey (ntpSta ctx') = 0 \<and> reqResponse env req ctx' = Some ctx'"
proof -
  have "totalKey (ntpSta ctx') = 0" by (rule total_key_kept[OF assms(2,1)])
  then show ?thesis using assms(3)
    by (simp add: reqResponse_def Let_def authentic_def no_total_no_key)
qed

section \<open>The time of the FPGA\<close>

lemma or_parts:
  assumes "0 \<le> h" "0 \<le> m" "m < 65536" "0 \<le> l" "l < 65536"
  shows "push_bit 32 h OR push_bit 16 m OR l = h * 4294967296 + m * 65536 + (l :: int)"
proof -
  have 1: "push_bit 16 m OR l = m * 65536 + l" using or_low[of l 16 m] assms by simp
  have "m * 65536 + l < 4294967296" using assms by linarith
  then have "push_bit 32 h OR (m * 65536 + l) = h * 4294967296 + (m * 65536 + l)"
    using or_low[of "m * 65536 + l" 32 h] assms by simp
  then show ?thesis by (simp add: 1 or.assoc)
qed

text \<open>The values of the five registers, and the time that they stand for, in microseconds.\<close>

definition regs_ok :: "int list \<Rightarrow> bool" where
  "regs_ok v \<longleftrightarrow> length v = 5 \<and> list_all (\<lambda>x. 0 \<le> x \<and> x < 65536) v"

definition fpga_seconds :: "int list \<Rightarrow> int" where
  "fpga_seconds v = v ! 2 * 4294967296 + v ! 3 * 65536 + v ! 4"

definition fpga_micros :: "int list \<Rightarrow> int" where
  "fpga_micros v = v ! 0 * 1000 + v ! 1"

lemma regs_nth: "regs_ok v \<Longrightarrow> k < 5 \<Longrightarrow> 0 \<le> v ! k \<and> v ! k < 65536"
  by (simp add: regs_ok_def list_all_length)

lemma read_regs_ok: "read_regs drv as rs = (Some v, rs') \<Longrightarrow> length v = length as \<and> list_all (\<lambda>x. 0 \<le> x \<and> x < 65536) v"
proof (induction as arbitrary: rs v)
  case (Cons a as)
  then obtain x xs rs1 where x: "FpgaRead drv a rs = (Some x, rs1)" "read_regs drv as rs1 = (Some xs, rs')" "v = x # xs"
    by (auto split: prod.splits option.splits)
  have "0 \<le> x \<and> x < 65536" using x(1) by (auto simp: FpgaRead_def Let_def split: prod.splits if_splits)
  then show ?case using Cons.IH[OF x(2)] x(3) by simp
qed simp

lemma length_time_regs: "length time_regs = 5"
  by (simp add: time_regs_def)

lemma latch_ok: "latch_time drv rs = (Some v, rs') \<Longrightarrow> regs_ok v"
  by (auto simp: latch_time_def regs_ok_def length_time_regs dest!: read_regs_ok split: prod.splits bool.splits)

lemma check_values_eq: "regs_ok v \<Longrightarrow> check_values v = (fpga_seconds v, fpga_micros v)"
  using regs_nth[of v 0] regs_nth[of v 1] regs_nth[of v 2] regs_nth[of v 3] regs_nth[of v 4]
  by (simp add: check_values_def fpga_seconds_def fpga_micros_def or_parts)

text \<open>The times that repeated checks accept.\<close>

fun accepted_times :: "driver \<Rightarrow> nat \<Rightarrow> ntpCtx \<Rightarrow> (int \<times> int) list" where
  "accepted_times drv 0 ctx = []"
| "accepted_times drv (Suc n) ctx =
     (case ntpchecktimefpga drv ctx of (r, ctx) \<Rightarrow>
        (if r = 1 then [(pre_tv_sec ctx, pre_tv_usec ctx)] else []) @ accepted_times drv n ctx)"

definition pre_time :: "ntpCtx \<Rightarrow> int \<times> int" where
  "pre_time ctx = (pre_tv_sec ctx, pre_tv_usec ctx)"

lemma check_cases:
  "ntpchecktimefpga drv ctx = (r, ctx') \<Longrightarrow>
   (r \<noteq> 1 \<and> pre_time ctx' = pre_time ctx) \<or> (r = 1 \<and> \<not> time_faulty (pre_time ctx) (pre_time ctx'))"
  by (auto simp: ntpchecktimefpga_def Let_def pre_time_def split: prod.splits option.splits if_splits)

lemma accepted_chain:
  "successively (\<lambda>a b. fst a \<le> fst b \<and> a \<noteq> b) (pre_time ctx # accepted_times drv n ctx) \<and>
   (\<forall>t \<in> set (accepted_times drv n ctx). SEC1900_2018 \<le> fst t \<and> fst t \<le> SEC1900_2036)"
proof (induction n arbitrary: ctx)
  case (Suc n)
  obtain r ctx' where c: "ntpchecktimefpga drv ctx = (r, ctx')" by (cases "ntpchecktimefpga drv ctx")
  note ih = Suc.IH[of ctx']
  show ?case
  proof (cases "r = 1")
    case True
    then have f: "\<not> time_faulty (pre_time ctx) (pre_time ctx')" using check_cases[OF c] by simp
    have a: "accepted_times drv (Suc n) ctx = pre_time ctx' # accepted_times drv n ctx'"
      using c True by (simp add: pre_time_def)
    have "fst (pre_time ctx) \<le> fst (pre_time ctx')" "pre_time ctx \<noteq> pre_time ctx'"
      "SEC1900_2018 \<le> fst (pre_time ctx')" "fst (pre_time ctx') \<le> SEC1900_2036"
      using f by (auto simp: time_faulty_def)
    then show ?thesis using ih unfolding a by simp
  next
    case False
    then have "pre_time ctx' = pre_time ctx" "accepted_times drv (Suc n) ctx = accepted_times drv n ctx'"
      using check_cases[OF c] c by auto
    then show ?thesis using ih by simp
  qed
qed simp

text \<open>
  C25: the times that the check accepts lie between 2018 and 2036, their seconds never go back, and
  two that follow each other are different; but within one second an earlier time is accepted.
\<close>

theorem time_check_order:
  "successively (\<lambda>a b. fst a \<le> fst b \<and> a \<noteq> b) (pre_time ctx # accepted_times drv n ctx) \<and>
   (\<forall>t \<in> set (accepted_times drv n ctx). SEC1900_2018 \<le> fst t \<and> fst t \<le> SEC1900_2036) \<and>
   (SEC1900_2018 \<le> s \<longrightarrow> s \<le> SEC1900_2036 \<longrightarrow> u < u' \<longrightarrow> \<not> time_faulty (s, u') (s, u))"
  using accepted_chain[of ctx drv n] by (auto simp: time_faulty_def)

lemma be32_be32_bytes: "0 \<le> x \<Longrightarrow> x < 4294967296 \<Longrightarrow> be32 (be32_bytes x) = x"
proof -
  assume x: "0 \<le> x" "x < 4294967296"
  define p q r where "p = x div 256" and "q = p div 256" and "r = q div 256"
  have d: "x div 65536 = q" "x div 16777216 = r"
    using zdiv_zmult2_eq[of 256 x 256] zdiv_zmult2_eq[of 256 "x div 256" 256] zdiv_zmult2_eq[of 65536 x 256]
    by (simp_all add: p_def q_def r_def)
  have "r = x div 16777216" using d by simp
  then have r: "0 \<le> r" "r < 256" using x by (auto intro: div_eqI)
  have s: "x = 256 * p + x mod 256" "p = 256 * q + p mod 256" "q = 256 * r + q mod 256"
    by (simp_all add: p_def q_def r_def)
  have "be32 (be32_bytes x) = 16777216 * (r mod 256) + 65536 * (q mod 256) + 256 * (p mod 256) + x mod 256"
    by (simp add: be32_def be32_bytes_def uint_word_of_int d p_def)
  also have "\<dots> = x" using s r by simp
  finally show ?thesis .
qed

lemma seconds_bits:
  assumes "regs_ok v"
  shows "u32 (s32 (s32 (push_bit 32 (v ! 2)) OR s32 (push_bit 16 (v ! 3)) OR v ! 4)) = u32 (fpga_seconds v)"
proof -
  have r: "0 \<le> v ! 3" "v ! 3 < 65536" "0 \<le> v ! 4" "v ! 4 < 65536"
    using regs_nth[OF assms, of 3] regs_nth[OF assms, of 4] by simp_all
  have h: "s32 (push_bit 32 (v ! 2)) = 0" by (simp add: s32_def push_bit_eq_mult)
  have "s32 (push_bit 16 (v ! 3)) = push_bit 16 (if v ! 3 < 32768 then v ! 3 else v ! 3 - 65536)"
  proof (cases "v ! 3 < 32768")
    case True
    then show ?thesis using r by (simp add: push_bit_eq_mult)
  next
    case False
    have "v ! 3 * 65536 + 2147483648 = (v ! 3 - 32768) * 65536 + 1 * 4294967296" by simp
    then have "(v ! 3 * 65536 + 2147483648) mod 4294967296 = (v ! 3 - 32768) * 65536"
      using r False by (simp only: mod_mult_self3 mod_mult_self1) simp
    then show ?thesis using False by (simp add: push_bit_eq_mult s32_def)
  qed
  then have "s32 (push_bit 16 (v ! 3)) OR v ! 4 = (if v ! 3 < 32768 then v ! 3 else v ! 3 - 65536) * 65536 + v ! 4"
    using or_low[of "v ! 4" 16] r by simp
  then have "u32 (s32 (push_bit 32 (v ! 2)) OR s32 (push_bit 16 (v ! 3)) OR v ! 4)
    = u32 ((if v ! 3 < 32768 then v ! 3 else v ! 3 - 65536) * 65536 + v ! 4)" by (simp add: h or.assoc)
  also have "\<dots> = u32 (v ! 3 * 65536 + v ! 4)"
  proof (cases "v ! 3 < 32768")
    case False
    have "v ! 3 * 65536 + v ! 4 = ((v ! 3 - 65536) * 65536 + v ! 4) + 1 * 4294967296" by simp
    then show ?thesis using False unfolding u32_def by (simp only: mod_mult_self1) simp
  qed simp
  also have "\<dots> = u32 (fpga_seconds v)"
  proof -
    have "fpga_seconds v = (v ! 3 * 65536 + v ! 4) + v ! 2 * 4294967296" by (simp add: fpga_seconds_def)
    then show ?thesis unfolding u32_def by (simp only: mod_mult_self1)
  qed
  finally show ?thesis by simp
qed

lemma sub_stamp: "sub (HTONL_TS t) 0 4 = be32_bytes (l_ui t)" "sub (HTONL_TS t) 4 4 = be32_bytes (l_uf t)"
  by (simp_all add: HTONL_TS_def sub_def be32_bytes_def)

text \<open>
  A time stamp of the server is the time of the FPGA less 130 microseconds: the seconds, with a
  borrow, modulo $2^{32}$ (the high register is lost, and the NTP era changes in 2036), and a
  fraction within 102 units of the microseconds.
\<close>

theorem server_stamp:
  assumes "regs_ok v" "fpga_micros v < 1000000"
  shows "be32 (sub (HTONL_TS (TVTOTS (fpga_time v))) 0 4) = u32 (fpga_seconds v - (if fpga_micros v < 130 then 1 else 0)) \<and>
    \<bar>1000000 * be32 (sub (HTONL_TS (TVTOTS (fpga_time v))) 4 4) - (fpga_micros v - 130) mod 1000000 * 4294967296\<bar> < 102 * 1000000"
proof -
  let ?s = "s32 (s32 (push_bit 32 (v ! 2)) OR s32 (push_bit 16 (v ! 3)) OR v ! 4)"
  have m: "0 \<le> fpga_micros v" using regs_nth[OF assms(1), of 0] regs_nth[OF assms(1), of 1] by (simp add: fpga_micros_def)
  define u where "u = (fpga_micros v - 130) mod 1000000"
  have u: "0 \<le> u" "u < 1000000" by (simp_all add: u_def)
  have us: "tv_usec (fpga_time v) = u"
  proof (cases "fpga_micros v < 130")
    case True
    then have "(fpga_micros v - 130) mod 1000000 = fpga_micros v + 999870"
      using m mod_add_self2[of "fpga_micros v - 130" 1000000] by simp
    then show ?thesis using True by (simp add: u_def fpga_time_def moving_time_def fpga_micros_def)
  next
    case False
    then show ?thesis using assms(2) by (simp add: u_def fpga_time_def moving_time_def fpga_micros_def)
  qed
  have "u32 (tv_sec (fpga_time v)) = u32 (fpga_seconds v - (if fpga_micros v < 130 then 1 else 0))"
  proof (cases "fpga_micros v < 130")
    case True
    then have "u32 (tv_sec (fpga_time v)) = u32 (?s - 1)"
      by (simp add: fpga_time_def moving_time_def fpga_micros_def)
    also have "\<dots> = u32 (u32 ?s - 1)" by (simp add: u32_def mod_simps)
    also have "\<dots> = u32 (fpga_seconds v - 1)" unfolding seconds_bits[OF assms(1)] by (simp add: u32_def mod_simps)
    finally show ?thesis using True by simp
  next
    case False
    then show ?thesis using seconds_bits[OF assms(1)]
      by (simp add: fpga_time_def moving_time_def fpga_micros_def)
  qed
  then show ?thesis using fraction_error[OF u] u
    by (simp add: sub_stamp TVTOTS_def us be32_be32_bytes abs_less_iff flip: u_def)
qed

section \<open>Concrete inputs\<close>

text \<open>An FPGA that runs and holds one time, a signed request, and a client.\<close>

definition ntp_driver :: driver where
  "ntp_driver cmd temp rs =
     (if cmd = FPGA_READ then
        (1, temp + (let a = temp div 65536 in
           if a = FPGA_CHECK_RUN_STATUS then 0x52AD else if a = FPGA_SYS_MED_SECOND then 0xE000
           else if a = FPGA_SYS_HIGH_MICO_SEC then 500 else 0))
      else (0, temp))"

definition ntp_time :: timeval where "ntp_time = \<lparr>tv_sec = - 536870912, tv_usec = 499870\<rparr>"

definition ntp_reqs :: "request list" where
  "ntp_reqs = snd (ntpgettimefpga ntp_driver [])"

lemma ntp_driver_time:
  "ntpgettimefpga ntp_driver [] = (Some ntp_time, ntp_reqs)" "fst (ntpgettimefpga ntp_driver ntp_reqs) = Some ntp_time"
  "fst (SysCheckFpgaRunStatus ntp_driver (snd (ntpgettimefpga ntp_driver []))) = True"
  "fst (SysCheckFpgaRunStatus ntp_driver (snd (ntpgettimefpga ntp_driver ntp_reqs))) = True"
  by code_simp+

lemma ntp_driver_gives: "fpga_gives (demo_env ntp_driver) [] ntp_time" "fpga_gives (demo_env ntp_driver) ntp_reqs ntp_time"
  using ntp_driver_time by (auto simp: fpga_gives_def demo_env_def prod_eq_iff)

lemma demo_env_ok: "env_ok (demo_env drv)" "ne_sys (demo_env drv) n" "ne_fpga (demo_env drv) = drv"
  by (simp_all add: env_ok_def demo_env_def)

lemma full_keys_ok: "sta_ok (ntpSta (demo_ctx full_keys 10 m))"
  by (auto simp: sta_ok_def full_keys_def key_ok_def mk_of_def list_all_iff)

definition plain_request :: ntpkt where
  "plain_request = (pkt_of_bytes (replicate 68 0x23))\<lparr>KeyId := be32_bytes 7\<rparr>"

definition signed_request :: ntpkt where
  "signed_request = plain_request\<lparr>Digest := md5_digest ([0x61] @ take 48 (pkt_bytes plain_request))\<rparr>"

lemma signed_request_facts:
  "pkt_ok signed_request" "PKT_VERSION (uint (LVM signed_request)) = 4"
  "pkt_key (ntpSta (demo_ctx full_keys 10 1)) signed_request = Some (mk_of 7 [0x61])"
  "authenticated (ntpSta (demo_ctx full_keys 10 1)) signed_request"
proof -
  have r: "pkt_ok plain_request" by (simp add: plain_request_def pkt_ok_def pkt_of_bytes_def be32_bytes_def)
  then show "pkt_ok signed_request" by (simp add: signed_request_def pkt_ok_def md5_digest_length)
  show "PKT_VERSION (uint (LVM signed_request)) = 4"
    by (simp add: signed_request_def plain_request_def pkt_of_bytes_def PKT_VERSION_def)
  have "find_key 7 full_keys = Some 6" "full_keys ! 6 = mk_of 7 [0x61]" by code_simp+
  then show k: "pkt_key (ntpSta (demo_ctx full_keys 10 1)) signed_request = Some (mk_of 7 [0x61])"
    by (simp add: pkt_key_def signed_request_def plain_request_def be32_be32_bytes MAX_MD5KEY_NUM_def)
  show "authenticated (ntpSta (demo_ctx full_keys 10 1)) signed_request"
    unfolding authenticated_def k using r by (simp add: signed_request_def key_text_mk_of)
qed

lemma response_exact_witness:
  "\<exists>ctx' frame. reqResponse (demo_env ntp_driver) \<lparr>recvTime = ntp_time, recvAddr = some_addr, recvPkt = signed_request\<rparr>
     (demo_ctx full_keys 10 1) = Some ctx' \<and> sent ctx' = [frame]"
proof -
  have a: "addr_ok some_addr" by (simp add: some_addr_def addr_ok_def)
  have "admissible (ntpSta (demo_ctx full_keys 10 1)) signed_request"
    using signed_request_facts by (simp add: admissible_def version_enabled_def)
  then show ?thesis
    using response_exact[of "demo_env ntp_driver" "demo_ctx full_keys 10 1"
        "\<lparr>recvTime = ntp_time, recvAddr = some_addr, recvPkt = signed_request\<rparr>" ntp_time]
      full_keys_ok[of 1] demo_env_ok ntp_driver_gives(1) signed_request_facts(1) a by auto
qed

definition client_addr :: recvaddr where
  "client_addr = some_addr\<lparr>ra_port := be16_bytes 123\<rparr>"

lemma exchange_witness:
  "\<exists>f req ctx1 ctx2 g resp addr. send_packet True (replicate 1536 0) (replicate 48 0x23) client_addr = Some f
    \<and> reqReceive (demo_env ntp_driver) (Inr f) some_server (demo_ctx full_keys 10 0) = Some (Some req, ctx1)
    \<and> reqResponse (demo_env ntp_driver) req ctx1 = Some ctx2 \<and> sent ctx2 = [g]
    \<and> receive_packet True (replicate 1536 0) (ra_info client_addr) 256 (Inr g) = Some (RxNtp resp addr)
    \<and> sub resp 24 8 = replicate 8 0x23"
proof -
  define p where "p = pkt_of_bytes (upd (ne_heap (demo_env ntp_driver)) 0 (replicate 48 0x23))"
  have v: "LVM p = 0x23" using request_fields(2)[of "replicate 48 0x23" "ne_heap (demo_env ntp_driver)"]
    by (simp add: p_def demo_env_def)
  have "PKT_VERSION 0x23 = 4" by (simp add: PKT_VERSION_def)
  then have ad: "admissible (ntpSta (demo_ctx full_keys 10 0)) p" by (simp add: admissible_def version_enabled_def v)
  have le: "ne_le (demo_env ntp_driver) = True" by (simp add: demo_env_def)
  show ?thesis
    using exchange[of "demo_env ntp_driver" "demo_ctx full_keys 10 0" client_addr some_server "replicate 1536 0"
        "replicate 1536 0" "replicate 48 0x23" ntp_time ntp_reqs ntp_time p]
      full_keys_ok[of 0] demo_env_ok ntp_driver_gives(2) ntp_driver_time(1) ad p_def
    by (simp add: le client_addr_def some_addr_def some_server_def addr_ok_def be32_bytes_def be16_bytes_def PKT_MODE_def sub_def)
      blast
qed

lemma added_keys_unusable_witness:
  "\<exists>ok ctx'. ReadMessageQueue (demo_env ntp_driver) [Rcv (MSG_CFG_NTP_MK_ADD (mk_of 7 [0x61]))]
      (demo_ctx (replicate 10 no_key) 0 1) = Some (ok, ctx')
    \<and> keys_look (mKey (ntpSta ctx')) 7 = Some [0x61]
    \<and> reqResponse (demo_env ntp_driver) \<lparr>recvTime = ntp_time, recvAddr = some_addr, recvPkt = signed_request\<rparr> ctx' = Some ctx'"
proof -
  let ?req = "\<lparr>recvTime = ntp_time, recvAddr = some_addr, recvPkt = signed_request\<rparr>"
  let ?ctx = "demo_ctx (replicate 10 no_key) 0 1" and ?e = "demo_env ntp_driver"
  have f: "free_entries (replicate 10 no_key) = {..<10}" by (auto simp: free_entries_def no_key_def)
  have inv: "keys_inv (replicate 10 no_key)" by (simp add: keys_inv_def no_key_def)
  have n: "new_key 7 [0x61]" by (simp add: new_key_def)
  have "find_key 7 (replicate 10 no_key) = None" by (simp add: find_key_None no_key_def)
  then have l: "keys_look (replicate 10 no_key) 7 = None" by (simp add: keys_look_def)
  obtain ok ctx1 where h: "handle_msg ?e (cmd_msg (Add 7 [0x61])) ?ctx = Some (ok, ctx1)"
    "ntpSta ctx1 = (ntpSta ?ctx)\<lparr>mKey := md5_keys.table_cmd (Add 7 [0x61]) (replicate 10 no_key)\<rparr>"
    using cmd_msg_handled[of "Add 7 [0x61]" ?ctx ?e] n by auto
  have k: "keys_look (mKey (ntpSta ctx1)) 7 = Some [0x61]"
  proof -
    have "0 < card (free_entries (replicate 10 no_key))" unfolding f by simp
    then obtain s' where s: "keys_add (mk_of 7 [0x61]) (replicate 10 no_key) = Some s'"
      "keys_look s' = (keys_look (replicate 10 no_key))(7 \<mapsto> [0x61])"
      using md5_keys.add_new[OF inv n l] by blast
    have "mKey (ntpSta ctx1) = s'" unfolding h(2) md5_keys.table_cmd.simps s(1) by simp
    then show ?thesis using s(2) by simp
  qed
  have r: "ReadMessageQueue ?e [Rcv (MSG_CFG_NTP_MK_ADD (mk_of 7 [0x61]))] ?ctx = Some (ok, ctx1)"
    using h(1) by (cases ok) (simp_all add: andthen_def)
  have m: "md5Enable (ntpSta ctx1) \<noteq> 0" by (simp add: h(2))
  show ?thesis using added_keys_unusable[OF _ r m, of ?req] r k by auto
qed

lemma time_check_order_witness:
  "(3800000000, 0) \<noteq> (0 :: int, 0 :: int) \<and> \<not> time_faulty (3800000000, 500000) (3800000000, 400000)"
  using time_check_order[of "demo_ctx [] 0 0" ntp_driver 0 3800000000 400000 500000]
  by (simp add: SEC1900_2018_def SEC1900_2036_def)

lemma server_stamp_witness:
  "be32 (sub (HTONL_TS (TVTOTS (fpga_time [0, 129, 0, 0xE000, 5]))) 0 4) = 3758096388"
proof -
  have f: "regs_ok [0, 129, 0, 0xE000, 5]" "fpga_micros [0, 129, 0, 0xE000, 5] = 129"
    "fpga_seconds [0, 129, 0, 0xE000, 5] = 3758096389"
    by (simp_all add: regs_ok_def fpga_micros_def fpga_seconds_def)
  have "fpga_micros [0, 129, 0, 0xE000, 5] < 1000000" by (simp add: f)
  note server_stamp[OF f(1) this, THEN conjunct1, unfolded f(2,3)]
  also have "u32 (3758096389 - (if (129 :: int) < 130 then 1 else 0)) = 3758096388" by simp
  finally show ?thesis .
qed

end
