(* ===== verification/AllocTables.thy ===== *)
theory AllocTables
  imports Prelude
begin

unbundle bit_operations_syntax

text \<open>
  The tables that the processes of the equipment share, \<^verbatim>\<open>src/alloc/alloc.c\<close> with its headers
  \<^verbatim>\<open>alloc.h\<close> and \<^verbatim>\<open>alloc_snmp.h\<close>: the time sources, the boards with their ports and alarms, the
  identifiers of alarms and events and the index tables built from them, and the macros that
  search a table. Texts for messages are left out.
\<close>

section \<open>The macros that search a table\<close>

text \<open>
  \<open>FIND_OTHMEMBER_BY_MEMBER\<close>: the result variable keeps its value when no entry matches; the
  first match counts.
\<close>

fun FIND_OTHMEMBER_BY_MEMBER :: "'k \<Rightarrow> 'v \<Rightarrow> 'e list \<Rightarrow> ('e \<Rightarrow> 'k) \<Rightarrow> ('e \<Rightarrow> 'v) \<Rightarrow> 'v" where
  "FIND_OTHMEMBER_BY_MEMBER k v [] src des = v"
| "FIND_OTHMEMBER_BY_MEMBER k v (e # es) src des =
     (if k = src e then des e else FIND_OTHMEMBER_BY_MEMBER k v es src des)"

text \<open>\<open>FIND_INDEX_BY_THREE_MEMBER\<close>: the index of the first entry with the three members.\<close>

fun find_index_from :: "int \<Rightarrow> int \<Rightarrow> 'a \<Rightarrow> 'b \<Rightarrow> 'c \<Rightarrow> ('a \<times> 'b \<times> 'c) list \<Rightarrow> int" where
  "find_index_from i res a b c [] = res"
| "find_index_from i res a b c (e # es) =
     (case e of (a', b', c') \<Rightarrow>
        if a = a' then (if b = b' then (if c = c' then i else find_index_from (i + 1) res a b c es)
          else find_index_from (i + 1) res a b c es)
        else find_index_from (i + 1) res a b c es)"

definition FIND_INDEX_BY_THREE_MEMBER :: "int \<Rightarrow> 'a \<Rightarrow> 'b \<Rightarrow> 'c \<Rightarrow> ('a \<times> 'b \<times> 'c) list \<Rightarrow> int" where
  "FIND_INDEX_BY_THREE_MEMBER res a b c table = find_index_from 0 res a b c table"

section \<open>Identifiers of alarms and events\<close>

text \<open>The states of an alarm.\<close>

definition ALM_OFF :: int where "ALM_OFF = 0"
definition ALM_ON :: int where "ALM_ON = 1"

text \<open>The states of a lamp.\<close>

definition LED_OFF :: int where "LED_OFF = 0"
definition LED_ON :: int where "LED_ON = 1"
definition LED_ALT :: int where "LED_ALT = 3"

definition SMP_SID_SUB_SYS :: int where "SMP_SID_SUB_SYS = 0x01"
definition SMP_SID_SUB_PWR :: int where "SMP_SID_SUB_PWR = 0x02"
definition SMP_SID_SUB_SAT :: int where "SMP_SID_SUB_SAT = 0x05"
definition SMP_SID_SUB_IN :: int where "SMP_SID_SUB_IN = 0x06"
definition SMP_SID_SUB_CLK :: int where "SMP_SID_SUB_CLK = 0x07"
definition SMP_SID_SUB_OUT :: int where "SMP_SID_SUB_OUT = 0x08"

definition snmp_id :: "int \<Rightarrow> int \<Rightarrow> int \<Rightarrow> int \<Rightarrow> int" where
  "snmp_id sub alarm code var = push_bit 25 sub OR push_bit 24 alarm OR push_bit 8 code OR var"

text \<open>The names of the alarms, and their identifiers.\<close>

datatype alm_name =
  A_ALL_REF_LOS | A_XO_UNLOCK | A_RB_UNLOCK | A_HW_FPGA_HALT | A_NTP_EXIT | A_EXT_PWR_INPUT |
  A_GPBD_SGN_LOS | A_GPBD_SGN_DGD | A_ANT_OPEN | A_ANT_SHORT | A_GPBD_THRSD | A_1PPS_TOD_THRSD |
  A_1PPS_TOD_IN_LOS | A_1PPS_THRSD | A_1PPS_IN_LOS | A_2MHZ_IN_LOS | A_2MHZ_THRSD |
  A_10MHZ_IN_LOS | A_10MHZ_THRSD | A_2MB_IN_LOS | A_2MB_AIS | A_2MB_BPV | A_2MB_CRC | A_2MB_LOF |
  A_2MB_THRSD | A_IRIGB_IN_LOS | A_IRIGB_IN_DGD | A_IRIGB_INVAID | A_IRIGB_THRSD | A_PTP_IN_LOS |
  A_PTP_IN_DGD | A_PTP_THRSD | A_NTP_IN_LOS | A_NTP_IN_DGD | A_NTP_THRSD | A_LINK_DOWN

primrec SNMP_ALM_ID :: "alm_name \<Rightarrow> int" where
  "SNMP_ALM_ID A_ALL_REF_LOS = snmp_id SMP_SID_SUB_SYS 1 0x0003 0x00"
| "SNMP_ALM_ID A_XO_UNLOCK = snmp_id SMP_SID_SUB_SYS 1 0x0007 0x01"
| "SNMP_ALM_ID A_RB_UNLOCK = snmp_id SMP_SID_SUB_SYS 1 0x0007 0x02"
| "SNMP_ALM_ID A_HW_FPGA_HALT = snmp_id SMP_SID_SUB_SYS 1 0x0007 0x03"
| "SNMP_ALM_ID A_NTP_EXIT = snmp_id SMP_SID_SUB_SYS 1 0x0001 0x00"
| "SNMP_ALM_ID A_EXT_PWR_INPUT = snmp_id SMP_SID_SUB_PWR 1 0x0003 0x00"
| "SNMP_ALM_ID A_GPBD_SGN_LOS = snmp_id SMP_SID_SUB_SAT 1 0x0001 0x00"
| "SNMP_ALM_ID A_GPBD_SGN_DGD = snmp_id SMP_SID_SUB_SAT 1 0x0009 0x00"
| "SNMP_ALM_ID A_ANT_OPEN = snmp_id SMP_SID_SUB_SAT 1 0x0003 0x00"
| "SNMP_ALM_ID A_ANT_SHORT = snmp_id SMP_SID_SUB_SAT 1 0x0004 0x00"
| "SNMP_ALM_ID A_GPBD_THRSD = snmp_id SMP_SID_SUB_IN 1 0x000C 0x01"
| "SNMP_ALM_ID A_1PPS_TOD_THRSD = snmp_id SMP_SID_SUB_IN 1 0x000C 0x02"
| "SNMP_ALM_ID A_1PPS_TOD_IN_LOS = snmp_id SMP_SID_SUB_IN 1 0x0008 0x02"
| "SNMP_ALM_ID A_1PPS_THRSD = snmp_id SMP_SID_SUB_IN 1 0x000C 0x03"
| "SNMP_ALM_ID A_1PPS_IN_LOS = snmp_id SMP_SID_SUB_IN 1 0x0008 0x03"
| "SNMP_ALM_ID A_2MHZ_IN_LOS = snmp_id SMP_SID_SUB_IN 1 0x0008 0x06"
| "SNMP_ALM_ID A_2MHZ_THRSD = snmp_id SMP_SID_SUB_IN 1 0x000C 0x06"
| "SNMP_ALM_ID A_10MHZ_IN_LOS = snmp_id SMP_SID_SUB_IN 1 0x0008 0x07"
| "SNMP_ALM_ID A_10MHZ_THRSD = snmp_id SMP_SID_SUB_IN 1 0x000C 0x07"
| "SNMP_ALM_ID A_2MB_IN_LOS = snmp_id SMP_SID_SUB_IN 1 0x0008 0x08"
| "SNMP_ALM_ID A_2MB_AIS = snmp_id SMP_SID_SUB_IN 1 0x0001 0x00"
| "SNMP_ALM_ID A_2MB_BPV = snmp_id SMP_SID_SUB_IN 1 0x0002 0x00"
| "SNMP_ALM_ID A_2MB_CRC = snmp_id SMP_SID_SUB_IN 1 0x0003 0x00"
| "SNMP_ALM_ID A_2MB_LOF = snmp_id SMP_SID_SUB_IN 1 0x000B 0x00"
| "SNMP_ALM_ID A_2MB_THRSD = snmp_id SMP_SID_SUB_IN 1 0x000C 0x08"
| "SNMP_ALM_ID A_IRIGB_IN_LOS = snmp_id SMP_SID_SUB_IN 1 0x0008 0x04"
| "SNMP_ALM_ID A_IRIGB_IN_DGD = snmp_id SMP_SID_SUB_IN 1 0x0011 0x04"
| "SNMP_ALM_ID A_IRIGB_INVAID = snmp_id SMP_SID_SUB_IN 1 0x0012 0x04"
| "SNMP_ALM_ID A_IRIGB_THRSD = snmp_id SMP_SID_SUB_IN 1 0x000C 0x04"
| "SNMP_ALM_ID A_PTP_IN_LOS = snmp_id SMP_SID_SUB_IN 1 0x0008 0x05"
| "SNMP_ALM_ID A_PTP_IN_DGD = snmp_id SMP_SID_SUB_IN 1 0x0011 0x05"
| "SNMP_ALM_ID A_PTP_THRSD = snmp_id SMP_SID_SUB_IN 1 0x000C 0x05"
| "SNMP_ALM_ID A_NTP_IN_LOS = snmp_id SMP_SID_SUB_IN 1 0x0008 0x09"
| "SNMP_ALM_ID A_NTP_IN_DGD = snmp_id SMP_SID_SUB_IN 1 0x0011 0x09"
| "SNMP_ALM_ID A_NTP_THRSD = snmp_id SMP_SID_SUB_IN 1 0x000C 0x09"
| "SNMP_ALM_ID A_LINK_DOWN = snmp_id SMP_SID_SUB_OUT 1 0x0006 0x00"

text \<open>The names of the events, and their identifiers.\<close>

datatype evnt_name =
  E_SYSTIME_SET | E_SYSTIME_UPDATE | E_USR_CONF_LOSS | E_SYSLEAP_SET | E_SYSLEAP_UPDATE |
  E_SYSIP_SET | E_TRPSIP_SET | E_TRPSIP_UPDATE | E_ALM_GENERATE | E_ALM_DISAPPEAR | E_SAT_GPS |
  E_SAT_BD | E_SAT_MGPS | E_SAT_MBD | E_SAT_LNUM | E_SAT_LOCK | E_SAT_FREE | E_CLK_BRIDGE |
  E_CLK_FAST | E_CLK_FREE | E_CLK_LOCK | E_CLK_WARMUP | E_CLK_HOLD | E_IN_CH_AVA | E_IN_CH_MAST |
  E_IN_CH_STBY | E_IN_CH_UNAVA | E_IN_MT_AIS | E_IN_MT_BPV | E_IN_MT_CRC | E_IN_MT_FREQ |
  E_IN_MT_LOS | E_IN_REF_ACTIVE | E_IN_RPC | E_IN_UNK | E_IN_SSUT | E_IN_SSUL | E_IN_SEC |
  E_IN_DNU | E_IN_REF_SWAP | E_OUT_RPC | E_OUT_UNK | E_OUT_SSUT | E_OUT_SSUL | E_OUT_SEC |
  E_OUT_DNU | E_LINK_DOWN

primrec SNMP_EVNT_ID :: "evnt_name \<Rightarrow> int" where
  "SNMP_EVNT_ID E_SYSTIME_SET = snmp_id SMP_SID_SUB_SYS 0 0x0001 0x00"
| "SNMP_EVNT_ID E_SYSTIME_UPDATE = snmp_id SMP_SID_SUB_SYS 0 0x0002 0x00"
| "SNMP_EVNT_ID E_USR_CONF_LOSS = snmp_id SMP_SID_SUB_SYS 0 0x0003 0x00"
| "SNMP_EVNT_ID E_SYSLEAP_SET = snmp_id SMP_SID_SUB_SYS 0 0x0004 0x00"
| "SNMP_EVNT_ID E_SYSLEAP_UPDATE = snmp_id SMP_SID_SUB_SYS 0 0x0005 0x00"
| "SNMP_EVNT_ID E_SYSIP_SET = snmp_id SMP_SID_SUB_SYS 0 0x0006 0x00"
| "SNMP_EVNT_ID E_TRPSIP_SET = snmp_id SMP_SID_SUB_SYS 0 0x0007 0x00"
| "SNMP_EVNT_ID E_TRPSIP_UPDATE = snmp_id SMP_SID_SUB_SYS 0 0x0008 0x00"
| "SNMP_EVNT_ID E_ALM_GENERATE = snmp_id SMP_SID_SUB_SYS 0 0x0009 0x00"
| "SNMP_EVNT_ID E_ALM_DISAPPEAR = snmp_id SMP_SID_SUB_SYS 0 0x000A 0x00"
| "SNMP_EVNT_ID E_SAT_GPS = snmp_id SMP_SID_SUB_SAT 0 0x0001 0x02"
| "SNMP_EVNT_ID E_SAT_BD = snmp_id SMP_SID_SUB_SAT 0 0x0001 0x03"
| "SNMP_EVNT_ID E_SAT_MGPS = snmp_id SMP_SID_SUB_SAT 0 0x0001 0x06"
| "SNMP_EVNT_ID E_SAT_MBD = snmp_id SMP_SID_SUB_SAT 0 0x0001 0x07"
| "SNMP_EVNT_ID E_SAT_LNUM = snmp_id SMP_SID_SUB_SAT 0 0x0002 0x00"
| "SNMP_EVNT_ID E_SAT_LOCK = snmp_id SMP_SID_SUB_SAT 0 0x0004 0x00"
| "SNMP_EVNT_ID E_SAT_FREE = snmp_id SMP_SID_SUB_SAT 0 0x0005 0x00"
| "SNMP_EVNT_ID E_CLK_BRIDGE = snmp_id SMP_SID_SUB_CLK 0 0x0001 0x00"
| "SNMP_EVNT_ID E_CLK_FAST = snmp_id SMP_SID_SUB_CLK 0 0x0002 0x00"
| "SNMP_EVNT_ID E_CLK_FREE = snmp_id SMP_SID_SUB_CLK 0 0x0003 0x00"
| "SNMP_EVNT_ID E_CLK_LOCK = snmp_id SMP_SID_SUB_CLK 0 0x0004 0x00"
| "SNMP_EVNT_ID E_CLK_WARMUP = snmp_id SMP_SID_SUB_CLK 0 0x0005 0x00"
| "SNMP_EVNT_ID E_CLK_HOLD = snmp_id SMP_SID_SUB_CLK 0 0x0006 0x00"
| "SNMP_EVNT_ID E_IN_CH_AVA = snmp_id SMP_SID_SUB_IN 0 0x0001 0x00"
| "SNMP_EVNT_ID E_IN_CH_MAST = snmp_id SMP_SID_SUB_IN 0 0x0005 0x00"
| "SNMP_EVNT_ID E_IN_CH_STBY = snmp_id SMP_SID_SUB_IN 0 0x0006 0x00"
| "SNMP_EVNT_ID E_IN_CH_UNAVA = snmp_id SMP_SID_SUB_IN 0 0x0007 0x00"
| "SNMP_EVNT_ID E_IN_MT_AIS = snmp_id SMP_SID_SUB_IN 0 0x0008 0x00"
| "SNMP_EVNT_ID E_IN_MT_BPV = snmp_id SMP_SID_SUB_IN 0 0x0009 0x00"
| "SNMP_EVNT_ID E_IN_MT_CRC = snmp_id SMP_SID_SUB_IN 0 0x000A 0x00"
| "SNMP_EVNT_ID E_IN_MT_FREQ = snmp_id SMP_SID_SUB_IN 0 0x000C 0x00"
| "SNMP_EVNT_ID E_IN_MT_LOS = snmp_id SMP_SID_SUB_IN 0 0x000E 0x00"
| "SNMP_EVNT_ID E_IN_REF_ACTIVE = snmp_id SMP_SID_SUB_IN 0 0x0015 0x00"
| "SNMP_EVNT_ID E_IN_RPC = snmp_id SMP_SID_SUB_IN 0 0x0016 0x01"
| "SNMP_EVNT_ID E_IN_UNK = snmp_id SMP_SID_SUB_IN 0 0x0016 0x02"
| "SNMP_EVNT_ID E_IN_SSUT = snmp_id SMP_SID_SUB_IN 0 0x0016 0x03"
| "SNMP_EVNT_ID E_IN_SSUL = snmp_id SMP_SID_SUB_IN 0 0x0016 0x04"
| "SNMP_EVNT_ID E_IN_SEC = snmp_id SMP_SID_SUB_IN 0 0x0016 0x05"
| "SNMP_EVNT_ID E_IN_DNU = snmp_id SMP_SID_SUB_IN 0 0x0016 0x06"
| "SNMP_EVNT_ID E_IN_REF_SWAP = snmp_id SMP_SID_SUB_IN 0 0x0017 0x00"
| "SNMP_EVNT_ID E_OUT_RPC = snmp_id SMP_SID_SUB_OUT 0 0x0001 0x01"
| "SNMP_EVNT_ID E_OUT_UNK = snmp_id SMP_SID_SUB_OUT 0 0x0001 0x02"
| "SNMP_EVNT_ID E_OUT_SSUT = snmp_id SMP_SID_SUB_OUT 0 0x0001 0x03"
| "SNMP_EVNT_ID E_OUT_SSUL = snmp_id SMP_SID_SUB_OUT 0 0x0001 0x04"
| "SNMP_EVNT_ID E_OUT_SEC = snmp_id SMP_SID_SUB_OUT 0 0x0001 0x05"
| "SNMP_EVNT_ID E_OUT_DNU = snmp_id SMP_SID_SUB_OUT 0 0x0001 0x06"
| "SNMP_EVNT_ID E_LINK_DOWN = snmp_id SMP_SID_SUB_OUT 0 0x0002 0x00"

text \<open>The table of the alarms: the identifier and the subsystem.\<close>

definition gAlmIdTbl :: "(int \<times> int) list" where
  "gAlmIdTbl = [
    (SNMP_ALM_ID A_ALL_REF_LOS, SMP_SID_SUB_SYS),
    (SNMP_ALM_ID A_XO_UNLOCK, SMP_SID_SUB_SYS),
    (SNMP_ALM_ID A_RB_UNLOCK, SMP_SID_SUB_SYS),
    (SNMP_ALM_ID A_HW_FPGA_HALT, SMP_SID_SUB_SYS),
    (SNMP_ALM_ID A_NTP_EXIT, SMP_SID_SUB_SYS),
    (SNMP_ALM_ID A_EXT_PWR_INPUT, SMP_SID_SUB_PWR),
    (SNMP_ALM_ID A_GPBD_SGN_LOS, SMP_SID_SUB_SAT),
    (SNMP_ALM_ID A_GPBD_SGN_DGD, SMP_SID_SUB_SAT),
    (SNMP_ALM_ID A_ANT_OPEN, SMP_SID_SUB_SAT),
    (SNMP_ALM_ID A_ANT_SHORT, SMP_SID_SUB_SAT),
    (SNMP_ALM_ID A_GPBD_THRSD, SMP_SID_SUB_IN),
    (SNMP_ALM_ID A_1PPS_TOD_THRSD, SMP_SID_SUB_IN),
    (SNMP_ALM_ID A_1PPS_TOD_IN_LOS, SMP_SID_SUB_IN),
    (SNMP_ALM_ID A_1PPS_THRSD, SMP_SID_SUB_IN),
    (SNMP_ALM_ID A_1PPS_IN_LOS, SMP_SID_SUB_IN),
    (SNMP_ALM_ID A_2MHZ_IN_LOS, SMP_SID_SUB_IN),
    (SNMP_ALM_ID A_2MHZ_THRSD, SMP_SID_SUB_IN),
    (SNMP_ALM_ID A_10MHZ_IN_LOS, SMP_SID_SUB_IN),
    (SNMP_ALM_ID A_10MHZ_THRSD, SMP_SID_SUB_IN),
    (SNMP_ALM_ID A_2MB_IN_LOS, SMP_SID_SUB_IN),
    (SNMP_ALM_ID A_2MB_AIS, SMP_SID_SUB_IN),
    (SNMP_ALM_ID A_2MB_BPV, SMP_SID_SUB_IN),
    (SNMP_ALM_ID A_2MB_CRC, SMP_SID_SUB_IN),
    (SNMP_ALM_ID A_2MB_LOF, SMP_SID_SUB_IN),
    (SNMP_ALM_ID A_2MB_THRSD, SMP_SID_SUB_IN),
    (SNMP_ALM_ID A_IRIGB_IN_LOS, SMP_SID_SUB_IN),
    (SNMP_ALM_ID A_IRIGB_IN_DGD, SMP_SID_SUB_IN),
    (SNMP_ALM_ID A_IRIGB_INVAID, SMP_SID_SUB_IN),
    (SNMP_ALM_ID A_IRIGB_THRSD, SMP_SID_SUB_IN),
    (SNMP_ALM_ID A_PTP_IN_LOS, SMP_SID_SUB_IN),
    (SNMP_ALM_ID A_PTP_IN_DGD, SMP_SID_SUB_IN),
    (SNMP_ALM_ID A_PTP_THRSD, SMP_SID_SUB_IN),
    (SNMP_ALM_ID A_NTP_IN_LOS, SMP_SID_SUB_IN),
    (SNMP_ALM_ID A_NTP_IN_DGD, SMP_SID_SUB_IN),
    (SNMP_ALM_ID A_NTP_THRSD, SMP_SID_SUB_IN),
    (SNMP_ALM_ID A_LINK_DOWN, SMP_SID_SUB_OUT)]"

text \<open>The groups of events that exclude each other, and the table of the events.\<close>

definition SMP_EVNT_GRP_NONE :: int where "SMP_EVNT_GRP_NONE = 0"
definition SMP_EVNT_GRP_SATE_MODSET :: int where "SMP_EVNT_GRP_SATE_MODSET = 1"
definition SMP_EVNT_GRP_SATE_CLKSTA :: int where "SMP_EVNT_GRP_SATE_CLKSTA = 2"
definition SMP_EVNT_GRP_CLKSTA :: int where "SMP_EVNT_GRP_CLKSTA = 3"
definition SMP_EVNT_GRP_IN_CHSTA :: int where "SMP_EVNT_GRP_IN_CHSTA = 4"
definition SMP_EVNT_GRP_IN_MTSTA :: int where "SMP_EVNT_GRP_IN_MTSTA = 5"
definition SMP_EVNT_GRP_IN_CLK_QUAL_LVL :: int where "SMP_EVNT_GRP_IN_CLK_QUAL_LVL = 6"
definition SMP_EVNT_GRP_OUT_CLK_QUAL_LVL :: int where "SMP_EVNT_GRP_OUT_CLK_QUAL_LVL = 7"

definition gEvntIdTbl :: "(int \<times> int \<times> int) list" where
  "gEvntIdTbl = [
    (SNMP_EVNT_ID E_SYSTIME_SET, SMP_SID_SUB_SYS, SMP_EVNT_GRP_NONE),
    (SNMP_EVNT_ID E_SYSTIME_UPDATE, SMP_SID_SUB_SYS, SMP_EVNT_GRP_NONE),
    (SNMP_EVNT_ID E_USR_CONF_LOSS, SMP_SID_SUB_SYS, SMP_EVNT_GRP_NONE),
    (SNMP_EVNT_ID E_SYSLEAP_SET, SMP_SID_SUB_SYS, SMP_EVNT_GRP_NONE),
    (SNMP_EVNT_ID E_SYSLEAP_UPDATE, SMP_SID_SUB_SYS, SMP_EVNT_GRP_NONE),
    (SNMP_EVNT_ID E_SYSIP_SET, SMP_SID_SUB_SYS, SMP_EVNT_GRP_NONE),
    (SNMP_EVNT_ID E_TRPSIP_SET, SMP_SID_SUB_SYS, SMP_EVNT_GRP_NONE),
    (SNMP_EVNT_ID E_TRPSIP_UPDATE, SMP_SID_SUB_SYS, SMP_EVNT_GRP_NONE),
    (SNMP_EVNT_ID E_ALM_GENERATE, SMP_SID_SUB_SYS, SMP_EVNT_GRP_NONE),
    (SNMP_EVNT_ID E_ALM_DISAPPEAR, SMP_SID_SUB_SYS, SMP_EVNT_GRP_NONE),
    (SNMP_EVNT_ID E_SAT_GPS, SMP_SID_SUB_SAT, SMP_EVNT_GRP_SATE_MODSET),
    (SNMP_EVNT_ID E_SAT_BD, SMP_SID_SUB_SAT, SMP_EVNT_GRP_SATE_MODSET),
    (SNMP_EVNT_ID E_SAT_MGPS, SMP_SID_SUB_SAT, SMP_EVNT_GRP_SATE_MODSET),
    (SNMP_EVNT_ID E_SAT_MBD, SMP_SID_SUB_SAT, SMP_EVNT_GRP_SATE_MODSET),
    (SNMP_EVNT_ID E_SAT_LNUM, SMP_SID_SUB_SAT, SMP_EVNT_GRP_NONE),
    (SNMP_EVNT_ID E_SAT_LOCK, SMP_SID_SUB_SAT, SMP_EVNT_GRP_SATE_CLKSTA),
    (SNMP_EVNT_ID E_SAT_FREE, SMP_SID_SUB_SAT, SMP_EVNT_GRP_SATE_CLKSTA),
    (SNMP_EVNT_ID E_CLK_BRIDGE, SMP_SID_SUB_CLK, SMP_EVNT_GRP_CLKSTA),
    (SNMP_EVNT_ID E_CLK_FAST, SMP_SID_SUB_CLK, SMP_EVNT_GRP_CLKSTA),
    (SNMP_EVNT_ID E_CLK_FREE, SMP_SID_SUB_CLK, SMP_EVNT_GRP_CLKSTA),
    (SNMP_EVNT_ID E_CLK_LOCK, SMP_SID_SUB_CLK, SMP_EVNT_GRP_CLKSTA),
    (SNMP_EVNT_ID E_CLK_WARMUP, SMP_SID_SUB_CLK, SMP_EVNT_GRP_CLKSTA),
    (SNMP_EVNT_ID E_CLK_HOLD, SMP_SID_SUB_CLK, SMP_EVNT_GRP_CLKSTA),
    (SNMP_EVNT_ID E_IN_CH_AVA, SMP_SID_SUB_IN, SMP_EVNT_GRP_IN_CHSTA),
    (SNMP_EVNT_ID E_IN_CH_MAST, SMP_SID_SUB_IN, SMP_EVNT_GRP_IN_CHSTA),
    (SNMP_EVNT_ID E_IN_CH_STBY, SMP_SID_SUB_IN, SMP_EVNT_GRP_IN_CHSTA),
    (SNMP_EVNT_ID E_IN_CH_UNAVA, SMP_SID_SUB_IN, SMP_EVNT_GRP_IN_CHSTA),
    (SNMP_EVNT_ID E_IN_MT_AIS, SMP_SID_SUB_IN, SMP_EVNT_GRP_IN_MTSTA),
    (SNMP_EVNT_ID E_IN_MT_BPV, SMP_SID_SUB_IN, SMP_EVNT_GRP_IN_MTSTA),
    (SNMP_EVNT_ID E_IN_MT_CRC, SMP_SID_SUB_IN, SMP_EVNT_GRP_IN_MTSTA),
    (SNMP_EVNT_ID E_IN_MT_FREQ, SMP_SID_SUB_IN, SMP_EVNT_GRP_IN_MTSTA),
    (SNMP_EVNT_ID E_IN_MT_LOS, SMP_SID_SUB_IN, SMP_EVNT_GRP_IN_MTSTA),
    (SNMP_EVNT_ID E_IN_REF_ACTIVE, SMP_SID_SUB_IN, SMP_EVNT_GRP_NONE),
    (SNMP_EVNT_ID E_IN_RPC, SMP_SID_SUB_IN, SMP_EVNT_GRP_IN_CLK_QUAL_LVL),
    (SNMP_EVNT_ID E_IN_UNK, SMP_SID_SUB_IN, SMP_EVNT_GRP_IN_CLK_QUAL_LVL),
    (SNMP_EVNT_ID E_IN_SSUT, SMP_SID_SUB_IN, SMP_EVNT_GRP_IN_CLK_QUAL_LVL),
    (SNMP_EVNT_ID E_IN_SSUL, SMP_SID_SUB_IN, SMP_EVNT_GRP_IN_CLK_QUAL_LVL),
    (SNMP_EVNT_ID E_IN_SEC, SMP_SID_SUB_IN, SMP_EVNT_GRP_IN_CLK_QUAL_LVL),
    (SNMP_EVNT_ID E_IN_DNU, SMP_SID_SUB_IN, SMP_EVNT_GRP_IN_CLK_QUAL_LVL),
    (SNMP_EVNT_ID E_IN_REF_SWAP, SMP_SID_SUB_IN, SMP_EVNT_GRP_NONE),
    (SNMP_EVNT_ID E_OUT_RPC, SMP_SID_SUB_OUT, SMP_EVNT_GRP_OUT_CLK_QUAL_LVL),
    (SNMP_EVNT_ID E_OUT_UNK, SMP_SID_SUB_OUT, SMP_EVNT_GRP_OUT_CLK_QUAL_LVL),
    (SNMP_EVNT_ID E_OUT_SSUT, SMP_SID_SUB_OUT, SMP_EVNT_GRP_OUT_CLK_QUAL_LVL),
    (SNMP_EVNT_ID E_OUT_SSUL, SMP_SID_SUB_OUT, SMP_EVNT_GRP_OUT_CLK_QUAL_LVL),
    (SNMP_EVNT_ID E_OUT_SEC, SMP_SID_SUB_OUT, SMP_EVNT_GRP_OUT_CLK_QUAL_LVL),
    (SNMP_EVNT_ID E_OUT_DNU, SMP_SID_SUB_OUT, SMP_EVNT_GRP_OUT_CLK_QUAL_LVL),
    (SNMP_EVNT_ID E_LINK_DOWN, SMP_SID_SUB_OUT, SMP_EVNT_GRP_NONE)]"

section \<open>Time sources\<close>

definition PER_SLOT_SRCTYPE_NUM :: int where "PER_SLOT_SRCTYPE_NUM = 10"
definition INPUT_MAX_SLOT :: int where "INPUT_MAX_SLOT = 4"
definition TIME_SOURCE_MAX_NOSOURCE :: int where
  "TIME_SOURCE_MAX_NOSOURCE = PER_SLOT_SRCTYPE_NUM * INPUT_MAX_SLOT"
definition NO_SOURCE :: int where "NO_SOURCE = 0xFFFF"

definition GPS_SOURCE_TYPE :: int where "GPS_SOURCE_TYPE = 1"
definition S2MH_SOURCE_TYPE :: int where "S2MH_SOURCE_TYPE = 2"
definition S2MB_SOURCE_TYPE :: int where "S2MB_SOURCE_TYPE = 3"
definition IRIGB1_SOURCE_TYPE :: int where "IRIGB1_SOURCE_TYPE = 4"
definition IRIGB2_SOURCE_TYPE :: int where "IRIGB2_SOURCE_TYPE = 5"
definition TOD_SOURCE_TYPE :: int where "TOD_SOURCE_TYPE = 6"
definition S1PPS_SOURCE_TYPE :: int where "S1PPS_SOURCE_TYPE = 7"
definition S10MH1_SOURCE_TYPE :: int where "S10MH1_SOURCE_TYPE = 8"
definition S10MH2_SOURCE_TYPE :: int where "S10MH2_SOURCE_TYPE = 9"
definition NTP_SOURCE_TYPE :: int where "NTP_SOURCE_TYPE = 10"
definition NO_SOURCE_TYPE :: int where "NO_SOURCE_TYPE = 0"

definition GPS_SOURCE_ID :: "int \<Rightarrow> int" where
  "GPS_SOURCE_ID slot = PER_SLOT_SRCTYPE_NUM * (slot - 1) + 0"
definition S2MH_SOURCE_ID :: "int \<Rightarrow> int" where
  "S2MH_SOURCE_ID slot = PER_SLOT_SRCTYPE_NUM * (slot - 1) + 1"
definition S2MB_SOURCE_ID :: "int \<Rightarrow> int" where
  "S2MB_SOURCE_ID slot = PER_SLOT_SRCTYPE_NUM * (slot - 1) + 2"
definition IRIGB1_SOURCE_ID :: "int \<Rightarrow> int" where
  "IRIGB1_SOURCE_ID slot = PER_SLOT_SRCTYPE_NUM * (slot - 1) + 3"
definition IRIGB2_SOURCE_ID :: "int \<Rightarrow> int" where
  "IRIGB2_SOURCE_ID slot = PER_SLOT_SRCTYPE_NUM * (slot - 1) + 4"
definition TOD_SOURCE_ID :: "int \<Rightarrow> int" where
  "TOD_SOURCE_ID slot = PER_SLOT_SRCTYPE_NUM * (slot - 1) + 5"
definition S1PPS_SOURCE_ID :: "int \<Rightarrow> int" where
  "S1PPS_SOURCE_ID slot = PER_SLOT_SRCTYPE_NUM * (slot - 1) + 6"
definition S10MH1_SOURCE_ID :: "int \<Rightarrow> int" where
  "S10MH1_SOURCE_ID slot = PER_SLOT_SRCTYPE_NUM * (slot - 1) + 7"
definition S10MH2_SOURCE_ID :: "int \<Rightarrow> int" where
  "S10MH2_SOURCE_ID slot = PER_SLOT_SRCTYPE_NUM * (slot - 1) + 8"
definition NTP_SOURCE_ID :: "int \<Rightarrow> int" where
  "NTP_SOURCE_ID slot = PER_SLOT_SRCTYPE_NUM * (slot - 1) + 9"

definition G_GPS_SOURCE_VAL :: "int \<Rightarrow> int" where
  "G_GPS_SOURCE_VAL slot = push_bit (nat (4 * (slot - 1))) 0x1"
definition G_S2MH_SOURCE_VAL :: "int \<Rightarrow> int" where
  "G_S2MH_SOURCE_VAL slot = push_bit (nat (4 * (slot - 1))) 0x2"
definition G_S2MB_SOURCE_VAL :: "int \<Rightarrow> int" where
  "G_S2MB_SOURCE_VAL slot = push_bit (nat (4 * (slot - 1))) 0x3"
definition G_IRIGB1_SOURCE_VAL :: "int \<Rightarrow> int" where
  "G_IRIGB1_SOURCE_VAL slot = push_bit (nat (4 * (slot - 1))) 0x4"
definition G_IRIGB2_SOURCE_VAL :: "int \<Rightarrow> int" where
  "G_IRIGB2_SOURCE_VAL slot = push_bit (nat (4 * (slot - 1))) 0x5"
definition G_TOD_SOURCE_VAL :: "int \<Rightarrow> int" where
  "G_TOD_SOURCE_VAL slot = push_bit (nat (4 * (slot - 1))) 0x6"
definition G_S1PPS_SOURCE_VAL :: "int \<Rightarrow> int" where
  "G_S1PPS_SOURCE_VAL slot = push_bit (nat (4 * (slot - 1))) 0x8"
definition G_S10MH1_SOURCE_VAL :: "int \<Rightarrow> int" where
  "G_S10MH1_SOURCE_VAL slot = push_bit (nat (4 * (slot - 1))) 0x9"
definition G_S10MH2_SOURCE_VAL :: "int \<Rightarrow> int" where
  "G_S10MH2_SOURCE_VAL slot = push_bit (nat (4 * (slot - 1))) 0xa"
definition G_NTP_SOURCE_VAL :: "int \<Rightarrow> int" where
  "G_NTP_SOURCE_VAL slot = push_bit (nat (4 * (slot - 1))) 0x7"

definition INVALID_SOURCE_FLAG :: int where "INVALID_SOURCE_FLAG = 0"
definition TIME_SOURCE_FLAG :: int where "TIME_SOURCE_FLAG = 1"
definition FREQ_SOURCE_FLAG :: int where "FREQ_SOURCE_FLAG = 2"
definition BOTH_SOURCE_FLAG :: int where "BOTH_SOURCE_FLAG = 3"

record timesource =
  ts_id :: int
  ts_g_val :: int
  ts_type :: int
  ts_slot :: int
  ts_flag :: int

definition timesource_of :: "int \<Rightarrow> int \<Rightarrow> int \<Rightarrow> int \<Rightarrow> int \<Rightarrow> timesource" where
  "timesource_of i g t s f = \<lparr>ts_id = i, ts_g_val = g, ts_type = t, ts_slot = s, ts_flag = f\<rparr>"

definition gTimeSourceTbl :: "timesource list" where
  "gTimeSourceTbl = [
    timesource_of (GPS_SOURCE_ID 1) (G_GPS_SOURCE_VAL 1) GPS_SOURCE_TYPE 1 BOTH_SOURCE_FLAG,
    timesource_of (S2MH_SOURCE_ID 1) (G_S2MH_SOURCE_VAL 1) S2MH_SOURCE_TYPE 1 FREQ_SOURCE_FLAG,
    timesource_of (S2MB_SOURCE_ID 1) (G_S2MB_SOURCE_VAL 1) S2MB_SOURCE_TYPE 1 FREQ_SOURCE_FLAG,
    timesource_of (IRIGB1_SOURCE_ID 1) (G_IRIGB1_SOURCE_VAL 1) IRIGB1_SOURCE_TYPE 1 BOTH_SOURCE_FLAG,
    timesource_of (IRIGB2_SOURCE_ID 1) (G_IRIGB2_SOURCE_VAL 1) IRIGB2_SOURCE_TYPE 1 BOTH_SOURCE_FLAG,
    timesource_of (TOD_SOURCE_ID 1) (G_TOD_SOURCE_VAL 1) TOD_SOURCE_TYPE 1 BOTH_SOURCE_FLAG,
    timesource_of (S1PPS_SOURCE_ID 1) (G_S1PPS_SOURCE_VAL 1) S1PPS_SOURCE_TYPE 1 FREQ_SOURCE_FLAG,
    timesource_of (S10MH1_SOURCE_ID 1) (G_S10MH1_SOURCE_VAL 1) S10MH1_SOURCE_TYPE 1 FREQ_SOURCE_FLAG,
    timesource_of (S10MH2_SOURCE_ID 1) (G_S10MH2_SOURCE_VAL 1) S10MH2_SOURCE_TYPE 1 FREQ_SOURCE_FLAG,
    timesource_of (NTP_SOURCE_ID 1) (G_NTP_SOURCE_VAL 1) NTP_SOURCE_TYPE 1 TIME_SOURCE_FLAG,
    timesource_of (GPS_SOURCE_ID 2) (G_GPS_SOURCE_VAL 2) GPS_SOURCE_TYPE 2 BOTH_SOURCE_FLAG,
    timesource_of (S2MH_SOURCE_ID 2) (G_S2MH_SOURCE_VAL 2) S2MH_SOURCE_TYPE 2 FREQ_SOURCE_FLAG,
    timesource_of (S2MB_SOURCE_ID 2) (G_S2MB_SOURCE_VAL 2) S2MB_SOURCE_TYPE 2 FREQ_SOURCE_FLAG,
    timesource_of (IRIGB1_SOURCE_ID 2) (G_IRIGB1_SOURCE_VAL 2) IRIGB1_SOURCE_TYPE 2 BOTH_SOURCE_FLAG,
    timesource_of (IRIGB2_SOURCE_ID 2) (G_IRIGB2_SOURCE_VAL 2) IRIGB2_SOURCE_TYPE 2 BOTH_SOURCE_FLAG,
    timesource_of (TOD_SOURCE_ID 2) (G_TOD_SOURCE_VAL 2) TOD_SOURCE_TYPE 2 BOTH_SOURCE_FLAG,
    timesource_of (S1PPS_SOURCE_ID 2) (G_S1PPS_SOURCE_VAL 2) S1PPS_SOURCE_TYPE 2 FREQ_SOURCE_FLAG,
    timesource_of (S10MH1_SOURCE_ID 2) (G_S10MH1_SOURCE_VAL 2) S10MH1_SOURCE_TYPE 2 FREQ_SOURCE_FLAG,
    timesource_of (S10MH2_SOURCE_ID 2) (G_S10MH2_SOURCE_VAL 2) S10MH2_SOURCE_TYPE 2 FREQ_SOURCE_FLAG,
    timesource_of (NTP_SOURCE_ID 2) (G_NTP_SOURCE_VAL 2) NTP_SOURCE_TYPE 2 TIME_SOURCE_FLAG,
    timesource_of (GPS_SOURCE_ID 3) (G_GPS_SOURCE_VAL 3) GPS_SOURCE_TYPE 3 BOTH_SOURCE_FLAG,
    timesource_of (S2MH_SOURCE_ID 3) (G_S2MH_SOURCE_VAL 3) S2MH_SOURCE_TYPE 3 FREQ_SOURCE_FLAG,
    timesource_of (S2MB_SOURCE_ID 3) (G_S2MB_SOURCE_VAL 3) S2MB_SOURCE_TYPE 3 FREQ_SOURCE_FLAG,
    timesource_of (IRIGB1_SOURCE_ID 3) (G_IRIGB1_SOURCE_VAL 3) IRIGB1_SOURCE_TYPE 3 BOTH_SOURCE_FLAG,
    timesource_of (IRIGB2_SOURCE_ID 3) (G_IRIGB2_SOURCE_VAL 3) IRIGB2_SOURCE_TYPE 3 BOTH_SOURCE_FLAG,
    timesource_of (TOD_SOURCE_ID 3) (G_TOD_SOURCE_VAL 3) TOD_SOURCE_TYPE 3 BOTH_SOURCE_FLAG,
    timesource_of (S1PPS_SOURCE_ID 3) (G_S1PPS_SOURCE_VAL 3) S1PPS_SOURCE_TYPE 3 FREQ_SOURCE_FLAG,
    timesource_of (S10MH1_SOURCE_ID 3) (G_S10MH1_SOURCE_VAL 3) S10MH1_SOURCE_TYPE 3 FREQ_SOURCE_FLAG,
    timesource_of (S10MH2_SOURCE_ID 3) (G_S10MH2_SOURCE_VAL 3) S10MH2_SOURCE_TYPE 3 FREQ_SOURCE_FLAG,
    timesource_of (NTP_SOURCE_ID 3) (G_NTP_SOURCE_VAL 3) NTP_SOURCE_TYPE 3 TIME_SOURCE_FLAG,
    timesource_of (GPS_SOURCE_ID 4) (G_GPS_SOURCE_VAL 4) GPS_SOURCE_TYPE 4 BOTH_SOURCE_FLAG,
    timesource_of (S2MH_SOURCE_ID 4) (G_S2MH_SOURCE_VAL 4) S2MH_SOURCE_TYPE 4 FREQ_SOURCE_FLAG,
    timesource_of (S2MB_SOURCE_ID 4) (G_S2MB_SOURCE_VAL 4) S2MB_SOURCE_TYPE 4 FREQ_SOURCE_FLAG,
    timesource_of (IRIGB1_SOURCE_ID 4) (G_IRIGB1_SOURCE_VAL 4) IRIGB1_SOURCE_TYPE 4 BOTH_SOURCE_FLAG,
    timesource_of (IRIGB2_SOURCE_ID 4) (G_IRIGB2_SOURCE_VAL 4) IRIGB2_SOURCE_TYPE 4 BOTH_SOURCE_FLAG,
    timesource_of (TOD_SOURCE_ID 4) (G_TOD_SOURCE_VAL 4) TOD_SOURCE_TYPE 4 BOTH_SOURCE_FLAG,
    timesource_of (S1PPS_SOURCE_ID 4) (G_S1PPS_SOURCE_VAL 4) S1PPS_SOURCE_TYPE 4 FREQ_SOURCE_FLAG,
    timesource_of (S10MH1_SOURCE_ID 4) (G_S10MH1_SOURCE_VAL 4) S10MH1_SOURCE_TYPE 4 FREQ_SOURCE_FLAG,
    timesource_of (S10MH2_SOURCE_ID 4) (G_S10MH2_SOURCE_VAL 4) S10MH2_SOURCE_TYPE 4 FREQ_SOURCE_FLAG,
    timesource_of (NTP_SOURCE_ID 4) (G_NTP_SOURCE_VAL 4) NTP_SOURCE_TYPE 4 TIME_SOURCE_FLAG,
    timesource_of TIME_SOURCE_MAX_NOSOURCE NO_SOURCE NO_SOURCE_TYPE 0 INVALID_SOURCE_FLAG]"

definition FIND_TYPE_BY_ID :: "int \<Rightarrow> int \<Rightarrow> int" where
  "FIND_TYPE_BY_ID i v = FIND_OTHMEMBER_BY_MEMBER i v gTimeSourceTbl ts_id ts_type"
definition FIND_SLOT_BY_ID :: "int \<Rightarrow> int \<Rightarrow> int" where
  "FIND_SLOT_BY_ID i v = FIND_OTHMEMBER_BY_MEMBER i v gTimeSourceTbl ts_id ts_slot"
definition FIND_FLAG_BY_ID :: "int \<Rightarrow> int \<Rightarrow> int" where
  "FIND_FLAG_BY_ID i v = FIND_OTHMEMBER_BY_MEMBER i v gTimeSourceTbl ts_id ts_flag"
definition FIND_TYPE_BY_FPGA_VAL :: "int \<Rightarrow> int \<Rightarrow> int" where
  "FIND_TYPE_BY_FPGA_VAL g v = FIND_OTHMEMBER_BY_MEMBER g v gTimeSourceTbl ts_g_val ts_type"
definition FIND_SLOT_BY_FPGA_VAL :: "int \<Rightarrow> int \<Rightarrow> int" where
  "FIND_SLOT_BY_FPGA_VAL g v = FIND_OTHMEMBER_BY_MEMBER g v gTimeSourceTbl ts_g_val ts_slot"
definition FIND_FLAG_BY_FPGA_VAL :: "int \<Rightarrow> int \<Rightarrow> int" where
  "FIND_FLAG_BY_FPGA_VAL g v = FIND_OTHMEMBER_BY_MEMBER g v gTimeSourceTbl ts_g_val ts_flag"
definition FIND_FLAG_BY_TYPE :: "int \<Rightarrow> int \<Rightarrow> int" where
  "FIND_FLAG_BY_TYPE t v = FIND_OTHMEMBER_BY_MEMBER t v gTimeSourceTbl ts_type ts_flag"

section \<open>Synchronisation status messages\<close>

definition SSM_VAL_02 :: int where "SSM_VAL_02 = 0x02"
definition SSM_VAL_04 :: int where "SSM_VAL_04 = 0x04"
definition SSM_VAL_08 :: int where "SSM_VAL_08 = 0x08"
definition SSM_VAL_0B :: int where "SSM_VAL_0B = 0x0B"
definition SSM_VAL_0F :: int where "SSM_VAL_0F = 0x0F"
definition SSM_VAL_00 :: int where "SSM_VAL_00 = 0x00"
definition SSM_VAL_NE :: int where "SSM_VAL_NE = 0x01"

definition gSsmTbl :: "(int \<times> string) list" where
  "gSsmTbl = [(SSM_VAL_02, ''02''), (SSM_VAL_04, ''04''), (SSM_VAL_08, ''08''), (SSM_VAL_0B, ''0B''),
     (SSM_VAL_0F, ''0F''), (SSM_VAL_00, ''00''), (SSM_VAL_NE, ''--'')]"

definition FIND_STR_BY_SSM_VAL :: "int \<Rightarrow> string \<Rightarrow> string" where
  "FIND_STR_BY_SSM_VAL val v = FIND_OTHMEMBER_BY_MEMBER val v gSsmTbl fst snd"

text \<open>\<open>FIND_VAL_BY_SSM_STR\<close> compares the two characters; the result is -1 when none is equal.\<close>

definition FIND_VAL_BY_SSM_STR :: "string \<Rightarrow> int" where
  "FIND_VAL_BY_SSM_STR str = FIND_OTHMEMBER_BY_MEMBER (take 2 str) (- 1) gSsmTbl snd fst"

section \<open>Boards\<close>

text \<open>Board identifiers, board types and the numbers of ports.\<close>

definition BID_NONE :: int where "BID_NONE = 0"
definition BID_NTP :: int where "BID_NTP = 1"
definition BID_NTPF :: int where "BID_NTPF = 2"
definition BID_RS232 :: int where "BID_RS232 = 3"
definition BID_RS485 :: int where "BID_RS485 = 4"
definition BID_BDCT :: int where "BID_BDCT = 5"
definition BID_BAC :: int where "BID_BAC = 6"
definition BID_SF4 :: int where "BID_SF4 = 7"
definition BID_BDC485 :: int where "BID_BDC485 = 8"
definition BID_KJD8 :: int where "BID_KJD8 = 9"
definition BID_TTL8 :: int where "BID_TTL8 = 10"
definition BID_PPX485 :: int where "BID_PPX485 = 11"
definition BID_PTP :: int where "BID_PTP = 12"
definition BID_PTPF :: int where "BID_PTPF = 13"
definition BID_OUTE :: int where "BID_OUTE = 14"
definition BID_OUTH :: int where "BID_OUTH = 15"
definition BID_61850 :: int where "BID_61850 = 16"
definition BID_KJD4 :: int where "BID_KJD4 = 17"
definition BID_TP4 :: int where "BID_TP4 = 18"
definition BID_SC4 :: int where "BID_SC4 = 19"
definition BID_GPSBF :: int where "BID_GPSBF = 60"
definition BID_GPSBE :: int where "BID_GPSBE = 61"
definition BID_GBDBF :: int where "BID_GBDBF = 62"
definition BID_GBDBE :: int where "BID_GBDBE = 63"
definition BID_BDBF :: int where "BID_BDBF = 64"
definition BID_BDBE :: int where "BID_BDBE = 65"
definition BID_BEI :: int where "BID_BEI = 66"
definition BID_BFI :: int where "BID_BFI = 67"
definition BID_BFEI :: int where "BID_BFEI = 68"
definition BID_BFFI :: int where "BID_BFFI = 69"
definition BID_PTP_IN :: int where "BID_PTP_IN = 70"
definition BID_RTF :: int where "BID_RTF = 71"
definition BID_NTP_IN :: int where "BID_NTP_IN = 72"
definition BID_PWRM :: int where "BID_PWRM = 90"
definition BID_PWRD :: int where "BID_PWRD = 91"
definition BID_PWRL :: int where "BID_PWRL = 109"
definition BID_ALM :: int where "BID_ALM = 110"
definition BID_ARRAY_SIZE :: int where "BID_ARRAY_SIZE = 111"

definition BOARD_TYPE_NONE :: int where "BOARD_TYPE_NONE = 0"
definition BOARD_TYPE_INPUT :: int where "BOARD_TYPE_INPUT = 1"
definition BOARD_TYPE_OUTPUT :: int where "BOARD_TYPE_OUTPUT = 2"
definition BOARD_TYPE_PWR :: int where "BOARD_TYPE_PWR = 3"
definition BOARD_TYPE_ALM :: int where "BOARD_TYPE_ALM = 4"

definition PORT_NTP :: int where "PORT_NTP = 4"
definition PORT_NTPF :: int where "PORT_NTPF = 4"
definition PORT_RS232 :: int where "PORT_RS232 = 2"
definition PORT_RS485 :: int where "PORT_RS485 = 8"
definition PORT_BAC :: int where "PORT_BAC = 8"
definition PORT_SF4 :: int where "PORT_SF4 = 4"
definition PORT_KJD8 :: int where "PORT_KJD8 = 8"
definition PORT_KJD4 :: int where "PORT_KJD4 = 4"
definition PORT_TTL8 :: int where "PORT_TTL8 = 8"
definition PORT_PTP :: int where "PORT_PTP = 1"
definition PORT_PTPF :: int where "PORT_PTPF = 1"
definition PORT_TP4 :: int where "PORT_TP4 = 4"
definition PORT_SC4 :: int where "PORT_SC4 = 4"
definition PORT_SAT :: int where "PORT_SAT = 5"
definition PORT_PTP_IN :: int where "PORT_PTP_IN = 1"
definition PORT_RTF :: int where "PORT_RTF = 4"
definition PORT_NTP_IN :: int where "PORT_NTP_IN = 1"
definition SAT_PORT_SAT :: nat where "SAT_PORT_SAT = 1"
definition SAT_PORT_2MH :: nat where "SAT_PORT_2MH = 2"
definition SAT_PORT_2MB :: nat where "SAT_PORT_2MB = 3"
definition SAT_PORT_IRIGB1 :: nat where "SAT_PORT_IRIGB1 = 4"
definition SAT_PORT_IRIGB2 :: nat where "SAT_PORT_IRIGB2 = 5"
definition RTF_PORT_1PPS_TOD :: nat where "RTF_PORT_1PPS_TOD = 1"
definition RTF_PORT_1PPS :: nat where "RTF_PORT_1PPS = 2"
definition RTF_PORT_10MH1 :: nat where "RTF_PORT_10MH1 = 3"
definition RTF_PORT_10MH2 :: nat where "RTF_PORT_10MH2 = 4"
definition INPUT_SLOT_MAX_PORT :: int where "INPUT_SLOT_MAX_PORT = 5"
definition OUTPUT_SLOT_MAX_PORT :: int where "OUTPUT_SLOT_MAX_PORT = 8"
definition SLOT_CURSOR_ARRAY_SIZE :: int where "SLOT_CURSOR_ARRAY_SIZE = 16"
definition PWR_SLOT_CURSOR_ARRAY_SIZE :: int where "PWR_SLOT_CURSOR_ARRAY_SIZE = 2"
definition INPUT_SLOT_CURSOR_ARRAY_SIZE :: int where "INPUT_SLOT_CURSOR_ARRAY_SIZE = 4"

text \<open>Signals, as the bits of the supported signals of a board.\<close>

definition SIGNAL_NONE :: nat where "SIGNAL_NONE = 0"
definition SIGNAL_NTP :: nat where "SIGNAL_NTP = 1"
definition SIGNAL_PTP :: nat where "SIGNAL_PTP = 2"
definition SIGNAL_2MH :: nat where "SIGNAL_2MH = 3"
definition SIGNAL_2MB :: nat where "SIGNAL_2MB = 4"
definition SIGNAL_IRIGB_DC :: nat where "SIGNAL_IRIGB_DC = 5"
definition SIGNAL_TODT :: nat where "SIGNAL_TODT = 6"
definition SIGNAL_TODF :: nat where "SIGNAL_TODF = 7"
definition SIGNAL_PPS :: nat where "SIGNAL_PPS = 8"
definition SIGNAL_PPM :: nat where "SIGNAL_PPM = 9"
definition SIGNAL_PPH :: nat where "SIGNAL_PPH = 10"
definition SIGNAL_IRIGB_AC :: nat where "SIGNAL_IRIGB_AC = 11"
definition SIGNAL_EXT :: nat where "SIGNAL_EXT = 12"
definition SIGNAL_10MH :: nat where "SIGNAL_10MH = 13"

definition BIT :: "nat \<Rightarrow> int" where "BIT i = push_bit i 1"

text \<open>The alarms of the boards, each with the bits of the ports that can have it.\<close>

definition ntp_almtbl :: "(int \<times> int) list" where
  "ntp_almtbl = [
    (SNMP_ALM_ID A_LINK_DOWN, push_bit (nat (PORT_NTP + 1)) 1 - 1)]"

definition sat_comm_almtbl :: "(int \<times> int) list" where
  "sat_comm_almtbl = [
    (SNMP_ALM_ID A_GPBD_SGN_LOS, BIT SAT_PORT_SAT),
    (SNMP_ALM_ID A_GPBD_SGN_DGD, BIT SAT_PORT_SAT),
    (SNMP_ALM_ID A_ANT_OPEN, BIT SAT_PORT_SAT),
    (SNMP_ALM_ID A_ANT_SHORT, BIT SAT_PORT_SAT),
    (SNMP_ALM_ID A_GPBD_THRSD, BIT SAT_PORT_SAT),
    (SNMP_ALM_ID A_2MHZ_IN_LOS, BIT SAT_PORT_2MH),
    (SNMP_ALM_ID A_2MHZ_THRSD, BIT SAT_PORT_2MH),
    (SNMP_ALM_ID A_2MB_IN_LOS, BIT SAT_PORT_2MB),
    (SNMP_ALM_ID A_2MB_AIS, BIT SAT_PORT_2MB),
    (SNMP_ALM_ID A_2MB_BPV, BIT SAT_PORT_2MB),
    (SNMP_ALM_ID A_2MB_CRC, BIT SAT_PORT_2MB),
    (SNMP_ALM_ID A_2MB_LOF, BIT SAT_PORT_2MB),
    (SNMP_ALM_ID A_2MB_THRSD, BIT SAT_PORT_2MB),
    (SNMP_ALM_ID A_IRIGB_IN_LOS, BIT SAT_PORT_IRIGB1 OR BIT SAT_PORT_IRIGB2),
    (SNMP_ALM_ID A_IRIGB_IN_DGD, BIT SAT_PORT_IRIGB1 OR BIT SAT_PORT_IRIGB2),
    (SNMP_ALM_ID A_IRIGB_INVAID, BIT SAT_PORT_IRIGB1 OR BIT SAT_PORT_IRIGB2),
    (SNMP_ALM_ID A_IRIGB_THRSD, BIT SAT_PORT_IRIGB1 OR BIT SAT_PORT_IRIGB2)]"

definition sat_bei_bfi_almtbl :: "(int \<times> int) list" where
  "sat_bei_bfi_almtbl = [
    (SNMP_ALM_ID A_IRIGB_IN_LOS, BIT SAT_PORT_IRIGB1 OR BIT SAT_PORT_IRIGB2),
    (SNMP_ALM_ID A_IRIGB_IN_DGD, BIT SAT_PORT_IRIGB1 OR BIT SAT_PORT_IRIGB2),
    (SNMP_ALM_ID A_IRIGB_INVAID, BIT SAT_PORT_IRIGB1 OR BIT SAT_PORT_IRIGB2),
    (SNMP_ALM_ID A_IRIGB_THRSD, BIT SAT_PORT_IRIGB1 OR BIT SAT_PORT_IRIGB2)]"

definition sat_bfei_bffi_almtbl :: "(int \<times> int) list" where
  "sat_bfei_bffi_almtbl = [
    (SNMP_ALM_ID A_2MHZ_IN_LOS, BIT SAT_PORT_2MH),
    (SNMP_ALM_ID A_2MHZ_THRSD, BIT SAT_PORT_2MH),
    (SNMP_ALM_ID A_2MB_IN_LOS, BIT SAT_PORT_2MB),
    (SNMP_ALM_ID A_2MB_AIS, BIT SAT_PORT_2MB),
    (SNMP_ALM_ID A_2MB_BPV, BIT SAT_PORT_2MB),
    (SNMP_ALM_ID A_2MB_CRC, BIT SAT_PORT_2MB),
    (SNMP_ALM_ID A_2MB_LOF, BIT SAT_PORT_2MB),
    (SNMP_ALM_ID A_2MB_THRSD, BIT SAT_PORT_2MB),
    (SNMP_ALM_ID A_IRIGB_IN_LOS, BIT SAT_PORT_IRIGB1 OR BIT SAT_PORT_IRIGB2),
    (SNMP_ALM_ID A_IRIGB_IN_DGD, BIT SAT_PORT_IRIGB1 OR BIT SAT_PORT_IRIGB2),
    (SNMP_ALM_ID A_IRIGB_INVAID, BIT SAT_PORT_IRIGB1 OR BIT SAT_PORT_IRIGB2),
    (SNMP_ALM_ID A_IRIGB_THRSD, BIT SAT_PORT_IRIGB1 OR BIT SAT_PORT_IRIGB2)]"

definition ptpin_almtbl :: "(int \<times> int) list" where
  "ptpin_almtbl = [
    (SNMP_ALM_ID A_PTP_IN_LOS, BIT 1),
    (SNMP_ALM_ID A_PTP_IN_DGD, BIT 1),
    (SNMP_ALM_ID A_PTP_THRSD, BIT 1)]"

definition rtf_almtbl :: "(int \<times> int) list" where
  "rtf_almtbl = [
    (SNMP_ALM_ID A_1PPS_TOD_THRSD, BIT RTF_PORT_1PPS_TOD),
    (SNMP_ALM_ID A_1PPS_TOD_IN_LOS, BIT RTF_PORT_1PPS_TOD),
    (SNMP_ALM_ID A_1PPS_THRSD, BIT RTF_PORT_1PPS),
    (SNMP_ALM_ID A_1PPS_IN_LOS, BIT RTF_PORT_1PPS),
    (SNMP_ALM_ID A_10MHZ_THRSD, BIT RTF_PORT_10MH1 OR BIT RTF_PORT_10MH2),
    (SNMP_ALM_ID A_10MHZ_IN_LOS, BIT RTF_PORT_10MH1 OR BIT RTF_PORT_10MH2)]"

definition ntpin_almtbl :: "(int \<times> int) list" where
  "ntpin_almtbl = [
    (SNMP_ALM_ID A_NTP_IN_LOS, BIT 1),
    (SNMP_ALM_ID A_NTP_IN_DGD, BIT 1),
    (SNMP_ALM_ID A_NTP_THRSD, BIT 1)]"

text \<open>The type of source of each port.\<close>

definition gBoardNonePortAttr :: "int list" where
  "gBoardNonePortAttr = [NO_SOURCE_TYPE]"
definition gBoardSatPortAttr :: "int list" where
  "gBoardSatPortAttr = [GPS_SOURCE_TYPE, S2MH_SOURCE_TYPE, S2MB_SOURCE_TYPE, IRIGB1_SOURCE_TYPE, IRIGB2_SOURCE_TYPE]"
definition gBoardSat_bei_bfi_PortAttr :: "int list" where
  "gBoardSat_bei_bfi_PortAttr = [NO_SOURCE_TYPE, NO_SOURCE_TYPE, NO_SOURCE_TYPE, IRIGB1_SOURCE_TYPE, IRIGB2_SOURCE_TYPE]"
definition gBoardSat_bffi_bfei_PortAttr :: "int list" where
  "gBoardSat_bffi_bfei_PortAttr = [NO_SOURCE_TYPE, S2MH_SOURCE_TYPE, S2MB_SOURCE_TYPE, IRIGB1_SOURCE_TYPE, IRIGB2_SOURCE_TYPE]"
definition gBoardPtpinPortAttr :: "int list" where
  "gBoardPtpinPortAttr = [TOD_SOURCE_TYPE]"
definition gBoardRtfPortAttr :: "int list" where
  "gBoardRtfPortAttr = [TOD_SOURCE_TYPE, S1PPS_SOURCE_TYPE, S10MH1_SOURCE_TYPE, S10MH2_SOURCE_TYPE]"
definition gBoardNtpinPortAttr :: "int list" where
  "gBoardNtpinPortAttr = [NTP_SOURCE_TYPE]"

text \<open>The private data: the flags of the status and of the information of a satellite board.\<close>

definition FLAG_SAT_COMMSTA_PST_STATUS :: int where "FLAG_SAT_COMMSTA_PST_STATUS = BIT 8"
definition FLAG_SAT_COMMSTA_TRACKNGB :: int where "FLAG_SAT_COMMSTA_TRACKNGB = BIT 9"
definition FLAG_SAT_COMMSTA_PH :: int where "FLAG_SAT_COMMSTA_PH = BIT 15"
definition FLAG_SAT_COMMSTA_MASK :: int where "FLAG_SAT_COMMSTA_MASK = BIT 16 - 1"
definition FLAG_SAT_COMMINFO_MH_SSM :: int where "FLAG_SAT_COMMINFO_MH_SSM = BIT 0"
definition FLAG_SAT_COMMINFO_MB_SA :: int where "FLAG_SAT_COMMINFO_MB_SA = BIT 1"
definition FLAG_SAT_COMMINFO_MASK :: int where "FLAG_SAT_COMMINFO_MASK = BIT 6 - 1"

definition sat_comm_pdata :: "int \<times> int" where
  "sat_comm_pdata = (FLAG_SAT_COMMSTA_MASK, FLAG_SAT_COMMINFO_MASK)"
definition sat_bei_bfi_pdata :: "int \<times> int" where
  "sat_bei_bfi_pdata = (FLAG_SAT_COMMSTA_PH, 0)"
definition sat_bfei_bffi_pdata :: "int \<times> int" where
  "sat_bfei_bffi_pdata = (FLAG_SAT_COMMSTA_PH, FLAG_SAT_COMMINFO_MH_SSM OR FLAG_SAT_COMMINFO_MB_SA)"

record boardattr =
  ba_bid :: int
  ba_max_port :: int
  ba_board_type :: int
  ba_index :: int
  ba_name :: string
  ba_signal :: int
  ba_alm :: "(int \<times> int) list"
  ba_port_attr :: "int list option"
  ba_pdata :: "(int \<times> int) option"

definition board :: "int \<Rightarrow> int \<Rightarrow> int \<Rightarrow> int \<Rightarrow> string \<Rightarrow> int \<Rightarrow> (int \<times> int) list \<Rightarrow> int list option \<Rightarrow> (int \<times> int) option \<Rightarrow> boardattr" where
  "board b p t i n s a pa pd = \<lparr>ba_bid = b, ba_max_port = p, ba_board_type = t, ba_index = i, ba_name = n,
     ba_signal = s, ba_alm = a, ba_port_attr = pa, ba_pdata = pd\<rparr>"

definition gBoardAttrTbl :: "boardattr list" where
  "gBoardAttrTbl = [
    board BID_NONE 0 BOARD_TYPE_NONE 0 ''none'' (0) [] (Some gBoardNonePortAttr) None,
    board BID_NTP PORT_NTP BOARD_TYPE_OUTPUT 1 ''NTP4'' (BIT SIGNAL_NTP) ntp_almtbl None None,
    board BID_NTPF PORT_NTPF BOARD_TYPE_OUTPUT 2 ''NTPF4'' (BIT SIGNAL_NTP) ntp_almtbl None None,
    board BID_RS232 PORT_RS232 BOARD_TYPE_OUTPUT 3 ''RS232'' (BIT SIGNAL_TODT) [] None None,
    board BID_RS485 PORT_RS485 BOARD_TYPE_OUTPUT 4 ''RS485'' (BIT SIGNAL_TODT OR BIT SIGNAL_PPS OR BIT SIGNAL_PPM OR BIT SIGNAL_PPH OR BIT SIGNAL_IRIGB_DC) [] None None,
    board BID_BDCT 0 BOARD_TYPE_OUTPUT 5 ''BDCT'' (BIT SIGNAL_NONE) [] None None,
    board BID_BAC PORT_BAC BOARD_TYPE_OUTPUT 6 ''BAC'' (BIT SIGNAL_IRIGB_AC) [] None None,
    board BID_SF4 PORT_SF4 BOARD_TYPE_OUTPUT 7 ''SF4'' (BIT SIGNAL_IRIGB_DC) [] None None,
    board BID_BDC485 0 BOARD_TYPE_OUTPUT 8 ''BDC485'' (BIT SIGNAL_NONE) [] None None,
    board BID_KJD8 PORT_KJD8 BOARD_TYPE_OUTPUT 9 ''KJD8'' (BIT SIGNAL_PPS OR BIT SIGNAL_PPM OR BIT SIGNAL_PPH) [] None None,
    board BID_TTL8 PORT_TTL8 BOARD_TYPE_OUTPUT 10 ''TTL8'' (BIT SIGNAL_TODT OR BIT SIGNAL_PPS OR BIT SIGNAL_PPM OR BIT SIGNAL_PPH OR BIT SIGNAL_IRIGB_DC) [] None None,
    board BID_PPX485 0 BOARD_TYPE_OUTPUT 11 ''PPX485'' (BIT SIGNAL_NONE) [] None None,
    board BID_PTP PORT_PTP BOARD_TYPE_OUTPUT 12 ''PTP'' (BIT SIGNAL_PTP) [] None None,
    board BID_PTPF PORT_PTPF BOARD_TYPE_OUTPUT 13 ''PTPF'' (BIT SIGNAL_NONE OR BIT SIGNAL_PTP OR BIT SIGNAL_NTP) [] None None,
    board BID_OUTE 0 BOARD_TYPE_OUTPUT 14 ''OUTE'' (BIT SIGNAL_NONE) [] None None,
    board BID_OUTH 0 BOARD_TYPE_OUTPUT 15 ''OUTH'' (BIT SIGNAL_NONE) [] None None,
    board BID_61850 1 BOARD_TYPE_OUTPUT 16 ''61850'' (BIT SIGNAL_NONE) [] None None,
    board BID_KJD4 PORT_KJD4 BOARD_TYPE_OUTPUT 17 ''KJD4'' (BIT SIGNAL_PPS OR BIT SIGNAL_PPM OR BIT SIGNAL_PPH) [] None None,
    board BID_TP4 PORT_TP4 BOARD_TYPE_OUTPUT 18 ''TP4'' (BIT SIGNAL_TODF) [] None None,
    board BID_SC4 PORT_SC4 BOARD_TYPE_OUTPUT 19 ''SC4'' (BIT SIGNAL_2MH OR BIT SIGNAL_2MB OR BIT SIGNAL_10MH) [] None None,
    board BID_GPSBF 0 BOARD_TYPE_INPUT 1 ''GPSBF'' (0) sat_comm_almtbl None (Some sat_comm_pdata),
    board BID_GPSBE 0 BOARD_TYPE_INPUT 2 ''GPSBE'' (0) sat_comm_almtbl None (Some sat_comm_pdata),
    board BID_GBDBF PORT_SAT BOARD_TYPE_INPUT 3 ''GBDBF'' (0) sat_comm_almtbl (Some gBoardSatPortAttr) (Some sat_comm_pdata),
    board BID_GBDBE PORT_SAT BOARD_TYPE_INPUT 4 ''GBDBE'' (0) sat_comm_almtbl (Some gBoardSatPortAttr) (Some sat_comm_pdata),
    board BID_BDBF 0 BOARD_TYPE_INPUT 5 ''BDBF'' (0) [] None None,
    board BID_BDBE 0 BOARD_TYPE_INPUT 6 ''BDBE'' (0) [] None None,
    board BID_BEI 0 BOARD_TYPE_INPUT 7 ''BEI'' (0) sat_bei_bfi_almtbl (Some gBoardSat_bei_bfi_PortAttr) (Some sat_bei_bfi_pdata),
    board BID_BFI 0 BOARD_TYPE_INPUT 8 ''BFI'' (0) sat_bei_bfi_almtbl (Some gBoardSat_bei_bfi_PortAttr) (Some sat_bei_bfi_pdata),
    board BID_BFEI PORT_SAT BOARD_TYPE_INPUT 9 ''BFEI'' (0) sat_bfei_bffi_almtbl (Some gBoardSat_bffi_bfei_PortAttr) (Some sat_bfei_bffi_pdata),
    board BID_BFFI PORT_SAT BOARD_TYPE_INPUT 10 ''BFFI'' (0) sat_bfei_bffi_almtbl (Some gBoardSat_bffi_bfei_PortAttr) (Some sat_bfei_bffi_pdata),
    board BID_PTP_IN PORT_PTP_IN BOARD_TYPE_INPUT 11 ''PTP_IN'' (0) ptpin_almtbl (Some gBoardPtpinPortAttr) None,
    board BID_RTF PORT_RTF BOARD_TYPE_INPUT 12 ''RTF'' (0) rtf_almtbl (Some gBoardRtfPortAttr) None,
    board BID_NTP_IN PORT_NTP_IN BOARD_TYPE_INPUT 13 ''NTP_IN'' (0) ntpin_almtbl (Some gBoardNtpinPortAttr) None,
    board BID_PWRM 1 BOARD_TYPE_PWR 0 ''PWRM'' (BIT SIGNAL_NONE) [] None None,
    board BID_PWRD 1 BOARD_TYPE_PWR 0 ''PWRD'' (BIT SIGNAL_NONE) [] None None,
    board BID_PWRL 0 BOARD_TYPE_PWR 0 ''PWRL'' (BIT SIGNAL_NONE) [] None None,
    board BID_ALM 1 BOARD_TYPE_ALM 0 ''ALM'' (BIT SIGNAL_NONE) [] None None]"

definition FIND_PORTATTR_GBATBL_BY_BID :: "int \<Rightarrow> int list option \<Rightarrow> int list option" where
  "FIND_PORTATTR_GBATBL_BY_BID b v = FIND_OTHMEMBER_BY_MEMBER b v gBoardAttrTbl ba_bid ba_port_attr"
definition FIND_MAXPORT_GBATBL_BY_BID :: "int \<Rightarrow> int \<Rightarrow> int" where
  "FIND_MAXPORT_GBATBL_BY_BID b v = FIND_OTHMEMBER_BY_MEMBER b v gBoardAttrTbl ba_bid ba_max_port"
definition FIND_BDTYPE_GBATBL_BY_BID :: "int \<Rightarrow> int \<Rightarrow> int" where
  "FIND_BDTYPE_GBATBL_BY_BID b v = FIND_OTHMEMBER_BY_MEMBER b v gBoardAttrTbl ba_bid ba_board_type"
definition FIND_SUP_SIGNAL_GBATBL_BY_BID :: "int \<Rightarrow> int \<Rightarrow> int" where
  "FIND_SUP_SIGNAL_GBATBL_BY_BID b v = FIND_OTHMEMBER_BY_MEMBER b v gBoardAttrTbl ba_bid ba_signal"
definition FIND_BDNAME_GBATBL_BY_BID :: "int \<Rightarrow> string \<Rightarrow> string" where
  "FIND_BDNAME_GBATBL_BY_BID b v = FIND_OTHMEMBER_BY_MEMBER b v gBoardAttrTbl ba_bid ba_name"
definition FIND_PRIVDATA_GBATBL_BY_BID :: "int \<Rightarrow> (int \<times> int) option \<Rightarrow> (int \<times> int) option" where
  "FIND_PRIVDATA_GBATBL_BY_BID b v = FIND_OTHMEMBER_BY_MEMBER b v gBoardAttrTbl ba_bid ba_pdata"

text \<open>
  \<open>initializeBoardNameTable\<close>: the names are copied in the order of the identifiers; the variable
  \<open>name\<close> is not reset, so an identifier that is not in the table gets the name found last.
  Then the largest numbers of ports are checked against the macros (the result is not returned
  by the code, which only prints an error).
\<close>

fun board_names :: "int list \<Rightarrow> string \<Rightarrow> string list" where
  "board_names [] name = []"
| "board_names (b # bs) name =
     (let name = FIND_BDNAME_GBATBL_BY_BID b name in name # board_names bs name)"

definition max_port_of :: "int \<Rightarrow> boardattr list \<Rightarrow> int" where
  "max_port_of t bs = fold (\<lambda>b m. if t = ba_board_type b \<and> m < ba_max_port b then ba_max_port b else m) bs 0"

definition initializeBoardNameTable :: "string list \<times> bool" where
  "initializeBoardNameTable =
     (board_names [0..BID_ARRAY_SIZE - 1] [],
      max_port_of BOARD_TYPE_INPUT gBoardAttrTbl = INPUT_SLOT_MAX_PORT
      \<and> max_port_of BOARD_TYPE_OUTPUT gBoardAttrTbl = OUTPUT_SLOT_MAX_PORT)"

section \<open>The index tables of alarms and events\<close>

text \<open>
  A table of identifiers is expanded by subsystem, identifier, slot and port. The numbers of slots
  and ports of a subsystem are given by its position, and kept as \<open>u8_t\<close>.
\<close>

definition slots_ports :: "'i \<Rightarrow> int \<Rightarrow> int \<Rightarrow> ('i \<times> int \<times> int) list" where
  "slots_ports i s p = concat (map (\<lambda>j. map (\<lambda>k. (i, j + 1, k + 1)) [0..p - 1]) [0..s - 1])"

definition index_rows :: "(int \<times> int \<times> int) list \<Rightarrow> (int \<times> int) list \<Rightarrow> (int \<times> int \<times> int) list" where
  "index_rows subs ids = concat (map (\<lambda>(sub, s, p).
     concat (map (\<lambda>(i, t). if sub = t then slots_ports i s p else []) ids)) subs)"

definition index_count :: "(int \<times> int \<times> int) list \<Rightarrow> (int \<times> int) list \<Rightarrow> int" where
  "index_count subs ids =
     u32 (sum_list (map (\<lambda>(sub, s, p). u32 (s * p * u8 (int (length (filter (\<lambda>(i, t). sub = t) ids))))) subs))"

text \<open>The subsystems of the alarms with the numbers of slots and ports.\<close>

definition alarm_subs :: "(int \<times> int \<times> int) list" where
  "alarm_subs = [
     (SMP_SID_SUB_SYS, 1, 1),
     (SMP_SID_SUB_PWR, PWR_SLOT_CURSOR_ARRAY_SIZE, max_port_of BOARD_TYPE_PWR gBoardAttrTbl),
     (SMP_SID_SUB_SAT, INPUT_SLOT_CURSOR_ARRAY_SIZE, 1),
     (SMP_SID_SUB_IN, INPUT_SLOT_CURSOR_ARRAY_SIZE, max_port_of BOARD_TYPE_INPUT gBoardAttrTbl),
     (SMP_SID_SUB_OUT, SLOT_CURSOR_ARRAY_SIZE, max_port_of BOARD_TYPE_OUTPUT gBoardAttrTbl)]"

definition ALM_CURSOR_ARRAY_SIZE :: int where "ALM_CURSOR_ARRAY_SIZE = 651"
definition ALM_COUNT :: nat where "ALM_COUNT = nat ALM_CURSOR_ARRAY_SIZE"

text \<open>\<open>initializeAlarmIndexTable\<close>: the result, and the table \<open>pAlmInxTbl\<close>.\<close>

definition pAlmInxTbl :: "(int \<times> int \<times> int) list" where
  "pAlmInxTbl = index_rows alarm_subs gAlmIdTbl"

definition initializeAlarmIndexTable :: "bool \<Rightarrow> int" where
  "initializeAlarmIndexTable malloc_ok =
     (let max_alminx_num = index_count alarm_subs gAlmIdTbl
      in if \<not> malloc_ok then - 1
         else if int (length pAlmInxTbl) \<noteq> max_alminx_num \<or> max_alminx_num \<noteq> ALM_CURSOR_ARRAY_SIZE then - 1
         else 0)"

definition FIND_ALMINX_BY_SLOT_PORT_ID :: "int \<Rightarrow> int \<Rightarrow> int \<Rightarrow> int \<Rightarrow> int" where
  "FIND_ALMINX_BY_SLOT_PORT_ID i slot port v = FIND_INDEX_BY_THREE_MEMBER v i slot port pAlmInxTbl"

text \<open>The subsystems of the events, and \<open>initializeEventIndexTable\<close>.\<close>

definition event_subs :: "(int \<times> int \<times> int) list" where
  "event_subs = [
     (SMP_SID_SUB_SYS, 1, 1),
     (SMP_SID_SUB_CLK, 1, 1),
     (SMP_SID_SUB_SAT, INPUT_SLOT_CURSOR_ARRAY_SIZE, 1),
     (SMP_SID_SUB_IN, INPUT_SLOT_CURSOR_ARRAY_SIZE, max_port_of BOARD_TYPE_INPUT gBoardAttrTbl),
     (SMP_SID_SUB_OUT, SLOT_CURSOR_ARRAY_SIZE, max_port_of BOARD_TYPE_OUTPUT gBoardAttrTbl)]"

definition evnt_ids :: "(int \<times> int) list" where
  "evnt_ids = map (\<lambda>(i, t, g). (i, t)) gEvntIdTbl"

definition pEvntInxTbl :: "(int \<times> int \<times> int) list" where
  "pEvntInxTbl = index_rows event_subs evnt_ids"

definition initializeEventIndexTable :: "bool \<Rightarrow> int" where
  "initializeEventIndexTable malloc_ok =
     (if \<not> malloc_ok then - 1
      else if int (length pEvntInxTbl) \<noteq> index_count event_subs evnt_ids then - 1 else 0)"

definition FIND_EVNTINX_BY_SLOT_PORT_ID :: "int \<Rightarrow> int \<Rightarrow> int \<Rightarrow> int \<Rightarrow> int" where
  "FIND_EVNTINX_BY_SLOT_PORT_ID i slot port v = FIND_INDEX_BY_THREE_MEMBER v i slot port pEvntInxTbl"

end
