(* ===== verification/AllocTablesSpec.thy ===== *)
theory AllocTablesSpec
  imports AllocTables
begin

text \<open>
  The searches of the tables are exact: the index tables of the alarms and of the events number
  the triples of identifier, slot and port without a repetition, the table of the time sources can
  be searched by its identifier and by its value in the FPGA, and what the search of a board
  returns is the row of that board.
\<close>

section \<open>The search macros\<close>

lemma find_member_row:
  "distinct (map src es) \<Longrightarrow> e \<in> set es \<Longrightarrow> FIND_OTHMEMBER_BY_MEMBER (src e) v es src des = des e"
  by (induction es) (auto simp: rev_image_eqI)

lemma find_member_none:
  "k \<notin> src ` set es \<Longrightarrow> FIND_OTHMEMBER_BY_MEMBER k v es src des = v"
  by (induction es) auto

lemma find_index_none: "(a, b, c) \<notin> set t \<Longrightarrow> find_index_from i r a b c t = r"
  by (induction t arbitrary: i) (auto split: if_splits)

lemma find_index_at:
  "distinct t \<Longrightarrow> k < length t \<Longrightarrow> t ! k = (a, b, c) \<Longrightarrow> find_index_from i r a b c t = i + int k"
proof (induction t arbitrary: i k)
  case (Cons e t)
  show ?case
  proof (cases k)
    case (Suc m)
    then have "(a, b, c) \<in> set t" using Cons.prems(2,3) nth_mem[of m t] by auto
    then have "e \<noteq> (a, b, c)" using Cons.prems(1) by auto
    then show ?thesis using Cons Suc by (auto split: prod.splits)
  qed (use Cons in auto)
qed simp

lemma find_index_iff:
  assumes "distinct t" "r < 0"
  shows "FIND_INDEX_BY_THREE_MEMBER r a b c t = k \<longleftrightarrow>
    (if k = r then (a, b, c) \<notin> set t else 0 \<le> k \<and> k < int (length t) \<and> t ! nat k = (a, b, c))"
proof (cases "(a, b, c) \<in> set t")
  case False
  moreover have "t ! nat k \<noteq> (a, b, c)" if "0 \<le> k" "k < int (length t)"
    using False nth_mem[of "nat k" t] that by (metis nat_less_iff)
  ultimately show ?thesis using find_index_none[OF False] assms(2)
    by (auto simp: FIND_INDEX_BY_THREE_MEMBER_def)
next
  case True
  then obtain m where m: "m < length t" "t ! m = (a, b, c)" by (auto simp: in_set_conv_nth)
  have "FIND_INDEX_BY_THREE_MEMBER r a b c t = int m"
    using find_index_at[OF assms(1) m] by (simp add: FIND_INDEX_BY_THREE_MEMBER_def)
  moreover have "k = int m" if "0 \<le> k" "k < int (length t)" "t ! nat k = (a, b, c)"
    using that m assms(1) nth_eq_iff_index_eq[of t "nat k" m] by auto
  ultimately show ?thesis using m True assms(2) by auto
qed

section \<open>Index tables\<close>

lemma slots_ports_set:
  "set (slots_ports i s p) = {(i, j, k) |j k. 1 \<le> j \<and> j \<le> s \<and> 1 \<le> k \<and> k \<le> p}"
proof -
  have "\<exists>x\<in>{0..s - 1}. \<exists>y\<in>{0..p - 1}. j = x + 1 \<and> k = y + 1"
    if "1 \<le> j" "j \<le> s" "1 \<le> k" "k \<le> p" for j k
    using that by (intro bexI[of _ "j - 1"] bexI[of _ "k - 1"]) auto
  then show ?thesis unfolding slots_ports_def by fastforce
qed

lemma slots_ports_distinct: "distinct (slots_ports i s p)"
proof -
  have e: "slots_ports i s p = map (\<lambda>(j, k). (i, j + 1, k + 1)) (List.product [0..s - 1] [0..p - 1])"
    by (simp add: slots_ports_def product_concat_map map_concat comp_def)
  show ?thesis unfolding e by (auto simp: distinct_map distinct_product inj_on_def)
qed

text \<open>The rows of one subsystem.\<close>

definition sub_rows :: "int \<Rightarrow> int \<Rightarrow> int \<Rightarrow> (int \<times> int) list \<Rightarrow> (int \<times> int \<times> int) list" where
  "sub_rows sub s p ids = concat (map (\<lambda>(i, t). if sub = t then slots_ports i s p else []) ids)"

lemma in_sub_rows:
  "(i, j, k) \<in> set (sub_rows sub s p ids) \<longleftrightarrow>
   (i, sub) \<in> set ids \<and> 1 \<le> j \<and> j \<le> s \<and> 1 \<le> k \<and> k \<le> p"
  by (induction ids) (auto simp: sub_rows_def slots_ports_set)

lemma sub_rows_distinct: "distinct (map fst ids) \<Longrightarrow> distinct (sub_rows sub s p ids)"
proof (induction ids)
  case (Cons e es)
  obtain i t where e: "e = (i, t)" by fastforce
  have r: "sub_rows sub s p (e # es) = (if sub = t then slots_ports i s p else []) @ sub_rows sub s p es"
    by (simp add: sub_rows_def e)
  have "(i, sub) \<notin> set es" using Cons.prems e by (auto simp: rev_image_eqI)
  then have "x \<notin> set (sub_rows sub s p es)" if "x \<in> set (slots_ports i s p)" for x
    using that in_sub_rows[of i _ _ sub s p es] by (auto simp: slots_ports_set)
  then have "set (slots_ports i s p) \<inter> set (sub_rows sub s p es) = {}" by blast
  then show ?case unfolding r using Cons slots_ports_distinct[of i s p] by (cases "sub = t") auto
qed (simp add: sub_rows_def)

lemma index_rows_alt: "index_rows subs ids = concat (map (\<lambda>(sub, s, p). sub_rows sub s p ids) subs)"
  by (simp add: index_rows_def sub_rows_def)

lemma in_index_rows:
  "(i, j, k) \<in> set (index_rows subs ids) \<longleftrightarrow>
   (\<exists>t s p. (i, t) \<in> set ids \<and> (t, s, p) \<in> set subs \<and> 1 \<le> j \<and> j \<le> s \<and> 1 \<le> k \<and> k \<le> p)"
  unfolding index_rows_alt by (induction subs) (auto simp: in_sub_rows)

lemma index_rows_distinct:
  assumes ids: "distinct (map fst ids)"
  shows "distinct (map fst subs) \<Longrightarrow> distinct (index_rows subs ids)"
proof (induction subs)
  case (Cons e subs)
  obtain sub s p where e: "e = (sub, s, p)" by (cases e)
  have r: "index_rows (e # subs) ids = sub_rows sub s p ids @ index_rows subs ids"
    by (simp add: index_rows_alt e)
  have "(i, j, k) \<notin> set (index_rows subs ids)" if "(i, j, k) \<in> set (sub_rows sub s p ids)" for i j k
  proof
    assume "(i, j, k) \<in> set (index_rows subs ids)"
    then obtain t s' p' where t: "(i, t) \<in> set ids" "(t, s', p') \<in> set subs" by (auto simp: in_index_rows)
    have "(i, sub) \<in> set ids" using that by (simp add: in_sub_rows)
    then have "t = sub" using t(1) ids by (meson eq_key_imp_eq_value)
    then show False using t(2) Cons.prems e by (auto simp: rev_image_eqI)
  qed
  then have "set (sub_rows sub s p ids) \<inter> set (index_rows subs ids) = {}" by auto
  then show ?case unfolding r using Cons sub_rows_distinct[OF ids] by simp
qed (simp add: index_rows_alt)

locale index_table =
  fixes subs :: "(int \<times> int \<times> int) list" and ids :: "(int \<times> int) list"
    and table :: "(int \<times> int \<times> int) list"
  assumes table: "table = index_rows subs ids"
    and subs_distinct: "distinct (map fst subs)"
    and ids_distinct: "distinct (map fst ids)"
begin

definition member :: "int \<Rightarrow> int \<Rightarrow> int \<Rightarrow> bool" where
  "member i j k \<longleftrightarrow> (\<exists>t s p. (i, t) \<in> set ids \<and> (t, s, p) \<in> set subs
     \<and> 1 \<le> j \<and> j \<le> s \<and> 1 \<le> k \<and> k \<le> p)"

lemma in_table: "(i, j, k) \<in> set table \<longleftrightarrow> member i j k"
  by (simp add: table member_def in_index_rows)

lemma table_distinct: "distinct table"
  using index_rows_distinct[OF ids_distinct subs_distinct] by (simp add: table)

lemma find_exact:
  "FIND_INDEX_BY_THREE_MEMBER (- 1) i j k table = n \<longleftrightarrow>
   (if n = - 1 then \<not> member i j k else 0 \<le> n \<and> n < int (length table) \<and> table ! nat n = (i, j, k))"
  using find_index_iff[OF table_distinct, of "- 1" i j k n] in_table by simp

lemma find_nonneg: "member i j k \<Longrightarrow> 0 \<le> FIND_INDEX_BY_THREE_MEMBER (- 1) i j k table
   \<and> FIND_INDEX_BY_THREE_MEMBER (- 1) i j k table < int (length table)"
  using find_exact[of i j k "FIND_INDEX_BY_THREE_MEMBER (- 1) i j k table"] by (auto split: if_splits)

end

lemma alarm_subs_eq: "alarm_subs = [(1, 1, 1), (2, 2, 1), (5, 4, 1), (6, 4, 5), (8, 16, 8)]"
  by code_simp

lemma event_subs_eq: "event_subs = [(1, 1, 1), (7, 1, 1), (5, 4, 1), (6, 4, 5), (8, 16, 8)]"
  by code_simp

lemma alm_ids_distinct: "distinct (map fst gAlmIdTbl)"
  by code_simp

lemma evnt_ids_distinct: "distinct (map fst evnt_ids)"
  by code_simp

interpretation alarms: index_table alarm_subs gAlmIdTbl pAlmInxTbl
  by unfold_locales (simp_all add: pAlmInxTbl_def alarm_subs_eq alm_ids_distinct)

interpretation events: index_table event_subs evnt_ids pEvntInxTbl
  by unfold_locales (simp_all add: pEvntInxTbl_def event_subs_eq evnt_ids_distinct)

lemma alarm_table_length: "length pAlmInxTbl = 651"
  by code_simp

lemma event_table_length: "int (length pEvntInxTbl) = index_count event_subs evnt_ids"
  by code_simp

text \<open>The triples of an alarm and of an event, written out over the tables.\<close>

definition indexed :: "(int \<times> int \<times> int) list \<Rightarrow> (int \<times> int) list \<Rightarrow> int \<Rightarrow> int \<Rightarrow> int \<Rightarrow> bool" where
  "indexed subs ids i slot port \<longleftrightarrow> (\<exists>(i', t) \<in> set ids. \<exists>(t', s, p) \<in> set subs.
     i' = i \<and> t' = t \<and> 1 \<le> slot \<and> slot \<le> s \<and> 1 \<le> port \<and> port \<le> p)"

lemma alarm_member: "alarms.member = indexed alarm_subs gAlmIdTbl"
  unfolding alarms.member_def indexed_def by (intro ext iffI; clarsimp; blast)

lemma event_member: "events.member = indexed event_subs evnt_ids"
  unfolding events.member_def indexed_def by (intro ext iffI; clarsimp; blast)

section \<open>The properties of the tables\<close>

text \<open>
  \<open>initializeAlarmIndexTable\<close> succeeds when it can allocate, its table has the 651 rows that
  the macro \<open>ALM_CURSOR_ARRAY_SIZE\<close> announces, and \<open>FIND_ALMINX_BY_SLOT_PORT_ID\<close> numbers exactly
  the alarms of each subsystem at the slots and ports that it has: the number of a row is found
  for its triple and only for it, and any other triple is not found.
\<close>

theorem alarm_index_exact:
  "initializeAlarmIndexTable True = 0 \<and> length pAlmInxTbl = 651 \<and>
   (FIND_ALMINX_BY_SLOT_PORT_ID i slot port (- 1) = n \<longleftrightarrow>
     (if n = - 1 then \<not> indexed alarm_subs gAlmIdTbl i slot port
      else 0 \<le> n \<and> n < 651 \<and> pAlmInxTbl ! nat n = (i, slot, port)))"
proof -
  have "index_count alarm_subs gAlmIdTbl = 651" by code_simp
  then have "initializeAlarmIndexTable True = 0"
    by (simp add: initializeAlarmIndexTable_def alarm_table_length ALM_CURSOR_ARRAY_SIZE_def)
  then show ?thesis using alarms.find_exact[of i slot port n]
    by (simp add: alarm_table_length alarm_member FIND_ALMINX_BY_SLOT_PORT_ID_def)
qed

text \<open>
  The index table of the events is built without an error and numbers exactly the events of
  each subsystem at its slots and ports, none twice.
\<close>

theorem event_index_exact:
  "initializeEventIndexTable True = 0 \<and> distinct pEvntInxTbl \<and>
   (FIND_EVNTINX_BY_SLOT_PORT_ID i slot port (- 1) = n \<longleftrightarrow>
     (if n = - 1 then \<not> indexed event_subs evnt_ids i slot port
      else 0 \<le> n \<and> n < int (length pEvntInxTbl) \<and> pEvntInxTbl ! nat n = (i, slot, port)))"
  using events.find_exact[of i slot port n] events.table_distinct event_table_length
  by (simp add: initializeEventIndexTable_def event_member FIND_EVNTINX_BY_SLOT_PORT_ID_def)

lemma source_ids: "map ts_id gTimeSourceTbl = [0..40]"
  by code_simp

lemma source_ids_distinct: "distinct (map ts_id gTimeSourceTbl)"
  by (simp add: source_ids)

lemma source_vals_distinct: "distinct (map ts_g_val gTimeSourceTbl)"
  by code_simp

lemma source_rows:
  "list_all (\<lambda>r. ts_id r = PER_SLOT_SRCTYPE_NUM * (ts_slot r - 1) + (ts_type r - 1)
      \<and> ts_slot r \<in> {1, 2, 3, 4} \<and> 1 \<le> ts_type r \<and> ts_type r \<le> 10
      \<and> (ts_flag r = BOTH_SOURCE_FLAG \<longleftrightarrow> ts_type r \<in> {1, 4, 5, 6})
      \<and> (ts_flag r = FREQ_SOURCE_FLAG \<longleftrightarrow> ts_type r \<in> {2, 3, 7, 8, 9})
      \<and> (ts_flag r = TIME_SOURCE_FLAG \<longleftrightarrow> ts_type r = 10)
      \<and> 0 < ts_g_val r \<and> ts_g_val r < NO_SOURCE) (butlast gTimeSourceTbl)"
  by code_simp

text \<open>
  The table of the time sources is a numbering of the slots and types: the row at a place has
  that place as its identifier, which is ten per slot plus the type, and the searches by the
  identifier and by the value for the FPGA both give back the row, so that the value written to
  the FPGA determines the source.
\<close>

theorem source_table_exact:
  "0 \<le> i \<Longrightarrow> i \<le> 40 \<Longrightarrow> r = gTimeSourceTbl ! nat i \<Longrightarrow>
   ts_id r = i \<and>
   (i < 40 \<longrightarrow> i = 10 * (ts_slot r - 1) + (ts_type r - 1) \<and> ts_slot r \<in> {1, 2, 3, 4} \<and> ts_type r \<in> {1..10}) \<and>
   FIND_TYPE_BY_ID i v = ts_type r \<and> FIND_SLOT_BY_ID i v = ts_slot r \<and> FIND_FLAG_BY_ID i v = ts_flag r \<and>
   FIND_TYPE_BY_FPGA_VAL (ts_g_val r) v = ts_type r \<and> FIND_SLOT_BY_FPGA_VAL (ts_g_val r) v = ts_slot r \<and>
   FIND_FLAG_BY_FPGA_VAL (ts_g_val r) v = ts_flag r"
proof -
  assume i: "0 \<le> i" "i \<le> 40" and r: "r = gTimeSourceTbl ! nat i"
  have len: "length gTimeSourceTbl = 41" by (simp add: gTimeSourceTbl_def)
  then have mem: "r \<in> set gTimeSourceTbl" using i r by simp
  have "map ts_id gTimeSourceTbl ! nat i = i" using i by (simp add: source_ids nth_upto)
  then have id: "ts_id r = i" using i r len by simp
  have "i = 10 * (ts_slot r - 1) + (ts_type r - 1) \<and> ts_slot r \<in> {1, 2, 3, 4} \<and> ts_type r \<in> {1..10}" if "i < 40"
  proof -
    have "r = butlast gTimeSourceTbl ! nat i" "nat i < length (butlast gTimeSourceTbl)"
      using that i r len by (simp_all add: nth_butlast)
    then have "r \<in> set (butlast gTimeSourceTbl)" by simp
    then have "ts_id r = PER_SLOT_SRCTYPE_NUM * (ts_slot r - 1) + (ts_type r - 1)
        \<and> ts_slot r \<in> {1, 2, 3, 4} \<and> 1 \<le> ts_type r \<and> ts_type r \<le> 10"
      using source_rows unfolding list_all_iff by blast
    then show ?thesis using id by (simp add: PER_SLOT_SRCTYPE_NUM_def)
  qed
  then show ?thesis
    using find_member_row[OF source_ids_distinct mem, of v] find_member_row[OF source_vals_distinct mem, of v] id
    by (simp add: FIND_TYPE_BY_ID_def FIND_SLOT_BY_ID_def FIND_FLAG_BY_ID_def FIND_TYPE_BY_FPGA_VAL_def
        FIND_SLOT_BY_FPGA_VAL_def FIND_FLAG_BY_FPGA_VAL_def)
qed

lemma source_table_witness: "FIND_TYPE_BY_FPGA_VAL (ts_g_val (gTimeSourceTbl ! nat 26)) 0 = 7"
proof -
  have "ts_type (gTimeSourceTbl ! nat 26) = 7" by code_simp
  then show ?thesis using source_table_exact[of 26 "gTimeSourceTbl ! nat 26" 0] by simp
qed

end
