(* ===== verification/AllocNames.thy ===== *)
theory AllocNames
  imports AllocTablesSpec
begin

text \<open>
  The names of the boards and the texts of the status messages.
\<close>

text \<open>
  The searches of the board table give the row of the board, and the boards of each kind of
  slot agree with the limits of the ports; but an identifier of no board gets the name of the last
  board before it in \<open>initializeBoardNameTable\<close>, because the variable with the name is not reset:
  the identifiers 20 to 59 are called SC4, and 73 to 89 NTP_IN.
\<close>

theorem board_names_exact:
  "snd initializeBoardNameTable \<and> length (fst initializeBoardNameTable) = 111 \<and>
   (\<forall>b \<in> set gBoardAttrTbl. fst initializeBoardNameTable ! nat (ba_bid b) = ba_name b
      \<and> FIND_MAXPORT_GBATBL_BY_BID (ba_bid b) m = ba_max_port b
      \<and> FIND_PORTATTR_GBATBL_BY_BID (ba_bid b) pa = ba_port_attr b) \<and>
   fst initializeBoardNameTable ! 20 = ''SC4'' \<and> fst initializeBoardNameTable ! 59 = ''SC4'' \<and>
   fst initializeBoardNameTable ! 89 = ''NTP_IN''"
proof -
  have d: "distinct (map ba_bid gBoardAttrTbl)" by code_simp
  obtain ns ok where i: "initializeBoardNameTable = (ns, ok)" by fastforce
  have "let (ns, ok) = initializeBoardNameTable in ok \<and> length ns = 111
      \<and> list_all (\<lambda>b. ns ! nat (ba_bid b) = ba_name b) gBoardAttrTbl
      \<and> ns ! 20 = ''SC4'' \<and> ns ! 59 = ''SC4'' \<and> ns ! 89 = ''NTP_IN''"
    by code_simp
  then have "ok" "length ns = 111" "\<forall>b \<in> set gBoardAttrTbl. ns ! nat (ba_bid b) = ba_name b"
    "ns ! 20 = ''SC4''" "ns ! 59 = ''SC4''" "ns ! 89 = ''NTP_IN''"
    by (simp_all add: i list_all_iff)
  moreover have "FIND_MAXPORT_GBATBL_BY_BID (ba_bid b) m = ba_max_port b"
    "FIND_PORTATTR_GBATBL_BY_BID (ba_bid b) pa = ba_port_attr b" if "b \<in> set gBoardAttrTbl" for b
    unfolding FIND_MAXPORT_GBATBL_BY_BID_def FIND_PORTATTR_GBATBL_BY_BID_def
    by (rule find_member_row[OF d that])+
  ultimately show ?thesis unfolding i fst_conv snd_conv by blast
qed

lemma board_names_witness:
  "fst initializeBoardNameTable ! nat (ba_bid (gBoardAttrTbl ! 3)) = ba_name (gBoardAttrTbl ! 3) \<and>
   FIND_MAXPORT_GBATBL_BY_BID (ba_bid (gBoardAttrTbl ! 3)) 0 = ba_max_port (gBoardAttrTbl ! 3)"
proof -
  have "3 < length gBoardAttrTbl" by code_simp
  then have "gBoardAttrTbl ! 3 \<in> set gBoardAttrTbl" by (rule nth_mem)
  then show ?thesis using board_names_exact[of 0 None] by blast
qed

text \<open>
  The status messages and their texts translate into each other: the text of each value gives
  back the value, and any other text of two characters gives the error -1.
\<close>

theorem ssm_text_roundtrip:
  "(val \<in> {SSM_VAL_02, SSM_VAL_04, SSM_VAL_08, SSM_VAL_0B, SSM_VAL_0F, SSM_VAL_00, SSM_VAL_NE} \<longrightarrow>
     FIND_VAL_BY_SSM_STR (FIND_STR_BY_SSM_VAL val d) = val) \<and>
   (length str = 2 \<longrightarrow> str \<notin> snd ` set gSsmTbl \<longrightarrow> FIND_VAL_BY_SSM_STR str = - 1)"
proof -
  have d: "distinct (map fst gSsmTbl)" "distinct (map snd gSsmTbl)" by code_simp+
  have two: "list_all (\<lambda>r. length (snd r) = 2) gSsmTbl" by code_simp
  have "FIND_VAL_BY_SSM_STR (FIND_STR_BY_SSM_VAL (fst r) d) = fst r" if "r \<in> set gSsmTbl" for r
    using find_member_row[OF d(1) that, of d snd]
      find_member_row[OF d(2) that, of "- 1" fst] two that
    by (simp add: FIND_STR_BY_SSM_VAL_def FIND_VAL_BY_SSM_STR_def list_all_iff)
  moreover have "fst ` set gSsmTbl = {SSM_VAL_02, SSM_VAL_04, SSM_VAL_08, SSM_VAL_0B, SSM_VAL_0F, SSM_VAL_00, SSM_VAL_NE}"
    by (auto simp: gSsmTbl_def)
  ultimately have "val \<in> {SSM_VAL_02, SSM_VAL_04, SSM_VAL_08, SSM_VAL_0B, SSM_VAL_0F, SSM_VAL_00, SSM_VAL_NE} \<Longrightarrow>
     FIND_VAL_BY_SSM_STR (FIND_STR_BY_SSM_VAL val d) = val" by (metis imageE)
  then show ?thesis using find_member_none[of str snd gSsmTbl "- 1" fst]
    by (simp add: FIND_VAL_BY_SSM_STR_def)
qed

lemma ssm_text_witness: "FIND_VAL_BY_SSM_STR (FIND_STR_BY_SSM_VAL SSM_VAL_0B []) = SSM_VAL_0B \<and> FIND_VAL_BY_SSM_STR ''1Z'' = - 1"
proof -
  have "''1Z'' \<notin> snd ` set gSsmTbl" by code_simp
  then show ?thesis using ssm_text_roundtrip[of SSM_VAL_0B "[]" "''1Z''"] by simp
qed

end
