(* ===== verification/InSource.thy ===== *)
theory InSource
  imports AllocTables Fpga
begin

unbundle bit_operations_syntax

text \<open>
  The selection of the input time source, \<^verbatim>\<open>src/d-input/din_source.c\<close>, its configuration
  (\<open>sysSchema\<close> of \<^verbatim>\<open>src/d-input/din_parser.c\<close>) and the readings of the status message and of the
  phases, \<^verbatim>\<open>din_ssm.c\<close> and \<^verbatim>\<open>din_phase.c\<close>.
\<close>

section \<open>The state\<close>

text \<open>
  Of an input slot: the board, the mode and antenna of a satellite board, what it reports of its
  satellites, and the priorities and status messages of the ports.
\<close>

record inputsta =
  boardId :: int
  sys_mode :: int
  antenna_state :: int
  sta_flag :: int
  trackngb :: int
  pst_status :: int
  ph :: "int list"
  prio :: "int list"
  ssm :: "int list"

record schemainfo =
  schema :: int
  src_inx :: int
  sc_flag :: int
  sc_type :: int
  sc_slot :: int
  sc_port :: int
  sc_bid :: int

text \<open>The context of the process, with the requests it made to the FPGA.\<close>

record inCtx =
  clock_type :: int
  cs :: schemainfo
  alarm :: "int list"
  inSta :: "inputsta list"
  reqs :: "request list"


definition slot_sta :: "inCtx \<Rightarrow> int \<Rightarrow> inputsta" where
  "slot_sta ctx slot = inSta ctx ! nat (slot - 1)"

definition alarm_on :: "inCtx \<Rightarrow> int \<Rightarrow> bool" where
  "alarm_on ctx inx \<longleftrightarrow> alarm ctx ! nat inx = ALM_ON"

section \<open>The alarms of a source\<close>

text \<open>
  The alarms that are looked at in turn: the search ends at the first one that is on, and the
  index stays where it ends. An alarm that is not in the index table ends \<open>bis_free\<close>.
\<close>

fun alm_chain :: "inCtx \<Rightarrow> int \<Rightarrow> int \<Rightarrow> int list \<Rightarrow> int \<Rightarrow> int option" where
  "alm_chain ctx slot port [] inx = Some inx"
| "alm_chain ctx slot port (i # is) inx =
     (let inx = FIND_ALMINX_BY_SLOT_PORT_ID i slot port (- 1)
      in if inx = - 1 then None
         else if alarm_on ctx inx then Some inx
         else alm_chain ctx slot port is inx)"

definition bis_alm_inx :: "inCtx \<Rightarrow> int \<Rightarrow> int \<Rightarrow> int option" where
  "bis_alm_inx ctx src_slot src_type =
     (if src_type = GPS_SOURCE_TYPE then
        alm_chain ctx src_slot (int SAT_PORT_SAT)
          [SNMP_ALM_ID A_GPBD_SGN_LOS, SNMP_ALM_ID A_GPBD_SGN_DGD, SNMP_ALM_ID A_ANT_SHORT] (- 1)
      else if src_type = S2MH_SOURCE_TYPE then
        alm_chain ctx src_slot (int SAT_PORT_2MH) [SNMP_ALM_ID A_2MHZ_IN_LOS] (- 1)
      else if src_type = S2MB_SOURCE_TYPE then
        alm_chain ctx src_slot (int SAT_PORT_2MB)
          [SNMP_ALM_ID A_2MB_IN_LOS, SNMP_ALM_ID A_2MB_AIS, SNMP_ALM_ID A_2MB_BPV,
           SNMP_ALM_ID A_2MB_CRC, SNMP_ALM_ID A_2MB_LOF] (- 1)
      else if src_type = IRIGB1_SOURCE_TYPE then
        alm_chain ctx src_slot (int SAT_PORT_IRIGB1) [SNMP_ALM_ID A_IRIGB_IN_LOS] (- 1)
      else if src_type = IRIGB2_SOURCE_TYPE then
        alm_chain ctx src_slot (int SAT_PORT_IRIGB2) [SNMP_ALM_ID A_IRIGB_IN_LOS] (- 1)
      else if src_type = TOD_SOURCE_TYPE then
        (if boardId (slot_sta ctx src_slot) = BID_PTP_IN then
           Some (FIND_ALMINX_BY_SLOT_PORT_ID (SNMP_ALM_ID A_PTP_IN_LOS) src_slot 1 (- 1))
         else if boardId (slot_sta ctx src_slot) = BID_RTF then
           Some (FIND_ALMINX_BY_SLOT_PORT_ID (SNMP_ALM_ID A_1PPS_TOD_IN_LOS) src_slot (int RTF_PORT_1PPS_TOD) (- 1))
         else Some (- 1))
      else if src_type = S10MH1_SOURCE_TYPE then
        alm_chain ctx src_slot (int RTF_PORT_10MH1) [SNMP_ALM_ID A_10MHZ_IN_LOS] (- 1)
      else if src_type = S10MH2_SOURCE_TYPE then
        alm_chain ctx src_slot (int RTF_PORT_10MH2) [SNMP_ALM_ID A_10MHZ_IN_LOS] (- 1)
      else if src_type = S1PPS_SOURCE_TYPE then
        alm_chain ctx src_slot (int RTF_PORT_1PPS) [SNMP_ALM_ID A_1PPS_IN_LOS] (- 1)
      else if src_type = NTP_SOURCE_TYPE then
        alm_chain ctx src_slot 1 [SNMP_ALM_ID A_NTP_IN_LOS] (- 1)
      else Some (- 1))"

definition bis_alm :: "inCtx \<Rightarrow> int \<Rightarrow> int \<Rightarrow> int option" where
  "bis_alm ctx src_slot src_type =
     (case bis_alm_inx ctx src_slot src_type of None \<Rightarrow> None
      | Some alm_inx \<Rightarrow> Some (if 0 \<le> alm_inx \<and> \<not> alarm_on ctx alm_inx then ALM_OFF else ALM_ON))"

text \<open>
  The loop over the slots and the sources; an entry that is not reached keeps the 0 of the
  \<open>memset\<close>.
\<close>

fun bis_alm_loop :: "inCtx \<Rightarrow> (int \<times> int) list \<Rightarrow> (int \<Rightarrow> int) \<Rightarrow> (int \<Rightarrow> int) option" where
  "bis_alm_loop ctx [] alm = Some alm"
| "bis_alm_loop ctx ((slot, i) # is) alm =
     (if FIND_SLOT_BY_ID i 0 = slot then
        (case bis_alm ctx slot (FIND_TYPE_BY_ID i NO_SOURCE_TYPE) of
           None \<Rightarrow> None | Some a \<Rightarrow> bis_alm_loop ctx is (alm(i := a)))
      else bis_alm_loop ctx is alm)"

section \<open>The best source\<close>

record bisinfo =
  bis_enable :: int
  bis_ssm :: int
  bis_prio :: int
  bis_flag :: int

text \<open>The ports of the board: the last one with the type of the source counts.\<close>

fun bis_ports :: "int list \<Rightarrow> int \<Rightarrow> inputsta \<Rightarrow> int list \<Rightarrow> bisinfo \<Rightarrow> bisinfo" where
  "bis_ports port_attr src_type sta [] b = b"
| "bis_ports port_attr src_type sta (port # ports) b =
     bis_ports port_attr src_type sta ports
       (if port_attr ! nat port = src_type
        then b\<lparr>bis_enable := 1, bis_prio := prio sta ! nat port, bis_ssm := ssm sta ! nat port\<rparr> else b)"

text \<open>
  The first loop. The variables \<open>port_attr\<close> and \<open>max_port\<close> are set outside of the loop and keep
  their values when the board is not in the table.
\<close>

fun bis_scan :: "inCtx \<Rightarrow> int list \<Rightarrow> int list option \<Rightarrow> int \<Rightarrow> bisinfo list" where
  "bis_scan ctx [] port_attr max_port = []"
| "bis_scan ctx (i # is) port_attr max_port =
     (let src_type = FIND_TYPE_BY_ID i NO_SOURCE_TYPE;
          src_slot = FIND_SLOT_BY_ID i 0;
          b = \<lparr>bis_enable = 0, bis_ssm = 0, bis_prio = 0, bis_flag = FIND_FLAG_BY_ID i INVALID_SOURCE_FLAG\<rparr>
      in if 0 < src_slot \<and> src_slot \<le> INPUT_SLOT_CURSOR_ARRAY_SIZE then
           (let sta = slot_sta ctx src_slot;
                port_attr = FIND_PORTATTR_GBATBL_BY_BID (boardId sta) port_attr
            in case port_attr of
                 None \<Rightarrow> b # bis_scan ctx is port_attr max_port
               | Some attr \<Rightarrow>
                   (let max_port = FIND_MAXPORT_GBATBL_BY_BID (boardId sta) max_port
                    in bis_ports attr src_type sta [0..max_port - 1] b # bis_scan ctx is port_attr max_port))
         else b # bis_scan ctx is port_attr max_port)"

text \<open>The figure of a source; 500 excludes it.\<close>

definition bis_alg :: "int \<Rightarrow> bisinfo \<Rightarrow> int \<Rightarrow> int" where
  "bis_alg clk b alm =
     (if bis_enable b = 1 \<and> alm = ALM_OFF \<and> bis_prio b \<noteq> 45 \<and> 48 \<le> bis_prio b then
        (let alg = 1 * (bis_prio b - 48 + 1)
         in if bis_flag b = FREQ_SOURCE_FLAG then
              (if clk = 1 then
                 (if bis_ssm b = SSM_VAL_08 \<or> bis_ssm b = SSM_VAL_0B \<or> bis_ssm b = SSM_VAL_0F then 500 else alg)
               else if clk = 2 then (if bis_ssm b = SSM_VAL_0F then 500 else alg)
               else 500)
            else alg)
      else 500)"

text \<open>The first minimum.\<close>

fun bis_min :: "int \<Rightarrow> int list \<Rightarrow> int \<Rightarrow> int \<Rightarrow> int \<times> int" where
  "bis_min i [] mn line = (mn, line)"
| "bis_min i (a # as) mn line = (if a < mn then bis_min (i + 1) as a i else bis_min (i + 1) as mn line)"

definition bis_free :: "inCtx \<Rightarrow> int" where
  "bis_free ctx =
     (let bis = bis_scan ctx [0..TIME_SOURCE_MAX_NOSOURCE - 1] None 0
      in case bis_alm_loop ctx (concat (map (\<lambda>slot. map (\<lambda>i. (slot, i)) [0..TIME_SOURCE_MAX_NOSOURCE - 1])
                 [1..INPUT_SLOT_CURSOR_ARRAY_SIZE])) (\<lambda>_. 0) of
           None \<Rightarrow> TIME_SOURCE_MAX_NOSOURCE
         | Some alm \<Rightarrow>
             (let alg = map (\<lambda>i. bis_alg (clock_type ctx) (bis ! nat i) (alm i)) [0..TIME_SOURCE_MAX_NOSOURCE - 1]
              in case bis_min 1 (tl alg) (hd alg) 0 of (mn, line) \<Rightarrow>
                   if mn = 500 then TIME_SOURCE_MAX_NOSOURCE else line))"

section \<open>Choosing the source\<close>

text \<open>Writing to the FPGA from the context.\<close>

definition ctx_write :: "driver \<Rightarrow> int \<Rightarrow> int \<Rightarrow> inCtx \<Rightarrow> bool \<times> inCtx" where
  "ctx_write drv addr value ctx =
     (case FpgaWrite drv addr value (reqs ctx) of (ok, rs) \<Rightarrow> (ok, ctx\<lparr>reqs := rs\<rparr>))"

definition bis_force :: "driver \<Rightarrow> int \<Rightarrow> inCtx \<Rightarrow> int \<times> inCtx" where
  "bis_force drv line ctx =
     (if line < 0 \<or> TIME_SOURCE_MAX_NOSOURCE < line then (- 1, ctx)
      else (case ctx_write drv FPGA_SYS_INSRC_SELECT (ts_g_val (gTimeSourceTbl ! nat line)) ctx of
              (ok, ctx) \<Rightarrow> (if ok then 0 else - 1, ctx)))"

text \<open>
  What \<open>best_input_source\<close> and \<open>sysSchema\<close> note of the source; there is no value for the port
  when the board has no table of ports.
\<close>

fun last_port :: "int list \<Rightarrow> int \<Rightarrow> int list \<Rightarrow> int \<Rightarrow> int" where
  "last_port attr t [] v = v"
| "last_port attr t (p # ps) v = last_port attr t ps (if attr ! nat p = t then p + 1 else v)"

definition note_source :: "inCtx \<Rightarrow> bool \<times> inCtx" where
  "note_source ctx =
     (let c = cs ctx;
          c = c\<lparr>sc_slot := 0, sc_bid := BID_NONE, sc_port := 0,
                sc_type := FIND_TYPE_BY_ID (src_inx c) NO_SOURCE_TYPE,
                sc_flag := FIND_FLAG_BY_ID (src_inx c) INVALID_SOURCE_FLAG\<rparr>;
          slot = FIND_SLOT_BY_ID (src_inx c) 1
      in if 0 < slot \<and> slot \<le> INPUT_SLOT_CURSOR_ARRAY_SIZE then
           (let bid = boardId (slot_sta ctx slot);
                c = c\<lparr>sc_slot := slot, sc_bid := bid\<rparr>
            in case FIND_PORTATTR_GBATBL_BY_BID bid None of
                 None \<Rightarrow> (False, ctx\<lparr>cs := c\<rparr>)
               | Some attr \<Rightarrow>
                   (True, ctx\<lparr>cs := c\<lparr>sc_port :=
                      last_port attr (sc_type c) [0..FIND_MAXPORT_GBATBL_BY_BID bid 0 - 1] 0\<rparr>\<rparr>))
         else (True, ctx\<lparr>cs := c\<rparr>))"

definition best_input_source :: "driver \<Rightarrow> inCtx \<Rightarrow> int \<times> inCtx" where
  "best_input_source drv ctx =
     (if schema (cs ctx) = 0 then
        (let src = bis_free ctx
         in if src_inx (cs ctx) \<noteq> src then
              (case note_source (ctx\<lparr>cs := (cs ctx)\<lparr>src_inx := u8 src\<rparr>\<rparr>) of
                 (False, ctx) \<Rightarrow> (- 1, ctx)
               | (True, ctx) \<Rightarrow> bis_force drv (src_inx (cs ctx)) ctx)
            else (0, ctx))
      else (0, ctx))"

text \<open>
  \<open>sysSchema\<close> sets the source first and then notes it; the writes to the data base and to the
  shared memory succeed or fail.
\<close>

definition sysSchema :: "driver \<Rightarrow> bool \<Rightarrow> bool \<Rightarrow> int \<Rightarrow> int \<Rightarrow> inCtx \<Rightarrow> int \<times> inCtx" where
  "sysSchema drv write_ok shm_ok cfg_schema cfg_src ctx =
     (let ctx = ctx\<lparr>cs := (cs ctx)\<lparr>schema := cfg_schema\<rparr>\<rparr>;
          src = (if cfg_schema = 1 then cfg_src else u8 (bis_free ctx));
          (r, ctx) = (if src_inx (cs ctx) \<noteq> src
                      then bis_force drv src (ctx\<lparr>cs := (cs ctx)\<lparr>src_inx := src\<rparr>\<rparr>)
                      else (0, ctx))
      in if r = - 1 then (0, ctx)
         else (case note_source ctx of (ok, ctx) \<Rightarrow>
                 if \<not> ok then (0, ctx)
                 else if \<not> write_ok then (0, ctx)
                 else if \<not> shm_ok then (0, ctx)
                 else (1, ctx)))"

section \<open>What the outputs are told of the source\<close>

definition SATELLITE_ANTENNA_LOOP :: int where "SATELLITE_ANTENNA_LOOP = 49"
definition SATELLITE_ANTENNA_NORMAL :: int where "SATELLITE_ANTENNA_NORMAL = 50"
definition SATELLITE_ANTENNA_OPEN :: int where "SATELLITE_ANTENNA_OPEN = 51"
definition MODE_CURSOR_GPS_VAL :: int where "MODE_CURSOR_GPS_VAL = 1"
definition MODE_CURSOR_BD_VAL :: int where "MODE_CURSOR_BD_VAL = 2"
definition MODE_CURSOR_MIX_GPS_VAL :: int where "MODE_CURSOR_MIX_GPS_VAL = 3"
definition MODE_CURSOR_MIX_BD_VAL :: int where "MODE_CURSOR_MIX_BD_VAL = 4"

definition stratum_of :: "schemainfo \<Rightarrow> int \<Rightarrow> int" where
  "stratum_of c s =
     (if GPS_SOURCE_ID (sc_slot c) = src_inx c \<or> IRIGB1_SOURCE_ID (sc_slot c) = src_inx c
        \<or> IRIGB2_SOURCE_ID (sc_slot c) = src_inx c \<or> TOD_SOURCE_ID (sc_slot c) = src_inx c then 0
      else if sc_flag c = FREQ_SOURCE_FLAG then
        (if s = SSM_VAL_02 then 0
         else if s = SSM_VAL_04 then 1
         else if s = SSM_VAL_08 then 2
         else if s = SSM_VAL_0B then 2
         else if s = SSM_VAL_0F then 0xFF
         else 0xFF)
      else 0)"

definition clk_src_typ_of :: "int \<Rightarrow> int \<Rightarrow> int" where
  "clk_src_typ_of t mode =
     (if t = GPS_SOURCE_TYPE \<and> (mode = MODE_CURSOR_BD_VAL \<or> mode = MODE_CURSOR_MIX_BD_VAL) then 0
      else if t = GPS_SOURCE_TYPE \<and> (mode = MODE_CURSOR_GPS_VAL \<or> mode = MODE_CURSOR_MIX_GPS_VAL) then 1
      else if t = TOD_SOURCE_TYPE then 2
      else 3)"

text \<open>The alarm and the status of the source: each case assigns the whole value.\<close>

definition traced :: "inputsta \<Rightarrow> int \<times> int" where
  "traced sta =
     (if BID_GPSBF \<le> boardId sta \<and> boardId sta \<le> BID_BFFI
         \<and> sta_flag sta AND FLAG_SAT_COMMSTA_TRACKNGB \<noteq> 0 \<and> sta_flag sta AND FLAG_SAT_COMMSTA_PST_STATUS \<noteq> 0
      then (trackngb sta, pst_status sta) else (0, 0))"

definition clock_source_alarm_of :: "int \<Rightarrow> inputsta \<Rightarrow> int" where
  "clock_source_alarm_of t sta =
     (if t = GPS_SOURCE_TYPE then
        (let a = (if antenna_state sta = SATELLITE_ANTENNA_LOOP then BIT 2
                  else if antenna_state sta = SATELLITE_ANTENNA_OPEN then BIT 1 else 0);
             a = (if sys_mode sta = MODE_CURSOR_GPS_VAL then BIT 5 else a)
         in if fst (traced sta) = 0 then BIT 3 else a)
      else 0)"

definition clock_source_status_of :: "int \<Rightarrow> inputsta \<Rightarrow> int" where
  "clock_source_status_of t sta =
     (if t = GPS_SOURCE_TYPE then
        (if snd (traced sta) = 0 then 0 else if snd (traced sta) = 2 then 2
         else if snd (traced sta) = 3 then 3 else 0x0f)
      else 0x0f)"

text \<open>A sequence of writes, each with the result when it fails.\<close>

fun writes :: "driver \<Rightarrow> (int \<times> int \<times> int) list \<Rightarrow> inCtx \<Rightarrow> int \<times> inCtx" where
  "writes drv [] ctx = (0, ctx)"
| "writes drv ((addr, value, err) # ws) ctx =
     (case ctx_write drv addr value ctx of (ok, ctx) \<Rightarrow> if ok then writes drv ws ctx else (err, ctx))"

definition stratum_input_source :: "driver \<Rightarrow> inCtx \<Rightarrow> int \<times> inCtx" where
  "stratum_input_source drv ctx =
     (let c = cs ctx
      in if sc_slot c < 1 \<or> INPUT_SLOT_CURSOR_ARRAY_SIZE < sc_slot c then (0, ctx)
         else
           (let sta = slot_sta ctx (sc_slot c);
                s = (if 0 < sc_port c \<and> sc_port c < INPUT_SLOT_MAX_PORT then ssm sta ! nat (sc_port c - 1)
                     else SSM_VAL_NE);
                direct = (GPS_SOURCE_ID (sc_slot c) = src_inx c \<or> IRIGB1_SOURCE_ID (sc_slot c) = src_inx c
                  \<or> IRIGB2_SOURCE_ID (sc_slot c) = src_inx c \<or> TOD_SOURCE_ID (sc_slot c) = src_inx c);
                gps = slot_sta ctx (if sc_type c = GPS_SOURCE_TYPE
                  then ts_slot (gTimeSourceTbl ! nat (src_inx c)) else 1)
            in writes drv
                 ((if \<not> direct \<and> sc_flag c = FREQ_SOURCE_FLAG then [(FPGA_SYS_CUR_INSRC_SSM, s, - 1)] else []) @
                  [(FPGA_SYS_INSRC_STRATUM, stratum_of c s, - 1),
                   (FPGA_SYS_OUT_TOD_CLK_SRC_TYPE, clk_src_typ_of (sc_type c) (sys_mode sta), - 1),
                   (FPGA_SYS_INSRC_STRATUM, stratum_of c s, - 1),
                   (FPGA_SYS_OUT_TOD_CLK_SRC_ALARM, clock_source_alarm_of (sc_type c) gps, 0),
                   (FPGA_SYS_OUT_TOD_CLK_SRC_STATE, clock_source_status_of (sc_type c) gps, 0)]) ctx))"

section \<open>Refreshing the time\<close>

text \<open>The functions return 1 when the writes succeed; a frequency source cannot refresh the time.\<close>

definition FreshLeapSecond :: "driver \<Rightarrow> int \<Rightarrow> inCtx \<Rightarrow> int \<times> inCtx" where
  "FreshLeapSecond drv leapSecond ctx =
     (case ctx_write drv FPGA_SYS_LPS leapSecond ctx of (ok, ctx) \<Rightarrow> (if ok then 1 else 0, ctx))"

definition FreshTime_no_leapSecond :: "driver \<Rightarrow> inCtx \<Rightarrow> int \<times> inCtx" where
  "FreshTime_no_leapSecond drv ctx =
     (if ts_flag (gTimeSourceTbl ! nat (src_inx (cs ctx))) = FREQ_SOURCE_FLAG then (1, ctx)
      else (case ctx_write drv FPGA_SYS_FRESH_TIME 0 ctx of (ok, ctx) \<Rightarrow>
              if \<not> ok then (0, ctx)
              else (case ctx_write drv FPGA_SYS_FRESH_TIME 1 ctx of (ok, ctx) \<Rightarrow> (if ok then 1 else 0, ctx))))"

definition FreshTime :: "driver \<Rightarrow> int \<Rightarrow> inCtx \<Rightarrow> int \<times> inCtx" where
  "FreshTime drv leapSecond ctx =
     (if ts_flag (gTimeSourceTbl ! nat (src_inx (cs ctx))) = FREQ_SOURCE_FLAG then (1, ctx)
      else (case FreshLeapSecond drv leapSecond ctx of (r, ctx) \<Rightarrow>
              if r = 0 then (0, ctx)
              else (case ctx_write drv FPGA_SYS_FRESH_TIME 0 ctx of (ok, ctx) \<Rightarrow>
                      if \<not> ok then (0, ctx)
                      else (case ctx_write drv FPGA_SYS_FRESH_TIME 1 ctx of (ok, ctx) \<Rightarrow>
                              (if ok then 1 else 0, ctx)))))"

end
