(* ===== verification/InSourceSpec.thy ===== *)
theory InSourceSpec
  imports InSource AllocTablesSpec
begin

text \<open>
  The source that is chosen is the best one: a source is eligible when a board has a port for it,
  none of its alarms is on, it has a priority and, for a frequency, its quality suffices for the
  clock; of the eligible sources the one with the smallest priority, and among those the first,
  is chosen, and none when there is none.
\<close>

section \<open>What makes a source eligible\<close>

text \<open>The alarms of a type of source at a board, with their port; \<open>None\<close> is a source that is always alarmed.\<close>

definition alarms_of :: "int \<Rightarrow> int \<Rightarrow> (alm_name list \<times> int) option" where
  "alarms_of bid t =
     (if t = 1 then Some ([A_GPBD_SGN_LOS, A_GPBD_SGN_DGD, A_ANT_SHORT], 1)
      else if t = 2 then Some ([A_2MHZ_IN_LOS], 2)
      else if t = 3 then Some ([A_2MB_IN_LOS, A_2MB_AIS, A_2MB_BPV, A_2MB_CRC, A_2MB_LOF], 3)
      else if t = 4 then Some ([A_IRIGB_IN_LOS], 4)
      else if t = 5 then Some ([A_IRIGB_IN_LOS], 5)
      else if t = 6 then (if bid = BID_PTP_IN then Some ([A_PTP_IN_LOS], 1)
        else if bid = BID_RTF then Some ([A_1PPS_TOD_IN_LOS], 1) else None)
      else if t = 7 then Some ([A_1PPS_IN_LOS], 2)
      else if t = 8 then Some ([A_10MHZ_IN_LOS], 3)
      else if t = 9 then Some ([A_10MHZ_IN_LOS], 4)
      else Some ([A_NTP_IN_LOS], 1))"

definition alarm_at :: "inCtx \<Rightarrow> alm_name \<Rightarrow> int \<Rightarrow> int \<Rightarrow> bool" where
  "alarm_at ctx a slot port = alarm_on ctx (FIND_ALMINX_BY_SLOT_PORT_ID (SNMP_ALM_ID a) slot port (- 1))"

definition alarmed :: "inCtx \<Rightarrow> int \<Rightarrow> int \<Rightarrow> bool" where
  "alarmed ctx slot t = (case alarms_of (boardId (slot_sta ctx slot)) t of
     None \<Rightarrow> True | Some (as, port) \<Rightarrow> list_ex (\<lambda>a. alarm_at ctx a slot port) as)"

text \<open>The port of the board in the slot that carries the type of source.\<close>

definition port_for :: "inCtx \<Rightarrow> int \<Rightarrow> int \<Rightarrow> int option" where
  "port_for ctx slot t =
     (let bid = boardId (slot_sta ctx slot)
      in case FIND_PORTATTR_GBATBL_BY_BID bid None of None \<Rightarrow> None
         | Some attr \<Rightarrow> find (\<lambda>p. attr ! nat p = t) (rev [0..FIND_MAXPORT_GBATBL_BY_BID bid 0 - 1]))"

definition src_slot_of :: "int \<Rightarrow> int" where "src_slot_of i = i div 10 + 1"
definition src_type_of :: "int \<Rightarrow> int" where "src_type_of i = i mod 10 + 1"

definition quality_ok :: "int \<Rightarrow> int \<Rightarrow> int \<Rightarrow> bool" where
  "quality_ok clk t s = (t \<in> {2, 3, 7, 8, 9} \<longrightarrow>
     clk = 1 \<and> s \<notin> {SSM_VAL_08, SSM_VAL_0B, SSM_VAL_0F} \<or> clk = 2 \<and> s \<noteq> SSM_VAL_0F)"

definition src_prio :: "inCtx \<Rightarrow> int \<Rightarrow> int" where
  "src_prio ctx i = (case port_for ctx (src_slot_of i) (src_type_of i) of None \<Rightarrow> 0
     | Some p \<Rightarrow> prio (slot_sta ctx (src_slot_of i)) ! nat p)"

definition src_ssm :: "inCtx \<Rightarrow> int \<Rightarrow> int" where
  "src_ssm ctx i = (case port_for ctx (src_slot_of i) (src_type_of i) of None \<Rightarrow> 0
     | Some p \<Rightarrow> ssm (slot_sta ctx (src_slot_of i)) ! nat p)"

definition eligible :: "inCtx \<Rightarrow> int \<Rightarrow> bool" where
  "eligible ctx i \<longleftrightarrow> port_for ctx (src_slot_of i) (src_type_of i) \<noteq> None
     \<and> \<not> alarmed ctx (src_slot_of i) (src_type_of i)
     \<and> 48 \<le> src_prio ctx i \<and> quality_ok (clock_type ctx) (src_type_of i) (src_ssm ctx i)"

text \<open>The boards are known ones and the arrays have their lengths.\<close>

definition ctx_ok :: "inCtx \<Rightarrow> bool" where
  "ctx_ok ctx \<longleftrightarrow> length (inSta ctx) = 4 \<and> length (alarm ctx) = 651 \<and>
     list_all (\<lambda>s. boardId s \<in> ba_bid ` set gBoardAttrTbl \<and> length (prio s) = 6 \<and> length (ssm s) = 5
       \<and> list_all (\<lambda>p. 0 \<le> p \<and> p < 256) (prio s)) (inSta ctx)"

section \<open>Rows of the scan\<close>

lemma src_slot_range: "0 \<le> i \<Longrightarrow> i < 40 \<Longrightarrow> 1 \<le> src_slot_of i \<and> src_slot_of i \<le> 4"
  unfolding src_slot_of_def by linarith

lemma src_type_range: "1 \<le> src_type_of i \<and> src_type_of i \<le> 10"
  using pos_mod_bound[of 10 i] pos_mod_sign[of 10 i] by (simp add: src_type_of_def)

lemma find_source_rows:
  "list_all (\<lambda>i. FIND_SLOT_BY_ID i 0 = src_slot_of i \<and> FIND_SLOT_BY_ID i 1 = src_slot_of i
     \<and> FIND_TYPE_BY_ID i NO_SOURCE_TYPE = src_type_of i
     \<and> (FIND_FLAG_BY_ID i INVALID_SOURCE_FLAG = FREQ_SOURCE_FLAG) = list_ex ((=) (src_type_of i)) [2, 3, 7, 8, 9]) [0..39]"
  by code_simp

lemma find_source:
  assumes "0 \<le> i" "i < 40"
  shows "FIND_SLOT_BY_ID i 0 = src_slot_of i" "FIND_SLOT_BY_ID i 1 = src_slot_of i"
    "FIND_TYPE_BY_ID i NO_SOURCE_TYPE = src_type_of i"
    "FIND_FLAG_BY_ID i INVALID_SOURCE_FLAG = FREQ_SOURCE_FLAG \<longleftrightarrow> src_type_of i \<in> {2, 3, 7, 8, 9}"
  using assms find_source_rows unfolding list_all_iff by auto

lemma find_known: "k \<in> src ` set es \<Longrightarrow>
  FIND_OTHMEMBER_BY_MEMBER k v es src des = FIND_OTHMEMBER_BY_MEMBER k v' es src des"
  by (induction es) auto

lemma slot_known:
  assumes "ctx_ok ctx" "1 \<le> slot" "slot \<le> 4"
  shows "boardId (slot_sta ctx slot) \<in> ba_bid ` set gBoardAttrTbl"
    "list_all (\<lambda>p. 0 \<le> p \<and> p < 256) (prio (slot_sta ctx slot))" "length (prio (slot_sta ctx slot)) = 6"
    "length (ssm (slot_sta ctx slot)) = 5"
proof -
  have "slot_sta ctx slot \<in> set (inSta ctx)" using assms by (simp add: slot_sta_def ctx_ok_def)
  then show "boardId (slot_sta ctx slot) \<in> ba_bid ` set gBoardAttrTbl"
    "list_all (\<lambda>p. 0 \<le> p \<and> p < 256) (prio (slot_sta ctx slot))" "length (prio (slot_sta ctx slot)) = 6"
    "length (ssm (slot_sta ctx slot)) = 5"
    using assms(1) by (simp_all add: ctx_ok_def list_all_iff)
qed

lemma find_board:
  assumes "b \<in> ba_bid ` set gBoardAttrTbl"
  shows "FIND_PORTATTR_GBATBL_BY_BID b v = FIND_PORTATTR_GBATBL_BY_BID b None"
    "FIND_MAXPORT_GBATBL_BY_BID b m = FIND_MAXPORT_GBATBL_BY_BID b 0"
  unfolding FIND_PORTATTR_GBATBL_BY_BID_def FIND_MAXPORT_GBATBL_BY_BID_def
  by (rule find_known[OF assms])+

lemma bis_ports_find:
  "bis_ports attr t sta ports b = (case find (\<lambda>p. attr ! nat p = t) (rev ports) of None \<Rightarrow> b
     | Some p \<Rightarrow> b\<lparr>bis_enable := 1, bis_prio := prio sta ! nat p, bis_ssm := ssm sta ! nat p\<rparr>)"
proof (induction ports arbitrary: b)
  case (Cons p ports)
  have f: "find P (xs @ [x]) = (case find P xs of None \<Rightarrow> if P x then Some x else None | Some y \<Rightarrow> Some y)"
    for P :: "int \<Rightarrow> bool" and xs x by (induction xs) auto
  show ?case by (simp add: Cons f split: option.splits)
qed simp

definition bis_row :: "inCtx \<Rightarrow> int \<Rightarrow> bisinfo" where
  "bis_row ctx i = \<lparr>bis_enable = (if port_for ctx (src_slot_of i) (src_type_of i) = None then 0 else 1),
     bis_ssm = src_ssm ctx i, bis_prio = src_prio ctx i, bis_flag = FIND_FLAG_BY_ID i INVALID_SOURCE_FLAG\<rparr>"

lemma bis_scan_rows:
  assumes ok: "ctx_ok ctx"
  shows "(\<forall>i \<in> set is. 0 \<le> i \<and> i < 40) \<Longrightarrow> bis_scan ctx is pa mp = map (bis_row ctx) is"
proof (induction "is" arbitrary: pa mp)
  case (Cons i "is")
  have i: "0 \<le> i" "i < 40" using Cons.prems by auto
  let ?s = "src_slot_of i" and ?t = "src_type_of i"
  let ?sta = "slot_sta ctx ?s"
  let ?b = "\<lparr>bis_enable = 0, bis_ssm = 0, bis_prio = 0, bis_flag = FIND_FLAG_BY_ID i INVALID_SOURCE_FLAG\<rparr>"
  note r = src_slot_range[OF i]
  note bd = find_board[OF slot_known(1)[OF ok r[THEN conjunct1] r[THEN conjunct2]]]
  have IH: "bis_scan ctx is pa' mp' = map (bis_row ctx) is" for pa' mp' using Cons by simp
  show ?case
  proof (cases "FIND_PORTATTR_GBATBL_BY_BID (boardId ?sta) None")
    case None
    then have "port_for ctx ?s ?t = None" by (simp add: port_for_def)
    then have "bis_row ctx i = ?b" by (simp add: bis_row_def src_ssm_def src_prio_def)
    then show ?thesis using r None bd(1)[of pa]
      by (simp add: find_source[OF i] Let_def INPUT_SLOT_CURSOR_ARRAY_SIZE_def IH)
  next
    case (Some attr)
    have "bis_row ctx i = bis_ports attr ?t ?sta [0..FIND_MAXPORT_GBATBL_BY_BID (boardId ?sta) 0 - 1] ?b"
      unfolding bis_ports_find
      by (simp add: Some port_for_def Let_def bis_row_def src_ssm_def src_prio_def split: option.splits)
    then show ?thesis using r Some bd(1)[of pa] bd(2)[of mp]
      by (simp add: find_source[OF i] Let_def INPUT_SLOT_CURSOR_ARRAY_SIZE_def IH)
  qed
qed simp

section \<open>Alarms of the sources\<close>

lemma indexedI:
  "(i, t) \<in> set ids \<Longrightarrow> (t, s, p) \<in> set subs \<Longrightarrow> 1 \<le> slot \<Longrightarrow> slot \<le> s \<Longrightarrow> 1 \<le> port \<Longrightarrow> port \<le> p \<Longrightarrow>
   indexed subs ids i slot port"
  unfolding indexed_def by blast

lemma in_alarm_indexed:
  assumes "(i, SMP_SID_SUB_IN) \<in> set gAlmIdTbl" "1 \<le> slot" "slot \<le> 4" "1 \<le> port" "port \<le> 5"
  shows "0 \<le> FIND_ALMINX_BY_SLOT_PORT_ID i slot port (- 1)"
proof -
  have "indexed alarm_subs gAlmIdTbl i slot port"
    by (rule indexedI[OF assms(1) _ assms(2,3,4,5)]) (simp add: alarm_subs_eq SMP_SID_SUB_IN_def)
  then show ?thesis using alarms.find_nonneg[unfolded alarm_member] by (simp add: FIND_ALMINX_BY_SLOT_PORT_ID_def)
qed

lemma sat_alarm_indexed:
  assumes "(i, SMP_SID_SUB_SAT) \<in> set gAlmIdTbl" "1 \<le> slot" "slot \<le> 4"
  shows "0 \<le> FIND_ALMINX_BY_SLOT_PORT_ID i slot 1 (- 1)"
proof -
  have "indexed alarm_subs gAlmIdTbl i slot 1"
    by (rule indexedI[OF assms(1) _ assms(2,3), of 1]) (simp_all add: alarm_subs_eq SMP_SID_SUB_SAT_def)
  then show ?thesis using alarms.find_nonneg[unfolded alarm_member] by (simp add: FIND_ALMINX_BY_SLOT_PORT_ID_def)
qed

lemma alm_chain_on:
  assumes "\<forall>i \<in> set is. 0 \<le> FIND_ALMINX_BY_SLOT_PORT_ID i slot port (- 1)"
    "is \<noteq> [] \<or> 0 \<le> inx \<and> \<not> alarm_on ctx inx"
  shows "\<exists>k. alm_chain ctx slot port is inx = Some k \<and> 0 \<le> k
    \<and> (alarm_on ctx k \<longleftrightarrow> (\<exists>i \<in> set is. alarm_on ctx (FIND_ALMINX_BY_SLOT_PORT_ID i slot port (- 1))))"
  using assms
proof (induction "is" arbitrary: inx)
  case (Cons i "is")
  let ?k = "FIND_ALMINX_BY_SLOT_PORT_ID i slot port (- 1)"
  have k: "0 \<le> ?k" "?k \<noteq> - 1" using Cons.prems(1) by (force, smt (verit) list.set_intros(1))
  show ?case
  proof (cases "alarm_on ctx ?k")
    case True
    then show ?thesis using k by (simp add: Let_def)
  next
    case False
    then show ?thesis using Cons.IH[of ?k] Cons.prems(1) k by (auto simp: Let_def)
  qed
qed simp

lemmas source_types = GPS_SOURCE_TYPE_def S2MH_SOURCE_TYPE_def S2MB_SOURCE_TYPE_def IRIGB1_SOURCE_TYPE_def
  IRIGB2_SOURCE_TYPE_def TOD_SOURCE_TYPE_def S1PPS_SOURCE_TYPE_def S10MH1_SOURCE_TYPE_def
  S10MH2_SOURCE_TYPE_def NTP_SOURCE_TYPE_def

lemmas board_ports = SAT_PORT_SAT_def SAT_PORT_2MH_def SAT_PORT_2MB_def SAT_PORT_IRIGB1_def SAT_PORT_IRIGB2_def
  RTF_PORT_1PPS_TOD_def RTF_PORT_1PPS_def RTF_PORT_10MH1_def RTF_PORT_10MH2_def

lemma chain_value:
  assumes "\<forall>a \<in> set as. 0 \<le> FIND_ALMINX_BY_SLOT_PORT_ID (SNMP_ALM_ID a) slot port (- 1)" "as \<noteq> []"
  shows "\<exists>k. alm_chain ctx slot port (map SNMP_ALM_ID as) (- 1) = Some k \<and> 0 \<le> k
    \<and> alarm_on ctx k = list_ex (\<lambda>a. alarm_at ctx a slot port) as"
  using alm_chain_on[of "map SNMP_ALM_ID as" slot port "- 1" ctx] assms
  by (simp add: list_ex_iff alarm_at_def)


lemma alarm_names_in:
  "list_all (\<lambda>a. (SNMP_ALM_ID a, SMP_SID_SUB_IN) \<in> set gAlmIdTbl)
     [A_2MHZ_IN_LOS, A_2MB_IN_LOS, A_2MB_AIS, A_2MB_BPV, A_2MB_CRC, A_2MB_LOF, A_IRIGB_IN_LOS, A_PTP_IN_LOS,
      A_1PPS_TOD_IN_LOS, A_1PPS_IN_LOS, A_10MHZ_IN_LOS, A_NTP_IN_LOS]"
  "list_all (\<lambda>a. (SNMP_ALM_ID a, SMP_SID_SUB_SAT) \<in> set gAlmIdTbl) [A_GPBD_SGN_LOS, A_GPBD_SGN_DGD, A_ANT_SHORT]"
  by (simp_all add: gAlmIdTbl_def)

lemma alarms_indexed:
  assumes "alarms_of bid t = Some (as, port)" "1 \<le> slot" "slot \<le> 4"
  shows "\<forall>a \<in> set as. 0 \<le> FIND_ALMINX_BY_SLOT_PORT_ID (SNMP_ALM_ID a) slot port (- 1)"
proof (cases "t = 1")
  case True
  then have "as = [A_GPBD_SGN_LOS, A_GPBD_SGN_DGD, A_ANT_SHORT]" "port = 1" using assms(1) by (simp_all add: alarms_of_def)
  then show ?thesis using alarm_names_in(2) sat_alarm_indexed[OF _ assms(2,3)] by simp
next
  case False
  then have "set as \<subseteq> set [A_2MHZ_IN_LOS, A_2MB_IN_LOS, A_2MB_AIS, A_2MB_BPV, A_2MB_CRC, A_2MB_LOF, A_IRIGB_IN_LOS,
      A_PTP_IN_LOS, A_1PPS_TOD_IN_LOS, A_1PPS_IN_LOS, A_10MHZ_IN_LOS, A_NTP_IN_LOS] \<and> 1 \<le> port \<and> port \<le> 5"
    using assms(1) by (auto simp: alarms_of_def split: if_splits)
  then show ?thesis using alarm_names_in(1) in_alarm_indexed[OF _ assms(2,3)] unfolding list_all_iff by blast
qed

text \<open>The code of the alarms of a source, by the alarms of its type.\<close>

lemma bis_alm_inx_eq:
  assumes t: "1 \<le> t" "t \<le> 10" and al: "alarms_of (boardId (slot_sta ctx slot)) t = Some (as, port)" and t6: "t \<noteq> 6"
  shows "bis_alm_inx ctx slot t = alm_chain ctx slot port (map SNMP_ALM_ID as) (- 1)"
proof -
  have "t = 1 \<or> t = 2 \<or> t = 3 \<or> t = 4 \<or> t = 5 \<or> t = 7 \<or> t = 8 \<or> t = 9 \<or> t = 10" using t t6 by arith
  then show ?thesis using al unfolding bis_alm_inx_def alarms_of_def
    by (elim disjE) (auto simp: source_types board_ports simp del: alm_chain.simps SNMP_ALM_ID.simps)
qed

lemma bis_alm_value:
  assumes t: "1 \<le> t" "t \<le> 10" and slot: "1 \<le> slot" "slot \<le> 4"
  shows "bis_alm ctx slot t = Some (if alarmed ctx slot t then ALM_ON else ALM_OFF)"
proof (cases "alarms_of (boardId (slot_sta ctx slot)) t")
  case None
  then have "t = 6" "boardId (slot_sta ctx slot) \<noteq> BID_PTP_IN" "boardId (slot_sta ctx slot) \<noteq> BID_RTF"
    by (auto simp: alarms_of_def split: if_splits)
  then show ?thesis using None by (simp add: bis_alm_def bis_alm_inx_def source_types alarmed_def)
next
  case (Some v)
  obtain as port where v: "v = (as, port)" by (cases v)
  note ix = alarms_indexed[OF Some[unfolded v] slot]
  have al: "alarmed ctx slot t = list_ex (\<lambda>a. alarm_at ctx a slot port) as" by (simp add: alarmed_def Some v)
  have ne: "as \<noteq> []" using Some v by (auto simp: alarms_of_def split: if_splits)
  show ?thesis
  proof (cases "t = 6")
    case False
    then have "bis_alm_inx ctx slot t = alm_chain ctx slot port (map SNMP_ALM_ID as) (- 1)"
      using bis_alm_inx_eq[OF t Some[unfolded v]] by simp
    then show ?thesis using chain_value[OF ix ne, of ctx] al by (auto simp: bis_alm_def)
  next
    case True
    obtain a where a: "as = [a]" "port = 1"
      "bis_alm_inx ctx slot t = Some (FIND_ALMINX_BY_SLOT_PORT_ID (SNMP_ALM_ID a) slot 1 (- 1))"
      using Some v True
      by (auto simp: alarms_of_def bis_alm_inx_def source_types board_ports simp del: SNMP_ALM_ID.simps split: if_splits)
    then show ?thesis using ix al by (simp add: bis_alm_def alarm_at_def)
  qed
qed

lemma bis_alm_loop_value:
  assumes "\<forall>(slot, i) \<in> set is. FIND_SLOT_BY_ID i 0 = slot \<longrightarrow>
      bis_alm ctx slot (FIND_TYPE_BY_ID i NO_SOURCE_TYPE) = Some (f i)"
  shows "bis_alm_loop ctx is alm =
    Some (\<lambda>i. if (FIND_SLOT_BY_ID i 0, i) \<in> set is then f i else alm i)"
  using assms
proof (induction "is" arbitrary: alm)
  case (Cons si "is")
  obtain slot i where si: "si = (slot, i)" by fastforce
  have IH: "bis_alm_loop ctx is alm' = Some (\<lambda>i. if (FIND_SLOT_BY_ID i 0, i) \<in> set is then f i else alm' i)" for alm'
    using Cons by simp
  show ?case
  proof (cases "FIND_SLOT_BY_ID i 0 = slot")
    case True
    then have "bis_alm ctx slot (FIND_TYPE_BY_ID i NO_SOURCE_TYPE) = Some (f i)" using Cons.prems si by simp
    then show ?thesis using True IH by (auto simp: si)
  next
    case False
    then show ?thesis using IH by (auto simp: si)
  qed
qed simp

section \<open>The minimum\<close>

text \<open>The first index of the smallest entry.\<close>

definition first_min :: "int list \<Rightarrow> int \<Rightarrow> int \<Rightarrow> bool" where
  "first_min as m l \<longleftrightarrow> 0 \<le> l \<and> l < int (length as) \<and> as ! nat l = m
     \<and> (\<forall>j < length as. m \<le> as ! j \<and> (int j < l \<longrightarrow> m < as ! j))"

lemma bis_min_step:
  assumes "first_min pre m l"
  shows "case bis_min (int (length pre)) as m l of (m', l') \<Rightarrow> first_min (pre @ as) m' l'"
  using assms
proof (induction as arbitrary: pre m l)
  case (Cons a as)
  have len: "int (length (pre @ [a])) = int (length pre) + 1" by simp
  show ?case
  proof (cases "a < m")
    case True
    have "first_min (pre @ [a]) a (int (length pre))"
      using True Cons.prems by (force simp: first_min_def nth_append)
    from Cons.IH[OF this] show ?thesis using True by (simp add: add.commute)
  next
    case False
    have "first_min (pre @ [a]) m l" using False Cons.prems by (auto simp: first_min_def nth_append)
    from Cons.IH[OF this] show ?thesis using False by (simp add: add.commute)
  qed
qed simp

lemma bis_min_first:
  assumes "as \<noteq> []" "bis_min 1 (tl as) (hd as) 0 = (m, l)"
  shows "first_min as m l"
proof -
  have "first_min [hd as] (hd as) 0" by (simp add: first_min_def)
  from bis_min_step[OF this, of "tl as"] show ?thesis using assms by simp
qed

section \<open>The choice\<close>

lemma bis_alg_eq:
  "bis_alg clk b alm = (if bis_enable b = 1 \<and> alm = ALM_OFF \<and> 48 \<le> bis_prio b \<and>
      (bis_flag b = FREQ_SOURCE_FLAG \<longrightarrow>
        clk = 1 \<and> bis_ssm b \<notin> {SSM_VAL_08, SSM_VAL_0B, SSM_VAL_0F} \<or> clk = 2 \<and> bis_ssm b \<noteq> SSM_VAL_0F)
    then bis_prio b - 47 else 500)"
  by (auto simp: bis_alg_def Let_def)

lemma bis_alg_value:
  assumes ok: "ctx_ok ctx" and i: "0 \<le> i" "i < 40"
  shows "bis_alg (clock_type ctx) (bis_row ctx i) (if alarmed ctx (src_slot_of i) (src_type_of i) then ALM_ON else ALM_OFF)
    = (if eligible ctx i then src_prio ctx i - 47 else 500)"
proof -
  have on: "ALM_ON \<noteq> ALM_OFF" by (simp add: ALM_ON_def ALM_OFF_def)
  show ?thesis
    unfolding bis_alg_eq bis_row_def eligible_def quality_ok_def bisinfo.simps find_source(4)[OF i]
    by (cases "alarmed ctx (src_slot_of i) (src_type_of i)";
        cases "port_for ctx (src_slot_of i) (src_type_of i) = None") (simp_all only: on if_True if_False simp_thms zero_neq_one)
qed

lemma boards_distinct: "distinct (map ba_bid gBoardAttrTbl)"
  by code_simp

lemma boards_ports: "list_all (\<lambda>b. ba_port_attr b = None \<or> ba_max_port b \<le> 5) gBoardAttrTbl"
  by code_simp

lemma find_in: "find P xs = Some x \<Longrightarrow> x \<in> set xs"
  by (induction xs) (auto split: if_splits)

lemma port_for_range:
  assumes ok: "ctx_ok ctx" and s: "1 \<le> slot" "slot \<le> 4" and p: "port_for ctx slot t = Some p"
  shows "0 \<le> p \<and> p < 5"
proof -
  obtain b where b: "b \<in> set gBoardAttrTbl" "boardId (slot_sta ctx slot) = ba_bid b"
    using slot_known(1)[OF ok s] by auto
  have m: "FIND_MAXPORT_GBATBL_BY_BID (ba_bid b) 0 = ba_max_port b"
    "FIND_PORTATTR_GBATBL_BY_BID (ba_bid b) None = ba_port_attr b"
    unfolding FIND_MAXPORT_GBATBL_BY_BID_def FIND_PORTATTR_GBATBL_BY_BID_def
    by (rule find_member_row[OF boards_distinct b(1)])+
  then obtain attr where "ba_port_attr b = Some attr" "find (\<lambda>p. attr ! nat p = t) (rev [0..ba_max_port b - 1]) = Some p"
    using p by (auto simp: port_for_def Let_def b(2) split: option.splits)
  then have "p \<in> set [0..ba_max_port b - 1]" "ba_max_port b \<le> 5"
    using boards_ports b(1) find_in by (fastforce simp: list_all_iff)+
  then show ?thesis by auto
qed

lemma src_prio_range:
  assumes ok: "ctx_ok ctx" and i: "0 \<le> i" "i < 40" and e: "eligible ctx i"
  shows "48 \<le> src_prio ctx i \<and> src_prio ctx i < 256"
proof -
  note r = src_slot_range[OF i, THEN conjunct1] src_slot_range[OF i, THEN conjunct2]
  obtain p where p: "port_for ctx (src_slot_of i) (src_type_of i) = Some p" using e by (auto simp: eligible_def)
  have "prio (slot_sta ctx (src_slot_of i)) ! nat p \<in> set (prio (slot_sta ctx (src_slot_of i)))"
    by (rule nth_mem) (use port_for_range[OF ok r p] slot_known(3)[OF ok r] in linarith)
  then show ?thesis using slot_known(2)[OF ok r] e p by (auto simp: src_prio_def eligible_def list_all_iff)
qed

text \<open>What \<open>bis_free\<close> computes, from the rows.\<close>

lemma bis_free_algs:
  assumes ok: "ctx_ok ctx"
  shows "\<exists>m l. first_min (map (\<lambda>i. if eligible ctx i then src_prio ctx i - 47 else 500) [0..39]) m l
    \<and> bis_free ctx = (if m = 500 then 40 else l)"
proof -
  let ?on = "\<lambda>i. if alarmed ctx (src_slot_of i) (src_type_of i) then ALM_ON else ALM_OFF"
  let ?loop = "concat (map (\<lambda>slot. map (\<lambda>i. (slot, i)) [0..39]) [1..4]) :: (int \<times> int) list"
  let ?algs = "map (\<lambda>i. if eligible ctx i then src_prio ctx i - 47 else 500) [0..39]"
  have "\<forall>(slot, i) \<in> set ?loop. FIND_SLOT_BY_ID i 0 = slot \<longrightarrow>
      bis_alm ctx slot (FIND_TYPE_BY_ID i NO_SOURCE_TYPE) = Some (?on i)"
  proof (intro ballI, clarify)
    fix i assume "(FIND_SLOT_BY_ID i 0, i) \<in> set ?loop"
    then have i: "0 \<le> i" "i < 40" by auto
    show "bis_alm ctx (FIND_SLOT_BY_ID i 0) (FIND_TYPE_BY_ID i NO_SOURCE_TYPE) = Some (?on i)"
      unfolding find_source(1,3)[OF i]
      using src_slot_range[OF i] src_type_range[of i] by (intro bis_alm_value) auto
  qed
  from bis_alm_loop_value[OF this, of "\<lambda>_. 0"]
  obtain alm where loop: "bis_alm_loop ctx ?loop (\<lambda>_. 0) = Some alm"
    and alm: "\<And>i. alm i = (if (FIND_SLOT_BY_ID i 0, i) \<in> set ?loop then ?on i else 0)" by simp
  have alm_i: "alm i = ?on i" if "0 \<le> i" "i < 40" for i
  proof -
    have "(src_slot_of i, i) \<in> Pair (src_slot_of i) ` {0..39}" "src_slot_of i \<in> {1..4}"
      using that src_slot_range[OF that] by auto
    then have "(src_slot_of i, i) \<in> set ?loop" by (simp; blast)
    then show ?thesis using alm[of i] by (simp only: find_source(1)[OF that] if_True)
  qed
  have scan: "bis_scan ctx [0..39] None 0 = map (bis_row ctx) [0..39]"
    by (rule bis_scan_rows[OF ok]) auto
  have algs: "map (\<lambda>i. bis_alg (clock_type ctx) (bis_scan ctx [0..39] None 0 ! nat i) (alm i)) [0..39] = ?algs"
  proof (rule map_cong[OF refl])
    fix i :: int assume "i \<in> set [0..39]"
    then have i: "0 \<le> i" "i < 40" by auto
    have "bis_scan ctx [0..39] None 0 ! nat i = bis_row ctx i" using i by (simp add: scan nth_upto)
    then show "bis_alg (clock_type ctx) (bis_scan ctx [0..39] None 0 ! nat i) (alm i) =
        (if eligible ctx i then src_prio ctx i - 47 else 500)"
      using bis_alg_value[OF ok i] alm_i[OF i] by simp
  qed
  obtain m l where ml: "bis_min 1 (tl ?algs) (hd ?algs) 0 = (m, l)" by fastforce
  have "length ?algs \<noteq> 0" by simp
  then have "?algs \<noteq> []" by (metis length_0_conv)
  then have "first_min ?algs m l" using ml by (rule bis_min_first)
  moreover have c: "(40 :: int) - 1 = 39" "TIME_SOURCE_MAX_NOSOURCE = 40" "INPUT_SLOT_CURSOR_ARRAY_SIZE = 4"
    by (simp_all add: TIME_SOURCE_MAX_NOSOURCE_def PER_SLOT_SRCTYPE_NUM_def INPUT_MAX_SLOT_def INPUT_SLOT_CURSOR_ARRAY_SIZE_def)
  have "bis_free ctx = (if m = 500 then 40 else l)"
    unfolding bis_free_def Let_def c loop option.case algs ml prod.case ..
  ultimately show ?thesis by blast
qed

text \<open>
  The choice, as the property below states it.
\<close>

lemma bis_free_choice:
  assumes ok: "ctx_ok ctx"
  shows "bis_free ctx = 40 \<and> (\<forall>i \<in> {0..39}. \<not> eligible ctx i) \<or>
   bis_free ctx \<in> {0..39} \<and> eligible ctx (bis_free ctx) \<and>
    (\<forall>i \<in> {0..39}. eligible ctx i \<longrightarrow>
       src_prio ctx (bis_free ctx) < src_prio ctx i
       \<or> src_prio ctx (bis_free ctx) = src_prio ctx i \<and> bis_free ctx \<le> i)"
proof -
  define f where "f = (\<lambda>i. if eligible ctx i then src_prio ctx i - 47 else 500)"
  obtain m l where fm: "first_min (map f [0..39]) m l" and b: "bis_free ctx = (if m = 500 then 40 else l)"
    using bis_free_algs[OF ok] unfolding f_def by blast
  have l: "0 \<le> l" "l < 40" "f l = m" using fm by (auto simp: first_min_def nth_upto)
  have min: "m \<le> f i \<and> (i < l \<longrightarrow> m < f i)" if "0 \<le> i" "i < 40" for i
  proof -
    have "nat i < length (map f [0..39])" using that by simp
    then have "m \<le> map f [0..39] ! nat i \<and> (int (nat i) < l \<longrightarrow> m < map f [0..39] ! nat i)"
      using fm unfolding first_min_def by blast
    then show ?thesis using that by (simp add: nth_upto)
  qed
  have small: "f i < 500 \<longleftrightarrow> eligible ctx i" if "0 \<le> i" "i < 40" for i
    using src_prio_range[OF ok that] by (auto simp: f_def)
  have le: "f i \<le> 500" if "0 \<le> i" "i < 40" for i using small[OF that] by (auto simp: f_def)
  show ?thesis
  proof (cases "m = 500")
    case True
    have "\<not> eligible ctx i" if "i \<in> {0..39}" for i using min[of i] small[of i] True that by auto
    then show ?thesis using b True by simp
  next
    case False
    then have e: "eligible ctx l" using small[OF l(1,2)] le[OF l(1,2)] l(3) by auto
    have "src_prio ctx l < src_prio ctx i \<or> src_prio ctx l = src_prio ctx i \<and> l \<le> i"
      if "i \<in> {0..39}" "eligible ctx i" for i
      using min[of i] that e l(3) by (auto simp: f_def)
    then show ?thesis using b False e l by auto
  qed
qed

section \<open>The property of the choice\<close>

text \<open>
  C1: \<open>bis_free\<close> chooses the best source. When the boards are known ones, it returns
  \<open>TIME_SOURCE_MAX_NOSOURCE\<close> exactly when no source is eligible (no port for it, an alarm of its
  type, no priority, or a quality that is too low for the clock), and else an eligible source with
  the smallest priority, the first of those.
\<close>

theorem bis_free_best:
  "ctx_ok ctx \<Longrightarrow>
   (bis_free ctx = 40 \<and> (\<forall>i \<in> {0..39}. \<not> eligible ctx i)) \<or>
   (bis_free ctx \<in> {0..39} \<and> eligible ctx (bis_free ctx) \<and>
    (\<forall>i \<in> {0..39}. eligible ctx i \<longrightarrow>
       src_prio ctx (bis_free ctx) < src_prio ctx i
       \<or> src_prio ctx (bis_free ctx) = src_prio ctx i \<and> bis_free ctx \<le> i))"
  by (rule bis_free_choice)


text \<open>A satellite board in the first slot, with the priorities 2, 1, 4, 3 and 5, and no alarm.\<close>

definition demo_sta :: "int \<Rightarrow> inputsta" where
  "demo_sta bid = \<lparr>boardId = bid, sys_mode = 1, antenna_state = 50, sta_flag = 65535, trackngb = 5, pst_status = 3,
     ph = [], prio = [50, 49, 52, 51, 53, 0], ssm = [1, 2, 8, 1, 1]\<rparr>"

definition demo_ctx :: inCtx where
  "demo_ctx = \<lparr>clock_type = 1, cs = \<lparr>schema = 0, src_inx = 40, sc_flag = 0, sc_type = 0, sc_slot = 0, sc_port = 0, sc_bid = 0\<rparr>,
     alarm = replicate 651 0, inSta = [demo_sta BID_GBDBE, demo_sta BID_NONE, demo_sta BID_RTF, demo_sta BID_NONE], reqs = []\<rparr>"

lemma demo_ctx_ok: "ctx_ok demo_ctx"
  by code_simp

lemma demo_eligible: "eligible demo_ctx 1" "src_prio demo_ctx 1 = 49"
  by code_simp+

lemma bis_free_best_witness: "bis_free demo_ctx \<in> {0..39} \<and> src_prio demo_ctx (bis_free demo_ctx) \<le> 49"
  using bis_free_best[OF demo_ctx_ok] demo_eligible by fastforce

section \<open>Following the choice\<close>

text \<open>The record of the source is the one of the table and of the board in its slot.\<close>

definition noted :: "inCtx \<Rightarrow> bool" where
  "noted ctx \<longleftrightarrow> (let c = cs ctx; r = gTimeSourceTbl ! nat (src_inx c) in
     sc_type c = ts_type r \<and> sc_flag c = ts_flag r \<and> sc_slot c = ts_slot r \<and>
     sc_bid c = (if src_inx c = 40 then BID_NONE else boardId (slot_sta ctx (ts_slot r))) \<and>
     sc_port c = (if src_inx c = 40 then 0
       else case port_for ctx (ts_slot r) (ts_type r) of None \<Rightarrow> 0 | Some p \<Rightarrow> p + 1))"

lemma last_port_find:
  "last_port attr t ps v = (case find (\<lambda>p. attr ! nat p = t) (rev ps) of None \<Rightarrow> v | Some p \<Rightarrow> p + 1)"
proof (induction ps arbitrary: v)
  case (Cons p ps)
  have f: "find P (xs @ [x]) = (case find P xs of None \<Rightarrow> if P x then Some x else None | Some y \<Rightarrow> Some y)"
    for P :: "int \<Rightarrow> bool" and xs x by (induction xs) auto
  show ?case by (simp add: Cons f split: option.splits)
qed simp

lemma source_mem: "0 \<le> i \<Longrightarrow> i \<le> 40 \<Longrightarrow> gTimeSourceTbl ! nat i \<in> set gTimeSourceTbl"
  by (rule nth_mem) (simp add: gTimeSourceTbl_def)

lemma source_lookups:
  assumes "0 \<le> i" "i \<le> 40"
  shows "FIND_TYPE_BY_ID i w = ts_type (gTimeSourceTbl ! nat i)" "FIND_FLAG_BY_ID i w = ts_flag (gTimeSourceTbl ! nat i)"
    "FIND_SLOT_BY_ID i w = ts_slot (gTimeSourceTbl ! nat i)"
proof -
  have m: "gTimeSourceTbl ! nat i \<in> set gTimeSourceTbl" using source_mem assms .
  have "map ts_id gTimeSourceTbl ! nat i = i" using assms by (simp add: source_ids nth_upto)
  moreover have "length gTimeSourceTbl = 41" by (simp add: gTimeSourceTbl_def)
  ultimately have "ts_id (gTimeSourceTbl ! nat i) = i" using assms by simp
  then show "FIND_TYPE_BY_ID i w = ts_type (gTimeSourceTbl ! nat i)" "FIND_FLAG_BY_ID i w = ts_flag (gTimeSourceTbl ! nat i)"
    "FIND_SLOT_BY_ID i w = ts_slot (gTimeSourceTbl ! nat i)"
    using find_member_row[OF source_ids_distinct m]
    by (simp_all add: FIND_TYPE_BY_ID_def FIND_FLAG_BY_ID_def FIND_SLOT_BY_ID_def)
qed

lemma source_slot: "0 \<le> i \<Longrightarrow> i < 40 \<Longrightarrow> ts_slot (gTimeSourceTbl ! nat i) = src_slot_of i \<and> ts_type (gTimeSourceTbl ! nat i) = src_type_of i"
  using source_lookups(3)[of i 0] find_source[of i] source_lookups(1)[of i NO_SOURCE_TYPE] by simp

lemma nosource_row: "ts_slot (gTimeSourceTbl ! 40) = 0"
  by code_simp

lemma note_source_noted:
  assumes ok: "ctx_ok ctx" and i: "0 \<le> src_inx (cs ctx)" "src_inx (cs ctx) \<le> 40" and n: "note_source ctx = (True, ctx')"
  shows "noted ctx' \<and> src_inx (cs ctx') = src_inx (cs ctx) \<and> schema (cs ctx') = schema (cs ctx) \<and> reqs ctx' = reqs ctx"
proof (cases "src_inx (cs ctx) = 40")
  case True
  then have "FIND_SLOT_BY_ID (src_inx (cs ctx)) 1 = 0" using source_lookups(3)[of 40 1] nosource_row by simp
  then show ?thesis using n True source_lookups[of 40] nosource_row
    by (auto simp: note_source_def Let_def noted_def)
next
  case False
  then have i': "0 \<le> src_inx (cs ctx)" "src_inx (cs ctx) < 40" using i by auto
  let ?s = "src_slot_of (src_inx (cs ctx))"
  have s: "FIND_SLOT_BY_ID (src_inx (cs ctx)) 1 = ?s" "ts_slot (gTimeSourceTbl ! nat (src_inx (cs ctx))) = ?s"
    using find_source(2)[OF i'] source_slot[OF i'] by auto
  have "0 < ?s \<and> ?s \<le> INPUT_SLOT_CURSOR_ARRAY_SIZE" using src_slot_range[OF i'] by (simp add: INPUT_SLOT_CURSOR_ARRAY_SIZE_def)
  moreover obtain attr where attr: "FIND_PORTATTR_GBATBL_BY_BID (boardId (slot_sta ctx ?s)) None = Some attr"
    using n s calculation by (auto simp: note_source_def Let_def split: option.splits)
  ultimately have c: "ctx' = ctx\<lparr>cs := (cs ctx)\<lparr>sc_slot := ?s, sc_bid := boardId (slot_sta ctx ?s),
      sc_type := ts_type (gTimeSourceTbl ! nat (src_inx (cs ctx))), sc_flag := ts_flag (gTimeSourceTbl ! nat (src_inx (cs ctx))),
      sc_port := last_port attr (ts_type (gTimeSourceTbl ! nat (src_inx (cs ctx))))
        [0..FIND_MAXPORT_GBATBL_BY_BID (boardId (slot_sta ctx ?s)) 0 - 1] 0\<rparr>\<rparr>"
    using n s source_lookups[of "src_inx (cs ctx)"] i' by (auto simp: note_source_def Let_def)
  show ?thesis using False s(2) attr unfolding c noted_def last_port_find
    by (auto simp: Let_def port_for_def slot_sta_def split: option.splits)
qed

lemma noted_reqs: "noted (ctx\<lparr>reqs := rs\<rparr>) = noted ctx"
  by (simp add: noted_def port_for_def slot_sta_def Let_def)

lemma note_source_succeeds:
  assumes "src_inx (cs ctx) = 40 \<or> 0 \<le> src_inx (cs ctx) \<and> src_inx (cs ctx) < 40
    \<and> port_for ctx (src_slot_of (src_inx (cs ctx))) (src_type_of (src_inx (cs ctx))) \<noteq> None"
  shows "\<exists>ctx'. note_source ctx = (True, ctx')"
  using assms
proof
  assume "src_inx (cs ctx) = 40"
  then have "FIND_SLOT_BY_ID (src_inx (cs ctx)) 1 = 0" using source_lookups(3)[of 40 1] nosource_row by simp
  then show ?thesis by (simp add: note_source_def Let_def)
next
  let ?i = "src_inx (cs ctx)"
  assume i: "0 \<le> ?i \<and> ?i < 40 \<and> port_for ctx (src_slot_of ?i) (src_type_of ?i) \<noteq> None"
  then obtain attr where "FIND_PORTATTR_GBATBL_BY_BID (boardId (slot_sta ctx (src_slot_of ?i))) None = Some attr"
    by (auto simp: port_for_def Let_def split: option.splits)
  then show ?thesis using i by (simp add: note_source_def Let_def find_source)
qed

lemma source_val_small: "0 \<le> i \<Longrightarrow> i \<le> 40 \<Longrightarrow> u16 (ts_g_val (gTimeSourceTbl ! nat i)) = ts_g_val (gTimeSourceTbl ! nat i)"
proof -
  have "list_all (\<lambda>r. 0 \<le> ts_g_val r \<and> ts_g_val r < 65536) gTimeSourceTbl" by code_simp
  then show "0 \<le> i \<Longrightarrow> i \<le> 40 \<Longrightarrow> ?thesis" using source_mem[of i] by (auto simp: list_all_iff)
qed

lemma bis_force_ok:
  assumes "driver_ok drv" "0 \<le> i" "i \<le> 40"
  shows "bis_force drv i ctx = (0, ctx\<lparr>reqs := reqs ctx @
    [(FPGA_WRITE, FPGA_SYS_INSRC_SELECT * 65536 + ts_g_val (gTimeSourceTbl ! nat i))]\<rparr>)"
proof -
  have a: "0 \<le> FPGA_SYS_INSRC_SELECT" "FPGA_SYS_INSRC_SELECT < 65536"
    using FPGA_SYS2_COMMON_sum[of "0x27"] by (simp_all add: FPGA_SYS_INSRC_SELECT_def)
  have "TIME_SOURCE_MAX_NOSOURCE = 40"
    by (simp add: TIME_SOURCE_MAX_NOSOURCE_def PER_SLOT_SRCTYPE_NUM_def INPUT_MAX_SLOT_def)
  then show ?thesis using assms(2,3)
    by (simp add: bis_force_def ctx_write_def FpgaWrite_ok[OF assms(1) a] source_val_small)
qed

text \<open>
  C2: With known boards and a working driver, \<open>best_input_source\<close> succeeds. In the free mode the
  source that it notes is the one that \<open>bis_free\<close> chose, with the type, kind, slot, board and port
  that the tables give; when the source changed, its value was written to the selection register of
  the FPGA, the only write. In another mode, or without a change, nothing happens.
\<close>

theorem best_input_source_consistent:
  "ctx_ok ctx \<Longrightarrow> driver_ok drv \<Longrightarrow>
   \<exists>ctx'. best_input_source drv ctx = (0, ctx') \<and>
   (if schema (cs ctx) \<noteq> 0 \<or> src_inx (cs ctx) = bis_free ctx then ctx' = ctx
    else src_inx (cs ctx') = bis_free ctx \<and> noted ctx' \<and>
      reqs ctx' = reqs ctx @ [(FPGA_WRITE, FPGA_SYS_INSRC_SELECT * 65536
        + ts_g_val (gTimeSourceTbl ! nat (bis_free ctx)))])"
proof -
  assume ok: "ctx_ok ctx" and drv: "driver_ok drv"
  have r: "0 \<le> bis_free ctx \<and> bis_free ctx \<le> 40" using bis_free_algs[OF ok] by (auto simp: first_min_def)
  show ?thesis
  proof (cases "schema (cs ctx) \<noteq> 0 \<or> src_inx (cs ctx) = bis_free ctx")
    case True
    then show ?thesis by (auto simp: best_input_source_def Let_def)
  next
    case False
    let ?c = "ctx\<lparr>cs := (cs ctx)\<lparr>src_inx := bis_free ctx\<rparr>\<rparr>"
    have u: "u8 (bis_free ctx) = bis_free ctx" using r by simp
    have p: "port_for ?c s t = port_for ctx s t" for s t by (simp add: port_for_def slot_sta_def)
    have "bis_free ctx = 40 \<or> 0 \<le> bis_free ctx \<and> bis_free ctx < 40 \<and> eligible ctx (bis_free ctx)"
      using bis_free_choice[OF ok] by auto
    then obtain n where n: "note_source ?c = (True, n)"
      using note_source_succeeds[of ?c] p by (auto simp: eligible_def)
    have "ctx_ok ?c" using ok by (simp add: ctx_ok_def)
    then have nn: "noted n" "src_inx (cs n) = bis_free ctx" "reqs n = reqs ctx"
      using note_source_noted[OF _ _ _ n] r by auto
    have "best_input_source drv ctx = bis_force drv (bis_free ctx) n"
      using False n nn(2) by (simp add: best_input_source_def Let_def u)
    then show ?thesis using False nn bis_force_ok[OF drv, of "bis_free ctx" n] r by (simp add: noted_reqs)
  qed
qed

lemma best_input_source_witness:
  "src_inx (cs (snd (best_input_source demo_driver demo_ctx))) \<in> {0..39}"
proof -
  have "src_inx (cs demo_ctx) = 40" "schema (cs demo_ctx) = 0" by (simp_all add: demo_ctx_def)
  moreover have "bis_free demo_ctx \<in> {0..39}" using bis_free_choice[OF demo_ctx_ok] demo_eligible by fastforce
  ultimately show ?thesis
    using best_input_source_consistent[OF demo_ctx_ok demo_driver_ok] by (auto split: if_splits)
qed

section \<open>What the outputs are told\<close>

lemma ctx_write_ok:
  "driver_ok drv \<Longrightarrow> 0 \<le> addr \<Longrightarrow> addr < 65536 \<Longrightarrow>
   ctx_write drv addr value ctx = (True, ctx\<lparr>reqs := reqs ctx @ [(FPGA_WRITE, addr * 65536 + u16 value)]\<rparr>)"
  by (simp add: ctx_write_def FpgaWrite_ok)

lemma writes_ok:
  assumes drv: "driver_ok drv"
  shows "(\<forall>(a, v, e) \<in> set ws. 0 \<le> a \<and> a < 65536) \<Longrightarrow>
   writes drv ws ctx = (0, ctx\<lparr>reqs := reqs ctx @ map (\<lambda>(a, v, e). (FPGA_WRITE, a * 65536 + u16 v)) ws\<rparr>)"
proof (induction ws arbitrary: ctx)
  case (Cons w ws)
  obtain a v e where w: "w = (a, v, e)" by (cases w)
  then show ?case using Cons ctx_write_ok[OF drv, of a v ctx] by simp
qed simp

lemma sys_regs:
  "FPGA_SYS_INSRC_STRATUM = 53288" "FPGA_SYS_OUT_TOD_CLK_SRC_TYPE = 53316" "FPGA_SYS_OUT_TOD_CLK_SRC_STATE = 53317"
  "FPGA_SYS_OUT_TOD_CLK_SRC_ALARM = 53318" "FPGA_SYS_CUR_INSRC_SSM = 53328" "FPGA_SYS_LPS = 53298" "FPGA_SYS_FRESH_TIME = 53292"
  by code_simp+

lemma bits_small: "BIT 1 = 2" "BIT (Suc 0) = 2" "BIT 2 = 4" "BIT 3 = 8" "BIT 5 = 32"
  by (simp_all add: BIT_def push_bit_eq_mult)

text \<open>
  What the registers are to say, by their description in \<^verbatim>\<open>addr.h\<close>: the level of the source (0 to 2, or no level), its kind
  (0 Beidou, 1 GPS, 2 time of day, 3 another), its alarms (bit 1 antenna open, 2 shorted, 3 no satellite, 5 GPS alone, the later cause
  replacing the earlier) and the fix (0, 2 or 3 dimensions, or 15).
\<close>

definition told_level :: "schemainfo \<Rightarrow> int \<Rightarrow> int" where
  "told_level c quality =
     (if src_inx c \<in> {GPS_SOURCE_ID (sc_slot c), IRIGB1_SOURCE_ID (sc_slot c), IRIGB2_SOURCE_ID (sc_slot c), TOD_SOURCE_ID (sc_slot c)}
         \<or> sc_flag c \<noteq> 2 then 0
      else (case map_of [(2, 0), (4, 1), (8, 2), (11, 2)] quality of Some level \<Rightarrow> level | None \<Rightarrow> 255))"

definition told_kind :: "int \<Rightarrow> int \<Rightarrow> int" where
  "told_kind t mode =
     (if t = GPS_SOURCE_TYPE then
        (case map_of [(MODE_CURSOR_BD_VAL, 0), (MODE_CURSOR_MIX_BD_VAL, 0), (MODE_CURSOR_GPS_VAL, 1), (MODE_CURSOR_MIX_GPS_VAL, 1)] mode
           of Some k \<Rightarrow> k | None \<Rightarrow> 3)
      else if t = TOD_SOURCE_TYPE then 2 else 3)"

definition receiver_says :: "inputsta \<Rightarrow> bool" where
  "receiver_says sta \<longleftrightarrow> boardId sta \<in> {BID_GPSBF..BID_BFFI} \<and> sta_flag sta AND FLAG_SAT_COMMSTA_TRACKNGB \<noteq> 0
     \<and> sta_flag sta AND FLAG_SAT_COMMSTA_PST_STATUS \<noteq> 0"

definition told_alarms :: "int \<Rightarrow> inputsta \<Rightarrow> int" where
  "told_alarms t sta =
     (if t \<noteq> GPS_SOURCE_TYPE then 0
      else if \<not> receiver_says sta \<or> trackngb sta = 0 then 8
      else if sys_mode sta = MODE_CURSOR_GPS_VAL then 32
      else if antenna_state sta = SATELLITE_ANTENNA_LOOP then 4
      else if antenna_state sta = SATELLITE_ANTENNA_OPEN then 2 else 0)"

definition told_fix :: "int \<Rightarrow> inputsta \<Rightarrow> int" where
  "told_fix t sta =
     (if t \<noteq> GPS_SOURCE_TYPE then 15
      else if receiver_says sta then (if pst_status sta \<in> {0, 2, 3} then pst_status sta else 15) else 0)"

lemma told_model:
  "stratum_of c s = told_level c s" "clk_src_typ_of t mode = told_kind t mode"
  "clock_source_alarm_of t sta = told_alarms t sta" "clock_source_status_of t sta = told_fix t sta"
proof -
  show "stratum_of c s = told_level c s"
    by (auto simp: stratum_of_def told_level_def FREQ_SOURCE_FLAG_def SSM_VAL_02_def SSM_VAL_04_def SSM_VAL_08_def SSM_VAL_0B_def
        SSM_VAL_0F_def)
  show "clk_src_typ_of t mode = told_kind t mode"
    by (simp add: clk_src_typ_of_def told_kind_def MODE_CURSOR_GPS_VAL_def MODE_CURSOR_BD_VAL_def MODE_CURSOR_MIX_BD_VAL_def
        MODE_CURSOR_MIX_GPS_VAL_def GPS_SOURCE_TYPE_def TOD_SOURCE_TYPE_def)
  show "clock_source_alarm_of t sta = told_alarms t sta"
    by (auto simp: clock_source_alarm_of_def told_alarms_def traced_def receiver_says_def Let_def bits_small SATELLITE_ANTENNA_LOOP_def
        SATELLITE_ANTENNA_OPEN_def)
  show "clock_source_status_of t sta = told_fix t sta"
    by (auto simp: clock_source_status_of_def told_fix_def traced_def receiver_says_def)
qed



text \<open>
  The bits of the alarm register do not add up: each case of the code assigns the register, so
  that a satellite source with an open or a shorted antenna that tracks no satellite, or that is in
  the single GPS mode, does not report its antenna.
\<close>

theorem antenna_alarm_hidden:
  "antenna_state sta \<in> {SATELLITE_ANTENNA_OPEN, SATELLITE_ANTENNA_LOOP} \<Longrightarrow>
   fst (traced sta) = 0 \<or> sys_mode sta = MODE_CURSOR_GPS_VAL \<Longrightarrow>
   clock_source_alarm_of GPS_SOURCE_TYPE sta = (if fst (traced sta) = 0 then BIT 3 else BIT 5) \<and>
   clock_source_alarm_of GPS_SOURCE_TYPE sta AND (BIT 1 OR BIT 2) = 0"
  by (auto simp: clock_source_alarm_of_def Let_def bits_small)

lemma antenna_alarm_hidden_witness:
  "clock_source_alarm_of GPS_SOURCE_TYPE (demo_sta BID_GBDBE\<lparr>antenna_state := SATELLITE_ANTENNA_OPEN\<rparr>) AND BIT 1 = 0"
  using antenna_alarm_hidden[of "demo_sta BID_GBDBE\<lparr>antenna_state := SATELLITE_ANTENNA_OPEN\<rparr>"]
  by (simp add: demo_sta_def MODE_CURSOR_GPS_VAL_def bits_small split: if_splits)

end
