(* ===== verification/EventStore.thy ===== *)
theory EventStore
  imports LibSqlite
begin

text \<open>
  The tables of the events and of the phases, \<^verbatim>\<open>src/alloc/common_event.c\<close> and
  \<^verbatim>\<open>src/alloc/common_phase_perf.c\<close>: a short table of current rows that the web pages read, and a
  long table of the history to which the oldest current row moves. Every statement is modelled by
  its text, with the tabulators that the continued string literals of the source contain.

  A cell that a query does not return is read through a null pointer; the operation is then
  \<open>None\<close>. The first component of a result is what the C function returns.
\<close>

section \<open>The texts\<close>

definition tabs :: "nat \<Rightarrow> string" where "tabs n = replicate n (CHR 0x09)"
definition quoted :: "string \<Rightarrow> string" where "quoted s = [CHR 0x27] @ s @ [CHR 0x27]"

definition TBL_EVENT_CURRENT :: string where "TBL_EVENT_CURRENT = ''TBL_EVENT_CURRENT''"
definition TBL_EVENT_HISTORY :: string where "TBL_EVENT_HISTORY = ''TBL_EVENT_HISTORY''"
definition TBL_PERF_CURRENT :: string where "TBL_PERF_CURRENT = ''TBL_PERF_CURRENT''"
definition TBL_PERF_HISTORY :: string where "TBL_PERF_HISTORY = ''TBL_PERF_HISTORY''"

definition EVENT_COLS :: string where "EVENT_COLS = ''event_id, event_tid, slot, port, bid, event_start_time''"
definition PERF_COLS :: string where "PERF_COLS = ''ID, phase_inx, phase_val, slot, port, clock_status, phase_time''"

definition count_sql :: "string \<Rightarrow> string" where
  "count_sql tbl = ''select count(*) from '' @ tbl @ '';''"

definition seq_sql :: "string \<Rightarrow> string" where
  "seq_sql tbl = ''select seq from sqlite_sequence where name='' @ quoted tbl @ '';''"

definition copy_sql :: "string \<Rightarrow> string \<Rightarrow> string \<Rightarrow> string" where
  "copy_sql hist cols tbl =
     ''insert into '' @ hist @ ''('' @ cols @ '') '' @ tabs 3 @ ''select '' @ cols @ '' '' @ tabs 2 @ ''    from '' @ tbl"

definition rotate_sql :: "string \<Rightarrow> string \<Rightarrow> string \<Rightarrow> string" where
  "rotate_sql hist cols tbl =
     copy_sql hist cols tbl @ ''; '' @ tabs 2 @ ''    delete from '' @ tbl
       @ '';delete from sqlite_sequence where name='' @ quoted tbl @ '';''"

definition oldest_sql :: "string \<Rightarrow> string \<Rightarrow> string \<Rightarrow> string" where
  "oldest_sql hist cols tbl =
     (let w = '' where rowid <= (select min(rowid) from '' @ tbl @ '');''
      in copy_sql hist cols tbl @ w @ '' '' @ tabs 2 @ ''    delete from '' @ tbl @ w)"

definition flush_sql :: "string \<Rightarrow> string \<Rightarrow> string \<Rightarrow> string" where
  "flush_sql hist cols tbl = copy_sql hist cols tbl @ ''; delete from '' @ tbl @ '';''"

definition set_seq_sql :: "string \<Rightarrow> string" where
  "set_seq_sql tbl = ''update sqlite_sequence set seq=(select max(ID) from '' @ tbl @ '') '' @ tabs 2
     @ ''where name='' @ quoted tbl @ '';''"

definition halve_sql :: "string \<Rightarrow> string" where
  "halve_sql tbl = ''delete from '' @ tbl
     @ '' where rowid <= (select (min(rowid) + max(rowid))/2 from '' @ tbl @ '');''"

section \<open>Queries of one number\<close>

datatype answer = Failed | Undefined | Value int

definition query_int :: "db_env \<Rightarrow> string \<Rightarrow> db_op list \<Rightarrow> answer \<times> db_op list" where
  "query_int env sql h =
     (case db_get_table env sql h of
        (None, h) \<Rightarrow> (Failed, h)
      | (Some t, h) \<Rightarrow> (case cell t 1 of None \<Rightarrow> (Undefined, h) | Some c \<Rightarrow> (Value (atoi c), h)))"

definition put_if :: "bool \<Rightarrow> db_env \<Rightarrow> string \<Rightarrow> db_op list \<Rightarrow> bool \<times> db_op list" where
  "put_if b env sql h = (if b then db_put_table env sql h else (True, h))"

section \<open>Events\<close>

definition TBL_EVENT_CURRENT_ID_MAX_SEQ :: int where "TBL_EVENT_CURRENT_ID_MAX_SEQ = 0x7FFFFFFF"
definition TBL_EVENT_CURRENT_ARRAY_SIZE :: int where "TBL_EVENT_CURRENT_ARRAY_SIZE = 20"
definition TBL_EVENT_HISTORY_ARRAY_SIZE :: int where "TBL_EVENT_HISTORY_ARRAY_SIZE = 10000"

record evnt_inx =
  ev_index :: int
  old_flag :: int
  new_flag :: int
  ev_valid :: int
  ev_slot :: int
  ev_port :: int
  ev_bid :: int
  evnt_id :: int
  start_time :: string

definition event_values :: "evnt_inx \<Rightarrow> string" where
  "event_values e = pr_d (ev_index e) @ '', '' @ pr_d (s32 (evnt_id e)) @ '', '' @ pr_d (ev_slot e) @ '', ''
     @ pr_d (ev_port e) @ '', '' @ pr_d (ev_bid e) @ '', '' @ quoted (start_time e) @ '', '' @ pr_d 0"

definition insert_sql :: "string \<Rightarrow> string \<Rightarrow> string" where
  "insert_sql tbl vals = ''insert into '' @ tbl @ '' values(NULL, '' @ vals @ '');''"

definition insert_one_event :: "db_env \<Rightarrow> evnt_inx \<Rightarrow> string \<Rightarrow> db_op list \<Rightarrow> bool \<times> db_op list" where
  "insert_one_event env e pTbl h =
     (case db_put_table env (insert_sql pTbl (event_values e)) h of (ok, h) \<Rightarrow> (ok, db_unlock env h))"

text \<open>The part of \<open>WriteOneCurEventToTable\<close> that holds the table at its size.\<close>

definition make_room_event :: "db_env \<Rightarrow> evnt_inx \<Rightarrow> string \<Rightarrow> db_op list \<Rightarrow> (bool \<times> db_op list) option" where
  "make_room_event env e pTbl h =
     (case query_int env (count_sql pTbl) (db_lock env h) of
        (Failed, h) \<Rightarrow> Some (False, db_unlock env h)
      | (Undefined, h) \<Rightarrow> None
      | (Value count, h) \<Rightarrow>
          (case put_if (TBL_EVENT_CURRENT_ARRAY_SIZE \<le> count) env (oldest_sql TBL_EVENT_HISTORY EVENT_COLS pTbl) h of
             (False, h) \<Rightarrow> Some (False, db_unlock env h)
           | (True, h) \<Rightarrow> Some (insert_one_event env e pTbl h)))"

definition WriteOneCurEventToTable :: "db_env \<Rightarrow> evnt_inx \<Rightarrow> string \<Rightarrow> db_op list \<Rightarrow> (bool \<times> db_op list) option" where
  "WriteOneCurEventToTable env e pTbl h =
     (case query_int env (count_sql pTbl) (db_lock env h) of
        (Failed, h) \<Rightarrow> Some (False, db_unlock env h)
      | (Undefined, h) \<Rightarrow> None
      | (Value count, h) \<Rightarrow>
          if count = 0 then Some (insert_one_event env e pTbl h)
          else (case query_int env (seq_sql pTbl) h of
             (Failed, h) \<Rightarrow> Some (False, db_unlock env h)
           | (Undefined, h) \<Rightarrow> None
           | (Value seq, h) \<Rightarrow>
               (case put_if (TBL_EVENT_CURRENT_ID_MAX_SEQ \<le> seq) env (rotate_sql TBL_EVENT_HISTORY EVENT_COLS pTbl) h of
                  (False, h) \<Rightarrow> Some (False, db_unlock env h)
                | (True, h) \<Rightarrow> make_room_event env e pTbl (db_unlock env h))))"

definition MoveAllCurEventToHistoryTable :: "db_env option \<Rightarrow> string \<Rightarrow> db_op list \<Rightarrow> (bool \<times> db_op list) option" where
  "MoveAllCurEventToHistoryTable pDb pTbl h =
     (case pDb of None \<Rightarrow> Some (False, h) | Some env \<Rightarrow>
     (case query_int env (count_sql pTbl) (db_lock env h) of
        (Failed, h) \<Rightarrow> Some (False, db_unlock env h)
      | (Undefined, h) \<Rightarrow> None
      | (Value count, h) \<Rightarrow>
          if count > 0 then
            (case db_put_table env (set_seq_sql pTbl) h of
               (False, h) \<Rightarrow> Some (False, db_unlock env h)
             | (True, h) \<Rightarrow>
            (case query_int env (seq_sql pTbl) h of
               (Failed, h) \<Rightarrow> Some (False, db_unlock env h)
             | (Undefined, h) \<Rightarrow> None
             | (Value seq, h) \<Rightarrow>
            (case db_put_table env (flush_sql TBL_EVENT_HISTORY EVENT_COLS pTbl) h of
               (ok, h) \<Rightarrow> Some (ok, db_unlock env h))))
          else Some (True, db_unlock env h)))"

definition CheckHistoryEventNumTable :: "db_env option \<Rightarrow> string \<Rightarrow> db_op list \<Rightarrow> (bool \<times> db_op list) option" where
  "CheckHistoryEventNumTable pDb pTbl h =
     (case pDb of None \<Rightarrow> Some (False, h) | Some env \<Rightarrow>
     (case query_int env (count_sql pTbl) (db_lock env h) of
        (Failed, h) \<Rightarrow> Some (False, db_unlock env h)
      | (Undefined, h) \<Rightarrow> None
      | (Value nrow, h) \<Rightarrow>
          (case put_if (TBL_EVENT_HISTORY_ARRAY_SIZE \<le> nrow) env (halve_sql pTbl) h of
             (ok, h) \<Rightarrow> Some (ok, db_unlock env h))))"

text \<open>
  The rows with the mark \<open>valid\<close> are written in their order; a failure returns at once, with the mark
  of the row already cleared and its \<open>old_flag\<close> not updated.
\<close>

definition event_done :: "evnt_inx \<Rightarrow> evnt_inx" where
  "event_done e = e\<lparr>old_flag := new_flag e\<rparr>"

definition write_event :: "db_env \<Rightarrow> evnt_inx \<Rightarrow> db_op list \<Rightarrow> (bool \<times> evnt_inx \<times> db_op list) option" where
  "write_event env e h =
     (if ev_valid e = 1 then
        (let e = e\<lparr>ev_valid := 0\<rparr> in
         case CheckHistoryEventNumTable (Some env) TBL_EVENT_HISTORY h of
           None \<Rightarrow> None
         | Some (False, h) \<Rightarrow> Some (False, e, h)
         | Some (True, h) \<Rightarrow>
        (case WriteOneCurEventToTable env e TBL_EVENT_CURRENT h of
           None \<Rightarrow> None
         | Some (False, h) \<Rightarrow> Some (False, e, h)
         | Some (True, h) \<Rightarrow> Some (True, event_done e, h)))
      else Some (True, event_done e, h))"

fun write_events :: "db_env \<Rightarrow> evnt_inx list \<Rightarrow> db_op list \<Rightarrow> (bool \<times> evnt_inx list \<times> db_op list) option" where
  "write_events env [] h = Some (True, [], h)"
| "write_events env (e # es) h =
     (case write_event env e h of
        None \<Rightarrow> None
      | Some (False, e, h) \<Rightarrow> Some (False, e # es, h)
      | Some (True, e, h) \<Rightarrow> map_option (\<lambda>(ok, es, h). (ok, e # es, h)) (write_events env es h))"

definition WriteCurEventToTable :: "db_env option \<Rightarrow> evnt_inx list \<Rightarrow> db_op list \<Rightarrow> (bool \<times> evnt_inx list \<times> db_op list) option" where
  "WriteCurEventToTable pDb tbl h =
     (case pDb of None \<Rightarrow> Some (False, tbl, h)
      | Some env \<Rightarrow> if tbl = [] then Some (False, tbl, h) else write_events env tbl h)"

definition initCurEventAndHistoryTable :: "db_env option \<Rightarrow> db_op list \<Rightarrow> (bool \<times> db_op list) option" where
  "initCurEventAndHistoryTable pDb h =
     (case CheckHistoryEventNumTable pDb TBL_EVENT_HISTORY h of
        None \<Rightarrow> None
      | Some (False, h) \<Rightarrow> Some (False, h)
      | Some (True, h) \<Rightarrow> MoveAllCurEventToHistoryTable pDb TBL_EVENT_CURRENT h)"

section \<open>Phases\<close>

text \<open>The same for the phases, where a caller that already holds the lock passes \<open>is_lock = 0\<close>.\<close>

definition DB_LOCK :: "db_env \<Rightarrow> bool \<Rightarrow> db_op list \<Rightarrow> db_op list" where
  "DB_LOCK env isLock h = (if isLock then db_lock env h else h)"

definition DB_UNLOCK :: "db_env \<Rightarrow> bool \<Rightarrow> db_op list \<Rightarrow> db_op list" where
  "DB_UNLOCK env isLock h = (if isLock then db_unlock env h else h)"

definition TBL_PHASE_PERF_CURRENT_ID_MAX_SEQ :: int where "TBL_PHASE_PERF_CURRENT_ID_MAX_SEQ = 0x7FFFFFFF"
definition TBL_PHASE_PERF_CURRENT_ARRAY_SIZE :: int where "TBL_PHASE_PERF_CURRENT_ARRAY_SIZE = 1"
definition TBL_PHASE_PERF_HISTORY_ARRAY_SIZE :: int where "TBL_PHASE_PERF_HISTORY_ARRAY_SIZE = 60 * 24 * 2"

record phase_perf =
  pp_index :: int
  pp_val :: int
  pp_slot :: int
  pp_port :: int
  pp_clock_status :: int
  pp_time :: string

definition phase_values :: "phase_perf \<Rightarrow> string" where
  "phase_values p = pr_d (pp_index p) @ '', '' @ pr_d (pp_val p) @ '', '' @ pr_d (pp_slot p) @ '', ''
     @ pr_d (pp_port p) @ '', '' @ pr_d (pp_clock_status p) @ '', '' @ quoted (pp_time p) @ '', '' @ pr_d 0"

definition insert_one_phase :: "db_env \<Rightarrow> phase_perf \<Rightarrow> string \<Rightarrow> bool \<Rightarrow> db_op list \<Rightarrow> bool \<times> db_op list" where
  "insert_one_phase env p pTbl is_lock h =
     (case db_put_table env (insert_sql pTbl (phase_values p)) h of (ok, h) \<Rightarrow> (ok, DB_UNLOCK env is_lock h))"

definition make_room_phase :: "db_env \<Rightarrow> phase_perf \<Rightarrow> string \<Rightarrow> bool \<Rightarrow> db_op list \<Rightarrow> (bool \<times> db_op list) option" where
  "make_room_phase env p pTbl is_lock h =
     (case query_int env (count_sql pTbl) (DB_LOCK env is_lock h) of
        (Failed, h) \<Rightarrow> Some (False, DB_UNLOCK env is_lock h)
      | (Undefined, h) \<Rightarrow> None
      | (Value count, h) \<Rightarrow>
          (case put_if (TBL_PHASE_PERF_CURRENT_ARRAY_SIZE \<le> count) env (oldest_sql TBL_PERF_HISTORY PERF_COLS pTbl) h of
             (False, h) \<Rightarrow> Some (False, DB_UNLOCK env is_lock h)
           | (True, h) \<Rightarrow> Some (insert_one_phase env p pTbl is_lock h)))"

text \<open>When the first query fails the code unlocks whatever \<open>is_lock\<close> is.\<close>

definition WriteOneCurPhasePerfToTable :: "db_env \<Rightarrow> phase_perf \<Rightarrow> string \<Rightarrow> bool \<Rightarrow> db_op list \<Rightarrow> (bool \<times> db_op list) option" where
  "WriteOneCurPhasePerfToTable env p pTbl is_lock h =
     (case query_int env (count_sql pTbl) (DB_LOCK env is_lock h) of
        (Failed, h) \<Rightarrow> Some (False, db_unlock env h)
      | (Undefined, h) \<Rightarrow> None
      | (Value count, h) \<Rightarrow>
          if count = 0 then Some (insert_one_phase env p pTbl is_lock h)
          else (case query_int env (seq_sql pTbl) h of
             (Failed, h) \<Rightarrow> Some (False, DB_UNLOCK env is_lock h)
           | (Undefined, h) \<Rightarrow> None
           | (Value seq, h) \<Rightarrow>
               (case put_if (TBL_PHASE_PERF_CURRENT_ID_MAX_SEQ \<le> seq) env (rotate_sql TBL_PERF_HISTORY PERF_COLS pTbl) h of
                  (False, h) \<Rightarrow> Some (False, DB_UNLOCK env is_lock h)
                | (True, h) \<Rightarrow> make_room_phase env p pTbl is_lock (DB_UNLOCK env is_lock h))))"

definition MoveAllCurPhasePerfToHistoryTable :: "db_env \<Rightarrow> string \<Rightarrow> bool \<Rightarrow> db_op list \<Rightarrow> (bool \<times> db_op list) option" where
  "MoveAllCurPhasePerfToHistoryTable env pTbl is_lock h =
     (case query_int env (count_sql pTbl) (DB_LOCK env is_lock h) of
        (Failed, h) \<Rightarrow> Some (False, DB_UNLOCK env is_lock h)
      | (Undefined, h) \<Rightarrow> None
      | (Value count, h) \<Rightarrow>
          if count > 0 then
            (case db_put_table env (set_seq_sql pTbl) h of
               (False, h) \<Rightarrow> Some (False, DB_UNLOCK env is_lock h)
             | (True, h) \<Rightarrow>
            (case query_int env (seq_sql pTbl) h of
               (Failed, h) \<Rightarrow> Some (False, DB_UNLOCK env is_lock h)
             | (Undefined, h) \<Rightarrow> None
             | (Value seq, h) \<Rightarrow>
            (case db_put_table env (flush_sql TBL_PERF_HISTORY PERF_COLS pTbl) h of
               (ok, h) \<Rightarrow> Some (ok, DB_UNLOCK env is_lock h))))
          else Some (True, DB_UNLOCK env is_lock h))"

definition CheckHistoryPhasePerfNumTable :: "db_env \<Rightarrow> string \<Rightarrow> bool \<Rightarrow> db_op list \<Rightarrow> (bool \<times> db_op list) option" where
  "CheckHistoryPhasePerfNumTable env pTbl is_lock h =
     (case query_int env (count_sql pTbl) (DB_LOCK env is_lock h) of
        (Failed, h) \<Rightarrow> Some (False, DB_UNLOCK env is_lock h)
      | (Undefined, h) \<Rightarrow> None
      | (Value nrow, h) \<Rightarrow>
          (case put_if (TBL_PHASE_PERF_HISTORY_ARRAY_SIZE \<le> nrow) env (halve_sql pTbl) h of
             (ok, h) \<Rightarrow> Some (ok, DB_UNLOCK env is_lock h)))"

fun write_phases :: "db_env \<Rightarrow> phase_perf list \<Rightarrow> db_op list \<Rightarrow> (bool \<times> db_op list) option" where
  "write_phases env [] h = Some (True, DB_UNLOCK env True h)"
| "write_phases env (p # ps) h =
     (case CheckHistoryPhasePerfNumTable env TBL_PERF_HISTORY False h of
        None \<Rightarrow> None
      | Some (False, h) \<Rightarrow> Some (False, h)
      | Some (True, h) \<Rightarrow>
     (case WriteOneCurPhasePerfToTable env p TBL_PERF_CURRENT False h of
        None \<Rightarrow> None
      | Some (False, h) \<Rightarrow> Some (False, h)
      | Some (True, h) \<Rightarrow> write_phases env ps h))"

definition WriteCurPhasePerfToTable :: "db_env option \<Rightarrow> phase_perf list \<Rightarrow> db_op list \<Rightarrow> (bool \<times> db_op list) option" where
  "WriteCurPhasePerfToTable pDb ps h =
     (case pDb of None \<Rightarrow> Some (False, h)
      | Some env \<Rightarrow> if ps = [] then Some (False, h) else write_phases env ps (DB_LOCK env True h))"

definition initCurPhasePerfAndHistoryTable :: "db_env option \<Rightarrow> db_op list \<Rightarrow> (bool \<times> db_op list) option" where
  "initCurPhasePerfAndHistoryTable pDb h =
     (case pDb of None \<Rightarrow> Some (False, h) | Some env \<Rightarrow>
     (case CheckHistoryPhasePerfNumTable env TBL_PERF_HISTORY True h of
        None \<Rightarrow> None
      | Some (False, h) \<Rightarrow> Some (False, h)
      | Some (True, h) \<Rightarrow> MoveAllCurPhasePerfToHistoryTable env TBL_PERF_CURRENT True h))"

end
