(* ===== verification/EventStoreSpec.thy ===== *)
theory EventStoreSpec
  imports EventStore
begin

text \<open>
  The theorems on the tables of events and phases. The first part checks the transactions: with a data base that
  grants transactions, every statement is executed within one, and the operations end
  outside of a transaction, with the exception of the failures of \<open>WriteCurPhasePerfToTable\<close>. The
  second part gives the data bases that the witnesses of this theory and of \<open>EventLog\<close> use.
\<close>

section \<open>Transactions\<close>

text \<open>
  Whether a transaction is open, by the results of the statements: a \<open>begin\<close> or a \<open>commit\<close> that is refused changes nothing. There
  is no result when a \<open>begin\<close> is attempted within a transaction, or when a \<open>commit\<close>, another statement or a query
  meets no open transaction.
\<close>

fun tx_run :: "db_env \<Rightarrow> db_op list \<Rightarrow> bool \<Rightarrow> db_op list \<Rightarrow> bool option" where
  "tx_run env pre s [] = Some s"
| "tx_run env pre s (c # cs) =
     (if (c = Exec BEGIN_SQL) = s then None
      else if c = Exec BEGIN_SQL then tx_run env (pre @ [c]) (de_exec env pre BEGIN_SQL) cs
      else if c = Exec COMMIT_SQL then tx_run env (pre @ [c]) (\<not> de_exec env pre COMMIT_SQL) cs
      else tx_run env (pre @ [c]) s cs)"

definition tx_closed :: "db_env \<Rightarrow> db_op list \<Rightarrow> bool" where
  "tx_closed env h \<longleftrightarrow> tx_run env [] False h = Some False"

definition tx_open :: "db_env \<Rightarrow> db_op list \<Rightarrow> bool" where
  "tx_open env h \<longleftrightarrow> tx_run env [] False h = Some True"

text \<open>
  A data base that grants a \<open>begin\<close> outside of a transaction and a \<open>commit\<close> within one, each within the attempts that the
  code makes.
\<close>

definition in_attempts :: "db_env \<Rightarrow> string \<Rightarrow> db_op list \<Rightarrow> bool" where
  "in_attempts env sql h \<longleftrightarrow> (\<exists>j \<le> 10000. de_exec env (h @ replicate j (Exec sql)) sql)"

definition grants :: "db_env \<Rightarrow> bool" where
  "grants env \<longleftrightarrow> (\<forall>h. (tx_closed env h \<longrightarrow> in_attempts env BEGIN_SQL h) \<and> (tx_open env h \<longrightarrow> in_attempts env COMMIT_SQL h))"

definition plain_sql :: "string \<Rightarrow> bool" where
  "plain_sql sql \<longleftrightarrow> sql \<noteq> BEGIN_SQL \<and> sql \<noteq> COMMIT_SQL"

lemma tx_run_append:
  "tx_run env pre s (xs @ ys) = (case tx_run env pre s xs of None \<Rightarrow> None | Some s \<Rightarrow> tx_run env (pre @ xs) s ys)"
  by (induction xs arbitrary: pre s) (auto cong: option.case_cong)

lemma tx_run_refused:
  "sql \<in> {BEGIN_SQL, COMMIT_SQL} \<Longrightarrow> s = (sql = COMMIT_SQL) \<Longrightarrow> \<forall>j < k. \<not> de_exec env (pre @ replicate j (Exec sql)) sql \<Longrightarrow>
   tx_run env pre s (replicate k (Exec sql)) = Some s"
proof (induction k)
  case (Suc k)
  have "replicate (Suc k) (Exec sql) = replicate k (Exec sql) @ [Exec sql]" by (simp add: replicate_append_same)
  then show ?case using Suc by (auto simp: tx_run_append BEGIN_SQL_def COMMIT_SQL_def simp del: replicate.simps)
qed simp

lemma granted:
  assumes "in_attempts env sql h"
  shows "\<exists>k. db_retry env sql 10000 h = h @ replicate k (Exec sql) @ [Exec sql]
    \<and> (\<forall>j < k. \<not> de_exec env (h @ replicate j (Exec sql)) sql) \<and> de_exec env (h @ replicate k (Exec sql)) sql"
proof -
  obtain k where k: "k \<le> 10000" "db_retry env sql 10000 h = h @ replicate (Suc k) (Exec sql)"
    "\<forall>j < k. \<not> de_exec env (h @ replicate j (Exec sql)) sql" "de_exec env (h @ replicate k (Exec sql)) sql \<or> k = 10000"
    using db_retry_shape[of 10000 env sql h] by blast
  obtain j where j: "j \<le> 10000" "de_exec env (h @ replicate j (Exec sql)) sql" using assms unfolding in_attempts_def by blast
  have "de_exec env (h @ replicate k (Exec sql)) sql"
    using k(3,4) j by (cases "k = 10000") (metis antisym_conv1 k(1) le_neq_implies_less not_le, blast)
  moreover have "replicate (Suc k) (Exec sql) = replicate k (Exec sql) @ [Exec sql]" by (simp add: replicate_append_same)
  ultimately show ?thesis using k(2,3) by auto
qed

lemma tx_lock: "grants env \<Longrightarrow> tx_closed env h \<Longrightarrow> tx_open env (db_lock env h)"
  unfolding grants_def
  using granted[of env BEGIN_SQL h] tx_run_refused[of BEGIN_SQL False _ env h]
  by (auto simp: db_lock_def tx_closed_def tx_open_def tx_run_append BEGIN_SQL_def COMMIT_SQL_def)

lemma tx_unlock: "grants env \<Longrightarrow> tx_open env h \<Longrightarrow> tx_closed env (db_unlock env h)"
  unfolding grants_def
  using granted[of env COMMIT_SQL h] tx_run_refused[of COMMIT_SQL True _ env h]
  by (auto simp: db_unlock_def tx_closed_def tx_open_def tx_run_append BEGIN_SQL_def COMMIT_SQL_def)

lemma tx_put: "tx_open env h \<Longrightarrow> plain_sql sql \<Longrightarrow> tx_open env (snd (db_put_table env sql h))"
  by (auto simp: db_put_table_def tx_open_def tx_run_append plain_sql_def)

lemma tx_get: "tx_open env h \<Longrightarrow> tx_open env (snd (db_get_table env sql h))"
  by (auto simp: db_get_table_def tx_open_def tx_run_append)

text \<open>The contract of the transactions of a data base, and what follows from it for the operations.\<close>

locale transactions =
  fixes env :: db_env and opened closed :: "db_op list \<Rightarrow> bool"
  assumes lock: "closed h \<Longrightarrow> opened (db_lock env h)"
    and unlock: "opened h \<Longrightarrow> closed (db_unlock env h)"
    and put: "opened h \<Longrightarrow> plain_sql sql \<Longrightarrow> opened (snd (db_put_table env sql h))"
    and get: "opened h \<Longrightarrow> opened (snd (db_get_table env sql h))"

lemma plain_texts:
  "plain_sql (rotate_sql hs cols tbl)" "plain_sql (oldest_sql hs cols tbl)" "plain_sql (flush_sql hs cols tbl)"
  "plain_sql (set_seq_sql tbl)" "plain_sql (halve_sql tbl)" "plain_sql (insert_sql tbl vals)"
  by (simp_all add: plain_sql_def rotate_sql_def oldest_sql_def flush_sql_def copy_sql_def set_seq_sql_def
      halve_sql_def insert_sql_def Let_def BEGIN_SQL_def COMMIT_SQL_def)

context transactions
begin

lemma queryD: "query_int env sql h = (a, h') \<Longrightarrow> opened h \<Longrightarrow> opened h'"
  using get[of h sql] by (auto simp: query_int_def split: prod.splits option.splits)

lemma putD: "db_put_table env sql h = (ok, h') \<Longrightarrow> opened h \<Longrightarrow> plain_sql sql \<Longrightarrow> opened h'"
  using put[of h sql] by simp

lemma put_ifD: "put_if b env sql h = (ok, h') \<Longrightarrow> opened h \<Longrightarrow> plain_sql sql \<Longrightarrow> opened h'"
  using put[of h sql] by (auto simp: put_if_def split: if_splits)

lemma insert_eventD: "insert_one_event env e tbl h = (ok, h') \<Longrightarrow> opened h \<Longrightarrow> closed h'"
  by (auto simp: insert_one_event_def plain_texts split: prod.splits intro!: unlock elim: putD)

lemma make_roomD: "make_room_event env e tbl h = Some (ok, h') \<Longrightarrow> closed h \<Longrightarrow> closed h'"
  using lock[of h]
  by (auto simp: make_room_event_def plain_texts split: prod.splits answer.splits bool.splits
      dest: queryD put_ifD insert_eventD intro!: unlock)

lemma write_eventD: "WriteOneCurEventToTable env e tbl h = Some (ok, h') \<Longrightarrow> closed h \<Longrightarrow> closed h'"
  using lock[of h]
  by (auto simp: WriteOneCurEventToTable_def plain_texts split: prod.splits answer.splits bool.splits if_splits
      dest: queryD put_ifD insert_eventD intro: unlock)
    (metis queryD put_ifD unlock make_roomD plain_texts)+

lemma move_eventsD: "MoveAllCurEventToHistoryTable (Some env) tbl h = Some (ok, h') \<Longrightarrow> closed h \<Longrightarrow> closed h'"
  using lock[of h]
  by (auto simp: MoveAllCurEventToHistoryTable_def plain_texts
      split: option.splits prod.splits answer.splits bool.splits if_splits
      dest: queryD intro: unlock)
    (metis queryD putD unlock plain_texts)+

lemma check_eventsD: "CheckHistoryEventNumTable (Some env) tbl h = Some (ok, h') \<Longrightarrow> closed h \<Longrightarrow> closed h'"
  using lock[of h]
  by (auto simp: CheckHistoryEventNumTable_def plain_texts
      split: option.splits prod.splits answer.splits bool.splits if_splits
      dest: queryD put_ifD intro!: unlock)

lemma event_stepD: "write_event env e h = Some (ok, e', h') \<Longrightarrow> closed h \<Longrightarrow> closed h'"
  by (auto simp: write_event_def Let_def split: option.splits prod.splits bool.splits if_splits
      dest: check_eventsD write_eventD)

lemma write_eventsD: "write_events env es h = Some (ok, es', h') \<Longrightarrow> closed h \<Longrightarrow> closed h'"
proof (induction es arbitrary: h ok es')
  case (Cons e es)
  obtain b e1 h1 where w: "write_event env e h = Some (b, e1, h1)"
    using Cons.prems(1) by (auto split: option.splits)
  have c: "closed h1" using event_stepD[OF w Cons.prems(2)] .
  then show ?case using Cons.prems(1) Cons.IH[of h1] w by (cases b) auto
qed simp

lemma init_eventsD: "initCurEventAndHistoryTable (Some env) h = Some (ok, h') \<Longrightarrow> closed h \<Longrightarrow> closed h'"
  by (auto simp: initCurEventAndHistoryTable_def split: option.splits prod.splits bool.splits
      dest: check_eventsD move_eventsD)

text \<open>The phases under a lock that the caller holds.\<close>

lemma phase_checkD:
  "CheckHistoryPhasePerfNumTable env tbl False h = Some (ok, h') \<Longrightarrow> opened h \<Longrightarrow> opened h'"
  by (auto simp: CheckHistoryPhasePerfNumTable_def DB_LOCK_def DB_UNLOCK_def plain_texts
      split: prod.splits answer.splits bool.splits dest: queryD put_ifD)

lemma insert_phaseD:
  "insert_one_phase env p tbl False h = (ok, h') \<Longrightarrow> opened h \<Longrightarrow> opened h'"
  by (auto simp: insert_one_phase_def DB_UNLOCK_def plain_texts split: prod.splits elim: putD)

lemma phase_roomD:
  "make_room_phase env p tbl False h = Some (ok, h') \<Longrightarrow> opened h \<Longrightarrow> opened h'"
  by (auto simp: make_room_phase_def DB_LOCK_def DB_UNLOCK_def plain_texts
      split: prod.splits answer.splits bool.splits dest: queryD put_ifD insert_phaseD)

lemma phase_writeD:
  assumes "WriteOneCurPhasePerfToTable env p tbl False h = Some (ok, h')" "opened h"
    "ok \<or> (\<forall>h sql. de_query env h sql \<noteq> None)"
  shows "opened h'"
proof -
  have f: "query_int env sql h \<noteq> (Failed, h')" if "\<forall>h sql. de_query env h sql \<noteq> None" for sql h h'
    using that[rule_format, of h sql]
    by (cases "de_query env h sql") (auto simp: query_int_def db_get_table_def split: option.splits)
  show ?thesis using assms f
    by (auto simp: WriteOneCurPhasePerfToTable_def DB_LOCK_def DB_UNLOCK_def
        split: prod.splits answer.splits bool.splits if_splits dest: queryD insert_phaseD)
      (metis queryD put_ifD phase_roomD plain_texts)+
qed

lemma phases_writtenD:
  "write_phases env ps h = Some (ok, h') \<Longrightarrow> opened h \<Longrightarrow>
     (ok \<longrightarrow> closed h') \<and> ((\<forall>h sql. de_query env h sql \<noteq> None) \<longrightarrow> \<not> ok \<longrightarrow> opened h')"
proof (induction ps arbitrary: h)
  case Nil
  then show ?case by (auto simp: DB_UNLOCK_def intro: unlock)
next
  case (Cons p ps)
  obtain b1 h1 where c: "CheckHistoryPhasePerfNumTable env TBL_PERF_HISTORY False h = Some (b1, h1)"
    using Cons.prems(1) by (auto split: option.splits)
  have o1: "opened h1" using phase_checkD[OF c Cons.prems(2)] .
  show ?case
  proof (cases b1)
    case False
    then show ?thesis using Cons.prems(1) c o1 by simp
  next
    case True
    obtain b2 h2 where w: "WriteOneCurPhasePerfToTable env p TBL_PERF_CURRENT False h1 = Some (b2, h2)"
      using Cons.prems(1) c True by (auto split: option.splits)
    show ?thesis using Cons.prems(1) c w True phase_writeD[OF w o1] Cons.IH[of h2] by (cases b2) auto
  qed
qed

end

interpretation tx: transactions env "\<lambda>h. grants env \<longrightarrow> tx_open env h" "\<lambda>h. grants env \<longrightarrow> tx_closed env h" for env
  by unfold_locales (auto intro: tx_lock tx_unlock tx_put tx_get)

text \<open>
  C37: with a data base that grants a begin outside of a transaction and a commit within one in the 10001 attempts made, and may refuse every
  other statement and query at any time, the operations on the events execute every statement and every query
  within an open transaction, attempt a begin only outside of one and a commit only within one, and leave the data
  base outside of a transaction. (The code does not look at the outcome of the last attempt: with a data base
  that refuses all of them the statements would run outside of a transaction.)
\<close>

theorem events_in_transactions:
  assumes "grants env" "tx_closed env h"
    "(\<exists>es es'. WriteCurEventToTable (Some env) es h = Some (ok, es', h')) \<or> initCurEventAndHistoryTable (Some env) h = Some (ok, h')"
  shows "tx_closed env h'"
  using assms tx.write_eventsD[of env] tx.init_eventsD[of env h ok h']
  by (auto simp: WriteCurEventToTable_def split: if_splits)

definition silent_db :: db_env where
  "silent_db = \<lparr>de_exec = \<lambda>h sql. True, de_query = \<lambda>h sql. None\<rparr>"

definition some_event :: evnt_inx where
  "some_event = \<lparr>ev_index = 7, old_flag = 0, new_flag = 1, ev_valid = 1, ev_slot = 1, ev_port = 1, ev_bid = 2,
     evnt_id = 3, start_time = ''2019-01-01 00:00:00''\<rparr>"

text \<open>A data base that refuses the first attempt to begin, and every query.\<close>

definition busy_db :: db_env where
  "busy_db = \<lparr>de_exec = \<lambda>h sql. h \<noteq> [], de_query = \<lambda>h sql. None\<rparr>"

lemma busy_db_simps [simp]: "de_exec busy_db h sql \<longleftrightarrow> h \<noteq> []" "de_query busy_db h sql = None"
  by (simp_all add: busy_db_def)

lemma busy_grants: "grants busy_db"
  by (auto simp: grants_def in_attempts_def intro!: exI[of _ "Suc 0"])

lemma events_in_transactions_witness:
  "tx_closed busy_db [Exec BEGIN_SQL, Exec BEGIN_SQL, Query (count_sql TBL_EVENT_HISTORY), Exec COMMIT_SQL]"
proof (rule events_in_transactions[of busy_db "[]" False])
  show "grants busy_db" by (rule busy_grants)
  show "tx_closed busy_db []" by (simp add: tx_closed_def)
  have "db_retry busy_db BEGIN_SQL 10000 [] = [Exec BEGIN_SQL, Exec BEGIN_SQL]"
    by (subst db_retry.simps) (simp add: db_put_table_def db_retry_ok split: nat.split)
  then show "(\<exists>es es'. WriteCurEventToTable (Some busy_db) es []
      = Some (False, es', [Exec BEGIN_SQL, Exec BEGIN_SQL, Query (count_sql TBL_EVENT_HISTORY), Exec COMMIT_SQL]))
    \<or> initCurEventAndHistoryTable (Some busy_db) []
      = Some (False, [Exec BEGIN_SQL, Exec BEGIN_SQL, Query (count_sql TBL_EVENT_HISTORY), Exec COMMIT_SQL])"
    by (intro disjI1, intro exI[of "\<lambda>es. \<exists>es'. _ es es'" "[some_event]"] exI[of _ "[some_event\<lparr>ev_valid := 0\<rparr>]"])
      (simp add: WriteCurEventToTable_def write_event_def Let_def CheckHistoryEventNumTable_def query_int_def
        db_get_table_def db_lock_def db_unlock_def db_retry_ok some_event_def)
qed

text \<open>
  When \<open>WriteCurPhasePerfToTable\<close> succeeds it has ended its transaction. When a statement fails it
  returns with the transaction open, as long as the data base answers queries.
\<close>

theorem phases_left_open:
  assumes "grants env" "tx_closed env h" "WriteCurPhasePerfToTable (Some env) (p # ps) h = Some (ok, h')"
    "\<forall>h sql. de_query env h sql \<noteq> None"
  shows "if ok then tx_closed env h' else tx_open env h'"
  using assms tx.phases_writtenD[of env "p # ps" "DB_LOCK env True h" ok h'] tx.lock[of env h]
  by (simp add: WriteCurPhasePerfToTable_def DB_LOCK_def split: if_splits)

text \<open>A data base that answers 5 to every query and executes nothing but the transaction statements.\<close>

definition full_db :: db_env where
  "full_db = \<lparr>de_exec = \<lambda>h sql. sql = BEGIN_SQL \<or> sql = COMMIT_SQL, de_query = \<lambda>h sql. Some ([Some ''c'', Some ''5''], 1, 1)\<rparr>"

definition some_phase :: phase_perf where
  "some_phase = \<lparr>pp_index = 1, pp_val = - 12, pp_slot = 1, pp_port = 1, pp_clock_status = 2, pp_time = ''2019-01-01 00:00:00''\<rparr>"

lemma phases_left_open_witness:
  "\<exists>h'. WriteCurPhasePerfToTable (Some full_db) [some_phase] [] = Some (False, h') \<and> tx_open full_db h'"
proof -
  have v: "cell ([Some ''c'', Some ''5''], 1, 1) 1 = Some ''5''" "atoi ''5'' = 5"
    by (code_simp, code_simp)
  have x: "oldest_sql TBL_PERF_HISTORY PERF_COLS TBL_PERF_CURRENT \<noteq> BEGIN_SQL"
    "oldest_sql TBL_PERF_HISTORY PERF_COLS TBL_PERF_CURRENT \<noteq> COMMIT_SQL"
    using plain_texts(2) by (simp_all add: plain_sql_def)
  have "\<exists>h'. WriteCurPhasePerfToTable (Some full_db) [some_phase] [] = Some (False, h')"
    by (simp add: WriteCurPhasePerfToTable_def CheckHistoryPhasePerfNumTable_def WriteOneCurPhasePerfToTable_def
        make_room_phase_def query_int_def db_get_table_def db_put_table_def put_if_def DB_LOCK_def DB_UNLOCK_def v x
        TBL_PHASE_PERF_HISTORY_ARRAY_SIZE_def TBL_PHASE_PERF_CURRENT_ARRAY_SIZE_def
        TBL_PHASE_PERF_CURRENT_ID_MAX_SEQ_def full_db_def)
  then obtain h' where "WriteCurPhasePerfToTable (Some full_db) [some_phase] [] = Some (False, h')" by blast
  moreover have "tx_closed full_db []" "grants full_db"
    by (auto simp: tx_closed_def grants_def in_attempts_def full_db_def BEGIN_SQL_def COMMIT_SQL_def)
  ultimately show ?thesis using phases_left_open[of full_db "[]" some_phase "[]" False h'] by (simp add: full_db_def)
qed

end
