(* ===== verification/EventLog.thy ===== *)
theory EventLog
  imports EventStoreSpec
begin

text \<open>
  The events as a log. \<open>store\<close> is what the data base holds of them: the rows of the current and of the
  past table with their row numbers, and the number in \<open>sqlite_sequence\<close>. \<open>event_db\<close> states the effect
  of each statement as SQL and SQLite describe it (\<^verbatim>\<open>src/db/p350.db\<close> declares the current table with
  \<open>AUTOINCREMENT\<close>, the past table without a key), below the largest row number of 64 bits.
\<close>

section \<open>The store\<close>

record store =
  cur :: "(int \<times> string) list"
  past :: "(int \<times> string) list"
  seqn :: int

definition next_id :: "(int \<times> string) list \<Rightarrow> int" where
  "next_id rows = (if rows = [] then 1 else Max (set (map fst rows)) + 1)"

definition add_rows :: "(int \<times> string) list \<Rightarrow> string list \<Rightarrow> (int \<times> string) list" where
  "add_rows rows vs = rows @ map (\<lambda>(k, v). (next_id rows + int k, v)) (enumerate 0 vs)"

definition rotate_store :: "store \<Rightarrow> store" where
  "rotate_store s = \<lparr>cur = [], past = add_rows (past s) (map snd (cur s)), seqn = 0\<rparr>"

definition oldest_store :: "store \<Rightarrow> store" where
  "oldest_store s =
     (let m = Min (set (map fst (cur s)))
      in s\<lparr>cur := filter (\<lambda>(i, _). \<not> i \<le> m) (cur s),
           past := add_rows (past s) (map snd (filter (\<lambda>(i, _). i \<le> m) (cur s)))\<rparr>)"

definition flush_store :: "store \<Rightarrow> store" where
  "flush_store s = s\<lparr>cur := [], past := add_rows (past s) (map snd (cur s))\<rparr>"

definition set_seq_store :: "store \<Rightarrow> store" where
  "set_seq_store s = s\<lparr>seqn := Max (set (map fst (cur s)))\<rparr>"

definition halve_store :: "store \<Rightarrow> store" where
  "halve_store s =
     (let ids = set (map fst (past s)); m = (Min ids + Max ids) div 2
      in s\<lparr>past := filter (\<lambda>(i, _). \<not> i \<le> m) (past s)\<rparr>)"

definition insert_store :: "string \<Rightarrow> store \<Rightarrow> store" where
  "insert_store v s = s\<lparr>cur := cur s @ [(seqn s + 1, v)], seqn := seqn s + 1\<rparr>"

text \<open>The columns of an event that both tables have.\<close>

definition event_row :: "evnt_inx \<Rightarrow> string" where
  "event_row e = pr_d (ev_index e) @ '', '' @ pr_d (s32 (evnt_id e)) @ '', '' @ pr_d (ev_slot e) @ '', ''
     @ pr_d (ev_port e) @ '', '' @ pr_d (ev_bid e) @ '', '' @ quoted (start_time e)"

definition answers :: "db_env \<Rightarrow> db_op list \<Rightarrow> string \<Rightarrow> int \<Rightarrow> bool" where
  "answers env h sql n \<longleftrightarrow> (\<exists>t. de_query env h sql = Some t \<and> cell t 1 = Some (pr_d n))"

definition effect :: "db_env \<Rightarrow> (db_op list \<Rightarrow> store) \<Rightarrow> db_op list \<Rightarrow> string \<Rightarrow> (store \<Rightarrow> store) \<Rightarrow> bool" where
  "effect env st h sql f \<longleftrightarrow> de_exec env h sql \<and> st (h @ [Exec sql]) = f (st h)"

definition event_db :: "db_env \<Rightarrow> (db_op list \<Rightarrow> store) \<Rightarrow> bool" where
  "event_db env st \<longleftrightarrow> (\<forall>h.
     (\<forall>sql. st (h @ [Query sql]) = st h)
     \<and> effect env st h BEGIN_SQL id \<and> effect env st h COMMIT_SQL id
     \<and> answers env h (count_sql TBL_EVENT_CURRENT) (int (length (cur (st h))))
     \<and> answers env h (count_sql TBL_EVENT_HISTORY) (int (length (past (st h))))
     \<and> (cur (st h) \<noteq> [] \<longrightarrow> answers env h (seq_sql TBL_EVENT_CURRENT) (seqn (st h)))
     \<and> effect env st h (rotate_sql TBL_EVENT_HISTORY EVENT_COLS TBL_EVENT_CURRENT) rotate_store
     \<and> (cur (st h) \<noteq> [] \<longrightarrow> effect env st h (oldest_sql TBL_EVENT_HISTORY EVENT_COLS TBL_EVENT_CURRENT) oldest_store)
     \<and> effect env st h (flush_sql TBL_EVENT_HISTORY EVENT_COLS TBL_EVENT_CURRENT) flush_store
     \<and> (cur (st h) \<noteq> [] \<longrightarrow> effect env st h (set_seq_sql TBL_EVENT_CURRENT) set_seq_store)
     \<and> (past (st h) \<noteq> [] \<longrightarrow> effect env st h (halve_sql TBL_EVENT_HISTORY) halve_store)
     \<and> (\<forall>e. CHR 0x27 \<notin> set (start_time e) \<longrightarrow>
           effect env st h (insert_sql TBL_EVENT_CURRENT (event_values e)) (insert_store (event_row e))))"

section \<open>Numbers that a query returns\<close>

lemma scan_d_nat: "scan_d (dec_nat n) = Some (clamp32 (int n), [])"
proof -
  obtain c cs where c: "dec_nat n = c # cs" using dec_nat_not_Nil by (cases "dec_nat n") auto
  have d: "is_digit c" using dec_nat_hd[of n] by (simp add: c)
  have t: "takeWhile is_digit (c # cs) = c # cs"
    using takeWhile_prefix[OF dec_nat_digits, of "[]" n] by (simp add: c)
  have v: "digits_value 0 (c # cs) = n" using dec_nat_value[of n] by (simp add: c)
  show ?thesis using digit_facts[OF d] c t v d
    by (simp add: scan_d_def Let_def takeWhile_eq_all_conv[THEN iffD2])
qed

lemma atoi_count: "0 \<le> n \<Longrightarrow> atoi (pr_d n) = min 2147483647 n"
  by (simp add: atoi_def pr_d_def scan_d_nat clamp32_def)

lemma query_answer:
  "answers env h sql n \<Longrightarrow> 0 \<le> n \<Longrightarrow> query_int env sql h = (Value (min 2147483647 n), h @ [Query sql])"
  by (auto simp: answers_def query_int_def db_get_table_def atoi_count)

lemma put_effect: "effect env st h sql f \<Longrightarrow> db_put_table env sql h = (True, h @ [Exec sql])"
  by (simp add: effect_def db_put_table_def)

section \<open>Row numbers\<close>

definition consecutive :: "(int \<times> string) list \<Rightarrow> bool" where
  "consecutive rows \<longleftrightarrow> (\<exists>a. map fst rows = [a..a + int (length rows) - 1])"

lemma consecutive_Nil: "consecutive []"
  by (simp add: consecutive_def)

lemma filter_above:
  "map fst rows = [a..b] \<Longrightarrow> filter (\<lambda>(i, _). \<not> i \<le> m) rows = drop (nat (m - a + 1)) rows"
proof (induction rows arbitrary: a)
  case (Cons r rows)
  have ab: "a \<le> b" using Cons.prems by (cases "a \<le> b") auto
  have r: "fst r = a" "map fst rows = [a + 1..b]" using Cons.prems upto_rec1[OF ab] by auto
  show ?case
  proof (cases "a \<le> m")
    case True
    then have "nat (m - a + 1) = Suc (nat (m - (a + 1) + 1))" by simp
    then show ?thesis using Cons.IH[OF r(2)] r(1) True by (cases r) simp
  next
    case False
    have "filter (\<lambda>(i, _). \<not> i \<le> m) rows = rows"
    proof (rule filter_True)
      show "\<forall>x \<in> set rows. case x of (i, _) \<Rightarrow> \<not> i \<le> m"
      proof
        fix x assume "x \<in> set rows"
        then have "fst x \<in> set (map fst rows)" by simp
        then show "case x of (i, _) \<Rightarrow> \<not> i \<le> m" unfolding r(2) using False by (cases x) simp
      qed
    qed
    then show ?thesis using False r(1) by (cases r) simp
  qed
qed simp

lemma consecutive_drop:
  assumes "consecutive rows" shows "consecutive (drop k rows)"
proof (cases "k \<le> length rows")
  case True
  obtain a where a: "map fst rows = [a..a + int (length rows) - 1]" using assms by (auto simp: consecutive_def)
  have "map fst (drop k rows) = drop k [a..a + int (length rows) - 1]" by (simp add: drop_map[symmetric] a)
  also have "\<dots> = [a + int k..a + int (length rows) - 1]"
    using True by (intro nth_equalityI) auto
  finally show ?thesis using True by (auto simp: consecutive_def intro!: exI[of _ "a + int k"])
qed (simp add: consecutive_Nil)

lemma ids_range:
  assumes "map fst rows = [a..a + int (length rows) - 1]" "rows \<noteq> []"
  shows "Min (set (map fst rows)) = a" "Max (set (map fst rows)) = a + int (length rows) - 1"
  unfolding assms(1) using assms(2) by (auto intro!: Min_eqI Max_eqI simp: Suc_le_eq)

lemma consecutive_add:
  assumes "consecutive rows" shows "consecutive (add_rows rows vs)"
proof -
  have e: "map fst (map (\<lambda>(k, v). (x + int k, v)) (enumerate 0 vs)) = [x..x + int (length vs) - 1]" for x
    by (intro nth_equalityI) (auto simp: nth_enumerate_eq)
  show ?thesis
  proof (cases "rows = []")
    case True
    then show ?thesis unfolding consecutive_def add_rows_def next_id_def map_append e
      by (intro exI[of _ 1]) simp
  next
    case False
    obtain a where a: "map fst rows = [a..a + int (length rows) - 1]" using assms by (auto simp: consecutive_def)
    have n: "next_id rows = a + int (length rows)" using False ids_range(2)[OF a False] by (simp add: next_id_def)
    have "map fst (add_rows rows vs) = [a..a + int (length rows) - 1] @ [a + int (length rows)..a + int (length rows) + int (length vs) - 1]"
      unfolding add_rows_def map_append e n a ..
    also have "\<dots> = [a..a + int (length rows) + int (length vs) - 1]"
      using upto_split2[of a "a + int (length rows) - 1" "a + int (length rows) + int (length vs) - 1"] False by simp
    finally show ?thesis unfolding consecutive_def by (intro exI[of _ a]) (simp add: add_rows_def algebra_simps)
  qed
qed

lemma add_rows_values: "map snd (add_rows rows vs) = map snd rows @ vs" "length (add_rows rows vs) = length rows + length vs"
proof -
  have "map snd (map (\<lambda>(k, v). (next_id rows + int k, v)) (enumerate 0 vs)) = vs"
    by (intro nth_equalityI) (auto simp: nth_enumerate_eq)
  then show "map snd (add_rows rows vs) = map snd rows @ vs" unfolding add_rows_def map_append by (rule arg_cong)
qed (simp add: add_rows_def)

section \<open>The log\<close>

definition event_log :: "store \<Rightarrow> string list" where
  "event_log s = map snd (past s) @ map snd (cur s)"

text \<open>At most 20 current rows, their numbers increasing up to the sequence number, and consecutive past ones.\<close>

definition store_ok :: "store \<Rightarrow> bool" where
  "store_ok s \<longleftrightarrow> length (cur s) \<le> 20 \<and> sorted_wrt (<) (map fst (cur s))
     \<and> (\<forall>(i, v) \<in> set (cur s). 0 < i \<and> i \<le> seqn s) \<and> 0 \<le> seqn s
     \<and> consecutive (past s) \<and> length (past s) < 10020"

lemma rotate_log: "event_log (rotate_store s) = event_log s"
  by (simp add: event_log_def rotate_store_def add_rows_values)

lemma flush_log: "event_log (flush_store s) = event_log s"
  by (simp add: event_log_def flush_store_def add_rows_values)

lemma insert_log: "event_log (insert_store v s) = event_log s @ [v]"
  by (simp add: event_log_def insert_store_def)

lemma oldest_cons:
  assumes "cur s = (i, v) # rows" "sorted_wrt (<) (map fst (cur s))"
  shows "oldest_store s = s\<lparr>cur := rows, past := add_rows (past s) [v]\<rparr>"
proof -
  have b: "\<forall>x \<in> set rows. i < fst x" using assms by auto
  have m: "Min (set (map fst (cur s))) = i" using assms by (intro Min_eqI) auto
  have "filter (\<lambda>(j, _). \<not> j \<le> i) rows = rows" using b by (auto simp: filter_id_conv)
  moreover have "filter (\<lambda>(j, _). j \<le> i) rows = []" using b by (auto simp: filter_empty_conv)
  ultimately show ?thesis unfolding oldest_store_def Let_def m by (simp add: assms(1))
qed

lemma oldest_log:
  assumes "cur s \<noteq> []" "sorted_wrt (<) (map fst (cur s))"
  shows "event_log (oldest_store s) = event_log s"
  using assms by (cases "cur s") (auto simp: oldest_cons event_log_def add_rows_values)

lemma halve_past:
  assumes "consecutive (past s)" "past s \<noteq> []"
  shows "halve_store s = s\<lparr>past := drop ((length (past s) + 1) div 2) (past s)\<rparr>"
proof -
  obtain a where a: "map fst (past s) = [a..a + int (length (past s)) - 1]"
    using assms(1) by (auto simp: consecutive_def)
  have "nat ((a + (a + int (length (past s)) - 1)) div 2 - a + 1) = (length (past s) + 1) div 2"
    by linarith
  then show ?thesis
    by (simp only: halve_store_def Let_def ids_range[OF a assms(2)] filter_above[OF a])
qed

lemma halve_log:
  assumes "consecutive (past s)" "past s \<noteq> []"
  shows "event_log (halve_store s) = drop ((length (past s) + 1) div 2) (event_log s)"
proof -
  have "(length (past s) + 1) div 2 \<le> length (past s)" using assms(2) by (cases "past s") auto
  then show ?thesis by (simp add: halve_past[OF assms] event_log_def drop_map)
qed

section \<open>The operations on the store\<close>

lemma event_db_laws:
  assumes "event_db env st"
  shows "st (h @ [Query sql]) = st h"
    "db_lock env h = h @ [Exec BEGIN_SQL]" "st (h @ [Exec BEGIN_SQL]) = st h"
    "db_unlock env h = h @ [Exec COMMIT_SQL]" "st (h @ [Exec COMMIT_SQL]) = st h"
    "query_int env (count_sql TBL_EVENT_CURRENT) h
       = (Value (min 2147483647 (int (length (cur (st h))))), h @ [Query (count_sql TBL_EVENT_CURRENT)])"
    "query_int env (count_sql TBL_EVENT_HISTORY) h
       = (Value (min 2147483647 (int (length (past (st h))))), h @ [Query (count_sql TBL_EVENT_HISTORY)])"
  using assms by (simp_all add: event_db_def effect_def query_answer db_lock_def db_unlock_def db_retry_ok)

lemma event_db_effects:
  assumes "event_db env st"
  shows "effect env st h (rotate_sql TBL_EVENT_HISTORY EVENT_COLS TBL_EVENT_CURRENT) rotate_store"
    "cur (st h) \<noteq> [] \<Longrightarrow> effect env st h (oldest_sql TBL_EVENT_HISTORY EVENT_COLS TBL_EVENT_CURRENT) oldest_store"
    "effect env st h (flush_sql TBL_EVENT_HISTORY EVENT_COLS TBL_EVENT_CURRENT) flush_store"
    "cur (st h) \<noteq> [] \<Longrightarrow> effect env st h (set_seq_sql TBL_EVENT_CURRENT) set_seq_store"
    "past (st h) \<noteq> [] \<Longrightarrow> effect env st h (halve_sql TBL_EVENT_HISTORY) halve_store"
    "CHR 0x27 \<notin> set (start_time e) \<Longrightarrow>
       effect env st h (insert_sql TBL_EVENT_CURRENT (event_values e)) (insert_store (event_row e))"
  using assms by (simp_all add: event_db_def)

lemma event_db_seq:
  assumes "event_db env st" "cur (st h) \<noteq> []" "0 \<le> seqn (st h)"
  shows "query_int env (seq_sql TBL_EVENT_CURRENT) h
    = (Value (min 2147483647 (seqn (st h))), h @ [Query (seq_sql TBL_EVENT_CURRENT)])"
  using assms by (simp add: event_db_def query_answer)

lemma insert_one_event_works:
  assumes "event_db env st" "CHR 0x27 \<notin> set (start_time e)"
  shows "\<exists>h'. insert_one_event env e TBL_EVENT_CURRENT h = (True, h') \<and> st h' = insert_store (event_row e) (st h)"
proof -
  have e: "effect env st h (insert_sql TBL_EVENT_CURRENT (event_values e)) (insert_store (event_row e))"
    using event_db_effects(6)[OF assms] .
  show ?thesis using put_effect[OF e] e
    by (simp add: insert_one_event_def event_db_laws[OF assms(1)] effect_def del: append_assoc)
qed

lemma put_if_works:
  assumes "event_db env st" "b \<longrightarrow> effect env st h sql f"
  obtains h' where "put_if b env sql h = (True, h')" "st h' = (if b then f (st h) else st h)"
  using assms(2) by (cases b) (auto simp: put_if_def put_effect effect_def)

lemma make_room_works:
  assumes db: "event_db env st" and t: "CHR 0x27 \<notin> set (start_time e)"
  shows "\<exists>h'. make_room_event env e TBL_EVENT_CURRENT h = Some (True, h')
    \<and> st h' = insert_store (event_row e) (if 20 \<le> length (cur (st h)) then oldest_store (st h) else st h)"
proof -
  let ?h = "(h @ [Exec BEGIN_SQL]) @ [Query (count_sql TBL_EVENT_CURRENT)]"
  have s: "st ?h = st h" by (simp add: event_db_laws[OF db] del: append_assoc)
  have b: "TBL_EVENT_CURRENT_ARRAY_SIZE \<le> min 2147483647 (int (length (cur (st h)))) \<longleftrightarrow> 20 \<le> length (cur (st h))"
    by (simp add: TBL_EVENT_CURRENT_ARRAY_SIZE_def)
  have "20 \<le> length (cur (st h)) \<longrightarrow> effect env st ?h (oldest_sql TBL_EVENT_HISTORY EVENT_COLS TBL_EVENT_CURRENT) oldest_store"
    using event_db_effects(2)[OF db, of ?h] unfolding s by (cases "cur (st h)") auto
  then obtain g where g: "put_if (20 \<le> length (cur (st h))) env (oldest_sql TBL_EVENT_HISTORY EVENT_COLS TBL_EVENT_CURRENT) ?h = (True, g)"
    "st g = (if 20 \<le> length (cur (st h)) then oldest_store (st ?h) else st ?h)"
    using put_if_works[OF db] by blast
  show ?thesis using insert_one_event_works[OF db t, of g] unfolding g(2) s
    by (simp add: make_room_event_def event_db_laws[OF db] b g(1) del: append_assoc min.bounded_iff split del: if_split)
qed

text \<open>One event: the store it leads to, whatever branch is taken.\<close>

definition room :: "store \<Rightarrow> store" where
  "room s = (if 20 \<le> length (cur s) then oldest_store s else s)"

definition event_store :: "string \<Rightarrow> store \<Rightarrow> store" where
  "event_store v s =
     insert_store v (if cur s = [] then s
       else room (if 2147483647 \<le> seqn s then rotate_store s else s))"

lemma write_one_works:
  assumes db: "event_db env st" and t: "CHR 0x27 \<notin> set (start_time e)" and q: "0 \<le> seqn (st h)"
  shows "\<exists>h'. WriteOneCurEventToTable env e TBL_EVENT_CURRENT h = Some (True, h') \<and> st h' = event_store (event_row e) (st h)"
proof -
  let ?h = "(h @ [Exec BEGIN_SQL]) @ [Query (count_sql TBL_EVENT_CURRENT)]"
  let ?g = "?h @ [Query (seq_sql TBL_EVENT_CURRENT)]"
  have s: "st ?h = st h" "st ?g = st h" by (simp_all add: event_db_laws[OF db] del: append_assoc)
  show ?thesis
  proof (cases "cur (st h) = []")
    case True
    then show ?thesis using insert_one_event_works[OF db t, of ?h] s
      by (simp add: WriteOneCurEventToTable_def event_db_laws[OF db] event_store_def del: append_assoc)
  next
    case False
    let ?b = "2147483647 \<le> seqn (st h)"
    have b: "TBL_EVENT_CURRENT_ID_MAX_SEQ \<le> min 2147483647 (seqn (st h)) \<longleftrightarrow> ?b"
      by (simp add: TBL_EVENT_CURRENT_ID_MAX_SEQ_def)
    have n: "min 2147483647 (int (length (cur (st h)))) \<noteq> 0" using False by (simp add: min_def)
    have sq: "query_int env (seq_sql TBL_EVENT_CURRENT) ?h = (Value (min 2147483647 (seqn (st h))), ?g)"
      using event_db_seq[OF db, of ?h] False q s by simp
    obtain k where k: "put_if ?b env (rotate_sql TBL_EVENT_HISTORY EVENT_COLS TBL_EVENT_CURRENT) ?g = (True, k)"
      "st k = (if ?b then rotate_store (st ?g) else st ?g)"
      using put_if_works[OF db, of ?b] event_db_effects(1)[OF db] by blast
    let ?k = "k @ [Exec COMMIT_SQL]"
    have sk: "st ?k = (if ?b then rotate_store (st h) else st h)" by (simp only: event_db_laws(5)[OF db] k(2) s)
    obtain h' where "make_room_event env e TBL_EVENT_CURRENT ?k = Some (True, h')"
      "st h' = insert_store (event_row e) (room (st ?k))"
      using make_room_works[OF db t, of ?k] by (auto simp: room_def)
    moreover have "WriteOneCurEventToTable env e TBL_EVENT_CURRENT h = make_room_event env e TBL_EVENT_CURRENT ?k"
      using n by (simp add: WriteOneCurEventToTable_def event_db_laws[OF db] sq b k(1) del: append_assoc min.bounded_iff)
    ultimately show ?thesis using False sk by (simp add: event_store_def)
  qed
qed

lemma check_history_works:
  assumes db: "event_db env st"
  shows "\<exists>h'. CheckHistoryEventNumTable (Some env) TBL_EVENT_HISTORY h = Some (True, h')
    \<and> st h' = (if 10000 \<le> length (past (st h)) then halve_store (st h) else st h)"
proof -
  let ?h = "(h @ [Exec BEGIN_SQL]) @ [Query (count_sql TBL_EVENT_HISTORY)]"
  let ?b = "10000 \<le> length (past (st h))"
  have s: "st ?h = st h" by (simp add: event_db_laws[OF db] del: append_assoc)
  have b: "TBL_EVENT_HISTORY_ARRAY_SIZE \<le> min 2147483647 (int (length (past (st h)))) \<longleftrightarrow> ?b"
    by (simp add: TBL_EVENT_HISTORY_ARRAY_SIZE_def)
  have "?b \<longrightarrow> effect env st ?h (halve_sql TBL_EVENT_HISTORY) halve_store"
    using event_db_effects(5)[OF db, of ?h] unfolding s by (cases "past (st h)") auto
  then obtain g where g: "put_if ?b env (halve_sql TBL_EVENT_HISTORY) ?h = (True, g)"
    "st g = (if ?b then halve_store (st ?h) else st ?h)"
    using put_if_works[OF db] by blast
  show ?thesis
    by (simp add: CheckHistoryEventNumTable_def event_db_laws[OF db] b g(1) g(2)[unfolded s] del: append_assoc min.bounded_iff split del: if_split)
qed

lemma room_ok:
  assumes "store_ok s" "length (past s) < 10019"
  shows "store_ok (room s)" "length (cur (room s)) < 20" "event_log (room s) = event_log s" "seqn (room s) = seqn s"
    "length (past (room s)) \<le> length (past s) + 1"
proof -
  show "store_ok (room s)" "length (cur (room s)) < 20" "event_log (room s) = event_log s" "seqn (room s) = seqn s"
    "length (past (room s)) \<le> length (past s) + 1"
    using assms oldest_log[of s]
    by (cases "cur s"; auto simp: room_def store_ok_def oldest_cons add_rows_values consecutive_add)+
qed

lemma insert_past: "past (insert_store v s) = past s"
  by (simp add: insert_store_def)

lemma insert_ok: "store_ok s \<Longrightarrow> length (cur s) < 20 \<Longrightarrow> store_ok (insert_store v s)"
  by (fastforce simp: store_ok_def insert_store_def sorted_wrt_append)

lemma rotate_ok:
  assumes "store_ok s" "length (past s) < 10000"
  shows "store_ok (rotate_store s)"
  using assms by (auto simp: store_ok_def rotate_store_def add_rows_values consecutive_add)

lemma halve_ok:
  assumes "store_ok s" "10000 \<le> length (past s)"
  shows "store_ok (halve_store s)" "length (past (halve_store s)) < 10000"
    "event_log (halve_store s) = drop ((length (past s) + 1) div 2) (event_log s)"
proof -
  have c: "consecutive (past s)" "past s \<noteq> []" using assms by (auto simp: store_ok_def)
  show "store_ok (halve_store s)" "length (past (halve_store s)) < 10000"
    using assms by (auto simp: halve_past[OF c] store_ok_def consecutive_drop)
  show "event_log (halve_store s) = drop ((length (past s) + 1) div 2) (event_log s)" by (rule halve_log[OF c])
qed

lemma event_store_ok:
  assumes ok: "store_ok s" and n: "length (past s) < 10000"
  shows "store_ok (event_store v s)" "event_log (event_store v s) = event_log s @ [v]"
    "length (past (event_store v s)) \<le> length (past s) + 20"
proof -
  have e: "store_ok (event_store v s) \<and> event_log (event_store v s) = event_log s @ [v]
    \<and> length (past (event_store v s)) \<le> length (past s) + 20"
  proof (cases "cur s = [] \<or> 2147483647 \<le> seqn s")
    case True
    have l: "length (cur s) \<le> 20" using ok by (simp add: store_ok_def)
    let ?t = "if cur s = [] then s else rotate_store s"
    have "event_store v s = insert_store v ?t"
      using True by (auto simp: event_store_def room_def rotate_store_def)
    moreover have "store_ok ?t" "event_log ?t = event_log s" using ok rotate_ok[OF ok n] rotate_log[of s] by auto
    moreover have "length (cur ?t) < 20" by (simp add: rotate_store_def)
    moreover have "length (past ?t) \<le> length (past s) + 20" using l by (simp add: rotate_store_def add_rows_values)
    ultimately show ?thesis using insert_ok[of ?t v] by (simp only: insert_log insert_past)
  next
    case False
    then have "event_store v s = insert_store v (room s)" by (simp add: event_store_def)
    then show ?thesis using room_ok[OF ok] n insert_ok[of "room s" v] by (simp add: insert_log insert_past)
  qed
  then show "store_ok (event_store v s)" "event_log (event_store v s) = event_log s @ [v]"
    "length (past (event_store v s)) \<le> length (past s) + 20" by blast+
qed

section \<open>The events of a pass\<close>

definition noted :: "evnt_inx \<Rightarrow> evnt_inx" where
  "noted e = e\<lparr>old_flag := new_flag e, ev_valid := (if ev_valid e = 1 then 0 else ev_valid e)\<rparr>"

lemma write_event_works:
  assumes db: "event_db env st" and ok: "store_ok (st h)" and v: "ev_valid e = 1" and t: "CHR 0x27 \<notin> set (start_time e)"
  shows "\<exists>h' k. write_event env e h = Some (True, noted e, h') \<and> store_ok (st h')
    \<and> event_log (st h') = drop k (event_log (st h)) @ [event_row e]
    \<and> length (past (st h')) \<le> length (past (st h)) + 20 \<and> (length (past (st h)) < 10000 \<longrightarrow> k = 0)"
proof -
  let ?s = "if 10000 \<le> length (past (st h)) then halve_store (st h) else st h"
  let ?e = "e\<lparr>ev_valid := 0\<rparr>"
  obtain g where g: "CheckHistoryEventNumTable (Some env) TBL_EVENT_HISTORY h = Some (True, g)" "st g = ?s"
    using check_history_works[OF db] by blast
  have s: "store_ok ?s" "length (past ?s) < 10000" using halve_ok[OF ok] ok by auto
  have q: "0 \<le> seqn (st g)" using s(1) by (simp add: g(2) store_ok_def)
  obtain h' where h': "WriteOneCurEventToTable env ?e TBL_EVENT_CURRENT g = Some (True, h')"
    "st h' = event_store (event_row e) ?s"
    using write_one_works[OF db _ q, of ?e] t by (auto simp: g(2) event_row_def)
  have "\<exists>k. event_log ?s = drop k (event_log (st h)) \<and> length (past ?s) \<le> length (past (st h))
      \<and> (length (past (st h)) < 10000 \<longrightarrow> k = 0)"
    using halve_ok[OF ok] by (cases "10000 \<le> length (past (st h))") (auto intro: exI[of _ 0])
  then obtain k where "event_log ?s = drop k (event_log (st h))" "length (past ?s) \<le> length (past (st h))"
    "length (past (st h)) < 10000 \<longrightarrow> k = 0" by blast
  moreover have "write_event env e h = Some (True, noted e, h')"
    using v g(1) h'(1) by (simp add: write_event_def Let_def noted_def event_done_def)
  ultimately show ?thesis using event_store_ok[OF s, of "event_row e"] h'(2) by (intro exI[of _ h'] exI[of _ k]) auto
qed

lemma drop_drop_append: "\<exists>m. drop k (drop j xs @ ys) = drop m (xs @ ys) \<and> (j = 0 \<and> k = 0 \<longrightarrow> m = 0)"
proof (cases "j \<le> length xs")
  case True
  then have "drop j xs @ ys = drop j (xs @ ys)" by simp
  then show ?thesis using True by (intro exI[of _ "k + j"]) simp
next
  case False
  then show ?thesis by (intro exI[of _ "length xs + k"]) simp
qed

lemma write_events_works:
  assumes db: "event_db env st"
  shows "store_ok (st h) \<Longrightarrow> \<forall>e \<in> set es. CHR 0x27 \<notin> set (start_time e) \<Longrightarrow>
    \<exists>h' k. write_events env es h = Some (True, map noted es, h') \<and> store_ok (st h')
      \<and> event_log (st h') = drop k (event_log (st h) @ map event_row (filter (\<lambda>e. ev_valid e = 1) es))
      \<and> (length (past (st h)) + 20 * length es < 10000 \<longrightarrow> k = 0)"
proof (induction es arbitrary: h)
  case Nil
  then show ?case by (auto intro: exI[of _ 0])
next
  case (Cons e es)
  show ?case
  proof (cases "ev_valid e = 1")
    case False
    then have "write_event env e h = Some (True, noted e, h)" by (simp add: write_event_def noted_def event_done_def)
    moreover obtain h' k where "write_events env es h = Some (True, map noted es, h')" "store_ok (st h')"
      "event_log (st h') = drop k (event_log (st h) @ map event_row (filter (\<lambda>e. ev_valid e = 1) es))"
      "length (past (st h)) + 20 * length es < 10000 \<longrightarrow> k = 0"
      using Cons.IH[OF Cons.prems(1)] Cons.prems(2) by auto
    ultimately show ?thesis using False by (intro exI[of _ h'] exI[of _ k]) simp
  next
    case True
    obtain g j where g: "write_event env e h = Some (True, noted e, g)" "store_ok (st g)"
      "event_log (st g) = drop j (event_log (st h)) @ [event_row e]"
      "length (past (st g)) \<le> length (past (st h)) + 20" "length (past (st h)) < 10000 \<longrightarrow> j = 0"
      using write_event_works[OF db Cons.prems(1) True] Cons.prems(2) by auto
    obtain h' k where h': "write_events env es g = Some (True, map noted es, h')" "store_ok (st h')"
      "event_log (st h') = drop k (event_log (st g) @ map event_row (filter (\<lambda>e. ev_valid e = 1) es))"
      "length (past (st g)) + 20 * length es < 10000 \<longrightarrow> k = 0"
      using Cons.IH[OF g(2)] Cons.prems(2) by auto
    obtain m where m: "drop k (drop j xs @ ys) = drop m (xs @ ys)" "j = 0 \<and> k = 0 \<longrightarrow> m = 0"
      if "xs = event_log (st h)" "ys = event_row e # map event_row (filter (\<lambda>e. ev_valid e = 1) es)" for xs ys
      using drop_drop_append[of k j "event_log (st h)"] by blast
    have "event_log (st h') = drop m (event_log (st h) @ map event_row (filter (\<lambda>e. ev_valid e = 1) (e # es)))"
      using m(1)[OF refl refl] True by (simp add: h'(3) g(3))
    moreover note m(2)[OF refl refl]
    moreover have "write_events env (e # es) h = Some (True, map noted (e # es), h')" by (simp add: g(1) h'(1))
    moreover have "length (past (st h)) + 20 * length (e # es) < 10000 \<longrightarrow> j = 0 \<and> k = 0"
      using g(4,5) h'(4) by simp
    ultimately show ?thesis using h'(2) by blast
  qed
qed

text \<open>
  C8: with a data base that executes the statements, one pass over the events writes every event
  marked as valid exactly once and in order, clears its mark, and keeps the tables in their shape: the
  past rows followed by the at most 20 current ones are a final part of the log, and the whole of it as long
  as the table of the past is not full.
\<close>

theorem events_logged:
  assumes "event_db env st" "store_ok (st h)" "\<forall>e \<in> set (e # es). CHR 0x27 \<notin> set (start_time e)"
  shows "\<exists>h' k. WriteCurEventToTable (Some env) (e # es) h = Some (True, map noted (e # es), h') \<and> store_ok (st h')
      \<and> event_log (st h') = drop k (event_log (st h) @ map event_row (filter (\<lambda>e. ev_valid e = 1) (e # es)))
      \<and> (k = 0 \<or> 10000 \<le> length (past (st h)) + 20 * length (e # es))"
proof -
  have w: "WriteCurEventToTable (Some env) (e # es) h = write_events env (e # es) h"
    by (simp add: WriteCurEventToTable_def del: write_events.simps)
  show ?thesis using write_events_works[OF assms] unfolding w not_less[symmetric] by blast
qed

section \<open>A data base\<close>

definition CUR_INSERT :: string where "CUR_INSERT = ''insert into TBL_EVENT_CURRENT values(NULL, ''"

definition sql_step :: "string \<Rightarrow> store \<Rightarrow> store" where
  "sql_step sql s =
     (if sql = rotate_sql TBL_EVENT_HISTORY EVENT_COLS TBL_EVENT_CURRENT then rotate_store s
      else if sql = oldest_sql TBL_EVENT_HISTORY EVENT_COLS TBL_EVENT_CURRENT then oldest_store s
      else if sql = flush_sql TBL_EVENT_HISTORY EVENT_COLS TBL_EVENT_CURRENT then flush_store s
      else if sql = set_seq_sql TBL_EVENT_CURRENT then set_seq_store s
      else if sql = halve_sql TBL_EVENT_HISTORY then halve_store s
      else if take (length CUR_INSERT) sql = CUR_INSERT
        then insert_store (drop (length CUR_INSERT) (take (length sql - 5) sql)) s
      else s)"

fun sql_store :: "store \<Rightarrow> db_op list \<Rightarrow> store" where
  "sql_store s [] = s"
| "sql_store s (Exec sql # h) = sql_store (sql_step sql s) h"
| "sql_store s (Query sql # h) = sql_store s h"

definition sql_env :: "store \<Rightarrow> db_env" where
  "sql_env s = \<lparr>de_exec = \<lambda>h sql. True, de_query = \<lambda>h sql.
     Some ([None, Some (pr_d (if sql = count_sql TBL_EVENT_CURRENT then int (length (cur (sql_store s h)))
       else if sql = count_sql TBL_EVENT_HISTORY then int (length (past (sql_store s h)))
       else seqn (sql_store s h)))], 1, 1)\<rparr>"

lemma sql_store_append: "sql_store s (xs @ ys) = sql_store (sql_store s xs) ys"
  by (induction s xs rule: sql_store.induct) simp_all

lemma event_values_row: "event_values e = event_row e @ '', 0''"
  by (simp add: event_values_def event_row_def pr_d_def dec_nat.simps dec_digit_def char_of_def bit_0 bit_Suc)

lemma sql_step_texts:
  "sql_step BEGIN_SQL s = s" "sql_step COMMIT_SQL s = s"
  "sql_step (rotate_sql TBL_EVENT_HISTORY EVENT_COLS TBL_EVENT_CURRENT) s = rotate_store s"
  "sql_step (oldest_sql TBL_EVENT_HISTORY EVENT_COLS TBL_EVENT_CURRENT) s = oldest_store s"
  "sql_step (flush_sql TBL_EVENT_HISTORY EVENT_COLS TBL_EVENT_CURRENT) s = flush_store s"
  "sql_step (set_seq_sql TBL_EVENT_CURRENT) s = set_seq_store s"
  "sql_step (halve_sql TBL_EVENT_HISTORY) s = halve_store s"
  by (simp_all add: sql_step_def rotate_sql_def oldest_sql_def flush_sql_def copy_sql_def set_seq_sql_def halve_sql_def
      Let_def BEGIN_SQL_def COMMIT_SQL_def CUR_INSERT_def TBL_EVENT_CURRENT_def TBL_EVENT_HISTORY_def EVENT_COLS_def
      tabs_def quoted_def numeral_2_eq_2 numeral_3_eq_3)

lemma sql_step_insert: "sql_step (insert_sql TBL_EVENT_CURRENT (event_values e)) s = insert_store (event_row e) s"
proof -
  have i: "insert_sql TBL_EVENT_CURRENT (event_values e) = CUR_INSERT @ event_row e @ '', 0);''"
    by (simp add: insert_sql_def TBL_EVENT_CURRENT_def CUR_INSERT_def event_values_row)
  have "insert_sql TBL_EVENT_CURRENT (event_values e) \<noteq> sql"
    if "take 23 sql \<noteq> ''insert into TBL_EVENT_C''" for sql
    using that unfolding i by (auto simp: CUR_INSERT_def)
  then have "insert_sql TBL_EVENT_CURRENT (event_values e) \<noteq> rotate_sql TBL_EVENT_HISTORY EVENT_COLS TBL_EVENT_CURRENT"
    "insert_sql TBL_EVENT_CURRENT (event_values e) \<noteq> oldest_sql TBL_EVENT_HISTORY EVENT_COLS TBL_EVENT_CURRENT"
    "insert_sql TBL_EVENT_CURRENT (event_values e) \<noteq> flush_sql TBL_EVENT_HISTORY EVENT_COLS TBL_EVENT_CURRENT"
    "insert_sql TBL_EVENT_CURRENT (event_values e) \<noteq> set_seq_sql TBL_EVENT_CURRENT"
    "insert_sql TBL_EVENT_CURRENT (event_values e) \<noteq> halve_sql TBL_EVENT_HISTORY"
    by (simp_all add: rotate_sql_def oldest_sql_def flush_sql_def copy_sql_def set_seq_sql_def halve_sql_def Let_def
        TBL_EVENT_HISTORY_def)
  then show ?thesis by (simp add: sql_step_def) (simp add: i)
qed

lemma sql_env_event_db: "event_db (sql_env s) (sql_store s)"
proof -
  have "count_sql TBL_EVENT_CURRENT \<noteq> count_sql TBL_EVENT_HISTORY" "seq_sql TBL_EVENT_CURRENT \<noteq> count_sql TBL_EVENT_CURRENT"
    "seq_sql TBL_EVENT_CURRENT \<noteq> count_sql TBL_EVENT_HISTORY"
    by (simp_all add: count_sql_def seq_sql_def TBL_EVENT_CURRENT_def TBL_EVENT_HISTORY_def)
  then show ?thesis
    by (simp add: event_db_def effect_def answers_def sql_env_def cell_def arr_def sql_store_append sql_step_texts sql_step_insert)
qed

definition full_store :: store where
  "full_store = \<lparr>cur = map (\<lambda>i. (i, ''old'')) [1..20], past = [], seqn = 20\<rparr>"

lemma events_logged_witness:
  "\<exists>h'. WriteCurEventToTable (Some (sql_env full_store)) [some_event] [] = Some (True, [noted some_event], h')
     \<and> event_log (sql_store full_store h') = replicate 20 ''old'' @ [event_row some_event]
     \<and> length (cur (sql_store full_store h')) \<le> 20"
proof -
  have u: "[1..20::int] = [1,2,3,4,5,6,7,8,9,10,11,12,13,14,15,16,17,18,19,20]" by code_simp
  have ok: "store_ok (sql_store full_store [])" "event_log full_store = replicate 20 ''old''"
    by (simp_all add: full_store_def store_ok_def u consecutive_Nil event_log_def numeral_nat)
  have t: "\<forall>e \<in> set [some_event]. CHR 0x27 \<notin> set (start_time e)" by (simp add: some_event_def)
  obtain h' k where h: "WriteCurEventToTable (Some (sql_env full_store)) [some_event] [] = Some (True, map noted [some_event], h')"
    "store_ok (sql_store full_store h')"
    "event_log (sql_store full_store h') = drop k (event_log (sql_store full_store [])
       @ map event_row (filter (\<lambda>e. ev_valid e = 1) [some_event]))"
    "k = 0 \<or> 10000 \<le> length (past (sql_store full_store [])) + 20 * length [some_event]"
    using events_logged[OF sql_env_event_db ok(1) t] by blast
  have "k = 0" using h(4) by (simp add: full_store_def)
  then show ?thesis using h ok(2) by (simp add: some_event_def store_ok_def)
qed

end
