(* ===== verification/FpgaInputs.thy ===== *)
theory FpgaInputs
  imports Fpga
begin

unbundle bit_operations_syntax

text \<open>
  An FPGA whose accesses succeed and whose registers read as given inputs: what the properties of the
  processes assume of a working device.
\<close>

text \<open>A write adds its request, whatever the driver answers.\<close>

lemma write_request: "snd (FpgaWrite ioctl addr v reqs) = reqs @ [(FPGA_WRITE, addr * 65536 + u16 v)]"
  if "0 \<le> addr" "addr < 65536"
proof -
  have "u32 (push_bit 16 addr) OR u16 v = push_bit 16 addr OR u16 v"
    using that by (simp add: push_bit_eq_mult)
  also have "\<dots> = addr * 65536 + u16 v" using or_low[of "u16 v" 16 addr] by simp
  finally show ?thesis by (simp add: FpgaWrite_def Let_def split: prod.split)
qed

text \<open>The driver writes without failing, and reads give what the inputs of the FPGA are at the time.\<close>

definition driver_inputs :: "driver \<Rightarrow> (request list \<Rightarrow> int \<Rightarrow> int) \<Rightarrow> bool" where
  "driver_inputs ioctl inp \<longleftrightarrow> (\<forall>reqs temp. 0 \<le> fst (ioctl FPGA_WRITE temp reqs))
     \<and> (\<forall>reqs addr. 0 \<le> inp reqs addr \<and> inp reqs addr < 65536)
     \<and> (\<forall>reqs addr. 0 \<le> addr \<longrightarrow> addr < 65536 \<longrightarrow>
          ioctl FPGA_READ (addr * 65536) reqs = (1, addr * 65536 + inp reqs addr))"

lemma driver_inputs_read:
  assumes "driver_inputs ioctl inp" "0 \<le> addr" "addr < 65536"
  shows "FpgaRead ioctl addr reqs = (Some (inp reqs addr), reqs @ [(FPGA_READ, addr * 65536)])"
proof -
  have t: "u32 (push_bit 16 addr) = addr * 65536" using assms(2,3) by (simp add: push_bit_eq_mult)
  have r: "ioctl FPGA_READ (addr * 65536) reqs = (1, addr * 65536 + inp reqs addr)"
    and b: "0 \<le> inp reqs addr" "inp reqs addr < 65536"
    using assms by (simp_all add: driver_inputs_def)
  have "(addr * 65536 + inp reqs addr) AND 0xFFFF = inp reqs addr"
    using take_bit_eq_mask[of 16 "addr * 65536 + inp reqs addr"] b
    by (simp add: mask_eq_exp_minus_1 take_bit_eq_mod)
  then show ?thesis using b by (simp add: FpgaRead_def t r)
qed

lemma driver_inputs_write:
  assumes "driver_inputs ioctl inp" "0 \<le> addr" "addr < 65536"
  shows "FpgaWrite ioctl addr value reqs = (True, reqs @ [(FPGA_WRITE, addr * 65536 + u16 value)])"
proof -
  have w: "0 \<le> fst (ioctl FPGA_WRITE t reqs)" for t using assms(1) by (simp add: driver_inputs_def)
  have "u32 (push_bit 16 addr) OR u16 value = push_bit 16 addr OR u16 value"
    using assms(2,3) by (simp add: push_bit_eq_mult)
  also have "\<dots> = addr * 65536 + u16 value" using or_low[of "u16 value" 16 addr] by simp
  finally show ?thesis using w[of "addr * 65536 + u16 value"]
    by (auto simp: FpgaWrite_def Let_def split: prod.splits)
qed

end
