(* ===== verification/LibCommon.thy ===== *)
theory LibCommon
  imports CText
begin

unbundle bit_operations_syntax

text \<open>
  The small functions of \<^verbatim>\<open>src/lib/lib_common.c\<close>: binary coded decimals, the checksum by exclusive
  or, numbers in hexadecimal, and the search of a process by its name. \<open>notify\<close> only sends a signal.
\<close>

section \<open>Definitions\<close>

definition bcd2decimal :: "int \<Rightarrow> int" where
  "bcd2decimal val = u8 ((val AND 0x0F) + drop_bit 4 val * 10)"

definition decimal2bcd :: "int \<Rightarrow> int" where
  "decimal2bcd val = u8 (push_bit 4 (val div 10) + val mod 10)"

fun data_xor_from :: "8 word \<Rightarrow> bytes \<Rightarrow> 8 word" where
  "data_xor_from c [] = c"
| "data_xor_from c (b # bs) = data_xor_from (c XOR b) bs"

definition data_xor :: "bytes \<Rightarrow> 8 word" where
  "data_xor data = data_xor_from 0 data"

text \<open>The number of characters before the end, which need not be the zero; without it there is no result.\<close>

definition strlen_r :: "string \<Rightarrow> char \<Rightarrow> int option" where
  "strlen_r str e = (if e \<in> set str then Some (int (length (takeWhile ((\<noteq>) e) str))) else None)"

text \<open>\<open>reverse\<close> swaps from both ends, \<open>j\<close> starting at the last character.\<close>

function reverse_loop :: "int \<Rightarrow> int \<Rightarrow> string \<Rightarrow> string" where
  "reverse_loop i j s =
     (if i < j then reverse_loop (i + 1) (j - 1) (s[nat i := s ! nat j, nat j := s ! nat i]) else s)"
  by pat_completeness auto
termination by (relation "measure (\<lambda>(i, j, s). nat (j - i))") auto

declare reverse_loop.simps [simp del]

definition reverse :: "string \<Rightarrow> string" where
  "reverse s = reverse_loop 0 (int (length s) - 1) s"

text \<open>
  \<open>itohexa\<close> divides as C does, towards zero: a negative number has one digit, its remainder plus
  \<open>0x37\<close>.
\<close>

definition hex_digit :: "int \<Rightarrow> char" where
  "hex_digit temp = char_of (nat (if 0 \<le> temp \<and> temp \<le> 9 then temp + 0x30 else temp + 0x37))"

definition rem16 :: "int \<Rightarrow> int" where "rem16 n = (if n < 0 then - ((- n) mod 16) else n mod 16)"
definition quot16 :: "int \<Rightarrow> int" where "quot16 n = (if n < 0 then - ((- n) div 16) else n div 16)"

function itohexa_digits :: "int \<Rightarrow> string" where
  "itohexa_digits n = hex_digit (rem16 n) # (if quot16 n > 0 then itohexa_digits (quot16 n) else [])"
  by pat_completeness auto
termination by (relation "measure nat") (auto simp: quot16_def split: if_splits)

declare itohexa_digits.simps [simp del]

definition itohexa :: "int \<Rightarrow> string" where
  "itohexa n = reverse (itohexa_digits n)"

text \<open>
  \<open>find_pid_by_name\<close> over the entries of \<^verbatim>\<open>/proc\<close>: for each its name and the first line of its \<open>stat\<close>
  (\<open>None\<close> when it cannot be opened or read). \<open>memcmp\<close> compares as many characters as the name of the
  process in the line has, so a longer name that is searched for matches its beginning. The flag tells
  that the directory itself could be opened and was read to its end.
\<close>

definition proc_name :: "string \<Rightarrow> string option" where
  "proc_name line =
     (if CHR ''('' \<in> set line \<and> CHR '')'' \<in> set line then
        (let p1 = length (takeWhile ((\<noteq>) (CHR ''('')) line);
             p2 = length line - 1 - length (takeWhile ((\<noteq>) (CHR '')'')) (rev line))
         in if p2 + 1 < length line \<and> line ! (p2 + 1) = CHR '' ''
            then Some (drop (p1 + 1) (take p2 line)) else None)
      else None)"

fun find_pid :: "string \<Rightarrow> (string \<times> string option) list \<Rightarrow> bool \<Rightarrow> int \<Rightarrow> int" where
  "find_pid procName [] ok ret_pid = (if ok then ret_pid else - 1)"
| "find_pid procName ((name, stat) # es) ok ret_pid =
     (if name = [] \<or> \<not> is_digit (hd name) then find_pid procName es ok ret_pid
      else case stat of None \<Rightarrow> - 1
      | Some line \<Rightarrow> (case proc_name line of None \<Rightarrow> - 1
        | Some p \<Rightarrow>
            if take (length p) procName = p then
              (if ret_pid = 0 \<or> atoi name < ret_pid then find_pid procName es ok (atoi name)
               else find_pid procName es ok ret_pid)
            else find_pid procName es ok ret_pid))"

definition find_pid_by_name :: "string \<Rightarrow> (string \<times> string option) list option \<Rightarrow> bool \<Rightarrow> int" where
  "find_pid_by_name procName dir ok = (case dir of None \<Rightarrow> - 1 | Some es \<Rightarrow> find_pid procName es ok 0)"

section \<open>Binary coded decimals\<close>

lemma decimal2bcd_digits:
  assumes "0 \<le> v" "v < 100"
  shows "decimal2bcd v = v div 10 * 16 + v mod 10"
proof -
  have "v div 10 * 16 + v mod 10 < 256" using assms by auto
  then show ?thesis using assms by (simp add: decimal2bcd_def push_bit_eq_mult)
qed

lemma bcd2decimal_digits:
  assumes "0 \<le> h" "h < 10" "0 \<le> l" "l < 10"
  shows "bcd2decimal (h * 16 + l) = h * 10 + l"
proof -
  have "(h * 16 + l) AND 15 = l"
    using assms take_bit_eq_mask[of 4 "h * 16 + l"] by (simp add: mask_eq_exp_minus_1 take_bit_eq_mod)
  moreover have "drop_bit 4 (h * 16 + l) = h" using assms by (simp add: drop_bit_eq_div)
  moreover have "l + h * 10 < 256" using assms by simp
  ultimately show ?thesis using assms by (simp add: bcd2decimal_def)
qed

lemma bcd_inverse: "0 \<le> v \<Longrightarrow> v < 100 \<Longrightarrow> bcd2decimal (decimal2bcd v) = v"
  by (simp add: decimal2bcd_digits bcd2decimal_digits div_add1_eq)

section \<open>Hexadecimal numbers\<close>

lemma reverse_loop_parts:
  "i = length a \<Longrightarrow> j = int (length a) + int (length b) - 1 \<Longrightarrow>
   reverse_loop (int i) j (a @ b @ c) = a @ rev b @ c"
proof (induction "length b" arbitrary: a b c i j rule: less_induct)
  case less
  show ?case
  proof (cases "length b < 2")
    case True
    then have "rev b = b" by (cases b; cases "tl b") auto
    then show ?thesis using less.prems True by (simp add: reverse_loop.simps)
  next
    case False
    then obtain x m y where b: "b = x # m @ [y]"
      by (metis append_butlast_last_id length_Cons less_2_cases_iff list.exhaust list.size(3) One_nat_def)
    have s: "(a @ b @ c)[nat (int i) := (a @ b @ c) ! nat j, nat j := (a @ b @ c) ! nat (int i)] = (a @ [y]) @ m @ ([x] @ c)"
    proof -
      have j: "nat j = length a + (1 + length m)" using less.prems by (simp add: b)
      show ?thesis unfolding j using less.prems(1)
        by (simp add: b nth_append list_update_append)
    qed
    have lt: "int i < j" using less.prems b by simp
    have "reverse_loop (int i) j (a @ b @ c) = reverse_loop (int (i + 1)) (j - 1) ((a @ [y]) @ m @ ([x] @ c))"
      unfolding reverse_loop.simps[of "int i" j] s using lt by (simp add: add.commute)
    also have "\<dots> = (a @ [y]) @ rev m @ ([x] @ c)"
      by (rule less.hyps) (use less.prems b in auto)
    finally show ?thesis by (simp add: b)
  qed
qed

lemma reverse_rev: "reverse s = rev s"
  using reverse_loop_parts[of 0 "[]" "int (length s) - 1" s "[]"] by (simp add: reverse_def)

definition hex_value :: "char \<Rightarrow> int" where
  "hex_value c = (if is_digit c then int (of_char c) - 48 else int (of_char c) - 55)"

fun hex_number :: "int \<Rightarrow> string \<Rightarrow> int" where
  "hex_number acc [] = acc"
| "hex_number acc (c # cs) = hex_number (acc * 16 + hex_value c) cs"

lemma hex_number_append: "hex_number a (xs @ ys) = hex_number (hex_number a xs) ys"
  by (induction a xs rule: hex_number.induct) simp_all

lemma hex_value_digit: "0 \<le> t \<Longrightarrow> t < 16 \<Longrightarrow> hex_value (hex_digit t) = t"
  by (auto simp: hex_value_def hex_digit_def is_digit_def of_char_of)

lemma itohexa_step: "0 \<le> n \<Longrightarrow> itohexa n = (if 16 \<le> n then itohexa (n div 16) else []) @ [hex_digit (n mod 16)]"
  unfolding itohexa_def reverse_rev
  by (subst itohexa_digits.simps) (simp add: rem16_def quot16_def pos_imp_zdiv_pos_iff)

lemma itohexa_value:
  assumes "0 \<le> n" shows "hex_number 0 (itohexa n) = n"
  using assms
proof (induction "nat n" arbitrary: n rule: less_induct)
  case less
  show ?case
  proof (cases "16 \<le> n")
    case True
    then have "hex_number 0 (itohexa (n div 16)) = n div 16" using less.hyps[of "n div 16"] by simp
    then show ?thesis using less.prems True by (subst itohexa_step) (simp_all add: hex_number_append hex_value_digit)
  next
    case False
    then show ?thesis using less.prems by (subst itohexa_step) (simp_all add: hex_value_digit)
  qed
qed

lemma data_xor_append: "data_xor_from c (xs @ ys) = data_xor_from (data_xor_from c xs) ys"
  by (induction c xs rule: data_xor_from.induct) simp_all

text \<open>The checksum makes the exclusive or over data and checksum zero, so it detects each changed byte.\<close>

lemma data_xor_check: "data_xor (xs @ [data_xor xs]) = 0"
  by (simp add: data_xor_def data_xor_append)

end
