(* ===== verification/OutTod.thy ===== *)
theory OutTod
  imports AllocTables FpgaInputs LibCommon
begin

unbundle bit_operations_syntax

text \<open>
  What the output process tells the FPGA about the time of day, \<^verbatim>\<open>src/d-output/dout_tod.c\<close>, and the
  frequency of the mains, \<open>write_tod_freq\<close> of \<^verbatim>\<open>src/d-output/dout_time.c\<close>.

  The variable \<open>pps_state\<close> of the code has no initial value; \<open>pps0\<close> is what its memory holds.
\<close>

section \<open>Definitions\<close>

text \<open>The hours of the time zones \<open>@\<close>, \<open>A\<close> to \<open>W\<close>.\<close>

definition gTzTbl :: "int list" where
  "gTzTbl = [0, 1, 2, 3, 4, 5, 6, 7, 8, 9, 10, 11, 12, - 11, - 10, - 9, - 8, - 7, - 6, - 5, - 4, - 3, - 2, - 1]"

text \<open>The part of the context that is used; \<open>has_lock\<close> is a static variable of the code.\<close>

record todCtx =
  leapForecast :: int
  leapstate :: int
  out_zone :: "int list"
  pps_count :: int
  has_lock :: int
  treqs :: "request list"

definition tod_read :: "driver \<Rightarrow> int \<Rightarrow> todCtx \<Rightarrow> int option \<times> todCtx" where
  "tod_read drv addr ctx = (case FpgaRead drv addr (treqs ctx) of (v, rs) \<Rightarrow> (v, ctx\<lparr>treqs := rs\<rparr>))"

definition tod_write :: "driver \<Rightarrow> int \<Rightarrow> int \<Rightarrow> todCtx \<Rightarrow> bool \<times> todCtx" where
  "tod_write drv addr v ctx = (case FpgaWrite drv addr v (treqs ctx) of (ok, rs) \<Rightarrow> (ok, ctx\<lparr>treqs := rs\<rparr>))"

text \<open>
  The tag of a group; the offset of the zone is a \<open>u16_t\<close>, which is never below zero. A zone that is not
  a letter of the table reads outside of it.
\<close>

definition set_bit_if :: "bool \<Rightarrow> nat \<Rightarrow> int \<Rightarrow> int" where
  "set_bit_if b i v = (if b then v OR BIT i else v AND NOT (BIT i))"

definition tod_tag :: "int \<Rightarrow> int \<Rightarrow> int option" where
  "tod_tag leap zone =
     (case arr gTzTbl (zone - 64) of
        None \<Rightarrow> None
      | Some hours \<Rightarrow>
          (let offset = u16 hours;
               tag = set_bit_if (offset < 0) 4 0;
               offset = (if offset < 0 then u16 (- offset) else offset);
               tag = u16 (tag OR push_bit 8 offset)
           in Some (set_bit_if (leap \<noteq> 0) 1 tag)))"

definition irigb_leap :: "todCtx \<Rightarrow> int" where
  "irigb_leap ctx = set_bit_if (leapstate ctx = 2) 1 (set_bit_if (leapForecast ctx \<noteq> 0) 0 0)"

text \<open>The state of the PPS and the quality of the time.\<close>

definition tod_state :: "int \<Rightarrow> int \<Rightarrow> int \<Rightarrow> int \<Rightarrow> int \<Rightarrow> int \<Rightarrow> int \<Rightarrow> int \<times> int" where
  "tod_state pps0 lock clock_state clock_type clock_stratum tsrc_type tsrc_flag =
     (if clock_state = 0 then (0x02, if lock = 1 then 0x0F else 0x0F)
      else if clock_state = 3 then (0x02, 0x0A)
      else if clock_state \<ge> 4 then
        (let r = (pps0, 0x0F);
             r = (if tsrc_type = GPS_SOURCE_TYPE \<or> tsrc_type = IRIGB1_SOURCE_TYPE \<or> tsrc_type = IRIGB2_SOURCE_TYPE
                    \<or> tsrc_type = TOD_SOURCE_TYPE then (0x00, 0x00) else r)
         in if tsrc_flag = FREQ_SOURCE_FLAG then (0x01, 0x04) else r)
      else if clock_state = 1 \<or> clock_state = 2 then
        (let r = (pps0, 0x0F);
             r = (if clock_type = 2 \<or> (clock_stratum = 2 \<and> tsrc_flag = FREQ_SOURCE_FLAG) then (0x03, 0x06) else r)
         in if clock_type = 1 \<or> (clock_stratum = 1 \<and> tsrc_flag = FREQ_SOURCE_FLAG) then (0x05, 0x05) else r)
      else (0x02, 0x0F))"

text \<open>The four writes in their order; a write that fails ends them.\<close>

fun tod_writes :: "driver \<Rightarrow> (int \<times> int) list \<Rightarrow> todCtx \<Rightarrow> bool \<times> todCtx" where
  "tod_writes drv [] ctx = (True, ctx)"
| "tod_writes drv ((addr, v) # ws) ctx =
     (case tod_write drv addr v ctx of (ok, ctx) \<Rightarrow> if ok then tod_writes drv ws ctx else (False, ctx))"

definition tod_reads :: "driver \<Rightarrow> todCtx \<Rightarrow> (int \<times> int \<times> int \<times> int) option \<times> todCtx" where
  "tod_reads drv ctx =
     (case tod_read drv FPGA_RBXO_STA ctx of (None, ctx) \<Rightarrow> (None, ctx) | (Some clock_state, ctx) \<Rightarrow>
     (case tod_read drv FPGA_RBXO_TYP ctx of (None, ctx) \<Rightarrow> (None, ctx) | (Some clock_type, ctx) \<Rightarrow>
     (case tod_read drv FPGA_SYS_INSRC_STRATUM ctx of (None, ctx) \<Rightarrow> (None, ctx) | (Some clock_stratum, ctx) \<Rightarrow>
     (case tod_read drv FPGA_SYS_INSRC_SELECT ctx of (None, ctx) \<Rightarrow> (None, ctx) | (Some clock_source, ctx) \<Rightarrow>
        (Some (clock_state, clock_type, clock_stratum, clock_source), ctx)))))"

definition china_mobile_miit_tod :: "driver \<Rightarrow> int \<Rightarrow> todCtx \<Rightarrow> (bool \<times> todCtx) option" where
  "china_mobile_miit_tod drv pps0 ctx =
     (case (arr (out_zone ctx) 0, arr (out_zone ctx) 1, arr (out_zone ctx) 2, arr (out_zone ctx) 3) of
        (Some z1, Some z2, Some z3, Some z4) \<Rightarrow>
     (case (tod_tag (leapForecast ctx) z1, tod_tag (leapForecast ctx) z2, tod_tag (leapForecast ctx) z3,
            tod_tag (leapForecast ctx) z4) of
        (Some tag1, Some _, Some _, Some _) \<Rightarrow>
          (let ctx = ctx\<lparr>pps_count := (if pps_count ctx + 1 > 172800 then 0 else pps_count ctx + 1)\<rparr>
           in case tod_reads drv ctx of
                (None, ctx) \<Rightarrow> Some (False, ctx)
              | (Some (clock_state, clock_type, clock_stratum, clock_source), ctx) \<Rightarrow>
                  (let tsrc_type = FIND_TYPE_BY_FPGA_VAL clock_source NO_SOURCE_TYPE;
                       tsrc_flag = FIND_FLAG_BY_FPGA_VAL clock_source INVALID_SOURCE_FLAG;
                       ctx = (if clock_state = 4 then ctx\<lparr>has_lock := 1\<rparr> else ctx)
                   in case tod_state pps0 (has_lock ctx) clock_state clock_type clock_stratum tsrc_type tsrc_flag of
                        (pps_state, quality) \<Rightarrow>
                          Some (tod_writes drv
                            [(FPGA_SYS_OUT_TOD_PPS_STATE, pps_state),
                             (FPGA_SYS_OUT_TOD_PPS_JITTER, quality),
                             (FPGA_SYS_OUT_TOD_TAG, u16 (tag1 OR push_bit 12 quality)),
                             (FPGA_SYS_OUT_IRIGB_LEAP_FORECAST, irigb_leap ctx)] ctx)))
      | _ \<Rightarrow> None)
      | _ \<Rightarrow> None)"

text \<open>
  The frequency: the code divides 100000 by the period in \<open>double\<close> and truncates it, and 1000 times it, to
  \<open>int\<close>. For a period from 1250 to 2500 neither quotient is closer than 1/2500 to an integer unless it is
  one, and then it is exact (the period is a product of powers of 2 and 5 and the quotient has at
  most three decimals that are multiples of 1/8), so the truncation is that of the quotient.
\<close>

definition mains_period :: "int \<Rightarrow> int \<Rightarrow> int option" where
  "mains_period pf1 pf2 =
     (if 1250 \<le> pf1 \<and> pf1 \<le> 2500 then Some pf1 else if 1250 \<le> pf2 \<and> pf2 \<le> 2500 then Some pf2 else None)"

definition freq_regs :: "int \<Rightarrow> int \<times> int" where
  "freq_regs pf =
     (let pf_int = u16 (100000 div pf);
          pf_fra = u16 ((100000000 div pf) mod 1000);
          tmp_int = decimal2bcd (u8 pf_int);
          tmp_fra = u16 (push_bit 8 (decimal2bcd (u8 (pf_fra div 100)))) OR decimal2bcd (u8 (pf_fra mod 100))
      in (tmp_int, tmp_fra))"

definition write_tod_freq :: "driver \<Rightarrow> todCtx \<Rightarrow> bool \<times> todCtx" where
  "write_tod_freq drv ctx =
     (case tod_read drv FPGA_1ST_PWR_FREQ ctx of (None, ctx) \<Rightarrow> (False, ctx) | (Some pf1, ctx) \<Rightarrow>
     (case tod_read drv FPGA_2ND_PWR_FREQ ctx of (None, ctx) \<Rightarrow> (False, ctx) | (Some pf2, ctx) \<Rightarrow>
     (case mains_period pf1 pf2 of
        None \<Rightarrow> (False, ctx)
      | Some pf \<Rightarrow>
          (case freq_regs pf of (tmp_int, tmp_fra) \<Rightarrow>
             tod_writes drv [(FPGA_PWR_FREQ_INT, tmp_int), (FPGA_PWR_FREQ_FRA, tmp_fra)] ctx))))"

end
