(* ===== verification/EventFlags.thy ===== *)
theory EventFlags
  imports AllocTables EventStore LibTime
begin

text \<open>
  The macros of \<^verbatim>\<open>alloc.h\<close> that mark an event in the index table: the flag of an entry is cleared at
  the start of a pass, and a mark makes the entry valid when it was not marked in the pass before.
  \<open>EventStore\<close> writes the valid entries.
\<close>

definition SID_SYS_SLOT :: int where "SID_SYS_SLOT = 1"
definition SID_SYS_PORT :: int where "SID_SYS_PORT = 1"

definition is_event :: "int \<Rightarrow> int \<Rightarrow> int \<Rightarrow> evnt_inx \<Rightarrow> bool" where
  "is_event i slot port e \<longleftrightarrow> i = evnt_id e \<and> slot = ev_slot e \<and> port = ev_port e"

text \<open>The first entry with the three members gets the flag.\<close>

fun INIT_EVNTFLAG_BY_SLOT_PORT_ID :: "int \<Rightarrow> int \<Rightarrow> int \<Rightarrow> int \<Rightarrow> evnt_inx list \<Rightarrow> evnt_inx list" where
  "INIT_EVNTFLAG_BY_SLOT_PORT_ID i slot port v [] = []"
| "INIT_EVNTFLAG_BY_SLOT_PORT_ID i slot port v (e # es) =
     (if is_event i slot port e then e\<lparr>new_flag := v\<rparr> # es
      else e # INIT_EVNTFLAG_BY_SLOT_PORT_ID i slot port v es)"

definition pr_pad :: "nat \<Rightarrow> int \<Rightarrow> string" where
  "pr_pad n i = replicate (n - length (pr_d i)) (CHR ''0'') @ pr_d i"

definition time_text :: "timeinfo \<Rightarrow> string" where
  "time_text t = pr_pad 4 (ti_year t) @ ''-'' @ pr_pad 2 (ti_month t) @ ''-'' @ pr_pad 2 (ti_day t) @ '' ''
     @ pr_pad 2 (ti_hour t) @ '':'' @ pr_pad 2 (ti_minute t) @ '':'' @ pr_pad 2 (ti_second t)"

text \<open>
  An entry whose old flag is 0 becomes valid and ends the search, with the time when the time can be read. One
  whose old flag is set only gets its new flag, and the search goes on.
\<close>

fun SET_EVNTFLAGVALID_BID_BY_SLOT_PORT_ID ::
    "int \<Rightarrow> int \<Rightarrow> int \<Rightarrow> int \<Rightarrow> timeinfo option \<Rightarrow> evnt_inx list \<Rightarrow> evnt_inx list" where
  "SET_EVNTFLAGVALID_BID_BY_SLOT_PORT_ID i slot port bid t [] = []"
| "SET_EVNTFLAGVALID_BID_BY_SLOT_PORT_ID i slot port bid t (e # es) =
     (if is_event i slot port e then
        (if old_flag e = 0 then
           (case t of None \<Rightarrow> e\<lparr>new_flag := 1, ev_valid := 1, ev_bid := bid\<rparr>
            | Some t \<Rightarrow> e\<lparr>new_flag := 1, ev_valid := 1, ev_bid := bid, start_time := time_text t\<rparr>) # es
         else e\<lparr>new_flag := 1\<rparr> # SET_EVNTFLAGVALID_BID_BY_SLOT_PORT_ID i slot port bid t es)
      else e # SET_EVNTFLAGVALID_BID_BY_SLOT_PORT_ID i slot port bid t es)"

definition SET_EVNTFLAGVALID_BY_SLOT_PORT_ID :: "int \<Rightarrow> int \<Rightarrow> int \<Rightarrow> timeinfo option \<Rightarrow> evnt_inx list \<Rightarrow> evnt_inx list" where
  "SET_EVNTFLAGVALID_BY_SLOT_PORT_ID i slot port t es = SET_EVNTFLAGVALID_BID_BY_SLOT_PORT_ID i slot port BID_NONE t es"

text \<open>\<open>INIT_EVNTFLAG\<close>: every entry gets the flag.\<close>

definition INIT_EVNTFLAG :: "int \<Rightarrow> evnt_inx list \<Rightarrow> evnt_inx list" where
  "INIT_EVNTFLAG v es = map (\<lambda>e. e\<lparr>new_flag := v\<rparr>) es"

end
