(* ===== verification/OutTime.thy ===== *)
theory OutTime
  imports OutTod EventFlags
begin

unbundle bit_operations_syntax

text \<open>
  The thread of the output process, \<^verbatim>\<open>src/d-output/dout_time.c\<close>: at each interrupt of the FPGA (one in a
  second) it tells the time of day, and from time to time it sets the clock of the system to the
  time of the FPGA. The events that it raises go to the tables of \<open>EventStore\<close>.
\<close>

section \<open>The state\<close>

text \<open>
  The local and static variables of the code are part of the state, with the times that the clock of
  the system was set to and the number of the calls of the system.
\<close>

record thr =
  tod :: todCtx
  odb :: "db_op list"
  evnts :: "evnt_inx list"
  set_times :: "int list"
  ncalls :: nat
  pre_sec :: int
  timeout :: int
  pre_clock_state :: int
  enable_flag :: int

text \<open>What it runs on: the FPGA, whether the n-th call sets the clock, what it reads, the data base, and the stack.\<close>

record outEnv =
  oe_fpga :: driver
  oe_settime :: "nat \<Rightarrow> bool"
  oe_gettime :: "nat \<Rightarrow> timeinfo option"
  oe_db :: db_env
  oe_pps0 :: int

definition thr_read :: "outEnv \<Rightarrow> int \<Rightarrow> thr \<Rightarrow> int option \<times> thr" where
  "thr_read env addr s = (case tod_read (oe_fpga env) addr (tod s) of (v, c) \<Rightarrow> (v, s\<lparr>tod := c\<rparr>))"

definition thr_write :: "outEnv \<Rightarrow> int \<Rightarrow> int \<Rightarrow> thr \<Rightarrow> bool \<times> thr" where
  "thr_write env addr v s = (case tod_write (oe_fpga env) addr v (tod s) of (ok, c) \<Rightarrow> (ok, s\<lparr>tod := c\<rparr>))"

section \<open>Setting the clock\<close>

definition SEC1900_1970 :: int where "SEC1900_1970 = 0x83aa7e80"
definition OUT_SEC1900_2018 :: int where "OUT_SEC1900_2018 = 0xDDF3F880"
definition OUT_SEC1900_2036 :: int where "OUT_SEC1900_2036 = 0xFFFFFFFF"

text \<open>The time of the FPGA in seconds since 1900; reading it latches it first.\<close>

definition read_seconds :: "outEnv \<Rightarrow> thr \<Rightarrow> int option \<times> thr" where
  "read_seconds env s =
     (case thr_write env FPGA_SYS_LOCK_TIME 0x0000 s of (False, s) \<Rightarrow> (None, s) | (True, s) \<Rightarrow>
     (case thr_write env FPGA_SYS_LOCK_TIME 0x0001 s of (False, s) \<Rightarrow> (None, s) | (True, s) \<Rightarrow>
     (case thr_read env FPGA_SYS_HIGH_SECOND s of (None, s) \<Rightarrow> (None, s) | (Some high_sec, s) \<Rightarrow>
     (case thr_read env FPGA_SYS_MED_SECOND s of (None, s) \<Rightarrow> (None, s) | (Some med_sec, s) \<Rightarrow>
     (case thr_read env FPGA_SYS_LOW_SECOND s of (None, s) \<Rightarrow> (None, s) | (Some low_sec, s) \<Rightarrow>
        (Some (push_bit 32 high_sec OR push_bit 16 med_sec OR low_sec), s))))))"

definition sec_accepted :: "int \<Rightarrow> int \<Rightarrow> bool" where
  "sec_accepted pre cur \<longleftrightarrow> \<not> (OUT_SEC1900_2018 > cur \<or> OUT_SEC1900_2036 < cur \<or> pre > cur)"

definition set_systime :: "outEnv \<Rightarrow> thr \<Rightarrow> bool \<times> thr" where
  "set_systime env s =
     (case read_seconds env s of
        (None, s) \<Rightarrow> (False, s)
      | (Some sec, s) \<Rightarrow>
          if sec_accepted (pre_sec s) sec then
            (let s = s\<lparr>pre_sec := sec, ncalls := ncalls s + 1\<rparr>
             in if oe_settime env (ncalls s) then (True, s\<lparr>set_times := set_times s @ [s32 (sec - SEC1900_1970)]\<rparr>)
                else (False, s))
          else (False, s))"

section \<open>The thread\<close>

definition UPDATE_EVENT :: int where "UPDATE_EVENT = SNMP_EVNT_ID E_SYSTIME_UPDATE"

text \<open>
  The check of the clock: the update is enabled after two checks that saw the state 3 (fast tracking) or
  higher, and disabled after two that saw the state 0. \<open>False\<close> leaves the loop.
\<close>

definition clock_enable :: "int \<Rightarrow> int \<Rightarrow> int \<Rightarrow> int" where
  "clock_enable clock_state pre flag =
     (if clock_state \<ge> 3 \<and> pre \<ge> 3 then 1 else if clock_state = 0 \<and> pre = 0 then 0 else flag)"

definition check_clock :: "outEnv \<Rightarrow> thr \<Rightarrow> bool \<times> thr" where
  "check_clock env s =
     (case thr_read env FPGA_RBXO_STA s of
        (None, s) \<Rightarrow> (False, s)
      | (Some clock_state, s) \<Rightarrow>
          (let s = s\<lparr>enable_flag := clock_enable clock_state (pre_clock_state s) (enable_flag s),
                     pre_clock_state := clock_state\<rparr>
           in if enable_flag s = 1 then
                (case set_systime env s of
                   (True, s) \<Rightarrow>
                     (True, s\<lparr>timeout := 3600, ncalls := ncalls s + 1,
                       evnts := SET_EVNTFLAGVALID_BY_SLOT_PORT_ID UPDATE_EVENT SID_SYS_SLOT SID_SYS_PORT
                         (oe_gettime env (ncalls s + 1)) (evnts s)\<rparr>)
                 | (False, s) \<Rightarrow> (True, s\<lparr>timeout := 60\<rparr>))
              else (True, s\<lparr>timeout := 60\<rparr>)))"

text \<open>The body of the loop for an interrupt.\<close>

definition tick :: "outEnv \<Rightarrow> thr \<Rightarrow> (bool \<times> thr) option" where
  "tick env s =
     (let s = s\<lparr>evnts := INIT_EVNTFLAG_BY_SLOT_PORT_ID UPDATE_EVENT SID_SYS_SLOT SID_SYS_PORT 0 (evnts s)\<rparr>;
          due = (timeout s = 0);
          s = s\<lparr>timeout := timeout s - 1\<rparr>
      in case (if due then check_clock env s else (True, s)) of
           (False, s) \<Rightarrow> Some (False, s)
         | (True, s) \<Rightarrow>
             (case china_mobile_miit_tod (oe_fpga env) (oe_pps0 env) (tod s) of
                None \<Rightarrow> None
              | Some (_, c) \<Rightarrow>
                  (case write_tod_freq (oe_fpga env) c of (_, c) \<Rightarrow>
                     map_option (\<lambda>(ok, es, h). (ok, s\<lparr>tod := c, evnts := es, odb := h\<rparr>))
                       (WriteCurEventToTable (Some (oe_db env)) (evnts s) (odb s)))))"

text \<open>
  The states of the thread between interrupts, the number of interrupts before and the interrupts at
  which the clock was set, the latest one first. Before the first one, \<open>timeout\<close> is 10.
\<close>

definition thr_start :: "thr \<Rightarrow> bool" where
  "thr_start s \<longleftrightarrow> set_times s = [] \<and> pre_sec s = 0 \<and> timeout s = 10 \<and> pre_clock_state s = 0 \<and> enable_flag s = 0"

inductive thread :: "outEnv \<Rightarrow> nat \<Rightarrow> nat list \<Rightarrow> thr \<Rightarrow> bool" for env where
  start: "thr_start s \<Longrightarrow> thread env 0 [] s"
| tick: "thread env n ts s \<Longrightarrow> tick env s = Some (True, s') \<Longrightarrow>
    thread env (Suc n) (if set_times s' = set_times s then ts else Suc n # ts) s'"

inductive_cases thread_0: "thread env 0 ts s"
inductive_cases thread_Suc: "thread env (Suc n) ts s"

end
