(* ===== verification/OutTodSpec.thy ===== *)
theory OutTodSpec
  imports OutTod
begin

unbundle bit_operations_syntax

text \<open>
  What the registers hold after the two functions of \<open>OutTod\<close>: the frequency as coded decimals, and
  the tag of the time of day, whose zone is wrong west of Greenwich.
\<close>

section \<open>The tag\<close>

definition tag_checks :: "int \<Rightarrow> bool \<Rightarrow> int \<Rightarrow> bool" where
  "tag_checks i leap q =
     (let hours = gTzTbl ! nat i; tag = u16 (the (tod_tag (if leap then 1 else 0) (64 + i)) OR push_bit 12 q)
      in tod_tag (if leap then 1 else 0) (64 + i) \<noteq> None \<and> (tag div 2 mod 2 = 1 \<longleftrightarrow> leap) \<and> tag div 16 mod 2 = 0
        \<and> tag div 4096 = (if hours < 0 then 15 else q)
        \<and> tag div 256 mod 16 = (if hours < 0 then 16 + hours else hours))"

lemma tag_checks_all: "list_all (\<lambda>i. list_all (\<lambda>q. tag_checks i True q \<and> tag_checks i False q) [0..15]) [0..23]"
  by code_simp

lemma tag_checks: "0 \<le> i \<Longrightarrow> i < 24 \<Longrightarrow> 0 \<le> q \<Longrightarrow> q < 16 \<Longrightarrow> tag_checks i leap q"
  using tag_checks_all by (cases leap) (auto simp: list_all_iff)

lemma tod_tag_leap: "tod_tag leap z = tod_tag (if leap \<noteq> 0 then 1 else 0) z"
  by (cases "leap = 0"; cases "arr gTzTbl (z - 64)") (simp_all add: tod_tag_def del: arr_None_iff)

lemma tod_state_quality:
  "0 \<le> snd (tod_state pps0 lock st ty str src flag)" "snd (tod_state pps0 lock st ty str src flag) < 16"
  by (auto simp: tod_state_def Let_def)

section \<open>The registers\<close>

lemma tod_regs:
  "FPGA_SYS_OUT_TOD_PPS_STATE = 53314" "FPGA_SYS_OUT_TOD_PPS_JITTER = 53315" "FPGA_SYS_OUT_TOD_TAG = 53312"
  "FPGA_SYS_OUT_IRIGB_LEAP_FORECAST = 53310" "FPGA_RBXO_STA = 53302" "FPGA_RBXO_TYP = 53301"
  "FPGA_SYS_INSRC_STRATUM = 53288" "FPGA_SYS_INSRC_SELECT = 53287" "FPGA_1ST_PWR_FREQ = 53276"
  "FPGA_2ND_PWR_FREQ = 53277" "FPGA_PWR_FREQ_INT = 53279" "FPGA_PWR_FREQ_FRA = 53280"
  by code_simp+

lemma tod_writes_inputs:
  assumes "driver_inputs drv inp"
  shows "list_all (\<lambda>(a, v). 0 \<le> a \<and> a < 65536) ws \<Longrightarrow>
    tod_writes drv ws ctx = (True, ctx\<lparr>treqs := treqs ctx @ map (\<lambda>(a, v). (FPGA_WRITE, a * 65536 + u16 v)) ws\<rparr>)"
proof (induction ws arbitrary: ctx)
  case (Cons w ws)
  obtain a v where w: "w = (a, v)" by (cases w)
  show ?case using Cons driver_inputs_write[OF assms, of a v "treqs ctx"] by (simp add: w tod_write_def)
qed simp

lemma foldl_reg_other:
  "a \<notin> fst ` set ws \<Longrightarrow> foldl (reg_step a) x (map (\<lambda>(a, v). (FPGA_WRITE, a * 65536 + u16 v)) ws) = x"
  by (induction ws arbitrary: x) (auto simp: reg_step_write)

lemma reg_after_writes:
  "distinct (map fst ws) \<Longrightarrow> (a, v) \<in> set ws \<Longrightarrow>
   reg_after a (rs @ map (\<lambda>(a, v). (FPGA_WRITE, a * 65536 + u16 v)) ws) = u16 v"
proof (induction ws arbitrary: rs)
  case (Cons w ws)
  obtain b u where w: "w = (b, u)" by (cases w)
  show ?case
  proof (cases "(a, v) = w")
    case True
    then show ?thesis using Cons.prems(1) foldl_reg_other[of a ws]
      by (simp add: w reg_after_def reg_step_write)
  next
    case False
    then show ?thesis using Cons.prems Cons.IH[of "rs @ [(FPGA_WRITE, b * 65536 + u16 u)]"] by (auto simp: w)
  qed
qed simp

text \<open>
  With a working FPGA, the time of day is told for every zone and leap announcement, and the tag
  carries the announcement; its quality and its zone are right for the zones from Greenwich to the
  east. For a zone to the west the sign bit is not set, the tag says the hours to a full
  16 instead, and its quality reads 15 (time not reliable) whatever the state of the clock is.
\<close>

theorem west_zones_wrong:
  assumes "driver_inputs drv inp" "out_zone ctx = [z1, z2, z3, z4, z5]"
    "{z1, z2, z3, z4} \<subseteq> {64..87}"
  shows "\<exists>ctx' q. china_mobile_miit_tod drv pps0 ctx = Some (True, ctx')
    \<and> reg_after FPGA_SYS_OUT_TOD_PPS_JITTER (treqs ctx') = q \<and> q \<in> {0..15}
    \<and> (let tag = reg_after FPGA_SYS_OUT_TOD_TAG (treqs ctx'); hours = gTzTbl ! nat (z1 - 64)
       in (tag div 2 mod 2 = 1 \<longleftrightarrow> leapForecast ctx \<noteq> 0) \<and> tag div 16 mod 2 = 0
         \<and> tag div 4096 = (if hours < 0 then 15 else q)
         \<and> tag div 256 mod 16 = (if hours < 0 then 16 + hours else hours))"
proof -
  have t: "\<exists>tag. tod_tag l z = Some tag" if "z \<in> {64..87}" for l z
    using that tag_checks[of "z - 64" 0 "l \<noteq> 0"] tod_tag_leap[of l z] by (auto simp: tag_checks_def Let_def)
  obtain t1 t2 t3 t4 where tt: "tod_tag (leapForecast ctx) z1 = Some t1" "tod_tag (leapForecast ctx) z2 = Some t2"
    "tod_tag (leapForecast ctx) z3 = Some t3" "tod_tag (leapForecast ctx) z4 = Some t4"
    using t assms(3) by (metis insert_subset)
  note rd = driver_inputs_read[OF assms(1)]
  define c1 where "c1 = ctx\<lparr>pps_count := (if pps_count ctx + 1 > 172800 then 0 else pps_count ctx + 1)\<rparr>"
  obtain st ty str src c2 where r: "tod_reads drv c1 = (Some (st, ty, str, src), c2)" "leapForecast c2 = leapForecast ctx"
    by (simp add: tod_reads_def tod_read_def rd tod_regs c1_def)
  define c3 where "c3 = (if st = 4 then c2\<lparr>has_lock := 1\<rparr> else c2)"
  obtain pps q where s: "tod_state pps0 (has_lock c3) st ty str (FIND_TYPE_BY_FPGA_VAL src NO_SOURCE_TYPE)
      (FIND_FLAG_BY_FPGA_VAL src INVALID_SOURCE_FLAG) = (pps, q)"
    by (cases "tod_state pps0 (has_lock c3) st ty str (FIND_TYPE_BY_FPGA_VAL src NO_SOURCE_TYPE)
      (FIND_FLAG_BY_FPGA_VAL src INVALID_SOURCE_FLAG)")
  have q: "0 \<le> q" "q < 16"
    using tod_state_quality[of pps0 "has_lock c3" st ty str "FIND_TYPE_BY_FPGA_VAL src NO_SOURCE_TYPE"
      "FIND_FLAG_BY_FPGA_VAL src INVALID_SOURCE_FLAG"] by (simp_all add: s)
  let ?ws = "[(FPGA_SYS_OUT_TOD_PPS_STATE, pps), (FPGA_SYS_OUT_TOD_PPS_JITTER, q),
    (FPGA_SYS_OUT_TOD_TAG, u16 (t1 OR push_bit 12 q)), (FPGA_SYS_OUT_IRIGB_LEAP_FORECAST, irigb_leap c3)]"
  have w: "tod_writes drv ?ws c3 = (True, c3\<lparr>treqs := treqs c3 @ map (\<lambda>(a, v). (FPGA_WRITE, a * 65536 + u16 v)) ?ws\<rparr>)"
    by (rule tod_writes_inputs[OF assms(1)]) (simp add: tod_regs)
  have c: "china_mobile_miit_tod drv pps0 ctx = Some (tod_writes drv ?ws c3)"
    unfolding china_mobile_miit_tod_def c1_def[symmetric]
    using assms(2) by (simp add: arr_def tt r c3_def[symmetric] s)
  have k: "tag_checks (z1 - 64) (leapForecast ctx \<noteq> 0) q" using assms(3) q by (intro tag_checks) auto
  have d: "distinct (map fst ?ws)" by (simp add: tod_regs)
  have r2: "reg_after FPGA_SYS_OUT_TOD_PPS_JITTER (treqs (snd (tod_writes drv ?ws c3))) = q"
    "reg_after FPGA_SYS_OUT_TOD_TAG (treqs (snd (tod_writes drv ?ws c3))) = u16 (t1 OR push_bit 12 q)"
    unfolding w
    using reg_after_writes[OF d, of FPGA_SYS_OUT_TOD_PPS_JITTER q "treqs c3"]
      reg_after_writes[OF d, of FPGA_SYS_OUT_TOD_TAG "u16 (t1 OR push_bit 12 q)" "treqs c3"] q by simp_all
  have "tod_tag (if leapForecast ctx \<noteq> 0 then 1 else 0) z1 = Some t1" using tt(1) tod_tag_leap[of "leapForecast ctx" z1] by simp
  then have "(let tag = u16 (t1 OR push_bit 12 q); hours = gTzTbl ! nat (z1 - 64)
       in (tag div 2 mod 2 = 1 \<longleftrightarrow> leapForecast ctx \<noteq> 0) \<and> tag div 16 mod 2 = 0
         \<and> tag div 4096 = (if hours < 0 then 15 else q)
         \<and> tag div 256 mod 16 = (if hours < 0 then 16 + hours else hours))"
    using k by (simp add: tag_checks_def Let_def)
  moreover have "tod_writes drv ?ws c3 = (True, snd (tod_writes drv ?ws c3))" unfolding w by simp
  ultimately show ?thesis using q r2 unfolding c
    by (intro exI[of _ "snd (tod_writes drv ?ws c3)"] exI[of _ q]) auto
qed

definition flat_inputs :: "(int \<Rightarrow> int) \<Rightarrow> driver" where
  "flat_inputs f cmd temp reqs = (1, if cmd = FPGA_READ then temp + f (temp div 65536) else temp)"

lemma flat_inputs_ok: "(\<And>a. 0 \<le> f a \<and> f a < 65536) \<Longrightarrow> driver_inputs (flat_inputs f) (\<lambda>reqs. f)"
  by (simp add: driver_inputs_def flat_inputs_def FPGA_READ_def FPGA_WRITE_def)

lemma west_zones_wrong_witness:
  "\<exists>ctx'. china_mobile_miit_tod (flat_inputs (\<lambda>_. 4)) 0 \<lparr>leapForecast = 1, leapstate = 1, out_zone = [ 83, 64, 64, 64, 64],
      pps_count = 0, has_lock = 0, treqs = []\<rparr> = Some (True, ctx')
    \<and> reg_after FPGA_SYS_OUT_TOD_TAG (treqs ctx') div 4096 = 15 \<and> reg_after FPGA_SYS_OUT_TOD_TAG (treqs ctx') div 256 mod 16 = 11"
proof -
  let ?c = "\<lparr>leapForecast = 1, leapstate = 1, out_zone = [ 83, 64, 64, 64, 64], pps_count = 0, has_lock = 0, treqs = []\<rparr>"
  have d: "driver_inputs (flat_inputs (\<lambda>_. 4)) (\<lambda>reqs _. 4)" by (rule flat_inputs_ok) simp
  show ?thesis using west_zones_wrong[OF d, of ?c 83 64 64 64 64 0] by (auto simp: Let_def gTzTbl_def)
qed

section \<open>The frequency\<close>

lemma freq_regs_value:
  assumes pf: "1250 \<le> pf" "pf \<le> 2500" and r: "freq_regs pf = (i, f)"
  shows "bcd2decimal i * 1000 + bcd2decimal (f div 256) * 100 + bcd2decimal (f mod 256) = 100000000 div pf"
    "u16 i = i" "u16 f = f"
proof -
  define n where "n = 100000000 div pf"
  have n: "n \<le> 80000" "40000 \<le> n"
  proof -
    have "100000000 div pf \<le> 100000000 div 1250" using pf by (intro zdiv_mono2) auto
    moreover have "100000000 div 2500 \<le> 100000000 div pf" using pf by (intro zdiv_mono2) auto
    ultimately show "n \<le> 80000" "40000 \<le> n" by (simp_all add: n_def)
  qed
  have hi: "100000 div pf = n div 1000"
    unfolding n_def using zdiv_zmult2_eq[of 1000 100000000 pf] zdiv_zmult2_eq[of pf 100000000 1000] pf
    by (simp add: mult.commute)
  define a b c where "a = n div 1000" and "b = n mod 1000 div 100" and "c = n mod 1000 mod 100"
  have abc: "0 \<le> a" "a < 100" "0 \<le> b" "b < 10" "0 \<le> c" "c < 100" "a * 1000 + b * 100 + c = n"
  proof -
    have "n mod 1000 < 1000" "0 \<le> n mod 1000" by simp_all
    then show "0 \<le> b" "b < 10" by (auto simp: b_def)
    show "0 \<le> a" "a < 100" using n by (auto simp: a_def)
    show "0 \<le> c" "c < 100" by (simp_all add: c_def)
    have "b * 100 + c = n mod 1000" unfolding b_def c_def by (rule div_mult_mod_eq)
    then show "a * 1000 + b * 100 + c = n" using div_mult_mod_eq[of n 1000] unfolding a_def by linarith
  qed
  have u: "u16 (n mod 1000) = n mod 1000" "u16 a = a" "u8 a = a" "u8 b = b" "u8 c = c"
    using abc by simp_all
  have cr: "0 \<le> decimal2bcd c" "decimal2bcd c < 256" "0 \<le> decimal2bcd a" "decimal2bcd a < 256"
    by (simp_all add: decimal2bcd_def)
  have d: "decimal2bcd b = b" using abc by (simp add: decimal2bcd_digits)
  have g: "u16 (push_bit 8 b) OR decimal2bcd c = b * 256 + decimal2bcd c"
  proof -
    have "b * 256 < 65536" using abc by simp
    then have "u16 (push_bit 8 b) = push_bit 8 b" using abc by (simp add: push_bit_eq_mult)
    then show ?thesis using or_low[of "decimal2bcd c" 8 b] cr by simp
  qed
  have i: "i = decimal2bcd a" and f: "f = b * 256 + decimal2bcd c"
    using r unfolding freq_regs_def Let_def hi n_def[symmetric] a_def[symmetric] u
      b_def[symmetric] c_def[symmetric] d g by simp_all
  show "u16 i = i" "u16 f = f" using cr abc by (simp_all add: i f)
  have dm: "f div 256 = b" "f mod 256 = decimal2bcd c"
    using cr unfolding f by (auto intro: div_eqI simp: mod_mult_self3)
  have "bcd2decimal b = b" using bcd2decimal_digits[of 0 b] abc by simp
  then show "bcd2decimal i * 1000 + bcd2decimal (f div 256) * 100 + bcd2decimal (f mod 256) = 100000000 div pf"
    using abc by (simp add: i dm bcd_inverse n_def[symmetric])
qed

text \<open>
  With a working FPGA, when one of the two measured periods is that of 40 to 80 Hz, the two registers
  get the frequency to a thousandth, cut, as coded decimals; the first input is preferred.
\<close>

theorem frequency_told:
  assumes "driver_inputs drv inp"
    "mains_period (inp (treqs ctx) FPGA_1ST_PWR_FREQ)
       (inp (treqs ctx @ [(FPGA_READ, FPGA_1ST_PWR_FREQ * 65536)]) FPGA_2ND_PWR_FREQ) = Some pf"
  shows "\<exists>ctx'. write_tod_freq drv ctx = (True, ctx')
    \<and> (let i = reg_after FPGA_PWR_FREQ_INT (treqs ctx'); f = reg_after FPGA_PWR_FREQ_FRA (treqs ctx')
       in bcd2decimal i * 1000 + bcd2decimal (f div 256) * 100 + bcd2decimal (f mod 256) = 100000000 div pf)"
proof -
  have pf: "1250 \<le> pf" "pf \<le> 2500" using assms(2) by (auto simp: mains_period_def split: if_splits)
  obtain i f where r: "freq_regs pf = (i, f)" by (cases "freq_regs pf")
  note v = freq_regs_value[OF pf r]
  let ?ws = "[(FPGA_PWR_FREQ_INT, i), (FPGA_PWR_FREQ_FRA, f)]"
  define c1 where "c1 = ctx\<lparr>treqs := treqs ctx @ [(FPGA_READ, FPGA_1ST_PWR_FREQ * 65536)]\<rparr>"
  have r1: "tod_read drv FPGA_1ST_PWR_FREQ ctx = (Some (inp (treqs ctx) FPGA_1ST_PWR_FREQ), c1)"
    using driver_inputs_read[OF assms(1), of FPGA_1ST_PWR_FREQ "treqs ctx"] by (simp add: tod_read_def c1_def tod_regs)
  have "\<exists>c2. tod_read drv FPGA_2ND_PWR_FREQ c1 = (Some (inp (treqs c1) FPGA_2ND_PWR_FREQ), c2)"
    using driver_inputs_read[OF assms(1), of FPGA_2ND_PWR_FREQ "treqs c1"] by (simp add: tod_read_def tod_regs)
  then obtain c2 where r2: "tod_read drv FPGA_2ND_PWR_FREQ c1 = (Some (inp (treqs c1) FPGA_2ND_PWR_FREQ), c2)" by blast
  have "treqs c1 = treqs ctx @ [(FPGA_READ, FPGA_1ST_PWR_FREQ * 65536)]" by (simp add: c1_def)
  note r2 = r2[unfolded this]
  have c2: "write_tod_freq drv ctx = tod_writes drv ?ws c2"
    unfolding write_tod_freq_def r1 prod.case option.case r2 assms(2) r ..
  have w: "tod_writes drv ?ws c2 = (True, c2\<lparr>treqs := treqs c2 @ map (\<lambda>(a, v). (FPGA_WRITE, a * 65536 + u16 v)) ?ws\<rparr>)"
    by (rule tod_writes_inputs[OF assms(1)]) (simp add: tod_regs)
  have d: "distinct (map fst ?ws)" by (simp add: tod_regs)
  have "reg_after FPGA_PWR_FREQ_INT (treqs (snd (tod_writes drv ?ws c2))) = i"
    "reg_after FPGA_PWR_FREQ_FRA (treqs (snd (tod_writes drv ?ws c2))) = f"
    unfolding w
    using reg_after_writes[OF d, of FPGA_PWR_FREQ_INT i "treqs c2"] reg_after_writes[OF d, of FPGA_PWR_FREQ_FRA f "treqs c2"] v
    by simp_all
  moreover have "tod_writes drv ?ws c2 = (True, snd (tod_writes drv ?ws c2))" unfolding w by simp
  ultimately show ?thesis using v(1) unfolding c2 Let_def by (intro exI[of _ "snd (tod_writes drv ?ws c2)"]) auto
qed

lemma frequency_told_witness:
  "\<exists>ctx'. write_tod_freq (flat_inputs (\<lambda>_. 1999)) \<lparr>leapForecast = 0, leapstate = 0, out_zone = [], pps_count = 0, has_lock = 0, treqs = []\<rparr>
      = (True, ctx') \<and> bcd2decimal (reg_after FPGA_PWR_FREQ_INT (treqs ctx')) * 1000
        + bcd2decimal (reg_after FPGA_PWR_FREQ_FRA (treqs ctx') div 256) * 100
        + bcd2decimal (reg_after FPGA_PWR_FREQ_FRA (treqs ctx') mod 256) = 50025"
proof -
  have d: "driver_inputs (flat_inputs (\<lambda>_. 1999)) (\<lambda>reqs _. 1999)" by (rule flat_inputs_ok) simp
  show ?thesis
    using frequency_told[OF d, where ctx = "\<lparr>leapForecast = 0, leapstate = 0, out_zone = [], pps_count = 0, has_lock = 0, treqs = []\<rparr>" and pf = 1999]
    by (simp add: mains_period_def Let_def)
qed

end
