(* ===== verification/OutTimeSpec.thy ===== *)
theory OutTimeSpec
  imports OutTime OutTodSpec EventLog
begin

text \<open>
  The thread of the output process: an invariant of its states on the times that it sets the clock to,
  and the event that it leaves in the data base when it does.
\<close>

section \<open>What the steps change\<close>

lemma thr_readD: "thr_read env a s = (v, s') \<Longrightarrow> \<exists>c. s' = s\<lparr>tod := c\<rparr>"
  by (auto simp: thr_read_def split: prod.splits)

lemma thr_writeD: "thr_write env a w s = (ok, s') \<Longrightarrow> \<exists>c. s' = s\<lparr>tod := c\<rparr>"
  by (auto simp: thr_write_def split: prod.splits)

lemma read_secondsD: "read_seconds env s = (v, s') \<Longrightarrow> \<exists>c. s' = s\<lparr>tod := c\<rparr>"
  by (auto simp: read_seconds_def split: prod.splits bool.splits option.splits dest!: thr_readD thr_writeD)

lemma accepted_range:
  "sec_accepted pre sec \<Longrightarrow> pre \<le> sec \<and> s32 (sec - SEC1900_1970) = sec - SEC1900_1970
     \<and> 3723753600 \<le> sec \<and> sec \<le> 4294967295"
  by (auto simp: sec_accepted_def OUT_SEC1900_2018_def OUT_SEC1900_2036_def SEC1900_1970_def s32_id)

lemma clock_enableD: "clock_enable st pre flag = 1 \<Longrightarrow> pre \<ge> 3 \<or> flag = 1"
  by (auto simp: clock_enable_def split: if_splits)

text \<open>A check either sets the clock to an accepted time, or leaves the times.\<close>

lemma check_clockD:
  assumes "check_clock env s = (True, s')"
  shows "(\<exists>sec. sec_accepted (pre_sec s) sec \<and> pre_sec s' = sec \<and> set_times s' = set_times s @ [sec - SEC1900_1970]
        \<and> timeout s' = 3600 \<and> odb s' = odb s \<and> (pre_clock_state s \<ge> 3 \<or> enable_flag s = 1)
        \<and> (\<exists>t. evnts s' = SET_EVNTFLAGVALID_BY_SLOT_PORT_ID UPDATE_EVENT SID_SYS_SLOT SID_SYS_PORT (oe_gettime env t) (evnts s)))
    \<or> ((pre_sec s' = pre_sec s \<or> sec_accepted (pre_sec s) (pre_sec s')) \<and> set_times s' = set_times s \<and> timeout s' = 60
        \<and> odb s' = odb s \<and> evnts s' = evnts s)"
  using assms
  by (auto simp: check_clock_def set_systime_def Let_def split: prod.splits bool.splits option.splits if_splits
      dest!: thr_readD read_secondsD clock_enableD dest: accepted_range)

lemma tick_parts:
  assumes "tick env s = Some (ok, s')"
  obtains s1 c es h where
    "check_clock env (s\<lparr>evnts := INIT_EVNTFLAG_BY_SLOT_PORT_ID UPDATE_EVENT SID_SYS_SLOT SID_SYS_PORT 0 (evnts s),
       timeout := timeout s - 1\<rparr>) = (ok, s') \<and> timeout s = 0 \<and> \<not> ok
     \<or> (if timeout s = 0 then check_clock env (s\<lparr>evnts := INIT_EVNTFLAG_BY_SLOT_PORT_ID UPDATE_EVENT SID_SYS_SLOT SID_SYS_PORT 0 (evnts s),
           timeout := timeout s - 1\<rparr>) = (True, s1)
         else s1 = s\<lparr>evnts := INIT_EVNTFLAG_BY_SLOT_PORT_ID UPDATE_EVENT SID_SYS_SLOT SID_SYS_PORT 0 (evnts s), timeout := timeout s - 1\<rparr>)
       \<and> WriteCurEventToTable (Some (oe_db env)) (evnts s1) (odb s1) = Some (ok, es, h)
       \<and> s' = s1\<lparr>tod := c, evnts := es, odb := h\<rparr>"
  using assms by (auto simp: tick_def Let_def split: if_splits prod.splits bool.splits option.splits)

section \<open>The times\<close>

definition spaced :: "nat list \<Rightarrow> bool" where
  "spaced ts \<longleftrightarrow> successively (\<lambda>a b. b + 3601 \<le> a) ts \<and> (ts = [] \<or> 72 \<le> last ts)"

definition times_ok :: "int list \<Rightarrow> bool" where
  "times_ok xs \<longleftrightarrow> sorted xs \<and> list_all (\<lambda>t. 1514764800 \<le> t \<and> t \<le> 2085978495) xs"

definition thread_ok :: "nat \<Rightarrow> nat list \<Rightarrow> thr \<Rightarrow> bool" where
  "thread_ok n ts s \<longleftrightarrow> times_ok (set_times s) \<and> spaced ts \<and> length ts = length (set_times s)
     \<and> (\<forall>t \<in> set (set_times s). t + SEC1900_1970 \<le> pre_sec s) \<and> 0 \<le> timeout s
     \<and> (if ts \<noteq> [] then int (hd ts) + 3600 else if pre_clock_state s \<ge> 3 \<or> enable_flag s = 1 then 71 else 10) \<le> int n + timeout s"

lemma thread_ok_start: "thr_start s \<Longrightarrow> thread_ok 0 [] s"
  by (simp add: thr_start_def thread_ok_def times_ok_def spaced_def)

lemma times_ok_snoc:
  assumes "times_ok xs" "\<forall>t \<in> set xs. t + SEC1900_1970 \<le> pre" "sec_accepted pre sec"
  shows "times_ok (xs @ [sec - SEC1900_1970])"
  using assms accepted_range[OF assms(3)] by (fastforce simp: times_ok_def sorted_append SEC1900_1970_def)

lemma spaced_Cons: "spaced ts \<Longrightarrow> (if ts = [] then 72 else hd ts + 3601) \<le> n \<Longrightarrow> spaced (n # ts)"
  by (cases ts) (auto simp: spaced_def)

lemma tick_ok:
  assumes "tick env s = Some (True, s')" "thread_ok n ts s"
  shows "thread_ok (Suc n) (if set_times s' = set_times s then ts else Suc n # ts) s'"
proof -
  let ?s = "s\<lparr>evnts := INIT_EVNTFLAG_BY_SLOT_PORT_ID UPDATE_EVENT SID_SYS_SLOT SID_SYS_PORT 0 (evnts s), timeout := timeout s - 1\<rparr>"
  obtain s1 c es h where p: "if timeout s = 0 then check_clock env ?s = (True, s1) else s1 = ?s"
    "s' = s1\<lparr>tod := c, evnts := es, odb := h\<rparr>"
    by (rule tick_parts[OF assms(1)]) blast
  show ?thesis
  proof (cases "timeout s = 0")
    case False
    then show ?thesis using p assms(2) by (auto simp: thread_ok_def)
  next
    case True
    then have "check_clock env ?s = (True, s1)" using p(1) by simp
    from check_clockD[OF this] show ?thesis
    proof
      assume "\<exists>sec. sec_accepted (pre_sec ?s) sec \<and> pre_sec s1 = sec \<and> set_times s1 = set_times ?s @ [sec - SEC1900_1970]
        \<and> timeout s1 = 3600 \<and> odb s1 = odb ?s \<and> (pre_clock_state ?s \<ge> 3 \<or> enable_flag ?s = 1)
        \<and> (\<exists>t. evnts s1 = SET_EVNTFLAGVALID_BY_SLOT_PORT_ID UPDATE_EVENT SID_SYS_SLOT SID_SYS_PORT (oe_gettime env t) (evnts ?s))"
      then obtain sec where sec: "sec_accepted (pre_sec s) sec" "pre_sec s1 = sec"
        "set_times s1 = set_times s @ [sec - SEC1900_1970]" "timeout s1 = 3600" "pre_clock_state s \<ge> 3 \<or> enable_flag s = 1" by auto
      have "times_ok (set_times s @ [sec - SEC1900_1970])"
        using times_ok_snoc[OF _ _ sec(1)] assms(2) by (simp add: thread_ok_def)
      moreover have "spaced (Suc n # ts)"
        using assms(2) True sec(5) by (intro spaced_Cons) (auto simp: thread_ok_def)
      moreover have "\<forall>t \<in> set (set_times s). t + SEC1900_1970 \<le> sec"
        using assms(2) accepted_range[OF sec(1)] by (auto simp: thread_ok_def)
      ultimately show ?thesis using assms(2) sec(2-4) by (simp add: p(2) thread_ok_def)
    next
      assume "(pre_sec s1 = pre_sec ?s \<or> sec_accepted (pre_sec ?s) (pre_sec s1)) \<and> set_times s1 = set_times ?s
        \<and> timeout s1 = 60 \<and> odb s1 = odb ?s \<and> evnts s1 = evnts ?s"
      then have c: "pre_sec s \<le> pre_sec s1" "set_times s1 = set_times s" "timeout s1 = 60"
        using accepted_range[of "pre_sec s" "pre_sec s1"] by auto
      have "\<forall>t \<in> set (set_times s). t + SEC1900_1970 \<le> pre_sec s1"
        using assms(2) c(1) by (fastforce simp: thread_ok_def)
      then show ?thesis using assms(2) c True by (auto simp: p(2) thread_ok_def split: if_splits)
    qed
  qed
qed

lemma thread_thread_ok: "thread env n ts s \<Longrightarrow> thread_ok n ts s"
  by (induction rule: thread.induct) (auto intro: thread_ok_start dest: tick_ok)

text \<open>
  C19: in every state that the thread reaches, the clock of the system was only set to times from 2018 to
  2036, none of them before the one that was set last; the first time was set at the 72nd interrupt of its loop or later,
  and 3601 interrupts or more lie between one and the next. The times do not decrease, but they need not grow: when the
  seconds of the FPGA stand still, the clock of the system, which has run on, is set back to the same time. The waits are one
  interrupt longer than the 10, 60 and 3600 seconds of the comments, because the counter is compared before it is
  decremented.
\<close>

theorem clock_set_spaced:
  assumes "thread env n ts s"
  shows "times_ok (set_times s) \<and> length ts = length (set_times s) \<and> spaced ts"
  using thread_thread_ok[OF assms] by (simp add: thread_ok_def)

section \<open>A run\<close>

lemma tod_readD: "tod_read drv a c = (v, c') \<Longrightarrow> out_zone c' = out_zone c"
  by (auto simp: tod_read_def split: prod.splits)

lemma tod_writeD: "tod_write drv a v c = (ok, c') \<Longrightarrow> out_zone c' = out_zone c"
  by (auto simp: tod_write_def split: prod.splits)

lemma tod_writesD: "tod_writes drv ws c = (ok, c') \<Longrightarrow> out_zone c' = out_zone c"
proof (induction ws arbitrary: c)
  case (Cons w ws)
  then show ?case by (cases w) (auto split: prod.splits if_splits dest: tod_writeD)
qed simp

lemma tod_writes_ex: "out_zone c = z \<Longrightarrow> \<exists>ok c'. tod_writes drv ws c = (ok, c') \<and> out_zone c' = z"
  using tod_writesD[of drv ws c] by (cases "tod_writes drv ws c") auto

lemma tod_readsD: "tod_reads drv c = (v, c') \<Longrightarrow> out_zone c' = out_zone c"
  by (auto simp: tod_reads_def split: prod.splits option.splits dest!: tod_readD)

definition zones_ok :: "todCtx \<Rightarrow> bool" where
  "zones_ok c \<longleftrightarrow> (\<exists>z1 z2 z3 z4 z5. out_zone c = [z1, z2, z3, z4, z5] \<and> {z1, z2, z3, z4} \<subseteq> {64..87})"

lemma tag_defined: "z \<in> {64..87} \<Longrightarrow> \<exists>tag. tod_tag l z = Some tag"
  using tag_checks[of "z - 64" 0 "l \<noteq> 0"] tod_tag_leap[of l z] by (auto simp: tag_checks_def Let_def)

lemma tod_defined:
  assumes "zones_ok c"
  obtains ok c' where "china_mobile_miit_tod drv pps0 c = Some (ok, c')" "zones_ok c'"
proof -
  obtain z1 z2 z3 z4 z5 where z: "out_zone c = [z1, z2, z3, z4, z5]" "{z1, z2, z3, z4} \<subseteq> {64..87}"
    using assms by (auto simp: zones_ok_def)
  obtain t1 t2 t3 t4 where t: "tod_tag (leapForecast c) z1 = Some t1" "tod_tag (leapForecast c) z2 = Some t2"
    "tod_tag (leapForecast c) z3 = Some t3" "tod_tag (leapForecast c) z4 = Some t4"
    using tag_defined z(2) by (metis insert_subset)
  define c1 where "c1 = c\<lparr>pps_count := (if pps_count c + 1 > 172800 then 0 else pps_count c + 1)\<rparr>"
  have "\<exists>ok c'. china_mobile_miit_tod drv pps0 c = Some (ok, c') \<and> out_zone c' = out_zone c1"
    unfolding china_mobile_miit_tod_def c1_def[symmetric]
    by (auto simp: z(1) arr_def t Let_def simp del: tod_writes.simps split: prod.splits option.splits
        dest!: tod_readsD intro!: tod_writes_ex)
  then show ?thesis using that z by (auto simp: zones_ok_def c1_def)
qed

lemma freq_zones: "write_tod_freq drv c = (ok, c') \<Longrightarrow> zones_ok c \<Longrightarrow> zones_ok c'"
  by (auto simp: write_tod_freq_def zones_ok_def simp del: tod_writes.simps split: prod.splits option.splits
      dest!: tod_readD tod_writesD)

text \<open>An event that is not raised, and a tick that checks nothing.\<close>

definition quiet :: "thr \<Rightarrow> bool" where
  "quiet s \<longleftrightarrow> zones_ok (tod s) \<and> (\<exists>e. evnts s = [e] \<and> ev_valid e = 0 \<and> evnt_id e = 0)"

lemma tick_quiet:
  assumes "quiet s" "if timeout s = 0 then check_clock env (s\<lparr>evnts := INIT_EVNTFLAG_BY_SLOT_PORT_ID UPDATE_EVENT
      SID_SYS_SLOT SID_SYS_PORT 0 (evnts s), timeout := timeout s - 1\<rparr>) = (True, s1) \<and> quiet s1
    else s1 = s\<lparr>evnts := INIT_EVNTFLAG_BY_SLOT_PORT_ID UPDATE_EVENT SID_SYS_SLOT SID_SYS_PORT 0 (evnts s), timeout := timeout s - 1\<rparr>"
  shows "\<exists>c es. tick env s = Some (True, s1\<lparr>tod := c, evnts := es\<rparr>) \<and> quiet (s1\<lparr>tod := c, evnts := es\<rparr>)"
proof -
  have q: "quiet s1" using assms by (auto simp: quiet_def split: if_splits)
  then obtain e where e: "evnts s1 = [e]" "ev_valid e = 0" "evnt_id e = 0" by (auto simp: quiet_def)
  obtain ok c where c: "china_mobile_miit_tod (oe_fpga env) (oe_pps0 env) (tod s1) = Some (ok, c)" "zones_ok c"
    using tod_defined q quiet_def by metis
  obtain ok2 c2 where c2: "write_tod_freq (oe_fpga env) c = (ok2, c2)" "zones_ok c2"
    using freq_zones[OF _ c(2)] by (metis surj_pair)
  have w: "WriteCurEventToTable (Some (oe_db env)) (evnts s1) (odb s1) = Some (True, [event_done e], odb s1)"
    using e by (simp add: WriteCurEventToTable_def write_event_def)
  have "tick env s = Some (True, s1\<lparr>tod := c2, evnts := [event_done e], odb := odb s1\<rparr>)"
    using assms(2) c(1) c2(1) w by (cases "timeout s = 0") (auto simp: tick_def Let_def)
  then show ?thesis using e c2(2) by (intro exI[of _ c2] exI[of _ "[event_done e]"]) (simp add: quiet_def event_done_def)
qed

lemma quiet_init: "quiet s \<Longrightarrow> quiet (s\<lparr>evnts := INIT_EVNTFLAG_BY_SLOT_PORT_ID i sl p 0 (evnts s), timeout := t\<rparr>)"
  by (auto simp: quiet_def)

lemma quiet_run:
  "thread env n ts s \<Longrightarrow> quiet s \<Longrightarrow> timeout s = int k \<Longrightarrow>
   \<exists>s'. thread env (n + k) ts s' \<and> quiet s' \<and> timeout s' = 0 \<and> pre_clock_state s' = pre_clock_state s
     \<and> enable_flag s' = enable_flag s \<and> set_times s' = set_times s \<and> pre_sec s' = pre_sec s"
proof (induction k arbitrary: n s)
  case 0
  then show ?case by auto
next
  case (Suc k)
  define s1 where "s1 = s\<lparr>evnts := INIT_EVNTFLAG_BY_SLOT_PORT_ID UPDATE_EVENT SID_SYS_SLOT SID_SYS_PORT 0 (evnts s), timeout := timeout s - 1\<rparr>"
  obtain c es where t: "tick env s = Some (True, s1\<lparr>tod := c, evnts := es\<rparr>)" "quiet (s1\<lparr>tod := c, evnts := es\<rparr>)"
    using tick_quiet[of s env s1] Suc.prems(2,3) by (auto simp: s1_def)
  have "thread env (Suc n) ts (s1\<lparr>tod := c, evnts := es\<rparr>)"
    using thread.tick[OF Suc.prems(1) t(1)] by (simp add: s1_def)
  from Suc.IH[OF this t(2)] show ?case using Suc.prems(3) by (simp add: s1_def)
qed

definition demo_input :: "int \<Rightarrow> int" where
  "demo_input a = (if a = FPGA_RBXO_STA then 4 else if a = FPGA_SYS_MED_SECOND then 0xDDF4 else 0)"

definition demo_out :: outEnv where
  "demo_out = \<lparr>oe_fpga = flat_inputs demo_input, oe_settime = \<lambda>_. True, oe_gettime = \<lambda>_. None, oe_db = silent_db, oe_pps0 = 0\<rparr>"

lemma tod_driver_ok: "driver_inputs (oe_fpga demo_out) (\<lambda>reqs. demo_input)"
  unfolding demo_out_def outEnv.simps by (rule flat_inputs_ok) (simp add: demo_input_def)

lemma thr_read_inputs:
  assumes "driver_inputs (oe_fpga env) inp" "0 \<le> a" "a < 65536"
  shows "\<exists>c. thr_read env a s = (Some (inp (treqs (tod s)) a), s\<lparr>tod := c\<rparr>) \<and> out_zone c = out_zone (tod s)"
  by (intro exI[of _ "tod s\<lparr>treqs := treqs (tod s) @ [(FPGA_READ, a * 65536)]\<rparr>"])
    (simp add: thr_read_def tod_read_def driver_inputs_read[OF assms])

lemma thr_write_inputs:
  assumes "driver_inputs (oe_fpga env) inp" "0 \<le> a" "a < 65536"
  shows "\<exists>c. thr_write env a v s = (True, s\<lparr>tod := c\<rparr>) \<and> out_zone c = out_zone (tod s)"
  by (intro exI[of _ "tod s\<lparr>treqs := treqs (tod s) @ [(FPGA_WRITE, a * 65536 + u16 v)]\<rparr>"])
    (simp add: thr_write_def tod_write_def driver_inputs_write[OF assms])

lemma sec_regs:
  "FPGA_SYS_LOCK_TIME = 53291" "FPGA_SYS_HIGH_SECOND = 53293" "FPGA_SYS_MED_SECOND = 53294" "FPGA_SYS_LOW_SECOND = 53295"
  by code_simp+

lemma read_seconds_inputs:
  assumes d: "driver_inputs (oe_fpga env) (\<lambda>reqs. inp)"
  shows "\<exists>c. read_seconds env s = (Some (push_bit 32 (inp FPGA_SYS_HIGH_SECOND) OR push_bit 16 (inp FPGA_SYS_MED_SECOND)
      OR inp FPGA_SYS_LOW_SECOND), s\<lparr>tod := c\<rparr>) \<and> out_zone c = out_zone (tod s)"
proof -
  obtain c1 where 1: "thr_write env FPGA_SYS_LOCK_TIME 0 s = (True, s\<lparr>tod := c1\<rparr>)" "out_zone c1 = out_zone (tod s)"
    using thr_write_inputs[OF d, of FPGA_SYS_LOCK_TIME 0 s] by (auto simp: sec_regs)
  obtain c2 where 2: "thr_write env FPGA_SYS_LOCK_TIME 1 (s\<lparr>tod := c1\<rparr>) = (True, s\<lparr>tod := c2\<rparr>)" "out_zone c2 = out_zone c1"
    using thr_write_inputs[OF d, of FPGA_SYS_LOCK_TIME 1 "s\<lparr>tod := c1\<rparr>"] by (auto simp: sec_regs)
  obtain c3 where 3: "thr_read env FPGA_SYS_HIGH_SECOND (s\<lparr>tod := c2\<rparr>) = (Some (inp FPGA_SYS_HIGH_SECOND), s\<lparr>tod := c3\<rparr>)" "out_zone c3 = out_zone c2"
    using thr_read_inputs[OF d, of FPGA_SYS_HIGH_SECOND "s\<lparr>tod := c2\<rparr>"] by (auto simp: sec_regs)
  obtain c4 where 4: "thr_read env FPGA_SYS_MED_SECOND (s\<lparr>tod := c3\<rparr>) = (Some (inp FPGA_SYS_MED_SECOND), s\<lparr>tod := c4\<rparr>)" "out_zone c4 = out_zone c3"
    using thr_read_inputs[OF d, of FPGA_SYS_MED_SECOND "s\<lparr>tod := c3\<rparr>"] by (auto simp: sec_regs)
  obtain c5 where 5: "thr_read env FPGA_SYS_LOW_SECOND (s\<lparr>tod := c4\<rparr>) = (Some (inp FPGA_SYS_LOW_SECOND), s\<lparr>tod := c5\<rparr>)" "out_zone c5 = out_zone c4"
    using thr_read_inputs[OF d, of FPGA_SYS_LOW_SECOND "s\<lparr>tod := c4\<rparr>"] by (auto simp: sec_regs)
  show ?thesis unfolding read_seconds_def 1(1) prod.case bool.case 2(1) 3(1) option.case 4(1) 5(1)
    using 1(2) 2(2) 3(2) 4(2) 5(2) by auto
qed

lemma demo_values: "demo_input FPGA_RBXO_STA = 4"
  "push_bit 32 (demo_input FPGA_SYS_HIGH_SECOND) OR push_bit 16 (demo_input FPGA_SYS_MED_SECOND) OR demo_input FPGA_SYS_LOW_SECOND = 3723755520"
  by code_simp+

lemma check_sets:
  assumes d: "driver_inputs (oe_fpga env) (\<lambda>reqs. demo_input)" "\<And>n. oe_settime env n"
    and p: "enable_flag s = 0" "pre_clock_state s \<ge> 3" "pre_sec s \<le> 3723755520"
  shows "\<exists>c. check_clock env s = (True, s\<lparr>tod := c, enable_flag := 1, pre_clock_state := 4, pre_sec := 3723755520,
      ncalls := ncalls s + 2, set_times := set_times s @ [1514766720], timeout := 3600,
      evnts := SET_EVNTFLAGVALID_BY_SLOT_PORT_ID UPDATE_EVENT SID_SYS_SLOT SID_SYS_PORT (oe_gettime env (ncalls s + 2)) (evnts s)\<rparr>)
    \<and> out_zone c = out_zone (tod s)"
proof -
  obtain c1 where 1: "thr_read env FPGA_RBXO_STA s = (Some 4, s\<lparr>tod := c1\<rparr>)" "out_zone c1 = out_zone (tod s)"
    using thr_read_inputs[OF d(1), of FPGA_RBXO_STA s] unfolding demo_values(1) by (auto simp: tod_regs)
  let ?s = "s\<lparr>tod := c1, enable_flag := 1, pre_clock_state := 4\<rparr>"
  obtain c2 where 2: "read_seconds env ?s = (Some 3723755520, ?s\<lparr>tod := c2\<rparr>)" "out_zone c2 = out_zone c1"
    using read_seconds_inputs[OF d(1), of ?s] unfolding demo_values(2) by auto
  have ac: "sec_accepted (pre_sec s) 3723755520"
    using p(3) by (simp add: sec_accepted_def OUT_SEC1900_2018_def OUT_SEC1900_2036_def)
  show ?thesis using 1 2 p(1,2) d(2)
    by (intro exI[of _ c2]) (simp add: check_clock_def set_systime_def clock_enable_def ac SEC1900_1970_def)
qed

lemma check_waits:
  assumes d: "driver_inputs (oe_fpga env) (\<lambda>reqs. demo_input)" and p: "enable_flag s = 0" "pre_clock_state s < 3"
  shows "\<exists>c. check_clock env s = (True, s\<lparr>tod := c, enable_flag := 0, pre_clock_state := 4, timeout := 60\<rparr>)
    \<and> out_zone c = out_zone (tod s)"
proof -
  obtain c1 where "thr_read env FPGA_RBXO_STA s = (Some 4, s\<lparr>tod := c1\<rparr>)" "out_zone c1 = out_zone (tod s)"
    using thr_read_inputs[OF d, of FPGA_RBXO_STA s] unfolding demo_values(1) by (auto simp: tod_regs)
  then show ?thesis using p by (intro exI[of _ c1]) (simp add: check_clock_def clock_enable_def)
qed

lemma quiet_raise: "quiet s \<Longrightarrow> SET_EVNTFLAGVALID_BY_SLOT_PORT_ID UPDATE_EVENT sl p t (evnts s) = evnts s"
proof -
  have "UPDATE_EVENT \<noteq> 0" by code_simp
  then show "quiet s \<Longrightarrow> ?thesis" by (auto simp: quiet_def SET_EVNTFLAGVALID_BY_SLOT_PORT_ID_def is_event_def)
qed

definition demo_thr :: thr where
  "demo_thr = \<lparr>tod = \<lparr>leapForecast = 0, leapstate = 0, out_zone = [72, 64, 64, 64, 64], pps_count = 0, has_lock = 0, treqs = []\<rparr>,
     odb = [], evnts = [\<lparr>ev_index = 0, old_flag = 0, new_flag = 0, ev_valid = 0, ev_slot = 0, ev_port = 0, ev_bid = 0,
     evnt_id = 0, start_time = []\<rparr>], set_times = [], ncalls = 0, pre_sec = 0, timeout = 10, pre_clock_state = 0, enable_flag = 0\<rparr>"

text \<open>In this run the first check, at interrupt 11, sees the state 4; the second, at 72, sets the clock.\<close>

lemma demo_run: "\<exists>s. thread demo_out 72 [72] s \<and> set_times s = [1514766720]"
proof -
  have q: "quiet demo_thr" by (simp add: quiet_def zones_ok_def demo_thr_def)
  have "thread demo_out 0 [] demo_thr" by (rule thread.start) (simp add: thr_start_def demo_thr_def)
  from quiet_run[OF this q, of 10] obtain s1 where s1: "thread demo_out 10 [] s1" "quiet s1" "timeout s1 = 0"
    "pre_clock_state s1 = 0" "enable_flag s1 = 0" "set_times s1 = []" "pre_sec s1 = 0"
    by (auto simp: demo_thr_def)
  let ?i = "\<lambda>s. s\<lparr>evnts := INIT_EVNTFLAG_BY_SLOT_PORT_ID UPDATE_EVENT SID_SYS_SLOT SID_SYS_PORT 0 (evnts s), timeout := timeout s - 1\<rparr>"
  have q1: "quiet (?i s1)" by (rule quiet_init[OF s1(2)])
  obtain c1 where c1: "check_clock demo_out (?i s1) = (True, (?i s1)\<lparr>tod := c1, enable_flag := 0, pre_clock_state := 4, timeout := 60\<rparr>)"
    "out_zone c1 = out_zone (tod s1)"
    using check_waits[OF tod_driver_ok, of "?i s1"] s1(4,5) by auto
  let ?s1 = "(?i s1)\<lparr>tod := c1, enable_flag := 0, pre_clock_state := 4, timeout := 60\<rparr>"
  have "quiet ?s1" using s1(2) c1(2) by (auto simp: quiet_def zones_ok_def)
  then obtain c es where t: "tick demo_out s1 = Some (True, ?s1\<lparr>tod := c, evnts := es\<rparr>)" "quiet (?s1\<lparr>tod := c, evnts := es\<rparr>)"
    using tick_quiet[of s1 demo_out ?s1] s1(2,3) c1(1) by auto
  have "thread demo_out 11 [] (?s1\<lparr>tod := c, evnts := es\<rparr>)"
    using thread.tick[OF s1(1) t(1)] by simp
  from quiet_run[OF this t(2), of 60] obtain s2 where s2: "thread demo_out 71 [] s2" "quiet s2" "timeout s2 = 0"
    "pre_clock_state s2 = 4" "enable_flag s2 = 0" "set_times s2 = []" "pre_sec s2 = 0"
    using s1(6,7) by auto
  have q2: "quiet (?i s2)" by (rule quiet_init[OF s2(2)])
  let ?s2 = "\<lambda>c. (?i s2)\<lparr>tod := c, enable_flag := 1, pre_clock_state := 4,
      pre_sec := 3723755520, ncalls := ncalls (?i s2) + 2, set_times := set_times (?i s2) @ [1514766720], timeout := 3600, evnts := evnts (?i s2)\<rparr>"
  obtain c2 where c2: "check_clock demo_out (?i s2) = (True, ?s2 c2)" "out_zone c2 = out_zone (tod (?i s2))"
    using check_sets[OF tod_driver_ok, of "?i s2", unfolded quiet_raise[OF q2]] s2(4-7) by (auto simp: demo_out_def)
  have "quiet (?s2 c2)" using q2 c2(2) by (auto simp: quiet_def zones_ok_def)
  then obtain d es where t2: "tick demo_out s2 = Some (True, ?s2 c2\<lparr>tod := d, evnts := es\<rparr>)"
    using tick_quiet[of s2 demo_out "?s2 c2"] s2(2,3) c2(1) by auto
  show ?thesis using thread.tick[OF s2(1) t2] s2(6) by (intro exI[of _ "?s2 c2\<lparr>tod := d, evnts := es\<rparr>"]) simp
qed

lemma clock_set_spaced_witness: "\<exists>s. thread demo_out 72 [72] s \<and> times_ok (set_times s) \<and> spaced [72]"
proof -
  obtain s where "thread demo_out 72 [72] s" using demo_run by blast
  then show ?thesis using clock_set_spaced by blast
qed

section \<open>The event\<close>

lemma init_flag_split:
  assumes "\<forall>x \<in> set xs. \<not> is_event i sl p x" "is_event i sl p e"
  shows "INIT_EVNTFLAG_BY_SLOT_PORT_ID i sl p v (xs @ e # ys) = xs @ e\<lparr>new_flag := v\<rparr> # ys"
  using assms by (induction xs) auto

definition raised :: "timeinfo option \<Rightarrow> evnt_inx \<Rightarrow> evnt_inx" where
  "raised t e = e\<lparr>new_flag := 1, ev_valid := 1, ev_bid := BID_NONE,
     start_time := (case t of None \<Rightarrow> start_time e | Some t \<Rightarrow> time_text t)\<rparr>"

lemma set_flag_split:
  assumes "\<forall>x \<in> set xs. \<not> is_event i sl p x" "is_event i sl p e" "old_flag e = 0"
  shows "SET_EVNTFLAGVALID_BY_SLOT_PORT_ID i sl p t (xs @ e # ys) = xs @ raised t e # ys"
  using assms unfolding SET_EVNTFLAGVALID_BY_SLOT_PORT_ID_def
  by (induction xs) (auto simp: raised_def split: option.split)

lemma pr_d_no_quote: "CHR 0x27 \<notin> set (pr_d i)"
  using dec_nat_digits[of "nat i"] dec_nat_digits[of "nat (- i)"]
  by (auto simp: pr_d_def list_all_iff is_digit_def)

lemma time_text_no_quote: "CHR 0x27 \<notin> set (time_text t)"
  by (simp add: time_text_def pr_pad_def pr_d_no_quote)

text \<open>
  An interrupt that sets the clock of the system leaves exactly one new row in the log of the events,
  that of the update with the time that was then read, provided that the event was not raised
  by the interrupt before and that no other event waits.
\<close>

theorem update_logged:
  assumes "event_db (oe_db env) st" "store_ok (st (odb s))"
    "evnts s = xs @ e # ys" "is_event UPDATE_EVENT SID_SYS_SLOT SID_SYS_PORT e"
    "\<forall>x \<in> set xs. \<not> is_event UPDATE_EVENT SID_SYS_SLOT SID_SYS_PORT x" "old_flag e = 0"
    "\<forall>x \<in> set (xs @ ys). ev_valid x \<noteq> 1" "\<forall>x \<in> set (evnts s). CHR 0x27 \<notin> set (start_time x)"
    "tick env s = Some (True, s')" "set_times s' \<noteq> set_times s"
  shows "\<exists>k t. event_log (st (odb s')) = drop k (event_log (st (odb s)) @ [event_row (raised (oe_gettime env t) e)])
    \<and> store_ok (st (odb s')) \<and> (\<forall>x \<in> set (evnts s'). ev_valid x \<noteq> 1)"
proof -
  let ?s = "s\<lparr>evnts := INIT_EVNTFLAG_BY_SLOT_PORT_ID UPDATE_EVENT SID_SYS_SLOT SID_SYS_PORT 0 (evnts s), timeout := timeout s - 1\<rparr>"
  obtain s1 c es h where p: "if timeout s = 0 then check_clock env ?s = (True, s1) else s1 = ?s"
    "WriteCurEventToTable (Some (oe_db env)) (evnts s1) (odb s1) = Some (True, es, h)"
    "s' = s1\<lparr>tod := c, evnts := es, odb := h\<rparr>"
    by (rule tick_parts[OF assms(9)]) blast
  have "check_clock env ?s = (True, s1)" using p(1,3) assms(10) by (auto split: if_splits)
  from check_clockD[OF this] obtain t where t: "odb s1 = odb s"
    "evnts s1 = SET_EVNTFLAGVALID_BY_SLOT_PORT_ID UPDATE_EVENT SID_SYS_SLOT SID_SYS_PORT (oe_gettime env t) (evnts ?s)"
    using p(3) assms(10) by auto
  have i: "evnts ?s = xs @ e\<lparr>new_flag := 0\<rparr> # ys"
    using init_flag_split[OF assms(5,4), of 0 ys] assms(3) by simp
  have e0: "is_event UPDATE_EVENT SID_SYS_SLOT SID_SYS_PORT (e\<lparr>new_flag := 0\<rparr>)" "old_flag (e\<lparr>new_flag := 0\<rparr>) = 0"
    using assms(4,6) by (simp_all add: is_event_def)
  have r: "evnts s1 = xs @ raised (oe_gettime env t) e # ys"
    unfolding t(2) i set_flag_split[OF assms(5) e0] by (simp add: raised_def split: option.split)
  have f: "filter (\<lambda>x. ev_valid x = 1) (evnts s1) = [raised (oe_gettime env t) e]"
    using assms(7) by (auto simp: r raised_def filter_empty_conv)
  have n: "\<forall>x \<in> set (evnts s1). CHR 0x27 \<notin> set (start_time x)"
    using assms(3,8) time_text_no_quote by (auto simp: r raised_def split: option.split)
  have "WriteCurEventToTable (Some (oe_db env)) (evnts s1) (odb s1) = write_events (oe_db env) (evnts s1) (odb s1)"
    by (simp add: WriteCurEventToTable_def r del: write_events.simps)
  then obtain k where "es = map noted (evnts s1)" "store_ok (st h)"
    "event_log (st h) = drop k (event_log (st (odb s)) @ map event_row (filter (\<lambda>x. ev_valid x = 1) (evnts s1)))"
    using write_events_works[OF assms(1), of "odb s1" "evnts s1"] assms(2) n p(2) t(1) by auto
  then show ?thesis unfolding f by (intro exI[of _ k] exI[of _ t]) (auto simp: p(3) noted_def)
qed

definition update_event :: evnt_inx where
  "update_event = \<lparr>ev_index = 1, old_flag = 0, new_flag = 0, ev_valid = 0, ev_slot = 1, ev_port = 1, ev_bid = 0,
     evnt_id = UPDATE_EVENT, start_time = []\<rparr>"

definition store_out :: outEnv where "store_out = demo_out\<lparr>oe_db := sql_env full_store\<rparr>"

definition due_thr :: thr where
  "due_thr = demo_thr\<lparr>timeout := 0, pre_clock_state := 4, evnts := [update_event]\<rparr>"

lemma tick_defined:
  assumes "zones_ok (tod s)" "timeout s = 0"
    "check_clock env (s\<lparr>evnts := INIT_EVNTFLAG_BY_SLOT_PORT_ID UPDATE_EVENT SID_SYS_SLOT SID_SYS_PORT 0 (evnts s), timeout := timeout s - 1\<rparr>) = (True, s1)"
    "zones_ok (tod s1)" "WriteCurEventToTable (Some (oe_db env)) (evnts s1) (odb s1) = Some (ok, es, h)"
  shows "\<exists>c. tick env s = Some (ok, s1\<lparr>tod := c, evnts := es, odb := h\<rparr>)"
proof -
  obtain ok1 c1 where c: "china_mobile_miit_tod (oe_fpga env) (oe_pps0 env) (tod s1) = Some (ok1, c1)"
    by (rule tod_defined[OF assms(4)]) blast
  obtain ok2 c2 where w: "write_tod_freq (oe_fpga env) c1 = (ok2, c2)" by (cases "write_tod_freq (oe_fpga env) c1")
  show ?thesis using assms(2,3,5) c w by (intro exI[of _ c2]) (simp add: tick_def Let_def)
qed

lemma update_logged_witness:
  "\<exists>s'. tick store_out due_thr = Some (True, s') \<and> set_times s' = [1514766720]
    \<and> (\<exists>k. event_log (sql_store full_store (odb s')) = drop k (replicate 20 ''old'' @ [event_row (raised None update_event)]))"
proof -
  have oe: "oe_db store_out = sql_env full_store" "oe_gettime store_out n = None" for n
    by (simp_all add: store_out_def demo_out_def)
  let ?s = "due_thr\<lparr>evnts := INIT_EVNTFLAG_BY_SLOT_PORT_ID UPDATE_EVENT SID_SYS_SLOT SID_SYS_PORT 0 (evnts due_thr), timeout := timeout due_thr - 1\<rparr>"
  have d: "driver_inputs (oe_fpga store_out) (\<lambda>reqs. demo_input)" "\<And>n. oe_settime store_out n"
    using tod_driver_ok by (simp_all add: store_out_def demo_out_def)
  have ev: "is_event UPDATE_EVENT SID_SYS_SLOT SID_SYS_PORT update_event"
    by (simp add: is_event_def update_event_def SID_SYS_SLOT_def SID_SYS_PORT_def)
  have z: "zones_ok (tod due_thr)" by (simp add: zones_ok_def due_thr_def demo_thr_def)
  have p: "enable_flag ?s = 0" "pre_clock_state ?s \<ge> 3" "pre_sec ?s \<le> 3723755520"
    by (simp_all add: due_thr_def demo_thr_def)
  obtain c1 where c1: "check_clock store_out ?s = (True, ?s\<lparr>tod := c1, enable_flag := 1, pre_clock_state := 4, pre_sec := 3723755520,
      ncalls := ncalls ?s + 2, set_times := set_times ?s @ [1514766720], timeout := 3600,
      evnts := SET_EVNTFLAGVALID_BY_SLOT_PORT_ID UPDATE_EVENT SID_SYS_SLOT SID_SYS_PORT (oe_gettime store_out (ncalls ?s + 2)) (evnts ?s)\<rparr>)"
    "out_zone c1 = out_zone (tod ?s)"
    using check_sets[OF d p] by blast
  define s1 where "s1 = ?s\<lparr>tod := c1, enable_flag := 1, pre_clock_state := 4, pre_sec := 3723755520,
      ncalls := ncalls ?s + 2, set_times := set_times ?s @ [1514766720], timeout := 3600,
      evnts := SET_EVNTFLAGVALID_BY_SLOT_PORT_ID UPDATE_EVENT SID_SYS_SLOT SID_SYS_PORT (oe_gettime store_out (ncalls ?s + 2)) (evnts ?s)\<rparr>"
  have z1: "zones_ok (tod s1)" using z c1(2) by (simp add: s1_def zones_ok_def)
  have u: "INIT_EVNTFLAG_BY_SLOT_PORT_ID UPDATE_EVENT SID_SYS_SLOT SID_SYS_PORT 0 (evnts due_thr) = [update_event]"
    using ev by (simp add: due_thr_def update_event_def)
  have e1: "evnts s1 = [raised None update_event]"
    using set_flag_split[of "[]", OF _ ev, of None "[]"] by (simp add: s1_def u oe update_event_def)
  have st: "odb s1 = []" "store_ok (sql_store full_store [])" "event_log full_store = replicate 20 ''old''"
  proof -
    have "[1..20::int] = [1,2,3,4,5,6,7,8,9,10,11,12,13,14,15,16,17,18,19,20]" by code_simp
    then show "store_ok (sql_store full_store [])" "event_log full_store = replicate 20 ''old''"
      by (simp_all add: full_store_def store_ok_def consecutive_Nil event_log_def numeral_nat)
  qed (simp add: s1_def due_thr_def demo_thr_def)
  have nq: "\<forall>x \<in> set (evnts s1). CHR 0x27 \<notin> set (start_time x)" by (simp add: e1 raised_def update_event_def)
  have "WriteCurEventToTable (Some (oe_db store_out)) (evnts s1) (odb s1) = write_events (oe_db store_out) (evnts s1) (odb s1)"
    by (simp add: WriteCurEventToTable_def e1 del: write_events.simps)
  then obtain h where h: "WriteCurEventToTable (Some (oe_db store_out)) (evnts s1) (odb s1) = Some (True, map noted (evnts s1), h)"
    using write_events_works[OF sql_env_event_db, of full_store "odb s1" "evnts s1"] st nq unfolding oe by auto
  obtain c where t: "tick store_out due_thr = Some (True, s1\<lparr>tod := c, evnts := map noted (evnts s1), odb := h\<rparr>)"
    using tick_defined[OF z _ c1(1)[folded s1_def] z1 h] by (auto simp: due_thr_def)
  have "set_times (s1\<lparr>tod := c, evnts := map noted (evnts s1), odb := h\<rparr>) = [1514766720]"
    by (simp add: s1_def due_thr_def demo_thr_def)
  moreover have "\<exists>k t. event_log (sql_store full_store (odb (s1\<lparr>tod := c, evnts := map noted (evnts s1), odb := h\<rparr>)))
      = drop k (event_log (sql_store full_store (odb due_thr)) @ [event_row (raised (oe_gettime store_out t) update_event)])
    \<and> store_ok (sql_store full_store (odb (s1\<lparr>tod := c, evnts := map noted (evnts s1), odb := h\<rparr>)))
    \<and> (\<forall>x \<in> set (evnts (s1\<lparr>tod := c, evnts := map noted (evnts s1), odb := h\<rparr>)). ev_valid x \<noteq> 1)"
    by (rule update_logged[of store_out "sql_store full_store" due_thr "[]" update_event "[]"])
      (use ev t st sql_env_event_db calculation in \<open>simp_all add: oe due_thr_def demo_thr_def update_event_def\<close>)
  ultimately show ?thesis using t st(3) by (auto simp: oe due_thr_def demo_thr_def)
qed

end
