(* ===== verification/OutPtp.thy ===== *)
theory OutPtp
  imports OutTod "HOL-Library.Monad_Syntax"
begin

unbundle bit_operations_syntax

text \<open>
  What the output process sends to the boards, \<^verbatim>\<open>src/d-output/dout_issue.c\<close> and \<^verbatim>\<open>dout_p50.c\<close>: the delays, the signals,
  the commands that configure the boards of PTP, and what these are told of the state of the clock. The branches that
  the configuration of the build leaves out (\<open>CHINA_MIIT_TOD_RULE\<close> and \<open>NEW_FPGA_ADDR_COMM\<close> are defined) are not
  modelled. The two functions of the system on addresses of the Internet are parameters.
\<close>

section \<open>State\<close>

record ptpinfo =
  ptpType :: int
  ptpDelayType :: int
  ptpMulticast :: int
  ptpLayer :: int
  ptpStep :: int
  ptpSync :: int
  ptpAnnounce :: int
  ptpPdelayReq :: int
  ptpSsmEnable :: int
  ptpIp :: bytes
  ptpMac :: bytes
  ptpMask :: bytes
  ptpGateway :: bytes
  oldptpSlaveIp :: "int list"
  oldptpSlaveIp_num :: int
  ptpSlaveIp :: "int list"
  ptpSlaveIp_num :: int
  ptpLevel :: bytes
  ptpPriority :: bytes
  ptpRegion :: bytes

record ptpfinfo =
  pfSignalType :: int
  pfDelayType :: int
  pfLayer :: int
  pfStep :: int
  pfSync :: int
  pfAnnounce :: int
  pfPdelayReq :: int
  pfIp :: bytes

text \<open>
  A board: only the first entry of its arrays is used. The settings of the two kinds of PTP boards share their memory in the
  code; a board has one kind, and its setting is the one of its kind.
\<close>

record outputsta =
  boardId :: int
  out_signal :: int
  ptp :: ptpinfo
  ptpf :: ptpfinfo

text \<open>The part of the context that is used, and the static variables of the functions.\<close>

record iss =
  outSta :: "outputsta list"
  out_delays :: "int list"
  mb_sa :: string
  out_br :: int
  irigb_amp :: int
  irigb_vol :: int
  irigb_zone :: int
  clkSta :: int
  clkSta_pre :: int
  clock_source_pre :: int
  tsrc_type :: int
  tsrc_flag :: int
  tsrc_slot :: int
  in_ssm_pre :: int
  old_ptpIp :: "bytes list"
  old_ptpMask :: "bytes list"
  old_ptpGateway :: "bytes list"
  ireqs :: "request list"

record issEnv =
  is_fpga :: driver
  is_inet_addr :: "string \<Rightarrow> int"
  is_inet_ntop :: "int \<Rightarrow> string"

definition iss_read :: "issEnv \<Rightarrow> int \<Rightarrow> iss \<Rightarrow> int option \<times> iss" where
  "iss_read env addr s = (case FpgaRead (is_fpga env) addr (ireqs s) of (v, rs) \<Rightarrow> (v, s\<lparr>ireqs := rs\<rparr>))"

definition iss_write :: "issEnv \<Rightarrow> int \<Rightarrow> int \<Rightarrow> iss \<Rightarrow> bool \<times> iss" where
  "iss_write env addr v s = (case FpgaWrite (is_fpga env) addr v (ireqs s) of (ok, rs) \<Rightarrow> (ok, s\<lparr>ireqs := rs\<rparr>))"

fun iss_writes :: "issEnv \<Rightarrow> (int \<times> int) list \<Rightarrow> iss \<Rightarrow> bool \<times> iss" where
  "iss_writes env [] s = (True, s)"
| "iss_writes env ((addr, v) # ws) s = pair_then (iss_write env addr v s) (iss_writes env ws)"

section \<open>Signals and delays\<close>

definition FPGA_OUT_SIGNAL :: "int \<Rightarrow> int" where "FPGA_OUT_SIGNAL slot = FPGA_OUT_BDTYPE_COMMON slot 0x00"

definition CommonIssueConfig :: "issEnv \<Rightarrow> int \<Rightarrow> int \<Rightarrow> iss \<Rightarrow> bool \<times> iss" where
  "CommonIssueConfig env signalType slot s =
     (if 0 < slot \<and> slot \<le> SLOT_CURSOR_ARRAY_SIZE then iss_write env (FPGA_OUT_SIGNAL slot) signalType s else (False, s))"

text \<open>The setting of a slot before the first is read in front of the array.\<close>

definition OUTCOMMIssueConfig :: "issEnv \<Rightarrow> int \<Rightarrow> iss \<Rightarrow> (bool \<times> iss) option" where
  "OUTCOMMIssueConfig env slot s =
     (if slot > SLOT_CURSOR_ARRAY_SIZE then Some (False, s)
      else do { b \<leftarrow> arr (outSta s) (slot - 1); Some (CommonIssueConfig env (out_signal b) slot s) })"

definition SIGN_BIT :: nat where "SIGN_BIT = 27"

text \<open>A sign and 27 bits of magnitude in two registers. The negation is that of an \<open>int\<close>.\<close>

definition delay_value :: "int \<Rightarrow> int" where
  "delay_value delay =
     (let tmp = (if delay < 0 then s32 (- delay) else delay) AND 0x07FFFFFF
      in if delay < 0 then tmp OR BIT SIGN_BIT else tmp)"

definition delay_writes :: "int \<Rightarrow> int \<Rightarrow> int \<Rightarrow> (int \<times> int) list" where
  "delay_writes reg_delay_low reg_delay_high delay =
     [(reg_delay_low, delay_value delay AND 0x0000FFFF),
      (reg_delay_high, drop_bit 16 (delay_value delay) AND 0x00000FFF)]"

definition IssueDelay :: "issEnv \<Rightarrow> iss \<Rightarrow> bool \<times> iss" where
  "IssueDelay env s = iss_writes env
     (delay_writes FPGA_SYS_OUT_TOD_DELAY_LOW FPGA_SYS_OUT_TOD_DELAY_HIGH (out_delays s ! 0)
      @ delay_writes FPGA_SYS_OUT_IRIGB_DELAY_LOW FPGA_SYS_OUT_IRIGB_DELAY_HIGH (out_delays s ! 1)
      @ delay_writes FPGA_SYS_OUT_PPX_DELAY_LOW FPGA_SYS_OUT_PPX_DELAY_HIGH (out_delays s ! 2)
      @ delay_writes FPGA_SYS_OUT_PTP_DELAY_LOW FPGA_SYS_OUT_PTP_DELAY_HIGH (out_delays s ! 3)) s"

definition sa_number :: "string \<Rightarrow> int" where
  "sa_number sa = (if sa = ''SA4'' then 0x01 else if sa = ''SA5'' then 0x02 else if sa = ''SA6'' then 0x03
     else if sa = ''SA7'' then 0x04 else if sa = ''SA8'' then 0x05 else 0x04)"

definition IssueOut2mbSA :: "issEnv \<Rightarrow> iss \<Rightarrow> bool \<times> iss" where
  "IssueOut2mbSA env s = iss_write env FPGA_SYS_2MB_OUT_SA (sa_number (mb_sa s)) s"

definition IssueOutBaudrate :: "issEnv \<Rightarrow> iss \<Rightarrow> bool \<times> iss" where
  "IssueOutBaudrate env s = iss_write env FPGA_SYS_OUT_TOD_BR (out_br s) s"

definition IssueIrigbAmplitude :: "issEnv \<Rightarrow> iss \<Rightarrow> bool \<times> iss" where
  "IssueIrigbAmplitude env s = iss_write env FPGA_SYS_OUT_IRIGB_AR (irigb_amp s) s"

definition IssueIrigbVoltage :: "issEnv \<Rightarrow> iss \<Rightarrow> bool \<times> iss" where
  "IssueIrigbVoltage env s = iss_write env FPGA_SYS_OUT_IRIGB_V (irigb_vol s) s"

definition zone_value :: "int \<Rightarrow> int" where
  "zone_value hours = (if hours < 0 then (- hours) OR BIT 4 else hours)"

definition IssueIrigbZone :: "issEnv \<Rightarrow> iss \<Rightarrow> (bool \<times> iss) option" where
  "IssueIrigbZone env s =
     do { hours \<leftarrow> arr gTzTbl (irigb_zone s - 64);
          Some (iss_write env FPGA_SYS_OUT_IRIGB_ZONE (zone_value hours) s) }"

definition IssueIrigbDST :: "issEnv \<Rightarrow> iss \<Rightarrow> bool \<times> iss" where
  "IssueIrigbDST env s = iss_write env FPGA_SYS_OUT_IRIGB_DST 0 s"

section \<open>Commands to the boards of PTP\<close>

text \<open>
  A command is written byte by byte; the bytes are counted in 16 bits. The slot is not used: the registers are
  those of the system.
\<close>

definition p50_byte :: "nat \<Rightarrow> 8 word \<Rightarrow> (int \<times> int) list" where
  "p50_byte i b = [(FPGA_SYS_OUT_PTP_WADDR, int i), (FPGA_SYS_OUT_PTP_WVALUE, uint b),
     (FPGA_SYS_OUT_PTP_WEN, 0x0000), (FPGA_SYS_OUT_PTP_WEN, 0x0001)]"

definition p50_bytes :: "bytes \<Rightarrow> (int \<times> int) list" where
  "p50_bytes buf = concat (map (\<lambda>(i, b). p50_byte i b) (enumerate 0 buf))
     @ [(FPGA_SYS_OUT_PTP_WREADY, 0x0001), (FPGA_SYS_OUT_PTP_WREADY, 0x0000)]"

definition p50_write :: "issEnv \<Rightarrow> bytes \<Rightarrow> iss \<Rightarrow> bool \<times> iss" where
  "p50_write env buf s = iss_writes env (p50_bytes buf) s"

text \<open>Most commands are sent with their zero.\<close>

definition p50_text :: "string \<Rightarrow> bytes" where
  "p50_text text = text_bytes text @ [0]"

definition NL :: string where "NL = [CHR 0x0A]"

fun p50_commands :: "issEnv \<Rightarrow> bytes list \<Rightarrow> iss \<Rightarrow> bool \<times> iss" where
  "p50_commands env [] s = (True, s)"
| "p50_commands env (c # cs) s = pair_then (p50_write env c s) (p50_commands env cs)"

section \<open>What the boards are told of the clock\<close>

definition PTP_TYPE_FRGN :: int where "PTP_TYPE_FRGN = 0"
definition PTP_TYPE_CN :: int where "PTP_TYPE_CN = 1"

definition num2hex :: string where "num2hex = ''0123456789abcdef''"

definition hex2 :: "int \<Rightarrow> string" where
  "hex2 v = [num2hex ! nat (v div 16), num2hex ! nat (v mod 16)]"

definition hex4 :: "int \<Rightarrow> string" where
  "hex4 v = [num2hex ! nat (v div 4096), num2hex ! nat (v mod 4096 div 256), num2hex ! nat (v mod 256 div 16),
     num2hex ! nat (v mod 16)]"

text \<open>The text for each board; the result of the writing is not looked at.\<close>

definition tell_board :: "issEnv \<Rightarrow> (outputsta \<Rightarrow> string option) \<Rightarrow> outputsta \<Rightarrow> iss \<Rightarrow> iss" where
  "tell_board env f b s = (case f b of None \<Rightarrow> s | Some text \<Rightarrow> snd (p50_write env (p50_text text) s))"

definition tell_boards :: "issEnv \<Rightarrow> (outputsta \<Rightarrow> string option) \<Rightarrow> iss \<Rightarrow> iss" where
  "tell_boards env f s = fold (tell_board env f) (outSta s) s"

definition cn_text :: "string \<Rightarrow> outputsta \<Rightarrow> string option" where
  "cn_text text b = (if boardId b = BID_PTP \<and> ptpType (ptp b) = PTP_TYPE_CN then Some text else None)"

definition ptp_set_ssm :: "issEnv \<Rightarrow> int \<Rightarrow> iss \<Rightarrow> iss" where
  "ptp_set_ssm env ssm_level = tell_boards env (cn_text (''ptp2 s ssm '' @ [char_of (nat (ssm_level + 0x30))] @ NL))"

definition clkproperty_text :: "int \<Rightarrow> int \<Rightarrow> int \<Rightarrow> outputsta \<Rightarrow> string option" where
  "clkproperty_text clkclass accuracy rg b =
     (if boardId b \<noteq> BID_PTP then None
      else Some (''ptp2 c q '' @
        (if ptpType (ptp b) = PTP_TYPE_CN then hex2 clkclass @ '' '' @ hex2 accuracy @ '' '' @ hex4 rg @ NL
         else if ptpType (ptp b) = PTP_TYPE_FRGN
              then ''0x'' @ hex2 clkclass @ '' 0x'' @ hex2 accuracy @ '' 0x'' @ hex4 rg @ NL
         else [])))"

definition ptp_set_clkproperty :: "issEnv \<Rightarrow> int \<Rightarrow> int \<Rightarrow> int \<Rightarrow> iss \<Rightarrow> iss" where
  "ptp_set_clkproperty env clkclass accuracy rg = tell_boards env (clkproperty_text clkclass accuracy rg)"

definition ptp_set_freqtrace :: "issEnv \<Rightarrow> int \<Rightarrow> iss \<Rightarrow> iss" where
  "ptp_set_freqtrace env v = tell_boards env (cn_text (''ptp2 p f '' @ [char_of (nat (v + 0x30))] @ NL))"

definition ptp_set_timetrace :: "issEnv \<Rightarrow> int \<Rightarrow> iss \<Rightarrow> iss" where
  "ptp_set_timetrace env v = tell_boards env (cn_text (''ptp2 p t '' @ [char_of (nat (v + 0x30))] @ NL))"

definition ptp_set_timesource :: "issEnv \<Rightarrow> int \<Rightarrow> iss \<Rightarrow> iss" where
  "ptp_set_timesource env v = tell_boards env (cn_text (''ptp2 p s '' @ hex2 v @ NL))"

section \<open>The class of the clock\<close>

definition FPGA_IN_2MB_SSM :: "int \<Rightarrow> int" where "FPGA_IN_2MB_SSM slot = FPGA_IN_PRIV_ADDR slot 2 0x03"

text \<open>The quality that goes out; the writing is not checked.\<close>

definition write_out_ssm :: "issEnv \<Rightarrow> int \<Rightarrow> iss \<Rightarrow> iss" where
  "write_out_ssm env v s = (snd (iss_write env FPGA_SYS_2MB_OUT_SSM v s))\<lparr>in_ssm_pre := v\<rparr>"

text \<open>The quality of a source of frequency, by the state that the call before has seen.\<close>

definition incoming_ssm :: "issEnv \<Rightarrow> iss \<Rightarrow> int option \<times> iss" where
  "incoming_ssm env s =
     (if 0 < tsrc_slot s \<and> tsrc_slot s \<le> INPUT_SLOT_CURSOR_ARRAY_SIZE
      then iss_read env (if tsrc_type s = S2MB_SOURCE_TYPE then FPGA_IN_2MB_SSM (tsrc_slot s) else FPGA_SYS_CUR_INSRC_SSM) s
      else (Some SSM_VAL_0F, s))"

definition forward_ssm :: "issEnv \<Rightarrow> iss \<Rightarrow> bool \<times> iss" where
  "forward_ssm env s =
     (if tsrc_flag s = FREQ_SOURCE_FLAG \<and> (clkSta s = 4 \<or> clkSta s = 3)
      then (case incoming_ssm env s of
              (None, s) \<Rightarrow> (False, s)
            | (Some in_ssm, s) \<Rightarrow> (True, if in_ssm \<noteq> in_ssm_pre s then write_out_ssm env in_ssm s else s))
      else (True, s))"

definition note_clock_source :: "int \<Rightarrow> iss \<Rightarrow> iss" where
  "note_clock_source src s =
     (if src \<noteq> NO_SOURCE
      then s\<lparr>tsrc_type := FIND_TYPE_BY_FPGA_VAL src (tsrc_type s),
             tsrc_flag := FIND_FLAG_BY_FPGA_VAL src (tsrc_flag s),
             tsrc_slot := FIND_SLOT_BY_FPGA_VAL src (tsrc_slot s)\<rparr>
      else s)"

definition timesource_of_type :: "int \<Rightarrow> int" where
  "timesource_of_type t =
     (if t = GPS_SOURCE_TYPE then 0x20 else if t = TOD_SOURCE_TYPE then 0x40
      else if t = IRIGB1_SOURCE_TYPE \<or> t = IRIGB2_SOURCE_TYPE then 0x90 else 0xA0)"

definition class_locked :: "issEnv \<Rightarrow> iss \<Rightarrow> iss" where
  "class_locked env s =
     (let s = ptp_set_ssm env 4 s;
          s = (if tsrc_flag s = FREQ_SOURCE_FLAG then ptp_set_clkproperty env 7 0x21 0xFFFF s
               else ptp_set_clkproperty env 6 0x21 0x4E5D s);
          s = ptp_set_timetrace env 1 (ptp_set_freqtrace env 1 s);
          s = ptp_set_timesource env (timesource_of_type (tsrc_type s)) s
      in if tsrc_flag s = BOTH_SOURCE_FLAG then write_out_ssm env 0x02 s else s)"

text \<open>In holdover the two questions about the clock are asked one after the other, and both may be true.\<close>

definition class_hold :: "issEnv \<Rightarrow> int \<Rightarrow> int \<Rightarrow> iss \<Rightarrow> iss" where
  "class_hold env clock_type clock_stratum s =
     (let s = ptp_set_ssm env 8 s;
          s = (if clock_type = 2 \<or> (2 = clock_stratum \<and> tsrc_flag s = FREQ_SOURCE_FLAG)
               then ptp_set_clkproperty env 52 0x21 0xFFFF s else s);
          s = (if clock_type = 1 \<or> (1 = clock_stratum \<and> tsrc_flag s = FREQ_SOURCE_FLAG)
               then ptp_set_clkproperty env 8 0x21 0xFFFF s else s);
          s = ptp_set_timetrace env 0 (ptp_set_freqtrace env 0 s);
          s = ptp_set_timesource env 0xA0 s
      in if clock_type = 1 then write_out_ssm env 0x04 s else write_out_ssm env 0x08 s)"

definition class_free :: "issEnv \<Rightarrow> iss \<Rightarrow> iss" where
  "class_free env s =
     (let s = ptp_set_clkproperty env 255 0x21 0xFFFF (ptp_set_ssm env 8 s)
      in ptp_set_timesource env 0xA0 (ptp_set_timetrace env 0 (ptp_set_freqtrace env 0 s)))"

definition set_class :: "issEnv \<Rightarrow> int \<Rightarrow> int \<Rightarrow> iss \<Rightarrow> iss" where
  "set_class env clock_type clock_stratum s =
     (if clkSta s = 4 then class_locked env s
      else if clkSta s = 1 \<or> clkSta s = 2 then class_hold env clock_type clock_stratum s
      else if clkSta s = 3
           then (let s = class_free env s in if tsrc_flag s = BOTH_SOURCE_FLAG then write_out_ssm env 0x04 s else s)
      else write_out_ssm env 0x0F (class_free env s))"

text \<open>\<open>sta\<close> is the state of the clock in the shared memory, or none when the semaphore fails. Without success nothing was changed
  but by \<open>forward_ssm\<close>; the code reports its failure as a success.\<close>

definition SetOutBoardClockClass :: "issEnv \<Rightarrow> int option \<Rightarrow> iss \<Rightarrow> bool \<times> iss" where
  "SetOutBoardClockClass env sta s =
     (case sta of None \<Rightarrow> (False, s) | Some state \<Rightarrow>
     (case iss_read env FPGA_RBXO_TYP s of (None, s) \<Rightarrow> (False, s) | (Some clock_type, s) \<Rightarrow>
     (case iss_read env FPGA_SYS_INSRC_STRATUM s of (None, s) \<Rightarrow> (False, s) | (Some clock_stratum, s) \<Rightarrow>
     (case iss_read env FPGA_SYS_INSRC_SELECT s of (None, s) \<Rightarrow> (False, s) | (Some clock_source, s) \<Rightarrow>
     (case forward_ssm env s of (False, s) \<Rightarrow> (True, s) | (True, s) \<Rightarrow>
       (let s = s\<lparr>clkSta := state\<rparr>
        in if state \<noteq> clkSta_pre s \<or> clock_source \<noteq> clock_source_pre s
           then (True, (set_class env clock_type clock_stratum (note_clock_source clock_source s))
                         \<lparr>clkSta_pre := state, clock_source_pre := clock_source\<rparr>)
           else (True, s)))))))"

section \<open>The configuration of the boards of PTP\<close>

definition DELAY_P2P :: int where "DELAY_P2P = 0x00"
definition DELAY_E2E :: int where "DELAY_E2E = 1"
definition UNICAST :: int where "UNICAST = 0x00"
definition MULTICAST :: int where "MULTICAST = 1"
definition LAYER2 :: int where "LAYER2 = 0x00"
definition LAYER3 :: int where "LAYER3 = 1"
definition ONE_STEP :: int where "ONE_STEP = 0x00"
definition TWO_STEP :: int where "TWO_STEP = 1"
definition MAX_IP_NUM :: nat where "MAX_IP_NUM = 16"

definition P50_CMD_E2E :: string where "P50_CMD_E2E = ''ptp2 p m e2e'' @ NL"
definition P50_CMD_P2P :: string where "P50_CMD_P2P = ''ptp2 p m p2p'' @ NL"
definition P50_CMD_LAYER2 :: string where "P50_CMD_LAYER2 = ''ptp2 p p eth'' @ NL"
definition P50_CMD_LAYER3 :: string where "P50_CMD_LAYER3 = ''ptp2 p p udp'' @ NL"
definition P50_CMD_1STEP :: string where "P50_CMD_1STEP = ''ptp2 c t off'' @ NL"
definition P50_CMD_2STEP :: string where "P50_CMD_2STEP = ''ptp2 c t on'' @ NL"
definition P50_CMD_SSMENABLE_ZERO :: string where "P50_CMD_SSMENABLE_ZERO = ''ptp2 s en off'' @ NL"
definition P50_CMD_SSMENABLE_ONE :: string where "P50_CMD_SSMENABLE_ONE = ''ptp2 s en on'' @ NL"
definition P50_CMD_UNICAST :: string where "P50_CMD_UNICAST = ''ptp2 p u uni'' @ NL"
definition P50_CMD_MULTICAST :: string where "P50_CMD_MULTICAST = ''ptp2 p u mul'' @ NL"
definition P50_2_CMD_UNICAST :: string where "P50_2_CMD_UNICAST = ''ptp2 p u master'' @ NL"
definition P50_2_CMD_MULTICAST :: string where "P50_2_CMD_MULTICAST = ''ptp2 p u disable'' @ NL"
definition P50_CMD_PTP_ON :: string where "P50_CMD_PTP_ON = ''ptp2 start 1'' @ NL"
definition P50_CMD_PTP_OFF :: string where "P50_CMD_PTP_OFF = ''ptp2 stop'' @ NL"
definition P50_CMD_NTP_ON :: string where "P50_CMD_NTP_ON = ''ptp2 nt start'' @ NL"
definition P50_CMD_NTP_OFF :: string where "P50_CMD_NTP_OFF = ''ptp2 nt stop'' @ NL"
definition P50_CMD_ESMC_AUTO :: string where "P50_CMD_ESMC_AUTO = ''ptp2 e e auto'' @ NL"
definition P50_CMD_IN_CM_TOD :: string where "P50_CMD_IN_CM_TOD = ''ptp2 g f cm'' @ NL"
definition P50_CMD_IN_B9600 :: string where "P50_CMD_IN_B9600 = ''ptp2 g i default 9600'' @ NL"
definition P50_CMD_CLOCK_CLASS :: string where "P50_CMD_CLOCK_CLASS = ''ptp2 g c 6 248 248'' @ NL"
definition P50_CMD_HOLD_TIME :: string where "P50_CMD_HOLD_TIME = ''ptp2 t h 0'' @ NL"
definition P50_CMD_SSM_CLASS :: string where "P50_CMD_SSM_CLASS = ''ptp2 e esmc map 248 0x04'' @ NL"

definition P50_FILL_SYNC :: "int \<Rightarrow> string" where "P50_FILL_SYNC freq = ''ptp2 p si '' @ pr_d freq @ NL"
definition P50_FILL_ANNOUNCE :: "int \<Rightarrow> string" where "P50_FILL_ANNOUNCE freq = ''ptp2 p ai '' @ pr_d freq @ NL"
definition P50_FILL_PDELAY_REQ :: "int \<Rightarrow> string" where "P50_FILL_PDELAY_REQ freq = ''ptp2 p di '' @ pr_d freq @ NL"
definition P50_FILL_REGION :: "int \<Rightarrow> string" where "P50_FILL_REGION region = ''ptp2 p d '' @ pr_d region @ NL"
definition P50_2_FILL_REGION :: "int \<Rightarrow> string" where "P50_2_FILL_REGION region = ''ptp2 c d '' @ pr_d region @ NL"
definition P50_FILL_LEVEL :: "int \<Rightarrow> int \<Rightarrow> string" where
  "P50_FILL_LEVEL level priority = ''ptp2 c p '' @ pr_d level @ '' '' @ pr_d priority @ NL"

text \<open>The conversion \<open>%x\<close> of an \<open>unsigned int\<close>.\<close>

function hex_nat :: "nat \<Rightarrow> string" where
  "hex_nat n = (if n < 16 then [num2hex ! n] else hex_nat (n div 16) @ [num2hex ! (n mod 16)])"
  by pat_completeness auto
termination by (relation "measure id") auto

declare hex_nat.simps [simp del]

definition P50_FILL_SLAVE_IP :: "issEnv \<Rightarrow> string \<Rightarrow> string" where
  "P50_FILL_SLAVE_IP env ip = ''ipconfig -u '' @ hex_nat (nat (u32 (is_inet_addr env ip))) @ NL"
definition P50_FILL_IP :: "issEnv \<Rightarrow> string \<Rightarrow> string" where
  "P50_FILL_IP env ip = ''ipconfig -a '' @ hex_nat (nat (u32 (is_inet_addr env ip))) @ NL"
definition P50_2_FILL_IP :: "string \<Rightarrow> string" where "P50_2_FILL_IP ip = ''ipconfig -a '' @ ip @ NL"
definition P50_2_FILL_MASK :: "string \<Rightarrow> string" where "P50_2_FILL_MASK m = ''ipconfig -m '' @ m @ NL"
definition P50_2_FILL_GATEWAY :: "string \<Rightarrow> string" where "P50_2_FILL_GATEWAY gw = ''ipconfig -g '' @ gw @ NL"
definition P50_2_FILL_SLAVE_IP :: "string \<Rightarrow> string" where
  "P50_2_FILL_SLAVE_IP ip = ''ptp2 u filter slave add '' @ ip @ '' '' @ pr_d (- 4) @ '' '' @ pr_d (- 7) @ '' '' @ pr_d (- 7) @ NL"
definition P50_2_DEL_SLAVE_IP :: "string \<Rightarrow> string" where
  "P50_2_DEL_SLAVE_IP ip = ''ptp2 u filter slave del '' @ ip @ NL"

text \<open>
  The address of the network card from its text: pairs of digits, each ended by the character behind it, which is skipped. The
  state is the pair so far, its number of digits, and the bytes that are complete. The text is read to its 18th character.
\<close>

definition mac_digit :: "int \<Rightarrow> int" where
  "mac_digit v = (let v = (if 48 \<le> v \<and> v \<le> 57 then v - 48 else v);
                      v = (if 97 \<le> v \<and> v \<le> 102 then v - 87 else v)
                  in if 65 \<le> v \<and> v \<le> 70 then v - 55 else v)"

fun mac_bytes :: "int \<Rightarrow> nat \<Rightarrow> int list \<Rightarrow> bytes \<Rightarrow> int list" where
  "mac_bytes c n m [] = m"
| "mac_bytes c n m (b # bs) =
     (if n = 2 then mac_bytes 0 0 (m @ [c]) bs
      else if uint b = 58 then mac_bytes c n m bs
      else let v = mac_digit (uint b) in mac_bytes (u8 (c + (if n = 0 then u8 (v * 16) else v))) (n + 1) m bs)"

definition hex02 :: "int \<Rightarrow> string" where
  "hex02 v = (if v < 16 then ''0'' else []) @ hex_nat (nat v)"

definition ptp_set_mac :: "bytes \<Rightarrow> string" where
  "ptp_set_mac macSrc =
     (let mac = mac_bytes 0 0 [] (take 18 macSrc); mac = mac @ replicate (6 - length mac) 0
      in ''ipconfig -s '' @ concat (map (\<lambda>i. hex02 (mac ! i)) [0..<6]) @ NL)"

text \<open>
  The commands of a configuration until it ends or a field has no value that is allowed; the second component is whether the end
  was reached. A text field without a zero has no text.
\<close>

type_synonym script = "string list \<times> bool"

definition script_then :: "script \<Rightarrow> script \<Rightarrow> script" where
  "script_then a b = (if snd a then (fst a @ fst b, snd b) else a)"

definition choice :: "int \<Rightarrow> (int \<times> string) list \<Rightarrow> script" where
  "choice v table = (case map_of table v of Some c \<Rightarrow> ([c], True) | None \<Rightarrow> ([], False))"

definition common_script :: "ptpinfo \<Rightarrow> script" where
  "common_script cfg =
     script_then (choice (ptpDelayType cfg) [(DELAY_E2E, P50_CMD_E2E), (DELAY_P2P, P50_CMD_P2P)])
    (script_then (choice (ptpLayer cfg) [(LAYER2, P50_CMD_LAYER2), (LAYER3, P50_CMD_LAYER3)])
             (choice (ptpStep cfg) [(ONE_STEP, P50_CMD_1STEP), (TWO_STEP, P50_CMD_2STEP)]))"

definition rates_script :: "ptpinfo \<Rightarrow> script" where
  "rates_script cfg = ([P50_FILL_SYNC (- 8 + ptpSync cfg), P50_FILL_ANNOUNCE (- 8 + ptpAnnounce cfg),
     P50_FILL_PDELAY_REQ (- 8 + ptpPdelayReq cfg)], True)"

definition levels_script :: "ptpinfo \<Rightarrow> script option" where
  "levels_script cfg =
     do { level \<leftarrow> cstr (ptpLevel cfg); priority \<leftarrow> cstr (ptpPriority cfg);
          Some ([P50_FILL_LEVEL 1 (atoi level), P50_FILL_LEVEL 2 (atoi priority)], True) }"

definition ptp_script :: "issEnv \<Rightarrow> ptpinfo \<Rightarrow> script option" where
  "ptp_script env cfg =
     do { region \<leftarrow> cstr (ptpRegion cfg); ip \<leftarrow> cstr (ptpIp cfg); levels \<leftarrow> levels_script cfg;
          Some (script_then (common_script cfg)
               (script_then (choice (ptpSsmEnable cfg) [(0, P50_CMD_SSMENABLE_ZERO), (1, P50_CMD_SSMENABLE_ONE)])
               (script_then (if ptpMulticast cfg = UNICAST
                         then (P50_CMD_UNICAST # (if ptpSlaveIp_num cfg > 0
                                then [P50_FILL_SLAVE_IP env (is_inet_ntop env (ptpSlaveIp cfg ! 0))] else []), True)
                         else if ptpMulticast cfg = MULTICAST then ([P50_CMD_MULTICAST], True) else ([], True))
               (script_then (rates_script cfg)
               (script_then ([P50_FILL_REGION (atoi region), P50_FILL_IP env ip, ptp_set_mac (ptpMac cfg)], True) levels))))) }"

text \<open>
  The commands are also collected in a buffer, whose length is looked at in the end: the result is whether all was
  written and the buffer was large enough.
\<close>

definition PTP_BUF :: nat where "PTP_BUF = 2048"

definition script_size :: "string list \<Rightarrow> nat" where
  "script_size cs = sum_list (map (\<lambda>c. length c + 1) cs)"

definition run_script :: "issEnv \<Rightarrow> script \<Rightarrow> iss \<Rightarrow> bool \<times> iss" where
  "run_script env sc s =
     pair_then (p50_commands env (map p50_text (fst sc)) s) (\<lambda>s. (snd sc, s))"

definition PtpSendConfig :: "issEnv \<Rightarrow> ptpinfo \<Rightarrow> iss \<Rightarrow> (bool \<times> iss) option" where
  "PtpSendConfig env cfg s =
     do { sc \<leftarrow> ptp_script env cfg;
          if PTP_BUF < script_size (fst sc) then None
          else Some (pair_then (run_script env sc s) (\<lambda>s. (script_size (fst sc) < PTP_BUF, s))) }"

text \<open>
  The second kind of board. The addresses are sent when they have changed, unless the board serves single clients over
  layer 3: then they are sent always, between a stop and a new start. The slot selects the addresses that were sent last.
\<close>

definition old_at :: "bytes list \<Rightarrow> int \<Rightarrow> bytes" where
  "old_at olds slot = olds ! nat (slot - 1)"

type_synonym step = "string \<times> (iss \<Rightarrow> iss)"

fun run_steps :: "issEnv \<Rightarrow> step list \<Rightarrow> iss \<Rightarrow> bool \<times> iss" where
  "run_steps env [] s = (True, s)"
| "run_steps env ((c, note) # cs) s = pair_then (p50_write env (p50_text c) s) (\<lambda>s. run_steps env cs (note s))"

definition note_ip :: "int \<Rightarrow> ptpinfo \<Rightarrow> iss \<Rightarrow> iss" where
  "note_ip slot cfg s = s\<lparr>old_ptpIp := (old_ptpIp s)[nat (slot - 1) := ptpIp cfg]\<rparr>"

definition note_mask :: "int \<Rightarrow> ptpinfo \<Rightarrow> iss \<Rightarrow> iss" where
  "note_mask slot cfg s = s\<lparr>old_ptpMask := (old_ptpMask s)[nat (slot - 1) := ptpMask cfg]\<rparr>"

definition note_gateway :: "int \<Rightarrow> ptpinfo \<Rightarrow> iss \<Rightarrow> iss" where
  "note_gateway slot cfg s = s\<lparr>old_ptpGateway := (old_ptpGateway s)[nat (slot - 1) := ptpGateway cfg]\<rparr>"

definition restart_steps :: "int \<Rightarrow> ptpinfo \<Rightarrow> step list option" where
  "restart_steps slot cfg =
     do { ip \<leftarrow> cstr (ptpIp cfg); m \<leftarrow> cstr (ptpMask cfg); gw \<leftarrow> cstr (ptpGateway cfg);
          Some [(P50_CMD_PTP_OFF, id), (P50_2_FILL_IP ip, note_ip slot cfg), (P50_2_FILL_MASK m, note_mask slot cfg),
            (P50_2_FILL_GATEWAY gw, note_gateway slot cfg), (P50_CMD_PTP_ON, id), (P50_CMD_ESMC_AUTO, id),
            (P50_CMD_IN_CM_TOD, id), (P50_CMD_IN_B9600, id), (P50_CMD_CLOCK_CLASS, id), (P50_CMD_HOLD_TIME, id),
            (P50_CMD_SSM_CLASS, id)] }"

definition changed_steps :: "int \<Rightarrow> ptpinfo \<Rightarrow> iss \<Rightarrow> step list option" where
  "changed_steps slot cfg s =
     do { ip \<leftarrow> cstr (ptpIp cfg); m \<leftarrow> cstr (ptpMask cfg); gw \<leftarrow> cstr (ptpGateway cfg);
          Some ((if ptpIp cfg \<noteq> old_at (old_ptpIp s) slot then [(P50_2_FILL_IP ip, note_ip slot cfg)] else [])
              @ (if ptpMask cfg \<noteq> old_at (old_ptpMask s) slot then [(P50_2_FILL_MASK m, note_mask slot cfg)] else [])
              @ (if ptpGateway cfg \<noteq> old_at (old_ptpGateway s) slot then [(P50_2_FILL_GATEWAY gw, note_gateway slot cfg)]
                 else [])) }"

text \<open>The addresses of the clients in host order; those that the board has are deleted, and the new ones are added.\<close>

definition client_texts :: "issEnv \<Rightarrow> (string \<Rightarrow> string) \<Rightarrow> int list \<Rightarrow> int \<Rightarrow> string list" where
  "client_texts env f ips num = map (\<lambda>i. f (is_inet_ntop env (ips ! i))) [0..<nat num]"

definition clients_script :: "issEnv \<Rightarrow> ptpinfo \<Rightarrow> script" where
  "clients_script env cfg =
     (if ptpMulticast cfg = UNICAST
      then (P50_2_CMD_UNICAST # (if ptpLayer cfg = LAYER3
             then client_texts env P50_2_DEL_SLAVE_IP (oldptpSlaveIp cfg) (oldptpSlaveIp_num cfg)
                  @ client_texts env P50_2_FILL_SLAVE_IP (ptpSlaveIp cfg) (ptpSlaveIp_num cfg)
             else []), True)
      else if ptpMulticast cfg = MULTICAST then ([P50_2_CMD_MULTICAST], True) else ([], True))"

definition note_clients :: "ptpinfo \<Rightarrow> ptpinfo" where
  "note_clients cfg =
     (if ptpMulticast cfg = UNICAST \<and> ptpLayer cfg = LAYER3
      then cfg\<lparr>oldptpSlaveIp := ptpSlaveIp cfg, oldptpSlaveIp_num := ptpSlaveIp_num cfg\<rparr> else cfg)"

definition tail_script :: "ptpinfo \<Rightarrow> script option" where
  "tail_script cfg =
     do { region \<leftarrow> cstr (ptpRegion cfg); levels \<leftarrow> levels_script cfg;
          Some (script_then (rates_script cfg) (script_then ([P50_2_FILL_REGION (atoi region)], True) levels)) }"

definition login_texts :: "string list" where
  "login_texts = [NL, ''root'' @ NL, ''root'' @ NL]"

text \<open>
  The parts of the configuration in their order, each with what is noted after it; the lists of the clients are
  noted in the setting. What the parts send after the login is collected in the buffer.
\<close>

definition address_steps :: "int \<Rightarrow> ptpinfo \<Rightarrow> iss \<Rightarrow> step list option" where
  "address_steps slot cfg s =
     (if ptpLayer cfg = LAYER3 \<and> ptpMulticast cfg = UNICAST then restart_steps slot cfg else changed_steps slot cfg s)"

definition middle_script :: "issEnv \<Rightarrow> ptpinfo \<Rightarrow> script" where
  "middle_script env cfg = script_then (common_script cfg) (clients_script env cfg)"

definition Ptp2SendConfig :: "issEnv \<Rightarrow> int \<Rightarrow> ptpinfo \<Rightarrow> iss \<Rightarrow> ((bool \<times> iss) \<times> ptpinfo) option" where
  "Ptp2SendConfig env slot cfg s =
     do { addrs \<leftarrow> address_steps slot cfg s;
          tail \<leftarrow> tail_script cfg;
          let size = script_size (map fst addrs @ fst (script_then (middle_script env cfg) tail));
          if PTP_BUF < size then None
          else Some
            (let r1 = pair_then (p50_commands env (map p50_text login_texts) s) (run_steps env addrs);
                 r2 = pair_then r1 (run_script env (middle_script env cfg));
                 r3 = pair_then r2 (\<lambda>s. pair_then (run_script env tail s) (\<lambda>s. (size < PTP_BUF, s)))
             in (r3, if fst r2 then note_clients cfg else cfg)) }"

text \<open>The board with fibre: its commands have no zero, and its buffer is smaller.\<close>

definition pf_rates :: "ptpfinfo \<Rightarrow> script" where
  "pf_rates cfg = ([P50_FILL_SYNC (- 8 + pfSync cfg), P50_FILL_ANNOUNCE (- 8 + pfAnnounce cfg),
     P50_FILL_PDELAY_REQ (- 8 + pfPdelayReq cfg)], True)"

definition signal_script :: "int \<Rightarrow> script" where
  "signal_script sig =
     (if sig = int SIGNAL_NONE then ([P50_CMD_NTP_OFF, P50_CMD_PTP_OFF], True)
      else if sig = int SIGNAL_NTP then ([P50_CMD_NTP_ON, P50_CMD_PTP_OFF], True)
      else if sig = int SIGNAL_PTP then ([], True)
      else ([], False))"

definition ptpf_script :: "issEnv \<Rightarrow> ptpfinfo \<Rightarrow> script option" where
  "ptpf_script env cfg =
     do { ip \<leftarrow> cstr (pfIp cfg);
          Some (script_then (signal_script (pfSignalType cfg))
               (script_then (choice (pfDelayType cfg) [(DELAY_E2E, P50_CMD_E2E), (DELAY_P2P, P50_CMD_P2P)])
               (script_then (choice (pfLayer cfg) [(LAYER2, P50_CMD_LAYER2), (LAYER3, P50_CMD_LAYER3)])
               (script_then (choice (pfStep cfg) [(ONE_STEP, P50_CMD_1STEP), (TWO_STEP, P50_CMD_2STEP)])
               (script_then (pf_rates cfg) ([P50_FILL_IP env ip], True)))))) }"

definition CR :: string where "CR = [CHR 0x0D]"

definition PtpfSendConfig :: "issEnv \<Rightarrow> ptpfinfo \<Rightarrow> iss \<Rightarrow> (bool \<times> iss) option" where
  "PtpfSendConfig env cfg s =
     do { sc \<leftarrow> ptpf_script env cfg;
          if 1024 < length (concat (fst sc)) then None
          else Some (pair_then (p50_commands env (map text_bytes ((CR @ ''root'' @ CR @ ''root'' @ CR) # fst sc)) s)
                 (\<lambda>s. (snd sc, s))) }"

text \<open>The signal is written for all boards but those of NTP and of the substations, the configuration for the two kinds of PTP.\<close>

definition upd_board :: "int \<Rightarrow> (outputsta \<Rightarrow> outputsta) \<Rightarrow> iss \<Rightarrow> iss" where
  "upd_board slot f s = s\<lparr>outSta := (outSta s)[nat (slot - 1) := f (outSta s ! nat (slot - 1))]\<rparr>"

definition PTPIssueConfig :: "issEnv \<Rightarrow> int \<Rightarrow> iss \<Rightarrow> (bool \<times> iss) option" where
  "PTPIssueConfig env slot s =
     (if slot > SLOT_CURSOR_ARRAY_SIZE then Some (False, s)
      else do { b \<leftarrow> arr (outSta s) (slot - 1);
                if ptpType (ptp b) = PTP_TYPE_CN then PtpSendConfig env (ptp b) s
                else do { ((ok, s), cfg) \<leftarrow> Ptp2SendConfig env slot (ptp b) s;
                          Some (ok, upd_board slot (\<lambda>b. b\<lparr>ptp := cfg\<rparr>) s) } })"

definition PTPFIssueConfig :: "issEnv \<Rightarrow> int \<Rightarrow> iss \<Rightarrow> (bool \<times> iss) option" where
  "PTPFIssueConfig env slot s =
     (if slot > SLOT_CURSOR_ARRAY_SIZE then Some (False, s)
      else do { b \<leftarrow> arr (outSta s) (slot - 1);
                let cfg = (ptpf b)\<lparr>pfSignalType := out_signal b\<rparr>;
                PtpfSendConfig env cfg (upd_board slot (\<lambda>b. b\<lparr>ptpf := cfg\<rparr>) s) })"

definition IssueConfig :: "issEnv \<Rightarrow> int \<Rightarrow> int \<Rightarrow> iss \<Rightarrow> (bool \<times> iss) option" where
  "IssueConfig env slot bid s =
     (if bid = BID_NTP \<or> bid = BID_NTPF \<or> bid = BID_61850 then Some (True, s)
      else do { (ok, s) \<leftarrow> OUTCOMMIssueConfig env slot s;
                if \<not> ok then Some (False, s)
                else if bid = BID_PTP then PTPIssueConfig env slot s
                else if bid = BID_PTPF then PTPFIssueConfig env slot s
                else Some (True, s) })"

end
