(* ===== verification/OutPtpSpec.thy ===== *)
theory OutPtpSpec
  imports OutPtp
begin

unbundle bit_operations_syntax

text \<open>
  What the boards get: the delays in their registers, the commands of PTP, which fit into their buffer, and the quality
  of the clock that goes out.
\<close>

section \<open>Writing to a working device\<close>

definition put :: "int \<times> int \<Rightarrow> request" where
  "put = (\<lambda>(a, v). (FPGA_WRITE, a * 65536 + u16 v))"

definition puts :: "(int \<times> int) list \<Rightarrow> iss \<Rightarrow> iss" where
  "puts ws s = s\<lparr>ireqs := ireqs s @ map put ws\<rparr>"

lemma puts_simps [simp]: "puts [] s = s" "puts vs (puts ws s) = puts (ws @ vs) s"
  by (simp_all add: puts_def)

definition in_device :: "(int \<times> int) list \<Rightarrow> bool" where
  "in_device ws = list_all (\<lambda>(a, v). 0 \<le> a \<and> a < 65536) ws"

lemma iss_writes_ok:
  "driver_inputs (is_fpga env) inp \<Longrightarrow> in_device ws \<Longrightarrow> iss_writes env ws s = (True, puts ws s)"
proof (induction ws arbitrary: s)
  case (Cons w ws)
  then show ?case
    by (cases w) (simp add: iss_write_def driver_inputs_write in_device_def puts_def put_def)
qed (simp add: puts_def)

lemma reg_after_puts:
  "reg_after a (rs @ map put ws) = foldl (\<lambda>v (b, x). if b = a then u16 x else v) (reg_after a rs) ws"
proof (induction ws arbitrary: rs)
  case (Cons w ws)
  have "reg_after a (rs @ [put w]) = (if fst w = a then u16 (snd w) else reg_after a rs)"
    by (cases w) (simp add: put_def reg_after_def reg_step_write)
  then show ?case using Cons.IH[of "rs @ [put w]"] by (cases w) simp
qed simp

lemma reg_puts: "reg_after a (ireqs (puts ws s)) = foldl (\<lambda>v (b, x). if b = a then u16 x else v) (reg_after a (ireqs s)) ws"
  by (simp add: puts_def reg_after_puts)

section \<open>Delays\<close>

text \<open>What the two registers of a delay say: 27 bits of magnitude and a sign.\<close>

definition delay_of :: "int \<Rightarrow> int \<Rightarrow> int" where
  "delay_of low high = (let v = high * 65536 + low in if v < 134217728 then v else 134217728 - v)"

lemma and_low: "x AND 65535 = x mod 65536" "x AND 4095 = x mod 4096" "x AND 134217727 = x mod 134217728" for x :: int
  using take_bit_eq_mask[of 16 x] take_bit_eq_mask[of 12 x] take_bit_eq_mask[of 27 x]
  by (simp_all add: mask_eq_exp_minus_1 take_bit_eq_mod)

lemma delay_value_eq:
  assumes "- 134217728 < d" "d < 134217728"
  shows "delay_value d = (if d < 0 then 134217728 - d else d)"
proof -
  have m: "x OR BIT SIGN_BIT = 134217728 + x" if "0 \<le> x" "x < 134217728" for x
    using or_low[of x 27 1] that by (simp add: BIT_def SIGN_BIT_def or.commute push_bit_eq_mult)
  show ?thesis using assms by (auto simp: delay_value_def Let_def and_low m)
qed

lemma delay_split:
  assumes "- 134217728 < d" "d < 134217728"
  shows "delay_of (u16 (delay_value d AND 0x0000FFFF)) (u16 (drop_bit 16 (delay_value d) AND 0x00000FFF)) = d"
proof -
  have v: "0 \<le> delay_value d" "delay_value d < 268435456" using assms by (auto simp: delay_value_eq)
  have h: "delay_value d div 65536 < 4096" "0 \<le> delay_value d div 65536"
    using v by (simp_all add: div_less_iff_less_mult pos_imp_zdiv_nonneg_iff)
  have "u16 (delay_value d AND 0x0000FFFF) = delay_value d mod 65536" by (simp add: and_low)
  moreover have "u16 (drop_bit 16 (delay_value d) AND 0x00000FFF) = delay_value d div 65536"
    using h by (simp add: and_low drop_bit_eq_div)
  moreover have "delay_value d div 65536 * 65536 + delay_value d mod 65536 = delay_value d" by simp
  ultimately show ?thesis using assms by (simp add: delay_of_def Let_def delay_value_eq)
qed

lemmas delay_registers = FPGA_SYS_OUT_TOD_DELAY_LOW_def FPGA_SYS_OUT_TOD_DELAY_HIGH_def
  FPGA_SYS_OUT_IRIGB_DELAY_LOW_def FPGA_SYS_OUT_IRIGB_DELAY_HIGH_def FPGA_SYS_OUT_PPX_DELAY_LOW_def
  FPGA_SYS_OUT_PPX_DELAY_HIGH_def FPGA_SYS_OUT_PTP_DELAY_LOW_def FPGA_SYS_OUT_PTP_DELAY_HIGH_def

definition read_delay :: "int \<Rightarrow> int \<Rightarrow> iss \<Rightarrow> int" where
  "read_delay low high s = delay_of (reg_after low (ireqs s)) (reg_after high (ireqs s))"

text \<open>
  A working device gets the delays of the four signals exactly: what its registers say is the delay that is set,
  with its sign, for every delay of at most 27 bits, and no other register changes.
\<close>

theorem delays_read_back:
  assumes "driver_inputs (is_fpga env) inp"
    and "out_delays s = [tod, irigb, ppx, ptpd]" "\<forall>d \<in> {tod, irigb, ppx, ptpd}. \<bar>d\<bar> < 2 ^ 27"
  shows "\<exists>s'. IssueDelay env s = (True, s')
    \<and> read_delay FPGA_SYS_OUT_TOD_DELAY_LOW FPGA_SYS_OUT_TOD_DELAY_HIGH s' = tod
    \<and> read_delay FPGA_SYS_OUT_IRIGB_DELAY_LOW FPGA_SYS_OUT_IRIGB_DELAY_HIGH s' = irigb
    \<and> read_delay FPGA_SYS_OUT_PPX_DELAY_LOW FPGA_SYS_OUT_PPX_DELAY_HIGH s' = ppx
    \<and> read_delay FPGA_SYS_OUT_PTP_DELAY_LOW FPGA_SYS_OUT_PTP_DELAY_HIGH s' = ptpd
    \<and> (\<forall>a. a < FPGA_SYS_OUT_TOD_DELAY_LOW \<or> FPGA_SYS_OUT_PTP_DELAY_HIGH < a
          \<longrightarrow> reg_after a (ireqs s') = reg_after a (ireqs s))"
proof -
  define ws where "ws = delay_writes FPGA_SYS_OUT_TOD_DELAY_LOW FPGA_SYS_OUT_TOD_DELAY_HIGH tod
      @ delay_writes FPGA_SYS_OUT_IRIGB_DELAY_LOW FPGA_SYS_OUT_IRIGB_DELAY_HIGH irigb
      @ delay_writes FPGA_SYS_OUT_PPX_DELAY_LOW FPGA_SYS_OUT_PPX_DELAY_HIGH ppx
      @ delay_writes FPGA_SYS_OUT_PTP_DELAY_LOW FPGA_SYS_OUT_PTP_DELAY_HIGH ptpd"
  note split = delay_split[of tod] delay_split[of irigb] delay_split[of ppx] delay_split[of ptpd]
  have d: "in_device ws" by (simp add: ws_def in_device_def delay_writes_def delay_registers FPGA_SYS2_COMMON_sum)
  have i: "IssueDelay env s = (True, puts ws s)"
    unfolding IssueDelay_def using iss_writes_ok[OF assms(1) d] assms(2) by (simp add: ws_def)
  have r: "read_delay FPGA_SYS_OUT_TOD_DELAY_LOW FPGA_SYS_OUT_TOD_DELAY_HIGH (puts ws s) = tod"
    "read_delay FPGA_SYS_OUT_IRIGB_DELAY_LOW FPGA_SYS_OUT_IRIGB_DELAY_HIGH (puts ws s) = irigb"
    "read_delay FPGA_SYS_OUT_PPX_DELAY_LOW FPGA_SYS_OUT_PPX_DELAY_HIGH (puts ws s) = ppx"
    "read_delay FPGA_SYS_OUT_PTP_DELAY_LOW FPGA_SYS_OUT_PTP_DELAY_HIGH (puts ws s) = ptpd"
    unfolding read_delay_def reg_puts ws_def delay_writes_def using assms(3) split
    by (simp_all add: delay_registers FPGA_SYS2_COMMON_sum abs_less_iff)
  have oth: "reg_after a (ireqs (puts ws s)) = reg_after a (ireqs s)"
    if "a < FPGA_SYS_OUT_TOD_DELAY_LOW \<or> FPGA_SYS_OUT_PTP_DELAY_HIGH < a" for a
    using that unfolding reg_puts ws_def delay_writes_def
    by (auto simp: delay_registers FPGA_SYS2_COMMON_sum)
  show ?thesis using i r oth by blast
qed

definition iss0 :: iss where
  "iss0 = \<lparr>outSta = [], out_delays = [0, 0, 0, 0], mb_sa = [], out_br = 0, irigb_amp = 0, irigb_vol = 0, irigb_zone = 64,
     clkSta = 0, clkSta_pre = 4, clock_source_pre = 0, tsrc_type = NO_SOURCE_TYPE, tsrc_flag = INVALID_SOURCE_FLAG,
     tsrc_slot = 0, in_ssm_pre = 9, old_ptpIp = [], old_ptpMask = [], old_ptpGateway = [], ireqs = []\<rparr>"

lemma delays_read_back_witness:
  "\<exists>s'. IssueDelay \<lparr>is_fpga = demo_driver, is_inet_addr = \<lambda>_. 0, is_inet_ntop = \<lambda>_. []\<rparr>
      (iss0\<lparr>out_delays := [- 100000, 0, 5, 134217727]\<rparr>) = (True, s')
    \<and> read_delay FPGA_SYS_OUT_TOD_DELAY_LOW FPGA_SYS_OUT_TOD_DELAY_HIGH s' = - 100000
    \<and> read_delay FPGA_SYS_OUT_PTP_DELAY_LOW FPGA_SYS_OUT_PTP_DELAY_HIGH s' = 134217727"
proof -
  have d: "driver_inputs demo_driver (\<lambda>rs a. reg_after a rs)"
    by (simp add: driver_inputs_def demo_driver_def FPGA_READ_def FPGA_WRITE_def reg_after_range)
  show ?thesis
    using delays_read_back[of "\<lparr>is_fpga = demo_driver, is_inet_addr = \<lambda>_. 0, is_inet_ntop = \<lambda>_. []\<rparr>"
      "\<lambda>rs a. reg_after a rs" "iss0\<lparr>out_delays := [- 100000, 0, 5, 134217727]\<rparr>" "- 100000" 0 5 134217727] d
    by auto
qed

section \<open>Commands\<close>

lemmas ptp_registers = FPGA_SYS_OUT_PTP_WADDR_def FPGA_SYS_OUT_PTP_WVALUE_def FPGA_SYS_OUT_PTP_WEN_def
  FPGA_SYS_OUT_PTP_WREADY_def

definition good_commands :: "bytes list \<Rightarrow> bool" where
  "good_commands cs = list_all (\<lambda>c. c \<noteq> [] \<and> length c \<le> 65536) cs"

lemma p50_in_device: "good_commands cs \<Longrightarrow> in_device (concat (map p50_bytes cs))"
  by (induction cs)
    (auto simp: in_device_def p50_bytes_def p50_byte_def good_commands_def list_all_iff ptp_registers FPGA_SYS2_COMMON_sum
      split: prod.splits)

lemma p50_commands_ok:
  assumes "driver_inputs (is_fpga env) inp" "good_commands cs"
  shows "p50_commands env cs s = (True, puts (concat (map p50_bytes cs)) s)"
  using assms(2)
proof (induction cs arbitrary: s)
  case (Cons c cs)
  have "in_device (p50_bytes c)" using p50_in_device[of "[c]"] Cons.prems by (simp add: good_commands_def)
  then show ?case using Cons by (simp add: p50_write_def iss_writes_ok[OF assms(1)] good_commands_def)
qed simp

definition sends :: "string list \<Rightarrow> request list" where
  "sends cs = map put (concat (map p50_bytes (map p50_text cs)))"

lemma sends_append: "sends (cs @ ds) = sends cs @ sends ds"
  by (simp add: sends_def)

definition short_texts :: "string list \<Rightarrow> bool" where
  "short_texts cs = list_all (\<lambda>c. length c < 65536) cs"

lemma short_good: "short_texts cs \<Longrightarrow> good_commands (map p50_text cs)"
  by (auto simp: short_texts_def good_commands_def p50_text_def text_bytes_def list_all_iff)

lemma script_size_member: "c \<in> set cs \<Longrightarrow> length c < script_size cs"
  by (induction cs) (auto simp: script_size_def)

lemma script_short: "script_size cs \<le> PTP_BUF \<Longrightarrow> set ds \<subseteq> set cs \<Longrightarrow> short_texts ds"
  using script_size_member by (fastforce simp: short_texts_def list_all_iff PTP_BUF_def)

lemma commands_sent:
  "driver_inputs (is_fpga env) inp \<Longrightarrow> short_texts cs \<Longrightarrow>
   p50_commands env (map p50_text cs) s = (True, s\<lparr>ireqs := ireqs s @ sends cs\<rparr>)"
  by (simp add: p50_commands_ok short_good puts_def sends_def)

lemma run_script_sent:
  "driver_inputs (is_fpga env) inp \<Longrightarrow> short_texts (fst sc) \<Longrightarrow>
   run_script env sc s = (snd sc, s\<lparr>ireqs := ireqs s @ sends (fst sc)\<rparr>)"
  by (simp add: run_script_def commands_sent)

definition quiet_steps :: "step list \<Rightarrow> bool" where
  "quiet_steps st \<longleftrightarrow> (\<forall>f \<in> snd ` set st. \<forall>s. ireqs (f s) = ireqs s \<and> outSta (f s) = outSta s)"

lemma run_steps_sent:
  "driver_inputs (is_fpga env) inp \<Longrightarrow> short_texts (map fst st) \<Longrightarrow> quiet_steps st \<Longrightarrow>
   \<exists>s'. run_steps env st s = (True, s') \<and> ireqs s' = ireqs s @ sends (map fst st) \<and> outSta s' = outSta s"
proof (induction st arbitrary: s)
  case (Cons c st)
  obtain x f where c: "c = (x, f)" by force
  have w: "p50_write env (p50_text x) s = (True, s\<lparr>ireqs := ireqs s @ sends [x]\<rparr>)"
    using commands_sent[OF Cons.prems(1), of "[x]" s] Cons.prems(2) c
    by (cases "p50_write env (p50_text x) s") (auto simp: short_texts_def pair_then_def split: if_splits)
  have q: "quiet_steps st" "ireqs (f t) = ireqs t" "outSta (f t) = outSta t" for t using Cons.prems(3) c by (auto simp: quiet_steps_def)
  have "short_texts (map fst st)" using Cons.prems(2) by (simp add: short_texts_def)
  then show ?case
    using Cons.IH[OF Cons.prems(1) _ q(1), of "f (s\<lparr>ireqs := ireqs s @ sends [x]\<rparr>)"] c w q(2,3)
      sends_append[of "[x]" "map fst st"] by auto
qed (simp add: sends_def)

lemma address_steps_quiet: "address_steps slot cfg s = Some st \<Longrightarrow> quiet_steps st"
  by (auto simp: address_steps_def restart_steps_def changed_steps_def quiet_steps_def note_ip_def note_mask_def
      note_gateway_def Option.bind_eq_Some_conv split: if_splits)

lemma login_short: "short_texts login_texts"
  by (simp add: short_texts_def login_texts_def NL_def)

lemmas p50_texts = NL_def P50_CMD_E2E_def P50_CMD_P2P_def P50_CMD_LAYER2_def P50_CMD_LAYER3_def P50_CMD_1STEP_def
  P50_CMD_2STEP_def P50_2_CMD_UNICAST_def P50_2_CMD_MULTICAST_def P50_CMD_PTP_ON_def P50_CMD_PTP_OFF_def
  P50_CMD_ESMC_AUTO_def P50_CMD_IN_CM_TOD_def P50_CMD_IN_B9600_def P50_CMD_CLOCK_CLASS_def P50_CMD_HOLD_TIME_def
  P50_CMD_SSM_CLASS_def P50_FILL_SYNC_def P50_FILL_ANNOUNCE_def P50_FILL_PDELAY_REQ_def P50_2_FILL_REGION_def
  P50_FILL_LEVEL_def P50_2_FILL_IP_def P50_2_FILL_MASK_def P50_2_FILL_GATEWAY_def

lemma out_signal_register:
  assumes "0 < slot" "slot \<le> SLOT_CURSOR_ARRAY_SIZE"
  shows "FPGA_OUT_SIGNAL slot = slot * 2048"
proof -
  have "slot AND 31 = slot" using assms take_bit_eq_mask[of 5 slot]
    by (simp add: mask_eq_exp_minus_1 SLOT_CURSOR_ARRAY_SIZE_def take_bit_int_eq_self)
  then show ?thesis by (simp add: FPGA_OUT_SIGNAL_def FPGA_OUT_BDTYPE_COMMON_def FPGA_OUT_ADDR_def FPGA_ADDR_sum)
qed

lemma signal_sent:
  assumes "driver_inputs (is_fpga env) inp" "0 < slot" "slot \<le> SLOT_CURSOR_ARRAY_SIZE"
    and "OUTCOMMIssueConfig env slot s = Some (ok, t)"
  shows "ok \<and> outSta t = outSta s"
proof -
  obtain b where b: "arr (outSta s) (slot - 1) = Some b" "CommonIssueConfig env (out_signal b) slot s = (ok, t)"
    using assms(3,4) by (auto simp: OUTCOMMIssueConfig_def Option.bind_eq_Some_conv)
  have "0 \<le> FPGA_OUT_SIGNAL slot" "FPGA_OUT_SIGNAL slot < 65536"
    using assms(2,3) by (simp_all add: out_signal_register SLOT_CURSOR_ARRAY_SIZE_def)
  then have "ok \<and> t = s\<lparr>ireqs := ireqs s @ [put (FPGA_OUT_SIGNAL slot, out_signal b)]\<rparr>"
    using b(2) assms(2,3) by (simp add: CommonIssueConfig_def iss_write_def driver_inputs_write[OF assms(1)] put_def)
  then show ?thesis by simp
qed

definition board_cfg :: "int \<Rightarrow> iss \<Rightarrow> ptpinfo" where
  "board_cfg slot s = ptp (outSta s ! nat (slot - 1))"

section \<open>The commands fit into their buffer\<close>

lemma dec_nat_length: "n < 10 ^ k \<Longrightarrow> 0 < k \<Longrightarrow> length (dec_nat n) \<le> k"
proof (induction k arbitrary: n)
  case (Suc k)
  show ?case
  proof (cases "n < 10")
    case False
    then have "k \<noteq> 0" using Suc.prems by (cases k) auto
    then have "length (dec_nat (n div 10)) \<le> k" using Suc by (simp add: div_less_iff_less_mult)
    then show ?thesis using False by (subst dec_nat.simps) simp
  qed (subst dec_nat.simps, simp)
qed simp

lemma pr_d_int: "- 2147483648 \<le> i \<Longrightarrow> i \<le> 2147483647 \<Longrightarrow> length (pr_d i) \<le> 11"
  using dec_nat_length[of "nat (- i)" 10] dec_nat_length[of "nat i" 10] by (auto simp: pr_d_def nat_less_iff)

lemma pr_d_atoi: "length (pr_d (atoi x)) \<le> 11"
  by (rule pr_d_int) (auto simp: atoi_def scan_d_def clamp32_def Let_def split: option.splits if_splits)

lemma pr_d_rate: "0 \<le> v \<Longrightarrow> v < 256 \<Longrightarrow> length (pr_d (- 8 + v)) \<le> 3"
  using dec_nat_length[of "nat (8 - v)" 1] dec_nat_length[of "nat (v - 8)" 3] by (auto simp: pr_d_def nat_less_iff)

lemma script_size_simps [simp]:
  "script_size [] = 0" "script_size (c # cs) = Suc (length c) + script_size cs"
  "script_size (cs @ ds) = script_size cs + script_size ds"
  by (simp_all add: script_size_def)

definition field_text :: "bytes \<Rightarrow> nat \<Rightarrow> bool" where
  "field_text f k \<longleftrightarrow> 0 \<in> set f \<and> length f \<le> k"

lemma field_cstr: "field_text f (Suc k) \<Longrightarrow> \<exists>x. cstr f = Some x \<and> length x \<le> k"
proof -
  assume a: "field_text f (Suc k)"
  then have "takeWhile ((\<noteq>) 0) f \<noteq> f" by (auto simp: field_text_def takeWhile_eq_all_conv)
  then have "length (takeWhile ((\<noteq>) 0) f) < length f"
    using length_takeWhile_le[of "(\<noteq>) 0" f] takeWhile_eq_take[of "(\<noteq>) 0" f] by (metis le_neq_implies_less order_refl take_all_iff)
  then show ?thesis using a by (auto simp: field_text_def cstr_def)
qed

text \<open>A setting that the fields of its record can hold, with choices that the commands know.\<close>

definition valid_ptp :: "ptpinfo \<Rightarrow> bool" where
  "valid_ptp cfg \<longleftrightarrow> ptpDelayType cfg \<in> {DELAY_E2E, DELAY_P2P} \<and> ptpLayer cfg \<in> {LAYER2, LAYER3}
     \<and> ptpStep cfg \<in> {ONE_STEP, TWO_STEP}
     \<and> (\<forall>v \<in> {ptpSync cfg, ptpAnnounce cfg, ptpPdelayReq cfg}. 0 \<le> v \<and> v < 256)
     \<and> (\<forall>f \<in> {ptpIp cfg, ptpMask cfg, ptpGateway cfg}. field_text f 16)
     \<and> (\<forall>f \<in> {ptpLevel cfg, ptpPriority cfg, ptpRegion cfg}. field_text f 4)
     \<and> (\<forall>n \<in> {oldptpSlaveIp_num cfg, ptpSlaveIp_num cfg}. 0 \<le> n \<and> n \<le> int MAX_IP_NUM)"

definition short_ntop :: "(int \<Rightarrow> string) \<Rightarrow> bool" where
  "short_ntop ntop \<longleftrightarrow> (\<forall>x. length (ntop x) < 16)"

lemma client_texts_size:
  assumes "\<And>ip. length ip < 16 \<Longrightarrow> length (f ip) < k" "short_ntop (is_inet_ntop env)" "0 \<le> n" "n \<le> int MAX_IP_NUM"
  shows "script_size (client_texts env f ips n) \<le> 16 * k"
proof -
  have "script_size (map (\<lambda>i. f (is_inet_ntop env (ips ! i))) is) \<le> length is * k" for "is"
  proof (induction "is")
    case (Cons i "is")
    have "length (f (is_inet_ntop env (ips ! i))) < k" using assms(1,2) by (simp add: short_ntop_def)
    then show ?case using Cons by simp
  qed simp
  from this[of "[0..<nat n]"] have "script_size (client_texts env f ips n) \<le> nat n * k"
    by (simp add: client_texts_def)
  also have "\<dots> \<le> 16 * k" using assms(4) by (simp add: MAX_IP_NUM_def nat_le_iff)
  finally show ?thesis .
qed

lemma pr_d_client: "length (pr_d (- 4)) = 2" "length (pr_d (- 7)) = 2"
  by code_simp+

lemma clients_size:
  assumes "valid_ptp cfg" "short_ntop (is_inet_ntop env)"
  shows "script_size (fst (clients_script env cfg)) \<le> 1473 \<and> snd (clients_script env cfg)"
proof -
  have "script_size (client_texts env P50_2_DEL_SLAVE_IP (oldptpSlaveIp cfg) (oldptpSlaveIp_num cfg)) \<le> 16 * 41"
    by (rule client_texts_size) (use assms in \<open>auto simp: P50_2_DEL_SLAVE_IP_def NL_def valid_ptp_def\<close>)
  moreover have "script_size (client_texts env P50_2_FILL_SLAVE_IP (ptpSlaveIp cfg) (ptpSlaveIp_num cfg)) \<le> 16 * 50"
    by (rule client_texts_size) (use assms in \<open>auto simp: P50_2_FILL_SLAVE_IP_def NL_def valid_ptp_def pr_d_client\<close>)
  ultimately show ?thesis by (auto simp: clients_script_def P50_2_CMD_UNICAST_def P50_2_CMD_MULTICAST_def NL_def)
qed

lemma common_size: "valid_ptp cfg \<Longrightarrow> script_size (fst (common_script cfg)) \<le> 50 \<and> snd (common_script cfg)"
  by (auto simp: valid_ptp_def common_script_def choice_def script_then_def p50_texts DELAY_E2E_def DELAY_P2P_def LAYER2_def
      LAYER3_def ONE_STEP_def TWO_STEP_def)

lemma addresses_size:
  assumes "valid_ptp cfg"
  shows "\<exists>st. address_steps slot cfg s = Some st \<and> script_size (map fst st) \<le> 260"
proof -
  obtain ip m gw where "cstr (ptpIp cfg) = Some ip" "length ip \<le> 15" "cstr (ptpMask cfg) = Some m" "length m \<le> 15"
    "cstr (ptpGateway cfg) = Some gw" "length gw \<le> 15"
    using assms field_cstr[of "ptpIp cfg" 15] field_cstr[of "ptpMask cfg" 15] field_cstr[of "ptpGateway cfg" 15]
    by (auto simp: valid_ptp_def)
  then show ?thesis by (simp add: address_steps_def restart_steps_def changed_steps_def p50_texts)
qed

lemma tail_size:
  assumes "valid_ptp cfg"
  shows "\<exists>t. tail_script cfg = Some t \<and> script_size (fst t) \<le> 140 \<and> snd t"
proof -
  obtain r l p where "cstr (ptpRegion cfg) = Some r" "cstr (ptpLevel cfg) = Some l" "cstr (ptpPriority cfg) = Some p"
    using assms by (auto simp: valid_ptp_def field_text_def cstr_def)
  moreover have "length (pr_d (- 8 + ptpSync cfg)) \<le> 3" "length (pr_d (- 8 + ptpAnnounce cfg)) \<le> 3"
    "length (pr_d (- 8 + ptpPdelayReq cfg)) \<le> 3"
    using assms by (simp_all only: valid_ptp_def pr_d_rate insert_iff ball_simps)
  moreover have "length (pr_d 1) \<le> 11" "length (pr_d 2) \<le> 11" by (rule pr_d_int; simp)+
  ultimately show ?thesis using pr_d_atoi[of r] pr_d_atoi[of l] pr_d_atoi[of p]
    by (simp add: tail_script_def levels_script_def rates_script_def script_then_def P50_FILL_SYNC_def P50_FILL_ANNOUNCE_def
        P50_FILL_PDELAY_REQ_def P50_2_FILL_REGION_def P50_FILL_LEVEL_def NL_def)
qed

lemma Ptp2SendConfig_succeeds:
  assumes "driver_inputs (is_fpga env) inp" "short_ntop (is_inet_ntop env)" "valid_ptp cfg"
  shows "\<exists>s' cfg'. Ptp2SendConfig env slot cfg s = Some ((True, s'), cfg')"
proof -
  obtain st where st: "address_steps slot cfg s = Some st" "script_size (map fst st) \<le> 260"
    using addresses_size[OF assms(3)] by blast
  obtain t where t: "tail_script cfg = Some t" "script_size (fst t) \<le> 140" "snd t"
    using tail_size[OF assms(3)] by blast
  define mid where "mid = middle_script env cfg"
  have m: "script_size (fst mid) \<le> 1523" "snd mid"
    using common_size[OF assms(3)] clients_size[OF assms(3,2)] by (auto simp: mid_def middle_script_def script_then_def)
  have size: "script_size (map fst st @ fst (script_then mid t)) < PTP_BUF" "snd (script_then mid t)"
    using st t m by (simp_all add: script_then_def PTP_BUF_def)
  note dev = assms(1)
  have short: "short_texts ds" if "set ds \<subseteq> set (map fst st @ fst mid @ fst t)" for ds
    by (rule script_short[of "map fst st @ fst mid @ fst t"]) (use that size m in \<open>auto simp: script_then_def\<close>)
  define s1 where "s1 = s\<lparr>ireqs := ireqs s @ sends login_texts\<rparr>"
  have l: "p50_commands env (map p50_text login_texts) s = (True, s1)"
    unfolding s1_def by (rule commands_sent[OF dev login_short])
  obtain s2 where s2: "run_steps env st s1 = (True, s2)"
    using run_steps_sent[OF dev short address_steps_quiet[OF st(1)], of s1] by auto
  have "run_script env mid u = (True, u\<lparr>ireqs := ireqs u @ sends (fst mid)\<rparr>)" for u
    using run_script_sent[OF dev short, of mid u] m(2) by auto
  moreover have "run_script env t u = (True, u\<lparr>ireqs := ireqs u @ sends (fst t)\<rparr>)" for u
    using run_script_sent[OF dev short, of t u] t(3) by auto
  ultimately show ?thesis using st(1) t(1) size l s2
    by (simp add: Ptp2SendConfig_def mid_def[symmetric] Let_def)
qed

lemma signal_succeeds:
  assumes "driver_inputs (is_fpga env) inp" "0 < slot" "slot \<le> SLOT_CURSOR_ARRAY_SIZE" "slot \<le> int (length (outSta s))"
  shows "\<exists>t. OUTCOMMIssueConfig env slot s = Some (True, t)"
proof -
  have "0 \<le> FPGA_OUT_SIGNAL slot" "FPGA_OUT_SIGNAL slot < 65536"
    using assms(2,3) by (simp_all add: out_signal_register SLOT_CURSOR_ARRAY_SIZE_def)
  then show ?thesis using assms(2-4)
    by (simp add: OUTCOMMIssueConfig_def arr_def CommonIssueConfig_def iss_write_def driver_inputs_write[OF assms(1)])
qed

text \<open>
  C40: with a working device the configuration of a board of PTP of the second kind succeeds for every setting whose choices are those that
  the commands know, whose texts end within their fields and which has at most sixteen clients, before and
  now: the commands stay below the 2048 bytes of their buffer, which is only looked at in the end.
\<close>

theorem ptp_commands_fit:
  assumes "driver_inputs (is_fpga env) inp" "short_ntop (is_inet_ntop env)"
    and "0 < slot" "slot \<le> SLOT_CURSOR_ARRAY_SIZE" "slot \<le> int (length (outSta s))"
    and "ptpType (board_cfg slot s) \<noteq> PTP_TYPE_CN" "valid_ptp (board_cfg slot s)"
  shows "\<exists>s'. IssueConfig env slot BID_PTP s = Some (True, s')"
proof -
  have bid: "BID_PTP \<noteq> BID_NTP" "BID_PTP \<noteq> BID_NTPF" "BID_PTP \<noteq> BID_61850"
    by (simp_all add: BID_PTP_def BID_NTP_def BID_NTPF_def BID_61850_def)
  obtain t where t: "OUTCOMMIssueConfig env slot s = Some (True, t)" using signal_succeeds[OF assms(1,3-5)] by blast
  have o: "outSta t = outSta s" using signal_sent[OF assms(1,3,4) t] by simp
  obtain s' cfg' where "Ptp2SendConfig env slot (board_cfg slot s) t = Some ((True, s'), cfg')"
    using Ptp2SendConfig_succeeds[OF assms(1,2,7)] by blast
  then show ?thesis using t assms(3-6) o by (simp add: IssueConfig_def bid PTPIssueConfig_def arr_def board_cfg_def)
qed

section \<open>A board with two clients\<close>

definition demo_ntop :: "int \<Rightarrow> string" where
  "demo_ntop x = (if x = 0x0A000001 then ''10.0.0.1'' else ''10.0.0.2'')"

definition demo_iss :: issEnv where
  "demo_iss = \<lparr>is_fpga = demo_driver, is_inet_addr = \<lambda>_. 0, is_inet_ntop = demo_ntop\<rparr>"

definition demo_ptp :: ptpinfo where
  "demo_ptp = \<lparr>ptpType = PTP_TYPE_FRGN, ptpDelayType = DELAY_E2E, ptpMulticast = UNICAST, ptpLayer = LAYER3, ptpStep = ONE_STEP,
     ptpSync = 8, ptpAnnounce = 8, ptpPdelayReq = 8, ptpSsmEnable = 0, ptpIp = replicate 16 0, ptpMac = replicate 18 0,
     ptpMask = replicate 16 0, ptpGateway = replicate 16 0, oldptpSlaveIp = replicate 16 0, oldptpSlaveIp_num = 0,
     ptpSlaveIp = 0x0A000001 # 0x0A000002 # replicate 14 0, ptpSlaveIp_num = 2, ptpLevel = replicate 4 0,
     ptpPriority = replicate 4 0, ptpRegion = replicate 4 0\<rparr>"

definition demo_ptp_board :: iss where
  "demo_ptp_board = iss0\<lparr>outSta := [\<lparr>boardId = BID_PTP, out_signal = 1, ptp = demo_ptp,
     ptpf = \<lparr>pfSignalType = 0, pfDelayType = 0, pfLayer = 0, pfStep = 0, pfSync = 0, pfAnnounce = 0, pfPdelayReq = 0,
       pfIp = []\<rparr>\<rparr>], old_ptpIp := [[]], old_ptpMask := [[]], old_ptpGateway := [[]]\<rparr>"

lemma demo_iss_facts:
  "driver_inputs (is_fpga demo_iss) (\<lambda>rs a. reg_after a rs)" "short_ntop (is_inet_ntop demo_iss)"
  by (simp_all add: demo_iss_def driver_inputs_def demo_driver_def FPGA_READ_def FPGA_WRITE_def reg_after_range
      short_ntop_def demo_ntop_def)

lemma demo_board_facts:
  "board_cfg 1 demo_ptp_board = demo_ptp" "valid_ptp demo_ptp" "length (outSta demo_ptp_board) = 1" "ptpType demo_ptp \<noteq> PTP_TYPE_CN"
  "ireqs demo_ptp_board = []" "outSta demo_ptp_board \<noteq> []"
  by (simp_all add: board_cfg_def demo_ptp_board_def iss0_def demo_ptp_def valid_ptp_def field_text_def PTP_TYPE_FRGN_def
      PTP_TYPE_CN_def MAX_IP_NUM_def)

lemma ptp_commands_fit_witness: "\<exists>s'. IssueConfig demo_iss 1 BID_PTP demo_ptp_board = Some (True, s')"
  using ptp_commands_fit[OF demo_iss_facts(1,2), of 1 demo_ptp_board] demo_board_facts
  by (simp add: SLOT_CURSOR_ARRAY_SIZE_def)

section \<open>The quality of the clock that goes out\<close>

definition ssm_out :: "iss \<Rightarrow> int" where
  "ssm_out s = reg_after FPGA_SYS_2MB_OUT_SSM (ireqs s)"

text \<open>Nothing but requests, and none to the register of the quality.\<close>

definition same_ssm :: "iss \<Rightarrow> iss \<Rightarrow> bool" where
  "same_ssm s t \<longleftrightarrow> (\<exists>rs. t = s\<lparr>ireqs := rs\<rparr>) \<and> ssm_out t = ssm_out s"

lemma same_ssm_refl [simp]: "same_ssm s s"
proof -
  have "s = s\<lparr>ireqs := ireqs s\<rparr>" by simp
  then show ?thesis unfolding same_ssm_def by blast
qed

lemma same_ssm_trans: "same_ssm s t \<Longrightarrow> same_ssm t u \<Longrightarrow> same_ssm s u"
  by (auto simp: same_ssm_def)

lemma same_ssm_fields:
  assumes "same_ssm s t"
  shows "clkSta t = clkSta s" "tsrc_flag t = tsrc_flag s" "tsrc_type t = tsrc_type s" "tsrc_slot t = tsrc_slot s"
    "in_ssm_pre t = in_ssm_pre s" "clkSta_pre t = clkSta_pre s" "clock_source_pre t = clock_source_pre s" "ssm_out t = ssm_out s"
  using assms by (auto simp: same_ssm_def)

lemma p50_no_ssm: "list_all (\<lambda>(a, v). 0 \<le> a \<and> a < 65536 \<and> a \<noteq> FPGA_SYS_2MB_OUT_SSM) (p50_bytes buf)"
  by (auto simp: p50_bytes_def p50_byte_def list_all_iff ptp_registers FPGA_SYS_2MB_OUT_SSM_def FPGA_SYS2_COMMON_sum
      split: prod.splits)

lemma no_ssm_puts: "list_all (\<lambda>(a, v). a \<noteq> FPGA_SYS_2MB_OUT_SSM) ws \<Longrightarrow> same_ssm s (puts ws s)"
proof -
  have "list_all (\<lambda>(a, v). a \<noteq> b) ws \<Longrightarrow> foldl (\<lambda>v (c, x). if c = b then u16 x else v) v0 ws = v0" for b v0
    by (induction ws) auto
  then show "list_all (\<lambda>(a, v). a \<noteq> FPGA_SYS_2MB_OUT_SSM) ws \<Longrightarrow> same_ssm s (puts ws s)"
    by (auto simp: same_ssm_def ssm_out_def reg_after_puts puts_def[of ws s])
qed

lemma tell_same:
  assumes "driver_inputs (is_fpga env) inp"
  shows "same_ssm s (tell_boards env f s)"
proof -
  have w: "same_ssm u (snd (p50_write env buf u))" for u buf
  proof -
    have "in_device (p50_bytes buf)" "list_all (\<lambda>(a, v). a \<noteq> FPGA_SYS_2MB_OUT_SSM) (p50_bytes buf)"
      using p50_no_ssm[of buf] by (auto simp: in_device_def list_all_iff)
    then show ?thesis by (simp add: p50_write_def iss_writes_ok[OF assms] no_ssm_puts)
  qed
  have "same_ssm s (fold (tell_board env f) bs u)" if "same_ssm s u" for bs u
    using that
  proof (induction bs arbitrary: u)
    case (Cons b bs)
    have "same_ssm u (tell_board env f b u)" by (simp add: tell_board_def w split: option.split)
    then show ?case using Cons.IH same_ssm_trans[OF Cons.prems] by simp
  qed simp
  then show ?thesis by (simp add: tell_boards_def)
qed

lemma told_same:
  assumes "driver_inputs (is_fpga env) inp"
  shows "same_ssm s (ptp_set_ssm env v s)" "same_ssm s (ptp_set_clkproperty env a b c s)"
    "same_ssm s (ptp_set_freqtrace env v s)" "same_ssm s (ptp_set_timetrace env v s)"
    "same_ssm s (ptp_set_timesource env v s)"
  by (simp_all add: ptp_set_ssm_def ptp_set_clkproperty_def ptp_set_freqtrace_def ptp_set_timetrace_def
      ptp_set_timesource_def tell_same[OF assms])

lemma told_after:
  assumes "driver_inputs (is_fpga env) inp" "same_ssm s t"
  shows "same_ssm s (ptp_set_ssm env v t)" "same_ssm s (ptp_set_clkproperty env a b c t)"
    "same_ssm s (ptp_set_freqtrace env v t)" "same_ssm s (ptp_set_timetrace env v t)"
    "same_ssm s (ptp_set_timesource env v t)"
  using told_same[OF assms(1)] same_ssm_trans[OF assms(2)] by blast+

lemma write_out_ssm_facts:
  assumes "driver_inputs (is_fpga env) inp" "0 \<le> v" "v < 65536"
  shows "ssm_out (write_out_ssm env v s) = v" "in_ssm_pre (write_out_ssm env v s) = v"
    "clkSta (write_out_ssm env v s) = clkSta s" "tsrc_flag (write_out_ssm env v s) = tsrc_flag s"
    "tsrc_type (write_out_ssm env v s) = tsrc_type s" "tsrc_slot (write_out_ssm env v s) = tsrc_slot s"
    "clkSta_pre (write_out_ssm env v s) = clkSta_pre s" "clock_source_pre (write_out_ssm env v s) = clock_source_pre s"
proof -
  have "0 \<le> FPGA_SYS_2MB_OUT_SSM" "FPGA_SYS_2MB_OUT_SSM < 65536"
    by (simp_all add: FPGA_SYS_2MB_OUT_SSM_def FPGA_SYS2_COMMON_sum)
  then have w: "iss_write env FPGA_SYS_2MB_OUT_SSM v s = (True, puts [(FPGA_SYS_2MB_OUT_SSM, v)] s)"
    by (simp add: iss_write_def driver_inputs_write[OF assms(1)] puts_def put_def)
  show "ssm_out (write_out_ssm env v s) = v"
    using assms(2,3) by (simp add: write_out_ssm_def w ssm_out_def reg_puts)
qed (simp_all add: write_out_ssm_def iss_write_def split: prod.splits)

text \<open>
  What goes out when the state of the clock has been noted: the quality of the oscillator in holdover, none when it
  is free, and fixed qualities for a source of both time and frequency.
\<close>

definition ssm_table :: "int \<Rightarrow> iss \<Rightarrow> bool" where
  "ssm_table clock_type s \<longleftrightarrow>
     (clkSta s \<in> {1, 2} \<longrightarrow> ssm_out s = (if clock_type = 1 then 0x04 else 0x08))
     \<and> (clkSta s \<notin> {1, 2, 3, 4} \<longrightarrow> ssm_out s = 0x0F)
     \<and> (tsrc_flag s = BOTH_SOURCE_FLAG \<longrightarrow> (clkSta s = 4 \<longrightarrow> ssm_out s = 0x02) \<and> (clkSta s = 3 \<longrightarrow> ssm_out s = 0x04))"

definition ssm_noted :: "iss \<Rightarrow> bool" where
  "ssm_noted s \<longleftrightarrow> in_ssm_pre s = ssm_out s \<or> in_ssm_pre s = 9"

lemma same_ssm_noted: "same_ssm s t \<Longrightarrow> ssm_noted t = ssm_noted s"
  by (simp add: ssm_noted_def same_ssm_fields)

lemma classes_told:
  assumes "driver_inputs (is_fpga env) inp"
  shows "\<exists>t. same_ssm s t \<and> class_locked env s = (if tsrc_flag s = BOTH_SOURCE_FLAG then write_out_ssm env 0x02 t else t)"
    and "\<exists>t. same_ssm s t \<and> class_hold env clock_type clock_stratum s
      = (if clock_type = 1 then write_out_ssm env 0x04 t else write_out_ssm env 0x08 t)"
    and "same_ssm s (class_free env s)"
proof -
  note told = told_same[OF assms]
  define s1 where "s1 = ptp_set_ssm env 4 s"
  define s2 where "s2 = (if tsrc_flag s1 = FREQ_SOURCE_FLAG then ptp_set_clkproperty env 7 0x21 0xFFFF s1
    else ptp_set_clkproperty env 6 0x21 0x4E5D s1)"
  define s3 where "s3 = ptp_set_timetrace env 1 (ptp_set_freqtrace env 1 s2)"
  define s4 where "s4 = ptp_set_timesource env (timesource_of_type (tsrc_type s3)) s3"
  have l: "same_ssm s s1" "same_ssm s1 s2" "same_ssm s3 s4" using told by (auto simp: s1_def s2_def s4_def)
  moreover have "same_ssm s2 s3" unfolding s3_def by (intro told_after[OF assms] same_ssm_refl)
  ultimately have "same_ssm s s4" using same_ssm_trans by blast
  moreover have "class_locked env s = (if tsrc_flag s4 = BOTH_SOURCE_FLAG then write_out_ssm env 0x02 s4 else s4)"
    by (simp add: class_locked_def Let_def s1_def s2_def s3_def s4_def)
  ultimately show "\<exists>t. same_ssm s t \<and> class_locked env s
      = (if tsrc_flag s = BOTH_SOURCE_FLAG then write_out_ssm env 0x02 t else t)" using same_ssm_fields(2) by metis
  define h1 where "h1 = ptp_set_ssm env 8 s"
  define h2 where "h2 = (if clock_type = 2 \<or> (2 = clock_stratum \<and> tsrc_flag h1 = FREQ_SOURCE_FLAG)
    then ptp_set_clkproperty env 52 0x21 0xFFFF h1 else h1)"
  define h3 where "h3 = (if clock_type = 1 \<or> (1 = clock_stratum \<and> tsrc_flag h2 = FREQ_SOURCE_FLAG)
    then ptp_set_clkproperty env 8 0x21 0xFFFF h2 else h2)"
  define h4 where "h4 = ptp_set_timesource env 0xA0 (ptp_set_timetrace env 0 (ptp_set_freqtrace env 0 h3))"
  have h: "same_ssm s h1" "same_ssm h1 h2" "same_ssm h2 h3" using told by (auto simp: h1_def h2_def h3_def)
  have "same_ssm h3 h4" unfolding h4_def by (intro told_after[OF assms] same_ssm_refl)
  then have "same_ssm s h4" using h same_ssm_trans by blast
  moreover have "class_hold env clock_type clock_stratum s
      = (if clock_type = 1 then write_out_ssm env 0x04 h4 else write_out_ssm env 0x08 h4)"
    by (simp add: class_hold_def Let_def h1_def h2_def h3_def h4_def)
  ultimately show "\<exists>t. same_ssm s t \<and> class_hold env clock_type clock_stratum s
      = (if clock_type = 1 then write_out_ssm env 0x04 t else write_out_ssm env 0x08 t)" by blast
  show "same_ssm s (class_free env s)" unfolding class_free_def Let_def by (intro told_after[OF assms] same_ssm_refl)
qed

lemma set_class_facts:
  assumes "driver_inputs (is_fpga env) inp" "ssm_noted s"
  shows "ssm_table clock_type (set_class env clock_type clock_stratum s) \<and> ssm_noted (set_class env clock_type clock_stratum s)
    \<and> clkSta (set_class env clock_type clock_stratum s) = clkSta s \<and> tsrc_flag (set_class env clock_type clock_stratum s) = tsrc_flag s
    \<and> tsrc_type (set_class env clock_type clock_stratum s) = tsrc_type s
    \<and> tsrc_slot (set_class env clock_type clock_stratum s) = tsrc_slot s"
proof -
  note told = told_same[OF assms(1)]
  note w = write_out_ssm_facts[OF assms(1)]
  have set: "ssm_table clock_type (write_out_ssm env v t) \<and> ssm_noted (write_out_ssm env v t)
      \<and> clkSta (write_out_ssm env v t) = clkSta s \<and> tsrc_flag (write_out_ssm env v t) = tsrc_flag s
      \<and> tsrc_type (write_out_ssm env v t) = tsrc_type s \<and> tsrc_slot (write_out_ssm env v t) = tsrc_slot s"
    if "same_ssm s t" "0 \<le> v" "v < 65536" "clkSta s \<in> {1, 2} \<longrightarrow> v = (if clock_type = 1 then 0x04 else 0x08)"
      "clkSta s \<notin> {1, 2, 3, 4} \<longrightarrow> v = 0x0F"
      "tsrc_flag s = BOTH_SOURCE_FLAG \<longrightarrow> (clkSta s = 4 \<longrightarrow> v = 0x02) \<and> (clkSta s = 3 \<longrightarrow> v = 0x04)" for t v
    using that same_ssm_fields[OF that(1)] by (simp add: w ssm_table_def ssm_noted_def)
  have keep: "ssm_table clock_type t \<and> ssm_noted t \<and> clkSta t = clkSta s \<and> tsrc_flag t = tsrc_flag s
      \<and> tsrc_type t = tsrc_type s \<and> tsrc_slot t = tsrc_slot s"
    if "same_ssm s t" "clkSta s \<in> {3, 4}" "tsrc_flag s \<noteq> BOTH_SOURCE_FLAG" for t
    using that same_ssm_fields[OF that(1)] same_ssm_noted[OF that(1)] assms(2) by (auto simp: ssm_table_def)
  obtain lk where lk: "same_ssm s lk" "class_locked env s = (if tsrc_flag s = BOTH_SOURCE_FLAG then write_out_ssm env 0x02 lk else lk)"
    using classes_told(1)[OF assms(1)] by blast
  obtain hd where hd: "same_ssm s hd" "class_hold env clock_type clock_stratum s
      = (if clock_type = 1 then write_out_ssm env 0x04 hd else write_out_ssm env 0x08 hd)"
    using classes_told(2)[OF assms(1)] by blast
  note free = classes_told(3)[OF assms(1), of s]
  consider "clkSta s = 4" | "clkSta s \<in> {1, 2}" | "clkSta s = 3" | "clkSta s \<notin> {1, 2, 3, 4}" by auto
  then show ?thesis
  proof cases
    case 1
    then show ?thesis using lk set[of lk 2] keep[of lk] by (simp add: set_class_def)
  next
    case 2
    then have "set_class env clock_type clock_stratum s = write_out_ssm env (if clock_type = 1 then 4 else 8) hd"
      using hd by (auto simp: set_class_def)
    then show ?thesis using 2 set[OF hd(1), of "if clock_type = 1 then 4 else 8"] by auto
  next
    case 3
    then show ?thesis using set[OF free, of 4] keep[OF free] same_ssm_fields[OF free] by (simp add: set_class_def Let_def)
  next
    case 4
    then show ?thesis using set[OF free, of 15] by (simp add: set_class_def)
  qed
qed

text \<open>The quality that a source of frequency has, as the registers tell.\<close>

definition source_quality :: "(int \<Rightarrow> int) \<Rightarrow> iss \<Rightarrow> int" where
  "source_quality f s =
     (if tsrc_slot s \<in> {1..4}
      then f (if tsrc_type s = S2MB_SOURCE_TYPE then FPGA_IN_2MB_SSM (tsrc_slot s) else FPGA_SYS_CUR_INSRC_SSM)
      else 0x0F)"

lemma in_ssm_register:
  assumes "slot \<in> {1..4}"
  shows "0 \<le> FPGA_IN_2MB_SSM slot" "FPGA_IN_2MB_SSM slot < 65536"
proof -
  have "slot AND 31 = slot" using assms take_bit_eq_mask[of 5 slot]
    by (simp add: mask_eq_exp_minus_1 take_bit_int_eq_self)
  then have "FPGA_IN_2MB_SSM slot = slot * 2048 + 1024 + 67"
    by (simp add: FPGA_IN_2MB_SSM_def FPGA_IN_PRIV_ADDR_def FPGA_IN_ADDR_def FPGA_ADDR_sum)
  then show "0 \<le> FPGA_IN_2MB_SSM slot" "FPGA_IN_2MB_SSM slot < 65536" using assms by auto
qed

lemma read_same: "same_ssm s (s\<lparr>ireqs := ireqs s @ [(FPGA_READ, x)]\<rparr>)"
proof -
  have "reg_after FPGA_SYS_2MB_OUT_SSM (ireqs s @ [(FPGA_READ, x)]) = reg_after FPGA_SYS_2MB_OUT_SSM (ireqs s)"
    by (simp add: reg_after_def reg_step_def FPGA_READ_def FPGA_WRITE_def)
  then show ?thesis by (auto simp: same_ssm_def ssm_out_def)
qed

lemma forward_ssm_facts:
  assumes "driver_inputs (is_fpga env) (\<lambda>_. f)" "ssm_noted s" "forward_ssm env s = (ok, t)"
  shows "ok \<and> ssm_noted t \<and> clkSta t = clkSta s \<and> clkSta_pre t = clkSta_pre s \<and> clock_source_pre t = clock_source_pre s
    \<and> tsrc_flag t = tsrc_flag s \<and> tsrc_type t = tsrc_type s \<and> tsrc_slot t = tsrc_slot s
    \<and> (if tsrc_flag s = FREQ_SOURCE_FLAG \<and> clkSta s \<in> {3, 4}
       then source_quality f s \<noteq> 9 \<longrightarrow> ssm_out t = source_quality f s else ssm_out t = ssm_out s)"
proof (cases "tsrc_flag s = FREQ_SOURCE_FLAG \<and> clkSta s \<in> {3, 4}")
  case False
  then show ?thesis using assms(2,3) by (auto simp: forward_ssm_def)
next
  case True
  define q where "q = source_quality f s"
  have q: "0 \<le> q" "q < 65536" using assms(1) by (simp_all add: q_def source_quality_def driver_inputs_def)
  have "\<exists>u. incoming_ssm env s = (Some q, u) \<and> same_ssm s u"
  proof (cases "tsrc_slot s \<in> {1..4}")
    case True
    define a where "a = (if tsrc_type s = S2MB_SOURCE_TYPE then FPGA_IN_2MB_SSM (tsrc_slot s) else FPGA_SYS_CUR_INSRC_SSM)"
    have "0 \<le> a" "a < 65536"
      using in_ssm_register[OF True] by (auto simp: a_def FPGA_SYS_CUR_INSRC_SSM_def FPGA_SYS2_COMMON_sum)
    then have "incoming_ssm env s = (Some q, s\<lparr>ireqs := ireqs s @ [(FPGA_READ, a * 65536)]\<rparr>)"
      using True by (simp add: incoming_ssm_def a_def[symmetric] INPUT_SLOT_CURSOR_ARRAY_SIZE_def iss_read_def q_def
          source_quality_def driver_inputs_read[OF assms(1)])
    then show ?thesis using read_same[of s "a * 65536"] by blast
  next
    case False
    then have "incoming_ssm env s = (Some q, s)"
      by (auto simp: incoming_ssm_def INPUT_SLOT_CURSOR_ARRAY_SIZE_def q_def source_quality_def SSM_VAL_0F_def)
    then show ?thesis using same_ssm_refl by blast
  qed
  then obtain u where u: "incoming_ssm env s = (Some q, u)" "same_ssm s u" by blast
  then have t: "ok" "t = (if q \<noteq> in_ssm_pre u then write_out_ssm env q u else u)"
    using assms(3) True by (auto simp: forward_ssm_def)
  note w = write_out_ssm_facts[OF assms(1) q, of u]
  show ?thesis using t True assms(2) same_ssm_fields[OF u(2)] w by (auto simp: ssm_noted_def q_def[symmetric])
qed

text \<open>
  Calls one after the other, each with the registers and the shared memory as they are then. The oscillator is the same
  all the time.
\<close>

definition osc_device :: "int \<Rightarrow> issEnv \<Rightarrow> bool" where
  "osc_device ct env \<longleftrightarrow> (\<exists>f. driver_inputs (is_fpga env) (\<lambda>_. f) \<and> f FPGA_RBXO_TYP = ct)"

fun class_calls :: "(issEnv \<times> int option) list \<Rightarrow> iss \<Rightarrow> iss" where
  "class_calls [] s = s"
| "class_calls ((env, sta) # cs) s = class_calls cs (snd (SetOutBoardClockClass env sta s))"

text \<open>The initial values of the static variables.\<close>

definition class_start :: "iss \<Rightarrow> bool" where
  "class_start s \<longleftrightarrow> clkSta s = 0 \<and> clkSta_pre s = 4 \<and> clock_source_pre s = 0 \<and> tsrc_type s = NO_SOURCE_TYPE
     \<and> tsrc_flag s = INVALID_SOURCE_FLAG \<and> tsrc_slot s = 0 \<and> in_ssm_pre s = 9"

definition class_inv :: "int \<Rightarrow> iss \<Rightarrow> bool" where
  "class_inv ct s \<longleftrightarrow> ssm_noted s \<and> (clkSta s = clkSta_pre s \<and> ssm_table ct s
     \<or> clkSta s = 0 \<and> clkSta_pre s = 4 \<and> tsrc_flag s = INVALID_SOURCE_FLAG)"

lemma class_start_inv: "class_start s \<Longrightarrow> class_inv ct s"
  by (simp add: class_start_def class_inv_def ssm_noted_def)

definition unchanged_call :: "(int \<Rightarrow> int) \<Rightarrow> int \<Rightarrow> iss \<Rightarrow> bool" where
  "unchanged_call f sta s \<longleftrightarrow> sta = clkSta_pre s \<and> f FPGA_SYS_INSRC_SELECT = clock_source_pre s"

lemma class_call:
  assumes "driver_inputs (is_fpga env) (\<lambda>_. f)" "class_inv (f FPGA_RBXO_TYP) s"
    "SetOutBoardClockClass env (Some sta) s = (ok, t)"
  shows "ok \<and> class_inv (f FPGA_RBXO_TYP) t \<and> clkSta t = sta \<and> clkSta_pre t = sta \<and> ssm_table (f FPGA_RBXO_TYP) t
    \<and> (unchanged_call f sta s \<longrightarrow> tsrc_flag t = tsrc_flag s \<and>
         (if tsrc_flag t = FREQ_SOURCE_FLAG \<and> sta \<in> {3, 4}
          then source_quality f t \<noteq> 9 \<longrightarrow> ssm_out t = source_quality f t else ssm_out t = ssm_out s))"
proof -
  let ?ct = "f FPGA_RBXO_TYP"
  let ?u = "s\<lparr>ireqs := ireqs s @ [(FPGA_READ, FPGA_RBXO_TYP * 65536), (FPGA_READ, FPGA_SYS_INSRC_STRATUM * 65536),
     (FPGA_READ, FPGA_SYS_INSRC_SELECT * 65536)]\<rparr>"
  have su: "same_ssm s ?u"
    using same_ssm_trans[OF same_ssm_trans[OF read_same[of s "FPGA_RBXO_TYP * 65536"] read_same] read_same,
      of "FPGA_SYS_INSRC_STRATUM * 65536" "FPGA_SYS_INSRC_SELECT * 65536"] by simp
  have regs: "0 \<le> FPGA_RBXO_TYP" "FPGA_RBXO_TYP < 65536" "0 \<le> FPGA_SYS_INSRC_STRATUM" "FPGA_SYS_INSRC_STRATUM < 65536"
    "0 \<le> FPGA_SYS_INSRC_SELECT" "FPGA_SYS_INSRC_SELECT < 65536"
    by (simp_all add: FPGA_RBXO_TYP_def FPGA_SYS_INSRC_STRATUM_def FPGA_SYS_INSRC_SELECT_def FPGA_SYS2_COMMON_sum)
  have nu: "ssm_noted ?u" using assms(2) same_ssm_noted[OF su] by (simp add: class_inv_def)
  obtain b v where v: "forward_ssm env ?u = (b, v)" by force
  note fw = forward_ssm_facts[OF assms(1) nu v]
  define w where "w = v\<lparr>clkSta := sta\<rparr>"
  have call: "SetOutBoardClockClass env (Some sta) s =
     (True, if sta \<noteq> clkSta_pre w \<or> f FPGA_SYS_INSRC_SELECT \<noteq> clock_source_pre w
            then (set_class env ?ct (f FPGA_SYS_INSRC_STRATUM) (note_clock_source (f FPGA_SYS_INSRC_SELECT) w))
              \<lparr>clkSta_pre := sta, clock_source_pre := f FPGA_SYS_INSRC_SELECT\<rparr>
            else w)"
    using v fw regs by (simp add: SetOutBoardClockClass_def iss_read_def driver_inputs_read[OF assms(1)] w_def Let_def)
  have w: "ssm_noted w" "clkSta w = sta" "clkSta_pre w = clkSta_pre s" "clock_source_pre w = clock_source_pre s"
    "tsrc_flag w = tsrc_flag s" "tsrc_type w = tsrc_type s" "tsrc_slot w = tsrc_slot s" "ssm_out w = ssm_out v"
    using fw by (simp_all add: w_def ssm_noted_def ssm_out_def)
  show ?thesis
  proof (cases "unchanged_call f sta s")
    case True
    then have t: "t = w" "ok" using call assms(3) w by (auto simp: unchanged_call_def)
    have q: "source_quality f ?u = source_quality f w" using w by (simp add: source_quality_def)
    have flag: "INVALID_SOURCE_FLAG \<noteq> FREQ_SOURCE_FLAG" "INVALID_SOURCE_FLAG \<noteq> BOTH_SOURCE_FLAG"
      "FREQ_SOURCE_FLAG \<noteq> BOTH_SOURCE_FLAG"
      by (simp_all add: INVALID_SOURCE_FLAG_def FREQ_SOURCE_FLAG_def BOTH_SOURCE_FLAG_def)
    have su_out: "ssm_out ?u = ssm_out s" using same_ssm_fields(8)[OF su] .
    have old: "clkSta s = sta \<and> ssm_table ?ct s \<or> clkSta s = 0 \<and> sta = 4 \<and> tsrc_flag s = INVALID_SOURCE_FLAG"
      using assms(2) True by (auto simp: class_inv_def unchanged_call_def)
    have out: "if tsrc_flag w = FREQ_SOURCE_FLAG \<and> sta \<in> {3, 4}
      then source_quality f w \<noteq> 9 \<longrightarrow> ssm_out w = source_quality f w else ssm_out w = ssm_out s"
      using old
    proof
      assume "clkSta s = sta \<and> ssm_table ?ct s"
      then show ?thesis using fw su_out w q by simp
    next
      assume "clkSta s = 0 \<and> sta = 4 \<and> tsrc_flag s = INVALID_SOURCE_FLAG"
      then show ?thesis using fw su_out w flag by simp
    qed
    moreover have "ssm_table ?ct w"
      using old
    proof
      assume o: "clkSta s = sta \<and> ssm_table ?ct s"
      show ?thesis
      proof (cases "tsrc_flag w = FREQ_SOURCE_FLAG \<and> sta \<in> {3, 4}")
        case True
        then show ?thesis using w(2) flag by (auto simp: ssm_table_def)
      next
        case False
        then have "ssm_out w = ssm_out s" using out by (simp split: if_splits)
        then show ?thesis using o w by (simp add: ssm_table_def)
      qed
    next
      assume "clkSta s = 0 \<and> sta = 4 \<and> tsrc_flag s = INVALID_SOURCE_FLAG"
      then show ?thesis using w flag by (simp add: ssm_table_def)
    qed
    moreover have "clkSta_pre w = sta" using True w(3) by (simp add: unchanged_call_def)
    ultimately show ?thesis unfolding t(1) using w(1,2,5) t(2) by (simp add: class_inv_def)
  next
    case False
    define n where "n = note_clock_source (f FPGA_SYS_INSRC_SELECT) w"
    have n: "ssm_noted n" "clkSta n = sta" using w by (simp_all add: n_def note_clock_source_def ssm_noted_def ssm_out_def)
    define c where "c = set_class env ?ct (f FPGA_SYS_INSRC_STRATUM) n"
    have t: "t = c\<lparr>clkSta_pre := sta, clock_source_pre := f FPGA_SYS_INSRC_SELECT\<rparr>" "ok"
      using False call assms(3) w by (auto simp: unchanged_call_def c_def n_def)
    have "ssm_table ?ct c \<and> ssm_noted c \<and> clkSta c = sta"
      using set_class_facts[OF assms(1) n(1)] n(2) by (simp add: c_def)
    then show ?thesis using False t by (simp add: class_inv_def ssm_table_def ssm_noted_def ssm_out_def)
  qed
qed

lemma calls_inv:
  "class_inv ct s \<Longrightarrow> list_all (\<lambda>(env, _). osc_device ct env) cs \<Longrightarrow> class_inv ct (class_calls cs s)"
proof (induction cs arbitrary: s)
  case (Cons c cs)
  obtain env sta where c: "c = (env, sta)" by force
  have "class_inv ct (snd (SetOutBoardClockClass env sta s))"
  proof (cases sta)
    case None
    then show ?thesis using Cons.prems(1) by (simp add: SetOutBoardClockClass_def)
  next
    case (Some x)
    obtain f where f: "driver_inputs (is_fpga env) (\<lambda>_. f)" "f FPGA_RBXO_TYP = ct"
      using Cons.prems(2) c by (auto simp: osc_device_def)
    obtain b t where "SetOutBoardClockClass env (Some x) s = (b, t)" by force
    then show ?thesis using class_call[OF f(1)] Cons.prems(1) f(2) Some by simp
  qed
  then show ?case using Cons.IH Cons.prems(2) c by simp
qed simp


text \<open>A source of 2 Mbit in the first slot, with the quality 4 and a rubidium oscillator: it locks fast, then the state is found again.\<close>

definition mb_regs :: "int \<Rightarrow> int" where
  "mb_regs a = (if a = FPGA_RBXO_TYP then 1 else if a = FPGA_SYS_INSRC_SELECT then G_S2MB_SOURCE_VAL 1
     else if a = FPGA_IN_2MB_SSM 1 then 4 else 0)"

definition mb_env :: issEnv where
  "mb_env = \<lparr>is_fpga = \<lambda>cmd temp reqs. (1, if cmd = FPGA_READ then temp + mb_regs (temp div 65536) else temp),
     is_inet_addr = \<lambda>_. 0, is_inet_ntop = \<lambda>_. []\<rparr>"

lemma mb_device: "driver_inputs (is_fpga mb_env) (\<lambda>_. mb_regs)"
  by (simp add: driver_inputs_def mb_env_def FPGA_READ_def FPGA_WRITE_def mb_regs_def G_S2MB_SOURCE_VAL_def)


end
