(* ===== verification/LibLog.thy ===== *)
theory LibLog
  imports EventFlags
begin

text \<open>
  The logs of the alarms and of the system, \<^verbatim>\<open>src/lib/lib_log.c\<close> and \<^verbatim>\<open>src/lib/lib_alarm.c\<close>. A table
  that is full is halved before the new row. The statement is built in a buffer of 128 characters;
  one that does not fit has no defined result. \<open>send_log_message\<close> only hands its text to another
  process.
\<close>

section \<open>Operations in sequence\<close>

text \<open>
  An operation that can fail or be undefined: \<open>None\<close> for what C leaves undefined, and otherwise
  whether it succeeded and the state after it. A failure ends the sequence.
\<close>

definition and_then :: "(bool \<times> 's) option \<Rightarrow> ('s \<Rightarrow> (bool \<times> 's) option) \<Rightarrow> (bool \<times> 's) option" where
  "and_then c k = (case c of None \<Rightarrow> None | Some (ok, s) \<Rightarrow> if ok then k s else Some (False, s))"

lemma and_then_simps [simp]:
  "and_then None k = None" "and_then (Some (False, s)) k = Some (False, s)" "and_then (Some (True, s)) k = k s"
  by (simp_all add: and_then_def)

lemma and_then_TrueE:
  assumes "and_then c k = Some (True, s')"
  obtains s where "c = Some (True, s)" "k s = Some (True, s')"
  using assms by (auto simp: and_then_def split: option.splits if_splits)

section \<open>Operations\<close>

definition SQL_BUF :: nat where "SQL_BUF = 128"

definition MAX_LOG :: int where "MAX_LOG = 10000"
definition MAX_ALM :: int where "MAX_ALM = 10000"

definition TBL_LOG :: string where "TBL_LOG = ''TBL_LOG''"
definition TBL_ALARM_HISTORY :: string where "TBL_ALARM_HISTORY = ''TBL_ALARM_HISTORY''"

text \<open>The statement in the buffer, and the end of the transaction after it.\<close>

definition put_end :: "db_env \<Rightarrow> string \<Rightarrow> db_op list \<Rightarrow> (bool \<times> db_op list) option" where
  "put_end env sql h =
     (if length sql < SQL_BUF then (case db_put_table env sql h of (ok, h) \<Rightarrow> Some (ok, db_unlock env h)) else None)"

definition log_sql :: "string \<Rightarrow> timeinfo \<Rightarrow> string \<Rightarrow> string" where
  "log_sql table t desc = ''insert into '' @ table @ '' values('' @ quoted (time_text t) @ '', '' @ quoted desc @ '');''"

definition db_log_write :: "db_env \<Rightarrow> timeinfo option \<Rightarrow> string \<Rightarrow> string \<Rightarrow> db_op list \<Rightarrow> (bool \<times> db_op list) option" where
  "db_log_write env time table desc h =
     (case query_int env (count_sql table) (db_lock env h) of
        (Failed, h) \<Rightarrow> Some (False, db_unlock env h)
      | (Undefined, h) \<Rightarrow> None
      | (Value nrow, h) \<Rightarrow>
          (case put_if (MAX_LOG \<le> nrow) env (halve_sql table) h of
             (False, h) \<Rightarrow> Some (False, db_unlock env h)
           | (True, h) \<Rightarrow>
               (case time of
                  None \<Rightarrow> Some (False, db_unlock env h)
                | Some t \<Rightarrow> put_end env (log_sql table t desc) h)))"

definition alarm_sql :: "string \<Rightarrow> int \<Rightarrow> string \<Rightarrow> string \<Rightarrow> string" where
  "alarm_sql table alarm start end_t =
     ''insert into '' @ table @ '' values('' @ pr_d alarm @ '', '' @ quoted start @ '', '' @ quoted end_t @ '');''"

definition db_alarm_write :: "db_env \<Rightarrow> string \<Rightarrow> int \<Rightarrow> string \<Rightarrow> string \<Rightarrow> db_op list \<Rightarrow> (bool \<times> db_op list) option" where
  "db_alarm_write env table alarm start end_t h =
     (case query_int env (count_sql table) (db_lock env h) of
        (Failed, h) \<Rightarrow> Some (False, db_unlock env h)
      | (Undefined, h) \<Rightarrow> None
      | (Value nrow, h) \<Rightarrow>
          (case put_if (MAX_ALM \<le> nrow) env (halve_sql table) h of
             (False, h) \<Rightarrow> Some (False, db_unlock env h)
           | (True, h) \<Rightarrow> put_end env (alarm_sql table alarm start end_t) h))"

end
