(* ===== verification/AlmAlarm.thy ===== *)
theory AlmAlarm
  imports LibLog AllocCommon AllocTablesSpec
begin

unbundle bit_operations_syntax

text \<open>
  The alarms, \<^verbatim>\<open>src/d-alarm/dalm_alarm.c\<close>: the process collects the state of every alarm of the index
  table, compares it with the state before, and keeps the list of the alarms that are on, the ring
  of the changes that are to be reported, the log and the history; it lights a lamp and sets the
  contacts of the alarm board. Three static counters of the code are part of its state.

  The memory that the processes share is protected by semaphores. What another process left there
  is read by the number of the call of the semaphore before; what this process leaves there is the
  record \<open>shm\<close>.
\<close>

section \<open>State\<close>

definition CUR_ALM_MAX_ARRAY_SIZE :: nat where "CUR_ALM_MAX_ARRAY_SIZE = 50"
definition UPLOAD_ALM_MAX_ARRAY_SIZE :: nat where "UPLOAD_ALM_MAX_ARRAY_SIZE = 20"
definition PORT_ALM :: nat where "PORT_ALM = 8"
definition FIRST :: int where "FIRST = 1"
definition OTHER :: int where "OTHER = 2"

definition timeinfo_0 :: timeinfo where
  "timeinfo_0 = \<lparr>ti_year = 0, ti_days = 0, ti_month = 0, ti_day = 0, ti_hour = 0, ti_minute = 0,
     ti_second = 0, ti_MiliSecond = 0, ti_MicroSecond = 0\<rparr>"

record alminfo =
  ai_id :: int
  ai_inx :: int
  ai_sta :: int
  ai_ti :: timeinfo

definition alminfo_0 :: alminfo where
  "alminfo_0 = \<lparr>ai_id = 0, ai_inx = 0, ai_sta = 0, ai_ti = timeinfo_0\<rparr>"

record portinfo =
  pt_port :: int
  pt_enable :: int
  pt_link :: int

text \<open>The source that is used, as the input process tells it (\<open>struct schemainfo\<close>).\<close>

record alm_schemainfo =
  sc_type :: int
  sc_slot :: int
  sc_port :: int
  sc_bid :: int
  sc_valid :: int

text \<open>What this process leaves in its shared memory.\<close>

record almShm =
  sh_alarm :: "int list"
  sh_cur :: "alminfo list"
  sh_upload :: "alminfo list"
  sh_port :: "portinfo list"
  sh_mask :: "int list"
  sh_select :: "int list"
  sh_threshold :: int
  sh_clock :: "int \<times> int"

record almCtx =
  loop_flag :: bool
  notify_flag :: bool
  alm_tag :: int
  first_flag :: int
  bids :: "int list"
  refsrc :: alm_schemainfo
  Threshold :: int
  port_status :: "portinfo list"
  select :: "int list"
  mask_sta :: "int list"
  old_alarm :: "int list"
  new_alarm :: "int list"
  ts_start :: "string list"
  ts_end :: "string list"
  cur_alarm :: "alminfo list"
  upload_alarm :: "alminfo list"
  cur_record :: int
  upload_record :: int
  shm :: almShm
  aevnts :: "evnt_inx list"
  adb :: "db_op list"
  areqs :: "request list"
  told :: "string list"
  times_read :: nat
  sema_calls :: nat

record almEnv =
  ae_fpga :: driver
  ae_db :: db_env
  ae_time :: "nat \<Rightarrow> timeinfo option"
  ae_sema :: "nat \<Rightarrow> bool"
  ae_input :: "nat \<Rightarrow> int list"
  ae_schema :: "nat \<Rightarrow> alm_schemainfo"
  ae_ntp :: "nat \<Rightarrow> int list"

section \<open>What it runs on\<close>

definition alm_read :: "almEnv \<Rightarrow> int \<Rightarrow> almCtx \<Rightarrow> int option \<times> almCtx" where
  "alm_read env addr c = (case FpgaRead (ae_fpga env) addr (areqs c) of (v, rs) \<Rightarrow> (v, c\<lparr>areqs := rs\<rparr>))"

definition alm_write :: "almEnv \<Rightarrow> int \<Rightarrow> int \<Rightarrow> almCtx \<Rightarrow> bool \<times> almCtx" where
  "alm_write env addr v c = (case FpgaWrite (ae_fpga env) addr v (areqs c) of (ok, rs) \<Rightarrow> (ok, c\<lparr>areqs := rs\<rparr>))"

definition alm_time :: "almEnv \<Rightarrow> almCtx \<Rightarrow> timeinfo option \<times> almCtx" where
  "alm_time env c = (ae_time env (times_read c), c\<lparr>times_read := times_read c + 1\<rparr>)"

text \<open>\<open>SET_EVNTFLAGVALID_BY_SLOT_PORT_ID\<close> on the table of this process.\<close>

definition set_event :: "almEnv \<Rightarrow> int \<Rightarrow> int \<Rightarrow> int \<Rightarrow> int \<Rightarrow> almCtx \<Rightarrow> almCtx" where
  "set_event env i slot port bid c =
     (case alm_time env c of (t, c) \<Rightarrow>
        c\<lparr>aevnts := SET_EVNTFLAGVALID_BID_BY_SLOT_PORT_ID i slot port bid t (aevnts c)\<rparr>)"

text \<open>
  An access to shared memory between \<open>sema_lock\<close> and \<open>sema_unlock\<close>; the access is given the number of
  the call of \<open>sema_lock\<close>.
\<close>

definition locked :: "almEnv \<Rightarrow> (nat \<Rightarrow> almCtx \<Rightarrow> almCtx) \<Rightarrow> almCtx \<Rightarrow> bool \<times> almCtx" where
  "locked env f c =
     (let n = sema_calls c; c = c\<lparr>sema_calls := n + 1\<rparr>
      in if ae_sema env n then (ae_sema env (n + 1), (f n c)\<lparr>sema_calls := n + 2\<rparr>) else (False, c))"

definition share :: "almEnv \<Rightarrow> (almShm \<Rightarrow> almCtx \<Rightarrow> almShm) \<Rightarrow> almCtx \<Rightarrow> bool \<times> almCtx" where
  "share env f = locked env (\<lambda>n c. c\<lparr>shm := f (shm c) c\<rparr>)"

definition WriteAlarmToShareMemory :: "almEnv \<Rightarrow> almCtx \<Rightarrow> bool \<times> almCtx" where
  "WriteAlarmToShareMemory env = share env (\<lambda>m c. m\<lparr>sh_alarm := new_alarm c\<rparr>)"

definition WriteAlarmInfoToShareMemory :: "almEnv \<Rightarrow> almCtx \<Rightarrow> bool \<times> almCtx" where
  "WriteAlarmInfoToShareMemory env =
     share env (\<lambda>m c. m\<lparr>sh_alarm := new_alarm c, sh_cur := cur_alarm c, sh_upload := upload_alarm c\<rparr>)"

definition WriteEnableToShareMemory :: "almEnv \<Rightarrow> almCtx \<Rightarrow> bool \<times> almCtx" where
  "WriteEnableToShareMemory env = share env (\<lambda>m c. m\<lparr>sh_port := port_status c\<rparr>)"

definition write_clock_state :: "almEnv \<Rightarrow> int \<Rightarrow> int \<Rightarrow> almCtx \<Rightarrow> bool \<times> almCtx" where
  "write_clock_state env state phase = share env (\<lambda>m c. m\<lparr>sh_clock := (state, phase)\<rparr>)"

definition read_fresh_state :: "almEnv \<Rightarrow> almCtx \<Rightarrow> bool \<times> almCtx" where
  "read_fresh_state env c =
     (case locked env (\<lambda>n c. c) c of
        (True, c') \<Rightarrow> (True, c'\<lparr>refsrc := ae_schema env (sema_calls c)\<rparr>)
      | (False, c') \<Rightarrow> (False, c'))"

section \<open>The lamp and the contacts\<close>


definition ledAlm :: "almEnv \<Rightarrow> int \<Rightarrow> almCtx \<Rightarrow> bool \<times> almCtx" where
  "ledAlm env v c = alm_write env FPGA_LED_ALM v c"

definition ledCtrl :: "almEnv \<Rightarrow> almCtx \<Rightarrow> bool \<times> almCtx" where
  "ledCtrl env c =
     (let s = length (filter (\<lambda>(a, m). a \<noteq> 0 \<and> m = 0) (zip (new_alarm c) (mask_sta c)))
      in ledAlm env (if s = 0 then LED_OFF else LED_ON) c)"

text \<open>The tag has a bit for each contact, the first one on the left; an index outside of the table has no value.\<close>

fun alm_tag_bits :: "int list \<Rightarrow> int list \<Rightarrow> nat \<Rightarrow> int \<Rightarrow> int option" where
  "alm_tag_bits new [] i tag = Some tag"
| "alm_tag_bits new (inx # s) i tag =
     (case arr new inx of
        None \<Rightarrow> None
      | Some a \<Rightarrow> alm_tag_bits new s (i + 1)
          (if ALM_ON = a then tag OR BIT (7 - i) else tag AND NOT (BIT (7 - i))))"

definition RefreshAlarm :: "almEnv \<Rightarrow> almCtx \<Rightarrow> (bool \<times> almCtx) option" where
  "RefreshAlarm env c =
     (case alm_tag_bits (new_alarm c) (select c) 0 0 of
        None \<Rightarrow> None
      | Some tag \<Rightarrow>
          if tag \<noteq> alm_tag c then
            (case alm_write env FPGA_SYS_OUT_ALM_TAG 0 (c\<lparr>alm_tag := tag\<rparr>) of
               (False, c) \<Rightarrow> Some (False, c)
             | (True, c) \<Rightarrow> Some (alm_write env FPGA_SYS_OUT_ALM_TAG tag c))
          else Some (True, c))"

section \<open>The list of the alarms that are on\<close>

text \<open>The first entry with a property.\<close>

fun first_at :: "('a \<Rightarrow> bool) \<Rightarrow> 'a list \<Rightarrow> nat option" where
  "first_at P [] = None"
| "first_at P (x # xs) = (if P x then Some 0 else map_option Suc (first_at P xs))"

text \<open>The list and the counter of its records; when it is full, nothing is entered.\<close>

definition set_cur_alarm_info :: "int \<Rightarrow> timeinfo \<Rightarrow> almCtx \<Rightarrow> almCtx" where
  "set_cur_alarm_info alm_inx ti c =
     (case first_at (\<lambda>a. ALM_OFF = ai_sta a) (cur_alarm c) of
        None \<Rightarrow> c
      | Some i \<Rightarrow>
          (let r = u32 (cur_record c + 1)
           in c\<lparr>cur_alarm := (cur_alarm c)[i := \<lparr>ai_id = r, ai_inx = u16 alm_inx, ai_sta = ALM_ON, ai_ti = ti\<rparr>],
                cur_record := (if r \<ge> 0xFFFFFFFF then 0 else r)\<rparr>))"

definition del_cur_alarm_info :: "int \<Rightarrow> almCtx \<Rightarrow> almCtx" where
  "del_cur_alarm_info alm_inx c =
     (case first_at (\<lambda>a. ALM_ON = ai_sta a \<and> alm_inx = ai_inx a) (cur_alarm c) of
        None \<Rightarrow> c
      | Some i \<Rightarrow> c\<lparr>cur_alarm := (cur_alarm c)[i := alminfo_0]\<rparr>)"

section \<open>The ring of the changes\<close>

text \<open>
  The first free entry, or else the first one with the smallest number: the loop keeps the smallest
  number so far, \<open>min_id\<close>, and its position.
\<close>

fun upload_slot :: "alminfo list \<Rightarrow> nat \<Rightarrow> int \<Rightarrow> nat \<Rightarrow> nat" where
  "upload_slot [] i min_id cur_minid_inx = cur_minid_inx"
| "upload_slot (a # as) i min_id cur_minid_inx =
     (if 0 = ai_id a then i
      else if min_id > ai_id a then upload_slot as (i + 1) (ai_id a) i
      else upload_slot as (i + 1) min_id cur_minid_inx)"

text \<open>The first component tells that the counter of the records has wrapped.\<close>

definition set_upload_alarm_info :: "int \<Rightarrow> int \<Rightarrow> timeinfo \<Rightarrow> almCtx \<Rightarrow> bool \<times> almCtx" where
  "set_upload_alarm_info alm_inx alm_sta ti c =
     (let i = upload_slot (upload_alarm c) 0 0xFFFFFFFF 0;
          r = u32 (upload_record c + 1);
          wrapped = (r \<ge> 0xFFFFFFFF)
      in (wrapped, c\<lparr>upload_alarm := (upload_alarm c)[i := \<lparr>ai_id = r, ai_inx = u16 alm_inx, ai_sta = alm_sta, ai_ti = ti\<rparr>],
                     upload_record := (if wrapped then 0 else r)\<rparr>))"

text \<open>When it has, the ring is shared once more and emptied.\<close>

definition enter_upload :: "almEnv \<Rightarrow> int \<Rightarrow> int \<Rightarrow> timeinfo \<Rightarrow> almCtx \<Rightarrow> bool \<times> almCtx" where
  "enter_upload env alm_inx alm_sta ti c =
     (case set_upload_alarm_info alm_inx alm_sta ti c of
        (False, c) \<Rightarrow> (True, c)
      | (True, c) \<Rightarrow>
          (case WriteAlarmInfoToShareMemory env c of
             (False, c) \<Rightarrow> (False, c)
           | (True, c) \<Rightarrow> (True, c\<lparr>upload_alarm := replicate UPLOAD_ALM_MAX_ARRAY_SIZE alminfo_0\<rparr>)))"

section \<open>The texts\<close>

definition gAlarmStatusTbl :: "int \<Rightarrow> string" where
  "gAlarmStatusTbl sta = (if sta = 0 then ''normal'' else ''fault'')"

text \<open>The messages of \<open>gAlmIdTbl\<close>, in its order.\<close>

definition gAlmMsgTbl :: "string list" where
  "gAlmMsgTbl = [''ALL Reference LOS Alarm'', ''XO Unlock Alarm'', ''RB Unlock Alarm'', ''HW FPGA Reg Alarm'',
     ''NTP Exit'', ''External Power Input Alarm'', ''GPS/BD Signal LOS'', ''GPS/BD Signal Degrade'',
     ''Antenna Open'', ''Antenna Short'', ''GPS/BD Threshold Alarm'', ''1PPS TOD Threshold Alarm'',
     ''1PPS TOD Input LOS'', ''1PPS Threshold Alarm'', ''1PPS Input LOS'', ''2048KHz Input LOS'',
     ''2048KHz Threshold Alarm'', ''10MHz Input LOS'', ''10MHz Threshold Alarm'', ''2048Kbit/s Input LOS'',
     ''2048Kbit/s AIS'', ''2048Kbit/s BPV'', ''2048Kbit/s CRC'', ''2048Kbit/s LOF'',
     ''2048Kbit/s Threshold Alarm'', ''IRIGB Input LOS'', ''IRIGB Degraded Alarm'',
     ''IRIGB Unavailable Alarm'', ''IRIGB Threshold Alarm'', ''PTP Input LOS'', ''PTP Input Degraded'',
     ''PTP Threshold Alarm'', ''NTP Input LOS'', ''NTP Input Degraded'', ''NTP Threshold Alarm'', ''Link Down'']"

definition alm_type_of :: "int \<Rightarrow> int" where
  "alm_type_of i = FIND_OTHMEMBER_BY_MEMBER i 0 gAlmIdTbl fst snd"

definition alm_msg_of :: "int \<Rightarrow> string" where
  "alm_msg_of i = FIND_OTHMEMBER_BY_MEMBER i '''' (zip (map fst gAlmIdTbl) gAlmMsgTbl) fst snd"

definition alarm_desc :: "int \<times> int \<times> int \<Rightarrow> int \<Rightarrow> string" where
  "alarm_desc row sta =
     (case row of (i, slot, port) \<Rightarrow>
        (let t = alm_type_of i; msg = alm_msg_of i @ '' '' @ gAlarmStatusTbl sta
         in if t = SMP_SID_SUB_IN \<or> t = SMP_SID_SUB_OUT
            then ''Slot:'' @ pr_d slot @ '' Port:'' @ pr_d port @ '' '' @ msg
            else if t = SMP_SID_SUB_SYS then ''SYS: '' @ msg
            else if t = SMP_SID_SUB_PWR \<or> t = SMP_SID_SUB_SAT then ''#'' @ pr_d slot @ '' '' @ msg
            else ''''))"

definition told_text :: "nat \<Rightarrow> int \<Rightarrow> string" where
  "told_text i sta = ''2|'' @ pr_d (int i) @ [CHR 0x5C] @ gAlarmStatusTbl sta"

section \<open>Comparing\<close>

definition send_log :: "string \<Rightarrow> almCtx \<Rightarrow> almCtx" where
  "send_log text c = c\<lparr>told := told c @ [text]\<rparr>"

text \<open>The event and the log of a change; a failure of the log ends the comparison.\<close>

definition log_change :: "almEnv \<Rightarrow> nat \<Rightarrow> int \<Rightarrow> almCtx \<Rightarrow> (bool \<times> almCtx) option" where
  "log_change env i sta c =
     (let c = set_event env (SNMP_EVNT_ID (if sta = ALM_ON then E_ALM_GENERATE else E_ALM_DISAPPEAR))
                SID_SYS_SLOT SID_SYS_PORT BID_NONE c
      in case alm_time env c of (t, c) \<Rightarrow>
           map_option (\<lambda>(ok, h). (ok, c\<lparr>adb := h\<rparr>))
             (db_log_write (ae_db env) t TBL_LOG (alarm_desc (pAlmInxTbl ! i) sta) (adb c)))"

definition change_on :: "almEnv \<Rightarrow> nat \<Rightarrow> almCtx \<Rightarrow> (bool \<times> almCtx) option" where
  "change_on env i c =
     (case alm_time env c of
        (None, c) \<Rightarrow> Some (False, c)
      | (Some ti, c) \<Rightarrow>
          (let c = c\<lparr>ts_start := (ts_start c)[i := time_text ti]\<rparr>;
               c = set_cur_alarm_info (int i) ti c
           in and_then (Some (enter_upload env (int i) ALM_ON ti c)) (\<lambda>c.
                log_change env i ALM_ON (send_log (told_text i ALM_ON) c))))"

definition change_off :: "almEnv \<Rightarrow> nat \<Rightarrow> almCtx \<Rightarrow> (bool \<times> almCtx) option" where
  "change_off env i c =
     (case alm_time env c of
        (None, c) \<Rightarrow> Some (False, c)
      | (Some ti, c) \<Rightarrow>
          (let c = c\<lparr>ts_end := (ts_end c)[i := time_text ti]\<rparr>;
               c = del_cur_alarm_info (int i) c
           in and_then (Some (enter_upload env (int i) ALM_OFF ti c)) (\<lambda>c.
              and_then (map_option (\<lambda>(ok, h). (ok, c\<lparr>adb := h\<rparr>))
                (db_alarm_write (ae_db env) TBL_ALARM_HISTORY (int i) (ts_start c ! i) (ts_end c ! i) (adb c))) (\<lambda>c.
                log_change env i ALM_OFF (send_log (told_text i ALM_OFF) c)))))"

definition compare_one :: "almEnv \<Rightarrow> nat \<Rightarrow> almCtx \<Rightarrow> (bool \<times> almCtx) option" where
  "compare_one env i c =
     (if ALM_OFF = old_alarm c ! i \<and> ALM_ON = new_alarm c ! i then change_on env i c
      else if ALM_ON = old_alarm c ! i \<and> ALM_OFF = new_alarm c ! i then change_off env i c
      else Some (True, c))"

fun compare_loop :: "almEnv \<Rightarrow> nat list \<Rightarrow> almCtx \<Rightarrow> (bool \<times> almCtx) option" where
  "compare_loop env [] c = Some (True, c)"
| "compare_loop env (i # is) c = and_then (compare_one env i c) (compare_loop env is)"

definition CompareAlarm :: "almEnv \<Rightarrow> almCtx \<Rightarrow> (bool \<times> almCtx) option" where
  "CompareAlarm env c =
     and_then (compare_loop env [0..<ALM_COUNT] c) (\<lambda>c. Some (True, c\<lparr>old_alarm := new_alarm c\<rparr>))"

end
