(* ===== verification/AlmCollect.thy ===== *)
theory AlmCollect
  imports AlmAlarm
begin

unbundle bit_operations_syntax

text \<open>
  The collection of the alarms and events in \<^verbatim>\<open>src/d-alarm/dalm_alarm.c\<close>: from the input process and
  the NTP process through shared memory, from the ports of the NTP boards, and from the registers
  of the FPGA.
\<close>

section \<open>Events\<close>

definition SID_CLK_SLOT :: int where "SID_CLK_SLOT = 1"
definition SID_CLK_PORT :: int where "SID_CLK_PORT = 1"

definition CollectEvent :: "almEnv \<Rightarrow> almCtx \<Rightarrow> bool \<times> almCtx" where
  "CollectEvent env c =
     (case alm_read env FPGA_RBXO_STA c of
        (None, c) \<Rightarrow> (False, c)
      | (Some clock_state, c) \<Rightarrow>
          (let c = (if sc_type (refsrc c) = GPS_SOURCE_TYPE
                    then set_event env
                           (if clock_state = 0 then SNMP_EVNT_ID E_SAT_FREE
                            else if clock_state = 4 then SNMP_EVNT_ID E_SAT_LOCK else 0)
                           (sc_slot (refsrc c)) (int SAT_PORT_SAT) (sc_bid (refsrc c)) c
                    else c);
               event_id = (if clock_state = 0 then SNMP_EVNT_ID E_CLK_FREE
                           else if clock_state = 1 \<or> clock_state = 2 then SNMP_EVNT_ID E_CLK_HOLD
                           else if clock_state = 3 then SNMP_EVNT_ID E_CLK_FAST
                           else if clock_state = 4 then SNMP_EVNT_ID E_CLK_LOCK else 0)
           in (True, set_event env event_id SID_CLK_SLOT SID_CLK_PORT BID_NONE c)))"

section \<open>Alarms\<close>

definition set_alarm :: "int \<Rightarrow> int \<Rightarrow> almCtx \<Rightarrow> almCtx" where
  "set_alarm i v c = c\<lparr>new_alarm := (new_alarm c)[nat i := v]\<rparr>"

definition alarm_when :: "bool \<Rightarrow> int" where
  "alarm_when b = (if b then ALM_ON else ALM_OFF)"

definition index_type :: "nat \<Rightarrow> int" where
  "index_type i = alm_type_of (fst (pAlmInxTbl ! i))"

text \<open>The alarms of the inputs and of the satellites are those of the input process.\<close>

definition collect_input :: "almEnv \<Rightarrow> almCtx \<Rightarrow> bool \<times> almCtx" where
  "collect_input env c =
     (case locked env (\<lambda>n c. c) c of
        (False, c') \<Rightarrow> (False, c')
      | (True, c') \<Rightarrow>
          (let tmp = ae_input env (sema_calls c)
           in (True, c'\<lparr>new_alarm := map (\<lambda>i. if index_type i \<noteq> SMP_SID_SUB_IN \<and> index_type i \<noteq> SMP_SID_SUB_SAT
                                           then new_alarm c' ! i else tmp ! i) [0..<ALM_COUNT]\<rparr>)))"

text \<open>The 20 ports of the NTP boards in the slots 12 to 16.\<close>

fun collect_ports :: "almEnv \<Rightarrow> nat list \<Rightarrow> almCtx \<Rightarrow> bool \<times> almCtx" where
  "collect_ports env [] c = (True, c)"
| "collect_ports env (i # is) c =
     (let port = int (i mod 4) + 1; slot = 12 + int (i div 4); bid = bids c ! nat (slot - 1)
      in if bid = BID_NTP \<or> bid = BID_NTPF then
           (let alm_inx = FIND_ALMINX_BY_SLOT_PORT_ID (SNMP_ALM_ID A_LINK_DOWN) slot port (- 1)
            in if alm_inx = - 1 then (False, c)
               else if pt_link (port_status c ! i) = 0 \<and> pt_enable (port_status c ! i) = 1
               then collect_ports env is
                      (set_alarm alm_inx ALM_ON (set_event env (SNMP_EVNT_ID E_LINK_DOWN) slot port bid c))
               else collect_ports env is (set_alarm alm_inx ALM_OFF c))
         else collect_ports env is c)"

text \<open>An alarm is looked up in the index table, and set to a value.\<close>

definition put_alarm :: "alm_name \<Rightarrow> int \<Rightarrow> int \<Rightarrow> int \<Rightarrow> almCtx \<Rightarrow> bool \<times> almCtx" where
  "put_alarm a slot port v c =
     (let i = FIND_ALMINX_BY_SLOT_PORT_ID (SNMP_ALM_ID a) slot port (- 1)
      in if i = - 1 then (False, c) else (True, set_alarm i v c))"

definition SID_PWR_PORT :: int where "SID_PWR_PORT = 1"

text \<open>The alarms of the thresholds are cleared; the case of NTP runs into the next one, which does the same.\<close>

definition thrsd_alarms :: "int list" where
  "thrsd_alarms = map SNMP_ALM_ID [A_GPBD_THRSD, A_2MHZ_THRSD, A_2MB_THRSD, A_IRIGB_THRSD, A_PTP_THRSD,
     A_1PPS_THRSD, A_1PPS_TOD_THRSD, A_NTP_THRSD, A_10MHZ_THRSD]"

definition clear_thresholds :: "almCtx \<Rightarrow> almCtx" where
  "clear_thresholds c =
     c\<lparr>new_alarm := map (\<lambda>i. if index_type i = SMP_SID_SUB_IN \<and> fst (pAlmInxTbl ! i) \<in> set thrsd_alarms
                             then ALM_OFF else new_alarm c ! i) [0..<ALM_COUNT]\<rparr>"

text \<open>The alarm that the phase of the source raises; the cases of 10 MHz and 1PPS name the loss of the signal.\<close>

definition threshold_alarm :: "int \<Rightarrow> int \<Rightarrow> (alm_name \<times> int) option" where
  "threshold_alarm t bid =
     (if t = GPS_SOURCE_TYPE then Some (A_GPBD_THRSD, int SAT_PORT_SAT)
      else if t = S2MH_SOURCE_TYPE then Some (A_2MHZ_THRSD, int SAT_PORT_2MH)
      else if t = S2MB_SOURCE_TYPE then Some (A_2MB_THRSD, int SAT_PORT_2MB)
      else if t = IRIGB1_SOURCE_TYPE then Some (A_IRIGB_THRSD, int SAT_PORT_IRIGB1)
      else if t = IRIGB2_SOURCE_TYPE then Some (A_IRIGB_THRSD, int SAT_PORT_IRIGB2)
      else if t = TOD_SOURCE_TYPE then
        (if bid = BID_PTP_IN then Some (A_PTP_THRSD, 1)
         else if bid = BID_RTF then Some (A_1PPS_TOD_THRSD, int RTF_PORT_1PPS_TOD) else None)
      else if t = S10MH1_SOURCE_TYPE then Some (A_10MHZ_IN_LOS, int RTF_PORT_10MH1)
      else if t = S10MH2_SOURCE_TYPE then Some (A_10MHZ_IN_LOS, int RTF_PORT_10MH2)
      else if t = S1PPS_SOURCE_TYPE then Some (A_1PPS_IN_LOS, int RTF_PORT_1PPS)
      else if t = NTP_SOURCE_TYPE then Some (A_NTP_THRSD, 1)
      else None)"

definition collect_threshold :: "int \<Rightarrow> almCtx \<Rightarrow> almCtx" where
  "collect_threshold sys_phase c =
     (let alm_inx = (case threshold_alarm (sc_type (refsrc c)) (sc_bid (refsrc c)) of
            None \<Rightarrow> - 1
          | Some (a, port) \<Rightarrow> FIND_ALMINX_BY_SLOT_PORT_ID (SNMP_ALM_ID a) (sc_slot (refsrc c)) port (- 1))
      in if alm_inx \<ge> 0 then set_alarm alm_inx (alarm_when (\<bar>sys_phase\<bar> > Threshold c)) c else c)"

definition collect_lock :: "int \<Rightarrow> int \<Rightarrow> almCtx \<Rightarrow> bool \<times> almCtx" where
  "collect_lock clock_type clock_state c =
     (let rb = FIND_ALMINX_BY_SLOT_PORT_ID (SNMP_ALM_ID A_RB_UNLOCK) 1 SID_SYS_PORT (- 1);
          xo = FIND_ALMINX_BY_SLOT_PORT_ID (SNMP_ALM_ID A_XO_UNLOCK) 1 SID_SYS_PORT (- 1)
      in if rb = - 1 \<or> xo = - 1 then (False, c)
         else if clock_type = 1 then (True, set_alarm xo ALM_OFF (set_alarm rb (alarm_when (4 \<noteq> clock_state)) c))
         else if clock_type = 2 then (True, set_alarm rb ALM_OFF (set_alarm xo (alarm_when (4 \<noteq> clock_state)) c))
         else (True, set_alarm xo ALM_OFF (set_alarm rb ALM_OFF c)))"

definition collect_ntp :: "almEnv \<Rightarrow> almCtx \<Rightarrow> bool \<times> almCtx" where
  "collect_ntp env c =
     (let i = FIND_ALMINX_BY_SLOT_PORT_ID (SNMP_ALM_ID A_NTP_EXIT) 1 SID_SYS_PORT (- 1)
      in if i = - 1 then (False, c)
         else (case locked env (\<lambda>n c. c) c of
                 (False, c') \<Rightarrow> (False, c')
               | (True, c') \<Rightarrow> (True, set_alarm i (ae_ntp env (sema_calls c) ! nat i) c')))"

definition collect_power :: "int \<Rightarrow> int \<Rightarrow> almCtx \<Rightarrow> bool \<times> almCtx" where
  "collect_power ext_pwr_alm temp c =
     (let bidpwr1 = drop_bit 8 temp AND 0x00FF; bidpwr2 = temp AND 0x00FF
      in pair_then (put_alarm A_EXT_PWR_INPUT 2 SID_PWR_PORT
                      (alarm_when (bit ext_pwr_alm 0 \<and> bidpwr2 \<noteq> 0x00FF)) c) (\<lambda>c.
           put_alarm A_EXT_PWR_INPUT 1 SID_PWR_PORT (alarm_when (bit ext_pwr_alm 1 \<and> bidpwr1 \<noteq> 0x00FF)) c))"

text \<open>The phase of the system is -1 when it cannot be read.\<close>

definition read_phase :: "almEnv \<Rightarrow> almCtx \<Rightarrow> int \<times> almCtx" where
  "read_phase env c =
     (case SysReadPhase (ae_fpga env) (areqs c) of (p, rs) \<Rightarrow>
        (case p of None \<Rightarrow> - 1 | Some p \<Rightarrow> p, c\<lparr>areqs := rs\<rparr>))"

definition collect_fpga :: "almEnv \<Rightarrow> almCtx \<Rightarrow> bool \<times> almCtx" where
  "collect_fpga env c =
     (case alm_read env FPGA_PWR_ALM c of (None, c) \<Rightarrow> (False, c) | (Some ext_pwr_alm, c) \<Rightarrow>
     (case alm_read env FPGA_INT_PWR_VOL c of (None, c) \<Rightarrow> (False, c) | (Some pwr_vol, c) \<Rightarrow>
     (case alm_read env FPGA_RBXO_TYP c of (None, c) \<Rightarrow> (False, c) | (Some clock_type, c) \<Rightarrow>
     (case alm_read env FPGA_RBXO_STA c of (None, c) \<Rightarrow> (False, c) | (Some clock_state, c) \<Rightarrow>
       (let c = (if clock_state \<ge> 3 then c\<lparr>first_flag := OTHER\<rparr> else c)
        in case read_phase env c of (sys_phase, c) \<Rightarrow>
           (case write_clock_state env clock_state sys_phase c of (_, c) \<Rightarrow>
           (case alm_read env FPGA_BID_S18_S19 c of (None, c) \<Rightarrow> (False, c) | (Some temp, c) \<Rightarrow>
             pair_then (collect_power ext_pwr_alm temp c) (\<lambda>c.
               collect_lock clock_type clock_state (collect_threshold sys_phase (clear_thresholds c))))))))))"

definition CollectAlarm :: "almEnv \<Rightarrow> almCtx \<Rightarrow> bool \<times> almCtx" where
  "CollectAlarm env c =
     pair_then (collect_input env c) (\<lambda>c.
     pair_then (collect_ports env [0..<20] c) (\<lambda>c.
     pair_then (collect_fpga env c) (\<lambda>c.
     pair_then (collect_ntp env c) (\<lambda>c.
       put_alarm A_HW_FPGA_HALT 1 SID_SYS_PORT ALM_OFF c))))"

text \<open>When the FPGA does not answer, only the NTP process is asked, and the alarm of the FPGA is on.\<close>

definition CollectAlarm_FPGAInvalid :: "almEnv \<Rightarrow> almCtx \<Rightarrow> bool \<times> almCtx" where
  "CollectAlarm_FPGAInvalid env c =
     pair_then (collect_ntp env c) (\<lambda>c. put_alarm A_HW_FPGA_HALT 1 SID_SYS_PORT ALM_ON c)"

end
