(* ===== verification/LibIp1725.thy ===== *)
theory LibIp1725
  imports Fpga AllocTables
begin

unbundle bit_operations_syntax

text \<open>
  The Ethernet switch, \<^verbatim>\<open>src/lib/lib_ip1725.c\<close>: its registers are reached through four registers of
  the FPGA, under a semaphore of its own. The results of the driver are not looked at, so a failed
  access goes unnoticed, and a failed read leaves the variable of the caller as it was. The functions
  that create the network interfaces only run commands of the shell and are left out.
\<close>

section \<open>State\<close>

text \<open>\<open>sw_init\<close> is \<open>switch_init_flag\<close>; \<open>se_sema\<close> tells which calls of the semaphore succeed.\<close>

record swState =
  sw_init :: bool
  sw_reqs :: "request list"
  sw_calls :: nat

record swEnv =
  se_fpga :: driver
  se_sema :: "nat \<Rightarrow> bool"

definition sw_write :: "swEnv \<Rightarrow> int \<Rightarrow> int \<Rightarrow> swState \<Rightarrow> swState" where
  "sw_write env addr v s = s\<lparr>sw_reqs := snd (FpgaWrite (se_fpga env) addr v (sw_reqs s))\<rparr>"

definition sw_sema :: "swEnv \<Rightarrow> swState \<Rightarrow> bool \<times> swState" where
  "sw_sema env s = (se_sema env (sw_calls s), s\<lparr>sw_calls := sw_calls s + 1\<rparr>)"

section \<open>Registers\<close>

definition SwitchInit :: "swState \<Rightarrow> swState" where
  "SwitchInit s = s\<lparr>sw_init := True\<rparr>"

definition SwitchRegWrite :: "swEnv \<Rightarrow> int \<Rightarrow> int \<Rightarrow> swState \<Rightarrow> swState" where
  "SwitchRegWrite env reg val s =
     (case sw_sema env (SwitchInit s) of
        (False, s) \<Rightarrow> s
      | (True, s) \<Rightarrow>
          (let s = sw_write env FPGA_SYS_IP1725_ADDR reg s;
               s = sw_write env FPGA_SYS_IP1725_VAL val s;
               s = sw_write env FPGA_SYS_IP1725_REG_OP 0x00 s;
               s = sw_write env FPGA_SYS_IP1725_REG_OP 0x01 s
           in snd (sw_sema env s)))"

definition SwitchRegRead :: "swEnv \<Rightarrow> int \<Rightarrow> int \<Rightarrow> swState \<Rightarrow> int \<times> swState" where
  "SwitchRegRead env reg val s =
     (case sw_sema env (SwitchInit s) of
        (False, s) \<Rightarrow> (val, s)
      | (True, s) \<Rightarrow>
          (let s = sw_write env FPGA_SYS_IP1725_ADDR reg s;
               s = sw_write env FPGA_SYS_IP1725_REG_OP 0x00 s;
               s = sw_write env FPGA_SYS_IP1725_REG_OP 0x02 s
           in case FpgaRead (se_fpga env) FPGA_SYS_IP1725_READ (sw_reqs s) of
                (v, rs) \<Rightarrow> (case v of None \<Rightarrow> val | Some v \<Rightarrow> v, snd (sw_sema env (s\<lparr>sw_reqs := rs\<rparr>)))))"

text \<open>\<open>cleaned\<close> tells whether the semaphore could be removed.\<close>

definition SwitchClean :: "bool \<Rightarrow> swState \<Rightarrow> swState" where
  "SwitchClean cleaned s = (if sw_init s \<and> cleaned then s\<lparr>sw_init := False\<rparr> else s)"

section \<open>The state of the links\<close>

definition link_bit :: "int \<Rightarrow> nat \<Rightarrow> nat \<Rightarrow> int \<Rightarrow> int" where
  "link_bit reg_value b port status = (if bit reg_value b then status OR push_bit port 1 else status)"

text \<open>The part of a register: the ports it is of, where the next three are \<open>glport\<close>.\<close>

definition link_step :: "int \<Rightarrow> int \<Rightarrow> nat \<times> int \<Rightarrow> nat \<times> int" where
  "link_step addr_base reg_value gs =
     (case gs of (glport, status) \<Rightarrow>
        if addr_base = 0x65 then (glport, link_bit reg_value 5 21 status)
        else if addr_base = 0x66 then (glport, link_bit reg_value 10 2 (link_bit reg_value 5 1 status))
        else (glport + 3, link_bit reg_value 10 (glport + 2)
               (link_bit reg_value 5 (glport + 1) (link_bit reg_value 0 glport status))))"

fun link_loop :: "swEnv \<Rightarrow> int list \<Rightarrow> int \<Rightarrow> nat \<times> int \<Rightarrow> swState \<Rightarrow> int \<times> swState" where
  "link_loop env [] reg_value gs s = (snd gs, s)"
| "link_loop env (addr # addrs) reg_value gs s =
     (case SwitchRegRead env addr reg_value s of
        (reg_value, s) \<Rightarrow> link_loop env addrs reg_value (link_step addr reg_value gs) s)"

definition dt_port_linkstatus_all_get :: "swEnv \<Rightarrow> swState \<Rightarrow> int \<times> swState" where
  "dt_port_linkstatus_all_get env s = link_loop env [0x65..0x6d] 0 (3, 0) s"

section \<open>The configuration\<close>

fun switch_writes :: "swEnv \<Rightarrow> (int \<times> int) list \<Rightarrow> swState \<Rightarrow> swState" where
  "switch_writes env [] s = s"
| "switch_writes env ((reg, val) # ws) s = switch_writes env ws (SwitchRegWrite env reg val s)"

definition enable_ports :: "(int \<times> int) list" where
  "enable_ports = [(0xEF, 0xFFFF), (0xF0, 0xFF), (0xF1, 0xFFFF), (0xF2, 0xFF)]"

definition SwitchConfig_enable_port :: "swEnv \<Rightarrow> swState \<Rightarrow> swState" where
  "SwitchConfig_enable_port env s = switch_writes env enable_ports s"

text \<open>The command of an entry of the tables: written, not read; the table of the tags or of the identifiers; high or low part.\<close>

definition table_command :: "bool \<Rightarrow> bool \<Rightarrow> int \<Rightarrow> int" where
  "table_command tag low i =
     BIT 15 OR BIT 14 OR BIT 9 OR push_bit 6 (if tag then 1 else 0) OR push_bit 5 (if low then 1 else 0) OR (i AND 0x1f)"

definition vid_tag_writes :: "(int \<times> int) list" where
  "vid_tag_writes = concat (map (\<lambda>i. [(0xFC, 1), (0xFA, table_command True False i),
     (0xFC, 0), (0xFA, table_command True True i)]) [0..31])"

definition vlan_id_writes :: "(int \<times> int) list" where
  "vlan_id_writes = concat (map (\<lambda>i. [(0xFC, i + 1), (0xFA, table_command False False i),
     (0xFC, i + 1), (0xFA, table_command False True i)]) [0..31])"

text \<open>The members of the 24 groups; the first port is that of the processor.\<close>

definition vlan_table_writes :: "(int \<times> int) list" where
  "vlan_table_writes = concat (map (\<lambda>i. let addr = u8 (0xAD + 2 * i) in
     if i < 16 then [(addr, BIT 0 OR push_bit (nat i) 1), (addr + 1, 0)]
     else [(addr, BIT 0), (addr + 1, push_bit (nat (i - 16)) 1)]) [0..23])"

text \<open>The group of each port, three in a register; the loop ends before \<open>0xA3\<close>.\<close>

definition pvid_writes :: "(int \<times> int) list" where
  "pvid_writes = map (\<lambda>k. let t = 3 * k in
     (0x9b + k, u16 (t OR push_bit 5 (t + 1) OR push_bit 10 (t + 2)))) [0..7]"

definition switch_config_writes :: "(int \<times> int) list" where
  "switch_config_writes =
     [(0x82, 0x0880), (0x86, 0xFFFE), (0x87, 0xFFFF), (0x88, 0xFFFF), (0x89, 0x01)]
     @ vid_tag_writes @ vlan_id_writes @ vlan_table_writes
     @ [(0x8A, 0x0000), (0x8B, 0xFF00)] @ pvid_writes
     @ [(0xF3, 0xFFFF), (0xF4, 0x03FF)] @ enable_ports @ [(0xF3, 0x0), (0xF4, 0x0), (0x6E, 0x01)]"

definition SwitchConfig :: "swEnv \<Rightarrow> swState \<Rightarrow> swState" where
  "SwitchConfig env s = switch_writes env switch_config_writes s"

definition SpanningTreeBlock :: "swEnv \<Rightarrow> swState \<Rightarrow> swState" where
  "SpanningTreeBlock env s = switch_writes env [(0xED, 0xfffa), (0xEE, 0x007f)] s"

end
