(* ===== verification/AlmConfig.thy ===== *)
theory AlmConfig
  imports AlmCollect LibIp1725
begin

unbundle bit_operations_syntax

text \<open>
  The configuration of the alarms (\<^verbatim>\<open>src/d-alarm/dalm_config.c\<close>), the messages that change it
  (\<^verbatim>\<open>src/d-alarm/dalm_parser.c\<close>) and the loop of the process (\<^verbatim>\<open>src/d-alarm/dalm_ctrl.c\<close>,
  \<^verbatim>\<open>src/d-alarm/dalm_alloc.c\<close>). \<open>None\<close> is a read or a write outside of an array.
\<close>

section \<open>The boards\<close>

definition OTHER_SLOT_CURSOR_17 :: nat where "OTHER_SLOT_CURSOR_17 = 16"
definition OTHER_SLOT_CURSOR_18 :: nat where "OTHER_SLOT_CURSOR_18 = 17"
definition OTHER_SLOT_CURSOR_19 :: nat where "OTHER_SLOT_CURSOR_19 = 18"
definition OTHER_SLOT_CURSOR_20 :: nat where "OTHER_SLOT_CURSOR_20 = 19"

definition known_bid :: "int \<Rightarrow> int" where
  "known_bid b = (if BID_ARRAY_SIZE \<le> b then BID_NONE else b)"

definition high_byte :: "int \<Rightarrow> int" where "high_byte t = drop_bit 8 t AND 0x00FF"
definition low_byte :: "int \<Rightarrow> int" where "low_byte t = t AND 0x00FF"

definition set_bid :: "nat \<Rightarrow> int \<Rightarrow> almCtx \<Rightarrow> almCtx" where
  "set_bid i b c = c\<lparr>bids := (bids c)[i := known_bid b]\<rparr>"

fun read_bids :: "almEnv \<Rightarrow> nat list \<Rightarrow> almCtx \<Rightarrow> bool \<times> almCtx" where
  "read_bids env [] c = (True, c)"
| "read_bids env (j # js) c =
     (case alm_read env (FPGA_SYS2_COMMON (0x0011 + int j)) c of
        (None, c) \<Rightarrow> (False, c)
      | (Some t, c) \<Rightarrow> read_bids env js (set_bid (2 * j + 1) (low_byte t) (set_bid (2 * j) (high_byte t) c)))"

definition ReadBidFromFpga :: "almEnv \<Rightarrow> almCtx \<Rightarrow> bool \<times> almCtx" where
  "ReadBidFromFpga env c =
     (case alm_read env FPGA_BID_S17 c of (None, c) \<Rightarrow> (False, c) | (Some t8, c) \<Rightarrow>
     (case alm_read env FPGA_BID_S18_S19 c of (None, c) \<Rightarrow> (False, c) | (Some t9, c) \<Rightarrow>
       pair_then (read_bids env [0..<8] c) (\<lambda>c.
         (True, set_bid OTHER_SLOT_CURSOR_20 BID_NONE (set_bid OTHER_SLOT_CURSOR_19 (low_byte t9)
           (set_bid OTHER_SLOT_CURSOR_18 (high_byte t9) (set_bid OTHER_SLOT_CURSOR_17 (low_byte t8) c)))))))"

section \<open>The tables\<close>

definition TBL_ALARM_SELECT :: string where "TBL_ALARM_SELECT = ''TBL_ALARM_SELECT''"
definition TBL_ALARM_SHIELD :: string where "TBL_ALARM_SHIELD = ''TBL_ALARM_SHIELD''"
definition ALM_TBL_SYS :: string where "ALM_TBL_SYS = ''TBL_SYS''"

definition WriteMaskToShareMemory :: "almEnv \<Rightarrow> almCtx \<Rightarrow> bool \<times> almCtx" where
  "WriteMaskToShareMemory env = share env (\<lambda>m c. m\<lparr>sh_mask := mask_sta c\<rparr>)"

definition WriteSelectToShareMemory :: "almEnv \<Rightarrow> almCtx \<Rightarrow> bool \<times> almCtx" where
  "WriteSelectToShareMemory env = share env (\<lambda>m c. m\<lparr>sh_select := select c\<rparr>)"

definition WriteSignalThresholdToShareMemory :: "almEnv \<Rightarrow> almCtx \<Rightarrow> bool \<times> almCtx" where
  "WriteSignalThresholdToShareMemory env = share env (\<lambda>m c. m\<lparr>sh_threshold := Threshold c\<rparr>)"

definition put_adb :: "almEnv \<Rightarrow> string \<Rightarrow> almCtx \<Rightarrow> bool \<times> almCtx" where
  "put_adb env sql c = (case db_put_locked (ae_db env) sql (adb c) of (ok, h) \<Rightarrow> (ok, c\<lparr>adb := h\<rparr>))"

definition WriteAlarmSelectToTable :: "almEnv \<Rightarrow> int \<Rightarrow> int \<Rightarrow> string \<Rightarrow> almCtx \<Rightarrow> bool \<times> almCtx" where
  "WriteAlarmSelectToTable env alm_inx port pTbl =
     put_adb env (''update '' @ pTbl @ '' '' @ tabs 4 @ ''  set alarm_id='' @ pr_d (s32 alm_inx)
       @ '' '' @ tabs 4 @ ''  where o_port='' @ pr_d port @ '';'')"

definition WriteSignalThresholdToTable :: "almEnv \<Rightarrow> int \<Rightarrow> string \<Rightarrow> almCtx \<Rightarrow> bool \<times> almCtx" where
  "WriteSignalThresholdToTable env th pTbl =
     put_adb env (''update '' @ pTbl @ '' '' @ tabs 4 @ ''  set i_ph_threshold='' @ pr_d th @ '';'')"

definition WriteAlarmMaskToTable :: "almEnv \<Rightarrow> int \<Rightarrow> int \<Rightarrow> string \<Rightarrow> almCtx \<Rightarrow> bool \<times> almCtx" where
  "WriteAlarmMaskToTable env alm_inx sta pTbl =
     put_adb env (''update '' @ pTbl @ '' '' @ tabs 4 @ ''  set alarm_shield_state='' @ quoted (pr_d sta)
       @ '' '' @ tabs 4 @ ''  where alarm_id='' @ pr_d (s32 alm_inx) @ '';'')"

text \<open>A column of numbers into an array: each row into its place, from the first on.\<close>

fun read_column :: "db_table \<Rightarrow> int \<Rightarrow> nat \<Rightarrow> nat \<Rightarrow> int list \<Rightarrow> int list option" where
  "read_column t ncolumn 0 i xs = Some xs"
| "read_column t ncolumn (Suc n) i xs =
     (case cell t (ncolumn * (int i + 1) + 1) of
        None \<Rightarrow> None
      | Some v \<Rightarrow> if i < length xs then read_column t ncolumn n (i + 1) (xs[i := atoi v]) else None)"

definition read_table :: "almEnv \<Rightarrow> string \<Rightarrow> (db_table \<Rightarrow> almCtx \<Rightarrow> almCtx option) \<Rightarrow> almCtx \<Rightarrow> (bool \<times> almCtx) option" where
  "read_table env sql f c =
     (case db_get_table (ae_db env) sql (db_lock (ae_db env) (adb c)) of
        (None, h) \<Rightarrow> Some (False, c\<lparr>adb := db_unlock (ae_db env) h\<rparr>)
      | (Some t, h) \<Rightarrow> map_option (\<lambda>c. (True, c\<lparr>adb := db_unlock (ae_db env) h\<rparr>)) (f t c))"

definition ReadAlarmSelectFromTable :: "almEnv \<Rightarrow> string \<Rightarrow> almCtx \<Rightarrow> (bool \<times> almCtx) option" where
  "ReadAlarmSelectFromTable env pTbl c =
     read_table env (''select * from '' @ pTbl @ '';'')
       (\<lambda>t c. case t of (_, nrow, ncolumn) \<Rightarrow>
          map_option (\<lambda>xs. c\<lparr>select := map u32 xs\<rparr>) (read_column t ncolumn (nat nrow) 0 (select c))) c"

definition ReadAlarmMaskFromTable :: "almEnv \<Rightarrow> string \<Rightarrow> almCtx \<Rightarrow> (bool \<times> almCtx) option" where
  "ReadAlarmMaskFromTable env pTbl c =
     read_table env (''select * from '' @ pTbl @ '';'')
       (\<lambda>t c. case t of (_, nrow, ncolumn) \<Rightarrow>
          map_option (\<lambda>xs. c\<lparr>mask_sta := map u8 xs\<rparr>) (read_column t ncolumn (nat nrow) 0 (mask_sta c))) c"

definition ReadSignalThresholdFromTable :: "almEnv \<Rightarrow> string \<Rightarrow> almCtx \<Rightarrow> (bool \<times> almCtx) option" where
  "ReadSignalThresholdFromTable env pTbl c =
     read_table env (''select i_ph_threshold from '' @ pTbl @ '';'')
       (\<lambda>t c. case t of (_, nrow, ncolumn) \<Rightarrow>
          map_option (\<lambda>v. c\<lparr>Threshold := atoi v\<rparr>) (cell t (ncolumn * nrow))) c"

section \<open>Messages\<close>

datatype alm_msg =
  AlmLevel bool
| AlmSelect int int
| AlmMask int int
| AlmPort int int
| AlmThreshold int
| AlmOther

definition sysMask :: "almEnv \<Rightarrow> int \<Rightarrow> int \<Rightarrow> almCtx \<Rightarrow> (bool \<times> almCtx) option" where
  "sysMask env alm_inx sta c =
     (let c' = (if alm_inx = SNMP_ALM_ID A_LINK_DOWN
                then Some (c\<lparr>mask_sta := map (\<lambda>i. if fst (pAlmInxTbl ! i) = SNMP_ALM_ID A_LINK_DOWN then sta
                                               else mask_sta c ! i) [0..<ALM_COUNT]\<rparr>)
                else if alm_inx < int (length (mask_sta c)) then Some (c\<lparr>mask_sta := (mask_sta c)[nat alm_inx := sta]\<rparr>)
                else None)
      in map_option (\<lambda>c. pair_then (WriteMaskToShareMemory env c) (WriteAlarmMaskToTable env alm_inx sta TBL_ALARM_SHIELD)) c')"

definition sys_port_status :: "int \<Rightarrow> int \<Rightarrow> almCtx \<Rightarrow> (bool \<times> almCtx) option" where
  "sys_port_status port enable c =
     (case arr (port_status c) (port - 1) of
        None \<Rightarrow> None
      | Some p \<Rightarrow> Some (True, c\<lparr>port_status := (port_status c)[nat (port - 1) := p\<lparr>pt_enable := enable\<rparr>]\<rparr>))"

definition sys_inph_thresold :: "almEnv \<Rightarrow> int \<Rightarrow> almCtx \<Rightarrow> bool \<times> almCtx" where
  "sys_inph_thresold env th c =
     pair_then (WriteSignalThresholdToShareMemory env (c\<lparr>Threshold := th\<rparr>)) (WriteSignalThresholdToTable env th ALM_TBL_SYS)"

definition sysSelect :: "almEnv \<Rightarrow> int \<Rightarrow> int \<Rightarrow> almCtx \<Rightarrow> (bool \<times> almCtx) option" where
  "sysSelect env port alm_inx c =
     (if port > int PORT_ALM then Some (False, c)
      else if port - 1 < 0 then None
      else Some (pair_then (WriteSelectToShareMemory env (c\<lparr>select := (select c)[nat (port - 1) := alm_inx]\<rparr>))
             (WriteAlarmSelectToTable env alm_inx port TBL_ALARM_SELECT)))"

definition handle_alm :: "almEnv \<Rightarrow> alm_msg \<Rightarrow> almCtx \<Rightarrow> (bool \<times> almCtx) option" where
  "handle_alm env msg c =
     (case msg of
        AlmLevel ok \<Rightarrow> Some (ok, c)
      | AlmSelect port inx \<Rightarrow> sysSelect env port inx c
      | AlmMask inx sta \<Rightarrow> sysMask env inx sta c
      | AlmPort port enable \<Rightarrow> sys_port_status port enable c
      | AlmThreshold th \<Rightarrow> Some (sys_inph_thresold env th c)
      | AlmOther \<Rightarrow> Some (False, c))"

text \<open>The queue as it is read: the messages until it is empty, or an error of the queue after them.\<close>

fun ReadMessageQueue_alm :: "almEnv \<Rightarrow> alm_msg list \<Rightarrow> bool \<Rightarrow> almCtx \<Rightarrow> (bool \<times> almCtx) option" where
  "ReadMessageQueue_alm env [] ok c = Some (ok, c)"
| "ReadMessageQueue_alm env (m # ms) ok c = and_then (handle_alm env m c) (ReadMessageQueue_alm env ms ok)"

section \<open>The loop\<close>

definition THRESHOLD_PHVALUE_INIT :: int where "THRESHOLD_PHVALUE_INIT = 8388607"
definition REFSOURCE_INIT :: int where "REFSOURCE_INIT = 0"
definition ALM_ETH_MAX :: nat where "ALM_ETH_MAX = 21"

text \<open>What \<open>initializeContext\<close> does; the tables, the events and the counters are not of the context.\<close>

definition initializeContext :: "almCtx \<Rightarrow> almCtx" where
  "initializeContext c = c\<lparr>loop_flag := True, notify_flag := False, alm_tag := 0, first_flag := FIRST,
     bids := replicate 20 0, Threshold := THRESHOLD_PHVALUE_INIT,
     refsrc := \<lparr>sc_type = 0, sc_slot = 0, sc_port = 0, sc_bid = 0, sc_valid = REFSOURCE_INIT\<rparr>,
     port_status := replicate ALM_ETH_MAX \<lparr>pt_port = 0, pt_enable = 0, pt_link = 0\<rparr>,
     select := replicate PORT_ALM 0, mask_sta := replicate ALM_COUNT 0,
     old_alarm := replicate ALM_COUNT 0, new_alarm := replicate ALM_COUNT 0,
     ts_start := replicate ALM_COUNT [], ts_end := replicate ALM_COUNT [],
     cur_alarm := replicate CUR_ALM_MAX_ARRAY_SIZE alminfo_0,
     upload_alarm := replicate UPLOAD_ALM_MAX_ARRAY_SIZE alminfo_0\<rparr>"

definition check_fpga :: "almEnv \<Rightarrow> almCtx \<Rightarrow> bool \<times> almCtx" where
  "check_fpga env c = (case SysCheckFpgaRunStatus (ae_fpga env) (areqs c) of (ok, rs) \<Rightarrow> (ok, c\<lparr>areqs := rs\<rparr>))"

text \<open>A pass of the loop that waits for the FPGA; none of the results is looked at.\<close>

definition wait_pass :: "almEnv \<Rightarrow> almCtx \<Rightarrow> almCtx option" where
  "wait_pass env c =
     (case CompareAlarm env (snd (CollectAlarm_FPGAInvalid env c)) of
        None \<Rightarrow> None
      | Some (_, c) \<Rightarrow> Some (snd (WriteAlarmInfoToShareMemory env c)))"

text \<open>The states of the links: port \<open>i\<close> has bit \<open>i\<close>.\<close>

definition set_links :: "int \<Rightarrow> almCtx \<Rightarrow> almCtx" where
  "set_links status c =
     c\<lparr>port_status := map (\<lambda>i. (port_status c ! i)\<lparr>pt_link := (if bit status (i + 1) then 1 else 0)\<rparr>) [0..<ALM_ETH_MAX]\<rparr>"

text \<open>
  A pass with a working FPGA, from its messages to its events: \<open>links\<close> is what
  \<open>dt_port_linkstatus_all_get\<close> reports.
\<close>

definition alarm_pass :: "almEnv \<Rightarrow> alm_msg list \<Rightarrow> bool \<Rightarrow> int \<Rightarrow> almCtx \<Rightarrow> (bool \<times> almCtx) option" where
  "alarm_pass env msgs msgq_ok links c =
     and_then (if notify_flag c then ReadMessageQueue_alm env msgs msgq_ok (c\<lparr>notify_flag := False\<rparr>) else Some (True, c)) (\<lambda>c.
     and_then (Some (ReadBidFromFpga env c)) (\<lambda>c.
     and_then (Some (WriteEnableToShareMemory env (set_links links c))) (\<lambda>c.
     and_then (Some (read_fresh_state env c)) (\<lambda>c.
     and_then (Some (CollectEvent env c)) (\<lambda>c.
     and_then (Some (CollectAlarm env c)) (\<lambda>c.
     and_then (if sc_valid (refsrc c) \<noteq> REFSOURCE_INIT then CompareAlarm env c else Some (True, c)) (\<lambda>c.
     and_then (Some (ledCtrl env c)) (\<lambda>c.
     and_then (RefreshAlarm env c) (\<lambda>c.
     and_then (Some (WriteAlarmInfoToShareMemory env c)) (\<lambda>c.
       map_option (\<lambda>(ok, es, h). (ok, c\<lparr>aevnts := es, adb := h\<rparr>))
         (WriteCurEventToTable (Some (ae_db env)) (aevnts c) (adb c))))))))))))"

end
