(* ===== verification/AlarmTable.thy ===== *)
theory AlarmTable
  imports AllocTablesSpec
begin

text \<open>
  The index table of the alarms as the collections of the alarms use it: what is found for an
  identifier at a slot and port, and what rows there are.
\<close>

declare SNMP_ALM_ID.simps [simp del]

section \<open>The rows\<close>

definition alm_names :: "alm_name list" where
  "alm_names = [A_ALL_REF_LOS, A_XO_UNLOCK, A_RB_UNLOCK, A_HW_FPGA_HALT, A_NTP_EXIT, A_EXT_PWR_INPUT,
     A_GPBD_SGN_LOS, A_GPBD_SGN_DGD, A_ANT_OPEN, A_ANT_SHORT, A_GPBD_THRSD, A_1PPS_TOD_THRSD,
     A_1PPS_TOD_IN_LOS, A_1PPS_THRSD, A_1PPS_IN_LOS, A_2MHZ_IN_LOS, A_2MHZ_THRSD,
     A_10MHZ_IN_LOS, A_10MHZ_THRSD, A_2MB_IN_LOS, A_2MB_AIS, A_2MB_BPV, A_2MB_CRC, A_2MB_LOF,
     A_2MB_THRSD, A_IRIGB_IN_LOS, A_IRIGB_IN_DGD, A_IRIGB_INVAID, A_IRIGB_THRSD, A_PTP_IN_LOS,
     A_PTP_IN_DGD, A_PTP_THRSD, A_NTP_IN_LOS, A_NTP_IN_DGD, A_NTP_THRSD, A_LINK_DOWN]"

lemma alm_names_all: "a \<in> set alm_names"
  by (cases a) (simp_all add: alm_names_def)

lemma alm_id_eq [simp]: "SNMP_ALM_ID a = SNMP_ALM_ID b \<longleftrightarrow> a = b"
proof -
  have "distinct (map SNMP_ALM_ID alm_names)" by code_simp
  then have "inj_on SNMP_ALM_ID (set alm_names)" by (simp add: distinct_map)
  then show ?thesis using alm_names_all by (auto dest: inj_onD)
qed

lemma sub_values: "SMP_SID_SUB_SYS = 1" "SMP_SID_SUB_PWR = 2" "SMP_SID_SUB_SAT = 5" "SMP_SID_SUB_IN = 6" "SMP_SID_SUB_OUT = 8"
  by (simp_all add: SMP_SID_SUB_SYS_def SMP_SID_SUB_IN_def SMP_SID_SUB_SAT_def SMP_SID_SUB_PWR_def SMP_SID_SUB_OUT_def)

lemma in_alarm_table: "(i, slot, port) \<in> set pAlmInxTbl \<longleftrightarrow>
  (\<exists>t s p. (i, t) \<in> set gAlmIdTbl \<and> (t, s, p) \<in> set alarm_subs \<and> 1 \<le> slot \<and> slot \<le> s \<and> 1 \<le> port \<and> port \<le> p)"
  using alarms.in_table by (simp add: alarms.member_def)

lemma row_range: "(i, slot, port) \<in> set pAlmInxTbl \<Longrightarrow> 1 \<le> slot \<and> slot \<le> 16 \<and> 1 \<le> port \<and> port \<le> 8"
proof -
  assume "(i, slot, port) \<in> set pAlmInxTbl"
  then obtain t s p where "(t, s, p) \<in> set alarm_subs" "1 \<le> slot" "slot \<le> s" "1 \<le> port" "port \<le> p"
    using in_alarm_table by blast
  then show ?thesis by (auto simp: alarm_subs_eq)
qed

section \<open>Looking up\<close>

lemma alm_count: "ALM_COUNT = 651" "length pAlmInxTbl = ALM_COUNT"
  by (simp_all add: ALM_COUNT_def ALM_CURSOR_ARRAY_SIZE_def alarm_table_length)

lemma find_alm:
  "FIND_ALMINX_BY_SLOT_PORT_ID i slot port (- 1) = k \<longleftrightarrow>
     (if k = - 1 then (i, slot, port) \<notin> set pAlmInxTbl else 0 \<le> k \<and> k < int ALM_COUNT \<and> pAlmInxTbl ! nat k = (i, slot, port))"
  unfolding FIND_ALMINX_BY_SLOT_PORT_ID_def using alarms.find_exact alarms.in_table by (simp add: alm_count)

lemma find_alm_at:
  assumes "j < ALM_COUNT" "FIND_ALMINX_BY_SLOT_PORT_ID i slot port (- 1) \<noteq> - 1"
  shows "nat (FIND_ALMINX_BY_SLOT_PORT_ID i slot port (- 1)) = j \<longleftrightarrow> pAlmInxTbl ! j = (i, slot, port)"
proof
  assume "pAlmInxTbl ! j = (i, slot, port)"
  then have "FIND_ALMINX_BY_SLOT_PORT_ID i slot port (- 1) = int j" using assms(1) by (simp add: find_alm)
  then show "nat (FIND_ALMINX_BY_SLOT_PORT_ID i slot port (- 1)) = j" by simp
next
  assume "nat (FIND_ALMINX_BY_SLOT_PORT_ID i slot port (- 1)) = j"
  then show "pAlmInxTbl ! j = (i, slot, port)"
    using assms(2) find_alm[of i slot port "FIND_ALMINX_BY_SLOT_PORT_ID i slot port (- 1)"] by auto
qed

lemma find_alm_found: "(i, slot, port) \<in> set pAlmInxTbl \<Longrightarrow> FIND_ALMINX_BY_SLOT_PORT_ID i slot port (- 1) \<noteq> - 1"
  by (simp add: find_alm)


end
