(* ===== verification/AlmSpec.thy ===== *)
theory AlmSpec
  imports AlmConfig AlarmTable
begin

unbundle bit_operations_syntax

text \<open>
  What the alarm process promises: the list of the alarms that are on is the set of the alarms that
  were collected, the ring of the changes holds the last 20 of them, and what happens when the data
  base refuses a statement.
\<close>

lemma on_off [simp]: "ALM_ON \<noteq> ALM_OFF" "ALM_OFF \<noteq> ALM_ON"
  by (simp_all add: ALM_ON_def ALM_OFF_def)

section \<open>Searching a list\<close>

lemma first_at_Some: "first_at P xs = Some k \<Longrightarrow> k < length xs \<and> P (xs ! k)"
  by (induction xs arbitrary: k) (auto split: if_splits)

lemma first_at_None: "first_at P xs = None \<longleftrightarrow> (\<forall>x \<in> set xs. \<not> P x)"
  by (induction xs) auto

section \<open>The list of the alarms that are on\<close>

definition on_at :: "alminfo list \<Rightarrow> nat \<Rightarrow> bool" where
  "on_at xs j \<longleftrightarrow> j < length xs \<and> ai_sta (xs ! j) \<noteq> ALM_OFF"

definition on_set :: "alminfo list \<Rightarrow> int set" where
  "on_set xs = (\<lambda>j. ai_inx (xs ! j)) ` {j. on_at xs j}"

definition list_ok :: "alminfo list \<Rightarrow> bool" where
  "list_ok xs \<longleftrightarrow> length xs = CUR_ALM_MAX_ARRAY_SIZE \<and> (\<forall>a \<in> set xs. ai_sta a \<in> {ALM_OFF, ALM_ON})
     \<and> inj_on (\<lambda>j. ai_inx (xs ! j)) {j. on_at xs j}"

lemma full_list: "list_ok xs \<Longrightarrow> \<forall>a \<in> set xs. ai_sta a \<noteq> ALM_OFF \<Longrightarrow> card (on_set xs) = CUR_ALM_MAX_ARRAY_SIZE"
proof -
  assume ok: "list_ok xs" and f: "\<forall>a \<in> set xs. ai_sta a \<noteq> ALM_OFF"
  then have "{j. on_at xs j} = {..<CUR_ALM_MAX_ARRAY_SIZE}" by (auto simp: on_at_def list_ok_def)
  then show ?thesis using ok by (simp add: on_set_def list_ok_def card_image)
qed

lemma on_at_update:
  "k < length xs \<Longrightarrow> on_at (xs[k := a]) j \<longleftrightarrow> (if j = k then ai_sta a \<noteq> ALM_OFF else on_at xs j)"
  by (auto simp: on_at_def)

lemma list_add:
  assumes "list_ok xs" "k < length xs" "ai_sta (xs ! k) = ALM_OFF" "ai_sta a = ALM_ON" "ai_inx a \<notin> on_set xs"
  shows "list_ok (xs[k := a])" "on_set (xs[k := a]) = insert (ai_inx a) (on_set xs)"
proof -
  have off: "\<not> on_at xs k" using assms(3) by (simp add: on_at_def)
  have on: "{j. on_at (xs[k := a]) j} = insert k {j. on_at xs j}"
    using assms(2,4) by (auto simp: on_at_update ALM_OFF_def ALM_ON_def)
  have v: "j \<noteq> k \<Longrightarrow> ai_inx (xs[k := a] ! j) = ai_inx (xs ! j)" for j by simp
  have img: "(\<lambda>j. ai_inx (xs[k := a] ! j)) ` {j. on_at xs j} = on_set xs"
    unfolding on_set_def using off by (intro image_cong) (auto intro!: v)
  show "on_set (xs[k := a]) = insert (ai_inx a) (on_set xs)"
    unfolding on_set_def[of "xs[k := a]"] on image_insert img using assms(2) by simp
  have "inj_on (\<lambda>j. ai_inx (xs[k := a] ! j)) {j. on_at xs j} \<longleftrightarrow> inj_on (\<lambda>j. ai_inx (xs ! j)) {j. on_at xs j}"
    by (rule inj_on_cong) (use off in \<open>auto intro!: v\<close>)
  then have "inj_on (\<lambda>j. ai_inx (xs[k := a] ! j)) {j. on_at xs j}"
    using assms(1) by (simp add: list_ok_def)
  then have "inj_on (\<lambda>j. ai_inx (xs[k := a] ! j)) (insert k {j. on_at xs j})"
    using assms(2,5) img off by (auto simp: inj_on_insert)
  then show "list_ok (xs[k := a])"
    using assms(1,2,4) unfolding list_ok_def on by (auto dest!: subsetD[OF set_update_subset_insert])
qed

lemma list_remove:
  assumes "list_ok xs" "k < length xs" "on_at xs k" "ai_sta a = ALM_OFF"
  shows "list_ok (xs[k := a])" "on_set (xs[k := a]) = on_set xs - {ai_inx (xs ! k)}"
proof -
  have on: "{j. on_at (xs[k := a]) j} = {j. on_at xs j} - {k}"
    using assms(2,4) by (auto simp: on_at_update)
  have inj: "inj_on (\<lambda>j. ai_inx (xs ! j)) {j. on_at xs j}" using assms(1) by (simp add: list_ok_def)
  have img: "(\<lambda>j. ai_inx (xs[k := a] ! j)) ` ({j. on_at xs j} - {k}) = (\<lambda>j. ai_inx (xs ! j)) ` ({j. on_at xs j} - {k})"
    by (intro image_cong) auto
  show "on_set (xs[k := a]) = on_set xs - {ai_inx (xs ! k)}"
    unfolding on_set_def on img using inj assms(3) by (auto simp: inj_on_def)
  have "inj_on (\<lambda>j. ai_inx (xs[k := a] ! j)) ({j. on_at xs j} - {k})"
    using inj by (auto simp: inj_on_def nth_list_update)
  then show "list_ok (xs[k := a])"
    using assms(1,2,4) unfolding list_ok_def on by (auto dest!: subsetD[OF set_update_subset_insert])
qed

lemma set_cur_listed:
  assumes "list_ok (cur_alarm c)" "0 \<le> i" "i < 65536" "i \<notin> on_set (cur_alarm c)"
    "card (on_set (cur_alarm c)) < CUR_ALM_MAX_ARRAY_SIZE"
  shows "\<exists>xs r. set_cur_alarm_info i ti c = c\<lparr>cur_alarm := xs, cur_record := r\<rparr>
    \<and> list_ok xs \<and> on_set xs = insert i (on_set (cur_alarm c))"
proof -
  have "first_at (\<lambda>a. ALM_OFF = ai_sta a) (cur_alarm c) \<noteq> None"
    using full_list[OF assms(1)] assms(5) unfolding first_at_None by fastforce
  then obtain k where k: "first_at (\<lambda>a. ALM_OFF = ai_sta a) (cur_alarm c) = Some k" by auto
  note kd = first_at_Some[OF k]
  let ?a = "\<lparr>ai_id = u32 (cur_record c + 1), ai_inx = u16 i, ai_sta = ALM_ON, ai_ti = ti\<rparr>"
  have "list_ok ((cur_alarm c)[k := ?a])" "on_set ((cur_alarm c)[k := ?a]) = insert i (on_set (cur_alarm c))"
    using list_add[OF assms(1), of k ?a] kd assms(2-4) by simp_all
  then show ?thesis by (intro exI) (auto simp: set_cur_alarm_info_def k Let_def)
qed

lemma del_cur_listed:
  assumes "list_ok (cur_alarm c)"
  shows "\<exists>xs. del_cur_alarm_info i c = c\<lparr>cur_alarm := xs\<rparr> \<and> list_ok xs \<and> on_set xs = on_set (cur_alarm c) - {i}"
proof (cases "first_at (\<lambda>a. ALM_ON = ai_sta a \<and> i = ai_inx a) (cur_alarm c)")
  case None
  then have "i \<notin> on_set (cur_alarm c)"
    using assms by (fastforce simp: first_at_None on_set_def on_at_def list_ok_def all_set_conv_all_nth)
  then show ?thesis using assms None by (intro exI[of _ "cur_alarm c"]) (simp add: del_cur_alarm_info_def)
next
  case (Some k)
  note kd = first_at_Some[OF Some]
  have "on_at (cur_alarm c) k" using kd by (auto simp: on_at_def ALM_ON_def ALM_OFF_def)
  then have "list_ok ((cur_alarm c)[k := alminfo_0])" "on_set ((cur_alarm c)[k := alminfo_0]) = on_set (cur_alarm c) - {i}"
    using list_remove[OF assms, of k alminfo_0] kd by (simp_all add: alminfo_0_def ALM_OFF_def)
  then show ?thesis using Some by (intro exI[of _ "(cur_alarm c)[k := alminfo_0]"]) (simp add: del_cur_alarm_info_def)
qed

section \<open>The ring of the changes\<close>

text \<open>
  What the ring holds after the changes \<open>hist\<close>: the entry \<open>j\<close> is the latest change whose number is
  \<open>j\<close> modulo 20.
\<close>

type_synonym change = "int \<times> int \<times> timeinfo"

definition change_entry :: "change list \<Rightarrow> nat \<Rightarrow> alminfo" where
  "change_entry hist k = (case hist ! k of (i, sta, ti) \<Rightarrow> \<lparr>ai_id = int k + 1, ai_inx = i, ai_sta = sta, ai_ti = ti\<rparr>)"

definition latest :: "nat \<Rightarrow> nat \<Rightarrow> nat" where
  "latest n j = j + 20 * ((n - 1 - j) div 20)"

definition ring_ok :: "change list \<Rightarrow> alminfo list \<Rightarrow> int \<Rightarrow> bool" where
  "ring_ok hist up rec \<longleftrightarrow> length up = UPLOAD_ALM_MAX_ARRAY_SIZE \<and> rec = int (length hist)
     \<and> (\<forall>j < UPLOAD_ALM_MAX_ARRAY_SIZE. up ! j = (if j < length hist then change_entry hist (latest (length hist) j) else alminfo_0))"

lemma latest_bounds: "j < n \<Longrightarrow> j < 20 \<Longrightarrow> latest n j < n \<and> n \<le> latest n j + 20 \<and> latest n j mod 20 = j"
  unfolding latest_def by (auto simp: mod_mult_self2)

lemma latest_unique:
  assumes "k < n" "n \<le> k + 20" shows "latest n (k mod 20) = k"
proof -
  have "k mod 20 < n" using assms by (meson le_less_trans mod_less_eq_dividend)
  then have l: "latest n (k mod 20) < n" "n \<le> latest n (k mod 20) + 20" "latest n (k mod 20) mod 20 = k mod 20"
    using latest_bounds[of "k mod 20" n] by auto
  define a where "a = latest n (k mod 20) div 20"
  define b where "b = k div 20"
  have e: "latest n (k mod 20) = a * 20 + k mod 20" "k = b * 20 + k mod 20"
    using div_mult_mod_eq[of "latest n (k mod 20)" 20] l(3) by (simp_all add: a_def b_def)
  then have "a = b" using l(1,2) assms by linarith
  then show ?thesis using e by simp
qed

lemma latest_Suc:
  assumes "j < 20" "j < n"
  shows "latest (Suc n) j = (if j = n mod 20 then n else latest n j)"
proof (cases "j = n mod 20")
  case True
  then show ?thesis using latest_unique[of n "Suc n"] by simp
next
  case False
  note l = latest_bounds[OF assms(2,1)]
  have "latest n j \<noteq> n - 20 \<or> n < 20"
    using False l mod_add_self2[of "n - 20" 20] by (metis le_add_diff_inverse2 not_less)
  then have "Suc n \<le> latest n j + 20" using l by linarith
  then show ?thesis using False l latest_unique[of "latest n j" "Suc n"] by simp
qed

lemma upload_slot_free:
  "\<forall>j < k. ai_id (as ! j) \<noteq> 0 \<Longrightarrow> k < length as \<Longrightarrow> ai_id (as ! k) = 0 \<Longrightarrow> upload_slot as i m cur = i + k"
proof (induction as arbitrary: i m cur k)
  case (Cons a as)
  show ?case
  proof (cases k)
    case 0
    then show ?thesis using Cons.prems by simp
  next
    case (Suc k')
    have "ai_id a \<noteq> 0" using Cons.prems(1) Suc by (metis nth_Cons_0 zero_less_Suc)
    moreover have "\<forall>j < k'. ai_id (as ! j) \<noteq> 0" using Cons.prems(1) Suc by (metis Suc_mono nth_Cons_Suc)
    ultimately show ?thesis using Cons.prems(2,3) Suc Cons.IH[of k'] by simp
  qed
qed simp

lemma upload_slot_none:
  "\<forall>a \<in> set as. ai_id a \<noteq> 0 \<and> m \<le> ai_id a \<Longrightarrow> upload_slot as i m cur = cur"
  by (induction as arbitrary: i) auto

lemma upload_slot_min:
  "\<forall>j < length as. j \<noteq> k \<longrightarrow> ai_id (as ! k) < ai_id (as ! j) \<Longrightarrow> k < length as \<Longrightarrow> 0 < ai_id (as ! k) \<Longrightarrow>
   ai_id (as ! k) < m \<Longrightarrow> upload_slot as i m cur = i + k"
proof (induction as arbitrary: i m cur k)
  case (Cons a as)
  show ?case
  proof (cases k)
    case 0
    have "\<forall>b \<in> set as. ai_id b \<noteq> 0 \<and> ai_id a \<le> ai_id b"
      using Cons.prems(1,3) 0 by (fastforce simp: in_set_conv_nth)
    then show ?thesis using Cons.prems 0 upload_slot_none[of as "ai_id a"] by auto
  next
    case (Suc k')
    have a: "ai_id (as ! k') < ai_id a" using Cons.prems(1) Suc by (metis length_Cons nat.distinct(1) nth_Cons_0 nth_Cons_Suc zero_less_Suc)
    have r: "\<forall>j < length as. j \<noteq> k' \<longrightarrow> ai_id (as ! k') < ai_id (as ! j)"
      using Cons.prems(1) Suc by (metis Suc_inject Suc_mono length_Cons nth_Cons_Suc)
    show ?thesis using Cons.prems(2-4) Suc a Cons.IH[OF r] by simp
  qed
qed simp

lemma entry_id [simp]: "ai_id (change_entry hist k) = int k + 1"
  by (simp add: change_entry_def split: prod.splits)

lemma ring_slot:
  assumes "ring_ok hist up rec" "length hist < 4294967294"
  shows "upload_slot up 0 0xFFFFFFFF 0 = length hist mod 20"
proof (cases "length hist < 20")
  case True
  have "\<forall>j < length hist. ai_id (up ! j) \<noteq> 0"
    using assms(1) True by (auto simp: ring_ok_def UPLOAD_ALM_MAX_ARRAY_SIZE_def simp del: of_nat_Suc)
  moreover have "ai_id (up ! length hist) = 0" "length hist < length up"
    using assms(1) True by (auto simp: ring_ok_def UPLOAD_ALM_MAX_ARRAY_SIZE_def alminfo_0_def)
  ultimately show ?thesis using True upload_slot_free[of "length hist" up] by simp
next
  case False
  define n where "n = length hist"
  define k where "k = n mod 20"
  have n: "20 \<le> n" "k < 20" using False by (simp_all add: n_def k_def)
  have up: "length up = 20" "\<And>j. j < 20 \<Longrightarrow> ai_id (up ! j) = int (latest n j) + 1"
    using assms(1) n by (auto simp: ring_ok_def UPLOAD_ALM_MAX_ARRAY_SIZE_def n_def)
  have "(n - 20) mod 20 = k" using n(1) mod_add_self2[of "n - 20" 20] by (simp add: k_def)
  then have lk: "latest n k = n - 20" using n latest_unique[of "n - 20" n] by simp
  have lt: "latest n k < latest n j" if "j < 20" "j \<noteq> k" for j
  proof -
    have l: "latest n j mod 20 = j" "n \<le> latest n j + 20" using latest_bounds[of j n] that n by auto
    then have "latest n j \<noteq> n - 20" using that \<open>(n - 20) mod 20 = k\<close> by auto
    then show ?thesis using l(2) lk by linarith
  qed
  have "upload_slot up 0 0xFFFFFFFF 0 = 0 + k"
  proof (rule upload_slot_min)
    have "ai_id (up ! k) < ai_id (up ! j)" if "j < 20" "j \<noteq> k" for j
      using lt[OF that] up(2)[OF that(1)] up(2)[OF n(2)] by linarith
    then show "\<forall>j < length up. j \<noteq> k \<longrightarrow> ai_id (up ! k) < ai_id (up ! j)" using up(1) by simp
    show "ai_id (up ! k) < 0xFFFFFFFF" using up n lk assms(2) by (simp add: n_def)
  qed (use up n in simp_all)
  then show ?thesis by (simp add: k_def n_def)
qed

lemma upload_ring:
  assumes "ring_ok hist (upload_alarm c) (upload_record c)" "length hist < 4294967294" "0 \<le> i" "i < 65536"
  shows "\<exists>up r. set_upload_alarm_info i sta ti c = (False, c\<lparr>upload_alarm := up, upload_record := r\<rparr>)
    \<and> ring_ok (hist @ [(i, sta, ti)]) up r"
proof -
  define n where "n = length hist"
  let ?a = "\<lparr>ai_id = int n + 1, ai_inx = i, ai_sta = sta, ai_ti = ti\<rparr>"
  have up: "length (upload_alarm c) = 20" "upload_record c = int n"
    "\<And>j. j < 20 \<Longrightarrow> upload_alarm c ! j = (if j < n then change_entry hist (latest n j) else alminfo_0)"
    using assms(1) by (auto simp: ring_ok_def UPLOAD_ALM_MAX_ARRAY_SIZE_def n_def)
  have old: "change_entry (hist @ [(i, sta, ti)]) k = change_entry hist k" if "k < n" for k
    using that by (simp add: change_entry_def nth_append n_def)
  have new: "change_entry (hist @ [(i, sta, ti)]) n = ?a" by (simp add: change_entry_def n_def)
  have "((upload_alarm c)[n mod 20 := ?a]) ! j
      = (if j < Suc n then change_entry (hist @ [(i, sta, ti)]) (latest (Suc n) j) else alminfo_0)" if j: "j < 20" for j
  proof (cases "j < n")
    case True
    then show ?thesis
      using j up latest_Suc[OF j True] new old latest_bounds[OF True j] by (auto simp: nth_list_update)
  next
    case False
    then show ?thesis
      using j up new latest_unique[of n "Suc n"] by (cases "j = n") (auto simp: nth_list_update)
  qed
  then have "ring_ok (hist @ [(i, sta, ti)]) ((upload_alarm c)[n mod 20 := ?a]) (int n + 1)"
    using up by (simp add: ring_ok_def UPLOAD_ALM_MAX_ARRAY_SIZE_def n_def)
  moreover have "set_upload_alarm_info i sta ti c
      = (False, c\<lparr>upload_alarm := (upload_alarm c)[n mod 20 := ?a], upload_record := int n + 1\<rparr>)"
    using ring_slot[OF assms(1,2)] assms(2-4) up by (simp add: set_upload_alarm_info_def n_def Let_def)
  ultimately show ?thesis by blast
qed

section \<open>Comparing\<close>

lemma map_option_ctx: "map_option (\<lambda>(ok, h). (ok, c\<lparr>adb := h\<rparr>)) x = Some (ok, c') \<Longrightarrow> \<exists>h. c' = c\<lparr>adb := h\<rparr>"
  by (auto split: option.splits)

text \<open>What the log, the history and the events leave alone.\<close>

definition same_alarms :: "almCtx \<Rightarrow> almCtx \<Rightarrow> bool" where
  "same_alarms c c' \<longleftrightarrow> cur_alarm c' = cur_alarm c \<and> upload_alarm c' = upload_alarm c \<and> upload_record c' = upload_record c
     \<and> old_alarm c' = old_alarm c \<and> new_alarm c' = new_alarm c \<and> told c' = told c"

lemma same_alarms_refl [simp]: "same_alarms c c" by (simp add: same_alarms_def)

lemma same_alarms_trans: "same_alarms a b \<Longrightarrow> same_alarms b c \<Longrightarrow> same_alarms a c"
  by (simp add: same_alarms_def)

lemma set_event_same: "same_alarms c (set_event env i s p b c)"
  by (simp add: set_event_def alm_time_def same_alarms_def)

lemma log_change_same:
  assumes "log_change env i sta c = Some (ok, c')"
  shows "same_alarms c c'"
proof -
  let ?c = "set_event env (SNMP_EVNT_ID (if sta = ALM_ON then E_ALM_GENERATE else E_ALM_DISAPPEAR)) SID_SYS_SLOT SID_SYS_PORT BID_NONE c"
  obtain t c1 where t: "alm_time env ?c = (t, c1)" by (cases "alm_time env ?c")
  have "same_alarms ?c c1" using t by (auto simp: alm_time_def same_alarms_def)
  moreover obtain h where "c' = c1\<lparr>adb := h\<rparr>"
    using assms by (auto simp: log_change_def t dest!: map_option_ctx)
  ultimately show ?thesis
    using set_event_same[of c env] by (auto intro: same_alarms_trans simp: same_alarms_def)
qed

text \<open>The alarms that differ, and the number of alarms that are on before or after.\<close>

definition alarms_on :: "int list \<Rightarrow> int set" where
  "alarms_on v = {int i | i. i < length v \<and> v ! i = ALM_ON}"

definition changed :: "almCtx \<Rightarrow> nat list \<Rightarrow> nat list" where
  "changed c is = filter (\<lambda>i. old_alarm c ! i \<noteq> new_alarm c ! i) is"

definition binary :: "int list \<Rightarrow> bool" where
  "binary v \<longleftrightarrow> length v = ALM_COUNT \<and> set v \<subseteq> {ALM_OFF, ALM_ON}"

text \<open>A change of one alarm: the list, the ring and the text.\<close>

definition change_done :: "nat \<Rightarrow> int \<Rightarrow> timeinfo \<Rightarrow> change list \<Rightarrow> almCtx \<Rightarrow> almCtx \<Rightarrow> bool" where
  "change_done i sta ti hist c c' \<longleftrightarrow> list_ok (cur_alarm c')
     \<and> on_set (cur_alarm c') = (if sta = ALM_ON then insert (int i) (on_set (cur_alarm c)) else on_set (cur_alarm c) - {int i})
     \<and> ring_ok (hist @ [(int i, sta, ti)]) (upload_alarm c') (upload_record c')
     \<and> told c' = told c @ [told_text i sta] \<and> old_alarm c' = old_alarm c \<and> new_alarm c' = new_alarm c"

lemma change_done_same: "change_done i sta ti hist c d \<Longrightarrow> same_alarms d d' \<Longrightarrow> change_done i sta ti hist c d'"
  by (simp add: change_done_def same_alarms_def)

lemma change_on_done:
  assumes "change_on env i c = Some (True, c')" "list_ok (cur_alarm c)" "i < ALM_COUNT" "int i \<notin> on_set (cur_alarm c)"
    "card (on_set (cur_alarm c)) < CUR_ALM_MAX_ARRAY_SIZE"
    "ring_ok hist (upload_alarm c) (upload_record c)" "length hist < 4294967294"
  shows "\<exists>ti. change_done i ALM_ON ti hist c c'"
proof -
  obtain t where t: "ae_time env (times_read c) = Some t"
    using assms(1) by (cases "ae_time env (times_read c)") (auto simp: change_on_def alm_time_def)
  let ?c = "c\<lparr>times_read := Suc (times_read c), ts_start := (ts_start c)[i := time_text t]\<rparr>"
  have i: "0 \<le> int i" "int i < 65536" using assms(3) by (simp_all add: ALM_COUNT_def ALM_CURSOR_ARRAY_SIZE_def)
  obtain xs r where s: "set_cur_alarm_info (int i) t ?c = ?c\<lparr>cur_alarm := xs, cur_record := r\<rparr>"
    "list_ok xs" "on_set xs = insert (int i) (on_set (cur_alarm c))"
    using set_cur_listed[of ?c "int i" t] assms(2,4,5) i by auto
  obtain up q where u: "set_upload_alarm_info (int i) ALM_ON t (?c\<lparr>cur_alarm := xs, cur_record := r\<rparr>)
      = (False, ?c\<lparr>cur_alarm := xs, cur_record := r, upload_alarm := up, upload_record := q\<rparr>)"
    "ring_ok (hist @ [(int i, ALM_ON, t)]) up q"
    using upload_ring[of hist "?c\<lparr>cur_alarm := xs, cur_record := r\<rparr>" "int i" ALM_ON t] assms(6,7) i by auto
  let ?d = "send_log (told_text i ALM_ON) (?c\<lparr>cur_alarm := xs, cur_record := r, upload_alarm := up, upload_record := q\<rparr>)"
  have "log_change env i ALM_ON ?d = Some (True, c')"
    using assms(1) by (simp add: change_on_def alm_time_def t s(1) enter_upload_def u(1))
  then have "same_alarms ?d c'" by (rule log_change_same)
  moreover have "change_done i ALM_ON t hist c ?d"
    using s u by (simp add: change_done_def send_log_def)
  ultimately show ?thesis by (blast intro: change_done_same)
qed

lemma change_off_done:
  assumes "change_off env i c = Some (True, c')" "list_ok (cur_alarm c)" "i < ALM_COUNT"
    "ring_ok hist (upload_alarm c) (upload_record c)" "length hist < 4294967294"
  shows "\<exists>ti. change_done i ALM_OFF ti hist c c'"
proof -
  obtain t where t: "ae_time env (times_read c) = Some t"
    using assms(1) by (cases "ae_time env (times_read c)") (auto simp: change_off_def alm_time_def)
  let ?c = "c\<lparr>times_read := Suc (times_read c), ts_end := (ts_end c)[i := time_text t]\<rparr>"
  have i: "0 \<le> int i" "int i < 65536" using assms(3) by (simp_all add: ALM_COUNT_def ALM_CURSOR_ARRAY_SIZE_def)
  obtain xs where s: "del_cur_alarm_info (int i) ?c = ?c\<lparr>cur_alarm := xs\<rparr>"
    "list_ok xs" "on_set xs = on_set (cur_alarm c) - {int i}"
    using del_cur_listed[of ?c "int i"] assms(2) by auto
  obtain up q where u: "set_upload_alarm_info (int i) ALM_OFF t (?c\<lparr>cur_alarm := xs\<rparr>)
      = (False, ?c\<lparr>cur_alarm := xs, upload_alarm := up, upload_record := q\<rparr>)"
    "ring_ok (hist @ [(int i, ALM_OFF, t)]) up q"
    using upload_ring[of hist "?c\<lparr>cur_alarm := xs\<rparr>" "int i" ALM_OFF t] assms(4,5) i by auto
  let ?e = "?c\<lparr>cur_alarm := xs, upload_alarm := up, upload_record := q\<rparr>"
  obtain h where "log_change env i ALM_OFF (send_log (told_text i ALM_OFF) (?e\<lparr>adb := h\<rparr>)) = Some (True, c')"
    using assms(1)
    by (auto simp: change_off_def alm_time_def t s(1) enter_upload_def u(1) elim!: and_then_TrueE dest!: map_option_ctx)
  then have "same_alarms (send_log (told_text i ALM_OFF) (?e\<lparr>adb := h\<rparr>)) c'" by (rule log_change_same)
  moreover have "change_done i ALM_OFF t hist c (send_log (told_text i ALM_OFF) (?e\<lparr>adb := h\<rparr>))"
    using s u by (simp add: change_done_def send_log_def ALM_OFF_def ALM_ON_def)
  ultimately show ?thesis by (blast intro: change_done_same)
qed

text \<open>The alarms that are listed when the loop is at \<open>k\<close>: those before it are compared already.\<close>

definition mixed :: "almCtx \<Rightarrow> nat \<Rightarrow> int set" where
  "mixed c k = {int i | i. i < k \<and> i < ALM_COUNT \<and> new_alarm c ! i = ALM_ON}
     \<union> {int i | i. k \<le> i \<and> i < ALM_COUNT \<and> old_alarm c ! i = ALM_ON}"

lemma mixed_Suc:
  "k < ALM_COUNT \<Longrightarrow> mixed c (Suc k) =
     (if new_alarm c ! k = ALM_ON then insert (int k) (mixed c k) else mixed c k - {int k})"
  by (auto simp: mixed_def less_Suc_eq Suc_le_eq le_less)

lemma mixed_subset: "binary (old_alarm c) \<Longrightarrow> binary (new_alarm c) \<Longrightarrow> mixed c k \<subseteq> alarms_on (old_alarm c) \<union> alarms_on (new_alarm c)"
  by (auto simp: mixed_def alarms_on_def binary_def)

lemma mixed_same: "old_alarm c' = old_alarm c \<Longrightarrow> new_alarm c' = new_alarm c \<Longrightarrow> mixed c' k = mixed c k"
  by (simp add: mixed_def)

lemma finite_alarms_on [simp]: "finite (alarms_on v)"
  by (simp add: alarms_on_def)

lemma binary_nth: "binary v \<Longrightarrow> i < ALM_COUNT \<Longrightarrow> v ! i = ALM_OFF \<or> v ! i = ALM_ON"
  by (metis binary_def empty_iff insert_iff nth_mem subsetD)

definition keys :: "change list \<Rightarrow> (int \<times> int) list" where
  "keys chs = map (\<lambda>(i, sta, ti). (i, sta)) chs"

definition changes :: "almCtx \<Rightarrow> nat list \<Rightarrow> (int \<times> int) list" where
  "changes c is = map (\<lambda>i. (int i, new_alarm c ! i)) (changed c is)"

definition told_changes :: "almCtx \<Rightarrow> nat list \<Rightarrow> string list" where
  "told_changes c is = map (\<lambda>i. told_text i (new_alarm c ! i)) (changed c is)"

definition listing :: "nat \<Rightarrow> change list \<Rightarrow> almCtx \<Rightarrow> bool" where
  "listing k hist c \<longleftrightarrow> list_ok (cur_alarm c) \<and> on_set (cur_alarm c) = mixed c k
     \<and> ring_ok hist (upload_alarm c) (upload_record c)"

lemma compare_one_done:
  assumes "compare_one env k c = Some (True, c')" "k < ALM_COUNT" "binary (old_alarm c)" "binary (new_alarm c)"
    "card (alarms_on (old_alarm c) \<union> alarms_on (new_alarm c)) \<le> CUR_ALM_MAX_ARRAY_SIZE"
    "listing k hist c" "length hist < 4294967294"
  shows "\<exists>chs. keys chs = changes c [k] \<and> listing (Suc k) (hist @ chs) c' \<and> told c' = told c @ told_changes c [k]
    \<and> old_alarm c' = old_alarm c \<and> new_alarm c' = new_alarm c"
proof -
  note l = assms(6)[unfolded listing_def]
  have b: "old_alarm c ! k = ALM_OFF \<or> old_alarm c ! k = ALM_ON" "new_alarm c ! k = ALM_OFF \<or> new_alarm c ! k = ALM_ON"
    using binary_nth assms(2-4) by auto
  have conc: ?thesis if d: "change_done k (new_alarm c ! k) ti hist c c'" "old_alarm c ! k \<noteq> new_alarm c ! k" for ti
  proof (intro exI conjI)
    show "keys [(int k, new_alarm c ! k, ti)] = changes c [k]"
      using d(2) by (simp add: keys_def changes_def changed_def)
    show "listing (Suc k) (hist @ [(int k, new_alarm c ! k, ti)]) c'"
      using d(1) l mixed_Suc[OF assms(2), of c] mixed_same[of c' c] by (simp add: listing_def change_done_def)
    show "told c' = told c @ told_changes c [k]"
      using d by (simp add: told_changes_def changed_def change_done_def)
  qed (use d in \<open>simp_all add: change_done_def\<close>)
  show ?thesis
  proof (cases "old_alarm c ! k = new_alarm c ! k")
    case True
    then have "c' = c" using assms(1) b by (auto simp: compare_one_def)
    moreover have "mixed c (Suc k) = mixed c k"
      using True assms(2) b by (auto simp: mixed_Suc) (auto simp: mixed_def ALM_OFF_def ALM_ON_def)
    ultimately show ?thesis
      using True l by (intro exI[of _ "[]"]) (simp add: keys_def changes_def told_changes_def changed_def listing_def)
  next
    case False
    show ?thesis
    proof (cases "new_alarm c ! k = ALM_ON")
      case True
      have k: "int k \<notin> mixed c k" "int k \<in> alarms_on (new_alarm c)"
        using True False b assms(2,4) by (auto simp: mixed_def alarms_on_def binary_def)
      have "mixed c k \<subset> alarms_on (old_alarm c) \<union> alarms_on (new_alarm c)"
        using mixed_subset[OF assms(3,4), of k] k by auto
      then have "card (mixed c k) < CUR_ALM_MAX_ARRAY_SIZE"
        using psubset_card_mono[of "alarms_on (old_alarm c) \<union> alarms_on (new_alarm c)" "mixed c k"] assms(5) by simp
      moreover have "change_on env k c = Some (True, c')"
        using assms(1) True False b by (auto simp: compare_one_def)
      ultimately obtain ti where "change_done k ALM_ON ti hist c c'"
        using change_on_done[of env k c c' hist] l k assms(2,7) by auto
      then show ?thesis using conc True False by simp
    next
      case off: False
      then have "change_off env k c = Some (True, c')"
        using assms(1) False b by (auto simp: compare_one_def ALM_ON_def ALM_OFF_def)
      then obtain ti where "change_done k ALM_OFF ti hist c c'"
        using change_off_done[of env k c c' hist] l assms(2,7) by auto
      then show ?thesis using conc off False b by auto
    qed
  qed
qed

lemma compare_loop_done:
  assumes "compare_loop env [k..<ALM_COUNT] c = Some (True, c')" "k \<le> ALM_COUNT"
    "binary (old_alarm c)" "binary (new_alarm c)"
    "card (alarms_on (old_alarm c) \<union> alarms_on (new_alarm c)) \<le> CUR_ALM_MAX_ARRAY_SIZE"
    "listing k hist c" "length hist + ALM_COUNT < 4294967294 + k"
  shows "\<exists>chs. keys chs = changes c [k..<ALM_COUNT] \<and> listing ALM_COUNT (hist @ chs) c'
    \<and> told c' = told c @ told_changes c [k..<ALM_COUNT] \<and> old_alarm c' = old_alarm c \<and> new_alarm c' = new_alarm c"
  using assms
proof (induction "ALM_COUNT - k" arbitrary: k c hist)
  case 0
  then have "k = ALM_COUNT" by simp
  then show ?case
    using "0.prems" by (intro exI[of _ "[]"]) (auto simp: keys_def changes_def told_changes_def changed_def)
next
  case (Suc d)
  then have k: "k < ALM_COUNT" by simp
  have u: "[k..<ALM_COUNT] = k # [Suc k..<ALM_COUNT]" using k by (rule upt_conv_Cons)
  obtain c1 where c1: "compare_one env k c = Some (True, c1)" "compare_loop env [Suc k..<ALM_COUNT] c1 = Some (True, c')"
    using Suc.prems(1) by (auto simp: u elim: and_then_TrueE)
  obtain chs where a: "keys chs = changes c [k]" "listing (Suc k) (hist @ chs) c1"
    "told c1 = told c @ told_changes c [k]" "old_alarm c1 = old_alarm c" "new_alarm c1 = new_alarm c"
    using compare_one_done[OF c1(1) k Suc.prems(3,4,5,6)] Suc.prems(7) k by auto
  have "length chs = length (changes c [k])" using a(1) by (metis keys_def length_map)
  also have "\<dots> \<le> 1" by (simp add: changes_def changed_def)
  finally have len: "length (hist @ chs) + ALM_COUNT < 4294967294 + Suc k" using Suc.prems(7) by simp
  have ex: "\<exists>chs'. keys chs' = changes c1 [Suc k..<ALM_COUNT] \<and> listing ALM_COUNT ((hist @ chs) @ chs') c'
    \<and> told c' = told c1 @ told_changes c1 [Suc k..<ALM_COUNT] \<and> old_alarm c' = old_alarm c1 \<and> new_alarm c' = new_alarm c1"
    by (rule Suc.hyps(1)) (use Suc.hyps(2) Suc.prems k c1(2) a len in auto)
  then obtain chs' where b: "keys chs' = changes c1 [Suc k..<ALM_COUNT]" "listing ALM_COUNT ((hist @ chs) @ chs') c'"
    "told c' = told c1 @ told_changes c1 [Suc k..<ALM_COUNT]" "old_alarm c' = old_alarm c1" "new_alarm c' = new_alarm c1"
    by blast
  have "keys (chs @ chs') = changes c [k..<ALM_COUNT]"
    using a(1,4,5) b(1) by (simp add: u keys_def changes_def changed_def)
  moreover have "told c' = told c @ told_changes c [k..<ALM_COUNT]"
    using a(3-5) b(3) by (simp add: u told_changes_def changed_def)
  ultimately show ?case using a b by (intro exI[of _ "chs @ chs'"]) simp
qed

section \<open>The statements fit into their buffer\<close>

lemma dec_nat_short: "n < 100 \<Longrightarrow> length (dec_nat n) \<le> 2" "n < 1000 \<Longrightarrow> length (dec_nat n) \<le> 3"
proof -
  have one: "m < 10 \<Longrightarrow> length (dec_nat m) = 1" for m by (simp add: dec_nat.simps)
  have two: "m < 100 \<Longrightarrow> length (dec_nat m) \<le> 2" for m by (subst dec_nat.simps) (simp add: one)
  show "n < 100 \<Longrightarrow> length (dec_nat n) \<le> 2" by (rule two)
  show "n < 1000 \<Longrightarrow> length (dec_nat n) \<le> 3" by (subst dec_nat.simps) (simp add: two)
qed

lemma pr_d_short: "0 \<le> i \<Longrightarrow> i < 100 \<Longrightarrow> length (pr_d i) \<le> 2" "0 \<le> i \<Longrightarrow> i < 1000 \<Longrightarrow> length (pr_d i) \<le> 3"
  by (simp_all add: pr_d_def dec_nat_short)

lemma find_member_set: "FIND_OTHMEMBER_BY_MEMBER k v es src des \<in> insert v (des ` set es)"
  by (induction es) auto

lemma msg_short: "length (alm_msg_of i) \<le> 26"
proof -
  have m: "\<forall>s \<in> set gAlmMsgTbl. length s \<le> 26" by (simp add: gAlmMsgTbl_def)
  have "alm_msg_of i \<in> insert [] (snd ` set (zip (map fst gAlmIdTbl) gAlmMsgTbl))"
    unfolding alm_msg_of_def by (rule find_member_set)
  moreover have "snd ` set (zip (map fst gAlmIdTbl) gAlmMsgTbl) \<subseteq> set gAlmMsgTbl"
    by (auto dest: set_zip_rightD)
  ultimately show ?thesis using m by auto
qed

lemma desc_short: "row \<in> set pAlmInxTbl \<Longrightarrow> length (alarm_desc row sta) \<le> 50"
proof -
  assume r: "row \<in> set pAlmInxTbl"
  obtain i slot port where row: "row = (i, slot, port)" by (cases row)
  have "length (pr_d slot) \<le> 2" "length (pr_d port) \<le> 2"
    using row_range[of i slot port] r row by (simp_all add: pr_d_short)
  then show ?thesis using msg_short[of i] by (simp add: row alarm_desc_def gAlarmStatusTbl_def Let_def)
qed

lemma log_fits: "length (time_text t) = 19 \<Longrightarrow> row \<in> set pAlmInxTbl \<Longrightarrow> length (log_sql TBL_LOG t (alarm_desc row sta)) < SQL_BUF"
  using desc_short[of row sta] by (simp add: log_sql_def TBL_LOG_def quoted_def SQL_BUF_def)

lemma history_fits:
  "length a \<le> 19 \<Longrightarrow> length b \<le> 19 \<Longrightarrow> i < ALM_COUNT \<Longrightarrow> length (alarm_sql TBL_ALARM_HISTORY (int i) a b) < SQL_BUF"
  using pr_d_short(2)[of "int i"]
  by (simp add: alarm_sql_def TBL_ALARM_HISTORY_def quoted_def SQL_BUF_def ALM_COUNT_def ALM_CURSOR_ARRAY_SIZE_def)

section \<open>A working data base and clock\<close>

definition db_works :: "db_env \<Rightarrow> bool" where
  "db_works db \<longleftrightarrow> (\<forall>h sql. de_exec db h sql) \<and> (\<forall>h sql. \<exists>t v. de_query db h sql = Some t \<and> cell t 1 = Some v)"

definition clock_works :: "almEnv \<Rightarrow> bool" where
  "clock_works env \<longleftrightarrow> (\<forall>n. \<exists>t. ae_time env n = Some t \<and> length (time_text t) = 19)"

lemma works_query:
  assumes "db_works db" shows "\<exists>n. query_int db sql h = (Value n, h @ [Query sql])"
proof -
  obtain t v where "de_query db h sql = Some t" "cell t 1 = Some v"
    using assms unfolding db_works_def by blast
  then show ?thesis by (simp add: query_int_def db_get_table_def)
qed

lemma works_put: "db_works db \<Longrightarrow> put_if b db sql h = (True, if b then h @ [Exec sql] else h)"
  by (simp add: db_works_def put_if_def db_put_table_def)

lemma put_end_works: "db_works db \<Longrightarrow> length sql < SQL_BUF \<Longrightarrow> \<exists>h'. put_end db sql h = Some (True, h')"
  by (simp add: db_works_def put_end_def db_put_table_def)

lemma db_log_works:
  assumes "db_works db" "length (log_sql tbl t d) < SQL_BUF"
  shows "\<exists>h'. db_log_write db (Some t) tbl d h = Some (True, h')"
proof -
  obtain n where n: "query_int db (count_sql tbl) (db_lock db h) = (Value n, db_lock db h @ [Query (count_sql tbl)])"
    using works_query[OF assms(1)] by blast
  show ?thesis using put_end_works[OF assms] by (simp add: db_log_write_def n works_put[OF assms(1)])
qed

lemma db_alarm_works:
  assumes "db_works db" "length (alarm_sql tbl i a b) < SQL_BUF"
  shows "\<exists>h'. db_alarm_write db tbl i a b h = Some (True, h')"
proof -
  obtain n where n: "query_int db (count_sql tbl) (db_lock db h) = (Value n, db_lock db h @ [Query (count_sql tbl)])"
    using works_query[OF assms(1)] by blast
  show ?thesis using put_end_works[OF assms] by (simp add: db_alarm_write_def n works_put[OF assms(1)])
qed

text \<open>The texts of the times that the history gets.\<close>

definition texts_ok :: "almCtx \<Rightarrow> bool" where
  "texts_ok c \<longleftrightarrow> length (ts_start c) = ALM_COUNT \<and> length (ts_end c) = ALM_COUNT
     \<and> (\<forall>t \<in> set (ts_start c). length t \<le> 19) \<and> (\<forall>t \<in> set (ts_end c). length t \<le> 19)"

definition same_texts :: "almCtx \<Rightarrow> almCtx \<Rightarrow> bool" where
  "same_texts c c' \<longleftrightarrow> ts_start c' = ts_start c \<and> ts_end c' = ts_end c"

lemma log_change_works:
  assumes "db_works (ae_db env)" "clock_works env" "i < ALM_COUNT"
  shows "\<exists>c'. log_change env i sta c = Some (True, c') \<and> same_texts c c'"
proof -
  let ?c = "set_event env (SNMP_EVNT_ID (if sta = ALM_ON then E_ALM_GENERATE else E_ALM_DISAPPEAR)) SID_SYS_SLOT SID_SYS_PORT BID_NONE c"
  obtain t where t: "ae_time env (times_read ?c) = Some t" "length (time_text t) = 19"
    using assms(2) unfolding clock_works_def by blast
  have "pAlmInxTbl ! i \<in> set pAlmInxTbl"
    using assms(3) by (simp add: alarm_table_length ALM_COUNT_def ALM_CURSOR_ARRAY_SIZE_def)
  then obtain h where "db_log_write (ae_db env) (Some t) TBL_LOG (alarm_desc (pAlmInxTbl ! i) sta) (adb ?c) = Some (True, h)"
    using db_log_works[OF assms(1) log_fits] t(2) by blast
  then show ?thesis
    by (simp add: log_change_def alm_time_def t) (simp add: set_event_def alm_time_def same_texts_def)
qed

lemma set_cur_form: "\<exists>xs r. set_cur_alarm_info i ti c = c\<lparr>cur_alarm := xs, cur_record := r\<rparr>"
proof (cases "first_at (\<lambda>a. ALM_OFF = ai_sta a) (cur_alarm c)")
  case None
  then show ?thesis by (intro exI[of _ "cur_alarm c"] exI[of _ "cur_record c"]) (simp add: set_cur_alarm_info_def)
qed (auto simp: set_cur_alarm_info_def Let_def)

lemma del_cur_form: "\<exists>xs. del_cur_alarm_info i c = c\<lparr>cur_alarm := xs\<rparr>"
proof (cases "first_at (\<lambda>a. ALM_ON = ai_sta a \<and> i = ai_inx a) (cur_alarm c)")
  case None
  then show ?thesis by (intro exI[of _ "cur_alarm c"]) (simp add: del_cur_alarm_info_def)
qed (auto simp: del_cur_alarm_info_def)

lemma short_update: "\<forall>t \<in> set ts. length t \<le> n \<Longrightarrow> length x \<le> n \<Longrightarrow> \<forall>t \<in> set (ts[i := x]). length t \<le> n"
  by (auto dest: subsetD[OF set_update_subset_insert])

lemma change_on_works:
  assumes "db_works (ae_db env)" "clock_works env" "i < ALM_COUNT" "texts_ok c"
    "ring_ok hist (upload_alarm c) (upload_record c)" "length hist < 4294967294"
  shows "\<exists>c'. change_on env i c = Some (True, c') \<and> texts_ok c'"
proof -
  obtain t where t: "ae_time env (times_read c) = Some t" "length (time_text t) = 19"
    using assms(2) unfolding clock_works_def by blast
  let ?c = "c\<lparr>times_read := Suc (times_read c), ts_start := (ts_start c)[i := time_text t]\<rparr>"
  have i: "0 \<le> int i" "int i < 65536" using assms(3) by (simp_all add: ALM_COUNT_def ALM_CURSOR_ARRAY_SIZE_def)
  obtain xs r where s: "set_cur_alarm_info (int i) t ?c = ?c\<lparr>cur_alarm := xs, cur_record := r\<rparr>"
    using set_cur_form by blast
  obtain up q where u: "set_upload_alarm_info (int i) ALM_ON t (?c\<lparr>cur_alarm := xs, cur_record := r\<rparr>)
      = (False, ?c\<lparr>cur_alarm := xs, cur_record := r, upload_alarm := up, upload_record := q\<rparr>)"
    using upload_ring[of hist "?c\<lparr>cur_alarm := xs, cur_record := r\<rparr>" "int i" ALM_ON t] assms(5,6) i by auto
  let ?d = "send_log (told_text i ALM_ON) (?c\<lparr>cur_alarm := xs, cur_record := r, upload_alarm := up, upload_record := q\<rparr>)"
  obtain c' where c': "log_change env i ALM_ON ?d = Some (True, c')" "same_texts ?d c'"
    using log_change_works[OF assms(1-3)] by blast
  have "change_on env i c = Some (True, c')"
    using c'(1) by (simp add: change_on_def alm_time_def t s(1) enter_upload_def u(1))
  moreover have "texts_ok c'"
    using c'(2) assms(4) t(2) short_update[of "ts_start c" 19 "time_text t" i]
    by (simp add: texts_ok_def same_texts_def send_log_def)
  ultimately show ?thesis by blast
qed

lemma change_off_works:
  assumes "db_works (ae_db env)" "clock_works env" "i < ALM_COUNT" "texts_ok c"
    "ring_ok hist (upload_alarm c) (upload_record c)" "length hist < 4294967294"
  shows "\<exists>c'. change_off env i c = Some (True, c') \<and> texts_ok c'"
proof -
  obtain t where t: "ae_time env (times_read c) = Some t" "length (time_text t) = 19"
    using assms(2) unfolding clock_works_def by blast
  let ?c = "c\<lparr>times_read := Suc (times_read c), ts_end := (ts_end c)[i := time_text t]\<rparr>"
  have i: "0 \<le> int i" "int i < 65536" using assms(3) by (simp_all add: ALM_COUNT_def ALM_CURSOR_ARRAY_SIZE_def)
  obtain xs where s: "del_cur_alarm_info (int i) ?c = ?c\<lparr>cur_alarm := xs\<rparr>"
    using del_cur_form by blast
  obtain up q where u: "set_upload_alarm_info (int i) ALM_OFF t (?c\<lparr>cur_alarm := xs\<rparr>)
      = (False, ?c\<lparr>cur_alarm := xs, upload_alarm := up, upload_record := q\<rparr>)"
    using upload_ring[of hist "?c\<lparr>cur_alarm := xs\<rparr>" "int i" ALM_OFF t] assms(5,6) i by auto
  have x: "length (ts_start c ! i) \<le> 19" "(ts_end c)[i := time_text t] ! i = time_text t"
    using assms(3,4) by (simp_all add: texts_ok_def)
  let ?e = "?c\<lparr>cur_alarm := xs, upload_alarm := up, upload_record := q\<rparr>"
  obtain h where h: "db_alarm_write (ae_db env) TBL_ALARM_HISTORY (int i) (ts_start c ! i) (time_text t) (adb c) = Some (True, h)"
    using db_alarm_works[OF assms(1) history_fits[OF x(1) _ assms(3)]] t(2) by fastforce
  let ?d = "send_log (told_text i ALM_OFF) (?e\<lparr>adb := h\<rparr>)"
  obtain c' where c': "log_change env i ALM_OFF ?d = Some (True, c')" "same_texts ?d c'"
    using log_change_works[OF assms(1-3)] by blast
  have "change_off env i c = Some (True, c')"
    using c'(1) by (simp add: change_off_def alm_time_def t s(1) enter_upload_def u(1) x(2) h)
  moreover have "texts_ok c'"
    using c'(2) assms(4) t(2) short_update[of "ts_end c" 19 "time_text t" i]
    by (simp add: texts_ok_def same_texts_def send_log_def)
  ultimately show ?thesis by blast
qed

lemma compare_one_works:
  assumes "db_works (ae_db env)" "clock_works env" "i < ALM_COUNT" "texts_ok c"
    "ring_ok hist (upload_alarm c) (upload_record c)" "length hist < 4294967294"
  shows "\<exists>c'. compare_one env i c = Some (True, c') \<and> texts_ok c'"
  using change_on_works[OF assms] change_off_works[OF assms] assms(4) by (auto simp: compare_one_def)

lemma compare_loop_works:
  assumes "db_works (ae_db env)" "clock_works env" "k \<le> ALM_COUNT" "texts_ok c"
    "binary (old_alarm c)" "binary (new_alarm c)"
    "card (alarms_on (old_alarm c) \<union> alarms_on (new_alarm c)) \<le> CUR_ALM_MAX_ARRAY_SIZE"
    "listing k hist c" "length hist + ALM_COUNT < 4294967294 + k"
  shows "\<exists>c'. compare_loop env [k..<ALM_COUNT] c = Some (True, c') \<and> texts_ok c'"
  using assms(3-9)
proof (induction "ALM_COUNT - k" arbitrary: k c hist)
  case (Suc d)
  then have k: "k < ALM_COUNT" by simp
  have l: "length hist < 4294967294" "ring_ok hist (upload_alarm c) (upload_record c)"
    using Suc.prems(6,7) k by (simp_all add: listing_def)
  obtain c1 where c1: "compare_one env k c = Some (True, c1)" "texts_ok c1"
    using compare_one_works[OF assms(1,2) k Suc.prems(2) l(2,1)] by blast
  obtain chs where a: "keys chs = changes c [k]" "listing (Suc k) (hist @ chs) c1"
    "old_alarm c1 = old_alarm c" "new_alarm c1 = new_alarm c"
    using compare_one_done[OF c1(1) k Suc.prems(3,4,5,6) l(1)] by blast
  have "length chs \<le> 1" using arg_cong[OF a(1), of length] by (simp add: keys_def changes_def changed_def)
  then have "\<exists>c'. compare_loop env [Suc k..<ALM_COUNT] c1 = Some (True, c') \<and> texts_ok c'"
    by (intro Suc.hyps(1)[of "Suc k" c1 "hist @ chs"]) (use Suc.hyps(2) Suc.prems k c1(2) a in auto)
  then show ?case using c1 by (simp add: upt_conv_Cons[OF k])
qed simp

section \<open>The rows and the events\<close>

text \<open>The rows that were inserted, in their order.\<close>

definition inserts_of :: "db_op \<Rightarrow> string list" where
  "inserts_of op = (case op of Exec sql \<Rightarrow> if take 12 sql = ''insert into '' then [sql] else [] | Query sql \<Rightarrow> [])"

definition inserted :: "db_op list \<Rightarrow> string list" where
  "inserted h = concat (map inserts_of h)"

lemma inserted_append [simp]: "inserted [] = []" "inserted (xs @ ys) = inserted xs @ inserted ys"
  by (simp_all add: inserted_def)

lemma inserted_retry:
  assumes "inserts_of (Exec sql) = []"
  shows "inserted (db_retry env sql n h) = inserted h"
proof -
  obtain k where "db_retry env sql n h = h @ replicate (Suc k) (Exec sql)" using db_retry_shape by blast
  moreover have "inserted (replicate j (Exec sql)) = []" for j using assms by (induction j) (simp_all add: inserted_def)
  ultimately show ?thesis by (simp del: replicate.simps)
qed

lemma inserted_lock [simp]: "inserted (db_lock env h) = inserted h" "inserted (db_unlock env h) = inserted h"
  by (simp_all add: db_lock_def db_unlock_def inserted_retry inserts_of_def BEGIN_SQL_def COMMIT_SQL_def)

lemma query_int_inserted: "query_int env sql h = (r, h') \<Longrightarrow> inserted h' = inserted h"
  by (auto simp: query_int_def db_get_table_def inserted_def inserts_of_def split: option.splits)

lemma halve_inserted: "put_if b env (halve_sql tbl) h = (ok, h') \<Longrightarrow> inserted h' = inserted h"
  by (auto simp: put_if_def db_put_table_def inserted_def inserts_of_def halve_sql_def split: if_splits)

lemma put_end_inserted: "put_end env sql h = Some (True, h') \<Longrightarrow> inserted h' = inserted h @ inserts_of (Exec sql)"
  by (auto simp: put_end_def db_put_table_def inserted_def split: if_splits)
    (simp_all add: inserted_def[symmetric], simp_all add: inserted_def)

lemma log_row: "inserts_of (Exec (log_sql tbl t d)) = [log_sql tbl t d]"
  "inserts_of (Exec (alarm_sql tbl i a b)) = [alarm_sql tbl i a b]"
  by (simp_all add: inserts_of_def log_sql_def alarm_sql_def)

lemma db_log_row:
  assumes "db_log_write env time tbl d h = Some (True, h')"
  shows "\<exists>t. time = Some t \<and> inserted h' = inserted h @ [log_sql tbl t d]"
proof -
  obtain n h1 where n: "query_int env (count_sql tbl) (db_lock env h) = (Value n, h1)"
    using assms by (auto simp: db_log_write_def split: prod.splits answer.splits)
  obtain h2 where h2: "put_if (MAX_LOG \<le> n) env (halve_sql tbl) h1 = (True, h2)"
    using assms n by (auto simp: db_log_write_def split: prod.splits bool.splits)
  obtain t where t: "time = Some t" "put_end env (log_sql tbl t d) h2 = Some (True, h')"
    using assms n h2 by (auto simp: db_log_write_def split: option.splits)
  then show ?thesis
    using put_end_inserted[OF t(2)] query_int_inserted[OF n] halve_inserted[OF h2] by (simp add: log_row)
qed

lemma db_alarm_row:
  assumes "db_alarm_write env tbl i a b h = Some (True, h')"
  shows "inserted h' = inserted h @ [alarm_sql tbl i a b]"
proof -
  obtain n h1 where n: "query_int env (count_sql tbl) (db_lock env h) = (Value n, h1)"
    using assms by (auto simp: db_alarm_write_def split: prod.splits answer.splits)
  obtain h2 where h2: "put_if (MAX_ALM \<le> n) env (halve_sql tbl) h1 = (True, h2)"
    using assms n by (auto simp: db_alarm_write_def split: prod.splits bool.splits)
  have p: "put_end env (alarm_sql tbl i a b) h2 = Some (True, h')" using assms n h2 by (simp add: db_alarm_write_def)
  then show ?thesis
    using put_end_inserted[OF p] query_int_inserted[OF n] halve_inserted[OF h2] by (simp add: log_row)
qed

text \<open>
  What a change leaves behind when its first reading of the clock is the one of number \<open>n\<close>; the next two are for its
  event and its log. \<open>start\<close> is the text of the time at which the alarm came up.
\<close>

definition clock_at :: "almEnv \<Rightarrow> nat \<Rightarrow> timeinfo" where
  "clock_at env n = the (ae_time env n)"

definition change_rows :: "almEnv \<Rightarrow> nat \<Rightarrow> string \<Rightarrow> nat \<Rightarrow> int \<Rightarrow> string list" where
  "change_rows env n start i sta =
     (if sta = ALM_OFF then [alarm_sql TBL_ALARM_HISTORY (int i) start (time_text (clock_at env n))] else [])
     @ [log_sql TBL_LOG (clock_at env (n + 2)) (alarm_desc (pAlmInxTbl ! i) sta)]"

definition change_event :: "almEnv \<Rightarrow> nat \<Rightarrow> int \<Rightarrow> evnt_inx list \<Rightarrow> evnt_inx list" where
  "change_event env n sta es = SET_EVNTFLAGVALID_BID_BY_SLOT_PORT_ID
     (SNMP_EVNT_ID (if sta = ALM_ON then E_ALM_GENERATE else E_ALM_DISAPPEAR)) SID_SYS_SLOT SID_SYS_PORT BID_NONE
     (Some (clock_at env (n + 1))) es"

definition left_behind :: "almEnv \<Rightarrow> nat \<Rightarrow> int \<Rightarrow> almCtx \<Rightarrow> almCtx \<Rightarrow> bool" where
  "left_behind env i sta c c' \<longleftrightarrow>
     inserted (adb c') = inserted (adb c) @ change_rows env (times_read c) (ts_start c ! i) i sta
     \<and> aevnts c' = change_event env (times_read c) sta (aevnts c) \<and> times_read c' = times_read c + 3
     \<and> (\<forall>j. j \<noteq> i \<longrightarrow> ts_start c' ! j = ts_start c ! j)"

lemma log_change_left:
  assumes "clock_works env" "log_change env i sta c = Some (True, c')"
  shows "inserted (adb c') = inserted (adb c) @ [log_sql TBL_LOG (clock_at env (times_read c + 1)) (alarm_desc (pAlmInxTbl ! i) sta)]
    \<and> aevnts c' = SET_EVNTFLAGVALID_BID_BY_SLOT_PORT_ID
        (SNMP_EVNT_ID (if sta = ALM_ON then E_ALM_GENERATE else E_ALM_DISAPPEAR)) SID_SYS_SLOT SID_SYS_PORT BID_NONE
        (Some (clock_at env (times_read c))) (aevnts c)
    \<and> times_read c' = times_read c + 2 \<and> ts_start c' = ts_start c"
proof -
  obtain t where t: "ae_time env (times_read c) = Some t" using assms(1) unfolding clock_works_def by blast
  obtain h where h: "db_log_write (ae_db env) (ae_time env (Suc (times_read c))) TBL_LOG (alarm_desc (pAlmInxTbl ! i) sta) (adb c)
      = Some (True, h)" and c': "adb c' = h" "times_read c' = Suc (Suc (times_read c))" "ts_start c' = ts_start c"
      "aevnts c' = SET_EVNTFLAGVALID_BID_BY_SLOT_PORT_ID (SNMP_EVNT_ID (if sta = ALM_ON then E_ALM_GENERATE else E_ALM_DISAPPEAR))
        SID_SYS_SLOT SID_SYS_PORT BID_NONE (ae_time env (times_read c)) (aevnts c)"
    using assms(2) by (auto simp: log_change_def set_event_def alm_time_def)
  then show ?thesis using db_log_row[OF h] t by (auto simp: clock_at_def)
qed

lemma change_left:
  assumes "clock_works env" "length (ts_end c) = ALM_COUNT" "i < ALM_COUNT" "ring_ok hist (upload_alarm c) (upload_record c)"
    "length hist < 4294967294"
  shows "change_on env i c = Some (True, c') \<Longrightarrow> left_behind env i ALM_ON c c'"
    and "change_off env i c = Some (True, c') \<Longrightarrow> left_behind env i ALM_OFF c c'"
proof -
  obtain t where t: "ae_time env (times_read c) = Some t" using assms(1) unfolding clock_works_def by blast
  have i: "0 \<le> int i" "int i < 65536" using assms(3) by (simp_all add: ALM_COUNT_def ALM_CURSOR_ARRAY_SIZE_def)
  show "left_behind env i ALM_ON c c'" if on: "change_on env i c = Some (True, c')"
  proof -
    let ?c = "c\<lparr>times_read := Suc (times_read c), ts_start := (ts_start c)[i := time_text t]\<rparr>"
    obtain xs r where s: "set_cur_alarm_info (int i) t ?c = ?c\<lparr>cur_alarm := xs, cur_record := r\<rparr>"
      using set_cur_form by blast
    obtain up q where u: "set_upload_alarm_info (int i) ALM_ON t (?c\<lparr>cur_alarm := xs, cur_record := r\<rparr>)
        = (False, ?c\<lparr>cur_alarm := xs, cur_record := r, upload_alarm := up, upload_record := q\<rparr>)"
      using upload_ring[of hist "?c\<lparr>cur_alarm := xs, cur_record := r\<rparr>" "int i" ALM_ON t] assms(4,5) i by auto
    let ?d = "send_log (told_text i ALM_ON) (?c\<lparr>cur_alarm := xs, cur_record := r, upload_alarm := up, upload_record := q\<rparr>)"
    have "log_change env i ALM_ON ?d = Some (True, c')"
      using on by (simp add: change_on_def alm_time_def t s(1) enter_upload_def u(1))
    then show ?thesis using log_change_left[OF assms(1), of i ALM_ON ?d c']
      by (simp add: left_behind_def change_rows_def change_event_def send_log_def)
  qed
  show "left_behind env i ALM_OFF c c'" if off: "change_off env i c = Some (True, c')"
  proof -
    let ?c = "c\<lparr>times_read := Suc (times_read c), ts_end := (ts_end c)[i := time_text t]\<rparr>"
    obtain xs where s: "del_cur_alarm_info (int i) ?c = ?c\<lparr>cur_alarm := xs\<rparr>" using del_cur_form by blast
    obtain up q where u: "set_upload_alarm_info (int i) ALM_OFF t (?c\<lparr>cur_alarm := xs\<rparr>)
        = (False, ?c\<lparr>cur_alarm := xs, upload_alarm := up, upload_record := q\<rparr>)"
      using upload_ring[of hist "?c\<lparr>cur_alarm := xs\<rparr>" "int i" ALM_OFF t] assms(4,5) i by auto
    have x: "(ts_end c)[i := time_text t] ! i = time_text t" using assms(2,3) by simp
    let ?e = "?c\<lparr>cur_alarm := xs, upload_alarm := up, upload_record := q\<rparr>"
    obtain h where h: "db_alarm_write (ae_db env) TBL_ALARM_HISTORY (int i) (ts_start c ! i) (time_text t) (adb c) = Some (True, h)"
      and l: "log_change env i ALM_OFF (send_log (told_text i ALM_OFF) (?e\<lparr>adb := h\<rparr>)) = Some (True, c')"
      using off by (auto simp: change_off_def alm_time_def t s(1) enter_upload_def u(1) x elim!: and_then_TrueE)
    then show ?thesis using log_change_left[OF assms(1) l] db_alarm_row[OF h] t
      by (simp add: left_behind_def change_rows_def change_event_def send_log_def clock_at_def)
  qed
qed

text \<open>What the changes leave behind, one after the other.\<close>

fun rows_of :: "almEnv \<Rightarrow> nat \<Rightarrow> string list \<Rightarrow> (nat \<times> int) list \<Rightarrow> string list" where
  "rows_of env n start [] = []"
| "rows_of env n start ((i, sta) # cs) = change_rows env n (start ! i) i sta @ rows_of env (n + 3) start cs"

fun events_of :: "almEnv \<Rightarrow> nat \<Rightarrow> (nat \<times> int) list \<Rightarrow> evnt_inx list \<Rightarrow> evnt_inx list" where
  "events_of env n [] es = es"
| "events_of env n ((i, sta) # cs) es = events_of env (n + 3) cs (change_event env n sta es)"

definition changes_at :: "almCtx \<Rightarrow> nat list \<Rightarrow> (nat \<times> int) list" where
  "changes_at c is = map (\<lambda>i. (i, new_alarm c ! i)) (changed c is)"

lemma rows_of_cong: "\<forall>(i, sta) \<in> set cs. s ! i = s' ! i \<Longrightarrow> rows_of env n s cs = rows_of env n s' cs"
  by (induction cs arbitrary: n) auto

lemma compare_one_left:
  assumes "clock_works env" "texts_ok c" "i < ALM_COUNT" "binary (old_alarm c)" "binary (new_alarm c)"
    "ring_ok hist (upload_alarm c) (upload_record c)" "length hist < 4294967294" "compare_one env i c = Some (True, c')"
  shows "if old_alarm c ! i = new_alarm c ! i then c' = c else left_behind env i (new_alarm c ! i) c c'"
proof -
  have len: "length (ts_end c) = ALM_COUNT" using assms(2) by (simp add: texts_ok_def)
  have b: "old_alarm c ! i = ALM_OFF \<or> old_alarm c ! i = ALM_ON" "new_alarm c ! i = ALM_OFF \<or> new_alarm c ! i = ALM_ON"
    using binary_nth assms(3-5) by auto
  note l = change_left[OF assms(1) len assms(3,6,7)]
  show ?thesis
  proof (cases "old_alarm c ! i = new_alarm c ! i")
    case True
    then show ?thesis using assms(8) b by (auto simp: compare_one_def)
  next
    case False
    then show ?thesis using assms(8) b l by (auto simp: compare_one_def split: if_splits)
  qed
qed

lemma compare_loop_left:
  assumes "db_works (ae_db env)" "clock_works env" "k \<le> ALM_COUNT" "texts_ok c"
    "binary (old_alarm c)" "binary (new_alarm c)"
    "card (alarms_on (old_alarm c) \<union> alarms_on (new_alarm c)) \<le> CUR_ALM_MAX_ARRAY_SIZE"
    "listing k hist c" "length hist + ALM_COUNT < 4294967294 + k"
    "compare_loop env [k..<ALM_COUNT] c = Some (True, c')"
  shows "inserted (adb c') = inserted (adb c) @ rows_of env (times_read c) (ts_start c) (changes_at c [k..<ALM_COUNT])
    \<and> aevnts c' = events_of env (times_read c) (changes_at c [k..<ALM_COUNT]) (aevnts c)"
  using assms(3-10)
proof (induction "ALM_COUNT - k" arbitrary: k c hist)
  case 0
  then show ?case by (simp add: changes_at_def changed_def)
next
  case (Suc d)
  then have k: "k < ALM_COUNT" by simp
  have l: "length hist < 4294967294" "ring_ok hist (upload_alarm c) (upload_record c)"
    using Suc.prems(6,7) k by (simp_all add: listing_def)
  obtain c1 where c1: "compare_one env k c = Some (True, c1)" "texts_ok c1"
    using compare_one_works[OF assms(1,2) k Suc.prems(2) l(2,1)] by blast
  obtain chs where a: "keys chs = changes c [k]" "listing (Suc k) (hist @ chs) c1"
    "old_alarm c1 = old_alarm c" "new_alarm c1 = new_alarm c"
    using compare_one_done[OF c1(1) k Suc.prems(3,4,5,6) l(1)] by blast
  have "length chs \<le> 1" using arg_cong[OF a(1), of length] by (simp add: keys_def changes_def changed_def)
  moreover have "compare_loop env [Suc k..<ALM_COUNT] c1 = Some (True, c')"
    using Suc.prems(8) c1(1) by (simp add: upt_conv_Cons[OF k])
  ultimately have r: "inserted (adb c') = inserted (adb c1) @ rows_of env (times_read c1) (ts_start c1) (changes_at c1 [Suc k..<ALM_COUNT])
    \<and> aevnts c' = events_of env (times_read c1) (changes_at c1 [Suc k..<ALM_COUNT]) (aevnts c1)"
    by (intro Suc.hyps(1)[of "Suc k" c1 "hist @ chs"]) (use Suc.hyps(2) Suc.prems k c1(2) a in auto)
  have later: "changes_at c1 [Suc k..<ALM_COUNT] = changes_at c [Suc k..<ALM_COUNT]"
    using a by (simp add: changes_at_def changed_def)
  show ?case
  proof (cases "old_alarm c ! k = new_alarm c ! k")
    case True
    then have "c1 = c" using compare_one_left[OF assms(2) Suc.prems(2) k Suc.prems(3,4) l(2,1) c1(1)] by simp
    then show ?thesis using r True by (simp add: changes_at_def changed_def upt_conv_Cons[OF k])
  next
    case False
    then have lb: "left_behind env k (new_alarm c ! k) c c1"
      using compare_one_left[OF assms(2) Suc.prems(2) k Suc.prems(3,4) l(2,1) c1(1)] by simp
    then have "rows_of env n (ts_start c1) (changes_at c [Suc k..<ALM_COUNT])
        = rows_of env n (ts_start c) (changes_at c [Suc k..<ALM_COUNT])" for n
      by (intro rows_of_cong) (auto simp: left_behind_def changes_at_def changed_def)
    moreover have "changes_at c [k..<ALM_COUNT] = (k, new_alarm c ! k) # changes_at c [Suc k..<ALM_COUNT]"
      using False by (simp add: changes_at_def changed_def upt_conv_Cons[OF k])
    ultimately show ?thesis using r lb later by (simp add: left_behind_def)
  qed
qed

section \<open>The lists follow the alarms\<close>


subsection \<open>A run\<close>

definition a_day :: timeinfo where
  "a_day = \<lparr>ti_year = 2019, ti_days = 88, ti_month = 3, ti_day = 29, ti_hour = 10, ti_minute = 11,
     ti_second = 12, ti_MiliSecond = 0, ti_MicroSecond = 0\<rparr>"

lemma a_day_text: "time_text a_day = ''2019-03-29 10:11:12''"
  by code_simp

definition db_of :: "string option \<Rightarrow> db_env" where
  "db_of v = \<lparr>de_exec = (\<lambda>h sql. True), de_query = (\<lambda>h sql. map_option (\<lambda>v. ([Some ''n'', Some v], 1, 1)) v)\<rparr>"

definition alm_env :: "string option \<Rightarrow> almEnv" where
  "alm_env v = \<lparr>ae_fpga = \<lambda>cmd temp reqs. (1, temp), ae_db = db_of v, ae_time = (\<lambda>n. Some a_day), ae_sema = (\<lambda>n. True),
     ae_input = (\<lambda>n. []), ae_schema = (\<lambda>n. \<lparr>sc_type = 0, sc_slot = 0, sc_port = 0, sc_bid = 0, sc_valid = 1\<rparr>),
     ae_ntp = (\<lambda>n. [])\<rparr>"

definition alm_start :: almCtx where
  "alm_start = initializeContext \<lparr>loop_flag = True, notify_flag = False, alm_tag = 0, first_flag = 0, bids = [],
     refsrc = \<lparr>sc_type = 0, sc_slot = 0, sc_port = 0, sc_bid = 0, sc_valid = 0\<rparr>, Threshold = 0, port_status = [],
     select = [], mask_sta = [], old_alarm = [], new_alarm = [], ts_start = [], ts_end = [], cur_alarm = [],
     upload_alarm = [], cur_record = 0, upload_record = 0,
     shm = \<lparr>sh_alarm = [], sh_cur = [], sh_upload = [], sh_port = [], sh_mask = [], sh_select = [], sh_threshold = 0, sh_clock = (0, 0)\<rparr>,
     aevnts = [], adb = [], areqs = [], told = [], times_read = 0, sema_calls = 0\<rparr>"

definition one_alarm :: almCtx where
  "one_alarm = alm_start\<lparr>new_alarm := (replicate ALM_COUNT ALM_OFF)[3 := ALM_ON]\<rparr>"

lemma alm_env_works: "db_works (ae_db (alm_env (Some v)))" "clock_works (alm_env w)"
  by (simp_all add: alm_env_def db_of_def db_works_def cell_def arr_def clock_works_def a_day_text)

lemma on_none: "on_set (replicate n alminfo_0) = {}"
  by (auto simp: on_set_def on_at_def alminfo_0_def ALM_OFF_def)

lemma three_count: "3 < ALM_COUNT"
  by (simp add: ALM_COUNT_def ALM_CURSOR_ARRAY_SIZE_def)

lemma alarms_on_one: "alarms_on ((replicate ALM_COUNT ALM_OFF)[3 := ALM_ON]) = {3}"
  using three_count by (auto simp: alarms_on_def nth_list_update split: if_splits)

lemma alarms_on_none: "alarms_on (replicate n 0) = {}"
  by (auto simp: alarms_on_def ALM_ON_def)

lemma list_ok_start: "list_ok (replicate CUR_ALM_MAX_ARRAY_SIZE alminfo_0)"
  by (auto simp: list_ok_def alminfo_0_def ALM_OFF_def on_at_def inj_on_def)

lemma ring_ok_start: "ring_ok [] (replicate UPLOAD_ALM_MAX_ARRAY_SIZE alminfo_0) 0"
  by (simp add: ring_ok_def)

lemma one_alarm_fields:
  "old_alarm one_alarm = replicate ALM_COUNT 0" "new_alarm one_alarm = (replicate ALM_COUNT ALM_OFF)[3 := ALM_ON]"
  "cur_alarm one_alarm = replicate CUR_ALM_MAX_ARRAY_SIZE alminfo_0"
  "upload_alarm one_alarm = replicate UPLOAD_ALM_MAX_ARRAY_SIZE alminfo_0" "upload_record one_alarm = 0"
  "texts_ok one_alarm"
  by (simp_all add: one_alarm_def alm_start_def initializeContext_def texts_ok_def)

lemma binary_start: "binary (replicate ALM_COUNT 0)" "binary ((replicate ALM_COUNT ALM_OFF)[3 := ALM_ON])"
  by (auto simp: binary_def ALM_OFF_def dest: subsetD[OF set_update_subset_insert])


section \<open>A data base that refuses\<close>

definition entries :: "int \<Rightarrow> alminfo list \<Rightarrow> nat" where
  "entries i xs = length (filter (\<lambda>a. ALM_ON = ai_sta a \<and> i = ai_inx a) xs)"

lemma entries_update:
  assumes "k < length xs"
  shows "entries i (xs[k := a]) + (if ALM_ON = ai_sta (xs ! k) \<and> i = ai_inx (xs ! k) then 1 else 0)
    = entries i xs + (if ALM_ON = ai_sta a \<and> i = ai_inx a then 1 else 0)"
proof -
  have s: "xs = take k xs @ xs ! k # drop (Suc k) xs" using assms by (rule id_take_nth_drop)
  show ?thesis unfolding upd_conv_take_nth_drop[OF assms] entries_def
    by (subst (5) s) simp
qed

lemma first_at_entry: "entries i xs \<noteq> 0 \<Longrightarrow> \<exists>k. first_at (\<lambda>a. ALM_ON = ai_sta a \<and> i = ai_inx a) xs = Some k"
  using first_at_None[of "\<lambda>a. ALM_ON = ai_sta a \<and> i = ai_inx a" xs] by (fastforce simp: entries_def filter_empty_conv)

lemma del_one_entry: "entries i (cur_alarm c) \<noteq> 0 \<Longrightarrow> entries i (cur_alarm (del_cur_alarm_info i c)) + 1 = entries i (cur_alarm c)"
proof -
  assume "entries i (cur_alarm c) \<noteq> 0"
  then obtain k where k: "first_at (\<lambda>a. ALM_ON = ai_sta a \<and> i = ai_inx a) (cur_alarm c) = Some k"
    using first_at_entry by blast
  note d = first_at_Some[OF k]
  have "ai_sta alminfo_0 \<noteq> ALM_ON" by (simp add: alminfo_0_def ALM_ON_def)
  then show ?thesis using entries_update[of k "cur_alarm c" i alminfo_0] d
    unfolding del_cur_alarm_info_def k by simp
qed

lemma set_one_entry:
  assumes "\<exists>a \<in> set (cur_alarm c). ai_sta a = ALM_OFF" "0 \<le> i" "i < 65536"
  shows "\<exists>xs r. set_cur_alarm_info i ti c = c\<lparr>cur_alarm := xs, cur_record := r\<rparr> \<and> entries i xs = entries i (cur_alarm c) + 1"
proof -
  obtain k where k: "first_at (\<lambda>a. ALM_OFF = ai_sta a) (cur_alarm c) = Some k"
    using assms(1) first_at_None[of "\<lambda>a. ALM_OFF = ai_sta a" "cur_alarm c"]
    by (cases "first_at (\<lambda>a. ALM_OFF = ai_sta a) (cur_alarm c)") auto
  note d = first_at_Some[OF k]
  let ?a = "\<lparr>ai_id = u32 (cur_record c + 1), ai_inx = u16 i, ai_sta = ALM_ON, ai_ti = ti\<rparr>"
  have "entries i ((cur_alarm c)[k := ?a]) = entries i (cur_alarm c) + 1"
    using entries_update[of k "cur_alarm c" i ?a] d assms(2,3) by (auto split: if_splits)
  then show ?thesis by (intro exI) (auto simp: set_cur_alarm_info_def k Let_def)
qed

lemma compare_loop_quiet:
  "\<forall>i \<in> set is. old_alarm c ! i = new_alarm c ! i \<Longrightarrow> compare_loop env (is @ js) c = compare_loop env js c"
  by (induction "is") (auto simp: compare_one_def)

lemma log_refused:
  assumes "\<forall>h sql. de_query (ae_db env) h sql = None"
  shows "\<exists>c'. log_change env i sta c = Some (False, c') \<and> same_alarms c c'"
proof -
  have "\<exists>h'. db_log_write (ae_db env) t tbl d h = Some (False, h')" for t tbl d h
    using assms by (simp add: db_log_write_def query_int_def db_get_table_def)
  note w = this
  obtain t c1 where t: "alm_time env (set_event env (SNMP_EVNT_ID (if sta = ALM_ON then E_ALM_GENERATE else E_ALM_DISAPPEAR))
      SID_SYS_SLOT SID_SYS_PORT BID_NONE c) = (t, c1)" by fastforce
  obtain h where "db_log_write (ae_db env) t TBL_LOG (alarm_desc (pAlmInxTbl ! i) sta) (adb c1) = Some (False, h)"
    using w by blast
  then have "log_change env i sta c = Some (False, c1\<lparr>adb := h\<rparr>)" by (simp add: log_change_def t)
  then show ?thesis using log_change_same by blast
qed

text \<open>
  When the data base refuses the log of an alarm that has come up, the comparison fails after the
  alarm was entered and before it counts as compared. The next comparison, which the loop that waits
  for the FPGA makes, enters it once more; when the alarm ends, one entry is removed, so that
  the list keeps an alarm that is over.
\<close>

theorem failed_log_lists_again:
  assumes "\<forall>h sql. de_query (ae_db env) h sql = None" "clock_works env" "i < ALM_COUNT"
    "old_alarm c ! i = ALM_OFF" "new_alarm c ! i = ALM_ON" "\<forall>j < i. old_alarm c ! j = new_alarm c ! j"
    "\<exists>a \<in> set (cur_alarm c). ai_sta a = ALM_OFF" "ring_ok hist (upload_alarm c) (upload_record c)" "length hist < 4294967294"
  shows "\<exists>c'. CompareAlarm env c = Some (False, c') \<and> old_alarm c' = old_alarm c \<and> new_alarm c' = new_alarm c
    \<and> entries (int i) (cur_alarm c') = entries (int i) (cur_alarm c) + 1
    \<and> entries (int i) (cur_alarm (del_cur_alarm_info (int i) c')) = entries (int i) (cur_alarm c)"
proof -
  obtain t where t: "ae_time env (times_read c) = Some t"
    using assms(2) unfolding clock_works_def by blast
  let ?c = "c\<lparr>times_read := Suc (times_read c), ts_start := (ts_start c)[i := time_text t]\<rparr>"
  have i: "0 \<le> int i" "int i < 65536" using assms(3) by (simp_all add: ALM_COUNT_def ALM_CURSOR_ARRAY_SIZE_def)
  obtain xs r where s: "set_cur_alarm_info (int i) t ?c = ?c\<lparr>cur_alarm := xs, cur_record := r\<rparr>"
    "entries (int i) xs = entries (int i) (cur_alarm c) + 1"
    using set_one_entry[of ?c "int i" t] assms(7) i by auto
  obtain up q where u: "set_upload_alarm_info (int i) ALM_ON t (?c\<lparr>cur_alarm := xs, cur_record := r\<rparr>)
      = (False, ?c\<lparr>cur_alarm := xs, cur_record := r, upload_alarm := up, upload_record := q\<rparr>)"
    using upload_ring[of hist "?c\<lparr>cur_alarm := xs, cur_record := r\<rparr>" "int i" ALM_ON t] assms(8,9) i by auto
  let ?d = "send_log (told_text i ALM_ON) (?c\<lparr>cur_alarm := xs, cur_record := r, upload_alarm := up, upload_record := q\<rparr>)"
  obtain c' where c': "log_change env i ALM_ON ?d = Some (False, c')" "same_alarms ?d c'"
    using log_refused[OF assms(1)] by blast
  have "compare_one env i c = Some (False, c')"
    using c'(1) assms(4,5) by (simp add: compare_one_def change_on_def alm_time_def t s(1) enter_upload_def u(1))
  moreover have "[0..<ALM_COUNT] = [0..<i] @ i # [Suc i..<ALM_COUNT]"
    using assms(3) upt_add_eq_append[of 0 i "ALM_COUNT - i"] by (simp add: upt_conv_Cons)
  ultimately have "CompareAlarm env c = Some (False, c')"
    using assms(6) compare_loop_quiet[of "[0..<i]" c env] by (simp add: CompareAlarm_def)
  moreover have "entries (int i) (cur_alarm c') = entries (int i) (cur_alarm c) + 1"
    using c'(2) s(2) by (simp add: same_alarms_def send_log_def)
  ultimately show ?thesis
    using c'(2) del_one_entry[of "int i" c'] by (intro exI[of _ c']) (simp add: same_alarms_def send_log_def)
qed

lemma failed_log_lists_again_witness:
  "\<exists>c'. CompareAlarm (alm_env None) one_alarm = Some (False, c') \<and> entries 3 (cur_alarm c') = 1"
proof -
  have "entries 3 (replicate n alminfo_0) = 0" for n by (simp add: entries_def alminfo_0_def ALM_ON_def)
  moreover have "\<exists>a \<in> set (replicate CUR_ALM_MAX_ARRAY_SIZE alminfo_0). ai_sta a = ALM_OFF"
    by (simp add: CUR_ALM_MAX_ARRAY_SIZE_def alminfo_0_def ALM_OFF_def)
  moreover have "\<forall>j < 3. replicate ALM_COUNT 0 ! j = (replicate ALM_COUNT ALM_OFF)[3 := ALM_ON] ! j"
    using three_count by (simp add: ALM_OFF_def)
  moreover have "\<forall>h sql. de_query (ae_db (alm_env None)) h sql = None" by (simp add: alm_env_def db_of_def)
  ultimately show ?thesis
    using failed_log_lists_again[of "alm_env None" 3 one_alarm "[]"] three_count
    by (auto simp: alm_env_works one_alarm_fields ring_ok_start ALM_OFF_def simp del: replicate.simps)
qed

end
