(* ===== verification/AlmCollectSpec.thy ===== *)
theory AlmCollectSpec
  imports AlmSpec FpgaInputs
begin

unbundle bit_operations_syntax

text \<open>
  What the collection of the alarms does with a working FPGA: the value of every alarm of the index
  table, written out by its identifier, slot and port.
\<close>

declare SNMP_ALM_ID.simps [simp del]

section \<open>The index table\<close>

definition alm_type :: "alm_name \<Rightarrow> int" where
  "alm_type a = alm_type_of (SNMP_ALM_ID a)"

lemma alm_types:
  "alm_type A_HW_FPGA_HALT = SMP_SID_SUB_SYS" "alm_type A_NTP_EXIT = SMP_SID_SUB_SYS"
  "alm_type A_RB_UNLOCK = SMP_SID_SUB_SYS" "alm_type A_XO_UNLOCK = SMP_SID_SUB_SYS"
  "alm_type A_EXT_PWR_INPUT = SMP_SID_SUB_PWR" "alm_type A_LINK_DOWN = SMP_SID_SUB_OUT"
  by code_simp+

lemma threshold_types: "i \<in> set thrsd_alarms \<Longrightarrow> alm_type_of i = SMP_SID_SUB_IN"
proof -
  have "list_all (\<lambda>i. alm_type_of i = SMP_SID_SUB_IN) thrsd_alarms" by code_simp
  then show "i \<in> set thrsd_alarms \<Longrightarrow> ?thesis" by (simp add: list_all_iff)
qed

lemma sub_types: "SMP_SID_SUB_SYS \<noteq> SMP_SID_SUB_IN" "SMP_SID_SUB_SYS \<noteq> SMP_SID_SUB_SAT" "SMP_SID_SUB_PWR \<noteq> SMP_SID_SUB_IN"
  "SMP_SID_SUB_PWR \<noteq> SMP_SID_SUB_SAT" "SMP_SID_SUB_OUT \<noteq> SMP_SID_SUB_IN" "SMP_SID_SUB_OUT \<noteq> SMP_SID_SUB_SAT"
  by (simp_all add: SMP_SID_SUB_SYS_def SMP_SID_SUB_IN_def SMP_SID_SUB_SAT_def SMP_SID_SUB_PWR_def SMP_SID_SUB_OUT_def)

lemma sys_rows:
  "(SNMP_ALM_ID A_HW_FPGA_HALT, 1, 1) \<in> set pAlmInxTbl" "(SNMP_ALM_ID A_NTP_EXIT, 1, 1) \<in> set pAlmInxTbl"
  "(SNMP_ALM_ID A_RB_UNLOCK, 1, 1) \<in> set pAlmInxTbl" "(SNMP_ALM_ID A_XO_UNLOCK, 1, 1) \<in> set pAlmInxTbl"
  "(SNMP_ALM_ID A_EXT_PWR_INPUT, 1, 1) \<in> set pAlmInxTbl" "(SNMP_ALM_ID A_EXT_PWR_INPUT, 2, 1) \<in> set pAlmInxTbl"
  by (simp_all add: in_alarm_table gAlmIdTbl_def alarm_subs_eq sub_values)

lemma link_rows: "1 \<le> slot \<Longrightarrow> slot \<le> 16 \<Longrightarrow> 1 \<le> port \<Longrightarrow> port \<le> 8 \<Longrightarrow> (SNMP_ALM_ID A_LINK_DOWN, slot, port) \<in> set pAlmInxTbl"
  by (simp add: in_alarm_table gAlmIdTbl_def alarm_subs_eq sub_values)

lemma type_row: "(i, t) \<in> set gAlmIdTbl \<Longrightarrow> alm_type_of i = t"
proof -
  have "list_all (\<lambda>(i, t). alm_type_of i = t) gAlmIdTbl" by code_simp
  then show "(i, t) \<in> set gAlmIdTbl \<Longrightarrow> ?thesis" by (auto simp: list_all_iff)
qed

text \<open>The alarms of the system and of the power have one place each.\<close>

lemma sys_only:
  "(i, slot, port) \<in> set pAlmInxTbl \<Longrightarrow> alm_type_of i = SMP_SID_SUB_SYS \<Longrightarrow> slot = 1 \<and> port = 1"
  "(i, slot, port) \<in> set pAlmInxTbl \<Longrightarrow> alm_type_of i = SMP_SID_SUB_PWR \<Longrightarrow> (slot = 1 \<or> slot = 2) \<and> port = 1"
  by (auto simp: in_alarm_table alarm_subs_eq sub_values dest!: type_row)

section \<open>The steps\<close>

text \<open>The inputs of the collection that its steps leave alone.\<close>

definition same_inputs :: "almCtx \<Rightarrow> almCtx \<Rightarrow> bool" where
  "same_inputs c c' \<longleftrightarrow> bids c' = bids c \<and> port_status c' = port_status c \<and> refsrc c' = refsrc c
     \<and> Threshold c' = Threshold c \<and> length (new_alarm c') = length (new_alarm c)"

lemma same_inputs_refl [simp]: "same_inputs c c" by (simp add: same_inputs_def)

lemma same_inputs_trans: "same_inputs a b \<Longrightarrow> same_inputs b c \<Longrightarrow> same_inputs a c"
  by (simp add: same_inputs_def)

lemma set_event_keeps [simp]:
  "new_alarm (set_event env i s p b c) = new_alarm c" "same_inputs c (set_event env i s p b c)"
  "bids (set_event env i s p b c) = bids c" "port_status (set_event env i s p b c) = port_status c"
  by (simp_all add: set_event_def alm_time_def same_inputs_def)

lemma set_alarm_keeps [simp]: "same_inputs c (set_alarm i v c)" "bids (set_alarm i v c) = bids c"
  "port_status (set_alarm i v c) = port_status c"
  by (simp_all add: set_alarm_def same_inputs_def)

lemma set_alarm_at:
  assumes "length (new_alarm c) = ALM_COUNT" "FIND_ALMINX_BY_SLOT_PORT_ID i slot port (- 1) \<noteq> - 1" "j < ALM_COUNT"
  shows "new_alarm (set_alarm (FIND_ALMINX_BY_SLOT_PORT_ID i slot port (- 1)) v c) ! j
    = (if pAlmInxTbl ! j = (i, slot, port) then v else new_alarm c ! j)"
  using find_alm_at[OF assms(3,2)] assms(1,3) by (auto simp: set_alarm_def nth_list_update)

lemma locked_read:
  assumes "\<forall>n. ae_sema env n"
  shows "locked env (\<lambda>n c. c) c = (True, c\<lparr>sema_calls := sema_calls c + 2\<rparr>)"
  using assms by (simp add: locked_def Let_def)

lemma alm_read_inputs:
  assumes "driver_inputs (ae_fpga env) (\<lambda>reqs. f)" "0 \<le> addr" "addr < 65536"
  shows "alm_read env addr c = (Some (f addr), c\<lparr>areqs := areqs c @ [(FPGA_READ, addr * 65536)]\<rparr>)"
  by (simp add: alm_read_def driver_inputs_read[OF assms])

lemma alm_regs: "0 \<le> FPGA_PWR_ALM" "FPGA_PWR_ALM < 65536" "0 \<le> FPGA_INT_PWR_VOL" "FPGA_INT_PWR_VOL < 65536"
  "0 \<le> FPGA_RBXO_TYP" "FPGA_RBXO_TYP < 65536" "0 \<le> FPGA_RBXO_STA" "FPGA_RBXO_STA < 65536"
  "0 \<le> FPGA_BID_S18_S19" "FPGA_BID_S18_S19 < 65536" "0 \<le> FPGA_SYS_PH_LOW16" "FPGA_SYS_PH_LOW16 < 65536"
  "0 \<le> FPGA_SYS_PH_HIGH12" "FPGA_SYS_PH_HIGH12 < 65536"
  by code_simp+

lemma collect_input_exact:
  assumes "\<forall>n. ae_sema env n" "length (new_alarm c) = ALM_COUNT"
  shows "\<exists>c'. collect_input env c = (True, c') \<and> same_inputs c c' \<and> sema_calls c' = sema_calls c + 2
    \<and> (\<forall>j < ALM_COUNT. new_alarm c' ! j
         = (if index_type j = SMP_SID_SUB_IN \<or> index_type j = SMP_SID_SUB_SAT then ae_input env (sema_calls c) ! j
            else new_alarm c ! j))"
  using assms(2) by (simp add: collect_input_def locked_read[OF assms(1)] Let_def same_inputs_def)

text \<open>The port of an NTP board that has no link although it is enabled.\<close>

definition port_alarm :: "almCtx \<Rightarrow> nat \<Rightarrow> int" where
  "port_alarm c i = alarm_when (pt_link (port_status c ! i) = 0 \<and> pt_enable (port_status c ! i) = 1)"

definition ntp_port :: "almCtx \<Rightarrow> nat \<Rightarrow> bool" where
  "ntp_port c i \<longleftrightarrow> bids c ! (11 + i div 4) = BID_NTP \<or> bids c ! (11 + i div 4) = BID_NTPF"

definition port_row :: "nat \<Rightarrow> int \<times> int \<times> int" where
  "port_row i = (SNMP_ALM_ID A_LINK_DOWN, 12 + int (i div 4), int (i mod 4) + 1)"

lemma port_row_inj: "port_row i = port_row j \<Longrightarrow> i = j"
  by (auto simp: port_row_def) (metis div_mod_decomp)

lemma collect_ports_step:
  assumes "i < 20"
  shows "collect_ports env (i # is) c =
    (if ntp_port c i then collect_ports env is (set_alarm (FIND_ALMINX_BY_SLOT_PORT_ID (SNMP_ALM_ID A_LINK_DOWN) (12 + int (i div 4)) (int (i mod 4) + 1) (- 1))
       (port_alarm c i)
       (if pt_link (port_status c ! i) = 0 \<and> pt_enable (port_status c ! i) = 1
        then set_event env (SNMP_EVNT_ID E_LINK_DOWN) (12 + int (i div 4)) (int (i mod 4) + 1) (bids c ! (11 + i div 4)) c else c))
     else collect_ports env is c)"
proof -
  have n: "nat (12 + int (i div 4) - 1) = 11 + i div 4" by linarith
  have "i div 4 \<le> 4" "i mod 4 < 4" using assms by auto
  then have "FIND_ALMINX_BY_SLOT_PORT_ID (SNMP_ALM_ID A_LINK_DOWN) (12 + int (i div 4)) (int (i mod 4) + 1) (- 1) \<noteq> - 1"
    by (intro find_alm_found link_rows) linarith+
  then show ?thesis unfolding collect_ports.simps Let_def n
    by (simp add: ntp_port_def port_alarm_def alarm_when_def)
qed

lemma collect_ports_exact:
  assumes "\<forall>i \<in> set is. i < 20" "distinct is" "length (new_alarm c) = ALM_COUNT"
  shows "\<exists>c'. collect_ports env is c = (True, c') \<and> same_inputs c c' \<and> sema_calls c' = sema_calls c
    \<and> (\<forall>j < ALM_COUNT. new_alarm c' ! j
         = (case find (\<lambda>i. ntp_port c i \<and> pAlmInxTbl ! j = port_row i) is of
              None \<Rightarrow> new_alarm c ! j | Some i \<Rightarrow> port_alarm c i))"
  using assms
proof (induction "is" arbitrary: c)
  case (Cons i "is")
  show ?case
  proof (cases "ntp_port c i")
    case False
    then show ?thesis using Cons collect_ports_step[of i env "is" c] by simp
  next
    case True
    define x where "x = (if pt_link (port_status c ! i) = 0 \<and> pt_enable (port_status c ! i) = 1
        then set_event env (SNMP_EVNT_ID E_LINK_DOWN) (12 + int (i div 4)) (int (i mod 4) + 1) (bids c ! (11 + i div 4)) c else c)"
    define k where "k = FIND_ALMINX_BY_SLOT_PORT_ID (SNMP_ALM_ID A_LINK_DOWN) (12 + int (i div 4)) (int (i mod 4) + 1) (- 1)"
    define d where "d = set_alarm k (port_alarm c i) x"
    have i: "i < 20" using Cons.prems(1) by simp
    have "i div 4 \<le> 4" "i mod 4 < 4" using i by auto
    then have k: "k \<noteq> - 1" unfolding k_def by (intro find_alm_found link_rows) linarith+
    have x: "new_alarm x = new_alarm c" "same_inputs c x" "sema_calls x = sema_calls c"
      by (simp_all add: x_def) (simp add: set_event_def alm_time_def)
    have d: "same_inputs c d" "sema_calls d = sema_calls c" "length (new_alarm d) = ALM_COUNT"
      using x Cons.prems(3) by (simp_all add: d_def same_inputs_def set_alarm_def)
    have nd: "new_alarm d ! j = (if pAlmInxTbl ! j = port_row i then port_alarm c i else new_alarm c ! j)" if "j < ALM_COUNT" for j
      unfolding d_def k_def port_row_def using set_alarm_at[of x _ _ _ j] k that x(1) Cons.prems(3) by (simp add: k_def)
    have same: "ntp_port d = ntp_port c" "port_alarm d = port_alarm c"
      using d(1) by (auto simp: same_inputs_def ntp_port_def port_alarm_def fun_eq_iff)
    obtain c' where c': "collect_ports env is d = (True, c')" "same_inputs d c'" "sema_calls c' = sema_calls d"
      "\<forall>j < ALM_COUNT. new_alarm c' ! j = (case find (\<lambda>i. ntp_port d i \<and> pAlmInxTbl ! j = port_row i) is of
              None \<Rightarrow> new_alarm d ! j | Some i \<Rightarrow> port_alarm d i)"
      using Cons.IH[of d] Cons.prems d(3) by auto
    have "find (\<lambda>i. ntp_port c i \<and> pAlmInxTbl ! j = port_row i) is = None" if "pAlmInxTbl ! j = port_row i" for j
      using that Cons.prems(2) port_row_inj by (auto simp: find_None_iff)
    then show ?thesis using True c' d nd same collect_ports_step[OF i, of env "is" c]
      by (intro exI[of _ c']) (auto simp: d_def k_def x_def intro: same_inputs_trans split: option.splits)
  qed
qed simp

definition phase_of :: "(int \<Rightarrow> int) \<Rightarrow> int" where
  "phase_of f = sign_magnitude (s32 (push_bit 16 (f FPGA_SYS_PH_HIGH12) OR f FPGA_SYS_PH_LOW16))"

lemma read_phase_inputs:
  assumes "driver_inputs (ae_fpga env) (\<lambda>reqs. f)"
  shows "\<exists>rs. read_phase env c = (phase_of f, c\<lparr>areqs := rs\<rparr>)"
  by (simp add: read_phase_def SysReadPhase_def driver_inputs_read[OF assms] alm_regs phase_of_def) blast

definition power_alarm :: "(int \<Rightarrow> int) \<Rightarrow> int \<Rightarrow> int" where
  "power_alarm f slot = alarm_when
     (if slot = 2 then bit (f FPGA_PWR_ALM) 0 \<and> f FPGA_BID_S18_S19 AND 0x00FF \<noteq> 0x00FF
      else bit (f FPGA_PWR_ALM) 1 \<and> drop_bit 8 (f FPGA_BID_S18_S19) AND 0x00FF \<noteq> 0x00FF)"

lemma put_alarm_exact:
  assumes "(SNMP_ALM_ID a, slot, port) \<in> set pAlmInxTbl" "length (new_alarm c) = ALM_COUNT"
  shows "\<exists>c'. put_alarm a slot port v c = (True, c') \<and> same_inputs c c' \<and> sema_calls c' = sema_calls c
    \<and> (\<forall>j < ALM_COUNT. new_alarm c' ! j = (if pAlmInxTbl ! j = (SNMP_ALM_ID a, slot, port) then v else new_alarm c ! j))"
  using find_alm_found[OF assms(1)] set_alarm_at[OF assms(2)]
  by (simp add: put_alarm_def Let_def) (simp add: set_alarm_def)

lemma collect_power_exact:
  assumes "length (new_alarm c) = ALM_COUNT"
  shows "\<exists>c'. collect_power (f FPGA_PWR_ALM) (f FPGA_BID_S18_S19) c = (True, c') \<and> same_inputs c c' \<and> sema_calls c' = sema_calls c
    \<and> (\<forall>j < ALM_COUNT. new_alarm c' ! j
        = (if pAlmInxTbl ! j = (SNMP_ALM_ID A_EXT_PWR_INPUT, 1, 1) then power_alarm f 1
           else if pAlmInxTbl ! j = (SNMP_ALM_ID A_EXT_PWR_INPUT, 2, 1) then power_alarm f 2 else new_alarm c ! j))"
proof -
  obtain c1 where c1: "put_alarm A_EXT_PWR_INPUT 2 1 (power_alarm f 2) c = (True, c1)" "same_inputs c c1" "sema_calls c1 = sema_calls c"
    "\<forall>j < ALM_COUNT. new_alarm c1 ! j = (if pAlmInxTbl ! j = (SNMP_ALM_ID A_EXT_PWR_INPUT, 2, 1) then power_alarm f 2 else new_alarm c ! j)"
    using put_alarm_exact[OF sys_rows(6) assms] by blast
  have l: "length (new_alarm c1) = ALM_COUNT" using assms c1(2) by (simp add: same_inputs_def)
  obtain c2 where c2: "put_alarm A_EXT_PWR_INPUT 1 1 (power_alarm f 1) c1 = (True, c2)" "same_inputs c1 c2" "sema_calls c2 = sema_calls c1"
    "\<forall>j < ALM_COUNT. new_alarm c2 ! j = (if pAlmInxTbl ! j = (SNMP_ALM_ID A_EXT_PWR_INPUT, 1, 1) then power_alarm f 1 else new_alarm c1 ! j)"
    using put_alarm_exact[OF sys_rows(5) l] by blast
  show ?thesis using c1 c2
    by (intro exI[of _ c2]) (auto simp: collect_power_def SID_PWR_PORT_def power_alarm_def Let_def intro: same_inputs_trans)
qed

text \<open>The place of the alarm that the phase raises.\<close>

definition phase_row :: "almCtx \<Rightarrow> (int \<times> int \<times> int) option" where
  "phase_row c = map_option (\<lambda>(a, port). (SNMP_ALM_ID a, sc_slot (refsrc c), port))
     (threshold_alarm (sc_type (refsrc c)) (sc_bid (refsrc c)))"

definition phase_alarm :: "almCtx \<Rightarrow> (int \<Rightarrow> int) \<Rightarrow> int" where
  "phase_alarm c f = alarm_when (\<bar>phase_of f\<bar> > Threshold c)"

lemma collect_threshold_exact:
  assumes "length (new_alarm c) = ALM_COUNT" "c' = collect_threshold (phase_of f) (clear_thresholds c)"
  shows "same_inputs c c'" "sema_calls c' = sema_calls c"
    "\<forall>j < ALM_COUNT. new_alarm c' ! j
      = (if phase_row c = Some (pAlmInxTbl ! j) then phase_alarm c f
         else if fst (pAlmInxTbl ! j) \<in> set thrsd_alarms then ALM_OFF else new_alarm c ! j)"
proof -
  let ?d = "clear_thresholds c"
  have d: "same_inputs c ?d" "length (new_alarm ?d) = ALM_COUNT" "sema_calls ?d = sema_calls c"
    using assms(1) by (simp_all add: clear_thresholds_def same_inputs_def)
  have dv: "new_alarm ?d ! j = (if fst (pAlmInxTbl ! j) \<in> set thrsd_alarms then ALM_OFF else new_alarm c ! j)" if "j < ALM_COUNT" for j
    using that threshold_types[of "fst (pAlmInxTbl ! j)"] by (auto simp: clear_thresholds_def index_type_def)
  have r: "refsrc ?d = refsrc c" "Threshold ?d = Threshold c" using d(1) by (simp_all add: same_inputs_def)
  have "same_inputs c c' \<and> sema_calls c' = sema_calls c \<and> (\<forall>j < ALM_COUNT. new_alarm c' ! j
      = (if phase_row c = Some (pAlmInxTbl ! j) then phase_alarm c f else new_alarm ?d ! j))"
  proof (cases "threshold_alarm (sc_type (refsrc c)) (sc_bid (refsrc c))")
    case None
    then show ?thesis using d by (simp add: assms(2) collect_threshold_def r phase_row_def)
  next
    case (Some ap)
    obtain a port where ap: "ap = (a, port)" by (cases ap)
    let ?k = "FIND_ALMINX_BY_SLOT_PORT_ID (SNMP_ALM_ID a) (sc_slot (refsrc c)) port (- 1)"
    have pr: "phase_row c = Some (SNMP_ALM_ID a, sc_slot (refsrc c), port)" by (simp add: phase_row_def Some ap)
    show ?thesis
    proof (cases "?k = - 1")
      case True
      have "phase_row c \<noteq> Some (pAlmInxTbl ! j)" if "j < ALM_COUNT" for j unfolding pr option.inject
        using True that by (metis find_alm nth_mem alm_count(2))
      moreover have "c' = ?d" using True Some ap by (simp add: assms(2) collect_threshold_def r)
      ultimately show ?thesis using d by simp
    next
      case False
      then have k: "?k \<ge> 0" using find_alm[of _ _ _ ?k] by auto
      have "c' = set_alarm ?k (phase_alarm c f) ?d"
        using k by (simp add: assms(2) collect_threshold_def r Some ap phase_alarm_def)
      then show ?thesis using set_alarm_at[OF d(2) False] d pr
        by (auto simp: set_alarm_def same_inputs_def)
    qed
  qed
  then show "same_inputs c c'" "sema_calls c' = sema_calls c"
    "\<forall>j < ALM_COUNT. new_alarm c' ! j
      = (if phase_row c = Some (pAlmInxTbl ! j) then phase_alarm c f
         else if fst (pAlmInxTbl ! j) \<in> set thrsd_alarms then ALM_OFF else new_alarm c ! j)"
    using dv by auto
qed

definition lock_alarm :: "(int \<Rightarrow> int) \<Rightarrow> int \<Rightarrow> int" where
  "lock_alarm f t = alarm_when (f FPGA_RBXO_TYP = t \<and> f FPGA_RBXO_STA \<noteq> 4)"

lemma collect_lock_exact:
  assumes "length (new_alarm c) = ALM_COUNT"
  shows "\<exists>c'. collect_lock (f FPGA_RBXO_TYP) (f FPGA_RBXO_STA) c = (True, c') \<and> same_inputs c c' \<and> sema_calls c' = sema_calls c
    \<and> (\<forall>j < ALM_COUNT. new_alarm c' ! j
        = (if pAlmInxTbl ! j = (SNMP_ALM_ID A_RB_UNLOCK, 1, 1) then lock_alarm f 1
           else if pAlmInxTbl ! j = (SNMP_ALM_ID A_XO_UNLOCK, 1, 1) then lock_alarm f 2 else new_alarm c ! j))"
proof -
  let ?rb = "FIND_ALMINX_BY_SLOT_PORT_ID (SNMP_ALM_ID A_RB_UNLOCK) 1 1 (- 1)"
  let ?xo = "FIND_ALMINX_BY_SLOT_PORT_ID (SNMP_ALM_ID A_XO_UNLOCK) 1 1 (- 1)"
  note f = find_alm_found[OF sys_rows(3)] find_alm_found[OF sys_rows(4)]
  have l: "length (new_alarm (set_alarm k v c)) = ALM_COUNT" for k v using assms by (simp add: set_alarm_def)
  have s: "sema_calls (set_alarm k v d) = sema_calls d" for k v d by (simp add: set_alarm_def)
  show ?thesis using f set_alarm_at[OF l f(1)] set_alarm_at[OF l f(2)] set_alarm_at[OF assms f(1)] set_alarm_at[OF assms f(2)]
    by (auto simp: collect_lock_def SID_SYS_PORT_def Let_def lock_alarm_def alarm_when_def s intro: same_inputs_trans[OF set_alarm_keeps(1) set_alarm_keeps(1)])
qed

lemma collect_ntp_exact:
  assumes "\<forall>n. ae_sema env n" "length (new_alarm c) = ALM_COUNT"
  shows "\<exists>c'. collect_ntp env c = (True, c') \<and> same_inputs c c'
    \<and> (\<forall>j < ALM_COUNT. new_alarm c' ! j
        = (if pAlmInxTbl ! j = (SNMP_ALM_ID A_NTP_EXIT, 1, 1) then ae_ntp env (sema_calls c) ! j else new_alarm c ! j))"
proof -
  let ?k = "FIND_ALMINX_BY_SLOT_PORT_ID (SNMP_ALM_ID A_NTP_EXIT) 1 1 (- 1)"
  let ?c = "c\<lparr>sema_calls := sema_calls c + 2\<rparr>"
  note f = find_alm_found[OF sys_rows(2)]
  have l: "length (new_alarm ?c) = ALM_COUNT" using assms(2) by simp
  show ?thesis using set_alarm_at[OF l f] f find_alm_at[OF _ f]
    by (auto simp: collect_ntp_def SID_SYS_PORT_def Let_def locked_read[OF assms(1)]) (auto simp: set_alarm_def same_inputs_def)
qed

lemma collect_fpga_exact:
  assumes "driver_inputs (ae_fpga env) (\<lambda>reqs. f)" "\<forall>n. ae_sema env n" "length (new_alarm c) = ALM_COUNT"
  shows "\<exists>c'. collect_fpga env c = (True, c') \<and> same_inputs c c' \<and> sema_calls c' = sema_calls c + 2
    \<and> (\<forall>j < ALM_COUNT. new_alarm c' ! j
        = (if pAlmInxTbl ! j = (SNMP_ALM_ID A_RB_UNLOCK, 1, 1) then lock_alarm f 1
           else if pAlmInxTbl ! j = (SNMP_ALM_ID A_XO_UNLOCK, 1, 1) then lock_alarm f 2
           else if phase_row c = Some (pAlmInxTbl ! j) then phase_alarm c f
           else if fst (pAlmInxTbl ! j) \<in> set thrsd_alarms then ALM_OFF
           else if pAlmInxTbl ! j = (SNMP_ALM_ID A_EXT_PWR_INPUT, 1, 1) then power_alarm f 1
           else if pAlmInxTbl ! j = (SNMP_ALM_ID A_EXT_PWR_INPUT, 2, 1) then power_alarm f 2 else new_alarm c ! j))"
proof -
  define c1 where "c1 = c\<lparr>areqs := areqs c @ [(FPGA_READ, FPGA_PWR_ALM * 65536), (FPGA_READ, FPGA_INT_PWR_VOL * 65536),
    (FPGA_READ, FPGA_RBXO_TYP * 65536), (FPGA_READ, FPGA_RBXO_STA * 65536)]\<rparr>"
  define c2 where "c2 = (if f FPGA_RBXO_STA \<ge> 3 then c1\<lparr>first_flag := OTHER\<rparr> else c1)"
  obtain rs where rs: "read_phase env c2 = (phase_of f, c2\<lparr>areqs := rs\<rparr>)" using read_phase_inputs[OF assms(1)] by blast
  obtain c3 where c3: "write_clock_state env (f FPGA_RBXO_STA) (phase_of f) (c2\<lparr>areqs := rs\<rparr>) = (True, c3)"
    "same_inputs c c3" "new_alarm c3 = new_alarm c" "sema_calls c3 = sema_calls c + 2"
    using assms(2) by (simp add: write_clock_state_def share_def locked_def Let_def c2_def c1_def same_inputs_def)
  define c4 where "c4 = c3\<lparr>areqs := areqs c3 @ [(FPGA_READ, FPGA_BID_S18_S19 * 65536)]\<rparr>"
  have c4: "same_inputs c c4" "new_alarm c4 = new_alarm c" "sema_calls c4 = sema_calls c + 2" "length (new_alarm c4) = ALM_COUNT"
    using c3 assms(3) by (simp_all add: c4_def same_inputs_def)
  obtain c5 where c5: "collect_power (f FPGA_PWR_ALM) (f FPGA_BID_S18_S19) c4 = (True, c5)" "same_inputs c4 c5" "sema_calls c5 = sema_calls c4"
    "\<forall>j < ALM_COUNT. new_alarm c5 ! j = (if pAlmInxTbl ! j = (SNMP_ALM_ID A_EXT_PWR_INPUT, 1, 1) then power_alarm f 1
           else if pAlmInxTbl ! j = (SNMP_ALM_ID A_EXT_PWR_INPUT, 2, 1) then power_alarm f 2 else new_alarm c4 ! j)"
    using collect_power_exact[OF c4(4)] by blast
  define c6 where "c6 = collect_threshold (phase_of f) (clear_thresholds c5)"
  have l5: "length (new_alarm c5) = ALM_COUNT" using c5(2) c4(4) by (simp add: same_inputs_def)
  note c6 = collect_threshold_exact[OF l5 c6_def]
  have l6: "length (new_alarm c6) = ALM_COUNT" using c6(1) l5 by (simp add: same_inputs_def)
  obtain c7 where c7: "collect_lock (f FPGA_RBXO_TYP) (f FPGA_RBXO_STA) c6 = (True, c7)" "same_inputs c6 c7" "sema_calls c7 = sema_calls c6"
    "\<forall>j < ALM_COUNT. new_alarm c7 ! j = (if pAlmInxTbl ! j = (SNMP_ALM_ID A_RB_UNLOCK, 1, 1) then lock_alarm f 1
           else if pAlmInxTbl ! j = (SNMP_ALM_ID A_XO_UNLOCK, 1, 1) then lock_alarm f 2 else new_alarm c6 ! j)"
    using collect_lock_exact[OF l6] by blast
  have "same_inputs c c5" using c4(1) c5(2) by (rule same_inputs_trans)
  then have p: "phase_row c5 = phase_row c" "phase_alarm c5 f = phase_alarm c f"
    by (simp_all add: phase_row_def phase_alarm_def same_inputs_def)
  have "collect_fpga env c = (True, c7)"
  proof (cases "3 \<le> f FPGA_RBXO_STA")
    case True
    then have "read_phase env (c1\<lparr>first_flag := OTHER\<rparr>) = (phase_of f, c2\<lparr>areqs := rs\<rparr>)" using rs by (simp add: c2_def)
    then show ?thesis using True
      by (simp add: collect_fpga_def alm_read_inputs[OF assms(1)] alm_regs)
         (simp add: c1_def[symmetric] c3(1) c4_def[symmetric] c5(1) c6_def[symmetric] c7(1))
  next
    case False
    then have "read_phase env c1 = (phase_of f, c2\<lparr>areqs := rs\<rparr>)" using rs by (simp add: c2_def)
    then show ?thesis using False
      by (simp add: collect_fpga_def alm_read_inputs[OF assms(1)] alm_regs)
         (simp add: c1_def[symmetric] c3(1) c4_def[symmetric] c5(1) c6_def[symmetric] c7(1))
  qed
  moreover have "same_inputs c c7" using \<open>same_inputs c c5\<close> c6(1) c7(2) by (blast intro: same_inputs_trans)
  moreover have "sema_calls c7 = sema_calls c + 2" using c7(3) c6(2) c5(3) c4(3) by simp
  ultimately show ?thesis using c7(4) c6(3) c5(4) c4(2) p by (intro exI[of _ c7]) simp
qed

section \<open>The alarms that are collected\<close>

text \<open>The value of the alarm at the place \<open>j\<close>: the case that decides it comes first.\<close>

definition alarm_value :: "almEnv \<Rightarrow> (int \<Rightarrow> int) \<Rightarrow> almCtx \<Rightarrow> nat \<Rightarrow> int" where
  "alarm_value env f c j =
     (case pAlmInxTbl ! j of (i, slot, port) \<Rightarrow>
        if i = SNMP_ALM_ID A_HW_FPGA_HALT then ALM_OFF
        else if i = SNMP_ALM_ID A_NTP_EXIT then ae_ntp env (sema_calls c + 4) ! j
        else if i = SNMP_ALM_ID A_RB_UNLOCK then lock_alarm f 1
        else if i = SNMP_ALM_ID A_XO_UNLOCK then lock_alarm f 2
        else if phase_row c = Some (i, slot, port) then phase_alarm c f
        else if i \<in> set thrsd_alarms then ALM_OFF
        else if i = SNMP_ALM_ID A_EXT_PWR_INPUT then power_alarm f slot
        else if i = SNMP_ALM_ID A_LINK_DOWN then
          (if 12 \<le> slot \<and> slot \<le> 16 \<and> port \<le> 4 \<and> bids c ! nat (slot - 1) \<in> {BID_NTP, BID_NTPF}
           then port_alarm c (nat (4 * (slot - 12) + port - 1)) else new_alarm c ! j)
        else if alm_type_of i \<in> {SMP_SID_SUB_IN, SMP_SID_SUB_SAT} then ae_input env (sema_calls c) ! j
        else new_alarm c ! j)"

lemma find_port:
  "find (\<lambda>i. ntp_port c i \<and> row = port_row i) [0..<20]
    = (case row of (i, slot, port) \<Rightarrow>
         if i = SNMP_ALM_ID A_LINK_DOWN \<and> 12 \<le> slot \<and> slot \<le> 16 \<and> 1 \<le> port \<and> port \<le> 4 \<and> bids c ! nat (slot - 1) \<in> {BID_NTP, BID_NTPF}
         then Some (nat (4 * (slot - 12) + port - 1)) else None)"
proof -
  obtain i slot port where row: "row = (i, slot, port)" by (cases row)
  let ?P = "\<lambda>i. ntp_port c i \<and> row = port_row i"
  show ?thesis
  proof (cases "i = SNMP_ALM_ID A_LINK_DOWN \<and> 12 \<le> slot \<and> slot \<le> 16 \<and> 1 \<le> port \<and> port \<le> 4 \<and> bids c ! nat (slot - 1) \<in> {BID_NTP, BID_NTPF}")
    case True
    define k where "k = nat (4 * (slot - 12) + port - 1)"
    have b: "12 \<le> slot" "slot \<le> 16" "1 \<le> port" "port \<le> 4" using True by simp_all
    obtain s p where sp: "slot - 12 = int s" "port - 1 = int p" using b zero_le_imp_eq_int[of "slot - 12"] zero_le_imp_eq_int[of "port - 1"] by auto
    have "int k = int (s * 4 + p)" using b sp by (simp add: k_def)
    then have kk: "k = nat (slot - 12) * 4 + nat (port - 1)" "nat (port - 1) < 4" using sp b by (simp_all only: of_nat_eq_iff nat_int)
    then have "k div 4 = nat (slot - 12)" "k mod 4 = nat (port - 1)" by simp_all
    then have dm: "int (k div 4) = slot - 12" "int (k mod 4) = port - 1" using True by simp_all
    have "k < 20" using b by (simp add: k_def)
    moreover have "nat (slot - 1) = 11 + k div 4" using dm True by linarith
    ultimately have k: "k < 20" "?P k" using dm True by (auto simp: ntp_port_def port_row_def row)
    have "find ?P [0..<20] = Some k"
      unfolding find_Some_iff using k port_row_inj by (intro exI[of _ k]) auto
    then show ?thesis using True by (simp add: row k_def)
  next
    case False
    have "\<not> ?P x" if "x < 20" for x
    proof
      assume p: "?P x"
      have "nat (slot - 1) = 11 + x div 4" "x div 4 \<le> 4" "x mod 4 < 4"
        using p that by (auto simp: row port_row_def)
      then show False using p False by (auto simp: row port_row_def ntp_port_def)
    qed
    then have "find ?P [0..<20] = None" by (simp add: find_None_iff)
    then show ?thesis using False by (auto simp: row)
  qed
qed

lemma collect_value:
  assumes "driver_inputs (ae_fpga env) (\<lambda>reqs. f)" "\<forall>n. ae_sema env n" "length (new_alarm c) = ALM_COUNT"
  shows "\<exists>c'. CollectAlarm env c = (True, c') \<and> length (new_alarm c') = ALM_COUNT
    \<and> (\<forall>j < ALM_COUNT. new_alarm c' ! j = alarm_value env f c j)"
proof -
  obtain c1 where c1: "collect_input env c = (True, c1)" "same_inputs c c1" "sema_calls c1 = sema_calls c + 2"
    "\<forall>j < ALM_COUNT. new_alarm c1 ! j = (if index_type j = SMP_SID_SUB_IN \<or> index_type j = SMP_SID_SUB_SAT
       then ae_input env (sema_calls c) ! j else new_alarm c ! j)"
    using collect_input_exact[OF assms(2,3)] by blast
  have l1: "length (new_alarm c1) = ALM_COUNT" using c1(2) assms(3) by (simp add: same_inputs_def)
  obtain c2 where c2: "collect_ports env [0..<20] c1 = (True, c2)" "same_inputs c1 c2" "sema_calls c2 = sema_calls c1"
    "\<forall>j < ALM_COUNT. new_alarm c2 ! j = (case find (\<lambda>i. ntp_port c1 i \<and> pAlmInxTbl ! j = port_row i) [0..<20] of
              None \<Rightarrow> new_alarm c1 ! j | Some i \<Rightarrow> port_alarm c1 i)"
    using collect_ports_exact[of "[0..<20]" c1 env] l1 by auto
  have l2: "length (new_alarm c2) = ALM_COUNT" using c2(2) l1 by (simp add: same_inputs_def)
  obtain c3 where c3: "collect_fpga env c2 = (True, c3)" "same_inputs c2 c3" "sema_calls c3 = sema_calls c2 + 2"
    "\<forall>j < ALM_COUNT. new_alarm c3 ! j
        = (if pAlmInxTbl ! j = (SNMP_ALM_ID A_RB_UNLOCK, 1, 1) then lock_alarm f 1
           else if pAlmInxTbl ! j = (SNMP_ALM_ID A_XO_UNLOCK, 1, 1) then lock_alarm f 2
           else if phase_row c2 = Some (pAlmInxTbl ! j) then phase_alarm c2 f
           else if fst (pAlmInxTbl ! j) \<in> set thrsd_alarms then ALM_OFF
           else if pAlmInxTbl ! j = (SNMP_ALM_ID A_EXT_PWR_INPUT, 1, 1) then power_alarm f 1
           else if pAlmInxTbl ! j = (SNMP_ALM_ID A_EXT_PWR_INPUT, 2, 1) then power_alarm f 2 else new_alarm c2 ! j)"
    using collect_fpga_exact[OF assms(1,2) l2] by blast
  have l3: "length (new_alarm c3) = ALM_COUNT" using c3(2) l2 by (simp add: same_inputs_def)
  obtain c4 where c4: "collect_ntp env c3 = (True, c4)" "same_inputs c3 c4"
    "\<forall>j < ALM_COUNT. new_alarm c4 ! j = (if pAlmInxTbl ! j = (SNMP_ALM_ID A_NTP_EXIT, 1, 1) then ae_ntp env (sema_calls c3) ! j else new_alarm c3 ! j)"
    using collect_ntp_exact[OF assms(2) l3] by blast
  have l4: "length (new_alarm c4) = ALM_COUNT" using c4(2) l3 by (simp add: same_inputs_def)
  obtain c5 where c5: "put_alarm A_HW_FPGA_HALT 1 1 ALM_OFF c4 = (True, c5)" "same_inputs c4 c5"
    "\<forall>j < ALM_COUNT. new_alarm c5 ! j = (if pAlmInxTbl ! j = (SNMP_ALM_ID A_HW_FPGA_HALT, 1, 1) then ALM_OFF else new_alarm c4 ! j)"
    using put_alarm_exact[OF sys_rows(1) l4] by blast
  have run: "CollectAlarm env c = (True, c5)"
    by (simp add: CollectAlarm_def c1(1) c2(1) c3(1) c4(1) c5(1) SID_SYS_PORT_def)
  have i1: "bids c1 = bids c" "port_alarm c1 = port_alarm c" "phase_row c2 = phase_row c" "phase_alarm c2 f = phase_alarm c f"
    using c1(2) c2(2) by (auto simp: same_inputs_def port_alarm_def phase_row_def phase_alarm_def fun_eq_iff)
  have "new_alarm c5 ! j = alarm_value env f c j" if j: "j < ALM_COUNT" for j
  proof -
    obtain i slot port where row: "pAlmInxTbl ! j = (i, slot, port)" by (cases "pAlmInxTbl ! j")
    have m: "(i, slot, port) \<in> set pAlmInxTbl" using j row nth_mem[of j pAlmInxTbl] by (simp add: alm_count(2))
    have sys: "slot = 1 \<and> port = 1" if "i \<in> {SNMP_ALM_ID A_HW_FPGA_HALT, SNMP_ALM_ID A_NTP_EXIT, SNMP_ALM_ID A_RB_UNLOCK, SNMP_ALM_ID A_XO_UNLOCK}"
      using sys_only(1)[OF m] that alm_types by (auto simp: alm_type_def)
    have pwr: "(slot = 1 \<or> slot = 2) \<and> port = 1" if "i = SNMP_ALM_ID A_EXT_PWR_INPUT"
      using sys_only(2)[OF m] that alm_types by (auto simp: alm_type_def)
    have port: "1 \<le> port" using m row_range[of i slot port] by simp
    have ty: "i \<in> set thrsd_alarms \<Longrightarrow> alm_type_of i = SMP_SID_SUB_IN" by (rule threshold_types)
    have nty: "alm_type_of (SNMP_ALM_ID A_LINK_DOWN) \<noteq> SMP_SID_SUB_IN" "alm_type_of (SNMP_ALM_ID A_LINK_DOWN) \<noteq> SMP_SID_SUB_SAT"
      using alm_types(6) sub_types by (simp_all add: alm_type_def)
    note v1 = c1(4)[rule_format, OF j, unfolded index_type_def row fst_conv]
    note v2 = c2(4)[rule_format, OF j, unfolded find_port row prod.case i1]
    note v3 = c3(4)[rule_format, OF j, unfolded row fst_conv i1]
    note v4 = c4(3)[rule_format, OF j, unfolded row]
    note v5 = c5(3)[rule_format, OF j, unfolded row]
    have sc: "sema_calls c3 = sema_calls c + 4" using c3(3) c2(3) c1(3) by simp
    have notlink: "new_alarm c2 ! j = new_alarm c1 ! j" if "i \<noteq> SNMP_ALM_ID A_LINK_DOWN" using v2 that by simp
    consider "i \<in> {SNMP_ALM_ID A_HW_FPGA_HALT, SNMP_ALM_ID A_NTP_EXIT, SNMP_ALM_ID A_RB_UNLOCK, SNMP_ALM_ID A_XO_UNLOCK}"
      | "i \<notin> {SNMP_ALM_ID A_HW_FPGA_HALT, SNMP_ALM_ID A_NTP_EXIT, SNMP_ALM_ID A_RB_UNLOCK, SNMP_ALM_ID A_XO_UNLOCK}"
        "phase_row c = Some (i, slot, port) \<or> i \<in> set thrsd_alarms"
      | "i \<notin> {SNMP_ALM_ID A_HW_FPGA_HALT, SNMP_ALM_ID A_NTP_EXIT, SNMP_ALM_ID A_RB_UNLOCK, SNMP_ALM_ID A_XO_UNLOCK}"
        "phase_row c \<noteq> Some (i, slot, port)" "i \<notin> set thrsd_alarms"
      by blast
    then show ?thesis
    proof cases
      case 1
      then have "slot = 1" "port = 1" using sys by simp_all
      then show ?thesis using 1 v5 v4 v3 sc by (auto simp: alarm_value_def row)
    next
      case 2
      then have "new_alarm c5 ! j = new_alarm c3 ! j" using v5 v4 by simp
      then show ?thesis using 2 v3 by (auto simp: alarm_value_def row)
    next
      case 3
      then have c: "new_alarm c5 ! j = (if (i, slot, port) = (SNMP_ALM_ID A_EXT_PWR_INPUT, 1, 1) then power_alarm f 1
           else if (i, slot, port) = (SNMP_ALM_ID A_EXT_PWR_INPUT, 2, 1) then power_alarm f 2 else new_alarm c2 ! j)"
        using v5 v4 v3 by simp
      show ?thesis
      proof (cases "i = SNMP_ALM_ID A_EXT_PWR_INPUT")
        case True
        then show ?thesis using 3 c pwr by (auto simp: alarm_value_def row)
      next
        case False
        then have c2v: "new_alarm c5 ! j = new_alarm c2 ! j" using c by simp
        show ?thesis
        proof (cases "i = SNMP_ALM_ID A_LINK_DOWN")
          case True
          then show ?thesis using 3 c2v v2 v1 port nty by (auto simp: alarm_value_def row)
        next
          case nl: False
          then show ?thesis using 3 False c2v notlink v1 by (auto simp: alarm_value_def row)
        qed
      qed
    qed
  qed
  then show ?thesis using run c5(2) l4 by (intro exI[of _ c5]) (simp add: same_inputs_def)
qed

text \<open>
  C18: with a working FPGA and working semaphores the collection succeeds, and every one of the 651 alarms
  of the index table has the value that belongs to its identifier, slot and port: the state of the
  FPGA, of the NTP process, of the clocks, the phase against its threshold, the power, the links of
  the NTP boards, and what the input process found. The clocks count as locked in the state 4 only, so the alarm that they
  are not is also on in the states above it, which \<^verbatim>\<open>addr.h\<close> documents as locked.
\<close>

theorem collect_exact:
  assumes "driver_inputs (ae_fpga env) (\<lambda>reqs. f)" "\<forall>n. ae_sema env n" "length (new_alarm c) = ALM_COUNT"
  shows "\<exists>c'. CollectAlarm env c = (True, c') \<and> length (new_alarm c') = ALM_COUNT
    \<and> (\<forall>j < ALM_COUNT. new_alarm c' ! j = alarm_value env f c j)"
  using collect_value[OF assms] by blast

text \<open>
  While a 1PPS source of a slot is in use, the alarm that its signal is lost tells whether the phase
  of the system exceeds the threshold; what the input process found is replaced, so a lost signal
  with a small phase raises no alarm.
\<close>

theorem signal_loss_replaced:
  assumes "driver_inputs (ae_fpga env) (\<lambda>reqs. f)" "\<forall>n. ae_sema env n" "length (new_alarm c) = ALM_COUNT"
    "sc_type (refsrc c) = S1PPS_SOURCE_TYPE" "sc_slot (refsrc c) = slot" "1 \<le> slot" "slot \<le> 4"
  shows "\<exists>j c'. FIND_ALMINX_BY_SLOT_PORT_ID (SNMP_ALM_ID A_1PPS_IN_LOS) slot (int RTF_PORT_1PPS) (- 1) = int j
    \<and> CollectAlarm env c = (True, c') \<and> new_alarm c' ! j = (if \<bar>phase_of f\<bar> > Threshold c then ALM_ON else ALM_OFF)"
proof -
  let ?k = "FIND_ALMINX_BY_SLOT_PORT_ID (SNMP_ALM_ID A_1PPS_IN_LOS) slot (int RTF_PORT_1PPS) (- 1)"
  have "?k \<noteq> - 1" using assms(6,7)
    by (intro find_alm_found) (simp add: in_alarm_table gAlmIdTbl_def alarm_subs_eq sub_values RTF_PORT_1PPS_def)
  then have k: "0 \<le> ?k" "?k < int ALM_COUNT" "pAlmInxTbl ! nat ?k = (SNMP_ALM_ID A_1PPS_IN_LOS, slot, int RTF_PORT_1PPS)"
    using find_alm[of _ _ _ ?k] by auto
  obtain c' where c': "CollectAlarm env c = (True, c')" "\<forall>j < ALM_COUNT. new_alarm c' ! j = alarm_value env f c j"
    using collect_value[OF assms(1-3)] by blast
  have "threshold_alarm S1PPS_SOURCE_TYPE b = Some (A_1PPS_IN_LOS, int RTF_PORT_1PPS)" for b
    by (simp add: threshold_alarm_def S1PPS_SOURCE_TYPE_def GPS_SOURCE_TYPE_def S2MH_SOURCE_TYPE_def S2MB_SOURCE_TYPE_def
      IRIGB1_SOURCE_TYPE_def IRIGB2_SOURCE_TYPE_def TOD_SOURCE_TYPE_def S10MH1_SOURCE_TYPE_def S10MH2_SOURCE_TYPE_def)
  then have "alarm_value env f c (nat ?k) = phase_alarm c f"
    using k(3) assms(4,5) by (simp add: alarm_value_def phase_row_def)
  then show ?thesis using k c' by (intro exI[of _ "nat ?k"] exI[of _ c']) (simp add: phase_alarm_def alarm_when_def)
qed

section \<open>A run\<close>

definition still_env :: almEnv where
  "still_env = alm_env None"

lemma still_env_ok: "driver_inputs (ae_fpga still_env) (\<lambda>reqs a. 0)" "\<forall>n. ae_sema still_env n"
  by (simp_all add: still_env_def alm_env_def driver_inputs_def)

definition pps_ctx :: almCtx where
  "pps_ctx = one_alarm\<lparr>refsrc := \<lparr>sc_type = S1PPS_SOURCE_TYPE, sc_slot = 1, sc_port = 2, sc_bid = BID_RTF, sc_valid = 1\<rparr>\<rparr>"

lemma pps_ctx_fields: "length (new_alarm pps_ctx) = ALM_COUNT" "sc_type (refsrc pps_ctx) = S1PPS_SOURCE_TYPE"
  "sc_slot (refsrc pps_ctx) = 1"
  by (simp_all add: pps_ctx_def one_alarm_fields)

lemma collect_exact_witness:
  "\<exists>c'. CollectAlarm still_env pps_ctx = (True, c') \<and> (\<forall>j < ALM_COUNT. new_alarm c' ! j = alarm_value still_env (\<lambda>a. 0) pps_ctx j)"
  using collect_exact[OF still_env_ok pps_ctx_fields(1)] by blast

lemma signal_loss_replaced_witness:
  "\<exists>j c'. FIND_ALMINX_BY_SLOT_PORT_ID (SNMP_ALM_ID A_1PPS_IN_LOS) 1 (int RTF_PORT_1PPS) (- 1) = int j
    \<and> CollectAlarm still_env pps_ctx = (True, c') \<and> new_alarm c' ! j = ALM_OFF"
proof -
  have "phase_of (\<lambda>a. 0) = 0" by code_simp
  moreover have "Threshold pps_ctx = 8388607"
    by (simp add: pps_ctx_def one_alarm_def alm_start_def initializeContext_def THRESHOLD_PHVALUE_INIT_def)
  ultimately show ?thesis
    using signal_loss_replaced[OF still_env_ok pps_ctx_fields] by simp
qed

end
