(* ===== verification/InProcess.thy ===== *)
theory InProcess
  imports InSource EventFlags FpgaInputs
begin

unbundle bit_operations_syntax

text \<open>
  What the passes of the input process have besides the choice of the source: the satellites, the
  marks of the events, the leap second and the counters of the stability of the source
  (\<^verbatim>\<open>din_context.h\<close> and the static variables of \<^verbatim>\<open>din_ctrl.c\<close>).
\<close>

section \<open>State\<close>

text \<open>\<open>lp_second\<close> is signed, of eight bits.\<close>

record leapinfo =
  lp_forecast :: int
  lp_state :: int
  lp_time :: timeinfo
  lp_second :: int
  lp_mode :: int

text \<open>What a board with a receiver reports of its satellites.\<close>

record satsta =
  satellite_valid :: int
  satellite_state :: int
  sat_leaptime :: timeinfo
  sat_leapstate :: int
  sat_leapSecond :: int

record inProc =
  ic :: inCtx
  sats :: "satsta list"
  ievnts :: "evnt_inx list"
  itimes :: nat
  isema :: nat
  refsrc_is_valid :: int
  lp_old :: leapinfo
  lp_new :: leapinfo
  lp_set :: leapinfo
  pps_count :: int
  leapForecast_old :: int
  leapForecast_new :: int
  alm_num :: int
  unalm_num :: int
  old_schema :: int
  pre_clock_state :: int
  issued :: "leapinfo list"
  shared_cs :: "(schemainfo \<times> int) option"
  shared_leap :: "leapinfo option"

text \<open>
  The FPGA, the clock and the semaphore; \<open>ie_tmp\<close> is the value of a local variable before it is set.
\<close>

record inEnv =
  ie_fpga :: driver
  ie_time :: "nat \<Rightarrow> timeinfo option"
  ie_sema :: "nat \<Rightarrow> bool"
  ie_tmp :: int

definition GET_SATELLITE :: int where "GET_SATELLITE = 1"
definition LOSS_SATELLITE :: int where "LOSS_SATELLITE = 2"
definition INIT_SATELLITE :: int where "INIT_SATELLITE = 3"
definition REFSOURCE_VALID :: int where "REFSOURCE_VALID = 1"
definition REFSOURCE_INVALID :: int where "REFSOURCE_INVALID = 2"

definition in_read :: "inEnv \<Rightarrow> int \<Rightarrow> inProc \<Rightarrow> int option \<times> inProc" where
  "in_read env addr p =
     (case FpgaRead (ie_fpga env) addr (reqs (ic p)) of (v, rs) \<Rightarrow> (v, p\<lparr>ic := (ic p)\<lparr>reqs := rs\<rparr>\<rparr>))"

definition in_write :: "inEnv \<Rightarrow> int \<Rightarrow> int \<Rightarrow> inProc \<Rightarrow> bool \<times> inProc" where
  "in_write env addr v p = (case ctx_write (ie_fpga env) addr v (ic p) of (ok, c) \<Rightarrow> (ok, p\<lparr>ic := c\<rparr>))"

definition in_event :: "inEnv \<Rightarrow> int \<Rightarrow> int \<Rightarrow> int \<Rightarrow> int \<Rightarrow> inProc \<Rightarrow> inProc" where
  "in_event env i slot port bid p =
     p\<lparr>ievnts := SET_EVNTFLAGVALID_BID_BY_SLOT_PORT_ID i slot port bid (ie_time env (itimes p)) (ievnts p),
       itimes := itimes p + 1\<rparr>"

text \<open>An access to the shared memory between \<open>sema_lock\<close> and \<open>sema_unlock\<close>.\<close>

definition in_locked :: "inEnv \<Rightarrow> (inProc \<Rightarrow> inProc) \<Rightarrow> inProc \<Rightarrow> bool \<times> inProc" where
  "in_locked env f p =
     (let n = isema p; p = p\<lparr>isema := n + 1\<rparr>
      in if ie_sema env n then (ie_sema env (n + 1), (f p)\<lparr>isema := n + 2\<rparr>) else (False, p))"

definition board_at :: "inProc \<Rightarrow> int \<Rightarrow> int" where
  "board_at p slot = boardId (slot_sta (ic p) slot)"

definition sat_at :: "inProc \<Rightarrow> int \<Rightarrow> satsta" where
  "sat_at p slot = sats p ! nat (slot - 1)"

definition sat_board :: "int \<Rightarrow> bool" where
  "sat_board bid \<longleftrightarrow> BID_GPSBF \<le> bid \<and> bid \<le> BID_BFFI"

section \<open>Registers\<close>

definition FPGA_IN_SIGNAL :: "int \<Rightarrow> int" where "FPGA_IN_SIGNAL slot = FPGA_IN_BDTYPE_COMMON slot 0x00"
definition FPGA_IN_2MB_ALM :: "int \<Rightarrow> int" where "FPGA_IN_2MB_ALM slot = FPGA_IN_PRIV_ADDR slot 2 0x01"
definition FPGA_IN_NTP_IN_TIME_VAILD :: "int \<Rightarrow> int" where
  "FPGA_IN_NTP_IN_TIME_VAILD slot = FPGA_IN_PRIV_ADDR slot 13 0x02"
definition FPGA_IN_IRIGB1_LPS :: "int \<Rightarrow> int" where "FPGA_IN_IRIGB1_LPS slot = FPGA_IN_PRIV_ADDR slot 1 0x12"
definition FPGA_IN_TOD_LEAP :: "int \<Rightarrow> int" where "FPGA_IN_TOD_LEAP slot = FPGA_IN_PRIV_ADDR slot 11 0x00"
definition FPGA_BID_S01_TO_S16 :: "int \<Rightarrow> int" where "FPGA_BID_S01_TO_S16 i = FPGA_SYS2_COMMON (0x0011 + i)"

section \<open>Boards\<close>

text \<open>Two boards in a register; an unknown one is none.\<close>

definition set_board :: "int \<Rightarrow> int \<Rightarrow> inProc \<Rightarrow> inProc" where
  "set_board i v p =
     p\<lparr>ic := (ic p)\<lparr>inSta := (inSta (ic p))[nat i := (inSta (ic p) ! nat i)
        \<lparr>boardId := (if BID_ARRAY_SIZE \<le> v then 0 else v)\<rparr>]\<rparr>\<rparr>"

fun read_boards :: "inEnv \<Rightarrow> int list \<Rightarrow> inProc \<Rightarrow> bool \<times> inProc" where
  "read_boards env [] p = (True, p)"
| "read_boards env (j # js) p =
     (case in_read env (FPGA_BID_S01_TO_S16 j) p of
        (None, p) \<Rightarrow> (False, p)
      | (Some temp, p) \<Rightarrow>
          read_boards env js (set_board (2 * j + 1) (temp AND 0x00FF) (set_board (2 * j) (drop_bit 8 temp AND 0x00FF) p)))"

definition ReadBidFromFpga_in :: "inEnv \<Rightarrow> inProc \<Rightarrow> bool \<times> inProc" where
  "ReadBidFromFpga_in env p = read_boards env [0, 1] p"

end
