(* ===== verification/InAlarm.thy ===== *)
theory InAlarm
  imports InProcess
begin

unbundle bit_operations_syntax

text \<open>
  The alarms of the inputs and the lamps of the front panel, \<^verbatim>\<open>src/d-input/din_alarm.c\<close>.
\<close>

section \<open>The alarms\<close>

definition alm_sta_of :: "bool \<Rightarrow> int" where
  "alm_sta_of b = (if b then ALM_ON else ALM_OFF)"

definition set_in_alarm :: "int \<Rightarrow> int \<Rightarrow> inProc \<Rightarrow> inProc" where
  "set_in_alarm i v p = p\<lparr>ic := (ic p)\<lparr>alarm := (alarm (ic p))[nat i := v]\<rparr>\<rparr>"

definition in_alarm :: "int \<Rightarrow> alm_name \<times> nat \<times> int \<Rightarrow> inProc \<Rightarrow> bool \<times> inProc" where
  "in_alarm slot = (\<lambda>(a, port, v) p.
     let i = FIND_ALMINX_BY_SLOT_PORT_ID (SNMP_ALM_ID a) slot (int port) (- 1)
     in if i = - 1 then (False, p) else (True, set_in_alarm i v p))"

fun in_alarms :: "int \<Rightarrow> (alm_name \<times> nat \<times> int) list \<Rightarrow> inProc \<Rightarrow> bool \<times> inProc" where
  "in_alarms slot [] p = (True, p)"
| "in_alarms slot (a # as) p = pair_then (in_alarm slot a p) (in_alarms slot as)"

text \<open>The four signals of a board with a receiver.\<close>

definition signal_alarms :: "int \<Rightarrow> (alm_name \<times> nat \<times> int) list" where
  "signal_alarms alm =
     [(A_2MB_IN_LOS, SAT_PORT_2MB, alm_sta_of (bit alm 0)), (A_2MHZ_IN_LOS, SAT_PORT_2MH, alm_sta_of (bit alm 1)),
      (A_IRIGB_IN_LOS, SAT_PORT_IRIGB1, alm_sta_of (bit alm 2)),
      (A_IRIGB_IN_LOS, SAT_PORT_IRIGB2, alm_sta_of (bit alm 3))]"

text \<open>The alarm of the time signal of a board: that of the bit 4.\<close>

definition time_signals :: "(alm_name \<times> nat) list" where
  "time_signals = [(A_GPBD_SGN_LOS, 1), (A_PTP_IN_LOS, 1), (A_1PPS_TOD_IN_LOS, RTF_PORT_1PPS_TOD), (A_NTP_IN_LOS, 1)]"

definition time_alarm :: "inEnv \<Rightarrow> int \<Rightarrow> int \<Rightarrow> inProc \<Rightarrow> bool \<times> inProc" where
  "time_alarm env alm slot p =
     (let bid = board_at p slot;
          inx = (\<lambda>(a, port). FIND_ALMINX_BY_SLOT_PORT_ID (SNMP_ALM_ID a) slot (int port) (- 1))
      in if \<exists>s \<in> set time_signals. inx s = - 1 then (False, p)
         else if bit alm 4 then
           (if sat_board bid then (True, set_in_alarm (inx (A_GPBD_SGN_LOS, 1)) ALM_ON p)
            else if bid = BID_PTP_IN then (True, set_in_alarm (inx (A_PTP_IN_LOS, 1)) ALM_ON p)
            else if bid = BID_RTF then (True, set_in_alarm (inx (A_1PPS_TOD_IN_LOS, RTF_PORT_1PPS_TOD)) ALM_ON p)
            else if bid = BID_NTP_IN then (True, set_in_alarm (inx (A_NTP_IN_LOS, 1)) ALM_ON p)
            else (True, p))
         else
           (if sat_board bid then (True, set_in_alarm (inx (A_GPBD_SGN_LOS, 1)) ALM_OFF p)
            else if bid = BID_PTP_IN then (True, set_in_alarm (inx (A_PTP_IN_LOS, 1)) ALM_OFF p)
            else if bid = BID_RTF then (True, set_in_alarm (inx (A_1PPS_TOD_IN_LOS, RTF_PORT_1PPS_TOD)) ALM_OFF p)
            else if bid = BID_NTP_IN then
              (case in_read env (FPGA_IN_NTP_IN_TIME_VAILD slot) p of
                 (None, p) \<Rightarrow> (False, p)
               | (Some valid, p) \<Rightarrow> (True, set_in_alarm (inx (A_NTP_IN_LOS, 1)) (alm_sta_of (valid \<noteq> 1)) p))
            else (True, p)))"

definition rtf_alarms :: "int \<Rightarrow> (alm_name \<times> nat \<times> int) list" where
  "rtf_alarms alm =
     [(A_10MHZ_IN_LOS, RTF_PORT_10MH1, alm_sta_of (bit alm 6)), (A_10MHZ_IN_LOS, RTF_PORT_10MH2, alm_sta_of (bit alm 7)),
      (A_1PPS_IN_LOS, RTF_PORT_1PPS, alm_sta_of (bit alm 5))]"

definition mb_alarms :: "int \<Rightarrow> (alm_name \<times> nat \<times> int) list" where
  "mb_alarms alm =
     [(A_2MB_BPV, SAT_PORT_2MB, alm_sta_of (bit alm 0)), (A_2MB_AIS, SAT_PORT_2MB, alm_sta_of (bit alm 1)),
      (A_2MB_CRC, SAT_PORT_2MB, alm_sta_of (bit alm 3)), (A_2MB_LOF, SAT_PORT_2MB, alm_sta_of (bit alm 2))]"

text \<open>The degraded reception, with its event, and the antenna.\<close>

definition receiver_alarms :: "inEnv \<Rightarrow> int \<Rightarrow> inProc \<Rightarrow> bool \<times> inProc" where
  "receiver_alarms env slot p =
     (let i = FIND_ALMINX_BY_SLOT_PORT_ID (SNMP_ALM_ID A_GPBD_SGN_DGD) slot 1 (- 1)
      in if i = - 1 then (False, p)
         else (let p = (if satellite_state (sat_at p slot) = 0 \<and> satellite_valid (sat_at p slot) = GET_SATELLITE
                        then set_in_alarm i ALM_ON (in_event env (SNMP_EVNT_ID E_SAT_LNUM) slot 1 (board_at p slot) p)
                        else set_in_alarm i ALM_OFF p);
                   ant = antenna_state (slot_sta (ic p) slot)
               in in_alarms slot [(A_ANT_SHORT, 1, alm_sta_of (ant = SATELLITE_ANTENNA_LOOP)),
                    (A_ANT_OPEN, 1, alm_sta_of (ant = SATELLITE_ANTENNA_OPEN))] p))"

definition read_slot_alarms :: "inEnv \<Rightarrow> int \<Rightarrow> inProc \<Rightarrow> bool \<times> inProc" where
  "read_slot_alarms env slot p =
     (case in_read env (FPGA_IN_SIGNAL slot) p of
        (None, p) \<Rightarrow> (False, p)
      | (Some alm, p) \<Rightarrow>
          pair_then (if sat_board (board_at p slot) then in_alarms slot (signal_alarms alm) p else (True, p)) (\<lambda>p.
          pair_then (time_alarm env alm slot p) (\<lambda>p.
          pair_then (if board_at p slot = BID_RTF then in_alarms slot (rtf_alarms alm) p else (True, p)) (\<lambda>p.
            if sat_board (board_at p slot) then
              (case in_read env (FPGA_IN_2MB_ALM slot) p of
                 (None, p) \<Rightarrow> (False, p)
               | (Some alm, p) \<Rightarrow> pair_then (in_alarms slot (mb_alarms alm) p) (receiver_alarms env slot))
            else (True, p)))))"

fun read_alarms :: "inEnv \<Rightarrow> int list \<Rightarrow> inProc \<Rightarrow> bool \<times> inProc" where
  "read_alarms env [] p = (True, p)"
| "read_alarms env (slot # slots) p = pair_then (read_slot_alarms env slot p) (read_alarms env slots)"

definition ReadAlarm :: "inEnv \<Rightarrow> inProc \<Rightarrow> bool \<times> inProc" where
  "ReadAlarm env p = read_alarms env [1..INPUT_SLOT_CURSOR_ARRAY_SIZE] p"

section \<open>The lamps\<close>

definition ledBd :: "inEnv \<Rightarrow> int \<Rightarrow> inProc \<Rightarrow> bool \<times> inProc" where
  "ledBd env v p = in_write env FPGA_LED_BD v p"
definition ledGps :: "inEnv \<Rightarrow> int \<Rightarrow> inProc \<Rightarrow> bool \<times> inProc" where
  "ledGps env v p = in_write env FPGA_LED_GPS v p"
definition ledIrigb :: "inEnv \<Rightarrow> int \<Rightarrow> inProc \<Rightarrow> bool \<times> inProc" where
  "ledIrigb env v p = in_write env FPGA_LED_IRIGB v p"
definition ledFreq :: "inEnv \<Rightarrow> int \<Rightarrow> inProc \<Rightarrow> bool \<times> inProc" where
  "ledFreq env v p = in_write env FPGA_LED_FREQ v p"

text \<open>The lamp of a satellite system: on when a receiver has satellites, alternating when one with the modes is the source.\<close>

definition sat_led :: "inProc \<Rightarrow> int set \<Rightarrow> int" where
  "sat_led p modes =
     (let led = (if \<exists>s \<in> {1..INPUT_SLOT_CURSOR_ARRAY_SIZE}. satellite_valid (sat_at p s) = GET_SATELLITE
                 then LED_ON else LED_OFF)
      in if sc_type (cs (ic p)) = GPS_SOURCE_TYPE \<and>
            (\<exists>s \<in> {1..INPUT_SLOT_CURSOR_ARRAY_SIZE}. satellite_valid (sat_at p s) = GET_SATELLITE
               \<and> sys_mode (slot_sta (ic p) s) \<in> modes)
         then LED_ALT else led)"

text \<open>The state of an alarm, with no value for one that is not in the index table.\<close>

definition in_alarm_at :: "inProc \<Rightarrow> int \<Rightarrow> alm_name \<Rightarrow> nat \<Rightarrow> int option" where
  "in_alarm_at p slot a port =
     (let i = FIND_ALMINX_BY_SLOT_PORT_ID (SNMP_ALM_ID a) slot (int port) (- 1)
      in if i = - 1 then None else Some (alarm (ic p) ! nat i))"

fun irigb_valid :: "inProc \<Rightarrow> int list \<Rightarrow> bool option" where
  "irigb_valid p [] = Some False"
| "irigb_valid p (slot # slots) =
     (if sat_board (board_at p slot) then
        (case in_alarm_at p slot A_IRIGB_IN_LOS SAT_PORT_IRIGB1 of None \<Rightarrow> None | Some a1 \<Rightarrow>
        (case in_alarm_at p slot A_IRIGB_IN_LOS SAT_PORT_IRIGB2 of None \<Rightarrow> None | Some a2 \<Rightarrow>
           if a1 = ALM_OFF \<or> a2 = ALM_OFF then Some True else irigb_valid p slots))
      else irigb_valid p slots)"

text \<open>Alarms looked at in turn: the first that is off ends the search, or all are looked at.\<close>

fun any_off :: "inProc \<Rightarrow> int \<Rightarrow> (alm_name \<times> nat) list \<Rightarrow> bool option" where
  "any_off p slot [] = Some False"
| "any_off p slot ((a, port) # as) =
     (case in_alarm_at p slot a port of None \<Rightarrow> None
      | Some v \<Rightarrow> if v = ALM_OFF then Some True else any_off p slot as)"

fun none_on :: "inProc \<Rightarrow> int \<Rightarrow> (alm_name \<times> nat) list \<Rightarrow> bool \<Rightarrow> bool option" where
  "none_on p slot [] b = Some b"
| "none_on p slot ((a, port) # as) b =
     (case in_alarm_at p slot a port of None \<Rightarrow> None | Some v \<Rightarrow> none_on p slot as (b \<and> v \<noteq> ALM_ON))"

definition slot_freq :: "inProc \<Rightarrow> int \<Rightarrow> bool option" where
  "slot_freq p slot =
     (if sat_board (board_at p slot) then
        (case any_off p slot [(A_2MHZ_IN_LOS, SAT_PORT_2MH)] of
           None \<Rightarrow> None
         | Some True \<Rightarrow> Some True
         | Some False \<Rightarrow> none_on p slot [(A_2MB_IN_LOS, SAT_PORT_2MB), (A_2MB_AIS, SAT_PORT_2MB), (A_2MB_BPV, SAT_PORT_2MB),
             (A_2MB_CRC, SAT_PORT_2MB), (A_2MB_LOF, SAT_PORT_2MB)] True)
      else if board_at p slot = BID_RTF then
        any_off p slot [(A_10MHZ_IN_LOS, RTF_PORT_10MH1), (A_10MHZ_IN_LOS, RTF_PORT_10MH2), (A_1PPS_IN_LOS, RTF_PORT_1PPS)]
      else Some False)"

fun freq_valid :: "inProc \<Rightarrow> int list \<Rightarrow> bool \<Rightarrow> bool option" where
  "freq_valid p [] b = Some b"
| "freq_valid p (slot # slots) b =
     (case slot_freq p slot of None \<Rightarrow> None | Some v \<Rightarrow> freq_valid p slots (b \<or> v))"

definition signal_led :: "bool \<Rightarrow> bool \<Rightarrow> int" where
  "signal_led valid used = (if valid \<and> used then LED_ALT else if valid then LED_ON else LED_OFF)"

definition ledCtrl_in :: "inEnv \<Rightarrow> inProc \<Rightarrow> bool \<times> inProc" where
  "ledCtrl_in env p =
     pair_then (ledBd env (sat_led p {MODE_CURSOR_BD_VAL, MODE_CURSOR_MIX_BD_VAL}) p) (\<lambda>p.
     pair_then (ledGps env (sat_led p {MODE_CURSOR_GPS_VAL, MODE_CURSOR_MIX_GPS_VAL}) p) (\<lambda>p.
       case irigb_valid p [1..INPUT_SLOT_CURSOR_ARRAY_SIZE] of
         None \<Rightarrow> (False, p)
       | Some v \<Rightarrow>
           pair_then (ledIrigb env (signal_led v (sc_type (cs (ic p)) = IRIGB1_SOURCE_TYPE
                        \<or> sc_type (cs (ic p)) = IRIGB2_SOURCE_TYPE)) p) (\<lambda>p.
             case freq_valid p [1..INPUT_SLOT_CURSOR_ARRAY_SIZE] False of
               None \<Rightarrow> (False, p)
             | Some v \<Rightarrow> ledFreq env (signal_led v (sc_flag (cs (ic p)) = FREQ_SOURCE_FLAG)) p)))"

end
