(* ===== verification/InRefresh.thy ===== *)
theory InRefresh
  imports InAlarm
begin

unbundle bit_operations_syntax

text \<open>
  The refreshing of the time by the input process, \<^verbatim>\<open>src/d-input/din_ctrl.c\<close>: the leap second, the
  counters of the stability of the source, and the forecast of a leap second from the receiver.
  \<open>IssueLeapForecast\<close> tells the output process; its result is not looked at.
\<close>

section \<open>The leap second\<close>

definition IssueLeapForecast :: "leapinfo \<Rightarrow> inProc \<Rightarrow> inProc" where
  "IssueLeapForecast lp p = p\<lparr>issued := issued p @ [lp]\<rparr>"

definition timeinfo_zero :: timeinfo where
  "timeinfo_zero = \<lparr>ti_year = 0, ti_days = 0, ti_month = 0, ti_day = 0, ti_hour = 0, ti_minute = 0,
     ti_second = 0, ti_MiliSecond = 0, ti_MicroSecond = 0\<rparr>"

definition leapinfo_0 :: leapinfo where
  "leapinfo_0 = \<lparr>lp_forecast = 0, lp_state = 0, lp_time = timeinfo_zero, lp_second = 0, lp_mode = 0\<rparr>"

text \<open>The forecast of an IRIG-B source; both inputs are read from the register of the first.\<close>

definition read_irigb_forecast :: "inEnv \<Rightarrow> inProc \<Rightarrow> inProc" where
  "read_irigb_forecast env p =
     (if sc_type (cs (ic p)) = IRIGB1_SOURCE_TYPE \<or> sc_type (cs (ic p)) = IRIGB2_SOURCE_TYPE then
        (case in_read env (FPGA_IN_IRIGB1_LPS (sc_slot (cs (ic p)))) p of
           (v, p) \<Rightarrow> p\<lparr>leapForecast_new := (case v of None \<Rightarrow> ie_tmp env | Some v \<Rightarrow> v) AND BIT 0\<rparr>)
      else p)"

definition in_irigb_leap :: "inProc \<Rightarrow> int \<times> inProc" where
  "in_irigb_leap p =
     (if leapForecast_new p = 0 \<and> leapForecast_old p = 1 then (1, p\<lparr>leapForecast_old := leapForecast_new p\<rparr>) else (0, p))"

text \<open>The sources that have no leap second of their own, and keep the last one.\<close>

definition no_own_leap :: "int \<Rightarrow> bool" where
  "no_own_leap t \<longleftrightarrow> t \<in> {S2MH_SOURCE_TYPE, S2MB_SOURCE_TYPE, IRIGB1_SOURCE_TYPE, IRIGB2_SOURCE_TYPE,
     S10MH1_SOURCE_TYPE, S10MH2_SOURCE_TYPE, S1PPS_SOURCE_TYPE, NTP_SOURCE_TYPE}"

text \<open>The leap second to use: the one that is set, or that of the source.\<close>

definition auto_leap :: "inEnv \<Rightarrow> int \<Rightarrow> leapinfo \<Rightarrow> inProc \<Rightarrow> leapinfo option \<times> inProc" where
  "auto_leap env leap real p =
     (let t = sc_type (cs (ic p))
      in if t = TOD_SOURCE_TYPE then
           (if sc_slot (cs (ic p)) \<le> 0 \<or> INPUT_SLOT_CURSOR_ARRAY_SIZE < sc_slot (cs (ic p)) then (None, p)
            else (case in_read env (FPGA_IN_TOD_LEAP (sc_slot (cs (ic p)))) p of
                    (None, p) \<Rightarrow> (None, p)
                  | (Some v, p) \<Rightarrow>
                      (let s = s8 (v AND 0x00ff)
                       in (Some (real\<lparr>lp_second := s\<rparr>), p\<lparr>lp_new := (lp_new p)\<lparr>lp_second := s\<rparr>\<rparr>))))
         else if t = GPS_SOURCE_TYPE then (Some (lp_new p), p)
         else if no_own_leap t then
           (let s = (if leap = 1 then s8 (lp_second (lp_old p) + 1) else lp_second (lp_old p));
                n = (lp_new p)\<lparr>lp_second := s\<rparr>
            in (Some n, p\<lparr>lp_new := n\<rparr>))
         else (Some real, p))"

definition real_leap :: "inEnv \<Rightarrow> inProc \<Rightarrow> leapinfo option \<times> inProc" where
  "real_leap env p =
     (case in_irigb_leap (read_irigb_forecast env p) of
        (leap, p) \<Rightarrow>
          (let real = leapinfo_0\<lparr>lp_mode := lp_mode (lp_set p), lp_second := lp_second (lp_old p)\<rparr>
           in if lp_mode (lp_set p) = 1 then
                (let p = (if leap = 1 then p\<lparr>lp_set := (lp_set p)\<lparr>lp_second := s8 (lp_second (lp_set p) + 1)\<rparr>\<rparr> else p)
                 in (Some (real\<lparr>lp_second := lp_second (lp_set p)\<rparr>), p))
              else
                (case auto_leap env leap real p of
                   (None, p) \<Rightarrow> (None, p)
                 | (Some real, p) \<Rightarrow>
                     (Some real, if lp_second (lp_old p) \<noteq> lp_second real
                                 then in_event env (SNMP_EVNT_ID E_SYSLEAP_UPDATE) SID_SYS_SLOT SID_SYS_PORT BID_NONE p
                                 else p))))"

section \<open>The stability of the source\<close>

definition source_alarm_port :: "int \<Rightarrow> int \<Rightarrow> (alm_name \<times> nat) option" where
  "source_alarm_port t bid =
     (if t = GPS_SOURCE_TYPE then Some (A_GPBD_SGN_LOS, SAT_PORT_SAT)
      else if t = S2MH_SOURCE_TYPE then Some (A_2MHZ_IN_LOS, SAT_PORT_2MH)
      else if t = S2MB_SOURCE_TYPE then Some (A_2MB_IN_LOS, SAT_PORT_2MB)
      else if t = IRIGB1_SOURCE_TYPE then Some (A_IRIGB_IN_LOS, SAT_PORT_IRIGB1)
      else if t = IRIGB2_SOURCE_TYPE then Some (A_IRIGB_IN_LOS, SAT_PORT_IRIGB2)
      else if t = TOD_SOURCE_TYPE then
        (if bid = BID_PTP_IN then Some (A_PTP_IN_LOS, 1)
         else if bid = BID_RTF then Some (A_1PPS_TOD_IN_LOS, RTF_PORT_1PPS_TOD) else None)
      else if t = S10MH1_SOURCE_TYPE then Some (A_10MHZ_IN_LOS, RTF_PORT_10MH1)
      else if t = S10MH2_SOURCE_TYPE then Some (A_10MHZ_IN_LOS, RTF_PORT_10MH2)
      else if t = S1PPS_SOURCE_TYPE then Some (A_1PPS_IN_LOS, RTF_PORT_1PPS)
      else if t = NTP_SOURCE_TYPE then Some (A_NTP_IN_LOS, 1)
      else None)"

text \<open>The alarm of the source; no source, no board or a board without ports counts as an alarm.\<close>

definition source_alarm :: "inProc \<Rightarrow> int" where
  "source_alarm p =
     (let c = cs (ic p);
          alm_inx = (case source_alarm_port (sc_type c) (sc_bid c) of None \<Rightarrow> - 1
            | Some (a, port) \<Rightarrow> FIND_ALMINX_BY_SLOT_PORT_ID (SNMP_ALM_ID a) (sc_slot c) (int port) (- 1));
          a = (if 0 \<le> alm_inx \<and> board_at p (sc_slot c) \<noteq> BID_NONE then alarm (ic p) ! nat alm_inx else ALM_ON)
      in if FIND_PORTATTR_GBATBL_BY_BID (sc_bid c) None = None then ALM_ON else a)"

text \<open>A change of the schema starts the counters anew.\<close>

definition note_schema :: "inProc \<Rightarrow> inProc" where
  "note_schema p =
     (let s = schema (cs (ic p));
          p = (if s \<noteq> old_schema p then p\<lparr>alm_num := 0, unalm_num := 0\<rparr> else p)
      in p\<lparr>old_schema := s\<rparr>)"

definition fresh_time :: "inEnv \<Rightarrow> int \<Rightarrow> inProc \<Rightarrow> bool \<times> inProc" where
  "fresh_time env second p = (case FreshTime (ie_fpga env) second (ic p) of (r, c) \<Rightarrow> (r \<noteq> 0, p\<lparr>ic := c\<rparr>))"

definition count_source :: "inEnv \<Rightarrow> int \<Rightarrow> int \<Rightarrow> inProc \<Rightarrow> bool \<times> inProc" where
  "count_source env port_alm second p =
     (if port_alm = ALM_OFF then
        pair_then
          (if alm_num p = 50 then
             pair_then (in_write env FPGA_SYS_INSRC_VALID 0x0 p) (\<lambda>p. (True, p\<lparr>refsrc_is_valid := REFSOURCE_VALID\<rparr>))
           else if alm_num p = 60 then fresh_time env second p
           else (True, p))
          (\<lambda>p. (True, p\<lparr>unalm_num := 0, alm_num := alm_num p + 1\<rparr>))
      else if port_alm = ALM_ON then
        pair_then
          (if unalm_num p = 60 then in_write env FPGA_SYS_INSRC_VALID 0x01 (p\<lparr>refsrc_is_valid := REFSOURCE_INVALID\<rparr>)
           else (True, p))
          (\<lambda>p. (True, p\<lparr>alm_num := 0, unalm_num := unalm_num p + 1\<rparr>))
      else (True, p))"

text \<open>A change of the leap second or of its mode, and one of the forecast.\<close>

definition change_leap :: "inEnv \<Rightarrow> int \<Rightarrow> leapinfo \<Rightarrow> inProc \<Rightarrow> bool \<times> inProc" where
  "change_leap env port_alm real p =
     (if lp_second (lp_old p) \<noteq> lp_second real \<or> lp_mode (lp_old p) \<noteq> lp_mode real then
        (let p = IssueLeapForecast real p
         in pair_then
              (if port_alm = ALM_OFF \<and> alm_num p > 60 \<and> lp_second (lp_old p) \<noteq> lp_second real
               then fresh_time env (lp_second real) p else (True, p))
              (\<lambda>p. (True, p\<lparr>lp_old := (lp_old p)\<lparr>lp_second := lp_second real, lp_mode := lp_mode real\<rparr>\<rparr>)))
      else (True, p))"

definition change_forecast :: "leapinfo \<Rightarrow> inProc \<Rightarrow> inProc" where
  "change_forecast real p =
     (if lp_forecast (lp_old p) \<noteq> lp_forecast real then
        (IssueLeapForecast real p)\<lparr>lp_old := (lp_old p)\<lparr>lp_forecast := lp_forecast real\<rparr>\<rparr>
      else p)"

text \<open>The clock that locks after the fast mode is given the time again; failures are not looked at.\<close>

definition FlushTimeClockStateToLock :: "inEnv \<Rightarrow> inProc \<Rightarrow> inProc" where
  "FlushTimeClockStateToLock env p =
     (case in_read env FPGA_RBXO_STA p of
        (None, p) \<Rightarrow> p
      | (Some clock_state, p) \<Rightarrow>
          (let p = (if pre_clock_state p = 3 \<and> clock_state = 4
                    then p\<lparr>ic := snd (FreshTime_no_leapSecond (ie_fpga env) (ic p))\<rparr> else p)
           in p\<lparr>pre_clock_state := u8 clock_state\<rparr>))"

definition Time_Refresh_Strategy :: "inEnv \<Rightarrow> inProc \<Rightarrow> bool \<times> inProc" where
  "Time_Refresh_Strategy env p =
     (case real_leap env p of
        (None, p) \<Rightarrow> (False, p)
      | (Some real, p) \<Rightarrow>
          (let port_alm = source_alarm p
           in pair_then (count_source env port_alm (lp_second real) (note_schema p)) (\<lambda>p.
              pair_then (change_leap env port_alm real p) (\<lambda>p.
                (True, FlushTimeClockStateToLock env (change_forecast real p))))))"

section \<open>A pass\<close>

definition WriteInSourceInfoToShareMemory :: "inEnv \<Rightarrow> inProc \<Rightarrow> bool \<times> inProc" where
  "WriteInSourceInfoToShareMemory env = in_locked env (\<lambda>p. p\<lparr>shared_cs := Some (cs (ic p), refsrc_is_valid p)\<rparr>)"

definition WriteLeapToShareMemory :: "inEnv \<Rightarrow> inProc \<Rightarrow> bool \<times> inProc" where
  "WriteLeapToShareMemory env =
     in_locked env (\<lambda>p. p\<lparr>shared_leap := Some (if lp_mode (lp_set p) = 1 then lp_set p else lp_new p)\<rparr>)"

definition Time_Insource_and_Refresh_process :: "inEnv \<Rightarrow> inProc \<Rightarrow> bool \<times> inProc" where
  "Time_Insource_and_Refresh_process env p =
     (case best_input_source (ie_fpga env) (ic p) of
        (r, c) \<Rightarrow>
          (if r \<noteq> 0 then (False, p\<lparr>ic := c\<rparr>)
           else pair_then (Time_Refresh_Strategy env (p\<lparr>ic := c\<rparr>)) (WriteInSourceInfoToShareMemory env)))"

definition leapModeSet :: "leapinfo \<Rightarrow> inProc \<Rightarrow> inProc" where
  "leapModeSet cfg p = p\<lparr>lp_set := cfg\<rparr>"

text \<open>At an interrupt of the second, the leap second of the receiver is taken, and its forecast is held for 59 seconds.\<close>

definition pps_leap :: "inProc \<Rightarrow> inProc" where
  "pps_leap p =
     (if sc_type (cs (ic p)) = GPS_SOURCE_TYPE then
        (let slot = sc_slot (cs (ic p)); s = sat_at p slot;
             p = p\<lparr>lp_new := (lp_new p)\<lparr>lp_time := sat_leaptime s, lp_state := sat_leapstate s, lp_second := sat_leapSecond s\<rparr>,
                   lp_set := (lp_set p)\<lparr>lp_state := sat_leapstate s\<rparr>\<rparr>
         in if sat_leapstate s = 1 then
              (let p = p\<lparr>pps_count := u8 (pps_count p + 1)\<rparr>;
                   p = (if pps_count p = 1 then p\<lparr>lp_new := (lp_new p)\<lparr>lp_forecast := 1\<rparr>\<rparr> else p)
               in if 60 \<le> pps_count p then
                    p\<lparr>lp_new := (lp_new p)\<lparr>lp_forecast := 0\<rparr>, pps_count := 0,
                      sats := (sats p)[nat (slot - 1) := s\<lparr>sat_leapstate := 0\<rparr>]\<rparr>
                  else p)
            else p\<lparr>pps_count := 0\<rparr>)
      else p)"

end
