(* ===== verification/InRefreshSpec.thy ===== *)
theory InRefreshSpec
  imports InRefresh
begin

unbundle bit_operations_syntax

text \<open>
  What the passes of the input process do with a source that comes and goes: when it counts as
  valid, what becomes of its leap second, and how long a forecast is held.
\<close>

section \<open>What the parts of a pass keep\<close>

text \<open>The counters of the stability, which only \<open>count_source\<close> and \<open>note_schema\<close> change.\<close>

definition counters :: "inProc \<Rightarrow> int \<times> int \<times> int \<times> int" where
  "counters p = (alm_num p, unalm_num p, old_schema p, refsrc_is_valid p)"

text \<open>What \<open>source_alarm\<close> looks at.\<close>

definition source_view :: "inProc \<Rightarrow> schemainfo \<times> int list \<times> inputsta list" where
  "source_view p = (cs (ic p), alarm (ic p), inSta (ic p))"

lemma source_alarm_view: "source_view p = source_view q \<Longrightarrow> source_alarm p = source_alarm q"
  by (simp add: source_view_def source_alarm_def board_at_def slot_sta_def Let_def)

lemma in_read_keeps [simp]:
  "counters (snd (in_read env a p)) = counters p" "source_view (snd (in_read env a p)) = source_view p"
  "leapForecast_old (snd (in_read env a p)) = leapForecast_old p" "lp_old (snd (in_read env a p)) = lp_old p"
  "lp_set (snd (in_read env a p)) = lp_set p" "leapForecast_new (snd (in_read env a p)) = leapForecast_new p"
  by (simp_all add: in_read_def counters_def source_view_def split: prod.splits)

lemma in_write_keeps [simp]:
  "counters (snd (in_write env a v p)) = counters p"
  "leapForecast_old (snd (in_write env a v p)) = leapForecast_old p" "lp_old (snd (in_write env a v p)) = lp_old p"
  by (auto simp: in_write_def counters_def ctx_write_def split: prod.splits)

lemma fresh_time_keeps [simp]:
  "counters (snd (fresh_time env s p)) = counters p"
  "leapForecast_old (snd (fresh_time env s p)) = leapForecast_old p" "lp_old (snd (fresh_time env s p)) = lp_old p"
  by (auto simp: fresh_time_def counters_def split: prod.splits)

lemma read_irigb_keeps [simp]:
  "counters (read_irigb_forecast env p) = counters p" "source_view (read_irigb_forecast env p) = source_view p"
  "leapForecast_old (read_irigb_forecast env p) = leapForecast_old p" "lp_old (read_irigb_forecast env p) = lp_old p"
  "lp_set (read_irigb_forecast env p) = lp_set p"
proof -
  let ?r = "in_read env (FPGA_IN_IRIGB1_LPS (sc_slot (cs (ic p)))) p"
  obtain v q where r: "?r = (v, q)" by (cases ?r)
  have "counters q = counters p" "source_view q = source_view p" "leapForecast_old q = leapForecast_old p"
    "lp_old q = lp_old p" "lp_set q = lp_set p"
    using in_read_keeps[of env "FPGA_IN_IRIGB1_LPS (sc_slot (cs (ic p)))" p] by (simp_all add: r)
  then show "counters (read_irigb_forecast env p) = counters p" "source_view (read_irigb_forecast env p) = source_view p"
    "leapForecast_old (read_irigb_forecast env p) = leapForecast_old p" "lp_old (read_irigb_forecast env p) = lp_old p"
    "lp_set (read_irigb_forecast env p) = lp_set p"
    by (auto simp: read_irigb_forecast_def r counters_def source_view_def)
qed

lemma in_irigb_leap_keeps [simp]:
  "counters (snd (in_irigb_leap p)) = counters p" "source_view (snd (in_irigb_leap p)) = source_view p"
  "lp_old (snd (in_irigb_leap p)) = lp_old p" "lp_set (snd (in_irigb_leap p)) = lp_set p"
  by (auto simp: in_irigb_leap_def counters_def source_view_def)

lemma auto_leap_keeps [simp]:
  "counters (snd (auto_leap env l r p)) = counters p" "source_view (snd (auto_leap env l r p)) = source_view p"
  "leapForecast_old (snd (auto_leap env l r p)) = leapForecast_old p" "lp_old (snd (auto_leap env l r p)) = lp_old p"
proof -
  let ?r = "in_read env (FPGA_IN_TOD_LEAP (sc_slot (cs (ic p)))) p"
  obtain v q where r: "?r = (v, q)" by (cases ?r)
  have k: "counters q = counters p" "source_view q = source_view p" "leapForecast_old q = leapForecast_old p"
    "lp_old q = lp_old p"
    using in_read_keeps[of env "FPGA_IN_TOD_LEAP (sc_slot (cs (ic p)))" p] by (simp_all add: r)
  show "counters (snd (auto_leap env l r p)) = counters p" "source_view (snd (auto_leap env l r p)) = source_view p"
    "leapForecast_old (snd (auto_leap env l r p)) = leapForecast_old p" "lp_old (snd (auto_leap env l r p)) = lp_old p"
    using k by (cases v; auto simp: auto_leap_def Let_def r counters_def source_view_def)+
qed

lemma in_event_keeps [simp]:
  "counters (in_event env i s po b p) = counters p" "source_view (in_event env i s po b p) = source_view p"
  "leapForecast_old (in_event env i s po b p) = leapForecast_old p" "lp_old (in_event env i s po b p) = lp_old p"
  by (simp_all add: in_event_def counters_def source_view_def)

lemma real_leap_keeps:
  "counters (snd (real_leap env p)) = counters p" "source_view (snd (real_leap env p)) = source_view p"
  "lp_old (snd (real_leap env p)) = lp_old p"
proof -
  obtain leap q where i: "in_irigb_leap (read_irigb_forecast env p) = (leap, q)"
    by (cases "in_irigb_leap (read_irigb_forecast env p)")
  have k: "counters q = counters p" "source_view q = source_view p" "lp_old q = lp_old p"
    using in_irigb_leap_keeps[of "read_irigb_forecast env p"] by (simp_all add: i)
  define r0 where "r0 = leapinfo_0\<lparr>lp_mode := lp_mode (lp_set q), lp_second := lp_second (lp_old q)\<rparr>"
  obtain r q' where a: "auto_leap env leap r0 q = (r, q')" by (cases "auto_leap env leap r0 q")
  have k': "counters q' = counters p" "source_view q' = source_view p" "lp_old q' = lp_old p"
    using auto_leap_keeps[of env leap r0 q] k by (simp_all add: a)
  define q1 where "q1 = (if leap = 1 then q\<lparr>lp_set := (lp_set q)\<lparr>lp_second := s8 (lp_second (lp_set q) + 1)\<rparr>\<rparr> else q)"
  have k1: "counters q1 = counters p" "source_view q1 = source_view p" "lp_old q1 = lp_old p"
    using k by (auto simp: q1_def counters_def source_view_def)
  have "real_leap env p = (if lp_mode (lp_set q) = 1 then (Some (r0\<lparr>lp_second := lp_second (lp_set q1)\<rparr>), q1)
     else (case r of None \<Rightarrow> (None, q') | Some real \<Rightarrow>
       (Some real, if lp_second (lp_old q') \<noteq> lp_second real
          then in_event env (SNMP_EVNT_ID E_SYSLEAP_UPDATE) SID_SYS_SLOT SID_SYS_PORT BID_NONE q' else q')))"
  proof (cases "lp_mode (lp_set q) = 1")
    case True
    then show ?thesis by (simp add: real_leap_def i Let_def q1_def leapinfo_0_def r0_def)
  next
    case False
    then show ?thesis by (simp add: real_leap_def i Let_def r0_def[symmetric] a split: option.split)
  qed
  then show "counters (snd (real_leap env p)) = counters p" "source_view (snd (real_leap env p)) = source_view p"
    "lp_old (snd (real_leap env p)) = lp_old p"
    using k' k1 by (simp_all split: option.split)
qed

lemma change_leap_keeps: "counters (snd (change_leap env a r p)) = counters p"
proof -
  define p1 where "p1 = IssueLeapForecast r p"
  have c: "counters p1 = counters p" by (simp add: p1_def IssueLeapForecast_def counters_def)
  obtain ok q where f: "fresh_time env (lp_second r) p1 = (ok, q)" by (cases "fresh_time env (lp_second r) p1")
  have "counters q = counters p" using fresh_time_keeps(1)[of env "lp_second r" p1] c by (simp add: f)
  then show ?thesis using c
    by (cases ok) (auto simp: change_leap_def Let_def p1_def[symmetric] f counters_def)
qed

lemma change_forecast_keeps: "counters (change_forecast r p) = counters p"
  by (simp add: change_forecast_def IssueLeapForecast_def counters_def)

lemma flush_keeps: "counters (FlushTimeClockStateToLock env p) = counters p"
proof -
  obtain v q where r: "in_read env FPGA_RBXO_STA p = (v, q)" by (cases "in_read env FPGA_RBXO_STA p")
  have "counters q = counters p" using in_read_keeps(1)[of env FPGA_RBXO_STA p] by (simp add: r)
  then show ?thesis by (auto simp: FlushTimeClockStateToLock_def r counters_def Let_def split: option.split)
qed

text \<open>What a pass does to the counters, given the alarm of the source that it sees.\<close>

definition next_counters :: "int \<Rightarrow> int \<Rightarrow> int \<times> int \<times> int \<times> int \<Rightarrow> int \<times> int \<times> int \<times> int" where
  "next_counters s a = (\<lambda>(n, u, s0, v).
     let n = (if s = s0 then n else 0); u = (if s = s0 then u else 0)
     in if a = ALM_OFF then (n + 1, 0, s, if n = 50 then REFSOURCE_VALID else v)
        else if a = ALM_ON then (0, u + 1, s, if u = 60 then REFSOURCE_INVALID else v)
        else (n, u, s, v))"

lemma count_source_counters:
  assumes "count_source env a second (note_schema p) = (True, q)"
  shows "counters q = next_counters (schema (cs (ic p))) a (counters p)"
proof -
  define p1 where "p1 = note_schema p"
  have c: "counters p1 = (if schema (cs (ic p)) = old_schema p then alm_num p else 0,
      if schema (cs (ic p)) = old_schema p then unalm_num p else 0, schema (cs (ic p)), refsrc_is_valid p)"
    by (auto simp: p1_def note_schema_def counters_def Let_def)
  obtain w1 q1 where w1: "in_write env FPGA_SYS_INSRC_VALID 0x0 p1 = (w1, q1)" by (cases "in_write env FPGA_SYS_INSRC_VALID 0x0 p1")
  obtain w2 q2 where w2: "fresh_time env second p1 = (w2, q2)" by (cases "fresh_time env second p1")
  let ?p2 = "p1\<lparr>refsrc_is_valid := REFSOURCE_INVALID\<rparr>"
  obtain w3 q3 where w3: "in_write env FPGA_SYS_INSRC_VALID 0x01 ?p2 = (w3, q3)" by (cases "in_write env FPGA_SYS_INSRC_VALID 0x01 ?p2")
  have k: "counters q1 = counters p1" "counters q2 = counters p1" "counters q3 = counters ?p2"
    using in_write_keeps(1)[of env FPGA_SYS_INSRC_VALID 0 p1] fresh_time_keeps(1)[of env second p1]
      in_write_keeps(1)[of env FPGA_SYS_INSRC_VALID 1 ?p2] by (simp_all add: w1 w2 w3)
  have on: "ALM_ON \<noteq> ALM_OFF" by (simp add: ALM_ON_def ALM_OFF_def)
  show ?thesis using assms k c on unfolding p1_def[symmetric]
    by (cases w1; cases w2; cases w3)
      (auto simp: count_source_def w1 w2 w3 counters_def next_counters_def split: if_splits)
qed

lemma strategy_counters:
  assumes "Time_Refresh_Strategy env p = (True, q)"
  shows "counters q = next_counters (schema (cs (ic p))) (source_alarm p) (counters p)"
proof -
  obtain r p1 where r: "real_leap env p = (r, p1)" by (cases "real_leap env p")
  from assms r obtain real where real: "r = Some real" by (cases r) (auto simp: Time_Refresh_Strategy_def)
  have k: "counters p1 = counters p" "source_view p1 = source_view p" using real_leap_keeps[of env p] by (simp_all add: r)
  define a where "a = source_alarm p1"
  have a: "a = source_alarm p" unfolding a_def by (rule source_alarm_view[OF k(2)])
  have s: "schema (cs (ic p1)) = schema (cs (ic p))" using k(2) by (simp add: source_view_def)
  obtain ok p2 where c: "count_source env a (lp_second real) (note_schema p1) = (ok, p2)" by (cases "count_source env a (lp_second real) (note_schema p1)")
  obtain ok' p3 where l: "change_leap env a real p2 = (ok', p3)" by (cases "change_leap env a real p2")
  from assms have ok: "ok" "ok'" and q: "q = FlushTimeClockStateToLock env (change_forecast real p3)"
    by (cases ok; cases ok'; simp add: Time_Refresh_Strategy_def r real a_def[symmetric] c l)+
  have "counters q = counters p3" by (simp add: q flush_keeps change_forecast_keeps)
  also have "\<dots> = counters p2" using change_leap_keeps[of env a real p2] by (simp add: l)
  also have "\<dots> = next_counters (schema (cs (ic p))) (source_alarm p) (counters p)"
    using count_source_counters[of env a "lp_second real" p1 p2] c ok(1) by (simp add: s a k(1))
  finally show ?thesis .
qed

section \<open>Sequences of passes\<close>

text \<open>What a pass sees: the schema and the alarm of the source that it has chosen.\<close>

definition seen :: "inEnv \<Rightarrow> inProc \<Rightarrow> int \<times> int" where
  "seen env p = (let p = p\<lparr>ic := snd (best_input_source (ie_fpga env) (ic p))\<rparr> in (schema (cs (ic p)), source_alarm p))"

lemma pass_counters:
  assumes "Time_Insource_and_Refresh_process env p = (True, q)"
  shows "counters q = next_counters (fst (seen env p)) (snd (seen env p)) (counters p)"
proof -
  obtain r c where b: "best_input_source (ie_fpga env) (ic p) = (r, c)" by (cases "best_input_source (ie_fpga env) (ic p)")
  obtain ok p1 where t: "Time_Refresh_Strategy env (p\<lparr>ic := c\<rparr>) = (ok, p1)" by (cases "Time_Refresh_Strategy env (p\<lparr>ic := c\<rparr>)")
  have w: "counters (snd (WriteInSourceInfoToShareMemory env p1)) = counters p1"
    by (simp add: WriteInSourceInfoToShareMemory_def in_locked_def Let_def counters_def)
  from assms b t have r: "r = 0" "ok" and q: "WriteInSourceInfoToShareMemory env p1 = (True, q)"
    by (auto simp: Time_Insource_and_Refresh_process_def pair_then_def split: if_splits)
  have "counters q = counters p1" using w by (simp add: q)
  also have "\<dots> = next_counters (schema (cs c)) (source_alarm (p\<lparr>ic := c\<rparr>)) (counters (p\<lparr>ic := c\<rparr>))"
    using strategy_counters[of env "p\<lparr>ic := c\<rparr>" p1] t r(2) by simp
  finally show ?thesis by (simp add: seen_def b counters_def)
qed

text \<open>Between two passes the process may do anything that leaves the counters alone.\<close>

inductive passes :: "inEnv \<Rightarrow> (int \<times> int) list \<Rightarrow> inProc \<Rightarrow> inProc \<Rightarrow> bool" for env where
  passes_start: "passes env [] p p"
| passes_pass: "passes env h p q \<Longrightarrow> counters q' = counters q \<Longrightarrow>
     Time_Insource_and_Refresh_process env q' = (True, r) \<Longrightarrow> passes env (h @ [seen env q']) p r"

text \<open>How many of the last passes saw the same schema and the same alarm.\<close>

definition run :: "int \<Rightarrow> (int \<times> int) list \<Rightarrow> nat" where
  "run v h = length (takeWhile (\<lambda>x. x = (fst (last h), v)) (rev h))"

lemma run_Nil [simp]: "run v [] = 0"
  by (simp add: run_def)

lemma run_snoc:
  "run v (h @ [(s, a)]) = (if a = v then Suc (if h \<noteq> [] \<and> fst (last h) = s then run v h else 0) else 0)"
proof (cases "h = [] \<or> fst (last h) = s")
  case True
  then show ?thesis by (auto simp: run_def)
next
  case False
  then obtain h' s' a' where h: "h = h' @ [(s', a')]" by (metis prod.collapse rev_exhaust)
  with False show ?thesis by (auto simp: run_def)
qed

text \<open>
  The source is stable when 51 passes in a row saw it without an alarm, and since then no 61 in a row
  saw one.
\<close>

definition stable :: "(int \<times> int) list \<Rightarrow> bool" where
  "stable h \<longleftrightarrow> (\<exists>k \<le> length h. run ALM_OFF (take k h) = 51 \<and>
     (\<forall>j. k < j \<and> j \<le> length h \<longrightarrow> run ALM_ON (take j h) \<noteq> 61))"

lemma stable_Nil: "\<not> stable []"
  by (simp add: stable_def)

lemma stable_snoc: "stable (h @ [x]) \<longleftrightarrow> run ALM_OFF (h @ [x]) = 51 \<or> (stable h \<and> run ALM_ON (h @ [x]) \<noteq> 61)"
proof
  assume "stable (h @ [x])"
  then obtain k where k: "k \<le> Suc (length h)" "run ALM_OFF (take k (h @ [x])) = 51"
    and j: "\<And>j. k < j \<Longrightarrow> j \<le> Suc (length h) \<Longrightarrow> run ALM_ON (take j (h @ [x])) \<noteq> 61"
    by (auto simp: stable_def)
  show "run ALM_OFF (h @ [x]) = 51 \<or> (stable h \<and> run ALM_ON (h @ [x]) \<noteq> 61)"
  proof (cases "k = Suc (length h)")
    case False
    with k have "k \<le> length h" "run ALM_OFF (take k h) = 51" by auto
    moreover have "run ALM_ON (take i h) \<noteq> 61" if "k < i" "i \<le> length h" for i using j[of i] that by simp
    ultimately have "stable h" unfolding stable_def by blast
    moreover have "run ALM_ON (h @ [x]) \<noteq> 61" using j[of "Suc (length h)"] \<open>k \<le> length h\<close> by simp
    ultimately show ?thesis by simp
  qed (use k in simp)
next
  assume a: "run ALM_OFF (h @ [x]) = 51 \<or> (stable h \<and> run ALM_ON (h @ [x]) \<noteq> 61)"
  show "stable (h @ [x])"
  proof (cases "run ALM_OFF (h @ [x]) = 51")
    case True
    then show ?thesis unfolding stable_def by (intro exI[of _ "Suc (length h)"]) auto
  next
    case False
    with a obtain k where k: "k \<le> length h" "run ALM_OFF (take k h) = 51" "run ALM_ON (h @ [x]) \<noteq> 61"
      and j: "\<And>j. k < j \<Longrightarrow> j \<le> length h \<Longrightarrow> run ALM_ON (take j h) \<noteq> 61"
      by (auto simp: stable_def)
    have "run ALM_ON (take i (h @ [x])) \<noteq> 61" if "k < i" "i \<le> length (h @ [x])" for i
      using j[of i] that k by (cases "i = Suc (length h)") auto
    then show ?thesis using k unfolding stable_def by (intro exI[of _ k]) auto
  qed
qed

lemma passes_counters:
  assumes "passes env h p q" "alm_num p = 0" "unalm_num p = 0" "refsrc_is_valid p \<noteq> REFSOURCE_VALID"
    and "list_all (\<lambda>x. snd x = ALM_OFF \<or> snd x = ALM_ON) h"
  shows "alm_num q = int (run ALM_OFF h) \<and> unalm_num q = int (run ALM_ON h) \<and> (h \<noteq> [] \<longrightarrow> old_schema q = fst (last h))
    \<and> (refsrc_is_valid q = REFSOURCE_VALID \<longleftrightarrow> stable h)"
  using assms
proof (induction rule: passes.induct)
  case (passes_start p)
  then show ?case by (simp add: stable_Nil)
next
  case (passes_pass h p q q' r)
  obtain s a where x: "seen env q' = (s, a)" by (cases "seen env q'")
  have on: "ALM_ON \<noteq> ALM_OFF" "REFSOURCE_INVALID \<noteq> REFSOURCE_VALID"
    by (simp_all add: ALM_ON_def ALM_OFF_def REFSOURCE_INVALID_def REFSOURCE_VALID_def)
  have ih: "alm_num q = int (run ALM_OFF h)" "unalm_num q = int (run ALM_ON h)" "h \<noteq> [] \<Longrightarrow> old_schema q = fst (last h)"
    "refsrc_is_valid q = REFSOURCE_VALID \<longleftrightarrow> stable h"
    using passes_pass by auto
  have av: "a = ALM_OFF \<or> a = ALM_ON" using passes_pass.prems x by simp
  have c: "counters r = next_counters s a (counters q)"
    using pass_counters[OF passes_pass.hyps(3)] passes_pass.hyps(2) by (simp add: x)
  have n: "(if s = old_schema q then int (run v h) else 0) = int (if h \<noteq> [] \<and> fst (last h) = s then run v h else 0)" for v
    using ih(3) by (cases "h = []") auto
  show ?case using av c ih(4) on n[of ALM_OFF] n[of ALM_ON]
    by (elim disjE)
      (auto simp: x next_counters_def counters_def ih(1,2) run_snoc stable_snoc Let_def split: if_splits)
qed

section \<open>The leap second of an IRIG-B source\<close>

lemma count_source_leap:
  "lp_old (snd (count_source env a s p)) = lp_old p \<and> leapForecast_old (snd (count_source env a s p)) = leapForecast_old p"
proof -
  let ?p2 = "p\<lparr>refsrc_is_valid := REFSOURCE_INVALID\<rparr>"
  obtain w1 q1 where w1: "in_write env FPGA_SYS_INSRC_VALID 0x0 p = (w1, q1)" by (cases "in_write env FPGA_SYS_INSRC_VALID 0x0 p")
  obtain w2 q2 where w2: "fresh_time env s p = (w2, q2)" by (cases "fresh_time env s p")
  obtain w3 q3 where w3: "in_write env FPGA_SYS_INSRC_VALID 0x01 ?p2 = (w3, q3)" by (cases "in_write env FPGA_SYS_INSRC_VALID 0x01 ?p2")
  have "lp_old q1 = lp_old p" "lp_old q2 = lp_old p" "lp_old q3 = lp_old p"
    "leapForecast_old q1 = leapForecast_old p" "leapForecast_old q2 = leapForecast_old p" "leapForecast_old q3 = leapForecast_old p"
    using in_write_keeps(2,3)[of env FPGA_SYS_INSRC_VALID 0 p] fresh_time_keeps(2,3)[of env s p]
      in_write_keeps(2,3)[of env FPGA_SYS_INSRC_VALID 1 ?p2] by (simp_all add: w1 w2 w3)
  then show ?thesis by (cases w1; cases w2; cases w3) (auto simp: count_source_def w1 w2 w3)
qed

lemma change_leap_second:
  "leapForecast_old (snd (change_leap env a r p)) = leapForecast_old p"
  "lp_second r = lp_second (lp_old p) \<Longrightarrow> lp_second (lp_old (snd (change_leap env a r p))) = lp_second (lp_old p)"
proof -
  define p1 where "p1 = IssueLeapForecast r p"
  have c: "lp_old p1 = lp_old p" "leapForecast_old p1 = leapForecast_old p" by (simp_all add: p1_def IssueLeapForecast_def)
  obtain ok q where f: "fresh_time env (lp_second r) p1 = (ok, q)" by (cases "fresh_time env (lp_second r) p1")
  have q: "lp_old q = lp_old p" "leapForecast_old q = leapForecast_old p"
    using fresh_time_keeps(2,3)[of env "lp_second r" p1] c by (simp_all add: f)
  show "leapForecast_old (snd (change_leap env a r p)) = leapForecast_old p" using c q
    by (cases ok) (auto simp: change_leap_def Let_def p1_def[symmetric] f)
  show "lp_second r = lp_second (lp_old p) \<Longrightarrow> lp_second (lp_old (snd (change_leap env a r p))) = lp_second (lp_old p)"
    using c q by (cases ok) (auto simp: change_leap_def Let_def p1_def[symmetric] f)
qed

lemma change_forecast_leap:
  "leapForecast_old (change_forecast r p) = leapForecast_old p \<and> lp_second (lp_old (change_forecast r p)) = lp_second (lp_old p)"
  by (simp add: change_forecast_def IssueLeapForecast_def)

lemma flush_leap:
  "leapForecast_old (FlushTimeClockStateToLock env p) = leapForecast_old p \<and> lp_old (FlushTimeClockStateToLock env p) = lp_old p"
proof -
  obtain v q where r: "in_read env FPGA_RBXO_STA p = (v, q)" by (cases "in_read env FPGA_RBXO_STA p")
  have "leapForecast_old q = leapForecast_old p" "lp_old q = lp_old p" using in_read_keeps(3,4)[of env FPGA_RBXO_STA p] by (simp_all add: r)
  then show ?thesis by (auto simp: FlushTimeClockStateToLock_def r Let_def split: option.split)
qed

lemma real_leap_irigb:
  assumes old: "leapForecast_old p = 0"
  shows "leapForecast_old (snd (real_leap env p)) = 0"
    and "sc_type (cs (ic p)) = IRIGB1_SOURCE_TYPE \<or> sc_type (cs (ic p)) = IRIGB2_SOURCE_TYPE \<Longrightarrow> lp_mode (lp_set p) \<noteq> 1 \<Longrightarrow>
      fst (real_leap env p) = Some r \<Longrightarrow> lp_second r = lp_second (lp_old p)"
proof -
  define q where "q = read_irigb_forecast env p"
  have q: "leapForecast_old q = 0" "lp_old q = lp_old p" "lp_set q = lp_set p" "source_view q = source_view p"
    using old by (simp_all add: q_def)
  have i: "in_irigb_leap q = (0, q)" using q(1) by (simp add: in_irigb_leap_def)
  have t: "sc_type (cs (ic q)) = sc_type (cs (ic p))" using q(4) by (simp add: source_view_def)
  define r0 where "r0 = leapinfo_0\<lparr>lp_mode := lp_mode (lp_set p), lp_second := lp_second (lp_old p)\<rparr>"
  obtain v q' where a: "auto_leap env 0 r0 q = (v, q')" by (cases "auto_leap env 0 r0 q")
  have k: "leapForecast_old q' = 0" "lp_old q' = lp_old p"
    using auto_leap_keeps(3,4)[of env 0 r0 q] q by (simp_all add: a)
  have e: "real_leap env p = (if lp_mode (lp_set p) = 1 then (Some (r0\<lparr>lp_second := lp_second (lp_set p)\<rparr>), q)
     else (case v of None \<Rightarrow> (None, q') | Some real \<Rightarrow>
       (Some real, if lp_second (lp_old p) \<noteq> lp_second real
          then in_event env (SNMP_EVNT_ID E_SYSLEAP_UPDATE) SID_SYS_SLOT SID_SYS_PORT BID_NONE q' else q')))"
  proof (cases "lp_mode (lp_set p) = 1")
    case True
    then show ?thesis by (simp add: real_leap_def q_def[symmetric] i q Let_def leapinfo_0_def r0_def)
  next
    case False
    then show ?thesis by (simp add: real_leap_def q_def[symmetric] i q(2,3) Let_def r0_def[symmetric] a k(2) split: option.split)
  qed
  show "leapForecast_old (snd (real_leap env p)) = 0" using k(1) q(1) by (simp add: e split: option.split)
  assume ty: "sc_type (cs (ic p)) = IRIGB1_SOURCE_TYPE \<or> sc_type (cs (ic p)) = IRIGB2_SOURCE_TYPE"
    and m: "lp_mode (lp_set p) \<noteq> 1" and r: "fst (real_leap env p) = Some r"
  have no: "no_own_leap (sc_type (cs (ic q)))" "sc_type (cs (ic q)) \<noteq> TOD_SOURCE_TYPE" "sc_type (cs (ic q)) \<noteq> GPS_SOURCE_TYPE"
    using ty by (auto simp: t no_own_leap_def IRIGB1_SOURCE_TYPE_def IRIGB2_SOURCE_TYPE_def TOD_SOURCE_TYPE_def GPS_SOURCE_TYPE_def)
  have "auto_leap env 0 r0 q = (Some ((lp_new q)\<lparr>lp_second := lp_second (lp_old p)\<rparr>), q')"
    using a no by (simp add: auto_leap_def Let_def q(2))
  with a have v: "v = Some ((lp_new q)\<lparr>lp_second := lp_second (lp_old p)\<rparr>)" by simp
  show "lp_second r = lp_second (lp_old p)" using r m by (auto simp: e v)
qed

lemma strategy_irigb:
  assumes "leapForecast_old p = 0" "Time_Refresh_Strategy env p = (ok, q)"
  shows "leapForecast_old q = 0"
    and "sc_type (cs (ic p)) = IRIGB1_SOURCE_TYPE \<or> sc_type (cs (ic p)) = IRIGB2_SOURCE_TYPE \<Longrightarrow> lp_mode (lp_set p) \<noteq> 1 \<Longrightarrow>
      lp_second (lp_old q) = lp_second (lp_old p)"
proof -
  obtain r p1 where r: "real_leap env p = (r, p1)" by (cases "real_leap env p")
  have k: "leapForecast_old p1 = 0" "lp_old p1 = lp_old p"
    using real_leap_irigb(1)[OF assms(1), of env] real_leap_keeps(3)[of env p] by (simp_all add: r)
  define a where "a = source_alarm p1"
  define p2 where "p2 = note_schema p1"
  have k2: "leapForecast_old p2 = 0" "lp_old p2 = lp_old p" using k by (simp_all add: p2_def note_schema_def Let_def)
  have "leapForecast_old q = 0 \<and> ((\<forall>real. r = Some real \<longrightarrow> lp_second real = lp_second (lp_old p)) \<longrightarrow> lp_second (lp_old q) = lp_second (lp_old p))"
  proof (cases r)
    case None
    then show ?thesis using assms(2) k by (simp add: Time_Refresh_Strategy_def r)
  next
    case (Some real)
    obtain o3 p3 where c: "count_source env a (lp_second real) p2 = (o3, p3)" by (cases "count_source env a (lp_second real) p2")
    obtain o4 p4 where l: "change_leap env a real p3 = (o4, p4)" by (cases "change_leap env a real p3")
    have k3: "leapForecast_old p3 = 0" "lp_old p3 = lp_old p"
      using count_source_leap[of env a "lp_second real" p2] k2 by (simp_all add: c)
    have k4: "leapForecast_old p4 = 0" "lp_second real = lp_second (lp_old p) \<longrightarrow> lp_second (lp_old p4) = lp_second (lp_old p)"
      using change_leap_second(1)[of env a real p3] change_leap_second(2)[of real p3 env a] k3 by (simp_all add: l)
    have "(ok, q) = (if o3 then if o4 then (True, FlushTimeClockStateToLock env (change_forecast real p4)) else (False, p4) else (False, p3))"
      using assms(2) by (cases o3; cases o4; simp add: Time_Refresh_Strategy_def r Some a_def[symmetric] p2_def[symmetric] c l)
    then show ?thesis using k3 k4 change_forecast_leap[of real p4] flush_leap[of env "change_forecast real p4"]
      by (auto simp: Some split: if_splits)
  qed
  then show "leapForecast_old q = 0"
    and "sc_type (cs (ic p)) = IRIGB1_SOURCE_TYPE \<or> sc_type (cs (ic p)) = IRIGB2_SOURCE_TYPE \<Longrightarrow> lp_mode (lp_set p) \<noteq> 1 \<Longrightarrow>
      lp_second (lp_old q) = lp_second (lp_old p)"
    using real_leap_irigb(2)[OF assms(1), where env = env] by (auto simp: r)
qed

section \<open>The forecast of a receiver\<close>

lemma pps_leap_on:
  assumes "sc_type (cs (ic p)) = GPS_SOURCE_TYPE" "sat_leapstate (sat_at p (sc_slot (cs (ic p)))) = 1"
    "0 \<le> pps_count p" "pps_count p < 59" "pps_count p = 0 \<or> lp_forecast (lp_new p) = 1"
  shows "pps_count (pps_leap p) = pps_count p + 1" "lp_forecast (lp_new (pps_leap p)) = 1"
    "ic (pps_leap p) = ic p" "sats (pps_leap p) = sats p"
  using assms by (auto simp: pps_leap_def Let_def)

lemma pps_leap_iter:
  assumes "sc_type (cs (ic p)) = GPS_SOURCE_TYPE" "sat_leapstate (sat_at p (sc_slot (cs (ic p)))) = 1" "pps_count p = 0"
  shows "k \<le> 59 \<Longrightarrow> ic ((pps_leap ^^ k) p) = ic p \<and> sats ((pps_leap ^^ k) p) = sats p \<and> pps_count ((pps_leap ^^ k) p) = int k
    \<and> (0 < k \<longrightarrow> lp_forecast (lp_new ((pps_leap ^^ k) p)) = 1)"
proof (induction k)
  case (Suc k)
  then have ih: "ic ((pps_leap ^^ k) p) = ic p" "sats ((pps_leap ^^ k) p) = sats p" "pps_count ((pps_leap ^^ k) p) = int k"
    "0 < k \<Longrightarrow> lp_forecast (lp_new ((pps_leap ^^ k) p)) = 1" by auto
  have "sat_at ((pps_leap ^^ k) p) (sc_slot (cs (ic p))) = sat_at p (sc_slot (cs (ic p)))"
    by (simp add: sat_at_def ih(2))
  moreover have "k = 0 \<or> lp_forecast (lp_new ((pps_leap ^^ k) p)) = 1" using ih(4) by auto
  ultimately show ?case using pps_leap_on[of "(pps_leap ^^ k) p"] assms ih(1-3) Suc.prems by simp
qed (use assms in simp)

section \<open>The properties\<close>

text \<open>
  C10: in every sequence of passes the input process counts its source as valid exactly when 51 passes in a row
  saw the selected source without an alarm under the same schema, and no 61 passes in a row have seen one with an alarm
  since. A source that comes and goes faster is neither made valid nor lost. Which source it was is not part of the count: only a
  change of the schema starts it anew, so a source that is selected instead of another under the same schema takes
  over the passes of that one, although the comment in the code asks for its stability to be found again.
\<close>

theorem source_valid_when_stable:
  "passes env h p q \<Longrightarrow> alm_num p = 0 \<Longrightarrow> unalm_num p = 0 \<Longrightarrow> refsrc_is_valid p \<noteq> REFSOURCE_VALID \<Longrightarrow>
   list_all (\<lambda>x. snd x = ALM_OFF \<or> snd x = ALM_ON) h \<Longrightarrow>
   (refsrc_is_valid q = REFSOURCE_VALID \<longleftrightarrow> stable h)"
  using passes_counters[of env h p q] by blast

text \<open>
  The leap second of an IRIG-B source is never counted: as long as the process runs, the old forecast
  stays 0, so that the end of a forecast is never noticed, and with the leap second taken from the source a pass
  leaves it as it was, whatever the registers of the FPGA hold.
\<close>

theorem irigb_leap_never:
  "leapForecast_old p = 0 \<Longrightarrow> Time_Refresh_Strategy env p = (ok, q) \<Longrightarrow>
   leapForecast_old q = 0 \<and>
   (sc_type (cs (ic p)) = IRIGB1_SOURCE_TYPE \<or> sc_type (cs (ic p)) = IRIGB2_SOURCE_TYPE \<longrightarrow> lp_mode (lp_set p) \<noteq> 1 \<longrightarrow>
      lp_second (lp_old q) = lp_second (lp_old p))"
  using strategy_irigb[of p env ok q] by blast

text \<open>
  A leap second that the receiver of the source announces is forecast at the next 59 interrupts of the second and
  withdrawn at the 60th, which also takes back the announcement. When the receiver takes it back before, the
  forecast is left on.
\<close>

theorem leap_forecast_held:
  "sc_type (cs (ic p)) = GPS_SOURCE_TYPE \<Longrightarrow> s = sc_slot (cs (ic p)) \<Longrightarrow> 1 \<le> s \<Longrightarrow> s \<le> int (length (sats p)) \<Longrightarrow>
   sat_leapstate (sat_at p s) = 1 \<Longrightarrow> pps_count p = 0 \<Longrightarrow>
   (\<forall>k. 0 < k \<and> k < 60 \<longrightarrow> lp_forecast (lp_new ((pps_leap ^^ k) p)) = 1) \<and>
   lp_forecast (lp_new ((pps_leap ^^ 60) p)) = 0 \<and> sat_leapstate (sat_at ((pps_leap ^^ 60) p) s) = 0 \<and>
   (\<forall>k st. 0 < k \<and> k < 60 \<and> st \<noteq> 1 \<longrightarrow>
      lp_forecast (lp_new (pps_leap (((pps_leap ^^ k) p)\<lparr>sats := (sats p)[nat (s - 1) := (sat_at p s)\<lparr>sat_leapstate := st\<rparr>]\<rparr>))) = 1)"
proof -
  assume a: "sc_type (cs (ic p)) = GPS_SOURCE_TYPE" "s = sc_slot (cs (ic p))" "1 \<le> s" "s \<le> int (length (sats p))"
    "sat_leapstate (sat_at p s) = 1" "pps_count p = 0"
  have i: "ic ((pps_leap ^^ k) p) = ic p \<and> sats ((pps_leap ^^ k) p) = sats p \<and> pps_count ((pps_leap ^^ k) p) = int k
    \<and> (0 < k \<longrightarrow> lp_forecast (lp_new ((pps_leap ^^ k) p)) = 1)" if "k \<le> 59" for k
    using pps_leap_iter[of p k] a that by simp
  define q where "q = (pps_leap ^^ 59) p"
  have q: "ic q = ic p" "sats q = sats p" "pps_count q = 59" using i[of 59] by (simp_all add: q_def)
  have n: "(pps_leap ^^ 60) p = pps_leap q" by (simp add: q_def numeral_eq_Suc)
  have at: "sat_at q s = sat_at p s" by (simp add: sat_at_def q)
  have l: "nat (s - 1) < length (sats p)" using a(3,4) by linarith
  have "lp_forecast (lp_new (pps_leap q)) = 0 \<and> sat_leapstate (sat_at (pps_leap q) s) = 0"
    using a at l by (simp add: pps_leap_def Let_def q) (simp add: sat_at_def q)
  moreover have "lp_forecast (lp_new (pps_leap (((pps_leap ^^ k) p)\<lparr>sats := (sats p)[nat (s - 1) := (sat_at p s)\<lparr>sat_leapstate := st\<rparr>]\<rparr>))) = 1"
    if k: "0 < k" "k < 60" and st: "st \<noteq> 1" for k st
    using i[of k] k a st l by (simp add: pps_leap_def Let_def sat_at_def)
  ultimately show ?thesis using i by (simp add: n)
qed

section \<open>A receiver in the first slot\<close>

definition demo_board :: inputsta where
  "demo_board = \<lparr>boardId = BID_GBDBE, sys_mode = 1, antenna_state = 50, sta_flag = 0, trackngb = 0, pst_status = 0,
     ph = [], prio = [], ssm = []\<rparr>"

definition demo_sat :: satsta where
  "demo_sat = \<lparr>satellite_valid = 1, satellite_state = 3, sat_leaptime = timeinfo_zero, sat_leapstate = 1, sat_leapSecond = 18\<rparr>"

definition demo_proc :: "int \<Rightarrow> inProc" where
  "demo_proc t = \<lparr>ic = \<lparr>clock_type = 1, cs = \<lparr>schema = 1, src_inx = t - 1, sc_flag = 3, sc_type = t, sc_slot = 1,
       sc_port = 1, sc_bid = BID_GBDBE\<rparr>, alarm = replicate 651 0, inSta = replicate 4 demo_board, reqs = []\<rparr>,
     sats = replicate 4 demo_sat, ievnts = [], itimes = 0, isema = 0, refsrc_is_valid = 0, lp_old = leapinfo_0,
     lp_new = leapinfo_0, lp_set = leapinfo_0, pps_count = 0, leapForecast_old = 0, leapForecast_new = 0,
     alm_num = 0, unalm_num = 0, old_schema = 0, pre_clock_state = 0, issued = [], shared_cs = None, shared_leap = None\<rparr>"

definition demo_inenv :: inEnv where
  "demo_inenv = \<lparr>ie_fpga = (\<lambda>cmd temp reqs. (1, temp)), ie_time = (\<lambda>_. None), ie_sema = (\<lambda>_. True), ie_tmp = 0\<rparr>"

lemma demo_pass: "fst (Time_Insource_and_Refresh_process demo_inenv (demo_proc 1)) \<and> seen demo_inenv (demo_proc 1) = (1, ALM_OFF)"
  by code_simp

theorem source_valid_when_stable_witness:
  "\<exists>q. passes demo_inenv [(1, ALM_OFF)] (demo_proc 1) q \<and> refsrc_is_valid q \<noteq> REFSOURCE_VALID"
proof -
  obtain q where q: "Time_Insource_and_Refresh_process demo_inenv (demo_proc 1) = (True, q)"
    using demo_pass by (metis prod.collapse)
  have p: "passes demo_inenv [(1, ALM_OFF)] (demo_proc 1) q"
    using passes_pass[OF passes_start refl q] demo_pass by simp
  have "\<not> stable [(1, ALM_OFF)]"
    using stable_snoc[of "[]" "(1, ALM_OFF)"] run_snoc[of ALM_OFF "[]" 1 ALM_OFF] by (simp add: stable_Nil)
  then show ?thesis
    using source_valid_when_stable[OF p] p by (auto simp: demo_proc_def REFSOURCE_VALID_def)
qed

theorem irigb_leap_never_witness:
  "\<exists>q. Time_Refresh_Strategy demo_inenv (demo_proc 4) = (True, q) \<and> lp_second (lp_old q) = 0"
proof -
  have "fst (Time_Refresh_Strategy demo_inenv (demo_proc 4))" by code_simp
  then obtain q where q: "Time_Refresh_Strategy demo_inenv (demo_proc 4) = (True, q)" by (metis prod.collapse)
  from irigb_leap_never[OF _ q] have "lp_second (lp_old q) = 0"
    by (simp add: demo_proc_def IRIGB1_SOURCE_TYPE_def leapinfo_0_def)
  then show ?thesis using q by blast
qed

theorem leap_forecast_held_witness:
  "lp_forecast (lp_new ((pps_leap ^^ 59) (demo_proc 1))) = 1 \<and> lp_forecast (lp_new ((pps_leap ^^ 60) (demo_proc 1))) = 0"
  using leap_forecast_held[of "demo_proc 1" 1]
  by (auto simp: demo_proc_def GPS_SOURCE_TYPE_def sat_at_def demo_sat_def)

end
