(* ===== verification/InAlarmSpec.thy ===== *)
theory InAlarmSpec
  imports InAlarm AlarmTable
begin

unbundle bit_operations_syntax

text \<open>
  What the reading of the alarms of the inputs does with a working FPGA: each alarm of a board gets the value of its
  cause, and no other one is touched.
\<close>

declare SNMP_ALM_ID.simps [simp del]

section \<open>Writing alarms\<close>

type_synonym alarm_row = "int \<times> int \<times> int"

definition written_alarm :: "(alarm_row \<times> int) list \<Rightarrow> int list \<Rightarrow> nat \<Rightarrow> int" where
  "written_alarm W old j = (case map_of (rev W) (pAlmInxTbl ! j) of None \<Rightarrow> old ! j | Some v \<Rightarrow> v)"

text \<open>The writes turn a state into another that differs from it in nothing else that the reading looks at.\<close>

definition does :: "inProc \<Rightarrow> (alarm_row \<times> int) list \<Rightarrow> inProc \<Rightarrow> bool" where
  "does p W q \<longleftrightarrow> inSta (ic q) = inSta (ic p) \<and> cs (ic q) = cs (ic p) \<and> sats q = sats p \<and>
     length (alarm (ic p)) = ALM_COUNT \<and> length (alarm (ic q)) = ALM_COUNT \<and>
     (\<forall>j < ALM_COUNT. alarm (ic q) ! j = written_alarm W (alarm (ic p)) j)"

lemma does_nothing: "length (alarm (ic p)) = ALM_COUNT \<Longrightarrow> does p [] p"
  by (simp add: does_def written_alarm_def)

lemma does_seq: "does p V q \<Longrightarrow> does q W r \<Longrightarrow> does p (V @ W) r"
  by (auto simp: does_def written_alarm_def map_add_def split: option.split)

lemma does_view: "does p W q \<Longrightarrow> board_at q = board_at p \<and> sat_at q = sat_at p \<and> slot_sta (ic q) = slot_sta (ic p)
   \<and> length (alarm (ic q)) = ALM_COUNT"
  by (auto simp: does_def board_at_def sat_at_def slot_sta_def fun_eq_iff)

definition row_of :: "int \<Rightarrow> alm_name \<Rightarrow> nat \<Rightarrow> alarm_row" where
  "row_of slot a port = (SNMP_ALM_ID a, slot, int port)"

lemma set_does:
  assumes "length (alarm (ic p)) = ALM_COUNT" "FIND_ALMINX_BY_SLOT_PORT_ID (SNMP_ALM_ID a) slot (int port) (- 1) \<noteq> - 1"
  shows "does p [(row_of slot a port, v)] (set_in_alarm (FIND_ALMINX_BY_SLOT_PORT_ID (SNMP_ALM_ID a) slot (int port) (- 1)) v p)"
proof -
  have "(alarm (ic p))[nat (FIND_ALMINX_BY_SLOT_PORT_ID (SNMP_ALM_ID a) slot (int port) (- 1)) := v] ! j
    = (if pAlmInxTbl ! j = (SNMP_ALM_ID a, slot, int port) then v else alarm (ic p) ! j)" if "j < ALM_COUNT" for j
    using find_alm_at[OF that assms(2)] that assms(1) by (auto simp: nth_list_update)
  then show ?thesis using assms(1) by (auto simp: does_def set_in_alarm_def written_alarm_def row_of_def)
qed

text \<open>The alarms that the inputs of the slots 1 to 4 have.\<close>

definition input_ports :: "(alm_name \<times> nat) list" where
  "input_ports = [(A_2MB_IN_LOS, SAT_PORT_2MB), (A_2MHZ_IN_LOS, SAT_PORT_2MH), (A_IRIGB_IN_LOS, SAT_PORT_IRIGB1),
     (A_IRIGB_IN_LOS, SAT_PORT_IRIGB2), (A_GPBD_SGN_LOS, 1), (A_PTP_IN_LOS, 1), (A_1PPS_TOD_IN_LOS, RTF_PORT_1PPS_TOD),
     (A_NTP_IN_LOS, 1), (A_10MHZ_IN_LOS, RTF_PORT_10MH1), (A_10MHZ_IN_LOS, RTF_PORT_10MH2), (A_1PPS_IN_LOS, RTF_PORT_1PPS),
     (A_2MB_BPV, SAT_PORT_2MB), (A_2MB_AIS, SAT_PORT_2MB), (A_2MB_CRC, SAT_PORT_2MB), (A_2MB_LOF, SAT_PORT_2MB),
     (A_GPBD_SGN_DGD, 1), (A_ANT_SHORT, 1), (A_ANT_OPEN, 1)]"

lemmas port_values = SAT_PORT_2MB_def SAT_PORT_2MH_def SAT_PORT_IRIGB1_def SAT_PORT_IRIGB2_def RTF_PORT_1PPS_TOD_def
  RTF_PORT_10MH1_def RTF_PORT_10MH2_def RTF_PORT_1PPS_def

lemma input_rows:
  assumes "1 \<le> slot" "slot \<le> 4" "(a, port) \<in> set input_ports"
  shows "FIND_ALMINX_BY_SLOT_PORT_ID (SNMP_ALM_ID a) slot (int port) (- 1) \<noteq> - 1"
proof (rule find_alm_found)
  have "list_all (\<lambda>(a, port). row_of 1 a port \<in> set pAlmInxTbl) input_ports"
    by (simp add: input_ports_def row_of_def port_values in_alarm_table gAlmIdTbl_def alarm_subs_eq sub_values)
  then have r: "(SNMP_ALM_ID a, 1, int port) \<in> set pAlmInxTbl" using assms(3) by (auto simp: list_all_iff row_of_def)
  have "list_all (\<lambda>(a, port). (SNMP_ALM_ID a, SMP_SID_SUB_IN) \<in> set gAlmIdTbl \<or> (SNMP_ALM_ID a, SMP_SID_SUB_SAT) \<in> set gAlmIdTbl) input_ports"
    by (simp add: input_ports_def gAlmIdTbl_def)
  then have t: "(SNMP_ALM_ID a, SMP_SID_SUB_IN) \<in> set gAlmIdTbl \<or> (SNMP_ALM_ID a, SMP_SID_SUB_SAT) \<in> set gAlmIdTbl"
    using assms(3) by (auto simp: list_all_iff)
  have d: "(SNMP_ALM_ID a, t) \<in> set gAlmIdTbl \<Longrightarrow> (SNMP_ALM_ID a, t') \<in> set gAlmIdTbl \<Longrightarrow> t = t'" for t t'
    using alm_ids_distinct by (metis eq_key_imp_eq_value)
  from r obtain u s q where u: "(SNMP_ALM_ID a, u) \<in> set gAlmIdTbl" "(u, s, q) \<in> set alarm_subs" "1 \<le> int port" "int port \<le> q"
    unfolding in_alarm_table by blast
  have "u = SMP_SID_SUB_IN \<or> u = SMP_SID_SUB_SAT" using t d[OF u(1)] by blast
  then have "4 \<le> s" using u(2) by (auto simp: alarm_subs_eq sub_values)
  then show "(SNMP_ALM_ID a, slot, int port) \<in> set pAlmInxTbl" unfolding in_alarm_table
    using u assms(1,2) by (intro exI[of _ u] exI[of _ s] exI[of _ q]) simp
qed

lemma in_alarm_does:
  assumes "1 \<le> slot" "slot \<le> 4" "(a, port) \<in> set input_ports" "length (alarm (ic p)) = ALM_COUNT"
  shows "\<exists>q. in_alarm slot (a, port, v) p = (True, q) \<and> does p [(row_of slot a port, v)] q"
  using input_rows[OF assms(1-3)] set_does[OF assms(4)] by (simp add: in_alarm_def Let_def)

lemma in_alarms_does:
  assumes "1 \<le> slot" "slot \<le> 4"
  shows "\<forall>(a, port, v) \<in> set as. (a, port) \<in> set input_ports \<Longrightarrow> length (alarm (ic p)) = ALM_COUNT \<Longrightarrow>
    \<exists>q. in_alarms slot as p = (True, q) \<and> does p (map (\<lambda>(a, port, v). (row_of slot a port, v)) as) q"
proof (induction "as" arbitrary: p)
  case (Cons x "as")
  obtain a port v where x: "x = (a, port, v)" by (cases x)
  obtain q where q: "in_alarm slot (a, port, v) p = (True, q)" "does p [(row_of slot a port, v)] q"
    using in_alarm_does[OF assms, of a port p v] Cons.prems x by auto
  obtain r where "in_alarms slot as q = (True, r)" "does q (map (\<lambda>(a, port, v). (row_of slot a port, v)) as) r"
    using Cons.IH[of q] Cons.prems does_view[OF q(2)] by auto
  then show ?case using does_seq[OF q(2)] q(1) by (fastforce simp: x)
qed (simp add: does_nothing)

section \<open>The causes\<close>

text \<open>The alarms of a slot with their causes, for the board that it has.\<close>

definition input_causes :: "(int \<Rightarrow> int) \<Rightarrow> inProc \<Rightarrow> int \<Rightarrow> ((alm_name \<times> nat) \<times> bool) list" where
  "input_causes R p slot =
     (let b = board_at p slot; sig = R (FPGA_IN_SIGNAL slot); mb = R (FPGA_IN_2MB_ALM slot);
          ant = antenna_state (slot_sta (ic p) slot)
      in if sat_board b then
           [((A_2MB_IN_LOS, SAT_PORT_2MB), bit sig 0), ((A_2MHZ_IN_LOS, SAT_PORT_2MH), bit sig 1),
            ((A_IRIGB_IN_LOS, SAT_PORT_IRIGB1), bit sig 2), ((A_IRIGB_IN_LOS, SAT_PORT_IRIGB2), bit sig 3),
            ((A_GPBD_SGN_LOS, 1), bit sig 4),
            ((A_2MB_BPV, SAT_PORT_2MB), bit mb 0), ((A_2MB_AIS, SAT_PORT_2MB), bit mb 1),
            ((A_2MB_CRC, SAT_PORT_2MB), bit mb 3), ((A_2MB_LOF, SAT_PORT_2MB), bit mb 2),
            ((A_GPBD_SGN_DGD, 1), satellite_state (sat_at p slot) = 0 \<and> satellite_valid (sat_at p slot) = GET_SATELLITE),
            ((A_ANT_SHORT, 1), ant = SATELLITE_ANTENNA_LOOP), ((A_ANT_OPEN, 1), ant = SATELLITE_ANTENNA_OPEN)]
         else if b = BID_PTP_IN then [((A_PTP_IN_LOS, 1), bit sig 4)]
         else if b = BID_RTF then
           [((A_1PPS_TOD_IN_LOS, RTF_PORT_1PPS_TOD), bit sig 4), ((A_10MHZ_IN_LOS, RTF_PORT_10MH1), bit sig 6),
            ((A_10MHZ_IN_LOS, RTF_PORT_10MH2), bit sig 7), ((A_1PPS_IN_LOS, RTF_PORT_1PPS), bit sig 5)]
         else if b = BID_NTP_IN then [((A_NTP_IN_LOS, 1), bit sig 4 \<or> R (FPGA_IN_NTP_IN_TIME_VAILD slot) \<noteq> 1)]
         else [])"

definition cause_writes :: "int \<Rightarrow> ((alm_name \<times> nat) \<times> bool) list \<Rightarrow> (alarm_row \<times> int) list" where
  "cause_writes slot xs = map (\<lambda>((a, port), b). (row_of slot a port, alm_sta_of b)) xs"

lemma slot_regs:
  assumes "1 \<le> slot" "slot \<le> 4"
  shows "0 \<le> FPGA_IN_SIGNAL slot" "FPGA_IN_SIGNAL slot < 65536" "0 \<le> FPGA_IN_2MB_ALM slot" "FPGA_IN_2MB_ALM slot < 65536"
    "0 \<le> FPGA_IN_NTP_IN_TIME_VAILD slot" "FPGA_IN_NTP_IN_TIME_VAILD slot < 65536"
proof -
  have "list_all (\<lambda>s. 0 \<le> FPGA_IN_SIGNAL s \<and> FPGA_IN_SIGNAL s < 65536 \<and> 0 \<le> FPGA_IN_2MB_ALM s \<and> FPGA_IN_2MB_ALM s < 65536
    \<and> 0 \<le> FPGA_IN_NTP_IN_TIME_VAILD s \<and> FPGA_IN_NTP_IN_TIME_VAILD s < 65536) [1..4]" by code_simp
  then show "0 \<le> FPGA_IN_SIGNAL slot" "FPGA_IN_SIGNAL slot < 65536" "0 \<le> FPGA_IN_2MB_ALM slot" "FPGA_IN_2MB_ALM slot < 65536"
    "0 \<le> FPGA_IN_NTP_IN_TIME_VAILD slot" "FPGA_IN_NTP_IN_TIME_VAILD slot < 65536"
    using assms by (auto simp: list_all_iff simp del: upto.simps)
qed

lemma in_read_does:
  assumes "driver_inputs (ie_fpga env) (\<lambda>reqs. R)" "0 \<le> addr" "addr < 65536" "length (alarm (ic p)) = ALM_COUNT"
  shows "\<exists>q. in_read env addr p = (Some (R addr), q) \<and> does p [] q"
  using assms(4) by (simp add: in_read_def driver_inputs_read[OF assms(1-3)] does_def written_alarm_def)

lemma in_boards_distinct: "\<not> sat_board BID_PTP_IN" "\<not> sat_board BID_RTF" "\<not> sat_board BID_NTP_IN"
  "BID_PTP_IN \<noteq> BID_RTF" "BID_PTP_IN \<noteq> BID_NTP_IN" "BID_RTF \<noteq> BID_NTP_IN"
  by (simp_all add: sat_board_def BID_GPSBF_def BID_BFFI_def BID_PTP_IN_def BID_RTF_def BID_NTP_IN_def)

definition time_causes :: "(int \<Rightarrow> int) \<Rightarrow> inProc \<Rightarrow> int \<Rightarrow> ((alm_name \<times> nat) \<times> bool) list" where
  "time_causes R p slot =
     (let b = board_at p slot; sig = R (FPGA_IN_SIGNAL slot)
      in if sat_board b then [((A_GPBD_SGN_LOS, 1), bit sig 4)]
         else if b = BID_PTP_IN then [((A_PTP_IN_LOS, 1), bit sig 4)]
         else if b = BID_RTF then [((A_1PPS_TOD_IN_LOS, RTF_PORT_1PPS_TOD), bit sig 4)]
         else if b = BID_NTP_IN then [((A_NTP_IN_LOS, 1), bit sig 4 \<or> R (FPGA_IN_NTP_IN_TIME_VAILD slot) \<noteq> 1)]
         else [])"

lemma time_alarm_does:
  assumes "1 \<le> slot" "slot \<le> 4" "driver_inputs (ie_fpga env) (\<lambda>reqs. R)" "length (alarm (ic p)) = ALM_COUNT"
  shows "\<exists>q. time_alarm env (R (FPGA_IN_SIGNAL slot)) slot p = (True, q) \<and> does p (cause_writes slot (time_causes R p slot)) q"
proof -
  define F where "F = (\<lambda>a port. FIND_ALMINX_BY_SLOT_PORT_ID (SNMP_ALM_ID a) slot (int port) (- 1))"
  have f: "\<forall>(a, port) \<in> set time_signals. F a port \<noteq> - 1"
  proof (clarify)
    fix a port assume "(a, port) \<in> set time_signals" "F a port = - 1"
    moreover have "set time_signals \<subseteq> set input_ports" by (simp add: time_signals_def input_ports_def)
    ultimately show False using input_rows[OF assms(1,2)] unfolding F_def by blast
  qed
  have set: "does p [(row_of slot a port, v)] (set_in_alarm (F a port) v p)"
    if "(a, port) \<in> set time_signals" "length (alarm (ic p)) = ALM_COUNT" for a port v p
    using set_does[OF that(2), of a slot port v] f that(1) by (auto simp: F_def)
  have ts: "(A_GPBD_SGN_LOS, 1) \<in> set time_signals" "(A_PTP_IN_LOS, 1) \<in> set time_signals"
    "(A_1PPS_TOD_IN_LOS, RTF_PORT_1PPS_TOD) \<in> set time_signals" "(A_NTP_IN_LOS, 1) \<in> set time_signals"
    by (simp_all add: time_signals_def)
  obtain q where q: "in_read env (FPGA_IN_NTP_IN_TIME_VAILD slot) p = (Some (R (FPGA_IN_NTP_IN_TIME_VAILD slot)), q)" "does p [] q"
    using in_read_does[OF assms(3) slot_regs(5,6)[OF assms(1,2)] assms(4)] by blast
  have lq: "length (alarm (ic q)) = ALM_COUNT" using does_view[OF q(2)] by simp
  have e: "time_alarm env alm slot p =
     (let bid = board_at p slot
      in if bit alm 4 then
           (if sat_board bid then (True, set_in_alarm (F A_GPBD_SGN_LOS 1) ALM_ON p)
            else if bid = BID_PTP_IN then (True, set_in_alarm (F A_PTP_IN_LOS 1) ALM_ON p)
            else if bid = BID_RTF then (True, set_in_alarm (F A_1PPS_TOD_IN_LOS RTF_PORT_1PPS_TOD) ALM_ON p)
            else if bid = BID_NTP_IN then (True, set_in_alarm (F A_NTP_IN_LOS 1) ALM_ON p)
            else (True, p))
         else
           (if sat_board bid then (True, set_in_alarm (F A_GPBD_SGN_LOS 1) ALM_OFF p)
            else if bid = BID_PTP_IN then (True, set_in_alarm (F A_PTP_IN_LOS 1) ALM_OFF p)
            else if bid = BID_RTF then (True, set_in_alarm (F A_1PPS_TOD_IN_LOS RTF_PORT_1PPS_TOD) ALM_OFF p)
            else if bid = BID_NTP_IN then
              (True, set_in_alarm (F A_NTP_IN_LOS 1) (alm_sta_of (R (FPGA_IN_NTP_IN_TIME_VAILD slot) \<noteq> 1)) q)
            else (True, p)))" for alm
  proof -
    have nf: "(\<exists>s \<in> set time_signals. (case s of (a, port) \<Rightarrow> FIND_ALMINX_BY_SLOT_PORT_ID (SNMP_ALM_ID a) slot (int port) (- 1)) = - 1) = False"
      using f by (auto simp: F_def)
    show ?thesis by (simp only: time_alarm_def Let_def nf if_False F_def q(1) prod.case option.case)
  qed
  show ?thesis
    using set[OF ts(1) assms(4)] set[OF ts(2) assms(4)] set[OF ts(3) assms(4)] set[OF ts(4) assms(4)]
      does_seq[OF q(2) set[OF ts(4) lq]] does_nothing[OF assms(4)]
    unfolding e Let_def
    by (auto simp: time_causes_def Let_def cause_writes_def alm_sta_of_def in_boards_distinct)
qed

lemma in_event_does: "does p W q \<Longrightarrow> does (in_event env i s po b p) W q"
  by (simp add: does_def in_event_def)

lemma receiver_does:
  assumes "1 \<le> slot" "slot \<le> 4" "length (alarm (ic p)) = ALM_COUNT"
  shows "\<exists>q. receiver_alarms env slot p = (True, q) \<and> does p (cause_writes slot
     [((A_GPBD_SGN_DGD, 1), satellite_state (sat_at p slot) = 0 \<and> satellite_valid (sat_at p slot) = GET_SATELLITE),
      ((A_ANT_SHORT, 1), antenna_state (slot_sta (ic p) slot) = SATELLITE_ANTENNA_LOOP),
      ((A_ANT_OPEN, 1), antenna_state (slot_sta (ic p) slot) = SATELLITE_ANTENNA_OPEN)]) q"
proof -
  define i where "i = FIND_ALMINX_BY_SLOT_PORT_ID (SNMP_ALM_ID A_GPBD_SGN_DGD) slot 1 (- 1)"
  define bad where "bad \<longleftrightarrow> satellite_state (sat_at p slot) = 0 \<and> satellite_valid (sat_at p slot) = GET_SATELLITE"
  have i: "i \<noteq> - 1" using input_rows[OF assms(1,2), of A_GPBD_SGN_DGD 1] by (simp add: i_def input_ports_def)
  define p1 where "p1 = (if bad then set_in_alarm i ALM_ON (in_event env (SNMP_EVNT_ID E_SAT_LNUM) slot 1 (board_at p slot) p)
     else set_in_alarm i ALM_OFF p)"
  have "does p [(row_of slot A_GPBD_SGN_DGD 1, alm_sta_of bad)] p1"
  proof -
    let ?e = "in_event env (SNMP_EVNT_ID E_SAT_LNUM) slot 1 (board_at p slot) p"
    have "length (alarm (ic ?e)) = ALM_COUNT" using assms(3) by (simp add: in_event_def)
    from set_does[OF this, of A_GPBD_SGN_DGD slot 1] set_does[OF assms(3), of A_GPBD_SGN_DGD slot 1] i
    show ?thesis by (simp add: p1_def i_def alm_sta_of_def does_def in_event_def)
  qed
  note d = this
  have v: "slot_sta (ic p1) = slot_sta (ic p)" "length (alarm (ic p1)) = ALM_COUNT" using does_view[OF d] by simp_all
  have e: "receiver_alarms env slot p = in_alarms slot
     [(A_ANT_SHORT, 1, alm_sta_of (antenna_state (slot_sta (ic p) slot) = SATELLITE_ANTENNA_LOOP)),
      (A_ANT_OPEN, 1, alm_sta_of (antenna_state (slot_sta (ic p) slot) = SATELLITE_ANTENNA_OPEN))] p1"
    using i unfolding receiver_alarms_def Let_def i_def[symmetric] bad_def[symmetric] p1_def[symmetric] by (simp only: v if_False)
  have m: "\<forall>(a, port, v) \<in> set [(A_ANT_SHORT, 1, v1), (A_ANT_OPEN, 1, v2)]. (a, port) \<in> set input_ports" for v1 v2 :: int
    by (simp add: input_ports_def)
  obtain q where q: "receiver_alarms env slot p = (True, q)"
    "does p1 (map (\<lambda>(a, port, v). (row_of slot a port, v))
     [(A_ANT_SHORT, 1, alm_sta_of (antenna_state (slot_sta (ic p) slot) = SATELLITE_ANTENNA_LOOP)),
      (A_ANT_OPEN, 1, alm_sta_of (antenna_state (slot_sta (ic p) slot) = SATELLITE_ANTENNA_OPEN))]) q"
    using in_alarms_does[OF assms(1,2) m v(2)] unfolding e by blast
  from does_seq[OF d q(2)] have "does p (cause_writes slot
     [((A_GPBD_SGN_DGD, 1), bad), ((A_ANT_SHORT, 1), antenna_state (slot_sta (ic p) slot) = SATELLITE_ANTENNA_LOOP),
      ((A_ANT_OPEN, 1), antenna_state (slot_sta (ic p) slot) = SATELLITE_ANTENNA_OPEN)]) q"
    by (simp add: cause_writes_def)
  then show ?thesis using q(1) by (simp only: bad_def) blast
qed

lemma slot_does:
  assumes "1 \<le> slot" "slot \<le> 4" "driver_inputs (ie_fpga env) (\<lambda>reqs. R)" "length (alarm (ic p)) = ALM_COUNT"
  shows "\<exists>q. read_slot_alarms env slot p = (True, q) \<and> does p (cause_writes slot (input_causes R p slot)) q"
proof -
  obtain p1 where r1: "in_read env (FPGA_IN_SIGNAL slot) p = (Some (R (FPGA_IN_SIGNAL slot)), p1)" "does p [] p1"
    using in_read_does[OF assms(3) slot_regs(1,2)[OF assms(1,2)] assms(4)] by blast
  note v1 = does_view[OF r1(2)]
  let ?sig = "R (FPGA_IN_SIGNAL slot)" and ?mb = "R (FPGA_IN_2MB_ALM slot)"
  show ?thesis
  proof (cases "sat_board (board_at p slot)")
    case True
    obtain p2 where s2: "in_alarms slot (signal_alarms ?sig) p1 = (True, p2)"
      "does p1 (map (\<lambda>(a, port, v). (row_of slot a port, v)) (signal_alarms ?sig)) p2"
      using in_alarms_does[OF assms(1,2), of "signal_alarms ?sig" p1] v1 by (auto simp: signal_alarms_def input_ports_def)
    note v2 = does_view[OF s2(2)]
    obtain p3 where t3: "time_alarm env ?sig slot p2 = (True, p3)" "does p2 (cause_writes slot (time_causes R p2 slot)) p3"
      using time_alarm_does[OF assms(1-3), of p2] v2 by auto
    note v3 = does_view[OF t3(2)]
    obtain p4 where r4: "in_read env (FPGA_IN_2MB_ALM slot) p3 = (Some ?mb, p4)" "does p3 [] p4"
      using in_read_does[OF assms(3) slot_regs(3,4)[OF assms(1,2)], of p3] v3 by auto
    note v4 = does_view[OF r4(2)]
    obtain p5 where m5: "in_alarms slot (mb_alarms ?mb) p4 = (True, p5)"
      "does p4 (map (\<lambda>(a, port, v). (row_of slot a port, v)) (mb_alarms ?mb)) p5"
      using in_alarms_does[OF assms(1,2), of "mb_alarms ?mb" p4] v4 by (auto simp: mb_alarms_def input_ports_def)
    note v5 = does_view[OF m5(2)]
    obtain q where q6: "receiver_alarms env slot p5 = (True, q)" "does p5 (cause_writes slot
     [((A_GPBD_SGN_DGD, 1), satellite_state (sat_at p5 slot) = 0 \<and> satellite_valid (sat_at p5 slot) = GET_SATELLITE),
      ((A_ANT_SHORT, 1), antenna_state (slot_sta (ic p5) slot) = SATELLITE_ANTENNA_LOOP),
      ((A_ANT_OPEN, 1), antenna_state (slot_sta (ic p5) slot) = SATELLITE_ANTENNA_OPEN)]) q"
      using receiver_does[OF assms(1,2), of p5 env] v5 by auto
    have b: "board_at p2 slot = board_at p slot" "board_at p3 slot = board_at p slot" "board_at p1 slot = board_at p slot"
      "board_at p slot \<noteq> BID_RTF" using v1 v2 v3 True in_boards_distinct by auto
    have run: "read_slot_alarms env slot p = (True, q)"
      by (simp add: read_slot_alarms_def r1(1) s2(1) t3(1) r4(1) m5(1) q6(1) b True)
    have "does p ([] @ map (\<lambda>(a, port, v). (row_of slot a port, v)) (signal_alarms ?sig) @ cause_writes slot (time_causes R p2 slot) @ []
      @ map (\<lambda>(a, port, v). (row_of slot a port, v)) (mb_alarms ?mb) @ cause_writes slot
     [((A_GPBD_SGN_DGD, 1), satellite_state (sat_at p5 slot) = 0 \<and> satellite_valid (sat_at p5 slot) = GET_SATELLITE),
      ((A_ANT_SHORT, 1), antenna_state (slot_sta (ic p5) slot) = SATELLITE_ANTENNA_LOOP),
      ((A_ANT_OPEN, 1), antenna_state (slot_sta (ic p5) slot) = SATELLITE_ANTENNA_OPEN)]) q"
      using r1(2) s2(2) t3(2) r4(2) m5(2) q6(2) by (blast intro: does_seq)
    moreover have "sat_at p5 slot = sat_at p slot" "slot_sta (ic p5) slot = slot_sta (ic p) slot"
      using v1 v2 v3 v4 v5 by simp_all
    ultimately have "does p (cause_writes slot (input_causes R p slot)) q"
      using b(1) True by (simp add: cause_writes_def input_causes_def Let_def time_causes_def signal_alarms_def mb_alarms_def)
    then show ?thesis using run by blast
  next
    case False
    obtain p3 where t3: "time_alarm env ?sig slot p1 = (True, p3)" "does p1 (cause_writes slot (time_causes R p1 slot)) p3"
      using time_alarm_does[OF assms(1-3), of p1] v1 by auto
    note v3 = does_view[OF t3(2)]
    have b: "board_at p1 slot = board_at p slot" "board_at p3 slot = board_at p slot" using v1 v3 by auto
    obtain p4 where m4: "in_alarms slot (rtf_alarms ?sig) p3 = (True, p4)"
      "does p3 (map (\<lambda>(a, port, v). (row_of slot a port, v)) (rtf_alarms ?sig)) p4"
      using in_alarms_does[OF assms(1,2), of "rtf_alarms ?sig" p3] v3 by (auto simp: rtf_alarms_def input_ports_def)
    note v4 = does_view[OF m4(2)]
    show ?thesis
    proof (cases "board_at p slot = BID_RTF")
      case True
      have "read_slot_alarms env slot p = (True, p4)"
        using v4 v3 by (simp add: read_slot_alarms_def r1(1) t3(1) m4(1) b False True in_boards_distinct)
      moreover have "does p ([] @ cause_writes slot (time_causes R p1 slot) @ map (\<lambda>(a, port, v). (row_of slot a port, v)) (rtf_alarms ?sig)) p4"
        using r1(2) t3(2) m4(2) by (blast intro: does_seq)
      ultimately show ?thesis using True b(1)
        by (simp add: cause_writes_def input_causes_def Let_def time_causes_def rtf_alarms_def in_boards_distinct in_boards_distinct(4)[symmetric])
    next
      case F: False
      have "read_slot_alarms env slot p = (True, p3)"
        using F False by (simp add: read_slot_alarms_def r1(1) t3(1) b)
      moreover have "does p ([] @ cause_writes slot (time_causes R p1 slot)) p3"
        using r1(2) t3(2) by (blast intro: does_seq)
      moreover have "time_causes R p1 slot = input_causes R p slot"
        using F False b(1) by (simp add: input_causes_def Let_def time_causes_def)
      ultimately show ?thesis by simp
    qed
  qed
qed

section \<open>All the slots\<close>

lemma input_causes_view: "does p W q \<Longrightarrow> input_causes R q slot = input_causes R p slot"
  using does_view[of p W q] by (simp add: input_causes_def Let_def)

lemma read_alarms_does:
  "driver_inputs (ie_fpga env) (\<lambda>reqs. R) \<Longrightarrow> length (alarm (ic p)) = ALM_COUNT \<Longrightarrow> \<forall>s \<in> set slots. 1 \<le> s \<and> s \<le> 4 \<Longrightarrow>
   \<exists>q. read_alarms env slots p = (True, q) \<and> does p (concat (map (\<lambda>s. cause_writes s (input_causes R p s)) slots)) q"
proof (induction slots arbitrary: p)
  case (Cons s slots)
  obtain q where q: "read_slot_alarms env s p = (True, q)" "does p (cause_writes s (input_causes R p s)) q"
    using slot_does[of s env R p] Cons.prems by auto
  obtain r where r: "read_alarms env slots q = (True, r)" "does q (concat (map (\<lambda>s. cause_writes s (input_causes R q s)) slots)) r"
    using Cons.IH[of q] Cons.prems does_view[OF q(2)] by auto
  have "read_alarms env (s # slots) p = (True, r)" by (simp add: q(1) r(1))
  moreover have "does p (concat (map (\<lambda>s. cause_writes s (input_causes R p s)) (s # slots))) r"
    using does_seq[OF q(2) r(2)] by (simp add: input_causes_view[OF q(2)])
  ultimately show ?case by blast
qed (simp add: does_nothing)

lemma causes_distinct: "distinct (map fst (input_causes R p slot))"
  by (simp add: input_causes_def Let_def port_values)

lemma map_of_rev_distinct: "distinct (map fst xs) \<Longrightarrow> map_of (rev xs) = map_of xs"
  by (subst map_of_inject_set) (simp_all add: rev_map[symmetric])

lemma cause_write_at:
  "map_of (rev (cause_writes s xs)) (row_of slot a port) = (if s = slot then map_option alm_sta_of (map_of (rev xs) (a, port)) else None)"
proof -
  have "map_of (map (\<lambda>((a, port), b). (row_of s a port, alm_sta_of b)) ys) (row_of slot a port)
    = (if s = slot then map_option alm_sta_of (map_of ys (a, port)) else None)" for ys
    by (induction ys) (auto simp: row_of_def)
  then show ?thesis by (simp add: cause_writes_def rev_map)
qed

lemma all_causes_at:
  "distinct slots \<Longrightarrow> map_of (rev (concat (map (\<lambda>s. cause_writes s (input_causes R p s)) slots))) (row_of slot a port)
    = (if slot \<in> set slots then map_option alm_sta_of (map_of (input_causes R p slot) (a, port)) else None)"
proof (induction slots)
  case (Cons s slots)
  then show ?case using causes_distinct[of R p s]
    by (auto simp: map_add_def cause_write_at map_of_rev_distinct split: option.split)
qed simp

section \<open>The properties\<close>

text \<open>
  C11: with a working device the reading of the alarms succeeds, and every alarm of the index table is on exactly when
  its cause holds for the board that is in the slot: the loss of a signal by the bits of its register, the failures of the
  2 Mbit/s frame, the few satellites, the antenna, and the time of an NTP board; every alarm that the board has no
  cause for stays as it was.
\<close>

theorem input_alarms_exact:
  "driver_inputs (ie_fpga env) (\<lambda>reqs. R) \<Longrightarrow> length (alarm (ic p)) = ALM_COUNT \<Longrightarrow>
   n = FIND_ALMINX_BY_SLOT_PORT_ID (SNMP_ALM_ID a) slot (int port) (- 1) \<Longrightarrow> n \<noteq> - 1 \<Longrightarrow>
   \<exists>q. ReadAlarm env p = (True, q) \<and>
     alarm (ic q) ! nat n =
       (if slot \<le> INPUT_SLOT_CURSOR_ARRAY_SIZE then
          (case map_of (input_causes R p slot) (a, port) of
             None \<Rightarrow> alarm (ic p) ! nat n
           | Some cause \<Rightarrow> if cause then ALM_ON else ALM_OFF)
        else alarm (ic p) ! nat n)"
proof -
  assume drv: "driver_inputs (ie_fpga env) (\<lambda>reqs. R)" and len: "length (alarm (ic p)) = ALM_COUNT"
    and n: "n = FIND_ALMINX_BY_SLOT_PORT_ID (SNMP_ALM_ID a) slot (int port) (- 1)" "n \<noteq> - 1"
  have slots: "[1..INPUT_SLOT_CURSOR_ARRAY_SIZE] = [1, 2, 3, 4]" by code_simp
  obtain q where q: "ReadAlarm env p = (True, q)"
    "does p (concat (map (\<lambda>s. cause_writes s (input_causes R p s)) [1, 2, 3, 4])) q"
    using read_alarms_does[OF drv len, of "[1, 2, 3, 4]"] unfolding ReadAlarm_def slots by auto
  have row: "nat n < ALM_COUNT" "pAlmInxTbl ! nat n = row_of slot a port"
    using find_alm[of "SNMP_ALM_ID a" slot "int port" n] n by (auto simp: row_of_def)
  have s1: "1 \<le> slot" using row_range[of "SNMP_ALM_ID a" slot "int port"] find_alm[of "SNMP_ALM_ID a" slot "int port" "- 1"] n
    by auto
  have in4: "slot \<in> set [1, 2, 3, 4] \<longleftrightarrow> slot \<le> INPUT_SLOT_CURSOR_ARRAY_SIZE"
    using s1 by (auto simp: INPUT_SLOT_CURSOR_ARRAY_SIZE_def)
  have "alarm (ic q) ! nat n = written_alarm (concat (map (\<lambda>s. cause_writes s (input_causes R p s)) [1, 2, 3, 4])) (alarm (ic p)) (nat n)"
    using q(2) row(1) unfolding does_def by blast
  also have "\<dots> = (case (if slot \<in> set [1, 2, 3, 4] then map_option alm_sta_of (map_of (input_causes R p slot) (a, port)) else None) of
     None \<Rightarrow> alarm (ic p) ! nat n | Some v \<Rightarrow> v)"
    unfolding written_alarm_def row(2) by (subst all_causes_at) auto
  also have "\<dots> = (if slot \<le> INPUT_SLOT_CURSOR_ARRAY_SIZE then
          (case map_of (input_causes R p slot) (a, port) of
             None \<Rightarrow> alarm (ic p) ! nat n | Some cause \<Rightarrow> if cause then ALM_ON else ALM_OFF)
        else alarm (ic p) ! nat n)"
    unfolding in4 by (auto simp: alm_sta_of_def split: option.split)
  finally show ?thesis using q(1) by blast
qed

theorem input_alarms_exact_witness:
  "\<exists>env p q. ReadAlarm env p = (True, q) \<and>
     alarm (ic q) ! nat (FIND_ALMINX_BY_SLOT_PORT_ID (SNMP_ALM_ID A_2MB_IN_LOS) 2 (int 3) (- 1)) = ALM_ON"
proof -
  define env where "env = \<lparr>ie_fpga = \<lambda>cmd temp reqs. (1, temp + 1), ie_time = \<lambda>_. None, ie_sema = \<lambda>_. True, ie_tmp = 0\<rparr>"
  define brd where "brd = \<lparr>boardId = BID_GBDBE, sys_mode = 1, antenna_state = 50, sta_flag = 0, trackngb = 0, pst_status = 0,
     ph = [], prio = [], ssm = []\<rparr>"
  define lp where "lp = \<lparr>lp_forecast = 0, lp_state = 0, lp_time = undefined, lp_second = 18, lp_mode = 0\<rparr>"
  define p where "p = \<lparr>ic = \<lparr>clock_type = 1, cs = undefined, alarm = replicate 651 0, inSta = replicate 4 brd, reqs = []\<rparr>,
     sats = [], ievnts = [], itimes = 0, isema = 0, refsrc_is_valid = 0, lp_old = lp, lp_new = lp, lp_set = lp, pps_count = 0,
     leapForecast_old = 0, leapForecast_new = 0, alm_num = 0, unalm_num = 0, old_schema = 0, pre_clock_state = 0,
     issued = [], shared_cs = None, shared_leap = None\<rparr>"
  have drv: "driver_inputs (ie_fpga env) (\<lambda>_ _. 1)" by (simp add: env_def driver_inputs_def)
  have len: "length (alarm (ic p)) = ALM_COUNT" by (simp add: p_def alm_count)
  have f: "FIND_ALMINX_BY_SLOT_PORT_ID (SNMP_ALM_ID A_2MB_IN_LOS) 2 (int 3) (- 1) \<noteq> - 1"
    using input_rows[of 2 A_2MB_IN_LOS 3] by (simp add: input_ports_def port_values)
  have b: "sat_board (board_at p 2)"
    by (simp add: p_def brd_def board_at_def slot_sta_def sat_board_def BID_GPSBF_def BID_BFFI_def BID_GBDBE_def numeral_2_eq_2)
  have m: "map_of (input_causes (\<lambda>_. 1) p 2) (A_2MB_IN_LOS, 3) = Some True"
    using b by (simp add: input_causes_def Let_def port_values)
  show ?thesis using input_alarms_exact[OF drv len refl f] m
    by (auto simp: INPUT_SLOT_CURSOR_ARRAY_SIZE_def)
qed

end
