(* ===== verification/LcdMenu.thy ===== *)
theory LcdMenu
  imports Fpga
begin

unbundle bit_operations_syntax

text \<open>
  The drawing on the display of the front panel, \<^verbatim>\<open>src/d-keylcd/dlcd_menu.c\<close>. The display has 8 lines of
  132 places: 4 for its commands and 128 columns of 8 dots. A place is written through three
  registers of the FPGA, and the results of the writes are not looked at.
\<close>

section \<open>The font\<close>

text \<open>\<open>ascii_6_8\<close>: 6 columns for each character from the space on.\<close>

definition ascii_6_8 :: "int list list" where
  "ascii_6_8 = [
    [0, 0, 0, 0, 0, 0], [0, 0, 79, 0, 0, 0], [0, 7, 0, 7, 0, 0], [20, 127, 20, 127, 20, 0],
    [36, 42, 127, 42, 18, 0], [35, 19, 8, 100, 98, 0], [54, 73, 85, 34, 80, 0], [0, 5, 3, 0, 0, 0],
    [0, 28, 34, 65, 0, 0], [0, 65, 34, 28, 0, 0], [20, 8, 62, 8, 20, 0], [8, 8, 62, 8, 8, 0],
    [0, 80, 48, 0, 0, 0], [8, 8, 8, 8, 8, 0], [0, 96, 96, 0, 0, 0], [32, 16, 8, 4, 2, 0],
    [62, 81, 73, 69, 62, 0], [0, 66, 127, 64, 0, 0], [66, 97, 81, 73, 70, 0], [33, 65, 69, 75, 49, 0],
    [24, 20, 18, 127, 16, 0], [39, 69, 69, 69, 57, 0], [60, 74, 73, 73, 48, 0], [1, 113, 9, 5, 3, 0],
    [54, 73, 73, 73, 54, 0], [6, 73, 73, 41, 30, 0], [0, 54, 54, 0, 0, 0], [0, 86, 54, 0, 0, 0],
    [8, 20, 34, 65, 0, 0], [20, 20, 20, 20, 20, 0], [0, 65, 34, 20, 8, 0], [2, 1, 81, 9, 6, 0],
    [50, 73, 121, 65, 62, 0], [126, 17, 17, 17, 126, 0], [127, 73, 73, 73, 54, 0],
    [62, 65, 65, 65, 34, 0], [127, 65, 65, 34, 28, 0], [127, 73, 73, 73, 65, 0], [127, 9, 9, 9, 1, 0],
    [62, 65, 73, 73, 122, 0], [127, 8, 8, 8, 127, 0], [0, 65, 127, 65, 0, 0], [32, 64, 65, 63, 1, 0],
    [127, 8, 20, 34, 65, 0], [127, 64, 64, 64, 64, 0], [127, 2, 12, 2, 127, 0], [127, 4, 8, 16, 127, 0],
    [62, 65, 65, 65, 62, 0], [127, 9, 9, 9, 6, 0], [62, 65, 81, 33, 94, 0], [127, 9, 25, 41, 70, 0],
    [70, 73, 73, 73, 49, 0], [1, 1, 127, 1, 1, 0], [63, 64, 64, 64, 63, 0], [31, 32, 64, 32, 31, 0],
    [63, 64, 56, 64, 63, 0], [99, 20, 8, 20, 99, 0], [7, 8, 112, 8, 7, 0], [97, 81, 73, 69, 67, 0],
    [0, 127, 65, 65, 0, 0], [2, 4, 8, 16, 32, 0], [0, 65, 65, 127, 0, 0], [4, 2, 1, 2, 4, 0],
    [64, 64, 64, 64, 64, 0], [0, 1, 2, 4, 0, 0], [32, 84, 84, 84, 120, 0], [127, 72, 68, 68, 56, 0],
    [56, 68, 68, 68, 32, 0], [56, 68, 68, 72, 127, 0], [56, 84, 84, 84, 24, 0], [8, 126, 9, 1, 2, 0],
    [12, 82, 82, 82, 62, 0], [127, 8, 4, 4, 120, 0], [0, 68, 125, 64, 0, 0], [32, 64, 68, 61, 0, 0],
    [127, 16, 40, 68, 0, 0], [0, 65, 127, 64, 0, 0], [124, 4, 24, 4, 120, 0], [124, 8, 4, 4, 120, 0],
    [56, 68, 68, 68, 56, 0], [124, 20, 20, 20, 8, 0], [8, 20, 20, 24, 124, 0], [124, 8, 4, 4, 8, 0],
    [72, 84, 84, 84, 32, 0], [4, 63, 68, 64, 32, 0], [60, 64, 64, 32, 124, 0], [28, 32, 64, 32, 28, 0],
    [60, 64, 48, 64, 60, 0], [68, 40, 16, 40, 68, 0], [12, 80, 80, 80, 60, 0], [68, 100, 84, 76, 68, 0],
    [0, 8, 54, 65, 0, 0], [0, 0, 127, 0, 0, 0], [0, 65, 54, 8, 0, 0], [8, 4, 8, 16, 8, 0],
    [8, 8, 42, 28, 8, 0], [8, 28, 42, 8, 8, 0], [4, 2, 127, 2, 4, 0], [16, 32, 127, 32, 16, 0],
    [21, 22, 124, 22, 21, 0], [3, 59, 68, 68, 68, 0], [3, 3, 124, 20, 20, 0], [68, 40, 16, 40, 68, 0],
    [8, 8, 42, 8, 8, 0], [56, 68, 72, 48, 44, 0], [248, 84, 84, 84, 40, 0], [40, 84, 84, 68, 32, 0],
    [62, 73, 9, 9, 6, 0], [56, 68, 76, 84, 36, 0], [64, 63, 8, 8, 31, 0], [31, 8, 8, 63, 64, 0],
    [60, 74, 74, 74, 60, 0], [88, 100, 4, 100, 88, 0], [68, 60, 4, 124, 68, 0], [48, 40, 16, 40, 24, 0],
    [48, 40, 36, 40, 48, 0], [8, 28, 8, 8, 14, 0]]"

definition LCD_DOT_X :: int where "LCD_DOT_X = 128"
definition LCD_FONT_X :: int where "LCD_FONT_X = 6"
definition LCD_LINE :: int where "LCD_LINE = 8"

section \<open>State\<close>

text \<open>
  The requests to the FPGA, the static variables of \<open>MainMenuOperate\<close>, the global ones of \<^verbatim>\<open>dlcd_ctrl.c\<close>, the
  number of commands run so far and the results of \<open>select\<close> to come.
\<close>

record lcdSt =
  lreqs :: "request list"
  FuncIndex :: int
  cmdOptionType :: int
  maxOrder :: int
  user_input_slot :: int
  lcd_timeout :: int
  lruns :: nat
  lwaits :: "int list"

text \<open>\<open>le_stack\<close> is what a buffer holds before it is set.\<close>

record lcdEnv =
  le_fpga :: driver
  le_popen :: "string \<Rightarrow> nat \<Rightarrow> string list option"
  le_stack :: string

definition lcd_write :: "lcdEnv \<Rightarrow> int \<Rightarrow> int \<Rightarrow> lcdSt \<Rightarrow> lcdSt" where
  "lcd_write env addr v s = s\<lparr>lreqs := snd (FpgaWrite (le_fpga env) addr v (lreqs s))\<rparr>"

section \<open>Drawing\<close>

definition TransferCommad :: "lcdEnv \<Rightarrow> int \<Rightarrow> int \<Rightarrow> int \<Rightarrow> lcdSt \<Rightarrow> lcdSt" where
  "TransferCommad env line offset data s =
     (let s = lcd_write env FPGA_LCD_ADDR (line * 132 + offset) s;
          s = lcd_write env FPGA_LCD_DATA data s;
          s = lcd_write env FPGA_LCD_WE 0x01 s
      in lcd_write env FPGA_LCD_WE 0x00 s)"

definition TransferData :: "lcdEnv \<Rightarrow> int \<Rightarrow> int \<Rightarrow> int \<Rightarrow> lcdSt \<Rightarrow> lcdSt" where
  "TransferData env line offset data s =
     (let s = lcd_write env FPGA_LCD_ADDR (line * 132 + 0x04 + offset) s;
          s = lcd_write env FPGA_LCD_DATA (0x100 OR (data AND 0xFF)) s;
          s = lcd_write env FPGA_LCD_WE 0x01 s
      in lcd_write env FPGA_LCD_WE 0x00 s)"

definition OneLineBegin :: "lcdEnv \<Rightarrow> int \<Rightarrow> lcdSt \<Rightarrow> lcdSt" where
  "OneLineBegin env line s =
     TransferCommad env line 3 0x00 (TransferCommad env line 2 0x10
       (TransferCommad env line 1 (0xB0 + line) (TransferCommad env line 0 0xA6 s)))"

text \<open>Columns one after the other.\<close>

fun transfer_columns :: "lcdEnv \<Rightarrow> int \<Rightarrow> int \<Rightarrow> int list \<Rightarrow> lcdSt \<Rightarrow> lcdSt" where
  "transfer_columns env line offset [] s = s"
| "transfer_columns env line offset (x # xs) s = transfer_columns env line (offset + 1) xs (TransferData env line offset x s)"

text \<open>A character outside of the font has no value; the loop ends at the right end of the line.\<close>

definition glyph :: "char \<Rightarrow> int list option" where
  "glyph c = arr ascii_6_8 (of_char c - 32)"

fun draw_chars :: "lcdEnv \<Rightarrow> int \<Rightarrow> int \<Rightarrow> string \<Rightarrow> lcdSt \<Rightarrow> lcdSt option" where
  "draw_chars env line i [] s = Some s"
| "draw_chars env line i (c # cs) s =
     (if i < LCD_DOT_X then
        (case glyph c of None \<Rightarrow> None
         | Some g \<Rightarrow> draw_chars env line (i + LCD_FONT_X) cs (transfer_columns env line i g s))
      else Some s)"

definition DrawOneString :: "lcdEnv \<Rightarrow> string \<Rightarrow> int \<Rightarrow> lcdSt \<Rightarrow> lcdSt option" where
  "DrawOneString env str line s = draw_chars env line 0 str (OneLineBegin env line s)"

definition FullScreenEnd :: "lcdEnv \<Rightarrow> lcdSt \<Rightarrow> lcdSt" where
  "FullScreenEnd env s = lcd_write env FPGA_LCD_WREADY 0x00 (lcd_write env FPGA_LCD_WREADY 0x01 s)"

fun clear_lines :: "lcdEnv \<Rightarrow> int list \<Rightarrow> lcdSt \<Rightarrow> lcdSt" where
  "clear_lines env [] s = s"
| "clear_lines env (i # is) s =
     clear_lines env is (transfer_columns env i 0 (replicate (nat LCD_DOT_X) 0x00) (OneLineBegin env i s))"

definition FullScreenClear :: "lcdEnv \<Rightarrow> lcdSt \<Rightarrow> lcdSt" where
  "FullScreenClear env s = FullScreenEnd env (clear_lines env [0..LCD_LINE - 1] s)"

text \<open>The star in the first place of a line, and a space in that of the others.\<close>

fun clear_marks :: "lcdEnv \<Rightarrow> int list \<Rightarrow> lcdSt \<Rightarrow> lcdSt" where
  "clear_marks env [] s = s"
| "clear_marks env (i # is) s =
     clear_marks env is (transfer_columns env i 0 (ascii_6_8 ! 0) (OneLineBegin env i s))"

definition ShowMenuChange :: "lcdEnv \<Rightarrow> int \<Rightarrow> lcdSt \<Rightarrow> lcdSt" where
  "ShowMenuChange env line s =
     FullScreenEnd env (transfer_columns env line 0 (ascii_6_8 ! 10) (OneLineBegin env line (clear_marks env [0..LCD_LINE - 1] s)))"

end
