(* ===== verification/LcdCtrl.thy ===== *)
theory LcdCtrl
  imports LcdMenu CText
begin

unbundle bit_operations_syntax

text \<open>
  The menus of the front panel, \<^verbatim>\<open>src/d-keylcd/dlcd_ctrl.c\<close>. A command of the shell is run by
  \<open>popen\<close>; its output is the list of the lines that \<open>fgets\<close> reads. The display of the time and of the satellites
  after a time-out runs in a thread of its own and is left out.
\<close>

section \<open>The menus\<close>

datatype lcd_cmd =
  LCD_ViewVersion | LCD_ViewHelp | LCD_SystemConfig | LCD_AlarmConfig | LCD_InputConfig | LCD_OutputConfig
| LCD_View_Time | LCD_View_Leap | LCD_View_Net | LCD_View_Clock | LCD_View_Btype
| LCD_View_Alarm | LCD_View_AlarmHistory
| LCD_View_Status | LCD_View_Priority | LCD_View_SSM_SA | LCD_View_Signal | LCD_View_Mode | LCD_View_Elevation | LCD_View_Lola
| LCD_View_Output

definition GENERIC_READ_CMD_OPTION :: int where "GENERIC_READ_CMD_OPTION = 1"
definition GENERIC_MENU_OPTION :: int where "GENERIC_MENU_OPTION = 3"

record cmdMenu =
  shortDesc :: string
  cmd_func :: lcd_cmd
  option_type :: int
  menu_level :: int
  menu_group :: int
  menu_order :: int

definition menu_row :: "string \<Rightarrow> lcd_cmd \<Rightarrow> int \<Rightarrow> int \<Rightarrow> int \<Rightarrow> int \<Rightarrow> cmdMenu" where
  "menu_row d f t l g k = \<lparr>shortDesc = d, cmd_func = f, option_type = t, menu_level = l, menu_group = g, menu_order = k\<rparr>"

text \<open>The table ends before the entry without a function.\<close>

definition cmd_menu :: "cmdMenu list" where
  "cmd_menu = [
     menu_row ''  View Version'' LCD_ViewVersion GENERIC_READ_CMD_OPTION 0 0 0,
     menu_row ''  View Baudrate'' LCD_ViewHelp GENERIC_READ_CMD_OPTION 0 0 1,
     menu_row ''  System Config'' LCD_SystemConfig GENERIC_MENU_OPTION 0 0 2,
     menu_row ''  View Alarm'' LCD_AlarmConfig GENERIC_MENU_OPTION 0 0 3,
     menu_row ''  Input Boards'' LCD_InputConfig GENERIC_MENU_OPTION 0 0 4,
     menu_row ''  Output Boards'' LCD_OutputConfig GENERIC_MENU_OPTION 0 0 5,
     menu_row ''  View Current Time'' LCD_View_Time GENERIC_READ_CMD_OPTION 1 2 0,
     menu_row ''  View Leap Second'' LCD_View_Leap GENERIC_READ_CMD_OPTION 1 2 1,
     menu_row ''  View Net Config'' LCD_View_Net GENERIC_READ_CMD_OPTION 1 2 2,
     menu_row ''  View Clock Type'' LCD_View_Clock GENERIC_READ_CMD_OPTION 1 2 3,
     menu_row ''  View Board Type'' LCD_View_Btype GENERIC_READ_CMD_OPTION 1 2 4,
     menu_row ''  View Current Alarm'' LCD_View_Alarm GENERIC_READ_CMD_OPTION 1 3 0,
     menu_row ''  View History Alarm '' LCD_View_AlarmHistory GENERIC_READ_CMD_OPTION 1 3 1,
     menu_row ''  View GPS/BD Status'' LCD_View_Status GENERIC_READ_CMD_OPTION 1 4 0,
     menu_row ''  View Priority'' LCD_View_Priority GENERIC_READ_CMD_OPTION 1 4 1,
     menu_row ''  View SSM/SA'' LCD_View_SSM_SA GENERIC_READ_CMD_OPTION 1 4 2,
     menu_row ''  View Signal'' LCD_View_Signal GENERIC_READ_CMD_OPTION 1 4 3,
     menu_row ''  View Mode'' LCD_View_Mode GENERIC_READ_CMD_OPTION 1 4 4,
     menu_row ''  View Elevation'' LCD_View_Elevation GENERIC_READ_CMD_OPTION 1 4 5,
     menu_row ''  View Lo/La'' LCD_View_Lola GENERIC_READ_CMD_OPTION 1 4 6,
     menu_row ''  View Output'' LCD_View_Output GENERIC_READ_CMD_OPTION 1 5 0]"

definition menu_at :: "int \<Rightarrow> cmdMenu" where
  "menu_at i = cmd_menu ! nat i"

definition in_group :: "int \<Rightarrow> int \<Rightarrow> cmdMenu \<Rightarrow> bool" where
  "in_group level grp m \<longleftrightarrow> menu_level m = level \<and> menu_group m = grp"

text \<open>Lines drawn from a line on.\<close>

fun draw_texts :: "lcdEnv \<Rightarrow> int \<Rightarrow> string list \<Rightarrow> lcdSt \<Rightarrow> lcdSt option" where
  "draw_texts env line [] s = Some s"
| "draw_texts env line (t # ts) s =
     (case DrawOneString env t line s of None \<Rightarrow> None | Some s \<Rightarrow> draw_texts env (line + 1) ts s)"

definition InitMenu :: "lcdEnv \<Rightarrow> int \<Rightarrow> int \<Rightarrow> lcdSt \<Rightarrow> lcdSt option" where
  "InitMenu env level grp s =
     map_option (FullScreenEnd env)
       (draw_texts env 0 (map shortDesc (filter (in_group level grp) cmd_menu)) (FullScreenClear env s))"

definition GetMaxOrder :: "int \<Rightarrow> int" where
  "GetMaxOrder index =
     int (length (filter (in_group (menu_level (menu_at index)) (menu_group (menu_at index))) cmd_menu)) - 1"

text \<open>The index of the first entry, or the length of the table.\<close>

fun index_where :: "(cmdMenu \<Rightarrow> bool) \<Rightarrow> cmdMenu list \<Rightarrow> int" where
  "index_where P [] = 0"
| "index_where P (m # ms) = (if P m then 0 else index_where P ms + 1)"

definition GetIndexByGroup :: "int \<Rightarrow> int \<Rightarrow> int" where
  "GetIndexByGroup level grp = index_where (in_group level grp) cmd_menu"

definition GetIndexByOrder :: "int \<Rightarrow> int \<Rightarrow> int" where
  "GetIndexByOrder level order = index_where (\<lambda>m. menu_level m = level \<and> menu_order m = order) cmd_menu"

section \<open>Keys\<close>

definition KEY_MENU :: int where "KEY_MENU = 0"
definition KEY_UP :: int where "KEY_UP = 1"
definition KEY_DOWN :: int where "KEY_DOWN = 2"
definition KEY_CONFIRM :: int where "KEY_CONFIRM = 3"
definition KEY_RETURN :: int where "KEY_RETURN = 4"

definition KeyValue :: "lcdEnv \<Rightarrow> lcdSt \<Rightarrow> int \<times> lcdSt" where
  "KeyValue env s =
     (case FpgaRead (le_fpga env) FPGA_KEY_TABLE (lreqs s) of
        (v, rs) \<Rightarrow>
          (case v of
             None \<Rightarrow> - 1
           | Some k \<Rightarrow> if k = 0x01 then KEY_MENU else if k = 0x02 then KEY_UP else if k = 0x04 then KEY_DOWN
               else if k = 0x08 then KEY_CONFIRM else if k = 0x10 then KEY_RETURN else - 2, s\<lparr>lreqs := rs\<rparr>))"

text \<open>\<open>%06d\<close>.\<close>

definition pr_06d :: "int \<Rightarrow> string" where
  "pr_06d i = (if i < 0 then CHR ''-'' # replicate (5 - length (pr_d (- i))) CHR ''0'' @ pr_d (- i)
     else replicate (6 - length (pr_d i)) CHR ''0'' @ pr_d i)"

text \<open>The first component is the result.\<close>

definition show_num :: "lcdEnv \<Rightarrow> int \<Rightarrow> lcdSt \<Rightarrow> lcdSt option" where
  "show_num env num s = map_option (FullScreenEnd env) (DrawOneString env (''  '' @ pr_06d num) 4 s)"

definition SubMenuGetValue :: "lcdEnv \<Rightarrow> int \<Rightarrow> int \<Rightarrow> int \<Rightarrow> int \<Rightarrow> lcdSt \<Rightarrow> (int \<times> int \<times> lcdSt) option" where
  "SubMenuGetValue env key num mn mx s =
     (if key = KEY_UP then
        (let num = (if num + 1 > mx then mx else num + 1) in map_option (\<lambda>s. (0, num, s)) (show_num env num s))
      else if key = KEY_DOWN then
        (let num = (if num - 1 < mn then mn else num - 1) in map_option (\<lambda>s. (0, num, s)) (show_num env num s))
      else if key = KEY_RETURN \<or> key = KEY_MENU then Some (0, num, s)
      else if key = KEY_CONFIRM then Some (1, num, s)
      else Some (- 1, num, s))"

text \<open>
  The loop waits for the interrupt of a key: \<open>lwaits\<close> are the results of \<open>select\<close>. It has no value
  when no more results come.
\<close>

fun input_loop :: "lcdEnv \<Rightarrow> int \<Rightarrow> int \<Rightarrow> int list \<Rightarrow> int \<Rightarrow> lcdSt \<Rightarrow> (int \<times> lcdSt) option" where
  "input_loop env mn mx [] num s = None"
| "input_loop env mn mx (w # ws) num s =
     (if w = 1 then
        (case KeyValue env s of
           (key, s) \<Rightarrow>
             (case SubMenuGetValue env key num mn mx s of
                None \<Rightarrow> None
              | Some (r, num, s) \<Rightarrow> if r = 1 then Some (num, s\<lparr>lwaits := ws\<rparr>) else input_loop env mn mx ws num s))
      else input_loop env mn mx ws num s)"

definition GetInputValue :: "lcdEnv \<Rightarrow> int \<Rightarrow> int \<Rightarrow> lcdSt \<Rightarrow> lcdSt option" where
  "GetInputValue env mn mx s =
     map_option (\<lambda>(num, s). s\<lparr>user_input_slot := num\<rparr>) (input_loop env mn mx (lwaits s) mn s)"

section \<open>Views\<close>

definition popen :: "lcdEnv \<Rightarrow> string \<Rightarrow> lcdSt \<Rightarrow> string list option \<times> lcdSt" where
  "popen env command s = (le_popen env command (lruns s), s\<lparr>lruns := lruns s + 1\<rparr>)"

definition CMD_MSG_LEN :: nat where "CMD_MSG_LEN = 128"
definition LCD_MSG_LEN :: nat where "LCD_MSG_LEN = 32"

text \<open>A text in a buffer of \<open>LCD_MSG_LEN\<close>; a longer one overruns it.\<close>

definition fits :: "string \<Rightarrow> string option" where
  "fits t = (if length t < LCD_MSG_LEN then Some t else None)"

definition view_popen :: "lcdEnv \<Rightarrow> string \<Rightarrow> (string list \<Rightarrow> lcdSt \<Rightarrow> lcdSt option) \<Rightarrow> lcdSt \<Rightarrow> lcdSt option" where
  "view_popen env command draw s =
     (case popen env command s of
        (None, s) \<Rightarrow> Some s
      | (Some out, s) \<Rightarrow> map_option (FullScreenEnd env) (draw out (FullScreenClear env s)))"

definition LCD_View_Common :: "lcdEnv \<Rightarrow> string \<Rightarrow> lcdSt \<Rightarrow> lcdSt option" where
  "LCD_View_Common env command =
     view_popen env command (\<lambda>out. draw_texts env 0 (map butlast (take (nat LCD_LINE) out)))"

definition view_leap :: "lcdEnv \<Rightarrow> lcdSt \<Rightarrow> lcdSt option" where
  "view_leap env = view_popen env ''p350sys leap'' (\<lambda>out s.
     case out of [] \<Rightarrow> Some s
     | buf # _ \<Rightarrow> Option.bind (fits ('' Leap Time :'' @ buf)) (\<lambda>t. DrawOneString env (butlast t @ ''s'') 4 s))"

text \<open>Whether a text is in another (\<open>strstr\<close>).\<close>

fun has_text :: "string \<Rightarrow> string \<Rightarrow> bool" where
  "has_text t [] = (t = [])"
| "has_text t (c # cs) = (take (length t) (c # cs) = t \<or> has_text t cs)"

text \<open>The boards, without the empty slots.\<close>

fun btype_loop :: "lcdEnv \<Rightarrow> int \<Rightarrow> int \<Rightarrow> string list \<Rightarrow> lcdSt \<Rightarrow> lcdSt option" where
  "btype_loop env line slot [] s = Some s"
| "btype_loop env line slot (buf # out) s =
     (if LCD_LINE \<le> line then Some s
      else if has_text ''none'' (butlast buf) then btype_loop env line (slot + 1) out s
      else (case Option.bind (fits (''Slot '' @ pr_d slot @ '': '' @ butlast buf)) (\<lambda>t. DrawOneString env t line s) of
              None \<Rightarrow> None
            | Some s \<Rightarrow> btype_loop env (line + 1) (slot + 1) out s))"

definition view_btype :: "lcdEnv \<Rightarrow> lcdSt \<Rightarrow> lcdSt option" where
  "view_btype env = view_popen env ''p350sys btype'' (btype_loop env 0 1)"

definition view_history :: "lcdEnv \<Rightarrow> lcdSt \<Rightarrow> lcdSt option" where
  "view_history env = view_popen env ''p350alm almnum'' (\<lambda>out s.
     case out of [] \<Rightarrow> Some s
     | buf # _ \<Rightarrow> Option.bind (fits ('' History Alarm : '' @ pr_d (atoi buf))) (\<lambda>t. DrawOneString env t 4 s))"

fun priority_lines :: "nat \<Rightarrow> string \<Rightarrow> string list" where
  "priority_lines k [] = []"
| "priority_lines k (c # cs) = (''Signal '' @ pr_d (int k) @ '': '' @ [c]) # priority_lines (k + 1) cs"

definition view_priority :: "lcdEnv \<Rightarrow> lcdSt \<Rightarrow> lcdSt option" where
  "view_priority env s = view_popen env (''p350in '' @ pr_d (user_input_slot s) @ '' prio'') (\<lambda>out s.
     case out of [] \<Rightarrow> Some s
     | buf # _ \<Rightarrow> if has_text ''Failure'' buf then Some s
         else draw_texts env 0 (take (nat LCD_LINE) (priority_lines 1 (butlast buf))) s) s"

text \<open>The parts between the separators that are not empty (\<open>strtok\<close>).\<close>

fun tokens :: "char \<Rightarrow> string \<Rightarrow> string \<Rightarrow> string list" where
  "tokens sep [] acc = (if acc = [] then [] else [acc])"
| "tokens sep (c # cs) acc =
     (if c = sep then (if acc = [] then tokens sep cs [] else acc # tokens sep cs []) else tokens sep cs (acc @ [c]))"

text \<open>Texts that must fit, drawn from a line on.\<close>

fun draw_fitting :: "lcdEnv \<Rightarrow> int \<Rightarrow> string list \<Rightarrow> lcdSt \<Rightarrow> lcdSt option" where
  "draw_fitting env line [] s = Some s"
| "draw_fitting env line (t # ts) s =
     (case Option.bind (fits t) (\<lambda>t. DrawOneString env t line s) of
        None \<Rightarrow> None | Some s \<Rightarrow> draw_fitting env (line + 1) ts s)"

fun numbered :: "string \<Rightarrow> nat \<Rightarrow> string list \<Rightarrow> string list" where
  "numbered name k [] = []"
| "numbered name k (t # ts) = (name @ pr_d (int k) @ '': '' @ t) # numbered name (k + 1) ts"

definition view_signal :: "lcdEnv \<Rightarrow> lcdSt \<Rightarrow> lcdSt option" where
  "view_signal env s = view_popen env (''p350in '' @ pr_d (user_input_slot s) @ '' signal'') (\<lambda>out s.
     case out of [] \<Rightarrow> Some s
     | buf # _ \<Rightarrow> draw_fitting env 0 (numbered ''Signal '' 1 (take (nat LCD_LINE) (tokens (CHR '':'') (butlast buf) []))) s) s"

definition mode_lines :: "string \<Rightarrow> string list" where
  "mode_lines buf =
     (if has_text ''SG'' buf then [''Mode : Single'', ''Satellite : GPS'']
      else if has_text ''SB'' buf then [''Mode : Single'', ''Satellite : BD'']
      else if has_text ''MG'' buf then [''Mode : Mix'', ''Satellite : GPS'']
      else if has_text ''MB'' buf then [''Mode : Mix'', ''Satellite : BD'']
      else [])"

definition view_mode :: "lcdEnv \<Rightarrow> lcdSt \<Rightarrow> lcdSt option" where
  "view_mode env s = view_popen env (''p350in '' @ pr_d (user_input_slot s) @ '' mode'') (\<lambda>out s.
     case out of [] \<Rightarrow> Some s | buf # _ \<Rightarrow> draw_texts env 0 (mode_lines buf) s) s"

definition view_elevation :: "lcdEnv \<Rightarrow> lcdSt \<Rightarrow> lcdSt option" where
  "view_elevation env s = view_popen env (''p350in '' @ pr_d (user_input_slot s) @ '' elev'') (\<lambda>out s.
     case out of [] \<Rightarrow> Some s
     | buf # _ \<Rightarrow> if length buf < CMD_MSG_LEN - 1 then DrawOneString env (butlast buf @ '' M'') 4 s else Some s) s"

definition output_names :: "(nat \<times> string) list" where
  "output_names = [(0, ''Delay     : ''), (2, ''Delay type: ''), (3, ''Multi type: ''), (4, ''Layer     : ''),
     (5, ''Step     : ''), (10, ''IP:''), (11, ''MAC:''), (12, ''SVR-IP:''), (15, ''Region:'')]"

fun output_lines :: "nat \<Rightarrow> string list \<Rightarrow> string list" where
  "output_lines k [] = []"
| "output_lines k (t # ts) =
     (case map_of output_names k of None \<Rightarrow> output_lines (k + 1) ts | Some n \<Rightarrow> (n @ t) # output_lines (k + 1) ts)"

definition view_output :: "lcdEnv \<Rightarrow> lcdSt \<Rightarrow> lcdSt option" where
  "view_output env s = view_popen env (''p350out '' @ pr_d (user_input_slot s)) (\<lambda>out s.
     case out of [] \<Rightarrow> Some s
     | buf # _ \<Rightarrow> if has_text ''|'' buf then draw_fitting env 0 (output_lines 0 (tokens (CHR ''|'') (butlast buf) [])) s
         else Some s) s"

text \<open>The alarms that are on and not masked are counted; \<open>fgets\<close> leaves what is behind the end of a line.\<close>

definition fgets_over :: "string \<Rightarrow> string \<Rightarrow> string" where
  "fgets_over old new = new @ CHR 0x00 # drop (length new + 1) old"

fun count_alarms :: "string list \<Rightarrow> string \<Rightarrow> int \<Rightarrow> int" where
  "count_alarms [] buf num = num"
| "count_alarms (l # ls) buf num =
     (let buf = fgets_over buf l
      in count_alarms ls buf (if buf ! 0 = CHR ''1'' \<and> buf ! 4 = CHR ''0'' then num + 1 else num))"

definition view_alarm :: "lcdEnv \<Rightarrow> lcdSt \<Rightarrow> lcdSt option" where
  "view_alarm env = view_popen env ''p350alm'' (\<lambda>out s.
     Option.bind (fits ('' Current Alarm : '' @ pr_d (count_alarms out (le_stack env) 0))) (\<lambda>t. DrawOneString env t 4 s))"

definition LCD_Get_Schema :: "lcdEnv \<Rightarrow> lcdSt \<Rightarrow> int \<times> lcdSt" where
  "LCD_Get_Schema env s =
     (case popen env ''p350in schema'' s of
        (None, s) \<Rightarrow> (- 1, s)
      | (Some out, s) \<Rightarrow>
          (case out of [] \<Rightarrow> - 1
           | buf # _ \<Rightarrow> if has_text ''free'' buf then - 1 else if has_text ''force'' buf then 1 else - 1, s))"

definition schema_line :: "int \<Rightarrow> string list" where
  "schema_line flag = (if flag = 0 then [''Schema Mode: Standby''] else if flag = 1 then [''Schema Mode: Active'']
     else if flag = - 1 then [''Schema Mode: Free''] else [])"

text \<open>The lines 12 and 13 of the output; the first one is copied over the text of the command.\<close>

definition status_lines :: "string \<Rightarrow> string list \<Rightarrow> string list" where
  "status_lines command out =
     (if length out < 12 then []
      else (let b = out ! 11 in
              if has_text ''GPS'' b then take 10 b @ (if length b < 10 then [] else drop 10 command) else ''GPS | 0 |'')
           # (if length out < 13 then []
              else [let b = out ! 12 in if has_text ''BD'' b then take 9 b else ''BD | 0 |'']))"

definition view_status :: "lcdEnv \<Rightarrow> lcdSt \<Rightarrow> lcdSt option" where
  "view_status env s =
     (case LCD_Get_Schema env s of
        (flag, s) \<Rightarrow>
          (let command = ''p350in '' @ pr_d (user_input_slot s) @ '' 1''
           in view_popen env command (\<lambda>out. draw_texts env 0 (schema_line flag @ status_lines command out)) s))"

definition view_ssm_sa :: "lcdEnv \<Rightarrow> lcdSt \<Rightarrow> lcdSt option" where
  "view_ssm_sa env s =
     (case popen env (''p350in '' @ pr_d (user_input_slot s) @ '' ssm'') (FullScreenClear env s) of
        (None, s) \<Rightarrow> Some s
      | (Some out, s) \<Rightarrow>
          Option.bind (draw_fitting env 2 (map butlast out) s) (\<lambda>s.
            case popen env (''p350in '' @ pr_d (user_input_slot s) @ '' sa'') s of
              (None, s) \<Rightarrow> Some s
            | (Some out', s) \<Rightarrow>
                map_option (FullScreenEnd env) (draw_fitting env (2 + int (length out)) (map butlast (take 1 out')) s)))"

definition input_config :: "lcdEnv \<Rightarrow> int \<Rightarrow> int \<Rightarrow> lcdSt \<Rightarrow> lcdSt option" where
  "input_config env mx grp s =
     Option.bind (DrawOneString env (''Input your slot(1-'' @ pr_d mx @ ''):'') 0 s) (\<lambda>s.
     Option.bind (DrawOneString env ''  000001'' 4 s) (\<lambda>s.
     Option.bind (GetInputValue env 1 mx (FullScreenEnd env s)) (InitMenu env 1 grp)))"

definition run_cmd :: "lcdEnv \<Rightarrow> lcd_cmd \<Rightarrow> lcdSt \<Rightarrow> lcdSt option" where
  "run_cmd env f s =
     (case f of
        LCD_ViewVersion \<Rightarrow> LCD_View_Common env ''p350sys ver'' s
      | LCD_ViewHelp \<Rightarrow> map_option (FullScreenEnd env) (DrawOneString env ''  Baudrate: 115200'' 4 (FullScreenClear env s))
      | LCD_SystemConfig \<Rightarrow> InitMenu env 1 2 s
      | LCD_AlarmConfig \<Rightarrow> InitMenu env 1 3 s
      | LCD_InputConfig \<Rightarrow> input_config env 4 4 (FullScreenClear env s)
      | LCD_OutputConfig \<Rightarrow> input_config env 16 5 (FullScreenClear env (FullScreenClear env s))
      | LCD_View_Time \<Rightarrow> LCD_View_Common env ''p350sys time'' s
      | LCD_View_Leap \<Rightarrow> view_leap env s
      | LCD_View_Net \<Rightarrow> LCD_View_Common env ''p350sys net'' s
      | LCD_View_Clock \<Rightarrow> LCD_View_Common env ''p350sys clock'' s
      | LCD_View_Btype \<Rightarrow> view_btype env s
      | LCD_View_Alarm \<Rightarrow> view_alarm env s
      | LCD_View_AlarmHistory \<Rightarrow> view_history env s
      | LCD_View_Status \<Rightarrow> view_status env s
      | LCD_View_Priority \<Rightarrow> view_priority env s
      | LCD_View_SSM_SA \<Rightarrow> view_ssm_sa env s
      | LCD_View_Signal \<Rightarrow> view_signal env s
      | LCD_View_Mode \<Rightarrow> view_mode env s
      | LCD_View_Elevation \<Rightarrow> view_elevation env s
      | LCD_View_Lola \<Rightarrow> LCD_View_Common env (''p350in '' @ pr_d (user_input_slot s) @ '' lola'') s
      | LCD_View_Output \<Rightarrow> view_output env s)"

section \<open>The keys of the menus\<close>

definition show_index :: "lcdEnv \<Rightarrow> int \<Rightarrow> lcdSt \<Rightarrow> lcdSt" where
  "show_index env i s = ShowMenuChange env (menu_order (menu_at i)) (s\<lparr>FuncIndex := i\<rparr>)"

definition key_return :: "lcdEnv \<Rightarrow> lcdSt \<Rightarrow> lcdSt option" where
  "key_return env s =
     (let i = (if cmdOptionType s = GENERIC_MENU_OPTION
               then GetIndexByOrder (if menu_level (menu_at (FuncIndex s)) = 0 then 0 else menu_level (menu_at (FuncIndex s)) - 1) 0
               else FuncIndex s)
      in map_option (\<lambda>s. (show_index env i s)\<lparr>cmdOptionType := GENERIC_MENU_OPTION, maxOrder := GetMaxOrder i\<rparr>)
           (InitMenu env (menu_level (menu_at i)) (menu_group (menu_at i)) s))"

definition key_confirm :: "lcdEnv \<Rightarrow> lcdSt \<Rightarrow> lcdSt option" where
  "key_confirm env s =
     (let m = menu_at (FuncIndex s)
      in map_option (\<lambda>s. let s = s\<lparr>cmdOptionType := option_type m\<rparr>
           in if option_type m = GENERIC_MENU_OPTION then
                (let i = GetIndexByGroup (menu_level m + 1) (menu_order m)
                 in show_index env i (s\<lparr>maxOrder := GetMaxOrder i\<rparr>))
              else s)
           (run_cmd env (cmd_func m) s))"

definition MainMenuOperate :: "lcdEnv \<Rightarrow> int \<Rightarrow> lcdSt \<Rightarrow> lcdSt option" where
  "MainMenuOperate env key s =
     (let i = FuncIndex s; k = menu_order (menu_at i)
      in if key = KEY_UP then
           Some (if cmdOptionType s = GENERIC_MENU_OPTION then show_index env (if k = 0 then i else i - 1) s else s)
         else if key = KEY_DOWN then
           Some (if cmdOptionType s = GENERIC_MENU_OPTION then show_index env (if k = maxOrder s then i else i + 1) s else s)
         else if key = KEY_RETURN then key_return env s
         else if key = KEY_MENU then
           map_option (\<lambda>s. (show_index env 0 s)\<lparr>cmdOptionType := GENERIC_MENU_OPTION, maxOrder := GetMaxOrder 0\<rparr>)
             (InitMenu env 0 0 s)
         else if key = KEY_CONFIRM then key_confirm env s
         else Some s)"

text \<open>
  A turn of the main loop for a result of \<open>select\<close>: a key, or a time-out, which starts the display of the time. The first
  key after it goes back to the main menu.
\<close>

definition lcd_turn :: "lcdEnv \<Rightarrow> lcdSt \<Rightarrow> lcdSt option" where
  "lcd_turn env s =
     (case lwaits s of
        [] \<Rightarrow> None
      | w # ws \<Rightarrow>
          (let s = s\<lparr>lwaits := ws\<rparr>
           in if w = 1 then
                (if lcd_timeout s = 1 then MainMenuOperate env KEY_MENU (s\<lparr>lcd_timeout := 0\<rparr>)
                 else (case KeyValue env s of
                         (key, s) \<Rightarrow> if key = - 1 \<or> key = - 2 then Some s else MainMenuOperate env key s))
              else if w = 0 then Some (if lcd_timeout s = 0 then s\<lparr>lcd_timeout := 1\<rparr> else s)
              else Some s))"

text \<open>The values that the static variables have at the start.\<close>

definition lcd_start :: "lcdEnv \<Rightarrow> int list \<Rightarrow> lcdSt option" where
  "lcd_start env waits =
     InitMenu env 0 0 \<lparr>lreqs = [], FuncIndex = 0, cmdOptionType = GENERIC_MENU_OPTION, maxOrder = 5,
       user_input_slot = 0, lcd_timeout = 0, lruns = 0, lwaits = waits\<rparr>"

end
