(* ===== verification/LcdSpec.thy ===== *)
theory LcdSpec
  imports LcdCtrl FpgaInputs
begin

unbundle bit_operations_syntax

text \<open>
  What the front panel shows: the places of the display after the requests, the texts drawn on it, and the menus that
  the keys lead through.
\<close>

section \<open>The display behind the FPGA\<close>

text \<open>The FPGA holds an address and a value, and the third register writes the place.\<close>

record lcdMem =
  lm_addr :: int
  lm_data :: int
  lm_mem :: "int \<Rightarrow> int"

definition lcd_step :: "lcdMem \<Rightarrow> request \<Rightarrow> lcdMem" where
  "lcd_step c = (\<lambda>(cmd, temp). let addr = temp div 65536; v = temp mod 65536 in
     if cmd \<noteq> FPGA_WRITE then c
     else if addr = FPGA_LCD_ADDR then c\<lparr>lm_addr := v\<rparr>
     else if addr = FPGA_LCD_DATA then c\<lparr>lm_data := v\<rparr>
     else if addr = FPGA_LCD_WE \<and> v = 1 then c\<lparr>lm_mem := (lm_mem c)(lm_addr c := lm_data c)\<rparr>
     else c)"

definition display :: "request list \<Rightarrow> lcdMem" where
  "display reqs = foldl lcd_step \<lparr>lm_addr = 0, lm_data = 0, lm_mem = \<lambda>_. 0\<rparr> reqs"

definition mem_of :: "lcdSt \<Rightarrow> int \<Rightarrow> int" where
  "mem_of s = lm_mem (display (lreqs s))"

lemma lcd_values [simp]:
  "FPGA_LCD_WE = 53303" "FPGA_LCD_ADDR = 53304" "FPGA_LCD_DATA = 53305" "FPGA_LCD_WREADY = 53306"
  by (simp_all add: FPGA_LCD_WE_def FPGA_LCD_ADDR_def FPGA_LCD_DATA_def FPGA_LCD_WREADY_def FPGA_SYS2_COMMON_sum)

lemma display_write:
  assumes "0 \<le> a" "a < 65536"
  shows "display (lreqs (lcd_write env a v s)) =
    (let c = display (lreqs s) in
     if a = 53304 then c\<lparr>lm_addr := u16 v\<rparr> else if a = 53305 then c\<lparr>lm_data := u16 v\<rparr>
     else if a = 53303 \<and> u16 v = 1 then c\<lparr>lm_mem := (lm_mem c)(lm_addr c := lm_data c)\<rparr> else c)"
proof -
  have "(a * 65536 + u16 v) div 65536 = a" by (rule div_eqI) auto
  moreover have "(a * 65536 + u16 v) mod 65536 = u16 v" using mod_mult_self3[of a 65536 "u16 v"] by simp
  ultimately obtain t where t: "t = a * 65536 + u16 v" "t div 65536 = a" "t mod 65536 = u16 v" by blast
  have "lreqs (lcd_write env a v s) = lreqs s @ [(FPGA_WRITE, t)]"
    using assms by (simp add: lcd_write_def write_request t(1))
  then show ?thesis by (simp add: display_def lcd_step_def Let_def t(2,3))
qed

definition dots :: "int \<Rightarrow> int" where
  "dots b = 0x100 OR (b AND 0xFF)"

lemma dots_range: "0 \<le> dots b" "dots b < 65536"
proof -
  have b: "0 \<le> b AND 0xFF" "b AND 0xFF < 256"
    using take_bit_eq_mask[of 8 b] by (simp_all add: mask_eq_exp_minus_1 take_bit_eq_mod)
  have "dots b = 1 * 2 ^ 8 + (b AND 0xFF)" using or_low[of "b AND 0xFF" 8 1] b by (simp add: dots_def)
  then show "0 \<le> dots b" "dots b < 65536" using b by auto
qed

lemma mem_data: "0 \<le> line * 132 + 4 + off \<Longrightarrow> line * 132 + 4 + off < 65536 \<Longrightarrow>
   mem_of (TransferData env line off d s) = (mem_of s)(line * 132 + 4 + off := dots d)"
  using dots_range[of d] by (simp add: mem_of_def TransferData_def Let_def display_write dots_def)

lemma mem_command: "0 \<le> line * 132 + off \<Longrightarrow> line * 132 + off < 65536 \<Longrightarrow>
   mem_of (TransferCommad env line off d s) = (mem_of s)(line * 132 + off := u16 d)"
  by (simp add: mem_of_def TransferCommad_def Let_def display_write)

lemma mem_begin: "0 \<le> line \<Longrightarrow> line < 8 \<Longrightarrow>
   mem_of (OneLineBegin env line s) = (mem_of s)(line * 132 := 0xA6, line * 132 + 1 := 0xB0 + line,
     line * 132 + 2 := 0x10, line * 132 + 3 := 0x00)"
  by (simp add: OneLineBegin_def mem_command)

lemma mem_end [simp]: "mem_of (FullScreenEnd env s) = mem_of s"
  by (simp add: mem_of_def FullScreenEnd_def display_write)

text \<open>The dots of columns from a place on.\<close>

definition with_dots :: "int \<Rightarrow> int list \<Rightarrow> (int \<Rightarrow> int) \<Rightarrow> int \<Rightarrow> int" where
  "with_dots p xs m a = (if p \<le> a \<and> a < p + int (length xs) then dots (xs ! nat (a - p)) else m a)"

lemma mem_columns: "0 \<le> line * 132 + 4 + off \<Longrightarrow> line * 132 + 4 + off + int (length xs) \<le> 65536 \<Longrightarrow>
   mem_of (transfer_columns env line off xs s) = with_dots (line * 132 + 4 + off) xs (mem_of s)"
proof (induction xs arbitrary: off s)
  case (Cons x xs)
  have "mem_of (transfer_columns env line off (x # xs) s)
    = with_dots (line * 132 + 4 + (off + 1)) xs ((mem_of s)(line * 132 + 4 + off := dots x))"
    using Cons.IH[of "off + 1" "TransferData env line off x s"] Cons.prems mem_data[of line off env x s]
    by (simp del: fun_upd_apply add: add.assoc)
  also have "\<dots> = with_dots (line * 132 + 4 + off) (x # xs) (mem_of s)"
  proof (rule ext)
    fix a
    have "nat (a - (line * 132 + 4 + off)) = Suc (nat (a - (line * 132 + 4 + (off + 1))))" if "line * 132 + 4 + off < a" using that by linarith
    then show "with_dots (line * 132 + 4 + (off + 1)) xs ((mem_of s)(line * 132 + 4 + off := dots x)) a
      = with_dots (line * 132 + 4 + off) (x # xs) (mem_of s) a"
      by (cases "a = line * 132 + 4 + off") (auto simp: with_dots_def)
  qed
  finally show ?case .
qed (simp add: with_dots_def fun_eq_iff)

lemma transfer_append:
  "transfer_columns env line off (xs @ ys) s = transfer_columns env line (off + int (length xs)) ys (transfer_columns env line off xs s)"
  by (induction xs arbitrary: off s) (simp_all add: algebra_simps)

section \<open>Texts\<close>

definition printable :: "string \<Rightarrow> bool" where
  "printable t \<longleftrightarrow> list_all (\<lambda>c. 32 \<le> (of_char c :: int) \<and> (of_char c :: int) < 149) t"

definition text_dots :: "string \<Rightarrow> int list" where
  "text_dots t = concat (map (\<lambda>c. ascii_6_8 ! nat (of_char c - 32)) t)"

lemma font_rows: "length ascii_6_8 = 117" "list_all (\<lambda>r. length r = 6) ascii_6_8"
  by code_simp+

lemma glyph_char: "printable [c] \<Longrightarrow> glyph c = Some (ascii_6_8 ! nat (of_char c - 32)) \<and> length (ascii_6_8 ! nat (of_char c - 32)) = 6"
proof -
  assume c: "printable [c]"
  then have "nat (of_char c - 32) < length ascii_6_8" by (auto simp: printable_def font_rows)
  then have "length (ascii_6_8 ! nat (of_char c - 32)) = 6" using font_rows(2) nth_mem unfolding list_all_iff by blast
  then show ?thesis using c by (simp add: glyph_def arr_def printable_def font_rows)
qed

lemma printable_Cons: "printable (c # t) \<longleftrightarrow> printable [c] \<and> printable t"
  by (simp add: printable_def)

lemma text_dots_Cons: "text_dots (c # t) = ascii_6_8 ! nat (of_char c - 32) @ text_dots t"
  by (simp add: text_dots_def)

lemma text_dots_length: "printable t \<Longrightarrow> length (text_dots t) = 6 * length t"
proof (induction t)
  case (Cons c t)
  then show ?case using glyph_char[of c] printable_Cons[of c t] by (simp add: text_dots_Cons)
qed (simp add: text_dots_def)

lemma draw_chars_dots:
  "printable t \<Longrightarrow> i + 6 * int (length t) \<le> 132 \<Longrightarrow>
   draw_chars env line i t s = Some (transfer_columns env line i (text_dots t) s)"
proof (induction t arbitrary: i s)
  case (Cons c t)
  have c: "glyph c = Some (ascii_6_8 ! nat (of_char c - 32))" "length (ascii_6_8 ! nat (of_char c - 32)) = 6" "printable t"
    using Cons.prems(1) glyph_char[of c] by (simp_all add: printable_Cons[of c t])
  have "i < 128 " using Cons.prems(2) by simp
  then show ?case using Cons.IH[OF c(3), of "i + 6"] Cons.prems(2) c
    by (simp add: LCD_DOT_X_def LCD_FONT_X_def text_dots_Cons transfer_append algebra_simps)
qed (simp add: text_dots_def)

lemma draw_chars_cut: "i + 6 * int (length t) = 132 \<Longrightarrow> printable t \<Longrightarrow>
   draw_chars env line i (t @ u) s = Some (transfer_columns env line i (text_dots t) s)"
proof (induction t arbitrary: i s)
  case Nil
  then show ?case by (cases u) (simp_all add: LCD_DOT_X_def text_dots_def)
next
  case (Cons c t)
  have c: "glyph c = Some (ascii_6_8 ! nat (of_char c - 32))" "length (ascii_6_8 ! nat (of_char c - 32)) = 6" "printable t"
    using Cons.prems(2) glyph_char[of c] by (simp_all add: printable_Cons[of c t])
  have "i < 128" "i + 6 + 6 * int (length t) = 132" using Cons.prems(1) by simp_all
  then show ?case using Cons.IH[OF _ c(3), of "i + 6"] c
    by (simp add: LCD_DOT_X_def LCD_FONT_X_def text_dots_Cons transfer_append)
qed

lemma printable_take: "printable t \<Longrightarrow> printable (take n t)"
  by (simp add: printable_def list_all_iff) (meson in_set_takeD)

lemma draw_chars_all:
  assumes "printable t"
  shows "draw_chars env line 0 t s = Some (transfer_columns env line 0 (text_dots (take 22 t)) s)"
proof (cases "length t \<le> 22")
  case True
  then show ?thesis using draw_chars_dots[of t 0 env line s] assms by simp
next
  case False
  then show ?thesis
    using draw_chars_cut[of 0 "take 22 t" env line "drop 22 t" s] printable_take[OF assms, of 22] by simp
qed

text \<open>The commands of a line, and all its places after a text.\<close>

definition line_commands :: "int \<Rightarrow> (int \<Rightarrow> int) \<Rightarrow> int \<Rightarrow> int" where
  "line_commands line m = m(line * 132 := 0xA6, line * 132 + 1 := 0xB0 + line, line * 132 + 2 := 0x10, line * 132 + 3 := 0x00)"

lemma mem_text:
  assumes "0 \<le> line" "line < 8" "printable t"
  shows "\<exists>s'. DrawOneString env t line s = Some s' \<and>
    mem_of s' = with_dots (line * 132 + 4) (text_dots (take 22 t)) (line_commands line (mem_of s))"
proof -
  have "length (text_dots (take 22 t)) \<le> 132"
    using text_dots_length[OF printable_take[OF assms(3), of 22]] by simp
  then show ?thesis
    using assms by (simp add: DrawOneString_def draw_chars_all mem_columns mem_begin line_commands_def)
qed

lemma text_dots_nth: "printable t \<Longrightarrow> k < 6 * length t \<Longrightarrow>
  text_dots t ! k = ascii_6_8 ! nat (of_char (t ! (k div 6)) - 32) ! (k mod 6)"
proof (induction t arbitrary: k)
  case (Cons c t)
  have c: "length (ascii_6_8 ! nat (of_char c - 32)) = 6" "printable t"
    using Cons.prems(1) glyph_char[of c] printable_Cons[of c t] by simp_all
  show ?case
  proof (cases "k < 6")
    case False
    then obtain j where "k = j + 6" by (metis add.commute le_Suc_ex not_less)
    moreover have "(j + 6) div 6 = Suc (j div 6)" by simp
    ultimately show ?thesis using Cons.IH[OF c(2), of j] Cons.prems(2) c(1) by (simp add: text_dots_Cons nth_append)
  qed (simp add: text_dots_Cons nth_append c(1))
qed simp

lemma nat_parts: "0 \<le> (k::int) \<Longrightarrow> nat k div 6 = nat (k div 6) \<and> nat k mod 6 = nat (k mod 6)"
  by (simp add: nat_div_distrib nat_mod_distrib)

lemma with_text:
  assumes "printable t" "p \<le> a" "a < p + 6 * int (length t)"
  shows "with_dots p (text_dots t) m a = dots (ascii_6_8 ! nat (of_char (t ! nat ((a - p) div 6)) - 32) ! nat ((a - p) mod 6))"
  using assms text_dots_nth[OF assms(1), of "nat (a - p)"] nat_parts[of "a - p"]
  by (simp add: with_dots_def text_dots_length nat_less_iff)

text \<open>(functional) A printable text of at most 21 characters changes exactly the four commands of its line and the
  columns of its characters, and these columns are the ones of the font; every other place of the display stays.\<close>

theorem text_drawn_exact:
  assumes "0 \<le> line" "line < 8" "printable t" "length t \<le> 21"
  shows "\<exists>s'. DrawOneString env t line s = Some s' \<and>
    (\<forall>a. mem_of s' a =
      (if line * 132 \<le> a \<and> a < line * 132 + 4 then [0xA6, 0xB0 + line, 0x10, 0x00] ! nat (a - line * 132)
       else if line * 132 + 4 \<le> a \<and> a < line * 132 + 4 + 6 * int (length t)
         then dots (ascii_6_8 ! nat (of_char (t ! nat ((a - (line * 132 + 4)) div 6)) - 32) ! nat ((a - (line * 132 + 4)) mod 6))
       else mem_of s a))"
proof -
  obtain s' where s': "DrawOneString env t line s = Some s'"
    "mem_of s' = with_dots (line * 132 + 4) (text_dots t) (line_commands line (mem_of s))"
    using mem_text[OF assms(1-3), of env s] assms(4) by auto
  have "line_commands line m a = (if line * 132 \<le> a \<and> a < line * 132 + 4 then [0xA6, 0xB0 + line, 0x10, 0x00] ! nat (a - line * 132)
    else m a)" for m a
  proof (cases "line * 132 \<le> a \<and> a < line * 132 + 4")
    case True
    then consider "a = line * 132" | "a = line * 132 + 1" | "a = line * 132 + 2" | "a = line * 132 + 3" by linarith
    then show ?thesis by cases (simp_all add: line_commands_def)
  qed (auto simp: line_commands_def)
  then show ?thesis using s' with_text[OF assms(3), of "line * 132 + 4"] text_dots_length[OF assms(3)]
    by (auto simp: with_dots_def)
qed

theorem text_drawn_exact_witness:
  "\<forall>s. \<exists>s'. DrawOneString \<lparr>le_fpga = \<lambda>_ _ _. (0, 0), le_popen = \<lambda>_ _. None, le_stack = []\<rparr> ''OK'' 2 s = Some s' \<and>
     mem_of s' 264 = 0xA6 \<and> mem_of s' 269 = dots 65 \<and> mem_of s' 300 = mem_of s 300"
proof
  fix s :: lcdSt
  obtain s' where s': "DrawOneString \<lparr>le_fpga = \<lambda>_ _ _. (0, 0), le_popen = \<lambda>_ _. None, le_stack = []\<rparr> ''OK'' 2 s = Some s'"
    "\<forall>a. mem_of s' a =
      (if 2 * 132 \<le> a \<and> a < 2 * 132 + 4 then [0xA6, 0xB0 + 2, 0x10, 0x00] ! nat (a - 2 * 132)
       else if 2 * 132 + 4 \<le> a \<and> a < 2 * 132 + 4 + 6 * int (length ''OK'')
         then dots (ascii_6_8 ! nat (of_char (''OK'' ! nat ((a - (2 * 132 + 4)) div 6)) - 32) ! nat ((a - (2 * 132 + 4)) mod 6))
       else mem_of s a)"
    using text_drawn_exact[of 2 "''OK''" "\<lparr>le_fpga = \<lambda>_ _ _. (0, 0), le_popen = \<lambda>_ _. None, le_stack = []\<rparr>" s]
    by (auto simp: printable_def)
  have "ascii_6_8 ! 47 ! 1 = 65" by code_simp
  then show "\<exists>s'. DrawOneString \<lparr>le_fpga = \<lambda>_ _ _. (0, 0), le_popen = \<lambda>_ _. None, le_stack = []\<rparr> ''OK'' 2 s = Some s' \<and>
     mem_of s' 264 = 0xA6 \<and> mem_of s' 269 = dots 65 \<and> mem_of s' 300 = mem_of s 300"
    using s' by simp
qed

text \<open>(error) The loop of a text looks at the left end of a character only: a text of 22 characters or more, which the
  names of the boards and the lines of the commands can be, writes the last four columns of its 22nd character over
  the four commands of the next line.\<close>

theorem long_text_spoils_commands:
  assumes "0 \<le> line" "line < 8" "printable t" "22 \<le> length t" "0 \<le> k" "k < 4"
  shows "\<exists>s'. DrawOneString env t line s = Some s' \<and>
    mem_of s' ((line + 1) * 132 + k) = dots (ascii_6_8 ! nat (of_char (t ! 21) - 32) ! nat (k + 2))"
proof -
  let ?u = "take 22 t"
  obtain s' where s': "DrawOneString env t line s = Some s'"
    "mem_of s' = with_dots (line * 132 + 4) (text_dots ?u) (line_commands line (mem_of s))"
    using mem_text[OF assms(1-3), of env s] by auto
  have "(128 + k) div 6 = 21" "(128 + k) mod 6 = k + 2" using assms(5,6) by presburger+
  then show ?thesis
    using s' with_text[OF printable_take[OF assms(3)], of "line * 132 + 4" "(line + 1) * 132 + k" 22] assms(4-6)
    by (simp add: algebra_simps)
qed


theorem long_text_spoils_commands_witness:
  "\<forall>s. \<exists>s'. DrawOneString \<lparr>le_fpga = \<lambda>_ _ _. (0, 0), le_popen = \<lambda>_ _. None, le_stack = []\<rparr> ''IP: 192.168.100.100/24'' 2 s = Some s' \<and>
     mem_of s' 396 = dots 18"
proof
  fix s :: lcdSt
  have "ascii_6_8 ! 20 ! 2 = 18" by code_simp
  then show "\<exists>s'. DrawOneString \<lparr>le_fpga = \<lambda>_ _ _. (0, 0), le_popen = \<lambda>_ _. None, le_stack = []\<rparr> ''IP: 192.168.100.100/24'' 2 s = Some s' \<and>
     mem_of s' 396 = dots 18"
    using long_text_spoils_commands[of 2 "''IP: 192.168.100.100/24''" 0 "\<lparr>le_fpga = \<lambda>_ _ _. (0, 0), le_popen = \<lambda>_ _. None, le_stack = []\<rparr>" s]
    by (simp add: printable_def)
qed

end
