(* ===== verification/LcdMenuSpec.thy ===== *)
theory LcdMenuSpec
  imports LcdSpec
begin

text \<open>
  The menus that the keys of the front panel lead through: what the drawing keeps of the state, what a menu shows,
  and the invariant of all states that the main loop reaches.
\<close>

section \<open>What the drawing and the views keep\<close>

definition frame :: "lcdSt \<Rightarrow> int \<times> int \<times> int \<times> int" where
  "frame s = (FuncIndex s, cmdOptionType s, maxOrder s, lcd_timeout s)"

named_theorems kept

lemma frame_write [simp]: "frame (lcd_write env a v s) = frame s"
  by (simp add: frame_def lcd_write_def)

lemma frame_transfer [simp]:
  "frame (TransferCommad env line off v s) = frame s"
  "frame (TransferData env line off v s) = frame s"
  "frame (OneLineBegin env line s) = frame s"
  "frame (FullScreenEnd env s) = frame s"
  by (simp_all add: TransferCommad_def TransferData_def OneLineBegin_def FullScreenEnd_def Let_def)

lemma frame_columns [simp]: "frame (transfer_columns env line off xs s) = frame s"
  by (induction xs arbitrary: off s) simp_all

lemma frame_lines [simp]: "frame (clear_lines env ls s) = frame s"
  by (induction ls arbitrary: s) simp_all

lemma frame_marks [simp]: "frame (clear_marks env ls s) = frame s"
  by (induction ls arbitrary: s) simp_all

lemma frame_screen [simp]: "frame (FullScreenClear env s) = frame s" "frame (ShowMenuChange env line s) = frame s"
  by (simp_all add: FullScreenClear_def ShowMenuChange_def)

lemma popen_frame [kept]: "popen env command s = (r, s') \<Longrightarrow> frame s' = frame s"
  by (auto simp: popen_def frame_def)

lemma chars_frame: "draw_chars env line i t s = Some s' \<Longrightarrow> frame s' = frame s"
proof (induction t arbitrary: i s)
  case (Cons c t)
  then show ?case by (cases "glyph c") (auto split: if_splits)
qed simp

lemma string_frame [kept]: "DrawOneString env t line s = Some s' \<Longrightarrow> frame s' = frame s"
  by (auto simp: DrawOneString_def dest: chars_frame)

lemma texts_frame [kept]: "draw_texts env line ts s = Some s' \<Longrightarrow> frame s' = frame s"
  by (induction ts arbitrary: line s) (auto split: option.splits dest!: string_frame)

lemma fitting_frame [kept]: "draw_fitting env line ts s = Some s' \<Longrightarrow> frame s' = frame s"
  by (induction ts arbitrary: line s) (auto simp: bind_eq_Some_conv split: option.splits dest!: string_frame)

lemma btype_frame [kept]: "btype_loop env line slot out s = Some s' \<Longrightarrow> frame s' = frame s"
proof (induction out arbitrary: line slot s)
  case (Cons b out)
  then show ?case by (auto simp: bind_eq_Some_conv split: option.splits if_splits dest!: string_frame)
qed simp

lemma view_frame:
  assumes "view_popen env command draw s = Some s'" "\<And>out s s'. draw out s = Some s' \<Longrightarrow> frame s' = frame s"
  shows "frame s' = frame s"
  using assms(1) by (auto simp: view_popen_def split: option.splits prod.splits dest!: popen_frame assms(2))

lemma menu_frame [kept]: "InitMenu env level grp s = Some s' \<Longrightarrow> frame s' = frame s"
  by (auto simp: InitMenu_def dest!: kept)

lemma key_frame [kept]: "KeyValue env s = (k, s') \<Longrightarrow> frame s' = frame s"
  by (auto simp: KeyValue_def frame_def split: prod.splits)

lemma num_frame [kept]: "show_num env k s = Some s' \<Longrightarrow> frame s' = frame s"
  by (auto simp: show_num_def dest!: kept)

lemma sub_menu_frame [kept]: "SubMenuGetValue env key k mn mx s = Some (r, k', s') \<Longrightarrow> frame s' = frame s"
  by (auto simp: SubMenuGetValue_def Let_def split: if_splits dest!: kept)

lemma input_frame: "input_loop env mn mx ws k s = Some (k', s') \<Longrightarrow> frame s' = frame s"
proof (induction env mn mx ws k s rule: input_loop.induct)
  case (2 env mn mx w ws k s)
  obtain key s1 where k: "KeyValue env s = (key, s1)" by fastforce
  show ?case
  proof (cases "SubMenuGetValue env key k mn mx s1")
    case None
    then show ?thesis using 2 k by (auto split: if_splits)
  next
    case (Some x)
    obtain r k2 s2 where x: "x = (r, k2, s2)" by (metis prod_cases3)
    have "frame s2 = frame s" using key_frame[OF k] sub_menu_frame Some x by simp
    then show ?thesis using 2 k Some x by (auto simp: frame_def split: if_splits)
  qed
qed simp

lemma input_value_frame [kept]: "GetInputValue env mn mx s = Some s' \<Longrightarrow> frame s' = frame s"
  by (auto simp: GetInputValue_def dest!: input_frame) (simp add: frame_def)

lemma input_config_frame [kept]: "input_config env mx grp s = Some s' \<Longrightarrow> frame s' = frame s"
  by (auto simp: input_config_def bind_eq_Some_conv dest!: kept)

lemma schema_frame [kept]: "LCD_Get_Schema env s = (r, s') \<Longrightarrow> frame s' = frame s"
  by (auto simp: LCD_Get_Schema_def split: option.splits prod.splits dest!: popen_frame)

lemma ssm_frame [kept]: "view_ssm_sa env s = Some s' \<Longrightarrow> frame s' = frame s"
proof -
  assume v: "view_ssm_sa env s = Some s'"
  obtain r1 s1 where p1: "popen env (''p350in '' @ pr_d (user_input_slot s) @ '' ssm'') (FullScreenClear env s) = (r1, s1)"
    by fastforce
  show ?thesis
  proof (cases r1)
    case (Some out)
    then obtain s2 where s2: "draw_fitting env 2 (map butlast out) s1 = Some s2"
      using v p1 by (auto simp: view_ssm_sa_def bind_eq_Some_conv)
    obtain r3 s3 where p3: "popen env (''p350in '' @ pr_d (user_input_slot s2) @ '' sa'') s2 = (r3, s3)"
      by fastforce
    show ?thesis using v p1 Some s2 p3 by (cases r3) (auto simp: view_ssm_sa_def dest!: kept)
  qed (use v p1 in \<open>auto simp: view_ssm_sa_def dest!: kept\<close>)
qed

lemma popen_views [kept]:
  "LCD_View_Common env command s = Some s' \<Longrightarrow> frame s' = frame s"
  "view_leap env s = Some s' \<Longrightarrow> frame s' = frame s"
  "view_btype env s = Some s' \<Longrightarrow> frame s' = frame s"
  "view_alarm env s = Some s' \<Longrightarrow> frame s' = frame s"
  "view_history env s = Some s' \<Longrightarrow> frame s' = frame s"
  "view_priority env s = Some s' \<Longrightarrow> frame s' = frame s"
  "view_signal env s = Some s' \<Longrightarrow> frame s' = frame s"
  "view_mode env s = Some s' \<Longrightarrow> frame s' = frame s"
  "view_elevation env s = Some s' \<Longrightarrow> frame s' = frame s"
  "view_output env s = Some s' \<Longrightarrow> frame s' = frame s"
  unfolding LCD_View_Common_def view_leap_def view_btype_def view_alarm_def view_history_def view_priority_def
    view_signal_def view_mode_def view_elevation_def view_output_def
  by (erule view_frame; auto simp: bind_eq_Some_conv split: list.splits if_splits dest!: kept)+

lemma status_frame [kept]: "view_status env s = Some s' \<Longrightarrow> frame s' = frame s"
  by (auto simp: view_status_def Let_def split: prod.splits dest!: schema_frame view_frame[OF _ texts_frame])

lemma run_frame: "run_cmd env f s = Some s' \<Longrightarrow> frame s' = frame s"
  by (cases f) (auto simp: run_cmd_def dest!: kept)

section \<open>What a menu shows\<close>

definition screen :: "lcdSt \<Rightarrow> int \<Rightarrow> int \<Rightarrow> int" where
  "screen s line c = mem_of s (line * 132 + 4 + c)"

definition on_screen :: "int \<Rightarrow> int \<Rightarrow> bool" where
  "on_screen line c \<longleftrightarrow> 0 \<le> line \<and> line < 8 \<and> 0 \<le> c \<and> c < 128"

lemma no_command: "on_screen line c \<Longrightarrow> 0 \<le> k \<Longrightarrow> k < 4 \<Longrightarrow> line * 132 + 4 + c \<noteq> l * 132 + k"
proof
  assume a: "on_screen line c" "0 \<le> k" "k < 4" "line * 132 + 4 + c = l * 132 + k"
  then consider "line = l" | "line + 1 \<le> l" | "l + 1 \<le> line" by linarith
  then show False using a unfolding on_screen_def by cases auto
qed

lemma screen_begin [simp]:
  assumes "on_screen line c" "0 \<le> l" "l < 8"
  shows "screen (OneLineBegin env l s) line c = screen s line c"
  using assms no_command[OF assms(1), of 0 l] no_command[OF assms(1), of 1 l] no_command[OF assms(1), of 2 l]
    no_command[OF assms(1), of 3 l]
  by (simp add: screen_def mem_begin)

lemma screen_columns:
  assumes "on_screen line c" "0 \<le> l" "l < 8" "0 \<le> off" "off + int (length xs) \<le> 128"
  shows "screen (transfer_columns env l off xs s) line c =
    (if line = l \<and> off \<le> c \<and> c < off + int (length xs) then dots (xs ! nat (c - off)) else screen s line c)"
proof -
  have "(l * 132 + 4 + off \<le> line * 132 + 4 + c \<and> line * 132 + 4 + c < l * 132 + 4 + off + int (length xs)) \<longleftrightarrow>
    (line = l \<and> off \<le> c \<and> c < off + int (length xs))"
  proof (cases "line = l")
    case False
    then have "line + 1 \<le> l \<or> l + 1 \<le> line" by linarith
    then show ?thesis using assms unfolding on_screen_def by linarith
  qed simp
  then show ?thesis using assms by (simp add: screen_def mem_columns with_dots_def algebra_simps)
qed

lemma screen_end [simp]: "screen (FullScreenEnd env s) line c = screen s line c"
  by (simp add: screen_def)

lemma screen_clear_lines: "on_screen line c \<Longrightarrow> list_all (\<lambda>l. 0 \<le> l \<and> l < 8) ls \<Longrightarrow>
   screen (clear_lines env ls s) line c = (if line \<in> set ls then dots 0 else screen s line c)"
  by (induction ls arbitrary: s) (auto simp: screen_columns LCD_DOT_X_def on_screen_def)

lemma screen_clear: "on_screen line c \<Longrightarrow> screen (FullScreenClear env s) line c = dots 0"
  by (simp add: FullScreenClear_def screen_clear_lines LCD_LINE_def list_all_iff) (simp add: on_screen_def)

lemma star_values: "length (ascii_6_8 ! 0) = 6" "length (ascii_6_8 ! 10) = 6" "k < 6 \<Longrightarrow> ascii_6_8 ! 0 ! k = 0"
proof -
  have "ascii_6_8 ! 0 = replicate 6 0" by code_simp
  then show "length (ascii_6_8 ! 0) = 6" "k < 6 \<Longrightarrow> ascii_6_8 ! 0 ! k = 0"
    by (metis length_replicate, metis nth_replicate)
qed code_simp

lemma screen_clear_marks: "on_screen line c \<Longrightarrow> list_all (\<lambda>l. 0 \<le> l \<and> l < 8) ls \<Longrightarrow>
   screen (clear_marks env ls s) line c = (if line \<in> set ls \<and> c < 6 then dots 0 else screen s line c)"
proof (induction ls arbitrary: s)
  case (Cons l ls)
  then show ?case by (auto simp: screen_columns star_values on_screen_def)
qed simp

lemma screen_star:
  assumes "on_screen line c" "0 \<le> l" "l < 8"
  shows "screen (ShowMenuChange env l s) line c =
    (if c < 6 then dots (if line = l then ascii_6_8 ! 10 ! nat c else 0) else screen s line c)"
proof -
  have "list_all (\<lambda>l. 0 \<le> l \<and> l < 8) [0..LCD_LINE - 1]" "line \<in> set [0..LCD_LINE - 1]"
    using assms(1) by (simp_all add: LCD_LINE_def list_all_iff on_screen_def)
  then show ?thesis using assms
    by (simp add: ShowMenuChange_def screen_columns screen_clear_marks star_values) (simp add: on_screen_def)
qed

text \<open>The dots that texts from a line on have.\<close>

definition text_column :: "int \<Rightarrow> string list \<Rightarrow> int \<Rightarrow> int \<Rightarrow> int option" where
  "text_column l ts line c =
     (if l \<le> line \<and> line < l + int (length ts) \<and> c < 6 * int (length (ts ! nat (line - l)))
      then Some (dots (text_dots (ts ! nat (line - l)) ! nat c)) else None)"

definition drawable :: "string \<Rightarrow> bool" where
  "drawable t \<longleftrightarrow> printable t \<and> length t \<le> 21"

lemma screen_string:
  assumes "drawable t" "on_screen line c" "0 \<le> l" "l < 8"
  shows "\<exists>s'. DrawOneString env t l s = Some s' \<and>
    screen s' line c = (if line = l \<and> c < 6 * int (length t) then dots (text_dots t ! nat c) else screen s line c)"
  using assms text_dots_length[of t] draw_chars_all[of t env l "OneLineBegin env l s"]
  by (simp add: drawable_def DrawOneString_def screen_columns) (simp add: on_screen_def)

lemma screen_texts:
  "list_all drawable ts \<Longrightarrow> on_screen line c \<Longrightarrow> 0 \<le> l \<Longrightarrow> l + int (length ts) \<le> 8 \<Longrightarrow>
   \<exists>s'. draw_texts env l ts s = Some s' \<and>
     screen s' line c = (case text_column l ts line c of Some d \<Rightarrow> d | None \<Rightarrow> screen s line c)"
proof (induction ts arbitrary: l s)
  case (Cons t ts)
  obtain s1 where s1: "DrawOneString env t l s = Some s1"
    "screen s1 line c = (if line = l \<and> c < 6 * int (length t) then dots (text_dots t ! nat c) else screen s line c)"
    using screen_string[of t line c l env s] Cons.prems by auto
  obtain s2 where s2: "draw_texts env (l + 1) ts s1 = Some s2"
    "screen s2 line c = (case text_column (l + 1) ts line c of Some d \<Rightarrow> d | None \<Rightarrow> screen s1 line c)"
    using Cons.IH[of "l + 1" s1] Cons.prems by auto
  have "nat (line - l) = Suc (nat (line - (l + 1)))" if "l < line" using that by linarith
  then have "text_column l (t # ts) line c = (if line = l then (if c < 6 * int (length t) then Some (dots (text_dots t ! nat c)) else None)
     else text_column (l + 1) ts line c)"
    by (cases "l < line") (auto simp: text_column_def)
  moreover have "text_column (l + 1) ts l c = None" by (simp add: text_column_def)
  ultimately show ?case using s1 s2 by (auto split: option.splits)
qed (simp add: text_column_def)

section \<open>The menus\<close>

definition menu_texts :: "int \<Rightarrow> string list" where
  "menu_texts i = map shortDesc (filter (in_group (menu_level (menu_at i)) (menu_group (menu_at i))) cmd_menu)"

text \<open>What is on the screen in a menu: the texts of the group, and the star on the selected entry.\<close>

definition menu_screen :: "int \<Rightarrow> bool \<Rightarrow> int \<Rightarrow> int \<Rightarrow> int" where
  "menu_screen i star line c =
     (if c < 6 then dots (if star \<and> line = menu_order (menu_at i) then ascii_6_8 ! 10 ! nat c else 0)
      else case text_column 0 (menu_texts i) line c of Some d \<Rightarrow> d | None \<Rightarrow> dots 0)"

definition menu_shown :: "lcdSt \<Rightarrow> int \<Rightarrow> bool \<Rightarrow> bool" where
  "menu_shown s i star \<longleftrightarrow> (\<forall>line c. on_screen line c \<longrightarrow> screen s line c = menu_screen i star line c)"

definition same_menu :: "int \<Rightarrow> int \<Rightarrow> bool" where
  "same_menu i j \<longleftrightarrow> menu_level (menu_at i) = menu_level (menu_at j) \<and> menu_group (menu_at i) = menu_group (menu_at j)"

definition menu_fact :: "int \<Rightarrow> bool" where
  "menu_fact i \<longleftrightarrow>
     list_all (\<lambda>t. drawable t \<and> take 1 t = '' '') (menu_texts i) \<and> length (menu_texts i) \<le> 8 \<and>
     0 \<le> menu_order (menu_at i) \<and> menu_order (menu_at i) < 8 \<and>
     (menu_order (menu_at i) \<noteq> 0 \<longrightarrow> 0 < i \<and> same_menu i (i - 1)) \<and>
     (menu_order (menu_at i) \<noteq> GetMaxOrder i \<longrightarrow> i < 20 \<and> same_menu i (i + 1)) \<and>
     option_type (menu_at i) \<in> set [1, 3] \<and> menu_level (menu_at i) \<in> set [0, 1]"

lemma upto_20:
  assumes "list_all (\<lambda>k. P (int k)) [0..<21]" "0 \<le> i" "i \<le> 20"
  shows "P i"
proof -
  have "nat i \<in> set [0..<21]" using assms(2,3) by simp
  then have "P (int (nat i))" using assms(1) unfolding list_all_iff by blast
  then show ?thesis using assms(2) by simp
qed

lemma menu_facts: "0 \<le> i \<Longrightarrow> i \<le> 20 \<Longrightarrow> menu_fact i"
proof (rule upto_20)
  show "list_all (\<lambda>k. menu_fact (int k)) [0..<21]" by code_simp
qed

definition confirm_fact :: "int \<Rightarrow> bool" where
  "confirm_fact i \<longleftrightarrow> option_type (menu_at i) = 3 \<longrightarrow>
     (let j = GetIndexByGroup (menu_level (menu_at i) + 1) (menu_order (menu_at i))
      in 0 \<le> j \<and> j \<le> 20 \<and> menu_level (menu_at j) = 1 \<and>
         (cmd_func (menu_at i), menu_group (menu_at j)) \<in>
           set [(LCD_SystemConfig, 2), (LCD_AlarmConfig, 3), (LCD_InputConfig, 4), (LCD_OutputConfig, 5)])"

lemma confirm_facts: "0 \<le> i \<Longrightarrow> i \<le> 20 \<Longrightarrow> confirm_fact i"
proof (rule upto_20)
  show "list_all (\<lambda>k. confirm_fact (int k)) [0..<21]" by code_simp
qed

lemma return_fact: "GetIndexByOrder 0 0 = 0" "menu_order (menu_at 0) = 0" "menu_level (menu_at 0) = 0" "menu_group (menu_at 0) = 0"
  "GetMaxOrder 0 = 5"
  by code_simp+

lemma same_menu: "same_menu i j \<Longrightarrow> menu_texts j = menu_texts i \<and> GetMaxOrder j = GetMaxOrder i"
  by (simp add: same_menu_def menu_texts_def GetMaxOrder_def)

lemma menu_drawn:
  assumes i: "0 \<le> i" "i \<le> 20"
  shows "\<exists>s'. InitMenu env (menu_level (menu_at i)) (menu_group (menu_at i)) s = Some s'"
    "InitMenu env (menu_level (menu_at i)) (menu_group (menu_at i)) s = Some s' \<Longrightarrow> menu_shown s' i False"
proof -
  note f = menu_facts[OF i, unfolded menu_fact_def]
  then have d: "list_all drawable (menu_texts i)" by (auto simp: list_all_iff)
  have dr: "\<exists>s1. InitMenu env (menu_level (menu_at i)) (menu_group (menu_at i)) s = Some s1 \<and>
    screen s1 line c = (case text_column 0 (menu_texts i) line c of Some d \<Rightarrow> d | None \<Rightarrow> dots 0)" if o: "on_screen line c" for line c
  proof -
    obtain s1 where "draw_texts env 0 (menu_texts i) (FullScreenClear env s) = Some s1"
      "screen s1 line c = (case text_column 0 (menu_texts i) line c of Some d \<Rightarrow> d | None \<Rightarrow> screen (FullScreenClear env s) line c)"
      using screen_texts[OF d o, of 0 env "FullScreenClear env s"] f by auto
    then show ?thesis by (simp add: InitMenu_def menu_texts_def screen_clear[OF o] split: option.splits)
  qed
  show "\<exists>s'. InitMenu env (menu_level (menu_at i)) (menu_group (menu_at i)) s = Some s'"
    using dr[of 0 0] by (auto simp: on_screen_def)
  assume s': "InitMenu env (menu_level (menu_at i)) (menu_group (menu_at i)) s = Some s'"
  show "menu_shown s' i False"
    unfolding menu_shown_def
  proof (intro allI impI)
    fix line c assume o: "on_screen line c"
    have s1: "screen s' line c = (case text_column 0 (menu_texts i) line c of Some d \<Rightarrow> d | None \<Rightarrow> dots 0)"
      using dr[OF o] s' by simp
    have "text_column 0 (menu_texts i) line c \<in> {None, Some (dots 0)}" if "c < 6"
    proof (cases "text_column 0 (menu_texts i) line c")
      case (Some d)
      let ?t = "menu_texts i ! nat line"
      have "nat line < length (menu_texts i)" "0 \<le> c" "d = dots (text_dots ?t ! nat c)"
        using Some o by (auto simp: text_column_def on_screen_def split: if_splits)
      moreover from this have "take 1 ?t = '' ''" using f by (simp add: list_all_iff)
      then obtain u where "?t = CHR '' '' # u" by (cases ?t) auto
      moreover have "nat c < 6" using that by simp
      ultimately have "d = dots (ascii_6_8 ! 0 ! nat c)" "nat c < 6"
        using star_values(1) by (simp_all add: text_dots_Cons nth_append)
      then show ?thesis using Some star_values(3) by simp
    qed simp
    then show "screen s' line c = menu_screen i False line c"
      using s1 by (auto simp: menu_screen_def)
  qed
qed

lemma star_drawn:
  assumes "menu_shown s i star" "same_menu i j" "0 \<le> j" "j \<le> 20"
  shows "menu_shown (show_index env j s) j True"
proof -
  have "0 \<le> menu_order (menu_at j)" "menu_order (menu_at j) < 8"
    using menu_facts[OF assms(3,4)] by (simp_all add: menu_fact_def)
  moreover have "screen (s\<lparr>FuncIndex := j\<rparr>) line c = screen s line c" for line c
    by (simp add: screen_def mem_of_def)
  ultimately show ?thesis
    using assms(1) same_menu[OF assms(2)]
    by (simp add: menu_shown_def show_index_def screen_star menu_screen_def)
qed

section \<open>The invariant\<close>

text \<open>What holds of the selection always, and of the screen when nobody else has drawn (\<open>b\<close>).\<close>

definition menu_inv :: "bool \<Rightarrow> lcdSt \<Rightarrow> bool" where
  "menu_inv b s \<longleftrightarrow> 0 \<le> FuncIndex s \<and> FuncIndex s \<le> 20 \<and> maxOrder s = GetMaxOrder (FuncIndex s) \<and>
     cmdOptionType s \<in> {1, 3} \<and> lcd_timeout s \<in> {0, 1} \<and>
     (b \<longrightarrow> cmdOptionType s = 3 \<longrightarrow> lcd_timeout s = 0 \<longrightarrow> menu_shown s (FuncIndex s) True \<or> FuncIndex s = 0 \<and> menu_shown s 0 False)"

lemma show_index_fields [simp]:
  "FuncIndex (show_index env j s) = j" "cmdOptionType (show_index env j s) = cmdOptionType s"
  "maxOrder (show_index env j s) = maxOrder s" "lcd_timeout (show_index env j s) = lcd_timeout s"
  using frame_screen(2)[of env "menu_order (menu_at j)" "s\<lparr>FuncIndex := j\<rparr>"] by (simp_all add: show_index_def frame_def)

lemma menu_shown_update [simp]:
  "menu_shown (s\<lparr>maxOrder := v\<rparr>) i star = menu_shown s i star"
  "menu_shown (s\<lparr>cmdOptionType := v\<rparr>) i star = menu_shown s i star"
  "menu_shown (s\<lparr>lwaits := ws\<rparr>) i star = menu_shown s i star"
  "menu_shown (s\<lparr>lcd_timeout := v\<rparr>) i star = menu_shown s i star"
  by (simp_all add: menu_shown_def screen_def mem_of_def)

lemma to_menu:
  assumes "InitMenu env (menu_level (menu_at i)) (menu_group (menu_at i)) s = Some s1" "0 \<le> i" "i \<le> 20" "lcd_timeout s = 0"
  shows "menu_inv b ((show_index env i s1)\<lparr>cmdOptionType := GENERIC_MENU_OPTION, maxOrder := GetMaxOrder i\<rparr>)"
proof -
  have "lcd_timeout s1 = 0" using menu_frame[OF assms(1)] assms(4) by (simp add: frame_def)
  then show ?thesis using star_drawn[OF menu_drawn(2)[OF assms(2,3,1)], of i] assms(2,3)
    by (simp add: menu_inv_def GENERIC_MENU_OPTION_def same_menu_def)
qed

lemma move_inv:
  assumes "menu_inv b s" "same_menu (FuncIndex s) j" "0 \<le> j" "j \<le> 20" "lcd_timeout s = 0" "cmdOptionType s = 3"
  shows "menu_inv b (show_index env j s)"
proof (cases b)
  case True
  then obtain star where "menu_shown s (FuncIndex s) star" using assms by (auto simp: menu_inv_def)
  then show ?thesis using star_drawn[OF _ assms(2-4)] assms same_menu[OF assms(2)] by (auto simp: menu_inv_def)
next
  case False
  then show ?thesis using assms same_menu[OF assms(2)] by (auto simp: menu_inv_def)
qed

lemma confirm_inv:
  assumes "menu_inv b s" "lcd_timeout s = 0" "key_confirm env s = Some s'"
  shows "menu_inv b s'"
proof -
  let ?m = "menu_at (FuncIndex s)"
  let ?j = "GetIndexByGroup (menu_level ?m + 1) (menu_order ?m)"
  have i: "0 \<le> FuncIndex s" "FuncIndex s \<le> 20" using assms(1) by (simp_all add: menu_inv_def)
  obtain s1 where s1: "run_cmd env (cmd_func ?m) s = Some s1"
    "s' = (if option_type ?m = 3 then show_index env ?j (s1\<lparr>cmdOptionType := 3, maxOrder := GetMaxOrder ?j\<rparr>)
       else s1\<lparr>cmdOptionType := option_type ?m\<rparr>)"
    using assms(3) by (auto simp: key_confirm_def Let_def GENERIC_MENU_OPTION_def)
  note k = run_frame[OF s1(1), unfolded frame_def] and o = menu_facts[OF i, unfolded menu_fact_def]
  show ?thesis
  proof (cases "option_type ?m = 3")
    case True
    then have j: "0 \<le> ?j" "?j \<le> 20" "menu_level (menu_at ?j) = 1"
      "(cmd_func ?m, menu_group (menu_at ?j)) \<in>
           set [(LCD_SystemConfig, 2), (LCD_AlarmConfig, 3), (LCD_InputConfig, 4), (LCD_OutputConfig, 5)]"
      using confirm_facts[OF i] by (auto simp: confirm_fact_def Let_def)
    have "\<exists>s0. InitMenu env (menu_level (menu_at ?j)) (menu_group (menu_at ?j)) s0 = Some s1"
      using s1(1) j(3,4) by (auto simp: run_cmd_def input_config_def bind_eq_Some_conv)
    then have "menu_shown s1 ?j False" using menu_drawn(2)[OF j(1,2)] by blast
    then have "menu_shown (show_index env ?j (s1\<lparr>cmdOptionType := 3, maxOrder := GetMaxOrder ?j\<rparr>)) ?j True"
      using star_drawn[OF _ _ j(1,2), of _ ?j False] by (simp add: same_menu_def)
    then show ?thesis using True s1(2) j(1,2) k assms(2) by (simp add: menu_inv_def)
  next
    case False
    then show ?thesis using s1(2) k o assms(1,2) by (auto simp: menu_inv_def)
  qed
qed

lemma operate_inv:
  assumes "menu_inv b s" "lcd_timeout s = 0" "MainMenuOperate env key s = Some s'"
  shows "menu_inv b s'"
proof -
  have i: "0 \<le> FuncIndex s" "FuncIndex s \<le> 20" using assms(1) by (simp_all add: menu_inv_def)
  note f = menu_facts[OF i, unfolded menu_fact_def]
  have mx: "maxOrder s = GetMaxOrder (FuncIndex s)" using assms(1) by (simp add: menu_inv_def)
  have same: "same_menu (FuncIndex s) (FuncIndex s)" by (simp add: same_menu_def)
  consider (up) "key = KEY_UP" | (down) "key = KEY_DOWN" | (ret) "key = KEY_RETURN" | (main) "key = KEY_MENU"
    | (conf) "key = KEY_CONFIRM" | (no) "s' = s"
    using assms(3) by (auto simp: MainMenuOperate_def Let_def split: if_splits)
  then show ?thesis
  proof cases
    case up
    let ?j = "if menu_order (menu_at (FuncIndex s)) = 0 then FuncIndex s else FuncIndex s - 1"
    have "same_menu (FuncIndex s) ?j" "0 \<le> ?j" "?j \<le> 20" using f i same by auto
    then have "cmdOptionType s = 3 \<Longrightarrow> menu_inv b (show_index env ?j s)" using move_inv[OF assms(1)] assms(2) by blast
    moreover have "s' = (if cmdOptionType s = 3 then show_index env ?j s else s)"
      using up assms(3) by (simp add: MainMenuOperate_def Let_def GENERIC_MENU_OPTION_def)
    ultimately show ?thesis using assms(1) by (simp split del: if_split split: if_split_asm)
  next
    case down
    let ?j = "if menu_order (menu_at (FuncIndex s)) = maxOrder s then FuncIndex s else FuncIndex s + 1"
    have "same_menu (FuncIndex s) ?j" "0 \<le> ?j" "?j \<le> 20" using f i same mx by auto
    then have "cmdOptionType s = 3 \<Longrightarrow> menu_inv b (show_index env ?j s)" using move_inv[OF assms(1)] assms(2) by blast
    moreover have "s' = (if cmdOptionType s = 3 then show_index env ?j s else s)"
      using down assms(3) by (simp add: MainMenuOperate_def Let_def GENERIC_MENU_OPTION_def KEY_UP_def KEY_DOWN_def)
    ultimately show ?thesis using assms(1) by (simp split del: if_split split: if_split_asm)
  next
    case ret
    have "GetIndexByOrder (if menu_level (menu_at (FuncIndex s)) = 0 then 0 else menu_level (menu_at (FuncIndex s)) - 1) 0 = 0"
      using f return_fact by auto
    then have "\<exists>i s1. 0 \<le> i \<and> i \<le> 20 \<and> InitMenu env (menu_level (menu_at i)) (menu_group (menu_at i)) s = Some s1 \<and>
      s' = (show_index env i s1)\<lparr>cmdOptionType := GENERIC_MENU_OPTION, maxOrder := GetMaxOrder i\<rparr>"
      using ret assms(3) i
      by (auto simp: MainMenuOperate_def KEY_UP_def KEY_DOWN_def KEY_RETURN_def key_return_def Let_def split: if_splits)
    then show ?thesis using to_menu assms(2) by blast
  next
    case main
    then show ?thesis using assms(2,3) to_menu[of env 0 s] return_fact
      by (auto simp: MainMenuOperate_def KEY_UP_def KEY_DOWN_def KEY_RETURN_def KEY_MENU_def)
  next
    case conf
    then show ?thesis using assms confirm_inv
      by (auto simp: MainMenuOperate_def KEY_UP_def KEY_DOWN_def KEY_RETURN_def KEY_MENU_def KEY_CONFIRM_def)
  qed (use assms(1) in simp)
qed

lemma start_inv: "lcd_start env waits = Some s \<Longrightarrow> menu_inv b s"
proof -
  assume s: "lcd_start env waits = Some s"
  then have "menu_shown s 0 False" using menu_drawn(2)[of 0 env] return_fact by (simp add: lcd_start_def)
  then show ?thesis using menu_frame[OF s[unfolded lcd_start_def]] return_fact
    by (auto simp: frame_def menu_inv_def GENERIC_MENU_OPTION_def)
qed

lemma key_inv: "KeyValue env s = (k, s') \<Longrightarrow> menu_inv b s' = menu_inv b s"
proof -
  assume k: "KeyValue env s = (k, s')"
  then have "display (lreqs s') = display (lreqs s)"
    by (auto simp: KeyValue_def FpgaRead_def Let_def display_def lcd_step_def FPGA_WRITE_def FPGA_READ_def split: prod.splits)
  then have "menu_shown s' i star = menu_shown s i star" for i star
    by (simp add: menu_shown_def screen_def mem_of_def)
  then show ?thesis using key_frame[OF k] by (simp add: menu_inv_def frame_def)
qed

lemma turn_inv:
  assumes "menu_inv b s" "lcd_turn env s = Some s'"
  shows "menu_inv b s'"
proof -
  obtain w ws where w: "lwaits s = w # ws" using assms(2) by (cases "lwaits s") (auto simp: lcd_turn_def)
  let ?s = "s\<lparr>lwaits := ws\<rparr>"
  have inv: "menu_inv b ?s" using assms(1) by (simp add: menu_inv_def)
  obtain k s1 where k: "KeyValue env ?s = (k, s1)" by fastforce
  have s1: "menu_inv b s1" "lcd_timeout s1 = lcd_timeout s" using key_inv[OF k] inv key_frame[OF k] by (simp_all add: frame_def)
  have t: "lcd_timeout s = 0 \<or> lcd_timeout s = 1" using assms(1) by (simp add: menu_inv_def)
  have turn: "lcd_turn env s = (if w = 1 then (if lcd_timeout s = 1 then MainMenuOperate env KEY_MENU (?s\<lparr>lcd_timeout := 0\<rparr>)
      else if k = - 1 \<or> k = - 2 then Some s1 else MainMenuOperate env k s1)
    else if w = 0 then Some (if lcd_timeout s = 0 then ?s\<lparr>lcd_timeout := 1\<rparr> else ?s) else Some ?s)"
    using w k by (simp add: lcd_turn_def Let_def)
  show ?thesis
  proof (cases "w = 1")
    case False
    then have "s' = ?s\<lparr>lcd_timeout := 1\<rparr> \<or> s' = ?s" using turn assms(2) by (simp split: if_splits)
    then show ?thesis using inv by (auto simp: menu_inv_def)
  next
    case True
    show ?thesis
    proof (cases "lcd_timeout s = 1")
      case clock: True
      then have "MainMenuOperate env KEY_MENU (?s\<lparr>lcd_timeout := 0\<rparr>) = Some s'" using turn assms(2) True by simp
      then show ?thesis using to_menu[of env 0 "?s\<lparr>lcd_timeout := 0\<rparr>"] return_fact
        by (auto simp: MainMenuOperate_def KEY_UP_def KEY_DOWN_def KEY_RETURN_def KEY_MENU_def)
    next
      case False
      then have "s' = s1 \<or> MainMenuOperate env k s1 = Some s'" using turn assms(2) True by (simp split: if_splits)
      then show ?thesis using operate_inv[OF s1(1)] s1 t False by auto
    qed
  qed
qed

text \<open>The turns that draw a whole menu: the first key after a time-out, and the keys MENU and RETURN.\<close>

definition menu_redrawn :: "lcdEnv \<Rightarrow> lcdSt \<Rightarrow> bool" where
  "menu_redrawn env s = (case lwaits s of [] \<Rightarrow> False | w # ws \<Rightarrow>
     w = 1 \<and> (lcd_timeout s = 1 \<or> fst (KeyValue env (s\<lparr>lwaits := ws\<rparr>)) \<in> {KEY_MENU, KEY_RETURN}))"

lemma menu_drawn_anew:
  assumes "menu_inv False s" "lcd_timeout s = 0" "key \<in> {KEY_MENU, KEY_RETURN}" "MainMenuOperate env key s = Some s'"
  shows "menu_inv True s'"
proof -
  have i: "0 \<le> FuncIndex s" "FuncIndex s \<le> 20" using assms(1) by (simp_all add: menu_inv_def)
  note f = menu_facts[OF i, unfolded menu_fact_def]
  have "GetIndexByOrder (if menu_level (menu_at (FuncIndex s)) = 0 then 0 else menu_level (menu_at (FuncIndex s)) - 1) 0 = 0"
    using f return_fact by auto
  then have "\<exists>i s1. 0 \<le> i \<and> i \<le> 20 \<and> InitMenu env (menu_level (menu_at i)) (menu_group (menu_at i)) s = Some s1 \<and>
      s' = (show_index env i s1)\<lparr>cmdOptionType := GENERIC_MENU_OPTION, maxOrder := GetMaxOrder i\<rparr>"
    if "key = KEY_RETURN" using that assms(4) i
    by (auto simp: MainMenuOperate_def KEY_UP_def KEY_DOWN_def KEY_RETURN_def key_return_def Let_def split: if_splits)
  then show ?thesis using assms to_menu[of env 0 s] to_menu[OF _ _ _ assms(2)] return_fact
    by (auto simp: MainMenuOperate_def KEY_UP_def KEY_DOWN_def KEY_RETURN_def KEY_MENU_def)
qed

lemma redraw_inv:
  assumes "menu_inv False s" "lcd_turn env s = Some s'" "menu_redrawn env s"
  shows "menu_inv True s'"
proof -
  obtain ws where w: "lwaits s = 1 # ws" using assms(3) by (cases "lwaits s") (auto simp: menu_redrawn_def)
  let ?s = "s\<lparr>lwaits := ws\<rparr>"
  have inv: "menu_inv False ?s" using assms(1) by (simp add: menu_inv_def)
  obtain k s1 where k: "KeyValue env ?s = (k, s1)" by fastforce
  have s1: "menu_inv False s1" "lcd_timeout s1 = lcd_timeout s"
    using key_inv[OF k] inv key_frame[OF k] by (simp_all add: frame_def)
  show ?thesis
  proof (cases "lcd_timeout s = 1")
    case True
    then have "MainMenuOperate env KEY_MENU (?s\<lparr>lcd_timeout := 0\<rparr>) = Some s'"
      using assms(2) w by (simp add: lcd_turn_def Let_def)
    moreover have "menu_inv False (?s\<lparr>lcd_timeout := 0\<rparr>)" using inv by (simp add: menu_inv_def)
    ultimately show ?thesis using menu_drawn_anew by (metis insertI1 lcdSt.select_convs(6) lcdSt.surjective lcdSt.update_convs(6))
  next
    case False
    then have "k \<in> {KEY_MENU, KEY_RETURN}" using assms(3) w k by (simp add: menu_redrawn_def)
    moreover have "lcd_timeout s = 0" using assms(1) False by (simp add: menu_inv_def)
    moreover have "MainMenuOperate env k s1 = Some s'"
      using calculation assms(2) w k by (auto simp: lcd_turn_def Let_def KEY_MENU_def KEY_RETURN_def)
    ultimately show ?thesis using menu_drawn_anew[OF s1(1)] s1(2) by simp
  qed
qed

text \<open>
  The states of the main loop, the threads that display the time after a time-out, and whether the screen is
  undisturbed: since a whole menu was drawn, no thread was there. A thread looks at \<open>lcd_timeout\<close> only between its
  drawings, so it draws on after a key has reset it, and even beside a new one; during the turns in which
  one is there, what the panel answers and what is drawn in between is arbitrary (\<open>env'\<close>, \<open>rs\<close>). The creation of a
  thread may fail.
\<close>

definition threads_after :: "nat \<Rightarrow> lcdSt \<Rightarrow> lcdSt \<Rightarrow> nat \<Rightarrow> bool" where
  "threads_after n s s' n' \<longleftrightarrow> n' = n \<or> n' = Suc n \<and> lcd_timeout s = 0 \<and> lcd_timeout s' = 1"

inductive lcd_reaches :: "lcdEnv \<Rightarrow> lcdSt \<Rightarrow> nat \<Rightarrow> bool \<Rightarrow> bool" for env where
  start: "lcd_start env waits = Some s \<Longrightarrow> lcd_reaches env s 0 True"
| turn: "lcd_reaches env s 0 b \<Longrightarrow> lcd_turn env s = Some s' \<Longrightarrow> threads_after 0 s s' n \<Longrightarrow>
    lcd_reaches env s' n (n = 0 \<and> (b \<or> menu_redrawn env s))"
| turn_beside: "lcd_reaches env s (Suc n) b \<Longrightarrow> lcd_turn env' s = Some s' \<Longrightarrow> threads_after (Suc n) s s' n' \<Longrightarrow>
    lcd_reaches env (s'\<lparr>lreqs := rs\<rparr>) n' False"
| clock: "lcd_reaches env s (Suc n) b \<Longrightarrow> lcd_reaches env (s\<lparr>lreqs := rs\<rparr>) (Suc n) False"
| leave: "lcd_reaches env s (Suc n) b \<Longrightarrow> lcd_timeout s = 0 \<Longrightarrow> lcd_reaches env s n False"

lemma inv_weak: "menu_inv b s \<Longrightarrow> menu_inv False s"
  by (simp add: menu_inv_def)

lemma reaches_inv: "lcd_reaches env s n b \<Longrightarrow> menu_inv b s"
proof (induction rule: lcd_reaches.induct)
  case (start waits s)
  then show ?case by (rule start_inv)
next
  case (turn s b s' n)
  have "menu_inv True s'" if "menu_redrawn env s"
    using redraw_inv[OF inv_weak[OF turn.IH] turn.hyps(2) that] .
  moreover have "menu_inv b s'" using turn_inv turn by blast
  ultimately show ?case using inv_weak by (cases b) (auto simp: menu_inv_def)
next
  case (turn_beside s n b env' s' n' rs)
  then have "menu_inv False s'" using turn_inv inv_weak by blast
  then show ?case by (simp add: menu_inv_def)
qed (simp_all add: menu_inv_def)


definition panel :: lcdEnv where
  "panel = \<lparr>le_fpga = \<lambda>_ _ _. (1, 4), le_popen = \<lambda>_ _. None, le_stack = []\<rparr>"


end
