(* ===== verification/InSat.thy ===== *)
theory InSat
  imports InProcess LibCommon "HOL-Library.Monad_Syntax"
begin

unbundle bit_operations_syntax

text \<open>
  The receivers of the satellites, \<^verbatim>\<open>src/d-input/din_satellite.c\<close>: the sentences that a board sends, their checks and
  what is taken from them, and the sentences that configure a receiver. A read or a write outside of an array has no
  value. The arrays \<open>satcommon\<close> of the slots that other parts do not use are kept beside the state of the process.
\<close>

section \<open>State\<close>

definition MAX_GPS_STAR :: nat where "MAX_GPS_STAR = 24"
definition GB_BUF_LEN :: int where "GB_BUF_LEN = 2048"
definition RCVRVER :: string where "RCVRVER = ''V2.0''"
definition RCVRTYPE :: string where "RCVRTYPE = ''GB_02''"

record starinfo =
  star_id :: int
  star_snr :: int

definition starinfo_0 :: starinfo where
  "starinfo_0 = \<lparr>star_id = 0, star_snr = 0\<rparr>"

record satrx =
  rx_lat :: bytes
  rx_lon :: bytes
  rx_elev :: bytes
  rx_sysMode :: int
  rx_gbs :: int
  rx_rcvrVer :: bytes
  rx_rcvrType :: bytes
  elevThd :: int
  fdrStatus :: int
  trackMode :: char
  workMode :: int
  rx_utc :: bytes
  nGps :: int
  vGps :: "starinfo list"
  nBd :: int
  vBd :: "starinfo list"
  rx_fresh :: bool
  pps_num :: int
  pps_unused_num :: int
  lps_valid :: bool

record satProc =
  sp :: inProc
  rxs :: "satrx list"

definition rx_at :: "satProc \<Rightarrow> int \<Rightarrow> satrx" where
  "rx_at p slot = rxs p ! nat (slot - 1)"

definition upd_rx :: "int \<Rightarrow> (satrx \<Rightarrow> satrx) \<Rightarrow> satProc \<Rightarrow> satProc" where
  "upd_rx slot f p = p\<lparr>rxs := (rxs p)[nat (slot - 1) := f (rx_at p slot)]\<rparr>"

definition upd_sat :: "int \<Rightarrow> (satsta \<Rightarrow> satsta) \<Rightarrow> satProc \<Rightarrow> satProc" where
  "upd_sat slot f p = p\<lparr>sp := (sp p)\<lparr>sats := (sats (sp p))[nat (slot - 1) := f (sat_at (sp p) slot)]\<rparr>\<rparr>"

definition upd_sta :: "int \<Rightarrow> (inputsta \<Rightarrow> inputsta) \<Rightarrow> satProc \<Rightarrow> satProc" where
  "upd_sta slot f p =
     p\<lparr>sp := (sp p)\<lparr>ic := (ic (sp p))\<lparr>inSta := (inSta (ic (sp p)))[nat (slot - 1) := f (slot_sta (ic (sp p)) slot)]\<rparr>\<rparr>\<rparr>"

definition rx_valid :: "satProc \<Rightarrow> int \<Rightarrow> int" where
  "rx_valid p slot = satellite_valid (sat_at (sp p) slot)"

section \<open>Registers\<close>

definition FPGA_IN_GB_REN :: "int \<Rightarrow> int" where "FPGA_IN_GB_REN slot = FPGA_IN_PRIV_ADDR slot 1 0x1A"
definition FPGA_IN_GB_RADDR :: "int \<Rightarrow> int" where "FPGA_IN_GB_RADDR slot = FPGA_IN_PRIV_ADDR slot 1 0x1B"
definition FPGA_IN_GB_RVALUE :: "int \<Rightarrow> int" where "FPGA_IN_GB_RVALUE slot = FPGA_IN_PRIV_ADDR slot 1 0x1C"
definition FPGA_IN_GB_WEN :: "int \<Rightarrow> int" where "FPGA_IN_GB_WEN slot = FPGA_IN_PRIV_ADDR slot 1 0x1D"
definition FPGA_IN_GB_WADDR :: "int \<Rightarrow> int" where "FPGA_IN_GB_WADDR slot = FPGA_IN_PRIV_ADDR slot 1 0x1E"
definition FPGA_IN_GB_WVALUE :: "int \<Rightarrow> int" where "FPGA_IN_GB_WVALUE slot = FPGA_IN_PRIV_ADDR slot 1 0x1F"
definition FPGA_IN_GB_WREADY :: "int \<Rightarrow> int" where "FPGA_IN_GB_WREADY slot = FPGA_IN_PRIV_ADDR slot 2 0x00"

definition sp_write :: "inEnv \<Rightarrow> int \<Rightarrow> int \<Rightarrow> satProc \<Rightarrow> bool \<times> satProc" where
  "sp_write env addr v p = (case in_write env addr v (sp p) of (ok, s) \<Rightarrow> (ok, p\<lparr>sp := s\<rparr>))"

fun sp_writes :: "inEnv \<Rightarrow> (int \<times> int) list \<Rightarrow> satProc \<Rightarrow> bool \<times> satProc" where
  "sp_writes env [] p = (True, p)"
| "sp_writes env ((addr, v) # ws) p = pair_then (sp_write env addr v p) (sp_writes env ws)"

section \<open>Sentences to a receiver\<close>

definition sat_byte_writes :: "int \<Rightarrow> int \<Rightarrow> 8 word \<Rightarrow> (int \<times> int) list" where
  "sat_byte_writes slot i b =
     [(FPGA_IN_GB_WADDR slot, i), (FPGA_IN_GB_WVALUE slot, uint b), (FPGA_IN_GB_WEN slot, 0x0000), (FPGA_IN_GB_WEN slot, 0x0001)]"

definition sat_buf_writes :: "int \<Rightarrow> bytes \<Rightarrow> (int \<times> int) list" where
  "sat_buf_writes slot buf =
     concat (map (\<lambda>(i, b). sat_byte_writes slot (int i) b) (enumerate 0 buf))
     @ [(FPGA_IN_GB_WREADY slot, 0x0001), (FPGA_IN_GB_WREADY slot, 0x0000)]"

definition WriteDataToSatBuf :: "inEnv \<Rightarrow> int \<Rightarrow> bytes \<Rightarrow> satProc \<Rightarrow> bool \<times> satProc" where
  "WriteDataToSatBuf env slot buf p = sp_writes env (sat_buf_writes slot buf) p"

text \<open>The text ends with the star; its sum and the end of the line follow.\<close>

definition sentence :: "string \<Rightarrow> bytes" where
  "sentence body =
     (let buf = text_bytes body; len = length buf;
          xstr = itohexa (uint (data_xor (take (len - 2) (drop 1 buf))))
      in buf @ (if length xstr = 1 then [char_byte (CHR ''0''), char_byte (xstr ! 0)]
                else [char_byte (xstr ! 0), char_byte (xstr ! 1)])
             @ [0x0D, 0x0A])"

fun send_sentences :: "inEnv \<Rightarrow> int \<Rightarrow> string list \<Rightarrow> satProc \<Rightarrow> bool \<times> satProc" where
  "send_sentences env slot [] p = (True, p)"
| "send_sentences env slot (b # bs) p =
     pair_then (WriteDataToSatBuf env slot (sentence b) p) (send_sentences env slot bs)"

definition sat_mode_texts :: "string list" where
  "sat_mode_texts = [''$CFG-MSG,1,0,0,1,1,0,1,1,1,0,1*'', ''$CFG-PMODE,3*'', ''$CFG-TP,00030D40,1,1,0000,00000000*'', ''$CFG-CFG*'']"

definition SetSatMode :: "inEnv \<Rightarrow> int \<Rightarrow> satProc \<Rightarrow> bool \<times> satProc" where
  "SetSatMode env slot p = send_sentences env slot sat_mode_texts p"

definition receiver_board :: "int \<Rightarrow> bool" where
  "receiver_board bid \<longleftrightarrow> bid = BID_GPSBF \<or> bid = BID_GPSBE \<or> bid = BID_GBDBF \<or> bid = BID_GBDBE \<or> bid = BID_BDBF \<or> bid = BID_BDBE"

fun set_satellites :: "inEnv \<Rightarrow> int list \<Rightarrow> satProc \<Rightarrow> bool \<times> satProc" where
  "set_satellites env [] p = (True, p)"
| "set_satellites env (slot # slots) p =
     pair_then (if receiver_board (board_at (sp p) slot) then SetSatMode env slot p else (True, p)) (set_satellites env slots)"

definition SetSatellite :: "inEnv \<Rightarrow> satProc \<Rightarrow> bool \<times> satProc" where
  "SetSatellite env p = set_satellites env [1..INPUT_SLOT_CURSOR_ARRAY_SIZE] p"

definition mode_set :: "inEnv \<Rightarrow> int \<Rightarrow> int \<Rightarrow> satProc \<Rightarrow> bool \<times> satProc" where
  "mode_set env slot mode p =
     (if mode \<in> {0x01, 0x02, 0x03, 0x04} then
        send_sentences env slot [''$CFG-PMODE,'' @ [char_of (nat (48 + mode)), CHR ''*''], ''$CFG-CFG*''] p
      else (False, p))"

section \<open>Sentences from a receiver\<close>

text \<open>The buffer of a sentence has 128 bytes, and its text ends with a zero.\<close>

definition byte_at :: "bytes \<Rightarrow> int \<Rightarrow> int option" where
  "byte_at buf i = map_option uint (arr buf i)"

definition is_byte :: "char \<Rightarrow> int \<Rightarrow> bool" where
  "is_byte c v \<longleftrightarrow> v = of_char c"

definition hex_nibble :: "int \<Rightarrow> int" where
  "hex_nibble c = (if 0x30 \<le> c \<and> c \<le> 0x39 then c - 0x30 else c - 0x37)"

definition check_sum :: "bytes \<Rightarrow> int \<Rightarrow> bool option" where
  "check_sum data len = do {
     star \<leftarrow> byte_at data (len - 3);
     if star \<noteq> of_char (CHR ''*'') then Some False
     else do {
       a \<leftarrow> byte_at data (len - 2);
       b \<leftarrow> byte_at data (len - 1);
       Some (u8 (u8 (16 * hex_nibble a) + hex_nibble b) = uint (data_xor (take (nat (len - 4)) (drop 1 data))))
     }
   }"

text \<open>The places behind the commas; the array is filled with zeros.\<close>

definition commas :: "bytes \<Rightarrow> int \<Rightarrow> int list" where
  "commas data len = map (\<lambda>i. i + 1) (filter (\<lambda>i. byte_at data i = Some (of_char (CHR '',''))) [0..len - 1])"

definition comma :: "bytes \<Rightarrow> int \<Rightarrow> nat \<Rightarrow> int" where
  "comma data len k = (let cs = commas data len in if k < length cs then cs ! k else 0)"

text \<open>\<open>n\<close> digits from a place on.\<close>

fun digits_at :: "bytes \<Rightarrow> int \<Rightarrow> nat \<Rightarrow> int \<Rightarrow> int option" where
  "digits_at data i 0 acc = Some acc"
| "digits_at data i (Suc n) acc = Option.bind (byte_at data i) (\<lambda>c. digits_at data (i + 1) n (10 * acc + (c - 0x30)))"

text \<open>\<open>memset\<close> and \<open>memcpy\<close> into a part of an array.\<close>

definition put_at :: "bytes \<Rightarrow> int \<Rightarrow> bytes \<Rightarrow> bytes option" where
  "put_at buf i xs =
     (if 0 \<le> i \<and> i + int (length xs) \<le> int (length buf) then Some (take (nat i) buf @ xs @ drop (nat i + length xs) buf) else None)"

definition bytes_at :: "bytes \<Rightarrow> int \<Rightarrow> int \<Rightarrow> bytes option" where
  "bytes_at buf i n =
     (if 0 \<le> i \<and> 0 \<le> n \<and> i + n \<le> int (length buf) then Some (take (nat n) (drop (nat i) buf)) else None)"

section \<open>Position and mode\<close>

definition gga_mode :: "int \<Rightarrow> int" where
  "gga_mode c =
     (if c = of_char (CHR ''1'') then MODE_CURSOR_GPS_VAL else if c = of_char (CHR ''2'') then MODE_CURSOR_BD_VAL
      else if c = of_char (CHR ''3'') then MODE_CURSOR_MIX_GPS_VAL else if c = of_char (CHR ''4'') then MODE_CURSOR_MIX_BD_VAL
      else 0)"

definition gga_blank :: "bytes \<Rightarrow> int \<Rightarrow> bytes option" where
  "gga_blank data len = do {
     data' \<leftarrow> put_at data (comma data len 1) (replicate 7 0);
     data' \<leftarrow> put_at data' (comma data len 3) (replicate 8 0);
     put_at data' (comma data len 8) (replicate (nat (comma data len 9 - comma data len 8 - 1)) 0)
   }"

definition gga_fields :: "bytes \<Rightarrow> int \<Rightarrow> bytes \<Rightarrow> satrx \<Rightarrow> satrx option" where
  "gga_fields data len data' r = do {
     ns \<leftarrow> arr data' (comma data len 2);
     lat \<leftarrow> bytes_at data' (comma data len 1) (comma data len 2 - comma data len 1 - 1);
     lat \<leftarrow> put_at ((rx_lat r)[0 := ns]) 1 lat;
     ew \<leftarrow> arr data' (comma data len 4);
     lon \<leftarrow> bytes_at data' (comma data len 3) (comma data len 4 - comma data len 3 - 1);
     lon \<leftarrow> put_at ((rx_lon r)[0 := ew]) 1 lon;
     elev \<leftarrow> bytes_at data' (comma data len 8) (comma data len 9 - comma data len 8 - 1);
     elev \<leftarrow> put_at (replicate 8 0) 0 elev;
     Some (r\<lparr>rx_lat := lat, rx_lon := lon[12 := 0], rx_elev := elev\<rparr>)
   }"

definition GGA_Parser :: "int \<Rightarrow> bytes \<Rightarrow> satProc \<Rightarrow> (bool \<times> satProc) option" where
  "GGA_Parser slot data p =
     (if slot > INPUT_SLOT_CURSOR_ARRAY_SIZE then Some (False, p)
      else do {
        len \<leftarrow> map_option int (strlen data);
        ok \<leftarrow> check_sum data len;
        if \<not> ok \<or> length (commas data len) \<noteq> 15 then Some (False, p)
        else do {
          alm \<leftarrow> byte_at data (comma data len 5);
          m \<leftarrow> byte_at data (comma data len 14);
          let p = upd_sta slot (\<lambda>x. x\<lparr>sys_mode := gga_mode m\<rparr>) p;
          data' \<leftarrow> (if rx_valid p slot \<noteq> GET_SATELLITE then gga_blank data len else Some data);
          r \<leftarrow> gga_fields data len data' (rx_at p slot);
          Some (True, upd_rx slot (\<lambda>_. r\<lparr>rx_gbs := u8 (alm - 0x30), rx_rcvrVer := text_bytes RCVRVER @ drop 4 (rx_rcvrVer r),
            rx_rcvrType := text_bytes RCVRTYPE @ drop 5 (rx_rcvrType r), rx_sysMode := gga_mode m, elevThd := 5\<rparr>) p)
        }
      })"

section \<open>State of the receiver\<close>

definition sp_fresh :: "inEnv \<Rightarrow> satProc \<Rightarrow> bool \<times> satProc" where
  "sp_fresh env p = (case FreshTime_no_leapSecond (ie_fpga env) (ic (sp p)) of (r, c) \<Rightarrow> (r \<noteq> 0, p\<lparr>sp := (sp p)\<lparr>ic := c\<rparr>\<rparr>))"

text \<open>The sentence comes once a second; 60 of them make the receiver valid or lost, 70 refresh the time once.\<close>

definition pps_good :: "inEnv \<Rightarrow> int \<Rightarrow> satProc \<Rightarrow> bool \<times> satProc" where
  "pps_good env slot p =
     pair_then
       (if pps_num (rx_at p slot) = 60 then
          (True, upd_rx slot (\<lambda>r. r\<lparr>rx_fresh := False\<rparr>) (upd_sat slot (\<lambda>x. x\<lparr>satellite_valid := GET_SATELLITE\<rparr>) p))
        else if pps_num (rx_at p slot) = 70 \<and> \<not> rx_fresh (rx_at p slot) then
          pair_then (sp_fresh env p) (\<lambda>p. (True, upd_rx slot (\<lambda>r. r\<lparr>rx_fresh := True\<rparr>) p))
        else (True, p))
       (\<lambda>p. (True, upd_rx slot (\<lambda>r. r\<lparr>pps_unused_num := 0, pps_num := pps_num r + 1\<rparr>) p))"

definition pps_bad :: "int \<Rightarrow> satProc \<Rightarrow> satProc" where
  "pps_bad slot p =
     upd_rx slot (\<lambda>r. r\<lparr>pps_num := 0, pps_unused_num := pps_unused_num r + 1\<rparr>)
       (if pps_unused_num (rx_at p slot) = 60 then upd_sat slot (\<lambda>x. x\<lparr>satellite_valid := LOSS_SATELLITE\<rparr>) p else p)"

definition sta_antenna :: "int \<Rightarrow> bool \<Rightarrow> int \<Rightarrow> int" where
  "sta_antenna c pps old =
     (if c = of_char (CHR ''2'') then SATELLITE_ANTENNA_NORMAL
      else if c = of_char (CHR ''3'') then SATELLITE_ANTENNA_LOOP
      else if c = of_char (CHR ''4'') then (if pps then SATELLITE_ANTENNA_NORMAL else SATELLITE_ANTENNA_OPEN)
      else old)"

text \<open>Without a valid receiver no satellite is shown; in a single mode none of the other system. \<open>memset\<close> clears 4 of them.\<close>

definition clear_stars :: "starinfo list \<Rightarrow> starinfo list" where
  "clear_stars xs = replicate 4 starinfo_0 @ drop 4 xs"

definition sta_stars :: "int \<Rightarrow> satrx \<Rightarrow> satrx" where
  "sta_stars valid r =
     (if valid \<noteq> GET_SATELLITE then r\<lparr>vBd := clear_stars (vBd r), nBd := 0, nGps := 0, vGps := clear_stars (vGps r)\<rparr>
      else if rx_sysMode r = MODE_CURSOR_GPS_VAL then r\<lparr>vBd := clear_stars (vBd r), nBd := 0\<rparr>
      else if rx_sysMode r = MODE_CURSOR_BD_VAL then r\<lparr>nGps := 0, vGps := clear_stars (vGps r)\<rparr>
      else r)"

definition sta_fields :: "int \<Rightarrow> bytes \<Rightarrow> int \<Rightarrow> int \<Rightarrow> bool \<Rightarrow> satProc \<Rightarrow> (bool \<times> satProc) option" where
  "sta_fields slot data len t pps p = do {
     pst \<leftarrow> byte_at data (comma data len 4);
     trace \<leftarrow> digits_at data (comma data len 11) 2 0;
     ant \<leftarrow> byte_at data (comma data len 10);
     let p = upd_rx slot (\<lambda>r. r\<lparr>lps_valid := is_byte (CHR ''4'') t \<or> is_byte (CHR ''5'') t\<rparr>) p;
     let p = upd_sta slot (\<lambda>x. x\<lparr>antenna_state := sta_antenna ant pps (antenna_state x), trackngb := u8 trace,
       pst_status := u8 (pst - 0x30)\<rparr>) p;
     Some (True, upd_rx slot (\<lambda>r. sta_stars (rx_valid p slot) (r\<lparr>fdrStatus := ant\<rparr>)) p)
   }"

definition sta_pulse :: "inEnv \<Rightarrow> int \<Rightarrow> bytes \<Rightarrow> int \<Rightarrow> int \<Rightarrow> satProc \<Rightarrow> (bool \<times> satProc) option" where
  "sta_pulse env slot data len t p =
     (let pps = (is_byte (CHR ''1'') t \<or> is_byte (CHR ''5'') t)
      in case (if pps then pps_good env slot p else (True, pps_bad slot p)) of
           (ok, p) \<Rightarrow> if ok then sta_fields slot data len t pps p else Some (False, p))"

definition STA_Parser :: "inEnv \<Rightarrow> int \<Rightarrow> bytes \<Rightarrow> satProc \<Rightarrow> (bool \<times> satProc) option" where
  "STA_Parser env slot data p =
     (if slot > INPUT_SLOT_CURSOR_ARRAY_SIZE then Some (False, p)
      else do {
        len \<leftarrow> map_option int (strlen data);
        ok \<leftarrow> check_sum data len;
        if \<not> ok \<or> length (commas data len) \<noteq> 13 then Some (False, p)
        else do {
          t \<leftarrow> byte_at data (comma data len 3);
          sta_pulse env slot data len t p
        }
      })"

definition RMC_Parser :: "int \<Rightarrow> bytes \<Rightarrow> satProc \<Rightarrow> (bool \<times> satProc) option" where
  "RMC_Parser slot data p =
     (if slot > INPUT_SLOT_CURSOR_ARRAY_SIZE then Some (False, p)
      else do {
        len \<leftarrow> map_option int (strlen data);
        ok \<leftarrow> check_sum data len;
        if \<not> ok \<or> length (commas data len) \<noteq> 12 then Some (False, p)
        else do {
          w \<leftarrow> byte_at data (comma data len 1);
          Some (True, upd_rx slot (\<lambda>r. r\<lparr>workMode := w\<rparr>) p)
        }
      })"

section \<open>Satellites in view\<close>

text \<open>A satellite of the sentence; the strength is missing at the end or between two commas. The stack array is behind \<open>vs\<close>.\<close>

definition star_snr_at :: "bytes \<Rightarrow> int \<Rightarrow> int option" where
  "star_snr_at data c = do {
     b \<leftarrow> byte_at data c;
     if is_byte (CHR '','') b \<or> c = 0 then Some 255 else map_option u8 (digits_at data c 2 0)
   }"

definition put_star :: "bytes \<Rightarrow> int \<Rightarrow> int \<Rightarrow> nat \<Rightarrow> starinfo list \<Rightarrow> starinfo list option" where
  "put_star data len page k vs =
     (let a = comma data len (3 + 4 * k); i = 4 * page + int k
      in if a = 0 then Some vs
         else do {
           n \<leftarrow> digits_at data a 2 0;
           s \<leftarrow> star_snr_at data (comma data len (6 + 4 * k));
           _ \<leftarrow> arr vs i;
           Some (vs[nat i := \<lparr>star_id = u8 n, star_snr = s\<rparr>])
         })"

definition page_stars :: "bytes \<Rightarrow> int \<Rightarrow> int \<Rightarrow> starinfo list option" where
  "page_stars data len page =
     Option.bind (put_star data len page 0 (replicate MAX_GPS_STAR starinfo_0)) (\<lambda>vs.
     Option.bind (put_star data len page 1 vs) (\<lambda>vs. Option.bind (put_star data len page 2 vs) (put_star data len page 3)))"

definition copy_page :: "int \<Rightarrow> starinfo list \<Rightarrow> starinfo list \<Rightarrow> starinfo list option" where
  "copy_page page vs old =
     (if 4 * page + 4 \<le> int (length vs) \<and> 4 * page + 4 \<le> int (length old)
      then Some (take (nat (4 * page)) old @ take 4 (drop (nat (4 * page)) vs) @ drop (nat (4 * page) + 4) old) else None)"

text \<open>The number, the page and the satellites; without a valid receiver the first page is cleared.\<close>

definition gsv_stars :: "bytes \<Rightarrow> int \<Rightarrow> int \<Rightarrow> starinfo list \<Rightarrow> (int \<times> starinfo list) option" where
  "gsv_stars data len valid old = do {
     n \<leftarrow> digits_at data (comma data len 2) 2 0;
     let n = (if valid \<noteq> GET_SATELLITE then 0 else u8 n);
     if n = 0 then map_option (\<lambda>vs. (0, vs)) (copy_page 0 (replicate MAX_GPS_STAR starinfo_0) old)
     else do {
       pg \<leftarrow> byte_at data (comma data len 1);
       let page = u8 (pg - 0x30 - 1);
       vs \<leftarrow> page_stars data len page;
       map_option (\<lambda>vs. (n, vs)) (copy_page page vs old)
     }
   }"

definition state_bit :: "nat \<Rightarrow> int \<Rightarrow> satsta \<Rightarrow> satsta" where
  "state_bit k n x =
     (if n > 4 then x\<lparr>satellite_state := satellite_state x OR BIT k\<rparr>
      else if satellite_valid x = GET_SATELLITE then x\<lparr>satellite_state := satellite_state x AND NOT (BIT k)\<rparr>
      else x)"

definition GSV_Parser :: "int \<Rightarrow> bytes \<Rightarrow> satProc \<Rightarrow> (bool \<times> satProc) option" where
  "GSV_Parser slot data p =
     (if slot > INPUT_SLOT_CURSOR_ARRAY_SIZE then Some (False, p)
      else do {
        len \<leftarrow> map_option int (strlen data);
        ok \<leftarrow> check_sum data len;
        if \<not> ok then Some (False, p)
        else do {
          (n, vs) \<leftarrow> gsv_stars data len (rx_valid p slot) (vGps (rx_at p slot));
          Some (True, upd_rx slot (\<lambda>r. r\<lparr>trackMode := CHR ''G'', nGps := n, vGps := vs\<rparr>) (upd_sat slot (state_bit 0 n) p))
        }
      })"

definition BSV_Parser :: "int \<Rightarrow> bytes \<Rightarrow> satProc \<Rightarrow> (bool \<times> satProc) option" where
  "BSV_Parser slot data p =
     (if slot > INPUT_SLOT_CURSOR_ARRAY_SIZE then Some (False, p)
      else do {
        len \<leftarrow> map_option int (strlen data);
        ok \<leftarrow> check_sum data len;
        if \<not> ok then Some (False, p)
        else do {
          (n, vs) \<leftarrow> gsv_stars data len (rx_valid p slot) (vBd (rx_at p slot));
          Some (True, upd_rx slot (\<lambda>r. r\<lparr>trackMode := CHR ''B'', nBd := n, vBd := vs\<rparr>) (upd_sat slot (state_bit 1 n) p))
        }
      })"

section \<open>Time and leap second\<close>

definition ZDA_Parser :: "int \<Rightarrow> bytes \<Rightarrow> satProc \<Rightarrow> (bool \<times> satProc) option" where
  "ZDA_Parser slot data p =
     (if slot > INPUT_SLOT_CURSOR_ARRAY_SIZE then Some (False, p)
      else do {
        len \<leftarrow> map_option int (strlen data);
        h \<leftarrow> digits_at data (comma data len 0) 2 0;
        m \<leftarrow> digits_at data (comma data len 0 + 2) 2 0;
        s \<leftarrow> digits_at data (comma data len 0 + 4) 2 0;
        d \<leftarrow> digits_at data (comma data len 1) 2 0;
        mo \<leftarrow> digits_at data (comma data len 2) 2 0;
        y \<leftarrow> digits_at data (comma data len 3) 4 0;
        utc \<leftarrow> put_at (rx_utc (rx_at p slot)) 0 (text_bytes (pr_pad 4 (u16 y) @ ''-'' @ pr_pad 2 (u8 mo) @ ''-'' @ pr_pad 2 (u8 d)
          @ '' '' @ pr_pad 2 (u8 h) @ '':'' @ pr_pad 2 (u8 m) @ '':'' @ pr_pad 2 (u8 s)) @ [0]);
        Some (True, upd_rx slot (\<lambda>r. r\<lparr>rx_utc := utc\<rparr>) p)
      })"

definition lps_second :: "int \<Rightarrow> int \<Rightarrow> int" where
  "lps_second a b = (let v = s8 (16 * (a - 0x30) + (b - 0x30)) in if v > 2 \<and> v < 15 then s8 (v + 14) else v)"

definition LPS_Parser :: "int \<Rightarrow> bytes \<Rightarrow> satProc \<Rightarrow> (bool \<times> satProc) option" where
  "LPS_Parser slot data p =
     (if slot > INPUT_SLOT_CURSOR_ARRAY_SIZE then Some (False, p)
      else do {
        len \<leftarrow> map_option int (strlen data);
        ok \<leftarrow> check_sum data len;
        if \<not> ok \<or> length (commas data len) \<noteq> 5 \<or> \<not> receiver_board (board_at (sp p) slot) then Some (False, p)
        else do {
          st \<leftarrow> byte_at data (comma data len 0);
          a \<leftarrow> byte_at data (comma data len 0 + 1);
          b \<leftarrow> byte_at data (comma data len 0 + 2);
          h \<leftarrow> digits_at data (comma data len 1) 2 0;
          m \<leftarrow> digits_at data (comma data len 1 + 2) 2 0;
          s \<leftarrow> digits_at data (comma data len 1 + 4) 2 0;
          d \<leftarrow> digits_at data (comma data len 2) 2 0;
          mo \<leftarrow> digits_at data (comma data len 3) 2 0;
          y \<leftarrow> digits_at data (comma data len 4) 4 0;
          Some (True, upd_sat slot (\<lambda>x. x\<lparr>sat_leapstate := u8 (st - 0x30), sat_leapSecond := lps_second a b,
            sat_leaptime := \<lparr>ti_year = u16 y, ti_days = 0, ti_month = u8 mo, ti_day = u8 d, ti_hour = u8 h, ti_minute = u8 m,
              ti_second = u8 s, ti_MiliSecond = 0, ti_MicroSecond = 0\<rparr>\<rparr>) p)
        }
      })"

section \<open>Reading the receivers\<close>

text \<open>The buffer of a board is read from its 128th byte on; the first ones and the last are zero.\<close>

fun read_sat_bytes :: "inEnv \<Rightarrow> int \<Rightarrow> int list \<Rightarrow> satProc \<Rightarrow> bytes option \<times> satProc" where
  "read_sat_bytes env slot [] p = (Some [], p)"
| "read_sat_bytes env slot (i # is) p =
     (case sp_writes env [(FPGA_IN_GB_RADDR slot, i), (FPGA_IN_GB_REN slot, 0x0000), (FPGA_IN_GB_REN slot, 0x0001)] p of
        (False, p) \<Rightarrow> (None, p)
      | (True, p) \<Rightarrow>
          (case in_read env (FPGA_IN_GB_RVALUE slot) (sp p) of
             (None, s) \<Rightarrow> (None, p\<lparr>sp := s\<rparr>)
           | (Some v, s) \<Rightarrow> (case read_sat_bytes env slot is (p\<lparr>sp := s\<rparr>) of (r, p) \<Rightarrow> (map_option ((#) (word_of_int v)) r, p))))"

definition read_sat_buf :: "inEnv \<Rightarrow> int \<Rightarrow> satProc \<Rightarrow> bytes option \<times> satProc" where
  "read_sat_buf env slot p =
     (case read_sat_bytes env slot [128..GB_BUF_LEN - 1] p of (r, p) \<Rightarrow> (map_option (\<lambda>bs. replicate 128 0 @ bs @ [0]) r, p))"

text \<open>The sentence of a block: up to the end of its line, 127 bytes at most. Without such an end the search leaves the buffer.\<close>

definition block_text :: "bytes \<Rightarrow> int \<Rightarrow> bytes option" where
  "block_text buf i = do {
     c \<leftarrow> byte_at buf i;
     let i = (if is_byte (CHR ''$'') c then i else i + 1);
     let rest = drop (nat i) buf;
     len \<leftarrow> strlen_r (map byte_char rest) (CHR 0x0D);
     let n = (if len \<ge> 128 then 127 else nat len);
     Some (take n rest @ replicate (128 - n) 0)
   }"

definition starts :: "string \<Rightarrow> bytes \<Rightarrow> bool" where
  "starts t buf \<longleftrightarrow> take (length t) buf = text_bytes t"

definition any_system :: "string \<Rightarrow> bytes \<Rightarrow> bool" where
  "any_system t buf \<longleftrightarrow> starts (''$GN'' @ t) buf \<or> starts (''$GP'' @ t) buf \<or> starts (''$BD'' @ t) buf"

definition parse_sentence :: "inEnv \<Rightarrow> int \<Rightarrow> bytes \<Rightarrow> satProc \<Rightarrow> satProc option" where
  "parse_sentence env slot buf p =
     map_option snd
       (if any_system ''GGA'' buf then GGA_Parser slot buf p
        else if any_system ''STA'' buf then STA_Parser env slot buf p
        else if starts ''$GPGSV'' buf then GSV_Parser slot buf p
        else if starts ''$BDGSV'' buf then BSV_Parser slot buf p
        else if any_system ''ZDA'' buf then ZDA_Parser slot buf p
        else if any_system ''LPS'' buf then LPS_Parser slot buf p
        else if any_system ''RMC'' buf then RMC_Parser slot buf p
        else Some (True, p))"

fun sat_blocks :: "inEnv \<Rightarrow> int \<Rightarrow> bytes \<Rightarrow> int list \<Rightarrow> satProc \<Rightarrow> satProc option" where
  "sat_blocks env slot buf [] p = Some p"
| "sat_blocks env slot buf (i # is) p = do {
     b \<leftarrow> block_text buf i;
     let p = (if hd b = 0 then upd_sat slot (\<lambda>x. x\<lparr>satellite_valid := LOSS_SATELLITE\<rparr>) p else p);
     p \<leftarrow> parse_sentence env slot b p;
     sat_blocks env slot buf is p
   }"

definition block_starts :: "int list" where
  "block_starts = map (\<lambda>k. 128 * k) [1..15]"

fun read_satellites :: "inEnv \<Rightarrow> int list \<Rightarrow> satProc \<Rightarrow> (bool \<times> satProc) option" where
  "read_satellites env [] p = Some (True, p)"
| "read_satellites env (slot # slots) p =
     (if receiver_board (board_at (sp p) slot) then
        (case read_sat_buf env slot p of
           (None, p) \<Rightarrow> Some (False, p)
         | (Some buf, p) \<Rightarrow> Option.bind (sat_blocks env slot buf block_starts p) (read_satellites env slots))
      else read_satellites env slots p)"

definition ReadSatellite :: "inEnv \<Rightarrow> satProc \<Rightarrow> (bool \<times> satProc) option" where
  "ReadSatellite env p = read_satellites env [1..INPUT_SLOT_CURSOR_ARRAY_SIZE] p"

end
