(* ===== verification/InSatSpec.thy ===== *)
theory InSatSpec
  imports InSat InRefreshSpec
begin

unbundle bit_operations_syntax

text \<open>
  What the sentences of the receivers guarantee: their sum finds every wrong byte, what is sent passes the check of what is
  received, the satellites in view are those of the sentence, and a receiver is valid by the last 61 sentences of its state.
\<close>

section \<open>The sum\<close>

lemma xor_from: "data_xor_from c bs = c XOR data_xor bs"
proof (induction bs arbitrary: c)
  case (Cons b bs)
  show ?case unfolding data_xor_def data_xor_from.simps Cons[of "c XOR b"] Cons[of "0 XOR b"] by (simp add: xor.assoc)
qed (simp add: data_xor_def)

lemma data_xor_simps: "data_xor [] = 0" "data_xor (b # bs) = b XOR data_xor bs"
  using xor_from[of b bs] by (simp_all add: data_xor_def)

lemma data_xor_parts: "data_xor (as @ bs) = data_xor as XOR data_xor bs"
  by (induction as) (simp_all add: data_xor_simps xor.assoc)

lemma xor_cancel: "a XOR b = a XOR c \<longleftrightarrow> b = (c :: 8 word)"
  by (metis xor.assoc xor.left_neutral xor_self_eq)

lemma data_xor_change:
  assumes "i < length bs" "b \<noteq> bs ! i"
  shows "data_xor (bs[i := b]) \<noteq> data_xor bs"
proof -
  have "bs = take i bs @ bs ! i # drop (Suc i) bs" using assms(1) by (rule id_take_nth_drop)
  then have o: "data_xor bs = data_xor (take i bs) XOR (bs ! i XOR data_xor (drop (Suc i) bs))"
    by (metis data_xor_parts data_xor_simps(2))
  have "bs[i := b] = take i bs @ b # drop (Suc i) bs" using assms(1) by (rule upd_conv_take_nth_drop)
  then have n: "data_xor (bs[i := b]) = data_xor (take i bs) XOR (b XOR data_xor (drop (Suc i) bs))"
    by (simp add: data_xor_parts data_xor_simps)
  show ?thesis using assms(2) unfolding o n xor_cancel by (metis xor.commute xor_cancel)
qed

lemma nibbles: "v < 256 \<Longrightarrow> 0 \<le> v \<Longrightarrow> u8 (u8 (16 * (v div 16)) + v mod 16) = v"
  by (simp add: u8_def)

lemma check_sum_change:
  assumes "check_sum data len = Some True" "1 \<le> i" "i \<le> len - 4" "b \<noteq> data ! nat i"
  shows "check_sum (data[nat i := b]) len = Some False"
proof -
  obtain s x y where s: "arr data (len - 3) = Some s" "arr data (len - 2) = Some x" "arr data (len - 1) = Some y"
    and star: "uint s = of_char (CHR ''*'')"
    and sum: "u8 (u8 (16 * hex_nibble (uint x)) + hex_nibble (uint y)) = uint (data_xor (take (nat (len - 4)) (drop 1 data)))"
    using assms(1) by (auto simp: check_sum_def byte_at_def bind_eq_Some_conv split: if_splits)
  have keep: "arr (data[nat i := b]) j = arr data j" if "j \<noteq> i" for j
    using that assms(2) by (auto simp: arr_def nth_list_update)
  have l: "nat i < length data" using s(3) assms(2,3) by (auto simp: arr_def split: if_splits)
  let ?d = "take (nat (len - 4)) (drop 1 data)"
  have "take (nat (len - 4)) (drop 1 (data[nat i := b])) = ?d[nat i - 1 := b]"
    using assms(2) by (simp add: drop_update_swap take_update_swap Suc_le_eq)
  moreover have "nat i - 1 < length ?d" "?d ! (nat i - 1) = data ! nat i" using assms(2,3) l by auto
  ultimately have "data_xor (take (nat (len - 4)) (drop 1 (data[nat i := b]))) \<noteq> data_xor ?d"
    using data_xor_change[of "nat i - 1" ?d b] assms(4) by simp
  then have "uint (data_xor ?d) \<noteq> uint (data_xor (take (nat (len - 4)) (drop 1 (data[nat i := b]))))" by (metis word_uint_eq_iff)
  then show ?thesis using s star sum keep assms(3) by (simp add: check_sum_def byte_at_def)
qed

lemma strlen_iff: "strlen bs = Some n \<longleftrightarrow> n < length bs \<and> bs ! n = 0 \<and> (\<forall>k < n. bs ! k \<noteq> 0)"
proof
  assume s: "strlen bs = Some n"
  then have "0 \<in> set bs" by (auto simp: strlen_def cstr_def split: if_splits)
  then obtain ys zs where bs: "bs = ys @ 0 # zs" "0 \<notin> set ys" by (meson split_list_first)
  then have "n = length ys" using s cstr_text[of ys zs] by (simp add: strlen_def)
  then show "n < length bs \<and> bs ! n = 0 \<and> (\<forall>k < n. bs ! k \<noteq> 0)" using bs
    by (auto simp: nth_append) (metis nth_mem)
next
  assume a: "n < length bs \<and> bs ! n = 0 \<and> (\<forall>k < n. bs ! k \<noteq> 0)"
  then have "bs = take n bs @ 0 # drop (Suc n) bs" by (metis id_take_nth_drop)
  moreover have "0 \<notin> set (take n bs)" using a by (auto simp: in_set_conv_nth)
  ultimately have "cstr bs = Some (map byte_char (take n bs))" using cstr_text by metis
  then show "strlen bs = Some n" using a by (simp add: strlen_def)
qed

text \<open>C17: (safety) A sentence with one wrong byte between the dollar and the star is refused by every parser that looks at
  the sum, and the state of the process stays.\<close>

theorem wrong_byte_refused:
  assumes "strlen data = Some n" "check_sum data (int n) = Some True" "1 \<le> i" "i + 4 \<le> n" "b \<noteq> data ! i" "b \<noteq> 0" "slot \<le> 4"
  shows "GGA_Parser slot (data[i := b]) p = Some (False, p) \<and> STA_Parser env slot (data[i := b]) p = Some (False, p) \<and>
    GSV_Parser slot (data[i := b]) p = Some (False, p) \<and> BSV_Parser slot (data[i := b]) p = Some (False, p) \<and>
    LPS_Parser slot (data[i := b]) p = Some (False, p) \<and> RMC_Parser slot (data[i := b]) p = Some (False, p)"
proof -
  have "strlen (data[i := b]) = Some n"
    using assms(1,4,6) unfolding strlen_iff by (auto simp: nth_list_update)
  moreover have "check_sum (data[i := b]) (int n) = Some False"
    using check_sum_change[of data "int n" "int i" b] assms by simp
  ultimately show ?thesis using assms(7)
    by (simp add: GGA_Parser_def STA_Parser_def GSV_Parser_def BSV_Parser_def LPS_Parser_def RMC_Parser_def
        INPUT_SLOT_CURSOR_ARRAY_SIZE_def)
qed

section \<open>What is sent passes the check\<close>

lemma itohexa_byte: "0 \<le> v \<Longrightarrow> v < 256 \<Longrightarrow>
  itohexa v = (if v < 16 then [hex_digit v] else [hex_digit (v div 16), hex_digit (v mod 16)])"
proof -
  assume v: "0 \<le> v" "v < 256"
  then have "v div 16 < 16" by auto
  then show ?thesis using v itohexa_step[of v] itohexa_step[of "v div 16"] by simp
qed

lemma char_byte_char: "byte_char (char_byte c) = c"
  by (simp add: byte_char_def char_byte_def unat_of_nat)

lemma char_byte_special: "char_byte c = 0 \<longleftrightarrow> c = CHR 0x00" "char_byte c = 0x0D \<longleftrightarrow> c = CHR 0x0D"
proof -
  have "byte_char 0 = CHR 0x00" "byte_char 0x0D = CHR 0x0D" by (simp_all add: byte_char_def char_of_eq_iff)
  then show "char_byte c = 0 \<longleftrightarrow> c = CHR 0x00" "char_byte c = 0x0D \<longleftrightarrow> c = CHR 0x0D"
    using byte_char_byte[of "char_byte c"] char_byte_char[of c] byte_char_byte[of 0] byte_char_byte[of "0x0D"] by metis+
qed

lemma uint_char_byte: "uint (char_byte c) = of_char c"
proof -
  have "unat (char_byte c) = of_char c" by (simp add: char_byte_def unat_of_nat)
  then have "int (unat (char_byte c)) = of_char c" using of_nat_of_char by metis
  then show ?thesis by simp
qed

lemma of_hex_digit: "0 \<le> t \<Longrightarrow> t < 16 \<Longrightarrow> (of_char (hex_digit t) :: int) = (if t \<le> 9 then t + 0x30 else t + 0x37)"
proof -
  assume t: "0 \<le> t" "t < 16"
  then have "(of_char (hex_digit t) :: nat) = nat (if t \<le> 9 then t + 0x30 else t + 0x37)"
    by (simp add: hex_digit_def of_char_of)
  moreover have "(of_char (hex_digit t) :: int) = int (of_char (hex_digit t))" by (metis of_nat_of_char)
  ultimately show ?thesis using t by simp
qed

lemma hex_nibble_digit: "0 \<le> t \<Longrightarrow> t < 16 \<Longrightarrow> hex_nibble (uint (char_byte (hex_digit t))) = t"
  by (simp add: uint_char_byte of_hex_digit hex_nibble_def)

lemma hex_digit_byte: "0 \<le> t \<Longrightarrow> t < 16 \<Longrightarrow>
  char_byte (hex_digit t) \<noteq> 0 \<and> char_byte (hex_digit t) \<noteq> 0x0D \<and> char_byte (hex_digit t) \<noteq> char_byte (CHR '','')"
proof -
  assume t: "0 \<le> t" "t < 16"
  have "uint (char_byte (hex_digit t)) \<noteq> 0 \<and> uint (char_byte (hex_digit t)) \<noteq> 0x0D \<and>
    uint (char_byte (hex_digit t)) \<noteq> uint (char_byte (CHR '',''))"
    using t by (simp add: uint_char_byte of_hex_digit)
  then show ?thesis by auto
qed

lemma nibble_parts: "0 \<le> v \<Longrightarrow> v < (256 :: int) \<Longrightarrow>
  v = 16 * (v div 16) + v mod 16 \<and> 0 \<le> v div 16 \<and> v div 16 < 16 \<and> 0 \<le> v mod 16 \<and> v mod 16 < 16"
  by auto

lemma sentence_digits: "\<exists>a b. 0 \<le> a \<and> a < 16 \<and> 0 \<le> b \<and> b < 16 \<and>
  uint (data_xor (take (length body - 2) (drop 1 (text_bytes body)))) = 16 * a + b \<and>
  sentence body = text_bytes body @ [char_byte (hex_digit a), char_byte (hex_digit b), 0x0D, 0x0A]"
proof -
  let ?v = "uint (data_xor (take (length body - 2) (drop 1 (text_bytes body))))"
  have v: "0 \<le> ?v" "?v < 256" using uint_lt2p[of "data_xor (take (length body - 2) (drop 1 (text_bytes body)))"] by simp_all
  have "hex_digit 0 = CHR ''0''" by (simp add: hex_digit_def char_of_eq_iff)
  then have "sentence body = text_bytes body @ [char_byte (hex_digit (?v div 16)), char_byte (hex_digit (?v mod 16)), 0x0D, 0x0A]"
    using itohexa_byte[OF v] by (simp add: sentence_def Let_def text_bytes_def)
  moreover note nibble_parts[OF v]
  ultimately show ?thesis by blast
qed

lemma strlen_r_before: "c \<notin> set xs \<Longrightarrow> strlen_r (xs @ c # ys) c = Some (int (length xs))"
proof -
  assume "c \<notin> set xs"
  then have "takeWhile ((\<noteq>) c) (xs @ c # ys) = xs" by (induction xs) auto
  then show ?thesis by (simp add: strlen_r_def)
qed

lemma byte_char_eq: "byte_char a = byte_char b \<longleftrightarrow> a = b"
  by (metis byte_char_byte)

lemma sentence_buffer:
  assumes "length body + 4 \<le> 128" "2 \<le> length body" "hd body = CHR ''$''" "last body = CHR ''*''"
    "CHR 0x00 \<notin> set body" "CHR 0x0D \<notin> set body"
  shows "\<exists>d x. block_text (replicate 128 0 @ sentence body @ rest) 128 = Some d \<and>
    strlen d = Some (length body + 2) \<and> check_sum d (int (length body + 2)) = Some True \<and>
    d = text_bytes body @ x @ replicate (126 - length body) 0 \<and> length x = 2 \<and> char_byte (CHR '','') \<notin> set x"
proof -
  obtain a b where ab: "0 \<le> a" "a < 16" "0 \<le> b" "b < 16"
    and v: "uint (data_xor (take (length body - 2) (drop 1 (text_bytes body)))) = 16 * a + b"
    and s: "sentence body = text_bytes body @ [char_byte (hex_digit a), char_byte (hex_digit b), 0x0D, 0x0A]"
    using sentence_digits[of body] by blast
  let ?t = "text_bytes body @ [char_byte (hex_digit a), char_byte (hex_digit b)]"
  let ?d = "?t @ replicate (126 - length body) 0"
  have cr: "(0x0D :: 8 word) \<notin> set ?t" "(0 :: 8 word) \<notin> set ?t"
  proof -
    have t: "set ?t = char_byte ` set body \<union> {char_byte (hex_digit a), char_byte (hex_digit b)}"
      by (simp add: text_bytes_def insert_commute)
    show "(0x0D :: 8 word) \<notin> set ?t" "(0 :: 8 word) \<notin> set ?t"
      unfolding t using assms(5,6) hex_digit_byte[OF ab(1,2)] hex_digit_byte[OF ab(3,4)] char_byte_special
      by (metis (no_types, lifting) Un_iff empty_iff image_iff insert_iff)+
  qed
  have first: "\<exists>r. text_bytes body = 0x24 # r" using assms(2,3) by (cases body) (auto simp: text_bytes_def char_byte_def)
  have "block_text (replicate 128 0 @ sentence body @ rest) 128 = Some ?d"
  proof -
    have "byte_char 0x0D \<notin> set (map byte_char ?t)" using cr(1) byte_char_eq by auto
    then have "strlen_r (map byte_char ?t @ byte_char 0x0D # map byte_char (0x0A # rest)) (byte_char 0x0D) = Some (int (length (map byte_char ?t)))"
      by (rule strlen_r_before)
    moreover have "length (map byte_char ?t) = length body + 2" by (simp add: text_bytes_def)
    moreover have "byte_char 0x0D = CHR 0x0D" by (simp add: byte_char_def char_of_eq_iff)
    moreover have "map byte_char (sentence body @ rest) = map byte_char ?t @ byte_char 0x0D # map byte_char (0x0A # rest)"
      by (simp add: s)
    ultimately have l: "strlen_r (map byte_char (sentence body @ rest)) (CHR 0x0D) = Some (int (length body + 2))" by metis
    have "byte_at (replicate 128 0 @ sentence body @ rest) 128 = Some 0x24"
      using first s by (auto simp: byte_at_def arr_def nth_append)
    moreover have "drop (nat 128) (replicate 128 0 @ sentence body @ rest) = sentence body @ rest" by simp
    moreover have "take (length body + 2) (sentence body @ rest) = ?t" by (simp add: s text_bytes_def)
    moreover have "nat (2 + int (length body)) = Suc (Suc (length body))" by simp
    ultimately show ?thesis using l assms(1) by (simp add: block_text_def is_byte_def Let_def text_bytes_def)
  qed
  moreover have "strlen ?d = Some (length body + 2)"
  proof -
    have "126 - length body = Suc (125 - length body)" using assms(1) by simp
    then have "?d = ?t @ 0 # replicate (125 - length body) 0" by simp
    then have "cstr ?d = Some (map byte_char ?t)" using cstr_text[OF cr(2)] by metis
    then show ?thesis by (simp add: strlen_def text_bytes_def)
  qed
  moreover have "check_sum ?d (int (length body + 2)) = Some True"
  proof -
    have "body \<noteq> []" using assms(2) by auto
    then have c1: "byte_at ?d (int (length body) - 1) = Some (of_char (last body))"
      using assms(2) by (simp add: byte_at_def arr_def nth_append text_bytes_def last_conv_nth uint_char_byte nat_diff_distrib)
    have c2: "byte_at ?d (int (length body)) = Some (uint (char_byte (hex_digit a)))"
      "byte_at ?d (int (length body) + 1) = Some (uint (char_byte (hex_digit b)))"
      by (simp_all add: byte_at_def arr_def nth_append text_bytes_def nat_add_distrib)
    have c3: "take (length body - 2) (drop 1 ?d) = take (length body - 2) (drop 1 (text_bytes body))"
      by (simp add: text_bytes_def)
    have c4: "u8 (u8 (16 * a) + b) = 16 * a + b" using ab by (simp add: u8_def)
    have e: "int (length body + 2) - 3 = int (length body) - 1" "int (length body + 2) - 2 = int (length body)"
      "int (length body + 2) - 1 = int (length body) + 1" "nat (int (length body + 2) - 4) = length body - 2" by simp_all
    show ?thesis
      unfolding check_sum_def e c1 c2 c3 v Option.bind.bind_lunit assms(4) hex_nibble_digit[OF ab(1,2)] hex_nibble_digit[OF ab(3,4)] c4
      by simp
  qed
  moreover have "char_byte (CHR '','') \<notin> set [char_byte (hex_digit a), char_byte (hex_digit b)]"
    using hex_digit_byte[OF ab(1,2)] hex_digit_byte[OF ab(3,4)] by auto
  moreover have "?d = text_bytes body @ [char_byte (hex_digit a), char_byte (hex_digit b)] @ replicate (126 - length body) 0" by simp
  ultimately show ?thesis by (intro exI conjI) (assumption | simp)+
qed

text \<open>(roundtrip) A configuration sentence in a block of the buffer is found by the search of the reader, ends where
  its sum ends, and passes the check that the parsers make; the sum is that of the text between the dollar and the star.\<close>

theorem sent_sentence_accepted:
  assumes "length body + 4 \<le> 128" "2 \<le> length body" "hd body = CHR ''$''" "last body = CHR ''*''"
    "CHR 0x00 \<notin> set body" "CHR 0x0D \<notin> set body"
  shows "\<exists>d. block_text (replicate 128 0 @ sentence body @ rest) 128 = Some d \<and>
    strlen d = Some (length body + 2) \<and> check_sum d (int (length body + 2)) = Some True"
  using sentence_buffer[OF assms, of rest] by blast


section \<open>The validity of a receiver\<close>

text \<open>The sentences of the state one after the other, each of them complete.\<close>

fun sta_run :: "inEnv \<Rightarrow> int \<Rightarrow> bytes list \<Rightarrow> satProc \<Rightarrow> satProc option" where
  "sta_run env slot [] p = Some p"
| "sta_run env slot (d # ds) p =
     (case STA_Parser env slot d p of Some (True, p) \<Rightarrow> sta_run env slot ds p | _ \<Rightarrow> None)"

definition pulse :: "bytes \<Rightarrow> bool" where
  "pulse d = (case map_option int (strlen d) of None \<Rightarrow> False
     | Some len \<Rightarrow> byte_at d (comma d len 3) = Some (of_char (CHR ''1'')) \<or> byte_at d (comma d len 3) = Some (of_char (CHR ''5'')))"

text \<open>The newest sentence first: 61 with the pulse, or 61 without it, since the last change.\<close>

fun window_valid :: "int \<Rightarrow> bool list \<Rightarrow> int" where
  "window_valid v [] = v"
| "window_valid v (b # bs) =
     (if 61 \<le> length (b # bs) \<and> (\<forall>x \<in> set (take 61 (b # bs)). x = b) then (if b then GET_SATELLITE else LOSS_SATELLITE)
      else window_valid v bs)"

definition run_of :: "bool \<Rightarrow> bool list \<Rightarrow> int" where
  "run_of b bs = int (length (takeWhile ((=) b) bs))"

definition rx_ok :: "int \<Rightarrow> satProc \<Rightarrow> bool" where
  "rx_ok slot p \<longleftrightarrow> 1 \<le> slot \<and> slot \<le> 4 \<and> length (rxs p) = 4 \<and> length (sats (sp p)) = 4"

definition pulses :: "int \<Rightarrow> satProc \<Rightarrow> int \<times> int \<times> int" where
  "pulses slot p = (pps_num (rx_at p slot), pps_unused_num (rx_at p slot), rx_valid p slot)"

lemma rx_upd [simp]:
  "rx_ok slot (upd_rx slot f p) = rx_ok slot p" "rx_ok slot (upd_sat slot g p) = rx_ok slot p" "rx_ok slot (upd_sta slot h p) = rx_ok slot p"
  "rx_ok slot p \<Longrightarrow> rx_at (upd_rx slot f p) slot = f (rx_at p slot)"
  "rx_at (upd_sat slot g p) slot = rx_at p slot" "rx_at (upd_sta slot h p) slot = rx_at p slot"
  "rx_valid (upd_rx slot f p) slot = rx_valid p slot" "rx_valid (upd_sta slot h p) slot = rx_valid p slot"
  "rx_ok slot p \<Longrightarrow> rx_valid (upd_sat slot g p) slot = satellite_valid (g (sat_at (sp p) slot))"
  by (auto simp: rx_ok_def upd_rx_def upd_sat_def upd_sta_def rx_at_def rx_valid_def sat_at_def nth_list_update)

lemma sat_upd: "sat_at (sp (upd_rx slot f p)) slot = sat_at (sp p) slot"
  "rx_ok slot p \<Longrightarrow> sat_at (sp (upd_sat slot g p)) slot = g (sat_at (sp p) slot)"
  by (auto simp: rx_ok_def upd_rx_def upd_sat_def sat_at_def)

lemma sp_fresh_keeps: "sp_fresh env p = (ok, q) \<Longrightarrow> rxs q = rxs p \<and> sats (sp q) = sats (sp p)"
  by (auto simp: sp_fresh_def split: prod.splits)

lemma sp_fresh_pulses:
  assumes "sp_fresh env p = (ok, q)"
  shows "rx_at q slot = rx_at p slot" "rx_valid q slot = rx_valid p slot" "rx_ok slot q = rx_ok slot p"
  using sp_fresh_keeps[OF assms] by (simp_all add: rx_at_def rx_valid_def sat_at_def rx_ok_def)

lemma pps_good_pulses:
  assumes "pps_good env slot p = (True, q)" "rx_ok slot p" "pulses slot p = (n, u, v)"
  shows "rx_ok slot q \<and> pulses slot q = (n + 1, 0, if n = 60 then GET_SATELLITE else v)"
proof (cases "pps_num (rx_at p slot) = 70 \<and> \<not> rx_fresh (rx_at p slot)")
  case True
  obtain ok r where r: "sp_fresh env p = (ok, r)" by fastforce
  then have "ok" using assms True by (cases ok) (auto simp: pps_good_def)
  then show ?thesis using assms True r sp_fresh_pulses[OF r] by (auto simp: pps_good_def pulses_def)
next
  case False
  then show ?thesis using assms by (auto simp: pps_good_def pulses_def split: if_splits)
qed

lemma pps_bad_pulses:
  assumes "rx_ok slot p" "pulses slot p = (n, u, v)"
  shows "rx_ok slot (pps_bad slot p) \<and> pulses slot (pps_bad slot p) = (0, u + 1, if u = 60 then LOSS_SATELLITE else v)"
  using assms by (auto simp: pps_bad_def pulses_def)

lemma sta_stars_pulses [simp]: "pps_num (sta_stars v r) = pps_num r" "pps_unused_num (sta_stars v r) = pps_unused_num r"
  by (simp_all add: sta_stars_def)

lemma STA_pulses:
  assumes "STA_Parser env slot d p = Some (True, q)" "rx_ok slot p" "pulses slot p = (n, u, v)"
  shows "rx_ok slot q \<and> pulses slot q =
    (if pulse d then (n + 1, 0, if n = 60 then GET_SATELLITE else v) else (0, u + 1, if u = 60 then LOSS_SATELLITE else v))"
proof -
  obtain len t where l: "strlen d = Some len" and t: "byte_at d (comma d (int len) 3) = Some t"
    and pst: "sta_pulse env slot d (int len) t p = Some (True, q)"
    using assms(1) by (auto simp: STA_Parser_def bind_eq_Some_conv Let_def split: if_splits)
  have pd: "(is_byte (CHR ''1'') t \<or> is_byte (CHR ''5'') t) = pulse d" using t l by (simp add: pulse_def is_byte_def)
  obtain ok s where s': "(if pulse d then pps_good env slot p else (True, pps_bad slot p)) = (ok, s)" by fastforce
  then have r: "sta_pulse env slot d (int len) t p = (if ok then sta_fields slot d (int len) t (pulse d) s else Some (False, s))"
    by (simp add: sta_pulse_def pd)
  then have ok using pst by (cases ok) simp_all
  then have s: "(if pulse d then pps_good env slot p else (True, pps_bad slot p)) = (True, s)" using s' by simp
  have q: "rx_ok slot q = rx_ok slot s" "rx_ok slot s \<Longrightarrow> pulses slot q = pulses slot s"
    using pst unfolding r by (auto simp: \<open>ok\<close> sta_fields_def bind_eq_Some_conv Let_def pulses_def)
  have "rx_ok slot s \<and> pulses slot s =
    (if pulse d then (n + 1, 0, if n = 60 then GET_SATELLITE else v) else (0, u + 1, if u = 60 then LOSS_SATELLITE else v))"
    using s pps_good_pulses[OF _ assms(2,3), of env s] pps_bad_pulses[OF assms(2,3)] by (auto split: if_splits)
  then show ?thesis using q by simp
qed

lemma run_of_Cons: "run_of b (c # bs) = (if c = b then run_of b bs + 1 else 0)"
  by (simp add: run_of_def)

lemma run_of_window: "n \<le> run_of b bs \<longleftrightarrow> n \<le> 0 \<or> nat n \<le> length bs \<and> (\<forall>x \<in> set (take (nat n) bs). x = b)"
proof -
  have "k \<le> length (takeWhile ((=) b) bs) \<longleftrightarrow> k \<le> length bs \<and> (\<forall>x \<in> set (take k bs). x = b)" for k
  proof (induction bs arbitrary: k)
    case (Cons c bs)
    then show ?case by (cases k) auto
  qed simp
  note w = this[of "nat n"]
  have "n \<le> run_of b bs \<longleftrightarrow> n \<le> 0 \<or> nat n \<le> length (takeWhile ((=) b) bs)"
    unfolding run_of_def by (metis nat_le_iff nat_le_0 order_refl le0 linear)
  then show ?thesis using w by blast
qed

lemma window_step: "window_valid v (b # bs) = (if run_of b bs \<ge> 60 then (if b then GET_SATELLITE else LOSS_SATELLITE) else window_valid v bs)"
proof -
  have "61 \<le> length (b # bs) \<and> (\<forall>x \<in> set (take 61 (b # bs)). x = b) \<longleftrightarrow> 61 \<le> run_of b (b # bs)"
    using run_of_window[of 61 b "b # bs"] by simp
  then show ?thesis by (simp add: run_of_Cons)
qed

lemma window_long: "run_of b bs \<ge> 61 \<Longrightarrow> window_valid v bs = (if b then GET_SATELLITE else LOSS_SATELLITE)"
proof (cases bs)
  case (Cons c cs)
  moreover assume "run_of b bs \<ge> 61"
  ultimately have "c = b" "run_of b cs \<ge> 60" by (auto simp: run_of_Cons split: if_splits)
  then show ?thesis using Cons by (simp add: window_step del: window_valid.simps)
qed (simp add: run_of_def)

lemma sta_run_pulses:
  "sta_run env slot ds p = Some q \<Longrightarrow> rx_ok slot p \<Longrightarrow>
   pulses slot p = (run_of True hs, run_of False hs, window_valid v hs) \<Longrightarrow>
   rx_ok slot q \<and> (let hs = rev (map pulse ds) @ hs in pulses slot q = (run_of True hs, run_of False hs, window_valid v hs))"
proof (induction ds arbitrary: p hs)
  case (Cons d ds)
  obtain r where r: "STA_Parser env slot d p = Some (True, r)" "sta_run env slot ds r = Some q"
    using Cons.prems(1) by (auto split: option.splits prod.splits bool.splits)
  have "rx_ok slot r \<and> pulses slot r =
    (run_of True (pulse d # hs), run_of False (pulse d # hs), window_valid v (pulse d # hs))"
    using STA_pulses[OF r(1) Cons.prems(2,3)] window_long[of True hs v] window_long[of False hs v]
    by (auto simp: run_of_Cons window_step simp del: window_valid.simps split: if_splits)
  then show ?case using Cons.IH[OF r(2), of "pulse d # hs"] by simp
qed (simp add: Let_def)

text \<open>C16: (refinement) Over any sequence of sentences of the state, the counters of the receiver implement a window: the receiver
  is valid when 61 sentences with the pulse came since the last 61 without it, lost in the other case, and as at the start when
  there were neither.\<close>

theorem receiver_valid_by_window:
  assumes "sta_run env slot ds p = Some q" "1 \<le> slot" "slot \<le> 4" "length (rxs p) = 4" "length (sats (sp p)) = 4"
    "pps_num (rx_at p slot) = 0" "pps_unused_num (rx_at p slot) = 0"
  shows "rx_valid q slot = window_valid (rx_valid p slot) (rev (map pulse ds))"
  using sta_run_pulses[OF assms(1), of "[]" "rx_valid p slot"] assms
  by (simp add: rx_ok_def pulses_def run_of_def Let_def)

lemma good_run_keeps:
  "sta_run env slot ds p = Some q \<Longrightarrow> rx_ok slot p \<Longrightarrow> pulses slot p = (n, u, v) \<Longrightarrow> 61 \<le> n \<Longrightarrow> list_all pulse ds \<Longrightarrow>
   rx_valid q slot = v"
proof (induction ds arbitrary: p n u)
  case (Cons d ds)
  obtain r where r: "STA_Parser env slot d p = Some (True, r)" "sta_run env slot ds r = Some q"
    using Cons.prems(1) by (auto split: option.splits prod.splits bool.splits)
  have "rx_ok slot r \<and> pulses slot r = (n + 1, 0, v)"
    using STA_pulses[OF r(1) Cons.prems(2,3)] Cons.prems(4,5) by simp
  then show ?case using Cons.IH[OF r(2)] Cons.prems(4,5) by simp
qed (simp add: pulses_def)

text \<open>C38: (error) One empty block of the buffer makes a receiver lost. When the receiver has told its pulse for more than 60
  sentences, \<open>61 \<le> pps_num\<close>, no number of further sentences with the pulse makes it valid again, since the counter is compared
  with 60 alone and an empty block does not reset it. (With a count of 60 or less the receiver becomes valid
  again when the count passes 60.)\<close>

theorem empty_block_loses_receiver:
  assumes "block_text buf i = Some b" "hd b = 0" "sat_blocks env slot buf [i] p = Some p1"
    "1 \<le> slot" "slot \<le> 4" "length (rxs p) = 4" "length (sats (sp p)) = 4" "61 \<le> pps_num (rx_at p slot)"
    "sta_run env slot ds p1 = Some q" "list_all pulse ds"
  shows "rx_valid q slot = LOSS_SATELLITE"
proof -
  have ok: "rx_ok slot p" using assms by (simp add: rx_ok_def)
  have "\<not> starts (c # t) b" if "c \<noteq> CHR 0x00" for c t
    using that assms(2) char_byte_special(1)[of c] by (cases b) (auto simp: starts_def text_bytes_def)
  then have "p1 = upd_sat slot (\<lambda>x. x\<lparr>satellite_valid := LOSS_SATELLITE\<rparr>) p"
    using assms(1-3) by (simp add: parse_sentence_def any_system_def)
  then have "rx_ok slot p1" "pulses slot p1 = (pps_num (rx_at p slot), pps_unused_num (rx_at p slot), LOSS_SATELLITE)"
    using ok by (simp_all add: pulses_def)
  then show ?thesis using good_run_keeps[OF assms(9) _ _ assms(8,10)] by blast
qed


section \<open>Fields\<close>

definition fields_text :: "string list \<Rightarrow> string" where
  "fields_text fs = concat (map (\<lambda>f. CHR '','' # f) fs)"

definition places :: "'a \<Rightarrow> 'a list \<Rightarrow> nat list" where
  "places c xs = filter (\<lambda>i. xs ! i = c) [0..<length xs]"

lemma upt_shift: "[0..<m + n] = [0..<m] @ map ((+) m) [0..<n]"
  by (induction n) simp_all

lemma places_append: "places c (xs @ ys) = places c xs @ map ((+) (length xs)) (places c ys)"
proof -
  have "[0..<length (xs @ ys)] = [0..<length xs] @ map ((+) (length xs)) [0..<length ys]"
    using upt_shift by simp
  moreover have "filter (\<lambda>i. (xs @ ys) ! i = c) [0..<length xs] = places c xs"
    unfolding places_def by (rule filter_cong) (auto simp: nth_append)
  moreover have "filter (\<lambda>i. (xs @ ys) ! i = c) (map ((+) (length xs)) [0..<length ys]) = map ((+) (length xs)) (places c ys)"
    by (simp add: filter_map comp_def places_def)
  ultimately show ?thesis by (simp add: places_def)
qed

lemma places_none: "c \<notin> set xs \<Longrightarrow> places c xs = []"
  by (auto simp: places_def filter_empty_conv)

lemma places_first: "c \<notin> set xs \<Longrightarrow> places c (c # xs) = [0]"
  using places_append[of c "[c]" xs] places_none[of c xs] by (simp add: places_def)

definition field_start :: "string list \<Rightarrow> nat \<Rightarrow> nat" where
  "field_start fs k = length (fields_text (take k fs))"

lemma fields_simps: "fields_text [] = []" "fields_text (f # fs) = (CHR '','' # f) @ fields_text fs"
  by (simp_all add: fields_text_def)

lemma field_start_simps: "field_start fs 0 = 0" "field_start (f # fs) (Suc k) = Suc (length f) + field_start fs k"
  by (simp_all add: field_start_def fields_simps)

lemma places_fields: "list_all (\<lambda>f. CHR '','' \<notin> set f) fs \<Longrightarrow>
  places (CHR '','') (fields_text fs) = map (field_start fs) [0..<length fs]"
proof (induction fs)
  case (Cons f fs)
  have "[0..<length (f # fs)] = 0 # map Suc [0..<length fs]" by (simp add: upt_conv_Cons map_Suc_upt del: upt_Suc)
  moreover have "places (CHR '','') (fields_text (f # fs)) = 0 # map ((+) (Suc (length f))) (places (CHR '','') (fields_text fs))"
    unfolding fields_simps places_append using places_first[of "CHR '',''" f] Cons.prems by simp
  ultimately show ?case using Cons by (simp add: field_start_simps comp_def del: upt_Suc)
qed (simp add: fields_simps places_def)

lemma fields_split:
  assumes "k < length fs"
  shows "fields_text fs = fields_text (take k fs) @ CHR '','' # fs ! k @ fields_text (drop (Suc k) fs)"
  using assms by (metis (no_types, lifting) append_Cons append_assoc concat_append fields_simps(2) fields_text_def id_take_nth_drop map_append)

text \<open>A buffer with fields: the places behind the commas, and the characters of each field.\<close>

lemma upto_map_int: "[0..int n - 1] = map int [0..<n]"
  by (rule nth_equalityI) simp_all

lemma commas_fields:
  assumes fs: "list_all (\<lambda>f. CHR '','' \<notin> set f) fs" "CHR '','' \<notin> set pre" "CHR '','' \<notin> set post"
    and d: "data = text_bytes (pre @ fields_text fs @ post) @ x @ y" "char_byte (CHR '','') \<notin> set x"
    and len: "len = int (length (pre @ fields_text fs @ post) + length x)"
  shows "commas data len = map (\<lambda>k. int (length pre + field_start fs k) + 1) [0..<length fs]"
proof -
  let ?t = "pre @ fields_text fs @ post" and ?c = "char_byte (CHR '','')"
  have inj: "places ?c (text_bytes u) = places (CHR '','') u" for u
    unfolding places_def by (rule filter_cong) (auto simp: text_bytes_def, metis char_byte_char)
  have "places ?c (text_bytes ?t @ x) = map ((+) (length pre)) (places (CHR '','') (fields_text fs))"
  proof -
    have "places ?c (text_bytes ?t @ x) = places (CHR '','') ?t"
      unfolding places_append[of ?c "text_bytes ?t"] inj using places_none[OF d(2)] by simp
    also have "\<dots> = map ((+) (length pre)) (places (CHR '','') (fields_text fs))"
      using places_none[OF fs(2)] places_none[OF fs(3)] by (simp add: places_append)
    finally show ?thesis .
  qed
  then have p: "places ?c (text_bytes ?t @ x) = map (\<lambda>k. length pre + field_start fs k) [0..<length fs]"
    by (simp add: places_fields[OF fs(1)] comp_def)
  have n: "nat len = length (text_bytes ?t @ x)" "len = int (length (text_bytes ?t @ x))" using len by (simp_all add: text_bytes_def)
  have at: "byte_at data (int i) = Some (of_char (CHR '','')) \<longleftrightarrow> (text_bytes ?t @ x) ! i = ?c" if "i < length (text_bytes ?t @ x)" for i
  proof -
    have "byte_at data (int i) = Some (uint ((text_bytes ?t @ x) ! i))"
    proof -
      have dd: "data = (text_bytes ?t @ x) @ y" by (simp add: d(1))
      show ?thesis using that unfolding dd byte_at_def arr_def nth_append[of "text_bytes ?t @ x" y] by simp
    qed
    then show ?thesis by (metis option.inject uint_char_byte word_uint_eq_iff)
  qed
  let ?n = "length (text_bytes ?t @ x)"
  have "commas data len = map (\<lambda>i. int i + 1) (filter (\<lambda>i. byte_at data (int i) = Some (of_char (CHR '',''))) [0..<?n])"
    unfolding commas_def n(2) upto_map_int by (simp add: filter_map comp_def)
  also have "\<dots> = map (\<lambda>i. int i + 1) (places ?c (text_bytes ?t @ x))"
    unfolding places_def by (rule arg_cong[where f = "map _"], rule filter_cong) (use at in auto)
  finally show ?thesis by (simp add: p comp_def)
qed

definition fields_in :: "bytes \<Rightarrow> int \<Rightarrow> string list \<Rightarrow> bool" where
  "fields_in data len fs \<longleftrightarrow> (\<forall>k.
     (k < length fs \<longrightarrow> 0 < comma data len k \<and>
        (\<forall>j < length (fs ! k). byte_at data (comma data len k + int j) = Some (of_char (fs ! k ! j)))) \<and>
     (length fs \<le> k \<longrightarrow> comma data len k = 0))"

lemma byte_at_mid: "j < length m \<Longrightarrow> byte_at (a @ m @ b) (int (length a + j)) = Some (uint (m ! j))"
  by (simp add: byte_at_def arr_def nth_append del: of_nat_add)

lemma fields_read:
  assumes "list_all (\<lambda>f. CHR '','' \<notin> set f) fs" "CHR '','' \<notin> set pre" "CHR '','' \<notin> set post"
    and "data = text_bytes (pre @ fields_text fs @ post) @ x @ y" "char_byte (CHR '','') \<notin> set x"
    and "len = int (length (pre @ fields_text fs @ post) + length x)"
  shows "fields_in data len fs"
  unfolding fields_in_def
proof (intro allI conjI impI)
  fix k
  note c = commas_fields[OF assms]
  show "comma data len k = 0" if "length fs \<le> k" using that by (simp add: comma_def c Let_def)
  assume k: "k < length fs"
  then have ck: "comma data len k = int (length pre + field_start fs k) + 1" by (simp add: comma_def c Let_def)
  then show "0 < comma data len k" by simp
  fix j assume j: "j < length (fs ! k)"
  let ?a = "pre @ fields_text (take k fs) @ [CHR '','']" and ?b = "fields_text (drop (Suc k) fs) @ post"
  have d: "data = map char_byte ?a @ map char_byte (fs ! k) @ (map char_byte ?b @ x @ y)"
    using fields_split[OF k] by (simp add: assms(4) text_bytes_def)
  have "comma data len k + int j = int (length (map char_byte ?a) + j)" by (simp add: ck field_start_def)
  moreover have "byte_at data (int (length (map char_byte ?a) + j)) = Some (uint (char_byte (fs ! k ! j)))"
    unfolding d using byte_at_mid[of j "map char_byte (fs ! k)" "map char_byte ?a"] j by simp
  ultimately show "byte_at data (comma data len k + int j) = Some (of_char (fs ! k ! j))"
    by (simp only: uint_char_byte)
qed

definition digit_of :: "int \<Rightarrow> char" where
  "digit_of k = char_of (nat (0x30 + k))"

definition two :: "int \<Rightarrow> string" where
  "two n = [digit_of (n div 10), digit_of (n mod 10)]"

lemma digit_of_value: "0 \<le> k \<Longrightarrow> k < 10 \<Longrightarrow> (of_char (digit_of k) :: int) = 0x30 + k"
proof -
  assume k: "0 \<le> k" "k < 10"
  then have "(of_char (digit_of k) :: nat) = nat (0x30 + k)" by (simp add: digit_of_def of_char_of)
  then show ?thesis using k by (metis add_nonneg_nonneg int_nat_eq of_nat_of_char zero_le_numeral)
qed

lemma fields_two:
  assumes "fields_in data len fs" "k < length fs" "fs ! k = two n" "0 \<le> n" "n < 100"
  shows "digits_at data (comma data len k) 2 0 = Some n" "\<not> is_byte (CHR '','') (of_char (fs ! k ! 0))"
    "byte_at data (comma data len k) = Some (of_char (fs ! k ! 0))"
proof -
  have n: "0 \<le> n div 10" "n div 10 < 10" "0 \<le> n mod 10" "n mod 10 < 10" using assms(4,5) by auto
  have b: "byte_at data (comma data len k + int j) = Some (of_char (two n ! j))" if "j < 2" for j
    using assms(1-3) that unfolding fields_in_def by (simp add: two_def)
  have "byte_at data (comma data len k) = Some (0x30 + n div 10)" "byte_at data (comma data len k + 1) = Some (0x30 + n mod 10)"
    using b[of 0] b[of 1] digit_of_value n by (simp_all add: two_def)
  then show "digits_at data (comma data len k) 2 0 = Some n" by (simp add: numeral_2_eq_2)
  show "byte_at data (comma data len k) = Some (of_char (fs ! k ! 0))" using b[of 0] assms(3) by simp
  show "\<not> is_byte (CHR '','') (of_char (fs ! k ! 0))" using digit_of_value[of "n div 10"] n assms(3) by (simp add: two_def is_byte_def)
qed

section \<open>The satellites of a sentence\<close>

text \<open>A satellite with its elevation and its azimuth, which are not kept.\<close>

type_synonym viewed = "int \<times> string \<times> string \<times> int"

definition star_fields :: "viewed \<Rightarrow> string list" where
  "star_fields = (\<lambda>(n, el, az, snr). [two n, el, az, two snr])"

definition star_of :: "viewed \<Rightarrow> starinfo" where
  "star_of = (\<lambda>(n, _, _, snr). \<lparr>star_id = n, star_snr = snr\<rparr>)"

definition clean :: "string \<Rightarrow> bool" where
  "clean f \<longleftrightarrow> list_all (\<lambda>c. c \<notin> {CHR '','', CHR 0x00, CHR 0x0D}) f"

definition viewed_ok :: "viewed \<Rightarrow> bool" where
  "viewed_ok = (\<lambda>(n, el, az, snr). 0 \<le> n \<and> n < 100 \<and> 0 \<le> snr \<and> snr < 100 \<and>
     clean el \<and> clean az)"

definition gsv_fields :: "int \<Rightarrow> int \<Rightarrow> int \<Rightarrow> viewed list \<Rightarrow> string list" where
  "gsv_fields np page n vs = [[digit_of np], [digit_of page], two n] @ concat (map star_fields vs)"

lemma star_fields_nth: "k < length vs \<Longrightarrow> j < 4 \<Longrightarrow> concat (map star_fields vs) ! (4 * k + j) = star_fields (vs ! k) ! j"
proof (induction vs arbitrary: k)
  case (Cons v vs)
  have l: "length (star_fields v) = 4" by (simp add: star_fields_def split: prod.split)
  show ?case
  proof (cases k)
    case (Suc i)
    then have "4 * k + j - length (star_fields v) = 4 * i + j" "\<not> 4 * k + j < length (star_fields v)" by (simp_all add: l)
    then show ?thesis using Cons Suc by (simp add: nth_append)
  qed (use Cons.prems l in \<open>simp add: nth_append\<close>)
qed simp

lemma star_fields_length: "length (concat (map star_fields vs)) = 4 * length vs"
  by (induction vs) (auto simp: star_fields_def split: prod.split)

lemma gsv_nth: "k < length vs \<Longrightarrow> j < 4 \<Longrightarrow> gsv_fields np page n vs ! (3 + 4 * k + j) = star_fields (vs ! k) ! j"
  using star_fields_nth[of k vs j] by (simp add: gsv_fields_def nth_append)

lemma gsv_length: "length (gsv_fields np page n vs) = 3 + 4 * length vs"
  by (simp add: gsv_fields_def star_fields_length)

lemma put_star_field:
  assumes f: "fields_in data len (gsv_fields np page n vs)" and v: "list_all viewed_ok vs" and k: "k < length vs"
    and i: "0 \<le> pg" "4 * pg + int k < int (length xs)"
  shows "put_star data len pg k xs = Some (xs[nat (4 * pg + int k) := star_of (vs ! k)])"
proof -
  obtain m el az snr where s: "vs ! k = (m, el, az, snr)" by (metis prod_cases4)
  then have ok: "0 \<le> m" "m < 100" "0 \<le> snr" "snr < 100" using v k by (auto simp: list_all_length viewed_ok_def)
  let ?fs = "gsv_fields np page n vs"
  have l: "3 + 4 * k < length ?fs" "6 + 4 * k < length ?fs" using k by (simp_all add: gsv_length)
  have a: "?fs ! (3 + 4 * k) = two m" using gsv_nth[OF k, of 0 np page n] by (simp add: s star_fields_def)
  have b: "?fs ! (6 + 4 * k) = two snr" using gsv_nth[OF k, of 3 np page n] by (simp add: s star_fields_def)
  have "comma data len (3 + 4 * k) > 0" "comma data len (6 + 4 * k) > 0" using f l unfolding fields_in_def by blast+
  moreover have "u8 m = m" "u8 snr = snr" using ok by (simp_all add: u8_def)
  ultimately show ?thesis
    using fields_two[OF f l(1) a ok(1,2)] fields_two[OF f l(2) b ok(3,4)] i
    by (simp add: put_star_def Let_def star_snr_at_def arr_def star_of_def s)
qed

lemma put_star_none: "fields_in data len (gsv_fields np page n vs) \<Longrightarrow> length vs \<le> k \<Longrightarrow> put_star data len pg k xs = Some xs"
  by (simp add: put_star_def fields_in_def gsv_length Let_def)

definition fill_star :: "viewed list \<Rightarrow> nat \<Rightarrow> nat \<Rightarrow> starinfo list \<Rightarrow> starinfo list" where
  "fill_star vs pg k xs = (if k < length vs then xs[4 * pg + k := star_of (vs ! k)] else xs)"

lemma fill_star_length [simp]: "length (fill_star vs pg k xs) = length xs"
  by (simp add: fill_star_def)

lemma fill_star_nth: "4 * pg + j < length xs \<Longrightarrow>
  fill_star vs pg k xs ! (4 * pg + j) = (if j = k \<and> k < length vs then star_of (vs ! k) else xs ! (4 * pg + j))"
  by (simp add: fill_star_def nth_list_update)

lemma page_stars_exact:
  assumes f: "fields_in data len (gsv_fields np page n vs)" and v: "list_all viewed_ok vs" "length vs \<le> 4" and pg: "pg < 6"
  shows "\<exists>xs. page_stars data len (int pg) = Some xs \<and> length xs = 24 \<and>
    take 4 (drop (4 * pg) xs) = map star_of vs @ replicate (4 - length vs) starinfo_0"
proof -
  have step: "put_star data len (int pg) k xs = Some (fill_star vs pg k xs)" if "k < 4" "length xs = 24" for k xs
  proof (cases "k < length vs")
    case True
    have "4 * int pg + int k < int (length xs)" "nat (4 * int pg + int k) = 4 * pg + k" using that pg by simp_all
    then show ?thesis using put_star_field[OF f v(1) True, of "int pg" xs] True by (simp add: fill_star_def)
  next
    case False
    then show ?thesis using put_star_none[OF f, of k] by (simp add: fill_star_def)
  qed
  let ?xs = "fill_star vs pg 3 (fill_star vs pg 2 (fill_star vs pg 1 (fill_star vs pg 0 (replicate MAX_GPS_STAR starinfo_0))))"
  have "page_stars data len (int pg) = Some ?xs"
    by (simp add: page_stars_def step MAX_GPS_STAR_def)
  moreover have l: "length ?xs = 24" by (simp add: MAX_GPS_STAR_def)
  moreover have "take 4 (drop (4 * pg) ?xs) = map star_of vs @ replicate (4 - length vs) starinfo_0"
  proof (rule nth_equalityI)
    show "length (take 4 (drop (4 * pg) ?xs)) = length (map star_of vs @ replicate (4 - length vs) starinfo_0)"
      using v(2) pg by (simp add: MAX_GPS_STAR_def)
    fix j assume "j < length (take 4 (drop (4 * pg) ?xs))"
    then have j: "j < 4" "4 * pg + j < 24" using pg by simp_all
    have e: "?xs ! (4 * pg + j) = (if j < length vs then star_of (vs ! j) else starinfo_0)"
    proof -
      have "j = 0 \<or> j = 1 \<or> j = 2 \<or> j = 3" using j(1) by linarith
      then show ?thesis using j(2) by (auto simp: fill_star_nth MAX_GPS_STAR_def)
    qed
    have "take 4 (drop (4 * pg) ?xs) ! j = ?xs ! (4 * pg + j)" using j l by (simp del: fill_star_length)
    then show "take 4 (drop (4 * pg) ?xs) ! j = (map star_of vs @ replicate (4 - length vs) starinfo_0) ! j"
      unfolding e using j by (simp add: nth_append)
  qed
  ultimately show ?thesis by blast
qed

text \<open>The buffer that \<open>ReadSatellite\<close> gets of a sentence with these fields.\<close>

definition gsv_text :: "int \<Rightarrow> int \<Rightarrow> int \<Rightarrow> viewed list \<Rightarrow> string" where
  "gsv_text np page n vs = ''$GPGSV'' @ fields_text (gsv_fields np page n vs) @ ''*''"

lemma gsv_fields_chars:
  assumes "list_all viewed_ok vs" "0 \<le> np" "np < 10" "0 \<le> page" "page < 10" "0 \<le> n" "n < 100"
  shows "list_all clean (gsv_fields np page n vs)"
proof -
  have d: "digit_of k \<notin> {CHR '','', CHR 0x00, CHR 0x0D}" if "0 \<le> k" "k < 10" for k
  proof -
    have "(of_char (digit_of k) :: int) \<noteq> of_char (CHR '','') \<and> (of_char (digit_of k) :: int) \<noteq> of_char (CHR 0x00) \<and>
      (of_char (digit_of k) :: int) \<noteq> of_char (CHR 0x0D)" using digit_of_value[OF that] that by simp
    then show ?thesis by auto
  qed
  have t: "clean (two m)" if "0 \<le> m" "m < 100" for m
    using d[of "m div 10"] d[of "m mod 10"] that by (simp add: two_def clean_def)
  have "list_all clean (star_fields v)" if "viewed_ok v" for v
    using t that by (cases v) (simp add: star_fields_def viewed_ok_def)
  then have "list_all clean (concat (map star_fields vs))"
    using assms(1) by (induction vs) simp_all
  then show ?thesis using d[of np] d[of page] t[of n] assms by (simp add: gsv_fields_def clean_def)
qed

lemma text_bytes_inj: "text_bytes s = text_bytes t \<longleftrightarrow> s = t"
proof -
  have "map byte_char (text_bytes u) = u" for u by (simp add: text_bytes_def comp_def char_byte_char)
  then show ?thesis by metis
qed

lemma fields_text_chars: "list_all clean fs \<Longrightarrow> CHR 0x00 \<notin> set (fields_text fs) \<and> CHR 0x0D \<notin> set (fields_text fs)"
  by (induction fs) (auto simp: fields_simps clean_def list_all_iff)

text \<open>C15: (roundtrip) A sentence of the satellites in view, with up to four of them on one of the six pages, is found in its block
  and read back: with a valid receiver the number and the four places of its page are exactly those of the sentence, the other
  pages stay, and the state has its bit exactly with more than four satellites.\<close>

theorem satellites_read_back:
  assumes "list_all viewed_ok vs" "length vs \<le> 4" "0 \<le> np" "np < 10" "1 \<le> page" "page \<le> 6" "1 \<le> n" "n < 100"
    "length (gsv_text np page n vs) + 4 \<le> 128" "rx_ok slot p" "rx_valid p slot = GET_SATELLITE" "length (vGps (rx_at p slot)) = 24"
  shows "\<exists>d q. block_text (replicate 128 0 @ sentence (gsv_text np page n vs) @ rest) 128 = Some d \<and>
    parse_sentence env slot d p = Some q \<and>
    nGps (rx_at q slot) = n \<and>
    vGps (rx_at q slot) = take (nat (4 * (page - 1))) (vGps (rx_at p slot))
      @ map star_of vs @ replicate (4 - length vs) starinfo_0 @ drop (nat (4 * page)) (vGps (rx_at p slot)) \<and>
    satellite_state (sat_at (sp q) slot) =
      (if n > 4 then satellite_state (sat_at (sp p) slot) OR 1 else satellite_state (sat_at (sp p) slot) AND NOT 1)"
proof -
  let ?t = "gsv_text np page n vs" and ?fs = "gsv_fields np page n vs"
  have pg: "0 \<le> page" "page < 10" "0 \<le> n" using assms by auto
  note cl = gsv_fields_chars[OF assms(1,3,4) pg assms(8)]
  have nc: "list_all (\<lambda>f. CHR '','' \<notin> set f) ?fs" using cl by (auto simp: list_all_iff clean_def)
  have "CHR 0x00 \<notin> set ?t" "CHR 0x0D \<notin> set ?t" using fields_text_chars[OF cl] by (simp_all add: gsv_text_def)
  moreover have "2 \<le> length ?t" "hd ?t = CHR ''$''" "last ?t = CHR ''*''" by (simp_all add: gsv_text_def)
  ultimately obtain d x where d: "block_text (replicate 128 0 @ sentence ?t @ rest) 128 = Some d"
    "strlen d = Some (length ?t + 2)" "check_sum d (int (length ?t + 2)) = Some True"
    "d = text_bytes ?t @ x @ replicate (126 - length ?t) 0" "length x = 2" "char_byte (CHR '','') \<notin> set x"
    using sentence_buffer[OF assms(9), of rest] by blast
  let ?len = "int (length ?t + 2)"
  have f: "fields_in d ?len ?fs"
  proof (rule fields_read[OF nc])
    show "d = text_bytes (''$GPGSV'' @ fields_text ?fs @ ''*'') @ x @ replicate (126 - length ?t) 0"
      using d(4) by (simp add: gsv_text_def)
    show "?len = int (length (''$GPGSV'' @ fields_text ?fs @ ''*'') + length x)" using d(5) by (simp add: gsv_text_def)
  qed (use d(6) in simp_all)
  have s: "any_system ''GGA'' d = False" "any_system ''STA'' d = False" "starts ''$GPGSV'' d"
  proof -
    have "take 6 d = text_bytes ''$GPGSV''" unfolding d(4) gsv_text_def by (simp add: text_bytes_def)
    then have "starts t d = (''$GPGSV'' = t)" if "length t = 6" for t
      using that text_bytes_inj[of "''$GPGSV''" t] by (simp add: starts_def)
    then show "any_system ''GGA'' d = False" "any_system ''STA'' d = False" "starts ''$GPGSV'' d"
      by (simp_all add: any_system_def)
  qed
  have n: "digits_at d (comma d ?len 2) 2 0 = Some n"
    using fields_two(1)[OF f, of 2 n] pg assms(8) by (simp add: gsv_fields_def)
  have "byte_at d (comma d ?len 1) = Some (of_char (digit_of page))"
  proof -
    have "1 < length ?fs" "?fs ! 1 = [digit_of page]" by (simp_all add: gsv_fields_def)
    then have "\<forall>j < 1. byte_at d (comma d ?len 1 + int j) = Some (of_char ([digit_of page] ! j))"
      using f unfolding fields_in_def by (metis length_Cons list.size(3) One_nat_def)
    then show ?thesis by simp
  qed
  then have b: "byte_at d (comma d ?len 1) = Some (0x30 + page)" using digit_of_value pg by simp
  have "page = int (nat (page - 1)) + 1" "nat (page - 1) < 6" using assms(5,6) by simp_all
  then obtain pn where pn: "page = int pn + 1" "pn < 6" by blast
  obtain xs where xs: "page_stars d ?len (int pn) = Some xs" "length xs = 24"
    "take 4 (drop (4 * pn) xs) = map star_of vs @ replicate (4 - length vs) starinfo_0"
    using page_stars_exact[OF f assms(1,2) pn(2)] by blast
  have u: "u8 (0x30 + page - 0x30 - 1) = int pn" "u8 n = n" "n \<noteq> 0" using pn assms(7,8) by (simp_all add: u8_def)
  have "gsv_stars d ?len GET_SATELLITE (vGps (rx_at p slot)) = Some (n, take (4 * pn) (vGps (rx_at p slot))
    @ take 4 (drop (4 * pn) xs) @ drop (4 * pn + 4) (vGps (rx_at p slot)))"
    unfolding gsv_stars_def n b using u xs(1,2) assms(12) pn by (simp add: copy_page_def nat_add_distrib nat_mult_distrib)
  then have st: "gsv_stars d ?len (rx_valid p slot) (vGps (rx_at p slot)) = Some (n, take (nat (4 * (page - 1))) (vGps (rx_at p slot))
      @ map star_of vs @ replicate (4 - length vs) starinfo_0 @ drop (nat (4 * page)) (vGps (rx_at p slot)))"
    (is "_ = Some (n, ?vs)")
    using xs(3) pn(1) assms(11) by (simp add: nat_add_distrib nat_mult_distrib)
  let ?q = "upd_rx slot (\<lambda>r. r\<lparr>trackMode := CHR ''G'', nGps := n, vGps := ?vs\<rparr>) (upd_sat slot (state_bit 0 n) p)"
  have "GSV_Parser slot d p = Some (True, ?q)"
    using st d(2,3) assms(10) by (simp add: GSV_Parser_def INPUT_SLOT_CURSOR_ARRAY_SIZE_def rx_ok_def)
  then have "parse_sentence env slot d p = Some ?q" by (simp add: parse_sentence_def s)
  moreover have "satellite_state (sat_at (sp ?q) slot) =
      (if n > 4 then satellite_state (sat_at (sp p) slot) OR 1 else satellite_state (sat_at (sp p) slot) AND NOT 1)"
    using assms(10,11) by (simp add: sat_upd state_bit_def rx_valid_def BIT_def)
  ultimately show ?thesis using d(1) assms(10) by auto
qed

text \<open>(error) The number of the page is not checked: with a page behind the sixth, or with the page 0, a sentence of a valid
  receiver with at least one satellite leaves the arrays.\<close>

theorem page_leaves_arrays:
  assumes "strlen data = Some len" "check_sum data (int len) = Some True" "digits_at data (comma data (int len) 2) 2 0 = Some n"
    "u8 n \<noteq> 0" "byte_at data (comma data (int len) 1) = Some c" "6 \<le> u8 (c - 0x31)" "rx_valid p slot = GET_SATELLITE" "slot \<le> 4"
  shows "GSV_Parser slot data p = None \<and> BSV_Parser slot data p = None"
proof -
  have none: "copy_page (u8 (c - 0x31)) vs old = None" if "length vs = 24" for vs old
    using assms(6) that by (simp add: copy_page_def)
  have l: "length vs' = length vs" if "put_star data (int len) pg k vs = Some vs'" for pg k vs vs'
    using that by (auto simp: put_star_def Let_def bind_eq_Some_conv split: if_splits)
  have "length vs = 24" if "page_stars data (int len) (u8 (c - 0x31)) = Some vs" for vs
    using that l by (fastforce simp: page_stars_def bind_eq_Some_conv MAX_GPS_STAR_def)
  then have "gsv_stars data (int len) GET_SATELLITE old = None" for old
    using none assms(3-5) by (cases "page_stars data (int len) (u8 (c - 0x31))") (simp_all add: gsv_stars_def)
  then show ?thesis using assms(1,2,7,8) by (simp add: GSV_Parser_def BSV_Parser_def INPUT_SLOT_CURSOR_ARRAY_SIZE_def)
qed

section \<open>Examples\<close>

definition demo_rx :: satrx where
  "demo_rx = \<lparr>rx_lat = replicate 12 0, rx_lon = replicate 13 0, rx_elev = replicate 8 0, rx_sysMode = 0, rx_gbs = 0,
     rx_rcvrVer = replicate 7 0, rx_rcvrType = replicate 6 0, elevThd = 5, fdrStatus = 0, trackMode = CHR ''G'', workMode = 0,
     rx_utc = replicate 20 0, nGps = 0, vGps = replicate 24 starinfo_0, nBd = 0, vBd = replicate 24 starinfo_0,
     rx_fresh = False, pps_num = 0, pps_unused_num = 0, lps_valid = False\<rparr>"

definition demo_sats :: satProc where
  "demo_sats = \<lparr>sp = demo_proc 1, rxs = replicate 4 demo_rx\<rparr>"

definition demo_sta :: bytes where
  "demo_sta = [0x24, 0x47, 0x50, 0x53, 0x54, 0x41, 0x2C, 0x2C, 0x2C, 0x2C, 0x31, 0x2C, 0x33, 0x2C, 0x2C, 0x2C, 0x2C, 0x2C, 0x2C, 0x32, 0x2C, 0x30, 0x38, 0x2C, 0x2A, 0x34, 0x35, 0]"

definition demo_gsv :: bytes where
  "demo_gsv = [0x24, 0x47, 0x50, 0x47, 0x53, 0x56, 0x2C, 0x31, 0x2C, 0x37, 0x2C, 0x30, 0x35, 0x2A, 0x37, 0x41, 0]"

lemma demo_ok: "rx_ok 1 demo_sats" "rx_valid demo_sats 1 = GET_SATELLITE" "rx_at demo_sats 1 = demo_rx"
  by (simp_all add: rx_ok_def demo_sats_def demo_proc_def rx_valid_def sat_at_def demo_sat_def GET_SATELLITE_def rx_at_def)

theorem wrong_byte_refused_witness:
  "RMC_Parser 1 [0x24, 0x42, 0x2A, 0x34, 0x31, 0] demo_sats = Some (False, demo_sats)"
proof -
  have "strlen [0x24, 0x41, 0x2A, 0x34, 0x31, 0] = Some 5" by (simp add: strlen_iff nth_Cons' less_Suc_eq)
  moreover have "check_sum [0x24, 0x41, 0x2A, 0x34, 0x31, 0] (int 5) = Some True"
    by (simp add: check_sum_def byte_at_def arr_def data_xor_def u8_def hex_nibble_def)
  ultimately show ?thesis
    using wrong_byte_refused[of "[0x24, 0x41, 0x2A, 0x34, 0x31, 0]" 5 1 "0x42" 1 demo_sats demo_inenv] by simp
qed

theorem sent_sentence_accepted_witness:
  "\<exists>d. block_text (replicate 128 0 @ sentence ''$CFG-CFG*'') 128 = Some d \<and> check_sum d 11 = Some True"
  using sent_sentence_accepted[of "''$CFG-CFG*''" "[]"] by fastforce

theorem receiver_valid_by_window_witness:
  "\<exists>q. sta_run demo_inenv 1 [demo_sta] demo_sats = Some q \<and> rx_valid q 1 = GET_SATELLITE"
proof -
  have "map_option fst (STA_Parser demo_inenv 1 demo_sta demo_sats) = Some True" by code_simp
  then obtain q where q: "sta_run demo_inenv 1 [demo_sta] demo_sats = Some q" by auto
  then have "rx_valid q 1 = window_valid (rx_valid demo_sats 1) (rev (map pulse [demo_sta]))"
    by (rule receiver_valid_by_window) (use demo_ok in \<open>simp_all add: rx_ok_def demo_rx_def\<close>)
  then show ?thesis using q demo_ok by simp
qed

theorem empty_block_loses_receiver_witness:
  "\<exists>p q. sat_blocks demo_inenv 1 [0, 0x0D] [0] (upd_rx 1 (\<lambda>r. r\<lparr>pps_num := 61\<rparr>) demo_sats) = Some p
     \<and> sta_run demo_inenv 1 [demo_sta, demo_sta] p = Some q \<and> rx_valid q 1 = LOSS_SATELLITE"
proof -
  let ?p = "upd_rx 1 (\<lambda>r. r\<lparr>pps_num := 61\<rparr>) demo_sats"
  let ?p1 = "upd_sat 1 (\<lambda>x. x\<lparr>satellite_valid := LOSS_SATELLITE\<rparr>) ?p"
  have b: "block_text [0, 0x0D] 0 = Some (replicate 128 0)"
  proof -
    have "byte_char 0x0D = CHR 0x0D" by (simp add: byte_char_def char_of_eq_iff)
    then show ?thesis by (simp add: block_text_def byte_at_def arr_def is_byte_def strlen_r_def Let_def)
  qed
  have "\<not> starts (c # t) (replicate 128 0)" if "c \<noteq> CHR 0x00" for c t
    using that char_byte_special(1)[of c] by (simp add: starts_def text_bytes_def numeral_eq_Suc)
  then have p1: "sat_blocks demo_inenv 1 [0, 0x0D] [0] ?p = Some ?p1"
    using b by (simp add: parse_sentence_def any_system_def)
  have "(case STA_Parser demo_inenv 1 demo_sta ?p1 of Some (True, r) \<Rightarrow>
      map_option fst (STA_Parser demo_inenv 1 demo_sta r) | _ \<Rightarrow> None) = Some True" by code_simp
  then obtain q where q: "sta_run demo_inenv 1 [demo_sta, demo_sta] ?p1 = Some q"
    by (auto split: option.splits prod.splits bool.splits)
  have "pulse demo_sta" by code_simp
  then have "rx_valid q 1 = LOSS_SATELLITE"
    using empty_block_loses_receiver[OF b _ p1 _ _ _ _ _ q] demo_ok rx_upd(1)[of 1 "\<lambda>r. r\<lparr>pps_num := 61\<rparr>" demo_sats]
    by (simp add: rx_ok_def)
  then show ?thesis using p1 q by blast
qed

theorem satellites_read_back_witness:
  "\<exists>d q. block_text (replicate 128 0 @ sentence (gsv_text 1 1 1 [(5, ''40'', ''123'', 38)])) 128 = Some d \<and>
    parse_sentence demo_inenv 1 d demo_sats = Some q \<and> nGps (rx_at q 1) = 1"
proof -
  have "list_all viewed_ok [(5, ''40'', ''123'', 38)]" by (simp add: viewed_ok_def clean_def)
  moreover have "length (gsv_text 1 1 1 [(5, ''40'', ''123'', 38)]) + 4 \<le> 128"
    by (simp add: gsv_text_def gsv_fields_def fields_text_def star_fields_def two_def)
  moreover have "length (vGps (rx_at demo_sats 1)) = 24" by (simp add: demo_ok demo_rx_def)
  ultimately show ?thesis
    using satellites_read_back[of "[(5, ''40'', ''123'', 38)]" 1 1 1 1 demo_sats "[]" demo_inenv] demo_ok by auto
qed

theorem page_leaves_arrays_witness: "GSV_Parser 1 demo_gsv demo_sats = None"
proof -
  have "strlen demo_gsv = Some 16 \<and> check_sum demo_gsv (int 16) = Some True \<and> digits_at demo_gsv (comma demo_gsv (int 16) 2) 2 0 = Some 5 \<and>
    byte_at demo_gsv (comma demo_gsv (int 16) 1) = Some 0x37" by code_simp
  then show ?thesis
    using page_leaves_arrays[of demo_gsv 16 5 "0x37" demo_sats 1] demo_ok by (simp add: u8_def)
qed

end
