(* ===== verification/Iec61850.thy ===== *)
theory Iec61850
  imports AllocCommon AllocTables LibCommon LibSqlite "HOL-Library.Monad_Syntax"
begin

unbundle bit_operations_syntax

text \<open>
  The process that serves the board of the protocol of substations, \<^verbatim>\<open>src/d-61850\<close>: the frames of the serial line
  and their answers (\<^verbatim>\<open>d61850_protocol.c\<close>), what is told in each pass (\<^verbatim>\<open>d61850_ctrl.c\<close>, \<^verbatim>\<open>lib_cpu.c\<close>), and the
  messages and the shared memory of the process (\<^verbatim>\<open>d61850_alloc.c\<close>). The line, the commands of the shell and the data
  base are outside of the program: the line answers with a list of results of the timed reads and of the writes.
\<close>

section \<open>State\<close>

text \<open>
  A timed read gives a byte, nothing (the line is readable and at its end), or fails. What is behind the list is a
  line that stays silent. A write gives the number that the system returns, and behind the list all bytes.
\<close>

datatype rx = RxByte "8 word" | RxNone | RxFail

record iecEnv =
  ie_fpga :: driver
  ie_popen :: "string \<Rightarrow> string option"
  ie_stat :: "string \<times> string"
  ie_board :: bool
  ie_db :: db_env

record iec =
  iec_rx :: "rx list"
  iec_wr :: "int list"
  iec_tx :: "bytes list"
  iec_reqs :: "request list"
  iec_db :: "db_op list"
  iec_notify :: bool

section \<open>The frames\<close>

definition MAX_ERR_NO :: nat where "MAX_ERR_NO = 3"
definition MAX_FRAME_LENGTH :: nat where "MAX_FRAME_LENGTH = 259"
definition MAX_DATE_LENGTH :: nat where "MAX_DATE_LENGTH = 253"
definition FRAME_END :: "8 word" where "FRAME_END = 0x03"
definition FRAME_ACK :: "8 word" where "FRAME_ACK = 0x06"
definition FRAME_EAK :: "8 word" where "FRAME_EAK = 0x15"

fun iec_crc_from :: "8 word \<Rightarrow> bytes \<Rightarrow> 8 word" where
  "iec_crc_from crc [] = crc"
| "iec_crc_from crc (d # data) = iec_crc_from (crc XOR d) data"

definition iec61850_date_crc :: "bytes \<Rightarrow> 8 word" where
  "iec61850_date_crc data = iec_crc_from 0 data"

text \<open>The text with its zero, behind its length and before its sum and the end.\<close>

definition iec_frame :: "string \<Rightarrow> bytes" where
  "iec_frame str =
     (let data = text_bytes str @ [0]; len = length data
      in [word_of_nat (len div 256), word_of_nat len] @ data @ [iec61850_date_crc data, FRAME_END])"

definition timed_read :: "rx list \<Rightarrow> rx \<times> rx list" where
  "timed_read rs = (case rs of [] \<Rightarrow> (RxFail, []) | r # rs \<Rightarrow> (r, rs))"

text \<open>
  The bytes of an answer. A read of nothing leaves the last byte in \<open>ch\<close>, and it is taken once more; before the
  first byte \<open>ch\<close> has no value.
\<close>

datatype answer = Failed int | Received bytes

function recv_loop :: "8 word option \<Rightarrow> bytes \<Rightarrow> rx list \<Rightarrow> (answer \<times> rx list) option" where
  "recv_loop ch buf rs =
     (case timed_read rs of (r, rs') \<Rightarrow>
        if r = RxFail then Some (Failed 4, rs')
        else (case (case r of RxByte b \<Rightarrow> Some b | _ \<Rightarrow> ch) of
                None \<Rightarrow> None
              | Some c \<Rightarrow>
                  if MAX_FRAME_LENGTH \<le> length (buf @ [c]) then Some (Failed 3, rs')
                  else if c = FRAME_END then Some (Received (buf @ [c]), rs')
                  else recv_loop (Some c) (buf @ [c]) rs'))"
  by pat_completeness auto
termination by (relation "measure (\<lambda>(ch, buf, rs). MAX_FRAME_LENGTH - length buf)") auto

declare recv_loop.simps [simp del]

text \<open>The buffer was cleared, so a short answer reads as zeros behind its end.\<close>

definition buf_byte :: "bytes \<Rightarrow> nat \<Rightarrow> 8 word" where
  "buf_byte buf i = (if i < length buf then buf ! i else 0)"

definition answer_code :: "bytes \<Rightarrow> int" where
  "answer_code buf =
     (let len = push_bit 8 (uint (buf_byte buf 0)) OR uint (buf_byte buf 1)
      in if len \<noteq> 4 \<or> buf_byte buf 2 \<noteq> buf_byte buf 3 then 3
         else if buf_byte buf 2 = FRAME_ACK then uint FRAME_ACK
         else if buf_byte buf 2 = FRAME_EAK then uint FRAME_EAK
         else 5)"

definition iec61850_recv_frame :: "rx list \<Rightarrow> (int \<times> rx list) option" where
  "iec61850_recv_frame rs =
     do { (a, rs) \<leftarrow> recv_loop None [] rs;
          Some (case a of Failed e \<Rightarrow> e | Received buf \<Rightarrow> answer_code buf, rs) }"

definition iec_write :: "bytes \<Rightarrow> iec \<Rightarrow> int \<times> iec" where
  "iec_write buf s =
     (let n = (case iec_wr s of [] \<Rightarrow> int (length buf) | n # _ \<Rightarrow> n)
      in (n, s\<lparr>iec_wr := drop 1 (iec_wr s), iec_tx := iec_tx s @ [take (nat n) buf]\<rparr>))"

text \<open>The attempts that are left, the first one included.\<close>

fun send_attempts :: "nat \<Rightarrow> bytes \<Rightarrow> iec \<Rightarrow> (int \<times> iec) option" where
  "send_attempts 0 buf s = Some (- 2, s)"
| "send_attempts (Suc n) buf s =
     (case iec_write buf s of (rt, s) \<Rightarrow>
        if rt \<noteq> int (length buf) then Some (- 2, s)
        else do { (rt, rs) \<leftarrow> iec61850_recv_frame (iec_rx s);
                  let s = s\<lparr>iec_rx := rs\<rparr>;
                  if rt = uint FRAME_ACK then Some (0, s) else send_attempts n buf s })"

definition iec61850_send :: "string \<Rightarrow> iec \<Rightarrow> (int \<times> iec) option" where
  "iec61850_send str s =
     (if MAX_DATE_LENGTH < length str + 1 then Some (- 1, s)
      else send_attempts MAX_ERR_NO (iec_frame str) s)"

section \<open>The texts\<close>

definition IEC_MSG_LEN :: nat where "IEC_MSG_LEN = 100"
definition DEVICE_61850 :: string where "DEVICE_61850 = ''MONT/''"
definition LLN0 :: string where "LLN0 = ''LLN0/''"
definition GGI01 :: string where "GGI01 = ''GGIO1/''"

text \<open>A text is written into a buffer of \<open>IEC_MSG_LEN\<close> bytes, and sent; the result is whether it was acknowledged.\<close>

definition send_line :: "string \<Rightarrow> iec \<Rightarrow> (bool \<times> iec) option" where
  "send_line str s =
     (if IEC_MSG_LEN < length str + 1 then None
      else do { (rt, s) \<leftarrow> iec61850_send str s; Some (rt = 0, s) })"

text \<open>Several texts: the first one that is not acknowledged ends the sending.\<close>

fun send_lines :: "string list \<Rightarrow> iec \<Rightarrow> (bool \<times> iec) option" where
  "send_lines [] s = Some (True, s)"
| "send_lines (l # ls) s = do { (ok, s) \<leftarrow> send_line l s; if ok then send_lines ls s else Some (False, s) }"

text \<open>\<open>fgets\<close> on the output of a command, and the conversions of \<open>sscanf\<close>.\<close>

fun fgets_prefix :: "nat \<Rightarrow> string \<Rightarrow> string" where
  "fgets_prefix 0 s = []"
| "fgets_prefix (Suc n) [] = []"
| "fgets_prefix (Suc n) (c # s) = (if c = CHR 0x0A then [c] else c # fgets_prefix n s)"

definition fgets :: "nat \<Rightarrow> string \<Rightarrow> (string \<times> string) option" where
  "fgets n s = (if s = [] then None else Some (fgets_prefix (n - 1) s, drop (length (fgets_prefix (n - 1) s)) s))"

fun scan_literal :: "string \<Rightarrow> string \<Rightarrow> string option" where
  "scan_literal [] s = Some s"
| "scan_literal (f # fs) s =
     (if is_space f then scan_literal fs (dropWhile is_space s)
      else (case s of [] \<Rightarrow> None | c # s \<Rightarrow> if c = f then scan_literal fs s else None))"

definition scan_word :: "string \<Rightarrow> string \<Rightarrow> string option" where
  "scan_word fmt s =
     do { s \<leftarrow> scan_literal fmt s;
          let w = takeWhile (\<lambda>c. \<not> is_space c) (dropWhile is_space s);
          if w = [] then None else Some w }"

section \<open>What is told\<close>

text \<open>
  The lines of a command, of which each must be there: otherwise nothing more is done. A conversion that finds
  nothing leaves its buffer without a value.
\<close>

fun read_lines :: "nat \<Rightarrow> string \<Rightarrow> string list option" where
  "read_lines 0 out = Some []"
| "read_lines (Suc n) out =
     do { (l, out) \<leftarrow> fgets IEC_MSG_LEN out; ls \<leftarrow> read_lines n out; Some (l # ls) }"

definition command_lines :: "iecEnv \<Rightarrow> string \<Rightarrow> nat \<Rightarrow> string list option" where
  "command_lines env cmd n = do { out \<leftarrow> ie_popen env cmd; read_lines n out }"

definition send_version_info :: "iecEnv \<Rightarrow> iec \<Rightarrow> iec option" where
  "send_version_info env s =
     (case command_lines env ''p350sys ver'' 3 of
        None \<Rightarrow> Some s
      | Some ls \<Rightarrow>
          do { hw_ver \<leftarrow> scan_word ''HW_VER | '' (ls ! 0);
               sw_ver \<leftarrow> scan_word ''SW_VER | '' (ls ! 1);
               fpga_ver \<leftarrow> scan_word ''FPGA_VER | '' (ls ! 2);
               (ok, s) \<leftarrow> send_lines [DEVICE_61850 @ LLN0 @ ''HWVersion='' @ hw_ver,
                 DEVICE_61850 @ LLN0 @ ''FWVersion='' @ fpga_ver,
                 DEVICE_61850 @ LLN0 @ ''SWVersion='' @ sw_ver] s;
               Some s })"

text \<open>The mask and the gateway are read and not used.\<close>

definition send_net_info :: "iecEnv \<Rightarrow> iec \<Rightarrow> iec option" where
  "send_net_info env s =
     (case command_lines env ''p350sys net'' 4 of
        None \<Rightarrow> Some s
      | Some ls \<Rightarrow>
          do { ip \<leftarrow> scan_word ''IP='' (ls ! 0);
               mac \<leftarrow> scan_word ''MAC='' (ls ! 1);
               (ok, s) \<leftarrow> send_lines [DEVICE_61850 @ LLN0 @ ''IPAddr='' @ ip,
                 DEVICE_61850 @ LLN0 @ ''MACAddr='' @ mac] s;
               Some s })"

text \<open>
  The numbers of a line of \<^verbatim>\<open>/proc/stat\<close>: four of the eight are used. The sums and differences are unsigned, and
  the quotient is that of a division of floating point, which is exact as far as the numbers are below $2^{46}$; a
  division by zero has no value in an \<open>int\<close>.
\<close>

fun scan_numbers :: "nat \<Rightarrow> string \<Rightarrow> int list option" where
  "scan_numbers 0 s = Some []"
| "scan_numbers (Suc n) s =
     (let s = dropWhile is_space s; ds = takeWhile is_digit s
      in if ds = [] then None
         else do { ns \<leftarrow> scan_numbers n (drop (length ds) s);
                   Some (min (2 ^ 64 - 1) (int (digits_value 0 ds)) # ns) })"

definition LINE_BUF_NO :: nat where "LINE_BUF_NO = 500"

definition read_jiffies :: "string \<Rightarrow> int list option" where
  "read_jiffies stat = do { (l, _) \<leftarrow> fgets LINE_BUF_NO stat; l \<leftarrow> scan_literal ''cpu '' l; scan_numbers 4 l }"

definition u64 :: "int \<Rightarrow> int" where "u64 x = x mod 2 ^ 64"

definition busy_of :: "int list \<Rightarrow> int" where
  "busy_of j = u64 (j ! 0 + j ! 1 + j ! 2)"

definition total_of :: "int list \<Rightarrow> int" where
  "total_of j = u64 (j ! 0 + j ! 1 + j ! 2 + j ! 3)"

definition cpu_utilization :: "iecEnv \<Rightarrow> int option" where
  "cpu_utilization env =
     do { jiffyold \<leftarrow> read_jiffies (fst (ie_stat env));
          jiffy \<leftarrow> read_jiffies (snd (ie_stat env));
          let busy = u64 (busy_of jiffy - busy_of jiffyold);
          let total = u64 (total_of jiffy - total_of jiffyold);
          if total = 0 \<or> 2 ^ 31 \<le> busy * 100 div total then None else Some (busy * 100 div total) }"

definition send_cpu_info :: "iecEnv \<Rightarrow> iec \<Rightarrow> iec option" where
  "send_cpu_info env s =
     do { cpu \<leftarrow> cpu_utilization env;
          (ok, s) \<leftarrow> send_lines [DEVICE_61850 @ LLN0 @ ''CpuUsage='' @ pr_d cpu] s;
          Some s }"

text \<open>The first slot with a receiver of satellites; a command that fails ends the function.\<close>

definition sat_receiver :: "int \<Rightarrow> bool" where
  "sat_receiver bid \<longleftrightarrow> bid = BID_GPSBF \<or> bid = BID_GPSBE \<or> bid = BID_GBDBF \<or> bid = BID_GBDBE \<or> bid = BID_BDBF \<or> bid = BID_BDBE"

definition btype_command :: "int \<Rightarrow> string" where
  "btype_command i =
     ''p350sys btype | head -'' @ pr_d (i + 1) @ '' | tail -1 | awk -F: '' @ [CHR 0x27] @ ''{printf $1}'' @ [CHR 0x27]
     @ '' | tr -d '' @ [CHR 0x27] @ '' '' @ [CHR 0x27]"

fun find_receiver :: "iecEnv \<Rightarrow> int list \<Rightarrow> int option option" where
  "find_receiver env [] = Some None"
| "find_receiver env (i # is) =
     do { ls \<leftarrow> command_lines env (btype_command i) 1;
          if sat_receiver (atoi (ls ! 0)) then Some (Some i) else find_receiver env is }"

text \<open>The texts of the modes in UTF-8: Beidou, mixed with GPS first, mixed with Beidou first, and no receiver.\<close>

definition octets :: "nat list \<Rightarrow> string" where "octets ns = map char_of ns"
definition TXT_BEIDOU :: string where "TXT_BEIDOU = octets [0xE5, 0x8C, 0x97, 0xE6, 0x96, 0x97]"
definition TXT_MIXED :: string where
  "TXT_MIXED = octets [0xE6, 0xB7, 0xB7, 0xE5, 0x90, 0x88, 0xE6, 0xA8, 0xA1, 0xE5, 0xBC, 0x8F, 0xE3, 0x80, 0x81,
     0xE4, 0xB8, 0xBB, 0xE7, 0x94, 0xA8]"
definition TXT_NO_RECEIVER :: string where
  "TXT_NO_RECEIVER = octets [0xE6, 0x97, 0xA0, 0xE5, 0x8D, 0xAB, 0xE6, 0x98, 0x9F, 0xE6, 0xA8, 0xA1, 0xE5, 0x9D, 0x97]"

definition mode_text :: "string \<Rightarrow> string" where
  "mode_text l =
     (if take 2 l = ''SG'' then ''GPS''
      else if take 2 l = ''SB'' then TXT_BEIDOU
      else if take 2 l = ''MG'' then TXT_MIXED @ ''GPS''
      else if take 2 l = ''MB'' then TXT_MIXED @ TXT_BEIDOU
      else TXT_NO_RECEIVER)"

definition send_time_source_info :: "iecEnv \<Rightarrow> iec \<Rightarrow> iec option" where
  "send_time_source_info env s =
     (case find_receiver env [0..INPUT_SLOT_CURSOR_ARRAY_SIZE - 1] of
        None \<Rightarrow> Some s
      | Some found \<Rightarrow>
          (case command_lines env (''p350in '' @ pr_d (case found of Some i \<Rightarrow> i + 1 | None \<Rightarrow> 1) @ '' mode'') 1 of
             None \<Rightarrow> Some s
           | Some ls \<Rightarrow> do { (ok, s) \<leftarrow> send_lines [DEVICE_61850 @ LLN0 @ ''InType='' @ mode_text (ls ! 0)] s; Some s }))"

definition TXT_PAUSE :: string where "TXT_PAUSE = octets [0xE3, 0x80, 0x81]"

definition send_out_source_info :: "iec \<Rightarrow> iec option" where
  "send_out_source_info s =
     do { (ok, s) \<leftarrow> send_lines [DEVICE_61850 @ LLN0 @ ''OutType='' @ ''1588'' @ TXT_PAUSE @ ''PTP'' @ TXT_PAUSE @ ''SNTP''
            @ TXT_PAUSE @ ''IRIGB'' @ TXT_PAUSE @ ''PPS''] s;
          Some s }"

text \<open>The alarms of the two supplies, which count when a supply is plugged in, and of the source.\<close>

definition power_alarm :: "int \<Rightarrow> nat \<Rightarrow> int \<Rightarrow> int" where
  "power_alarm ext_pwr_alm n bidpwr = (if \<not> bit ext_pwr_alm n \<or> bidpwr = 0x00FF then ALM_OFF else ALM_ON)"

definition iec_read :: "iecEnv \<Rightarrow> int \<Rightarrow> iec \<Rightarrow> int option \<times> iec" where
  "iec_read env addr s = (case FpgaRead (ie_fpga env) addr (iec_reqs s) of (v, rs) \<Rightarrow> (v, s\<lparr>iec_reqs := rs\<rparr>))"

definition alarm_lines :: "int \<Rightarrow> int \<Rightarrow> int \<Rightarrow> string list" where
  "alarm_lines ext_pwr_alm temp insrc_valid_alm =
     [DEVICE_61850 @ GGI01 @ ''Alm='' @ pr_d (power_alarm ext_pwr_alm 1 (drop_bit 8 temp AND 0x00FF)),
      DEVICE_61850 @ GGI01 @ ''Alm1='' @ pr_d (power_alarm ext_pwr_alm 0 (temp AND 0x00FF)),
      DEVICE_61850 @ GGI01 @ ''Alm2='' @ pr_d (if insrc_valid_alm = 0x0 then ALM_OFF else ALM_ON)]"

definition send_alm_info :: "iecEnv \<Rightarrow> iec \<Rightarrow> (bool \<times> iec) option" where
  "send_alm_info env s =
     (case iec_read env FPGA_PWR_ALM s of
        (None, s) \<Rightarrow> Some (False, s)
      | (Some ext_pwr_alm, s) \<Rightarrow>
          (case iec_read env FPGA_BID_S18_S19 s of
             (None, s) \<Rightarrow> Some (False, s)
           | (Some temp, s) \<Rightarrow>
               (case iec_read env FPGA_SYS_INSRC_VALID s of
                  (None, s) \<Rightarrow> Some (False, s)
                | (Some insrc_valid_alm, s) \<Rightarrow> send_lines (alarm_lines ext_pwr_alm temp insrc_valid_alm) s)))"

section \<open>Messages and shared memory\<close>

text \<open>
  The message of a new address carries the structure of a network interface from its text on; the text ends with
  the first zero.
\<close>

datatype iec_msg = IecIp bytes | IecOther

definition TBL_61850 :: string where "TBL_61850 = ''TBL_61850''"

definition update_ip :: "string \<Rightarrow> string \<Rightarrow> string" where
  "update_ip pTbl v_ip =
     ''update '' @ pTbl @ '' '' @ replicate 4 (CHR 0x09) @ '' set ip='' @ [CHR 0x27] @ v_ip @ [CHR 0x27] @ '';''"

definition Write61850Ip :: "iecEnv \<Rightarrow> bytes \<Rightarrow> string \<Rightarrow> iec \<Rightarrow> (bool \<times> iec) option" where
  "Write61850Ip env v_ip pTbl s =
     do { ip \<leftarrow> cstr v_ip;
          let sql = update_ip pTbl ip;
          if 256 < length sql + 1 then None
          else (case db_put_locked (ie_db env) sql (iec_db s) of (ok, h) \<Rightarrow> Some (ok, s\<lparr>iec_db := h\<rparr>)) }"

definition SysSetIp :: "iecEnv \<Rightarrow> bytes \<Rightarrow> iec \<Rightarrow> (bool \<times> iec) option" where
  "SysSetIp env v_ip s = Write61850Ip env v_ip TBL_61850 s"

text \<open>The messages until the queue is empty, or an error of the queue behind them.\<close>

fun ReadMessageQueue_iec :: "iecEnv \<Rightarrow> iec_msg list \<Rightarrow> bool \<Rightarrow> iec \<Rightarrow> (bool \<times> iec) option" where
  "ReadMessageQueue_iec env [] msgq_ok s = Some (msgq_ok, s)"
| "ReadMessageQueue_iec env (m # ms) msgq_ok s =
     (case m of
        IecOther \<Rightarrow> Some (False, s)
      | IecIp v_ip \<Rightarrow>
          do { (ok, s) \<leftarrow> SysSetIp env v_ip s;
               if ok then ReadMessageQueue_iec env ms msgq_ok s else Some (False, s) })"

text \<open>
  \<open>set61850_network\<close> copies the first cell of the answer, which is the name of the column, into 16 bytes
  that nobody reads.
\<close>

definition set61850_network :: "iecEnv \<Rightarrow> string \<Rightarrow> iec \<Rightarrow> (bool \<times> iec) option" where
  "set61850_network env pTbl s =
     (case db_get_table (ie_db env) (''select ip from '' @ pTbl @ '';'') (db_lock (ie_db env) (iec_db s)) of
        (t, h) \<Rightarrow>
          (let s = s\<lparr>iec_db := db_unlock (ie_db env) h\<rparr>
           in case t of
                None \<Rightarrow> Some (False, s)
              | Some t \<Rightarrow> do { ip \<leftarrow> cell t 0; if 16 < length ip then None else Some (True, s) }))"

text \<open>The segments that the process attaches: the cursor of each and the identifier of its key.\<close>

definition IPC_CURSOR_KEYLCD :: nat where "IPC_CURSOR_KEYLCD = 6"
definition IPC_CURSOR_61850 :: nat where "IPC_CURSOR_61850 = 8"

definition shm_segments :: "(nat \<times> char) list" where
  "shm_segments =
     [(0, CHR ''a''), (1, CHR ''b''), (2, CHR ''c''), (3, CHR ''d''), (4, CHR ''e''), (5, CHR ''f''),
      (IPC_CURSOR_KEYLCD, CHR ''g''), (IPC_CURSOR_61850, CHR ''g'')]"

text \<open>Where \<open>writePid\<close> writes: the segment of its cursor.\<close>

definition pid_segment :: "char option" where
  "pid_segment = map_of shm_segments IPC_CURSOR_61850"

section \<open>The loop\<close>

definition start_lines :: "string list" where
  "start_lines = map (\<lambda>l. DEVICE_61850 @ LLN0 @ l)
     [''DevType=GNSS-97-P350'', ''DevDescr=Time synchronization'', ''Company=DTT'', ''PortNum=10'']"

text \<open>The texts of the start, each whatever became of the one before it.\<close>

fun send_each :: "string list \<Rightarrow> iec \<Rightarrow> iec option" where
  "send_each [] s = Some s"
| "send_each (l # ls) s = do { (rt, s) \<leftarrow> iec61850_send l s; send_each ls s }"

definition iec_start :: "iecEnv \<Rightarrow> iec \<Rightarrow> iec option" where
  "iec_start env s = do { s \<leftarrow> send_each start_lines s; send_version_info env s }"

text \<open>
  A pass, with the messages that are in the queue when the process was notified; the result is whether the loop
  goes on. The board is looked for by a command of the shell. An FPGA that never runs lets the pass wait for ever.
\<close>

definition iec_pass :: "iecEnv \<Rightarrow> iec_msg list \<Rightarrow> bool \<Rightarrow> iec \<Rightarrow> (bool \<times> iec) option" where
  "iec_pass env msgs msgq_ok s =
     do { (ok, s) \<leftarrow> (if iec_notify s then ReadMessageQueue_iec env msgs msgq_ok (s\<lparr>iec_notify := False\<rparr>) else Some (True, s));
          if \<not> ok \<or> \<not> ie_board env then Some (False, s)
          else do { rs \<leftarrow> SysWaitFpgaRunStatusOk (ie_fpga env) (iec_reqs s);
                    s \<leftarrow> send_net_info env (s\<lparr>iec_reqs := rs\<rparr>);
                    s \<leftarrow> send_cpu_info env s;
                    s \<leftarrow> send_time_source_info env s;
                    (ok, s) \<leftarrow> send_alm_info env s;
                    s \<leftarrow> send_out_source_info s;
                    Some (True, s) } }"

end
