(* ===== verification/Iec61850Spec.thy ===== *)
theory Iec61850Spec
  imports Iec61850 FpgaInputs
begin

unbundle bit_operations_syntax

text \<open>
  What the frames of the serial line guarantee: how often a text is sent and what counts as its acknowledgement, and
  what the board is told of the alarms.
\<close>

section \<open>Answers of the board\<close>

text \<open>What the board does after a frame: it answers with a code, or it is silent until the reading fails.\<close>

type_synonym reply = "8 word option"

definition reply_rx :: "reply \<Rightarrow> rx list" where
  "reply_rx r = (case r of None \<Rightarrow> [RxFail] | Some c \<Rightarrow> map RxByte [0, 4, c, c, FRAME_END])"

definition replies :: "reply list \<Rightarrow> rx list" where
  "replies rs = concat (map reply_rx rs)"

lemma replies_simps [simp]: "replies [] = []" "replies (r # rs) = reply_rx r @ replies rs"
  by (simp_all add: replies_def)

lemma recv_step_byte:
  "length buf + 1 < MAX_FRAME_LENGTH \<Longrightarrow>
   recv_loop ch buf (RxByte b # rs) = (if b = FRAME_END then Some (Received (buf @ [b]), rs) else recv_loop (Some b) (buf @ [b]) rs)"
  by (subst recv_loop.simps) (simp add: timed_read_def)

lemma recv_step_fail: "recv_loop ch buf (RxFail # rs) = Some (Failed 4, rs)"
  by (subst recv_loop.simps) (simp add: timed_read_def)

lemma recv_answer:
  "c \<noteq> FRAME_END \<Longrightarrow> iec61850_recv_frame (reply_rx (Some c) @ rs)
     = Some (if c = FRAME_ACK then 6 else if c = FRAME_EAK then 0x15 else 5, rs)"
  by (simp add: iec61850_recv_frame_def reply_rx_def recv_step_byte MAX_FRAME_LENGTH_def FRAME_END_def answer_code_def
      buf_byte_def FRAME_ACK_def FRAME_EAK_def)

lemma recv_silence: "iec61850_recv_frame (reply_rx None @ rs) = Some (4, rs)"
  by (simp add: iec61850_recv_frame_def reply_rx_def recv_step_fail)

text \<open>
  Any answer: bytes up to the end of a frame, or bytes that break off. The buffer holds an answer of at most 257 bytes before its
  end. It acknowledges the frame when it starts with a length of 4 and twice the code.
\<close>

datatype line_answer = Frame bytes | Broken bytes

fun answer_bytes :: "line_answer \<Rightarrow> bytes" where
  "answer_bytes (Frame bs) = bs"
| "answer_bytes (Broken bs) = bs"

fun answer_rx :: "line_answer \<Rightarrow> rx list" where
  "answer_rx (Frame bs) = map RxByte bs @ [RxByte FRAME_END]"
| "answer_rx (Broken bs) = map RxByte bs @ [RxFail]"

definition answers :: "line_answer list \<Rightarrow> rx list" where
  "answers as = concat (map answer_rx as)"

definition holds :: "line_answer \<Rightarrow> bool" where
  "holds a \<longleftrightarrow> FRAME_END \<notin> set (answer_bytes a) \<and> length (answer_bytes a) \<le> 257"

definition acknowledges :: "line_answer \<Rightarrow> bool" where
  "acknowledges a = (case a of Frame bs \<Rightarrow> take 4 bs = [0, 4, 6, 6] | Broken bs \<Rightarrow> False)"

lemma answers_simps [simp]: "answers [] = []" "answers (a # as) = answer_rx a @ answers as"
  by (simp_all add: answers_def)

lemma recv_bytes:
  "FRAME_END \<notin> set bs \<Longrightarrow> length buf + length bs \<le> 257 \<Longrightarrow>
   recv_loop ch buf (map RxByte bs @ r # rs) = recv_loop (if bs = [] then ch else Some (last bs)) (buf @ bs) (r # rs)"
proof (induction bs arbitrary: ch buf)
  case (Cons b bs)
  then have "recv_loop ch buf (map RxByte (b # bs) @ r # rs) = recv_loop (Some b) (buf @ [b]) (map RxByte bs @ r # rs)"
    by (auto simp: recv_step_byte MAX_FRAME_LENGTH_def)
  also have "\<dots> = recv_loop (if bs = [] then Some b else Some (last bs)) ((buf @ [b]) @ bs) (r # rs)"
    using Cons by simp
  finally show ?case by simp
qed simp

lemma answer_code_ack: "answer_code (bs @ [FRAME_END]) = uint FRAME_ACK \<longleftrightarrow> take 4 bs = [0, 4, 6, 6]"
proof -
  have len: "push_bit 8 (uint a) OR uint b = 4 \<longleftrightarrow> a = 0 \<and> b = 4" for a b :: "8 word"
  proof -
    have "push_bit 8 (uint a) OR uint b = uint a * 256 + uint b"
      using or_low[of "uint b" 8 "uint a"] uint_lt2p[of b] by (simp add: push_bit_eq_mult)
    moreover have "x * 256 + y = 4 \<longleftrightarrow> x = 0 \<and> y = 4" if "0 \<le> x" "0 \<le> y" "y < 256" for x y :: int
      using that by presburger
    then have "uint a * 256 + uint b = 4 \<longleftrightarrow> uint a = 0 \<and> uint b = 4" using uint_lt2p[of b] by simp
    moreover have "uint b = 4 \<longleftrightarrow> b = 4" using word_uint_eq_iff[of b 4] by simp
    moreover have "uint a = 0 \<longleftrightarrow> a = 0" using word_uint_eq_iff[of a 0] by simp
    ultimately show ?thesis by simp
  qed
  have ack: "uint FRAME_ACK = 6" "c = FRAME_ACK \<longleftrightarrow> c = 6" for c by (simp_all add: FRAME_ACK_def)
  consider "bs = []" | a where "bs = [a]" | a b where "bs = [a, b]" | a b c where "bs = [a, b, c]"
    | a b c d cs where "bs = a # b # c # d # cs"
    by (metis list.exhaust)
  then show ?thesis
  proof cases
    case 5
    then show ?thesis by (auto simp: answer_code_def buf_byte_def len ack FRAME_EAK_def)
  qed (auto simp: answer_code_def buf_byte_def len ack FRAME_END_def FRAME_EAK_def)
qed

lemma recv_line_answer:
  assumes "holds a"
  shows "\<exists>rt. iec61850_recv_frame (answer_rx a @ rs) = Some (rt, rs) \<and> (rt = uint FRAME_ACK \<longleftrightarrow> acknowledges a)"
proof (cases a)
  case (Frame bs)
  then have "recv_loop None [] (answer_rx a @ rs) = Some (Received (bs @ [FRAME_END]), rs)"
    using assms recv_bytes[of bs "[]" None "RxByte FRAME_END" rs] by (simp add: holds_def recv_step_byte MAX_FRAME_LENGTH_def)
  then show ?thesis using answer_code_ack[of bs] Frame by (simp add: iec61850_recv_frame_def acknowledges_def)
next
  case (Broken bs)
  then have "recv_loop None [] (answer_rx a @ rs) = Some (Failed 4, rs)"
    using assms recv_bytes[of bs "[]" None RxFail rs] by (simp add: holds_def recv_step_fail)
  then show ?thesis using Broken by (simp add: iec61850_recv_frame_def acknowledges_def FRAME_ACK_def)
qed

text \<open>How many copies are sent: up to the first acknowledgement, and no more than are allowed.\<close>

fun copies :: "nat \<Rightarrow> line_answer list \<Rightarrow> nat" where
  "copies 0 as = 0"
| "copies (Suc n) [] = 0"
| "copies (Suc n) (a # as) = (if acknowledges a then 1 else Suc (copies n as))"

lemma send_attempts_answers:
  "list_all holds as \<Longrightarrow> n \<le> length as \<Longrightarrow> iec_wr s = [] \<Longrightarrow> iec_rx s = answers as @ rest \<Longrightarrow>
   send_attempts n buf s = Some (if list_ex acknowledges (take n as) then 0 else - 2,
     s\<lparr>iec_rx := answers (drop (copies n as) as) @ rest, iec_tx := iec_tx s @ replicate (copies n as) buf\<rparr>)"
proof (induction n arbitrary: as s)
  case 0
  then show ?case by simp
next
  case (Suc n)
  then obtain a as' where as: "as = a # as'" by (cases as) auto
  with Suc.prems obtain rt where rt: "iec61850_recv_frame (answers as @ rest) = Some (rt, answers as' @ rest)"
    "rt = uint FRAME_ACK \<longleftrightarrow> acknowledges a"
    using recv_line_answer[of a "answers as' @ rest"] by auto
  let ?s = "s\<lparr>iec_rx := answers as' @ rest, iec_tx := iec_tx s @ [buf]\<rparr>"
  have w: "iec_write buf s = (int (length buf), s\<lparr>iec_tx := iec_tx s @ [buf]\<rparr>)"
    using Suc.prems(3) by (simp add: iec_write_def)
  show ?case
  proof (cases "acknowledges a")
    case True
    then show ?thesis using as rt w Suc.prems(4) by simp
  next
    case False
    have "send_attempts n buf ?s = Some (if list_ex acknowledges (take n as') then 0 else - 2,
       ?s\<lparr>iec_rx := answers (drop (copies n as') as') @ rest, iec_tx := iec_tx ?s @ replicate (copies n as') buf\<rparr>)"
      using Suc.prems as by (intro Suc.IH) auto
    moreover have "send_attempts (Suc n) buf s
        = send_attempts n buf ((s\<lparr>iec_tx := iec_tx s @ [buf]\<rparr>)\<lparr>iec_rx := answers as' @ rest\<rparr>)"
      using False rt w Suc.prems(4) by simp
    moreover have "(s\<lparr>iec_tx := iec_tx s @ [buf]\<rparr>)\<lparr>iec_rx := answers as' @ rest\<rparr> = ?s" by simp
    ultimately have "send_attempts (Suc n) buf s = Some (if list_ex acknowledges (take n as') then 0 else - 2,
       ?s\<lparr>iec_rx := answers (drop (copies n as') as') @ rest, iec_tx := iec_tx ?s @ replicate (copies n as') buf\<rparr>)"
      by argo
    then show ?thesis using False as by simp
  qed
qed

text \<open>The answers with a code are such answers.\<close>

definition coded :: "reply \<Rightarrow> line_answer" where
  "coded r = (case r of None \<Rightarrow> Broken [] | Some c \<Rightarrow> Frame [0, 4, c, c])"

definition no_end :: "reply list \<Rightarrow> bool" where
  "no_end rs \<longleftrightarrow> Some FRAME_END \<notin> set rs"

lemma coded_replies: "answers (map coded rs) = replies rs"
  by (induction rs) (auto simp: coded_def reply_rx_def split: option.splits)

lemma coded_facts: "no_end rs \<Longrightarrow> list_all holds (map coded rs)" "acknowledges (coded r) \<longleftrightarrow> r = Some FRAME_ACK"
  by (auto simp: no_end_def list_all_iff coded_def holds_def acknowledges_def FRAME_END_def FRAME_ACK_def split: option.splits)

lemma send_attempts_replies:
  "no_end rs \<Longrightarrow> n \<le> length rs \<Longrightarrow> iec_wr s = [] \<Longrightarrow> iec_rx s = replies rs @ rest \<Longrightarrow>
   send_attempts n buf s = Some (if Some FRAME_ACK \<in> set (take n rs) then 0 else - 2,
     s\<lparr>iec_rx := replies (drop (copies n (map coded rs)) rs) @ rest,
       iec_tx := iec_tx s @ replicate (copies n (map coded rs)) buf\<rparr>)"
  using send_attempts_answers[of "map coded rs" n s rest buf] coded_facts(1)[of rs]
  by (auto simp: coded_replies drop_map take_map list_ex_iff coded_facts(2))

section \<open>Sending\<close>

text \<open>
  C20: when each write takes the whole frame, a text that fits is sent as its frame until the first acknowledgement among the
  first three answers of the board. An answer is any sequence of at most 257 bytes that ends a frame or breaks off, also an empty
  one; only a frame that starts with the length 4 and twice the code of the acknowledgement counts as one. The copies that are
  sent, the answers that are used and the result are exact. A text of more than 252 characters is refused and
  nothing is sent.
\<close>

theorem sent_until_acknowledged:
  assumes "list_all holds as" "3 \<le> length as" "iec_wr s = []" "iec_rx s = answers as @ rest"
  shows "iec61850_send str s =
    (if 252 < length str then Some (- 1, s)
     else Some (if list_ex acknowledges (take 3 as) then 0 else - 2,
       s\<lparr>iec_rx := answers (drop (copies 3 as) as) @ rest, iec_tx := iec_tx s @ replicate (copies 3 as) (iec_frame str)\<rparr>))"
  using send_attempts_answers[of as 3 s rest "iec_frame str"] assms
  by (simp add: iec61850_send_def MAX_DATE_LENGTH_def MAX_ERR_NO_def)

definition quiet_line :: "reply list \<Rightarrow> iec" where
  "quiet_line rs = \<lparr>iec_rx = replies rs, iec_wr = [], iec_tx = [], iec_reqs = [], iec_db = [], iec_notify = False\<rparr>"

definition wrong_sum :: line_answer where
  "wrong_sum = Frame [0, 4, 6, 7]"

lemma sent_until_acknowledged_witness:
  "iec61850_send ''MONT/LLN0/Company=DTT''
     ((quiet_line [])\<lparr>iec_rx := answers [Broken [0, 4], wrong_sum, Frame [0, 4, 6, 6], Broken []]\<rparr>) =
     Some (0, (quiet_line [])\<lparr>iec_rx := answers [Broken []], iec_tx := replicate 3 (iec_frame ''MONT/LLN0/Company=DTT'')\<rparr>)"
  using sent_until_acknowledged[of "[Broken [0, 4], wrong_sum, Frame [0, 4, 6, 6], Broken []]"
      "(quiet_line [])\<lparr>iec_rx := answers [Broken [0, 4], wrong_sum, Frame [0, 4, 6, 6], Broken []]\<rparr>" "[]" "''MONT/LLN0/Company=DTT''"]
  by (simp add: holds_def acknowledges_def wrong_sum_def quiet_line_def FRAME_END_def numeral_3_eq_3)

text \<open>The frame of a text can be read by its length, and its sum closes it.\<close>

lemma iec_crc_append: "iec_crc_from c (xs @ ys) = iec_crc_from (iec_crc_from c xs) ys"
  by (induction xs arbitrary: c) auto

lemma iec_frame_shape:
  assumes "length str \<le> 252"
  shows "length (iec_frame str) = length str + 5 \<and> uint (iec_frame str ! 0) * 256 + uint (iec_frame str ! 1) = int (length str) + 1
   \<and> take (length str) (drop 2 (iec_frame str)) = text_bytes str
   \<and> iec_crc_from 0 (butlast (drop 2 (iec_frame str))) = 0"
proof -
  have "uint (word_of_nat (length str + 1) :: 8 word) = int (length str) + 1"
    using assms by (simp only: unsigned_of_nat) (simp add: take_bit_eq_mod)
  then show ?thesis using assms
    by (simp add: iec_frame_def Let_def iec61850_date_crc_def iec_crc_append text_bytes_def butlast_append)
qed

section \<open>A late answer\<close>

text \<open>
  C22: the frames carry no number, so an answer that comes late is taken for the next one. When the answer to the first
  copy of a text comes after the reading has failed, the second copy is sent, its answer is left on the line, and the
  text sent after it counts as acknowledged at once, though the board refuses it (and its refusal is left for the text
  after that one).
\<close>

theorem late_answer_confirms:
  assumes "iec_wr s = []" "length m1 \<le> 252" "length m2 \<le> 252"
    "iec_rx s = replies [None, Some FRAME_ACK, Some FRAME_ACK, Some FRAME_EAK]"
  shows "iec61850_send m1 s \<bind> (\<lambda>(rt1, s). iec61850_send m2 s \<bind> (\<lambda>(rt2, s). Some (rt1, rt2, iec_tx s, iec_rx s)))
    = Some (0, 0, iec_tx s @ [iec_frame m1, iec_frame m1, iec_frame m2], replies [Some FRAME_EAK])"
proof -
  let ?s = "s\<lparr>iec_rx := replies [Some FRAME_ACK, Some FRAME_EAK], iec_tx := iec_tx s @ [iec_frame m1, iec_frame m1]\<rparr>"
  have 1: "iec61850_send m1 s = Some (0, ?s)"
    using send_attempts_replies[of "[None, Some FRAME_ACK, Some FRAME_ACK]" 3 s "replies [Some FRAME_EAK]" "iec_frame m1"] assms
    by (simp add: iec61850_send_def MAX_DATE_LENGTH_def MAX_ERR_NO_def no_end_def coded_facts(2) FRAME_ACK_def FRAME_END_def numeral_3_eq_3)
  have 2: "iec61850_send m2 ?s = Some (0, ?s\<lparr>iec_rx := replies [Some FRAME_EAK], iec_tx := iec_tx ?s @ [iec_frame m2]\<rparr>)"
    using send_attempts_replies[of "[Some FRAME_ACK]" 1 ?s "replies [Some FRAME_EAK]" "iec_frame m2"] assms
    by (simp add: iec61850_send_def MAX_DATE_LENGTH_def MAX_ERR_NO_def no_end_def coded_facts(2) FRAME_ACK_def FRAME_END_def
        numeral_3_eq_3 iec_write_def recv_answer)
  show ?thesis using 2 by (simp add: 1)
qed

lemma late_answer_confirms_witness:
  "iec61850_send ''a'' (quiet_line [None, Some FRAME_ACK, Some FRAME_ACK, Some FRAME_EAK])
     \<bind> (\<lambda>(rt1, s). iec61850_send ''b'' s \<bind> (\<lambda>(rt2, s). Some (rt1, rt2, iec_tx s, iec_rx s)))
   = Some (0, 0, [iec_frame ''a'', iec_frame ''a'', iec_frame ''b''], replies [Some FRAME_EAK])"
  using late_answer_confirms[of "quiet_line [None, Some FRAME_ACK, Some FRAME_ACK, Some FRAME_EAK]" "''a''" "''b''"]
  by (simp add: quiet_line_def)

section \<open>The alarms\<close>

lemma lines_acknowledged:
  "iec_wr s = [] \<Longrightarrow> iec_rx s = replies (replicate (length ls) (Some FRAME_ACK)) @ rest \<Longrightarrow> list_all (\<lambda>l. length l \<le> 99) ls
   \<Longrightarrow> send_lines ls s = Some (True, s\<lparr>iec_rx := rest, iec_tx := iec_tx s @ map iec_frame ls\<rparr>)"
proof (induction ls arbitrary: s)
  case Nil
  then show ?case by simp
next
  case (Cons l ls)
  let ?s = "s\<lparr>iec_rx := replies (replicate (length ls) (Some FRAME_ACK)) @ rest, iec_tx := iec_tx s @ [iec_frame l]\<rparr>"
  have "iec61850_send l s = Some (0, (s\<lparr>iec_tx := iec_tx s @ [iec_frame l]\<rparr>)\<lparr>iec_rx := iec_rx ?s\<rparr>)"
    using Cons.prems recv_answer[of FRAME_ACK "iec_rx ?s"]
    by (simp add: iec61850_send_def MAX_DATE_LENGTH_def MAX_ERR_NO_def numeral_3_eq_3 iec_write_def FRAME_ACK_def FRAME_END_def)
  moreover have "(s\<lparr>iec_tx := iec_tx s @ [iec_frame l]\<rparr>)\<lparr>iec_rx := iec_rx ?s\<rparr> = ?s" by simp
  ultimately have "send_line l s = Some (True, ?s)" using Cons.prems(3) by (simp add: send_line_def IEC_MSG_LEN_def)
  moreover have "send_lines ls ?s = Some (True, ?s\<lparr>iec_rx := rest, iec_tx := iec_tx ?s @ map iec_frame ls\<rparr>)"
    using Cons.prems by (intro Cons.IH) auto
  ultimately show ?case by simp
qed

lemma supply_bits:
  fixes x :: int
  assumes "0 \<le> x" "x < 65536"
  shows "drop_bit 8 x AND 0x00FF = x div 256" "x AND 0x00FF = x mod 256"
proof -
  have m: "y AND 0x00FF = y mod 256" for y :: int
    using take_bit_eq_mask[of 8 y] by (simp add: mask_eq_exp_minus_1 take_bit_eq_mod)
  show "x AND 0x00FF = x mod 256" by (rule m)
  show "drop_bit 8 x AND 0x00FF = x div 256" unfolding m using assms by (simp add: drop_bit_eq_div)
qed

lemma power_alarm_bounds: "power_alarm e n b \<in> {0, 1}"
  by (simp add: power_alarm_def ALM_ON_def ALM_OFF_def)

lemma pr_d_01: "pr_d 0 = ''0''" "pr_d 1 = ''1''"
  by (simp_all add: pr_d_def dec_nat.simps dec_digit_def char_of_eq_iff)

lemma pr_d_digit: "v \<in> {0, 1} \<Longrightarrow> length (pr_d v) = 1"
  by (auto simp: pr_d_01)

definition told :: "string \<Rightarrow> bool \<Rightarrow> bytes" where
  "told name on = iec_frame (''MONT/GGIO1/'' @ name @ (if on then ''1'' else ''0''))"

text \<open>
  C21: with a working FPGA and a board that acknowledges, the board is told the three alarms exactly: a supply has its
  alarm when its bit is set and the slot of the supply (18 for the first, 19 for the second) is not empty, and
  the third alarm is that the register of the source is not zero. The frames are sent once each, in this order, and
  the registers are read once each.
\<close>

theorem alarms_told:
  assumes "driver_inputs (ie_fpga env) (\<lambda>reqs. inp)" "iec_wr s = []"
    "iec_rx s = replies (replicate 3 (Some FRAME_ACK)) @ rest"
  shows "send_alm_info env s = Some (True, s\<lparr>iec_rx := rest,
    iec_tx := iec_tx s @ [told ''Alm='' (bit (inp FPGA_PWR_ALM) 1 \<and> inp FPGA_BID_S18_S19 div 256 \<noteq> 0xFF),
       told ''Alm1='' (bit (inp FPGA_PWR_ALM) 0 \<and> inp FPGA_BID_S18_S19 mod 256 \<noteq> 0xFF),
       told ''Alm2='' (inp FPGA_SYS_INSRC_VALID \<noteq> 0)],
    iec_reqs := iec_reqs s @ map (\<lambda>addr. (FPGA_READ, addr * 65536)) [FPGA_PWR_ALM, FPGA_BID_S18_S19, FPGA_SYS_INSRC_VALID]\<rparr>)"
proof -
  note regs = FPGA_PWR_ALM_def FPGA_BID_S18_S19_def FPGA_SYS_INSRC_VALID_def FPGA_SYS2_COMMON_sum
  have r: "iec_read env addr t = (Some (inp addr), t\<lparr>iec_reqs := iec_reqs t @ [(FPGA_READ, addr * 65536)]\<rparr>)"
    if "0 \<le> addr" "addr < 65536" for addr t
    using driver_inputs_read[OF assms(1) that] by (simp add: iec_read_def)
  have a: "0 \<le> FPGA_PWR_ALM" "FPGA_PWR_ALM < 65536" "0 \<le> FPGA_BID_S18_S19" "FPGA_BID_S18_S19 < 65536"
    "0 \<le> FPGA_SYS_INSRC_VALID" "FPGA_SYS_INSRC_VALID < 65536" by (simp_all add: regs)
  have b: "0 \<le> inp FPGA_BID_S18_S19" "inp FPGA_BID_S18_S19 < 65536"
    using assms(1) by (simp_all add: driver_inputs_def)
  let ?ls = "alarm_lines (inp FPGA_PWR_ALM) (inp FPGA_BID_S18_S19) (inp FPGA_SYS_INSRC_VALID)"
  let ?s = "s\<lparr>iec_reqs := iec_reqs s @ map (\<lambda>addr. (FPGA_READ, addr * 65536)) [FPGA_PWR_ALM, FPGA_BID_S18_S19, FPGA_SYS_INSRC_VALID]\<rparr>"
  have l: "list_all (\<lambda>l. length l \<le> 99) ?ls" "length ?ls = 3"
    using pr_d_digit[OF power_alarm_bounds] pr_d_digit[of 0] pr_d_digit[of 1]
    by (auto simp: alarm_lines_def DEVICE_61850_def GGI01_def ALM_ON_def ALM_OFF_def)
  have "send_alm_info env s = send_lines ?ls ?s" using a by (simp add: send_alm_info_def r)
  also have "\<dots> = Some (True, ?s\<lparr>iec_rx := rest, iec_tx := iec_tx ?s @ map iec_frame ?ls\<rparr>)"
    using assms(2,3) l by (intro lines_acknowledged) simp_all
  also have "map iec_frame ?ls
      = [told ''Alm='' (bit (inp FPGA_PWR_ALM) 1 \<and> inp FPGA_BID_S18_S19 div 256 \<noteq> 0xFF),
         told ''Alm1='' (bit (inp FPGA_PWR_ALM) 0 \<and> inp FPGA_BID_S18_S19 mod 256 \<noteq> 0xFF),
         told ''Alm2='' (inp FPGA_SYS_INSRC_VALID \<noteq> 0)]"
    using b by (simp add: alarm_lines_def told_def supply_bits power_alarm_def DEVICE_61850_def GGI01_def ALM_ON_def
        ALM_OFF_def pr_d_01)
  finally show ?thesis by simp
qed

definition both_supplies :: "int \<Rightarrow> int" where
  "both_supplies addr = (if addr = FPGA_PWR_ALM then 3 else if addr = FPGA_BID_S18_S19 then 0x20FF else 0)"

definition supply_env :: iecEnv where
  "supply_env = \<lparr>ie_fpga = (\<lambda>cmd temp reqs. (1, if cmd = FPGA_READ then temp + both_supplies (temp div 65536) else temp)),
     ie_popen = (\<lambda>cmd. None), ie_stat = ([], []), ie_board = True,
     ie_db = \<lparr>de_exec = (\<lambda>h sql. True), de_query = (\<lambda>h sql. None)\<rparr>\<rparr>"

lemma supply_env_ok: "driver_inputs (ie_fpga supply_env) (\<lambda>reqs. both_supplies)"
  by (simp add: driver_inputs_def supply_env_def both_supplies_def FPGA_WRITE_def FPGA_READ_def)

lemma alarms_told_witness:
  "map_option (\<lambda>(ok, s). (ok, iec_tx s)) (send_alm_info supply_env (quiet_line (replicate 3 (Some FRAME_ACK))))
     = Some (True, [told ''Alm='' True, told ''Alm1='' False, told ''Alm2='' False])"
  using alarms_told[of supply_env both_supplies "quiet_line (replicate 3 (Some FRAME_ACK))" "[]", OF supply_env_ok]
  by (simp add: quiet_line_def numeral_3_eq_3 both_supplies_def FPGA_PWR_ALM_def FPGA_BID_S18_S19_def
      FPGA_SYS_INSRC_VALID_def FPGA_SYS2_COMMON_sum)

end
