(* ===== verification/MgrProc.thy ===== *)
theory MgrProc
  imports AllocCommon LibCommon
begin

unbundle bit_operations_syntax

text \<open>
  The manager, \<^verbatim>\<open>src/d-manager\<close>: it starts the processes of the equipment, notes which of them end (a handler of the
  signal of ended children, \<^verbatim>\<open>dmgr_alloc.c\<close>), starts them again when its guard is on, and stops them
  (\<^verbatim>\<open>dmgr_manager.c\<close>, \<^verbatim>\<open>dmgr_parser.c\<close>). The handler may run between any two steps; what matters is whether it runs
  between the creation of a child and the note of its identifier.
\<close>

section \<open>State\<close>

definition DAEMON_INPUT :: nat where "DAEMON_INPUT = 1"
definition DAEMON_OUTPUT :: nat where "DAEMON_OUTPUT = 2"
definition DAEMON_NTP :: nat where "DAEMON_NTP = 3"
definition DAEMON_ALARM :: nat where "DAEMON_ALARM = 4"
definition DAEMON_CLOCK :: nat where "DAEMON_CLOCK = 5"
definition DAEMON_KEYLCD :: nat where "DAEMON_KEYLCD = 7"
definition DAEMON_WG :: nat where "DAEMON_WG = 8"
definition DAEMON_IEC61850 :: nat where "DAEMON_IEC61850 = 9"
definition DAEMON_TELNET :: nat where "DAEMON_TELNET = 10"
definition DAEMON_HTTP :: nat where "DAEMON_HTTP = 11"
definition DAEMON_ARRAY_SIZE :: nat where "DAEMON_ARRAY_SIZE = 12"

definition gDaemonTbl :: "string list" where
  "gDaemonTbl = [''none'', ''p350_input'', ''p350_output'', ''p350_ntp'', ''p350_alarm'', ''p350_clock'', ''p350_manager'',
     ''p350_keylcd'', ''p350_wg'', ''p350_61850'', ''p350_telnet'', ''p350_http'']"

text \<open>
  Beside the fields of the context that change: the children of the process with the cursor of each (what the system
  knows), the signals that were sent, the commands that were run, and the requests to the FPGA.
\<close>

record mgr =
  mgr_loop :: bool
  mgr_notify :: bool
  guard_flag :: int
  led_sta :: int
  pids :: "int list"
  children :: "(int \<times> nat) list"
  kills :: "int list"
  commands :: "string list"
  mgr_reqs :: "request list"
  fpgaVer :: string

definition initializeContext_mgr :: "mgr \<Rightarrow> mgr" where
  "initializeContext_mgr s = s\<lparr>mgr_loop := True, mgr_notify := False, guard_flag := 0, led_sta := 0,
     pids := replicate DAEMON_ARRAY_SIZE 0\<rparr>"

section \<open>Children\<close>

text \<open>The handler: the children that have ended are waited for, and their entries are cleared.\<close>

definition child_ended :: "int \<Rightarrow> mgr \<Rightarrow> mgr" where
  "child_ended p s = s\<lparr>children := filter (\<lambda>(q, d). q \<noteq> p) (children s),
     pids := map (\<lambda>q. if q = p then 0 else q) (pids s)\<rparr>"

fun ChlidHandler :: "int list \<Rightarrow> mgr \<Rightarrow> mgr" where
  "ChlidHandler [] s = s"
| "ChlidHandler (p # ps) s = ChlidHandler ps (child_ended p s)"

text \<open>
  What the system does in one start: the result of \<open>fork\<close>, the children that the handler waits for before the
  identifier is noted, and those after that.
\<close>

record run =
  run_pid :: int
  run_before :: "int list"
  run_after :: "int list"

text \<open>\<open>system_run\<close> and the note of its result; a negative result ends the start.\<close>

definition start_daemon :: "nat \<Rightarrow> run \<Rightarrow> mgr \<Rightarrow> bool \<times> mgr" where
  "start_daemon d r s =
     (if run_pid r < 0 then (False, s)
      else let s = ChlidHandler (run_before r) (s\<lparr>children := (run_pid r, d) # children s\<rparr>);
               s = s\<lparr>pids := (pids s)[d := run_pid r]\<rparr>
           in (True, ChlidHandler (run_after r) s))"

text \<open>The starts in their order, each with the next result of the system; without a result the system has no more processes.\<close>

fun start_daemons :: "nat list \<Rightarrow> run list \<Rightarrow> mgr \<Rightarrow> bool \<times> mgr" where
  "start_daemons [] rs s = (True, s)"
| "start_daemons (d # ds) [] s = (False, s)"
| "start_daemons (d # ds) (r # rs) s = pair_then (start_daemon d r s) (start_daemons ds rs)"

text \<open>\<open>board\<close> is whether the board of the substation protocol is found (by a command of the shell).\<close>

definition procStart_order :: "bool \<Rightarrow> nat list" where
  "procStart_order board =
     [DAEMON_INPUT, DAEMON_OUTPUT, DAEMON_NTP, DAEMON_ALARM, DAEMON_KEYLCD]
     @ (if board then [DAEMON_IEC61850] else []) @ [DAEMON_HTTP, DAEMON_WG]"

definition procStart :: "bool \<Rightarrow> run list \<Rightarrow> mgr \<Rightarrow> bool \<times> mgr" where
  "procStart board rs s = start_daemons (procStart_order board) rs s"

text \<open>
  The entries that are not positive are started again, as they are when their turn comes; the web server is not among
  them. The results of the system are used up only by the starts.
\<close>

definition procRestart_order :: "bool \<Rightarrow> nat list" where
  "procRestart_order board =
     [DAEMON_INPUT, DAEMON_OUTPUT, DAEMON_NTP, DAEMON_ALARM, DAEMON_KEYLCD, DAEMON_WG]
     @ (if board then [DAEMON_IEC61850] else [])"

fun restart_daemons :: "nat list \<Rightarrow> run list \<Rightarrow> mgr \<Rightarrow> bool \<times> mgr" where
  "restart_daemons [] rs s = (True, s)"
| "restart_daemons (d # ds) rs s =
     (if 0 < pids s ! d then restart_daemons ds rs s
      else case rs of [] \<Rightarrow> (False, s)
           | r # rs \<Rightarrow> pair_then (start_daemon d r s) (restart_daemons ds rs))"

definition procRestart :: "bool \<Rightarrow> run list \<Rightarrow> mgr \<Rightarrow> bool \<times> mgr" where
  "procRestart board rs s = restart_daemons (procRestart_order board) rs s"

text \<open>The processes that are told to stop; the web server is stopped by its name.\<close>

definition procStop_order :: "nat list" where
  "procStop_order = [DAEMON_INPUT, DAEMON_OUTPUT, DAEMON_NTP, DAEMON_ALARM, DAEMON_CLOCK,
     DAEMON_KEYLCD, DAEMON_WG, DAEMON_TELNET, DAEMON_IEC61850]"

definition procStop :: "mgr \<Rightarrow> mgr" where
  "procStop s = s\<lparr>kills := kills s @ filter (\<lambda>p. 0 < p) (map (\<lambda>d. pids s ! d) procStop_order),
     commands := commands s @ [''killall p350_http'']\<rparr>"

section \<open>The run\<close>

definition ledRun :: "driver \<Rightarrow> mgr \<Rightarrow> bool \<times> mgr" where
  "ledRun drv s =
     (let sta = u32 (NOT (led_sta s))
      in case FpgaWrite drv FPGA_LED_RUN (u16 sta) (mgr_reqs s) of
           (ok, rs) \<Rightarrow> (ok, s\<lparr>led_sta := sta, mgr_reqs := rs\<rparr>))"

definition ver_digit :: "int \<Rightarrow> char" where
  "ver_digit x = char_of (nat (48 + bcd2decimal (x AND 0x000F)))"

definition ReadFpgaVersion :: "driver \<Rightarrow> mgr \<Rightarrow> bool \<times> mgr" where
  "ReadFpgaVersion drv s =
     (case FpgaRead drv FPGA_VER (mgr_reqs s) of
        (None, rs) \<Rightarrow> (False, s\<lparr>mgr_reqs := rs\<rparr>)
      | (Some tmp, rs) \<Rightarrow> (True, s\<lparr>mgr_reqs := rs,
          fpgaVer := [CHR ''V'', ver_digit (drop_bit 12 tmp), ver_digit (drop_bit 8 tmp), CHR ''.'',
                      ver_digit (drop_bit 4 tmp), ver_digit tmp]\<rparr>))"

text \<open>The start page of the web server is that of a slave for the type 1 only; \<open>system_ok\<close> is whether the shell could be run.\<close>

definition WWW_INDEX_MASTER_PATH :: string where "WWW_INDEX_MASTER_PATH = ''/usr/p350/www/index.master.html''"
definition WWW_INDEX_SLAVE_PATH :: string where "WWW_INDEX_SLAVE_PATH = ''/usr/p350/www/index.slave.html''"
definition WWW_INDEX_PATH :: string where "WWW_INDEX_PATH = ''/usr/p350/www/index.html''"

definition DevMasterSlave :: "driver \<Rightarrow> bool \<Rightarrow> mgr \<Rightarrow> bool \<times> mgr" where
  "DevMasterSlave drv system_ok s =
     (case FpgaRead drv FPGA_DEVICE_TYPE (mgr_reqs s) of
        (None, rs) \<Rightarrow> (False, s\<lparr>mgr_reqs := rs\<rparr>)
      | (Some devType, rs) \<Rightarrow> (system_ok, s\<lparr>mgr_reqs := rs, commands := commands s @
          [''cp -f '' @ (if devType = 0x02 then WWW_INDEX_MASTER_PATH
                         else if devType = 0x01 then WWW_INDEX_SLAVE_PATH else WWW_INDEX_MASTER_PATH)
           @ '' '' @ WWW_INDEX_PATH]\<rparr>))"

text \<open>The messages: the second branch for the guard is never reached. \<open>bUpdate\<close> comes with whether its command could be run.\<close>

datatype mgr_msg = MgrLevel bool | MgrReboot int | MgrGuard string | MgrUpdate int bool | MgrOther

definition handle_mgr :: "mgr_msg \<Rightarrow> mgr \<Rightarrow> bool \<times> mgr" where
  "handle_mgr m s =
     (case m of
        MgrLevel ok \<Rightarrow> (ok, s)
      | MgrReboot bReboot \<Rightarrow> (True, if bReboot = 1 then s\<lparr>commands := commands s @ [''p350reboot&'']\<rparr> else s)
      | MgrGuard text \<Rightarrow> (True, s\<lparr>guard_flag := (if text = ''on'' then 1 else 0)\<rparr>)
      | MgrUpdate bUpdate ok \<Rightarrow>
          (if bUpdate = 1 then (ok, s\<lparr>commands := commands s @ [''/usr/p350/md5sum.sh'']\<rparr>) else (True, s))
      | MgrOther \<Rightarrow> (False, s))"

fun ReadMessageQueue_mgr :: "mgr_msg list \<Rightarrow> bool \<Rightarrow> mgr \<Rightarrow> bool \<times> mgr" where
  "ReadMessageQueue_mgr [] msgq_ok s = (msgq_ok, s)"
| "ReadMessageQueue_mgr (m # ms) msgq_ok s = pair_then (handle_mgr m s) (ReadMessageQueue_mgr ms msgq_ok)"

text \<open>A pass of the loop; no result is looked at. The exits that are handled in the pause of half a second come last.\<close>

record mgr_in =
  mi_msgs :: "mgr_msg list"
  mi_msgq_ok :: bool
  mi_board :: bool
  mi_runs :: "run list"
  mi_exits :: "int list"

definition mgr_pass :: "driver \<Rightarrow> mgr_in \<Rightarrow> mgr \<Rightarrow> mgr" where
  "mgr_pass drv i s =
     (let s = (if mgr_notify s then snd (ReadMessageQueue_mgr (mi_msgs i) (mi_msgq_ok i) (s\<lparr>mgr_notify := False\<rparr>)) else s);
          s = (if guard_flag s = 1 then snd (procRestart (mi_board i) (mi_runs i) s) else s);
          s = snd (ledRun drv s)
      in ChlidHandler (mi_exits i) s)"

fun mgr_passes :: "driver \<Rightarrow> mgr_in list \<Rightarrow> mgr \<Rightarrow> mgr" where
  "mgr_passes drv [] s = s"
| "mgr_passes drv (i # is) s = mgr_passes drv is (mgr_pass drv i s)"

end
