(* ===== verification/MgrProcSpec.thy ===== *)
theory MgrProcSpec
  imports MgrProc
begin

text \<open>
  What the manager knows of its children: its table of identifiers is exact as long as no child ends before its
  identifier is noted, the guard starts again what has ended, and what it never notices.
\<close>

section \<open>The table of identifiers\<close>

definition started :: "nat list" where
  "started = [1, 2, 3, 4, 7, 8, 9, 11]"

lemmas mgr_cursors = DAEMON_INPUT_def DAEMON_OUTPUT_def DAEMON_NTP_def DAEMON_ALARM_def
  DAEMON_CLOCK_def DAEMON_KEYLCD_def DAEMON_WG_def DAEMON_IEC61850_def DAEMON_TELNET_def
  DAEMON_HTTP_def DAEMON_ARRAY_SIZE_def

text \<open>The entries are the children, and no identifier occurs twice.\<close>

definition table_exact :: "mgr \<Rightarrow> bool" where
  "table_exact s \<longleftrightarrow> length (pids s) = DAEMON_ARRAY_SIZE \<and> distinct (map fst (children s))
     \<and> (\<forall>p d. (p, d) \<in> set (children s) \<longleftrightarrow> d < DAEMON_ARRAY_SIZE \<and> pids s ! d = p \<and> 0 < p)
     \<and> (\<forall>p d. (p, d) \<in> set (children s) \<longrightarrow> d \<in> set started)"

lemma table_exact_ended:
  assumes "table_exact s"
  shows "table_exact (child_ended p s)"
proof -
  have "distinct (map fst (filter (\<lambda>(q, d). q \<noteq> p) (children s)))"
    using assms by (simp add: table_exact_def distinct_map_filter)
  then show ?thesis using assms by (auto simp: table_exact_def child_ended_def split: if_splits)
qed

lemma table_exact_handler: "table_exact s \<Longrightarrow> table_exact (ChlidHandler ps s)"
  by (induction ps arbitrary: s) (simp_all add: table_exact_ended)

text \<open>The system gives identifiers that no child has, and no child ends before its identifier is noted.\<close>

definition fresh_runs :: "run list \<Rightarrow> mgr \<Rightarrow> bool" where
  "fresh_runs rs s \<longleftrightarrow> distinct (map run_pid rs)
     \<and> (\<forall>r \<in> set rs. run_pid r \<noteq> 0 \<and> run_pid r \<notin> fst ` set (children s) \<and> run_before r = [])"

lemma handler_children: "set (children (ChlidHandler ps s)) \<subseteq> set (children s)"
proof (induction ps arbitrary: s)
  case (Cons p ps)
  have "set (children (child_ended p s)) \<subseteq> set (children s)" by (auto simp: child_ended_def)
  then show ?case using Cons[of "child_ended p s"] by simp
qed simp

lemma start_children:
  assumes "start_daemon d r s = (ok, s')"
  shows "set (children s') \<subseteq> insert (run_pid r, d) (set (children s))"
proof (cases "run_pid r < 0")
  case True
  then show ?thesis using assms by (auto simp: start_daemon_def)
next
  case False
  let ?t = "ChlidHandler (run_before r) (s\<lparr>children := (run_pid r, d) # children s\<rparr>)"
  have "s' = ChlidHandler (run_after r) (?t\<lparr>pids := (pids ?t)[d := run_pid r]\<rparr>)"
    using assms False by (simp add: start_daemon_def Let_def)
  then show ?thesis
    using handler_children[of "run_after r" "?t\<lparr>pids := (pids ?t)[d := run_pid r]\<rparr>"]
      handler_children[of "run_before r" "s\<lparr>children := (run_pid r, d) # children s\<rparr>"] by simp
qed

lemma fresh_runs_start:
  assumes "fresh_runs (r # rs) s" "start_daemon d r s = (ok, s')"
  shows "fresh_runs rs s'"
proof -
  have "fst ` set (children s') \<subseteq> insert (run_pid r) (fst ` set (children s))"
    using image_mono[OF start_children[OF assms(2)], of fst] by simp
  moreover have "run_pid q \<noteq> run_pid r" if "q \<in> set rs" for q
    using assms(1) imageI[OF that, of run_pid] by (auto simp: fresh_runs_def)
  ultimately show ?thesis using assms(1) unfolding fresh_runs_def by (metis (no_types, lifting) distinct.simps(2)
      insert_iff list.set_intros(2) list.simps(9) subset_iff)
qed

lemma table_exact_start:
  assumes "table_exact s" "fresh_runs (r # rs) s" "start_daemon d r s = (ok, s')" "d \<in> set started" "pids s ! d \<le> 0"
  shows "table_exact s'"
proof (cases "run_pid r < 0")
  case True
  then show ?thesis using assms by (simp add: start_daemon_def)
next
  case False
  let ?t = "s\<lparr>children := (run_pid r, d) # children s, pids := (pids s)[d := run_pid r]\<rparr>"
  have r: "0 < run_pid r" "run_pid r \<notin> fst ` set (children s)" "run_before r = []"
    using assms(2) False by (auto simp: fresh_runs_def)
  have d: "d < DAEMON_ARRAY_SIZE" using assms(4) by (auto simp: started_def mgr_cursors)
  have "table_exact ?t"
    using assms(1,4,5) r d by (auto simp: table_exact_def nth_list_update image_iff split: if_splits)
  moreover have "s' = ChlidHandler (run_after r) ?t"
    using assms(3) False r(3) by (simp add: start_daemon_def)
  ultimately show ?thesis by (simp add: table_exact_handler)
qed

text \<open>The handler only clears entries.\<close>

lemma handler_pids:
  "length (pids (ChlidHandler ps s)) = length (pids s)
   \<and> (d < length (pids s) \<longrightarrow> pids (ChlidHandler ps s) ! d \<in> {0, pids s ! d})"
proof (induction ps arbitrary: s)
  case Nil
  then show ?case by simp
next
  case (Cons p ps)
  have "length (pids (child_ended p s)) = length (pids s)"
    "d < length (pids s) \<longrightarrow> pids (child_ended p s) ! d \<in> {0, pids s ! d}" by (auto simp: child_ended_def)
  then show ?case using Cons[of "child_ended p s"] by auto
qed

lemma start_other_pids:
  assumes "start_daemon d r s = (ok, s')" "e < length (pids s)" "e \<noteq> d"
  shows "pids s' ! e \<in> {0, pids s ! e}"
proof (cases "run_pid r < 0")
  case True
  then show ?thesis using assms by (auto simp: start_daemon_def)
next
  case False
  let ?t = "ChlidHandler (run_before r) (s\<lparr>children := (run_pid r, d) # children s\<rparr>)"
  have "s' = ChlidHandler (run_after r) (?t\<lparr>pids := (pids ?t)[d := run_pid r]\<rparr>)"
    using assms False by (simp add: start_daemon_def Let_def)
  then show ?thesis
    using handler_pids[of "run_after r" "?t\<lparr>pids := (pids ?t)[d := run_pid r]\<rparr>" e]
      handler_pids[of "run_before r" "s\<lparr>children := (run_pid r, d) # children s\<rparr>" e] assms(2,3) by auto
qed

lemma table_exact_starts:
  assumes "table_exact s" "fresh_runs rs s" "set ds \<subseteq> set started" "distinct ds" "\<forall>d \<in> set ds. pids s ! d \<le> 0"
  shows "table_exact (snd (start_daemons ds rs s))"
  using assms
proof (induction ds rs s rule: start_daemons.induct)
  case (3 d ds r rs s)
  obtain ok s' where s': "start_daemon d r s = (ok, s')" by fastforce
  have t: "table_exact s'" using table_exact_start[OF 3(2,3) s'] 3(4,6) by simp
  have "pids s' ! e \<le> 0" if "e \<in> set ds" for e
  proof -
    have "e < length (pids s)" "e \<noteq> d" "pids s ! e \<le> 0"
      using 3(2,4,5,6) that by (auto simp: table_exact_def started_def mgr_cursors)
    then show ?thesis using start_other_pids[OF s', of e] by auto
  qed
  then have "table_exact (snd (start_daemons ds rs s'))" if ok
    using 3(1)[of s'] t fresh_runs_start[OF 3(3) s'] 3(4,5) by simp
  then show ?case using t by (cases ok) (simp_all add: s')
qed simp_all

lemma table_exact_restarts:
  assumes "table_exact s" "fresh_runs rs s" "set ds \<subseteq> set started"
  shows "table_exact (snd (restart_daemons ds rs s))"
  using assms
proof (induction ds rs s rule: restart_daemons.induct)
  case (2 d ds rs s)
  show ?case
  proof (cases "0 < pids s ! d \<or> rs = []")
    case True
    then show ?thesis using 2 by (auto split: list.split)
  next
    case False
    then obtain r rs' where rs: "rs = r # rs'" by (cases rs) auto
    obtain ok s' where s': "start_daemon d r s = (ok, s')" by fastforce
    have t: "table_exact s'" using table_exact_start[OF 2(3) _ s'] 2(4,5) False rs by simp
    have "table_exact (snd (restart_daemons ds rs' s'))" if ok
      using 2(2)[OF _ rs, of s'] t fresh_runs_start[of r rs' s d ok s'] s' 2(4,5) False rs by simp
    then show ?thesis using t False by (cases ok) (simp_all add: s' rs)
  qed
qed simp

section \<open>All states of the manager\<close>

text \<open>
  The states after the start of the processes and any passes, of which no child ends between its creation and the note of its
  identifier; children may end at any other time, starts may fail, and messages may come.
\<close>

inductive mgr_reaches :: "driver \<Rightarrow> mgr \<Rightarrow> bool" for drv where
  mgr_started: "mgr_reaches drv (snd (procStart board rs (initializeContext_mgr s)))"
    if "children s = []" "fresh_runs rs s"
| mgr_passed: "mgr_reaches drv (mgr_pass drv i s)"
    if "mgr_reaches drv s" "fresh_runs (mi_runs i) s"
| mgr_ended: "mgr_reaches drv (ChlidHandler ps s)" if "mgr_reaches drv s"
| mgr_notified: "mgr_reaches drv (s\<lparr>mgr_notify := True\<rparr>)" if "mgr_reaches drv s"

lemma handle_mgr_frame: "pids (snd (handle_mgr m s)) = pids s \<and> children (snd (handle_mgr m s)) = children s"
  by (simp add: handle_mgr_def split: mgr_msg.split)

lemma messages_frame:
  "pids (snd (ReadMessageQueue_mgr ms ok s)) = pids s \<and> children (snd (ReadMessageQueue_mgr ms ok s)) = children s"
proof (induction ms arbitrary: s)
  case (Cons m ms)
  obtain r s' where "handle_mgr m s = (r, s')" by fastforce
  then show ?case using Cons[of s'] handle_mgr_frame[of m s] by (cases r) simp_all
qed simp

lemma led_frame: "pids (snd (ledRun drv s)) = pids s \<and> children (snd (ledRun drv s)) = children s"
  by (simp add: ledRun_def Let_def split: prod.split)

lemma table_exact_frame: "pids s' = pids s \<Longrightarrow> children s' = children s \<Longrightarrow> table_exact s' = table_exact s"
  by (simp add: table_exact_def)

lemma fresh_runs_frame: "children s' = children s \<Longrightarrow> fresh_runs rs s' = fresh_runs rs s"
  by (simp add: fresh_runs_def)

lemma started_orders:
  "set (procStart_order board) \<subseteq> set started" "distinct (procStart_order board)"
  "set (procRestart_order board) \<subseteq> set started"
  by (auto simp: procStart_order_def procRestart_order_def started_def mgr_cursors)

lemma reaches_exact: "mgr_reaches drv s \<Longrightarrow> table_exact s"
proof (induction rule: mgr_reaches.induct)
  case (mgr_started s rs board)
  have "table_exact (initializeContext_mgr s)" using mgr_started(1)
    by (auto simp: table_exact_def initializeContext_mgr_def)
  moreover have "fresh_runs rs (initializeContext_mgr s)"
    using mgr_started(2) by (simp add: fresh_runs_def initializeContext_mgr_def)
  moreover have "\<forall>d \<in> set (procStart_order board). pids (initializeContext_mgr s) ! d \<le> 0"
    using started_orders(1)[of board] by (auto simp: initializeContext_mgr_def started_def mgr_cursors)
  ultimately show ?case
    unfolding procStart_def by (intro table_exact_starts started_orders)
next
  case (mgr_passed s i)
  let ?m = "if mgr_notify s then snd (ReadMessageQueue_mgr (mi_msgs i) (mi_msgq_ok i) (s\<lparr>mgr_notify := False\<rparr>)) else s"
  let ?r = "if guard_flag ?m = 1 then snd (procRestart (mi_board i) (mi_runs i) ?m) else ?m"
  have m: "pids ?m = pids s" "children ?m = children s" using messages_frame by simp_all
  have "table_exact ?m" "fresh_runs (mi_runs i) ?m"
    using table_exact_frame[OF m] fresh_runs_frame[OF m(2)] mgr_passed by blast+
  then have "table_exact ?r" using table_exact_restarts started_orders(3) by (simp add: procRestart_def)
  then have "table_exact (snd (ledRun drv ?r))" using table_exact_frame led_frame by blast
  then show ?case unfolding mgr_pass_def Let_def by (rule table_exact_handler)
next
  case (mgr_ended s ps)
  then show ?case by (simp add: table_exact_handler)
next
  case (mgr_notified s)
  then show ?case using table_exact_frame[of "s\<lparr>mgr_notify := True\<rparr>" s] by simp
qed

text \<open>
  C12: in every state that the manager reaches without a child that ends before its identifier is noted, the table of
  identifiers is exact: its positive entries are the children that run, each with its process, no process runs twice,
  and the stop of the processes sends the signal to each child but the web server and to nothing else.
\<close>

theorem manager_knows_children:
  assumes "mgr_reaches drv s"
  shows "distinct (map snd (children s))
    \<and> (\<forall>p d. (p, d) \<in> set (children s) \<longleftrightarrow> d < 12 \<and> pids s ! d = p \<and> 0 < p)
    \<and> (\<exists>ks. kills (procStop s) = kills s @ ks \<and> set ks = {p. \<exists>d. (p, d) \<in> set (children s) \<and> d \<noteq> 11})"
proof -
  have t: "table_exact s" using assms by (rule reaches_exact)
  then have c: "(p, d) \<in> set (children s) \<longleftrightarrow> d < 12 \<and> pids s ! d = p \<and> 0 < p" for p d
    by (simp add: table_exact_def mgr_cursors)
  have n: "d \<in> set started" if "(p, d) \<in> set (children s)" for p d using t that by (auto simp: table_exact_def)
  have "inj_on snd (set (children s))" using c by (fastforce simp: inj_on_def)
  then have d: "distinct (map snd (children s))"
    using t by (simp add: table_exact_def distinct_map)
  have "set (filter (\<lambda>p. 0 < p) (map (\<lambda>d. pids s ! d) procStop_order)) = {p. \<exists>d. (p, d) \<in> set (children s) \<and> d \<noteq> 11}"
    (is "?l = ?r")
  proof
    show "?l \<subseteq> ?r"
    proof
      fix p assume "p \<in> ?l"
      then obtain d where d: "d \<in> set procStop_order" "pids s ! d = p" "0 < p" by auto
      then have "d < 12" "d \<noteq> 11" by (auto simp: procStop_order_def mgr_cursors)
      then show "p \<in> ?r" using d c[of p d] by blast
    qed
    show "?r \<subseteq> ?l"
    proof
      fix p assume "p \<in> ?r"
      then obtain d where d: "(p, d) \<in> set (children s)" "d \<noteq> 11" by blast
      then have "d \<in> set procStop_order" "pids s ! d = p" "0 < p"
        using n[OF d(1)] c[of p d] by (auto simp: started_def procStop_order_def mgr_cursors)
      then show "p \<in> ?l" by auto
    qed
  qed
  then have "\<exists>ks. kills (procStop s) = kills s @ ks \<and> set ks = ?r"
    by (intro exI[of _ "filter (\<lambda>p. 0 < p) (map (\<lambda>d. pids s ! d) procStop_order)"] conjI) (simp_all add: procStop_def)
  then show ?thesis using c d by blast
qed

definition demo_mgr :: mgr where
  "demo_mgr = \<lparr>mgr_loop = True, mgr_notify = False, guard_flag = 1, led_sta = 0, pids = replicate 12 0, children = [],
     kills = [], commands = [], mgr_reqs = [], fpgaVer = []\<rparr>"

definition quick_run :: "int \<Rightarrow> run" where
  "quick_run p = \<lparr>run_pid = p, run_before = [], run_after = []\<rparr>"

definition demo_started :: mgr where
  "demo_started = snd (procStart False (map quick_run [101, 102, 103, 104, 105, 106, 107]) (initializeContext_mgr demo_mgr))"

lemma demo_reaches: "mgr_reaches drv (ChlidHandler [103] demo_started)"
  unfolding demo_started_def
  by (intro mgr_ended mgr_started) (simp_all add: demo_mgr_def fresh_runs_def quick_run_def)

lemma demo_state:
  "children (ChlidHandler [103] demo_started) = [(107, 8), (106, 11), (105, 7), (104, 4), (102, 2), (101, 1)]"
  "pids (ChlidHandler [103] demo_started) = [0, 101, 102, 0, 104, 0, 0, 105, 107, 0, 0, 106]"
  by code_simp+

lemma manager_knows_children_witness:
  "\<exists>ks. kills (procStop (ChlidHandler [103] demo_started)) = kills (ChlidHandler [103] demo_started) @ ks
     \<and> set ks = {p. \<exists>d. (p, d) \<in> {(107, 8), (105, 7), (104, 4), (102, 2), (101 :: int, 1 :: nat)}}"
proof -
  have "{p. \<exists>d. (p, d) \<in> set [(107, 8), (106, 11), (105, 7), (104, 4), (102, 2), (101 :: int, 1 :: nat)] \<and> d \<noteq> 11}
    = {p. \<exists>d. (p, d) \<in> {(107, 8), (105, 7), (104, 4), (102, 2), (101 :: int, 1 :: nat)}}" by auto
  then show ?thesis
    using manager_knows_children[OF demo_reaches[of "\<lambda>_ _ _. (1, 0)"]] unfolding demo_state by (elim conjE) simp
qed

section \<open>The guard\<close>

text \<open>A start of which nothing ends.\<close>

definition lasting :: "run \<Rightarrow> bool" where
  "lasting r \<longleftrightarrow> 0 < run_pid r \<and> run_before r = [] \<and> run_after r = []"

lemma start_lasting:
  "lasting r \<Longrightarrow> start_daemon d r s = (True, s\<lparr>children := (run_pid r, d) # children s, pids := (pids s)[d := run_pid r]\<rparr>)"
  by (simp add: start_daemon_def lasting_def)

lemma restart_lasting:
  assumes "list_all lasting rs" "length ds \<le> length rs" "\<forall>d \<in> set ds. d < length (pids s)"
  shows "\<exists>s'. restart_daemons ds rs s = (True, s') \<and> length (pids s') = length (pids s) \<and> (\<forall>d \<in> set ds. 0 < pids s' ! d)
    \<and> (\<forall>e < length (pids s). e \<notin> set ds \<or> 0 < pids s ! e \<longrightarrow> pids s' ! e = pids s ! e)"
  using assms
proof (induction ds rs s rule: restart_daemons.induct)
  case (1 rs s)
  then show ?case by simp
next
  case (2 d ds rs s)
  show ?case
  proof (cases "0 < pids s ! d")
    case True
    then obtain s' where "restart_daemons ds rs s = (True, s')" "length (pids s') = length (pids s)"
      "\<forall>d \<in> set ds. 0 < pids s' ! d" "\<forall>e < length (pids s). e \<notin> set ds \<or> 0 < pids s ! e \<longrightarrow> pids s' ! e = pids s ! e"
      using 2(1) 2(3,4,5) by auto
    then show ?thesis using True 2(5) by auto
  next
    case False
    obtain r rs' where rs: "rs = r # rs'" using 2(4) by (cases rs) auto
    let ?s = "s\<lparr>children := (run_pid r, d) # children s, pids := (pids s)[d := run_pid r]\<rparr>"
    have r: "lasting r" "list_all lasting rs'" using 2(3) rs by simp_all
    obtain s' where s': "restart_daemons ds rs' ?s = (True, s')" "length (pids s') = length (pids ?s)"
      "\<forall>d \<in> set ds. 0 < pids s' ! d" "\<forall>e < length (pids ?s). e \<notin> set ds \<or> 0 < pids ?s ! e \<longrightarrow> pids s' ! e = pids ?s ! e"
      using 2(2)[OF False rs, of ?s] r(2) 2(4,5) rs by auto
    have d: "d < length (pids s)" using 2(5) by simp
    then have "pids s' ! d = run_pid r" using s'(4) r(1) by (auto simp: lasting_def)
    then have pd: "0 < pids s' ! d" using r(1) by (simp add: lasting_def)
    have "pids s' ! e = pids s ! e" if "e < length (pids s)" "e \<notin> set (d # ds) \<or> 0 < pids s ! e" for e
      using s'(4) that False by (cases "e = d") auto
    moreover have "restart_daemons (d # ds) rs s = (True, s')" using False rs r(1) s'(1) by (simp add: start_lasting)
    ultimately show ?thesis using s'(2,3) pd by auto
  qed
qed

text \<open>
  C13: with the guard on, a pass of which every start succeeds and nothing ends brings all processes but the web server back:
  each of them runs after it, as a child that the table knows, and what has run is left alone (so is the web server,
  whether it runs or not).
\<close>

theorem guard_restores:
  assumes "mgr_reaches drv s" "guard_flag s = 1" "\<not> mgr_notify s" "mi_exits i = []" "fresh_runs (mi_runs i) s"
    "list_all lasting (mi_runs i)" "7 \<le> length (mi_runs i)"
  shows "(\<forall>d \<in> {1, 2, 3, 4, 7, 8} \<union> (if mi_board i then {9} else {}).
       \<exists>p. (p, d) \<in> set (children (mgr_pass drv i s)) \<and> (0 < pids s ! d \<longrightarrow> p = pids s ! d))
    \<and> pids (mgr_pass drv i s) ! 11 = pids s ! 11"
proof -
  let ?ds = "procRestart_order (mi_board i)"
  have ds: "set ?ds = {1, 2, 3, 4, 7, 8} \<union> (if mi_board i then {9} else {})" "length ?ds \<le> 7"
    by (auto simp: procRestart_order_def mgr_cursors)
  have len: "length (pids s) = 12" using reaches_exact[OF assms(1)] by (simp add: table_exact_def mgr_cursors)
  obtain s' where s': "procRestart (mi_board i) (mi_runs i) s = (True, s')" "\<forall>d \<in> set ?ds. 0 < pids s' ! d"
    "\<forall>e < 12. e \<notin> set ?ds \<or> 0 < pids s ! e \<longrightarrow> pids s' ! e = pids s ! e"
    using restart_lasting[OF assms(6), of ?ds s] ds assms(7) len by (fastforce simp: procRestart_def split: if_splits)
  have p: "pids (mgr_pass drv i s) = pids s'"
    using assms(2-4) s'(1) led_frame[of drv s'] by (simp add: mgr_pass_def)
  have t: "table_exact (mgr_pass drv i s)" by (rule reaches_exact[OF mgr_passed[OF assms(1,5)]])
  have "\<exists>p. (p, d) \<in> set (children (mgr_pass drv i s)) \<and> (0 < pids s ! d \<longrightarrow> p = pids s ! d)" if "d \<in> set ?ds" for d
  proof -
    have "d < 12" using that ds(1) by (auto split: if_splits)
    then show ?thesis using t s'(2,3) that by (intro exI[of _ "pids s' ! d"]) (auto simp: table_exact_def mgr_cursors p)
  qed
  moreover have "pids (mgr_pass drv i s) ! 11 = pids s ! 11" using s'(3) ds(1) p by (auto split: if_splits)
  ultimately show ?thesis unfolding ds(1) by blast
qed

definition demo_in :: mgr_in where
  "demo_in = \<lparr>mi_msgs = [], mi_msgq_ok = True, mi_board = False, mi_runs = map quick_run [201, 202, 203, 204, 205, 206, 207], mi_exits = []\<rparr>"

definition quiet_driver :: driver where
  "quiet_driver = (\<lambda>cmd temp reqs. (1, temp))"

definition demo_on :: mgr_in where
  "demo_on = \<lparr>mi_msgs = [MgrGuard ''on''], mi_msgq_ok = True, mi_board = False, mi_runs = [], mi_exits = []\<rparr>"

definition demo_guarded :: mgr where
  "demo_guarded = mgr_pass quiet_driver demo_on ((ChlidHandler [103] demo_started)\<lparr>mgr_notify := True\<rparr>)"

lemma demo_guarded_reaches: "mgr_reaches quiet_driver demo_guarded"
  unfolding demo_guarded_def
  by (intro mgr_passed mgr_notified demo_reaches) (simp add: demo_on_def fresh_runs_def)

lemma demo_guarded_state:
  "guard_flag demo_guarded = 1" "mgr_notify demo_guarded = False"
  "children demo_guarded = [(107, 8), (106, 11), (105, 7), (104, 4), (102, 2), (101, 1)]"
  "pids demo_guarded = [0, 101, 102, 0, 104, 0, 0, 105, 107, 0, 0, 106]"
  by code_simp+

lemma guard_restores_witness:
  "(\<exists>p. (p, 3) \<in> set (children (mgr_pass quiet_driver demo_in demo_guarded)))
     \<and> (102, 2) \<in> set (children (mgr_pass quiet_driver demo_in demo_guarded))"
proof -
  have "list_all lasting (mi_runs demo_in)" "7 \<le> length (mi_runs demo_in)" "mi_exits demo_in = []" "\<not> mi_board demo_in"
    "fresh_runs (mi_runs demo_in) demo_guarded"
    by (simp_all add: demo_in_def quick_run_def lasting_def fresh_runs_def demo_guarded_state)
  then have "\<forall>d \<in> {1, 2, 3, 4, 7, 8} \<union> (if mi_board demo_in then {9} else {}).
      \<exists>p. (p, d) \<in> set (children (mgr_pass quiet_driver demo_in demo_guarded)) \<and> (0 < pids demo_guarded ! d \<longrightarrow> p = pids demo_guarded ! d)"
    using guard_restores[OF demo_guarded_reaches demo_guarded_state(1), of demo_in] demo_guarded_state(2) by blast
  then show ?thesis by (simp add: demo_guarded_state(4))
qed

section \<open>An exit that is missed\<close>

text \<open>A process that has ended while its identifier stands in the table.\<close>

definition missed :: "nat \<Rightarrow> int \<Rightarrow> mgr \<Rightarrow> bool" where
  "missed d p s \<longleftrightarrow> d < length (pids s) \<and> pids s ! d = p \<and> 0 < p \<and> d \<notin> snd ` set (children s)"

lemma missed_handler: "missed d p s \<Longrightarrow> p \<notin> set ps \<Longrightarrow> missed d p (ChlidHandler ps s)"
proof (induction ps arbitrary: s)
  case (Cons q ps)
  then have "missed d p (child_ended q s)" by (auto simp: missed_def child_ended_def)
  then show ?case using Cons by simp
qed simp

definition other_runs :: "int \<Rightarrow> run list \<Rightarrow> bool" where
  "other_runs p rs \<longleftrightarrow> (\<forall>r \<in> set rs. p \<notin> set (run_before r) \<and> p \<notin> set (run_after r))"

lemma missed_start:
  assumes "missed d p s" "e \<noteq> d" "other_runs p [r]"
  shows "missed d p (snd (start_daemon e r s))"
proof (cases "run_pid r < 0")
  case True
  then show ?thesis using assms(1) by (simp add: start_daemon_def)
next
  case False
  let ?t = "ChlidHandler (run_before r) (s\<lparr>children := (run_pid r, e) # children s\<rparr>)"
  have "missed d p (s\<lparr>children := (run_pid r, e) # children s\<rparr>)" using assms(1,2) by (auto simp: missed_def)
  then have "missed d p ?t" using assms(3) by (simp add: missed_handler other_runs_def)
  then have "missed d p (?t\<lparr>pids := (pids ?t)[e := run_pid r]\<rparr>)" using assms(2) by (auto simp: missed_def)
  then show ?thesis using False assms(3) by (simp add: start_daemon_def Let_def missed_handler other_runs_def)
qed

lemma missed_restarts: "missed d p s \<Longrightarrow> other_runs p rs \<Longrightarrow> missed d p (snd (restart_daemons ds rs s))"
proof (induction ds rs s rule: restart_daemons.induct)
  case (2 e ds rs s)
  show ?case
  proof (cases "0 < pids s ! e \<or> rs = []")
    case True
    then show ?thesis using 2 by (auto split: list.split)
  next
    case False
    then obtain r rs' where rs: "rs = r # rs'" by (cases rs) auto
    obtain ok s' where s': "start_daemon e r s = (ok, s')" by fastforce
    have "e \<noteq> d" using 2(3) False by (auto simp: missed_def)
    then have m: "missed d p s'" using missed_start[of d p s e r] 2(3,4) rs s' by (auto simp: other_runs_def)
    then have "missed d p (snd (restart_daemons ds rs' s'))" if ok
      using 2(2)[OF _ rs, of s'] False 2(4) rs by (auto simp: other_runs_def)
    then show ?thesis using m False by (cases ok) (simp_all add: s' rs)
  qed
qed simp

text \<open>Inputs in which the identifier does not end once more: the system has reported its end, and it is not given again.\<close>

definition other_in :: "int \<Rightarrow> mgr_in \<Rightarrow> bool" where
  "other_in p i \<longleftrightarrow> other_runs p (mi_runs i) \<and> p \<notin> set (mi_exits i)"

lemma missed_frame: "pids s' = pids s \<Longrightarrow> children s' = children s \<Longrightarrow> missed d p s' = missed d p s"
  by (simp add: missed_def)

lemma missed_pass:
  assumes "missed d p s" "other_in p i"
  shows "missed d p (mgr_pass drv i s)"
proof -
  let ?m = "if mgr_notify s then snd (ReadMessageQueue_mgr (mi_msgs i) (mi_msgq_ok i) (s\<lparr>mgr_notify := False\<rparr>)) else s"
  let ?r = "if guard_flag ?m = 1 then snd (procRestart (mi_board i) (mi_runs i) ?m) else ?m"
  have "pids ?m = pids s" "children ?m = children s" using messages_frame by simp_all
  then have "missed d p ?m" using missed_frame assms(1) by blast
  then have "missed d p ?r" using assms(2) by (simp add: procRestart_def missed_restarts other_in_def)
  then have "missed d p (snd (ledRun drv ?r))" using missed_frame led_frame by blast
  then show ?thesis unfolding mgr_pass_def Let_def using assms(2) by (intro missed_handler) (simp_all add: other_in_def)
qed

lemma missed_passes: "missed d p s \<Longrightarrow> list_all (other_in p) is \<Longrightarrow> missed d p (mgr_passes drv is s)"
  by (induction "is" arbitrary: s) (simp_all add: missed_pass)

text \<open>
  C14: a process that ends before its identifier is noted is never started again. The handler finds no entry to clear, the
  identifier of the ended process is noted afterwards, and through all passes, with the guard on or off,
  the entry stays and no child runs for it.
\<close>

theorem early_exit_is_missed:
  assumes "mgr_reaches drv s" "d \<in> {1, 2, 3, 4, 7, 8, 9, 11}" "pids s ! d \<le> 0"
    "0 < p" "run_pid r = p" "p \<in> set (run_before r)" "p \<notin> set (run_after r)" "list_all (other_in p) is"
  shows "pids (mgr_passes drv is (snd (start_daemon d r s))) ! d = p
    \<and> d \<notin> snd ` set (children (mgr_passes drv is (snd (start_daemon d r s))))"
proof -
  let ?s = "s\<lparr>children := (p, d) # children s\<rparr>"
  let ?t = "ChlidHandler (run_before r) ?s"
  have t: "table_exact s" using assms(1) by (rule reaches_exact)
  then have len: "length (pids s) = 12" "d < 12" using assms(2) by (auto simp: table_exact_def mgr_cursors)
  have nd: "d \<notin> snd ` set (children s)" using t assms(3) by (auto simp: table_exact_def)
  have gone: "d \<notin> snd ` set (children (ChlidHandler ps u))" if "p \<in> set ps" "\<forall>q. (q, d) \<in> set (children u) \<longrightarrow> q = p" for ps u
    using that
  proof (induction ps arbitrary: u)
    case (Cons q ps)
    show ?case
    proof (cases "q = p")
      case True
      have "d \<notin> snd ` set (children (child_ended p u))" using Cons.prems(2) by (auto simp: child_ended_def)
      then show ?thesis using True handler_children[of ps "child_ended p u"] by auto
    next
      case False
      then show ?thesis using Cons by (auto simp: child_ended_def)
    qed
  qed simp
  have "d \<notin> snd ` set (children ?t)" using nd by (intro gone assms(6)) force
  moreover have "length (pids ?t) = 12" using handler_pids[of "run_before r" ?s] len by simp
  ultimately have "missed d p (?t\<lparr>pids := (pids ?t)[d := p]\<rparr>)" using assms(4) len by (simp add: missed_def)
  then have "missed d p (snd (start_daemon d r s))"
    using assms(4,5,7) by (simp add: start_daemon_def Let_def missed_handler)
  then show ?thesis using missed_passes[OF _ assms(8)] by (simp add: missed_def)
qed

definition short_run :: "int \<Rightarrow> run" where
  "short_run p = \<lparr>run_pid = p, run_before = [p], run_after = []\<rparr>"

lemma early_exit_is_missed_witness:
  "pids (mgr_passes quiet_driver [demo_in, demo_in] (snd (start_daemon 3 (short_run 300) demo_guarded))) ! 3 = 300"
  using early_exit_is_missed[OF demo_guarded_reaches, of 3 300 "short_run 300" "[demo_in, demo_in]"]
  by (simp add: demo_guarded_state(4) short_run_def demo_in_def other_in_def other_runs_def quick_run_def)

text \<open>The web server is not started again at all.\<close>

lemma restart_keeps_others:
  "d \<notin> set ds \<Longrightarrow> d < length (pids s) \<Longrightarrow> pids s ! d = 0 \<Longrightarrow> pids (snd (restart_daemons ds rs s)) ! d = 0"
proof (induction ds rs s rule: restart_daemons.induct)
  case (2 e ds rs s)
  show ?case
  proof (cases "0 < pids s ! e \<or> rs = []")
    case True
    then show ?thesis using 2 by (auto split: list.split)
  next
    case False
    then obtain r rs' where rs: "rs = r # rs'" by (cases rs) auto
    obtain ok s' where s': "start_daemon e r s = (ok, s')" by fastforce
    have z: "pids s' ! d = 0" using start_other_pids[OF s', of d] 2(3,4,5) by auto
    have "length (pids s') = length (pids s)"
    proof (cases "run_pid r < 0")
      case True
      then show ?thesis using s' by (auto simp: start_daemon_def)
    next
      case False
      let ?t = "ChlidHandler (run_before r) (s\<lparr>children := (run_pid r, e) # children s\<rparr>)"
      have "s' = ChlidHandler (run_after r) (?t\<lparr>pids := (pids ?t)[e := run_pid r]\<rparr>)"
        using s' False by (simp add: start_daemon_def Let_def)
      then show ?thesis by (simp add: handler_pids)
    qed
    then have "pids (snd (restart_daemons ds rs' s')) ! d = 0" if ok
      using 2(2)[OF _ rs, of s'] False z 2(3,4) that s' by auto
    then show ?thesis using z False by (cases ok) (simp_all add: s' rs)
  qed
qed simp

lemma handler_keeps_zero: "d < length (pids s) \<Longrightarrow> pids s ! d = 0 \<Longrightarrow> pids (ChlidHandler ps s) ! d = 0"
  using handler_pids[of ps s d] by auto

lemma web_server_stays_down:
  assumes "table_exact s" "fresh_runs (mi_runs i) s" "pids s ! 11 = 0"
  shows "pids (mgr_pass drv i s) ! 11 = 0"
proof -
  let ?m = "if mgr_notify s then snd (ReadMessageQueue_mgr (mi_msgs i) (mi_msgq_ok i) (s\<lparr>mgr_notify := False\<rparr>)) else s"
  let ?r = "if guard_flag ?m = 1 then snd (procRestart (mi_board i) (mi_runs i) ?m) else ?m"
  have m: "pids ?m = pids s" "children ?m = children s" using messages_frame by simp_all
  have t: "table_exact ?m" "fresh_runs (mi_runs i) ?m"
    using table_exact_frame[OF m] fresh_runs_frame[OF m(2)] assms(1,2) by blast+
  then have len: "11 < length (pids ?m)" by (simp add: table_exact_def mgr_cursors)
  have "11 \<notin> set (procRestart_order (mi_board i))" by (auto simp: procRestart_order_def mgr_cursors)
  then have "pids ?r ! 11 = 0" using restart_keeps_others[OF _ len] assms(3) m(1) by (simp add: procRestart_def)
  moreover have "table_exact ?r" using t table_exact_restarts started_orders(3) by (simp add: procRestart_def)
  ultimately have "pids (snd (ledRun drv ?r)) ! 11 = 0" "11 < length (pids (snd (ledRun drv ?r)))"
    using led_frame[of drv ?r] by (simp_all add: table_exact_def mgr_cursors)
  then show ?thesis unfolding mgr_pass_def Let_def by (intro handler_keeps_zero)
qed

end
