(* ===== verification/Spec2Isabelle.thy ===== *)
theory Spec2Isabelle
  imports TimeProps LibMd5Spec NtpStampSpec NtpSocketSpec NtpPoolSpec NtpServerSpec NtpSettings NtpKeys
    AllocNames AllocCommon LibSqlite InSourceSpec EventLog OutTimeSpec OutPtpSpec AlmCollectSpec LibIp1725
    InRefreshSpec InAlarmSpec LcdMenuSpec InSatSpec Iec61850Spec MgrProcSpec
begin

text \<open>
  Verification library of the P350 time and frequency synchronisation equipment (\<^verbatim>\<open>src/\<close>): the processes
  of the equipment choose a time source, set the clock of an FPGA by it, distribute the time to the output boards and
  by NTP, and watch all of it with alarms and events.

  \<^bold>\<open>The parts and how they interact.\<close> Each process is a daemon (\<^verbatim>\<open>d-input\<close>, \<^verbatim>\<open>d-output\<close>, \<^verbatim>\<open>d-ntp\<close>, \<^verbatim>\<open>d-alarm\<close>,
  \<^verbatim>\<open>d-keylcd\<close>, \<^verbatim>\<open>d-61850\<close>, started by \<^verbatim>\<open>d-manager\<close>) with a record of its state and a loop. They communicate by the registers of the FPGA
  (\<^verbatim>\<open>d-input\<close> tells the outputs the source, \<^verbatim>\<open>d-ntp\<close> reads the time, \<^verbatim>\<open>d-alarm\<close> collects the alarms), by shared
  memory, by message queues with a signal, and by the data base. The command line tools (\<^verbatim>\<open>cmd\<close>) and the web server
  send the messages.

  \<^bold>\<open>How the code is modelled.\<close> A structure is a record with the names of its fields, an operation a function from
  state to result and state, and a failure a branch of its result. The value \<open>None\<close> stands for what C does not
  define: an access outside of an array, an unset variable, a text longer than its buffer; theorems show that it does
  not occur, or that it does. Integers are \<^typ>\<open>int\<close> with the wrap-around of the stores written out
  (\<open>Prelude\<close>), words where the code works on bits. What is outside of the program is a parameter: the driver of the
  FPGA (\<open>driver\<close>, a function of the request and of the requests before it), the data base (\<open>db_env\<close>), the
  semaphores, the output of shell commands, the bytes that sockets and serial lines deliver (lists, whose
  end is an error or a time-out as the code sees it). The requests to the FPGA and the statements of SQL are recorded in
  their order. The messages in a queue are lists; the loops of the daemons are passes, or step relations where they are
  interleaved.

  \<^bold>\<open>Shared library.\<close>
  \<^item> \<open>Prelude\<close>, \<open>CText\<close>: integers, arrays, decimal conversions and texts in buffers.
  \<^item> \<open>LibTime\<close>, \<open>LibTimeText\<close> (\<^verbatim>\<open>lib/lib_time.c\<close>): calendar arithmetic. \<open>LibTimeSpec\<close>, \<open>LibTimeAdjust\<close>,
    \<open>LibTimeDates\<close> and \<open>TimeProps\<close> compare it with an absolute number of days and seconds; the four pairs of
    adjustments interpret the locale \<open>clock_adjust\<close>.
  \<^item> \<open>LibMd5\<close>, \<open>LibMd5Spec\<close> (\<^verbatim>\<open>lib/lib_md5.c\<close>): the digest against the table-driven form of RFC 1321, fed in any pieces.
  \<^item> \<open>LibCommon\<close>, \<open>LibSqlite\<close>, \<open>LibLog\<close> (\<^verbatim>\<open>lib/lib_common.c\<close>, \<^verbatim>\<open>lib_sqlite.c\<close>, \<^verbatim>\<open>lib_log.c\<close>,
    \<^verbatim>\<open>lib_alarm.c\<close>): texts and sums, transactions and their repetition, logs as bounded tables.
  \<^item> \<open>LibIp1725\<close> (\<^verbatim>\<open>lib/lib_ip1725.c\<close>): the accesses to the registers of the Ethernet switch and its configuration. What the switch
    does of them is not described in the repository, so that no theorem is stated about it.
  \<^item> \<open>Fpga\<close>, \<open>FpgaInputs\<close>, \<open>AllocCommon\<close> (\<^verbatim>\<open>lib/lib_fpga.c\<close>, \<^verbatim>\<open>alloc/include/addr.h\<close>, \<^verbatim>\<open>alloc/common.c\<close>): registers,
    the accesses to them, and the waiting for the FPGA.
  \<^item> \<open>AllocTables\<close>, \<open>AlarmTable\<close>, \<open>AllocNames\<close>, \<open>AllocTablesSpec\<close> (\<^verbatim>\<open>alloc/alloc.c\<close>, \<^verbatim>\<open>alloc.h\<close>): the tables of
    boards, sources, alarms and events; the two index tables interpret the locale \<open>index_table\<close>.
  \<^item> \<open>EventFlags\<close>, \<open>EventStore\<close>, \<open>EventStoreSpec\<close>, \<open>EventLog\<close> (\<^verbatim>\<open>alloc/common_event.c\<close>,
    \<^verbatim>\<open>common_phase_perf.c\<close>): the tables of events; their transactions with a data base that grants them (locale \<open>transactions\<close>) and the refinement of a log.

  \<^bold>\<open>NTP server\<close> (\<^verbatim>\<open>d-ntp\<close>).
  \<^item> \<open>NtpStamp\<close>, \<open>NtpStampSpec\<close> (\<^verbatim>\<open>dntp_timestamp.h\<close>, \<^verbatim>\<open>dntp_tv2ts.h\<close>, \<^verbatim>\<open>dntp_ts2tv.h\<close>): time stamps and their
    round trip.
  \<^item> \<open>NtpSocket\<close>, \<open>NtpSocketSpec\<close> (\<^verbatim>\<open>dntp_socket.c\<close>): raw frames, checksums, and what is answered.
  \<^item> \<open>NtpPool\<close>, \<open>NtpPoolSpec\<close> (\<^verbatim>\<open>dntp_queue.h\<close>, \<^verbatim>\<open>dntp_threadpool.c\<close>): the tail queue on a heap (locale \<open>fifo\<close>)
    and the workers as the step relation \<open>tp_step\<close>; order, completeness and the end of the pool are invariants of \<open>tp_reach\<close>.
  \<^item> \<open>NtpConfig\<close>, \<open>NtpParser\<close>, \<open>NtpSettings\<close>, \<open>NtpKeys\<close> (\<^verbatim>\<open>dntp_config.c\<close>, \<^verbatim>\<open>dntp_parser.c\<close>): settings and keys;
    the locales \<open>setting_invariant\<close> and \<open>key_table\<close> carry the invariant and the refinement of a map.
  \<^item> \<open>NtpServer\<close>, \<open>NtpServerSpec\<close> (\<^verbatim>\<open>dntp_server.c\<close>, \<^verbatim>\<open>ntp_gettime.c\<close>): the time and its check, requests and
    responses.

  \<^bold>\<open>Input process\<close> (\<^verbatim>\<open>d-input\<close>).
  \<^item> \<open>InSource\<close>, \<open>InSourceSpec\<close> (\<^verbatim>\<open>din_source.c\<close>): the best source, and what is told of it.
  \<^item> \<open>InProcess\<close>, \<open>InRefresh\<close>, \<open>InRefreshSpec\<close> (\<^verbatim>\<open>din_ctrl.c\<close>): leap second and stability; the passes are the
    relation \<open>passes\<close>.
  \<^item> \<open>InAlarm\<close>, \<open>InAlarmSpec\<close> (\<^verbatim>\<open>din_alarm.c\<close>): alarms and lamps of the inputs.
  \<^item> \<open>InSat\<close>, \<open>InSatSpec\<close> (\<^verbatim>\<open>din_satellite.c\<close>): sentences of the receivers, satellites in view, validity.

  \<^bold>\<open>Other processes.\<close>
  \<^item> \<open>OutTime\<close>, \<open>OutTod\<close> with \<open>OutTimeSpec\<close>, \<open>OutTodSpec\<close> (\<^verbatim>\<open>d-output/dout_time.c\<close>, \<^verbatim>\<open>dout_tod.c\<close>): setting of the
    clock (relation \<open>thread\<close>) and time of day.
  \<^item> \<open>OutPtp\<close>, \<open>OutPtpSpec\<close> (\<^verbatim>\<open>dout_issue.c\<close>, \<^verbatim>\<open>dout_p50.c\<close>): the requests to the output boards: delays, commands of PTP and
    their size, and the quality of the clock that goes out over any sequence of calls.
  \<^item> \<open>AlmAlarm\<close>, \<open>AlmCollect\<close>, \<open>AlmConfig\<close> with \<open>AlmSpec\<close>, \<open>AlmCollectSpec\<close> (\<^verbatim>\<open>d-alarm\<close>): collection of the alarms,
    the list of those that are on as a set, the ring of the changes.
  \<^item> \<open>LcdMenu\<close>, \<open>LcdCtrl\<close> with \<open>LcdSpec\<close>, \<open>LcdMenuSpec\<close> (\<^verbatim>\<open>d-keylcd\<close>): drawing, keys and menus; the loop is the relation \<open>lcd_reaches\<close>, with
    the display threads beside it.
  \<^item> \<open>Iec61850\<close>, \<open>Iec61850Spec\<close> (\<^verbatim>\<open>d-61850\<close>): the frames to the board of the substation protocol, their
    acknowledgement, and the alarms that it is told.
  \<^item> \<open>MgrProc\<close>, \<open>MgrProcSpec\<close> (\<^verbatim>\<open>d-manager\<close>): start, guard and stop of the processes, with the handler of ended
    children between any two steps; the states are those of \<open>mgr_reaches\<close>.

  \<^bold>\<open>Loops and bounds.\<close> A loop over an array or list is structural recursion. Loops with a counter are functions with a measure:
  the repetition of a transaction statement makes at most 10001 attempts, a frame of the serial line at most 259 reads,
  a text is sent at most 3 times. There is no fuel: the waiting for the FPGA and the walk through a linked queue, which may
  not end, are \<open>partial_function\<close>s, and \<open>wait_exact\<close> says exactly when the first returns. Daemons run for ever, so
  their theorems hold for all reachable states, or for all lists of passes.

  \<^bold>\<open>Not modelled.\<close> The vendored web server (\<^verbatim>\<open>d-http\<close>), the headers of SQLite, and the wrappers of system calls in
  \<^verbatim>\<open>lib\<close> (semaphores, shared memory, queues, timers, network), whose results are parameters. The settings of the output boards (\<^verbatim>\<open>dout_config.c\<close>), the frames on the bus
  of the input boards (\<^verbatim>\<open>din_issue.c\<close>), the uploads (\<^verbatim>\<open>d-wg\<close>) and the command line tools are left for later: they
  mostly pass values between the shared memory, the data base, the screen and registers.
\<close>

end
